(* ===== verification/Prelude.thy ===== *)
theory Prelude
  imports Main "HOL-Library.Word"
begin

text \<open>
  Shared vocabulary of the development: machine integers, the faults that stand for
  undefined behaviour of the C code, the allocator as a parameter, little-endian
  encoding of integers, and the list lemmas every component uses.

  A C function that can run into undefined behaviour (null dereference, access outside
  an allocated block, use of a freed block, read of an uninitialised slot) is modelled
  with result type \<open>'a res = fault + 'a\<close>: \<open>Inl\<close> is the fault, \<open>Inr\<close> the value the
  function returns; \<open>Exited\<close> is a call of \<open>exit\<close>, which ends the process. Error codes of the program are ordinary values under \<open>Inr\<close>.
\<close>

section \<open>Machine integers and faults\<close>

type_synonym u8 = "8 word"
type_synonym u16 = "16 word"
type_synonym u32 = "32 word"
type_synonym u64 = "64 word"

datatype fault =
    Null_Deref
  | Out_Of_Bounds
  | Use_After_Free
  | Uninit_Read
  | Div_By_Zero
  | No_Fuel
  | Bad_Free
  | Bad_Shift
  | Exited

type_synonym 'a res = "fault + 'a"

named_theorems res_simps \<open>equations that run a computation of type res\<close>
named_theorems list_ops \<open>defining equations of the list operations\<close>

fun bind_r :: "'a res \<Rightarrow> ('a \<Rightarrow> 'b res) \<Rightarrow> 'b res" where
  "bind_r (Inl f) k = Inl f"
| "bind_r (Inr x) k = k x"

lemma bind_r_Inr_iff: "bind_r r k = Inr y \<longleftrightarrow> (\<exists>x. r = Inr x \<and> k x = Inr y)"
  by (cases r) auto

lemma bind_r_Inl_iff: "bind_r r k = Inl f \<longleftrightarrow> r = Inl f \<or> (\<exists>x. r = Inr x \<and> k x = Inl f)"
  by (cases r) auto

lemma bind_r_assoc: "bind_r (bind_r r k) h = bind_r r (\<lambda>x. bind_r (k x) h)"
  by (cases r) auto

lemma bind_r_Inr_right [simp]: "bind_r r Inr = r"
  by (cases r) auto

lemma bind_r_cong [fundef_cong]:
  "r = r' \<Longrightarrow> (\<And>x. r' = Inr x \<Longrightarrow> k x = k' x) \<Longrightarrow> bind_r r k = bind_r r' k'"
  by (cases r') auto

text \<open>\<open>size_t\<close> arithmetic wraps at \<open>2 ^ 64\<close>; a \<open>size_t\<close> is a natural number below it.\<close>

definition size_max :: nat where
  "size_max = 2 ^ 64 - 1"

definition wrap64 :: "nat \<Rightarrow> nat" where
  "wrap64 n = n mod 2 ^ 64"

lemma wrap64_id: "n < 2 ^ 64 \<Longrightarrow> wrap64 n = n"
  by (simp add: wrap64_def)

lemma wrap64_less: "wrap64 n < 2 ^ 64"
  by (simp add: wrap64_def)

section \<open>The allocator\<close>

text \<open>
  \<open>malloc\<close> and \<open>realloc\<close> belong to the C library: the allocator is a parameter that says
  for which request sizes it succeeds. glibc refuses requests above \<open>PTRDIFF_MAX\<close>
  (\<open>alloc_bounded\<close>).
\<close>

type_synonym allocator = "nat \<Rightarrow> bool"

definition alloc_bounded :: "allocator \<Rightarrow> bool" where
  "alloc_bounded alloc \<longleftrightarrow> (\<forall>n. alloc n \<longrightarrow> n < 2 ^ 63)"

lemma alloc_boundedD: "alloc_bounded alloc \<Longrightarrow> alloc n \<Longrightarrow> n < 2 ^ 63"
  by (simp add: alloc_bounded_def)

text \<open>Every allocator restricted to the requests glibc can serve is bounded.\<close>

definition glibc :: "allocator \<Rightarrow> allocator" where
  "glibc alloc n \<longleftrightarrow> alloc n \<and> n < 2 ^ 63"

lemma glibc_bounded [simp]: "alloc_bounded (glibc alloc)"
  by (simp add: alloc_bounded_def glibc_def)

section \<open>Little-endian integers\<close>

lemma unat_u8_less: "unat (b :: u8) < 256"
proof -
  have "unat b < 2 ^ LENGTH(8)" by (rule unsigned_less)
  then show ?thesis by simp
qed

lemma unat_u16_less: "unat (w :: u16) < 65536"
proof -
  have "unat w < 2 ^ LENGTH(16)" by (rule unsigned_less)
  then show ?thesis by simp
qed

lemma unat_u32_less: "unat (w :: u32) < 256 ^ 4"
proof -
  have "unat w < 2 ^ LENGTH(32)" by (rule unsigned_less)
  then show ?thesis by simp
qed

lemma unat_u64_less: "unat (w :: u64) < 256 ^ 8"
proof -
  have "unat w < 2 ^ LENGTH(64)" by (rule unsigned_less)
  then show ?thesis by simp
qed

fun le_bytes :: "nat \<Rightarrow> nat \<Rightarrow> u8 list" where
  "le_bytes 0 v = []"
| "le_bytes (Suc n) v = of_nat (v mod 256) # le_bytes n (v div 256)"

fun le_val :: "u8 list \<Rightarrow> nat" where
  "le_val [] = 0"
| "le_val (b # bs) = unat b + 256 * le_val bs"

lemma length_le_bytes [simp]: "length (le_bytes n v) = n"
  by (induction n arbitrary: v) auto

lemma unat_of_nat_mod_256 [simp]: "unat (of_nat (v mod 256) :: u8) = v mod 256"
  by (simp add: unat_of_nat)

lemma le_val_le_bytes: "v < 256 ^ n \<Longrightarrow> le_val (le_bytes n v) = v"
proof (induction n arbitrary: v)
  case (Suc n)
  then have "v div 256 < 256 ^ n"
    by (simp add: less_mult_imp_div_less mult.commute)
  with Suc.IH show ?case by simp
qed simp

lemma le_val_bound: "le_val bs < 256 ^ length bs"
proof (induction bs)
  case (Cons b bs)
  have "unat b < 256" by (rule unat_u8_less)
  with Cons show ?case by simp
qed simp

lemma le_bytes_le_val: "le_bytes (length bs) (le_val bs) = bs"
proof (induction bs)
  case (Cons b bs)
  have b: "unat b < 256" by (rule unat_u8_less)
  then have "(unat b + 256 * le_val bs) mod 256 = unat b"
    and "(unat b + 256 * le_val bs) div 256 = le_val bs" by simp_all
  with Cons show ?case by simp
qed simp

section \<open>Lists as memory blocks\<close>

lemma replicate_num: "replicate (numeral k) x = x # replicate (pred_numeral k) x"
  by (simp add: numeral_eq_Suc)

text \<open>\<open>blk i n xs\<close> is the block of \<open>n\<close> cells from position \<open>i\<close>.\<close>

definition blk :: "nat \<Rightarrow> nat \<Rightarrow> 'a list \<Rightarrow> 'a list" where
  "blk i n xs = take n (drop i xs)"

text \<open>
  \<open>blit xs i ys\<close> writes the block \<open>ys\<close> into \<open>xs\<close> at position \<open>i\<close>: the effect of
  \<open>memcpy\<close>/\<open>memmove\<close> once both ranges are known to be inside their blocks.
\<close>

definition blit :: "'a list \<Rightarrow> nat \<Rightarrow> 'a list \<Rightarrow> 'a list" where
  "blit xs i ys = take i xs @ ys @ drop (i + length ys) xs"

lemma length_blk [simp]: "length (blk i n xs) = min n (length xs - i)"
  by (simp add: blk_def)

lemma length_blit [simp]: "i + length ys \<le> length xs \<Longrightarrow> length (blit xs i ys) = length xs"
  by (simp add: blit_def)

lemma take_blit: "i + length ys \<le> length xs \<Longrightarrow> take (i + length ys) (blit xs i ys) = take i xs @ ys"
  by (simp add: blit_def)

lemma blk_append_at: "blk (length xs) (length ys) (xs @ ys @ zs) = ys"
  by (simp add: blk_def)

lemma blk_blit: "i + length ys \<le> length xs \<Longrightarrow> blk i (length ys) (blit xs i ys) = ys"
  by (simp add: blk_def blit_def)

lemma drop_blit: "i + length ys \<le> length xs \<Longrightarrow>
    drop (i + length ys) (blit xs i ys) = drop (i + length ys) xs"
  by (simp add: blit_def)

lemma blit_nth_outside:
  "i + length ys \<le> length xs \<Longrightarrow> j < length xs \<Longrightarrow> j < i \<or> i + length ys \<le> j \<Longrightarrow>
     blit xs i ys ! j = xs ! j"
  by (auto simp: blit_def nth_append min_def)

lemma blit_nth_inside:
  "i + length ys \<le> length xs \<Longrightarrow> i \<le> j \<Longrightarrow> j < i + length ys \<Longrightarrow>
     blit xs i ys ! j = ys ! (j - i)"
  by (auto simp: blit_def nth_append min_def)

lemma blk_blit_disjoint:
  assumes "j + length ys \<le> length xs" and "i + n \<le> j \<or> j + length ys \<le> i"
  shows "blk i n (blit xs j ys) = blk i n xs"
proof (rule nth_equalityI)
  show "length (blk i n (blit xs j ys)) = length (blk i n xs)" using assms(1) by simp
  fix t assume "t < length (blk i n (blit xs j ys))"
  with assms show "blk i n (blit xs j ys) ! t = blk i n xs ! t"
    by (auto simp: blk_def blit_nth_outside)
qed

section \<open>Printed numbers\<close>

text \<open>The digits \<open>printf\<close> writes for an unsigned number in base 10 or 16.\<close>

definition digit :: "nat \<Rightarrow> char" where
  "digit d = (if d < 10 then char_of (48 + d) else char_of (87 + d))"

fun digits :: "nat \<Rightarrow> nat \<Rightarrow> string" where
  "digits b n = (if b < 2 \<or> n < b then [digit n] else digits b (n div b) @ [digit (n mod b)])"

declare digits.simps [simp del]

definition dec :: "nat \<Rightarrow> string" where
  "dec n = digits 10 n"

definition hex :: "nat \<Rightarrow> string" where
  "hex n = digits 16 n"

lemma digits_length: "2 \<le> b \<Longrightarrow> n < b ^ Suc k \<Longrightarrow> length (digits b n) \<le> Suc k"
proof (induction k arbitrary: n)
  case 0
  then show ?case by (simp add: digits.simps)
next
  case (Suc k)
  then have "n div b < b ^ Suc k"
    by (simp add: less_mult_imp_div_less mult.commute)
  with Suc.IH [of "n div b"] Suc.prems(1) show ?case
    by (subst digits.simps) simp
qed

lemma digit_inj: "d < 16 \<Longrightarrow> e < 16 \<Longrightarrow> digit d = digit e \<Longrightarrow> d = e"
  by (auto simp: digit_def dest!: arg_cong [of _ _ "of_char :: char \<Rightarrow> nat"] split: if_splits)

lemma digits_nonempty: "digits b n \<noteq> []"
  by (subst digits.simps) simp

lemma hex_inj: "hex m = hex n \<Longrightarrow> m = n"
  unfolding hex_def
proof (induction m arbitrary: n rule: less_induct)
  case (less m)
  consider (ss) "m < 16" "n < 16" | (sl) "m < 16" "16 \<le> n" | (ls) "16 \<le> m" "n < 16"
    | (ll) "16 \<le> m" "16 \<le> n" by linarith
  then show ?case
  proof cases
    case ss
    with less.prems show ?thesis by (simp add: digits.simps digit_inj)
  next
    case sl
    with less.prems digits_nonempty [of 16 "n div 16"] show ?thesis
      by (subst (asm) (1 2) digits.simps) (simp add: append_eq_Cons_conv)
  next
    case ls
    with less.prems digits_nonempty [of 16 "m div 16"] show ?thesis
      by (subst (asm) (1 2) digits.simps) (simp add: append_eq_Cons_conv)
  next
    case ll
    with less.prems have "digits 16 (m div 16) = digits 16 (n div 16)"
      and d: "digit (m mod 16) = digit (n mod 16)"
      by (subst (asm) (1 2) digits.simps, simp)+
    with less.IH [of "m div 16" "n div 16"] ll have "m div 16 = n div 16" by simp
    moreover have "m mod 16 = n mod 16" using d by (intro digit_inj) simp_all
    ultimately show ?thesis by (metis div_mult_mod_eq)
  qed
qed

end
