(* ===== verification/CList.thy ===== *)
theory CList
  imports Prelude
begin

text \<open>
  The growable array of \<open>cpu/list.c\<close>. An element is one cell of type \<open>'a\<close>; the buffer is
  a list of cells, \<open>None\<close> for a cell that was allocated and never written. A pointer to
  an element (what \<open>list_get\<close> computes) is its index: it is dereferenced by
  \<open>cell_read\<close> and \<open>cell_write\<close>, which fault outside the buffer.
\<close>

section \<open>Buffers\<close>

datatype 'a buf = Null_Buf | Freed_Buf | Buf "'a option list"

fun cell_write :: "'a buf \<Rightarrow> nat \<Rightarrow> 'a \<Rightarrow> 'a buf res" where
  "cell_write Null_Buf i x = Inl Null_Deref"
| "cell_write Freed_Buf i x = Inl Use_After_Free"
| "cell_write (Buf b) i x = (if i < length b then Inr (Buf (b[i := Some x])) else Inl Out_Of_Bounds)"

fun cell_read :: "'a buf \<Rightarrow> nat \<Rightarrow> 'a res" where
  "cell_read Null_Buf i = Inl Null_Deref"
| "cell_read Freed_Buf i = Inl Use_After_Free"
| "cell_read (Buf b) i =
     (if i < length b then (case b ! i of None \<Rightarrow> Inl Uninit_Read | Some x \<Rightarrow> Inr x)
      else Inl Out_Of_Bounds)"

text \<open>\<open>memmove\<close> of \<open>n\<close> cells inside one buffer.\<close>

fun cells_move :: "'a buf \<Rightarrow> nat \<Rightarrow> nat \<Rightarrow> nat \<Rightarrow> 'a buf res" where
  "cells_move Null_Buf dst src n = (if n = 0 then Inr Null_Buf else Inl Null_Deref)"
| "cells_move Freed_Buf dst src n = Inl Use_After_Free"
| "cells_move (Buf b) dst src n =
     (if src + n \<le> length b \<and> dst + n \<le> length b then Inr (Buf (blit b dst (blk src n b)))
      else Inl Out_Of_Bounds)"

text \<open>
  \<open>realloc\<close> for a request of \<open>req\<close> bytes with cells of \<open>es\<close> bytes: a request of 0 bytes
  on a live block frees it and returns NULL; otherwise the common prefix is kept.
\<close>

fun buf_realloc :: "allocator \<Rightarrow> 'a buf \<Rightarrow> nat \<Rightarrow> nat \<Rightarrow> 'a buf res" where
  "buf_realloc alloc Null_Buf req es =
     Inr (if alloc req then Buf (replicate (req div es) None) else Null_Buf)"
| "buf_realloc alloc Freed_Buf req es = Inl Use_After_Free"
| "buf_realloc alloc (Buf b) req es =
     Inr (if req = 0 then Null_Buf
          else if alloc req
          then Buf (take (req div es) b @ replicate (req div es - length b) None)
          else Null_Buf)"

section \<open>The list and its operations\<close>

record 'a clist =
  elements :: "'a buf"
  len :: nat
  capacity :: nat
  element_size :: nat

definition zero_list :: "'a clist" where
  "zero_list = \<lparr>elements = Null_Buf, len = 0, capacity = 0, element_size = 0\<rparr>"

definition INITIAL_CAPACITY :: nat where
  "INITIAL_CAPACITY = 4"

definition list_init :: "allocator \<Rightarrow> 'a clist \<Rightarrow> nat \<Rightarrow> int \<times> 'a clist" where
  "list_init alloc l es =
     (if es = 0 then (1, l)
      else let req = wrap64 (INITIAL_CAPACITY * es) in
        if \<not> alloc req then (1, zero_list)
        else (0, \<lparr>elements = Buf (replicate (req div es) None), len = 0,
                  capacity = INITIAL_CAPACITY, element_size = es\<rparr>))"

definition list_free :: "'a clist \<Rightarrow> (int \<times> 'a clist) res" where
  "list_free l =
     (case elements l of
        Freed_Buf \<Rightarrow> Inl Use_After_Free
      | Null_Buf \<Rightarrow> Inr (0, l\<lparr>len := 0, capacity := 0\<rparr>)
      | Buf b \<Rightarrow> Inr (0, l\<lparr>elements := Freed_Buf, len := 0, capacity := 0\<rparr>))"

text \<open>\<open>list_get\<close> computes the address of element \<open>at\<close> without any check.\<close>

definition list_get :: "'a clist \<Rightarrow> nat \<Rightarrow> nat" where
  "list_get l at = at"

text \<open>
  \<open>list_free_elements\<close> frees what every element points to; the elements are pointers and
  the model returns the pointers freed, in order.
\<close>

fun free_cells :: "'a buf \<Rightarrow> nat \<Rightarrow> nat \<Rightarrow> 'a list res" where
  "free_cells b i 0 = Inr []"
| "free_cells b i (Suc n) =
     bind_r (cell_read b i) (\<lambda>p. bind_r (free_cells b (Suc i) n) (\<lambda>ps. Inr (p # ps)))"

definition list_free_elements :: "'a clist \<Rightarrow> (int \<times> 'a list) res" where
  "list_free_elements l = bind_r (free_cells (elements l) 0 (len l)) (\<lambda>ps. Inr (0, ps))"

text \<open>
  \<open>want\<close> says whether \<open>new_element\<close> is non-NULL; then the index of the new element is
  returned through it and the list gets longer. A failed \<open>realloc\<close> leaves NULL in
  \<open>elements\<close>, with length and capacity unchanged.
\<close>

definition list_append :: "allocator \<Rightarrow> 'a clist \<Rightarrow> bool \<Rightarrow> (int \<times> 'a clist \<times> nat option) res" where
  "list_append alloc l want =
     bind_r
       (if capacity l = len l
        then bind_r (buf_realloc alloc (elements l) (wrap64 (capacity l * 2 * element_size l))
                       (element_size l))
               (\<lambda>b. if b = Null_Buf then Inr (False, l\<lparr>elements := Null_Buf\<rparr>)
                    else Inr (True, l\<lparr>elements := b, capacity := wrap64 (capacity l * 2)\<rparr>))
        else Inr (True, l))
       (\<lambda>(ok, l).
          if \<not> ok then Inr (1, l, None)
          else if want
          then Inr (0, l\<lparr>len := wrap64 (len l + 1)\<rparr>, Some (list_get l (len l)))
          else Inr (0, l, None))"

text \<open>\<open>new_element\<close> is \<open>None\<close> for a NULL source pointer: \<open>memcpy\<close> from it faults.\<close>

definition list_append_copy :: "allocator \<Rightarrow> 'a clist \<Rightarrow> 'a option \<Rightarrow> (int \<times> 'a clist) res" where
  "list_append_copy alloc l x =
     bind_r (list_append alloc l True)
       (\<lambda>(ret, l, elem).
          if ret \<noteq> 0 then Inr (ret, l)
          else (case (x, elem) of
              (Some v, Some i) \<Rightarrow>
                bind_r (cell_write (elements l) i v) (\<lambda>b. Inr (ret, l\<lparr>elements := b\<rparr>))
            | _ \<Rightarrow> Inl Null_Deref))"

definition list_at :: "'a clist \<Rightarrow> nat \<Rightarrow> int \<times> nat option" where
  "list_at l at = (if at \<ge> len l then (1, None) else (0, Some (list_get l at)))"

definition list_insert :: "allocator \<Rightarrow> 'a clist \<Rightarrow> nat \<Rightarrow> 'a option \<Rightarrow> (int \<times> 'a clist) res" where
  "list_insert alloc l at x =
     (if at > len l then Inr (1, l)
      else if at = len l then list_append_copy alloc l x
      else bind_r (list_append alloc l False)
        (\<lambda>(ret, l, _).
          if ret \<noteq> 0 then Inr (1, l)
          else bind_r (cells_move (elements l) (list_get l (at + 1)) (list_get l at)
                         (wrap64 ((len l - at) * element_size l) div element_size l))
            (\<lambda>b. bind_r (case x of Some v \<Rightarrow> cell_write b (list_get l at) v | None \<Rightarrow> Inr b)
              (\<lambda>b. Inr (0, l\<lparr>elements := b, len := wrap64 (len l + 1)\<rparr>)))))"

definition list_rm :: "'a clist \<Rightarrow> nat \<Rightarrow> (int \<times> 'a clist) res" where
  "list_rm l at =
     (if at \<ge> len l then Inr (1, l)
      else bind_r
        (if at < len l - 1
         then cells_move (elements l) (list_get l at) (list_get l (at + 1))
                (wrap64 ((len l - 1 - at) * element_size l) div element_size l)
         else Inr (elements l))
        (\<lambda>b. Inr (0, l\<lparr>elements := b, len := len l - 1\<rparr>)))"

text \<open>
  Every operation first rejects a NULL list pointer; callers inside the program pass the
  address of a live list, so the other components use the operations above directly.
\<close>

definition null_guard :: "'a clist option \<Rightarrow> ('a clist \<Rightarrow> (int \<times> 'b) res) \<Rightarrow> (int \<times> 'b option) res" where
  "null_guard p f =
     (case p of None \<Rightarrow> Inr (1, None)
      | Some l \<Rightarrow> bind_r (f l) (\<lambda>(ret, y). Inr (ret, Some y)))"

text \<open>Reading element \<open>at\<close> through the pointer that \<open>list_get\<close> computes.\<close>

definition elem_at :: "'a clist \<Rightarrow> nat \<Rightarrow> 'a res" where
  "elem_at l at = cell_read (elements l) (list_get l at)"

definition set_elem :: "'a clist \<Rightarrow> nat \<Rightarrow> 'a \<Rightarrow> 'a clist res" where
  "set_elem l at x = bind_r (cell_write (elements l) (list_get l at) x) (\<lambda>b. Inr (l\<lparr>elements := b\<rparr>))"

section \<open>Representation invariant and abstraction\<close>

text \<open>
  \<open>list_wf\<close>: the buffer is live, has exactly \<open>capacity\<close> cells, at least one, at least
  \<open>len\<close>, and its size in bytes stays below \<open>PTRDIFF_MAX\<close>, so that no \<open>size_t\<close>
  computation on it wraps. \<open>list_rep l xs\<close>: the first \<open>len\<close> cells hold \<open>xs\<close>.
\<close>

definition list_wf :: "'a clist \<Rightarrow> bool" where
  "list_wf l \<longleftrightarrow>
     0 < element_size l \<and> 0 < capacity l \<and> len l \<le> capacity l \<and>
     capacity l * element_size l < 2 ^ 63 \<and>
     (case elements l of Buf b \<Rightarrow> length b = capacity l | _ \<Rightarrow> False)"

definition list_abs :: "'a clist \<Rightarrow> 'a option list" where
  "list_abs l = (case elements l of Buf b \<Rightarrow> take (len l) b | _ \<Rightarrow> [])"

definition list_rep :: "'a clist \<Rightarrow> 'a list \<Rightarrow> bool" where
  "list_rep l xs \<longleftrightarrow> list_wf l \<and> list_abs l = map Some xs"

lemma list_repE:
  assumes "list_rep l xs"
  obtains b where "elements l = Buf b" "length b = capacity l" "len l = length xs"
    "len l \<le> capacity l" "0 < capacity l" "0 < element_size l"
    "capacity l * element_size l < 2 ^ 63" "take (len l) b = map Some xs"
proof -
  from assms obtain b where b: "elements l = Buf b" "length b = capacity l"
    and wf: "len l \<le> capacity l" "0 < capacity l" "0 < element_size l"
      "capacity l * element_size l < 2 ^ 63"
    and abs: "take (len l) b = map Some xs"
    by (auto simp: list_rep_def list_wf_def list_abs_def split: buf.splits)
  from abs have "length (take (len l) b) = length xs" by simp
  with b wf have "len l = length xs" by simp
  with b wf abs show thesis by (intro that)
qed

lemma list_repI:
  "elements l = Buf b \<Longrightarrow> length b = capacity l \<Longrightarrow> len l \<le> capacity l \<Longrightarrow> 0 < capacity l \<Longrightarrow>
   0 < element_size l \<Longrightarrow> capacity l * element_size l < 2 ^ 63 \<Longrightarrow>
   take (len l) b = map Some xs \<Longrightarrow> list_rep l xs"
  by (simp add: list_rep_def list_wf_def list_abs_def)

lemma list_rep_len: "list_rep l xs \<Longrightarrow> len l = length xs"
  by (auto elim: list_repE)

lemma list_rep_bound: "list_rep l xs \<Longrightarrow> length xs < 2 ^ 63"
proof (elim list_repE)
  fix b assume "len l = length xs" "len l \<le> capacity l" "0 < element_size l"
    and byt: "capacity l * element_size l < 2 ^ 63"
  then have "length xs \<le> capacity l * element_size l"
    by (metis One_nat_def Suc_leI le_trans mult.right_neutral mult_le_mono2)
  with byt show ?thesis by simp
qed

lemma list_rep_unique: "list_rep l xs \<Longrightarrow> list_rep l ys \<Longrightarrow> xs = ys"
  by (auto simp: list_rep_def dest: map_injective)

lemma list_rep_cell: "list_rep l xs \<Longrightarrow> i < length xs \<Longrightarrow> elem_at l i = Inr (xs ! i)"
proof (elim list_repE)
  fix b assume b: "elements l = Buf b" "length b = capacity l" "len l = length xs"
    "len l \<le> capacity l" "take (len l) b = map Some xs" and i: "i < length xs"
  have "b ! i = take (len l) b ! i" using b(3) i by simp
  also have "\<dots> = Some (xs ! i)" using b(5) i by simp
  finally show ?thesis using b i by (simp add: elem_at_def list_get_def)
qed

lemma list_rep_update:
  assumes "list_rep l xs" and "i < length xs"
  obtains l' where "set_elem l i x = Inr l'" and "list_rep l' (xs[i := x])"
proof -
  from assms(1) obtain b where b: "elements l = Buf b" "length b = capacity l"
    "len l = length xs" "len l \<le> capacity l" "0 < capacity l" "0 < element_size l"
    "capacity l * element_size l < 2 ^ 63" "take (len l) b = map Some xs"
    by (rule list_repE)
  let ?l = "l\<lparr>elements := Buf (b[i := Some x])\<rparr>"
  have "set_elem l i x = Inr ?l"
    using b assms(2) by (simp add: set_elem_def list_get_def)
  moreover have "list_rep ?l (xs[i := x])"
  proof (rule list_repI [OF _ _ _ _ _ _ ])
    show "take (len ?l) (b[i := Some x]) = map Some (xs[i := x])"
      using b(3,8) by (simp add: take_update_swap map_update)
  qed (use b in auto)
  ultimately show thesis by (rule that)
qed

section \<open>Growth\<close>

text \<open>
  Appending either succeeds, keeping the contents and making room for one more cell, or
  fails because the list is full and the allocator refuses the doubled block. No
  \<open>size_t\<close> product wraps on the way.
\<close>

lemma double_no_wrap: "c * e < 2 ^ 63 \<Longrightarrow> wrap64 (c * 2 * e) = c * 2 * (e :: nat)"
  by (rule wrap64_id) simp

definition room :: "allocator \<Rightarrow> 'a clist \<Rightarrow> bool" where
  "room alloc l \<longleftrightarrow> len l < capacity l \<or> alloc (capacity l * 2 * element_size l)"

lemma list_append_grows:
  assumes rep: "list_rep l xs" and ab: "alloc_bounded alloc" and room: "room alloc l"
  obtains l' where "list_append alloc l False = Inr (0, l', None)" and "list_rep l' xs"
    and "len l' < capacity l'" and "element_size l' = element_size l"
    and "list_append alloc l True = Inr (0, l'\<lparr>len := len l + 1\<rparr>, Some (len l))"
proof -
  from rep obtain b where b: "elements l = Buf b" "length b = capacity l"
    "len l = length xs" "len l \<le> capacity l" "0 < capacity l" "0 < element_size l"
    "capacity l * element_size l < 2 ^ 63" "take (len l) b = map Some xs"
    by (rule list_repE)
  have lenb: "len l + 1 < 2 ^ 64" using list_rep_bound [OF rep] b by simp
  show thesis
  proof (cases "capacity l = len l")
    case False
    with b lenb have "list_append alloc l False = Inr (0, l, None)"
      and "list_append alloc l True = Inr (0, l\<lparr>len := len l + 1\<rparr>, Some (len l))"
      by (simp_all add: list_append_def wrap64_id list_get_def)
    with False b rep show thesis by (intro that [of l]) auto
  next
    case True
    let ?req = "capacity l * 2 * element_size l"
    have wr: "wrap64 ?req = ?req" using b by (intro double_no_wrap) simp
    have "?req div element_size l = capacity l * 2" using b by simp
    moreover have al: "alloc ?req" using room True by (simp add: room_def)
    then have bnd: "?req < 2 ^ 63" using ab by (rule alloc_boundedD [rotated])
    moreover have "capacity l * 2 < 2 ^ 63"
    proof (rule le_less_trans [OF _ bnd])
      show "capacity l * 2 \<le> ?req" using b by simp
    qed
    then have wc: "wrap64 (capacity l * 2) = capacity l * 2"
      by (intro wrap64_id) simp
    ultimately have "list_append alloc l False =
        Inr (0, l\<lparr>elements := Buf (b @ replicate (capacity l) None), capacity := capacity l * 2\<rparr>, None)"
      using True b wr al by (simp add: list_append_def)
    moreover have "list_append alloc l True =
        Inr (0, l\<lparr>elements := Buf (b @ replicate (capacity l) None), capacity := capacity l * 2,
                 len := len l + 1\<rparr>, Some (len l))"
      using True b wr al wc lenb \<open>?req div element_size l = capacity l * 2\<close>
      by (simp add: list_append_def wrap64_id list_get_def)
    moreover have "list_rep (l\<lparr>elements := Buf (b @ replicate (capacity l) None),
        capacity := capacity l * 2\<rparr>) xs"
      using b bnd True by (intro list_repI) auto
    ultimately show thesis using b True
      by (intro that [of "l\<lparr>elements := Buf (b @ replicate (capacity l) None),
        capacity := capacity l * 2\<rparr>"]) auto
  qed
qed

lemma list_append_full_fails:
  assumes rep: "list_rep l xs" and room: "\<not> room alloc l"
  shows "list_append alloc l want = Inr (1, l\<lparr>elements := Null_Buf\<rparr>, None)"
proof -
  from rep obtain b where b: "elements l = Buf b" "length b = capacity l"
    "len l = length xs" "len l \<le> capacity l" "0 < capacity l" "0 < element_size l"
    "capacity l * element_size l < 2 ^ 63"
    by (rule list_repE)
  have "capacity l = len l" using room b by (simp add: room_def)
  moreover have "wrap64 (capacity l * 2 * element_size l) = capacity l * 2 * element_size l"
    using b by (intro double_no_wrap) simp
  ultimately show ?thesis
    using room b by (simp add: list_append_def room_def)
qed

section \<open>Functional correctness of the operations\<close>

lemma list_init_eq:
  assumes "0 < es" and "es < 2 ^ 61" and "alloc (4 * es)"
  shows "list_init alloc l es =
    (0, \<lparr>elements = Buf (replicate 4 None), len = 0, capacity = 4, element_size = es\<rparr>)"
proof -
  have w: "wrap64 (INITIAL_CAPACITY * es) = 4 * es"
    unfolding INITIAL_CAPACITY_def by (rule wrap64_id) (use assms(2) in simp)
  have d: "4 * es div es = 4" using assms(1) by simp
  show ?thesis
    unfolding list_init_def Let_def w d using assms(1,3) by (simp add: INITIAL_CAPACITY_def)
qed

lemma list_init_rep:
  assumes "alloc_bounded alloc" and "0 < es" and "es < 2 ^ 61" and "alloc (4 * es)"
  shows "\<exists>l'. list_init alloc l es = (0, l') \<and> list_rep l' [] \<and> element_size l' = es"
proof -
  have "4 * es < 2 ^ 63" using assms(1,4) by (rule alloc_boundedD)
  then have "list_rep \<lparr>elements = Buf (replicate 4 None), len = 0, capacity = 4, element_size = es\<rparr> []"
    using assms(2) by (simp add: list_rep_def list_wf_def list_abs_def)
  with list_init_eq [of es alloc l, OF assms(2) assms(3) assms(4)] show ?thesis by auto
qed

lemma list_append_copy_rep:
  assumes rep: "list_rep l xs" and ab: "alloc_bounded alloc" and room: "room alloc l"
  shows "\<exists>l'. list_append_copy alloc l (Some x) = Inr (0, l') \<and> list_rep l' (xs @ [x]) \<and>
    element_size l' = element_size l"
proof -
  obtain l1 where app: "list_append alloc l True = Inr (0, l1\<lparr>len := len l + 1\<rparr>, Some (len l))"
    and rep1: "list_rep l1 xs" and sp: "len l1 < capacity l1" and es: "element_size l1 = element_size l"
    by (rule list_append_grows [OF assms])
  from rep1 obtain b where b: "elements l1 = Buf b" "length b = capacity l1"
    "len l1 = length xs" "0 < element_size l1" "capacity l1 * element_size l1 < 2 ^ 63"
    "take (len l1) b = map Some xs"
    by (rule list_repE)
  have ln: "len l = length xs" using rep by (rule list_rep_len)
  let ?l = "l1\<lparr>len := len l + 1, elements := Buf (b[length xs := Some x])\<rparr>"
  have "list_append_copy alloc l (Some x) = Inr (0, ?l)"
    using app b sp ln by (simp add: list_append_copy_def)
  moreover have "list_rep ?l (xs @ [x])"
  proof (rule list_repI [OF _ _ _ _ _ _ ])
    show "take (len ?l) (b[length xs := Some x]) = map Some (xs @ [x])"
      using b sp ln by (simp add: take_Suc_conv_app_nth)
  qed (use b sp ln in auto)
  ultimately show ?thesis using es by auto
qed

lemma list_at_rep: "list_rep l xs \<Longrightarrow> i < length xs \<Longrightarrow> list_at l i = (0, Some i)"
  by (simp add: list_at_def list_rep_len list_get_def)

lemma list_at_out: "list_rep l xs \<Longrightarrow> length xs \<le> i \<Longrightarrow> list_at l i = (1, None)"
  by (simp add: list_at_def list_rep_len)

text \<open>Shifting a tail one cell to the right and writing the gap is list insertion.\<close>

lemma shift_right_insert:
  assumes "at < n" and "n < length b" and "take n b = map Some xs"
  shows "take (n + 1) ((blit b (at + 1) (blk at (n - at) b))[at := Some x]) =
    map Some (take at xs @ x # drop at xs)"
proof (rule nth_equalityI)
  have n: "n = length xs"
    using arg_cong [OF assms(3), of length] assms(2) by simp
  have nth: "b ! i = Some (xs ! i)" if "i < n" for i
  proof -
    have "b ! i = take n b ! i" using that by simp
    also have "\<dots> = Some (xs ! i)" using that assms(3) n by simp
    finally show ?thesis .
  qed
  let ?b = "(blit b (at + 1) (blk at (n - at) b))[at := Some x]"
  have lenb: "length (blit b (at + 1) (blk at (n - at) b)) = length b"
    using assms(1,2) by simp
  show "length (take (n + 1) ?b) = length (map Some (take at xs @ x # drop at xs))"
    using assms lenb n by simp
  fix i assume "i < length (take (n + 1) ?b)"
  then have i: "i < n + 1" by simp
  consider "i < at" | "i = at" | "at < i" by linarith
  then show "take (n + 1) ?b ! i = map Some (take at xs @ x # drop at xs) ! i"
  proof cases
    case 1
    then have "?b ! i = b ! i" using assms(1,2) by (simp add: blit_def nth_append)
    with 1 assms(1) n nth i show ?thesis by (simp add: nth_append)
  next
    case 2
    with assms lenb n show ?thesis by (simp add: nth_append)
  next
    case 3
    then have "?b ! i = blit b (at + 1) (blk at (n - at) b) ! i" by simp
    also have "\<dots> = blk at (n - at) b ! (i - (at + 1))"
      using assms(1,2) i 3 by (intro blit_nth_inside) auto
    also have "\<dots> = b ! (i - 1)" using 3 i assms(1,2) by (simp add: blk_def)
    also have "\<dots> = Some (xs ! (i - 1))" using 3 i by (intro nth) auto
    finally show ?thesis
      using 3 i assms(1) n by (cases i) (auto simp: nth_append nth_Cons' min_def)
  qed
qed

lemma move_count_insert:
  "list_rep l xs \<Longrightarrow> at \<le> length xs \<Longrightarrow>
   wrap64 ((length xs - at) * element_size l) div element_size l = length xs - at"
proof (elim list_repE)
  fix b assume l: "len l = length xs" "len l \<le> capacity l" "0 < element_size l"
    "capacity l * element_size l < 2 ^ 63"
  have "(length xs - at) * element_size l \<le> capacity l * element_size l"
    using l by (intro mult_le_mono1) simp
  also have "\<dots> < 2 ^ 64" using l by simp
  finally show ?thesis using l by (simp add: wrap64_id)
qed

lemma list_insert_rep:
  assumes rep: "list_rep l xs" and ab: "alloc_bounded alloc" and room: "room alloc l"
    and at: "at \<le> length xs"
  shows "\<exists>l'. list_insert alloc l at (Some x) = Inr (0, l') \<and>
    list_rep l' (take at xs @ x # drop at xs) \<and> element_size l' = element_size l"
proof (cases "at = length xs")
  case True
  with rep show ?thesis
    using list_append_copy_rep [OF rep ab room, of x] by (simp add: list_insert_def list_rep_len)
next
  case False
  obtain l1 where app: "list_append alloc l False = Inr (0, l1, None)"
    and rep1: "list_rep l1 xs" and sp: "len l1 < capacity l1" and es: "element_size l1 = element_size l"
    by (rule list_append_grows [OF rep ab room])
  from rep1 obtain b where b: "elements l1 = Buf b" "length b = capacity l1"
    "len l1 = length xs" "0 < element_size l1" "capacity l1 * element_size l1 < 2 ^ 63"
    "take (len l1) b = map Some xs"
    by (rule list_repE)
  have ln: "len l = length xs" using rep by (rule list_rep_len)
  have small: "length xs < 2 ^ 63" using rep by (rule list_rep_bound)
  let ?b = "(blit b (at + 1) (blk at (length xs - at) b))[at := Some x]"
  let ?l = "l1\<lparr>elements := Buf ?b, len := length xs + 1\<rparr>"
  have "wrap64 ((length xs - at) * element_size l1) div element_size l1 = length xs - at"
    using rep1 at by (rule move_count_insert)
  then have "list_insert alloc l at (Some x) = Inr (0, ?l)"
    using app b sp ln at False small
    by (simp add: list_insert_def list_get_def wrap64_id)
  moreover have "list_rep ?l (take at xs @ x # drop at xs)"
  proof (rule list_repI [OF _ _ _ _ _ _ ])
    show "take (len ?l) ?b = map Some (take at xs @ x # drop at xs)"
      using b sp at False shift_right_insert [of at "length xs" b xs x] by simp
  qed (use b sp at False in auto)
  ultimately show ?thesis using es by auto
qed

lemma shift_left_remove:
  assumes "at < n" and "n \<le> length b" and "take n b = map Some xs"
  shows "take (n - 1) (blit b at (blk (at + 1) (n - 1 - at) b)) = map Some (take at xs @ drop (at + 1) xs)"
proof -
  have "take (n - 1) (blit b at (blk (at + 1) (n - 1 - at) b)) = take at b @ blk (at + 1) (n - 1 - at) b"
    using assms(1,2) by (simp add: blit_def)
  moreover have "take at b = map Some (take at xs)"
    using arg_cong [OF assms(3), of "take at"] assms(1) by (simp add: take_map min_def)
  moreover have "blk (at + 1) (n - 1 - at) b = drop (at + 1) (take n b)"
    using assms(1) by (simp add: blk_def drop_take)
  then have "blk (at + 1) (n - 1 - at) b = map Some (drop (at + 1) xs)"
    using assms(3) by (simp add: drop_map)
  ultimately show ?thesis by (simp only: map_append)
qed

lemma list_rm_rep:
  assumes rep: "list_rep l xs" and at: "at < length xs"
  shows "\<exists>l'. list_rm l at = Inr (0, l') \<and> list_rep l' (take at xs @ drop (at + 1) xs)"
proof -
  from rep obtain b where b: "elements l = Buf b" "length b = capacity l" "len l \<le> capacity l"
    "len l = length xs" "0 < capacity l" "0 < element_size l" "capacity l * element_size l < 2 ^ 63"
    "take (len l) b = map Some xs"
    by (rule list_repE)
  have mv: "wrap64 ((length xs - (at + 1)) * element_size l) div element_size l = length xs - (at + 1)"
    using rep at by (intro move_count_insert) auto
  let ?b = "blit b at (blk (at + 1) (length xs - 1 - at) b)"
  have tk: "take (length xs - 1) ?b = map Some (take at xs @ drop (at + 1) xs)"
    using b at by (intro shift_left_remove) auto
  have lenb: "length ?b = length b" using b at by simp
  show ?thesis
  proof (cases "at < length xs - 1")
    case True
    let ?l = "l\<lparr>elements := Buf ?b, len := length xs - 1\<rparr>"
    have "list_rm l at = Inr (0, ?l)"
      using b at True mv by (simp add: list_rm_def list_get_def)
    moreover have "list_rep ?l (take at xs @ drop (at + 1) xs)"
      by (rule list_repI [of _ ?b]) (use b at True tk lenb in auto)
    ultimately show ?thesis by blast
  next
    case False
    let ?l = "l\<lparr>elements := Buf b, len := length xs - 1\<rparr>"
    have "list_rm l at = Inr (0, ?l)"
      using b at False by (simp add: list_rm_def)
    moreover have "at = length xs - 1" using False at by simp
    then have "take (length xs - 1) b = map Some (take at xs @ drop (at + 1) xs)"
      using arg_cong [OF b(8), of "take (length xs - 1)"] b(4) False at
      by (simp add: take_map min_def)
    then have "list_rep ?l (take at xs @ drop (at + 1) xs)"
      by (intro list_repI [of _ b]) (use b at in auto)
    ultimately show ?thesis by blast
  qed
qed

section \<open>Failures\<close>

lemma list_insert_out: "list_rep l xs \<Longrightarrow> length xs < at \<Longrightarrow> list_insert alloc l at x = Inr (1, l)"
  by (simp add: list_insert_def list_rep_len)

lemma list_rm_out: "list_rep l xs \<Longrightarrow> length xs \<le> at \<Longrightarrow> list_rm l at = Inr (1, l)"
  by (simp add: list_rm_def list_rep_len)

lemma list_append_copy_fails:
  "list_rep l xs \<Longrightarrow> \<not> room alloc l \<Longrightarrow>
   list_append_copy alloc l x = Inr (1, l\<lparr>elements := Null_Buf\<rparr>)"
  by (simp add: list_append_copy_def list_append_full_fails)

lemma list_insert_fails:
  "list_rep l xs \<Longrightarrow> \<not> room alloc l \<Longrightarrow> at \<le> length xs \<Longrightarrow>
   list_insert alloc l at x = Inr (1, l\<lparr>elements := Null_Buf\<rparr>)"
  by (simp add: list_insert_def list_append_full_fails list_append_copy_fails list_rep_len)

section \<open>The sequence interface\<close>

text \<open>
  What the clients of the list rely on: operations that never fault on a represented
  sequence and either do what the mathematical list operation does (code 0) or report an
  allocation failure (code 1). \<open>push_all\<close> is the loop of the callers that append one
  element after another and stop at the first error.
\<close>

fun push_all :: "('s \<Rightarrow> 'a \<Rightarrow> (int \<times> 's) res) \<Rightarrow> 's \<Rightarrow> 'a list \<Rightarrow> (int \<times> 's) res" where
  "push_all push s [] = Inr (0, s)"
| "push_all push s (x # xs) =
     bind_r (push s x) (\<lambda>(r, s'). if r \<noteq> 0 then Inr (r, s') else push_all push s' xs)"

locale seq_store =
  fixes rep :: "'s \<Rightarrow> 'a list \<Rightarrow> bool"
    and push :: "'s \<Rightarrow> 'a \<Rightarrow> (int \<times> 's) res"
    and ins :: "'s \<Rightarrow> nat \<Rightarrow> 'a \<Rightarrow> (int \<times> 's) res"
    and del :: "'s \<Rightarrow> nat \<Rightarrow> (int \<times> 's) res"
    and get :: "'s \<Rightarrow> nat \<Rightarrow> 'a res"
  assumes push_cases: "rep s xs \<Longrightarrow>
      (\<exists>s'. push s x = Inr (0, s') \<and> rep s' (xs @ [x])) \<or> (\<exists>s'. push s x = Inr (1, s'))"
    and ins_cases: "rep s xs \<Longrightarrow> i \<le> length xs \<Longrightarrow>
      (\<exists>s'. ins s i x = Inr (0, s') \<and> rep s' (take i xs @ x # drop i xs)) \<or>
      (\<exists>s'. ins s i x = Inr (1, s'))"
    and del_ok: "rep s xs \<Longrightarrow> i < length xs \<Longrightarrow>
      \<exists>s'. del s i = Inr (0, s') \<and> rep s' (take i xs @ drop (i + 1) xs)"
    and get_ok: "rep s xs \<Longrightarrow> i < length xs \<Longrightarrow> get s i = Inr (xs ! i)"
begin

lemma push_all_rep:
  "rep s xs \<Longrightarrow> push_all push s ys = Inr (0, s') \<Longrightarrow> rep s' (xs @ ys)"
proof (induction ys arbitrary: s xs)
  case (Cons y ys)
  from push_cases [OF Cons.prems(1), of y] show ?case
  proof (elim disjE exE conjE)
    fix s1 assume "push s y = Inr (0, s1)" and "rep s1 (xs @ [y])"
    with Cons.IH [of s1 "xs @ [y]"] Cons.prems(2) show ?thesis by simp
  next
    fix s1 assume "push s y = Inr (1, s1)"
    with Cons.prems(2) show ?thesis by simp
  qed
qed simp

lemma push_all_no_fault: "rep s xs \<Longrightarrow> \<exists>r s'. push_all push s ys = Inr (r, s')"
proof (induction ys arbitrary: s xs)
  case (Cons y ys)
  from push_cases [OF Cons.prems, of y] show ?case
    by (elim disjE exE conjE) (use Cons.IH in auto)
qed simp

lemma ins_get:
  "rep s xs \<Longrightarrow> i \<le> length xs \<Longrightarrow> ins s i x = Inr (0, s') \<Longrightarrow> get s' i = Inr x"
  using ins_cases [of s xs i x] get_ok [of s' "take i xs @ x # drop i xs" i]
  by (auto simp: nth_append)

lemma ins_del:
  assumes "rep s xs" and "i \<le> length xs" and "ins s i x = Inr (0, s')"
  shows "\<exists>s''. del s' i = Inr (0, s'') \<and> rep s'' xs"
proof -
  have "rep s' (take i xs @ x # drop i xs)"
    using ins_cases [OF assms(1,2), of x] assms(3) by auto
  then have "\<exists>s''. del s' i = Inr (0, s'') \<and>
      rep s'' (take i (take i xs @ x # drop i xs) @ drop (i + 1) (take i xs @ x # drop i xs))"
    by (rule del_ok) (use assms(2) in simp)
  moreover have "take i (take i xs @ x # drop i xs) @ drop (i + 1) (take i xs @ x # drop i xs) = xs"
    using assms(2) by (simp add: min_def)
  ultimately show ?thesis by simp
qed

end

interpretation cl: seq_store list_rep
    "\<lambda>l x. list_append_copy (glibc alloc) l (Some x)"
    "\<lambda>l i x. list_insert (glibc alloc) l i (Some x)" list_rm elem_at
  for alloc :: allocator
proof unfold_locales
  let ?alloc = "glibc alloc"
  have ab: "alloc_bounded ?alloc" by simp
  fix s :: "'b clist" and xs x and i :: nat
  assume rep: "list_rep s xs"
  show "(\<exists>s'. list_append_copy ?alloc s (Some x) = Inr (0, s') \<and> list_rep s' (xs @ [x])) \<or>
      (\<exists>s'. list_append_copy ?alloc s (Some x) = Inr (1, s'))"
    using list_append_copy_rep [OF rep ab, of x] list_append_copy_fails [OF rep, of ?alloc] by blast
  {
    assume i: "i \<le> length xs"
    show "(\<exists>s'. list_insert ?alloc s i (Some x) = Inr (0, s') \<and>
          list_rep s' (take i xs @ x # drop i xs)) \<or>
        (\<exists>s'. list_insert ?alloc s i (Some x) = Inr (1, s'))"
      using list_insert_rep [OF rep ab _ i, of x] list_insert_fails [OF rep _ i, of ?alloc] by blast
  }
  assume i: "i < length xs"
  show "\<exists>s'. list_rm s i = Inr (0, s') \<and> list_rep s' (take i xs @ drop (i + 1) xs)"
    using rep i by (rule list_rm_rep)
  show "elem_at s i = Inr (xs ! i)"
    using rep i by (rule list_rep_cell)
qed

section \<open>Runs of list operations\<close>

datatype 'a list_op = Op_Append 'a | Op_Insert nat 'a | Op_Remove nat

fun list_step :: "allocator \<Rightarrow> 'a clist \<Rightarrow> 'a list_op \<Rightarrow> (int \<times> 'a clist) res" where
  "list_step alloc l (Op_Append x) = list_append_copy alloc l (Some x)"
| "list_step alloc l (Op_Insert i x) = list_insert alloc l i (Some x)"
| "list_step alloc l (Op_Remove i) = list_rm l i"

fun spec_step :: "'a list \<Rightarrow> 'a list_op \<Rightarrow> int \<times> 'a list" where
  "spec_step xs (Op_Append x) = (0, xs @ [x])"
| "spec_step xs (Op_Insert i x) =
     (if i \<le> length xs then (0, take i xs @ x # drop i xs) else (1, xs))"
| "spec_step xs (Op_Remove i) =
     (if i < length xs then (0, take i xs @ drop (i + 1) xs) else (1, xs))"

fun list_run :: "allocator \<Rightarrow> 'a clist \<Rightarrow> 'a list_op list \<Rightarrow> (int list \<times> 'a clist) res" where
  "list_run alloc l [] = Inr ([], l)"
| "list_run alloc l (p # ps) =
     bind_r (list_step alloc l p)
       (\<lambda>(r, l'). bind_r (list_run alloc l' ps) (\<lambda>(rs, l''). Inr (r # rs, l'')))"

fun spec_run :: "'a list \<Rightarrow> 'a list_op list \<Rightarrow> int list \<times> 'a list" where
  "spec_run xs [] = ([], xs)"
| "spec_run xs (p # ps) =
     (let (r, ys) = spec_step xs p; (rs, zs) = spec_run ys ps in (r # rs, zs))"

lemma list_step_refines:
  assumes rep: "list_rep l xs" and ab: "alloc_bounded alloc" and room: "room alloc l"
  shows "\<exists>l'. list_step alloc l p = Inr (fst (spec_step xs p), l') \<and>
    list_rep l' (snd (spec_step xs p)) \<and> element_size l' = element_size l"
proof (cases p)
  case (Op_Append x)
  then show ?thesis using list_append_copy_rep [OF rep ab room, of x] by simp
next
  case (Op_Insert i x)
  then show ?thesis
    using list_insert_rep [OF rep ab room, of i x] list_insert_out [OF rep, of i alloc "Some x"] rep
    by auto
next
  case (Op_Remove i)
  show ?thesis
  proof (cases "i < length xs")
    case True
    then obtain l' where l': "list_rm l i = Inr (0, l')" "list_rep l' (take i xs @ drop (i + 1) xs)"
      using list_rm_rep [OF rep] by blast
    then have "element_size l' = element_size l"
      by (auto simp: list_rm_def bind_r_Inr_iff split: if_splits)
    with l' True Op_Remove show ?thesis by auto
  next
    case False
    with Op_Remove rep show ?thesis by (simp add: list_rm_out)
  qed
qed

lemma spec_step_length: "length (snd (spec_step xs p)) \<le> length xs + 1"
  by (cases p) auto

lemma room_upto:
  "list_rep l xs \<Longrightarrow> \<forall>n \<le> 2 * (length xs + k) * element_size l. alloc n \<Longrightarrow> room alloc l"
proof (rule ccontr)
  assume rep: "list_rep l xs" and al: "\<forall>n \<le> 2 * (length xs + k) * element_size l. alloc n"
    and nr: "\<not> room alloc l"
  then have c: "capacity l = length xs"
    by (auto simp: room_def list_rep_len elim: list_repE)
  have "capacity l * 2 * element_size l \<le> 2 * (length xs + k) * element_size l"
    unfolding c by (intro mult_le_mono1) simp
  with al nr show False by (simp add: room_def)
qed

lemma list_run_simulates:
  "list_rep l xs \<Longrightarrow> alloc_bounded alloc \<Longrightarrow>
   \<forall>n \<le> 2 * (length xs + length ps) * element_size l. alloc n \<Longrightarrow>
   \<exists>l'. list_run alloc l ps = Inr (fst (spec_run xs ps), l') \<and> list_rep l' (snd (spec_run xs ps))"
proof (induction ps arbitrary: l xs)
  case (Cons p ps)
  have "room alloc l" using Cons.prems(1,3) by (rule room_upto)
  then obtain l1 where l1: "list_step alloc l p = Inr (fst (spec_step xs p), l1)"
    and rep1: "list_rep l1 (snd (spec_step xs p))" and es: "element_size l1 = element_size l"
    using list_step_refines [OF Cons.prems(1,2)] by blast
  have "2 * (length (snd (spec_step xs p)) + length ps) * element_size l
      \<le> 2 * (length xs + length (p # ps)) * element_size l"
    using spec_step_length [of xs p] by (intro mult_le_mono1) simp
  with Cons.prems(3) es
  have "\<forall>n \<le> 2 * (length (snd (spec_step xs p)) + length ps) * element_size l1. alloc n"
    by (auto intro: le_trans)
  from Cons.IH [OF rep1 Cons.prems(2) this] l1 show ?case
    by (auto simp: split_beta Let_def)
qed simp

section \<open>Properties\<close>

text \<open>C14: A list created by \<open>list_init\<close> and driven by any sequence of appends, inserts and
  removals behaves exactly as a mathematical sequence: the return codes (0, or 1 for an
  index out of range) and the final contents are those of the specification, no operation
  touches memory outside its buffer, and no size computation wraps, as long as the
  allocator serves the requests up to twice the largest possible length.\<close>

theorem list_run_refines:
  assumes "alloc_bounded alloc" and "0 < es" and "es < 2 ^ 61"
    and "\<forall>n \<le> 2 * (length ps + 4) * es. alloc n"
  shows "\<exists>l l'. list_init alloc l0 es = (0, l) \<and>
    list_run alloc l ps = Inr (fst (spec_run [] ps), l') \<and> list_rep l' (snd (spec_run [] ps))"
proof -
  have "4 * es \<le> 2 * (length ps + 4) * es" by (intro mult_le_mono1) simp
  with assms(4) have "alloc (4 * es)" by blast
  then obtain l where l: "list_init alloc l0 es = (0, l)" "list_rep l []" "element_size l = es"
    using list_init_rep [OF assms(1-3)] by blast
  have le: "2 * (length ([] :: 'a list) + length ps) * es \<le> 2 * (length ps + 4) * es"
    by (intro mult_le_mono1) simp
  have "\<forall>n \<le> 2 * (length ([] :: 'a list) + length ps) * element_size l. alloc n"
    unfolding l(3) using assms(4) le le_trans by blast
  with list_run_simulates [OF l(2) assms(1)] l(1) show ?thesis by blast
qed

theorem list_run_refines_witness:
  "\<exists>l l'. list_init (\<lambda>n. n < 1000) zero_list 8 = (0, l) \<and>
    list_run (\<lambda>n. n < 1000) l [Op_Append (10 :: nat), Op_Insert 0 20, Op_Insert 5 30, Op_Append 40,
      Op_Append 50, Op_Insert 1 60, Op_Remove 0] = Inr ([0, 0, 1, 0, 0, 0, 0], l') \<and>
    list_rep l' [60, 10, 40, 50]"
  using list_run_refines [of "\<lambda>n. n < 1000" 8 "[Op_Append (10 :: nat), Op_Insert 0 20,
    Op_Insert 5 30, Op_Append 40, Op_Append 50, Op_Insert 1 60, Op_Remove 0]" zero_list]
  by (simp add: alloc_bounded_def)

text \<open>When the list is full and \<open>realloc\<close> fails, \<open>list_append_copy\<close> reports 1, keeps the
  length, and has overwritten the only pointer to the elements with NULL: every element
  that was stored is lost, and reading any of them afterwards dereferences NULL. The
  comment in the code claims that the old pointer remains valid.\<close>

lemma append_oom_loses_elements:
  assumes "list_rep l xs" and "len l = capacity l" and "\<not> alloc (2 * capacity l * element_size l)"
  shows "\<exists>l'. list_append_copy alloc l (Some x) = Inr (1, l') \<and> len l' = length xs \<and>
    (\<forall>i. elem_at l' i = Inl Null_Deref)"
proof -
  have "\<not> room alloc l" using assms(2,3) by (simp add: room_def mult.commute)
  then show ?thesis
    using assms(1) by (simp add: list_append_copy_fails elem_at_def list_rep_len)
qed

text \<open>Inserting an element and removing the same index again is the identity on the
  sequence, whenever the insertion found memory.\<close>

lemma insert_then_remove:
  assumes "list_rep l xs" and "i \<le> length xs"
    and "list_insert (glibc alloc) l i (Some x) = Inr (0, l1)"
  shows "elem_at l1 i = Inr x \<and> (\<exists>l2. list_rm l1 i = Inr (0, l2) \<and> list_rep l2 xs)"
  using cl.ins_get [OF assms] cl.ins_del [OF assms] by simp

end
