(* ===== verification/ResourceMg.thy ===== *)
theory ResourceMg
  imports CList
begin

text \<open>
  The resource manager of \<open>cpu/resource-mg.c\<close>: it translates the handles and device
  addresses a client knows (those of the original run) into the ones valid in the running
  server. \<open>map_res\<close> is an array of pairs sorted by client address, searched by bisection;
  \<open>new_res\<close> collects the resources created in this run. A manager with \<open>bypass\<close> set
  translates nothing.
\<close>

section \<open>State and operations\<close>

record resource_mg_map_elem =
  client_address :: u64
  cuda_address :: u64

record resource_mg =
  map_res :: "resource_mg_map_elem clist"
  new_res :: "u64 clist"
  bypass :: int

definition zero_mg :: resource_mg where
  "zero_mg = \<lparr>map_res = zero_list, new_res = zero_list, bypass = 0\<rparr>"

definition resource_mg_init :: "allocator \<Rightarrow> resource_mg \<Rightarrow> int \<Rightarrow> int \<times> resource_mg" where
  "resource_mg_init alloc mg byp =
     (let (ret, l) = list_init alloc (new_res mg) 8; mg = mg\<lparr>new_res := l\<rparr> in
      if ret \<noteq> 0 then (ret, mg)
      else if byp = 0
      then (let (ret, l) = list_init alloc (map_res mg) 16; mg = mg\<lparr>map_res := l\<rparr> in
            if ret \<noteq> 0 then (ret, mg) else (ret, mg\<lparr>bypass := byp\<rparr>))
      else (ret, mg\<lparr>bypass := byp\<rparr>))"

definition resource_mg_free :: "resource_mg \<Rightarrow> resource_mg res" where
  "resource_mg_free mg =
     bind_r (list_free (new_res mg)) (\<lambda>(_, l).
       if bypass mg = 0
       then bind_r (list_free (map_res mg)) (\<lambda>(_, m). Inr (mg\<lparr>new_res := l, map_res := m\<rparr>))
       else Inr (mg\<lparr>new_res := l\<rparr>))"

definition resource_mg_create :: "allocator \<Rightarrow> resource_mg \<Rightarrow> u64 \<Rightarrow> (int \<times> resource_mg) res" where
  "resource_mg_create alloc mg addr =
     bind_r (list_append_copy alloc (new_res mg) (Some addr))
       (\<lambda>(r, l). Inr (if r \<noteq> 0 then 1 else 0, mg\<lparr>new_res := l\<rparr>))"

text \<open>\<open>list_get\<close> returns NULL only for offset 0 in a list without buffer.\<close>

definition elem_null :: "'a clist \<Rightarrow> nat \<Rightarrow> bool" where
  "elem_null l i \<longleftrightarrow> elements l = Null_Buf \<and> wrap64 (i * element_size l) = 0"

text \<open>
  The bisection of \<open>resource_mg_search_map\<close> runs on \<open>size_t\<close> bounds: \<open>mid - 1\<close> wraps to
  \<open>2 ^ 64 - 1\<close> when \<open>mid\<close> is 0, and the loop leaves in that case.
\<close>

fun search_loop :: "nat \<Rightarrow> resource_mg_map_elem clist \<Rightarrow> u64 \<Rightarrow> nat \<Rightarrow> nat \<Rightarrow> u64 res" where
  "search_loop 0 l key lo hi = Inl No_Fuel"
| "search_loop (Suc n) l key lo hi =
     (if hi \<ge> lo
      then let mid = lo + (hi - lo) div 2 in
        if elem_null l mid then Inr 0
        else bind_r (elem_at l mid) (\<lambda>e.
          if client_address e > key
          then (let hi' = wrap64 (mid + size_max) in
                if mid = 0 then Inr key else search_loop n l key lo hi')
          else if client_address e < key
          then search_loop n l key (wrap64 (mid + 1)) hi
          else Inr (cuda_address e))
      else Inr key)"

definition resource_mg_search_map :: "resource_mg \<Rightarrow> u64 \<Rightarrow> u64 res" where
  "resource_mg_search_map mg key =
     (if len (map_res mg) = 0 then Inr key
      else search_loop (len (map_res mg) + 1) (map_res mg) key 0 (len (map_res mg) - 1))"

definition resource_mg_get :: "resource_mg \<Rightarrow> u64 \<Rightarrow> u64 res" where
  "resource_mg_get mg key = (if bypass mg \<noteq> 0 then Inr key else resource_mg_search_map mg key)"

text \<open>
  \<open>resource_mg_add_sorted\<close> bisects with signed bounds; \<open>Missing e\<close> is the value of \<open>end\<close>
  when its loop stops without a hit.
\<close>

datatype slot = Found nat | Missing int | Broken

function find_slot :: "resource_mg_map_elem clist \<Rightarrow> u64 \<Rightarrow> int \<Rightarrow> int \<Rightarrow> slot res" where
  "find_slot l key lo hi =
     (if hi \<ge> lo
      then let mid = lo + (hi - lo) div 2 in
        if elem_null l (nat mid) then Inr Broken
        else bind_r (elem_at l (nat mid)) (\<lambda>e.
          if client_address e > key then find_slot l key lo (mid - 1)
          else if client_address e < key then find_slot l key (mid + 1) hi
          else Inr (Found (nat mid)))
      else Inr (Missing hi))"
  by pat_completeness auto
termination
  by (relation "measure (\<lambda>(l, key, lo, hi). nat (hi - lo + 1))") auto

declare find_slot.simps [simp del]

lemma find_slot_end: "hi < lo \<Longrightarrow> find_slot l key lo hi = Inr (Missing hi)"
  by (simp add: find_slot.simps)

lemma find_slot_step:
  "lo \<le> hi \<Longrightarrow> \<not> elem_null l (nat (lo + (hi - lo) div 2)) \<Longrightarrow>
   elem_at l (nat (lo + (hi - lo) div 2)) = Inr e \<Longrightarrow>
   find_slot l key lo hi =
     (if client_address e > key then find_slot l key lo (lo + (hi - lo) div 2 - 1)
      else if client_address e < key then find_slot l key (lo + (hi - lo) div 2 + 1) hi
      else Inr (Found (nat (lo + (hi - lo) div 2))))"
  by (subst find_slot.simps) (simp add: Let_def)

definition resource_mg_add_sorted ::
  "allocator \<Rightarrow> resource_mg \<Rightarrow> u64 \<Rightarrow> u64 \<Rightarrow> (int \<times> resource_mg) res" where
  "resource_mg_add_sorted alloc mg key addr =
     (let new_elem = \<lparr>client_address = key, cuda_address = addr\<rparr> in
      if bypass mg \<noteq> 0 then Inr (1, mg)
      else if len (map_res mg) = 0
      then bind_r (list_append_copy alloc (map_res mg) (Some new_elem))
             (\<lambda>(r, l). Inr (r, mg\<lparr>map_res := l\<rparr>))
      else bind_r (find_slot (map_res mg) key 0 (int (len (map_res mg)) - 1)) (\<lambda>s.
        case s of
          Broken \<Rightarrow> Inr (1, mg)
        | Found m \<Rightarrow>
            bind_r (elem_at (map_res mg) m) (\<lambda>e.
              bind_r (set_elem (map_res mg) m (e\<lparr>cuda_address := addr\<rparr>))
                (\<lambda>l. Inr (0, mg\<lparr>map_res := l\<rparr>)))
        | Missing e \<Rightarrow>
            (let end0 = (if e < 0 then 0 else nat e) in
             bind_r (elem_at (map_res mg) end0) (\<lambda>end_elem.
               let end1 = (if client_address end_elem < key then end0 + 1 else end0) in
               bind_r (list_insert alloc (map_res mg) end1 (Some new_elem))
                 (\<lambda>(r, l). Inr (r, mg\<lparr>map_res := l\<rparr>))))))"

text \<open>
  Through a pointer: \<open>resource_mg_get\<close> and \<open>resource_mg_add_sorted\<close> read the manager before
  any NULL check (the check in \<open>resource_mg_add_sorted\<close> comes after the first access).
\<close>

definition resource_mg_add_sorted_ptr ::
  "allocator \<Rightarrow> resource_mg option \<Rightarrow> u64 \<Rightarrow> u64 \<Rightarrow> (int \<times> resource_mg) res" where
  "resource_mg_add_sorted_ptr alloc p key addr =
     (case p of None \<Rightarrow> Inl Null_Deref | Some mg \<Rightarrow> resource_mg_add_sorted alloc mg key addr)"

section \<open>Representation: a sorted association list\<close>

definition keys :: "resource_mg_map_elem list \<Rightarrow> u64 list" where
  "keys xs = map client_address xs"

definition mg_pairs :: "resource_mg_map_elem list \<Rightarrow> (u64 \<times> u64) list" where
  "mg_pairs xs = map (\<lambda>e. (client_address e, cuda_address e)) xs"

definition mg_map :: "resource_mg_map_elem list \<Rightarrow> u64 \<rightharpoonup> u64" where
  "mg_map xs = map_of (mg_pairs xs)"

definition mg_rep :: "resource_mg \<Rightarrow> resource_mg_map_elem list \<Rightarrow> bool" where
  "mg_rep mg xs \<longleftrightarrow> bypass mg = 0 \<and> list_rep (map_res mg) xs \<and> sorted_wrt (<) (keys xs)"

lemma length_keys [simp]: "length (keys xs) = length xs"
  by (simp add: keys_def)

lemma keys_nth [simp]: "i < length xs \<Longrightarrow> keys xs ! i = client_address (xs ! i)"
  by (simp add: keys_def)

lemma keys_append [simp]: "keys (xs @ ys) = keys xs @ keys ys"
  by (simp add: keys_def)

lemma keys_Cons [simp]: "keys (x # xs) = client_address x # keys xs"
  by (simp add: keys_def)

lemma mg_map_append: "mg_map (xs @ ys) = mg_map ys ++ mg_map xs"
  by (simp add: mg_map_def mg_pairs_def)

lemma mg_map_Cons: "mg_map (x # xs) = (mg_map xs)(client_address x \<mapsto> cuda_address x)"
  by (simp add: mg_map_def mg_pairs_def)

lemma dom_mg_map: "dom (mg_map xs) = set (keys xs)"
  by (simp add: mg_map_def mg_pairs_def keys_def dom_map_of_conv_image_fst image_image)

lemma sorted_keys_less:
  "sorted_wrt (<) (keys xs) \<Longrightarrow> i < j \<Longrightarrow> j < length xs \<Longrightarrow>
   client_address (xs ! i) < client_address (xs ! j)"
  using sorted_wrt_nth_less [of "(<)" "keys xs" i j] by simp

lemma mg_map_nth:
  assumes "sorted_wrt (<) (keys xs)" and "i < length xs"
  shows "mg_map xs (client_address (xs ! i)) = Some (cuda_address (xs ! i))"
proof -
  have "distinct (map fst (mg_pairs xs))"
    using strict_sorted_iff [of "keys xs"] assms(1)
    by (simp add: mg_pairs_def keys_def comp_def)
  moreover have "(client_address (xs ! i), cuda_address (xs ! i)) \<in> set (mg_pairs xs)"
    using assms(2) by (auto simp: mg_pairs_def)
  ultimately show ?thesis by (simp add: mg_map_def)
qed

lemma mg_map_None:
  "\<forall>i < length xs. client_address (xs ! i) \<noteq> key \<Longrightarrow> mg_map xs key = None"
  using dom_mg_map [of xs] by (metis domIff in_set_conv_nth keys_nth length_keys)


lemma mg_rep_elem_null: "list_rep l xs \<Longrightarrow> \<not> elem_null l i"
  by (auto simp: elem_null_def elim: list_repE)

text \<open>The part of the array a bisection has already excluded on both sides.\<close>

definition excluded :: "resource_mg_map_elem list \<Rightarrow> u64 \<Rightarrow> nat \<Rightarrow> nat \<Rightarrow> bool" where
  "excluded xs key lo hi \<longleftrightarrow>
     (\<forall>i < length xs. (i < lo \<longrightarrow> client_address (xs ! i) < key) \<and>
                      (hi \<le> i \<longrightarrow> key < client_address (xs ! i)))"

lemma excluded_all: "excluded xs key 0 (length xs)"
  by (simp add: excluded_def)

lemma excluded_empty: "excluded xs key lo hi \<Longrightarrow> hi \<le> lo \<Longrightarrow> mg_map xs key = None"
  by (intro mg_map_None) (metis excluded_def le_less_linear le_trans less_irrefl)

lemma excluded_left:
  assumes "sorted_wrt (<) (keys xs)" and "excluded xs key lo hi" and "mid < length xs"
    and "client_address (xs ! mid) < key"
  shows "excluded xs key (mid + 1) hi"
  unfolding excluded_def
proof (intro allI impI conjI)
  fix i assume i: "i < length xs"
  show "client_address (xs ! i) < key" if "i < mid + 1"
    using that assms(4) sorted_keys_less [OF assms(1), of i mid] assms(3)
    by (cases "i = mid") (auto intro: less_trans)
  show "key < client_address (xs ! i)" if "hi \<le> i"
    using assms(2) i that by (simp add: excluded_def)
qed

lemma excluded_right:
  assumes "sorted_wrt (<) (keys xs)" and "excluded xs key lo hi" and "mid < length xs"
    and "key < client_address (xs ! mid)"
  shows "excluded xs key lo mid"
  unfolding excluded_def
proof (intro allI impI conjI)
  fix i assume i: "i < length xs"
  show "key < client_address (xs ! i)" if "mid \<le> i"
    using that assms(4) sorted_keys_less [OF assms(1) _ i, of mid]
    by (cases "i = mid") (auto intro: less_trans)
  show "client_address (xs ! i) < key" if "i < lo"
    using assms(2) i that by (simp add: excluded_def)
qed

section \<open>The bisections\<close>

definition lookup_or_key :: "(u64 \<rightharpoonup> u64) \<Rightarrow> u64 \<Rightarrow> u64" where
  "lookup_or_key m key = (case m key of None \<Rightarrow> key | Some v \<Rightarrow> v)"

lemma search_loop_correct:
  assumes "list_rep l xs" and "sorted_wrt (<) (keys xs)"
  shows "hi < length xs \<Longrightarrow> lo \<le> length xs \<Longrightarrow> hi + 1 - lo < n \<Longrightarrow> excluded xs key lo (hi + 1) \<Longrightarrow>
    search_loop n l key lo hi = Inr (lookup_or_key (mg_map xs) key)"
proof (induction n arbitrary: lo hi)
  case (Suc n)
  let ?mid = "lo + (hi - lo) div 2"
  have big: "length xs < 2 ^ 63" using assms(1) by (rule list_rep_bound)
  show ?case
  proof (cases "lo \<le> hi")
    case False
    with excluded_empty [OF Suc.prems(4)] show ?thesis by (simp add: lookup_or_key_def)
  next
    case True
    have mid: "?mid < length xs" "lo \<le> ?mid" "?mid \<le> hi" using True Suc.prems(1) by auto
    note cell = list_rep_cell [OF assms(1) mid(1)] mg_rep_elem_null [OF assms(1), of ?mid]
    consider (gt) "client_address (xs ! ?mid) > key" | (lt) "client_address (xs ! ?mid) < key"
      | (eq) "client_address (xs ! ?mid) = key" by fastforce
    then show ?thesis
    proof cases
      case eq
      with mg_map_nth [OF assms(2) mid(1)] have "mg_map xs key = Some (cuda_address (xs ! ?mid))"
        by simp
      with eq True cell show ?thesis by (simp add: Let_def lookup_or_key_def)
    next
      case lt
      have "wrap64 (?mid + 1) = ?mid + 1" using mid big by (intro wrap64_id) simp
      moreover have "search_loop n l key (?mid + 1) hi = Inr (lookup_or_key (mg_map xs) key)"
        using Suc.prems mid excluded_left [OF assms(2) Suc.prems(4) mid(1) lt]
        by (intro Suc.IH) auto
      moreover from lt have "\<not> client_address (xs ! ?mid) > key" by simp
      ultimately show ?thesis using True cell lt by (simp add: Let_def)
    next
      case gt
      note ex = excluded_right [OF assms(2) Suc.prems(4) mid(1) gt]
      show ?thesis
      proof (cases "?mid = 0")
        case True
        with excluded_empty [OF ex] have "mg_map xs key = None" by simp
        then show ?thesis using gt cell \<open>lo \<le> hi\<close>
          unfolding search_loop.simps True Let_def by (simp add: lookup_or_key_def)
      next
        case False
        then have "?mid + size_max = (?mid - 1) + 2 ^ 64" by (simp add: size_max_def)
        then have "wrap64 (?mid + size_max) = wrap64 (?mid - 1)" by (simp add: wrap64_def)
        also have "\<dots> = ?mid - 1" using mid big by (intro wrap64_id) simp
        finally have w: "wrap64 (?mid + size_max) = ?mid - 1" .
        have "search_loop n l key lo (?mid - 1) = Inr (lookup_or_key (mg_map xs) key)"
          using Suc.prems mid False ex by (intro Suc.IH) auto
        then show ?thesis using w False True gt cell
          unfolding search_loop.simps Let_def by (simp only: if_True if_False bind_r.simps simp_thms)
      qed
    qed
  qed
qed simp

lemma search_map_correct:
  assumes "mg_rep mg xs"
  shows "resource_mg_search_map mg key = Inr (lookup_or_key (mg_map xs) key)"
proof (cases "xs = []")
  case True
  with assms have "len (map_res mg) = 0"
    using list_rep_len [of "map_res mg" xs] by (simp add: mg_rep_def)
  with True show ?thesis
    by (simp add: resource_mg_search_map_def mg_map_def mg_pairs_def lookup_or_key_def)
next
  case False
  note rep = assms [unfolded mg_rep_def]
  have l: "len (map_res mg) = length xs" using rep by (simp add: list_rep_len)
  have "search_loop (length xs + 1) (map_res mg) key 0 (length xs - 1)
      = Inr (lookup_or_key (mg_map xs) key)"
    by (rule search_loop_correct) (use rep False excluded_all [of xs key] in auto)
  with l False show ?thesis by (simp add: resource_mg_search_map_def)
qed


lemma find_slot_correct:
  assumes "list_rep l xs" and "sorted_wrt (<) (keys xs)"
  shows "0 \<le> lo \<Longrightarrow> lo \<le> hi + 1 \<Longrightarrow> hi < int (length xs) \<Longrightarrow>
    excluded xs key (nat lo) (nat (hi + 1)) \<Longrightarrow>
    (\<exists>m < length xs. client_address (xs ! m) = key \<and> find_slot l key lo hi = Inr (Found m)) \<or>
    (\<exists>p \<le> length xs. excluded xs key p p \<and> find_slot l key lo hi = Inr (Missing (int p - 1)))"
proof (induction "nat (hi - lo + 1)" arbitrary: lo hi rule: less_induct)
  case less
  show ?case
  proof (cases "lo \<le> hi")
    case False
    with less.prems have "lo = hi + 1" by simp
    with less.prems have "find_slot l key lo hi = Inr (Missing (int (nat lo) - 1))"
      and "excluded xs key (nat lo) (nat lo)" and "nat lo \<le> length xs"
      by (simp_all add: find_slot.simps)
    then show ?thesis by blast
  next
    case True
    define mid where "mid = lo + (hi - lo) div 2"
    have mid: "lo \<le> mid" "mid \<le> hi" "nat mid < length xs" "0 \<le> mid"
      using True less.prems by (auto simp: mid_def)
    note cell = list_rep_cell [OF assms(1) mid(3)] mg_rep_elem_null [OF assms(1), of "nat mid"]
    have step: "find_slot l key lo hi =
        (if client_address (xs ! nat mid) > key then find_slot l key lo (mid - 1)
         else if client_address (xs ! nat mid) < key then find_slot l key (mid + 1) hi
         else Inr (Found (nat mid)))"
      using find_slot_step [of lo hi l] True cell by (simp add: mid_def)
    consider (gt) "client_address (xs ! nat mid) > key" | (lt) "client_address (xs ! nat mid) < key"
      | (eq) "client_address (xs ! nat mid) = key" by fastforce
    then show ?thesis
    proof cases
      case eq
      with step mid(3) show ?thesis by auto
    next
      case lt
      have "nat (mid + 1) = nat mid + 1" using mid(4) by simp
      then have "excluded xs key (nat (mid + 1)) (nat (hi + 1))"
        using excluded_left [OF assms(2) less.prems(4) mid(3) lt] by simp
      moreover have "nat (hi - (mid + 1) + 1) < nat (hi - lo + 1)" using mid by simp
      ultimately have "(\<exists>m < length xs. client_address (xs ! m) = key \<and> find_slot l key (mid + 1) hi = Inr (Found m)) \<or>
          (\<exists>p \<le> length xs. excluded xs key p p \<and> find_slot l key (mid + 1) hi = Inr (Missing (int p - 1)))"
        using less.hyps [of hi "mid + 1"] less.prems mid by simp
      moreover have "find_slot l key lo hi = find_slot l key (mid + 1) hi"
        using step lt less_not_sym [OF lt] by simp
      ultimately show ?thesis by simp
    next
      case gt
      have "excluded xs key (nat lo) (nat (mid - 1 + 1))"
        using excluded_right [OF assms(2) less.prems(4) mid(3) gt] by simp
      moreover have "nat (mid - 1 - lo + 1) < nat (hi - lo + 1)" using mid by simp
      ultimately have "(\<exists>m < length xs. client_address (xs ! m) = key \<and> find_slot l key lo (mid - 1) = Inr (Found m)) \<or>
          (\<exists>p \<le> length xs. excluded xs key p p \<and> find_slot l key lo (mid - 1) = Inr (Missing (int p - 1)))"
        using less.hyps [of "mid - 1" lo] less.prems mid by simp
      then show ?thesis using step gt by simp
    qed
  qed
qed

section \<open>Adding a translation\<close>

lemma map_update_at:
  assumes "m < length xs" and "client_address (xs ! m) = key" and "sorted_wrt (<) (keys xs)"
  shows "mg_map (xs[m := (xs ! m)\<lparr>cuda_address := v\<rparr>]) = (mg_map xs)(key \<mapsto> v)"
    and "keys (xs[m := (xs ! m)\<lparr>cuda_address := v\<rparr>]) = keys xs"
proof -
  let ?ys = "xs[m := (xs ! m)\<lparr>cuda_address := v\<rparr>]"
  show k: "keys ?ys = keys xs"
    using assms(1) by (intro nth_equalityI) (auto simp: nth_list_update)
  have "mg_map ?ys k = ((mg_map xs)(key \<mapsto> v)) k" for k
  proof (cases "k \<in> set (keys xs)")
    case False
    with assms have "k \<noteq> key" by (metis in_set_conv_nth keys_nth length_keys)
    moreover from False k have "mg_map ?ys k = None" "mg_map xs k = None"
      using dom_mg_map [of ?ys] dom_mg_map [of xs] by auto
    ultimately show ?thesis by simp
  next
    case True
    then obtain i where i: "i < length xs" "k = client_address (xs ! i)"
      by (metis in_set_conv_nth keys_nth length_keys)
    then have "client_address (?ys ! i) = k" by (cases "i = m") simp_all
    then have "mg_map ?ys k = Some (cuda_address (?ys ! i))"
      using mg_map_nth [of ?ys i] k assms(3) i by simp
    moreover have "mg_map xs k = Some (cuda_address (xs ! i))"
      using mg_map_nth [OF assms(3) i(1)] i by simp
    moreover have "k = key \<longleftrightarrow> i = m"
      using i assms sorted_keys_less [OF assms(3), of i m] sorted_keys_less [OF assms(3), of m i]
      by (metis less_irrefl linorder_neqE_nat)
    ultimately show ?thesis using i by (simp add: nth_list_update)
  qed
  then show "mg_map ?ys = (mg_map xs)(key \<mapsto> v)" by blast
qed

lemma map_insert_at:
  assumes "excluded xs key p p" and "sorted_wrt (<) (keys xs)" and "p \<le> length xs"
    and "client_address e = key"
  shows "mg_map (take p xs @ e # drop p xs) = (mg_map xs)(key \<mapsto> cuda_address e)"
    and "sorted_wrt (<) (keys (take p xs @ e # drop p xs))"
proof -
  have lt: "client_address x < key" if "x \<in> set (take p xs)" for x
    using that assms(1,3) by (auto simp: in_set_conv_nth excluded_def)
  have gt: "key < client_address x" if "x \<in> set (drop p xs)" for x
    using that assms(1,3) by (auto simp: in_set_conv_nth excluded_def)
  have "mg_map (take p xs @ e # drop p xs) = (mg_map (drop p xs))(key \<mapsto> cuda_address e) ++ mg_map (take p xs)"
    using assms(4) by (simp add: mg_map_append mg_map_Cons)
  also have "\<dots> = (mg_map (drop p xs) ++ mg_map (take p xs))(key \<mapsto> cuda_address e)"
    using lt by (intro map_add_upd_left) (auto simp: dom_mg_map keys_def)
  also have "mg_map (drop p xs) ++ mg_map (take p xs) = mg_map xs"
    using mg_map_append [of "take p xs" "drop p xs"] by simp
  finally show "mg_map (take p xs @ e # drop p xs) = (mg_map xs)(key \<mapsto> cuda_address e)" .
  have "sorted_wrt (<) (keys (take p xs) @ keys (drop p xs))"
    using assms(2) keys_append [of "take p xs" "drop p xs"] by simp
  then show "sorted_wrt (<) (keys (take p xs @ e # drop p xs))"
    using lt gt assms(4) by (auto simp: sorted_wrt_append keys_def)
qed

lemma mg_repI:
  "bypass mg = 0 \<Longrightarrow> list_rep (map_res mg) xs \<Longrightarrow> sorted_wrt (<) (keys xs) \<Longrightarrow> mg_rep mg xs"
  by (simp add: mg_rep_def)

lemma insert_slot:
  assumes "excluded xs key p p" and "p \<le> length xs" and "xs \<noteq> []"
  defines "end0 \<equiv> (if int p - 1 < 0 then 0 else nat (int p - 1))"
  shows "end0 < length xs" and "(if client_address (xs ! end0) < key then end0 + 1 else end0) = p"
proof -
  show "end0 < length xs" using assms(2,3) by (cases p) (auto simp: end0_def)
  show "(if client_address (xs ! end0) < key then end0 + 1 else end0) = p"
  proof (cases p)
    case 0
    then have "key < client_address (xs ! 0)" using assms(1,3) by (simp add: excluded_def)
    with 0 show ?thesis by (auto simp: end0_def)
  next
    case (Suc q)
    then have "client_address (xs ! q) < key" using assms(1,2) by (simp add: excluded_def)
    with Suc show ?thesis by (simp add: end0_def)
  qed
qed


lemma add_sorted_cases:
  assumes rep: "mg_rep mg xs"
  shows "(\<exists>mg' xs'. resource_mg_add_sorted (glibc alloc) mg key addr = Inr (0, mg') \<and> mg_rep mg' xs' \<and>
            mg_map xs' = (mg_map xs)(key \<mapsto> addr) \<and> new_res mg' = new_res mg) \<or>
         ((\<exists>mg'. resource_mg_add_sorted (glibc alloc) mg key addr = Inr (1, mg')) \<and>
          \<not> room (glibc alloc) (map_res mg))"
proof -
  note r = rep [unfolded mg_rep_def]
  have l: "len (map_res mg) = length xs" using r by (simp add: list_rep_len)
  have lr: "list_rep (map_res mg) xs" and srt: "sorted_wrt (<) (keys xs)" using r by simp_all
  let ?e = "\<lparr>client_address = key, cuda_address = addr\<rparr>"
  show ?thesis
  proof (cases "xs = []")
    case True
    then have eq: "resource_mg_add_sorted (glibc alloc) mg key addr =
        bind_r (list_append_copy (glibc alloc) (map_res mg) (Some ?e)) (\<lambda>(r, l). Inr (r, mg\<lparr>map_res := l\<rparr>))"
      using r l by (simp add: resource_mg_add_sorted_def)
    from cl.push_cases [OF lr, of alloc ?e] show ?thesis
    proof (elim disjE exE conjE)
      fix l' assume l': "list_append_copy (glibc alloc) (map_res mg) (Some ?e) = Inr (0, l')"
        "list_rep l' (xs @ [?e])"
      have "mg_rep (mg\<lparr>map_res := l'\<rparr>) [?e]"
        using r l'(2) True by (intro mg_repI) (simp_all add: keys_def)
      then show ?thesis using eq l'(1) True by (auto simp: mg_map_def mg_pairs_def)
    next
      fix l' assume l': "list_append_copy (glibc alloc) (map_res mg) (Some ?e) = Inr (1, l')"
      then have "\<not> room (glibc alloc) (map_res mg)"
        using list_append_copy_rep [OF lr glibc_bounded, of alloc ?e] by auto
      with eq l' show ?thesis by simp
    qed
  next
    case False
    have "(\<exists>m < length xs. client_address (xs ! m) = key \<and>
          find_slot (map_res mg) key 0 (int (length xs) - 1) = Inr (Found m)) \<or>
        (\<exists>p \<le> length xs. excluded xs key p p \<and>
          find_slot (map_res mg) key 0 (int (length xs) - 1) = Inr (Missing (int p - 1)))"
      by (rule find_slot_correct [OF lr srt]) (use excluded_all [of xs key] in auto)
    then show ?thesis
    proof (elim disjE exE conjE)
      fix m assume m: "m < length xs" "client_address (xs ! m) = key"
        and fs: "find_slot (map_res mg) key 0 (int (length xs) - 1) = Inr (Found m)"
      obtain l' where l': "set_elem (map_res mg) m ((xs ! m)\<lparr>cuda_address := addr\<rparr>) = Inr l'"
        "list_rep l' (xs[m := (xs ! m)\<lparr>cuda_address := addr\<rparr>])"
        using lr m(1) by (rule list_rep_update)
      have "resource_mg_add_sorted (glibc alloc) mg key addr = Inr (0, mg\<lparr>map_res := l'\<rparr>)"
        using r l False fs l' list_rep_cell [OF lr m(1)]
        by (simp add: resource_mg_add_sorted_def)
      moreover have "mg_rep (mg\<lparr>map_res := l'\<rparr>) (xs[m := (xs ! m)\<lparr>cuda_address := addr\<rparr>])"
        using r l' map_update_at(2) [OF m srt] by (intro mg_repI) simp_all
      ultimately show ?thesis using map_update_at(1) [OF m srt] by auto
    next
      fix p assume p: "p \<le> length xs" "excluded xs key p p"
        and fs: "find_slot (map_res mg) key 0 (int (length xs) - 1) = Inr (Missing (int p - 1))"
      note slot = insert_slot [OF p(2,1) False]
      have eq: "resource_mg_add_sorted (glibc alloc) mg key addr =
          bind_r (list_insert (glibc alloc) (map_res mg) p (Some ?e)) (\<lambda>(r, l). Inr (r, mg\<lparr>map_res := l\<rparr>))"
        unfolding resource_mg_add_sorted_def Let_def
        using r l False fs list_rep_cell [OF lr slot(1)] slot(2) by simp
      from cl.ins_cases [OF lr p(1), of alloc ?e] show ?thesis
      proof (elim disjE exE conjE)
        fix l' assume l': "list_insert (glibc alloc) (map_res mg) p (Some ?e) = Inr (0, l')"
          "list_rep l' (take p xs @ ?e # drop p xs)"
        have "mg_rep (mg\<lparr>map_res := l'\<rparr>) (take p xs @ ?e # drop p xs)"
          using r l'(2) map_insert_at(2) [OF p(2) srt p(1), of ?e] by (intro mg_repI) simp_all
        moreover have "resource_mg_add_sorted (glibc alloc) mg key addr = Inr (0, mg\<lparr>map_res := l'\<rparr>)"
          using eq l'(1) by simp
        ultimately show ?thesis using map_insert_at(1) [OF p(2) srt p(1), of ?e] by auto
      next
        fix l' assume l': "list_insert (glibc alloc) (map_res mg) p (Some ?e) = Inr (1, l')"
        then have "\<not> room (glibc alloc) (map_res mg)"
          using list_insert_rep [OF lr glibc_bounded _ p(1), of alloc ?e] by auto
        with eq l' show ?thesis by simp
      qed
    qed
  qed
qed

lemma resource_mg_get_rep:
  "mg_rep mg xs \<Longrightarrow> resource_mg_get mg key = Inr (lookup_or_key (mg_map xs) key)"
  by (simp add: resource_mg_get_def search_map_correct) (simp add: mg_rep_def)

section \<open>The handle-map interface\<close>

text \<open>
  What the checkpoint/restore code and the request handlers rely on: adding a translation
  either takes effect or reports 1, and a lookup returns the translation, or the handle
  itself when there is none. \<open>add_all\<close> is the loop of the callers.
\<close>

fun add_all :: "('s \<Rightarrow> 'k \<Rightarrow> 'k \<Rightarrow> (int \<times> 's) res) \<Rightarrow> 's \<Rightarrow> ('k \<times> 'k) list \<Rightarrow> (int \<times> 's) res" where
  "add_all add s [] = Inr (0, s)"
| "add_all add s (p # ps) =
     bind_r (add s (fst p) (snd p)) (\<lambda>(r, s'). if r \<noteq> 0 then Inr (r, s') else add_all add s' ps)"

locale handle_map =
  fixes hrep :: "'s \<Rightarrow> ('k \<rightharpoonup> 'k) \<Rightarrow> bool"
    and add :: "'s \<Rightarrow> 'k \<Rightarrow> 'k \<Rightarrow> (int \<times> 's) res"
    and lookup :: "'s \<Rightarrow> 'k \<Rightarrow> 'k res"
  assumes add_law: "hrep s m \<Longrightarrow>
      (\<exists>s'. add s k v = Inr (0, s') \<and> hrep s' (m(k \<mapsto> v))) \<or> (\<exists>s'. add s k v = Inr (1, s'))"
    and lookup_law: "hrep s m \<Longrightarrow> lookup s k = Inr (case m k of None \<Rightarrow> k | Some v \<Rightarrow> v)"
begin

lemma lookup_added: "hrep s m \<Longrightarrow> add s k v = Inr (0, s') \<Longrightarrow> lookup s' k = Inr v"
  using add_law [of s m k v] lookup_law [of s' "m(k \<mapsto> v)" k] by auto

lemma lookup_other:
  "hrep s m \<Longrightarrow> add s k v = Inr (0, s') \<Longrightarrow> k' \<noteq> k \<Longrightarrow> lookup s' k' = lookup s k'"
  using add_law [of s m k v] lookup_law [of s' "m(k \<mapsto> v)" k'] lookup_law [of s m k'] by auto

lemma add_all_hrep:
  "hrep s m \<Longrightarrow> add_all add s ps = Inr (0, s') \<Longrightarrow> hrep s' (m ++ map_of (rev ps))"
proof (induction ps arbitrary: s m)
  case (Cons p ps)
  from add_law [OF Cons.prems(1), of "fst p" "snd p"] show ?case
  proof (elim disjE exE conjE)
    fix s1 assume s1: "add s (fst p) (snd p) = Inr (0, s1)" "hrep s1 (m(fst p \<mapsto> snd p))"
    have "hrep s' ((m(fst p \<mapsto> snd p)) ++ map_of (rev ps))"
      by (rule Cons.IH [OF s1(2)]) (use s1(1) Cons.prems(2) in simp)
    moreover have "(m(fst p \<mapsto> snd p)) ++ map_of (rev ps) = m ++ map_of (rev (p # ps))"
      by (cases p) (simp only: rev.simps map_of_append map_add_assoc map_add_upd map_of.simps
          fst_conv snd_conv map_add_empty)
    ultimately show ?thesis by (simp only:)
  next
    fix s1 assume "add s (fst p) (snd p) = Inr (1, s1)"
    with Cons.prems(2) show ?thesis by simp
  qed
qed simp

lemma add_all_lookup:
  assumes "hrep s Map.empty" and "add_all add s ps = Inr (0, s')"
  shows "lookup s' k = Inr (case map_of (rev ps) k of None \<Rightarrow> k | Some v \<Rightarrow> v)"
  using lookup_law [OF add_all_hrep [OF assms], of k] by simp

lemma add_all_no_fault: "hrep s m \<Longrightarrow> \<exists>r s'. add_all add s ps = Inr (r, s')"
proof (induction ps arbitrary: s m)
  case (Cons p ps)
  from add_law [OF Cons.prems, of "fst p" "snd p"] show ?case
    by (elim disjE exE conjE) (use Cons.IH in auto)
qed simp

end

definition mg_handles :: "resource_mg \<Rightarrow> (u64 \<rightharpoonup> u64) \<Rightarrow> bool" where
  "mg_handles mg m \<longleftrightarrow> (\<exists>xs. mg_rep mg xs \<and> mg_map xs = m)"

interpretation rm: handle_map mg_handles
    "resource_mg_add_sorted (glibc alloc)" resource_mg_get
  for alloc :: allocator
proof unfold_locales
  fix s m k v
  assume "mg_handles s m"
  then obtain xs where xs: "mg_rep s xs" "mg_map xs = m" by (auto simp: mg_handles_def)
  show "(\<exists>s'. resource_mg_add_sorted (glibc alloc) s k v = Inr (0, s') \<and>
          mg_handles s' (m(k \<mapsto> v))) \<or>
        (\<exists>s'. resource_mg_add_sorted (glibc alloc) s k v = Inr (1, s'))"
    using add_sorted_cases [OF xs(1), of alloc k v] xs(2) by (auto simp: mg_handles_def)
  show "resource_mg_get s k = Inr (case m k of None \<Rightarrow> k | Some v \<Rightarrow> v)"
    using resource_mg_get_rep [OF xs(1), of k] xs(2) by (simp add: lookup_or_key_def)
qed


lemma resource_mg_init_handles:
  assumes "alloc 64" and "alloc 32"
  shows "\<exists>mg'. resource_mg_init alloc mg 0 = (0, mg') \<and> mg_handles mg' Map.empty \<and>
    list_rep (new_res mg') []"
proof -
  have n: "list_init alloc (new_res mg) 8 =
      (0, \<lparr>elements = Buf (replicate 4 None), len = 0, capacity = 4, element_size = 8\<rparr>)"
    using assms(2) by (intro list_init_eq) simp_all
  have m: "list_init alloc (map_res mg) 16 =
      (0, \<lparr>elements = Buf (replicate 4 None), len = 0, capacity = 4, element_size = 16\<rparr>)"
    using assms(1) by (intro list_init_eq) simp_all
  show ?thesis
    by (simp add: resource_mg_init_def n m mg_handles_def mg_rep_def list_rep_def list_wf_def
        list_abs_def keys_def mg_map_def mg_pairs_def)
qed

lemma resource_mg_init_bypass:
  assumes "alloc 32" and "byp \<noteq> 0"
  shows "\<exists>mg'. resource_mg_init alloc mg byp = (0, mg') \<and> bypass mg' = byp \<and>
    list_rep (new_res mg') []"
proof -
  have n: "list_init alloc (new_res mg) 8 =
      (0, \<lparr>elements = Buf (replicate 4 None), len = 0, capacity = 4, element_size = 8\<rparr>)"
    using assms(1) by (intro list_init_eq) simp_all
  show ?thesis using assms(2)
    by (simp add: resource_mg_init_def n list_rep_def list_wf_def list_abs_def)
qed

lemma resource_mg_create_rep:
  assumes "list_rep (new_res mg) xs"
  shows "(\<exists>mg'. resource_mg_create (glibc alloc) mg a = Inr (0, mg') \<and>
            list_rep (new_res mg') (xs @ [a]) \<and> map_res mg' = map_res mg \<and> bypass mg' = bypass mg) \<or>
         (\<exists>mg'. resource_mg_create (glibc alloc) mg a = Inr (1, mg'))"
  using cl.push_cases [OF assms, of alloc a]
  by (auto simp: resource_mg_create_def)

section \<open>When adding succeeds\<close>

lemma cells_append_size:
  "list_append alloc l want = Inr (r, l', p) \<Longrightarrow> element_size l' = element_size l"
  by (auto simp: list_append_def bind_r_Inr_iff split: if_splits)

lemma append_copy_size:
  "list_append_copy alloc l x = Inr (r, l') \<Longrightarrow> element_size l' = element_size l"
  by (auto simp: list_append_copy_def bind_r_Inr_iff dest!: cells_append_size
      split: if_split_asm option.split_asm)

lemma list_insert_size:
  "list_insert alloc l at x = Inr (r, l') \<Longrightarrow> element_size l' = element_size l"
  by (auto simp: list_insert_def bind_r_Inr_iff dest!: cells_append_size append_copy_size
      split: if_split_asm option.split_asm)

lemma add_sorted_size:
  assumes "resource_mg_add_sorted alloc mg key addr = Inr (r, mg')"
  shows "element_size (map_res mg') = element_size (map_res mg)"
proof (cases "bypass mg \<noteq> 0 \<or> len (map_res mg) = 0")
  case True
  with assms show ?thesis
    by (auto simp: resource_mg_add_sorted_def Let_def bind_r_Inr_iff dest!: append_copy_size
        split: if_split_asm)
next
  case False
  then obtain s where "find_slot (map_res mg) key 0 (int (len (map_res mg)) - 1) = Inr s"
    using assms
    by (cases "find_slot (map_res mg) key 0 (int (len (map_res mg)) - 1)")
      (simp_all add: resource_mg_add_sorted_def)
  with False assms show ?thesis
    by (cases s)
      (auto simp: resource_mg_add_sorted_def Let_def bind_r_Inr_iff set_elem_def
        dest!: list_insert_size split: if_split_asm)
qed

text \<open>\<open>mg_ready mg k\<close>: a manager that translates, with at most \<open>k\<close> entries of 16 bytes.\<close>

definition mg_ready :: "resource_mg \<Rightarrow> nat \<Rightarrow> bool" where
  "mg_ready mg k \<longleftrightarrow> (\<exists>xs. mg_rep mg xs \<and> length xs \<le> k) \<and> element_size (map_res mg) = 16"

lemma length_card: "mg_rep mg xs \<Longrightarrow> length xs = card (dom (mg_map xs))"
  using strict_sorted_iff [of "keys xs"] by (simp add: mg_rep_def dom_mg_map distinct_card)

lemma mg_ready_add:
  assumes "mg_ready mg k" and "\<forall>n \<le> 32 * (k + 1). glibc alloc n"
  shows "\<exists>mg'. resource_mg_add_sorted (glibc alloc) mg key addr = Inr (0, mg') \<and> mg_ready mg' (Suc k)"
proof -
  from assms(1) obtain xs where xs: "mg_rep mg xs" "length xs \<le> k" "element_size (map_res mg) = 16"
    by (auto simp: mg_ready_def)
  have lr: "list_rep (map_res mg) xs" using xs(1) by (simp add: mg_rep_def)
  have "\<forall>n \<le> 2 * (length xs + 1) * element_size (map_res mg). glibc alloc n"
    using assms(2) xs(2,3) by simp
  then have "room (glibc alloc) (map_res mg)" by (rule room_upto [OF lr])
  then obtain mg' xs' where m: "resource_mg_add_sorted (glibc alloc) mg key addr = Inr (0, mg')"
    "mg_rep mg' xs'" "mg_map xs' = (mg_map xs)(key \<mapsto> addr)"
    using add_sorted_cases [OF xs(1), of alloc key addr] by blast
  have "length xs' = card (insert key (dom (mg_map xs)))"
    using length_card [OF m(2)] m(3) by simp
  also have "\<dots> \<le> Suc (card (dom (mg_map xs)))"
    by (simp add: card_insert_le_m1 card_insert_if dom_mg_map)
  also have "\<dots> \<le> Suc k" using length_card [OF xs(1)] xs(2) by simp
  finally have "length xs' \<le> Suc k" .
  with m(1,2) add_sorted_size [OF m(1)] xs(3) show ?thesis by (auto simp: mg_ready_def)
qed

lemma mg_ready_mono: "mg_ready mg k \<Longrightarrow> k \<le> k' \<Longrightarrow> mg_ready mg k'"
  unfolding mg_ready_def using le_trans by blast

lemma mg_ready_handles: "mg_ready mg k \<Longrightarrow> \<exists>m. mg_handles mg m"
  by (auto simp: mg_ready_def mg_handles_def)

section \<open>Properties\<close>

lemma add_all_ready:
  "mg_ready mg k \<Longrightarrow> \<forall>n \<le> 32 * (k + length ps). glibc alloc n \<Longrightarrow>
     \<exists>mg'. add_all (resource_mg_add_sorted (glibc alloc)) mg ps = Inr (0, mg')"
proof (induction ps arbitrary: mg k)
  case (Cons p ps)
  from mg_ready_add [OF Cons.prems(1), of alloc "fst p" "snd p"] Cons.prems(2) obtain mg1 where
    m: "resource_mg_add_sorted (glibc alloc) mg (fst p) (snd p) = Inr (0, mg1)" "mg_ready mg1 (Suc k)"
    by auto
  from Cons.IH [OF m(2)] Cons.prems(2) m(1) show ?case by simp
qed simp

lemma resource_mg_init_ready:
  assumes "alloc 64" and "alloc 32" and "resource_mg_init alloc mg0 0 = (0, mg)"
  shows "mg_ready mg 0"
proof -
  have n: "list_init alloc (new_res mg0) 8 =
      (0, \<lparr>elements = Buf (replicate 4 None), len = 0, capacity = 4, element_size = 8\<rparr>)"
    using assms(2) by (intro list_init_eq) simp_all
  have m: "list_init alloc (map_res mg0) 16 =
      (0, \<lparr>elements = Buf (replicate 4 None), len = 0, capacity = 4, element_size = 16\<rparr>)"
    using assms(1) by (intro list_init_eq) simp_all
  from assms(3) show ?thesis
    by (auto simp: resource_mg_init_def n m mg_ready_def mg_rep_def list_rep_def list_wf_def
        list_abs_def keys_def)
qed

text \<open>C9: The resource manager is a finite map: starting from an initialised manager that does
  not bypass, any sequence of \<open>resource_mg_add_sorted\<close> calls, the same client address
  possibly several times, runs without a fault; it succeeds when the allocator grants the
  blocks for as many entries; and when it succeeds, the bisection of \<open>resource_mg_get\<close>
  returns for every address that was added the address it was added with last, and every
  other address unchanged. The bisection never runs out of bounds and ends within
  length + 1 steps.\<close>

theorem resource_mg_translates:
  assumes "alloc 64" and "alloc 32" and "resource_mg_init alloc mg0 0 = (0, mg)"
  shows "\<exists>r mg'. add_all (resource_mg_add_sorted (glibc alloc)) mg ps = Inr (r, mg') \<and>
    ((\<forall>n \<le> 32 * length ps. glibc alloc n) \<longrightarrow> r = 0) \<and>
    (r = 0 \<longrightarrow> (\<forall>key. resource_mg_get mg' key =
       Inr (case map_of (rev ps) key of None \<Rightarrow> key | Some v \<Rightarrow> v)))"
proof -
  have h: "mg_handles mg Map.empty"
    using resource_mg_init_handles [of alloc mg0] assms by auto
  obtain r mg' where a: "add_all (resource_mg_add_sorted (glibc alloc)) mg ps = Inr (r, mg')"
    using rm.add_all_no_fault [OF h, of alloc ps] by blast
  moreover have "(\<forall>n \<le> 32 * length ps. glibc alloc n) \<longrightarrow> r = 0"
    using add_all_ready [OF resource_mg_init_ready [OF assms], of ps alloc] a by auto
  moreover have "r = 0 \<longrightarrow> (\<forall>key. resource_mg_get mg' key =
       Inr (case map_of (rev ps) key of None \<Rightarrow> key | Some v \<Rightarrow> v))"
    using rm.add_all_lookup [OF h, of alloc ps mg'] a by auto
  ultimately show ?thesis by blast
qed

theorem resource_mg_translates_witness:
  "\<exists>mg'. add_all (resource_mg_add_sorted (glibc (\<lambda>n. n < 1000)))
       (snd (resource_mg_init (\<lambda>n. n < 1000) zero_mg 0))
       [(50, 1), (20, 2), (90, 3), (20, 4)] = Inr (0, mg') \<and>
     resource_mg_get mg' 20 = Inr 4 \<and> resource_mg_get mg' 50 = Inr 1 \<and> resource_mg_get mg' 31 = Inr 31"
proof -
  let ?al = "\<lambda>n. n < (1000 :: nat)" and ?ps = "[(50, 1), (20, 2), (90, 3), (20, 4)] :: (u64 \<times> u64) list"
  let ?mg = "snd (resource_mg_init ?al zero_mg 0)"
  have i: "resource_mg_init ?al zero_mg 0 = (0, ?mg)"
    using resource_mg_init_handles [of ?al zero_mg] by auto
  have al: "\<forall>n \<le> 32 * length ?ps. glibc ?al n" by (simp add: glibc_def)
  obtain r mg' where m: "add_all (resource_mg_add_sorted (glibc ?al)) ?mg ?ps = Inr (r, mg')"
    "(\<forall>n \<le> 32 * length ?ps. glibc ?al n) \<longrightarrow> r = 0"
    "r = 0 \<longrightarrow> (\<forall>key. resource_mg_get mg' key =
       Inr (case map_of (rev ?ps) key of None \<Rightarrow> key | Some v \<Rightarrow> v))"
    using resource_mg_translates [OF _ _ i, of ?ps] by auto
  then have "r = 0" using al by blast
  with m(1,3) show ?thesis by (intro exI [of _ mg']) simp
qed

text \<open>\<open>resource_mg_add_sorted\<close> on a sorted map keeps it sorted and behaves as a map update:
  the key is overwritten if present and inserted otherwise, nothing else changes; the only
  other outcome is return value 1, when the array is full and the allocator refuses the
  doubled block.\<close>

lemma resource_mg_add_sorted_refines:
  assumes "mg_rep mg xs"
  shows "(\<exists>mg' xs'. resource_mg_add_sorted (glibc alloc) mg key addr = Inr (0, mg') \<and>
            mg_rep mg' xs' \<and> mg_map xs' = (mg_map xs)(key \<mapsto> addr) \<and> new_res mg' = new_res mg) \<or>
         ((\<exists>mg'. resource_mg_add_sorted (glibc alloc) mg key addr = Inr (1, mg')) \<and>
          \<not> room (glibc alloc) (map_res mg))"
  using assms by (rule add_sorted_cases)

end
