(* ===== verification/ApiRecorder.thy ===== *)
theory ApiRecorder
  imports ResourceMg
begin

text \<open>
  The log of API calls of \<open>cpu/api-recorder.c\<close> and the macros of \<open>cpu/api-recorder.h\<close>:
  every handler of the server that changes device state appends one record (procedure
  number, the argument structure as raw bytes, the result union, optional bulk data). The
  log is what a checkpoint consists of.
\<close>

section \<open>Procedure numbers\<close>

text \<open>The numbers of \<open>cpu_rpc_prot.x\<close> the log is interpreted with.\<close>

definition CUDA_SET_DEVICE :: u32 where "CUDA_SET_DEVICE = 126"
definition CUDA_STREAM_CREATE :: u32 where "CUDA_STREAM_CREATE = 255"
definition CUDA_STREAM_CREATE_WITH_FLAGS :: u32 where "CUDA_STREAM_CREATE_WITH_FLAGS = 256"
definition CUDA_STREAM_CREATE_WITH_PRIORITY :: u32 where "CUDA_STREAM_CREATE_WITH_PRIORITY = 257"
definition CUDA_EVENT_CREATE :: u32 where "CUDA_EVENT_CREATE = 280"
definition CUDA_EVENT_CREATE_WITH_FLAGS :: u32 where "CUDA_EVENT_CREATE_WITH_FLAGS = 281"
definition CUDA_EVENT_DESTROY :: u32 where "CUDA_EVENT_DESTROY = 282"
definition CUDA_EVENT_RECORD :: u32 where "CUDA_EVENT_RECORD = 285"
definition CUDA_LAUNCH_COOPERATIVE_KERNEL :: u32 where "CUDA_LAUNCH_COOPERATIVE_KERNEL = 314"
definition CUDA_LAUNCH_KERNEL :: u32 where "CUDA_LAUNCH_KERNEL = 317"
definition CUDA_MALLOC :: u32 where "CUDA_MALLOC = 414"
definition CUDA_MALLOC_3D_ARRAY :: u32 where "CUDA_MALLOC_3D_ARRAY = 416"
definition CUDA_MALLOC_ARRAY :: u32 where "CUDA_MALLOC_ARRAY = 417"
definition CUDA_MEMCPY_HTOD :: u32 where "CUDA_MEMCPY_HTOD = 440"
definition CUDA_MEMCPY_DTOH :: u32 where "CUDA_MEMCPY_DTOH = 441"
definition CUDA_MEMCPY_DTOD :: u32 where "CUDA_MEMCPY_DTOD = 443"
definition CUDA_MEMCPY_TO_SYMBOL :: u32 where "CUDA_MEMCPY_TO_SYMBOL = 445"
definition rpc_cusolverDnCreate :: u32 where "rpc_cusolverDnCreate = 2001"
definition rpc_cublasCreate :: u32 where "rpc_cublasCreate = 3001"

named_theorems procs \<open>values of the procedure numbers\<close>

declare CUDA_SET_DEVICE_def [procs] CUDA_STREAM_CREATE_def [procs]
  CUDA_STREAM_CREATE_WITH_FLAGS_def [procs] CUDA_STREAM_CREATE_WITH_PRIORITY_def [procs]
  CUDA_EVENT_CREATE_def [procs] CUDA_EVENT_CREATE_WITH_FLAGS_def [procs]
  CUDA_EVENT_DESTROY_def [procs] CUDA_EVENT_RECORD_def [procs]
  CUDA_LAUNCH_COOPERATIVE_KERNEL_def [procs] CUDA_LAUNCH_KERNEL_def [procs]
  CUDA_MALLOC_def [procs] CUDA_MALLOC_3D_ARRAY_def [procs] CUDA_MALLOC_ARRAY_def [procs]
  CUDA_MEMCPY_HTOD_def [procs] CUDA_MEMCPY_DTOH_def [procs] CUDA_MEMCPY_DTOD_def [procs]
  CUDA_MEMCPY_TO_SYMBOL_def [procs] rpc_cusolverDnCreate_def [procs] rpc_cublasCreate_def [procs]

section \<open>Records\<close>

text \<open>
  \<open>arguments\<close> and \<open>data\<close> are heap blocks (\<open>None\<close> for NULL). The result union has 16 bytes:
  \<open>result_lo\<close> is its first 8 bytes (the error code of a \<open>ptr_result\<close> or the integer is the
  low half), \<open>result_hi\<close> the other 8 (the pointer of a \<open>ptr_result\<close>).
\<close>

record api_record =
  rq_function :: u32
  arg_size :: nat
  arguments :: "u8 list option"
  result_lo :: u64
  result_hi :: u64
  data :: "u8 list option"
  data_size :: nat

definition set_low32 :: "u64 \<Rightarrow> u32 \<Rightarrow> u64" where
  "set_low32 w v = word_of_int ((uint w div 2 ^ 32) * 2 ^ 32 + uint v)"

text \<open>
  What the C code gets from its environment: the allocator, the contents of fresh memory
  (\<open>fresh_record\<close> for an uninitialised slot of the log, \<open>fresh_byte\<close> for the padding of an
  argument structure, \<open>fresh_word\<close> and \<open>fresh_int\<close> for local variables that are read before
  they are set), and the CUDA libraries as a function from the name of the call and
  its arguments to the returned code, the values of the output arguments and the new state
  of the device.
\<close>

datatype cval = Int32 u32 | Word64 u64 | Bytes "u8 list" | Text string

type_synonym 'd cuda_api = "string \<Rightarrow> cval list \<Rightarrow> 'd \<Rightarrow> u32 \<times> cval list \<times> 'd"

record 'd env =
  heap_ok :: allocator
  fresh_record :: api_record
  fresh_byte :: u8
  fresh_word :: u64
  fresh_int :: int
  cuda :: "'d cuda_api"

text \<open>The value of the \<open>k\<close>-th output variable after a call.\<close>

definition out64 :: "'d env \<Rightarrow> cval list \<Rightarrow> nat \<Rightarrow> u64" where
  "out64 E outs k =
     (if k < length outs then (case outs ! k of Word64 w \<Rightarrow> w | _ \<Rightarrow> fresh_word E) else fresh_word E)"

definition out_bytes :: "'d env \<Rightarrow> cval list \<Rightarrow> nat \<Rightarrow> nat \<Rightarrow> u8 list" where
  "out_bytes E outs k n =
     (if k < length outs
      then (case outs ! k of Bytes bs \<Rightarrow> take n bs @ replicate (n - length bs) (fresh_byte E)
            | _ \<Rightarrow> replicate n (fresh_byte E))
      else replicate n (fresh_byte E))"

lemma length_out_bytes [simp]: "length (out_bytes E outs k n) = n"
  by (auto simp: out_bytes_def min_def split: cval.split)

section \<open>The recording macros\<close>

text \<open>
  \<open>RECORD_API\<close>: a new slot, a fresh argument structure of \<open>sz\<close> bytes. When
  \<open>list_append\<close> fails the macro logs and goes on through the uninitialised pointer.
\<close>

definition RECORD_API :: "'d env \<Rightarrow> u32 \<Rightarrow> nat \<Rightarrow> api_record clist \<Rightarrow> (nat \<times> api_record clist) res" where
  "RECORD_API E proc sz l =
     bind_r (list_append (heap_ok E) l True) (\<lambda>(r, l, p).
       case p of None \<Rightarrow> Inl Uninit_Read
       | Some i \<Rightarrow>
           (let args = (if heap_ok E sz then Some (replicate sz (fresh_byte E)) else None) in
            bind_r (set_elem l i ((fresh_record E)\<lparr>rq_function := proc, arg_size := sz,
                arguments := args, data_size := 0, data := None\<rparr>))
              (\<lambda>l. Inr (i, l))))"

definition RECORD_VOID_API :: "'d env \<Rightarrow> u32 \<Rightarrow> api_record clist \<Rightarrow> (nat \<times> api_record clist) res" where
  "RECORD_VOID_API E proc l =
     bind_r (list_append (heap_ok E) l True) (\<lambda>(r, l, p).
       case p of None \<Rightarrow> Inl Uninit_Read
       | Some i \<Rightarrow>
           bind_r (set_elem l i ((fresh_record E)\<lparr>rq_function := proc, arg_size := 0,
               arguments := None, data_size := 0, data := None\<rparr>))
             (\<lambda>l. Inr (i, l)))"

definition update_record ::
  "nat \<Rightarrow> (api_record \<Rightarrow> api_record res) \<Rightarrow> api_record clist \<Rightarrow> api_record clist res" where
  "update_record i f l = bind_r (elem_at l i) (\<lambda>r. bind_r (f r) (set_elem l i))"

text \<open>\<open>RECORD_ARG\<close>, \<open>RECORD_NARG\<close> and \<open>RECORD_SINGLE_ARG\<close> write one field at its offset.\<close>

definition RECORD_ARG :: "nat \<Rightarrow> nat \<Rightarrow> u8 list \<Rightarrow> api_record clist \<Rightarrow> api_record clist res" where
  "RECORD_ARG i off bs = update_record i (\<lambda>r.
     case arguments r of None \<Rightarrow> Inl Null_Deref
     | Some a \<Rightarrow> (if off + length bs \<le> length a then Inr (r\<lparr>arguments := Some (blit a off bs)\<rparr>)
                 else Inl Out_Of_Bounds))"

fun RECORD_ARGS :: "nat \<Rightarrow> (nat \<times> u8 list) list \<Rightarrow> api_record clist \<Rightarrow> api_record clist res" where
  "RECORD_ARGS i [] l = Inr l"
| "RECORD_ARGS i ((off, bs) # fs) l = bind_r (RECORD_ARG i off bs l) (RECORD_ARGS i fs)"

definition RECORD_RESULT_integer :: "nat \<Rightarrow> u32 \<Rightarrow> api_record clist \<Rightarrow> api_record clist res" where
  "RECORD_RESULT_integer i v =
     update_record i (\<lambda>r. Inr (r\<lparr>result_lo := set_low32 (result_lo r) v\<rparr>))"

definition RECORD_RESULT_ptr :: "nat \<Rightarrow> u32 \<Rightarrow> u64 \<Rightarrow> api_record clist \<Rightarrow> api_record clist res" where
  "RECORD_RESULT_ptr i err p =
     update_record i (\<lambda>r. Inr (r\<lparr>result_lo := set_low32 (result_lo r) err, result_hi := p\<rparr>))"

definition RECORD_DATA :: "'d env \<Rightarrow> nat \<Rightarrow> nat \<Rightarrow> u8 list \<Rightarrow> api_record clist \<Rightarrow> api_record clist res" where
  "RECORD_DATA E i sz src = update_record i (\<lambda>r.
     if length src < sz then Inl Out_Of_Bounds
     else if heap_ok E sz then Inr (r\<lparr>data_size := sz, data := Some (take sz src)\<rparr>)
     else if sz = 0 then Inr (r\<lparr>data_size := 0, data := None\<rparr>)
     else Inl Null_Deref)"

section \<open>Operations on the log\<close>

fun api_records_free_args :: "api_record clist \<Rightarrow> nat \<Rightarrow> nat \<Rightarrow> (u8 list list \<times> api_record clist) res" where
  "api_records_free_args l i 0 = Inr ([], l)"
| "api_records_free_args l i (Suc n) =
     (case list_at l i of
        (_, None) \<Rightarrow> api_records_free_args l (Suc i) n
      | (_, Some p) \<Rightarrow>
          bind_r (elem_at l p) (\<lambda>r. bind_r (set_elem l p (r\<lparr>arguments := None\<rparr>)) (\<lambda>l.
            bind_r (api_records_free_args l (Suc i) n) (\<lambda>(fs, l).
              Inr ((case arguments r of None \<Rightarrow> [] | Some a \<Rightarrow> [a]) @ fs, l)))))"

fun api_records_free_data :: "api_record clist \<Rightarrow> nat \<Rightarrow> nat \<Rightarrow> (u8 list list \<times> api_record clist) res" where
  "api_records_free_data l i 0 = Inr ([], l)"
| "api_records_free_data l i (Suc n) =
     (case list_at l i of
        (_, None) \<Rightarrow> api_records_free_data l (Suc i) n
      | (_, Some p) \<Rightarrow>
          bind_r (elem_at l p) (\<lambda>r. bind_r (set_elem l p (r\<lparr>data := None\<rparr>)) (\<lambda>l.
            bind_r (api_records_free_data l (Suc i) n) (\<lambda>(fs, l).
              Inr ((case data r of None \<Rightarrow> [] | Some a \<Rightarrow> [a]) @ fs, l)))))"

text \<open>The result lists the blocks handed to \<open>free\<close>, in order.\<close>

definition api_records_free :: "api_record clist \<Rightarrow> (u8 list list \<times> api_record clist) res" where
  "api_records_free l =
     bind_r (api_records_free_args l 0 (len l)) (\<lambda>(fa, l).
       bind_r (api_records_free_data l 0 (len l)) (\<lambda>(fd, l).
         bind_r (list_free l) (\<lambda>(_, l). Inr (fa @ fd, l))))"

text \<open>\<open>*(size_t* )record->arguments\<close>.\<close>

definition arg_word :: "api_record \<Rightarrow> nat \<Rightarrow> nat \<Rightarrow> nat res" where
  "arg_word r off n =
     (case arguments r of None \<Rightarrow> Inl Null_Deref
      | Some a \<Rightarrow> (if off + n \<le> length a then Inr (le_val (blk off n a)) else Inl Out_Of_Bounds))"

fun malloc_size_loop :: "api_record clist \<Rightarrow> u64 \<Rightarrow> nat \<Rightarrow> nat \<Rightarrow> nat res" where
  "malloc_size_loop l p i 0 = Inr 0"
| "malloc_size_loop l p i (Suc n) =
     bind_r (elem_at l i) (\<lambda>r.
       if rq_function r \<noteq> CUDA_MALLOC then malloc_size_loop l p (Suc i) n
       else if p = result_hi r then arg_word r 0 8
       else malloc_size_loop l p (Suc i) n)"

definition api_records_malloc_get_size :: "api_record clist \<Rightarrow> u64 \<Rightarrow> nat res" where
  "api_records_malloc_get_size l p = malloc_size_loop l p 0 (len l)"

text \<open>
  \<open>api_records_print_records\<close> formats into \<open>char str[128]\<close>; the result is the string
  without its terminating NUL.
\<close>

definition api_records_print_records :: "api_record \<Rightarrow> string res" where
  "api_records_print_records r =
     (let s = ''function: '' @ dec (unat (rq_function r)) @ '' '' in
      if rq_function r = CUDA_MALLOC
      then bind_r (arg_word r 0 8) (\<lambda>n.
             Inr (s @ ''(cuda_malloc), arg='' @ dec n @ '', result='' @ hex (unat (result_hi r))))
      else if rq_function r = CUDA_SET_DEVICE then Inr (s @ ''(cuda_set_device)'')
      else if rq_function r = CUDA_EVENT_CREATE then Inr (s @ ''(cuda_even_create)'')
      else if rq_function r = CUDA_MEMCPY_HTOD then Inr (s @ ''(cuda_memcpy_htod)'')
      else if rq_function r = CUDA_EVENT_RECORD then Inr (s @ ''(cuda_event_record)'')
      else if rq_function r = CUDA_EVENT_DESTROY then Inr (s @ ''(cuda_event_destroy)'')
      else if rq_function r = CUDA_STREAM_CREATE_WITH_FLAGS
      then Inr (s @ ''(cuda_stream_create_with_flags)'')
      else Inr s)"

section \<open>Updating records of the log\<close>

definition append_slot :: "allocator \<Rightarrow> 'a clist \<Rightarrow> 'a \<Rightarrow> (nat \<times> 'a clist) res" where
  "append_slot alloc l x =
     bind_r (list_append alloc l True) (\<lambda>(r, l, p).
       case p of None \<Rightarrow> Inl Uninit_Read
       | Some i \<Rightarrow> bind_r (set_elem l i x) (\<lambda>l. Inr (i, l)))"

lemma append_slot_rep:
  assumes rep: "list_rep l xs" and room: "room (glibc alloc) l"
  shows "\<exists>l'. append_slot (glibc alloc) l x = Inr (length xs, l') \<and> list_rep l' (xs @ [x]) \<and>
    element_size l' = element_size l"
proof -
  obtain l1 where app: "list_append (glibc alloc) l True = Inr (0, l1, Some (len l))"
    using list_append_grows [OF rep glibc_bounded room] by blast
  obtain l' where l': "list_append_copy (glibc alloc) l (Some x) = Inr (0, l')"
    "list_rep l' (xs @ [x])" "element_size l' = element_size l"
    using list_append_copy_rep [OF rep glibc_bounded room, of x] by blast
  from l'(1) app have "set_elem l1 (len l) x = Inr l'"
    by (auto simp: list_append_copy_def set_elem_def list_get_def bind_r_Inr_iff)
  with app l' rep show ?thesis by (simp add: append_slot_def list_rep_len)
qed

lemma append_slot_full:
  "list_rep l xs \<Longrightarrow> \<not> room alloc l \<Longrightarrow> append_slot alloc l x = Inl Uninit_Read"
  by (simp add: append_slot_def list_append_full_fails)

lemma append_slot_Inr:
  assumes "list_rep l xs" and "append_slot (glibc alloc) l x = Inr (i, l')"
  shows "i = length xs \<and> list_rep l' (xs @ [x])"
proof (cases "room (glibc alloc) l")
  case True
  with append_slot_rep [OF assms(1) True, of x] assms(2) show ?thesis by auto
next
  case False
  with append_slot_full [OF assms(1) False, of x] assms(2) show ?thesis by simp
qed

lemma set_elem_Inr:
  assumes "list_rep l xs" and "i < length xs" and "set_elem l i x = Inr l'"
  shows "list_rep l' (xs[i := x])"
proof -
  obtain l2 where "set_elem l i x = Inr l2" "list_rep l2 (xs[i := x])"
    using assms(1,2) by (rule list_rep_update)
  with assms(3) show ?thesis by simp
qed

lemma update_record_rep:
  assumes "list_rep l xs" and "i < length xs" and "f (xs ! i) = Inr r"
  shows "\<exists>l'. update_record i f l = Inr l' \<and> list_rep l' (xs[i := r])"
proof -
  obtain l' where "set_elem l i r = Inr l'" "list_rep l' (xs[i := r])"
    using assms(1,2) by (rule list_rep_update)
  then show ?thesis using assms by (simp add: update_record_def list_rep_cell)
qed

lemma update_record_Inr:
  assumes "list_rep l xs" and "i < length xs" and "update_record i f l = Inr l'"
  shows "\<exists>r. f (xs ! i) = Inr r \<and> list_rep l' (xs[i := r])"
  using assms set_elem_Inr [OF assms(1,2)]
  by (auto simp: update_record_def list_rep_cell bind_r_Inr_iff)

text \<open>The argument structure a handler has recorded: its fields over fresh memory.\<close>

definition put_fields :: "(nat \<times> u8 list) list \<Rightarrow> u8 list \<Rightarrow> u8 list" where
  "put_fields fs a = fold (\<lambda>(off, bs) a. blit a off bs) fs a"

definition fields_fit :: "(nat \<times> u8 list) list \<Rightarrow> nat \<Rightarrow> bool" where
  "fields_fit fs n \<longleftrightarrow> (\<forall>(off, bs) \<in> set fs. off + length bs \<le> n)"

lemma put_fields_Nil [simp]: "put_fields [] a = a"
  by (simp add: put_fields_def)

lemma put_fields_Cons [simp]: "put_fields ((off, bs) # fs) a = put_fields fs (blit a off bs)"
  by (simp add: put_fields_def)

lemma length_put_fields: "fields_fit fs (length a) \<Longrightarrow> length (put_fields fs a) = length a"
  by (induction fs arbitrary: a) (auto simp: fields_fit_def)

lemma RECORD_ARG_rep:
  assumes "list_rep l xs" and "i < length xs" and "arguments (xs ! i) = Some a"
    and "off + length bs \<le> length a"
  shows "\<exists>l'. RECORD_ARG i off bs l = Inr l' \<and>
    list_rep l' (xs[i := (xs ! i)\<lparr>arguments := Some (blit a off bs)\<rparr>])"
  unfolding RECORD_ARG_def by (rule update_record_rep [OF assms(1,2)]) (use assms in simp)

lemma RECORD_ARGS_rep:
  "list_rep l xs \<Longrightarrow> i < length xs \<Longrightarrow> arguments (xs ! i) = Some a \<Longrightarrow> fields_fit fs (length a) \<Longrightarrow>
   \<exists>l'. RECORD_ARGS i fs l = Inr l' \<and>
        list_rep l' (xs[i := (xs ! i)\<lparr>arguments := Some (put_fields fs a)\<rparr>])"
proof (induction fs arbitrary: l xs a)
  case Nil
  then have "xs[i := (xs ! i)\<lparr>arguments := Some a\<rparr>] = xs"
    by (intro list_update_same_conv [THEN iffD2]) simp_all
  with Nil show ?case by (simp del: list_update_same_conv)
next
  case (Cons f fs)
  obtain off bs where f: "f = (off, bs)" by fastforce
  have fit: "off + length bs \<le> length a" using Cons.prems(4) f by (simp add: fields_fit_def)
  let ?r = "(xs ! i)\<lparr>arguments := Some (blit a off bs)\<rparr>"
  obtain l1 where l1: "RECORD_ARG i off bs l = Inr l1" "list_rep l1 (xs[i := ?r])"
    using RECORD_ARG_rep [OF Cons.prems(1-3) fit] by blast
  have "\<exists>l'. RECORD_ARGS i fs l1 = Inr l' \<and>
      list_rep l' (xs[i := ?r, i := (xs[i := ?r] ! i)\<lparr>arguments := Some (put_fields fs (blit a off bs))\<rparr>])"
    using Cons.prems fit f by (intro Cons.IH [OF l1(2)]) (auto simp: fields_fit_def)
  with l1(1) f Cons.prems(2) show ?case by simp
qed

lemma RECORD_ARGS_Inr:
  "list_rep l xs \<Longrightarrow> i < length xs \<Longrightarrow> RECORD_ARGS i fs l = Inr l' \<Longrightarrow>
   \<exists>a. list_rep l' (xs[i := (xs ! i)\<lparr>arguments := a\<rparr>])"
proof (induction fs arbitrary: l xs)
  case Nil
  then have "list_rep l' (xs[i := (xs ! i)\<lparr>arguments := arguments (xs ! i)\<rparr>])" by simp
  then show ?case by blast
next
  case (Cons f fs)
  obtain off bs where f: "f = (off, bs)" by fastforce
  with Cons.prems obtain l1 where l1: "RECORD_ARG i off bs l = Inr l1" "RECORD_ARGS i fs l1 = Inr l'"
    by (auto simp: bind_r_Inr_iff)
  from update_record_Inr [OF Cons.prems(1,2) l1(1) [unfolded RECORD_ARG_def]]
  obtain a where "list_rep l1 (xs[i := (xs ! i)\<lparr>arguments := a\<rparr>])"
    by (auto split: option.splits if_splits)
  from Cons.IH [OF this _ l1(2)] Cons.prems(2) show ?case by auto
qed

section \<open>Freeing the log\<close>

definition opt_list :: "'a option \<Rightarrow> 'a list" where
  "opt_list x = (case x of None \<Rightarrow> [] | Some a \<Rightarrow> [a])"

lemma free_args_rep:
  "list_rep l xs \<Longrightarrow> i + n = length xs \<Longrightarrow>
   \<exists>l'. api_records_free_args l i n = Inr (concat (map (\<lambda>r. opt_list (arguments r)) (drop i xs)), l') \<and>
     list_rep l' (take i xs @ map (\<lambda>r. r\<lparr>arguments := None\<rparr>) (drop i xs))"
proof (induction n arbitrary: i l xs)
  case (Suc n)
  have i: "i < length xs" using Suc.prems(2) by simp
  let ?r = "(xs ! i)\<lparr>arguments := None\<rparr>"
  obtain l1 where l1: "set_elem l i ?r = Inr l1" "list_rep l1 (xs[i := ?r])"
    using Suc.prems(1) i by (rule list_rep_update)
  have d: "drop i xs = xs ! i # drop (Suc i) xs" using i by (simp add: Cons_nth_drop_Suc)
  have t: "take (Suc i) (xs[i := ?r]) = take i xs @ [?r]" using i
    by (simp add: take_Suc_conv_app_nth)
  from Suc.IH [OF l1(2), of "Suc i"] Suc.prems(2)
  obtain l' where l': "api_records_free_args l1 (Suc i) n
      = Inr (concat (map (\<lambda>r. opt_list (arguments r)) (drop (Suc i) xs)), l')"
    "list_rep l' (take i xs @ ?r # map (\<lambda>r. r\<lparr>arguments := None\<rparr>) (drop (Suc i) xs))"
    unfolding t by (auto simp: drop_update_cancel)
  have "list_at l i = (0, Some i)"
    using Suc.prems(1) i by (simp add: list_at_def list_rep_len list_get_def)
  with l' l1(1) list_rep_cell [OF Suc.prems(1) i] show ?case
    by (auto simp: d opt_list_def split: option.split)
qed simp

lemma free_data_rep:
  "list_rep l xs \<Longrightarrow> i + n = length xs \<Longrightarrow>
   \<exists>l'. api_records_free_data l i n = Inr (concat (map (\<lambda>r. opt_list (data r)) (drop i xs)), l') \<and>
     list_rep l' (take i xs @ map (\<lambda>r. r\<lparr>data := None\<rparr>) (drop i xs))"
proof (induction n arbitrary: i l xs)
  case (Suc n)
  have i: "i < length xs" using Suc.prems(2) by simp
  let ?r = "(xs ! i)\<lparr>data := None\<rparr>"
  obtain l1 where l1: "set_elem l i ?r = Inr l1" "list_rep l1 (xs[i := ?r])"
    using Suc.prems(1) i by (rule list_rep_update)
  have d: "drop i xs = xs ! i # drop (Suc i) xs" using i by (simp add: Cons_nth_drop_Suc)
  have t: "take (Suc i) (xs[i := ?r]) = take i xs @ [?r]" using i
    by (simp add: take_Suc_conv_app_nth)
  from Suc.IH [OF l1(2), of "Suc i"] Suc.prems(2)
  obtain l' where l': "api_records_free_data l1 (Suc i) n
      = Inr (concat (map (\<lambda>r. opt_list (data r)) (drop (Suc i) xs)), l')"
    "list_rep l' (take i xs @ ?r # map (\<lambda>r. r\<lparr>data := None\<rparr>) (drop (Suc i) xs))"
    unfolding t by (auto simp: drop_update_cancel)
  have "list_at l i = (0, Some i)"
    using Suc.prems(1) i by (simp add: list_at_def list_rep_len list_get_def)
  with l' l1(1) list_rep_cell [OF Suc.prems(1) i] show ?case
    by (auto simp: d opt_list_def split: option.split)
qed simp


lemma api_records_free_rep:
  assumes "list_rep l xs"
  shows "\<exists>l'. api_records_free l =
    Inr (concat (map (\<lambda>r. opt_list (arguments r)) xs) @ concat (map (\<lambda>r. opt_list (data r)) xs), l') \<and>
    elements l' = Freed_Buf \<and> len l' = 0"
proof -
  obtain l1 where l1: "api_records_free_args l 0 (length xs) =
      Inr (concat (map (\<lambda>r. opt_list (arguments r)) xs), l1)"
    "list_rep l1 (map (\<lambda>r. r\<lparr>arguments := None\<rparr>) xs)"
    using free_args_rep [OF assms, of 0 "length xs"] by auto
  obtain l2 where l2: "api_records_free_data l1 0 (length xs) =
      Inr (concat (map (\<lambda>r. opt_list (data r)) xs), l2)"
    "list_rep l2 (map (\<lambda>r. r\<lparr>data := None\<rparr>) (map (\<lambda>r. r\<lparr>arguments := None\<rparr>) xs))"
    using free_data_rep [OF l1(2), of 0 "length xs"] by (auto simp: comp_def)
  from l2(2) obtain b where "elements l2 = Buf b" by (rule list_repE)
  then show ?thesis
    using l1(1) l2(1) list_rep_len [OF assms] list_rep_len [OF l1(2)]
    by (simp add: api_records_free_def list_free_def)
qed

section \<open>Searching and printing\<close>

lemma malloc_size_loop_rep:
  "list_rep l xs \<Longrightarrow> i + n = length xs \<Longrightarrow>
   malloc_size_loop l p i n =
     (case find (\<lambda>r. rq_function r = CUDA_MALLOC \<and> result_hi r = p) (drop i xs) of
        None \<Rightarrow> Inr 0 | Some r \<Rightarrow> arg_word r 0 8)"
proof (induction n arbitrary: i)
  case (Suc n)
  then have i: "i < length xs" by simp
  then have d: "drop i xs = xs ! i # drop (Suc i) xs" by (simp add: Cons_nth_drop_Suc)
  show ?case
    using Suc list_rep_cell [OF Suc.prems(1) i] by (auto simp: d)
qed simp

lemma dec_length: "n < 10 ^ 20 \<Longrightarrow> length (dec n) \<le> 20"
  unfolding dec_def using digits_length [of 10 n 19] by simp

lemma dec_length_u32: "length (dec (unat (w :: u32))) \<le> 10"
  unfolding dec_def using digits_length [of 10 "unat w" 9] unat_u32_less [of w] by simp

lemma hex_length_u64: "length (hex (unat (w :: u64))) \<le> 16"
  unfolding hex_def using digits_length [of 16 "unat w" 15] unat_u64_less [of w] by simp

lemma arg_word_bound: "arg_word r off 8 = Inr n \<Longrightarrow> n < 2 ^ 64"
  using le_val_bound [of "blk off 8 (the (arguments r))"]
  by (auto simp: arg_word_def split: option.splits if_splits)

section \<open>Properties\<close>

text \<open>\<open>api_records_free\<close> hands every argument block and then every data block of the log to
  \<open>free\<close>, each exactly once and in the order of the log, skips the NULL pointers, and ends
  with an empty, freed list.\<close>

lemma api_records_free_complete:
  assumes "list_rep l xs"
  shows "\<exists>l'. api_records_free l =
    Inr (concat (map (\<lambda>r. opt_list (arguments r)) xs) @ concat (map (\<lambda>r. opt_list (data r)) xs), l') \<and>
    elements l' = Freed_Buf \<and> len l' = 0"
  using assms by (rule api_records_free_rep)

text \<open>The 128-byte buffer of \<open>api_records_print_records\<close> never overflows: whatever the
  record holds, the formatted line with its terminating NUL has at most 87 bytes. (The only
  fault left is the dereference of a missing argument block of a \<open>cudaMalloc\<close> record.)\<close>

lemma print_records_fits:
  assumes "api_records_print_records r = Inr s"
  shows "length s + 1 \<le> 87"
proof (cases "rq_function r = CUDA_MALLOC")
  case True
  with assms obtain n where n: "arg_word r 0 8 = Inr n"
    and s: "s = ''function: '' @ dec (unat (rq_function r)) @ '' (cuda_malloc), arg='' @ dec n @
      '', result='' @ hex (unat (result_hi r))"
    by (auto simp: api_records_print_records_def Let_def bind_r_Inr_iff)
  have "n < 10 ^ 20" using arg_word_bound [OF n] by simp
  then have "length (dec n) \<le> 20" by (rule dec_length)
  with s dec_length_u32 [of "rq_function r"] hex_length_u64 [of "result_hi r"]
  show ?thesis by simp
next
  case False
  with assms dec_length_u32 [of "rq_function r"] show ?thesis
    by (auto simp: api_records_print_records_def Let_def split: if_splits)
qed

text \<open>\<open>api_records_malloc_get_size\<close> returns the size argument of the first recorded
  \<open>cudaMalloc\<close> whose result is the given pointer, and 0 when there is none.\<close>

lemma malloc_get_size_finds:
  assumes "list_rep l xs"
  shows "api_records_malloc_get_size l p =
    (case find (\<lambda>r. rq_function r = CUDA_MALLOC \<and> result_hi r = p) xs of
       None \<Rightarrow> Inr 0 | Some r \<Rightarrow> arg_word r 0 8)"
  using malloc_size_loop_rep [OF assms, of 0 "length xs" p] list_rep_len [OF assms]
  by (simp add: api_records_malloc_get_size_def)

end
