(* ===== verification/CrFile.thy ===== *)
theory CrFile
  imports ApiRecorder
begin

text \<open>
  The checkpoint files of \<open>cpu/cr.c\<close>: how a record of the log is written to and read from a
  file (\<open>cr_dump_api_record\<close>, \<open>cr_restore_api_record\<close>, \<open>cr_dump\<close>), the file with the RPC
  identification and the files with the contents of device memory.
\<close>

section \<open>Files\<close>

text \<open>
  The file system: the contents of the files by name, which names can be opened for writing,
  and how many bytes still fit. Writing truncates what does not fit (a short \<open>fwrite\<close>).
\<close>

record fsys =
  files :: "string \<rightharpoonup> u8 list"
  creatable :: "string \<Rightarrow> bool"
  disk_free :: nat

definition fopen_w :: "string \<Rightarrow> fsys \<Rightarrow> fsys option" where
  "fopen_w name fs = (if creatable fs name then Some (fs\<lparr>files := (files fs)(name \<mapsto> [])\<rparr>) else None)"

definition fwrite :: "string \<Rightarrow> u8 list \<Rightarrow> fsys \<Rightarrow> bool \<times> fsys" where
  "fwrite name bs fs =
     (let n = min (length bs) (disk_free fs);
          old = (case files fs name of None \<Rightarrow> [] | Some c \<Rightarrow> c)
      in (n = length bs, fs\<lparr>files := (files fs)(name \<mapsto> old @ take n bs), disk_free := disk_free fs - n\<rparr>))"

text \<open>A file being read: the bytes ahead and the end-of-file flag.\<close>

record rfile =
  ahead :: "u8 list"
  eof :: bool

definition fopen_r :: "string \<Rightarrow> fsys \<Rightarrow> rfile option" where
  "fopen_r name fs = map_option (\<lambda>c. \<lparr>ahead = c, eof = False\<rparr>) (files fs name)"

definition fread :: "nat \<Rightarrow> rfile \<Rightarrow> u8 list \<times> rfile" where
  "fread n f = (take n (ahead f), \<lparr>ahead = drop n (ahead f), eof = eof f \<or> length (ahead f) < n\<rparr>)"

text \<open>\<open>asprintf\<close> allocates the string and its NUL.\<close>

definition asprintf :: "'d env \<Rightarrow> string \<Rightarrow> string option" where
  "asprintf E s = (if heap_ok E (length s + 1) then Some s else None)"

text \<open>Reading \<open>n\<close> bytes through a pointer.\<close>

definition read_block :: "u8 list option \<Rightarrow> nat \<Rightarrow> u8 list res" where
  "read_block p n =
     (if n = 0 then Inr []
      else case p of None \<Rightarrow> Inl Null_Deref
        | Some a \<Rightarrow> (if n \<le> length a then Inr (take n a) else Inl Out_Of_Bounds))"

section \<open>Dumping the log\<close>

definition cr_dump_api_record :: "string \<Rightarrow> api_record \<Rightarrow> fsys \<Rightarrow> (int \<times> fsys) res" where
  "cr_dump_api_record fp r fs =
     (let (ok, fs) = fwrite fp (le_bytes 4 (unat (rq_function r))) fs in
      if \<not> ok then Inr (1, fs)
      else let (ok, fs) = fwrite fp (le_bytes 8 (arg_size r)) fs in
      if \<not> ok then Inr (1, fs)
      else bind_r (read_block (arguments r) (arg_size r)) (\<lambda>args.
        let (ok, fs) = fwrite fp args fs in
        if \<not> ok then Inr (1, fs)
        else let (ok, fs) = fwrite fp (le_bytes 8 (unat (result_lo r)) @ le_bytes 8 (unat (result_hi r))) fs in
        if \<not> ok then Inr (1, fs)
        else let (ok, fs) = fwrite fp (le_bytes 8 (data_size r)) fs in
        if \<not> ok then Inr (1, fs)
        else if data_size r > 0 \<and> data r \<noteq> None
        then bind_r (read_block (data r) (data_size r)) (\<lambda>d.
               let (ok, fs) = fwrite fp d fs in
               if \<not> ok then Inr (1, fs) else Inr (0, fs))
        else Inr (0, fs)))"

fun cr_dump_loop :: "string \<Rightarrow> api_record clist \<Rightarrow> nat \<Rightarrow> nat \<Rightarrow> fsys \<Rightarrow> (int \<times> fsys) res" where
  "cr_dump_loop fp l i 0 fs = Inr (0, fs)"
| "cr_dump_loop fp l i (Suc n) fs =
     (case list_at l i of
        (_, None) \<Rightarrow> Inr (1, fs)
      | (_, Some p) \<Rightarrow>
          bind_r (elem_at l p) (\<lambda>r.
            bind_r (cr_dump_api_record fp r fs) (\<lambda>(ret, fs).
              if ret \<noteq> 0 then Inr (1, fs)
              else bind_r (api_records_print_records r) (\<lambda>_. cr_dump_loop fp l (Suc i) n fs))))"

definition cr_dump :: "'d env \<Rightarrow> string \<Rightarrow> api_record clist \<Rightarrow> fsys \<Rightarrow> (int \<times> fsys) res" where
  "cr_dump E path l fs =
     (case asprintf E (path @ ''/'' @ ''api_records'') of
        None \<Rightarrow> Inr (1, fs)
      | Some name \<Rightarrow>
          (case fopen_w name fs of
             None \<Rightarrow> Inr (1, fs)
           | Some fs \<Rightarrow> cr_dump_loop name l 0 (len l) fs))"

section \<open>Reading a record back\<close>

text \<open>
  The result code is 2 at the end of the file, 1 after any other failure; the record is
  filled in field by field, so a failure leaves it half filled.
\<close>

definition cr_restore_api_record :: "'d env \<Rightarrow> rfile \<Rightarrow> api_record \<Rightarrow> int \<times> rfile \<times> api_record" where
  "cr_restore_api_record E f r =
     (let (bs, f) = fread 4 f in
      if length bs \<noteq> 4 then (if eof f then (2, f, r) else (1, f, r))
      else let r = r\<lparr>rq_function := of_nat (le_val bs)\<rparr>; (bs, f) = fread 8 f in
      if length bs \<noteq> 8 then (1, f, r)
      else let r = r\<lparr>arg_size := le_val bs\<rparr>; n = arg_size r in
      if \<not> heap_ok E n then (1, f, r\<lparr>arguments := None\<rparr>)
      else let (bs, f) = fread n f;
               r = r\<lparr>arguments := Some (bs @ replicate (n - length bs) (fresh_byte E))\<rparr> in
      if length bs \<noteq> n then (1, f, r)
      else let (bs, f) = fread 16 f in
      if length bs \<noteq> 16 then (1, f, r)
      else let r = r\<lparr>result_lo := of_nat (le_val (take 8 bs)), result_hi := of_nat (le_val (drop 8 bs))\<rparr>;
               (bs, f) = fread 8 f in
      if length bs \<noteq> 8 then (1, f, r)
      else let r = r\<lparr>data_size := le_val bs\<rparr>; n = data_size r in
      if n > 0
      then (if \<not> heap_ok E n then (1, f, r\<lparr>data := None\<rparr>)
            else let (bs, f) = fread n f;
                     r = r\<lparr>data := Some (bs @ replicate (n - length bs) (fresh_byte E))\<rparr> in
              if length bs \<noteq> n then (1, f, r) else (0, f, r))
      else (0, f, r\<lparr>data := None\<rparr>))"

section \<open>The file with the RPC identification\<close>

definition cr_dump_rpc_id :: "'d env \<Rightarrow> string \<Rightarrow> u64 \<Rightarrow> u64 \<Rightarrow> fsys \<Rightarrow> int \<times> fsys" where
  "cr_dump_rpc_id E path prog vers fs =
     (case asprintf E (path @ ''/'' @ ''rpc_id'') of
        None \<Rightarrow> (1, fs)
      | Some name \<Rightarrow>
          (case fopen_w name fs of
             None \<Rightarrow> (1, fs)
           | Some fs \<Rightarrow>
               (let (ok, fs) = fwrite name (le_bytes 8 (unat prog)) fs in
                if \<not> ok then (1, fs)
                else let (ok, fs) = fwrite name (le_bytes 8 (unat vers)) fs in
                if \<not> ok then (1, fs) else (0, fs))))"

text \<open>\<open>prog\<close> and \<open>vers\<close> are the variables of the caller, \<open>None\<close> for a NULL pointer.\<close>

definition cr_restore_rpc_id ::
  "'d env \<Rightarrow> string \<Rightarrow> u64 option \<Rightarrow> u64 option \<Rightarrow> fsys \<Rightarrow> int \<times> u64 option \<times> u64 option" where
  "cr_restore_rpc_id E path prog vers fs =
     (if prog = None \<or> vers = None then (1, prog, vers)
      else case asprintf E (path @ ''/'' @ ''rpc_id'') of
        None \<Rightarrow> (1, prog, vers)
      | Some name \<Rightarrow>
          (case fopen_r name fs of
             None \<Rightarrow> (1, prog, vers)
           | Some f \<Rightarrow>
               (let (bs, f) = fread 8 f;
                    prog' = Some (of_nat (le_val (bs @ drop (length bs) (le_bytes 8 (unat (the prog)))))) in
                if length bs \<noteq> 8 then (1, prog', vers)
                else let (bs, f) = fread 8 f;
                         vers' = Some (of_nat (le_val (bs @ drop (length bs) (le_bytes 8 (unat (the vers))))))
                in if length bs \<noteq> 8 then (1, prog', vers') else (0, prog', vers'))))"

section \<open>One record: writing and reading are inverse\<close>

text \<open>
  A record a handler has completed: its blocks have the recorded sizes. Reading it back
  gives the same record, except that a missing argument block of size 0 becomes an empty
  block and a data pointer of size 0 becomes NULL (\<open>norm_record\<close>).
\<close>

definition record_wf :: "api_record \<Rightarrow> bool" where
  "record_wf r \<longleftrightarrow>
     arg_size r < 2 ^ 64 \<and> data_size r < 2 ^ 64 \<and>
     (case arguments r of None \<Rightarrow> arg_size r = 0 | Some a \<Rightarrow> length a = arg_size r) \<and>
     (case data r of None \<Rightarrow> data_size r = 0 | Some d \<Rightarrow> length d = data_size r)"

definition norm_record :: "api_record \<Rightarrow> api_record" where
  "norm_record r = r\<lparr>arguments := Some (case arguments r of None \<Rightarrow> [] | Some a \<Rightarrow> a),
     data := (if data_size r = 0 then None else data r)\<rparr>"

definition record_bytes :: "api_record \<Rightarrow> u8 list" where
  "record_bytes r =
     le_bytes 4 (unat (rq_function r)) @ le_bytes 8 (arg_size r) @
     (case arguments r of None \<Rightarrow> [] | Some a \<Rightarrow> a) @
     le_bytes 8 (unat (result_lo r)) @ le_bytes 8 (unat (result_hi r)) @
     le_bytes 8 (data_size r) @ (case data r of None \<Rightarrow> [] | Some d \<Rightarrow> d)"

definition record_fits :: "'d env \<Rightarrow> api_record \<Rightarrow> bool" where
  "record_fits E r \<longleftrightarrow> record_wf r \<and> heap_ok E (arg_size r) \<and> (0 < data_size r \<longrightarrow> heap_ok E (data_size r))"

lemma fread_exact: "length bs = n \<Longrightarrow> fread n \<lparr>ahead = bs @ rest, eof = e\<rparr> = (bs, \<lparr>ahead = rest, eof = e\<rparr>)"
  by (simp add: fread_def)

lemma fread_empty: "0 < n \<Longrightarrow> fread n \<lparr>ahead = [], eof = e\<rparr> = ([], \<lparr>ahead = [], eof = True\<rparr>)"
  by (simp add: fread_def)

lemma of_nat_le_u32: "of_nat (le_val (le_bytes 4 (unat (w :: u32)))) = w"
  using unat_u32_less [of w] by (simp add: le_val_le_bytes)

lemma of_nat_le_u64: "of_nat (le_val (le_bytes 8 (unat (w :: u64)))) = w"
  using unat_u64_less [of w] by (simp add: le_val_le_bytes)

lemma le_size: "n < 2 ^ 64 \<Longrightarrow> le_val (le_bytes 8 n) = n"
  by (rule le_val_le_bytes) simp

lemma restore_record_bytes:
  assumes "record_fits E r"
  shows "cr_restore_api_record E \<lparr>ahead = record_bytes r @ rest, eof = e\<rparr> r0 =
    (0, \<lparr>ahead = rest, eof = e\<rparr>, norm_record r)"
proof -
  note wf = assms [unfolded record_fits_def record_wf_def]
  let ?a = "case arguments r of None \<Rightarrow> [] | Some a \<Rightarrow> a"
  let ?d = "case data r of None \<Rightarrow> [] | Some d \<Rightarrow> d"
  have a: "length ?a = arg_size r" using wf by (cases "arguments r") auto
  have d: "length ?d = data_size r" using wf by (cases "data r") auto
  have two: "fread 16 \<lparr>ahead = le_bytes 8 (unat (result_lo r)) @ le_bytes 8 (unat (result_hi r)) @ z, eof = e\<rparr>
      = (le_bytes 8 (unat (result_lo r)) @ le_bytes 8 (unat (result_hi r)), \<lparr>ahead = z, eof = e\<rparr>)" for z
    using fread_exact [of "le_bytes 8 (unat (result_lo r)) @ le_bytes 8 (unat (result_hi r))" 16 z e] by simp
  have sz: "le_val (le_bytes 8 (arg_size r)) = arg_size r" "le_val (le_bytes 8 (data_size r)) = data_size r"
    using wf by (simp_all add: le_size)
  have dd: "0 < data_size r \<Longrightarrow> data r = Some ?d" using wf by (cases "data r") auto
  have e: "data_size r = 0 \<Longrightarrow> ?d = []" using d by simp
  show ?thesis
    unfolding cr_restore_api_record_def record_bytes_def append_assoc
    using wf a d dd e
    by (simp add: fread_exact two sz of_nat_le_u32 of_nat_le_u64 Let_def norm_record_def
        fread_exact [OF a] fread_exact [OF d])
qed

lemma restore_record_end: "cr_restore_api_record E \<lparr>ahead = [], eof = e\<rparr> r0 =
    (2, \<lparr>ahead = [], eof = True\<rparr>, r0)"
  by (simp add: cr_restore_api_record_def fread_empty)

section \<open>The whole log\<close>

definition file_of :: "fsys \<Rightarrow> string \<Rightarrow> u8 list" where
  "file_of fs name = (case files fs name of None \<Rightarrow> [] | Some c \<Rightarrow> c)"

lemma fwrite_ok:
  "length bs \<le> disk_free fs \<Longrightarrow>
   fwrite name bs fs = (True, fs\<lparr>files := (files fs)(name \<mapsto> file_of fs name @ bs),
      disk_free := disk_free fs - length bs\<rparr>)"
  by (simp add: fwrite_def Let_def min_def file_of_def)

lemma file_of_upd [simp]: "file_of (fs\<lparr>files := (files fs)(name \<mapsto> c), disk_free := n\<rparr>) name = c"
  by (simp add: file_of_def)

lemma length_record_bytes:
  "record_wf r \<Longrightarrow> length (record_bytes r) = 36 + arg_size r + data_size r"
  by (auto simp: record_bytes_def record_wf_def split: option.splits)

lemma dump_record_ok:
  assumes "record_wf r" and "length (record_bytes r) \<le> disk_free fs"
  shows "cr_dump_api_record fp r fs =
    Inr (0, fs\<lparr>files := (files fs)(fp \<mapsto> file_of fs fp @ record_bytes r),
               disk_free := disk_free fs - length (record_bytes r)\<rparr>)"
proof -
  note wf = assms(1) [unfolded record_wf_def]
  let ?a = "case arguments r of None \<Rightarrow> [] | Some a \<Rightarrow> a"
  let ?d = "case data r of None \<Rightarrow> [] | Some d \<Rightarrow> d"
  have a: "read_block (arguments r) (arg_size r) = Inr ?a" "length ?a = arg_size r"
    using wf by (auto simp: read_block_def split: option.splits)
  have d: "read_block (data r) (data_size r) = Inr ?d" "length ?d = data_size r"
    using wf by (auto simp: read_block_def split: option.splits)
  have room: "36 + arg_size r + data_size r \<le> disk_free fs"
    using assms by (simp add: length_record_bytes)
  have e: "data_size r = 0 \<or> data r = None \<Longrightarrow> ?d = []" using wf by (auto split: option.splits)
  show ?thesis
    unfolding cr_dump_api_record_def record_bytes_def
    using a d room e by (auto simp: fwrite_ok Let_def)
qed

definition printable :: "api_record \<Rightarrow> bool" where
  "printable r \<longleftrightarrow> (rq_function r = CUDA_MALLOC \<longrightarrow>
     (case arguments r of None \<Rightarrow> False | Some a \<Rightarrow> 8 \<le> length a))"

lemma printable_Inr: "printable r \<Longrightarrow> \<exists>s. api_records_print_records r = Inr s"
  by (auto simp: printable_def api_records_print_records_def Let_def arg_word_def split: option.splits)

lemma printable_norm: "printable r \<Longrightarrow> printable (norm_record r)"
  by (auto simp: printable_def norm_record_def split: option.splits)

definition log_bytes :: "api_record list \<Rightarrow> u8 list" where
  "log_bytes xs = concat (map record_bytes xs)"

lemma dump_loop_ok:
  "list_rep l xs \<Longrightarrow> \<forall>r \<in> set xs. record_wf r \<and> printable r \<Longrightarrow> i + n = length xs \<Longrightarrow>
   length (log_bytes (drop i xs)) \<le> disk_free fs \<Longrightarrow>
   \<exists>fs'. cr_dump_loop fp l i n fs = Inr (0, fs') \<and> (n = 0 \<longrightarrow> fs' = fs) \<and>
     (0 < n \<longrightarrow> files fs' = (files fs)(fp \<mapsto> file_of fs fp @ log_bytes (drop i xs))) \<and>
     disk_free fs' = disk_free fs - length (log_bytes (drop i xs)) \<and> creatable fs' = creatable fs"
proof (induction n arbitrary: i fs)
  case 0
  then show ?case by (simp add: log_bytes_def)
next
  case (Suc n)
  have i: "i < length xs" using Suc.prems(3) by simp
  then have d: "log_bytes (drop i xs) = record_bytes (xs ! i) @ log_bytes (drop (Suc i) xs)"
    by (simp add: log_bytes_def Cons_nth_drop_Suc [symmetric])
  have wf: "record_wf (xs ! i)" "printable (xs ! i)" using Suc.prems(2) i by auto
  obtain str where pr: "api_records_print_records (xs ! i) = Inr str"
    using printable_Inr [OF wf(2)] by blast
  let ?fs = "fs\<lparr>files := (files fs)(fp \<mapsto> file_of fs fp @ record_bytes (xs ! i)),
      disk_free := disk_free fs - length (record_bytes (xs ! i))\<rparr>"
  have r: "cr_dump_api_record fp (xs ! i) fs = Inr (0, ?fs)"
    using Suc.prems(4) d by (intro dump_record_ok wf) simp
  have at: "list_at l i = (0, Some i)"
    using Suc.prems(1) i by (simp add: list_at_def list_rep_len list_get_def)
  have "length (log_bytes (drop (Suc i) xs)) \<le> disk_free ?fs"
    using Suc.prems(4) d by simp
  then have "\<exists>fs'. cr_dump_loop fp l (Suc i) n ?fs = Inr (0, fs') \<and> (n = 0 \<longrightarrow> fs' = ?fs) \<and>
     (0 < n \<longrightarrow> files fs' = (files ?fs)(fp \<mapsto> file_of ?fs fp @ log_bytes (drop (Suc i) xs))) \<and>
     disk_free fs' = disk_free ?fs - length (log_bytes (drop (Suc i) xs)) \<and> creatable fs' = creatable ?fs"
    using Suc.prems(3) by (intro Suc.IH Suc.prems(1,2)) simp_all
  then obtain fs' where fs': "cr_dump_loop fp l (Suc i) n ?fs = Inr (0, fs')" "n = 0 \<longrightarrow> fs' = ?fs"
    "0 < n \<longrightarrow> files fs' = (files ?fs)(fp \<mapsto> file_of ?fs fp @ log_bytes (drop (Suc i) xs))"
    "disk_free fs' = disk_free ?fs - length (log_bytes (drop (Suc i) xs))" "creatable fs' = creatable ?fs"
    by (elim exE conjE)
  have z: "n = 0 \<Longrightarrow> log_bytes (drop (Suc i) xs) = []"
    using Suc.prems(3) by (simp add: log_bytes_def)
  have run: "cr_dump_loop fp l i (Suc n) fs = Inr (0, fs')"
    using at list_rep_cell [OF Suc.prems(1) i] r pr fs'(1) by simp
  have fl: "files fs' = (files fs)(fp \<mapsto> file_of fs fp @ log_bytes (drop i xs))"
  proof (cases "n = 0")
    case True
    with fs'(2) z d show ?thesis by simp
  next
    case False
    with fs'(3) have "files fs' = (files ?fs)(fp \<mapsto> file_of ?fs fp @ log_bytes (drop (Suc i) xs))"
      by blast
    also have "\<dots> = (files fs)(fp \<mapsto> file_of fs fp @ log_bytes (drop i xs))"
      by (rule ext) (simp add: d file_of_def)
    finally show ?thesis .
  qed
  have "disk_free fs' = disk_free fs - length (log_bytes (drop i xs))" "creatable fs' = creatable fs"
    using fs'(4,5) d by simp_all
  with run fl show ?case by blast
qed

lemma cr_dump_ok:
  assumes "list_rep l xs" and "\<forall>r \<in> set xs. record_wf r \<and> printable r"
    and "heap_ok E (length (path @ ''/api_records'') + 1)"
    and "creatable fs (path @ ''/api_records'')"
    and "length (log_bytes xs) \<le> disk_free fs"
  shows "\<exists>fs'. cr_dump E path l fs = Inr (0, fs') \<and>
    files fs' = (files fs)(path @ ''/api_records'' \<mapsto> log_bytes xs) \<and>
    creatable fs' = creatable fs \<and> disk_free fs' = disk_free fs - length (log_bytes xs)"
proof -
  let ?fp = "path @ ''/api_records''"
  let ?fs = "fs\<lparr>files := (files fs)(?fp \<mapsto> [])\<rparr>"
  have o: "fopen_w ?fp fs = Some ?fs" using assms(4) by (simp add: fopen_w_def)
  have f: "file_of ?fs ?fp = []" by (simp add: file_of_def)
  obtain fs' where fs': "cr_dump_loop ?fp l 0 (length xs) ?fs = Inr (0, fs')"
      "length xs = 0 \<longrightarrow> fs' = ?fs"
      "0 < length xs \<longrightarrow> files fs' = (files ?fs)(?fp \<mapsto> log_bytes xs)"
      "creatable fs' = creatable ?fs" "disk_free fs' = disk_free ?fs - length (log_bytes xs)"
    using dump_loop_ok [OF assms(1,2), of 0 "length xs" ?fs ?fp] assms(5) f by auto
  have "files fs' = (files fs)(?fp \<mapsto> log_bytes xs)"
    using fs'(2,3) by (cases "xs = []") (simp_all add: log_bytes_def)
  moreover have "cr_dump E path l fs = Inr (0, fs')"
    using assms(3) o fs'(1) list_rep_len [OF assms(1)]
    by (simp add: cr_dump_def asprintf_def)
  ultimately show ?thesis using fs'(4,5) by simp
qed

section \<open>Properties\<close>

text \<open>C29: A record that a handler has completed survives the file: reading what
  \<open>cr_dump_api_record\<close> has written gives back every field, the argument block, the result
  union and the data block byte for byte, and consumes exactly the bytes written, whatever
  follows in the file and whatever the slot contained before. (A NULL argument block of
  size 0 comes back as an empty block.)\<close>

theorem record_dump_restore:
  assumes "record_fits E r" and "length (record_bytes r) \<le> disk_free fs" and "files fs fp = Some old"
  shows "\<exists>fs' w. cr_dump_api_record fp r fs = Inr (0, fs') \<and> files fs' fp = Some (old @ w) \<and>
    (\<forall>rest e r0. cr_restore_api_record E \<lparr>ahead = w @ rest, eof = e\<rparr> r0 =
       (0, \<lparr>ahead = rest, eof = e\<rparr>, norm_record r))"
  using dump_record_ok [of r fs fp] restore_record_bytes [OF assms(1)] assms
  by (intro exI conjI) (auto simp: record_fits_def file_of_def)

definition sample_env :: "unit env" where
  "sample_env = \<lparr>heap_ok = (\<lambda>n. n < 4096), fresh_record = \<lparr>rq_function = 0, arg_size = 0,
     arguments = None, result_lo = 0, result_hi = 0, data = None, data_size = 0\<rparr>,
     fresh_byte = 165, fresh_word = 7, fresh_int = 99, cuda = (\<lambda>f args d. (0, [Word64 4096], d))\<rparr>"

definition sample_record :: api_record where
  "sample_record = \<lparr>rq_function = 414, arg_size = 8, arguments = Some [0, 1, 0, 0, 0, 0, 0, 0],
     result_lo = 0, result_hi = 77, data = Some [4, 5], data_size = 2\<rparr>"

theorem record_dump_restore_witness:
  "\<exists>fs' w. cr_dump_api_record ''f'' sample_record
       \<lparr>files = [''f'' \<mapsto> [9]], creatable = (\<lambda>_. True), disk_free = 1000\<rparr> = Inr (0, fs') \<and>
    files fs' ''f'' = Some ([9] @ w) \<and>
    (\<forall>rest e r0. cr_restore_api_record sample_env \<lparr>ahead = w @ rest, eof = e\<rparr> r0 =
       (0, \<lparr>ahead = rest, eof = e\<rparr>, norm_record sample_record))"
  by (rule record_dump_restore)
    (simp_all add: record_fits_def record_wf_def sample_env_def sample_record_def length_record_bytes)

text \<open>A checkpoint of the log writes one file that is the concatenation of the records in
  order, replaces any previous contents of that file and touches no other, when the disk
  has room and every record is complete.\<close>

lemma cr_dump_writes_log:
  assumes "list_rep l xs" and "\<forall>r \<in> set xs. record_wf r \<and> printable r"
    and "heap_ok E (length (path @ ''/api_records'') + 1)"
    and "creatable fs (path @ ''/api_records'')"
    and "length (log_bytes xs) \<le> disk_free fs"
  shows "\<exists>fs'. cr_dump E path l fs = Inr (0, fs') \<and>
    files fs' = (files fs)(path @ ''/api_records'' \<mapsto> log_bytes xs)"
  using cr_dump_ok [OF assms] by blast

text \<open>The RPC identification survives its file: after a successful \<open>cr_dump_rpc_id\<close>,
  \<open>cr_restore_rpc_id\<close> from the same directory returns 0 and both numbers.\<close>

lemma rpc_id_round_trip:
  assumes "cr_dump_rpc_id E path prog vers fs = (0, fs')"
  shows "cr_restore_rpc_id E path (Some p0) (Some v0) fs' = (0, Some prog, Some vers)"
proof -
  let ?name = "path @ ''/'' @ ''rpc_id''"
  let ?p = "le_bytes 8 (unat prog)" and ?v = "le_bytes 8 (unat vers)"
  from assms have as: "asprintf E ?name = Some ?name" "creatable fs ?name"
    by (auto simp: cr_dump_rpc_id_def asprintf_def fopen_w_def split: option.splits if_splits)
  from assms as have "files fs' ?name = Some (?p @ ?v)"
    by (auto simp: cr_dump_rpc_id_def asprintf_def fopen_w_def fwrite_def Let_def min_def
        split: option.splits if_splits)
  then show ?thesis using as
    by (simp add: cr_restore_rpc_id_def fopen_r_def fread_def of_nat_le_u64)
qed

end
