(* ===== verification/Decompress.thy ===== *)
theory Decompress
  imports CrFile
begin

text \<open>
  The decompressor of fat binaries in \<open>cpu/cpu-elf2.c\<close>: \<open>decompress\<close> with its two kinds of
  copies, and \<open>decompress_single_section\<close>, which allocates the output and checks the padding.
  \<open>input\<close> is the memory readable from the input pointer, which may extend beyond
  \<open>input_size\<close>; lengths are far below \<open>2 ^ 56\<close>, so the 64-bit sums do not wrap.
\<close>

section \<open>The code\<close>

definition read_u8 :: "u8 list \<Rightarrow> nat \<Rightarrow> nat res" where
  "read_u8 m i = (if i < length m then Inr (unat (m ! i)) else Inl Out_Of_Bounds)"

text \<open>\<open>do { next_nclen += input[++ipos]; } while (input[ipos] == 0xff)\<close> and its counterpart.\<close>

function ext_nclen :: "u8 list \<Rightarrow> nat \<Rightarrow> nat \<Rightarrow> (nat \<times> nat) res" where
  "ext_nclen inp ipos acc =
     (let ipos = ipos + 1 in
      if ipos < length inp
      then (let b = unat (inp ! ipos) in
            if b = 255 then ext_nclen inp ipos (acc + b) else Inr (acc + b, ipos))
      else Inl Out_Of_Bounds)"
  by pat_completeness auto
termination by (relation "measure (\<lambda>(inp, ipos, acc). length inp - ipos)") auto

function ext_clen :: "u8 list \<Rightarrow> nat \<Rightarrow> nat \<Rightarrow> (nat \<times> nat) res" where
  "ext_clen inp ipos acc =
     (if ipos < length inp
      then (let b = unat (inp ! ipos); ipos = ipos + 1 in
            if b = 255 then ext_clen inp ipos (acc + b) else Inr (acc + b, ipos))
      else Inl Out_Of_Bounds)"
  by pat_completeness auto
termination by (relation "measure (\<lambda>(inp, ipos, acc). length inp - ipos)") auto

declare ext_nclen.simps [simp del] ext_clen.simps [simp del]

fun copy_bytes :: "u8 list \<Rightarrow> nat \<Rightarrow> nat \<Rightarrow> nat \<Rightarrow> nat \<Rightarrow> u8 list res" where
  "copy_bytes out opos off i 0 = Inr out"
| "copy_bytes out opos off i (Suc k) =
     (if opos + i < length out \<and> off \<le> opos + i
      then copy_bytes (out[opos + i := out ! (opos + i - off)]) opos off (i + 1) k
      else Inl Out_Of_Bounds)"

definition copy_match :: "u8 list \<Rightarrow> nat \<Rightarrow> nat \<Rightarrow> nat \<Rightarrow> u8 list res" where
  "copy_match out opos off n =
     (if n \<le> off
      then (if off \<le> opos \<and> opos + n \<le> length out then Inr (blit out opos (blk (opos - off) n out))
            else Inl Out_Of_Bounds)
      else if off \<le> opos \<and> opos + off \<le> length out
      then copy_bytes (blit out opos (blk (opos - off) off out)) opos off off (n - off)
      else Inl Out_Of_Bounds)"

fun decompress_loop ::
  "nat \<Rightarrow> u8 list \<Rightarrow> nat \<Rightarrow> nat \<Rightarrow> nat \<Rightarrow> nat \<Rightarrow> u8 list \<Rightarrow> (nat \<times> u8 list) res" where
  "decompress_loop 0 inp isize osize ipos opos out = Inl No_Fuel"
| "decompress_loop (Suc fuel) inp isize osize ipos opos out =
     (if ipos < isize
      then bind_r (read_u8 inp ipos) (\<lambda>tok.
        let nclen = tok div 16; clen = 4 + tok mod 16 in
        bind_r (if nclen = 15 then ext_nclen inp ipos nclen else Inr (nclen, ipos)) (\<lambda>(nclen, ipos).
          let ipos = ipos + 1 in
          if length inp < ipos + nclen \<or> length out < opos + nclen then Inl Out_Of_Bounds
          else let out = blit out opos (blk ipos nclen inp); ipos = ipos + nclen; opos = opos + nclen in
          if ipos \<ge> isize \<or> opos \<ge> osize then Inr (opos, out)
          else bind_r (read_u8 inp ipos) (\<lambda>b0. bind_r (read_u8 inp (ipos + 1)) (\<lambda>b1.
            let off = b0 + b1 * 256; ipos = ipos + 2 in
            bind_r (if clen = 19 then ext_clen inp ipos clen else Inr (clen, ipos)) (\<lambda>(clen, ipos).
              bind_r (copy_match out opos off clen) (\<lambda>out.
                decompress_loop fuel inp isize osize ipos (opos + clen) out))))))
      else Inr (opos, out))"

declare decompress_loop.simps [simp del]

text \<open>Every round consumes at least one byte of input: \<open>input_size + 1\<close> rounds are enough.\<close>

definition decompress :: "u8 list \<Rightarrow> nat \<Rightarrow> u8 list \<Rightarrow> nat \<Rightarrow> (nat \<times> u8 list) res" where
  "decompress inp isize out osize = decompress_loop (isize + 1) inp isize osize 0 0 out"

text \<open>
  \<open>decompress_single_section\<close>: \<open>addr\<close> is the address of the input (its alignment decides the
  padding). The result is the number of input bytes read (-1 on error), and the output
  block with its size.
\<close>

definition all_zero :: "u8 list \<Rightarrow> bool" where
  "all_zero bs = list_all (\<lambda>b. b = 0) bs"

definition pad8 :: "nat \<Rightarrow> nat" where
  "pad8 n = (8 - n mod 8) mod 8"

definition decompress_single_section ::
  "'d env \<Rightarrow> nat \<Rightarrow> u8 list \<Rightarrow> nat \<Rightarrow> nat \<Rightarrow> (int \<times> (u8 list \<times> nat) option) res" where
  "decompress_single_section E addr inp compressed_size decompressed_size =
     (let n = wrap64 (decompressed_size + 7) in
      if \<not> heap_ok E n then Inr (- 1, None)
      else bind_r (decompress inp compressed_size (replicate n (fresh_byte E)) decompressed_size)
        (\<lambda>(ret, output).
          if ret \<noteq> decompressed_size then Inr (- 1, None)
          else let input_read = compressed_size; output_written = decompressed_size;
                   padding = pad8 (addr + input_read) in
          if length inp < input_read + padding then Inl Out_Of_Bounds
          else if \<not> all_zero (blk input_read padding inp) then Inr (- 1, None)
          else let input_read = input_read + padding; padding = pad8 decompressed_size in
          if length output < padding then Inl Out_Of_Bounds
          else Inr (int input_read,
                 Some (blit output 0 (replicate padding 0), output_written + padding))))"

section \<open>The format: what a compressed stream means\<close>

text \<open>
  A stream is a list of sequences (literal bytes, then a match of \<open>n\<close> bytes starting
  \<open>off\<close> bytes back) and final literals. \<open>lz_expand\<close> is its meaning, \<open>lz_encode\<close> its bytes.
\<close>

fun lz_copy :: "u8 list \<Rightarrow> nat \<Rightarrow> nat \<Rightarrow> u8 list" where
  "lz_copy out off 0 = out"
| "lz_copy out off (Suc n) = (let q = lz_copy out off n in q @ [q ! (length q - off)])"

type_synonym lz_seq = "u8 list \<times> nat \<times> nat"

fun lz_expand :: "lz_seq list \<Rightarrow> u8 list \<Rightarrow> u8 list \<Rightarrow> u8 list" where
  "lz_expand [] fin out = out @ fin"
| "lz_expand ((lits, off, n) # ss) fin out = lz_expand ss fin (lz_copy (out @ lits) off n)"

fun lz_valid :: "lz_seq list \<Rightarrow> nat \<Rightarrow> bool" where
  "lz_valid [] k = True"
| "lz_valid ((lits, off, n) # ss) k \<longleftrightarrow>
     0 < off \<and> off \<le> k + length lits \<and> off < 65536 \<and> 4 \<le> n \<and> lz_valid ss (k + length lits + n)"

definition ext_bytes :: "nat \<Rightarrow> u8 list" where
  "ext_bytes r = replicate (r div 255) 255 @ [of_nat (r mod 255)]"

definition lz_token :: "nat \<Rightarrow> nat \<Rightarrow> u8" where
  "lz_token a b = of_nat (16 * min 15 a + min 15 b)"

definition ext_if :: "nat \<Rightarrow> u8 list" where
  "ext_if a = (if 15 \<le> a then ext_bytes (a - 15) else [])"

fun lz_encode :: "lz_seq list \<Rightarrow> u8 list \<Rightarrow> u8 list" where
  "lz_encode [] fin = lz_token (length fin) 0 # ext_if (length fin) @ fin"
| "lz_encode ((lits, off, n) # ss) fin =
     lz_token (length lits) (n - 4) # ext_if (length lits) @ lits @
     [of_nat (off mod 256), of_nat (off div 256)] @ ext_if (n - 4) @ lz_encode ss fin"

section \<open>Matches\<close>

lemma length_lz_copy [simp]: "length (lz_copy out off n) = length out + n"
  by (induction n) (simp_all add: Let_def)

lemma lz_copy_short: "0 < off \<Longrightarrow> off \<le> length out \<Longrightarrow> n \<le> off \<Longrightarrow>
    lz_copy out off n = out @ blk (length out - off) n out"
proof (induction n)
  case (Suc n)
  then have "lz_copy out off n = out @ blk (length out - off) n out" by simp
  moreover have ix: "length out + n - off = length out - off + n" "length out - off + n < length out"
    using Suc.prems by simp_all
  then have "(out @ blk (length out - off) n out) ! (length out + n - off) = out ! (length out - off + n)"
    by (simp only: ix nth_append if_True)
  moreover have "blk (length out - off) (Suc n) out = blk (length out - off) n out @ [out ! (length out - off + n)]"
    using Suc.prems by (simp add: blk_def take_Suc_conv_app_nth)
  moreover have "length (blk (length out - off) n out) = n" using Suc.prems by simp
  ultimately show ?case by (simp add: Let_def)
qed (simp add: blk_def)

lemma copy_bytes_correct:
  "opos = length p \<Longrightarrow> 0 < off \<Longrightarrow> off \<le> opos \<Longrightarrow> opos + i + k \<le> length out \<Longrightarrow>
   take (opos + i) out = lz_copy p off i \<Longrightarrow>
   \<exists>out'. copy_bytes out opos off i k = Inr out' \<and> length out' = length out \<and>
     take (opos + i + k) out' = lz_copy p off (i + k)"
proof (induction k arbitrary: i out)
  case (Suc k)
  let ?o = "out[opos + i := out ! (opos + i - off)]"
  have "take (opos + i) out ! (opos + i - off) = out ! (opos + i - off)"
    using Suc.prems by (intro nth_take) simp
  then have "lz_copy p off i ! (length p + i - off) = out ! (opos + i - off)"
    using Suc.prems(1,5) by simp
  then have "take (opos + Suc i) ?o = lz_copy p off (Suc i)"
    using Suc.prems by (simp add: take_Suc_conv_app_nth Let_def)
  then have "\<exists>out'. copy_bytes ?o opos off (Suc i) k = Inr out' \<and> length out' = length ?o \<and>
     take (opos + Suc i + k) out' = lz_copy p off (Suc i + k)"
    using Suc.prems by (intro Suc.IH) simp_all
  then show ?case using Suc.prems by simp
qed simp

lemma copy_match_correct:
  assumes "take opos out = p" and "opos = length p" and "0 < off" and "off \<le> opos"
    and "opos + n \<le> length out"
  shows "\<exists>out'. copy_match out opos off n = Inr out' \<and> length out' = length out \<and>
    take (opos + n) out' = lz_copy p off n"
proof -
  have b: "blk (opos - off) m out = blk (length p - off) m p" if "m \<le> off" for m
  proof -
    have "drop (opos - off) p = take off (drop (opos - off) out)"
      using drop_take [of "opos - off" opos out] assms(1,4) by simp
    then show ?thesis using that assms(2) by (simp add: blk_def min_def)
  qed
  have len: "length (blk (opos - off) m out) = m" if "m \<le> off" for m
    using that assms by simp
  show ?thesis
  proof (cases "n \<le> off")
    case True
    then have "copy_match out opos off n = Inr (blit out opos (blk (opos - off) n out))"
      using assms by (simp add: copy_match_def)
    moreover have "take (opos + n) (blit out opos (blk (opos - off) n out)) = p @ blk (length p - off) n p"
      using take_blit [of opos "blk (opos - off) n out" out] len [OF True] assms(1,5) b [OF True] by simp
    moreover have "length (blit out opos (blk (opos - off) n out)) = length out"
      using len [OF True] assms(5) by simp
    ultimately show ?thesis using lz_copy_short [OF assms(3), of p n] True assms(2,4) by simp
  next
    case False
    let ?o = "blit out opos (blk (opos - off) off out)"
    have lo: "length ?o = length out" using len [of off] assms(5) False by simp
    have "take (opos + off) ?o = p @ blk (length p - off) off p"
      using take_blit [of opos "blk (opos - off) off out" out] len [of off] assms(1,5) b [of off] False
      by simp
    then have t: "take (opos + off) ?o = lz_copy p off off"
      using lz_copy_short [OF assms(3), of p off] assms(2,4) by simp
    have "\<exists>out'. copy_bytes ?o opos off off (n - off) = Inr out' \<and> length out' = length ?o \<and>
       take (opos + off + (n - off)) out' = lz_copy p off (off + (n - off))"
      by (rule copy_bytes_correct [OF assms(2-4) _ t]) (use lo assms(5) False in simp)
    then show ?thesis using False assms(2-5) lo by (simp add: copy_match_def)
  qed
qed

section \<open>Lengths and tokens\<close>

lemma drop_ConsD: "drop i xs = y # ys \<Longrightarrow> i < length xs \<and> xs ! i = y \<and> drop (Suc i) xs = ys"
  by (metis Cons_nth_drop_Suc drop_all leI list.discI list.inject)

lemma drop_appendD: "drop i xs = ys @ zs \<Longrightarrow> drop (i + length ys) xs = zs \<and> blk i (length ys) xs = ys"
  using drop_drop [of "length ys" i xs] by (simp add: blk_def add.commute)

lemma ext_nclen_bytes:
  "drop (ipos + 1) inp = replicate k 255 @ of_nat r # rest \<Longrightarrow> r < 255 \<Longrightarrow>
   ext_nclen inp ipos acc = Inr (acc + 255 * k + r, ipos + k + 1)"
proof (induction k arbitrary: ipos acc)
  case 0
  then have "ipos + 1 < length inp" "inp ! (ipos + 1) = of_nat r"
    using drop_ConsD [of "ipos + 1" inp "of_nat r" rest] by simp_all
  with 0 show ?case by (subst ext_nclen.simps) (simp add: Let_def unat_of_nat)
next
  case (Suc k)
  then have h: "ipos + 1 < length inp" "inp ! (ipos + 1) = 255"
      "drop (ipos + 1 + 1) inp = replicate k 255 @ of_nat r # rest"
    using drop_ConsD [of "ipos + 1" inp 255 "replicate k 255 @ of_nat r # rest"] by simp_all
  from Suc.IH [OF h(3) Suc.prems(2), of "acc + 255"] h(1,2) show ?case
    by (subst ext_nclen.simps) (simp add: Let_def)
qed

lemma ext_clen_bytes:
  "drop ipos inp = replicate k 255 @ of_nat r # rest \<Longrightarrow> r < 255 \<Longrightarrow>
   ext_clen inp ipos acc = Inr (acc + 255 * k + r, ipos + k + 1)"
proof (induction k arbitrary: ipos acc)
  case 0
  then have "ipos < length inp" "inp ! ipos = of_nat r"
    using drop_ConsD [of ipos inp "of_nat r" rest] by simp_all
  with 0 show ?case by (subst ext_clen.simps) (simp add: Let_def unat_of_nat)
next
  case (Suc k)
  then have h: "ipos < length inp" "inp ! ipos = 255"
      "drop (ipos + 1) inp = replicate k 255 @ of_nat r # rest"
    using drop_ConsD [of ipos inp 255 "replicate k 255 @ of_nat r # rest"] by simp_all
  from Suc.IH [OF h(3) Suc.prems(2), of "acc + 255"] h(1,2) show ?case
    by (subst ext_clen.simps) (simp add: Let_def)
qed

lemma nclen_correct:
  assumes "drop (ipos + 1) inp = ext_if a @ rest"
  shows "(if min 15 a = 15 then ext_nclen inp ipos (min 15 a) else Inr (min 15 a, ipos)) =
    Inr (a, ipos + length (ext_if a))"
proof (cases "15 \<le> a")
  case True
  then have "drop (ipos + 1) inp = replicate ((a - 15) div 255) 255 @ of_nat ((a - 15) mod 255) # rest"
    using assms by (simp add: ext_if_def ext_bytes_def)
  from ext_nclen_bytes [OF this, of 15] True show ?thesis
    by (simp add: ext_if_def ext_bytes_def min_def)
qed (simp add: ext_if_def min_def)

lemma clen_correct:
  assumes "drop ipos inp = ext_if a @ rest"
  shows "(if 4 + min 15 a = 19 then ext_clen inp ipos (4 + min 15 a) else Inr (4 + min 15 a, ipos)) =
    Inr (4 + a, ipos + length (ext_if a))"
proof (cases "15 \<le> a")
  case True
  then have "drop ipos inp = replicate ((a - 15) div 255) 255 @ of_nat ((a - 15) mod 255) # rest"
    using assms by (simp add: ext_if_def ext_bytes_def)
  from ext_clen_bytes [OF this, of 19] True show ?thesis
    by (simp add: ext_if_def ext_bytes_def min_def)
qed (auto simp: ext_if_def min_def)

lemma token_val: "unat (lz_token a b) div 16 = min 15 a" "unat (lz_token a b) mod 16 = min 15 b"
proof -
  have "16 * min 15 a + min 15 b < 256" by simp
  then have "unat (lz_token a b) = 16 * min 15 a + min 15 b"
    unfolding lz_token_def unat_of_nat by simp
  then show "unat (lz_token a b) div 16 = min 15 a" "unat (lz_token a b) mod 16 = min 15 b"
    by simp_all
qed

lemma length_expand: "length out \<le> length (lz_expand ss fin out)"
  by (induction ss fin out rule: lz_expand.induct) auto

section \<open>The loop\<close>

text \<open>One literal run: token, length bytes and the literals.\<close>

lemma literal_run:
  assumes "drop ipos inp = lz_token (length lits) b # ext_if (length lits) @ lits @ rest"
    and "ipos < isize" and "length (p @ lits) \<le> length out" and "take opos out = p" and "opos = length p"
  obtains out' where "decompress_loop (Suc fuel) inp isize osize ipos opos out =
      (let ipos' = ipos + 1 + length (ext_if (length lits)) + length lits; opos' = opos + length lits in
       if ipos' \<ge> isize \<or> opos' \<ge> osize then Inr (opos', out')
       else bind_r (read_u8 inp ipos') (\<lambda>b0. bind_r (read_u8 inp (ipos' + 1)) (\<lambda>b1.
         bind_r (if 4 + min 15 b = 19 then ext_clen inp (ipos' + 2) (4 + min 15 b)
                 else Inr (4 + min 15 b, ipos' + 2)) (\<lambda>(clen, ipos'').
           bind_r (copy_match out' opos' (b0 + b1 * 256) clen) (\<lambda>out''.
             decompress_loop fuel inp isize osize ipos'' (opos' + clen) out'')))))"
    and "take (opos + length lits) out' = p @ lits" and "length out' = length out"
    and "drop (ipos + 1 + length (ext_if (length lits)) + length lits) inp = rest"
proof -
  let ?e = "ext_if (length lits)" and ?o = "blit out opos lits"
  note t = drop_ConsD [OF assms(1)]
  then have d1: "drop (ipos + 1) inp = ?e @ lits @ rest" by simp
  note d2 = drop_appendD [OF d1]
  note d3 = drop_appendD [OF d2 [THEN conjunct1]]
  have len: "ipos + 1 + length ?e + length lits \<le> length inp"
  proof (cases "?e @ lits = []")
    case True
    then have "length lits = 0" by simp
    then show ?thesis using t by (simp add: ext_if_def)
  next
    case False
    have "length (drop (ipos + 1) inp) = length ?e + length lits + length rest" using d1 by simp
    moreover have "length (drop (ipos + 1) inp) = length inp - (ipos + 1)" by simp
    moreover have "0 < length ?e + length lits" using False by auto
    ultimately show ?thesis by linarith
  qed
  have rd: "read_u8 inp ipos = Inr (unat (lz_token (length lits) b))"
    using t by (simp add: read_u8_def)
  have run: "decompress_loop (Suc fuel) inp isize osize ipos opos out =
      (let ipos' = ipos + 1 + length ?e + length lits; opos' = opos + length lits in
       if ipos' \<ge> isize \<or> opos' \<ge> osize then Inr (opos', ?o)
       else bind_r (read_u8 inp ipos') (\<lambda>b0. bind_r (read_u8 inp (ipos' + 1)) (\<lambda>b1.
         bind_r (if 4 + min 15 b = 19 then ext_clen inp (ipos' + 2) (4 + min 15 b)
                 else Inr (4 + min 15 b, ipos' + 2)) (\<lambda>(clen, ipos'').
           bind_r (copy_match ?o opos' (b0 + b1 * 256) clen) (\<lambda>out''.
             decompress_loop fuel inp isize osize ipos'' (opos' + clen) out'')))))"
    unfolding decompress_loop.simps if_P [OF assms(2)] rd bind_r.simps token_val Let_def nclen_correct [OF d1]
    using assms(3,5) len d3 by (simp add: add.commute add.left_commute)
  show thesis
    by (rule that [OF run]) (use assms(3-5) d3 in \<open>simp_all add: take_blit\<close>)
qed

lemma length_encode_pos: "0 < length (lz_encode ss fin)"
  by (cases ss) auto

lemma decompress_loop_correct:
  "drop ipos inp = lz_encode ss fin @ rest \<Longrightarrow> isize = ipos + length (lz_encode ss fin) \<Longrightarrow>
   take opos out = p \<Longrightarrow> opos = length p \<Longrightarrow> lz_valid ss opos \<Longrightarrow>
   length (lz_expand ss fin p) \<le> osize \<Longrightarrow> osize \<le> length out \<Longrightarrow> length ss < fuel \<Longrightarrow>
   \<exists>out'. decompress_loop fuel inp isize osize ipos opos out = Inr (length (lz_expand ss fin p), out') \<and>
     length out' = length out \<and> take (length (lz_expand ss fin p)) out' = lz_expand ss fin p"
proof (induction ss arbitrary: ipos opos out p fuel)
  case Nil
  then obtain k where k: "fuel = Suc k" by (cases fuel) auto
  have d: "drop ipos inp = lz_token (length fin) 0 # ext_if (length fin) @ fin @ rest"
    using Nil.prems(1) by simp
  obtain out' where out': "decompress_loop fuel inp isize osize ipos opos out = Inr (opos + length fin, out')"
    "take (opos + length fin) out' = p @ fin" "length out' = length out"
    unfolding k by (rule literal_run [OF d, of isize p out opos k osize])
      (use Nil.prems in \<open>simp_all add: Let_def\<close>)
  then show ?case using Nil.prems(4) by simp
next
  case (Cons x ss)
  then obtain k where k: "fuel = Suc k" "length ss < k" by (cases fuel) auto
  obtain lits off n where x: "x = (lits, off, n)" using prod_cases3 by blast
  let ?q = "lz_copy (p @ lits) off n"
  let ?r = "[of_nat (off mod 256), of_nat (off div 256)] @ ext_if (n - 4) @ lz_encode ss fin @ rest"
  have d: "drop ipos inp = lz_token (length lits) (n - 4) # ext_if (length lits) @ lits @ ?r"
    using Cons.prems(1) by (simp add: x)
  have v: "0 < off" "off \<le> opos + length lits" "off < 65536" "4 \<le> n" "lz_valid ss (opos + length lits + n)"
    using Cons.prems(5) by (simp_all add: x)
  have exp: "lz_expand (x # ss) fin p = lz_expand ss fin ?q" by (simp add: x)
  have fits: "opos + length lits + n \<le> osize"
    using length_expand [of ?q ss fin] Cons.prems(4,6) exp by simp
  obtain out' where run: "decompress_loop (Suc k) inp isize osize ipos opos out =
      (let ipos' = ipos + 1 + length (ext_if (length lits)) + length lits; opos' = opos + length lits in
       if ipos' \<ge> isize \<or> opos' \<ge> osize then Inr (opos', out')
       else bind_r (read_u8 inp ipos') (\<lambda>b0. bind_r (read_u8 inp (ipos' + 1)) (\<lambda>b1.
         bind_r (if 4 + min 15 (n - 4) = 19 then ext_clen inp (ipos' + 2) (4 + min 15 (n - 4))
                 else Inr (4 + min 15 (n - 4), ipos' + 2)) (\<lambda>(clen, ipos'').
           bind_r (copy_match out' opos' (b0 + b1 * 256) clen) (\<lambda>out''.
             decompress_loop k inp isize osize ipos'' (opos' + clen) out'')))))"
    and out': "take (opos + length lits) out' = p @ lits" "length out' = length out"
    and d': "drop (ipos + 1 + length (ext_if (length lits)) + length lits) inp = ?r"
    by (rule literal_run [OF d, of isize p out opos k osize])
      (use Cons.prems fits in \<open>simp_all add: x\<close>)
  define i where "i = ipos + 1 + length (ext_if (length lits)) + length lits"
  have b0: "i < length inp" "inp ! i = of_nat (off mod 256)"
      "drop (Suc i) inp = of_nat (off div 256) # ext_if (n - 4) @ lz_encode ss fin @ rest"
    using drop_ConsD [of i inp] d' by (simp_all add: i_def)
  note b1 = drop_ConsD [OF b0(3)]
  have r0: "read_u8 inp i = Inr (off mod 256)" using b0 by (simp add: read_u8_def unat_of_nat)
  have r1: "read_u8 inp (i + 1) = Inr (off div 256)"
    using b1 v(3) by (simp add: read_u8_def unat_of_nat)
  have d2: "drop (i + 2) inp = ext_if (n - 4) @ lz_encode ss fin @ rest" using b1 by simp
  note d3 = drop_appendD [OF d2]
  have off: "off mod 256 + off div 256 * 256 = off" by simp
  have op: "opos + length lits = length (p @ lits)" using Cons.prems(4) by simp
  obtain out2 where out2: "copy_match out' (opos + length lits) off n = Inr out2"
      "length out2 = length out'" "take (opos + length lits + n) out2 = ?q"
    using copy_match_correct [OF out'(1) op v(1,2), of n] fits Cons.prems(7) out'(2) by auto
  let ?i2 = "i + 2 + length (ext_if (n - 4))"
  have isz: "isize = ?i2 + length (lz_encode ss fin)" "i < isize"
    using Cons.prems(2) length_encode_pos [of ss fin] by (simp_all add: x i_def)
  have step: "decompress_loop (Suc k) inp isize osize ipos opos out =
      decompress_loop k inp isize osize ?i2 (opos + length lits + n) out2"
    unfolding run Let_def i_def [symmetric]
    using isz(2) fits v(4) r0 r1 clen_correct [OF d2] out2(1) off by simp
  have "\<exists>out'. decompress_loop k inp isize osize ?i2 (opos + length lits + n) out2 =
      Inr (length (lz_expand ss fin ?q), out') \<and> length out' = length out2 \<and>
      take (length (lz_expand ss fin ?q)) out' = lz_expand ss fin ?q"
    using Cons.prems(4,6,7) d3 isz(1) out2(2,3) out'(2) v(5) k(2) exp
    by (intro Cons.IH) simp_all
  with step out2(2) out'(2) exp k(1) show ?case by simp
qed

section \<open>Termination\<close>

lemma ext_nclen_progress:
  "ext_nclen inp ipos acc \<noteq> Inl No_Fuel \<and> (ext_nclen inp ipos acc = Inr (a, j) \<longrightarrow> ipos < j)"
proof (induction inp ipos acc rule: ext_nclen.induct)
  case (1 inp ipos acc)
  show ?case
    by (subst (1 2) ext_nclen.simps) (use 1 in \<open>auto simp: Let_def intro: Suc_lessD\<close>)
qed

lemma ext_clen_progress:
  "ext_clen inp ipos acc \<noteq> Inl No_Fuel \<and> (ext_clen inp ipos acc = Inr (a, j) \<longrightarrow> ipos < j)"
proof (induction inp ipos acc rule: ext_clen.induct)
  case (1 inp ipos acc)
  show ?case
    by (subst (1 2) ext_clen.simps) (use 1 in \<open>auto simp: Let_def intro: Suc_lessD\<close>)
qed

lemma copy_bytes_fuel: "copy_bytes out opos off i k \<noteq> Inl No_Fuel"
  by (induction out opos off i k rule: copy_bytes.induct) auto

lemma copy_match_fuel: "copy_match out opos off n \<noteq> Inl No_Fuel"
  by (simp add: copy_match_def copy_bytes_fuel)

lemma read_u8_fuel: "read_u8 m i \<noteq> Inl No_Fuel"
  by (simp add: read_u8_def)

lemma bind_no_fuel:
  "r \<noteq> Inl No_Fuel \<Longrightarrow> (\<And>x. r = Inr x \<Longrightarrow> k x \<noteq> Inl No_Fuel) \<Longrightarrow> bind_r r k \<noteq> Inl No_Fuel"
  by (cases r) auto

lemma nclen_progress:
  "(if c then ext_nclen inp ipos a else Inr (a, ipos)) \<noteq> Inl No_Fuel"
  "(if c then ext_nclen inp ipos a else Inr (a, ipos)) = Inr (b, j) \<Longrightarrow> ipos \<le> j"
  using ext_nclen_progress [of inp ipos a b j] by (auto split: if_split_asm)

lemma clen_progress:
  "(if c then ext_clen inp ipos a else Inr (a, ipos)) \<noteq> Inl No_Fuel"
  "(if c then ext_clen inp ipos a else Inr (a, ipos)) = Inr (b, j) \<Longrightarrow> ipos \<le> j"
  using ext_clen_progress [of inp ipos a b j] by (auto split: if_split_asm)

lemma decompress_loop_fuel:
  "isize - ipos < fuel \<Longrightarrow> decompress_loop fuel inp isize osize ipos opos out \<noteq> Inl No_Fuel"
proof (induction fuel arbitrary: ipos opos out)
  case (Suc fuel)
  show ?case
  proof (cases "ipos < isize")
    case True
    have rec: "decompress_loop fuel inp isize osize j opos' out' \<noteq> Inl No_Fuel"
      if "ipos < j" for j opos' out'
      using that Suc.prems True by (intro Suc.IH) simp
    show ?thesis
      unfolding decompress_loop.simps if_P [OF True] Let_def
      apply (rule bind_no_fuel [OF read_u8_fuel])
      apply (rule bind_no_fuel [OF nclen_progress(1)])
      subgoal for tok x
        apply (cases x)
        apply (simp only: prod.case)
        apply (drule nclen_progress(2))
        apply (split if_split, intro conjI impI, simp)
        apply (split if_split, intro conjI impI, simp)
        apply (rule bind_no_fuel [OF read_u8_fuel])
        apply (rule bind_no_fuel [OF read_u8_fuel])
        apply (rule bind_no_fuel [OF clen_progress(1)])
        subgoal for nclen i b0 b1 y
          apply (cases y)
          apply (simp only: prod.case)
          apply (drule clen_progress(2))
          apply (rule bind_no_fuel [OF copy_match_fuel])
          apply (rule rec)
          apply simp
          done
        done
      done
  qed (simp add: decompress_loop.simps)
qed simp

lemma decompress_encoding:
  assumes "lz_valid ss 0" and "length (lz_expand ss fin []) \<le> osize" and "osize \<le> length out"
  shows "\<exists>out'. decompress (lz_encode ss fin @ rest) (length (lz_encode ss fin)) out osize =
      Inr (length (lz_expand ss fin []), out') \<and> length out' = length out \<and>
    take (length (lz_expand ss fin [])) out' = lz_expand ss fin []"
  unfolding decompress_def
proof (rule decompress_loop_correct [OF _ _ _ _ assms(1)])
  have "length ss \<le> length (lz_encode ss fin)"
    by (induction ss fin rule: lz_encode.induct) simp_all
  then show "length ss < length (lz_encode ss fin) + 1" by simp
qed (use assms in simp_all)

section \<open>Properties\<close>

text \<open>C30: The decompressor inverts the format: for every stream of literal runs and matches
  (overlapping or not, with any length extension bytes), decompressing its encoding into a
  large enough buffer returns exactly the length and the bytes the stream means, whatever
  the buffer contained and whatever follows the compressed data, without touching memory
  outside the two buffers.\<close>

theorem decompress_inverts_encoding:
  assumes "lz_valid ss 0" and "length (lz_expand ss fin []) \<le> osize" and "osize \<le> length out"
  shows "\<exists>out'. decompress (lz_encode ss fin @ rest) (length (lz_encode ss fin)) out osize =
      Inr (length (lz_expand ss fin []), out') \<and> length out' = length out \<and>
    take (length (lz_expand ss fin [])) out' = lz_expand ss fin []"
  using assms by (rule decompress_encoding)

theorem decompress_inverts_encoding_witness:
  "\<exists>out'. decompress (lz_encode [([1, 2, 3], 2, 20), ([], 3, 4)] [9] @ [7])
      (length (lz_encode [([1, 2, 3], 2, 20), ([], 3, 4)] [9])) (replicate 40 165) 28 =
      Inr (28, out') \<and>
    take 28 out' = lz_expand [([1, 2, 3], 2, 20), ([], 3, 4)] [9] []"
  using decompress_inverts_encoding [of "[([1, 2, 3], 2, 20), ([], 3, 4)]" "[9]" 28 "replicate 40 165" "[7]"]
  by (auto simp del: lz_encode.simps)

text \<open>\<open>decompress\<close> always ends: for every input, well-formed or not, \<open>input_size + 1\<close> rounds
  are enough, because each round consumes at least its token.\<close>

lemma decompress_terminates:
  "decompress inp isize out osize \<noteq> Inl No_Fuel"
  unfolding decompress_def by (rule decompress_loop_fuel) simp

text \<open>\<open>decompress\<close> trusts the stream: \<open>output_size\<close> is only looked at after a copy, so a
  literal run longer than the output buffer is written past its end.\<close>

lemma decompress_overflows:
  assumes "length out < length lits"
  shows "decompress (lz_encode [] lits @ rest) (length (lz_encode [] lits)) out osize = Inl Out_Of_Bounds"
proof -
  let ?inp = "lz_encode [] lits @ rest" and ?e = "ext_if (length lits)"
  have d: "drop (0 + 1) ?inp = ?e @ lits @ rest" by simp
  have rd: "read_u8 ?inp 0 = Inr (unat (lz_token (length lits) 0))" by (simp add: read_u8_def)
  have pos: "0 < length (lz_encode [] lits)" by simp
  show ?thesis
    unfolding decompress_def Suc_eq_plus1 [symmetric] decompress_loop.simps if_P [OF pos] rd bind_r.simps
      token_val Let_def nclen_correct [OF d]
    using assms by simp
qed

text \<open>\<open>decompress_single_section\<close> pads the wrong end: for a valid stream whose
  decompressed size is not a multiple of 8 it reports success, but the first
  \<open>8 - size mod 8\<close> bytes of the section are overwritten with zeros, and the padding bytes
  counted in the returned size keep whatever the fresh allocation contained.\<close>

lemma single_section_clobbers_start:
  fixes E :: "'d env"
  defines "exp \<equiv> \<lambda>ss fin. lz_expand ss fin []"
  assumes valid: "lz_valid ss 0" and size: "length (exp ss fin) + 7 < 2 ^ 64"
    and heap: "heap_ok E (length (exp ss fin) + 7)"
    and zeros: "length z = pad8 (addr + length (lz_encode ss fin))" "all_zero z"
    and odd: "length (exp ss fin) mod 8 \<noteq> 0" "8 \<le> length (exp ss fin)"
  shows "\<exists>m. decompress_single_section E addr (lz_encode ss fin @ z) (length (lz_encode ss fin))
        (length (exp ss fin)) =
      Inr (int (length (lz_encode ss fin) + length z), Some (m, length (exp ss fin) + pad8 (length (exp ss fin)))) \<and>
    length m = length (exp ss fin) + 7 \<and> 0 < pad8 (length (exp ss fin)) \<and>
    take (length (exp ss fin)) m = replicate (pad8 (length (exp ss fin))) 0 @
      drop (pad8 (length (exp ss fin))) (exp ss fin)"
proof -
  let ?x = "exp ss fin" and ?c = "lz_encode ss fin"
  let ?out = "replicate (length ?x + 7) (fresh_byte E)" and ?p = "pad8 (length ?x)"
  have w: "wrap64 (length ?x + 7) = length ?x + 7" using size by (rule wrap64_id)
  obtain o' where o': "decompress (?c @ z) (length ?c) ?out (length ?x) = Inr (length ?x, o')"
    "length o' = length ?x + 7" "take (length ?x) o' = ?x"
    using decompress_encoding [OF valid, of fin "length ?x" ?out z] by (auto simp: exp_def)
  have p: "0 < ?p" "?p < 8" using odd(1) by (simp_all add: pad8_def)
  have z: "blk (length ?c) (length z) (?c @ z) = z" using blk_append_at [of ?c z "[]"] by simp
  have "decompress_single_section E addr (?c @ z) (length ?c) (length ?x) =
      Inr (int (length ?c + length z), Some (blit o' 0 (replicate ?p 0), length ?x + ?p))"
    using w heap o'(1,2) zeros z p
    by (simp add: decompress_single_section_def Let_def)
  moreover have "length (blit o' 0 (replicate ?p 0)) = length ?x + 7"
    using o'(2) p by simp
  moreover have "take (length ?x) (blit o' 0 (replicate ?p 0)) = replicate ?p 0 @ drop ?p ?x"
  proof -
    have "drop ?p ?x = take (length ?x - ?p) (drop ?p o')"
      using o'(3) by (metis drop_take)
    then show ?thesis using p odd(2) by (simp add: blit_def)
  qed
  ultimately show ?thesis using p(1) by blast
qed

end
