(* ===== verification/Server.thy ===== *)
theory Server
  imports CrFile
begin

text \<open>
  The global state of the server process (\<open>cpu/cpu-server-runtime.c\<close>,
  \<open>cpu/cpu-server-driver.c\<close> and the resource managers of \<open>cpu/resource-mg.h\<close>) and the
  vocabulary of its request handlers: a handler is a function from the state to a result and
  a new state, or a fault.
\<close>

section \<open>State\<close>

record host_alloc_info =
  hai_idx :: nat
  hai_size :: nat
  hai_client_ptr :: u64
  hai_server_ptr :: u64

record rpc_dim3 =
  dim_x :: u32
  dim_y :: u32
  dim_z :: u32

text \<open>
  A \<open>mem_data\<close> argument: the address of the received buffer and its bytes. One kernel launch
  as the handler receives it.
\<close>

record mem_data =
  mem_addr :: u64
  mem_val :: "u8 list"

record launch =
  l_func :: u64
  l_grid :: rpc_dim3
  l_block :: rpc_dim3
  l_args :: mem_data
  l_shared :: u64
  l_stream :: u64

text \<open>
  A transfer with several threads (\<open>cpu/mt-memcpy.h\<close>); \<open>mem_ptr\<close>, the thread, the socket and
  the barrier are of no consequence for the handlers.
\<close>

datatype mt_memcpy_direction = MT_MEMCPY_HTOD | MT_MEMCPY_DTOH

record mt_memcpy_server =
  mt_dev_ptr :: u64
  mt_mem_size :: nat
  mt_thread_num :: int
  mt_port :: u16
  mt_dir :: mt_memcpy_direction

text \<open>
  The scheduler of \<open>cpu/gsched_none.c\<close>: the list of known connections with their device, the
  next device to assign, the number of devices, and which of its two mutexes are held. The
  server handles one request at a time, so a lock is only ever refused when it is held.
\<close>

record gsched_none =
  gs_id :: int
  gs_device :: int

record gsched =
  gs_ids :: "gsched_none clist"
  gs_next_device_id :: int
  gs_max_devices :: int
  gs_ids_locked :: bool
  gs_device_locked :: bool

text \<open>The resource managers of cuDNN (\<open>cpu/resource-mg.h\<close>).\<close>

record cudnn_managers =
  rm_cudnn :: resource_mg
  rm_cudnn_tensors :: resource_mg
  rm_cudnn_filters :: resource_mg
  rm_cudnn_tensortransform :: resource_mg
  rm_cudnn_poolings :: resource_mg
  rm_cudnn_activations :: resource_mg
  rm_cudnn_lrns :: resource_mg
  rm_cudnn_convs :: resource_mg
  rm_cudnn_backendds :: resource_mg

text \<open>
  \<open>recorded_calls\<close> stands for the six parallel arrays \<open>recorded_func\<close> to \<open>recorded_stream\<close> of
  1000 entries; \<open>gpu\<close> is the state of the device and its driver.
\<close>

record 'd server =
  api_records :: "api_record clist"
  rm_streams :: resource_mg
  rm_events :: resource_mg
  rm_arrays :: resource_mg
  rm_memory :: resource_mg
  rm_kernels :: resource_mg
  rm_modules :: resource_mg
  rm_functions :: resource_mg
  rm_globals :: resource_mg
  rm_cusolver :: resource_mg
  rm_cublas :: resource_mg
  rm_cublaslt :: resource_mg
  cudnn :: cudnn_managers
  hainfo :: "host_alloc_info list"
  hainfo_cnt :: nat
  input_times :: int
  output_times :: int
  operator_count :: int
  input_count :: int
  input_address :: "u64 list"
  recorded_calls :: "launch list"
  mt_memcpy_list :: "mt_memcpy_server clist"
  sched :: gsched
  gpu :: 'd

section \<open>Handlers\<close>

type_synonym ('d, 'a) handler = "'d server \<Rightarrow> ('a \<times> 'd server) res"

definition ret_h :: "'a \<Rightarrow> ('d, 'a) handler" where
  "ret_h x s = Inr (x, s)"

definition bind_h :: "('d, 'a) handler \<Rightarrow> ('a \<Rightarrow> ('d, 'b) handler) \<Rightarrow> ('d, 'b) handler" where
  "bind_h m f s = bind_r (m s) (\<lambda>(x, s'). f x s')"

lemma bind_h_Inr_iff:
  "bind_h m f s = Inr (y, s') \<longleftrightarrow> (\<exists>x s1. m s = Inr (x, s1) \<and> f x s1 = Inr (y, s'))"
  by (auto simp: bind_h_def bind_r_Inr_iff)

text \<open>A call into the CUDA libraries, and the translation of a handle by a resource manager.\<close>

definition cuda_call :: "'d env \<Rightarrow> string \<Rightarrow> cval list \<Rightarrow> ('d, u32 \<times> cval list) handler" where
  "cuda_call E name args s =
     (let (err, outs, d) = cuda E name args (gpu s) in Inr ((err, outs), s\<lparr>gpu := d\<rparr>))"

definition handle :: "('d server \<Rightarrow> resource_mg) \<Rightarrow> u64 \<Rightarrow> ('d, u64) handler" where
  "handle sel h s = bind_r (resource_mg_get (sel s) h) (\<lambda>p. Inr (p, s))"

lemma cuda_call_Inr_iff:
  "cuda_call E name args s = Inr ((err, outs), s') \<longleftrightarrow>
     (\<exists>d. cuda E name args (gpu s) = (err, outs, d) \<and> s' = s\<lparr>gpu := d\<rparr>)"
  by (auto simp: cuda_call_def split: prod.splits)

lemma handle_Inr_iff:
  "handle sel h s = Inr (p, s') \<longleftrightarrow> resource_mg_get (sel s) h = Inr p \<and> s' = s"
  by (auto simp: handle_def bind_r_Inr_iff)

end
