(* ===== verification/Handlers.thy ===== *)
theory Handlers
  imports Server
begin

text \<open>
  The shape the request handlers of the server share: record the call and its arguments,
  translate the handles among them, call the CUDA library, record and return the result. A
  handler that returns 0 sends no reply to the client (\<open>No_Reply\<close>).

  The predicate \<open>extends_log\<close> and its introduction rules carry the proofs that every handler
  only appends complete records to the log; \<open>logs_call\<close> says exactly what a handler of the
  common shape does.
\<close>

section \<open>Arguments and replies\<close>

datatype reply = No_Reply | Reply "cval list"

datatype 'd arg = Val cval | Handle "'d server \<Rightarrow> resource_mg" u64

fun eval_arg :: "'d arg \<Rightarrow> ('d, cval) handler" where
  "eval_arg (Val v) = ret_h v"
| "eval_arg (Handle sel h) = bind_h (handle sel h) (\<lambda>p. ret_h (Word64 p))"

fun eval_args :: "'d arg list \<Rightarrow> ('d, cval list) handler" where
  "eval_args [] = ret_h []"
| "eval_args (a # as) = bind_h (eval_arg a) (\<lambda>v. bind_h (eval_args as) (\<lambda>vs. ret_h (v # vs)))"

text \<open>The bytes of an \<open>int\<close>, a \<open>size_t\<close> or pointer, and the structures of the protocol.\<close>

definition i32 :: "u32 \<Rightarrow> u8 list" where
  "i32 w = le_bytes 4 (unat w)"

definition i64 :: "u64 \<Rightarrow> u8 list" where
  "i64 w = le_bytes 8 (unat w)"

definition dim3_bytes :: "rpc_dim3 \<Rightarrow> u8 list" where
  "dim3_bytes d = i32 (dim_x d) @ i32 (dim_y d) @ i32 (dim_z d)"

record channel_format_desc =
  cd_f :: u32
  cd_w :: u32
  cd_x :: u32
  cd_y :: u32
  cd_z :: u32

text \<open>The description in the order of the protocol and in the order of CUDA.\<close>

definition rpc_desc_bytes :: "channel_format_desc \<Rightarrow> u8 list" where
  "rpc_desc_bytes d = i32 (cd_f d) @ i32 (cd_w d) @ i32 (cd_x d) @ i32 (cd_y d) @ i32 (cd_z d)"

definition desc_bytes :: "channel_format_desc \<Rightarrow> u8 list" where
  "desc_bytes d = i32 (cd_x d) @ i32 (cd_y d) @ i32 (cd_z d) @ i32 (cd_w d) @ i32 (cd_f d)"

lemma length_i32 [simp]: "length (i32 w) = 4"
  by (simp add: i32_def)

lemma length_i64 [simp]: "length (i64 w) = 8"
  by (simp add: i64_def)

lemma length_dim3_bytes [simp]: "length (dim3_bytes d) = 12"
  by (simp add: dim3_bytes_def)

lemma length_desc_bytes [simp]: "length (desc_bytes d) = 20" "length (rpc_desc_bytes d) = 20"
  by (simp_all add: desc_bytes_def rpc_desc_bytes_def)

text \<open>The 32-bit and the string value of an output variable.\<close>

definition out32 :: "'d env \<Rightarrow> cval list \<Rightarrow> nat \<Rightarrow> u32" where
  "out32 E outs k =
     (if k < length outs then (case outs ! k of Int32 w \<Rightarrow> w | _ \<Rightarrow> of_int (fresh_int E))
      else of_int (fresh_int E))"

definition out_text :: "cval list \<Rightarrow> string" where
  "out_text outs = (case outs of Text t # _ \<Rightarrow> t | _ \<Rightarrow> [])"

section \<open>Recording\<close>

definition recorded ::
  "'d env \<Rightarrow> u32 \<Rightarrow> nat \<Rightarrow> (nat \<times> u8 list) list \<Rightarrow> (nat \<Rightarrow> ('d, 'a) handler) \<Rightarrow> ('d, 'a) handler" where
  "recorded E rq sz fs body s =
     bind_r (RECORD_API E rq sz (api_records s)) (\<lambda>(i, l).
       bind_r (RECORD_ARGS i fs l) (\<lambda>l. body i (s\<lparr>api_records := l\<rparr>)))"

definition recorded_void :: "'d env \<Rightarrow> u32 \<Rightarrow> (nat \<Rightarrow> ('d, 'a) handler) \<Rightarrow> ('d, 'a) handler" where
  "recorded_void E rq body s =
     bind_r (RECORD_VOID_API E rq (api_records s)) (\<lambda>(i, l). body i (s\<lparr>api_records := l\<rparr>))"

definition on_log :: "(api_record clist \<Rightarrow> api_record clist res) \<Rightarrow> ('d, unit) handler" where
  "on_log f s = bind_r (f (api_records s)) (\<lambda>l. Inr ((), s\<lparr>api_records := l\<rparr>))"

definition set_args :: "nat \<Rightarrow> (nat \<times> u8 list) list \<Rightarrow> ('d, unit) handler" where
  "set_args i fs = on_log (RECORD_ARGS i fs)"

definition set_result :: "nat \<Rightarrow> u32 \<Rightarrow> ('d, unit) handler" where
  "set_result i v = on_log (RECORD_RESULT_integer i v)"

definition set_result_ptr :: "nat \<Rightarrow> u32 \<Rightarrow> u64 \<Rightarrow> ('d, unit) handler" where
  "set_result_ptr i err p = on_log (RECORD_RESULT_ptr i err p)"

definition set_data :: "'d env \<Rightarrow> nat \<Rightarrow> nat \<Rightarrow> u8 list \<Rightarrow> ('d, unit) handler" where
  "set_data E i n src = on_log (RECORD_DATA E i n src)"

text \<open>Entering a pointer into a resource manager; the handlers ignore a failure.\<close>

definition create_in ::
  "'d env \<Rightarrow> ('d server \<Rightarrow> resource_mg) \<Rightarrow> (resource_mg \<Rightarrow> 'd server \<Rightarrow> 'd server) \<Rightarrow> u64 \<Rightarrow> ('d, unit) handler" where
  "create_in E sel upd p s =
     bind_r (resource_mg_create (heap_ok E) (sel s) p) (\<lambda>(_, m). Inr ((), upd m s))"

section \<open>The common handlers\<close>

text \<open>A call that returns a code, logged (\<open>int_call\<close>) or not (\<open>query_call\<close>).\<close>

definition lib_call :: "'d env \<Rightarrow> string \<Rightarrow> 'd arg list \<Rightarrow> ('d, u32 \<times> cval list) handler" where
  "lib_call E name args = bind_h (eval_args args) (cuda_call E name)"

definition int_call :: "'d env \<Rightarrow> string \<Rightarrow> 'd arg list \<Rightarrow> nat \<Rightarrow> ('d, reply) handler" where
  "int_call E name args i =
     bind_h (lib_call E name args) (\<lambda>(err, outs).
       bind_h (set_result i err) (\<lambda>_. ret_h (Reply [Int32 err])))"

definition logged_call ::
  "'d env \<Rightarrow> u32 \<Rightarrow> nat \<Rightarrow> (nat \<times> u8 list) list \<Rightarrow> string \<Rightarrow> 'd arg list \<Rightarrow> ('d, reply) handler" where
  "logged_call E rq sz fs name args = recorded E rq sz fs (int_call E name args)"

definition logged_void :: "'d env \<Rightarrow> u32 \<Rightarrow> string \<Rightarrow> ('d, reply) handler" where
  "logged_void E rq name = recorded_void E rq (int_call E name [])"

definition query_call ::
  "'d env \<Rightarrow> string \<Rightarrow> 'd arg list \<Rightarrow> (cval list \<Rightarrow> cval list) \<Rightarrow> ('d, reply) handler" where
  "query_call E name args k =
     bind_h (lib_call E name args) (\<lambda>(err, outs). ret_h (Reply (Int32 err # k outs)))"

text \<open>A call that creates an object on the device and enters it into a resource manager.\<close>

definition create_call ::
  "'d env \<Rightarrow> ('d server \<Rightarrow> resource_mg) \<Rightarrow> (resource_mg \<Rightarrow> 'd server \<Rightarrow> 'd server) \<Rightarrow>
   string \<Rightarrow> 'd arg list \<Rightarrow> nat \<Rightarrow> ('d, reply) handler" where
  "create_call E sel upd name args i =
     bind_h (lib_call E name args) (\<lambda>(err, outs).
       bind_h (create_in E sel upd (out64 E outs 0)) (\<lambda>_.
         bind_h (set_result_ptr i err (out64 E outs 0)) (\<lambda>_.
           ret_h (Reply [Int32 err, Word64 (out64 E outs 0)]))))"

section \<open>Handlers only append complete records\<close>

text \<open>
  Small requests succeed and no request above the limit of glibc does: what the handlers rely
  on for their argument structures, which have at most 1024 bytes.
\<close>

definition steady :: "'d env \<Rightarrow> bool" where
  "steady E \<longleftrightarrow> alloc_bounded (heap_ok E) \<and> (\<forall>n \<le> 1024. heap_ok E n)"

text \<open>
  The bytes of the argument block a restore reads for a procedure, and what holds of every
  record of a log: it can be written to a checkpoint, read back, and restored.
\<close>

definition proc_size :: "u32 \<Rightarrow> nat" where
  "proc_size rq =
     (if rq \<in> {CUDA_MALLOC, CUDA_STREAM_CREATE_WITH_PRIORITY} then 8
      else if rq \<in> {CUDA_STREAM_CREATE_WITH_FLAGS, CUDA_EVENT_CREATE_WITH_FLAGS} then 4 else 0)"

lemma proc_size_num [simp]:
  "proc_size rq = (if rq = 414 \<or> rq = 257 then 8 else if rq = 256 \<or> rq = 281 then 4 else 0)"
  by (auto simp: proc_size_def CUDA_MALLOC_def CUDA_STREAM_CREATE_WITH_PRIORITY_def
      CUDA_STREAM_CREATE_WITH_FLAGS_def CUDA_EVENT_CREATE_WITH_FLAGS_def)

definition logged_ok :: "'d env \<Rightarrow> api_record \<Rightarrow> bool" where
  "logged_ok E r \<longleftrightarrow> record_fits E r \<and> proc_size (rq_function r) \<le> arg_size r"

definition log_fits :: "'d env \<Rightarrow> api_record list \<Rightarrow> bool" where
  "log_fits E xs \<longleftrightarrow> (\<forall>x \<in> set xs. logged_ok E x)"

definition extends_log :: "'d env \<Rightarrow> nat \<Rightarrow> nat \<Rightarrow> ('d, 'a) handler \<Rightarrow> bool" where
  "extends_log E n k h \<longleftrightarrow>
     (\<forall>s xs r s'. list_rep (api_records s) xs \<longrightarrow> k \<le> length xs \<longrightarrow> log_fits E xs \<longrightarrow> h s = Inr (r, s') \<longrightarrow>
        (\<exists>xs'. list_rep (api_records s') xs' \<and> length xs \<le> length xs' \<and> take n xs' = take n xs \<and>
               log_fits E xs'))"

named_theorems log_intros \<open>introduction rules for extends_log\<close>

lemma extends_logI:
  assumes "\<And>s xs r s'. list_rep (api_records s) xs \<Longrightarrow> k \<le> length xs \<Longrightarrow> log_fits E xs \<Longrightarrow>
    h s = Inr (r, s') \<Longrightarrow> \<exists>xs'. list_rep (api_records s') xs' \<and> length xs \<le> length xs' \<and>
      take n xs' = take n xs \<and> log_fits E xs'"
  shows "extends_log E n k h"
  using assms unfolding extends_log_def by blast

lemma extends_logD:
  assumes "extends_log E n k h" and "list_rep (api_records s) xs" and "k \<le> length xs"
    and "log_fits E xs" and "h s = Inr (r, s')"
  shows "\<exists>xs'. list_rep (api_records s') xs' \<and> length xs \<le> length xs' \<and>
      take n xs' = take n xs \<and> log_fits E xs'"
  using assms unfolding extends_log_def by blast

lemma extends_log_pure:
  "(\<And>s r s'. h s = Inr (r, s') \<Longrightarrow> api_records s' = api_records s) \<Longrightarrow> extends_log E n k h"
  by (rule extends_logI) auto

lemma extends_ret [log_intros]: "extends_log E n k (ret_h x)"
  by (rule extends_log_pure) (simp add: ret_h_def)

lemma extends_fault [log_intros]: "extends_log E n k (\<lambda>s. Inl f)"
  by (rule extends_log_pure) simp

lemma extends_bind [log_intros]:
  assumes m: "extends_log E n k m" and f: "\<And>x. extends_log E n k (f x)"
  shows "extends_log E n k (bind_h m f)"
proof (rule extends_logI)
  fix s xs r s'
  assume rep: "list_rep (api_records s) xs" and k: "k \<le> length xs" and fits: "log_fits E xs"
    and run: "bind_h m f s = Inr (r, s')"
  then obtain x s1 where s1: "m s = Inr (x, s1)" "f x s1 = Inr (r, s')" by (auto simp: bind_h_Inr_iff)
  obtain ys where ys: "list_rep (api_records s1) ys" "length xs \<le> length ys" "take n ys = take n xs"
      "log_fits E ys"
    using extends_logD [OF m rep k fits s1(1)] by blast
  obtain zs where "list_rep (api_records s') zs" "length ys \<le> length zs" "take n zs = take n ys"
      "log_fits E zs"
    using extends_logD [OF f ys(1) _ ys(4) s1(2)] k ys(2) by auto
  with ys show "\<exists>xs'. list_rep (api_records s') xs' \<and> length xs \<le> length xs' \<and>
      take n xs' = take n xs \<and> log_fits E xs'" by (intro exI [of _ zs]) simp
qed

lemma extends_cuda [log_intros]: "extends_log E n k (cuda_call E' name args)"
  by (rule extends_log_pure) (auto simp: cuda_call_def split: prod.splits)

lemma extends_handle [log_intros]: "extends_log E n k (handle sel h)"
  by (rule extends_log_pure) (simp add: handle_Inr_iff)

lemma extends_case_pair [log_intros]:
  "(\<And>a b. extends_log E n k (f a b)) \<Longrightarrow> extends_log E n k (case p of (a, b) \<Rightarrow> f a b)"
  by (cases p) simp

lemma extends_if [log_intros]:
  "extends_log E n k a \<Longrightarrow> extends_log E n k b \<Longrightarrow> extends_log E n k (if c then a else b)"
  by simp

lemma extends_eval_args [log_intros]: "extends_log E n k (eval_args args)"
proof (induction args)
  case (Cons a as)
  then show ?case by (cases a) (auto intro!: log_intros)
qed (simp add: log_intros)

lemma extends_lib_call [log_intros]: "extends_log E n k (lib_call E' name args)"
  unfolding lib_call_def by (intro log_intros)

lemma record_fits_result [simp]:
  "record_fits E (r\<lparr>result_lo := a\<rparr>) = record_fits E r"
  "record_fits E (r\<lparr>result_hi := b\<rparr>) = record_fits E r"
  by (auto simp: record_fits_def record_wf_def split: option.split)

lemma extends_update:
  assumes i: "n \<le> i" "i < k"
    and fit: "\<And>r r'. f r = Inr r' \<Longrightarrow> record_fits E r \<Longrightarrow>
      record_fits E r' \<and> rq_function r' = rq_function r \<and> arg_size r' = arg_size r"
  shows "extends_log E n k (on_log (update_record i f))"
proof (rule extends_logI)
  fix s :: "'b server" and xs r s'
  assume rep: "list_rep (api_records s) xs" and k: "k \<le> length xs" and fits: "log_fits E xs"
    and run: "on_log (update_record i f) s = Inr (r, s')"
  then obtain l where l: "update_record i f (api_records s) = Inr l" "s' = s\<lparr>api_records := l\<rparr>"
    by (auto simp: on_log_def bind_r_Inr_iff)
  have "i < length xs" using i k by simp
  from update_record_Inr [OF rep this l(1)] obtain r' where
    "f (xs ! i) = Inr r'" "list_rep l (xs[i := r'])" by blast
  moreover have "logged_ok E r'"
    using fit calculation(1) fits \<open>i < length xs\<close> by (auto simp: log_fits_def logged_ok_def simp del: proc_size_num)
  ultimately show "\<exists>xs'. list_rep (api_records s') xs' \<and> length xs \<le> length xs' \<and>
      take n xs' = take n xs \<and> log_fits E xs'"
    using l(2) i fits set_update_subset_insert [of xs i r']
    by (intro exI [of _ "xs[i := r']"]) (auto simp: log_fits_def)
qed

lemma extends_set_result [log_intros]:
  "n \<le> i \<Longrightarrow> i < k \<Longrightarrow> extends_log E n k (set_result i v)"
  unfolding set_result_def RECORD_RESULT_integer_def by (rule extends_update) auto

lemma extends_set_result_ptr [log_intros]:
  "n \<le> i \<Longrightarrow> i < k \<Longrightarrow> extends_log E n k (set_result_ptr i err p)"
  unfolding set_result_ptr_def RECORD_RESULT_ptr_def
  by (rule extends_update) auto

lemma extends_set_data [log_intros]:
  "steady E \<Longrightarrow> n \<le> i \<Longrightarrow> i < k \<Longrightarrow> extends_log E n k (set_data E i m src)"
  unfolding set_data_def RECORD_DATA_def
proof (rule extends_update)
  fix r r' assume st: "steady E" and "record_fits E r"
    and "(if length src < m then Inl Out_Of_Bounds
      else if heap_ok E m then Inr (r\<lparr>data_size := m, data := Some (take m src)\<rparr>)
      else if m = 0 then Inr (r\<lparr>data_size := 0, data := None\<rparr>) else Inl Null_Deref) = Inr r'"
  moreover have "heap_ok E m \<Longrightarrow> m < 2 ^ 63" using st alloc_boundedD [of "heap_ok E" m] by (simp add: steady_def)
  ultimately show "record_fits E r' \<and> rq_function r' = rq_function r \<and> arg_size r' = arg_size r"
    by (auto simp: record_fits_def record_wf_def split: if_split_asm option.split)
qed

lemma extends_set_args [log_intros]:
  fixes E :: "'d env"
  assumes "n \<le> i" and "i < k"
  shows "extends_log E n k (set_args i fs)"
proof (induction fs)
  case Nil
  show ?case by (rule extends_log_pure) (auto simp: set_args_def on_log_def)
next
  case (Cons f fs)
  obtain off bs where f: "f = (off, bs)" by fastforce
  have "extends_log E n k (on_log (RECORD_ARG i off bs))"
    unfolding RECORD_ARG_def
    by (rule extends_update [OF assms]) (auto simp: record_fits_def record_wf_def split: option.splits if_splits)
  moreover have "(set_args i (f # fs) :: ('d, unit) handler) =
      bind_h (on_log (RECORD_ARG i off bs)) (\<lambda>_. set_args i fs)"
    by (rule ext) (simp add: f set_args_def on_log_def bind_h_def bind_r_assoc)
  ultimately show ?case using Cons by (simp add: extends_bind)
qed

lemma RECORD_ARGS_keeps:
  "list_rep l xs \<Longrightarrow> i < length xs \<Longrightarrow> arguments (xs ! i) = Some a \<Longrightarrow> RECORD_ARGS i fs l = Inr l' \<Longrightarrow>
   \<exists>a'. length a' = length a \<and> list_rep l' (xs[i := (xs ! i)\<lparr>arguments := Some a'\<rparr>])"
proof (induction fs arbitrary: l xs a)
  case Nil
  then have "list_rep l' (xs[i := (xs ! i)\<lparr>arguments := Some a\<rparr>])"
    by (metis RECORD_ARGS.simps(1) api_record.surjective api_record.update_convs(3) list_update_id sum.inject(2))
  then show ?case by blast
next
  case (Cons f fs)
  obtain off bs where f: "f = (off, bs)" by fastforce
  with Cons.prems obtain l1 where l1: "RECORD_ARG i off bs l = Inr l1" "RECORD_ARGS i fs l1 = Inr l'"
    by (auto simp: bind_r_Inr_iff)
  let ?r = "(xs ! i)\<lparr>arguments := Some (blit a off bs)\<rparr>"
  have r1: "list_rep l1 (xs[i := ?r])" "off + length bs \<le> length a"
    using update_record_Inr [OF Cons.prems(1,2) l1(1) [unfolded RECORD_ARG_def]] Cons.prems(3)
    by (auto split: if_split_asm)
  obtain a' where "length a' = length (blit a off bs)"
    "list_rep l' ((xs[i := ?r])[i := ((xs[i := ?r]) ! i)\<lparr>arguments := Some a'\<rparr>])"
    using Cons.IH [OF r1(1) _ _ l1(2)] Cons.prems(2) by auto
  with Cons.prems(2) r1(2) show ?case by auto
qed

text \<open>The record the macros write, before the result is known.\<close>

definition call_record :: "'d env \<Rightarrow> u32 \<Rightarrow> nat \<Rightarrow> u8 list option \<Rightarrow> api_record" where
  "call_record E rq sz a = (fresh_record E)\<lparr>rq_function := rq, arg_size := sz, arguments := a,
     data_size := 0, data := None\<rparr>"

lemma glibc_id: "alloc_bounded alloc \<Longrightarrow> glibc alloc = alloc"
  by (auto simp: glibc_def alloc_bounded_def)

lemma RECORD_API_slot:
  "RECORD_API E rq sz l = append_slot (heap_ok E) l
     (call_record E rq sz (if heap_ok E sz then Some (replicate sz (fresh_byte E)) else None))"
  unfolding RECORD_API_def append_slot_def call_record_def Let_def by (rule refl)

lemma RECORD_VOID_slot:
  "RECORD_VOID_API E rq l = append_slot (heap_ok E) l (call_record E rq 0 None)"
  unfolding RECORD_VOID_API_def append_slot_def call_record_def by (rule refl)

lemma append_slot_reps:
  assumes "steady E" and "list_rep l xs" and "append_slot (heap_ok E) l x = Inr (i, l')"
  shows "i = length xs" and "list_rep l' (xs @ [x])"
  using append_slot_Inr [of l xs "heap_ok E" x i l'] assms glibc_id [of "heap_ok E"]
  by (simp_all add: steady_def)

lemma call_record_fits:
  "steady E \<Longrightarrow> sz \<le> 1024 \<Longrightarrow> proc_size rq \<le> sz \<Longrightarrow> length a = sz \<Longrightarrow>
   logged_ok E (call_record E rq sz (Some a))"
  "steady E \<Longrightarrow> proc_size rq = 0 \<Longrightarrow> logged_ok E (call_record E rq 0 None)"
  by (auto simp del: proc_size_num simp: logged_ok_def record_fits_def record_wf_def call_record_def steady_def)

lemma extends_from_appended:
  assumes body: "extends_log E n (Suc (length xs)) h" and n: "n \<le> length xs"
    and rep: "list_rep (api_records s) (xs @ [r])" and fits: "log_fits E xs" "logged_ok E r"
    and run: "h s = Inr (x, s')"
  shows "\<exists>xs'. list_rep (api_records s') xs' \<and> length xs \<le> length xs' \<and>
      take n xs' = take n xs \<and> log_fits E xs'"
proof -
  have "log_fits E (xs @ [r])" using fits by (auto simp: log_fits_def)
  from extends_logD [OF body rep _ this run] obtain ys where
    "list_rep (api_records s') ys" "length (xs @ [r]) \<le> length ys" "take n ys = take n (xs @ [r])"
    "log_fits E ys" by auto
  with n show ?thesis by (intro exI [of _ ys]) simp
qed

lemma extends_recorded [log_intros]:
  assumes st: "steady E" and sz: "sz \<le> 1024" "proc_size rq \<le> sz" and n: "n \<le> k"
    and body: "\<And>i. n \<le> i \<Longrightarrow> extends_log E n (Suc i) (body i)"
  shows "extends_log E n k (recorded E rq sz fs body)"
proof (rule extends_logI)
  fix s xs r s'
  assume rep: "list_rep (api_records s) xs" and k: "k \<le> length xs" and fits: "log_fits E xs"
    and run: "recorded E rq sz fs body s = Inr (r, s')"
  then obtain i l1 l2 where l1: "RECORD_API E rq sz (api_records s) = Inr (i, l1)"
      and l2: "RECORD_ARGS i fs l1 = Inr l2" and b: "body i (s\<lparr>api_records := l2\<rparr>) = Inr (r, s')"
    by (auto simp: recorded_def bind_r_Inr_iff)
  have "heap_ok E sz" using st sz by (simp add: steady_def)
  then have i: "i = length xs" "list_rep l1 (xs @ [call_record E rq sz (Some (replicate sz (fresh_byte E)))])"
    using append_slot_reps [OF st rep] l1 by (simp_all add: RECORD_API_slot)
  obtain a where a: "length a = sz" "list_rep l2 (xs @ [call_record E rq sz (Some a)])"
  proof -
    have "arguments ((xs @ [call_record E rq sz (Some (replicate sz (fresh_byte E)))]) ! length xs) =
        Some (replicate sz (fresh_byte E))" by (simp add: call_record_def)
    then obtain a' where "length a' = sz"
      "list_rep l2 (xs @ [(call_record E rq sz (Some (replicate sz (fresh_byte E))))\<lparr>arguments := Some a'\<rparr>])"
      using RECORD_ARGS_keeps [OF i(2), of "length xs" "replicate sz (fresh_byte E)" fs l2] i(1) l2 by auto
    moreover have "(call_record E rq sz b)\<lparr>arguments := c\<rparr> = call_record E rq sz c" for b c
      by (rule api_record.equality) (simp_all add: call_record_def)
    ultimately show thesis by (intro that [of a']) simp_all
  qed
  have "n \<le> length xs" using n k by simp
  then show "\<exists>xs'. list_rep (api_records s') xs' \<and> length xs \<le> length xs' \<and>
      take n xs' = take n xs \<and> log_fits E xs'"
    using extends_from_appended [of E n xs "body i" "s\<lparr>api_records := l2\<rparr>" "call_record E rq sz (Some a)" r s']
      call_record_fits(1) [OF st sz a(1)] fits b a(2) i(1) body by simp
qed

lemma extends_recorded_void [log_intros]:
  assumes st: "steady E" "proc_size rq = 0" and n: "n \<le> k" and body: "\<And>i. n \<le> i \<Longrightarrow> extends_log E n (Suc i) (body i)"
  shows "extends_log E n k (recorded_void E rq body)"
proof (rule extends_logI)
  fix s xs r s'
  assume rep: "list_rep (api_records s) xs" and k: "k \<le> length xs" and fits: "log_fits E xs"
    and run: "recorded_void E rq body s = Inr (r, s')"
  then obtain i l1 where l1: "RECORD_VOID_API E rq (api_records s) = Inr (i, l1)"
      and b: "body i (s\<lparr>api_records := l1\<rparr>) = Inr (r, s')"
    by (auto simp: recorded_void_def bind_r_Inr_iff)
  have i: "i = length xs" "list_rep l1 (xs @ [call_record E rq 0 None])"
    using append_slot_reps [OF st(1) rep] l1 by (simp_all add: RECORD_VOID_slot)
  have "n \<le> length xs" using n k by simp
  then show "\<exists>xs'. list_rep (api_records s') xs' \<and> length xs \<le> length xs' \<and>
      take n xs' = take n xs \<and> log_fits E xs'"
    using extends_from_appended [of E n xs "body i" "s\<lparr>api_records := l1\<rparr>" "call_record E rq 0 None" r s']
      call_record_fits(2) [OF st] fits b i body by simp
qed

lemma extends_int_call [log_intros]: "n \<le> i \<Longrightarrow> i < k \<Longrightarrow> extends_log E n k (int_call E' name args i)"
  unfolding int_call_def by (intro log_intros)

lemma extends_logged_call [log_intros]:
  "steady E \<Longrightarrow> sz \<le> 1024 \<Longrightarrow> proc_size rq \<le> sz \<Longrightarrow> n \<le> k \<Longrightarrow>
   extends_log E n k (logged_call E rq sz fs name args)"
  unfolding logged_call_def by (intro log_intros) simp_all

lemma extends_logged_void [log_intros]:
  "steady E \<Longrightarrow> proc_size rq = 0 \<Longrightarrow> n \<le> k \<Longrightarrow> extends_log E n k (logged_void E rq name)"
  unfolding logged_void_def by (intro log_intros) simp_all

lemma extends_query_call [log_intros]: "extends_log E n k (query_call E' name args g)"
  unfolding query_call_def by (intro log_intros)

lemma extends_create_in [log_intros]:
  "(\<And>m s. api_records (upd m s) = api_records s) \<Longrightarrow> extends_log E n k (create_in E' sel upd p)"
  by (rule extends_log_pure) (auto simp: create_in_def bind_r_Inr_iff)

lemma extends_create_call [log_intros]:
  "(\<And>m s. api_records (upd m s) = api_records s) \<Longrightarrow> n \<le> i \<Longrightarrow> i < k \<Longrightarrow>
   extends_log E n k (create_call E' sel upd name args i)"
  unfolding create_call_def by (intro log_intros)

section \<open>What a logged call does\<close>

text \<open>
  \<open>logs_call E h rq sz fs name args\<close>: when the handles among the arguments can be translated and
  there is room for a record, the handler \<open>h\<close> issues exactly the call \<open>name\<close> with the translated
  arguments, changes nothing but the device and the log, appends exactly one record (procedure
  number, argument structure, result code) and replies with the code.
\<close>

definition logs_call ::
  "'d env \<Rightarrow> ('d, reply) handler \<Rightarrow> u32 \<Rightarrow> nat \<Rightarrow> (nat \<times> u8 list) list \<Rightarrow> string \<Rightarrow> 'd arg list \<Rightarrow> bool" where
  "logs_call E h rq sz fs name args \<longleftrightarrow>
     (\<forall>s xs as err outs d.
        list_rep (api_records s) xs \<longrightarrow> room (heap_ok E) (api_records s) \<longrightarrow>
        (\<forall>l. eval_args args (s\<lparr>api_records := l\<rparr>) = Inr (as, s\<lparr>api_records := l\<rparr>)) \<longrightarrow>
        cuda E name as (gpu s) = (err, outs, d) \<longrightarrow>
        (\<exists>l. h s = Inr (Reply [Int32 err], s\<lparr>api_records := l, gpu := d\<rparr>) \<and>
             list_rep l (xs @ [(call_record E rq sz (if sz = 0 then None
                 else Some (put_fields fs (replicate sz (fresh_byte E)))))
               \<lparr>result_lo := set_low32 (result_lo (fresh_record E)) err\<rparr>])))"

lemma append_slot_room:
  assumes "steady E" and "list_rep l xs" and "room (heap_ok E) l"
  obtains l' where "append_slot (heap_ok E) l x = Inr (length xs, l')" and "list_rep l' (xs @ [x])"
  using append_slot_rep [of l xs "heap_ok E" x] assms glibc_id [of "heap_ok E"]
  by (auto simp: steady_def)

lemma recorded_opens:
  assumes st: "steady E" and sz: "sz \<le> 1024" and fit: "fields_fit fs sz"
    and rep: "list_rep (api_records s) xs" and room: "room (heap_ok E) (api_records s)"
  obtains l where "recorded E rq sz fs body s = body (length xs) (s\<lparr>api_records := l\<rparr>)"
    and "list_rep l (xs @ [call_record E rq sz (Some (put_fields fs (replicate sz (fresh_byte E))))])"
proof -
  let ?r = "\<lambda>a. call_record E rq sz (Some a)" and ?a = "replicate sz (fresh_byte E)"
  have heap: "heap_ok E sz" using st sz by (simp add: steady_def)
  obtain l1 where l1: "RECORD_API E rq sz (api_records s) = Inr (length xs, l1)"
    "list_rep l1 (xs @ [?r ?a])"
    using append_slot_room [OF st rep room, of "?r ?a"] heap by (auto simp: RECORD_API_slot)
  have upd: "(?r ?a)\<lparr>arguments := Some a\<rparr> = ?r a" for a
    by (rule api_record.equality) (simp_all add: call_record_def)
  have arg: "arguments (?r ?a) = Some ?a" by (simp add: call_record_def)
  obtain l2 where "RECORD_ARGS (length xs) fs l1 = Inr l2" "list_rep l2 (xs @ [?r (put_fields fs ?a)])"
    using RECORD_ARGS_rep [OF l1(2), of "length xs" ?a fs] fit arg upd by auto
  with l1 show thesis by (intro that [of l2]) (simp_all add: recorded_def)
qed

lemma recorded_void_opens:
  assumes st: "steady E" and rep: "list_rep (api_records s) xs" and room: "room (heap_ok E) (api_records s)"
  obtains l where "recorded_void E rq body s = body (length xs) (s\<lparr>api_records := l\<rparr>)"
    and "list_rep l (xs @ [call_record E rq 0 None])"
proof -
  obtain l where "RECORD_VOID_API E rq (api_records s) = Inr (length xs, l)"
    "list_rep l (xs @ [call_record E rq 0 None])"
    using append_slot_room [OF st rep room, of "call_record E rq 0 None"] by (auto simp: RECORD_VOID_slot)
  then show thesis by (intro that [of l]) (simp_all add: recorded_void_def)
qed

lemma int_call_last:
  assumes rep: "list_rep (api_records s) (xs @ [r])" and args: "eval_args args s = Inr (as, s)"
    and cuda: "cuda E name as (gpu s) = (err, outs, d)"
  obtains l where "int_call E name args (length xs) s = Inr (Reply [Int32 err], s\<lparr>api_records := l, gpu := d\<rparr>)"
    and "list_rep l (xs @ [r\<lparr>result_lo := set_low32 (result_lo r) err\<rparr>])"
proof -
  obtain l where "RECORD_RESULT_integer (length xs) err (api_records s) = Inr l"
    "list_rep l ((xs @ [r])[length xs := r\<lparr>result_lo := set_low32 (result_lo r) err\<rparr>])"
    unfolding RECORD_RESULT_integer_def
    using update_record_rep [OF rep, of "length xs" "\<lambda>r. Inr (r\<lparr>result_lo := set_low32 (result_lo r) err\<rparr>)"]
    by auto
  then show thesis
    using args cuda by (intro that [of l])
      (simp_all add: int_call_def lib_call_def bind_h_def cuda_call_def set_result_def on_log_def ret_h_def)
qed

lemma logged_call_logs:
  assumes st: "steady E" and sz: "0 < sz" "sz \<le> 1024" and fit: "fields_fit fs sz"
  shows "logs_call E (logged_call E rq sz fs name args) rq sz fs name args"
  unfolding logs_call_def
proof (intro allI impI)
  fix s :: "'a server" and xs as err outs d
  assume rep: "list_rep (api_records s) xs" and room: "room (heap_ok E) (api_records s)"
    and args: "\<forall>l. eval_args args (s\<lparr>api_records := l\<rparr>) = Inr (as, s\<lparr>api_records := l\<rparr>)"
    and cuda: "cuda E name as (gpu s) = (err, outs, d)"
  let ?r = "\<lambda>a. call_record E rq sz (Some a)" and ?a = "replicate sz (fresh_byte E)"
  obtain l2 where l2: "logged_call E rq sz fs name args s =
      int_call E name args (length xs) (s\<lparr>api_records := l2\<rparr>)" "list_rep l2 (xs @ [?r (put_fields fs ?a)])"
    unfolding logged_call_def by (rule recorded_opens [OF st sz(2) fit rep room])
  have ev: "eval_args args (s\<lparr>api_records := l2\<rparr>) = Inr (as, s\<lparr>api_records := l2\<rparr>)"
    using args by blast
  obtain l where "int_call E name args (length xs) (s\<lparr>api_records := l2\<rparr>) =
      Inr (Reply [Int32 err], s\<lparr>api_records := l2, api_records := l, gpu := d\<rparr>)"
    "list_rep l (xs @ [(?r (put_fields fs ?a))\<lparr>result_lo := set_low32 (result_lo (?r (put_fields fs ?a))) err\<rparr>])"
    using int_call_last [of "s\<lparr>api_records := l2\<rparr>" xs "?r (put_fields fs ?a)" args as E name err outs d]
      l2(2) ev cuda by auto
  then show "\<exists>l. logged_call E rq sz fs name args s = Inr (Reply [Int32 err], s\<lparr>api_records := l, gpu := d\<rparr>) \<and>
      list_rep l (xs @ [(call_record E rq sz (if sz = 0 then None
        else Some (put_fields fs ?a)))\<lparr>result_lo := set_low32 (result_lo (fresh_record E)) err\<rparr>])"
    using l2(1) sz(1) by (intro exI [of _ l]) (simp add: call_record_def)
qed

lemma logged_void_logs:
  assumes st: "steady E"
  shows "logs_call E (logged_void E rq name) rq 0 [] name []"
  unfolding logs_call_def
proof (intro allI impI)
  fix s :: "'a server" and xs as err outs d
  assume rep: "list_rep (api_records s) xs" and room: "room (heap_ok E) (api_records s)"
    and args: "\<forall>l. eval_args [] (s\<lparr>api_records := l\<rparr>) = Inr (as, s\<lparr>api_records := l\<rparr>)"
    and cuda: "cuda E name as (gpu s) = (err, outs, d)"
  let ?r = "call_record E rq 0 None"
  obtain l1 where l1: "logged_void E rq name s = int_call E name [] (length xs) (s\<lparr>api_records := l1\<rparr>)"
    "list_rep l1 (xs @ [?r])"
    unfolding logged_void_def by (rule recorded_void_opens [OF st rep room])
  obtain l where "int_call E name [] (length xs) (s\<lparr>api_records := l1\<rparr>) =
      Inr (Reply [Int32 err], s\<lparr>api_records := l1, api_records := l, gpu := d\<rparr>)"
    "list_rep l (xs @ [?r\<lparr>result_lo := set_low32 (result_lo ?r) err\<rparr>])"
    using int_call_last [of "s\<lparr>api_records := l1\<rparr>" xs ?r "[]" as E name err outs d] l1(2) args cuda
    by auto
  then show "\<exists>l. logged_void E rq name s = Inr (Reply [Int32 err], s\<lparr>api_records := l, gpu := d\<rparr>) \<and>
      list_rep l (xs @ [(call_record E rq 0 (if (0::nat) = 0 then None
        else Some (put_fields [] (replicate 0 (fresh_byte E)))))
          \<lparr>result_lo := set_low32 (result_lo (fresh_record E)) err\<rparr>])"
    using l1(1) by (intro exI [of _ l]) (simp add: call_record_def)
qed

text \<open>
  A creating call enters the pointer of the library into the list of new resources of the
  manager and keeps it in the record.
\<close>

lemma create_in_runs:
  assumes "steady E" and "list_rep (new_res (sel s)) ps" and "room (heap_ok E) (new_res (sel s))"
  obtains n where "create_in E sel upd p s = Inr ((), upd ((sel s)\<lparr>new_res := n\<rparr>) s)"
    and "list_rep n (ps @ [p])"
proof -
  obtain n where "list_append_copy (heap_ok E) (new_res (sel s)) (Some p) = Inr (0, n)"
    "list_rep n (ps @ [p])"
    using list_append_copy_rep [OF assms(2), of "heap_ok E" p] assms(1,3) by (auto simp: steady_def)
  then show thesis by (intro that [of n]) (simp_all add: create_in_def resource_mg_create_def)
qed

lemma set_result_ptr_last:
  assumes "list_rep (api_records s) (xs @ [r])"
  obtains l where "set_result_ptr (length xs) err p s = Inr ((), s\<lparr>api_records := l\<rparr>)"
    and "list_rep l (xs @ [r\<lparr>result_lo := set_low32 (result_lo r) err, result_hi := p\<rparr>])"
proof -
  obtain l where "RECORD_RESULT_ptr (length xs) err p (api_records s) = Inr l"
    "list_rep l ((xs @ [r])[length xs := r\<lparr>result_lo := set_low32 (result_lo r) err, result_hi := p\<rparr>])"
    unfolding RECORD_RESULT_ptr_def
    using update_record_rep [OF assms, of "length xs"
        "\<lambda>r. Inr (r\<lparr>result_lo := set_low32 (result_lo r) err, result_hi := p\<rparr>)"] by auto
  then show thesis by (intro that [of l]) (simp_all add: set_result_ptr_def on_log_def)
qed

lemma create_call_runs:
  assumes st: "steady E" and rep: "list_rep (api_records s) (xs @ [r])"
    and args: "eval_args args s = Inr (as, s)" and cuda: "cuda E name as (gpu s) = (err, outs, d)"
    and new: "list_rep (new_res (sel s)) ps" "room (heap_ok E) (new_res (sel s))"
    and sel: "\<And>d. sel (s\<lparr>gpu := d\<rparr>) = sel s" "\<And>m s. api_records (upd m s) = api_records s"
  obtains l n where "create_call E sel upd name args (length xs) s = Inr (Reply [Int32 err, Word64 (out64 E outs 0)],
      (upd ((sel s)\<lparr>new_res := n\<rparr>) (s\<lparr>gpu := d\<rparr>))\<lparr>api_records := l\<rparr>)"
    and "list_rep l (xs @ [r\<lparr>result_lo := set_low32 (result_lo r) err, result_hi := out64 E outs 0\<rparr>])"
    and "list_rep n (ps @ [out64 E outs 0])"
proof -
  obtain n where n: "create_in E sel upd (out64 E outs 0) (s\<lparr>gpu := d\<rparr>) =
      Inr ((), upd ((sel s)\<lparr>new_res := n\<rparr>) (s\<lparr>gpu := d\<rparr>))" "list_rep n (ps @ [out64 E outs 0])"
    using create_in_runs [of E sel "s\<lparr>gpu := d\<rparr>" ps upd "out64 E outs 0"] st new sel(1) by auto
  let ?s = "upd ((sel s)\<lparr>new_res := n\<rparr>) (s\<lparr>gpu := d\<rparr>)"
  obtain l where l: "set_result_ptr (length xs) err (out64 E outs 0) ?s = Inr ((), ?s\<lparr>api_records := l\<rparr>)"
    "list_rep l (xs @ [r\<lparr>result_lo := set_low32 (result_lo r) err, result_hi := out64 E outs 0\<rparr>])"
    using set_result_ptr_last [of ?s xs r err "out64 E outs 0"] rep sel(2) by auto
  show thesis
    by (rule that [OF _ l(2) n(2)])
      (simp add: create_call_def lib_call_def bind_h_def args cuda_call_def cuda n(1) l(1) ret_h_def)
qed

end
