(* ===== verification/CrRestore.thy ===== *)
theory CrRestore
  imports Server
begin

text \<open>
  Restoring a checkpoint, the second half of \<open>cpu/cr.c\<close>: the log is read record by record,
  the resources it created are created again and entered into the resource managers, other
  calls are issued again, and the last kernel launch is repeated.
\<close>

section \<open>Calling a recorded procedure\<close>

text \<open>
  \<open>rpc_dispatch\<close> is generated by rpcgen from \<open>cpu_rpc_prot.x\<close>: \<open>svc proc args mem\<close> is the
  handler it finds for the procedure number, run on the raw argument structure; \<open>mem\<close> is the
  block a \<open>mem_data\<close> pointer in that structure points to. The structure itself is kept as
  bytes, in which such a pointer is not represented.
\<close>

type_synonym 'd svc = "u32 \<Rightarrow> u8 list option \<Rightarrow> u8 list option \<Rightarrow> ('d, u32) handler"

definition cr_call_record ::
  "'d svc \<Rightarrow> api_record \<Rightarrow> u8 list option \<Rightarrow> ('d, int) handler" where
  "cr_call_record svc r mem =
     bind_h (svc (rq_function r) (arguments r) mem) (\<lambda>retval. ret_h (if retval = 1 then 0 else 1))"

section \<open>Restoring resources\<close>

text \<open>
  \<open>read_mem_file\<close>: the contents of a file of the checkpoint that must have at least \<open>n\<close>
  bytes: \<open>Inr None\<close> if it cannot be opened, \<open>Inl ()\<close> if it is too short.
\<close>

definition read_mem_file :: "fsys \<Rightarrow> string \<Rightarrow> nat \<Rightarrow> unit + u8 list option" where
  "read_mem_file fs name n =
     (case fopen_r name fs of
        None \<Rightarrow> Inr None
      | Some f \<Rightarrow> (let (bs, f) = fread n f in if length bs \<noteq> n then Inl () else Inr (Some bs)))"

definition array_file :: "string \<Rightarrow> u64 \<Rightarrow> string" where
  "array_file path p = path @ ''/'' @ ''array'' @ ''-0x'' @ hex (unat p)"

text \<open>
  The two array functions return the code, the size and the value left in \<open>cuda_ptr\<close>. Their
  parameter \<open>mem_data\<close> is passed by value: the block they read never reaches the caller.
  The channel description occupies the first 20 bytes of both argument structures, in the order
  of the protocol (f, w, x, y, z); CUDA wants x, y, z, w, f.
\<close>

definition cuda_desc :: "u8 list \<Rightarrow> u8 list" where
  "cuda_desc d = blk 8 12 d @ blk 4 4 d @ blk 0 4 d"

definition restore_array_with ::
  "'d env \<Rightarrow> fsys \<Rightarrow> string \<Rightarrow> u64 \<Rightarrow> nat \<Rightarrow> string \<Rightarrow> cval list \<Rightarrow> ('d, int \<times> u64) handler" where
  "restore_array_with E fs path p mem_size name args s =
     (if \<not> heap_ok E mem_size then Inr ((0, fresh_word E), s)
      else case asprintf E (array_file path p) of
        None \<Rightarrow> Inr ((1, fresh_word E), s)
      | Some fname \<Rightarrow>
          (case read_mem_file fs fname mem_size of
             Inl _ \<Rightarrow> Inr ((1, fresh_word E), s)
           | Inr None \<Rightarrow> Inr ((1, fresh_word E), s)
           | Inr (Some bs) \<Rightarrow>
               bind_r (cuda_call E name args s) (\<lambda>((err, outs), s).
                 Inr ((if err \<noteq> 0 then 1 else 0, out64 E outs 0), s))))"

definition cr_restore_array_3d ::
  "'d env \<Rightarrow> fsys \<Rightarrow> string \<Rightarrow> api_record \<Rightarrow> ('d, int \<times> u64) handler" where
  "cr_restore_array_3d E fs path r s =
     bind_r (read_block (arguments r) 20) (\<lambda>desc.
     bind_r (arg_word r 24 8) (\<lambda>depth. bind_r (arg_word r 32 8) (\<lambda>height.
     bind_r (arg_word r 40 8) (\<lambda>width. bind_r (arg_word r 48 4) (\<lambda>flags.
       restore_array_with E fs path (result_hi r) (wrap64 (wrap64 (width * height) * depth))
         ''cudaMalloc3DArray'' [Bytes (cuda_desc desc), Word64 (of_nat width), Word64 (of_nat height),
           Word64 (of_nat depth), Int32 (of_nat flags)] s)))))"

definition cr_restore_array_1d ::
  "'d env \<Rightarrow> fsys \<Rightarrow> string \<Rightarrow> api_record \<Rightarrow> ('d, int \<times> u64) handler" where
  "cr_restore_array_1d E fs path r s =
     bind_r (read_block (arguments r) 20) (\<lambda>desc.
     bind_r (arg_word r 24 8) (\<lambda>width. bind_r (arg_word r 32 8) (\<lambda>height.
     bind_r (arg_word r 40 4) (\<lambda>flags.
       restore_array_with E fs path (result_hi r) (wrap64 (width * height))
         ''cudaMallocArray'' [Bytes (cuda_desc desc), Word64 (of_nat width), Word64 (of_nat height),
           Int32 (of_nat flags)] s))))"

text \<open>
  The guard is a disjunction of two inequalities with different numbers. Behind it the copy
  to the device reads the uninitialised \<open>mem_data\<close>.
\<close>

definition cr_restore_arrays :: "'d env \<Rightarrow> fsys \<Rightarrow> string \<Rightarrow> api_record \<Rightarrow> ('d, int) handler" where
  "cr_restore_arrays E fs path r s =
     (if rq_function r \<noteq> CUDA_MALLOC_ARRAY \<or> rq_function r \<noteq> CUDA_MALLOC_3D_ARRAY
      then Inr (0, s)
      else bind_r
        (if rq_function r = CUDA_MALLOC_ARRAY then cr_restore_array_1d E fs path r s
         else if rq_function r = CUDA_MALLOC_3D_ARRAY then cr_restore_array_3d E fs path r s
         else Inr ((0, fresh_word E), s))
        (\<lambda>((rc, cuda_ptr), s).
          if rc \<noteq> 0 then Inr (fresh_int E, s)
          else bind_r (resource_mg_add_sorted (heap_ok E) (rm_arrays s) (result_hi r) cuda_ptr)
            (\<lambda>(rc, m). if rc \<noteq> 0 then Inr (1, s\<lparr>rm_arrays := m\<rparr>) else Inl Uninit_Read)))"

definition cr_restore_cusolver :: "'d env \<Rightarrow> api_record \<Rightarrow> ('d, int) handler" where
  "cr_restore_cusolver E r s =
     (if rq_function r = rpc_cusolverDnCreate
      then bind_r (cuda_call E ''cusolverDnCreate'' [] s) (\<lambda>((err, outs), s).
        if err \<noteq> 0 then Inr (1, s)
        else bind_r (resource_mg_add_sorted (heap_ok E) (rm_cusolver s) (result_hi r) (out64 E outs 0))
          (\<lambda>(rc, m). Inr (if rc \<noteq> 0 then 1 else 0, s\<lparr>rm_cusolver := m\<rparr>)))
      else Inr (1, s))"

definition cr_restore_cublas :: "'d env \<Rightarrow> api_record \<Rightarrow> ('d, int) handler" where
  "cr_restore_cublas E r s =
     (if rq_function r = rpc_cublasCreate
      then bind_r (cuda_call E ''cublasCreate_v2'' [] s) (\<lambda>((err, outs), s).
        if err \<noteq> 0 then Inr (1, s)
        else bind_r (resource_mg_add_sorted (heap_ok E) (rm_cublas s) (result_hi r) (out64 E outs 0))
          (\<lambda>(rc, m). Inr (if rc \<noteq> 0 then 1 else 0, s\<lparr>rm_cublas := m\<rparr>)))
      else Inr (1, s))"

definition cr_restore_events :: "'d env \<Rightarrow> api_record \<Rightarrow> ('d, int) handler" where
  "cr_restore_events E r s =
     (if rq_function r \<noteq> CUDA_EVENT_CREATE \<and> rq_function r \<noteq> CUDA_EVENT_CREATE_WITH_FLAGS
      then Inr (1, s)
      else bind_r
        (if rq_function r = CUDA_EVENT_CREATE then cuda_call E ''cudaEventCreate'' [] s
         else bind_r (arg_word r 0 4) (\<lambda>flags.
           cuda_call E ''cudaEventCreateWithFlags'' [Int32 (of_nat flags)] s))
        (\<lambda>((err, outs), s).
          if err \<noteq> 0 then Inr (1, s)
          else bind_r (resource_mg_add_sorted (heap_ok E) (rm_events s) (result_hi r) (out64 E outs 0))
            (\<lambda>(rc, m). Inr (if rc \<noteq> 0 then 1 else 0, s\<lparr>rm_events := m\<rparr>))))"

definition cr_restore_streams :: "'d env \<Rightarrow> api_record \<Rightarrow> ('d, int) handler" where
  "cr_restore_streams E r s =
     (if rq_function r \<notin> {CUDA_STREAM_CREATE, CUDA_STREAM_CREATE_WITH_FLAGS, CUDA_STREAM_CREATE_WITH_PRIORITY}
      then Inr (1, s)
      else bind_r
        (if rq_function r = CUDA_STREAM_CREATE then cuda_call E ''cudaStreamCreate'' [] s
         else if rq_function r = CUDA_STREAM_CREATE_WITH_FLAGS
         then bind_r (arg_word r 0 4) (\<lambda>flags.
           cuda_call E ''cudaStreamCreateWithFlags'' [Int32 (of_nat flags)] s)
         else bind_r (arg_word r 0 4) (\<lambda>flags. bind_r (arg_word r 4 4) (\<lambda>prio.
           cuda_call E ''cudaStreamCreateWithPriority'' [Int32 (of_nat flags), Int32 (of_nat prio)] s)))
        (\<lambda>((err, outs), s).
          if err \<noteq> 0 then Inr (1, s)
          else bind_r (resource_mg_add_sorted (heap_ok E) (rm_streams s) (result_hi r) (out64 E outs 0))
            (\<lambda>(rc, m). Inr (if rc \<noteq> 0 then 1 else 0, s\<lparr>rm_streams := m\<rparr>))))"

definition mem_file :: "string \<Rightarrow> u64 \<Rightarrow> string" where
  "mem_file path p = path @ ''/'' @ ''mem'' @ ''-0x'' @ hex (unat p)"

text \<open>
  A file that cannot be opened leaves the memory uninitialised; a file that is too short
  ends the function with \<open>ret\<close> unset.
\<close>

definition cr_restore_memory :: "'d env \<Rightarrow> fsys \<Rightarrow> string \<Rightarrow> api_record \<Rightarrow> ('d, int) handler" where
  "cr_restore_memory E fs path r s =
     (if rq_function r \<noteq> CUDA_MALLOC then Inr (1, s)
      else bind_r (arg_word r 0 8) (\<lambda>mem_size.
        if \<not> heap_ok E mem_size then Inr (1, s)
        else case asprintf E (mem_file path (result_hi r)) of
          None \<Rightarrow> Inr (fresh_int E, s)
        | Some name \<Rightarrow>
            (case read_mem_file fs name mem_size of
               Inl _ \<Rightarrow> Inr (fresh_int E, s)
             | Inr content \<Rightarrow>
                 bind_r (cuda_call E ''cudaMalloc'' [Word64 (of_nat mem_size)] s) (\<lambda>((err, outs), s).
                   if err \<noteq> 0 then Inr (1, s)
                   else let cuda_ptr = out64 E outs 0 in
                     bind_r (resource_mg_add_sorted (heap_ok E) (rm_memory s) (result_hi r) cuda_ptr)
                       (\<lambda>(rc, m). let s = s\<lparr>rm_memory := m\<rparr> in
                         if rc \<noteq> 0 then Inr (1, s)
                         else case content of
                           None \<Rightarrow> Inr (0, s)
                         | Some bs \<Rightarrow>
                             bind_r (cuda_call E ''cudaMemcpy''
                                [Word64 cuda_ptr, Bytes bs, Word64 (of_nat mem_size), Int32 1] s)
                               (\<lambda>((err, _), s). Inr (if err \<noteq> 0 then 1 else 0, s)))))))"

definition cr_restore_resources ::
  "'d env \<Rightarrow> 'd svc \<Rightarrow> fsys \<Rightarrow> string \<Rightarrow> api_record \<Rightarrow> ('d, int) handler" where
  "cr_restore_resources E svc fs path r s =
     (let f = rq_function r;
          body =
            (if f = CUDA_MALLOC then cr_restore_memory E fs path r s
             else if f \<in> {CUDA_MEMCPY_HTOD, CUDA_MEMCPY_DTOD, CUDA_MEMCPY_DTOH, CUDA_MEMCPY_TO_SYMBOL}
             then Inr (0, s)
             else if f \<in> {CUDA_STREAM_CREATE, CUDA_STREAM_CREATE_WITH_FLAGS, CUDA_STREAM_CREATE_WITH_PRIORITY}
             then cr_restore_streams E r s
             else if f \<in> {CUDA_EVENT_CREATE, CUDA_EVENT_CREATE_WITH_FLAGS}
             then cr_restore_events E r s
             else if f \<in> {CUDA_MALLOC_ARRAY, CUDA_MALLOC_3D_ARRAY}
             then cr_restore_arrays E fs path r s
             else if f \<in> {CUDA_LAUNCH_KERNEL, CUDA_LAUNCH_COOPERATIVE_KERNEL} then Inr (0, s)
             else if f = rpc_cusolverDnCreate then cr_restore_cusolver E r s
             else if f = rpc_cublasCreate then cr_restore_cublas E r s
             else cr_call_record svc r None s)
      in bind_r body (\<lambda>(rc, s). Inr (if rc \<noteq> 0 then 1 else 0, s)))"

section \<open>Repeating the last launch\<close>

text \<open>
  The length of the data block is written into the \<open>mem_data_len\<close> field of the argument
  structure (offset 32); the block itself is passed along.
\<close>

fun cr_launch_loop :: "'d svc \<Rightarrow> nat \<Rightarrow> ('d, int) handler" where
  "cr_launch_loop svc 0 s = Inr (0, s)"
| "cr_launch_loop svc (Suc i) s =
     bind_r (elem_at (api_records s) (Suc i)) (\<lambda>r.
       if rq_function r = CUDA_LAUNCH_KERNEL
       then bind_r (RECORD_ARG (Suc i) 32 (le_bytes 4 (data_size r mod 2 ^ 32)) (api_records s)) (\<lambda>l.
         let s = s\<lparr>api_records := l\<rparr> in
         bind_r (elem_at l (Suc i)) (\<lambda>r. cr_call_record svc r (data r) s))
       else if rq_function r = CUDA_LAUNCH_COOPERATIVE_KERNEL then Inr (1, s)
       else cr_launch_loop svc i s)"

definition cr_launch_kernel :: "'d svc \<Rightarrow> ('d, int) handler" where
  "cr_launch_kernel svc s = cr_launch_loop svc (wrap64 (len (api_records s) + size_max)) s"

section \<open>Restoring the log\<close>

text \<open>
  One value of \<open>res\<close> is threaded through the loop as in the code; the flag says that the loop
  was left by \<open>goto cleanup\<close>.
\<close>

fun cr_restore_loop ::
  "nat \<Rightarrow> 'd env \<Rightarrow> 'd svc \<Rightarrow> fsys \<Rightarrow> string \<Rightarrow> int \<Rightarrow> rfile \<Rightarrow> 'd server \<Rightarrow> (int \<times> bool \<times> 'd server) res" where
  "cr_restore_loop 0 E svc fs path res f s = Inl No_Fuel"
| "cr_restore_loop (Suc n) E svc fs path res f s =
     (if eof f then Inr (res, False, s)
      else bind_r (list_append (heap_ok E) (api_records s) True) (\<lambda>(rc, l, p).
        case p of
          None \<Rightarrow> Inr (res, True, s\<lparr>api_records := l\<rparr>)
        | Some i \<Rightarrow>
            (let (res, f, r) = cr_restore_api_record E f (fresh_record E) in
             bind_r (set_elem l i r) (\<lambda>l. let s = s\<lparr>api_records := l\<rparr> in
               if res \<noteq> 0
               then (if res = 2
                     then bind_r (list_rm l (len l - 1)) (\<lambda>(_, l). Inr (2, False, s\<lparr>api_records := l\<rparr>))
                     else Inr (res, True, s))
               else bind_r (api_records_print_records r) (\<lambda>_.
                 bind_r (cr_restore_resources E svc fs path r s) (\<lambda>(rc, s).
                   if rc \<noteq> 0 then Inr (res, True, s)
                   else cr_restore_loop n E svc fs path res f s))))))"

declare cr_restore_loop.simps [simp del]

definition cr_restore :: "'d env \<Rightarrow> 'd svc \<Rightarrow> fsys \<Rightarrow> string \<Rightarrow> ('d, int) handler" where
  "cr_restore E svc fs path s =
     (case asprintf E (path @ ''/'' @ ''api_records'') of
        None \<Rightarrow> Inr (1, s)
      | Some name \<Rightarrow>
          (case fopen_r name fs of
             None \<Rightarrow> Inr (1, s)
           | Some f \<Rightarrow>
               bind_r (cr_restore_loop (length (ahead f) + 2) E svc fs path 1 f s) (\<lambda>(res, stop, s).
                 if stop then Inr (res, s)
                 else bind_r (cr_launch_kernel svc s) (\<lambda>(rc, s).
                   if rc \<noteq> 0 then Inr (res, s) else Inr (0, s)))))"

section \<open>Restoring one record\<close>

text \<open>
  \<open>rm_tables s mm\<close>: the resource managers a restore enters resources into are in order and
  the one for device memory holds the map \<open>mm\<close>.
\<close>

definition rm_tables :: "'d server \<Rightarrow> (u64 \<rightharpoonup> u64) \<Rightarrow> bool" where
  "rm_tables s mm \<longleftrightarrow> mg_handles (rm_memory s) mm \<and> (\<exists>m. mg_handles (rm_streams s) m) \<and>
     (\<exists>m. mg_handles (rm_events s) m) \<and> (\<exists>m. mg_handles (rm_cusolver s) m) \<and>
     (\<exists>m. mg_handles (rm_cublas s) m)"

text \<open>
  The records a restore handles without calling the recorded procedure, with argument
  blocks of at least the size it reads.
\<close>

definition restorable :: "api_record \<Rightarrow> bool" where
  "restorable r \<longleftrightarrow>
     (case arguments r of None \<Rightarrow> False | Some a \<Rightarrow>
        (rq_function r \<in> {CUDA_MALLOC, CUDA_STREAM_CREATE_WITH_PRIORITY} \<longrightarrow> 8 \<le> length a) \<and>
        (rq_function r \<in> {CUDA_STREAM_CREATE_WITH_FLAGS, CUDA_EVENT_CREATE_WITH_FLAGS} \<longrightarrow> 4 \<le> length a)) \<and>
     rq_function r \<in> {CUDA_MALLOC, CUDA_MEMCPY_HTOD, CUDA_MEMCPY_DTOD, CUDA_MEMCPY_DTOH,
       CUDA_MEMCPY_TO_SYMBOL, CUDA_STREAM_CREATE, CUDA_STREAM_CREATE_WITH_FLAGS,
       CUDA_STREAM_CREATE_WITH_PRIORITY, CUDA_EVENT_CREATE, CUDA_EVENT_CREATE_WITH_FLAGS,
       CUDA_MALLOC_ARRAY, CUDA_MALLOC_3D_ARRAY, CUDA_LAUNCH_KERNEL,
       CUDA_LAUNCH_COOPERATIVE_KERNEL, rpc_cusolverDnCreate, rpc_cublasCreate}"

lemma arg_word_Inr:
  "arguments r = Some a \<Longrightarrow> off + n \<le> length a \<Longrightarrow> arg_word r off n = Inr (le_val (blk off n a))"
  by (simp add: arg_word_def)

text \<open>What one step of a restore may do: nothing to the log, and success keeps the tables.\<close>

definition step_ok ::
  "(u64 \<rightharpoonup> u64) \<Rightarrow> u64 set \<Rightarrow> 'd server \<Rightarrow> (int \<times> 'd server) res \<Rightarrow> bool" where
  "step_ok mm ks s res \<longleftrightarrow> (\<exists>rc s'. res = Inr (rc, s') \<and> api_records s' = api_records s \<and>
     (rc = 0 \<longrightarrow> (\<exists>mm'. rm_tables s' mm' \<and> dom mm' = dom mm \<union> ks)))"

lemma step_okI:
  "res = Inr (rc, s') \<Longrightarrow> api_records s' = api_records s \<Longrightarrow>
   (rc = 0 \<Longrightarrow> rm_tables s' mm' \<and> dom mm' = dom mm \<union> ks) \<Longrightarrow> step_ok mm ks s res"
  unfolding step_ok_def by blast

lemma add_cases:
  assumes "mg_handles m t" and "heap_ok E = glibc h"
  obtains (ok) m' where "resource_mg_add_sorted (heap_ok E) m k v = Inr (0, m')"
      "mg_handles m' (t(k \<mapsto> v))"
    | (full) m' where "resource_mg_add_sorted (heap_ok E) m k v = Inr (1, m')"
  using rm.add_law [OF assms(1), of h k v] assms(2) by auto

lemma cuda_call_eq:
  "cuda_call E name args s = Inr ((fst (cuda E name args (gpu s)), fst (snd (cuda E name args (gpu s)))),
     s\<lparr>gpu := snd (snd (cuda E name args (gpu s)))\<rparr>)"
  by (simp add: cuda_call_def split_beta Let_def)

lemma restore_cusolver_step:
  assumes "rm_tables s mm" and "heap_ok E = glibc h"
  shows "step_ok mm {} s (cr_restore_cusolver E r s)"
proof -
  from assms(1) obtain t where "mg_handles (rm_cusolver s) t" by (auto simp: rm_tables_def)
  then show ?thesis
    by (rule add_cases [OF _ assms(2), of _ _ "result_hi r"
          "out64 E (fst (snd (cuda E ''cusolverDnCreate'' [] (gpu s)))) 0"])
      (use assms(1) in \<open>auto simp: step_ok_def cr_restore_cusolver_def cuda_call_eq rm_tables_def\<close>)
qed

lemma restore_cublas_step:
  assumes "rm_tables s mm" and "heap_ok E = glibc h"
  shows "step_ok mm {} s (cr_restore_cublas E r s)"
proof -
  from assms(1) obtain t where "mg_handles (rm_cublas s) t" by (auto simp: rm_tables_def)
  then show ?thesis
    by (rule add_cases [OF _ assms(2), of _ _ "result_hi r"
          "out64 E (fst (snd (cuda E ''cublasCreate_v2'' [] (gpu s)))) 0"])
      (use assms(1) in \<open>auto simp: step_ok_def cr_restore_cublas_def cuda_call_eq rm_tables_def\<close>)
qed

text \<open>The common end of the two functions for events and streams.\<close>

lemma enter_event_step:
  assumes "rm_tables s mm" and "heap_ok E = glibc h"
  shows "step_ok mm {} s (bind_r (cuda_call E name args s) (\<lambda>((err, outs), s).
      if err \<noteq> 0 then Inr (1, s)
      else bind_r (resource_mg_add_sorted (heap_ok E) (rm_events s) k (out64 E outs 0))
        (\<lambda>(rc, m). Inr (if rc \<noteq> 0 then 1 else 0, s\<lparr>rm_events := m\<rparr>))))"
proof -
  from assms(1) obtain t where "mg_handles (rm_events s) t" by (auto simp: rm_tables_def)
  then show ?thesis
    by (rule add_cases [OF _ assms(2), of _ _ k
          "out64 E (fst (snd (cuda E name args (gpu s)))) 0"])
      (use assms(1) in \<open>auto simp: step_ok_def cuda_call_eq rm_tables_def\<close>)
qed

lemma enter_stream_step:
  assumes "rm_tables s mm" and "heap_ok E = glibc h"
  shows "step_ok mm {} s (bind_r (cuda_call E name args s) (\<lambda>((err, outs), s).
      if err \<noteq> 0 then Inr (1, s)
      else bind_r (resource_mg_add_sorted (heap_ok E) (rm_streams s) k (out64 E outs 0))
        (\<lambda>(rc, m). Inr (if rc \<noteq> 0 then 1 else 0, s\<lparr>rm_streams := m\<rparr>))))"
proof -
  from assms(1) obtain t where "mg_handles (rm_streams s) t" by (auto simp: rm_tables_def)
  then show ?thesis
    by (rule add_cases [OF _ assms(2), of _ _ k
          "out64 E (fst (snd (cuda E name args (gpu s)))) 0"])
      (use assms(1) in \<open>auto simp: step_ok_def cuda_call_eq rm_tables_def\<close>)
qed

lemma restore_events_step:
  assumes "rm_tables s mm" and "heap_ok E = glibc h" and "restorable r"
    and "rq_function r \<in> {CUDA_EVENT_CREATE, CUDA_EVENT_CREATE_WITH_FLAGS}"
  shows "step_ok mm {} s (cr_restore_events E r s)"
proof (cases "rq_function r = CUDA_EVENT_CREATE")
  case True
  then show ?thesis
    using enter_event_step [OF assms(1,2)] by (simp add: cr_restore_events_def)
next
  case False
  then obtain a where a: "arguments r = Some a" "4 \<le> length a"
    using assms(3,4) by (auto simp: restorable_def split: option.splits)
  then have w: "arg_word r 0 4 = Inr (le_val (blk 0 4 a))" by (simp add: arg_word_Inr)
  show ?thesis
    using False assms(4) enter_event_step [OF assms(1,2)] by (simp add: cr_restore_events_def w)
qed

lemma restore_streams_step:
  assumes "rm_tables s mm" and "heap_ok E = glibc h" and "restorable r"
    and "rq_function r \<in> {CUDA_STREAM_CREATE, CUDA_STREAM_CREATE_WITH_FLAGS, CUDA_STREAM_CREATE_WITH_PRIORITY}"
  shows "step_ok mm {} s (cr_restore_streams E r s)"
proof -
  consider (c) "rq_function r = CUDA_STREAM_CREATE"
    | (f) "rq_function r = CUDA_STREAM_CREATE_WITH_FLAGS"
    | (p) "rq_function r = CUDA_STREAM_CREATE_WITH_PRIORITY"
    using assms(4) by blast
  then show ?thesis
  proof cases
    case c
    then show ?thesis
      using enter_stream_step [OF assms(1,2)] by (simp add: cr_restore_streams_def)
  next
    case f
    then obtain a where "arguments r = Some a" "4 \<le> length a"
      using assms(3) by (auto simp: restorable_def split: option.splits)
    then have "arg_word r 0 4 = Inr (le_val (blk 0 4 a))" by (simp add: arg_word_Inr)
    with f show ?thesis
      using enter_stream_step [OF assms(1,2)] by (simp add: cr_restore_streams_def procs)
  next
    case p
    then obtain a where "arguments r = Some a" "8 \<le> length a"
      using assms(3) by (auto simp: restorable_def split: option.splits)
    then have "arg_word r 0 4 = Inr (le_val (blk 0 4 a))" "arg_word r 4 4 = Inr (le_val (blk 4 4 a))"
      by (simp_all add: arg_word_Inr)
    with p show ?thesis
      using enter_stream_step [OF assms(1,2)] by (simp add: cr_restore_streams_def procs)
  qed
qed

text \<open>
  \<open>memory_ok\<close>: the restore of this allocation does not run into one of the exits that return
  the uninitialised \<open>ret\<close>.
\<close>

definition memory_ok :: "'d env \<Rightarrow> fsys \<Rightarrow> string \<Rightarrow> api_record \<Rightarrow> bool" where
  "memory_ok E fs path r \<longleftrightarrow> (rq_function r = CUDA_MALLOC \<longrightarrow>
     (case arg_word r 0 8 of Inl _ \<Rightarrow> False
      | Inr n \<Rightarrow> heap_ok E n \<and> asprintf E (mem_file path (result_hi r)) \<noteq> None \<and>
               read_mem_file fs (mem_file path (result_hi r)) n \<noteq> Inl ()))"

lemma restore_memory_step:
  assumes "rm_tables s mm" and "heap_ok E = glibc h" and "restorable r"
    and "fresh_int E \<noteq> 0 \<or> memory_ok E fs path r" and "rq_function r = CUDA_MALLOC"
  shows "step_ok mm {result_hi r} s (cr_restore_memory E fs path r s)"
proof -
  obtain a where a: "arguments r = Some a" "8 \<le> length a"
    using assms(3,5) by (auto simp: restorable_def split: option.splits)
  then obtain n where n: "arg_word r 0 8 = Inr n" by (simp add: arg_word_Inr)
  have "mg_handles (rm_memory s) mm" using assms(1) by (simp add: rm_tables_def)
  then show ?thesis
    by (rule add_cases [OF _ assms(2), of _ _ "result_hi r"
          "out64 E (fst (snd (cuda E ''cudaMalloc'' [Word64 (of_nat n)] (gpu s)))) 0"])
      (use assms(1,4,5) n in \<open>auto simp: step_ok_def cr_restore_memory_def cuda_call_eq rm_tables_def Let_def
         memory_ok_def asprintf_def split: option.split sum.split\<close>)
qed

definition malloc_ptrs :: "api_record list \<Rightarrow> u64 set" where
  "malloc_ptrs xs = {result_hi r | r. r \<in> set xs \<and> rq_function r = CUDA_MALLOC}"

lemma malloc_ptrs_Nil [simp]: "malloc_ptrs [] = {}"
  by (simp add: malloc_ptrs_def)

lemma malloc_ptrs_Cons [simp]: "malloc_ptrs (r # xs) =
    (if rq_function r = CUDA_MALLOC then {result_hi r} else {}) \<union> malloc_ptrs xs"
  by (auto simp: malloc_ptrs_def)

lemma step_ok_wrap:
  "step_ok mm ks s res \<Longrightarrow> step_ok mm ks s (bind_r res (\<lambda>(rc, s). Inr (if rc \<noteq> 0 then 1 else 0, s)))"
  by (auto simp: step_ok_def)

lemma step_ok_skip: "rm_tables s mm \<Longrightarrow> step_ok mm {} s (Inr (0, s))"
  by (auto simp: step_ok_def)

lemma restore_resources_step:
  assumes "rm_tables s mm" and "heap_ok E = glibc h" and "restorable r"
    and "fresh_int E \<noteq> 0 \<or> memory_ok E fs path r"
  shows "step_ok mm (malloc_ptrs [r]) s (cr_restore_resources E svc fs path r s)"
proof -
  note a = restore_memory_step [OF assms] restore_streams_step [OF assms(1-3)]
    restore_events_step [OF assms(1-3)] restore_cusolver_step [OF assms(1,2), of r]
    restore_cublas_step [OF assms(1,2), of r] step_ok_skip [OF assms(1)]
  have arr: "cr_restore_arrays E fs path r s = Inr (0, s)"
    by (simp add: cr_restore_arrays_def procs)
  show ?thesis
    unfolding cr_restore_resources_def Let_def
    by (rule step_ok_wrap) (use assms(3) a arr in \<open>auto simp: restorable_def procs\<close>)
qed

section \<open>Restoring the whole log\<close>

lemma set_elem_size: "set_elem l i x = Inr l' \<Longrightarrow> element_size l' = element_size l"
  by (auto simp: set_elem_def bind_r_Inr_iff)

lemma append_then_set:
  assumes rep: "list_rep l xs" and room: "room (glibc h) l"
  obtains l1 l2 where "list_append (glibc h) l True = Inr (0, l1, Some (length xs))"
    and "set_elem l1 (length xs) x = Inr l2" and "list_rep l2 (xs @ [x])"
    and "element_size l2 = element_size l"
proof -
  obtain l1 where app: "list_append (glibc h) l True = Inr (0, l1, Some (len l))"
    using list_append_grows [OF rep glibc_bounded room] by blast
  obtain l2 where l2: "append_slot (glibc h) l x = Inr (length xs, l2)" "list_rep l2 (xs @ [x])"
    "element_size l2 = element_size l"
    using append_slot_rep [OF rep room, of x] by blast
  with app rep have "set_elem l1 (length xs) x = Inr l2"
    by (auto simp: append_slot_def bind_r_Inr_iff list_rep_len)
  with app l2 rep show thesis by (intro that [of l1 l2]) (auto simp: list_rep_len)
qed

text \<open>
  What the restore loop ends with: the log rebuilt and every recorded allocation in the
  memory table, or an early exit with code 0 because some resource could not be restored.
\<close>

definition loop_result ::
  "api_record list \<Rightarrow> u64 set \<Rightarrow> (int \<times> bool \<times> 'd server) res \<Rightarrow> bool" where
  "loop_result zs ks res \<longleftrightarrow>
     (\<exists>s' mm'. res = Inr (2, False, s') \<and> list_rep (api_records s') zs \<and> rm_tables s' mm' \<and> dom mm' = ks) \<or>
     (\<exists>s'. res = Inr (0, True, s'))"

lemma restore_loop_end:
  assumes "list_rep (api_records s) ys" and "heap_ok E = glibc h" and "room (glibc h) (api_records s)"
  obtains l where "list_rep l ys"
    and "cr_restore_loop (Suc k) E svc fs path res \<lparr>ahead = log_bytes [], eof = False\<rparr> s =
      Inr (2, False, s\<lparr>api_records := l\<rparr>)"
proof -
  obtain l1 l2 where l: "list_append (glibc h) (api_records s) True = Inr (0, l1, Some (length ys))"
    "set_elem l1 (length ys) (fresh_record E) = Inr l2" "list_rep l2 (ys @ [fresh_record E])"
    using append_then_set [OF assms(1,3)] by blast
  obtain l3 where "list_rm l2 (len l2 - 1) = Inr (0, l3)" "list_rep l3 ys"
    using list_rm_rep [OF l(3), of "length ys"] list_rep_len [OF l(3)] by auto
  with l assms(2) show thesis
    by (intro that [of l3]) (simp_all add: cr_restore_loop.simps log_bytes_def restore_record_end)
qed

lemma restore_loop_step:
  assumes "list_rep (api_records s) ys" and "heap_ok E = glibc h" and "room (glibc h) (api_records s)"
    and "record_fits E x" and "restorable (norm_record x)"
  obtains l where "list_rep l (ys @ [norm_record x])" and "element_size l = element_size (api_records s)"
    and "cr_restore_loop (Suc k) E svc fs path res \<lparr>ahead = log_bytes (x # xs), eof = False\<rparr> s =
      bind_r (cr_restore_resources E svc fs path (norm_record x) (s\<lparr>api_records := l\<rparr>)) (\<lambda>(rc, s).
        if rc \<noteq> 0 then Inr (0, True, s)
        else cr_restore_loop k E svc fs path 0 \<lparr>ahead = log_bytes xs, eof = False\<rparr> s)"
proof -
  obtain l1 l2 where l: "list_append (glibc h) (api_records s) True = Inr (0, l1, Some (length ys))"
    "set_elem l1 (length ys) (norm_record x) = Inr l2" "list_rep l2 (ys @ [norm_record x])"
    "element_size l2 = element_size (api_records s)"
    using append_then_set [OF assms(1,3)] by blast
  have rd: "cr_restore_api_record E \<lparr>ahead = log_bytes (x # xs), eof = False\<rparr> (fresh_record E) =
      (0, \<lparr>ahead = log_bytes xs, eof = False\<rparr>, norm_record x)"
    using restore_record_bytes [OF assms(4)] by (simp add: log_bytes_def)
  have "printable (norm_record x)"
    using assms(5) by (auto simp: printable_def restorable_def split: option.splits)
  then obtain str where pr: "api_records_print_records (norm_record x) = Inr str"
    using printable_Inr by blast
  show thesis
    by (rule that [OF l(3,4)]) (use l(1,2) rd pr assms(2) in \<open>simp add: cr_restore_loop.simps\<close>)
qed

lemma budget_room:
  assumes "list_rep l ys" and "\<forall>n \<le> 2 * (length ys + m + 1) * element_size l. alloc n"
  shows "room alloc l"
proof (rule room_upto [OF assms(1), of 1])
  have "2 * (length ys + 1) * element_size l \<le> 2 * (length ys + m + 1) * element_size l"
    by (intro mult_le_mono1) simp
  with assms(2) show "\<forall>n \<le> 2 * (length ys + 1) * element_size l. alloc n"
    using le_trans by blast
qed

lemma restore_loop_result:
  "list_rep (api_records s) ys \<Longrightarrow> rm_tables s mm \<Longrightarrow> heap_ok E = glibc h \<Longrightarrow>
   \<forall>n \<le> 2 * (length ys + length xs + 1) * element_size (api_records s). heap_ok E n \<Longrightarrow>
   \<forall>r \<in> set xs. record_fits E r \<and> restorable (norm_record r) \<and>
     (fresh_int E \<noteq> 0 \<or> memory_ok E fs path (norm_record r)) \<Longrightarrow> length xs < n \<Longrightarrow>
   loop_result (ys @ map norm_record xs) (dom mm \<union> malloc_ptrs xs)
     (cr_restore_loop n E svc fs path res \<lparr>ahead = log_bytes xs, eof = False\<rparr> s)"
proof (induction xs arbitrary: n ys s mm res)
  case Nil
  then obtain k where n: "n = Suc k" by (cases n) auto
  have room: "room (glibc h) (api_records s)"
    using budget_room [OF Nil.prems(1), of 0] Nil.prems(3,4) by simp
  obtain l where "list_rep l ys"
    and "cr_restore_loop n E svc fs path res \<lparr>ahead = log_bytes [], eof = False\<rparr> s =
      Inr (2, False, s\<lparr>api_records := l\<rparr>)"
    unfolding n by (rule restore_loop_end [OF Nil.prems(1,3) room])
  then show ?case
    using Nil.prems(2)
    by (auto simp: loop_result_def rm_tables_def)
next
  case (Cons x xs)
  then obtain k where n: "n = Suc k" and k: "length xs < k" by (cases n) auto
  have fits: "record_fits E x" and rst: "restorable (norm_record x)"
    and mem: "fresh_int E \<noteq> 0 \<or> memory_ok E fs path (norm_record x)" using Cons.prems(5) by auto
  have room: "room (glibc h) (api_records s)"
    using budget_room [OF Cons.prems(1,4)] Cons.prems(3) by simp
  obtain l where l: "list_rep l (ys @ [norm_record x])" "element_size l = element_size (api_records s)"
    and run: "cr_restore_loop n E svc fs path res \<lparr>ahead = log_bytes (x # xs), eof = False\<rparr> s =
      bind_r (cr_restore_resources E svc fs path (norm_record x) (s\<lparr>api_records := l\<rparr>)) (\<lambda>(rc, s).
        if rc \<noteq> 0 then Inr (0, True, s)
        else cr_restore_loop k E svc fs path 0 \<lparr>ahead = log_bytes xs, eof = False\<rparr> s)"
    unfolding n using restore_loop_step [OF Cons.prems(1,3) room fits rst] by blast
  have tb: "rm_tables (s\<lparr>api_records := l\<rparr>) mm" using Cons.prems(2) by (simp add: rm_tables_def)
  obtain rc s' where st: "cr_restore_resources E svc fs path (norm_record x) (s\<lparr>api_records := l\<rparr>) = Inr (rc, s')"
      "api_records s' = l"
      "rc = 0 \<longrightarrow> (\<exists>mm'. rm_tables s' mm' \<and> dom mm' = dom mm \<union> malloc_ptrs [norm_record x])"
    using restore_resources_step [OF tb Cons.prems(3) rst mem, of svc] by (auto simp: step_ok_def)
  show ?case
  proof (cases "rc = 0")
    case False
    with run st(1) show ?thesis by (simp add: loop_result_def)
  next
    case True
    with st(3) obtain mm' where mm': "rm_tables s' mm'" "dom mm' = dom mm \<union> malloc_ptrs [norm_record x]"
      by blast
    have "loop_result ((ys @ [norm_record x]) @ map norm_record xs) (dom mm' \<union> malloc_ptrs xs)
        (cr_restore_loop k E svc fs path 0 \<lparr>ahead = log_bytes xs, eof = False\<rparr> s')"
      using Cons.prems l st(2) mm'(1) k
      by (intro Cons.IH) (auto simp: algebra_simps)
    moreover have "dom mm' \<union> malloc_ptrs xs = dom mm \<union> malloc_ptrs (x # xs)"
      unfolding mm'(2) by (simp add: norm_record_def Un_assoc)
    ultimately show ?thesis using run True st(1) by simp
  qed
qed

section \<open>When everything can be restored\<close>

text \<open>
  \<open>restore_ready s k\<close>: the five managers translate and hold at most \<open>k\<close> entries each.
  \<open>cuda_works\<close>: the libraries accept every call.
\<close>

definition restore_ready :: "'d server \<Rightarrow> nat \<Rightarrow> bool" where
  "restore_ready s k \<longleftrightarrow> mg_ready (rm_memory s) k \<and> mg_ready (rm_streams s) k \<and>
     mg_ready (rm_events s) k \<and> mg_ready (rm_cusolver s) k \<and> mg_ready (rm_cublas s) k"

definition cuda_works :: "'d env \<Rightarrow> bool" where
  "cuda_works E \<longleftrightarrow> (\<forall>f a d. fst (cuda E f a d) = 0)"

definition completes :: "nat \<Rightarrow> (int \<times> 'd server) res \<Rightarrow> bool" where
  "completes k res \<longleftrightarrow> (\<exists>s'. res = Inr (0, s') \<and> restore_ready s' k)"

lemma restore_ready_mono: "restore_ready s k \<Longrightarrow> restore_ready s (Suc k)"
  by (auto simp: restore_ready_def intro: mg_ready_mono)

lemma restore_ready_tables: "restore_ready s k \<Longrightarrow> mg_handles (rm_memory s) mm \<Longrightarrow> rm_tables s mm"
  by (auto simp: restore_ready_def rm_tables_def dest: mg_ready_handles)

text \<open>The standing situation of the following lemmas: room for one more entry everywhere.\<close>

definition can_enter :: "'d env \<Rightarrow> allocator \<Rightarrow> 'd server \<Rightarrow> nat \<Rightarrow> bool" where
  "can_enter E h s k \<longleftrightarrow> restore_ready s k \<and> heap_ok E = glibc h \<and>
     (\<forall>n \<le> 32 * (k + 1). heap_ok E n) \<and> cuda_works E"

lemma call_works: "can_enter E h s k \<Longrightarrow> fst (cuda E f a d) = 0"
  by (simp add: can_enter_def cuda_works_def)

lemma can_enter_ready: "can_enter E h s k \<Longrightarrow> restore_ready s k \<and> restore_ready s (Suc k)"
  by (simp add: can_enter_def restore_ready_mono)

lemma add_ready:
  assumes "can_enter E h s k" and "mg_ready m k"
  shows "\<exists>m'. resource_mg_add_sorted (heap_ok E) m key v = Inr (0, m') \<and> mg_ready m' (Suc k)"
  using assms mg_ready_add [of m k h key v] by (auto simp: can_enter_def)

lemma enter_event_completes:
  assumes c: "can_enter E h s k"
  shows "completes (Suc k) (bind_r (cuda_call E name args s) (\<lambda>((err, outs), s).
      if err \<noteq> 0 then Inr (1, s)
      else bind_r (resource_mg_add_sorted (heap_ok E) (rm_events s) key (out64 E outs 0))
        (\<lambda>(rc, m). Inr (if rc \<noteq> 0 then 1 else 0, s\<lparr>rm_events := m\<rparr>))))"
  using add_ready [OF c, of "rm_events s" key "out64 E (fst (snd (cuda E name args (gpu s)))) 0"]
    can_enter_ready [OF c]
  by (auto simp: completes_def cuda_call_eq call_works [OF c] restore_ready_def)

lemma enter_stream_completes:
  assumes c: "can_enter E h s k"
  shows "completes (Suc k) (bind_r (cuda_call E name args s) (\<lambda>((err, outs), s).
      if err \<noteq> 0 then Inr (1, s)
      else bind_r (resource_mg_add_sorted (heap_ok E) (rm_streams s) key (out64 E outs 0))
        (\<lambda>(rc, m). Inr (if rc \<noteq> 0 then 1 else 0, s\<lparr>rm_streams := m\<rparr>))))"
  using add_ready [OF c, of "rm_streams s" key "out64 E (fst (snd (cuda E name args (gpu s)))) 0"]
    can_enter_ready [OF c]
  by (auto simp: completes_def cuda_call_eq call_works [OF c] restore_ready_def)

lemma restore_cusolver_completes:
  assumes c: "can_enter E h s k" and "rq_function r = rpc_cusolverDnCreate"
  shows "completes (Suc k) (cr_restore_cusolver E r s)"
  using assms(2) add_ready [OF c, of "rm_cusolver s" "result_hi r"
      "out64 E (fst (snd (cuda E ''cusolverDnCreate'' [] (gpu s)))) 0"] can_enter_ready [OF c]
  by (auto simp: completes_def cr_restore_cusolver_def cuda_call_eq call_works [OF c] restore_ready_def)

lemma restore_cublas_completes:
  assumes c: "can_enter E h s k" and "rq_function r = rpc_cublasCreate"
  shows "completes (Suc k) (cr_restore_cublas E r s)"
  using assms(2) add_ready [OF c, of "rm_cublas s" "result_hi r"
      "out64 E (fst (snd (cuda E ''cublasCreate_v2'' [] (gpu s)))) 0"] can_enter_ready [OF c]
  by (auto simp: completes_def cr_restore_cublas_def cuda_call_eq call_works [OF c] restore_ready_def)

lemma restore_events_completes:
  assumes c: "can_enter E h s k" and "restorable r" and "rq_function r \<in> {CUDA_EVENT_CREATE, CUDA_EVENT_CREATE_WITH_FLAGS}"
  shows "completes (Suc k) (cr_restore_events E r s)"
proof (cases "rq_function r = CUDA_EVENT_CREATE")
  case True
  then show ?thesis using enter_event_completes [OF c] by (simp add: cr_restore_events_def)
next
  case False
  then obtain a where "arguments r = Some a" "4 \<le> length a"
    using assms(2,3) by (auto simp: restorable_def split: option.splits)
  then have "arg_word r 0 4 = Inr (le_val (blk 0 4 a))" by (simp add: arg_word_Inr)
  with False assms(3) enter_event_completes [OF c] show ?thesis by (simp add: cr_restore_events_def)
qed

lemma restore_streams_completes:
  assumes c: "can_enter E h s k" and "restorable r"
    and "rq_function r \<in> {CUDA_STREAM_CREATE, CUDA_STREAM_CREATE_WITH_FLAGS, CUDA_STREAM_CREATE_WITH_PRIORITY}"
  shows "completes (Suc k) (cr_restore_streams E r s)"
proof -
  have f: "rq_function r = CUDA_STREAM_CREATE_WITH_FLAGS \<Longrightarrow> \<exists>n. arg_word r 0 4 = Inr n"
    using assms(2) by (auto simp: restorable_def arg_word_Inr procs split: option.splits)
  have p: "rq_function r = CUDA_STREAM_CREATE_WITH_PRIORITY \<Longrightarrow>
      (\<exists>n. arg_word r 0 4 = Inr n) \<and> (\<exists>n. arg_word r 4 4 = Inr n)"
    using assms(2) by (auto simp: restorable_def arg_word_Inr procs split: option.splits)
  from assms(3) f p show ?thesis
    using enter_stream_completes [OF c] by (auto simp: cr_restore_streams_def procs)
qed

lemma restore_memory_completes:
  assumes c: "can_enter E h s k" and "rq_function r = CUDA_MALLOC" and "memory_ok E fs path r"
  shows "completes (Suc k) (cr_restore_memory E fs path r s)"
proof -
  from assms(2,3) obtain n where n: "arg_word r 0 8 = Inr n" "heap_ok E n"
      "asprintf E (mem_file path (result_hi r)) = Some (mem_file path (result_hi r))"
      "read_mem_file fs (mem_file path (result_hi r)) n \<noteq> Inl ()"
    by (auto simp: memory_ok_def asprintf_def split: sum.splits if_splits)
  then obtain c where "read_mem_file fs (mem_file path (result_hi r)) n = Inr c"
    by (cases "read_mem_file fs (mem_file path (result_hi r)) n") auto
  with n assms(2) show ?thesis
    using add_ready [OF c, of "rm_memory s" "result_hi r"
        "out64 E (fst (snd (cuda E ''cudaMalloc'' [Word64 (of_nat n)] (gpu s)))) 0"]
      can_enter_ready [OF c]
    by (auto simp: completes_def cr_restore_memory_def cuda_call_eq call_works [OF c] restore_ready_def
        Let_def split: option.split)
qed

lemma completes_skip: "can_enter E h s k \<Longrightarrow> completes (Suc k) (Inr (0, s))"
  using can_enter_ready [of E h s k] by (simp add: completes_def)

lemma completes_wrap:
  "completes n res \<Longrightarrow> completes n (bind_r res (\<lambda>(rc, s). Inr (if rc \<noteq> 0 then 1 else 0, s)))"
  by (auto simp: completes_def)

lemma restore_resources_completes:
  assumes c: "can_enter E h s k" and "restorable r" and "memory_ok E fs path r"
  shows "completes (Suc k) (cr_restore_resources E svc fs path r s)"
proof -
  have arr: "cr_restore_arrays E fs path r s = Inr (0, s)"
    by (simp add: cr_restore_arrays_def procs)
  note a = restore_memory_completes [OF c _ assms(3)] restore_streams_completes [OF c assms(2)]
    restore_events_completes [OF c assms(2)] restore_cusolver_completes [OF c, of r]
    restore_cublas_completes [OF c, of r] completes_skip [OF c]
  show ?thesis
    unfolding cr_restore_resources_def Let_def
    by (rule completes_wrap) (use assms(2) a arr in \<open>auto simp: restorable_def procs\<close>)
qed

lemma restore_loop_completes:
  "list_rep (api_records s) ys \<Longrightarrow> restore_ready s k \<Longrightarrow> heap_ok E = glibc h \<Longrightarrow> cuda_works E \<Longrightarrow>
   \<forall>n \<le> 2 * (length ys + length xs + 1) * element_size (api_records s). heap_ok E n \<Longrightarrow>
   \<forall>n \<le> 32 * (k + length xs + 1). heap_ok E n \<Longrightarrow>
   \<forall>r \<in> set xs. record_fits E r \<and> restorable (norm_record r) \<and> memory_ok E fs path (norm_record r) \<Longrightarrow>
   length xs < n \<Longrightarrow>
   \<exists>s'. cr_restore_loop n E svc fs path res \<lparr>ahead = log_bytes xs, eof = False\<rparr> s = Inr (2, False, s')"
proof (induction xs arbitrary: n ys s k res)
  case Nil
  then obtain j where n: "n = Suc j" by (cases n) auto
  have room: "room (glibc h) (api_records s)"
    using budget_room [OF Nil.prems(1), of 0] Nil.prems(3,5) by simp
  show ?case
    unfolding n by (rule restore_loop_end [OF Nil.prems(1,3) room, of j svc fs path res]) blast
next
  case (Cons x xs)
  then obtain j where n: "n = Suc j" and j: "length xs < j" by (cases n) auto
  have fits: "record_fits E x" and rst: "restorable (norm_record x)"
    and mem: "memory_ok E fs path (norm_record x)" using Cons.prems(7) by auto
  have room: "room (glibc h) (api_records s)"
    using budget_room [OF Cons.prems(1,5)] Cons.prems(3) by simp
  obtain l where l: "list_rep l (ys @ [norm_record x])" "element_size l = element_size (api_records s)"
    and run: "cr_restore_loop n E svc fs path res \<lparr>ahead = log_bytes (x # xs), eof = False\<rparr> s =
      bind_r (cr_restore_resources E svc fs path (norm_record x) (s\<lparr>api_records := l\<rparr>)) (\<lambda>(rc, s).
        if rc \<noteq> 0 then Inr (0, True, s)
        else cr_restore_loop j E svc fs path 0 \<lparr>ahead = log_bytes xs, eof = False\<rparr> s)"
    unfolding n using restore_loop_step [OF Cons.prems(1,3) room fits rst] by blast
  let ?s = "s\<lparr>api_records := l\<rparr>"
  have rdy: "restore_ready ?s k" using Cons.prems(2) by (simp add: restore_ready_def)
  then have en: "can_enter E h ?s k" using Cons.prems(3,4,6) by (simp add: can_enter_def)
  obtain s' where s': "cr_restore_resources E svc fs path (norm_record x) ?s = Inr (0, s')"
      "restore_ready s' (Suc k)"
    using restore_resources_completes [OF en rst mem, of svc] by (auto simp: completes_def)
  obtain mm where "mg_handles (rm_memory ?s) mm"
    using rdy mg_ready_handles by (auto simp: restore_ready_def)
  then have "api_records s' = l"
    using restore_resources_step [OF restore_ready_tables [OF rdy] Cons.prems(3) rst, of mm fs path svc] mem s'(1)
    by (auto simp: step_ok_def)
  then have "\<exists>s''. cr_restore_loop j E svc fs path 0 \<lparr>ahead = log_bytes xs, eof = False\<rparr> s' = Inr (2, False, s'')"
    using Cons.prems(3-7) l s'(2) j
    by (intro Cons.IH [of _ "ys @ [norm_record x]" "Suc k"]) (simp_all add: algebra_simps)
  with run s'(1) show ?case by simp
qed

section \<open>The last launch\<close>

definition is_launch :: "api_record \<Rightarrow> bool" where
  "is_launch r \<longleftrightarrow> rq_function r = CUDA_LAUNCH_KERNEL \<or> rq_function r = CUDA_LAUNCH_COOPERATIVE_KERNEL"

lemma launch_loop_skips:
  "list_rep (api_records s) zs \<Longrightarrow> j \<le> i \<Longrightarrow> i < length zs \<Longrightarrow>
   \<forall>m. j < m \<and> m \<le> i \<longrightarrow> \<not> is_launch (zs ! m) \<Longrightarrow>
   cr_launch_loop svc i s = cr_launch_loop svc j s"
proof (induction i)
  case (Suc i)
  show ?case
  proof (cases "j = Suc i")
    case False
    then have "\<not> is_launch (zs ! Suc i)" using Suc.prems(2,4) by simp
    then have "cr_launch_loop svc (Suc i) s = cr_launch_loop svc i s"
      using list_rep_cell [OF Suc.prems(1,3)] by (simp add: is_launch_def)
    with Suc False show ?thesis by simp
  qed simp
qed simp

lemma last_index: "0 < n \<Longrightarrow> n < 2 ^ 63 \<Longrightarrow> wrap64 (n + size_max) = n - 1"
proof -
  assume n: "0 < n" "n < 2 ^ 63"
  then have "n + size_max = (n - 1) + 2 ^ 64" by (simp add: size_max_def)
  then have "wrap64 (n + size_max) = wrap64 (n - 1)" by (simp add: wrap64_def)
  also have "\<dots> = n - 1" using n by (intro wrap64_id) simp
  finally show ?thesis .
qed

lemma launch_kernel_start:
  assumes "list_rep (api_records s) zs" and "zs \<noteq> []"
  shows "cr_launch_kernel svc s = cr_launch_loop svc (length zs - 1) s"
  using last_index [of "length zs"] list_rep_bound [OF assms(1)] assms list_rep_len [OF assms(1)]
  by (simp add: cr_launch_kernel_def)

lemma launch_kernel_none:
  assumes "list_rep (api_records s) zs" and "zs \<noteq> []" and "\<forall>r \<in> set (tl zs). \<not> is_launch r"
  shows "cr_launch_kernel svc s = Inr (0, s)"
proof -
  have "\<not> is_launch (zs ! m)" if "0 < m" "m < length zs" for m
  proof -
    have l: "m - 1 < length (tl zs)" using that by simp
    have "tl zs ! (m - 1) = zs ! Suc (m - 1)" using l by (rule nth_tl)
    then have "zs ! m = tl zs ! (m - 1)" using that by simp
    then show ?thesis using assms(3) nth_mem [OF l] by simp
  qed
  then have "cr_launch_loop svc (length zs - 1) s = cr_launch_loop svc 0 s"
    using assms by (intro launch_loop_skips [OF assms(1)]) auto
  with launch_kernel_start [OF assms(1,2)] show ?thesis by simp
qed

section \<open>Properties\<close>

lemma mem_file_other: "mem_file path p \<noteq> path @ ''/api_records''"
  by (simp add: mem_file_def)

lemma memory_ok_other:
  assumes "files fs' = (files fs)(path @ ''/api_records'' \<mapsto> c)"
  shows "memory_ok E fs' path r = memory_ok E fs path r"
proof -
  have "read_mem_file fs' (mem_file path (result_hi r)) n = read_mem_file fs (mem_file path (result_hi r)) n"
    for n using mem_file_other [of path "result_hi r"]
    by (simp add: read_mem_file_def fopen_r_def assms)
  then show ?thesis by (simp add: memory_ok_def cong: sum.case_cong)
qed

lemma malloc_ptrs_norm [simp]: "malloc_ptrs (map norm_record xs) = malloc_ptrs xs"
  by (induction xs) (simp_all add: norm_record_def)

lemma cr_restore_from_file:
  assumes "files fs (path @ ''/api_records'') = Some (log_bytes xs)"
    and "heap_ok E (length (path @ ''/api_records'') + 1)"
  shows "cr_restore E svc fs path s =
    bind_r (cr_restore_loop (length (log_bytes xs) + 2) E svc fs path 1
        \<lparr>ahead = log_bytes xs, eof = False\<rparr> s) (\<lambda>(res, stop, s).
      if stop then Inr (res, s)
      else bind_r (cr_launch_kernel svc s) (\<lambda>(rc, s).
        if rc \<noteq> 0 then Inr (res, s) else Inr (0, s)))"
  using assms by (simp add: cr_restore_def asprintf_def fopen_r_def)

lemma log_fuel: "\<forall>r \<in> set xs. record_wf r \<Longrightarrow> length xs < length (log_bytes xs) + 2"
  by (induction xs) (auto simp: log_bytes_def length_record_bytes)

text \<open>
  Checkpoint and restart compose: when every record is complete and of a kind that is
  restored without calling its procedure, the libraries accept the calls, memory suffices
  and no kernel launch has to be repeated, \<open>cr_dump\<close> followed by \<open>cr_restore\<close> in a fresh
  process returns 0, rebuilds the log record by record, and leaves a memory table that
  translates exactly the device pointers the log had allocated.
\<close>

lemma dump_then_restore:
  assumes log: "list_rep l xs" "xs \<noteq> []"
    and recs: "\<forall>r \<in> set xs. record_fits E r \<and> printable r \<and> restorable (norm_record r) \<and>
      memory_ok E fs path (norm_record r)"
    and nolaunch: "\<forall>r \<in> set (tl xs). \<not> is_launch r"
    and outf: "creatable fs (path @ ''/api_records'')" "length (log_bytes xs) \<le> disk_free fs"
    and heap: "heap_ok E = glibc h" "heap_ok E (length (path @ ''/api_records'') + 1)"
      "\<forall>n \<le> 2 * (length xs + 1) * element_size (api_records s). heap_ok E n"
      "\<forall>n \<le> 32 * (length xs + 1). heap_ok E n"
    and works: "cuda_works E"
    and fresh: "list_rep (api_records s) []" "restore_ready s 0" "mg_handles (rm_memory s) Map.empty"
  shows "\<exists>fs' s' mm. cr_dump E path l fs = Inr (0, fs') \<and> cr_restore E svc fs' path s = Inr (0, s') \<and>
    list_rep (api_records s') (map norm_record xs) \<and> mg_handles (rm_memory s') mm \<and>
    dom mm = malloc_ptrs xs"
proof -
  have wf: "\<forall>r \<in> set xs. record_wf r \<and> printable r" using recs by (simp add: record_fits_def)
  obtain fs' where dump: "cr_dump E path l fs = Inr (0, fs')"
    "files fs' = (files fs)(path @ ''/api_records'' \<mapsto> log_bytes xs)"
    using cr_dump_ok [OF log(1) wf heap(2) outf] by blast
  have mem: "memory_ok E fs' path r = memory_ok E fs path r" for r
    using dump(2) by (rule memory_ok_other)
  have fuel: "length xs < length (log_bytes xs) + 2" using wf by (intro log_fuel) blast
  let ?loop = "cr_restore_loop (length (log_bytes xs) + 2) E svc fs' path 1
      \<lparr>ahead = log_bytes xs, eof = False\<rparr> s"
  have "\<exists>s'. ?loop = Inr (2, False, s')"
    by (rule restore_loop_completes [OF fresh(1,2) heap(1) works]) (use heap(3,4) recs mem fuel in auto)
  then obtain s' where s': "?loop = Inr (2, False, s')" by blast
  have "loop_result ([] @ map norm_record xs) (dom (Map.empty :: u64 \<rightharpoonup> u64) \<union> malloc_ptrs xs) ?loop"
    using restore_ready_tables [OF fresh(2,3)] heap(3) recs mem fuel
    by (intro restore_loop_result [OF fresh(1) _ heap(1)]) auto
  with s' obtain mm where res: "list_rep (api_records s') (map norm_record xs)"
    "rm_tables s' mm" "dom mm = malloc_ptrs xs"
    by (auto simp: loop_result_def)
  have "cr_launch_kernel svc s' = Inr (0, s')"
    using log(2) nolaunch
    by (intro launch_kernel_none [OF res(1)]) (auto simp: is_launch_def norm_record_def map_tl [symmetric])
  moreover have "files fs' (path @ ''/api_records'') = Some (log_bytes xs)"
    using dump(2) by simp
  ultimately have "cr_restore E svc fs' path s = Inr (0, s')"
    using cr_restore_from_file [OF _ heap(2), of fs' xs svc s] s' by simp
  with dump(1) res show ?thesis by (auto simp: rm_tables_def)
qed

text \<open>A fresh process for the examples.\<close>

definition fresh_mg :: resource_mg where
  "fresh_mg = \<lparr>map_res = \<lparr>elements = Buf (replicate 4 None), len = 0, capacity = 4, element_size = 16\<rparr>,
     new_res = \<lparr>elements = Buf (replicate 4 None), len = 0, capacity = 4, element_size = 8\<rparr>, bypass = 0\<rparr>"

definition zero_cudnn :: cudnn_managers where
  "zero_cudnn = \<lparr>rm_cudnn = zero_mg, rm_cudnn_tensors = zero_mg, rm_cudnn_filters = zero_mg,
     rm_cudnn_tensortransform = zero_mg, rm_cudnn_poolings = zero_mg, rm_cudnn_activations = zero_mg,
     rm_cudnn_lrns = zero_mg, rm_cudnn_convs = zero_mg, rm_cudnn_backendds = zero_mg\<rparr>"

definition server_on :: "'d \<Rightarrow> 'd server" where
  "server_on d = \<lparr>api_records = \<lparr>elements = Buf (replicate 4 None), len = 0, capacity = 4, element_size = 64\<rparr>,
     rm_streams = fresh_mg, rm_events = fresh_mg, rm_arrays = fresh_mg, rm_memory = fresh_mg,
     rm_kernels = fresh_mg, rm_modules = fresh_mg, rm_functions = fresh_mg, rm_globals = fresh_mg,
     rm_cusolver = fresh_mg, rm_cublas = fresh_mg, rm_cublaslt = fresh_mg, cudnn = zero_cudnn,
     hainfo = replicate 64 \<lparr>hai_idx = 0, hai_size = 0, hai_client_ptr = 0, hai_server_ptr = 0\<rparr>, hainfo_cnt = 0, input_times = 0, output_times = 0, operator_count = 0,
     input_count = 0, input_address = replicate 100 0, recorded_calls = [],
     mt_memcpy_list = \<lparr>elements = Buf (replicate 4 None), len = 0, capacity = 4, element_size = 96\<rparr>,
     sched = \<lparr>gs_ids = \<lparr>elements = Buf (replicate 4 None), len = 0, capacity = 4, element_size = 8\<rparr>,
       gs_next_device_id = 0, gs_max_devices = 1, gs_ids_locked = False, gs_device_locked = False\<rparr>, gpu = d\<rparr>"

abbreviation sample_server :: "unit server" where
  "sample_server \<equiv> server_on ()"

definition roomy_env :: "unit env" where
  "roomy_env = sample_env\<lparr>heap_ok := glibc (\<lambda>_. True)\<rparr>"

lemma fresh_mg_ready: "mg_ready fresh_mg 0" "mg_handles fresh_mg Map.empty"
proof -
  have "mg_rep fresh_mg []"
    by (simp add: fresh_mg_def mg_rep_def list_rep_def list_wf_def list_abs_def keys_def)
  moreover have "mg_map [] = Map.empty" by (simp add: mg_map_def mg_pairs_def)
  ultimately show "mg_ready fresh_mg 0" "mg_handles fresh_mg Map.empty"
    by (auto simp: mg_ready_def mg_handles_def fresh_mg_def)
qed

text \<open>
  \<open>records_restored E svc fs path s xs t\<close>: from the state \<open>s\<close>, reading the records \<open>xs\<close> into the log and restoring their
  resources one by one succeeds and ends in \<open>t\<close>. \<open>record_read E s x t\<close>: only the record is appended to the log.
\<close>

definition record_read :: "'d env \<Rightarrow> 'd server \<Rightarrow> api_record \<Rightarrow> 'd server \<Rightarrow> bool" where
  "record_read E s x t \<longleftrightarrow> (\<exists>l i l'. list_append (heap_ok E) (api_records s) True = Inr (0, l, Some i) \<and>
     set_elem l i (norm_record x) = Inr l' \<and> t = s\<lparr>api_records := l'\<rparr>)"

inductive records_restored ::
  "'d env \<Rightarrow> 'd svc \<Rightarrow> fsys \<Rightarrow> string \<Rightarrow> 'd server \<Rightarrow> api_record list \<Rightarrow> 'd server \<Rightarrow> bool" for E svc fs path s where
  none_restored: "records_restored E svc fs path s [] s"
| next_restored: "records_restored E svc fs path s xs t \<Longrightarrow> record_read E t x u \<Longrightarrow>
    cr_restore_resources E svc fs path (norm_record x) u = Inr (0, v) \<Longrightarrow> records_restored E svc fs path s (xs @ [x]) v"

lemma loop_reads:
  assumes "record_read E s x u" and "record_fits E x" and "printable x"
  shows "cr_restore_loop (Suc k) E svc fs path res \<lparr>ahead = log_bytes (x # xs), eof = False\<rparr> s =
      bind_r (cr_restore_resources E svc fs path (norm_record x) u) (\<lambda>(rc, s).
        if rc \<noteq> 0 then Inr (0, True, s)
        else cr_restore_loop k E svc fs path 0 \<lparr>ahead = log_bytes xs, eof = False\<rparr> s)"
proof -
  obtain l i l' where l: "list_append (heap_ok E) (api_records s) True = Inr (0, l, Some i)"
    "set_elem l i (norm_record x) = Inr l'" "u = s\<lparr>api_records := l'\<rparr>"
    using assms(1) by (auto simp: record_read_def)
  have rd: "cr_restore_api_record E \<lparr>ahead = log_bytes (x # xs), eof = False\<rparr> (fresh_record E) =
      (0, \<lparr>ahead = log_bytes xs, eof = False\<rparr>, norm_record x)"
    using restore_record_bytes [OF assms(2)] by (simp add: log_bytes_def)
  obtain str where "api_records_print_records (norm_record x) = Inr str"
    using printable_Inr [OF printable_norm [OF assms(3)]] by blast
  with l rd show ?thesis by (simp add: cr_restore_loop.simps)
qed

lemma loop_after:
  "records_restored E svc fs path s xs t \<Longrightarrow> \<forall>x \<in> set xs. record_fits E x \<and> printable x \<Longrightarrow>
   \<exists>r. cr_restore_loop (length xs + n) E svc fs path res \<lparr>ahead = log_bytes (xs @ ys), eof = False\<rparr> s =
     cr_restore_loop n E svc fs path r \<lparr>ahead = log_bytes ys, eof = False\<rparr> t"
proof (induction arbitrary: ys n rule: records_restored.induct)
  case (next_restored xs t x u v)
  obtain r where "cr_restore_loop (length xs + Suc n) E svc fs path res \<lparr>ahead = log_bytes (xs @ (x # ys)), eof = False\<rparr> s =
     cr_restore_loop (Suc n) E svc fs path r \<lparr>ahead = log_bytes (x # ys), eof = False\<rparr> t"
    using next_restored.IH [of "Suc n" "x # ys"] next_restored.prems by auto
  with loop_reads [OF next_restored.hyps(2), of n svc fs path r ys] next_restored.hyps(3) next_restored.prems
  show ?case by auto
qed auto

text \<open>C37: A failure to restore a resource is not reported: when the records \<open>xs\<close> at the beginning of the log have
  been restored and the resource of the next one, of whatever kind, can not be restored (its
  restoring function returns anything but 0), \<open>cr_restore\<close> stops there, with the state this has
  left and the records \<open>ys\<close> behind it neither read nor restored, and returns 0 (the value
  \<open>res\<close> got from the record just read), which its callers take for success.\<close>

theorem restore_failure_masked:
  assumes log: "files fs (path @ ''/api_records'') = Some (log_bytes (xs @ x # ys))"
      "\<forall>r \<in> set (xs @ x # ys). record_fits E r \<and> printable r"
    and heap: "heap_ok E (length (path @ ''/api_records'') + 1)"
    and before: "records_restored E svc fs path s xs t" "record_read E t x u"
    and fails: "cr_restore_resources E svc fs path (norm_record x) u = Inr (rc, v)" "rc \<noteq> 0"
  shows "cr_restore E svc fs path s = Inr (0, v)"
proof -
  have "length (xs @ x # ys) < length (log_bytes (xs @ x # ys)) + 2"
    using log(2) by (intro log_fuel) (auto simp: record_fits_def)
  then have "length xs < length (log_bytes (xs @ x # ys)) + 2" by (simp only: length_append)
  then obtain k where k: "length (log_bytes (xs @ x # ys)) + 2 = length xs + Suc k"
    unfolding less_iff_Suc_add by auto
  obtain r where "cr_restore_loop (length xs + Suc k) E svc fs path 1 \<lparr>ahead = log_bytes (xs @ x # ys), eof = False\<rparr> s =
     cr_restore_loop (Suc k) E svc fs path r \<lparr>ahead = log_bytes (x # ys), eof = False\<rparr> t"
    using loop_after [OF before(1), of "Suc k" 1 "x # ys"] log(2) by auto
  also have "\<dots> = Inr (0, True, v)"
    using loop_reads [OF before(2)] log(2) fails by simp
  finally show ?thesis
    using cr_restore_from_file [OF log(1) heap, of svc s] k by simp
qed

text \<open>A copy, which needs no restoring, a stream that is refused, and the record of an allocation that is not reached.\<close>

definition broken_env :: "unit env" where
  "broken_env = roomy_env\<lparr>cuda := (\<lambda>f args d. (if f = ''cudaStreamCreate'' then 2 else 0, [], d))\<rparr>"

definition plain_record :: "u32 \<Rightarrow> api_record" where
  "plain_record f = \<lparr>rq_function = f, arg_size = 0, arguments = Some [], result_lo = 0, result_hi = 50, data = None, data_size = 0\<rparr>"

lemma sample_read:
  assumes "elements (api_records s) = Buf cs" "length cs = 4" "len (api_records s) < 4"
    "capacity (api_records s) = 4" "element_size (api_records s) = 64"
  shows "\<exists>u cs'. record_read broken_env s x u \<and> u = s\<lparr>api_records := api_records u\<rparr> \<and> elements (api_records u) = Buf cs' \<and>
    length cs' = 4 \<and> len (api_records u) = Suc (len (api_records s)) \<and> capacity (api_records u) = 4 \<and>
    element_size (api_records u) = 64"
  using assms by (cases "api_records s") (auto simp: record_read_def list_append_def list_get_def set_elem_def broken_env_def
      roomy_env_def sample_env_def glibc_def wrap64_id)

definition broken_files :: fsys where
  "broken_files = \<lparr>files = [''ckp'' @ ''/api_records'' \<mapsto> log_bytes ([plain_record CUDA_MEMCPY_HTOD] @
      plain_record CUDA_STREAM_CREATE # [sample_record])], creatable = (\<lambda>_. True), disk_free = 1000\<rparr>"

theorem restore_failure_masked_witness:
  "\<exists>t v. records_restored broken_env (\<lambda>_ _ _. ret_h 1) broken_files ''ckp'' sample_server
      [plain_record CUDA_MEMCPY_HTOD] t \<and>
    cr_restore broken_env (\<lambda>_ _ _. ret_h 1) broken_files ''ckp'' sample_server = Inr (0, v) \<and>
    len (api_records v) = 2"
proof -
  let ?svc = "(\<lambda>_ _ _. ret_h 1) :: unit svc"
  let ?x = "plain_record CUDA_MEMCPY_HTOD" and ?y = "plain_record CUDA_STREAM_CREATE"
  obtain t cs where t: "record_read broken_env sample_server ?x t" "elements (api_records t) = Buf cs" "length cs = 4"
    "len (api_records t) = 1" "capacity (api_records t) = 4" "element_size (api_records t) = 64"
    using sample_read [of sample_server "replicate 4 None" ?x] by (auto simp: server_on_def)
  obtain u where u: "record_read broken_env t ?y u" "len (api_records u) = 2"
    using sample_read [OF t(2,3), of ?y] t(4-6) by auto
  have before: "records_restored broken_env ?svc broken_files ''ckp'' sample_server ([] @ [?x]) t"
    by (rule next_restored [OF none_restored t(1)])
      (simp add: cr_restore_resources_def plain_record_def norm_record_def procs)
  have fails: "cr_restore_resources broken_env ?svc broken_files ''ckp'' (norm_record ?y) u = Inr (1, u\<lparr>gpu := ()\<rparr>)"
    by (simp add: cr_restore_resources_def cr_restore_streams_def plain_record_def norm_record_def procs
        cuda_call_eq broken_env_def)
  have fits: "\<forall>r \<in> set ([?x] @ ?y # [sample_record]). record_fits broken_env r \<and> printable r"
    by (simp add: record_fits_def record_wf_def plain_record_def sample_record_def printable_def procs broken_env_def
        roomy_env_def sample_env_def glibc_def)
  have "cr_restore broken_env ?svc broken_files ''ckp'' sample_server = Inr (0, u\<lparr>gpu := ()\<rparr>)"
    by (rule restore_failure_masked [OF _ fits _ before [simplified] u(1) fails])
      (simp_all add: broken_files_def broken_env_def roomy_env_def glibc_def)
  with before u(2) show ?thesis by auto
qed

text \<open>Restoring a checkpoint with an empty log is undefined: \<open>cr_launch_kernel\<close> starts at
  index \<open>length - 1 = 2 ^ 64 - 1\<close> and reads a record outside the list.\<close>

lemma restore_empty_log_out_of_bounds:
  assumes "files fs (path @ ''/api_records'') = Some []"
    and "heap_ok E = glibc h" and "heap_ok E (length (path @ ''/api_records'') + 1)"
    and "room (glibc h) (api_records s)" and "list_rep (api_records s) []"
  shows "cr_restore E svc fs path s = Inl Out_Of_Bounds"
proof -
  obtain l where l: "list_rep l []"
    and run: "cr_restore_loop (Suc 1) E svc fs path 1 \<lparr>ahead = log_bytes [], eof = False\<rparr> s =
      Inr (2, False, s\<lparr>api_records := l\<rparr>)"
    by (rule restore_loop_end [OF assms(5,2,4)])
  obtain k where k: "size_max = Suc k" "2 ^ 63 \<le> k" by (simp add: size_max_def)
  have "elem_at l (Suc k) = Inl Out_Of_Bounds"
  proof -
    from l obtain b where b: "elements l = Buf b" "length b = capacity l" "0 < element_size l"
      "capacity l * element_size l < 2 ^ 63"
      by (rule list_repE)
    have "capacity l \<le> capacity l * element_size l" using b(3) by simp
    then have "length b < 2 ^ 63" unfolding b(2) using b(4) by (rule le_less_trans)
    with b(1) k(2) show ?thesis by (simp add: elem_at_def list_get_def)
  qed
  moreover have "wrap64 size_max = size_max" by (rule wrap64_id) (simp add: size_max_def)
  ultimately have "cr_launch_kernel svc (s\<lparr>api_records := l\<rparr>) = Inl Out_Of_Bounds"
    using list_rep_len [OF l] by (simp add: cr_launch_kernel_def k(1))
  with run show ?thesis
    using cr_restore_from_file [of fs path "[]" E svc s] assms(1,3) by (simp add: log_bytes_def)
qed

text \<open>After a restore exactly the last recorded \<open>cudaLaunchKernel\<close> is repeated, through its
  RPC procedure, with the length of its data block written into its argument structure and
  with that block as its parameters, provided its index is not 0 and no cooperative launch
  follows it.\<close>

lemma last_launch_repeated:
  assumes rep: "list_rep (api_records s) zs" and i: "0 < i" "i < length zs"
    and launch: "rq_function (zs ! i) = CUDA_LAUNCH_KERNEL" "arguments (zs ! i) = Some a" "36 \<le> length a"
    and last: "\<forall>m. i < m \<and> m < length zs \<longrightarrow> \<not> is_launch (zs ! m)"
  shows "\<exists>l'. let r = (zs ! i)\<lparr>arguments := Some (blit a 32 (le_bytes 4 (data_size (zs ! i) mod 2 ^ 32)))\<rparr> in
    list_rep l' (zs[i := r]) \<and>
    cr_launch_kernel svc s = cr_call_record svc r (data r) (s\<lparr>api_records := l'\<rparr>)"
proof -
  let ?r = "(zs ! i)\<lparr>arguments := Some (blit a 32 (le_bytes 4 (data_size (zs ! i) mod 2 ^ 32)))\<rparr>"
  have "cr_launch_kernel svc s = cr_launch_loop svc i s"
  proof -
    have "zs \<noteq> []" using i by auto
    moreover have "cr_launch_loop svc (length zs - 1) s = cr_launch_loop svc i s"
      by (rule launch_loop_skips [OF rep]) (use i last in auto)
    ultimately show ?thesis using launch_kernel_start [OF rep, of svc] by simp
  qed
  moreover obtain j where j: "i = Suc j" using i(1) by (cases i) auto
  obtain l' where l': "RECORD_ARG i 32 (le_bytes 4 (data_size (zs ! i) mod 2 ^ 32)) (api_records s) = Inr l'"
    "list_rep l' (zs[i := ?r])"
    using RECORD_ARG_rep [OF rep i(2) launch(2), of 32 "le_bytes 4 (data_size (zs ! i) mod 2 ^ 32)"] launch(3)
    by auto
  have "elem_at l' i = Inr ?r" using list_rep_cell [OF l'(2), of i] i(2) by simp
  then have "cr_launch_loop svc i s = cr_call_record svc ?r (data ?r) (s\<lparr>api_records := l'\<rparr>)"
    using list_rep_cell [OF rep i(2)] launch(1) l'(1) by (simp add: j)
  ultimately show ?thesis using l'(2) by (auto simp: Let_def)
qed

definition sample_launch :: api_record where
  "sample_launch = \<lparr>rq_function = 317, arg_size = 64, arguments = Some (replicate 64 0), result_lo = 0,
     result_hi = 0, data = Some [0, 0, 0, 0, 0, 0, 0, 0], data_size = 8\<rparr>"

text \<open>A kernel launch that is the first record of the log is never repeated after a restore:
  the downward loop stops before index 0, and \<open>cr_launch_kernel\<close> returns 0 without calling
  anything.\<close>

lemma first_record_launch_skipped:
  assumes "list_rep (api_records s) zs" and "zs \<noteq> []" and "\<forall>r \<in> set (tl zs). \<not> is_launch r"
  shows "cr_launch_kernel svc s = Inr (0, s)"
  using assms by (rule launch_kernel_none)

text \<open>No CUDA array is ever restored: the guard of \<open>cr_restore_arrays\<close> rejects every record,
  also those of \<open>cudaMallocArray\<close> and \<open>cudaMalloc3DArray\<close>, and the function reports success
  without touching the state.\<close>

lemma arrays_never_restored:
  "cr_restore_arrays E fs path r s = Inr (0, s)"
  by (simp add: cr_restore_arrays_def procs)

end
