(* ===== verification/Gsched.thy ===== *)
theory Gsched
  imports Handlers CrRestore "HOL-Library.Signed_Division"
begin

text \<open>
  The scheduler of \<open>cpu/gsched_none.c\<close> that brackets the calls of the driver and cuBLAS handlers
  (\<open>GSCHED_RETAIN\<close>, \<open>GSCHED_RELEASE\<close> of \<open>cpu/gsched.h\<close>): it assigns a device to every connection.
\<close>

section \<open>Operations\<close>

definition set_sched :: "(gsched \<Rightarrow> gsched) \<Rightarrow> 'd server \<Rightarrow> 'd server" where
  "set_sched f s = s\<lparr>sched := f (sched s)\<rparr>"

definition gsched_none_init :: "'d env \<Rightarrow> ('d, int) handler" where
  "gsched_none_init E s =
     (let (_, l) = list_init (heap_ok E) (gs_ids (sched s)) 8;
          s = set_sched (\<lambda>g. g\<lparr>gs_ids := l, gs_ids_locked := False, gs_device_locked := False\<rparr>) s
      in bind_r (cuda_call E ''cudaGetDeviceCount'' [] s) (\<lambda>((res, outs), s).
           let s = set_sched (\<lambda>g. g\<lparr>gs_max_devices := sint (out32 E outs 0)\<rparr>) s
           in Inr (if res \<noteq> 0 then 1 else 0, s)))"

definition gsched_none_device_sched :: "gsched \<Rightarrow> (int \<times> gsched) res" where
  "gsched_none_device_sched g =
     (if gs_max_devices g = 0 then Inl Div_By_Zero
      else Inr (gs_next_device_id g,
        g\<lparr>gs_next_device_id := (gs_next_device_id g + 1) smod gs_max_devices g\<rparr>))"

text \<open>
  The search leaves in \<open>elem\<close> the matching entry or else the last one it looked at; only an
  empty list leaves it NULL.
\<close>

fun retain_search :: "gsched_none clist \<Rightarrow> int \<Rightarrow> nat \<Rightarrow> nat \<Rightarrow> nat option \<Rightarrow> nat option res" where
  "retain_search l i k 0 elem = Inr elem"
| "retain_search l i k (Suc n) elem =
     bind_r (elem_at l k) (\<lambda>e. if i = gs_id e then Inr (Some k) else retain_search l i (Suc k) n (Some k))"

text \<open>
  \<open>ret\<close> is 1 from the start and never set to 0, so the function leaves before it sets the device.
  The part behind that exit is modelled as written.
\<close>

definition gsched_none_set_device :: "'d env \<Rightarrow> nat \<Rightarrow> ('d, int) handler" where
  "gsched_none_set_device E k s =
     (if gs_device_locked (sched s) then Inr (1, s)
      else let s = set_sched (\<lambda>g. g\<lparr>gs_device_locked := True\<rparr>) s in
        bind_r (elem_at (gs_ids (sched s)) k) (\<lambda>e.
        bind_r (cuda_call E ''cudaSetDevice'' [Int32 (of_int (gs_device e))] s) (\<lambda>((err, _), s).
          if err \<noteq> 0 then Inr (1, set_sched (\<lambda>g. g\<lparr>gs_device_locked := False\<rparr>) s)
          else Inr (0, s))))"

definition retain_entry :: "'d env \<Rightarrow> int \<Rightarrow> int \<Rightarrow> nat option \<Rightarrow> gsched \<Rightarrow> (int \<times> nat option \<times> gsched) res" where
  "retain_entry E i ret elem g =
     (case elem of
        Some k \<Rightarrow> Inr (ret, Some k, g)
      | None \<Rightarrow>
          bind_r (list_append (heap_ok E) (gs_ids g) True) (\<lambda>(r, l, p).
            case p of
              None \<Rightarrow> Inr (1, None, g\<lparr>gs_ids := l\<rparr>)
            | Some k \<Rightarrow>
                bind_r (gsched_none_device_sched (g\<lparr>gs_ids := l\<rparr>)) (\<lambda>(dev, g).
                bind_r (set_elem (gs_ids g) k \<lparr>gs_id = i, gs_device = dev\<rparr>) (\<lambda>l.
                  Inr (ret, Some k, g\<lparr>gs_ids := l\<rparr>)))))"

definition gsched_none_retain :: "'d env \<Rightarrow> int \<Rightarrow> ('d, int) handler" where
  "gsched_none_retain E i s =
     (let ret = 1 in
      if gs_ids_locked (sched s) then Inr (1, s)
      else let g = (sched s)\<lparr>gs_ids_locked := True\<rparr> in
        bind_r (retain_search (gs_ids g) i 0 (len (gs_ids g)) None) (\<lambda>elem.
        bind_r (retain_entry E i ret elem g) (\<lambda>(ret, elem, g).
          let s = set_sched (\<lambda>_. g\<lparr>gs_ids_locked := False\<rparr>) s in
          if ret \<noteq> 0 then Inr (ret, s)
          else case elem of None \<Rightarrow> Inl Null_Deref | Some k \<Rightarrow> gsched_none_set_device E k s)))"

definition gsched_none_release :: "int \<Rightarrow> ('d, int) handler" where
  "gsched_none_release i s = Inr (1, set_sched (\<lambda>g. g\<lparr>gs_device_locked := False\<rparr>) s)"

fun rm_search :: "gsched_none clist \<Rightarrow> int \<Rightarrow> nat \<Rightarrow> nat \<Rightarrow> nat res" where
  "rm_search l i k 0 = Inr k"
| "rm_search l i k (Suc n) =
     bind_r (elem_at l k) (\<lambda>e. if i = gs_id e then Inr k else rm_search l i (Suc k) n)"

definition gsched_none_rm :: "int \<Rightarrow> ('d, int) handler" where
  "gsched_none_rm i s =
     (if gs_ids_locked (sched s) then Inr (1, s)
      else let l = gs_ids (sched s) in
        bind_r (rm_search l i 0 (len l)) (\<lambda>k.
          if k = len l then Inr (1, s)
          else bind_r (list_rm l k) (\<lambda>(ret, l). Inr (ret, set_sched (\<lambda>g. g\<lparr>gs_ids := l\<rparr>) s))))"

definition gsched_none_deinit :: "('d, unit) handler" where
  "gsched_none_deinit s =
     bind_r (list_free (gs_ids (sched s))) (\<lambda>(_, l). Inr ((), set_sched (\<lambda>g. g\<lparr>gs_ids := l\<rparr>) s))"

text \<open>The bracket around a call; the codes of both functions are ignored.\<close>

definition scheduled :: "'d env \<Rightarrow> int \<Rightarrow> ('d, 'a) handler \<Rightarrow> ('d, 'a) handler" where
  "scheduled E fd h =
     bind_h (gsched_none_retain E fd) (\<lambda>_. bind_h h (\<lambda>x. bind_h (gsched_none_release fd) (\<lambda>_. ret_h x)))"

section \<open>What the scheduler does\<close>

lemma set_sched_simps [simp]:
  "sched (set_sched f s) = f (sched s)" "gpu (set_sched f s) = gpu s"
  "api_records (set_sched f s) = api_records s"
  by (simp_all add: set_sched_def)

lemma retain_search_some:
  "list_rep l xs \<Longrightarrow> k + n = length xs \<Longrightarrow>
   \<exists>e. retain_search l i k n elem = Inr e \<and> (e = None \<longleftrightarrow> n = 0 \<and> elem = None)"
proof (induction n arbitrary: k elem)
  case (Suc n)
  then have k: "k < length xs" by simp
  show ?case using Suc.IH [of "Suc k" "Some k"] Suc.prems list_rep_cell [OF Suc.prems(1) k] by auto
qed simp

lemma retain_entry_ret: "retain_entry E i 1 elem g = Inr (r, x, g') \<Longrightarrow> r = 1"
  by (auto simp: retain_entry_def bind_r_Inr_iff split: option.split_asm)

lemma retain_fails:
  assumes "gsched_none_retain E i s = Inr (r, s')"
  shows "r = 1 \<and> (\<exists>f. s' = set_sched f s)"
proof (cases "gs_ids_locked (sched s)")
  case True
  then have "r = 1" "s' = set_sched (\<lambda>g. g) s"
    using assms by (simp_all add: gsched_none_retain_def set_sched_def)
  then show ?thesis by blast
next
  case False
  then obtain e x g where "retain_entry E i 1 e ((sched s)\<lparr>gs_ids_locked := True\<rparr>) = Inr (r, x, g)"
    "s' = set_sched (\<lambda>_. g\<lparr>gs_ids_locked := False\<rparr>) s"
    using assms retain_entry_ret [of E i] by (fastforce simp: gsched_none_retain_def Let_def bind_r_Inr_iff)
  then show ?thesis using retain_entry_ret by blast
qed

lemma extends_retain [log_intros]: "extends_log E n k (gsched_none_retain E' i)"
  by (rule extends_log_pure) (use retain_fails set_sched_simps(3) in metis)

lemma extends_release [log_intros]: "extends_log E n k (gsched_none_release i)"
  by (rule extends_log_pure) (auto simp: gsched_none_release_def)

lemma extends_scheduled [log_intros]: "extends_log E n k h \<Longrightarrow> extends_log E n k (scheduled E' fd h)"
  unfolding scheduled_def by (intro log_intros)

text \<open>The scheduler never selects a device: whatever the connection, \<open>gsched_none_retain\<close>
  returns 1 without a call into the library and without taking the device lock; a connection
  gets an entry only while the list is empty, so all later connections share the first one's.\<close>

lemma scheduler_never_selects:
  assumes "list_rep (gs_ids (sched s)) xs" and "gs_max_devices (sched s) \<noteq> 0"
    and "\<not> gs_ids_locked (sched s)" and "alloc_bounded (heap_ok E)" and "room (heap_ok E) (gs_ids (sched s))"
  shows "\<exists>s' ys. gsched_none_retain E i s = Inr (1, s') \<and> gpu s' = gpu s \<and>
    gs_device_locked (sched s') = gs_device_locked (sched s) \<and> \<not> gs_ids_locked (sched s') \<and>
    list_rep (gs_ids (sched s')) ys \<and>
    ys = (if xs = [] then [\<lparr>gs_id = i, gs_device = gs_next_device_id (sched s)\<rparr>] else xs)"
proof -
  let ?l = "gs_ids (sched s)"
  obtain e where e: "retain_search ?l i 0 (length xs) None = Inr e" "e = None \<longleftrightarrow> xs = []"
    using retain_search_some [OF assms(1), of 0 "length xs" i None] by auto
  show ?thesis
  proof (cases "xs = []")
    case False
    with e assms show ?thesis
      by (auto simp: gsched_none_retain_def Let_def list_rep_len retain_entry_def)
  next
    case True
    obtain l1 where app: "list_append (heap_ok E) ?l True = Inr (0, l1, Some (len ?l))"
      using list_append_grows [OF assms(1,4,5)] by blast
    obtain l' where l': "append_slot (heap_ok E) ?l \<lparr>gs_id = i, gs_device = gs_next_device_id (sched s)\<rparr> =
        Inr (length xs, l')" "list_rep l' (xs @ [\<lparr>gs_id = i, gs_device = gs_next_device_id (sched s)\<rparr>])"
      using append_slot_rep [OF assms(1), of "heap_ok E"] assms(4,5) glibc_id [OF assms(4)] by auto
    have "set_elem l1 (len ?l) \<lparr>gs_id = i, gs_device = gs_next_device_id (sched s)\<rparr> = Inr l'"
      using l'(1) app by (auto simp: append_slot_def bind_r_Inr_iff)
    with True e app l'(2) assms show ?thesis
      by (auto simp: gsched_none_retain_def Let_def list_rep_len retain_entry_def gsched_none_device_sched_def)
  qed
qed

end
