(* ===== verification/RuntimeDevice.thy ===== *)
theory RuntimeDevice
  imports Handlers
begin

text \<open>
  The handlers of \<open>cpu/cpu-server-runtime.c\<close> for devices, errors, streams, events, function
  attributes, occupancy, peers, versions and the profiler. \<open>rq\<close> is the procedure number of the
  request (\<open>rqstp->rq_proc\<close>). The code is taken as compiled for CUDA 11 with the recorder and
  without InfiniBand.
\<close>

abbreviation I :: "u32 \<Rightarrow> 'd arg" where "I w \<equiv> Val (Int32 w)"
abbreviation W :: "u64 \<Rightarrow> 'd arg" where "W w \<equiv> Val (Word64 w)"

section \<open>Devices\<close>

definition sizeof_cudaDeviceProp :: nat where
  "sizeof_cudaDeviceProp = 728"

definition cuda_choose_device_1_svc :: "'d env \<Rightarrow> u32 \<Rightarrow> mem_data \<Rightarrow> ('d, reply) handler" where
  "cuda_choose_device_1_svc E rq prop =
     (if length (mem_val prop) \<noteq> sizeof_cudaDeviceProp then ret_h No_Reply
      else recorded E rq sizeof_cudaDeviceProp [(0, mem_val prop)] (\<lambda>i.
        bind_h (lib_call E ''cudaChooseDevice'' [Val (Bytes (mem_val prop))]) (\<lambda>(err, outs).
          bind_h (set_result i (out32 E outs 0)) (\<lambda>_.
            ret_h (Reply [Int32 err, Int32 (out32 E outs 0)])))))"

definition cuda_device_get_attribute_1_svc :: "'d env \<Rightarrow> u32 \<Rightarrow> u32 \<Rightarrow> ('d, reply) handler" where
  "cuda_device_get_attribute_1_svc E attr device =
     query_call E ''cudaDeviceGetAttribute'' [I attr, I device] (\<lambda>outs. [Int32 (out32 E outs 0)])"

definition cuda_device_get_by_pci_bus_id_1_svc :: "'d env \<Rightarrow> string \<Rightarrow> ('d, reply) handler" where
  "cuda_device_get_by_pci_bus_id_1_svc E pciBusId =
     query_call E ''cudaDeviceGetByPCIBusId'' [Val (Text pciBusId)] (\<lambda>outs. [Int32 (out32 E outs 0)])"

definition cuda_device_get_cache_config_1_svc :: "'d env \<Rightarrow> ('d, reply) handler" where
  "cuda_device_get_cache_config_1_svc E =
     query_call E ''cudaDeviceGetCacheConfig'' [] (\<lambda>outs. [Int32 (out32 E outs 0)])"

definition cuda_device_get_limit_1_svc :: "'d env \<Rightarrow> u32 \<Rightarrow> ('d, reply) handler" where
  "cuda_device_get_limit_1_svc E limit =
     query_call E ''cudaDeviceGetLimit'' [I limit] (\<lambda>outs. [Word64 (out64 E outs 0)])"

definition cuda_device_get_p2p_attribute_1_svc :: "'d env \<Rightarrow> u32 \<Rightarrow> u32 \<Rightarrow> u32 \<Rightarrow> ('d, reply) handler" where
  "cuda_device_get_p2p_attribute_1_svc E attr srcDevice dstDevice =
     query_call E ''cudaDeviceGetP2PAttribute'' [I attr, I srcDevice, I dstDevice]
       (\<lambda>outs. [Int32 (out32 E outs 0)])"

text \<open>The length is an \<open>int\<close>: \<open>malloc\<close> sees it sign-extended.\<close>

definition cuda_device_get_pci_bus_id_1_svc :: "'d env \<Rightarrow> u32 \<Rightarrow> u32 \<Rightarrow> ('d, reply) handler" where
  "cuda_device_get_pci_bus_id_1_svc E n device =
     (if \<not> heap_ok E (unat (scast n :: u64)) then ret_h No_Reply
      else query_call E ''cudaDeviceGetPCIBusId'' [I n, I device] (\<lambda>outs. [Text (out_text outs)]))"

definition cuda_device_get_shared_mem_config_1_svc :: "'d env \<Rightarrow> ('d, reply) handler" where
  "cuda_device_get_shared_mem_config_1_svc E =
     query_call E ''cudaDeviceGetSharedMemConfig'' [] (\<lambda>outs. [Int32 (out32 E outs 0)])"

definition cuda_device_get_stream_priority_range_1_svc :: "'d env \<Rightarrow> ('d, reply) handler" where
  "cuda_device_get_stream_priority_range_1_svc E =
     query_call E ''cudaDeviceGetStreamPriorityRange'' []
       (\<lambda>outs. [Int32 (out32 E outs 0), Int32 (out32 E outs 1)])"

definition cuda_device_get_texture_lmw_1_svc ::
  "'d env \<Rightarrow> channel_format_desc \<Rightarrow> u32 \<Rightarrow> ('d, reply) handler" where
  "cuda_device_get_texture_lmw_1_svc E fmtDesc device =
     query_call E ''cudaDeviceGetTexture1DLinearMaxWidth'' [Val (Bytes (desc_bytes fmtDesc)), I device]
       (\<lambda>outs. [Word64 (out64 E outs 0)])"

definition cuda_device_reset_1_svc :: "'d env \<Rightarrow> u32 \<Rightarrow> ('d, reply) handler" where
  "cuda_device_reset_1_svc E rq = logged_void E rq ''cudaDeviceReset''"

definition cuda_device_set_cache_config_1_svc :: "'d env \<Rightarrow> u32 \<Rightarrow> u32 \<Rightarrow> ('d, reply) handler" where
  "cuda_device_set_cache_config_1_svc E rq cacheConfig =
     logged_call E rq 4 [(0, i32 cacheConfig)] ''cudaDeviceSetCacheConfig'' [I cacheConfig]"

definition cuda_device_set_limit_1_svc :: "'d env \<Rightarrow> u32 \<Rightarrow> u32 \<Rightarrow> u64 \<Rightarrow> ('d, reply) handler" where
  "cuda_device_set_limit_1_svc E rq limit v =
     logged_call E rq 16 [(0, i32 limit), (8, i64 v)] ''cudaDeviceSetLimit'' [I limit, W v]"

definition cuda_device_set_shared_mem_config_1_svc :: "'d env \<Rightarrow> u32 \<Rightarrow> u32 \<Rightarrow> ('d, reply) handler" where
  "cuda_device_set_shared_mem_config_1_svc E rq config =
     logged_call E rq 4 [(0, i32 config)] ''cudaDeviceSetSharedMemConfig'' [I config]"

definition cuda_device_synchronize_1_svc :: "'d env \<Rightarrow> u32 \<Rightarrow> ('d, reply) handler" where
  "cuda_device_synchronize_1_svc E rq = logged_void E rq ''cudaDeviceSynchronize''"

definition cuda_get_device_1_svc :: "'d env \<Rightarrow> ('d, reply) handler" where
  "cuda_get_device_1_svc E = query_call E ''cudaGetDevice'' [] (\<lambda>outs. [Int32 (out32 E outs 0)])"

definition cuda_get_device_count_1_svc :: "'d env \<Rightarrow> ('d, reply) handler" where
  "cuda_get_device_count_1_svc E = query_call E ''cudaGetDeviceCount'' [] (\<lambda>outs. [Int32 (out32 E outs 0)])"

definition cuda_get_device_flags_1_svc :: "'d env \<Rightarrow> ('d, reply) handler" where
  "cuda_get_device_flags_1_svc E = query_call E ''cudaGetDeviceFlags'' [] (\<lambda>outs. [Int32 (out32 E outs 0)])"

definition cuda_get_device_properties_1_svc :: "'d env \<Rightarrow> u32 \<Rightarrow> ('d, reply) handler" where
  "cuda_get_device_properties_1_svc E device =
     query_call E ''cudaGetDeviceProperties'' [I device]
       (\<lambda>outs. [Bytes (out_bytes E outs 0 sizeof_cudaDeviceProp)])"

definition cuda_set_device_1_svc :: "'d env \<Rightarrow> u32 \<Rightarrow> u32 \<Rightarrow> ('d, reply) handler" where
  "cuda_set_device_1_svc E rq device =
     logged_call E rq 4 [(0, i32 device)] ''cudaSetDevice'' [I device]"

definition cuda_set_device_flags_1_svc :: "'d env \<Rightarrow> u32 \<Rightarrow> u32 \<Rightarrow> ('d, reply) handler" where
  "cuda_set_device_flags_1_svc E rq flags =
     logged_call E rq 4 [(0, i32 flags)] ''cudaSetDeviceFlags'' [I flags]"

text \<open>
  The device array is copied into a fresh block (its address is a word the model does not know)
  before the received length is compared with the expected one.
\<close>

definition cuda_set_valid_devices_1_svc :: "'d env \<Rightarrow> u32 \<Rightarrow> mem_data \<Rightarrow> u32 \<Rightarrow> ('d, reply) handler" where
  "cuda_set_valid_devices_1_svc E rq device_arr n =
     (let bytes = unat ((scast n :: u64) * 4) in
      recorded E rq 16 [] (\<lambda>i.
        if \<not> heap_ok E bytes then ret_h No_Reply
        else if length (mem_val device_arr) < bytes then (\<lambda>s. Inl Out_Of_Bounds)
        else bind_h (set_args i [(0, i64 (fresh_word E)), (8, i32 n)]) (\<lambda>_.
          if length (mem_val device_arr) \<noteq> bytes then ret_h No_Reply
          else int_call E ''cudaSetValidDevices'' [Val (Bytes (mem_val device_arr)), I n] i)))"

section \<open>Errors\<close>

text \<open>The 128 bytes for the string are not checked; \<open>strncpy\<close> copies at most 128 characters.\<close>

definition error_text :: "'d env \<Rightarrow> string \<Rightarrow> u32 \<Rightarrow> ('d, reply) handler" where
  "error_text E name err =
     bind_h (lib_call E name [I err]) (\<lambda>(_, outs).
       if \<not> heap_ok E 128 then (\<lambda>s. Inl Null_Deref)
       else ret_h (Reply [Int32 0, Text (take 128 (out_text outs))]))"

definition cuda_get_error_name_1_svc :: "'d env \<Rightarrow> u32 \<Rightarrow> ('d, reply) handler" where
  "cuda_get_error_name_1_svc E err = error_text E ''cudaGetErrorName'' err"

definition cuda_get_error_string_1_svc :: "'d env \<Rightarrow> u32 \<Rightarrow> ('d, reply) handler" where
  "cuda_get_error_string_1_svc E err = error_text E ''cudaGetErrorString'' err"

definition cuda_get_last_error_1_svc :: "'d env \<Rightarrow> ('d, reply) handler" where
  "cuda_get_last_error_1_svc E = query_call E ''cudaGetLastError'' [] (\<lambda>_. [])"

definition cuda_peek_at_last_error_1_svc :: "'d env \<Rightarrow> ('d, reply) handler" where
  "cuda_peek_at_last_error_1_svc E = query_call E ''cudaPeekAtLastError'' [] (\<lambda>_. [])"

section \<open>Streams\<close>

definition cuda_ctx_reset_persisting_l2cache_1_svc :: "'d env \<Rightarrow> u32 \<Rightarrow> ('d, reply) handler" where
  "cuda_ctx_reset_persisting_l2cache_1_svc E rq = logged_void E rq ''cudaCtxResetPersistingL2Cache''"

definition cuda_stream_copy_attributes_1_svc :: "'d env \<Rightarrow> u32 \<Rightarrow> u64 \<Rightarrow> u64 \<Rightarrow> ('d, reply) handler" where
  "cuda_stream_copy_attributes_1_svc E rq dst src =
     logged_call E rq 16 [(0, i64 dst), (8, i64 src)] ''cudaStreamCopyAttributes''
       [Handle rm_streams dst, Handle rm_streams src]"

abbreviation new_stream :: "'d env \<Rightarrow> string \<Rightarrow> 'd arg list \<Rightarrow> nat \<Rightarrow> ('d, reply) handler" where
  "new_stream E \<equiv> create_call E rm_streams (\<lambda>m s. s\<lparr>rm_streams := m\<rparr>)"

definition cuda_stream_create_1_svc :: "'d env \<Rightarrow> u32 \<Rightarrow> ('d, reply) handler" where
  "cuda_stream_create_1_svc E rq = recorded_void E rq (new_stream E ''cudaStreamCreate'' [])"

definition cuda_stream_create_with_flags_1_svc :: "'d env \<Rightarrow> u32 \<Rightarrow> u32 \<Rightarrow> ('d, reply) handler" where
  "cuda_stream_create_with_flags_1_svc E rq flags =
     recorded E rq 4 [(0, i32 flags)] (new_stream E ''cudaStreamCreateWithFlags'' [I flags])"

definition cuda_stream_create_with_priority_1_svc :: "'d env \<Rightarrow> u32 \<Rightarrow> u32 \<Rightarrow> u32 \<Rightarrow> ('d, reply) handler" where
  "cuda_stream_create_with_priority_1_svc E rq flags priority =
     recorded E rq 8 [(0, i32 flags), (4, i32 priority)]
       (new_stream E ''cudaStreamCreateWithPriority'' [I flags, I priority])"

definition cuda_stream_destroy_1_svc :: "'d env \<Rightarrow> u32 \<Rightarrow> u64 \<Rightarrow> ('d, reply) handler" where
  "cuda_stream_destroy_1_svc E rq stream =
     logged_call E rq 8 [(0, i64 stream)] ''cudaStreamDestroy'' [Handle rm_streams stream]"

definition cuda_stream_get_flags_1_svc :: "'d env \<Rightarrow> u64 \<Rightarrow> ('d, reply) handler" where
  "cuda_stream_get_flags_1_svc E hStream =
     query_call E ''cudaStreamGetFlags'' [Handle rm_streams hStream] (\<lambda>outs. [Int32 (out32 E outs 0)])"

definition cuda_stream_get_priority_1_svc :: "'d env \<Rightarrow> u64 \<Rightarrow> ('d, reply) handler" where
  "cuda_stream_get_priority_1_svc E hStream =
     query_call E ''cudaStreamGetPriority'' [Handle rm_streams hStream] (\<lambda>outs. [Int32 (out32 E outs 0)])"

definition cuda_stream_is_capturing_1_svc :: "'d env \<Rightarrow> u64 \<Rightarrow> ('d, reply) handler" where
  "cuda_stream_is_capturing_1_svc E stream =
     query_call E ''cudaStreamIsCapturing'' [Handle rm_streams stream] (\<lambda>outs. [Int32 (out32 E outs 0)])"

definition cuda_stream_query_1_svc :: "'d env \<Rightarrow> u64 \<Rightarrow> ('d, reply) handler" where
  "cuda_stream_query_1_svc E hStream =
     query_call E ''cudaStreamQuery'' [Handle rm_streams hStream] (\<lambda>_. [])"

definition cuda_stream_synchronize_1_svc :: "'d env \<Rightarrow> u32 \<Rightarrow> u64 \<Rightarrow> ('d, reply) handler" where
  "cuda_stream_synchronize_1_svc E rq stream =
     logged_call E rq 8 [(0, i64 stream)] ''cudaStreamSynchronize'' [Handle rm_streams stream]"

definition cuda_stream_wait_event_1_svc :: "'d env \<Rightarrow> u32 \<Rightarrow> u64 \<Rightarrow> u64 \<Rightarrow> u32 \<Rightarrow> ('d, reply) handler" where
  "cuda_stream_wait_event_1_svc E rq stream event flags =
     logged_call E rq 24 [(0, i64 stream), (8, i64 event), (16, i32 flags)] ''cudaStreamWaitEvent''
       [Handle rm_streams stream, Handle rm_events event, I flags]"

text \<open>The mode is an in-out argument; its new value is what the record keeps.\<close>

definition cuda_thread_exchange_stream_capture_mode_1_svc :: "'d env \<Rightarrow> u32 \<Rightarrow> u32 \<Rightarrow> ('d, reply) handler" where
  "cuda_thread_exchange_stream_capture_mode_1_svc E rq mode =
     recorded E rq 4 [(0, i32 mode)] (\<lambda>i.
       bind_h (lib_call E ''cudaThreadExchangeStreamCaptureMode'' [I mode]) (\<lambda>(err, outs).
         let new = (case outs of Int32 w # _ \<Rightarrow> w | _ \<Rightarrow> mode) in
         bind_h (set_result i new) (\<lambda>_. ret_h (Reply [Int32 err, Int32 new]))))"

section \<open>Events\<close>

abbreviation new_event :: "'d env \<Rightarrow> string \<Rightarrow> 'd arg list \<Rightarrow> nat \<Rightarrow> ('d, reply) handler" where
  "new_event E \<equiv> create_call E rm_events (\<lambda>m s. s\<lparr>rm_events := m\<rparr>)"

definition cuda_event_create_1_svc :: "'d env \<Rightarrow> u32 \<Rightarrow> ('d, reply) handler" where
  "cuda_event_create_1_svc E rq = recorded_void E rq (new_event E ''cudaEventCreate'' [])"

definition cuda_event_create_with_flags_1_svc :: "'d env \<Rightarrow> u32 \<Rightarrow> u32 \<Rightarrow> ('d, reply) handler" where
  "cuda_event_create_with_flags_1_svc E rq flags =
     recorded E rq 4 [(0, i32 flags)] (new_event E ''cudaEventCreateWithFlags'' [I flags])"

definition cuda_event_destroy_1_svc :: "'d env \<Rightarrow> u32 \<Rightarrow> u64 \<Rightarrow> ('d, reply) handler" where
  "cuda_event_destroy_1_svc E rq event =
     logged_call E rq 8 [(0, i64 event)] ''cudaEventDestroy'' [Handle rm_events event]"

definition cuda_event_elapsed_time_1_svc :: "'d env \<Rightarrow> u64 \<Rightarrow> u64 \<Rightarrow> ('d, reply) handler" where
  "cuda_event_elapsed_time_1_svc E start stop =
     query_call E ''cudaEventElapsedTime'' [Handle rm_events start, Handle rm_events stop]
       (\<lambda>outs. [Int32 (out32 E outs 0)])"

definition cuda_event_query_1_svc :: "'d env \<Rightarrow> u32 \<Rightarrow> u64 \<Rightarrow> ('d, reply) handler" where
  "cuda_event_query_1_svc E rq event =
     logged_call E rq 8 [(0, i64 event)] ''cudaEventQuery'' [Handle rm_events event]"

definition cuda_event_record_1_svc :: "'d env \<Rightarrow> u32 \<Rightarrow> u64 \<Rightarrow> u64 \<Rightarrow> ('d, reply) handler" where
  "cuda_event_record_1_svc E rq event stream =
     logged_call E rq 16 [(0, i64 event), (8, i64 stream)] ''cudaEventRecord''
       [Handle rm_events event, Handle rm_streams stream]"

definition cuda_event_record_with_flags_1_svc ::
  "'d env \<Rightarrow> u32 \<Rightarrow> u64 \<Rightarrow> u64 \<Rightarrow> u32 \<Rightarrow> ('d, reply) handler" where
  "cuda_event_record_with_flags_1_svc E rq event stream flags =
     logged_call E rq 24 [(0, i64 event), (8, i64 stream), (16, i32 flags)] ''cudaEventRecordWithFlags''
       [Handle rm_events event, Handle rm_streams stream, I flags]"

definition cuda_event_synchronize_1_svc :: "'d env \<Rightarrow> u32 \<Rightarrow> u64 \<Rightarrow> ('d, reply) handler" where
  "cuda_event_synchronize_1_svc E rq event =
     logged_call E rq 8 [(0, i64 event)] ''cudaEventSynchronize'' [Handle rm_events event]"

section \<open>Functions and occupancy\<close>

definition sizeof_cudaFuncAttributes :: nat where
  "sizeof_cudaFuncAttributes = 56"

text \<open>The block for the attributes is not checked: the library gets NULL when it is missing.\<close>

definition cuda_func_get_attributes_1_svc :: "'d env \<Rightarrow> u64 \<Rightarrow> ('d, reply) handler" where
  "cuda_func_get_attributes_1_svc E func =
     (if \<not> heap_ok E sizeof_cudaFuncAttributes then (\<lambda>s. Inl Null_Deref)
      else query_call E ''cudaFuncGetAttributes'' [W func]
        (\<lambda>outs. [Bytes (out_bytes E outs 0 sizeof_cudaFuncAttributes)]))"

definition cuda_func_set_attributes_1_svc :: "'d env \<Rightarrow> u32 \<Rightarrow> u64 \<Rightarrow> u32 \<Rightarrow> u32 \<Rightarrow> ('d, reply) handler" where
  "cuda_func_set_attributes_1_svc E rq func attr v =
     logged_call E rq 16 [(0, i64 func), (8, i32 attr), (12, i32 v)] ''cudaFuncSetAttribute''
       [W func, I attr, I v]"

definition cuda_func_set_cache_config_1_svc :: "'d env \<Rightarrow> u32 \<Rightarrow> u64 \<Rightarrow> u32 \<Rightarrow> ('d, reply) handler" where
  "cuda_func_set_cache_config_1_svc E rq func cacheConfig =
     logged_call E rq 16 [(0, i64 func), (8, i32 cacheConfig)] ''cudaFuncSetCacheConfig''
       [W func, I cacheConfig]"

definition cuda_func_set_shared_mem_config_1_svc :: "'d env \<Rightarrow> u32 \<Rightarrow> u64 \<Rightarrow> u32 \<Rightarrow> ('d, reply) handler" where
  "cuda_func_set_shared_mem_config_1_svc E rq func config =
     logged_call E rq 16 [(0, i64 func), (8, i32 config)] ''cudaFuncSetSharedMemConfig''
       [W func, I config]"

definition cuda_occupancy_available_dsmpb_1_svc :: "'d env \<Rightarrow> u64 \<Rightarrow> u32 \<Rightarrow> u32 \<Rightarrow> ('d, reply) handler" where
  "cuda_occupancy_available_dsmpb_1_svc E func numBlocks blockSize =
     query_call E ''cudaOccupancyAvailableDynamicSMemPerBlock'' [W func, I numBlocks, I blockSize]
       (\<lambda>outs. [Word64 (out64 E outs 0)])"

definition cuda_occupancy_max_active_bpm_1_svc :: "'d env \<Rightarrow> u64 \<Rightarrow> u32 \<Rightarrow> u64 \<Rightarrow> ('d, reply) handler" where
  "cuda_occupancy_max_active_bpm_1_svc E func blockSize dynamicSMemSize =
     query_call E ''cudaOccupancyMaxActiveBlocksPerMultiprocessor'' [W func, I blockSize, W dynamicSMemSize]
       (\<lambda>outs. [Int32 (out32 E outs 0)])"

definition cuda_occupancy_max_active_bpm_with_flags_1_svc ::
  "'d env \<Rightarrow> u64 \<Rightarrow> u32 \<Rightarrow> u64 \<Rightarrow> u32 \<Rightarrow> ('d, reply) handler" where
  "cuda_occupancy_max_active_bpm_with_flags_1_svc E func blockSize dynamicSMemSize flags =
     query_call E ''cudaOccupancyMaxActiveBlocksPerMultiprocessorWithFlags''
       [W func, I blockSize, W dynamicSMemSize, I flags] (\<lambda>outs. [Int32 (out32 E outs 0)])"

section \<open>Peers, versions, profiler\<close>

definition cuda_device_can_access_peer_1_svc :: "'d env \<Rightarrow> u32 \<Rightarrow> u32 \<Rightarrow> ('d, reply) handler" where
  "cuda_device_can_access_peer_1_svc E device peerDevice =
     query_call E ''cudaDeviceCanAccessPeer'' [I device, I peerDevice] (\<lambda>outs. [Int32 (out32 E outs 0)])"

definition cuda_device_disable_peer_access_1_svc :: "'d env \<Rightarrow> u32 \<Rightarrow> u32 \<Rightarrow> ('d, reply) handler" where
  "cuda_device_disable_peer_access_1_svc E rq peerDevice =
     logged_call E rq 4 [(0, i32 peerDevice)] ''cudaDeviceDisablePeerAccess'' [I peerDevice]"

definition cuda_device_enable_peer_access_1_svc :: "'d env \<Rightarrow> u32 \<Rightarrow> u32 \<Rightarrow> u32 \<Rightarrow> ('d, reply) handler" where
  "cuda_device_enable_peer_access_1_svc E rq peerDevice flags =
     logged_call E rq 8 [(0, i32 peerDevice), (4, i32 flags)] ''cudaDeviceEnablePeerAccess''
       [I peerDevice, I flags]"

definition cuda_driver_get_version_1_svc :: "'d env \<Rightarrow> ('d, reply) handler" where
  "cuda_driver_get_version_1_svc E = query_call E ''cudaDriverGetVersion'' [] (\<lambda>outs. [Int32 (out32 E outs 0)])"

definition cuda_runtime_get_version_1_svc :: "'d env \<Rightarrow> ('d, reply) handler" where
  "cuda_runtime_get_version_1_svc E = query_call E ''cudaRuntimeGetVersion'' [] (\<lambda>outs. [Int32 (out32 E outs 0)])"

definition cuda_profiler_start_1_svc :: "'d env \<Rightarrow> u32 \<Rightarrow> ('d, reply) handler" where
  "cuda_profiler_start_1_svc E rq = logged_void E rq ''cudaProfilerStart''"

definition cuda_profiler_stop_1_svc :: "'d env \<Rightarrow> u32 \<Rightarrow> ('d, reply) handler" where
  "cuda_profiler_stop_1_svc E rq = logged_void E rq ''cudaProfilerStop''"

end
