(* ===== verification/RuntimeMemory.thy ===== *)
theory RuntimeMemory
  imports RuntimeDevice
begin

text \<open>
  The handlers of \<open>cpu/cpu-server-runtime.c\<close> for device memory: allocation, host memory shared
  with the client, the copy functions with the counters the replay of kernels relies on,
  transfers with several threads, symbols and memset.
\<close>

section \<open>Codes of the runtime\<close>

definition cudaErrorMemoryAllocation :: u32 where "cudaErrorMemoryAllocation = 2"
definition cudaErrorInitializationError :: u32 where "cudaErrorInitializationError = 3"
definition cudaErrorInvalidSymbol :: u32 where "cudaErrorInvalidSymbol = 13"
definition cudaErrorHostMemoryNotRegistered :: u32 where "cudaErrorHostMemoryNotRegistered = 713"
definition cudaErrorUnknown :: u32 where "cudaErrorUnknown = 999"

lemmas cuda_codes = cudaErrorMemoryAllocation_def cudaErrorInitializationError_def
  cudaErrorInvalidSymbol_def cudaErrorHostMemoryNotRegistered_def cudaErrorUnknown_def

text \<open>The transport of the connection; \<open>local\<close> stands for \<open>shm_enabled\<close> and a client on this host.\<close>

datatype socktype_t = UNIX | TCP | UDP

section \<open>Host memory shared with the client\<close>

fun hainfo_search :: "host_alloc_info list \<Rightarrow> u64 \<Rightarrow> nat \<Rightarrow> nat \<Rightarrow> int res" where
  "hainfo_search hs p i 0 = Inr (- 1)"
| "hainfo_search hs p i (Suc n) =
     (if length hs \<le> i then Inl Out_Of_Bounds
      else if hai_server_ptr (hs ! i) \<noteq> 0 \<and> hai_server_ptr (hs ! i) = p then Inr (int i)
      else hainfo_search hs p (Suc i) n)"

definition hainfo_getserverindex :: "u64 \<Rightarrow> ('d, int) handler" where
  "hainfo_getserverindex p s =
     bind_r (hainfo_search (hainfo s) p 0 (hainfo_cnt s)) (\<lambda>i. Inr (i, s))"

text \<open>An entry of \<open>hainfo\<close> by an index of type \<open>int\<close> or \<open>size_t\<close>.\<close>

definition hainfo_at :: "int \<Rightarrow> ('d, host_alloc_info) handler" where
  "hainfo_at i s =
     (if 0 \<le> i \<and> i < int (length (hainfo s)) then Inr (hainfo s ! nat i, s) else Inl Out_Of_Bounds)"

definition hainfo_set :: "int \<Rightarrow> host_alloc_info \<Rightarrow> ('d, unit) handler" where
  "hainfo_set i h s =
     (if 0 \<le> i \<and> i < int (length (hainfo s)) then Inr ((), s\<lparr>hainfo := (hainfo s)[nat i := h]\<rparr>)
      else Inl Out_Of_Bounds)"

definition get_s :: "('d server \<Rightarrow> 'a) \<Rightarrow> ('d, 'a) handler" where
  "get_s f s = Inr (f s, s)"

definition modify_s :: "('d server \<Rightarrow> 'd server) \<Rightarrow> ('d, unit) handler" where
  "modify_s f s = Inr ((), f s)"

text \<open>
  The body of \<open>cuda_host_alloc_1_svc\<close>: the code and the index it returns. The system calls are
  library calls whose code is 0 on success. \<open>register_flags\<close> is computed and never used.
\<close>

definition host_alloc :: "'d env \<Rightarrow> socktype_t \<Rightarrow> bool \<Rightarrow> u64 \<Rightarrow> u32 \<Rightarrow> ('d, u32 \<times> u64) handler" where
  "host_alloc E st local sz flags =
     (if st = UNIX \<or> local
      then bind_h (get_s hainfo_cnt) (\<lambda>cnt.
        case asprintf E (''/RRTOhostalloc-'' @ dec cnt) of
          None \<Rightarrow> ret_h (cudaErrorMemoryAllocation, fresh_word E)
        | Some shm_name \<Rightarrow>
            bind_h (lib_call E ''shm_open'' [Val (Text shm_name)]) (\<lambda>(err, _).
            if err \<noteq> 0 then ret_h (cudaErrorMemoryAllocation, fresh_word E)
            else bind_h (lib_call E ''ftruncate'' [Val (Text shm_name), W sz]) (\<lambda>(err, _).
            if err \<noteq> 0
            then bind_h (lib_call E ''shm_unlink'' [Val (Text shm_name)]) (\<lambda>_.
                   ret_h (cudaErrorMemoryAllocation, fresh_word E))
            else bind_h (lib_call E ''mmap'' [Val (Text shm_name), W sz]) (\<lambda>(err, outs).
            if err \<noteq> 0 then ret_h (cudaErrorMemoryAllocation, of_nat cnt)
            else let shm_addr = out64 E outs 0 in
              bind_h (lib_call E ''cudaHostRegister'' [W shm_addr, W sz, I flags]) (\<lambda>(err, _).
              if err \<noteq> 0
              then bind_h (lib_call E ''munmap'' [W shm_addr, W sz]) (\<lambda>_. ret_h (err, of_nat cnt))
              else bind_h (hainfo_set (int cnt) \<lparr>hai_idx = cnt, hai_size = unat sz, hai_client_ptr = 0,
                       hai_server_ptr = shm_addr\<rparr>) (\<lambda>_.
                   bind_h (modify_s (\<lambda>s. s\<lparr>hainfo_cnt := cnt + 1\<rparr>)) (\<lambda>_.
                     ret_h (0, of_nat cnt))))))))
      else ret_h (cudaErrorMemoryAllocation, fresh_word E))"

definition cuda_host_alloc_1_svc ::
  "'d env \<Rightarrow> u32 \<Rightarrow> socktype_t \<Rightarrow> bool \<Rightarrow> u64 \<Rightarrow> u32 \<Rightarrow> ('d, reply) handler" where
  "cuda_host_alloc_1_svc E rq st local sz flags =
     recorded E rq 16 [(0, i64 sz), (8, i32 flags)] (\<lambda>i.
       bind_h (host_alloc E st local sz flags) (\<lambda>(err, idx).
         bind_h (set_result_ptr i err idx) (\<lambda>_. ret_h (Reply [Int32 err, Word64 idx]))))"

text \<open>On the error paths \<open>shm_name\<close> is NULL when \<open>shm_unlink\<close> gets it.\<close>

definition cuda_host_alloc_regshm_1_svc ::
  "'d env \<Rightarrow> u32 \<Rightarrow> socktype_t \<Rightarrow> bool \<Rightarrow> u64 \<Rightarrow> u64 \<Rightarrow> ('d, reply) handler" where
  "cuda_host_alloc_regshm_1_svc E rq st local hainfo_idx client_ptr =
     recorded E rq 16 [(0, i64 hainfo_idx), (8, i64 client_ptr)] (\<lambda>i.
       if st \<noteq> UNIX \<and> \<not> local then (\<lambda>s. Inl Null_Deref)
       else case asprintf E (''/RRTOhostalloc-'' @ dec (unat hainfo_idx)) of
         None \<Rightarrow> (\<lambda>s. Inl Null_Deref)
       | Some shm_name \<Rightarrow>
           bind_h (hainfo_at (uint hainfo_idx)) (\<lambda>h.
           bind_h (hainfo_set (uint hainfo_idx) (h\<lparr>hai_client_ptr := client_ptr\<rparr>)) (\<lambda>_.
           bind_h (lib_call E ''shm_unlink'' [Val (Text shm_name)]) (\<lambda>_.
           bind_h (set_result i 0) (\<lambda>_. ret_h (Reply [Int32 0]))))))"

definition free_host :: "'d env \<Rightarrow> socktype_t \<Rightarrow> u32 \<Rightarrow> nat \<Rightarrow> ('d, reply) handler" where
  "free_host E st index i =
     (if st \<noteq> UNIX then ret_h (Reply [Int32 0])
      else bind_h (hainfo_at (sint index)) (\<lambda>h.
        bind_h
          (if hai_idx h \<noteq> 0 \<and> int (hai_idx h) = sint index
           then bind_h (lib_call E ''cudaHostUnregister'' [W (hai_server_ptr h)]) (\<lambda>(err, _).
                bind_h (lib_call E ''munmap'' [W (hai_server_ptr h), W (of_nat (hai_size h))]) (\<lambda>_.
                bind_h (hainfo_set (sint index)
                  \<lparr>hai_idx = 0, hai_size = 0, hai_client_ptr = 0, hai_server_ptr = 0\<rparr>) (\<lambda>_.
                  ret_h (if err = cudaErrorHostMemoryNotRegistered then 0 else err))))
           else ret_h cudaErrorInitializationError)
          (\<lambda>err. bind_h (set_result i err) (\<lambda>_. ret_h (Reply [Int32 err])))))"

definition cuda_free_host_1_svc :: "'d env \<Rightarrow> u32 \<Rightarrow> socktype_t \<Rightarrow> u32 \<Rightarrow> ('d, reply) handler" where
  "cuda_free_host_1_svc E rq st index = recorded E rq 4 [(0, i32 index)] (free_host E st index)"

definition cuda_host_get_device_pointer_1_svc :: "'d env \<Rightarrow> u64 \<Rightarrow> u32 \<Rightarrow> ('d, reply) handler" where
  "cuda_host_get_device_pointer_1_svc E pHost flags = ret_h (Reply [Int32 cudaErrorUnknown])"

definition cuda_host_get_flags_1_svc :: "'d env \<Rightarrow> u64 \<Rightarrow> ('d, reply) handler" where
  "cuda_host_get_flags_1_svc E pHost = ret_h (Reply [Int32 cudaErrorUnknown])"

section \<open>Arrays and symbols\<close>

text \<open>
  The pointer for the flags is computed from the address of \<open>mem_data_val\<close> instead of its
  value: the flags land in the reply structure of the dispatcher, not in the block sent to
  the client, whose last four bytes stay uninitialised.
\<close>

definition cuda_array_get_info_1_svc :: "'d env \<Rightarrow> u64 \<Rightarrow> ('d, reply) handler" where
  "cuda_array_get_info_1_svc E array =
     (if \<not> heap_ok E 48 then (\<lambda>s. Inl Null_Deref)
      else query_call E ''cudaArrayGetInfo'' [Handle rm_arrays array]
        (\<lambda>outs. [Bytes (out_bytes E outs 0 20 @ out_bytes E outs 1 24 @ replicate 4 (fresh_byte E))]))"

definition cuda_array_get_sparse_properties_1_svc :: "'d env \<Rightarrow> u64 \<Rightarrow> ('d, reply) handler" where
  "cuda_array_get_sparse_properties_1_svc E array =
     (if \<not> heap_ok E 48 then (\<lambda>s. Inl Null_Deref)
      else query_call E ''cudaArrayGetSparseProperties'' [Handle rm_arrays array]
        (\<lambda>outs. [Bytes (out_bytes E outs 0 48)]))"

definition cuda_get_symbol_address_1_svc :: "'d env \<Rightarrow> u64 \<Rightarrow> ('d, reply) handler" where
  "cuda_get_symbol_address_1_svc E symbol =
     query_call E ''cudaGetSymbolAddress'' [W symbol] (\<lambda>outs. [Word64 (out64 E outs 0)])"

definition cuda_get_symbol_size_1_svc :: "'d env \<Rightarrow> u64 \<Rightarrow> ('d, reply) handler" where
  "cuda_get_symbol_size_1_svc E symbol =
     query_call E ''cudaGetSymbolSize'' [W symbol] (\<lambda>outs. [Word64 (out64 E outs 0)])"

section \<open>Allocation and release\<close>

definition cuda_free_1_svc :: "'d env \<Rightarrow> u32 \<Rightarrow> u64 \<Rightarrow> ('d, reply) handler" where
  "cuda_free_1_svc E rq devPtr =
     recorded E rq 8 [(0, i64 devPtr)] (\<lambda>i.
       bind_h (hainfo_getserverindex devPtr) (\<lambda>_. int_call E ''cudaFree'' [Handle rm_memory devPtr] i))"

definition cuda_free_array_1_svc :: "'d env \<Rightarrow> u32 \<Rightarrow> u64 \<Rightarrow> ('d, reply) handler" where
  "cuda_free_array_1_svc E rq devPtr =
     logged_call E rq 8 [(0, i64 devPtr)] ''cudaFreeArray'' [Handle rm_arrays devPtr]"

abbreviation in_memory :: "'d env \<Rightarrow> u64 \<Rightarrow> ('d, unit) handler" where
  "in_memory E \<equiv> create_in E rm_memory (\<lambda>m s. s\<lparr>rm_memory := m\<rparr>)"

abbreviation in_arrays :: "'d env \<Rightarrow> u64 \<Rightarrow> ('d, unit) handler" where
  "in_arrays E \<equiv> create_in E rm_arrays (\<lambda>m s. s\<lparr>rm_arrays := m\<rparr>)"

definition cuda_malloc_1_svc :: "'d env \<Rightarrow> u32 \<Rightarrow> u64 \<Rightarrow> ('d, reply) handler" where
  "cuda_malloc_1_svc E rq argp =
     recorded E rq 8 [(0, i64 argp)]
       (create_call E rm_memory (\<lambda>m s. s\<lparr>rm_memory := m\<rparr>) ''cudaMalloc'' [W argp])"

text \<open>The handlers below keep only the code in the record, not the pointer.\<close>

definition cuda_malloc_3d_1_svc :: "'d env \<Rightarrow> u32 \<Rightarrow> u64 \<Rightarrow> u64 \<Rightarrow> u64 \<Rightarrow> ('d, reply) handler" where
  "cuda_malloc_3d_1_svc E rq depth height width =
     recorded E rq 24 [(0, i64 depth), (8, i64 height), (16, i64 width)] (\<lambda>i.
       bind_h (lib_call E ''cudaMalloc3D'' [W depth, W height, W width]) (\<lambda>(err, outs).
         bind_h (in_memory E (out64 E outs 1)) (\<lambda>_.
         bind_h (set_result i err) (\<lambda>_.
           ret_h (Reply [Int32 err, Word64 (out64 E outs 0), Word64 (out64 E outs 1),
             Word64 (out64 E outs 2), Word64 (out64 E outs 3)])))))"

definition cuda_malloc_3d_array_1_svc ::
  "'d env \<Rightarrow> u32 \<Rightarrow> channel_format_desc \<Rightarrow> u64 \<Rightarrow> u64 \<Rightarrow> u64 \<Rightarrow> u32 \<Rightarrow> ('d, reply) handler" where
  "cuda_malloc_3d_array_1_svc E rq desc depth height width flags =
     recorded E rq 56 [(0, rpc_desc_bytes desc), (24, i64 depth), (32, i64 height), (40, i64 width),
         (48, i32 flags)] (\<lambda>i.
       bind_h (lib_call E ''cudaMalloc3DArray'' [Val (Bytes (desc_bytes desc)), W depth, W height, W width,
           I flags]) (\<lambda>(err, outs).
         bind_h (in_arrays E (out64 E outs 0)) (\<lambda>_.
         bind_h (set_result i err) (\<lambda>_. ret_h (Reply [Int32 err, Word64 (out64 E outs 0)])))))"

definition cuda_malloc_array_1_svc ::
  "'d env \<Rightarrow> u32 \<Rightarrow> channel_format_desc \<Rightarrow> u64 \<Rightarrow> u64 \<Rightarrow> u32 \<Rightarrow> ('d, reply) handler" where
  "cuda_malloc_array_1_svc E rq desc width height flags =
     recorded E rq 48 [(0, rpc_desc_bytes desc), (24, i64 width), (32, i64 height), (40, i32 flags)] (\<lambda>i.
       bind_h (lib_call E ''cudaMallocArray'' [Val (Bytes (desc_bytes desc)), W width, W height, I flags])
         (\<lambda>(err, outs).
         bind_h (in_arrays E (out64 E outs 0)) (\<lambda>_.
         bind_h (set_result i err) (\<lambda>_. ret_h (Reply [Int32 err, Word64 (out64 E outs 0)])))))"

definition cuda_malloc_pitch_1_svc :: "'d env \<Rightarrow> u32 \<Rightarrow> u64 \<Rightarrow> u64 \<Rightarrow> ('d, reply) handler" where
  "cuda_malloc_pitch_1_svc E rq width height =
     recorded E rq 16 [(0, i64 width), (8, i64 height)] (\<lambda>i.
       bind_h (lib_call E ''cudaMallocPitch'' [W width, W height]) (\<lambda>(err, outs).
         bind_h (in_memory E (out64 E outs 0)) (\<lambda>_.
         bind_h (set_result i err) (\<lambda>_.
           ret_h (Reply [Int32 err, Word64 (out64 E outs 0), Word64 (out64 E outs 1)])))))"

definition cuda_mem_advise_1_svc :: "'d env \<Rightarrow> u32 \<Rightarrow> u64 \<Rightarrow> u64 \<Rightarrow> u32 \<Rightarrow> u32 \<Rightarrow> ('d, reply) handler" where
  "cuda_mem_advise_1_svc E rq devPtr count advice device =
     logged_call E rq 24 [(0, i64 devPtr), (8, i64 count), (16, i32 advice), (20, i32 device)]
       ''cudaMemAdvise'' [Handle rm_memory devPtr, W count, I advice, I device]"

definition cuda_mem_get_info_1_svc :: "'d env \<Rightarrow> ('d, reply) handler" where
  "cuda_mem_get_info_1_svc E =
     query_call E ''cudaMemGetInfo'' [] (\<lambda>outs. [Word64 (out64 E outs 0), Word64 (out64 E outs 1)])"

text \<open>The stream is passed on without translation.\<close>

definition cuda_mem_prefetch_async_1_svc ::
  "'d env \<Rightarrow> u32 \<Rightarrow> u64 \<Rightarrow> u64 \<Rightarrow> u32 \<Rightarrow> u64 \<Rightarrow> ('d, reply) handler" where
  "cuda_mem_prefetch_async_1_svc E rq devPtr count dstDevice stream =
     logged_call E rq 32 [(0, i64 devPtr), (8, i64 count), (16, i32 dstDevice), (24, i64 stream)]
       ''cudaMemPrefetchAsync'' [Handle rm_memory devPtr, W count, I dstDevice, W stream]"

end
