(* ===== verification/RuntimeCopy.thy ===== *)
theory RuntimeCopy
  imports RuntimeMemory
begin

text \<open>
  The copy, memset and symbol handlers of \<open>cpu/cpu-server-runtime.c\<close>, with the counters of the
  replay (\<open>input_times\<close>, \<open>output_times\<close>, \<open>input_count\<close>, \<open>input_address\<close>) and the list of
  transfers with several threads. The C type \<open>int\<close> of the counters is taken as
  unbounded; theory \<open>Replay\<close> bounds them by the number of requests.
\<close>

section \<open>Copies between host and device\<close>

text \<open>
  In the first iteration (no output copied yet) the address of every input is remembered; later
  the remembered addresses are used in the same order. The index has no bound check.
\<close>

definition input_slot :: "u64 \<Rightarrow> ('d, u64) handler" where
  "input_slot p s =
     (let s = (if input_times s = output_times s then s\<lparr>input_times := input_times s + 1\<rparr> else s);
          k = input_count s
      in if k < 0 \<or> int (length (input_address s)) \<le> k then Inl Out_Of_Bounds
         else if output_times s = 0
         then Inr (p, s\<lparr>input_address := (input_address s)[nat k := p], input_count := k + 1\<rparr>)
         else Inr (input_address s ! nat k, s\<lparr>input_count := k + 1\<rparr>))"

text \<open>The argument structure holds the length of the data (at 8) and its address (at 16).\<close>

definition cuda_memcpy_htod_1_svc ::
  "'d env \<Rightarrow> u32 \<Rightarrow> u64 \<Rightarrow> mem_data \<Rightarrow> u64 \<Rightarrow> ('d, reply) handler" where
  "cuda_memcpy_htod_1_svc E rq p mem sz =
     bind_h (input_slot p) (\<lambda>p.
       recorded E rq 32 [(0, i64 p), (8, i32 (of_nat (length (mem_val mem)))), (16, i64 (mem_addr mem)),
           (24, i64 sz)] (\<lambda>i.
         if unat sz \<noteq> length (mem_val mem) then ret_h (Reply [Int32 cudaErrorUnknown])
         else int_call E ''cudaMemcpy'' [Handle rm_memory p, Val (Bytes (mem_val mem)), W sz, I 1] i))"

definition count_output :: "('d, unit) handler" where
  "count_output = modify_s (\<lambda>s. if input_times s \<noteq> output_times s
     then s\<lparr>output_times := output_times s + 1, input_count := 0\<rparr> else s)"

text \<open>The block for the data is not checked: without memory the library gets NULL.\<close>

definition cuda_memcpy_dtoh_1_svc :: "'d env \<Rightarrow> u64 \<Rightarrow> u64 \<Rightarrow> ('d, reply) handler" where
  "cuda_memcpy_dtoh_1_svc E p sz =
     bind_h count_output (\<lambda>_.
       bind_h (lib_call E ''cudaMemcpy''
           [W (if heap_ok E (unat sz) then fresh_word E else 0), Handle rm_memory p, W sz, I 2])
         (\<lambda>(err, outs).
           ret_h (if err \<noteq> 0 then Reply [Int32 err]
                  else Reply [Int32 err, Bytes (out_bytes E outs 0 (unat sz))])))"

definition cuda_memcpy_dtod_1_svc :: "'d env \<Rightarrow> u32 \<Rightarrow> u64 \<Rightarrow> u64 \<Rightarrow> u64 \<Rightarrow> ('d, reply) handler" where
  "cuda_memcpy_dtod_1_svc E rq dst src sz =
     logged_call E rq 24 [(0, i64 dst), (8, i64 src), (16, i64 sz)] ''cudaMemcpy''
       [Handle rm_memory dst, Handle rm_memory src, W sz, I 3]"

text \<open>Without InfiniBand the result stays unset and nothing is recorded.\<close>

definition cuda_memcpy_ib_1_svc :: "'d env \<Rightarrow> u32 \<Rightarrow> u64 \<Rightarrow> u64 \<Rightarrow> u32 \<Rightarrow> ('d, reply) handler" where
  "cuda_memcpy_ib_1_svc E index device_ptr sz kind = ret_h (Reply [Int32 (of_int (fresh_int E))])"

text \<open>
  The check compares the \<open>int\<close> index with a \<open>size_t\<close>, so a negative index fails it; the error
  message then reads \<open>hainfo[index]\<close> all the same.
\<close>

definition cuda_memcpy_shm_1_svc ::
  "'d env \<Rightarrow> u32 \<Rightarrow> u32 \<Rightarrow> u64 \<Rightarrow> u64 \<Rightarrow> u32 \<Rightarrow> ('d, reply) handler" where
  "cuda_memcpy_shm_1_svc E rq index device_ptr sz kind =
     recorded E rq 32 [(0, i32 index), (8, i64 device_ptr), (16, i64 sz), (24, i32 kind)] (\<lambda>i.
       bind_h (get_s hainfo_cnt) (\<lambda>cnt.
       bind_h (hainfo_at (sint index)) (\<lambda>h.
       bind_h
         (if sint index < 0 \<or> int cnt \<le> sint index \<or> int (hai_idx h) \<noteq> sint index
          then ret_h cudaErrorInitializationError
          else if hai_size h < unat sz then ret_h cudaErrorInitializationError
          else if kind = 1
          then bind_h (lib_call E ''cudaMemcpy'' [Handle rm_memory device_ptr, W (hai_server_ptr h), W sz, I kind])
                 (\<lambda>(err, _). ret_h err)
          else if kind = 2
          then bind_h (lib_call E ''cudaMemcpy'' [W (hai_server_ptr h), Handle rm_memory device_ptr, W sz, I kind])
                 (\<lambda>(err, _). ret_h err)
          else ret_h cudaErrorInitializationError)
         (\<lambda>err. bind_h (set_result i err) (\<lambda>_. ret_h (Reply [Int32 err]))))))"

section \<open>Symbols\<close>

definition cuda_memcpy_to_symbol_1_svc ::
  "'d env \<Rightarrow> u32 \<Rightarrow> u64 \<Rightarrow> mem_data \<Rightarrow> u64 \<Rightarrow> u64 \<Rightarrow> ('d, reply) handler" where
  "cuda_memcpy_to_symbol_1_svc E rq symbolptr mem sz offset =
     bind_h (handle rm_globals symbolptr) (\<lambda>symbol_addr.
       if symbol_addr = 0 then ret_h (Reply [Int32 cudaErrorInvalidSymbol])
       else cuda_memcpy_htod_1_svc E rq (symbol_addr + offset) mem sz)"

definition cuda_memcpy_to_symbol_shm_1_svc ::
  "'d env \<Rightarrow> u32 \<Rightarrow> u32 \<Rightarrow> u64 \<Rightarrow> u64 \<Rightarrow> u64 \<Rightarrow> u32 \<Rightarrow> ('d, reply) handler" where
  "cuda_memcpy_to_symbol_shm_1_svc E rq index device_ptr sz offset kind =
     bind_h (handle rm_globals device_ptr) (\<lambda>symbol_addr.
       if symbol_addr = 0 then ret_h (Reply [Int32 cudaErrorInvalidSymbol])
       else cuda_memcpy_shm_1_svc E rq index (symbol_addr + offset) sz kind)"

section \<open>Transfers with several threads\<close>

text \<open>
  \<open>mt_memcpy_init_server\<close>: the thread and barrier calls are library calls; the listener thread
  has stored the port when the barrier releases the caller. A barrier code other than 0 and
  \<open>PTHREAD_BARRIER_SERIAL_THREAD\<close> (-1) is a failure.
\<close>

definition mt_memcpy_init_server ::
  "'d env \<Rightarrow> u64 \<Rightarrow> u64 \<Rightarrow> mt_memcpy_direction \<Rightarrow> u32 \<Rightarrow> ('d, int \<times> mt_memcpy_server) handler" where
  "mt_memcpy_init_server E dev sz dir threads =
     (let server = \<lparr>mt_dev_ptr = dev, mt_mem_size = unat sz, mt_thread_num = sint threads, mt_port = 0,
                    mt_dir = dir\<rparr> in
      bind_h (lib_call E ''pthread_barrier_init'' []) (\<lambda>(err, _).
      if err \<noteq> 0 then ret_h (1, server)
      else bind_h (lib_call E ''pthread_create'' []) (\<lambda>(err, _).
      if err \<noteq> 0 then ret_h (1, server)
      else if \<not> heap_ok E (unat sz) then ret_h (1, server)
      else bind_h (lib_call E ''pthread_barrier_wait'' []) (\<lambda>(err, outs).
      if err \<noteq> 0 \<and> err \<noteq> - 1 then ret_h (1, server)
      else ret_h (0, server\<lparr>mt_port := ucast (out64 E outs 0)\<rparr>)))))"

definition mt_memcpy_sync_server :: "'d env \<Rightarrow> mt_memcpy_server \<Rightarrow> ('d, u32) handler" where
  "mt_memcpy_sync_server E server =
     bind_h (lib_call E ''pthread_join'' []) (\<lambda>(err, outs).
       ret_h (if err \<noteq> 0 then 1 else ucast (out64 E outs 0)))"

text \<open>A call on the list of transfers; the two handlers that start one are the same but for the direction.\<close>

definition on_mt :: "(mt_memcpy_server clist \<Rightarrow> ('a \<times> mt_memcpy_server clist) res) \<Rightarrow> ('d, 'a) handler" where
  "on_mt f s = bind_r (f (mt_memcpy_list s)) (\<lambda>(x, l). Inr (x, s\<lparr>mt_memcpy_list := l\<rparr>))"

definition mt_start ::
  "'d env \<Rightarrow> u32 \<Rightarrow> mt_memcpy_direction \<Rightarrow> u64 \<Rightarrow> u64 \<Rightarrow> u32 \<Rightarrow> ('d, reply) handler" where
  "mt_start E rq dir dev sz threads =
     recorded E rq 24 [(0, i64 dev), (8, i64 sz), (16, i32 threads)] (\<lambda>i.
       bind_h (on_mt (\<lambda>l. bind_r (list_append (heap_ok E) l True) (\<lambda>(rc, l, p). Inr (p, l)))) (\<lambda>p.
         case p of None \<Rightarrow> ret_h (Reply [Int32 cudaErrorUnknown])
         | Some k \<Rightarrow>
             bind_h (mt_memcpy_init_server E dev sz dir threads) (\<lambda>(rc, server).
             bind_h (on_mt (\<lambda>l. bind_r (set_elem l k server) (\<lambda>l. Inr ((), l)))) (\<lambda>_.
               if rc \<noteq> 0 then ret_h (Reply [Int32 cudaErrorUnknown])
               else bind_h (get_s (\<lambda>s. len (mt_memcpy_list s))) (\<lambda>n.
                 bind_h (set_result i 0) (\<lambda>_.
                   ret_h (Reply [Int32 0, Int32 (ucast (mt_port server)), Int32 (of_nat (n - 1))])))))))"

definition cuda_memcpy_mt_htod_1_svc :: "'d env \<Rightarrow> u32 \<Rightarrow> u64 \<Rightarrow> u64 \<Rightarrow> u32 \<Rightarrow> ('d, reply) handler" where
  "cuda_memcpy_mt_htod_1_svc E rq dest sz threads = mt_start E rq MT_MEMCPY_HTOD dest sz threads"

definition cuda_memcpy_mt_dtoh_1_svc :: "'d env \<Rightarrow> u32 \<Rightarrow> u64 \<Rightarrow> u64 \<Rightarrow> u32 \<Rightarrow> ('d, reply) handler" where
  "cuda_memcpy_mt_dtoh_1_svc E rq src sz threads = mt_start E rq MT_MEMCPY_DTOH src sz threads"

text \<open>
  The loop that drops finished transfers from the end calls \<open>list_rm\<close> with the length instead
  of the last index.
\<close>

fun mt_drop_loop :: "nat \<Rightarrow> mt_memcpy_server clist \<Rightarrow> mt_memcpy_server clist res" where
  "mt_drop_loop 0 l = Inl No_Fuel"
| "mt_drop_loop (Suc n) l =
     (if 0 < len l
      then bind_r (elem_at l (len l - 1)) (\<lambda>server.
             if mt_dev_ptr server = 0 then bind_r (list_rm l (len l)) (\<lambda>(_, l). mt_drop_loop n l)
             else Inr l)
      else Inr l)"

definition mt_wait :: "'d env \<Rightarrow> nat \<Rightarrow> nat \<Rightarrow> nat \<Rightarrow> ('d, reply) handler" where
  "mt_wait E fuel k i =
     bind_h (get_s (\<lambda>s. list_at (mt_memcpy_list s) k)) (\<lambda>(_, p).
       case p of None \<Rightarrow> ret_h (Reply [Int32 cudaErrorUnknown])
       | Some k \<Rightarrow>
           bind_h (on_mt (\<lambda>l. bind_r (elem_at l k) (\<lambda>server. Inr (server, l)))) (\<lambda>server.
           bind_h (mt_memcpy_sync_server E server) (\<lambda>res.
           bind_h (on_mt (\<lambda>l. if k = len l - 1
              then bind_r (list_rm l k) (\<lambda>(_, l). bind_r (mt_drop_loop fuel l) (\<lambda>l. Inr ((), l)))
              else Inr ((), l))) (\<lambda>_.
           bind_h (set_result i res) (\<lambda>_. ret_h (Reply [Int32 res]))))))"

text \<open>The index is an \<open>int\<close> that \<open>list_at\<close> takes as a \<open>size_t\<close>.\<close>

definition cuda_memcpy_mt_sync_1_svc :: "'d env \<Rightarrow> u32 \<Rightarrow> nat \<Rightarrow> u32 \<Rightarrow> ('d, reply) handler" where
  "cuda_memcpy_mt_sync_1_svc E rq fuel tid =
     recorded_void E rq (mt_wait E fuel (unat (scast tid :: u64)))"

section \<open>Memset\<close>

definition cuda_memset_1_svc :: "'d env \<Rightarrow> u32 \<Rightarrow> u64 \<Rightarrow> u32 \<Rightarrow> u64 \<Rightarrow> ('d, reply) handler" where
  "cuda_memset_1_svc E rq devPtr v count =
     logged_call E rq 24 [(0, i64 devPtr), (8, i32 v), (16, i64 count)] ''cudaMemset''
       [Handle rm_memory devPtr, I v, W count]"

text \<open>The record has the height at the place of the width and the other way round.\<close>

definition cuda_memset_2d_1_svc ::
  "'d env \<Rightarrow> u32 \<Rightarrow> u64 \<Rightarrow> u64 \<Rightarrow> u32 \<Rightarrow> u64 \<Rightarrow> u64 \<Rightarrow> ('d, reply) handler" where
  "cuda_memset_2d_1_svc E rq devPtr pitch v width height =
     logged_call E rq 40 [(0, i64 devPtr), (8, i64 pitch), (16, i32 v), (24, i64 height), (32, i64 width)]
       ''cudaMemset2D'' [Handle rm_memory devPtr, W pitch, I v, W width, W height]"

definition cuda_memset_2d_async_1_svc ::
  "'d env \<Rightarrow> u32 \<Rightarrow> u64 \<Rightarrow> u64 \<Rightarrow> u32 \<Rightarrow> u64 \<Rightarrow> u64 \<Rightarrow> u64 \<Rightarrow> ('d, reply) handler" where
  "cuda_memset_2d_async_1_svc E rq devPtr pitch v width height stream =
     logged_call E rq 48 [(0, i64 devPtr), (8, i64 pitch), (16, i32 v), (24, i64 height), (32, i64 width),
         (40, i64 stream)]
       ''cudaMemset2DAsync''
       [Handle rm_memory devPtr, W pitch, I v, W width, W height, Handle rm_streams stream]"

definition cuda_memset_3d_1_svc ::
  "'d env \<Rightarrow> u32 \<Rightarrow> u64 \<Rightarrow> u64 \<Rightarrow> u64 \<Rightarrow> u64 \<Rightarrow> u32 \<Rightarrow> u64 \<Rightarrow> u64 \<Rightarrow> u64 \<Rightarrow> ('d, reply) handler" where
  "cuda_memset_3d_1_svc E rq pitch devPtr xsize ysize v depth height width =
     logged_call E rq 64 [(0, i64 pitch), (8, i64 devPtr), (16, i64 xsize), (24, i64 ysize), (32, i32 v),
         (40, i64 depth), (48, i64 height), (56, i64 width)]
       ''cudaMemset3D''
       [W pitch, Handle rm_memory devPtr, W xsize, W ysize, I v, W depth, W height, W width]"

definition cuda_memset_3d_async_1_svc ::
  "'d env \<Rightarrow> u32 \<Rightarrow> u64 \<Rightarrow> u64 \<Rightarrow> u64 \<Rightarrow> u64 \<Rightarrow> u32 \<Rightarrow> u64 \<Rightarrow> u64 \<Rightarrow> u64 \<Rightarrow> u64 \<Rightarrow> ('d, reply) handler" where
  "cuda_memset_3d_async_1_svc E rq pitch devPtr xsize ysize v depth height width stream =
     logged_call E rq 72 [(0, i64 pitch), (8, i64 devPtr), (16, i64 xsize), (24, i64 ysize), (32, i32 v),
         (40, i64 depth), (48, i64 height), (56, i64 width), (64, i64 stream)]
       ''cudaMemset3DAsync''
       [W pitch, Handle rm_memory devPtr, W xsize, W ysize, I v, W depth, W height, W width,
        Handle rm_streams stream]"

text \<open>Count and stream are both recorded as the third argument; the fourth is never written.\<close>

definition cuda_memset_async_1_svc ::
  "'d env \<Rightarrow> u32 \<Rightarrow> u64 \<Rightarrow> u32 \<Rightarrow> u64 \<Rightarrow> u64 \<Rightarrow> ('d, reply) handler" where
  "cuda_memset_async_1_svc E rq devPtr v count stream =
     logged_call E rq 32 [(0, i64 devPtr), (8, i32 v), (16, i64 count), (16, i64 stream)]
       ''cudaMemsetAsync'' [Handle rm_memory devPtr, I v, W count, Handle rm_streams stream]"

end
