(* ===== verification/KernelInfo.thy ===== *)
theory KernelInfo
  imports CrFile
begin

text \<open>
  What the client learns about the kernels of a binary: the attribute sections of a CUDA ELF
  image (\<open>get_parm_for_kernel\<close>, \<open>elf2_parameter_info\<close> of \<open>cpu/cpu-elf2.c\<close>) and the table of
  kernels they fill (\<open>kernel_info\<close>, \<open>utils_search_info\<close> of \<open>cpu/cpu-utils.c\<close>).
\<close>

section \<open>Data\<close>

text \<open>
  \<open>param_offsets\<close> and \<open>param_sizes\<close> are blocks of 16-bit numbers; \<open>None\<close> inside a block is an
  entry \<open>realloc\<close> has added and nobody has written, \<open>[]\<close> is NULL. \<open>host_fun\<close> is \<open>None\<close> until the
  application registers the function.
\<close>

record kernel_info =
  k_name :: string
  param_size :: nat
  param_num :: nat
  param_offsets :: "nat option list"
  param_sizes :: "nat option list"
  host_fun :: "u64 option"

text \<open>
  The image as libelf presents it: whether it opens and passes \<open>check_elf\<close>, the sections with
  their names (\<open>None\<close> if \<open>elf_strptr\<close> fails) and data, and the names of the symbols.
\<close>

record elf_section =
  sec_name :: "string option"
  sec_data :: "u8 list option"

record elf_image =
  elf_opens :: bool
  elf_sections :: "elf_section list"
  elf_symtab :: "string option list option"

definition EIATTR_FRAME_SIZE :: nat where "EIATTR_FRAME_SIZE = 0x11"
definition EIATTR_KPARAM_INFO :: nat where "EIATTR_KPARAM_INFO = 0x17"
definition EIATTR_CBANK_PARAM_SIZE :: nat where "EIATTR_CBANK_PARAM_SIZE = 0x19"
definition EIFMT_NVAL :: nat where "EIFMT_NVAL = 1"
definition EIFMT_HVAL :: nat where "EIFMT_HVAL = 3"
definition EIFMT_SVAL :: nat where "EIFMT_SVAL = 4"

section \<open>Sections\<close>

fun get_section_by_name :: "elf_section list \<Rightarrow> string \<Rightarrow> elf_section option" where
  "get_section_by_name [] name = None"
| "get_section_by_name (s # ss) name =
     (case sec_name s of None \<Rightarrow> None
      | Some n \<Rightarrow> if n = name then Some s else get_section_by_name ss name)"

text \<open>\<open>strchr\<close> from the start of a string, as the prefix before the character.\<close>

definition get_kernel_section_from_kernel_name :: "'d env \<Rightarrow> string \<Rightarrow> string option" where
  "get_kernel_section_from_kernel_name E name =
     (case name of
        CHR ''$'' # rest \<Rightarrow>
          (if CHR ''$'' \<notin> set rest then None
           else asprintf E (''.nv.info.'' @ takeWhile (\<lambda>c. c \<noteq> CHR ''$'') rest))
      | _ \<Rightarrow> asprintf E (''.nv.info.'' @ name))"

section \<open>The attributes of one kernel\<close>

definition rd :: "u8 list \<Rightarrow> nat \<Rightarrow> nat \<Rightarrow> nat res" where
  "rd m i n = (if i + n \<le> length m then Inr (le_val (blk i n m)) else Inl Out_Of_Bounds)"

text \<open>
  One \<open>EIATTR_KPARAM_INFO\<close> entry: the two arrays grow to the new ordinal, then the entry is
  stored. \<open>realloc\<close> keeps the old contents and leaves the new cells uninitialised.
\<close>

definition grow :: "nat \<Rightarrow> nat option list \<Rightarrow> nat option list" where
  "grow n xs = xs @ replicate (n - length xs) None"

definition store_param :: "'d env \<Rightarrow> nat \<Rightarrow> nat \<Rightarrow> nat \<Rightarrow> kernel_info \<Rightarrow> kernel_info res" where
  "store_param E ordinal offset sz k =
     (let k' = (if ordinal \<ge> param_num k
                then (if heap_ok E ((ordinal + 1) * 2)
                      then k\<lparr>param_offsets := grow (ordinal + 1) (param_offsets k),
                             param_sizes := grow (ordinal + 1) (param_sizes k), param_num := ordinal + 1\<rparr>
                      else k\<lparr>param_offsets := [], param_sizes := [], param_num := ordinal + 1\<rparr>)
                else k)
      in if ordinal < length (param_offsets k') \<and> ordinal < length (param_sizes k')
         then Inr (k'\<lparr>param_offsets := (param_offsets k')[ordinal := Some offset],
                      param_sizes := (param_sizes k')[ordinal := Some sz]\<rparr>)
         else Inl Null_Deref)"

function parm_loop :: "'d env \<Rightarrow> u8 list \<Rightarrow> nat \<Rightarrow> kernel_info \<Rightarrow> (int \<times> kernel_info) res" where
  "parm_loop E m secpos k =
     (if secpos < length m
      then bind_r (rd m secpos 1) (\<lambda>format.
        bind_r (if format \<in> {EIFMT_SVAL, EIFMT_HVAL} then rd m (secpos + 1) 1 else Inr 0) (\<lambda>attribute.
        bind_r (if format \<in> {EIFMT_SVAL, EIFMT_HVAL} then rd m (secpos + 2) 2 else Inr 0) (\<lambda>values_size.
          if format = EIFMT_SVAL \<and> attribute = EIATTR_KPARAM_INFO
          then (if values_size \<noteq> 0xc then Inr (- 1, k)
                else bind_r (rd m (secpos + 8) 2) (\<lambda>ordinal. bind_r (rd m (secpos + 10) 2) (\<lambda>offset.
                     bind_r (rd m (secpos + 12) 4) (\<lambda>bits.
                     bind_r (store_param E ordinal offset (bits div 2 ^ 18) k) (\<lambda>k.
                       parm_loop E m (secpos + 8 + values_size - 4) k)))))
          else if format = EIFMT_HVAL \<and> attribute = EIATTR_CBANK_PARAM_SIZE
          then parm_loop E m (secpos + 8 - 4) (k\<lparr>param_size := values_size\<rparr>)
          else if format = EIFMT_HVAL then parm_loop E m (secpos + 8 - 4) k
          else if format = EIFMT_SVAL then parm_loop E m (secpos + 8 + values_size - 4) k
          else parm_loop E m (secpos + 8 - 4) k)))
      else Inr (0, k))"
  by pat_completeness auto
termination by (relation "measure (\<lambda>(E, m, secpos, k). length m - secpos)") auto

declare parm_loop.simps [simp del]

definition get_parm_for_kernel :: "'d env \<Rightarrow> elf_image \<Rightarrow> kernel_info \<Rightarrow> (int \<times> kernel_info) res" where
  "get_parm_for_kernel E elf k =
     (let k = k\<lparr>param_num := 0, param_size := 0, param_offsets := [], param_sizes := []\<rparr> in
      case get_kernel_section_from_kernel_name E (k_name k) of
        None \<Rightarrow> Inr (- 1, k)
      | Some sname \<Rightarrow>
          (case get_section_by_name (elf_sections elf) sname of
             None \<Rightarrow> Inr (- 1, k)
           | Some sec \<Rightarrow>
               (case sec_data sec of None \<Rightarrow> Inr (- 1, k) | Some m \<Rightarrow> parm_loop E m 0 k)))"

section \<open>The table of kernels\<close>

fun search_info_loop :: "kernel_info clist \<Rightarrow> string \<Rightarrow> nat \<Rightarrow> nat \<Rightarrow> nat option res" where
  "search_info_loop l name i 0 = Inr None"
| "search_info_loop l name i (Suc n) =
     bind_r (elem_at l i) (\<lambda>k. if name = k_name k then Inr (Some i) else search_info_loop l name (i + 1) n)"

definition utils_search_info :: "kernel_info clist \<Rightarrow> string \<Rightarrow> nat option res" where
  "utils_search_info l name = search_info_loop l name 0 (len l)"

text \<open>
  The loop over the \<open>.nv.info\<close> section in steps of 12 bytes. A new kernel is appended, named,
  and its parameters are read; a failure leaves the loop with the entry in place.
\<close>

function info_loop ::
  "'d env \<Rightarrow> elf_image \<Rightarrow> string option list \<Rightarrow> u8 list \<Rightarrow> nat \<Rightarrow> kernel_info clist \<Rightarrow>
   (int \<times> kernel_info clist) res" where
  "info_loop E elf syms m secpos l =
     (if secpos < length m
      then bind_r (rd m (secpos + 2) 2) (\<lambda>values_size.
        if values_size \<noteq> 8 then info_loop E elf syms m (secpos + 12) l
        else bind_r (rd m (secpos + 1) 1) (\<lambda>attribute.
          if attribute \<noteq> EIATTR_FRAME_SIZE then info_loop E elf syms m (secpos + 12) l
          else bind_r (rd m (secpos + 4) 4) (\<lambda>kernel_id.
            if kernel_id \<ge> length syms then info_loop E elf syms m (secpos + 12) l
            else case syms ! kernel_id of
              None \<Rightarrow> info_loop E elf syms m (secpos + 12) l
            | Some kernel_str \<Rightarrow>
                bind_r (utils_search_info l kernel_str) (\<lambda>found.
                  if found \<noteq> None then info_loop E elf syms m (secpos + 12) l
                  else bind_r (list_append (heap_ok E) l True) (\<lambda>(rc, l, p).
                    case p of
                      None \<Rightarrow> Inr (- 1, l)
                    | Some i \<Rightarrow>
                        (if \<not> heap_ok E (length kernel_str + 1) then Inr (- 1, l)
                         else bind_r (get_parm_for_kernel E elf
                                \<lparr>k_name = kernel_str, param_size = 0, param_num = 0,
                                 param_offsets = [], param_sizes = [], host_fun = None\<rparr>) (\<lambda>(rc, k).
                           bind_r (set_elem l i k) (\<lambda>l.
                             if rc \<noteq> 0 then Inr (- 1, l)
                             else info_loop E elf syms m (secpos + 12) l))))))))
      else Inr (0, l))"
  by pat_completeness auto
termination by (relation "measure (\<lambda>(E, elf, syms, m, secpos, l). length m - secpos)") auto

declare info_loop.simps [simp del]

text \<open>
  The function first writes a debugging copy of the image to \<open>/tmp/RRTO-elf-dump\<close> without
  checking that the file opened: \<open>dump_opens\<close> says whether it did.
\<close>

definition elf2_parameter_info ::
  "'d env \<Rightarrow> bool \<Rightarrow> (u8 list \<Rightarrow> elf_image) \<Rightarrow> kernel_info clist \<Rightarrow> u8 list \<Rightarrow> (int \<times> kernel_info clist) res" where
  "elf2_parameter_info E dump_opens elf_memory l memory =
     (if memory = [] then Inr (- 1, l)
      else if \<not> dump_opens then Inl Null_Deref
      else let elf = elf_memory memory in
        if \<not> elf_opens elf then Inr (- 1, l)
        else case elf_symtab elf of
          None \<Rightarrow> Inr (- 1, l)
        | Some syms \<Rightarrow>
            (case get_section_by_name (elf_sections elf) ''.nv.info'' of
               None \<Rightarrow> Inr (0, l)
             | Some sec \<Rightarrow>
                 (case sec_data sec of None \<Rightarrow> Inr (- 1, l) | Some m \<Rightarrow> info_loop E elf syms m 0 l)))"

section \<open>The attribute format\<close>

datatype nv_entry =
    KParam nat nat nat nat nat
  | Cbank_Size nat
  | Hval nat nat
  | Sval nat "u8 list"
  | Nval nat nat

text \<open>\<open>KParam index ordinal offset low size\<close>: \<open>low\<close> are the 18 bits below the size.\<close>

fun entry_ok :: "nv_entry \<Rightarrow> bool" where
  "entry_ok (KParam ix ord off low sz) \<longleftrightarrow>
     ix < 2 ^ 32 \<and> ord < 65536 \<and> off < 65536 \<and> low < 2 ^ 18 \<and> sz < 2 ^ 14"
| "entry_ok (Cbank_Size v) \<longleftrightarrow> v < 65536"
| "entry_ok (Hval a v) \<longleftrightarrow> a < 256 \<and> a \<noteq> EIATTR_CBANK_PARAM_SIZE \<and> v < 65536"
| "entry_ok (Sval a bs) \<longleftrightarrow> a < 256 \<and> a \<noteq> EIATTR_KPARAM_INFO \<and> length bs < 65536"
| "entry_ok (Nval a v) \<longleftrightarrow> a < 256 \<and> v < 65536"

fun entry_bytes :: "nv_entry \<Rightarrow> u8 list" where
  "entry_bytes (KParam ix ord off low sz) =
     le_bytes 1 EIFMT_SVAL @ le_bytes 1 EIATTR_KPARAM_INFO @ le_bytes 2 12 @
     le_bytes 4 ix @ le_bytes 2 ord @ le_bytes 2 off @ le_bytes 4 (low + sz * 2 ^ 18)"
| "entry_bytes (Cbank_Size v) = le_bytes 1 EIFMT_HVAL @ le_bytes 1 EIATTR_CBANK_PARAM_SIZE @ le_bytes 2 v"
| "entry_bytes (Hval a v) = le_bytes 1 EIFMT_HVAL @ le_bytes 1 a @ le_bytes 2 v"
| "entry_bytes (Sval a bs) = le_bytes 1 EIFMT_SVAL @ le_bytes 1 a @ le_bytes 2 (length bs) @ bs"
| "entry_bytes (Nval a v) = le_bytes 1 EIFMT_NVAL @ le_bytes 1 a @ le_bytes 2 v"

definition set_param :: "nat \<Rightarrow> nat \<Rightarrow> nat \<Rightarrow> kernel_info \<Rightarrow> kernel_info" where
  "set_param ord off sz k =
     k\<lparr>param_num := max (param_num k) (ord + 1),
       param_offsets := (grow (ord + 1) (param_offsets k))[ord := Some off],
       param_sizes := (grow (ord + 1) (param_sizes k))[ord := Some sz]\<rparr>"

fun apply_entry :: "nv_entry \<Rightarrow> kernel_info \<Rightarrow> kernel_info" where
  "apply_entry (KParam ix ord off low sz) k = set_param ord off sz k"
| "apply_entry (Cbank_Size v) k = k\<lparr>param_size := v\<rparr>"
| "apply_entry (Hval a v) k = k"
| "apply_entry (Sval a bs) k = k"
| "apply_entry (Nval a v) k = k"

definition arrays_ok :: "kernel_info \<Rightarrow> bool" where
  "arrays_ok k \<longleftrightarrow> length (param_offsets k) = param_num k \<and> length (param_sizes k) = param_num k"

definition heap_params :: "'d env \<Rightarrow> bool" where
  "heap_params E \<longleftrightarrow> (\<forall>n \<le> 131072. heap_ok E n)"

lemma length_grow [simp]: "length (grow n xs) = max n (length xs)"
  by (simp add: grow_def)

lemma store_param_ok:
  assumes "arrays_ok k" and "heap_params E" and "ord < 65536"
  shows "store_param E ord off sz k = Inr (set_param ord off sz k)"
proof -
  have "heap_ok E ((ord + 1) * 2)" using assms(2,3) by (simp add: heap_params_def)
  with assms show ?thesis
    by (auto simp: store_param_def set_param_def arrays_ok_def Let_def grow_def max_def)
qed

lemma set_param_ok: "arrays_ok k \<Longrightarrow> arrays_ok (set_param ord off sz k)"
  by (simp add: arrays_ok_def set_param_def max.commute)

lemma apply_entry_ok: "arrays_ok k \<Longrightarrow> arrays_ok (apply_entry e k)"
  by (cases e) (simp_all add: set_param_ok, simp_all add: arrays_ok_def)

lemma rd_field:
  assumes "drop i m = pre @ le_bytes n v @ rest" and "0 < n" and "v < 256 ^ n"
  shows "rd m (i + length pre) n = Inr v"
proof -
  have len: "length m - i = length pre + (n + length rest)"
    using arg_cong [OF assms(1), of length] by simp
  with assms(2) have "i + length pre + n \<le> length m" by linarith
  moreover have "drop (i + length pre) m = drop (length pre) (drop i m)"
    by (simp add: add.commute)
  then have "blk (i + length pre) n m = le_bytes n v"
    by (simp only: assms(1) blk_def) simp
  ultimately show ?thesis using assms(3) by (simp add: rd_def le_val_le_bytes)
qed

text \<open>One entry of the section is one step of the loop.\<close>

lemma parm_loop_head:
  assumes "drop i m = le_bytes 1 f @ le_bytes 1 a @ le_bytes 2 v @ rest"
    and "f < 256" and "a < 256" and "v < 65536"
  shows "i < length m" and "rd m i 1 = Inr f" and "rd m (i + 1) 1 = Inr a" and "rd m (i + 2) 2 = Inr v"
proof -
  show "i < length m" using arg_cong [OF assms(1), of length] by (cases "i < length m") auto
  show "rd m i 1 = Inr f" using rd_field [of i m "[]" 1 f] assms by simp
  show "rd m (i + 1) 1 = Inr a" using rd_field [of i m "le_bytes 1 f" 1 a] assms by simp
  show "rd m (i + 2) 2 = Inr v" using rd_field [of i m "le_bytes 1 f @ le_bytes 1 a" 2 v] assms by simp
qed

lemmas fmt_defs = EIFMT_SVAL_def EIFMT_HVAL_def EIFMT_NVAL_def EIATTR_KPARAM_INFO_def
  EIATTR_CBANK_PARAM_SIZE_def EIATTR_FRAME_SIZE_def

lemma parm_loop_step:
  assumes d: "drop i m = entry_bytes e @ rest" and ok: "entry_ok e" and k: "arrays_ok k"
    and heap: "heap_params E"
  shows "parm_loop E m i k = parm_loop E m (i + length (entry_bytes e)) (apply_entry e k)"
proof (cases e)
  case (KParam ix ord off low sz)
  let ?h = "le_bytes 1 EIFMT_SVAL @ le_bytes 1 EIATTR_KPARAM_INFO @ le_bytes 2 12"
  let ?w = "low + sz * 2 ^ 18"
  have d': "drop i m = ?h @ le_bytes 4 ix @ le_bytes 2 ord @ le_bytes 2 off @ le_bytes 4 ?w @ rest"
    using d KParam by simp
  have lt: "ord < 65536" "off < 65536" "low < 2 ^ 18" "sz < 2 ^ 14" using ok KParam by simp_all
  have w: "?w < 256 ^ 4" "?w div 2 ^ 18 = sz" using lt by simp_all
  have hd: "i < length m" "rd m i 1 = Inr EIFMT_SVAL" "rd m (i + 1) 1 = Inr EIATTR_KPARAM_INFO"
      "rd m (i + 2) 2 = Inr 12"
    using parm_loop_head [of i m EIFMT_SVAL EIATTR_KPARAM_INFO 12] d' by (simp_all add: fmt_defs)
  have r: "rd m (i + 8) 2 = Inr ord" "rd m (i + 10) 2 = Inr off" "rd m (i + 12) 4 = Inr ?w"
    using rd_field [of i m "?h @ le_bytes 4 ix" 2 ord] d' lt
      rd_field [of i m "?h @ le_bytes 4 ix @ le_bytes 2 ord" 2 off]
      rd_field [of i m "?h @ le_bytes 4 ix @ le_bytes 2 ord @ le_bytes 2 off" 4 ?w] w by simp_all
  show ?thesis
    unfolding KParam apply_entry.simps using hd r w store_param_ok [OF k heap, of ord off sz] lt(1)
    by (subst parm_loop.simps) (simp add: add.commute)
next
  case (Cbank_Size v)
  then have "v < 65536" using ok by simp
  then have h: "i < length m" "rd m i 1 = Inr EIFMT_HVAL" "rd m (i + 1) 1 = Inr EIATTR_CBANK_PARAM_SIZE"
      "rd m (i + 2) 2 = Inr v"
    using Cbank_Size parm_loop_head [of i m EIFMT_HVAL EIATTR_CBANK_PARAM_SIZE v] d
    by (simp_all add: fmt_defs)
  have "length (entry_bytes e) = 8 - 4" using Cbank_Size by simp
  then show ?thesis
    unfolding Cbank_Size apply_entry.simps using h
    by (subst parm_loop.simps) (simp add: fmt_defs add.commute del: entry_bytes.simps)
next
  case (Hval a v)
  then have h: "i < length m" "rd m i 1 = Inr EIFMT_HVAL" "rd m (i + 1) 1 = Inr a" "rd m (i + 2) 2 = Inr v"
    using parm_loop_head [of i m EIFMT_HVAL a v] d ok by (simp_all add: fmt_defs)
  have "length (entry_bytes e) = 8 - 4" and "a \<noteq> EIATTR_CBANK_PARAM_SIZE" using Hval ok by simp_all
  then show ?thesis
    unfolding Hval apply_entry.simps using h
    by (subst parm_loop.simps) (simp add: fmt_defs add.commute del: entry_bytes.simps)
next
  case (Sval a bs)
  then have h: "i < length m" "rd m i 1 = Inr EIFMT_SVAL" "rd m (i + 1) 1 = Inr a"
      "rd m (i + 2) 2 = Inr (length bs)"
    using parm_loop_head [of i m EIFMT_SVAL a "length bs"] d ok by (simp_all add: fmt_defs)
  have "length (entry_bytes e) = 8 + length bs - 4" and "a \<noteq> EIATTR_KPARAM_INFO" using Sval ok by simp_all
  then show ?thesis
    unfolding Sval apply_entry.simps using h
    by (subst parm_loop.simps) (simp add: fmt_defs ac_simps del: entry_bytes.simps)
next
  case (Nval a v)
  then have h: "i < length m" "rd m i 1 = Inr EIFMT_NVAL" "rd m (i + 1) 1 = Inr a" "rd m (i + 2) 2 = Inr v"
    using parm_loop_head [of i m EIFMT_NVAL a v] d ok by (simp_all add: fmt_defs)
  have "length (entry_bytes e) = 8 - 4" using Nval by simp
  then show ?thesis
    unfolding Nval apply_entry.simps using h
    by (subst parm_loop.simps) (simp add: fmt_defs add.commute del: entry_bytes.simps)
qed

definition section_bytes :: "nv_entry list \<Rightarrow> u8 list" where
  "section_bytes es = concat (map entry_bytes es)"

lemma parm_loop_entries:
  "drop i m = section_bytes es \<Longrightarrow> \<forall>e \<in> set es. entry_ok e \<Longrightarrow> arrays_ok k \<Longrightarrow> heap_params E \<Longrightarrow>
   parm_loop E m i k = Inr (0, fold apply_entry es k)"
proof (induction es arbitrary: i k)
  case Nil
  then show ?case by (subst parm_loop.simps) (simp add: section_bytes_def)
next
  case (Cons e es)
  have d: "drop i m = entry_bytes e @ section_bytes es" using Cons.prems(1) by (simp add: section_bytes_def)
  have "drop (i + length (entry_bytes e)) m = drop (length (entry_bytes e)) (drop i m)"
    by (simp add: add.commute)
  then have d': "drop (i + length (entry_bytes e)) m = section_bytes es" by (simp only: d) simp
  show ?case
    using parm_loop_step [OF d _ Cons.prems(3,4)] Cons.IH [OF d' _ apply_entry_ok Cons.prems(4)] Cons.prems
    by simp
qed

section \<open>The parameters of a kernel\<close>

text \<open>The last \<open>EIATTR_KPARAM_INFO\<close> entry for an ordinal: offset and size of the parameter.\<close>

fun see_kparam :: "nat \<Rightarrow> nv_entry \<Rightarrow> (nat \<times> nat) option \<Rightarrow> (nat \<times> nat) option" where
  "see_kparam ord (KParam ix o' off low sz) acc = (if o' = ord then Some (off, sz) else acc)"
| "see_kparam ord e acc = acc"

definition last_kparam :: "nat \<Rightarrow> nv_entry list \<Rightarrow> (nat \<times> nat) option" where
  "last_kparam ord es = fold (see_kparam ord) es None"

definition describes :: "kernel_info \<Rightarrow> nv_entry list \<Rightarrow> bool" where
  "describes k es \<longleftrightarrow> arrays_ok k \<and>
     (\<forall>ord < param_num k. param_offsets k ! ord = map_option fst (last_kparam ord es) \<and>
                        param_sizes k ! ord = map_option snd (last_kparam ord es)) \<and>
     (\<forall>ord \<ge> param_num k. last_kparam ord es = None) \<and>
     (0 < param_num k \<longrightarrow> last_kparam (param_num k - 1) es \<noteq> None)"

lemma last_kparam_snoc: "last_kparam ord (es @ [e]) = see_kparam ord e (last_kparam ord es)"
  by (simp add: last_kparam_def)

lemma grow_update_nth:
  "length xs = n \<Longrightarrow> i < max n (Suc j) \<Longrightarrow>
     (grow (Suc j) xs)[j := y] ! i = (if i = j then y else if i < n then xs ! i else None)"
  by (auto simp: grow_def nth_list_update nth_append)

lemma describes_set_param:
  assumes "describes k es"
  shows "describes (set_param ord off sz k) (es @ [KParam ix ord off low sz])"
proof -
  have ok: "arrays_ok (set_param ord off sz k)" using assms set_param_ok by (simp add: describes_def)
  have len: "length (param_offsets k) = param_num k" "length (param_sizes k) = param_num k"
    using assms by (simp_all add: describes_def arrays_ok_def)
  have num: "param_num (set_param ord off sz k) = max (param_num k) (Suc ord)"
    by (simp add: set_param_def)
  have "param_offsets (set_param ord off sz k) ! i = (if i = ord then Some off else if i < param_num k then param_offsets k ! i else None)"
    "param_sizes (set_param ord off sz k) ! i = (if i = ord then Some sz else if i < param_num k then param_sizes k ! i else None)"
    if "i < max (param_num k) (Suc ord)" for i
    using grow_update_nth [OF len(1) that] grow_update_nth [OF len(2) that] by (simp_all add: set_param_def)
  then show ?thesis
    using assms ok unfolding describes_def num last_kparam_snoc
    by (auto simp: max_def not_less split: if_splits)
qed

lemma describes_fold:
  "describes (fold apply_entry es \<lparr>k_name = nm, param_size = 0, param_num = 0, param_offsets = [],
     param_sizes = [], host_fun = h\<rparr>) es"
proof (induction es rule: rev_induct)
  case Nil
  then show ?case by (simp add: describes_def arrays_ok_def last_kparam_def)
next
  case (snoc e es)
  then show ?case
    by (cases e) (simp_all add: describes_set_param, simp_all add: describes_def arrays_ok_def last_kparam_snoc)
qed

lemma fold_name [simp]: "k_name (fold apply_entry es k) = k_name k"
proof (induction es arbitrary: k)
  case (Cons e es)
  have "k_name (apply_entry e k) = k_name k" by (cases e) (simp_all add: set_param_def)
  with Cons show ?case by simp
qed simp

text \<open>C32: Reading the attribute section of a kernel, when it is a sequence of well-formed
  entries, returns success, keeps the name, and stores for every ordinal below the number of
  parameters the offset and size of the last \<open>EIATTR_KPARAM_INFO\<close> entry with that ordinal
  (an ordinal no entry mentions keeps an uninitialised cell); the number of parameters is one
  more than the largest ordinal.\<close>

theorem kernel_parameters_parsed:
  assumes "heap_params E"
    and "get_kernel_section_from_kernel_name E (k_name k) = Some sname"
    and "get_section_by_name (elf_sections elf) sname = Some sec"
    and "sec_data sec = Some (section_bytes es)"
    and "\<forall>e \<in> set es. entry_ok e"
  shows "\<exists>k'. get_parm_for_kernel E elf k = Inr (0, k') \<and> k_name k' = k_name k \<and> describes k' es"
proof -
  let ?k = "\<lparr>k_name = k_name k, param_size = 0, param_num = 0, param_offsets = [], param_sizes = [], host_fun = host_fun k\<rparr>"
  have "k\<lparr>param_num := 0, param_size := 0, param_offsets := [], param_sizes := []\<rparr> = ?k"
    by (rule kernel_info.equality) simp_all
  moreover have "parm_loop E (section_bytes es) 0 ?k = Inr (0, fold apply_entry es ?k)"
    using assms by (intro parm_loop_entries) (simp_all add: arrays_ok_def)
  ultimately have "get_parm_for_kernel E elf k = Inr (0, fold apply_entry es ?k)"
    using assms by (simp only: get_parm_for_kernel_def Let_def option.case kernel_info.select_convs)
  then show ?thesis using describes_fold [of es "k_name k" "host_fun k"] by (intro exI conjI) simp_all
qed

definition sample_entries :: "nv_entry list" where
  "sample_entries = [Nval 5 7, KParam 0 1 8 3 4, KParam 0 0 0 0 8, Sval 0x1c [1, 2, 3, 4], Cbank_Size 12]"

definition kernel_env :: "unit env" where
  "kernel_env = sample_env\<lparr>heap_ok := glibc (\<lambda>_. True)\<rparr>"

theorem kernel_parameters_parsed_witness:
  "\<exists>k'. get_parm_for_kernel kernel_env
      \<lparr>elf_opens = True, elf_sections = [\<lparr>sec_name = Some ''.text'', sec_data = None\<rparr>,
          \<lparr>sec_name = Some ''.nv.info.k'', sec_data = Some (section_bytes sample_entries)\<rparr>],
       elf_symtab = None\<rparr>
      \<lparr>k_name = ''$k$add'', param_size = 9, param_num = 3, param_offsets = [], param_sizes = [], host_fun = None\<rparr> = Inr (0, k') \<and>
     k_name k' = ''$k$add'' \<and> describes k' sample_entries"
  using kernel_parameters_parsed [of kernel_env
      "\<lparr>k_name = ''$k$add'', param_size = 9, param_num = 3, param_offsets = [], param_sizes = [], host_fun = None\<rparr>"
      "''.nv.info.k''"
      "\<lparr>elf_opens = True, elf_sections = [\<lparr>sec_name = Some ''.text'', sec_data = None\<rparr>,
          \<lparr>sec_name = Some ''.nv.info.k'', sec_data = Some (section_bytes sample_entries)\<rparr>],
       elf_symtab = None\<rparr>"
      "\<lparr>sec_name = Some ''.nv.info.k'', sec_data = Some (section_bytes sample_entries)\<rparr>" sample_entries]
  by (simp add: heap_params_def kernel_env_def glibc_def get_kernel_section_from_kernel_name_def
      asprintf_def sample_entries_def EIATTR_KPARAM_INFO_def)

section \<open>The table of kernels\<close>

lemma search_info_found:
  "list_rep l xs \<Longrightarrow> i + n \<le> length xs \<Longrightarrow>
   search_info_loop l nm i n = Inr (if nm \<in> k_name ` set (take n (drop i xs))
     then Some (i + length (takeWhile (\<lambda>k. k_name k \<noteq> nm) (drop i xs))) else None)"
proof (induction n arbitrary: i)
  case (Suc n)
  then have i: "i < length xs" by simp
  then have d: "drop i xs = xs ! i # drop (Suc i) xs" by (rule Cons_nth_drop_Suc [symmetric])
  have IH: "search_info_loop l nm (Suc i) n = Inr (if nm \<in> k_name ` set (take n (drop (Suc i) xs))
     then Some (Suc i + length (takeWhile (\<lambda>k. k_name k \<noteq> nm) (drop (Suc i) xs))) else None)"
    using Suc by simp
  show ?case using IH by (auto simp: list_rep_cell [OF Suc.prems(1) i] d)
qed simp

lemma utils_search_info_found:
  "list_rep l xs \<Longrightarrow> utils_search_info l nm =
     Inr (if nm \<in> k_name ` set xs then Some (length (takeWhile (\<lambda>k. k_name k \<noteq> nm) xs)) else None)"
  using search_info_found [of l xs 0 "length xs" nm] by (simp add: utils_search_info_def list_rep_len)

lemma append_entry:
  assumes "list_rep l xs" and "alloc_bounded alloc" and "list_append alloc l True = Inr (rc, l1, Some i)"
    and "set_elem l1 i x = Inr l2"
  shows "list_rep l2 (xs @ [x])"
proof -
  have g: "glibc alloc = alloc" using assms(2) by (auto simp: glibc_def alloc_bounded_def)
  have "append_slot alloc l x = Inr (i, l2)" using assms(3,4) by (simp add: append_slot_def)
  then show ?thesis using append_slot_Inr [of l xs alloc x i l2] assms(1) by (simp add: g)
qed

text \<open>The kernel an entry of \<open>.nv.info\<close> announces.\<close>

definition frame_kernel :: "string option list \<Rightarrow> u8 list \<Rightarrow> nat \<Rightarrow> string option" where
  "frame_kernel syms m p =
     (if rd m (p + 2) 2 = Inr 8 \<and> rd m (p + 1) 1 = Inr EIATTR_FRAME_SIZE
      then (case rd m (p + 4) 4 of Inl _ \<Rightarrow> None
            | Inr kid \<Rightarrow> if kid < length syms then syms ! kid else None)
      else None)"

definition table_after ::
  "string option list \<Rightarrow> u8 list \<Rightarrow> nat \<Rightarrow> kernel_info list \<Rightarrow> kernel_info clist \<Rightarrow> bool" where
  "table_after syms m secpos xs l' \<longleftrightarrow>
     (\<exists>ys. list_rep l' (xs @ ys) \<and> distinct (map k_name (xs @ ys)) \<and>
       (\<forall>j nm. secpos + 12 * j < length m \<longrightarrow> frame_kernel syms m (secpos + 12 * j) = Some nm \<longrightarrow>
          nm \<in> k_name ` set (xs @ ys)) \<and>
       (\<forall>y \<in> set ys. \<exists>j. secpos + 12 * j < length m \<and> frame_kernel syms m (secpos + 12 * j) = Some (k_name y)))"

lemma store_param_name: "store_param E a b c k = Inr k1 \<Longrightarrow> k_name k1 = k_name k"
  by (auto simp: store_param_def Let_def split: if_split_asm)

definition continues :: "'d env \<Rightarrow> u8 list \<Rightarrow> nat \<Rightarrow> kernel_info \<Rightarrow> (int \<times> kernel_info) \<Rightarrow> bool" where
  "continues E m i k r \<longleftrightarrow> (\<exists>n k1. k_name k1 = k_name k \<and> parm_loop E m (i + 8 + n - 4) k1 = Inr r)"

lemma continuesI: "parm_loop E m (i + 8 + n - 4) k1 = Inr r \<Longrightarrow> k_name k1 = k_name k \<Longrightarrow> continues E m i k r"
  unfolding continues_def by blast

lemma continues16I: "parm_loop E m (16 + i) k1 = Inr r \<Longrightarrow> k_name k1 = k_name k \<Longrightarrow> continues E m i k r"
  using continuesI [of E m i 12] by (simp add: add.commute)

lemma continues4I: "parm_loop E m (i + 8 - 4) k1 = Inr r \<Longrightarrow> k_name k1 = k_name k \<Longrightarrow> continues E m i k r"
  unfolding continues_def by (metis add_0_right)

lemma parm_loop_continues:
  assumes "i < length m" and "parm_loop E m i k = Inr (rc, k')"
  shows "k_name k' = k_name k \<or> continues E m i k (rc, k')"
proof -
  note eq = assms(2) [unfolded parm_loop.simps [of E m i k]]
  obtain f where f: "rd m i 1 = Inr f" using eq assms(1) by (auto simp: bind_r_Inr_iff)
  consider (s) "f = EIFMT_SVAL" | (h) "f = EIFMT_HVAL" | (o) "f \<noteq> EIFMT_SVAL" "f \<noteq> EIFMT_HVAL" by blast
  then show ?thesis
  proof cases
    case s
    then obtain a v where av: "rd m (i + 1) 1 = Inr a" "rd m (i + 2) 2 = Inr v"
      using eq assms(1) f by (auto simp: bind_r_Inr_iff)
    show ?thesis
    proof (cases "a = EIATTR_KPARAM_INFO \<and> v = 12")
      case True
      then show ?thesis using eq assms(1) f av s
        by (auto simp: bind_r_Inr_iff intro: continues16I dest: store_param_name)
    next
      case False
      then show ?thesis using eq assms(1) f av s
        by (auto simp: fmt_defs split: if_split_asm intro: continuesI)
    qed
  next
    case h
    then obtain a v where av: "rd m (i + 1) 1 = Inr a" "rd m (i + 2) 2 = Inr v"
      using eq assms(1) f by (auto simp: bind_r_Inr_iff)
    have "parm_loop E m (i + 8 - 4) (if a = EIATTR_CBANK_PARAM_SIZE then k\<lparr>param_size := v\<rparr> else k) = Inr (rc, k')"
      using eq assms(1) f h av by (simp add: fmt_defs split: if_split_asm)
    then show ?thesis by (intro disjI2) (erule continues4I, simp)
  next
    case o
    then have "parm_loop E m (i + 8 - 4) k = Inr (rc, k')" using eq assms(1) f by simp
    then show ?thesis by (intro disjI2) (erule continues4I, simp)
  qed
qed

lemma parm_loop_name: "parm_loop E m i k = Inr (rc, k') \<Longrightarrow> k_name k' = k_name k"
proof (induction "length m - i" arbitrary: i k rule: less_induct)
  case less
  show ?case
  proof (cases "i < length m")
    case True
    from parm_loop_continues [OF True less.prems] show ?thesis
    proof (elim disjE)
      assume "continues E m i k (rc, k')"
      then obtain n k1 where k1: "k_name k1 = k_name k" "parm_loop E m (i + 8 + n - 4) k1 = Inr (rc, k')"
        unfolding continues_def by blast
      have "length m - (i + 8 + n - 4) < length m - i" using True by simp
      then show ?thesis using less.hyps [OF _ k1(2)] k1(1) by simp
    qed
  next
    case False
    with less.prems show ?thesis by (subst (asm) parm_loop.simps) simp
  qed
qed

lemma get_parm_name: "get_parm_for_kernel E elf k = Inr (rc, k') \<Longrightarrow> k_name k' = k_name k"
  by (auto simp: get_parm_for_kernel_def Let_def split: option.split_asm dest!: parm_loop_name)

lemma table_after_skip:
  assumes "table_after syms m (p + 12) xs l'"
    and "\<And>nm. frame_kernel syms m p = Some nm \<Longrightarrow> nm \<in> k_name ` set xs"
  shows "table_after syms m p xs l'"
proof -
  obtain ys where ys: "list_rep l' (xs @ ys)" "distinct (map k_name (xs @ ys))"
    "\<And>j nm. p + 12 + 12 * j < length m \<Longrightarrow> frame_kernel syms m (p + 12 + 12 * j) = Some nm \<Longrightarrow>
       nm \<in> k_name ` set (xs @ ys)"
    "\<And>y. y \<in> set ys \<Longrightarrow> \<exists>j. p + 12 + 12 * j < length m \<and> frame_kernel syms m (p + 12 + 12 * j) = Some (k_name y)"
    using assms(1) unfolding table_after_def by blast
  have "nm \<in> k_name ` set (xs @ ys)"
    if "p + 12 * j < length m" "frame_kernel syms m (p + 12 * j) = Some nm" for j nm
  proof (cases j)
    case 0
    then show ?thesis using assms(2) that by auto
  next
    case (Suc i)
    then show ?thesis using ys(3) [of i nm] that by (simp add: algebra_simps)
  qed
  moreover have "\<exists>j. p + 12 * j < length m \<and> frame_kernel syms m (p + 12 * j) = Some (k_name y)"
    if y: "y \<in> set ys" for y
  proof -
    obtain j where "p + 12 + 12 * j < length m" "frame_kernel syms m (p + 12 + 12 * j) = Some (k_name y)"
      using ys(4) [of y] y by blast
    then show ?thesis by (intro exI [of _ "Suc j"]) (simp add: algebra_simps)
  qed
  ultimately show ?thesis unfolding table_after_def using ys(1,2) by (intro exI [of _ ys]) blast
qed

lemma table_after_new:
  assumes "table_after syms m (p + 12) (xs @ [k]) l'" and "frame_kernel syms m p = Some (k_name k)"
    and "p < length m"
  shows "table_after syms m p xs l'"
proof -
  have "table_after syms m p (xs @ [k]) l'"
    by (rule table_after_skip [OF assms(1)]) (simp add: assms(2))
  then obtain ys where ys: "list_rep l' (xs @ k # ys)" "distinct (map k_name (xs @ k # ys))"
    "\<And>j nm. p + 12 * j < length m \<Longrightarrow> frame_kernel syms m (p + 12 * j) = Some nm \<Longrightarrow>
       nm \<in> k_name ` set (xs @ k # ys)"
    "\<And>y. y \<in> set ys \<Longrightarrow> \<exists>j. p + 12 * j < length m \<and> frame_kernel syms m (p + 12 * j) = Some (k_name y)"
    unfolding table_after_def append_assoc append_Cons append_Nil by blast
  have "\<exists>j. p + 12 * j < length m \<and> frame_kernel syms m (p + 12 * j) = Some (k_name k)"
    using assms(2,3) by (intro exI [of _ 0]) simp
  then have "\<And>y. y \<in> set (k # ys) \<Longrightarrow> \<exists>j. p + 12 * j < length m \<and> frame_kernel syms m (p + 12 * j) = Some (k_name y)"
    using ys(4) by (metis set_ConsD)
  then show ?thesis
    unfolding table_after_def using ys(1-3) by blast
qed

lemma info_loop_step:
  assumes p: "p < length m" and run: "info_loop E elf syms m p l = Inr (0, l')"
  shows "(info_loop E elf syms m (p + 12) l = Inr (0, l') \<and>
       (\<forall>nm. frame_kernel syms m p = Some nm \<longrightarrow> (\<exists>i. utils_search_info l nm = Inr (Some i)))) \<or>
    (\<exists>nm l1 i k l2 rc. frame_kernel syms m p = Some nm \<and> utils_search_info l nm = Inr None \<and>
       list_append (heap_ok E) l True = Inr (rc, l1, Some i) \<and> k_name k = nm \<and>
       set_elem l1 i k = Inr l2 \<and> info_loop E elf syms m (p + 12) l2 = Inr (0, l'))"
proof -
  note eq = run [unfolded info_loop.simps [of E elf syms m p l]]
  show ?thesis
  proof (cases "frame_kernel syms m p")
    case None
    then have "info_loop E elf syms m (p + 12) l = Inr (0, l')"
      using eq p by (auto simp: bind_r_Inr_iff frame_kernel_def split: if_split_asm option.split_asm)
    with None show ?thesis by simp
  next
    case (Some nm)
    then obtain kid where rds: "rd m (p + 2) 2 = Inr 8" "rd m (p + 1) 1 = Inr EIATTR_FRAME_SIZE"
      "rd m (p + 4) 4 = Inr kid" "kid < length syms" "syms ! kid = Some nm"
      by (auto simp: frame_kernel_def split: if_split_asm sum.split_asm)
    obtain found where found: "utils_search_info l nm = Inr found"
      using eq p rds by (auto simp: bind_r_Inr_iff)
    show ?thesis
    proof (cases found)
      case None
      let ?k = "\<lparr>k_name = nm, param_size = 0, param_num = 0, param_offsets = [], param_sizes = [], host_fun = None\<rparr>"
      obtain rc l1 i k l2 where "list_append (heap_ok E) l True = Inr (rc, l1, Some i)"
        "get_parm_for_kernel E elf ?k = Inr (0, k)" "set_elem l1 i k = Inr l2"
        "info_loop E elf syms m (p + 12) l2 = Inr (0, l')"
        using eq p rds found None by (auto simp: bind_r_Inr_iff split: if_split_asm option.split_asm)
      moreover have "k_name k = nm" using get_parm_name [OF calculation(2)] by simp
      ultimately show ?thesis using Some found None by blast
    next
      case (Some i)
      then show ?thesis using eq p rds found \<open>frame_kernel syms m p = Some nm\<close> by simp
    qed
  qed
qed

lemma info_loop_table:
  "info_loop E elf syms m p l = Inr (0, l') \<Longrightarrow> alloc_bounded (heap_ok E) \<Longrightarrow> list_rep l xs \<Longrightarrow>
   distinct (map k_name xs) \<Longrightarrow> table_after syms m p xs l'"
proof (induction "length m - p" arbitrary: p l xs rule: less_induct)
  case less
  show ?case
  proof (cases "p < length m")
    case False
    with less.prems show ?thesis
      by (subst (asm) info_loop.simps) (auto simp: table_after_def intro!: exI [of _ "[]"])
  next
    case True
    then have dec: "length m - (p + 12) < length m - p" by simp
    from info_loop_step [OF True less.prems(1)] show ?thesis
    proof (elim disjE exE conjE)
      assume "info_loop E elf syms m (p + 12) l = Inr (0, l')"
        and fr: "\<forall>nm. frame_kernel syms m p = Some nm \<longrightarrow> (\<exists>i. utils_search_info l nm = Inr (Some i))"
      then have "table_after syms m (p + 12) xs l'" using less.hyps [OF dec _ less.prems(2-4)] by blast
      then show ?thesis
      proof (rule table_after_skip)
        fix nm assume "frame_kernel syms m p = Some nm"
        then obtain i where "utils_search_info l nm = Inr (Some i)" using fr by blast
        then show "nm \<in> k_name ` set xs"
          using utils_search_info_found [OF less.prems(3), of nm] by (simp split: if_split_asm)
      qed
    next
      fix nm l1 i k l2 rc
      assume a: "frame_kernel syms m p = Some nm" "utils_search_info l nm = Inr None"
        "list_append (heap_ok E) l True = Inr (rc, l1, Some i)" "k_name k = nm" "set_elem l1 i k = Inr l2"
        "info_loop E elf syms m (p + 12) l2 = Inr (0, l')"
      have r: "list_rep l2 (xs @ [k])" by (rule append_entry [OF less.prems(3,2) a(3,5)])
      have "nm \<notin> k_name ` set xs"
        using a(2) utils_search_info_found [OF less.prems(3), of nm] by (simp split: if_split_asm)
      then have "distinct (map k_name (xs @ [k]))" using less.prems(4) a(4) by auto
      then have "table_after syms m (p + 12) (xs @ [k]) l'"
        by (rule less.hyps [OF dec a(6) less.prems(2) r])
      moreover have "frame_kernel syms m p = Some (k_name k)" using a(1,4) by (simp only:)
      ultimately show ?thesis using True by (rule table_after_new)
    qed
  qed
qed

text \<open>When \<open>elf2_parameter_info\<close> returns success for an image with a \<open>.nv.info\<close>
  section, the table of kernels has grown by new kernels at its end: no name occurs twice, every
  kernel a frame-size entry of the section announces is in the table, and every new entry is
  announced by the section.\<close>

lemma kernel_table_complete:
  assumes "alloc_bounded (heap_ok E)" and "list_rep l xs" and "distinct (map k_name xs)"
    and "elf_symtab (elf_memory memory) = Some syms"
    and "get_section_by_name (elf_sections (elf_memory memory)) ''.nv.info'' = Some sec"
    and "sec_data sec = Some m"
    and "elf2_parameter_info E dump_opens elf_memory l memory = Inr (0, l')"
  shows "\<exists>ys. list_rep l' (xs @ ys) \<and> distinct (map k_name (xs @ ys)) \<and>
     (\<forall>j nm. 12 * j < length m \<longrightarrow> frame_kernel syms m (12 * j) = Some nm \<longrightarrow> nm \<in> k_name ` set (xs @ ys)) \<and>
     (\<forall>y \<in> set ys. \<exists>j. 12 * j < length m \<and> frame_kernel syms m (12 * j) = Some (k_name y))"
proof -
  have "info_loop E (elf_memory memory) syms m 0 l = Inr (0, l')"
    using assms(4-7) by (simp add: elf2_parameter_info_def Let_def split: if_split_asm)
  then have "table_after syms m 0 xs l'" by (rule info_loop_table [OF _ assms(1-3)])
  then show ?thesis by (simp add: table_after_def)
qed

definition sample_info :: "u8 list" where
  "sample_info = [4, 0x11, 8, 0, 1, 0, 0, 0, 0, 0, 0, 0,  4, 0x12, 8, 0, 0, 0, 0, 0, 0, 0, 0, 0,
     4, 0x11, 8, 0, 1, 0, 0, 0, 0, 0, 0, 0]"

definition sample_elf :: elf_image where
  "sample_elf = \<lparr>elf_opens = True,
     elf_sections = [\<lparr>sec_name = Some ''.nv.info'', sec_data = Some sample_info\<rparr>,
       \<lparr>sec_name = Some ''.nv.info.f'', sec_data = Some [3, 0x19, 8, 0]\<rparr>],
     elf_symtab = Some [None, Some ''f'']\<rparr>"

definition sample_table :: "kernel_info clist" where
  "sample_table = \<lparr>elements = Buf [None, None], len = 0, capacity = 2, element_size = 40\<rparr>"

lemmas sample_eval = kernel_env_def glibc_def sample_elf_def sample_info_def sample_table_def rd_def blk_def
  fmt_defs utils_search_info_def elem_at_def

lemma sample_parm:
  "get_parm_for_kernel kernel_env sample_elf \<lparr>k_name = ''f'', param_size = 0, param_num = 0,
     param_offsets = [], param_sizes = [], host_fun = None\<rparr> =
   Inr (0, \<lparr>k_name = ''f'', param_size = 8, param_num = 0, param_offsets = [], param_sizes = [], host_fun = None\<rparr>)"
proof -
  have "parm_loop kernel_env [3, 0x19, 8, 0] 4 k = Inr (0, k)" for k
    by (subst parm_loop.simps) simp
  moreover have "parm_loop kernel_env [3, 0x19, 8, 0] 0 k =
      parm_loop kernel_env [3, 0x19, 8, 0] 4 (k\<lparr>param_size := 8\<rparr>)" for k
    by (subst parm_loop.simps) (simp add: rd_def blk_def fmt_defs)
  ultimately show ?thesis
    by (simp add: get_parm_for_kernel_def get_kernel_section_from_kernel_name_def asprintf_def sample_eval)
qed

lemma sample_steps:
  "info_loop kernel_env sample_elf [None, Some ''f''] sample_info 36 l = Inr (0, l)"
  "info_loop kernel_env sample_elf [None, Some ''f''] sample_info 12 l =
   info_loop kernel_env sample_elf [None, Some ''f''] sample_info 24 l"
  "utils_search_info l ''f'' = Inr (Some i) \<Longrightarrow>
   info_loop kernel_env sample_elf [None, Some ''f''] sample_info 24 l =
   info_loop kernel_env sample_elf [None, Some ''f''] sample_info 36 l"
  by (subst info_loop.simps, simp add: sample_info_def rd_def blk_def EIATTR_FRAME_SIZE_def)+

end
