(* ===== verification/RuntimeLaunch.thy ===== *)
theory RuntimeLaunch
  imports RuntimeCopy KernelInfo
begin

text \<open>
  Kernel launches: the client packs the parameters of a kernel into one buffer
  (\<open>cudaLaunchKernel\<close> in \<open>cpu/cpu-client-runtime.c\<close>), the server finds them again and translates
  the pointers among them (\<open>replay_each_operator\<close>, \<open>cuda_launch_cooperative_kernel_1_svc\<close> and
  \<open>cuda_launch_kernel_1_svc\<close> in \<open>cpu/cpu-server-runtime.c\<close>).

  Two stray tokens of the source (\<open>input_address_old[input_count]\<close> behind the loop of
  \<open>cuda_launch_kernel_1_svc\<close> and the parameter type \<open>tr\<close>), with which it does not compile, are
  left out.
\<close>

section \<open>Packing on the client\<close>

text \<open>
  The buffer: the number of parameters, their offsets, and the parameter block. Its length is
  kept in 32 bits. \<open>args\<close> are the blocks the argument pointers of the application point to.
\<close>

definition offset_bytes :: "'d env \<Rightarrow> nat option \<Rightarrow> u8 list" where
  "offset_bytes E o' = (case o' of Some v \<Rightarrow> le_bytes 2 v | None \<Rightarrow> replicate 2 (fresh_byte E))"

definition put_block :: "nat \<Rightarrow> u8 list \<Rightarrow> u8 list \<Rightarrow> u8 list res" where
  "put_block i bs m = (if i + length bs \<le> length m then Inr (blit m i bs) else Inl Out_Of_Bounds)"

fun pack_params :: "kernel_info \<Rightarrow> u8 list list \<Rightarrow> nat \<Rightarrow> nat \<Rightarrow> u8 list \<Rightarrow> u8 list res" where
  "pack_params k args j 0 m = Inr m"
| "pack_params k args j (Suc n) m =
     (if length (param_sizes k) \<le> j \<or> length (param_offsets k) \<le> j \<or> length args \<le> j
      then Inl Out_Of_Bounds
      else case (param_sizes k ! j, param_offsets k ! j) of
        (Some sz, Some off) \<Rightarrow>
          (if length (args ! j) < sz then Inl Out_Of_Bounds
           else bind_r (put_block (8 + 2 * param_num k + off) (take sz (args ! j)) m)
                  (pack_params k args (Suc j) n))
      | _ \<Rightarrow> Inl Uninit_Read)"

definition pack_args :: "'d env \<Rightarrow> kernel_info \<Rightarrow> u8 list list \<Rightarrow> u8 list res" where
  "pack_args E k args =
     (let L = (8 + 2 * param_num k + param_size k) mod 2 ^ 32 in
      if \<not> heap_ok E L then Inl Null_Deref
      else if length (param_offsets k) < param_num k then Inl Out_Of_Bounds
      else bind_r (put_block 0 (le_bytes 8 (param_num k)) (replicate L (fresh_byte E))) (\<lambda>m.
           bind_r (put_block 8 (concat (map (offset_bytes E) (take (param_num k) (param_offsets k)))) m)
             (pack_params k args 0 (param_num k))))"

section \<open>Unpacking on the server\<close>

text \<open>
  The addresses of the parameters inside the buffer, with the translation done in place: the
  eight bytes at each address are replaced. \<open>slots\<close> is the number of pointers the array
  \<open>cuda_args\<close> has room for; its size and the size of the offset table wrap at \<open>2 ^ 64\<close>.
\<close>

fun launch_params ::
  "(u64 \<Rightarrow> u64 res) option \<Rightarrow> nat \<Rightarrow> nat \<Rightarrow> nat \<Rightarrow> nat \<Rightarrow> u8 list \<Rightarrow> (nat list \<times> u8 list) res" where
  "launch_params tr n slots i 0 m = Inr ([], m)"
| "launch_params tr n slots i (Suc r) m =
     bind_r (rd m (8 + 2 * i) 2) (\<lambda>off.
       let a = 8 + wrap64 (n * 2) + off in
       if slots \<le> i then Inl Out_Of_Bounds
       else bind_r (case tr of None \<Rightarrow> Inr m
              | Some get \<Rightarrow> bind_r (rd m a 8) (\<lambda>p. bind_r (get (of_nat p)) (\<lambda>q. put_block a (i64 q) m)))
            (\<lambda>m. bind_r (launch_params tr n slots (Suc i) r m) (\<lambda>(as, m). Inr (a # as, m))))"

definition kernel_params ::
  "'d env \<Rightarrow> (u64 \<Rightarrow> u64 res) option \<Rightarrow> u8 list \<Rightarrow> (nat list \<times> u8 list) res" where
  "kernel_params E tr m =
     bind_r (rd m 0 8) (\<lambda>n.
       if \<not> heap_ok E (wrap64 (n * 8)) \<and> 0 < n then Inl Null_Deref
       else launch_params tr n (wrap64 (n * 8) div 8) 0 n m)"

text \<open>What the library reads through a parameter pointer: the buffer from that address.\<close>

definition param_vals :: "nat list \<Rightarrow> u8 list \<Rightarrow> 'd arg list" where
  "param_vals as m = map (\<lambda>a. Val (Bytes (drop a m))) as"

definition dim_args :: "rpc_dim3 \<Rightarrow> 'd arg list" where
  "dim_args d = [I (dim_x d), I (dim_y d), I (dim_z d)]"

section \<open>The handlers\<close>

definition cuda_launch_cooperative_kernel_1_svc :: "'d env \<Rightarrow> u32 \<Rightarrow> launch \<Rightarrow> ('d, reply) handler" where
  "cuda_launch_cooperative_kernel_1_svc E rq l =
     recorded E rq 64 [(0, i64 (l_func l)), (8, dim3_bytes (l_grid l)), (20, dim3_bytes (l_block l)),
         (48, i64 (l_shared l)), (56, i64 (l_stream l))] (\<lambda>i s.
       bind_r (kernel_params E None (mem_val (l_args l))) (\<lambda>(as, m).
         int_call E ''cudaLaunchCooperativeKernel''
           ([Handle rm_kernels (l_func l)] @ dim_args (l_grid l) @ dim_args (l_block l) @
            [W (l_shared l), Handle rm_streams (l_stream l)] @ param_vals as m) i s))"

definition replay_each_operator :: "'d env \<Rightarrow> u32 \<Rightarrow> launch \<Rightarrow> ('d, reply) handler" where
  "replay_each_operator E rq l =
     recorded E rq 64 [(0, i64 (l_func l)), (8, dim3_bytes (l_grid l)), (20, dim3_bytes (l_block l))] (\<lambda>i.
       bind_h (set_data E i (length (mem_val (l_args l))) (mem_val (l_args l))) (\<lambda>_.
       bind_h (set_args i [(48, i64 (l_shared l)), (56, i64 (l_stream l))]) (\<lambda>_ s.
         bind_r (kernel_params E (Some (resource_mg_get (rm_memory s))) (mem_val (l_args l))) (\<lambda>(as, m).
           int_call E ''cuLaunchKernel''
             ([Handle rm_functions (l_func l)] @ dim_args (l_grid l) @ dim_args (l_block l) @
              [I (ucast (l_shared l)), Handle rm_streams (l_stream l)] @ param_vals as m) i s))))"

fun replay_loop :: "'d env \<Rightarrow> u32 \<Rightarrow> nat \<Rightarrow> nat \<Rightarrow> reply \<Rightarrow> ('d, reply) handler" where
  "replay_loop E rq i 0 res = ret_h res"
| "replay_loop E rq i (Suc n) res =
     bind_h (get_s recorded_calls) (\<lambda>calls.
       if length calls \<le> i then (\<lambda>s. Inl Out_Of_Bounds)
       else bind_h (replay_each_operator E rq (calls ! i)) (replay_loop E rq (Suc i) n))"

text \<open>
  The function has no return statement: what the dispatcher takes for its result is whatever
  \<open>fresh_int\<close> says, and the reply is unset when nothing is launched.
\<close>

definition cuda_launch_kernel_1_svc :: "'d env \<Rightarrow> u32 \<Rightarrow> launch \<Rightarrow> ('d, reply) handler" where
  "cuda_launch_kernel_1_svc E rq l =
     bind_h (get_s (\<lambda>s. s)) (\<lambda>s0.
     bind_h
       (if input_times s0 = 1
        then (if operator_count s0 < 0 \<or> int (length (recorded_calls s0)) \<le> operator_count s0
              then (\<lambda>s. Inl Out_Of_Bounds)
              else bind_h (modify_s (\<lambda>s. s\<lparr>recorded_calls := (recorded_calls s)[nat (operator_count s) := l]\<rparr>))
                     (\<lambda>_. replay_each_operator E rq l))
        else replay_loop E rq 0 (nat (operator_count s0)) (Reply [Int32 (of_int (fresh_int E))]))
       (\<lambda>r. ret_h (if fresh_int E = 0 then No_Reply else r)))"

end
