(* ===== verification/CrMemory.thy ===== *)
theory CrMemory
  imports CrRestore
begin

text \<open>
  The dump of the device memory (\<open>cr_dump_memory_entry\<close> and \<open>cr_dump_memory\<close> of \<open>cpu/cr.c\<close>):
  one file per recorded allocation, named after the device pointer.
\<close>

section \<open>Operations\<close>

text \<open>
  All failures but a short write leave the function with 0: no memory, an error of the copy,
  no memory for the name, and a file that cannot be opened.
\<close>

definition cr_dump_memory_entry ::
  "'d env \<Rightarrow> string \<Rightarrow> api_record \<Rightarrow> fsys \<Rightarrow> ('d, int \<times> fsys) handler" where
  "cr_dump_memory_entry E path r fs s =
     (if rq_function r \<noteq> CUDA_MALLOC then Inr ((0, fs), s)
      else bind_r (arg_word r 0 8) (\<lambda>n.
        if \<not> heap_ok E n then Inr ((0, fs), s)
        else bind_r (cuda_call E ''cudaMemcpy''
               [Word64 (fresh_word E), Word64 (result_hi r), Word64 (of_nat n), Int32 2] s) (\<lambda>((err, outs), s).
          if err \<noteq> 0 then Inr ((0, fs), s)
          else case asprintf E (mem_file path (result_hi r)) of
            None \<Rightarrow> Inr ((0, fs), s)
          | Some name \<Rightarrow>
              (case fopen_w name fs of
                 None \<Rightarrow> Inr ((0, fs), s)
               | Some fs \<Rightarrow>
                   (let (ok, fs) = fwrite name (out_bytes E outs 0 n) fs
                    in Inr ((if ok then 0 else 1, fs), s))))))"

fun cr_dump_memory_loop :: "'d env \<Rightarrow> string \<Rightarrow> nat \<Rightarrow> nat \<Rightarrow> fsys \<Rightarrow> ('d, int \<times> fsys) handler" where
  "cr_dump_memory_loop E path i 0 fs s = Inr ((0, fs), s)"
| "cr_dump_memory_loop E path i (Suc n) fs s =
     (case list_at (api_records s) i of
        (_, None) \<Rightarrow> Inr ((1, fs), s)
      | (_, Some p) \<Rightarrow>
          bind_r (elem_at (api_records s) p) (\<lambda>r.
          bind_r (api_records_print_records r) (\<lambda>_.
            if rq_function r = CUDA_MALLOC
            then bind_r (cr_dump_memory_entry E path r fs s) (\<lambda>((rc, fs), s).
                   if rc \<noteq> 0 then Inr ((1, fs), s) else cr_dump_memory_loop E path (Suc i) n fs s)
            else cr_dump_memory_loop E path (Suc i) n fs s)))"

definition cr_dump_memory :: "'d env \<Rightarrow> string \<Rightarrow> fsys \<Rightarrow> ('d, int \<times> fsys) handler" where
  "cr_dump_memory E path fs s = cr_dump_memory_loop E path 0 (len (api_records s)) fs s"

section \<open>The files of a dump\<close>

definition is_malloc :: "api_record \<Rightarrow> bool" where
  "is_malloc r \<longleftrightarrow> rq_function r = CUDA_MALLOC"

text \<open>The size an allocation record asks for, and what the device holds behind its pointer.\<close>

definition alloc_size :: "api_record \<Rightarrow> nat" where
  "alloc_size r = (case arg_word r 0 8 of Inl _ \<Rightarrow> 0 | Inr n \<Rightarrow> n)"

definition dumpable :: "'d env \<Rightarrow> (u64 \<Rightarrow> u8 list) \<Rightarrow> string \<Rightarrow> 'd \<Rightarrow> fsys \<Rightarrow> api_record \<Rightarrow> bool" where
  "dumpable E mem path d fs r \<longleftrightarrow> printable r \<and> (is_malloc r \<longrightarrow>
     arg_word r 0 8 = Inr (length (mem (result_hi r))) \<and> heap_ok E (length (mem (result_hi r))) \<and>
     heap_ok E (length (mem_file path (result_hi r)) + 1) \<and> creatable fs (mem_file path (result_hi r)) \<and>
     (\<forall>a. cuda E ''cudaMemcpy'' [Word64 a, Word64 (result_hi r),
         Word64 (of_nat (length (mem (result_hi r)))), Int32 2] d = (0, [Bytes (mem (result_hi r))], d)))"

definition mem_names :: "string \<Rightarrow> api_record list \<Rightarrow> string set" where
  "mem_names path xs = {mem_file path (result_hi r) | r. r \<in> set xs \<and> is_malloc r}"

lemma mem_file_inj: "mem_file path p = mem_file path q \<Longrightarrow> p = q"
  by (auto simp: mem_file_def dest!: hex_inj intro: unsigned_word_eqI)

lemma out_bytes_exact: "out_bytes E [Bytes bs] 0 (length bs) = bs"
  by (simp add: out_bytes_def)

lemma dump_entry_ok:
  assumes "dumpable E mem path (gpu s) fs r" and "is_malloc r" and "length (mem (result_hi r)) \<le> disk_free fs"
  shows "\<exists>fs'. cr_dump_memory_entry E path r fs s = Inr ((0, fs'), s) \<and>
    files fs' = (files fs)(mem_file path (result_hi r) \<mapsto> mem (result_hi r)) \<and>
    creatable fs' = creatable fs \<and> disk_free fs' = disk_free fs - length (mem (result_hi r))"
  using assms
  by (simp add: cr_dump_memory_entry_def dumpable_def is_malloc_def cuda_call_def asprintf_def fopen_w_def
      fwrite_def out_bytes_exact)

lemma dumpable_fs: "creatable fs' = creatable fs \<Longrightarrow> dumpable E mem path d fs' r = dumpable E mem path d fs r"
  by (simp add: dumpable_def)

definition dump_size :: "(u64 \<Rightarrow> u8 list) \<Rightarrow> api_record list \<Rightarrow> nat" where
  "dump_size mem xs = sum_list (map (\<lambda>r. length (mem (result_hi r))) (filter is_malloc xs))"

lemma dump_size_Cons [simp]:
  "dump_size mem (r # xs) = (if is_malloc r then length (mem (result_hi r)) else 0) + dump_size mem xs"
  by (simp add: dump_size_def)

definition dumped :: "(u64 \<Rightarrow> u8 list) \<Rightarrow> string \<Rightarrow> api_record list \<Rightarrow> fsys \<Rightarrow> fsys \<Rightarrow> bool" where
  "dumped mem path xs fs fs' \<longleftrightarrow>
     (\<forall>r \<in> set xs. is_malloc r \<longrightarrow> files fs' (mem_file path (result_hi r)) = Some (mem (result_hi r))) \<and>
     (\<forall>name. name \<notin> mem_names path xs \<longrightarrow> files fs' name = files fs name)"

lemma dumped_skip: "\<not> is_malloc r \<Longrightarrow> dumped mem path xs fs fs' \<Longrightarrow> dumped mem path (r # xs) fs fs'"
  by (auto simp: dumped_def mem_names_def)

lemma dumped_step:
  assumes "files fs1 = (files fs)(mem_file path (result_hi r) \<mapsto> mem (result_hi r))" and "is_malloc r"
    and "dumped mem path xs fs1 fs'"
  shows "dumped mem path (r # xs) fs fs'"
proof -
  let ?n = "mem_file path (result_hi r)"
  have new: "files fs' ?n = Some (mem (result_hi r))"
  proof (cases "?n \<in> mem_names path xs")
    case True
    then obtain q where q: "q \<in> set xs" "is_malloc q" "?n = mem_file path (result_hi q)"
      by (auto simp: mem_names_def)
    from q(3) have "result_hi r = result_hi q" by (rule mem_file_inj)
    with q assms(3) show ?thesis by (auto simp: dumped_def)
  next
    case False
    with assms(1,3) show ?thesis by (auto simp: dumped_def)
  qed
  have old: "files fs' name = files fs name" if "name \<notin> mem_names path (r # xs)" for name
  proof -
    have "name \<noteq> ?n" "name \<notin> mem_names path xs" using that assms(2) by (auto simp: mem_names_def)
    with assms(1,3) show ?thesis by (simp add: dumped_def)
  qed
  show ?thesis using new old assms(3) by (auto simp: dumped_def)
qed

lemma dump_memory_loop_ok:
  "list_rep (api_records s) xs \<Longrightarrow> i + n = length xs \<Longrightarrow> \<forall>r \<in> set (drop i xs). dumpable E mem path (gpu s) fs r \<Longrightarrow>
   dump_size mem (drop i xs) \<le> disk_free fs \<Longrightarrow>
   \<exists>fs'. cr_dump_memory_loop E path i n fs s = Inr ((0, fs'), s) \<and> dumped mem path (drop i xs) fs fs'"
proof (induction n arbitrary: i fs)
  case 0
  then show ?case by (simp add: dumped_def)
next
  case (Suc n)
  have i: "i < length xs" using Suc.prems(2) by simp
  then have d: "drop i xs = xs ! i # drop (Suc i) xs" by (simp add: Cons_nth_drop_Suc)
  have at: "list_at (api_records s) i = (0, Some i)" "elem_at (api_records s) i = Inr (xs ! i)"
    using Suc.prems(1) i by (rule list_at_rep, rule list_rep_cell)
  have ok: "dumpable E mem path (gpu s) fs (xs ! i)" "\<forall>r \<in> set (drop (Suc i) xs). dumpable E mem path (gpu s) fs r"
    using Suc.prems(3) by (simp_all add: d)
  obtain t where t: "api_records_print_records (xs ! i) = Inr t"
    using ok(1) printable_Inr [of "xs ! i"] by (auto simp: dumpable_def)
  show ?case
  proof (cases "is_malloc (xs ! i)")
    case False
    with Suc.IH [of "Suc i" fs] Suc.prems ok(2) at t dumped_skip [OF False] show ?thesis
      by (fastforce simp: d is_malloc_def)
  next
    case True
    obtain fs1 where fs1: "cr_dump_memory_entry E path (xs ! i) fs s = Inr ((0, fs1), s)"
      "files fs1 = (files fs)(mem_file path (result_hi (xs ! i)) \<mapsto> mem (result_hi (xs ! i)))"
      "creatable fs1 = creatable fs" "disk_free fs1 = disk_free fs - length (mem (result_hi (xs ! i)))"
      using dump_entry_ok [OF ok(1) True] Suc.prems(4) True by (auto simp: d)
    have "\<forall>r \<in> set (drop (Suc i) xs). dumpable E mem path (gpu s) fs1 r"
      using ok(2) dumpable_fs [OF fs1(3), of E mem path "gpu s"] by simp
    moreover have "dump_size mem (drop (Suc i) xs) \<le> disk_free fs1"
      using Suc.prems(4) True unfolding fs1(4) d by simp
    ultimately obtain fs' where fs': "cr_dump_memory_loop E path (Suc i) n fs1 s = Inr ((0, fs'), s)"
      "dumped mem path (drop (Suc i) xs) fs1 fs'"
      using Suc.IH [of "Suc i" fs1] Suc.prems(1,2) by auto
    show ?thesis using at t True fs1(1) fs' dumped_step [OF fs1(2) True fs'(2)]
      by (simp add: d is_malloc_def)
  qed
qed

section \<open>Properties\<close>

text \<open>When every recorded allocation can be copied back and the disk has room,
  \<open>cr_dump_memory\<close> returns 0, changes no other file and writes for every recorded allocation a
  file from which the restore reads exactly the contents of the device memory.\<close>

lemma memory_dump_read_back:
  assumes "list_rep (api_records s) xs" and "\<forall>r \<in> set xs. dumpable E mem path (gpu s) fs r"
    and "dump_size mem xs \<le> disk_free fs"
  shows "\<exists>fs'. cr_dump_memory E path fs s = Inr ((0, fs'), s) \<and>
    (\<forall>r \<in> set xs. is_malloc r \<longrightarrow>
       read_mem_file fs' (mem_file path (result_hi r)) (alloc_size r) = Inr (Some (mem (result_hi r)))) \<and>
    (\<forall>name. name \<notin> mem_names path xs \<longrightarrow> files fs' name = files fs name)"
proof -
  obtain fs' where fs': "cr_dump_memory E path fs s = Inr ((0, fs'), s)" "dumped mem path xs fs fs'"
    using dump_memory_loop_ok [OF assms(1), of 0 "length xs" E mem path fs] assms
    by (auto simp: cr_dump_memory_def list_rep_len)
  have "read_mem_file fs' (mem_file path (result_hi r)) (alloc_size r) = Inr (Some (mem (result_hi r)))"
    if "r \<in> set xs" "is_malloc r" for r
    using that assms(2) fs'(2)
    by (simp add: read_mem_file_def fopen_r_def fread_def alloc_size_def dumpable_def dumped_def)
  with fs' show ?thesis by (auto simp: dumped_def)
qed

definition memory_env :: "unit env" where
  "memory_env = sample_env\<lparr>cuda := (\<lambda>f args d. (0, [Bytes (replicate 256 7)], d))\<rparr>"

definition one_alloc_server :: "unit server" where
  "one_alloc_server = sample_server\<lparr>api_records :=
     \<lparr>elements = Buf [Some sample_record, None], len = 1, capacity = 2, element_size = 64\<rparr>\<rparr>"

text \<open>When the copy from the device fails, the entry is skipped and success is returned: the
  checkpoint reports no error although the memory of this allocation is not in it.\<close>

lemma memory_dump_error_hidden:
  assumes "is_malloc r" and "arg_word r 0 8 = Inr n"
    and "\<forall>a d. fst (cuda E ''cudaMemcpy'' [Word64 a, Word64 (result_hi r), Word64 (of_nat n), Int32 2] d) \<noteq> 0"
  shows "\<exists>s'. cr_dump_memory_entry E path r fs s = Inr ((0, fs), s')"
proof (cases "heap_ok E n")
  case True
  obtain err outs d where c: "cuda E ''cudaMemcpy'' [Word64 (fresh_word E), Word64 (result_hi r),
      Word64 (of_nat n), Int32 2] (gpu s) = (err, outs, d)" by (metis prod_cases3)
  with assms(3) have "err \<noteq> 0" by (metis fst_conv)
  with True assms c show ?thesis
    by (simp add: cr_dump_memory_entry_def is_malloc_def cuda_call_def)
qed (use assms in \<open>simp add: cr_dump_memory_entry_def is_malloc_def\<close>)

end
