(* ===== verification/ServerRuntime.thy ===== *)
theory ServerRuntime
  imports RuntimeLaunch CrMemory
begin

text \<open>
  Start, end, checkpoint and restart of the runtime part of the server
  (\<open>cpu/cpu-server-runtime.c\<close>, with the init functions of \<open>cpu/cpu-server-cusolver.c\<close>,
  \<open>cpu/cpu-server-cublas.c\<close> and \<open>cpu/cpu-server-cublaslt.c\<close>).
\<close>

section \<open>Start and end\<close>

text \<open>\<open>ret &= resource_mg_init(...)\<close>.\<close>

definition init_mg ::
  "'d env \<Rightarrow> ('d server \<Rightarrow> resource_mg) \<Rightarrow> (resource_mg \<Rightarrow> 'd server \<Rightarrow> 'd server) \<Rightarrow> int \<Rightarrow> int \<Rightarrow>
   ('d, int) handler" where
  "init_mg E sel upd byp ret s =
     (let (r, m) = resource_mg_init (heap_ok E) (sel s) byp in Inr (and ret r, upd m s))"

definition cusolver_init :: "'d env \<Rightarrow> int \<Rightarrow> ('d, int) handler" where
  "cusolver_init E byp = init_mg E rm_cusolver (\<lambda>m s. s\<lparr>rm_cusolver := m\<rparr>) byp 0"

definition cublas_init :: "'d env \<Rightarrow> int \<Rightarrow> ('d, int) handler" where
  "cublas_init E byp = init_mg E rm_cublas (\<lambda>m s. s\<lparr>rm_cublas := m\<rparr>) byp 0"

definition cublaslt_init :: "'d env \<Rightarrow> int \<Rightarrow> ('d, int) handler" where
  "cublaslt_init E byp = init_mg E rm_cublaslt (\<lambda>m s. s\<lparr>rm_cublaslt := m\<rparr>) byp 0"

definition and_ret :: "int \<Rightarrow> ('d, int) handler \<Rightarrow> ('d, int) handler" where
  "and_ret ret h = bind_h h (\<lambda>r. ret_h (and ret r))"

definition server_runtime_restore :: "'d env \<Rightarrow> 'd svc \<Rightarrow> fsys \<Rightarrow> string \<Rightarrow> ('d, int) handler" where
  "server_runtime_restore E svc fs path =
     bind_h (cr_restore E svc fs path) (\<lambda>r. ret_h (if r \<noteq> 0 then 1 else 0))"

definition sizeof_mt_memcpy_server :: nat where
  "sizeof_mt_memcpy_server = 96"

definition init_mt_list :: "'d env \<Rightarrow> ('d, int) handler" where
  "init_mt_list E s =
     (let (r, l) = list_init (heap_ok E) (mt_memcpy_list s) sizeof_mt_memcpy_server
      in Inr (if r \<noteq> 0 then and 0 1 else 0, s\<lparr>mt_memcpy_list := l\<rparr>))"

definition server_runtime_init :: "'d env \<Rightarrow> 'd svc \<Rightarrow> fsys \<Rightarrow> bool \<Rightarrow> ('d, int) handler" where
  "server_runtime_init E svc fs restore =
     bind_h (init_mt_list E) (\<lambda>ret.
     let byp = (if restore then 0 else 1) in
     bind_h (init_mg E rm_streams (\<lambda>m s. s\<lparr>rm_streams := m\<rparr>) byp ret) (\<lambda>ret.
     bind_h (init_mg E rm_events (\<lambda>m s. s\<lparr>rm_events := m\<rparr>) byp ret) (\<lambda>ret.
     bind_h (init_mg E rm_arrays (\<lambda>m s. s\<lparr>rm_arrays := m\<rparr>) byp ret) (\<lambda>ret.
     bind_h (init_mg E rm_memory (\<lambda>m s. s\<lparr>rm_memory := m\<rparr>) byp ret) (\<lambda>ret.
     bind_h (if restore then init_mg E rm_kernels (\<lambda>m s. s\<lparr>rm_kernels := m\<rparr>) 0 ret else ret_h ret) (\<lambda>ret.
     bind_h (and_ret ret (cusolver_init E byp)) (\<lambda>ret.
     bind_h (and_ret ret (cublas_init E byp)) (\<lambda>ret.
     bind_h (if restore then and_ret ret (server_runtime_restore E svc fs ''ckp'') else ret_h ret) (\<lambda>ret.
     bind_h (and_ret ret (cublaslt_init E byp)) (\<lambda>ret.
     bind_h (lib_call E ''cudaSetDevice'' [I 0]) (\<lambda>(cres, _).
     bind_h (lib_call E ''cudaDeviceSynchronize'' []) (\<lambda>_.
       ret_h (if cres \<noteq> 0 then 1 else ret)))))))))))))"

definition free_mg ::
  "('d server \<Rightarrow> resource_mg) \<Rightarrow> (resource_mg \<Rightarrow> 'd server \<Rightarrow> 'd server) \<Rightarrow> ('d, unit) handler" where
  "free_mg sel upd s = bind_r (resource_mg_free (sel s)) (\<lambda>m. Inr ((), upd m s))"

definition server_runtime_deinit :: "('d, int) handler" where
  "server_runtime_deinit =
     bind_h (free_mg rm_streams (\<lambda>m s. s\<lparr>rm_streams := m\<rparr>)) (\<lambda>_.
     bind_h (free_mg rm_events (\<lambda>m s. s\<lparr>rm_events := m\<rparr>)) (\<lambda>_.
     bind_h (free_mg rm_arrays (\<lambda>m s. s\<lparr>rm_arrays := m\<rparr>)) (\<lambda>_.
     bind_h (free_mg rm_memory (\<lambda>m s. s\<lparr>rm_memory := m\<rparr>)) (\<lambda>_.
     bind_h (free_mg rm_kernels (\<lambda>m s. s\<lparr>rm_kernels := m\<rparr>)) (\<lambda>_.
     bind_h (free_mg rm_cusolver (\<lambda>m s. s\<lparr>rm_cusolver := m\<rparr>)) (\<lambda>_.
     bind_h (free_mg rm_cublas (\<lambda>m s. s\<lparr>rm_cublas := m\<rparr>)) (\<lambda>_.
     bind_h (on_mt (\<lambda>l. bind_r (list_free l) (\<lambda>(_, l). Inr ((), l)))) (\<lambda>_. ret_h 0))))))))"

section \<open>Checkpoint\<close>

definition server_runtime_checkpoint ::
  "'d env \<Rightarrow> string \<Rightarrow> int \<Rightarrow> u64 \<Rightarrow> u64 \<Rightarrow> fsys \<Rightarrow> ('d, int \<times> fsys) handler" where
  "server_runtime_checkpoint E path dump_memory prog vers fs s =
     (let (r, fs) = cr_dump_rpc_id E path prog vers fs in
      if r \<noteq> 0 then Inr ((1, fs), s)
      else bind_r (cr_dump E path (api_records s) fs) (\<lambda>(r, fs).
        if r \<noteq> 0 then Inr ((1, fs), s)
        else if dump_memory = 1
        then bind_r (cr_dump_memory E path fs s) (\<lambda>((r, fs), s).
               Inr ((if r \<noteq> 0 then 1 else 0, fs), s))
        else Inr ((0, fs), s)))"

text \<open>
  Registering a kernel enters the address \<open>dlsym\<close> returns for \<open>dlopen\<close> (0 on failure) under the
  pointer of the client.
\<close>

definition cuda_register_function_1_svc :: "'d env \<Rightarrow> u64 \<Rightarrow> ('d, reply) handler" where
  "cuda_register_function_1_svc E hostFun =
     bind_h (lib_call E ''dlsym'' [Val (Text ''dlopen'')]) (\<lambda>(_, outs) s.
       let serverFun = out64 E outs 0 in
       if serverFun = 0 then Inr (Reply [Int32 1], s)
       else bind_r (resource_mg_add_sorted (heap_ok E) (rm_kernels s) hostFun serverFun) (\<lambda>(r, m).
         Inr (Reply [Int32 (if r \<noteq> 0 then 1 else 0)], s\<lparr>rm_kernels := m\<rparr>)))"

section \<open>Properties\<close>

lemma and_zero: "and (0 :: int) r = 0"
  by simp

definition returns_zero :: "('d, int) handler \<Rightarrow> bool" where
  "returns_zero h \<longleftrightarrow> (\<forall>s r s'. h s = Inr (r, s') \<longrightarrow> r = 0)"

lemma returns_zero_bind: "(\<And>x. returns_zero (f x)) \<Longrightarrow> returns_zero (bind_h m f)"
  by (auto simp: returns_zero_def bind_h_Inr_iff)

lemma returns_zero_chain: "returns_zero m \<Longrightarrow> returns_zero (f 0) \<Longrightarrow> returns_zero (bind_h m f)"
  by (fastforce simp: returns_zero_def bind_h_Inr_iff)

lemma returns_zero_init: "returns_zero (init_mg E sel upd byp 0)"
  by (auto simp: returns_zero_def init_mg_def split: prod.split_asm)

lemma returns_zero_and: "returns_zero (and_ret 0 h)"
  by (auto simp: returns_zero_def and_ret_def bind_h_Inr_iff ret_h_def)

lemma returns_zero_mt: "returns_zero (init_mt_list E)"
  by (auto simp: returns_zero_def init_mt_list_def Let_def split: prod.split_asm if_split_asm)

lemma returns_zero_ret: "returns_zero (ret_h 0)"
  by (simp add: returns_zero_def ret_h_def)

text \<open>The start of the server reports no failure but one of \<open>cudaSetDevice\<close>: the codes of the
  list, of every resource manager and of the restore are combined by \<open>&=\<close> with 0, so a server
  whose restart failed starts as if it had succeeded.\<close>

lemma init_hides_errors:
  assumes "\<forall>d. fst (cuda E ''cudaSetDevice'' [Int32 0] d) = 0"
    and "server_runtime_init E svc fs restore s = Inr (ret, s')"
  shows "ret = 0"
proof -
  have z: "returns_zero (if restore then and_ret 0 h else ret_h 0)"
    "returns_zero (if restore then init_mg E sel upd byp 0 else ret_h 0)" for h sel upd byp
    by (simp_all add: returns_zero_and returns_zero_init returns_zero_ret)
  have dev: "returns_zero (bind_h (lib_call E ''cudaSetDevice'' [I 0]) (\<lambda>(cres, _).
      bind_h (lib_call E ''cudaDeviceSynchronize'' []) (\<lambda>_. ret_h (if cres \<noteq> 0 then 1 else 0))))"
    using assms(1)
    by (auto simp: returns_zero_def bind_h_Inr_iff lib_call_def ret_h_def cuda_call_def
        split: prod.split_asm) (metis fst_conv)+
  have "returns_zero (server_runtime_init E svc fs restore)"
    unfolding server_runtime_init_def Let_def
    by (intro returns_zero_chain returns_zero_mt returns_zero_init returns_zero_and z dev)
  then show ?thesis using assms(2) unfolding returns_zero_def by blast
qed

definition no_files :: fsys where
  "no_files = \<lparr>files = Map.empty, creatable = (\<lambda>_. True), disk_free = 4096\<rparr>"

lemma roomy_init_mg:
  "\<exists>m. init_mg roomy_env sel upd byp ret s = Inr (and ret 0, upd m s)"
proof -
  have "list_init (glibc (\<lambda>_. True)) l 8 = (0, \<lparr>elements = Buf (replicate 4 None), len = 0, capacity = 4, element_size = 8\<rparr>)"
    "list_init (glibc (\<lambda>_. True)) m 16 = (0, \<lparr>elements = Buf (replicate 4 None), len = 0, capacity = 4, element_size = 16\<rparr>)"
    for l :: "u64 clist" and m :: "resource_mg_map_elem clist"
    by (intro list_init_eq; simp add: glibc_def)+
  then show ?thesis by (auto simp: init_mg_def roomy_env_def resource_mg_init_def Let_def)
qed

lemma and_ret_runs: "\<exists>r s'. h s = Inr (r, s') \<Longrightarrow> \<exists>s'. and_ret 0 h s = Inr (0, s')"
  by (auto simp: and_ret_def bind_h_def ret_h_def)

end
