(* ===== verification/ServerBlas.thy ===== *)
theory ServerBlas
  imports Gsched RuntimeDevice
begin

text \<open>
  The handlers for cuBLAS (\<open>cpu/cpu-server-cublas.c\<close>) and cuSOLVER
  (\<open>cpu/cpu-server-cusolver.c\<close>). \<open>fd\<close> is the descriptor of the connection the scheduler gets;
  \<open>float\<close> and \<open>double\<close> scalars are their 32 and 64 bits. The code is taken as compiled against
  cuBLAS 11.
\<close>

section \<open>Scheduled calls\<close>

text \<open>
  A call between \<open>GSCHED_RETAIN\<close> and \<open>GSCHED_RELEASE\<close> that returns a code (\<open>sched_int\<close>, logged by
  \<open>sched_call\<close>), that returns output values (\<open>sched_query\<close>), or that creates an object and enters it
  into a resource manager (\<open>sched_obj\<close>, with its result logged by \<open>sched_new\<close>).
\<close>

definition sched_int :: "'d env \<Rightarrow> int \<Rightarrow> string \<Rightarrow> 'd arg list \<Rightarrow> nat \<Rightarrow> ('d, reply) handler" where
  "sched_int E fd name args i =
     bind_h (scheduled E fd (lib_call E name args)) (\<lambda>(err, _).
       bind_h (set_result i err) (\<lambda>_. ret_h (Reply [Int32 err])))"

definition sched_call ::
  "'d env \<Rightarrow> u32 \<Rightarrow> int \<Rightarrow> nat \<Rightarrow> (nat \<times> u8 list) list \<Rightarrow> string \<Rightarrow> 'd arg list \<Rightarrow> ('d, reply) handler" where
  "sched_call E rq fd sz fs name args =
     recorded E rq sz fs (sched_int E fd name args)"

definition sched_query ::
  "'d env \<Rightarrow> int \<Rightarrow> string \<Rightarrow> 'd arg list \<Rightarrow> (cval list \<Rightarrow> cval list) \<Rightarrow> ('d, reply) handler" where
  "sched_query E fd name args k =
     bind_h (scheduled E fd (lib_call E name args)) (\<lambda>(err, outs). ret_h (Reply (Int32 err # k outs)))"

definition sched_obj ::
  "'d env \<Rightarrow> int \<Rightarrow> ('d server \<Rightarrow> resource_mg) \<Rightarrow> (resource_mg \<Rightarrow> 'd server \<Rightarrow> 'd server) \<Rightarrow> string \<Rightarrow>
   'd arg list \<Rightarrow> ('d, u32 \<times> u64) handler" where
  "sched_obj E fd sel upd name args =
     scheduled E fd
       (bind_h (lib_call E name args) (\<lambda>(err, outs).
        bind_h (create_in E sel upd (out64 E outs 0)) (\<lambda>_. ret_h (err, out64 E outs 0))))"

definition sched_new ::
  "'d env \<Rightarrow> int \<Rightarrow> ('d server \<Rightarrow> resource_mg) \<Rightarrow> (resource_mg \<Rightarrow> 'd server \<Rightarrow> 'd server) \<Rightarrow> string \<Rightarrow>
   'd arg list \<Rightarrow> nat \<Rightarrow> ('d, reply) handler" where
  "sched_new E fd sel upd name args i =
     bind_h (sched_obj E fd sel upd name args) (\<lambda>(err, p).
       bind_h (set_result_ptr i err p) (\<lambda>_. ret_h (Reply [Int32 err, Word64 p])))"

section \<open>cuBLAS\<close>

definition rpc_cublascreate_1_svc :: "'d env \<Rightarrow> u32 \<Rightarrow> int \<Rightarrow> ('d, reply) handler" where
  "rpc_cublascreate_1_svc E rq fd =
     recorded_void E rq (sched_new E fd rm_cublas (\<lambda>m s. s\<lparr>rm_cublas := m\<rparr>) ''cublasCreate_v2'' [])"

definition rpc_cublasdgemm_1_svc ::
  "'d env \<Rightarrow> u32 \<Rightarrow> int \<Rightarrow> u64 \<Rightarrow> u32 \<Rightarrow> u32 \<Rightarrow> u32 \<Rightarrow> u32 \<Rightarrow> u32 \<Rightarrow> u64 \<Rightarrow> u64 \<Rightarrow> u32 \<Rightarrow> u64 \<Rightarrow> u32 \<Rightarrow> u64 \<Rightarrow>
   u64 \<Rightarrow> u32 \<Rightarrow> ('d, reply) handler" where
  "rpc_cublasdgemm_1_svc E rq fd h transa transb m n k alpha A lda B ldb beta C ldc =
     sched_call E rq fd 96
       [(0, i64 h), (8, i32 transa), (12, i32 transb), (16, i32 m), (20, i32 n), (24, i32 k),
        (32, i64 alpha), (40, i64 A), (48, i32 lda), (56, i64 B), (64, i32 ldb), (72, i64 beta),
        (80, i64 C), (88, i32 ldc)]
       ''cublasDgemm''
       [Handle rm_cublas h, I transa, I transb, I m, I n, I k, W alpha, Handle rm_memory A, I lda,
        Handle rm_memory B, I ldb, W beta, Handle rm_memory C, I ldc]"

definition rpc_cublasdestroy_1_svc :: "'d env \<Rightarrow> u32 \<Rightarrow> int \<Rightarrow> u64 \<Rightarrow> ('d, reply) handler" where
  "rpc_cublasdestroy_1_svc E rq fd h =
     sched_call E rq fd 8 [(0, i64 h)] ''cublasDestroy_v2'' [Handle rm_cublas h]"

definition rpc_cublassetworkspace_1_svc :: "'d env \<Rightarrow> u32 \<Rightarrow> int \<Rightarrow> u64 \<Rightarrow> u64 \<Rightarrow> u64 \<Rightarrow> ('d, reply) handler" where
  "rpc_cublassetworkspace_1_svc E rq fd h workspace workspaceSizeInBytes =
     sched_call E rq fd 24 [(0, i64 h), (8, i64 workspace), (16, i64 workspaceSizeInBytes)]
       ''cublasSetWorkspace'' [Handle rm_cublas h, Handle rm_memory workspace, W workspaceSizeInBytes]"

definition rpc_cublassetstream_1_svc :: "'d env \<Rightarrow> u32 \<Rightarrow> int \<Rightarrow> u64 \<Rightarrow> u64 \<Rightarrow> ('d, reply) handler" where
  "rpc_cublassetstream_1_svc E rq fd h streamId =
     sched_call E rq fd 16 [(0, i64 h), (8, i64 streamId)] ''cublasSetStream''
       [Handle rm_cublas h, Handle rm_streams streamId]"

definition rpc_cublassetmathmode_1_svc :: "'d env \<Rightarrow> u32 \<Rightarrow> int \<Rightarrow> u64 \<Rightarrow> u32 \<Rightarrow> ('d, reply) handler" where
  "rpc_cublassetmathmode_1_svc E rq fd h mode =
     sched_call E rq fd 16 [(0, i64 h), (8, i32 mode)] ''cublasSetMathMode'' [Handle rm_cublas h, I mode]"

definition rpc_cublassgemm_1_svc ::
  "'d env \<Rightarrow> u32 \<Rightarrow> int \<Rightarrow> u64 \<Rightarrow> u32 \<Rightarrow> u32 \<Rightarrow> u32 \<Rightarrow> u32 \<Rightarrow> u32 \<Rightarrow> u32 \<Rightarrow> u64 \<Rightarrow> u32 \<Rightarrow> u64 \<Rightarrow> u32 \<Rightarrow> u32 \<Rightarrow>
   u64 \<Rightarrow> u32 \<Rightarrow> ('d, reply) handler" where
  "rpc_cublassgemm_1_svc E rq fd h transa transb m n k alpha A lda B ldb beta C ldc =
     sched_call E rq fd 80
       [(0, i64 h), (8, i32 transa), (12, i32 transb), (16, i32 m), (20, i32 n), (24, i32 k),
        (28, i32 alpha), (32, i64 A), (40, i32 lda), (48, i64 B), (56, i32 ldb), (60, i32 beta),
        (64, i64 C), (72, i32 ldc)]
       ''cublasSgemm''
       [Handle rm_cublas h, I transa, I transb, I m, I n, I k, I alpha, Handle rm_memory A, I lda,
        Handle rm_memory B, I ldb, I beta, Handle rm_memory C, I ldc]"

definition rpc_cublassgemv_1_svc ::
  "'d env \<Rightarrow> u32 \<Rightarrow> int \<Rightarrow> u64 \<Rightarrow> u32 \<Rightarrow> u32 \<Rightarrow> u32 \<Rightarrow> u32 \<Rightarrow> u64 \<Rightarrow> u32 \<Rightarrow> u64 \<Rightarrow> u32 \<Rightarrow> u32 \<Rightarrow> u64 \<Rightarrow> u32 \<Rightarrow>
   ('d, reply) handler" where
  "rpc_cublassgemv_1_svc E rq fd h trans' m n alpha A lda x incx beta y incy =
     sched_call E rq fd 72
       [(0, i64 h), (8, i32 trans'), (12, i32 m), (16, i32 n), (20, i32 alpha), (24, i64 A), (32, i32 lda),
        (40, i64 x), (48, i32 incx), (52, i32 beta), (56, i64 y), (64, i32 incy)]
       ''cublasSgemv''
       [Handle rm_cublas h, I trans', I m, I n, I alpha, Handle rm_memory A, I lda, Handle rm_memory x,
        I incx, I beta, Handle rm_memory y, I incy]"

definition rpc_cublasdgemv_1_svc ::
  "'d env \<Rightarrow> u32 \<Rightarrow> int \<Rightarrow> u64 \<Rightarrow> u32 \<Rightarrow> u32 \<Rightarrow> u32 \<Rightarrow> u64 \<Rightarrow> u64 \<Rightarrow> u32 \<Rightarrow> u64 \<Rightarrow> u32 \<Rightarrow> u64 \<Rightarrow> u64 \<Rightarrow> u32 \<Rightarrow>
   ('d, reply) handler" where
  "rpc_cublasdgemv_1_svc E rq fd h trans' m n alpha A lda x incx beta y incy =
     sched_call E rq fd 88
       [(0, i64 h), (8, i32 trans'), (12, i32 m), (16, i32 n), (24, i64 alpha), (32, i64 A), (40, i32 lda),
        (48, i64 x), (56, i32 incx), (64, i64 beta), (72, i64 y), (80, i32 incy)]
       ''cublasDgemv''
       [Handle rm_cublas h, I trans', I m, I n, W alpha, Handle rm_memory A, I lda, Handle rm_memory x,
        I incx, W beta, Handle rm_memory y, I incy]"

definition rpc_cublassgemmex_1_svc ::
  "'d env \<Rightarrow> u32 \<Rightarrow> int \<Rightarrow> u64 \<Rightarrow> u32 \<Rightarrow> u32 \<Rightarrow> u32 \<Rightarrow> u32 \<Rightarrow> u32 \<Rightarrow> u32 \<Rightarrow> u64 \<Rightarrow> u32 \<Rightarrow> u32 \<Rightarrow> u64 \<Rightarrow> u32 \<Rightarrow> u32 \<Rightarrow>
   u32 \<Rightarrow> u64 \<Rightarrow> u32 \<Rightarrow> u32 \<Rightarrow> ('d, reply) handler" where
  "rpc_cublassgemmex_1_svc E rq fd h transa transb m n k alpha A Atype lda B Btype ldb beta C Ctype ldc =
     sched_call E rq fd 88
       [(0, i64 h), (8, i32 transa), (12, i32 transb), (16, i32 m), (20, i32 n), (24, i32 k),
        (28, i32 alpha), (32, i64 A), (40, i32 Atype), (44, i32 lda), (48, i64 B), (56, i32 Btype),
        (60, i32 ldb), (64, i32 beta), (72, i64 C), (80, i32 Ctype), (84, i32 ldc)]
       ''cublasSgemmEx''
       [Handle rm_cublas h, I transa, I transb, I m, I n, I k, I alpha, Handle rm_memory A, I Atype, I lda,
        Handle rm_memory B, I Btype, I ldb, I beta, Handle rm_memory C, I Ctype, I ldc]"

definition rpc_cublasgetmathmode_1_svc :: "'d env \<Rightarrow> int \<Rightarrow> u64 \<Rightarrow> ('d, reply) handler" where
  "rpc_cublasgetmathmode_1_svc E fd h =
     sched_query E fd ''cublasGetMathMode'' [Handle rm_cublas h] (\<lambda>outs. [Int32 (out32 E outs 0)])"

text \<open>The three calls below write device memory and are not recorded.\<close>

definition rpc_cublasgemmstridedbatchedex_1_svc ::
  "'d env \<Rightarrow> int \<Rightarrow> u64 \<Rightarrow> u32 \<Rightarrow> u32 \<Rightarrow> u32 \<Rightarrow> u32 \<Rightarrow> u32 \<Rightarrow> u32 \<Rightarrow> u64 \<Rightarrow> u32 \<Rightarrow> u32 \<Rightarrow> u64 \<Rightarrow> u64 \<Rightarrow> u32 \<Rightarrow> u32 \<Rightarrow>
   u64 \<Rightarrow> u32 \<Rightarrow> u64 \<Rightarrow> u32 \<Rightarrow> u32 \<Rightarrow> u64 \<Rightarrow> u32 \<Rightarrow> u32 \<Rightarrow> u32 \<Rightarrow> ('d, reply) handler" where
  "rpc_cublasgemmstridedbatchedex_1_svc E fd h transa transb m n k alpha A Atype lda strideA B Btype ldb
      strideB beta C Ctype ldc strideC batchCount computeType algo =
     sched_query E fd ''cublasGemmStridedBatchedEx''
       [Handle rm_cublas h, I transa, I transb, I m, I n, I k, I alpha, Handle rm_memory A, I Atype, I lda,
        W strideA, Handle rm_memory B, I Btype, I ldb, W strideB, I beta, Handle rm_memory C, I Ctype,
        I ldc, W strideC, I batchCount, I computeType, I algo] (\<lambda>_. [])"

definition rpc_cublasgemmex_1_svc ::
  "'d env \<Rightarrow> int \<Rightarrow> u64 \<Rightarrow> u32 \<Rightarrow> u32 \<Rightarrow> u32 \<Rightarrow> u32 \<Rightarrow> u32 \<Rightarrow> u32 \<Rightarrow> u64 \<Rightarrow> u32 \<Rightarrow> u32 \<Rightarrow> u64 \<Rightarrow> u32 \<Rightarrow> u32 \<Rightarrow> u32 \<Rightarrow>
   u64 \<Rightarrow> u32 \<Rightarrow> u32 \<Rightarrow> u32 \<Rightarrow> u32 \<Rightarrow> ('d, reply) handler" where
  "rpc_cublasgemmex_1_svc E fd h transa transb m n k alpha A Atype lda B Btype ldb beta C Ctype ldc
      computeType algo =
     sched_query E fd ''cublasGemmEx''
       [Handle rm_cublas h, I transa, I transb, I m, I n, I k, I alpha, Handle rm_memory A, I Atype, I lda,
        Handle rm_memory B, I Btype, I ldb, I beta, Handle rm_memory C, I Ctype, I ldc, I computeType,
        I algo] (\<lambda>_. [])"

definition rpc_cublasgemmstridedbatched_1_svc ::
  "'d env \<Rightarrow> int \<Rightarrow> u64 \<Rightarrow> u32 \<Rightarrow> u32 \<Rightarrow> u32 \<Rightarrow> u32 \<Rightarrow> u32 \<Rightarrow> u32 \<Rightarrow> u64 \<Rightarrow> u32 \<Rightarrow> u64 \<Rightarrow> u64 \<Rightarrow> u32 \<Rightarrow> u64 \<Rightarrow> u32 \<Rightarrow>
   u64 \<Rightarrow> u32 \<Rightarrow> u64 \<Rightarrow> u32 \<Rightarrow> ('d, reply) handler" where
  "rpc_cublasgemmstridedbatched_1_svc E fd h transa transb m n k alpha A lda strideA B ldb strideB beta C
      ldc strideC batchCount =
     sched_query E fd ''cublasSgemmStridedBatched''
       [Handle rm_cublas h, I transa, I transb, I m, I n, I k, I alpha, Handle rm_memory A, I lda, W strideA,
        Handle rm_memory B, I ldb, W strideB, I beta, Handle rm_memory C, I ldc, W strideC, I batchCount]
       (\<lambda>_. [])"

section \<open>cuSOLVER\<close>

definition rpc_cusolverdncreate_1_svc :: "'d env \<Rightarrow> u32 \<Rightarrow> ('d, reply) handler" where
  "rpc_cusolverdncreate_1_svc E rq =
     recorded_void E rq (\<lambda>i.
       bind_h (lib_call E ''cusolverDnCreate'' []) (\<lambda>(err, outs).
       bind_h (set_result_ptr i err (out64 E outs 0)) (\<lambda>_.
       bind_h (create_in E rm_cusolver (\<lambda>m s. s\<lparr>rm_cusolver := m\<rparr>) (out64 E outs 0)) (\<lambda>_.
         ret_h (Reply [Int32 err, Word64 (out64 E outs 0)])))))"

definition rpc_cusolverdnsetstream_1_svc :: "'d env \<Rightarrow> u32 \<Rightarrow> u64 \<Rightarrow> u64 \<Rightarrow> ('d, reply) handler" where
  "rpc_cusolverdnsetstream_1_svc E rq h stream =
     logged_call E rq 16 [(0, i64 h), (8, i64 stream)] ''cusolverDnSetStream''
       [Handle rm_cusolver h, Handle rm_streams stream]"

definition rpc_cusolverdndgetrf_buffersize_1_svc ::
  "'d env \<Rightarrow> u64 \<Rightarrow> u32 \<Rightarrow> u32 \<Rightarrow> u64 \<Rightarrow> u32 \<Rightarrow> ('d, reply) handler" where
  "rpc_cusolverdndgetrf_buffersize_1_svc E h m n A lda =
     query_call E ''cusolverDnDgetrf_bufferSize'' [Handle rm_cusolver h, I m, I n, Handle rm_memory A, I lda]
       (\<lambda>outs. [Int32 (out32 E outs 0)])"

definition rpc_cusolverdndgetrf_1_svc ::
  "'d env \<Rightarrow> u64 \<Rightarrow> u32 \<Rightarrow> u32 \<Rightarrow> u64 \<Rightarrow> u32 \<Rightarrow> u64 \<Rightarrow> u64 \<Rightarrow> u64 \<Rightarrow> ('d, reply) handler" where
  "rpc_cusolverdndgetrf_1_svc E h m n A lda Workspace devIpiv devInfo =
     query_call E ''cusolverDnDgetrf''
       [Handle rm_cusolver h, I m, I n, Handle rm_memory A, I lda, Handle rm_memory Workspace,
        Handle rm_memory devIpiv, Handle rm_memory devInfo] (\<lambda>_. [])"

definition rpc_cusolverdndgetrs_1_svc ::
  "'d env \<Rightarrow> u64 \<Rightarrow> u32 \<Rightarrow> u32 \<Rightarrow> u32 \<Rightarrow> u64 \<Rightarrow> u32 \<Rightarrow> u64 \<Rightarrow> u64 \<Rightarrow> u32 \<Rightarrow> u64 \<Rightarrow> ('d, reply) handler" where
  "rpc_cusolverdndgetrs_1_svc E h trans' n nrhs A lda devIpiv B ldb devInfo =
     query_call E ''cusolverDnDgetrs''
       [Handle rm_cusolver h, I trans', I n, I nrhs, Handle rm_memory A, I lda, Handle rm_memory devIpiv,
        Handle rm_memory B, I ldb, Handle rm_memory devInfo] (\<lambda>_. [])"

definition rpc_cusolverdndestroy_1_svc :: "'d env \<Rightarrow> u32 \<Rightarrow> u64 \<Rightarrow> ('d, reply) handler" where
  "rpc_cusolverdndestroy_1_svc E rq h =
     logged_call E rq 8 [(0, i64 h)] ''cusolverDnDestroy'' [Handle rm_cusolver h]"

section \<open>The log\<close>

lemma extends_sched_int [log_intros]:
  "n \<le> i \<Longrightarrow> i < k \<Longrightarrow> extends_log E n k (sched_int E' fd name args i)"
  unfolding sched_int_def by (intro log_intros)

lemma extends_sched_obj [log_intros]:
  "(\<And>m s. api_records (upd m s) = api_records s) \<Longrightarrow> extends_log E n k (sched_obj E' fd sel upd name args)"
  unfolding sched_obj_def by (intro log_intros)

lemma extends_sched_new [log_intros]:
  "(\<And>m s. api_records (upd m s) = api_records s) \<Longrightarrow> n \<le> i \<Longrightarrow> i < k \<Longrightarrow>
   extends_log E n k (sched_new E' fd sel upd name args i)"
  unfolding sched_new_def by (intro log_intros)

lemma extends_sched_call [log_intros]:
  "steady E \<Longrightarrow> sz \<le> 1024 \<Longrightarrow> proc_size rq \<le> sz \<Longrightarrow> n \<le> k \<Longrightarrow>
   extends_log E n k (sched_call E rq fd sz fs name args)"
  unfolding sched_call_def by (intro log_intros) simp_all

lemma extends_sched_query [log_intros]: "extends_log E n k (sched_query E' fd name args g)"
  unfolding sched_query_def by (intro log_intros)

end
