(* ===== verification/ServerDriver.thy ===== *)
theory ServerDriver
  imports Gsched RuntimeLaunch ServerBlas
begin

text \<open>
  The handlers for the CUDA driver API and the registration of modules, kernels and variables
  (\<open>cpu/cpu-server-driver.c\<close>). A string argument is its address and its characters.
\<close>

type_synonym rpc_string = "u64 \<times> string"

section \<open>Start and end\<close>

definition server_driver_init :: "'d env \<Rightarrow> bool \<Rightarrow> ('d, int) handler" where
  "server_driver_init E restore s =
     (let (r1, m1) = resource_mg_init (heap_ok E) (rm_modules s) 0;
          (r2, m2) = resource_mg_init (heap_ok E) (rm_functions s) 0;
          (r3, m3) = resource_mg_init (heap_ok E) (rm_globals s) 0
      in Inr (and (and (and 0 r1) r2) r3, s\<lparr>rm_modules := m1, rm_functions := m2, rm_globals := m3\<rparr>))"

definition server_driver_deinit :: "('d, int) handler" where
  "server_driver_deinit s =
     bind_r (resource_mg_free (rm_modules s)) (\<lambda>m.
     bind_r (resource_mg_free (rm_functions s)) (\<lambda>f.
       Inr (0, s\<lparr>rm_modules := m, rm_functions := f\<rparr>)))"

text \<open>Entering a translation into a manager: the code of \<open>resource_mg_add_sorted\<close>.\<close>

definition add_in ::
  "'d env \<Rightarrow> ('d server \<Rightarrow> resource_mg) \<Rightarrow> (resource_mg \<Rightarrow> 'd server \<Rightarrow> 'd server) \<Rightarrow> u64 \<Rightarrow> u64 \<Rightarrow>
   ('d, int) handler" where
  "add_in E sel upd k v s =
     bind_r (resource_mg_add_sorted (heap_ok E) (sel s) k v) (\<lambda>(r, m). Inr (r, upd m s))"

section \<open>Modules, kernels and variables\<close>

definition rpc_elf_load_1_svc :: "'d env \<Rightarrow> mem_data \<Rightarrow> u64 \<Rightarrow> ('d, reply) handler" where
  "rpc_elf_load_1_svc E elf module_key =
     bind_h (lib_call E ''cuModuleLoadData'' [Val (Bytes (mem_val elf))]) (\<lambda>(res, outs).
       if res \<noteq> 0 then ret_h (Reply [Int32 res])
       else bind_h (add_in E rm_modules (\<lambda>m s. s\<lparr>rm_modules := m\<rparr>) module_key (out64 E outs 0)) (\<lambda>r.
         ret_h (Reply [Int32 (of_int r)])))"

definition rpc_elf_unload_1_svc :: "'d env \<Rightarrow> u64 \<Rightarrow> ('d, reply) handler" where
  "rpc_elf_unload_1_svc E elf_handle =
     bind_h (handle rm_modules elf_handle) (\<lambda>module.
       if module = 0 then ret_h (Reply [Int32 (- 1)])
       else bind_h (lib_call E ''cuModuleUnload'' [W module]) (\<lambda>(res, _).
         if res \<noteq> 0
         then bind_h (lib_call E ''cuGetErrorString'' [I res]) (\<lambda>_. ret_h (Reply [Int32 res]))
         else ret_h (Reply [Int32 0])))"

text \<open>A module that the manager translates to itself counts as unknown.\<close>

definition rpc_register_function_1_svc ::
  "'d env \<Rightarrow> u32 \<Rightarrow> int \<Rightarrow> u64 \<Rightarrow> u64 \<Rightarrow> rpc_string \<Rightarrow> rpc_string \<Rightarrow> u32 \<Rightarrow> ('d, reply) handler" where
  "rpc_register_function_1_svc E rq fd fatCubinHandle hostFun deviceFun deviceName thread_limit =
     recorded E rq 40 [(0, i64 fatCubinHandle), (8, i64 hostFun), (16, i64 (fst deviceFun)),
         (24, i64 (fst deviceName)), (32, i32 thread_limit)] (\<lambda>i.
       bind_h (gsched_none_retain E fd) (\<lambda>_.
       bind_h (handle rm_modules fatCubinHandle) (\<lambda>module.
         if module = fatCubinHandle then ret_h (Reply [Int32 (- 1)])
         else bind_h (lib_call E ''cuModuleGetFunction'' [W module, Val (Text (snd deviceName))]) (\<lambda>(err, outs).
           bind_h (add_in E rm_functions (\<lambda>m s. s\<lparr>rm_functions := m\<rparr>) hostFun (out64 E outs 0)) (\<lambda>_.
           bind_h (gsched_none_release fd) (\<lambda>_.
           bind_h (set_result_ptr i err (out64 E outs 0)) (\<lambda>_.
             ret_h (Reply [Int32 err, Word64 (out64 E outs 0)]))))))))"

definition rpc_register_var_1_svc ::
  "'d env \<Rightarrow> u32 \<Rightarrow> int \<Rightarrow> u64 \<Rightarrow> u64 \<Rightarrow> u64 \<Rightarrow> rpc_string \<Rightarrow> u32 \<Rightarrow> u64 \<Rightarrow> u32 \<Rightarrow> u32 \<Rightarrow> ('d, reply) handler" where
  "rpc_register_var_1_svc E rq fd fatCubinHandle hostVar deviceAddress deviceName ext' sz constant global' =
     recorded E rq 56 [(0, i64 fatCubinHandle), (8, i64 hostVar), (16, i64 deviceAddress),
         (24, i64 (fst deviceName)), (32, i32 ext'), (40, i64 sz), (48, i32 constant), (52, i32 global')] (\<lambda>i.
       bind_h (gsched_none_retain E fd) (\<lambda>_.
       bind_h (handle rm_modules fatCubinHandle) (\<lambda>module.
         if module = fatCubinHandle then ret_h (Reply [Int32 (- 1)])
         else bind_h (lib_call E ''cuModuleGetGlobal'' [W module, Val (Text (snd deviceName))]) (\<lambda>(res, outs).
           if res \<noteq> 0 then ret_h (Reply [Int32 1])
           else bind_h (add_in E rm_globals (\<lambda>m s. s\<lparr>rm_globals := m\<rparr>) hostVar
                  (case outs of Word64 w # _ \<Rightarrow> w | _ \<Rightarrow> 0)) (\<lambda>r.
             let code = (if r \<noteq> 0 then 1 else 0) in
             bind_h (gsched_none_release fd) (\<lambda>_.
             bind_h (set_result i code) (\<lambda>_. ret_h (Reply [Int32 code]))))))))"

section \<open>Devices and contexts\<close>

definition rpc_cudevicegetcount_1_svc :: "'d env \<Rightarrow> ('d, reply) handler" where
  "rpc_cudevicegetcount_1_svc E = query_call E ''cuDeviceGetCount'' [] (\<lambda>outs. [Int32 (out32 E outs 0)])"

definition rpc_cuinit_1_svc :: "'d env \<Rightarrow> u32 \<Rightarrow> ('d, reply) handler" where
  "rpc_cuinit_1_svc E argp = query_call E ''cuInit'' [I argp] (\<lambda>_. [])"

definition rpc_cudrivergetversion_1_svc :: "'d env \<Rightarrow> ('d, reply) handler" where
  "rpc_cudrivergetversion_1_svc E = query_call E ''cuDriverGetVersion'' [] (\<lambda>outs. [Int32 (out32 E outs 0)])"

definition rpc_cudeviceget_1_svc :: "'d env \<Rightarrow> int \<Rightarrow> u32 \<Rightarrow> ('d, reply) handler" where
  "rpc_cudeviceget_1_svc E fd ordinal =
     sched_query E fd ''cuDeviceGet'' [I ordinal] (\<lambda>outs. [Int32 (out32 E outs 0)])"

definition rpc_cudevicegetname_1_svc :: "'d env \<Rightarrow> int \<Rightarrow> u32 \<Rightarrow> ('d, reply) handler" where
  "rpc_cudevicegetname_1_svc E fd dev =
     sched_query E fd ''cuDeviceGetName'' [W (if heap_ok E 128 then fresh_word E else 0), I 128, I dev]
       (\<lambda>outs. [Text (out_text outs)])"

definition rpc_cudevicetotalmem_1_svc :: "'d env \<Rightarrow> int \<Rightarrow> u32 \<Rightarrow> ('d, reply) handler" where
  "rpc_cudevicetotalmem_1_svc E fd dev =
     sched_query E fd ''cuDeviceTotalMem'' [I dev] (\<lambda>outs. [Word64 (out64 E outs 0)])"

definition rpc_cudevicegetattribute_1_svc :: "'d env \<Rightarrow> int \<Rightarrow> u32 \<Rightarrow> u32 \<Rightarrow> ('d, reply) handler" where
  "rpc_cudevicegetattribute_1_svc E fd attr dev =
     sched_query E fd ''cuDeviceGetAttribute'' [I attr, I dev] (\<lambda>outs. [Int32 (out32 E outs 0)])"

text \<open>The string the bytes are copied to was never allocated.\<close>

definition rpc_cudevicegetuuid_1_svc :: "'d env \<Rightarrow> int \<Rightarrow> u32 \<Rightarrow> ('d, reply) handler" where
  "rpc_cudevicegetuuid_1_svc E fd dev =
     bind_h (scheduled E fd (lib_call E ''cuDeviceGetUuid'' [I dev])) (\<lambda>(err, _).
       if err = 0 then (\<lambda>s. Inl Uninit_Read) else ret_h (Reply [Int32 err]))"

definition rpc_cuctxgetcurrent_1_svc :: "'d env \<Rightarrow> int \<Rightarrow> ('d, reply) handler" where
  "rpc_cuctxgetcurrent_1_svc E fd =
     bind_h (scheduled E fd (lib_call E ''cuCtxGetCurrent'' [])) (\<lambda>(err, outs).
       let p = out64 E outs 0 in
       bind_h (if p \<noteq> 0 then bind_h (lib_call E ''cuCtxGetApiVersion'' [W p]) (\<lambda>_. ret_h ()) else ret_h ())
         (\<lambda>_. ret_h (Reply [Int32 err, Word64 p])))"

definition rpc_cuctxsetcurrent_1_svc :: "'d env \<Rightarrow> u64 \<Rightarrow> ('d, reply) handler" where
  "rpc_cuctxsetcurrent_1_svc E p = query_call E ''cuCtxSetCurrent'' [W p] (\<lambda>_. [])"

definition rpc_cudeviceprimaryctxretain_1_svc :: "'d env \<Rightarrow> u32 \<Rightarrow> ('d, reply) handler" where
  "rpc_cudeviceprimaryctxretain_1_svc E dev =
     query_call E ''cuDevicePrimaryCtxRetain'' [I dev] (\<lambda>outs. [Word64 (out64 E outs 0)])"

text \<open>The module is looked up among the streams.\<close>

definition rpc_cumodulegetfunction_1_svc ::
  "'d env \<Rightarrow> u32 \<Rightarrow> int \<Rightarrow> u64 \<Rightarrow> rpc_string \<Rightarrow> ('d, reply) handler" where
  "rpc_cumodulegetfunction_1_svc E rq fd module name =
     recorded E rq 16 [(0, i64 module), (8, i64 (fst name))] (\<lambda>i.
       bind_h (scheduled E fd (lib_call E ''cuModuleGetFunction''
           [Handle rm_streams module, Val (Text (snd name))])) (\<lambda>(err, outs).
       bind_h (create_in E rm_functions (\<lambda>m s. s\<lparr>rm_functions := m\<rparr>) (out64 E outs 0)) (\<lambda>_.
       bind_h (set_result_ptr i err (out64 E outs 0)) (\<lambda>_.
         ret_h (Reply [Int32 err, Word64 (out64 E outs 0)])))))"

definition load_module :: "'d env \<Rightarrow> int \<Rightarrow> string \<Rightarrow> 'd arg list \<Rightarrow> nat \<Rightarrow> ('d, reply) handler" where
  "load_module E fd name args i =
     bind_h (scheduled E fd (lib_call E name args)) (\<lambda>(err, outs).
     bind_h (create_in E rm_modules (\<lambda>m s. s\<lparr>rm_modules := m\<rparr>) (out64 E outs 0)) (\<lambda>_.
     bind_h (if err \<noteq> 0 then bind_h (lib_call E ''cuGetErrorName'' [I err]) (\<lambda>_. ret_h ()) else ret_h ()) (\<lambda>_.
     bind_h (set_result_ptr i err (out64 E outs 0)) (\<lambda>_.
       ret_h (Reply [Int32 err, Word64 (out64 E outs 0)])))))"

definition rpc_cumoduleloaddata_1_svc :: "'d env \<Rightarrow> u32 \<Rightarrow> int \<Rightarrow> mem_data \<Rightarrow> ('d, reply) handler" where
  "rpc_cumoduleloaddata_1_svc E rq fd mem =
     recorded E rq 16 [(0, i32 (of_nat (length (mem_val mem)))), (8, i64 (mem_addr mem))]
       (load_module E fd ''cuModuleLoadData'' [Val (Bytes (mem_val mem))])"

definition rpc_cumoduleload_1_svc :: "'d env \<Rightarrow> u32 \<Rightarrow> int \<Rightarrow> rpc_string \<Rightarrow> ('d, reply) handler" where
  "rpc_cumoduleload_1_svc E rq fd path =
     recorded E rq 8 [(0, i64 (fst path))] (load_module E fd ''cuModuleLoad'' [Val (Text (snd path))])"

definition rpc_cumoduleunload_1_svc :: "'d env \<Rightarrow> u32 \<Rightarrow> int \<Rightarrow> u64 \<Rightarrow> ('d, reply) handler" where
  "rpc_cumoduleunload_1_svc E rq fd module =
     sched_call E rq fd 8 [(0, i64 module)] ''cuModuleUnload'' [Handle rm_modules module]"

text \<open>For an unknown code the library leaves the string NULL, which \<open>strncpy\<close> then reads.\<close>

definition rpc_cugeterrorstring_1_svc :: "'d env \<Rightarrow> u32 \<Rightarrow> ('d, reply) handler" where
  "rpc_cugeterrorstring_1_svc E err =
     bind_h (lib_call E ''cuGetErrorString'' [I err]) (\<lambda>(r, outs).
       if \<not> heap_ok E 128 then ret_h (Reply [Int32 r])
       else case outs of Text t # _ \<Rightarrow> ret_h (Reply [Int32 r, Text (take 128 t)])
         | _ \<Rightarrow> (\<lambda>s. Inl Null_Deref))"

definition rpc_cudeviceprimaryctxgetstate_1_svc :: "'d env \<Rightarrow> int \<Rightarrow> u32 \<Rightarrow> ('d, reply) handler" where
  "rpc_cudeviceprimaryctxgetstate_1_svc E fd dev =
     sched_query E fd ''cuDevicePrimaryCtxGetState'' [I dev]
       (\<lambda>outs. [Int32 (out32 E outs 0), Int32 (out32 E outs 1)])"

definition sizeof_CUdevprop :: nat where
  "sizeof_CUdevprop = 56"

definition rpc_cudevicegetproperties_1_svc :: "'d env \<Rightarrow> int \<Rightarrow> u32 \<Rightarrow> ('d, reply) handler" where
  "rpc_cudevicegetproperties_1_svc E fd dev =
     sched_query E fd ''cuDeviceGetProperties''
       [W (if heap_ok E sizeof_CUdevprop then fresh_word E else 0), I dev]
       (\<lambda>outs. [Bytes (out_bytes E outs 0 sizeof_CUdevprop)])"

definition rpc_cudevicecomputecapability_1_svc :: "'d env \<Rightarrow> int \<Rightarrow> u32 \<Rightarrow> ('d, reply) handler" where
  "rpc_cudevicecomputecapability_1_svc E fd dev =
     sched_query E fd ''cuDeviceComputeCapability'' [I dev]
       (\<lambda>outs. [Int32 (out32 E outs 0), Int32 (out32 E outs 1)])"

definition rpc_cumemalloc_1_svc :: "'d env \<Rightarrow> int \<Rightarrow> u64 \<Rightarrow> ('d, reply) handler" where
  "rpc_cumemalloc_1_svc E fd sz =
     sched_query E fd ''cuMemAlloc_v2'' [W sz] (\<lambda>outs. [Word64 (out64 E outs 0)])"

definition rpc_cuctxgetdevice_1_svc :: "'d env \<Rightarrow> int \<Rightarrow> ('d, reply) handler" where
  "rpc_cuctxgetdevice_1_svc E fd =
     sched_query E fd ''cuCtxGetDevice'' [] (\<lambda>outs. [Int32 (out32 E outs 0)])"

definition rpc_cumemcpyhtod_1_svc :: "'d env \<Rightarrow> int \<Rightarrow> u64 \<Rightarrow> mem_data \<Rightarrow> ('d, reply) handler" where
  "rpc_cumemcpyhtod_1_svc E fd dptr hptr =
     sched_query E fd ''cuMemcpyHtoD_v2''
       [W dptr, Val (Bytes (mem_val hptr)), W (of_nat (length (mem_val hptr)))] (\<lambda>_. [])"

text \<open>
  The launch checks the length of the buffer against \<open>8 + 2 * param_num\<close>, computed modulo
  \<open>2 ^ 64\<close>. The stream is passed on without translation; nothing is recorded.
\<close>

definition CUDA_ERROR_INVALID_VALUE :: u32 where
  "CUDA_ERROR_INVALID_VALUE = 1"

definition rpc_culaunchkernel_1_svc :: "'d env \<Rightarrow> int \<Rightarrow> launch \<Rightarrow> ('d, reply) handler" where
  "rpc_culaunchkernel_1_svc E fd l s =
     (let m = mem_val (l_args l) in
      if mem_addr (l_args l) = 0 then Inr (Reply [Int32 CUDA_ERROR_INVALID_VALUE], s)
      else if length m < 8 then Inr (Reply [Int32 CUDA_ERROR_INVALID_VALUE], s)
      else bind_r (rd m 0 8) (\<lambda>param_num.
        if length m < wrap64 (8 + wrap64 (2 * param_num)) then Inr (Reply [Int32 CUDA_ERROR_INVALID_VALUE], s)
        else bind_r (kernel_params E (Some (resource_mg_get (rm_memory s))) m) (\<lambda>(as, m).
          sched_query E fd ''cuLaunchKernel''
            ([Handle rm_functions (l_func l)] @ dim_args (l_grid l) @ dim_args (l_block l) @
             [I (ucast (l_shared l)), W (l_stream l)] @ param_vals as m) (\<lambda>_. []) s)))"

definition rpc_cudevicegetp2pattribute_1_svc ::
  "'d env \<Rightarrow> int \<Rightarrow> u32 \<Rightarrow> u64 \<Rightarrow> u64 \<Rightarrow> ('d, reply) handler" where
  "rpc_cudevicegetp2pattribute_1_svc E fd attrib srcDevice dstDevice =
     sched_query E fd ''cuDeviceGetP2PAttribute'' [I attrib, I (ucast srcDevice), I (ucast dstDevice)]
       (\<lambda>outs. [Int32 (out32 E outs 0)])"

end
