(* ===== verification/ServerCudnn.thy ===== *)
theory ServerCudnn
  imports ServerRuntime ServerBlas
begin

text \<open>
  The handlers for cuDNN (\<open>cpu/cpu-server-cudnn.c\<close>): one per procedure, with its start and end.
  \<open>fd\<close> is the descriptor of the connection the scheduler gets; \<open>double\<close> values are their 64 bits.
  Output arrays are written into one buffer at offsets the handler computes: a write of the library
  beyond the end of the buffer is the fault \<open>Out_Of_Bounds\<close>. The sizes and enumeration values are
  those of the cuDNN 8 headers.
\<close>

section \<open>Shared parts\<close>

text \<open>
  A scaling factor of the protocol (\<open>cudnn_scaling_t\<close>): the type, and the eight bytes of the union of
  a \<open>float\<close> and a \<open>double\<close>. The library gets the address of the member the type selects
  (\<open>CUDNN_DATA_DOUBLE\<close> is 1).
\<close>

record scaling =
  sc_type :: u32
  sc_val :: u64

definition scaling_arg :: "scaling \<Rightarrow> cval" where
  "scaling_arg sc = (if sc_type sc = 1 then Word64 (sc_val sc) else Int32 (ucast (sc_val sc)))"

definition mem_len :: "mem_data \<Rightarrow> u32" where
  "mem_len m = of_nat (length (mem_val m))"

text \<open>\<open>mem_data_len == nbDims * sizeof(int)\<close>: the product is a \<open>size_t\<close>.\<close>

definition dims_ok :: "mem_data \<Rightarrow> u32 \<Rightarrow> bool" where
  "dims_ok m n \<longleftrightarrow> (ucast (mem_len m) :: u64) = scast n * 4"

text \<open>A handle of one of the managers of cuDNN, and the update of such a manager.\<close>

abbreviation Dn :: "(cudnn_managers \<Rightarrow> resource_mg) \<Rightarrow> u64 \<Rightarrow> 'd arg" where
  "Dn f h \<equiv> Handle (\<lambda>s. f (cudnn s)) h"

abbreviation set_dn ::
  "((resource_mg \<Rightarrow> resource_mg) \<Rightarrow> cudnn_managers \<Rightarrow> cudnn_managers) \<Rightarrow> resource_mg \<Rightarrow> 'd server \<Rightarrow> 'd server" where
  "set_dn f m s \<equiv> s\<lparr>cudnn := f (\<lambda>_. m) (cudnn s)\<rparr>"

definition sched_create ::
  "'d env \<Rightarrow> u32 \<Rightarrow> int \<Rightarrow> ('d server \<Rightarrow> resource_mg) \<Rightarrow> (resource_mg \<Rightarrow> 'd server \<Rightarrow> 'd server) \<Rightarrow> string \<Rightarrow>
   'd arg list \<Rightarrow> ('d, reply) handler" where
  "sched_create E rq fd sel upd name args = recorded_void E rq (sched_new E fd sel upd name args)"

text \<open>
  The results of the library written into a buffer, one at each offset. Results the library did
  not write are missing from the list.
\<close>

fun cval_bytes :: "cval \<Rightarrow> u8 list" where
  "cval_bytes (Int32 w) = i32 w"
| "cval_bytes (Word64 w) = i64 w"
| "cval_bytes (Bytes bs) = bs"
| "cval_bytes (Text t) = map (\<lambda>c. of_nat (of_char c)) t"

fun write_outs :: "(u64 \<times> cval) list \<Rightarrow> u8 list \<Rightarrow> u8 list res" where
  "write_outs [] buf = Inr buf"
| "write_outs ((p, v) # ws) buf =
     (if unat p + length (cval_bytes v) \<le> length buf
      then write_outs ws (blit buf (unat p) (cval_bytes v)) else Inl Out_Of_Bounds)"

text \<open>
  The buffer of a \<open>mem_result\<close>: \<open>n\<close> uninitialised bytes; without memory the handler returns 0.
  \<open>buffer_query\<close> allocates it before \<open>GSCHED_RETAIN\<close>; \<open>held_query\<close> after it, and leaves without
  \<open>GSCHED_RELEASE\<close> when there is no memory.
\<close>

definition reply_buffer :: "'d env \<Rightarrow> u32 \<Rightarrow> (u8 list \<Rightarrow> ('d, reply) handler) \<Rightarrow> ('d, reply) handler" where
  "reply_buffer E n body =
     (if heap_ok E (unat n) then body (replicate (unat n) (fresh_byte E)) else ret_h No_Reply)"

definition fill_buffer :: "'d env \<Rightarrow> string \<Rightarrow> 'd arg list \<Rightarrow> u64 list \<Rightarrow> u8 list \<Rightarrow> ('d, u32 \<times> u8 list) handler" where
  "fill_buffer E name args ps buf =
     bind_h (lib_call E name args) (\<lambda>(err, outs) s.
       bind_r (write_outs (zip ps outs) buf) (\<lambda>buf. Inr ((err, buf), s)))"

definition buffer_query ::
  "'d env \<Rightarrow> int \<Rightarrow> u32 \<Rightarrow> string \<Rightarrow> 'd arg list \<Rightarrow> u64 list \<Rightarrow> ('d, reply) handler" where
  "buffer_query E fd n name args ps =
     reply_buffer E n (\<lambda>buf.
       bind_h (scheduled E fd (fill_buffer E name args ps buf)) (\<lambda>(err, buf). ret_h (Reply [Int32 err, Bytes buf])))"

definition held_query ::
  "'d env \<Rightarrow> int \<Rightarrow> u32 \<Rightarrow> string \<Rightarrow> 'd arg list \<Rightarrow> u64 list \<Rightarrow> ('d, reply) handler" where
  "held_query E fd n name args ps =
     bind_h (gsched_none_retain E fd) (\<lambda>_.
       reply_buffer E n (\<lambda>buf.
         bind_h (fill_buffer E name args ps buf) (\<lambda>(err, buf).
         bind_h (gsched_none_release fd) (\<lambda>_. ret_h (Reply [Int32 err, Bytes buf])))))"

text \<open>
  The bytes of the buffer at some offsets, each converted to a pointer (\<open>char\<close> is signed): what
  \<open>cudnnGetPoolingNdDescriptor\<close> is given in place of addresses in the buffer.
\<close>

fun byte_pointers :: "u8 list \<Rightarrow> u64 list \<Rightarrow> u64 list res" where
  "byte_pointers buf [] = Inr []"
| "byte_pointers buf (p # ps) =
     (if unat p < length buf
      then bind_r (byte_pointers buf ps) (\<lambda>qs. Inr (scast (buf ! unat p) # qs)) else Inl Out_Of_Bounds)"

definition sizeof_cudnnConvolutionFwdAlgoPerf_t :: u64 where
  "sizeof_cudnnConvolutionFwdAlgoPerf_t = 48"

text \<open>The element sizes by attribute type, \<open>CUDNN_TYPE_HANDLE\<close> (0) to \<open>CUDNN_TYPE_BEHAVIOR_NOTE\<close> (19).\<close>

definition backendAttributeSizes :: "nat list" where
  "backendAttributeSizes = [8, 4, 1, 8, 4, 8, 8, 4, 4, 4, 4, 4, 4, 4, 4, 8, 4, 4, 4, 4]"

section \<open>Start and end\<close>

definition init_dn ::
  "'d env \<Rightarrow> (cudnn_managers \<Rightarrow> resource_mg) \<Rightarrow>
   ((resource_mg \<Rightarrow> resource_mg) \<Rightarrow> cudnn_managers \<Rightarrow> cudnn_managers) \<Rightarrow> int \<Rightarrow> int \<Rightarrow> ('d, int) handler" where
  "init_dn E sel upd byp ret = init_mg E (\<lambda>s. sel (cudnn s)) (set_dn upd) byp ret"

definition server_cudnn_init :: "'d env \<Rightarrow> int \<Rightarrow> ('d, int) handler" where
  "server_cudnn_init E byp =
     bind_h (init_dn E rm_cudnn rm_cudnn_update byp 0) (\<lambda>ret.
     bind_h (init_dn E rm_cudnn_tensors rm_cudnn_tensors_update byp ret) (\<lambda>ret.
     bind_h (init_dn E rm_cudnn_filters rm_cudnn_filters_update byp ret) (\<lambda>ret.
     bind_h (init_dn E rm_cudnn_poolings rm_cudnn_poolings_update byp ret) (\<lambda>ret.
     bind_h (init_dn E rm_cudnn_activations rm_cudnn_activations_update byp ret) (\<lambda>ret.
     bind_h (init_dn E rm_cudnn_lrns rm_cudnn_lrns_update byp ret) (\<lambda>ret.
     bind_h (init_dn E rm_cudnn_convs rm_cudnn_convs_update byp ret) (\<lambda>ret.
       init_dn E rm_cudnn_backendds rm_cudnn_backendds_update byp ret)))))))"

definition free_dn ::
  "(cudnn_managers \<Rightarrow> resource_mg) \<Rightarrow> ((resource_mg \<Rightarrow> resource_mg) \<Rightarrow> cudnn_managers \<Rightarrow> cudnn_managers) \<Rightarrow>
   ('d, unit) handler" where
  "free_dn sel upd = free_mg (\<lambda>s. sel (cudnn s)) (set_dn upd)"

definition server_cudnn_deinit :: "('d, int) handler" where
  "server_cudnn_deinit =
     bind_h (free_dn rm_cudnn rm_cudnn_update) (\<lambda>_.
     bind_h (free_dn rm_cudnn_tensors rm_cudnn_tensors_update) (\<lambda>_.
     bind_h (free_dn rm_cudnn_filters rm_cudnn_filters_update) (\<lambda>_.
     bind_h (free_dn rm_cudnn_poolings rm_cudnn_poolings_update) (\<lambda>_.
     bind_h (free_dn rm_cudnn_activations rm_cudnn_activations_update) (\<lambda>_.
     bind_h (free_dn rm_cudnn_lrns rm_cudnn_lrns_update) (\<lambda>_.
     bind_h (free_dn rm_cudnn_convs rm_cudnn_convs_update) (\<lambda>_.
     bind_h (free_dn rm_cudnn_backendds rm_cudnn_backendds_update) (\<lambda>_. ret_h 0))))))))"

section \<open>Library\<close>

definition rpc_cudnngetversion_1_svc :: "'d env \<Rightarrow> int \<Rightarrow> ('d, reply) handler" where
  "rpc_cudnngetversion_1_svc E fd =
     bind_h (scheduled E fd (lib_call E ''cudnnGetVersion'' [])) (\<lambda>(_, outs).
       ret_h (Reply [Word64 (out64 E outs 0)]))"

text \<open>Unsupported: the handler ends the server.\<close>

definition rpc_cudnngetmaxdeviceversion_1_svc :: "'d env \<Rightarrow> int \<Rightarrow> ('d, reply) handler" where
  "rpc_cudnngetmaxdeviceversion_1_svc E fd =
     bind_h (gsched_none_retain E fd) (\<lambda>_ s. Inl Exited)"

definition rpc_cudnngetcudartversion_1_svc :: "'d env \<Rightarrow> int \<Rightarrow> ('d, reply) handler" where
  "rpc_cudnngetcudartversion_1_svc E fd =
     bind_h (scheduled E fd (lib_call E ''cudnnGetCudartVersion'' [])) (\<lambda>(_, outs).
       ret_h (Reply [Word64 (out64 E outs 0)]))"

definition rpc_cudnngeterrorstring_1_svc :: "'d env \<Rightarrow> int \<Rightarrow> u32 \<Rightarrow> ('d, reply) handler" where
  "rpc_cudnngeterrorstring_1_svc E fd status =
     bind_h (scheduled E fd
       (bind_h (lib_call E ''cudnnGetErrorString'' [I status]) (\<lambda>(_, outs) s.
          if heap_ok E 128 then Inr (take 128 (out_text outs), s) else Inl Null_Deref)))
       (\<lambda>str. ret_h (Reply [Text str]))"

text \<open>The library gets an uninitialised pointer \<open>tag\<close>.\<close>

definition rpc_cudnnqueryruntimeerror_1_svc :: "'d env \<Rightarrow> int \<Rightarrow> u64 \<Rightarrow> u32 \<Rightarrow> ('d, reply) handler" where
  "rpc_cudnnqueryruntimeerror_1_svc E fd hnd mode =
     sched_query E fd ''cudnnQueryRuntimeError'' [Dn rm_cudnn hnd, I mode, W (fresh_word E)]
       (\<lambda>outs. [Int32 (out32 E outs 0)])"

definition rpc_cudnngetproperty_1_svc :: "'d env \<Rightarrow> int \<Rightarrow> u32 \<Rightarrow> ('d, reply) handler" where
  "rpc_cudnngetproperty_1_svc E fd ty =
     sched_query E fd ''cudnnGetProperty'' [I ty] (\<lambda>outs. [Int32 (out32 E outs 0)])"

definition rpc_cudnncreate_1_svc :: "'d env \<Rightarrow> u32 \<Rightarrow> int \<Rightarrow> ('d, reply) handler" where
  "rpc_cudnncreate_1_svc E rq fd =
     sched_create E rq fd (\<lambda>s. rm_cudnn (cudnn s)) (set_dn rm_cudnn_update) ''cudnnCreate'' []"

definition rpc_cudnndestroy_1_svc :: "'d env \<Rightarrow> u32 \<Rightarrow> int \<Rightarrow> u64 \<Rightarrow> ('d, reply) handler" where
  "rpc_cudnndestroy_1_svc E rq fd hnd =
     sched_call E rq fd 8 [(0, i64 hnd)] ''cudnnDestroy'' [Dn rm_cudnn hnd]"

definition rpc_cudnnsetstream_1_svc :: "'d env \<Rightarrow> u32 \<Rightarrow> int \<Rightarrow> u64 \<Rightarrow> u64 \<Rightarrow> ('d, reply) handler" where
  "rpc_cudnnsetstream_1_svc E rq fd hnd streamId =
     sched_call E rq fd 16 [(0, i64 hnd), (8, i64 streamId)] ''cudnnSetStream'' [Dn rm_cudnn hnd,
       Handle rm_streams streamId]"

definition rpc_cudnngetstream_1_svc :: "'d env \<Rightarrow> int \<Rightarrow> u64 \<Rightarrow> ('d, reply) handler" where
  "rpc_cudnngetstream_1_svc E fd hnd =
     sched_query E fd ''cudnnGetStream'' [Dn rm_cudnn hnd] (\<lambda>outs. [Word64 (out64 E outs 0)])"

section \<open>Tensors\<close>

definition rpc_cudnncreatetensordescriptor_1_svc :: "'d env \<Rightarrow> u32 \<Rightarrow> int \<Rightarrow> ('d, reply) handler" where
  "rpc_cudnncreatetensordescriptor_1_svc E rq fd =
     sched_create E rq fd (\<lambda>s. rm_cudnn_tensors (cudnn s)) (set_dn rm_cudnn_tensors_update)
       ''cudnnCreateTensorDescriptor'' []"

definition rpc_cudnnsettensor4ddescriptor_1_svc :: "'d env \<Rightarrow> u32 \<Rightarrow> int \<Rightarrow> u64 \<Rightarrow> u32 \<Rightarrow> u32 \<Rightarrow> u32 \<Rightarrow> u32 \<Rightarrow> u32 \<Rightarrow>
  u32 \<Rightarrow> ('d, reply) handler" where
  "rpc_cudnnsettensor4ddescriptor_1_svc E rq fd tensorDesc format dataType n c h w =
     sched_call E rq fd 32 [(0, i64 tensorDesc), (8, i32 format), (12, i32 dataType), (16, i32 n),
       (20, i32 c), (24, i32 h), (28, i32 w)] ''cudnnSetTensor4dDescriptor'' [Dn rm_cudnn_tensors tensorDesc,
       I format, I dataType, I n, I c, I h, I w]"

definition rpc_cudnnsettensor4ddescriptorex_1_svc :: "'d env \<Rightarrow> u32 \<Rightarrow> int \<Rightarrow> u64 \<Rightarrow> u32 \<Rightarrow> u32 \<Rightarrow> u32 \<Rightarrow> u32 \<Rightarrow> u32 \<Rightarrow>
  u32 \<Rightarrow> u32 \<Rightarrow> u32 \<Rightarrow> u32 \<Rightarrow> ('d, reply) handler" where
  "rpc_cudnnsettensor4ddescriptorex_1_svc E rq fd tensorDesc dataType n c h w nStride cStride hStride wStride =
     sched_call E rq fd 48 [(0, i64 tensorDesc), (8, i32 dataType), (12, i32 n), (16, i32 c), (20, i32 h),
       (24, i32 w), (28, i32 nStride), (32, i32 cStride), (36, i32 hStride), (40, i32 wStride)]
       ''cudnnSetTensor4dDescriptorEx'' [Dn rm_cudnn_tensors tensorDesc, I dataType, I n, I c, I h, I w,
       I nStride, I cStride, I hStride, I wStride]"

definition rpc_cudnngettensor4ddescriptor_1_svc :: "'d env \<Rightarrow> int \<Rightarrow> u64 \<Rightarrow> ('d, reply) handler" where
  "rpc_cudnngettensor4ddescriptor_1_svc E fd tensorDesc =
     sched_query E fd ''cudnnGetTensor4dDescriptor'' [Dn rm_cudnn_tensors tensorDesc] (\<lambda>outs. map (\<lambda>i. Int32
       (out32 E outs i)) [0..<9])"

definition rpc_cudnnsettensornddescriptor_1_svc :: "'d env \<Rightarrow> u32 \<Rightarrow> int \<Rightarrow> u64 \<Rightarrow> u32 \<Rightarrow> u32 \<Rightarrow> mem_data \<Rightarrow> mem_data
  \<Rightarrow> ('d, reply) handler" where
  "rpc_cudnnsettensornddescriptor_1_svc E rq fd tensorDesc dataType nbDims dimA strideA =
     recorded E rq 48 [(0, i64 tensorDesc), (8, i32 dataType), (12, i32 nbDims), (16, i32 (mem_len dimA)),
         (24, i64 (mem_addr dimA)), (32, i32 (mem_len strideA)), (40, i64 (mem_addr strideA))] (\<lambda>i.
       if \<not> (dims_ok dimA nbDims \<and> dims_ok strideA nbDims) then ret_h No_Reply else
       sched_int E fd ''cudnnSetTensorNdDescriptor'' [Dn rm_cudnn_tensors tensorDesc, I dataType, I nbDims,
         Val (Bytes (mem_val dimA)), Val (Bytes (mem_val strideA))] i)"

definition rpc_cudnnsettensornddescriptorex_1_svc :: "'d env \<Rightarrow> u32 \<Rightarrow> int \<Rightarrow> u64 \<Rightarrow> u32 \<Rightarrow> u32 \<Rightarrow> u32 \<Rightarrow> mem_data \<Rightarrow>
  ('d, reply) handler" where
  "rpc_cudnnsettensornddescriptorex_1_svc E rq fd tensorDesc format dataType nbDims dimA =
     recorded E rq 40 [(0, i64 tensorDesc), (8, i32 format), (12, i32 dataType), (16, i32 nbDims),
         (24, i32 (mem_len dimA)), (32, i64 (mem_addr dimA))] (\<lambda>i.
       if \<not> dims_ok dimA nbDims then ret_h No_Reply else
       sched_int E fd ''cudnnSetTensorNdDescriptorEx'' [Dn rm_cudnn_tensors tensorDesc, I format, I dataType,
         I nbDims, Val (Bytes (mem_val dimA))] i)"

text \<open>The buffer: data type, number of dimensions, dimensions, strides.\<close>

definition rpc_cudnngettensornddescriptor_1_svc :: "'d env \<Rightarrow> int \<Rightarrow> u64 \<Rightarrow> u32 \<Rightarrow> ('d, reply) handler" where
  "rpc_cudnngettensornddescriptor_1_svc E fd tensorDesc nbDimsRequested =
     buffer_query E fd (ucast (8 + scast nbDimsRequested * 8 :: u64)) ''cudnnGetTensorNdDescriptor''
       [Dn rm_cudnn_tensors tensorDesc, I nbDimsRequested]
       [0, 4, 8, 8 + scast nbDimsRequested * 4]"

definition rpc_cudnngettensorsizeinbytes_1_svc :: "'d env \<Rightarrow> int \<Rightarrow> u64 \<Rightarrow> ('d, reply) handler" where
  "rpc_cudnngettensorsizeinbytes_1_svc E fd tensorDesc =
     sched_query E fd ''cudnnGetTensorSizeInBytes'' [Dn rm_cudnn_tensors tensorDesc] (\<lambda>outs. [Word64
       (out64 E outs 0)])"

definition rpc_cudnndestroytensordescriptor_1_svc :: "'d env \<Rightarrow> u32 \<Rightarrow> int \<Rightarrow> u64 \<Rightarrow> ('d, reply) handler" where
  "rpc_cudnndestroytensordescriptor_1_svc E rq fd tensorDesc =
     sched_call E rq fd 8 [(0, i64 tensorDesc)] ''cudnnDestroyTensorDescriptor''
       [Dn rm_cudnn_tensors tensorDesc]"

section \<open>Filters\<close>

definition rpc_cudnncreatefilterdescriptor_1_svc :: "'d env \<Rightarrow> u32 \<Rightarrow> int \<Rightarrow> ('d, reply) handler" where
  "rpc_cudnncreatefilterdescriptor_1_svc E rq fd =
     sched_create E rq fd (\<lambda>s. rm_cudnn_filters (cudnn s)) (set_dn rm_cudnn_filters_update)
       ''cudnnCreateFilterDescriptor'' []"

definition rpc_cudnnsetfilter4ddescriptor_1_svc :: "'d env \<Rightarrow> u32 \<Rightarrow> int \<Rightarrow> u64 \<Rightarrow> u32 \<Rightarrow> u32 \<Rightarrow> u32 \<Rightarrow> u32 \<Rightarrow> u32 \<Rightarrow>
  u32 \<Rightarrow> ('d, reply) handler" where
  "rpc_cudnnsetfilter4ddescriptor_1_svc E rq fd filterDesc dataType format k c h w =
     sched_call E rq fd 32 [(0, i64 filterDesc), (8, i32 dataType), (12, i32 format), (16, i32 k),
       (20, i32 c), (24, i32 h), (28, i32 w)] ''cudnnSetFilter4dDescriptor'' [Dn rm_cudnn_filters filterDesc,
       I dataType, I format, I k, I c, I h, I w]"

definition rpc_cudnngetfilter4ddescriptor_1_svc :: "'d env \<Rightarrow> int \<Rightarrow> u64 \<Rightarrow> ('d, reply) handler" where
  "rpc_cudnngetfilter4ddescriptor_1_svc E fd filterDesc =
     sched_query E fd ''cudnnGetFilter4dDescriptor'' [Dn rm_cudnn_filters filterDesc] (\<lambda>outs. map (\<lambda>i. Int32
       (out32 E outs i)) [0..<6])"

definition rpc_cudnnsetfilternddescriptor_1_svc :: "'d env \<Rightarrow> u32 \<Rightarrow> int \<Rightarrow> u64 \<Rightarrow> u32 \<Rightarrow> u32 \<Rightarrow> u32 \<Rightarrow> mem_data \<Rightarrow>
  ('d, reply) handler" where
  "rpc_cudnnsetfilternddescriptor_1_svc E rq fd filterDesc dataType format nbDims filterDimA =
     recorded E rq 40 [(0, i64 filterDesc), (8, i32 dataType), (12, i32 format), (16, i32 nbDims),
         (24, i32 (mem_len filterDimA)), (32, i64 (mem_addr filterDimA))] (\<lambda>i.
       if \<not> dims_ok filterDimA nbDims then ret_h No_Reply else
       sched_int E fd ''cudnnSetFilterNdDescriptor'' [Dn rm_cudnn_filters filterDesc, I dataType, I format,
         I nbDims, Val (Bytes (mem_val filterDimA))] i)"

text \<open>The offsets of the last two arrays use the size of a pointer where the buffer has four bytes.\<close>

definition rpc_cudnngetfilternddescriptor_1_svc :: "'d env \<Rightarrow> int \<Rightarrow> u64 \<Rightarrow> u32 \<Rightarrow> ('d, reply) handler" where
  "rpc_cudnngetfilternddescriptor_1_svc E fd filterDesc nbDimsRequested =
     buffer_query E fd (ucast (12 + scast nbDimsRequested * 4 :: u64)) ''cudnnGetFilterNdDescriptor''
       [Dn rm_cudnn_filters filterDesc, I nbDimsRequested]
       [0, 4, 12, 16]"

definition rpc_cudnngetfiltersizeinbytes_1_svc :: "'d env \<Rightarrow> int \<Rightarrow> u64 \<Rightarrow> ('d, reply) handler" where
  "rpc_cudnngetfiltersizeinbytes_1_svc E fd filterDesc =
     sched_query E fd ''cudnnGetFilterSizeInBytes'' [Dn rm_cudnn_filters filterDesc] (\<lambda>outs. [Word64
       (out64 E outs 0)])"

text \<open>The data pointers are not translated; \<open>rm_cudnn_tensortransform\<close> is never initialised.\<close>

definition rpc_cudnntransformfilter_1_svc :: "'d env \<Rightarrow> u32 \<Rightarrow> int \<Rightarrow> u64 \<Rightarrow> u64 \<Rightarrow> scaling \<Rightarrow> u64 \<Rightarrow> u64 \<Rightarrow> scaling \<Rightarrow>
  u64 \<Rightarrow> u64 \<Rightarrow> ('d, reply) handler" where
  "rpc_cudnntransformfilter_1_svc E rq fd hnd transDesc alpha srcDesc srcData beta destDesc destData =
     sched_call E rq fd 80 [(0, i64 hnd), (8, i64 transDesc), (16, i32 (sc_type alpha)),
       (24, i64 (sc_val alpha)), (32, i64 srcDesc), (40, i64 srcData), (48, i32 (sc_type beta)),
       (56, i64 (sc_val beta)), (64, i64 destDesc), (72, i64 destData)] ''cudnnTransformFilter''
       [Dn rm_cudnn hnd, Dn rm_cudnn_tensortransform transDesc, Val (scaling_arg alpha),
       Dn rm_cudnn_filters srcDesc, W srcData, Val (scaling_arg beta), Dn rm_cudnn_filters destDesc, W destData]"

definition rpc_cudnndestroyfilterdescriptor_1_svc :: "'d env \<Rightarrow> u32 \<Rightarrow> int \<Rightarrow> u64 \<Rightarrow> ('d, reply) handler" where
  "rpc_cudnndestroyfilterdescriptor_1_svc E rq fd filterDesc =
     sched_call E rq fd 8 [(0, i64 filterDesc)] ''cudnnDestroyFilterDescriptor''
       [Dn rm_cudnn_filters filterDesc]"

section \<open>Pooling\<close>

definition rpc_cudnncreatepoolingdescriptor_1_svc :: "'d env \<Rightarrow> u32 \<Rightarrow> int \<Rightarrow> ('d, reply) handler" where
  "rpc_cudnncreatepoolingdescriptor_1_svc E rq fd =
     sched_create E rq fd (\<lambda>s. rm_cudnn_poolings (cudnn s)) (set_dn rm_cudnn_poolings_update)
       ''cudnnCreatePoolingDescriptor'' []"

definition rpc_cudnnsetpooling2ddescriptor_1_svc :: "'d env \<Rightarrow> u32 \<Rightarrow> int \<Rightarrow> u64 \<Rightarrow> u32 \<Rightarrow> u32 \<Rightarrow> u32 \<Rightarrow> u32 \<Rightarrow> u32 \<Rightarrow>
  u32 \<Rightarrow> u32 \<Rightarrow> u32 \<Rightarrow> ('d, reply) handler" where
  "rpc_cudnnsetpooling2ddescriptor_1_svc E rq fd poolingDesc mode maxpoolingNanOpt windowHeight windowWidth verticalPadding horizontalPadding verticalStride horizontalStride =
     sched_call E rq fd 40 [(0, i64 poolingDesc), (8, i32 mode), (12, i32 maxpoolingNanOpt),
       (16, i32 windowHeight), (20, i32 windowWidth), (24, i32 verticalPadding), (28, i32 horizontalPadding),
       (32, i32 verticalStride), (36, i32 horizontalStride)] ''cudnnSetPooling2dDescriptor''
       [Dn rm_cudnn_poolings poolingDesc, I mode, I maxpoolingNanOpt, I windowHeight, I windowWidth,
       I verticalPadding, I horizontalPadding, I verticalStride, I horizontalStride]"

definition rpc_cudnngetpooling2ddescriptor_1_svc :: "'d env \<Rightarrow> int \<Rightarrow> u64 \<Rightarrow> ('d, reply) handler" where
  "rpc_cudnngetpooling2ddescriptor_1_svc E fd poolingDesc =
     sched_query E fd ''cudnnGetPooling2dDescriptor'' [Dn rm_cudnn_poolings poolingDesc] (\<lambda>outs. map (\<lambda>i. Int32
       (out32 E outs i)) [0..<8])"

definition rpc_cudnnsetpoolingnddescriptor_1_svc :: "'d env \<Rightarrow> u32 \<Rightarrow> int \<Rightarrow> u64 \<Rightarrow> u32 \<Rightarrow> u32 \<Rightarrow> u32 \<Rightarrow> mem_data \<Rightarrow>
  mem_data \<Rightarrow> mem_data \<Rightarrow> ('d, reply) handler" where
  "rpc_cudnnsetpoolingnddescriptor_1_svc E rq fd poolingDesc mode maxpoolingNanOpt nbDims windowDimA paddingA strideA =
     recorded E rq 72 [(0, i64 poolingDesc), (8, i32 mode), (12, i32 maxpoolingNanOpt), (16, i32 nbDims),
         (24, i32 (mem_len windowDimA)), (32, i64 (mem_addr windowDimA)), (40, i32 (mem_len paddingA)),
         (48, i64 (mem_addr paddingA)), (56, i32 (mem_len strideA)), (64, i64 (mem_addr strideA))] (\<lambda>i.
       if \<not> (dims_ok windowDimA nbDims \<and> dims_ok paddingA nbDims \<and> dims_ok strideA nbDims) then ret_h No_Reply
         else
       sched_int E fd ''cudnnSetPoolingNdDescriptor'' [Dn rm_cudnn_poolings poolingDesc, I mode,
         I maxpoolingNanOpt, I nbDims, Val (Bytes (mem_val windowDimA)), Val (Bytes (mem_val paddingA)),
         Val (Bytes (mem_val strideA))] i)"

text \<open>The bytes of the buffer are passed as pointers, and the size leaves out one \<open>int\<close>.\<close>

definition rpc_cudnngetpoolingnddescriptor_1_svc :: "'d env \<Rightarrow> int \<Rightarrow> u64 \<Rightarrow> u32 \<Rightarrow> ('d, reply) handler" where
  "rpc_cudnngetpoolingnddescriptor_1_svc E fd poolingDesc nbDimsRequested =
     reply_buffer E (ucast (8 + scast nbDimsRequested * 4 * 3 :: u64)) (\<lambda>buf.
       bind_h (gsched_none_retain E fd) (\<lambda>_.
       bind_h (\<lambda>s. bind_r (byte_pointers buf
           [0, 4, 8, 12, 12 + 4 * scast nbDimsRequested, 12 + 4 * scast nbDimsRequested * 2]) (\<lambda>ps. Inr (ps, s)))
         (\<lambda>ps.
       bind_h (lib_call E ''cudnnGetPoolingNdDescriptor''
           ([Dn rm_cudnn_poolings poolingDesc, I nbDimsRequested] @ map W ps)) (\<lambda>(err, _).
       bind_h (gsched_none_release fd) (\<lambda>_. ret_h (Reply [Int32 err, Bytes buf]))))))"

definition rpc_cudnngetpoolingndforwardoutputdim_1_svc :: "'d env \<Rightarrow> int \<Rightarrow> u64 \<Rightarrow> u64 \<Rightarrow> u32 \<Rightarrow> ('d, reply)
  handler" where
  "rpc_cudnngetpoolingndforwardoutputdim_1_svc E fd poolingDesc inputTensorDesc nbDims =
     held_query E fd (ucast (4 * scast nbDims :: u64)) ''cudnnGetPoolingNdForwardOutputDim''
       [Dn rm_cudnn_poolings poolingDesc, Dn rm_cudnn_tensors inputTensorDesc, I nbDims] [0]"

definition rpc_cudnngetpooling2dforwardoutputdim_1_svc :: "'d env \<Rightarrow> int \<Rightarrow> u64 \<Rightarrow> u64 \<Rightarrow> ('d, reply) handler"
  where
  "rpc_cudnngetpooling2dforwardoutputdim_1_svc E fd poolingDesc inputTensorDesc =
     sched_query E fd ''cudnnGetPooling2dForwardOutputDim'' [Dn rm_cudnn_poolings poolingDesc,
       Dn rm_cudnn_tensors inputTensorDesc] (\<lambda>outs. map (\<lambda>i. Int32 (out32 E outs i)) [0..<4])"

definition rpc_cudnndestroypoolingdescriptor_1_svc :: "'d env \<Rightarrow> u32 \<Rightarrow> int \<Rightarrow> u64 \<Rightarrow> ('d, reply) handler" where
  "rpc_cudnndestroypoolingdescriptor_1_svc E rq fd poolingDesc =
     sched_call E rq fd 8 [(0, i64 poolingDesc)] ''cudnnDestroyPoolingDescriptor''
       [Dn rm_cudnn_poolings poolingDesc]"

section \<open>Activations and normalisation\<close>

definition rpc_cudnncreateactivationdescriptor_1_svc :: "'d env \<Rightarrow> u32 \<Rightarrow> int \<Rightarrow> ('d, reply) handler" where
  "rpc_cudnncreateactivationdescriptor_1_svc E rq fd =
     sched_create E rq fd (\<lambda>s. rm_cudnn_activations (cudnn s)) (set_dn rm_cudnn_activations_update)
       ''cudnnCreateActivationDescriptor'' []"

definition rpc_cudnnsetactivationdescriptor_1_svc :: "'d env \<Rightarrow> u32 \<Rightarrow> int \<Rightarrow> u64 \<Rightarrow> u32 \<Rightarrow> u32 \<Rightarrow> u64 \<Rightarrow> ('d, reply)
  handler" where
  "rpc_cudnnsetactivationdescriptor_1_svc E rq fd activationDesc mode reluNanOpt coef =
     sched_call E rq fd 24 [(0, i64 activationDesc), (8, i32 mode), (12, i32 reluNanOpt), (16, i64 coef)]
       ''cudnnSetActivationDescriptor'' [Dn rm_cudnn_activations activationDesc, I mode, I reluNanOpt, W coef]"

definition rpc_cudnngetactivationdescriptor_1_svc :: "'d env \<Rightarrow> int \<Rightarrow> u64 \<Rightarrow> ('d, reply) handler" where
  "rpc_cudnngetactivationdescriptor_1_svc E fd activationDesc =
     sched_query E fd ''cudnnGetActivationDescriptor'' [Dn rm_cudnn_activations activationDesc]
       (\<lambda>outs. [Int32 (out32 E outs 0), Int32 (out32 E outs 1), Word64 (out64 E outs 2)])"

definition rpc_cudnnsetactivationdescriptorswishbeta_1_svc :: "'d env \<Rightarrow> u32 \<Rightarrow> int \<Rightarrow> u64 \<Rightarrow> u64 \<Rightarrow> ('d, reply)
  handler" where
  "rpc_cudnnsetactivationdescriptorswishbeta_1_svc E rq fd activationDesc swish_beta =
     sched_call E rq fd 16 [(0, i64 activationDesc), (8, i64 swish_beta)]
       ''cudnnSetActivationDescriptorSwishBeta'' [Dn rm_cudnn_activations activationDesc, W swish_beta]"

definition rpc_cudnngetactivationdescriptorswishbeta_1_svc :: "'d env \<Rightarrow> int \<Rightarrow> u64 \<Rightarrow> ('d, reply) handler" where
  "rpc_cudnngetactivationdescriptorswishbeta_1_svc E fd activationDesc =
     sched_query E fd ''cudnnGetActivationDescriptorSwishBeta'' [Dn rm_cudnn_activations activationDesc]
       (\<lambda>outs. [Word64 (out64 E outs 0)])"

definition rpc_cudnndestroyactivationdescriptor_1_svc :: "'d env \<Rightarrow> u32 \<Rightarrow> int \<Rightarrow> u64 \<Rightarrow> ('d, reply) handler"
  where
  "rpc_cudnndestroyactivationdescriptor_1_svc E rq fd activationDesc =
     sched_call E rq fd 8 [(0, i64 activationDesc)] ''cudnnDestroyActivationDescriptor''
       [Dn rm_cudnn_activations activationDesc]"

definition rpc_cudnncreatelrndescriptor_1_svc :: "'d env \<Rightarrow> u32 \<Rightarrow> int \<Rightarrow> ('d, reply) handler" where
  "rpc_cudnncreatelrndescriptor_1_svc E rq fd =
     sched_create E rq fd (\<lambda>s. rm_cudnn_lrns (cudnn s)) (set_dn rm_cudnn_lrns_update) ''cudnnCreateLRNDescriptor''
       []"

definition rpc_cudnnsetlrndescriptor_1_svc :: "'d env \<Rightarrow> u32 \<Rightarrow> int \<Rightarrow> u64 \<Rightarrow> u32 \<Rightarrow> u64 \<Rightarrow> u64 \<Rightarrow> u64 \<Rightarrow> ('d, reply)
  handler" where
  "rpc_cudnnsetlrndescriptor_1_svc E rq fd normDesc lrnN lrnAlpha lrnBeta lrnK =
     sched_call E rq fd 40 [(0, i64 normDesc), (8, i32 lrnN), (16, i64 lrnAlpha), (24, i64 lrnBeta),
       (32, i64 lrnK)] ''cudnnSetLRNDescriptor'' [Dn rm_cudnn_lrns normDesc, I lrnN, W lrnAlpha, W lrnBeta,
       W lrnK]"

definition rpc_cudnngetlrndescriptor_1_svc :: "'d env \<Rightarrow> int \<Rightarrow> u64 \<Rightarrow> ('d, reply) handler" where
  "rpc_cudnngetlrndescriptor_1_svc E fd normDesc =
     sched_query E fd ''cudnnGetLRNDescriptor'' [Dn rm_cudnn_lrns normDesc]
       (\<lambda>outs. Int32 (out32 E outs 0) # map (\<lambda>i. Word64 (out64 E outs i)) [1..<4])"

definition rpc_cudnndestroylrndescriptor_1_svc :: "'d env \<Rightarrow> u32 \<Rightarrow> int \<Rightarrow> u64 \<Rightarrow> ('d, reply) handler" where
  "rpc_cudnndestroylrndescriptor_1_svc E rq fd lrnDesc =
     sched_call E rq fd 8 [(0, i64 lrnDesc)] ''cudnnDestroyLRNDescriptor'' [Dn rm_cudnn_lrns lrnDesc]"

section \<open>Forward passes\<close>

definition rpc_cudnnpoolingforward_1_svc :: "'d env \<Rightarrow> u32 \<Rightarrow> int \<Rightarrow> u64 \<Rightarrow> u64 \<Rightarrow> scaling \<Rightarrow> u64 \<Rightarrow> u64 \<Rightarrow> scaling \<Rightarrow>
  u64 \<Rightarrow> u64 \<Rightarrow> ('d, reply) handler" where
  "rpc_cudnnpoolingforward_1_svc E rq fd hnd poolingDesc alpha xDesc x beta yDesc y =
     sched_call E rq fd 80 [(0, i64 hnd), (8, i64 poolingDesc), (16, i32 (sc_type alpha)),
       (24, i64 (sc_val alpha)), (32, i64 xDesc), (40, i64 x), (48, i32 (sc_type beta)),
       (56, i64 (sc_val beta)), (64, i64 yDesc), (72, i64 y)] ''cudnnPoolingForward'' [Dn rm_cudnn hnd,
       Dn rm_cudnn_poolings poolingDesc, Val (scaling_arg alpha), Dn rm_cudnn_tensors xDesc, Handle rm_memory x,
       Val (scaling_arg beta), Dn rm_cudnn_tensors yDesc, Handle rm_memory y]"

definition rpc_cudnnactivationforward_1_svc :: "'d env \<Rightarrow> u32 \<Rightarrow> int \<Rightarrow> u64 \<Rightarrow> u64 \<Rightarrow> scaling \<Rightarrow> u64 \<Rightarrow> u64 \<Rightarrow> scaling
  \<Rightarrow> u64 \<Rightarrow> u64 \<Rightarrow> ('d, reply) handler" where
  "rpc_cudnnactivationforward_1_svc E rq fd hnd activationDesc alpha xDesc x beta yDesc y =
     sched_call E rq fd 80 [(0, i64 hnd), (8, i64 activationDesc), (16, i32 (sc_type alpha)),
       (24, i64 (sc_val alpha)), (32, i64 xDesc), (40, i64 x), (48, i32 (sc_type beta)),
       (56, i64 (sc_val beta)), (64, i64 yDesc), (72, i64 y)] ''cudnnActivationForward'' [Dn rm_cudnn hnd,
       Dn rm_cudnn_activations activationDesc, Val (scaling_arg alpha), Dn rm_cudnn_tensors xDesc,
       Handle rm_memory x, Val (scaling_arg beta), Dn rm_cudnn_tensors yDesc, Handle rm_memory y]"

definition rpc_cudnnlrncrosschannelforward_1_svc :: "'d env \<Rightarrow> u32 \<Rightarrow> int \<Rightarrow> u64 \<Rightarrow> u64 \<Rightarrow> u32 \<Rightarrow> scaling \<Rightarrow> u64 \<Rightarrow>
  u64 \<Rightarrow> scaling \<Rightarrow> u64 \<Rightarrow> u64 \<Rightarrow> ('d, reply) handler" where
  "rpc_cudnnlrncrosschannelforward_1_svc E rq fd hnd normDesc lrnMode alpha xDesc x beta yDesc y =
     sched_call E rq fd 88 [(0, i64 hnd), (8, i64 normDesc), (16, i32 lrnMode), (24, i32 (sc_type alpha)),
       (32, i64 (sc_val alpha)), (40, i64 xDesc), (48, i64 x), (56, i32 (sc_type beta)),
       (64, i64 (sc_val beta)), (72, i64 yDesc), (80, i64 y)] ''cudnnLRNCrossChannelForward'' [Dn rm_cudnn hnd,
       Dn rm_cudnn_lrns normDesc, I lrnMode, Val (scaling_arg alpha), Dn rm_cudnn_tensors xDesc,
       Handle rm_memory x, Val (scaling_arg beta), Dn rm_cudnn_tensors yDesc, Handle rm_memory y]"

definition rpc_cudnnsoftmaxforward_1_svc :: "'d env \<Rightarrow> u32 \<Rightarrow> int \<Rightarrow> u64 \<Rightarrow> u32 \<Rightarrow> u32 \<Rightarrow> scaling \<Rightarrow> u64 \<Rightarrow> u64 \<Rightarrow>
  scaling \<Rightarrow> u64 \<Rightarrow> u64 \<Rightarrow> ('d, reply) handler" where
  "rpc_cudnnsoftmaxforward_1_svc E rq fd hnd algo mode alpha xDesc x beta yDesc y =
     sched_call E rq fd 80 [(0, i64 hnd), (8, i32 algo), (12, i32 mode), (16, i32 (sc_type alpha)),
       (24, i64 (sc_val alpha)), (32, i64 xDesc), (40, i64 x), (48, i32 (sc_type beta)),
       (56, i64 (sc_val beta)), (64, i64 yDesc), (72, i64 y)] ''cudnnSoftmaxForward'' [Dn rm_cudnn hnd, I algo,
       I mode, Val (scaling_arg alpha), Dn rm_cudnn_tensors xDesc, Handle rm_memory x, Val (scaling_arg beta),
       Dn rm_cudnn_tensors yDesc, Handle rm_memory y]"

section \<open>Convolutions\<close>

definition rpc_cudnngetconvolutionndforwardoutputdim_1_svc :: "'d env \<Rightarrow> int \<Rightarrow> u64 \<Rightarrow> u64 \<Rightarrow> u64 \<Rightarrow> u32 \<Rightarrow>
  ('d, reply) handler" where
  "rpc_cudnngetconvolutionndforwardoutputdim_1_svc E fd convDesc inputTensorDesc filterDesc nbDims =
     held_query E fd (ucast (4 * scast nbDims :: u64)) ''cudnnGetConvolutionNdForwardOutputDim''
       [Dn rm_cudnn_convs convDesc, Dn rm_cudnn_tensors inputTensorDesc, Dn rm_cudnn_filters filterDesc,
        I nbDims] [0]"

definition rpc_cudnncreateconvolutiondescriptor_1_svc :: "'d env \<Rightarrow> u32 \<Rightarrow> int \<Rightarrow> ('d, reply) handler" where
  "rpc_cudnncreateconvolutiondescriptor_1_svc E rq fd =
     sched_create E rq fd (\<lambda>s. rm_cudnn_convs (cudnn s)) (set_dn rm_cudnn_convs_update)
       ''cudnnCreateConvolutionDescriptor'' []"

definition rpc_cudnndestroyconvolutiondescriptor_1_svc :: "'d env \<Rightarrow> u32 \<Rightarrow> int \<Rightarrow> u64 \<Rightarrow> ('d, reply) handler"
  where
  "rpc_cudnndestroyconvolutiondescriptor_1_svc E rq fd convDesc =
     sched_call E rq fd 8 [(0, i64 convDesc)] ''cudnnDestroyConvolutionDescriptor''
       [Dn rm_cudnn_convs convDesc]"

definition rpc_cudnnsetconvolutionmathtype_1_svc :: "'d env \<Rightarrow> u32 \<Rightarrow> int \<Rightarrow> u64 \<Rightarrow> u32 \<Rightarrow> ('d, reply) handler"
  where
  "rpc_cudnnsetconvolutionmathtype_1_svc E rq fd convDesc mathType =
     sched_call E rq fd 16 [(0, i64 convDesc), (8, i32 mathType)] ''cudnnSetConvolutionMathType''
       [Dn rm_cudnn_convs convDesc, I mathType]"

definition rpc_cudnnsetconvolutiongroupcount_1_svc :: "'d env \<Rightarrow> u32 \<Rightarrow> int \<Rightarrow> u64 \<Rightarrow> u32 \<Rightarrow> ('d, reply) handler"
  where
  "rpc_cudnnsetconvolutiongroupcount_1_svc E rq fd convDesc groupCount =
     sched_call E rq fd 16 [(0, i64 convDesc), (8, i32 groupCount)] ''cudnnSetConvolutionGroupCount''
       [Dn rm_cudnn_convs convDesc, I groupCount]"

definition rpc_cudnnsetconvolutionnddescriptor_1_svc :: "'d env \<Rightarrow> u32 \<Rightarrow> int \<Rightarrow> u64 \<Rightarrow> u32 \<Rightarrow> mem_data \<Rightarrow> mem_data
  \<Rightarrow> mem_data \<Rightarrow> u32 \<Rightarrow> u32 \<Rightarrow> ('d, reply) handler" where
  "rpc_cudnnsetconvolutionnddescriptor_1_svc E rq fd convDesc arrayLength padA filterStrideA dilationA mode computeType =
     recorded E rq 72 [(0, i64 convDesc), (8, i32 arrayLength), (16, i32 (mem_len padA)),
         (24, i64 (mem_addr padA)), (32, i32 (mem_len filterStrideA)), (40, i64 (mem_addr filterStrideA)),
         (48, i32 (mem_len dilationA)), (56, i64 (mem_addr dilationA)), (64, i32 mode), (68, i32 computeType)]
         (\<lambda>i.
       if \<not> (dims_ok padA arrayLength \<and> dims_ok filterStrideA arrayLength \<and> dims_ok dilationA arrayLength)
         then ret_h No_Reply else
       sched_int E fd ''cudnnSetConvolutionNdDescriptor'' [Dn rm_cudnn_convs convDesc, I arrayLength,
         Val (Bytes (mem_val padA)), Val (Bytes (mem_val filterStrideA)), Val (Bytes (mem_val dilationA)),
         I mode, I computeType] i)"

definition rpc_cudnngetconvolutionforwardalgorithm_v7_1_svc :: "'d env \<Rightarrow> int \<Rightarrow> u64 \<Rightarrow> u64 \<Rightarrow> u64 \<Rightarrow> u64 \<Rightarrow> u64 \<Rightarrow>
  u32 \<Rightarrow> ('d, reply) handler" where
  "rpc_cudnngetconvolutionforwardalgorithm_v7_1_svc E fd hnd srcDesc filterDesc convDesc destDesc requestedAlgoCount =
     held_query E fd (ucast (4 + sizeof_cudnnConvolutionFwdAlgoPerf_t * scast requestedAlgoCount))
       ''cudnnGetConvolutionForwardAlgorithm_v7''
       [Dn rm_cudnn hnd, Dn rm_cudnn_tensors srcDesc, Dn rm_cudnn_filters filterDesc, Dn rm_cudnn_convs convDesc,
        Dn rm_cudnn_tensors destDesc, I requestedAlgoCount] [0, 4]"

definition rpc_cudnnfindconvolutionforwardalgorithm_1_svc :: "'d env \<Rightarrow> int \<Rightarrow> u64 \<Rightarrow> u64 \<Rightarrow> u64 \<Rightarrow> u64 \<Rightarrow> u64 \<Rightarrow> u32
  \<Rightarrow> ('d, reply) handler" where
  "rpc_cudnnfindconvolutionforwardalgorithm_1_svc E fd hnd xDesc wDesc convDesc yDesc requestedAlgoCount =
     held_query E fd (ucast (4 + sizeof_cudnnConvolutionFwdAlgoPerf_t * scast requestedAlgoCount))
       ''cudnnFindConvolutionForwardAlgorithm''
       [Dn rm_cudnn hnd, Dn rm_cudnn_tensors xDesc, Dn rm_cudnn_filters wDesc, Dn rm_cudnn_convs convDesc,
        Dn rm_cudnn_tensors yDesc, I requestedAlgoCount] [0, 4]"

definition rpc_cudnngetconvolutionforwardworkspacesize_1_svc :: "'d env \<Rightarrow> int \<Rightarrow> u64 \<Rightarrow> u64 \<Rightarrow> u64 \<Rightarrow> u64 \<Rightarrow> u64 \<Rightarrow>
  u32 \<Rightarrow> ('d, reply) handler" where
  "rpc_cudnngetconvolutionforwardworkspacesize_1_svc E fd hnd xDesc wDesc convDesc yDesc algo =
     sched_query E fd ''cudnnGetConvolutionForwardWorkspaceSize'' [Dn rm_cudnn hnd, Dn rm_cudnn_tensors xDesc,
       Dn rm_cudnn_filters wDesc, Dn rm_cudnn_convs convDesc, Dn rm_cudnn_tensors yDesc, I algo] (\<lambda>outs. [Word64
       (out64 E outs 0)])"

definition rpc_cudnnconvolutionforward_1_svc :: "'d env \<Rightarrow> u32 \<Rightarrow> int \<Rightarrow> u64 \<Rightarrow> scaling \<Rightarrow> u64 \<Rightarrow> u64 \<Rightarrow> u64 \<Rightarrow> u64 \<Rightarrow>
  u64 \<Rightarrow> u32 \<Rightarrow> u64 \<Rightarrow> u64 \<Rightarrow> scaling \<Rightarrow> u64 \<Rightarrow> u64 \<Rightarrow> ('d, reply) handler" where
  "rpc_cudnnconvolutionforward_1_svc E rq fd hnd alpha xDesc x wDesc w convDesc algo workSpace workSpaceSizeInBytes beta yDesc y =
     sched_call E rq fd 120 [(0, i64 hnd), (8, i32 (sc_type alpha)), (16, i64 (sc_val alpha)),
       (24, i64 xDesc), (32, i64 x), (40, i64 wDesc), (48, i64 w), (56, i64 convDesc), (64, i32 algo),
       (72, i64 workSpace), (80, i64 workSpaceSizeInBytes), (88, i32 (sc_type beta)), (96, i64 (sc_val beta)),
       (104, i64 yDesc), (112, i64 y)] ''cudnnConvolutionForward'' [Dn rm_cudnn hnd, Val (scaling_arg alpha),
       Dn rm_cudnn_tensors xDesc, Handle rm_memory x, Dn rm_cudnn_filters wDesc, Handle rm_memory w,
       Dn rm_cudnn_convs convDesc, I algo, Handle rm_memory workSpace, W workSpaceSizeInBytes, Val
       (scaling_arg beta), Dn rm_cudnn_tensors yDesc, Handle rm_memory y]"

definition rpc_cudnnaddtensor_1_svc :: "'d env \<Rightarrow> u32 \<Rightarrow> int \<Rightarrow> u64 \<Rightarrow> scaling \<Rightarrow> u64 \<Rightarrow> u64 \<Rightarrow> scaling \<Rightarrow> u64 \<Rightarrow> u64 \<Rightarrow>
  ('d, reply) handler" where
  "rpc_cudnnaddtensor_1_svc E rq fd hnd alpha aDesc A beta cDesc C =
     sched_call E rq fd 72 [(0, i64 hnd), (8, i32 (sc_type alpha)), (16, i64 (sc_val alpha)), (24, i64 aDesc),
       (32, i64 A), (40, i32 (sc_type beta)), (48, i64 (sc_val beta)), (56, i64 cDesc), (64, i64 C)]
       ''cudnnAddTensor'' [Dn rm_cudnn hnd, Val (scaling_arg alpha), Dn rm_cudnn_tensors aDesc,
       Handle rm_memory A, Val (scaling_arg beta), Dn rm_cudnn_tensors cDesc, Handle rm_memory C]"

definition rpc_cudnntransformtensor_1_svc :: "'d env \<Rightarrow> u32 \<Rightarrow> int \<Rightarrow> u64 \<Rightarrow> scaling \<Rightarrow> u64 \<Rightarrow> u64 \<Rightarrow> scaling \<Rightarrow> u64 \<Rightarrow>
  u64 \<Rightarrow> ('d, reply) handler" where
  "rpc_cudnntransformtensor_1_svc E rq fd hnd alpha xDesc x beta yDesc y =
     sched_call E rq fd 72 [(0, i64 hnd), (8, i32 (sc_type alpha)), (16, i64 (sc_val alpha)), (24, i64 xDesc),
       (32, i64 x), (40, i32 (sc_type beta)), (48, i64 (sc_val beta)), (56, i64 yDesc), (64, i64 y)]
       ''cudnnTransformTensor'' [Dn rm_cudnn hnd, Val (scaling_arg alpha), Dn rm_cudnn_tensors xDesc,
       Handle rm_memory x, Val (scaling_arg beta), Dn rm_cudnn_tensors yDesc, Handle rm_memory y]"

section \<open>Backend descriptors\<close>

definition rpc_cudnnbackendcreatedescriptor_1_svc :: "'d env \<Rightarrow> u32 \<Rightarrow> int \<Rightarrow> u32 \<Rightarrow> ('d, reply) handler" where
  "rpc_cudnnbackendcreatedescriptor_1_svc E rq fd descriptorType =
     recorded E rq 4 [(0, i32 descriptorType)]
       (sched_new E fd (\<lambda>s. rm_cudnn_backendds (cudnn s)) (set_dn rm_cudnn_backendds_update)
         ''cudnnBackendCreateDescriptor'' [I descriptorType])"

definition rpc_cudnnbackenddestroydescriptor_1_svc :: "'d env \<Rightarrow> u32 \<Rightarrow> int \<Rightarrow> u64 \<Rightarrow> ('d, reply) handler" where
  "rpc_cudnnbackenddestroydescriptor_1_svc E rq fd descriptor =
     sched_call E rq fd 8 [(0, i64 descriptor)] ''cudnnBackendDestroyDescriptor''
       [Dn rm_cudnn_backendds descriptor]"

definition rpc_cudnnbackendinitialize_1_svc :: "'d env \<Rightarrow> u32 \<Rightarrow> int \<Rightarrow> u64 \<Rightarrow> ('d, reply) handler" where
  "rpc_cudnnbackendinitialize_1_svc E rq fd descriptor =
     sched_call E rq fd 8 [(0, i64 descriptor)] ''cudnnBackendInitialize'' [Dn rm_cudnn_backendds descriptor]"

definition rpc_cudnnbackendfinalize_1_svc :: "'d env \<Rightarrow> u32 \<Rightarrow> int \<Rightarrow> u64 \<Rightarrow> ('d, reply) handler" where
  "rpc_cudnnbackendfinalize_1_svc E rq fd descriptor =
     sched_call E rq fd 8 [(0, i64 descriptor)] ''cudnnBackendFinalize'' [Dn rm_cudnn_backendds descriptor]"

text \<open>\<open>elementCount * backendAttributeSizes[attributeType]\<close> is a \<open>size_t\<close>.\<close>

definition rpc_cudnnbackendsetattribute_1_svc :: "'d env \<Rightarrow> u32 \<Rightarrow> int \<Rightarrow> u64 \<Rightarrow> u32 \<Rightarrow> u32 \<Rightarrow> u64 \<Rightarrow> mem_data \<Rightarrow>
  ('d, reply) handler" where
  "rpc_cudnnbackendsetattribute_1_svc E rq fd descriptor attributeName attributeType elementCount arrayOfElements =
     recorded E rq 40 [(0, i64 descriptor), (8, i32 attributeName), (12, i32 attributeType),
         (16, i64 elementCount), (24, i32 (mem_len arrayOfElements)), (32, i64 (mem_addr arrayOfElements))]
         (\<lambda>i.
       if sint attributeType < 0 \<or> 19 \<le> sint attributeType then ret_h No_Reply else if ucast
         (mem_len arrayOfElements) \<noteq> elementCount * of_nat (backendAttributeSizes ! nat (sint attributeType))
         then ret_h No_Reply else
       sched_int E fd ''cudnnBackendSetAttribute'' [Dn rm_cudnn_backendds descriptor, I attributeName,
         I attributeType, W elementCount, Val (Bytes (mem_val arrayOfElements))] i)"

text \<open>The buffer takes eight bytes per element whatever the type, and no element is asked for:
  the array passed to the library is NULL.\<close>

definition rpc_cudnnbackendgetattribute_1_svc :: "'d env \<Rightarrow> int \<Rightarrow> u64 \<Rightarrow> u32 \<Rightarrow> u32 \<Rightarrow> u64 \<Rightarrow> ('d, reply) handler"
  where
  "rpc_cudnnbackendgetattribute_1_svc E fd descriptor attributeName attributeType requestedElementCount =
     (if sint attributeType < 0 \<or> 19 \<le> sint attributeType then ret_h No_Reply
      else buffer_query E fd (ucast (8 + requestedElementCount * 8)) ''cudnnBackendGetAttribute''
        [Dn rm_cudnn_backendds descriptor, I attributeName, I attributeType, W requestedElementCount, W 0] [0])"

definition rpc_cudnnbackendexecute_1_svc :: "'d env \<Rightarrow> u32 \<Rightarrow> int \<Rightarrow> u64 \<Rightarrow> u64 \<Rightarrow> u64 \<Rightarrow> ('d, reply) handler" where
  "rpc_cudnnbackendexecute_1_svc E rq fd hnd executionPlan variantPack =
     sched_call E rq fd 24 [(0, i64 hnd), (8, i64 executionPlan), (16, i64 variantPack)]
       ''cudnnBackendExecute'' [Dn rm_cudnn hnd, Dn rm_cudnn_backendds executionPlan,
       Dn rm_cudnn_backendds variantPack]"

section \<open>The log\<close>

lemma extends_sched_create [log_intros]:
  "steady E \<Longrightarrow> proc_size rq = 0 \<Longrightarrow> n \<le> k \<Longrightarrow> (\<And>m s. api_records (upd m s) = api_records s) \<Longrightarrow>
   extends_log E n k (sched_create E rq fd sel upd name args)"
  unfolding sched_create_def by (intro log_intros) simp_all

lemma extends_step [log_intros]: "extends_log E n k (\<lambda>s. bind_r r (\<lambda>x. Inr (f x, s)))"
  by (rule extends_log_pure) (auto simp: bind_r_Inr_iff)

lemma extends_fill_buffer [log_intros]: "extends_log E n k (fill_buffer E' name args ps buf)"
  unfolding fill_buffer_def by (intro log_intros)

lemma extends_reply_buffer [log_intros]:
  "(\<And>buf. extends_log E n k (body buf)) \<Longrightarrow> extends_log E n k (reply_buffer E' m body)"
  unfolding reply_buffer_def by (intro log_intros)

lemma extends_buffer_query [log_intros]: "extends_log E n k (buffer_query E' fd m name args ps)"
  unfolding buffer_query_def by (intro log_intros)

lemma extends_held_query [log_intros]: "extends_log E n k (held_query E' fd m name args ps)"
  unfolding held_query_def by (intro log_intros)

end
