(* ===== verification/ServerLt.thy ===== *)
theory ServerLt
  imports ServerCudnn
begin

text \<open>
  The handlers for cuBLASLt (\<open>cpu/cpu-server-cublaslt.c\<close>) and NVML (\<open>cpu/cpu-server-nvml.c\<close>). None of
  them records its call, the ones that create objects and write device memory included.
\<close>

section \<open>cuBLASLt\<close>

definition lt_create :: "'d env \<Rightarrow> int \<Rightarrow> string \<Rightarrow> 'd arg list \<Rightarrow> ('d, reply) handler" where
  "lt_create E fd name args =
     bind_h (sched_obj E fd rm_cublaslt (\<lambda>m s. s\<lparr>rm_cublaslt := m\<rparr>) name args)
       (\<lambda>(err, p). ret_h (Reply [Int32 err, Word64 p]))"

definition cublaslt_deinit :: "('d, int) handler" where
  "cublaslt_deinit = bind_h (free_mg rm_cublaslt (\<lambda>m s. s\<lparr>rm_cublaslt := m\<rparr>)) (\<lambda>_. ret_h 0)"

definition rpc_cublasltcreate_1_svc :: "'d env \<Rightarrow> int \<Rightarrow> ('d, reply) handler" where
  "rpc_cublasltcreate_1_svc E fd =
     lt_create E fd ''cublasLtCreate'' []"

definition rpc_cublasltmatrixlayoutcreate_1_svc :: "'d env \<Rightarrow> int \<Rightarrow> u32 \<Rightarrow> u64 \<Rightarrow> u64 \<Rightarrow> u64 \<Rightarrow> ('d, reply)
  handler" where
  "rpc_cublasltmatrixlayoutcreate_1_svc E fd ty row cols ld =
     lt_create E fd ''cublasLtMatrixLayoutCreate'' [I ty, W row,
       W cols, W ld]"

definition rpc_cublasltmatmulpreferencecreate_1_svc :: "'d env \<Rightarrow> int \<Rightarrow> ('d, reply) handler" where
  "rpc_cublasltmatmulpreferencecreate_1_svc E fd =
     lt_create E fd ''cublasLtMatmulPreferenceCreate'' []"

definition rpc_cublasltmatmuldesccreate_1_svc :: "'d env \<Rightarrow> int \<Rightarrow> u32 \<Rightarrow> u32 \<Rightarrow> ('d, reply) handler" where
  "rpc_cublasltmatmuldesccreate_1_svc E fd computeType scaleType =
     lt_create E fd ''cublasLtMatmulDescCreate'' [I computeType,
       I scaleType]"

definition rpc_cublasltmatmuldescdestroy_1_svc :: "'d env \<Rightarrow> int \<Rightarrow> u64 \<Rightarrow> ('d, reply) handler" where
  "rpc_cublasltmatmuldescdestroy_1_svc E fd matmulDesc =
     sched_query E fd ''cublasLtMatmulDescDestroy'' [Handle rm_cublaslt matmulDesc] (\<lambda>_. [])"

definition rpc_cublasltmatmulpreferencedestroy_1_svc :: "'d env \<Rightarrow> int \<Rightarrow> u64 \<Rightarrow> ('d, reply) handler" where
  "rpc_cublasltmatmulpreferencedestroy_1_svc E fd pref =
     sched_query E fd ''cublasLtMatmulPreferenceDestroy'' [Handle rm_cublaslt pref] (\<lambda>_. [])"

definition rpc_cublasltmatrixlayoutdestroy_1_svc :: "'d env \<Rightarrow> int \<Rightarrow> u64 \<Rightarrow> ('d, reply) handler" where
  "rpc_cublasltmatrixlayoutdestroy_1_svc E fd matLayout =
     sched_query E fd ''cublasLtMatrixLayoutDestroy'' [Handle rm_cublaslt matLayout] (\<lambda>_. [])"

text \<open>
  The results go to the one structure of the reply (\<open>rpc_matmul_heuristic_result\<close>, 96 bytes), however
  many the client asks for. The structure of the library has that size, so the size check passes.
\<close>

definition sizeof_cublasLtMatmulHeuristicResult_t :: nat where
  "sizeof_cublasLtMatmulHeuristicResult_t = 96"

definition rpc_cublasltmatmulalgogetheuristic_1_svc :: "'d env \<Rightarrow> int \<Rightarrow> u64 \<Rightarrow> u64 \<Rightarrow> u64 \<Rightarrow> u64 \<Rightarrow> u64 \<Rightarrow> u64 \<Rightarrow> u64
  \<Rightarrow> u32 \<Rightarrow> ('d, reply) handler" where
  "rpc_cublasltmatmulalgogetheuristic_1_svc E fd lightHandle operationDesc Adesc Bdesc Cdesc Ddesc preference requestedAlgoCount =
     bind_h (scheduled E fd (bind_h (lib_call E ''cublasLtMatmulAlgoGetHeuristic''
         [Handle rm_cublaslt lightHandle, Handle rm_cublaslt operationDesc, Handle rm_cublaslt Adesc,
          Handle rm_cublaslt Bdesc, Handle rm_cublaslt Cdesc, Handle rm_cublaslt Ddesc,
          Handle rm_cublaslt preference, I requestedAlgoCount]) (\<lambda>(err, outs) s.
       bind_r (write_outs (zip [0] outs) (replicate sizeof_cublasLtMatmulHeuristicResult_t (fresh_byte E)))
         (\<lambda>p. Inr ((err, p, out32 E outs 1), s)))))
       (\<lambda>(err, p, n). ret_h (Reply [Int32 err, Bytes p, Int32 n]))"

definition rpc_cublasltmatmuldescsetattribute_1_svc :: "'d env \<Rightarrow> int \<Rightarrow> u64 \<Rightarrow> u32 \<Rightarrow> mem_data \<Rightarrow> ('d, reply)
  handler" where
  "rpc_cublasltmatmuldescsetattribute_1_svc E fd matmulDesc attr dat =
     sched_query E fd ''cublasLtMatmulDescSetAttribute'' [Handle rm_cublaslt matmulDesc, I attr,
       Val (Bytes (mem_val dat)), W (ucast (mem_len dat))] (\<lambda>_. [])"

text \<open>The algorithm the client chose is not passed on.\<close>

definition rpc_cublasltmatmul_1_svc :: "'d env \<Rightarrow> int \<Rightarrow> u64 \<Rightarrow> u64 \<Rightarrow> u32 \<Rightarrow> u64 \<Rightarrow> u64 \<Rightarrow> u64 \<Rightarrow> u64 \<Rightarrow> u32 \<Rightarrow> u64 \<Rightarrow>
  u64 \<Rightarrow> u64 \<Rightarrow> u64 \<Rightarrow> u64 \<Rightarrow> u64 \<Rightarrow> u64 \<Rightarrow> u64 \<Rightarrow> ('d, reply) handler" where
  "rpc_cublasltmatmul_1_svc E fd lightHandle computeDesc alpha A Adesc B Bdesc beta C Cdesc D Ddesc algo workspace workspaceSizeInBytes stream =
     sched_query E fd ''cublasLtMatmul'' [Handle rm_cublaslt lightHandle, Handle rm_cublaslt computeDesc,
       I alpha, Handle rm_memory A, Handle rm_cublaslt Adesc, Handle rm_memory B, Handle rm_cublaslt Bdesc,
       I beta, Handle rm_memory C, Handle rm_cublaslt Cdesc, Handle rm_memory D, Handle rm_cublaslt Ddesc,
       W 0, Handle rm_memory workspace, W workspaceSizeInBytes, Handle rm_streams stream] (\<lambda>_. [])"

section \<open>NVML\<close>

definition server_nvml_init :: "bool \<Rightarrow> ('d, int) handler" where
  "server_nvml_init restore = (if \<not> restore then ret_h 0 else ret_h 0)"

definition server_nvml_deinit :: "('d, int) handler" where
  "server_nvml_deinit = ret_h 0"

text \<open>The number of devices is the one of the runtime interface.\<close>

definition rpc_nvmldevicegetcount_v2_1_svc :: "'d env \<Rightarrow> int \<Rightarrow> ('d, reply) handler" where
  "rpc_nvmldevicegetcount_v2_1_svc E fd =
     sched_query E fd ''cudaGetDeviceCount'' [] (\<lambda>outs. [Int32 (out32 E outs 0)])"

definition rpc_nvmlinitwithflags_1_svc :: "'d env \<Rightarrow> int \<Rightarrow> u32 \<Rightarrow> ('d, reply) handler" where
  "rpc_nvmlinitwithflags_1_svc E fd flags = sched_query E fd ''nvmlInitWithFlags'' [I flags] (\<lambda>_. [])"

definition rpc_nvmlinit_v2_1_svc :: "'d env \<Rightarrow> int \<Rightarrow> ('d, reply) handler" where
  "rpc_nvmlinit_v2_1_svc E fd = sched_query E fd ''nvmlInit_v2'' [] (\<lambda>_. [])"

definition rpc_nvmlshutdown_1_svc :: "'d env \<Rightarrow> int \<Rightarrow> ('d, reply) handler" where
  "rpc_nvmlshutdown_1_svc E fd = sched_query E fd ''nvmlShutdown'' [] (\<lambda>_. [])"

section \<open>The log\<close>

lemma extends_lt_create [log_intros]: "extends_log E n k (lt_create E' fd name args)"
  unfolding lt_create_def by (intro log_intros) simp

end
