(* ===== verification/Requests.thy ===== *)
theory Requests
  imports ServerRuntime ServerDriver ServerLt
begin

text \<open>
  The requests a client can send: the handlers of the runtime, driver, cuBLAS and cuSOLVER
  interfaces, of cuDNN, cuBLASLt and NVML, with their procedure numbers from \<open>cpu/cpu_rpc_prot.x\<close>, and the runs of the server.
  \<open>served E s s'\<close>: the server gets from state \<open>s\<close> to \<open>s'\<close> by serving requests. The properties
  hold for every run: the log only grows, by complete records, and the number of operators to
  replay never changes.
\<close>

section \<open>Requests\<close>

inductive runtime_request :: "'d env \<Rightarrow> nat \<Rightarrow> ('d, reply) handler \<Rightarrow> bool" for E where
  "runtime_request E 101 (cuda_choose_device_1_svc E 101 prop)"
| "runtime_request E 102 (cuda_device_get_attribute_1_svc E attr device)"
| "runtime_request E 103 (cuda_device_get_by_pci_bus_id_1_svc E pciBusId)"
| "runtime_request E 104 (cuda_device_get_cache_config_1_svc E)"
| "runtime_request E 105 (cuda_device_get_limit_1_svc E limit)"
| "runtime_request E 107 (cuda_device_get_p2p_attribute_1_svc E attr srcDevice dstDevice)"
| "runtime_request E 108 (cuda_device_get_pci_bus_id_1_svc E n device)"
| "runtime_request E 109 (cuda_device_get_shared_mem_config_1_svc E)"
| "runtime_request E 110 (cuda_device_get_stream_priority_range_1_svc E)"
| "runtime_request E 111 (cuda_device_get_texture_lmw_1_svc E fmtDesc device)"
| "runtime_request E 112 (cuda_device_reset_1_svc E 112)"
| "runtime_request E 113 (cuda_device_set_cache_config_1_svc E 113 cacheConfig)"
| "runtime_request E 114 (cuda_device_set_limit_1_svc E 114 limit v)"
| "runtime_request E 115 (cuda_device_set_shared_mem_config_1_svc E 115 config)"
| "runtime_request E 116 (cuda_device_synchronize_1_svc E 116)"
| "runtime_request E 117 (cuda_get_device_1_svc E)"
| "runtime_request E 118 (cuda_get_device_count_1_svc E)"
| "runtime_request E 119 (cuda_get_device_flags_1_svc E)"
| "runtime_request E 120 (cuda_get_device_properties_1_svc E device)"
| "runtime_request E 126 (cuda_set_device_1_svc E 126 device)"
| "runtime_request E 127 (cuda_set_device_flags_1_svc E 127 flags)"
| "runtime_request E 128 (cuda_set_valid_devices_1_svc E 128 device_arr n)"
| "runtime_request E 140 (cuda_get_error_name_1_svc E err)"
| "runtime_request E 141 (cuda_get_error_string_1_svc E err)"
| "runtime_request E 142 (cuda_get_last_error_1_svc E)"
| "runtime_request E 143 (cuda_peek_at_last_error_1_svc E)"
| "runtime_request E 250 (cuda_ctx_reset_persisting_l2cache_1_svc E 250)"
| "runtime_request E 254 (cuda_stream_copy_attributes_1_svc E 254 dst src)"
| "runtime_request E 255 (cuda_stream_create_1_svc E 255)"
| "runtime_request E 256 (cuda_stream_create_with_flags_1_svc E 256 flags)"
| "runtime_request E 257 (cuda_stream_create_with_priority_1_svc E 257 flags priority)"
| "runtime_request E 258 (cuda_stream_destroy_1_svc E 258 stream)"
| "runtime_request E 262 (cuda_stream_get_flags_1_svc E hStream)"
| "runtime_request E 263 (cuda_stream_get_priority_1_svc E hStream)"
| "runtime_request E 264 (cuda_stream_is_capturing_1_svc E stream)"
| "runtime_request E 265 (cuda_stream_query_1_svc E hStream)"
| "runtime_request E 267 (cuda_stream_synchronize_1_svc E 267 stream)"
| "runtime_request E 268 (cuda_stream_wait_event_1_svc E 268 stream event flags)"
| "runtime_request E 269 (cuda_thread_exchange_stream_capture_mode_1_svc E 269 mode)"
| "runtime_request E 280 (cuda_event_create_1_svc E 280)"
| "runtime_request E 281 (cuda_event_create_with_flags_1_svc E 281 flags)"
| "runtime_request E 282 (cuda_event_destroy_1_svc E 282 event)"
| "runtime_request E 283 (cuda_event_elapsed_time_1_svc E start stop)"
| "runtime_request E 284 (cuda_event_query_1_svc E 284 event)"
| "runtime_request E 285 (cuda_event_record_1_svc E 285 event stream)"
| "runtime_request E 286 (cuda_event_record_with_flags_1_svc E 286 event stream flags)"
| "runtime_request E 287 (cuda_event_synchronize_1_svc E 287 event)"
| "runtime_request E 310 (cuda_func_get_attributes_1_svc E func)"
| "runtime_request E 311 (cuda_func_set_attributes_1_svc E 311 func attr v)"
| "runtime_request E 312 (cuda_func_set_cache_config_1_svc E 312 func cacheConfig)"
| "runtime_request E 313 (cuda_func_set_shared_mem_config_1_svc E 313 func config)"
| "runtime_request E 330 (cuda_occupancy_available_dsmpb_1_svc E func numBlocks blockSize)"
| "runtime_request E 331 (cuda_occupancy_max_active_bpm_1_svc E func blockSize dynamicSMemSize)"
| "runtime_request E 332 (cuda_occupancy_max_active_bpm_with_flags_1_svc E func blockSize dynamicSMemSize
      flags)"
| "runtime_request E 500 (cuda_device_can_access_peer_1_svc E device peerDevice)"
| "runtime_request E 501 (cuda_device_disable_peer_access_1_svc E 501 peerDevice)"
| "runtime_request E 502 (cuda_device_enable_peer_access_1_svc E 502 peerDevice flags)"
| "runtime_request E 510 (cuda_driver_get_version_1_svc E)"
| "runtime_request E 511 (cuda_runtime_get_version_1_svc E)"
| "runtime_request E 701 (cuda_profiler_start_1_svc E 701)"
| "runtime_request E 702 (cuda_profiler_stop_1_svc E 702)"
| "runtime_request E 409 (cuda_host_alloc_1_svc E 409 st local sz flags)"
| "runtime_request E 477 (cuda_host_alloc_regshm_1_svc E 477 st local hainfo_idx client_ptr)"
| "runtime_request E 404 (cuda_free_host_1_svc E 404 st index)"
| "runtime_request E 410 (cuda_host_get_device_pointer_1_svc E pHost flags)"
| "runtime_request E 411 (cuda_host_get_flags_1_svc E pHost)"
| "runtime_request E 400 (cuda_array_get_info_1_svc E array)"
| "runtime_request E 401 (cuda_array_get_sparse_properties_1_svc E array)"
| "runtime_request E 407 (cuda_get_symbol_address_1_svc E symbol)"
| "runtime_request E 408 (cuda_get_symbol_size_1_svc E symbol)"
| "runtime_request E 402 (cuda_free_1_svc E 402 devPtr)"
| "runtime_request E 403 (cuda_free_array_1_svc E 403 devPtr)"
| "runtime_request E 414 (cuda_malloc_1_svc E 414 argp)"
| "runtime_request E 415 (cuda_malloc_3d_1_svc E 415 depth height width)"
| "runtime_request E 416 (cuda_malloc_3d_array_1_svc E 416 desc depth height width flags)"
| "runtime_request E 417 (cuda_malloc_array_1_svc E 417 desc width height flags)"
| "runtime_request E 421 (cuda_malloc_pitch_1_svc E 421 width height)"
| "runtime_request E 422 (cuda_mem_advise_1_svc E 422 devPtr count advice device)"
| "runtime_request E 423 (cuda_mem_get_info_1_svc E)"
| "runtime_request E 424 (cuda_mem_prefetch_async_1_svc E 424 devPtr count dstDevice stream)"
| "runtime_request E 440 (cuda_memcpy_htod_1_svc E 440 p mem sz)"
| "runtime_request E 441 (cuda_memcpy_dtoh_1_svc E p sz)"
| "runtime_request E 443 (cuda_memcpy_dtod_1_svc E 443 dst src sz)"
| "runtime_request E 447 (cuda_memcpy_ib_1_svc E index device_ptr sz kind)"
| "runtime_request E 442 (cuda_memcpy_shm_1_svc E 442 index device_ptr sz kind)"
| "runtime_request E 445 (cuda_memcpy_to_symbol_1_svc E 445 symbolptr mem sz offset)"
| "runtime_request E 446 (cuda_memcpy_to_symbol_shm_1_svc E 446 index device_ptr sz offset kind)"
| "runtime_request E 449 (cuda_memcpy_mt_htod_1_svc E 449 dest sz threads)"
| "runtime_request E 450 (cuda_memcpy_mt_dtoh_1_svc E 450 src sz threads)"
| "runtime_request E 451 (cuda_memcpy_mt_sync_1_svc E 451 fuel tid)"
| "runtime_request E 470 (cuda_memset_1_svc E 470 devPtr v count)"
| "runtime_request E 471 (cuda_memset_2d_1_svc E 471 devPtr pitch v width height)"
| "runtime_request E 472 (cuda_memset_2d_async_1_svc E 472 devPtr pitch v width height stream)"
| "runtime_request E 473 (cuda_memset_3d_1_svc E 473 pitch devPtr xsize ysize v depth height width)"
| "runtime_request E 474 (cuda_memset_3d_async_1_svc E 474 pitch devPtr xsize ysize v depth height width
      stream)"
| "runtime_request E 475 (cuda_memset_async_1_svc E 475 devPtr v count stream)"
| "runtime_request E 314 (cuda_launch_cooperative_kernel_1_svc E 314 l)"
| "runtime_request E 317 (cuda_launch_kernel_1_svc E 317 l)"

inductive driver_request :: "'d env \<Rightarrow> nat \<Rightarrow> ('d, reply) handler \<Rightarrow> bool" for E where
  "driver_request E 51 (rpc_elf_load_1_svc E elf module_key)"
| "driver_request E 52 (rpc_elf_unload_1_svc E elf_handle)"
| "driver_request E 50 (rpc_register_function_1_svc E 50 fd fatCubinHandle hostFun deviceFun deviceName
      thread_limit)"
| "driver_request E 53 (rpc_register_var_1_svc E 53 fd fatCubinHandle hostVar deviceAddress deviceName ext'
      sz constant global')"
| "driver_request E 1002 (rpc_cudevicegetcount_1_svc E)"
| "driver_request E 1003 (rpc_cuinit_1_svc E argp)"
| "driver_request E 1004 (rpc_cudrivergetversion_1_svc E)"
| "driver_request E 1005 (rpc_cudeviceget_1_svc E fd ordinal)"
| "driver_request E 1006 (rpc_cudevicegetname_1_svc E fd dev)"
| "driver_request E 1007 (rpc_cudevicetotalmem_1_svc E fd dev)"
| "driver_request E 1008 (rpc_cudevicegetattribute_1_svc E fd attr dev)"
| "driver_request E 1009 (rpc_cudevicegetuuid_1_svc E fd dev)"
| "driver_request E 1010 (rpc_cuctxgetcurrent_1_svc E fd)"
| "driver_request E 1011 (rpc_cuctxsetcurrent_1_svc E p)"
| "driver_request E 1012 (rpc_cudeviceprimaryctxretain_1_svc E dev)"
| "driver_request E 1013 (rpc_cumodulegetfunction_1_svc E 1013 fd module name)"
| "driver_request E 1026 (rpc_cumoduleloaddata_1_svc E 1026 fd mem)"
| "driver_request E 1019 (rpc_cumoduleload_1_svc E 1019 fd path)"
| "driver_request E 1021 (rpc_cumoduleunload_1_svc E 1021 fd module)"
| "driver_request E 1020 (rpc_cugeterrorstring_1_svc E err)"
| "driver_request E 1022 (rpc_cudeviceprimaryctxgetstate_1_svc E fd dev)"
| "driver_request E 1023 (rpc_cudevicegetproperties_1_svc E fd dev)"
| "driver_request E 1024 (rpc_cudevicecomputecapability_1_svc E fd dev)"
| "driver_request E 1015 (rpc_cumemalloc_1_svc E fd sz)"
| "driver_request E 1016 (rpc_cuctxgetdevice_1_svc E fd)"
| "driver_request E 1017 (rpc_cumemcpyhtod_1_svc E fd dptr hptr)"
| "driver_request E 1018 (rpc_culaunchkernel_1_svc E fd l)"
| "driver_request E 1025 (rpc_cudevicegetp2pattribute_1_svc E fd attrib srcDevice dstDevice)"

inductive library_request :: "'d env \<Rightarrow> nat \<Rightarrow> ('d, reply) handler \<Rightarrow> bool" for E where
  "library_request E 3001 (rpc_cublascreate_1_svc E 3001 fd)"
| "library_request E 3002 (rpc_cublasdgemm_1_svc E 3002 fd h transa transb m n k alpha A lda B ldb beta C ldc)"
| "library_request E 3003 (rpc_cublasdestroy_1_svc E 3003 fd h)"
| "library_request E 3009 (rpc_cublassetworkspace_1_svc E 3009 fd h workspace workspaceSizeInBytes)"
| "library_request E 3008 (rpc_cublassetstream_1_svc E 3008 fd h streamId)"
| "library_request E 3010 (rpc_cublassetmathmode_1_svc E 3010 fd h mode)"
| "library_request E 3004 (rpc_cublassgemm_1_svc E 3004 fd h transa transb m n k alpha A lda B ldb beta C ldc)"
| "library_request E 3005 (rpc_cublassgemv_1_svc E 3005 fd h trans' m n alpha A lda x incx beta y incy)"
| "library_request E 3006 (rpc_cublasdgemv_1_svc E 3006 fd h trans' m n alpha A lda x incx beta y incy)"
| "library_request E 3007 (rpc_cublassgemmex_1_svc E 3007 fd h transa transb m n k alpha A Atype lda B Btype
      ldb beta C Ctype ldc)"
| "library_request E 5328 (rpc_cublasgetmathmode_1_svc E fd h)"
| "library_request E 5329 (rpc_cublasgemmstridedbatchedex_1_svc E fd h transa transb m n k alpha A Atype lda
      strideA B Btype ldb strideB beta C Ctype ldc strideC batchCount computeType algo)"
| "library_request E 5330 (rpc_cublasgemmex_1_svc E fd h transa transb m n k alpha A Atype lda B Btype ldb
      beta C Ctype ldc computeType algo)"
| "library_request E 5331 (rpc_cublasgemmstridedbatched_1_svc E fd h transa transb m n k alpha A lda strideA
      B ldb strideB beta C ldc strideC batchCount)"
| "library_request E 2001 (rpc_cusolverdncreate_1_svc E 2001)"
| "library_request E 2002 (rpc_cusolverdnsetstream_1_svc E 2002 h stream)"
| "library_request E 2003 (rpc_cusolverdndgetrf_buffersize_1_svc E h m n A lda)"
| "library_request E 2004 (rpc_cusolverdndgetrf_1_svc E h m n A lda Workspace devIpiv devInfo)"
| "library_request E 2005 (rpc_cusolverdndgetrs_1_svc E h trans' n nrhs A lda devIpiv B ldb devInfo)"
| "library_request E 2006 (rpc_cusolverdndestroy_1_svc E 2006 h)"

inductive dnn_request :: "'d env \<Rightarrow> nat \<Rightarrow> ('d, reply) handler \<Rightarrow> bool" for E where
  "dnn_request E 5000 (rpc_cudnngetversion_1_svc E fd)"
| "dnn_request E 5001 (rpc_cudnngetmaxdeviceversion_1_svc E fd)"
| "dnn_request E 5002 (rpc_cudnngetcudartversion_1_svc E fd)"
| "dnn_request E 5003 (rpc_cudnngeterrorstring_1_svc E fd status)"
| "dnn_request E 5004 (rpc_cudnnqueryruntimeerror_1_svc E fd hnd mode)"
| "dnn_request E 5005 (rpc_cudnngetproperty_1_svc E fd ty)"
| "dnn_request E 5006 (rpc_cudnncreate_1_svc E 5006 fd)"
| "dnn_request E 5007 (rpc_cudnndestroy_1_svc E 5007 fd hnd)"
| "dnn_request E 5008 (rpc_cudnnsetstream_1_svc E 5008 fd hnd streamId)"
| "dnn_request E 5009 (rpc_cudnngetstream_1_svc E fd hnd)"
| "dnn_request E 5010 (rpc_cudnncreatetensordescriptor_1_svc E 5010 fd)"
| "dnn_request E 5011 (rpc_cudnnsettensor4ddescriptor_1_svc E 5011 fd tensorDesc format dataType n c h w)"
| "dnn_request E 5012 (rpc_cudnnsettensor4ddescriptorex_1_svc E 5012 fd tensorDesc dataType n c h w nStride
      cStride hStride wStride)"
| "dnn_request E 5013 (rpc_cudnngettensor4ddescriptor_1_svc E fd tensorDesc)"
| "dnn_request E 5014 (rpc_cudnnsettensornddescriptor_1_svc E 5014 fd tensorDesc dataType nbDims dimA strideA)"
| "dnn_request E 5015 (rpc_cudnnsettensornddescriptorex_1_svc E 5015 fd tensorDesc format dataType nbDims dimA)"
| "dnn_request E 5016 (rpc_cudnngettensornddescriptor_1_svc E fd tensorDesc nbDimsRequested)"
| "dnn_request E 5017 (rpc_cudnngettensorsizeinbytes_1_svc E fd tensorDesc)"
| "dnn_request E 5018 (rpc_cudnndestroytensordescriptor_1_svc E 5018 fd tensorDesc)"
| "dnn_request E 5041 (rpc_cudnncreatefilterdescriptor_1_svc E 5041 fd)"
| "dnn_request E 5042 (rpc_cudnnsetfilter4ddescriptor_1_svc E 5042 fd filterDesc dataType format k c h w)"
| "dnn_request E 5043 (rpc_cudnngetfilter4ddescriptor_1_svc E fd filterDesc)"
| "dnn_request E 5044 (rpc_cudnnsetfilternddescriptor_1_svc E 5044 fd filterDesc dataType format nbDims
      filterDimA)"
| "dnn_request E 5045 (rpc_cudnngetfilternddescriptor_1_svc E fd filterDesc nbDimsRequested)"
| "dnn_request E 5046 (rpc_cudnngetfiltersizeinbytes_1_svc E fd filterDesc)"
| "dnn_request E 5047 (rpc_cudnntransformfilter_1_svc E 5047 fd hnd transDesc alpha srcDesc srcData beta
      destDesc destData)"
| "dnn_request E 5048 (rpc_cudnndestroyfilterdescriptor_1_svc E 5048 fd filterDesc)"
| "dnn_request E 5050 (rpc_cudnncreatepoolingdescriptor_1_svc E 5050 fd)"
| "dnn_request E 5051 (rpc_cudnnsetpooling2ddescriptor_1_svc E 5051 fd poolingDesc mode maxpoolingNanOpt
      windowHeight windowWidth verticalPadding horizontalPadding verticalStride horizontalStride)"
| "dnn_request E 5052 (rpc_cudnngetpooling2ddescriptor_1_svc E fd poolingDesc)"
| "dnn_request E 5053 (rpc_cudnnsetpoolingnddescriptor_1_svc E 5053 fd poolingDesc mode maxpoolingNanOpt
      nbDims windowDimA paddingA strideA)"
| "dnn_request E 5054 (rpc_cudnngetpoolingnddescriptor_1_svc E fd poolingDesc nbDimsRequested)"
| "dnn_request E 5055 (rpc_cudnngetpoolingndforwardoutputdim_1_svc E fd poolingDesc inputTensorDesc nbDims)"
| "dnn_request E 5056 (rpc_cudnngetpooling2dforwardoutputdim_1_svc E fd poolingDesc inputTensorDesc)"
| "dnn_request E 5057 (rpc_cudnndestroypoolingdescriptor_1_svc E 5057 fd poolingDesc)"
| "dnn_request E 5059 (rpc_cudnncreateactivationdescriptor_1_svc E 5059 fd)"
| "dnn_request E 5060 (rpc_cudnnsetactivationdescriptor_1_svc E 5060 fd activationDesc mode reluNanOpt coef)"
| "dnn_request E 5061 (rpc_cudnngetactivationdescriptor_1_svc E fd activationDesc)"
| "dnn_request E 5062 (rpc_cudnnsetactivationdescriptorswishbeta_1_svc E 5062 fd activationDesc swish_beta)"
| "dnn_request E 5063 (rpc_cudnngetactivationdescriptorswishbeta_1_svc E fd activationDesc)"
| "dnn_request E 5064 (rpc_cudnndestroyactivationdescriptor_1_svc E 5064 fd activationDesc)"
| "dnn_request E 5066 (rpc_cudnncreatelrndescriptor_1_svc E 5066 fd)"
| "dnn_request E 5067 (rpc_cudnnsetlrndescriptor_1_svc E 5067 fd normDesc lrnN lrnAlpha lrnBeta lrnK)"
| "dnn_request E 5068 (rpc_cudnngetlrndescriptor_1_svc E fd normDesc)"
| "dnn_request E 5069 (rpc_cudnndestroylrndescriptor_1_svc E 5069 fd lrnDesc)"
| "dnn_request E 5058 (rpc_cudnnpoolingforward_1_svc E 5058 fd hnd poolingDesc alpha xDesc x beta yDesc y)"
| "dnn_request E 5065 (rpc_cudnnactivationforward_1_svc E 5065 fd hnd activationDesc alpha xDesc x beta yDesc
      y)"
| "dnn_request E 5070 (rpc_cudnnlrncrosschannelforward_1_svc E 5070 fd hnd normDesc lrnMode alpha xDesc x
      beta yDesc y)"
| "dnn_request E 5049 (rpc_cudnnsoftmaxforward_1_svc E 5049 fd hnd algo mode alpha xDesc x beta yDesc y)"
| "dnn_request E 5303 (rpc_cudnngetconvolutionndforwardoutputdim_1_svc E fd convDesc inputTensorDesc
      filterDesc nbDims)"
| "dnn_request E 5301 (rpc_cudnncreateconvolutiondescriptor_1_svc E 5301 fd)"
| "dnn_request E 5302 (rpc_cudnndestroyconvolutiondescriptor_1_svc E 5302 fd convDesc)"
| "dnn_request E 5317 (rpc_cudnnsetconvolutionmathtype_1_svc E 5317 fd convDesc mathType)"
| "dnn_request E 5316 (rpc_cudnnsetconvolutiongroupcount_1_svc E 5316 fd convDesc groupCount)"
| "dnn_request E 5304 (rpc_cudnnsetconvolutionnddescriptor_1_svc E 5304 fd convDesc arrayLength padA
      filterStrideA dilationA mode computeType)"
| "dnn_request E 5305 (rpc_cudnngetconvolutionforwardalgorithm_v7_1_svc E fd hnd srcDesc filterDesc convDesc
      destDesc requestedAlgoCount)"
| "dnn_request E 5306 (rpc_cudnnfindconvolutionforwardalgorithm_1_svc E fd hnd xDesc wDesc convDesc yDesc
      requestedAlgoCount)"
| "dnn_request E 5307 (rpc_cudnngetconvolutionforwardworkspacesize_1_svc E fd hnd xDesc wDesc convDesc yDesc
      algo)"
| "dnn_request E 5308 (rpc_cudnnconvolutionforward_1_svc E 5308 fd hnd alpha xDesc x wDesc w convDesc algo
      workSpace workSpaceSizeInBytes beta yDesc y)"
| "dnn_request E 5026 (rpc_cudnnaddtensor_1_svc E 5026 fd hnd alpha aDesc A beta cDesc C)"
| "dnn_request E 5024 (rpc_cudnntransformtensor_1_svc E 5024 fd hnd alpha xDesc x beta yDesc y)"
| "dnn_request E 5309 (rpc_cudnnbackendcreatedescriptor_1_svc E 5309 fd descriptorType)"
| "dnn_request E 5310 (rpc_cudnnbackenddestroydescriptor_1_svc E 5310 fd descriptor)"
| "dnn_request E 5311 (rpc_cudnnbackendinitialize_1_svc E 5311 fd descriptor)"
| "dnn_request E 5312 (rpc_cudnnbackendfinalize_1_svc E 5312 fd descriptor)"
| "dnn_request E 5313 (rpc_cudnnbackendsetattribute_1_svc E 5313 fd descriptor attributeName attributeType
      elementCount arrayOfElements)"
| "dnn_request E 5314 (rpc_cudnnbackendgetattribute_1_svc E fd descriptor attributeName attributeType
      requestedElementCount)"
| "dnn_request E 5315 (rpc_cudnnbackendexecute_1_svc E 5315 fd hnd executionPlan variantPack)"
| "dnn_request E 5318 (rpc_cublasltcreate_1_svc E fd)"
| "dnn_request E 5323 (rpc_cublasltmatrixlayoutcreate_1_svc E fd ty row cols ld)"
| "dnn_request E 5324 (rpc_cublasltmatmulpreferencecreate_1_svc E fd)"
| "dnn_request E 5319 (rpc_cublasltmatmuldesccreate_1_svc E fd computeType scaleType)"
| "dnn_request E 5322 (rpc_cublasltmatmuldescdestroy_1_svc E fd matmulDesc)"
| "dnn_request E 5325 (rpc_cublasltmatmulpreferencedestroy_1_svc E fd pref)"
| "dnn_request E 5326 (rpc_cublasltmatrixlayoutdestroy_1_svc E fd matLayout)"
| "dnn_request E 5320 (rpc_cublasltmatmulalgogetheuristic_1_svc E fd lightHandle operationDesc Adesc Bdesc
      Cdesc Ddesc preference requestedAlgoCount)"
| "dnn_request E 5321 (rpc_cublasltmatmuldescsetattribute_1_svc E fd matmulDesc attr dat)"
| "dnn_request E 5327 (rpc_cublasltmatmul_1_svc E fd lightHandle computeDesc alpha A Adesc B Bdesc beta C
      Cdesc D Ddesc algo workspace workspaceSizeInBytes stream)"
| "dnn_request E 4000 (rpc_nvmldevicegetcount_v2_1_svc E fd)"
| "dnn_request E 4001 (rpc_nvmlinitwithflags_1_svc E fd flags)"
| "dnn_request E 4002 (rpc_nvmlinit_v2_1_svc E fd)"
| "dnn_request E 4003 (rpc_nvmlshutdown_1_svc E fd)"

lemmas runtime_handlers =
  cuda_choose_device_1_svc_def cuda_device_get_attribute_1_svc_def 
  cuda_device_get_by_pci_bus_id_1_svc_def cuda_device_get_cache_config_1_svc_def 
  cuda_device_get_limit_1_svc_def cuda_device_get_p2p_attribute_1_svc_def 
  cuda_device_get_pci_bus_id_1_svc_def cuda_device_get_shared_mem_config_1_svc_def 
  cuda_device_get_stream_priority_range_1_svc_def cuda_device_get_texture_lmw_1_svc_def 
  cuda_device_reset_1_svc_def cuda_device_set_cache_config_1_svc_def cuda_device_set_limit_1_svc_def 
  cuda_device_set_shared_mem_config_1_svc_def cuda_device_synchronize_1_svc_def 
  cuda_get_device_1_svc_def cuda_get_device_count_1_svc_def cuda_get_device_flags_1_svc_def 
  cuda_get_device_properties_1_svc_def cuda_set_device_1_svc_def cuda_set_device_flags_1_svc_def 
  cuda_set_valid_devices_1_svc_def cuda_get_error_name_1_svc_def cuda_get_error_string_1_svc_def 
  cuda_get_last_error_1_svc_def cuda_peek_at_last_error_1_svc_def 
  cuda_ctx_reset_persisting_l2cache_1_svc_def cuda_stream_copy_attributes_1_svc_def 
  cuda_stream_create_1_svc_def cuda_stream_create_with_flags_1_svc_def 
  cuda_stream_create_with_priority_1_svc_def cuda_stream_destroy_1_svc_def 
  cuda_stream_get_flags_1_svc_def cuda_stream_get_priority_1_svc_def 
  cuda_stream_is_capturing_1_svc_def cuda_stream_query_1_svc_def cuda_stream_synchronize_1_svc_def 
  cuda_stream_wait_event_1_svc_def cuda_thread_exchange_stream_capture_mode_1_svc_def 
  cuda_event_create_1_svc_def cuda_event_create_with_flags_1_svc_def cuda_event_destroy_1_svc_def 
  cuda_event_elapsed_time_1_svc_def cuda_event_query_1_svc_def cuda_event_record_1_svc_def 
  cuda_event_record_with_flags_1_svc_def cuda_event_synchronize_1_svc_def 
  cuda_func_get_attributes_1_svc_def cuda_func_set_attributes_1_svc_def 
  cuda_func_set_cache_config_1_svc_def cuda_func_set_shared_mem_config_1_svc_def 
  cuda_occupancy_available_dsmpb_1_svc_def cuda_occupancy_max_active_bpm_1_svc_def 
  cuda_occupancy_max_active_bpm_with_flags_1_svc_def cuda_device_can_access_peer_1_svc_def 
  cuda_device_disable_peer_access_1_svc_def cuda_device_enable_peer_access_1_svc_def 
  cuda_driver_get_version_1_svc_def cuda_runtime_get_version_1_svc_def cuda_profiler_start_1_svc_def 
  cuda_profiler_stop_1_svc_def cuda_host_alloc_1_svc_def cuda_host_alloc_regshm_1_svc_def 
  cuda_free_host_1_svc_def cuda_host_get_device_pointer_1_svc_def cuda_host_get_flags_1_svc_def 
  cuda_array_get_info_1_svc_def cuda_array_get_sparse_properties_1_svc_def 
  cuda_get_symbol_address_1_svc_def cuda_get_symbol_size_1_svc_def cuda_free_1_svc_def 
  cuda_free_array_1_svc_def cuda_malloc_1_svc_def cuda_malloc_3d_1_svc_def 
  cuda_malloc_3d_array_1_svc_def cuda_malloc_array_1_svc_def cuda_malloc_pitch_1_svc_def 
  cuda_mem_advise_1_svc_def cuda_mem_get_info_1_svc_def cuda_mem_prefetch_async_1_svc_def 
  cuda_memcpy_htod_1_svc_def cuda_memcpy_dtoh_1_svc_def cuda_memcpy_dtod_1_svc_def 
  cuda_memcpy_ib_1_svc_def cuda_memcpy_shm_1_svc_def cuda_memcpy_to_symbol_1_svc_def 
  cuda_memcpy_to_symbol_shm_1_svc_def cuda_memcpy_mt_htod_1_svc_def cuda_memcpy_mt_dtoh_1_svc_def 
  cuda_memcpy_mt_sync_1_svc_def cuda_memset_1_svc_def cuda_memset_2d_1_svc_def 
  cuda_memset_2d_async_1_svc_def cuda_memset_3d_1_svc_def cuda_memset_3d_async_1_svc_def 
  cuda_memset_async_1_svc_def cuda_launch_cooperative_kernel_1_svc_def cuda_launch_kernel_1_svc_def

lemmas driver_handlers =
  rpc_elf_load_1_svc_def rpc_elf_unload_1_svc_def rpc_register_function_1_svc_def 
  rpc_register_var_1_svc_def rpc_cudevicegetcount_1_svc_def rpc_cuinit_1_svc_def 
  rpc_cudrivergetversion_1_svc_def rpc_cudeviceget_1_svc_def rpc_cudevicegetname_1_svc_def 
  rpc_cudevicetotalmem_1_svc_def rpc_cudevicegetattribute_1_svc_def rpc_cudevicegetuuid_1_svc_def 
  rpc_cuctxgetcurrent_1_svc_def rpc_cuctxsetcurrent_1_svc_def rpc_cudeviceprimaryctxretain_1_svc_def 
  rpc_cumodulegetfunction_1_svc_def rpc_cumoduleloaddata_1_svc_def rpc_cumoduleload_1_svc_def 
  rpc_cumoduleunload_1_svc_def rpc_cugeterrorstring_1_svc_def rpc_cudeviceprimaryctxgetstate_1_svc_def 
  rpc_cudevicegetproperties_1_svc_def rpc_cudevicecomputecapability_1_svc_def rpc_cumemalloc_1_svc_def 
  rpc_cuctxgetdevice_1_svc_def rpc_cumemcpyhtod_1_svc_def rpc_culaunchkernel_1_svc_def 
  rpc_cudevicegetp2pattribute_1_svc_def

lemmas library_handlers =
  rpc_cublascreate_1_svc_def rpc_cublasdgemm_1_svc_def rpc_cublasdestroy_1_svc_def 
  rpc_cublassetworkspace_1_svc_def rpc_cublassetstream_1_svc_def rpc_cublassetmathmode_1_svc_def 
  rpc_cublassgemm_1_svc_def rpc_cublassgemv_1_svc_def rpc_cublasdgemv_1_svc_def 
  rpc_cublassgemmex_1_svc_def rpc_cublasgetmathmode_1_svc_def rpc_cublasgemmstridedbatchedex_1_svc_def 
  rpc_cublasgemmex_1_svc_def rpc_cublasgemmstridedbatched_1_svc_def rpc_cusolverdncreate_1_svc_def 
  rpc_cusolverdnsetstream_1_svc_def rpc_cusolverdndgetrf_buffersize_1_svc_def 
  rpc_cusolverdndgetrf_1_svc_def rpc_cusolverdndgetrs_1_svc_def rpc_cusolverdndestroy_1_svc_def

lemmas dnn_handlers =
  rpc_cudnngetversion_1_svc_def rpc_cudnngetmaxdeviceversion_1_svc_def 
  rpc_cudnngetcudartversion_1_svc_def rpc_cudnngeterrorstring_1_svc_def 
  rpc_cudnnqueryruntimeerror_1_svc_def rpc_cudnngetproperty_1_svc_def rpc_cudnncreate_1_svc_def 
  rpc_cudnndestroy_1_svc_def rpc_cudnnsetstream_1_svc_def rpc_cudnngetstream_1_svc_def 
  rpc_cudnncreatetensordescriptor_1_svc_def rpc_cudnnsettensor4ddescriptor_1_svc_def 
  rpc_cudnnsettensor4ddescriptorex_1_svc_def rpc_cudnngettensor4ddescriptor_1_svc_def 
  rpc_cudnnsettensornddescriptor_1_svc_def rpc_cudnnsettensornddescriptorex_1_svc_def 
  rpc_cudnngettensornddescriptor_1_svc_def rpc_cudnngettensorsizeinbytes_1_svc_def 
  rpc_cudnndestroytensordescriptor_1_svc_def rpc_cudnncreatefilterdescriptor_1_svc_def 
  rpc_cudnnsetfilter4ddescriptor_1_svc_def rpc_cudnngetfilter4ddescriptor_1_svc_def 
  rpc_cudnnsetfilternddescriptor_1_svc_def rpc_cudnngetfilternddescriptor_1_svc_def 
  rpc_cudnngetfiltersizeinbytes_1_svc_def rpc_cudnntransformfilter_1_svc_def 
  rpc_cudnndestroyfilterdescriptor_1_svc_def rpc_cudnncreatepoolingdescriptor_1_svc_def 
  rpc_cudnnsetpooling2ddescriptor_1_svc_def rpc_cudnngetpooling2ddescriptor_1_svc_def 
  rpc_cudnnsetpoolingnddescriptor_1_svc_def rpc_cudnngetpoolingnddescriptor_1_svc_def 
  rpc_cudnngetpoolingndforwardoutputdim_1_svc_def rpc_cudnngetpooling2dforwardoutputdim_1_svc_def 
  rpc_cudnndestroypoolingdescriptor_1_svc_def rpc_cudnncreateactivationdescriptor_1_svc_def 
  rpc_cudnnsetactivationdescriptor_1_svc_def rpc_cudnngetactivationdescriptor_1_svc_def 
  rpc_cudnnsetactivationdescriptorswishbeta_1_svc_def 
  rpc_cudnngetactivationdescriptorswishbeta_1_svc_def rpc_cudnndestroyactivationdescriptor_1_svc_def 
  rpc_cudnncreatelrndescriptor_1_svc_def rpc_cudnnsetlrndescriptor_1_svc_def 
  rpc_cudnngetlrndescriptor_1_svc_def rpc_cudnndestroylrndescriptor_1_svc_def 
  rpc_cudnnpoolingforward_1_svc_def rpc_cudnnactivationforward_1_svc_def 
  rpc_cudnnlrncrosschannelforward_1_svc_def rpc_cudnnsoftmaxforward_1_svc_def 
  rpc_cudnngetconvolutionndforwardoutputdim_1_svc_def rpc_cudnncreateconvolutiondescriptor_1_svc_def 
  rpc_cudnndestroyconvolutiondescriptor_1_svc_def rpc_cudnnsetconvolutionmathtype_1_svc_def 
  rpc_cudnnsetconvolutiongroupcount_1_svc_def rpc_cudnnsetconvolutionnddescriptor_1_svc_def 
  rpc_cudnngetconvolutionforwardalgorithm_v7_1_svc_def 
  rpc_cudnnfindconvolutionforwardalgorithm_1_svc_def 
  rpc_cudnngetconvolutionforwardworkspacesize_1_svc_def rpc_cudnnconvolutionforward_1_svc_def 
  rpc_cudnnaddtensor_1_svc_def rpc_cudnntransformtensor_1_svc_def 
  rpc_cudnnbackendcreatedescriptor_1_svc_def rpc_cudnnbackenddestroydescriptor_1_svc_def 
  rpc_cudnnbackendinitialize_1_svc_def rpc_cudnnbackendfinalize_1_svc_def 
  rpc_cudnnbackendsetattribute_1_svc_def rpc_cudnnbackendgetattribute_1_svc_def 
  rpc_cudnnbackendexecute_1_svc_def rpc_cublasltcreate_1_svc_def 
  rpc_cublasltmatrixlayoutcreate_1_svc_def rpc_cublasltmatmulpreferencecreate_1_svc_def 
  rpc_cublasltmatmuldesccreate_1_svc_def rpc_cublasltmatmuldescdestroy_1_svc_def 
  rpc_cublasltmatmulpreferencedestroy_1_svc_def rpc_cublasltmatrixlayoutdestroy_1_svc_def 
  rpc_cublasltmatmulalgogetheuristic_1_svc_def rpc_cublasltmatmuldescsetattribute_1_svc_def 
  rpc_cublasltmatmul_1_svc_def rpc_nvmldevicegetcount_v2_1_svc_def rpc_nvmlinitwithflags_1_svc_def 
  rpc_nvmlinit_v2_1_svc_def rpc_nvmlshutdown_1_svc_def

definition request :: "'d env \<Rightarrow> nat \<Rightarrow> ('d, reply) handler \<Rightarrow> bool" where
  "request E proc h \<longleftrightarrow> runtime_request E proc h \<or> driver_request E proc h \<or> library_request E proc h \<or>
     dnn_request E proc h"

inductive served :: "'d env \<Rightarrow> 'd server \<Rightarrow> 'd server \<Rightarrow> bool" for E s where
  served_start: "served E s s"
| served_step: "served E s s1 \<Longrightarrow> request E proc h \<Longrightarrow> h s1 = Inr (r, s2) \<Longrightarrow> served E s s2"

section \<open>The log\<close>

lemma extends_bind_r [log_intros]:
  "(\<And>x. extends_log E n k (h x)) \<Longrightarrow> extends_log E n k (\<lambda>s. bind_r (g s) (\<lambda>x. h x s))"
  unfolding extends_log_def bind_r_Inr_iff by blast

lemma extends_get [log_intros]: "extends_log E n k (get_s f)"
  by (rule extends_log_pure) (simp add: get_s_def)

lemma extends_modify [log_intros]:
  "(\<And>s. api_records (f s) = api_records s) \<Longrightarrow> extends_log E n k (modify_s f)"
  by (rule extends_log_pure) (auto simp: modify_s_def)

lemma extends_hainfo [log_intros]:
  "extends_log E n k (hainfo_at i)" "extends_log E n k (hainfo_set i h)"
  "extends_log E n k (hainfo_getserverindex p)"
  by (rule extends_log_pure; auto simp: hainfo_at_def hainfo_set_def hainfo_getserverindex_def
      bind_r_Inr_iff split: if_split_asm)+

lemma extends_on_mt [log_intros]: "extends_log E n k (on_mt f)"
  by (rule extends_log_pure) (auto simp: on_mt_def bind_r_Inr_iff)

lemma extends_add_in [log_intros]:
  "(\<And>m s. api_records (upd m s) = api_records s) \<Longrightarrow> extends_log E n k (add_in E' sel upd p q)"
  by (rule extends_log_pure) (auto simp: add_in_def bind_r_Inr_iff)

lemma extends_input_slot [log_intros]: "extends_log E n k (input_slot p)"
  by (rule extends_log_pure) (auto simp: input_slot_def Let_def split: if_split_asm)

lemma extends_case_option [log_intros]:
  "extends_log E n k a \<Longrightarrow> (\<And>x. extends_log E n k (f x)) \<Longrightarrow>
   extends_log E n k (case o' of None \<Rightarrow> a | Some x \<Rightarrow> f x)"
  by (cases o') simp_all

lemma extends_case_option_fun [log_intros]:
  "extends_log E n k a \<Longrightarrow> (\<And>x. extends_log E n k (f x)) \<Longrightarrow>
   extends_log E n k (\<lambda>s. case o' of None \<Rightarrow> a s | Some x \<Rightarrow> f x s)"
  by (cases o') simp_all

lemma extends_case_pair_fun [log_intros]:
  "(\<And>a b. extends_log E n k (f a b)) \<Longrightarrow> extends_log E n k (\<lambda>s. case p of (a, b) \<Rightarrow> f a b s)"
  by (cases p) simp

lemma extends_if_fun [log_intros]:
  "extends_log E n k a \<Longrightarrow> extends_log E n k b \<Longrightarrow> extends_log E n k (\<lambda>s. if c then a s else b s)"
  by (cases c) simp_all

lemma extends_reply [log_intros]: "extends_log E n k (\<lambda>s. Inr (x, s))"
  by (rule extends_log_pure) simp

lemma extends_replay [log_intros]:
  "steady E \<Longrightarrow> n \<le> k \<Longrightarrow> extends_log E n k (replay_each_operator E rq l)"
  unfolding replay_each_operator_def by (intro log_intros) simp_all

lemma extends_replay_loop [log_intros]:
  "steady E \<Longrightarrow> n \<le> k \<Longrightarrow> extends_log E n k (replay_loop E rq i m res)"
proof (induction m arbitrary: i res)
  case (Suc m)
  then show ?case by (auto intro!: log_intros)
qed (simp add: log_intros)

lemma extends_host_alloc [log_intros]: "extends_log E n k (host_alloc E' st local sz flags)"
  unfolding host_alloc_def Let_def by (intro log_intros) simp_all

lemma extends_mt_init [log_intros]: "extends_log E n k (mt_memcpy_init_server E' dev sz dir threads)"
  unfolding mt_memcpy_init_server_def Let_def by (intro log_intros)

lemma extends_mt_sync [log_intros]: "extends_log E n k (mt_memcpy_sync_server E' server)"
  unfolding mt_memcpy_sync_server_def by (intro log_intros)

lemma extends_load_module [log_intros]:
  "n \<le> i \<Longrightarrow> i < k \<Longrightarrow> extends_log E n k (load_module E' fd name args i)"
  unfolding load_module_def by (intro log_intros) simp_all

lemma extends_htod [log_intros]:
  "steady E \<Longrightarrow> n \<le> k \<Longrightarrow> extends_log E n k (cuda_memcpy_htod_1_svc E rq p mem sz)"
  unfolding cuda_memcpy_htod_1_svc_def by (intro log_intros) simp_all

lemma extends_shm [log_intros]:
  "steady E \<Longrightarrow> n \<le> k \<Longrightarrow> extends_log E n k (cuda_memcpy_shm_1_svc E rq index p sz kind)"
  unfolding cuda_memcpy_shm_1_svc_def by (intro log_intros) simp_all

lemma library_extends:
  "library_request E p h \<Longrightarrow> steady E \<Longrightarrow> n \<le> k \<Longrightarrow> extends_log E n k h"
  by (induction rule: library_request.induct; unfold library_handlers; intro log_intros; simp)

lemma extends_input [log_intros]: "extends_log E n k count_output"
  unfolding count_output_def by (intro log_intros) simp

lemma extends_mt_start [log_intros]:
  "steady E \<Longrightarrow> n \<le> k \<Longrightarrow> extends_log E n k (mt_start E rq dir dev sz threads)"
  unfolding mt_start_def by (intro log_intros) simp_all

lemma extends_mt_wait [log_intros]:
  "n \<le> i \<Longrightarrow> i < k \<Longrightarrow> extends_log E n k (mt_wait E' fuel j i)"
  unfolding mt_wait_def by (intro log_intros)

lemma extends_launch [log_intros]:
  "steady E \<Longrightarrow> n \<le> k \<Longrightarrow> extends_log E n k (cuda_launch_kernel_1_svc E rq l)"
  unfolding cuda_launch_kernel_1_svc_def by (intro log_intros) simp_all

lemma runtime_extends:
  "runtime_request E p h \<Longrightarrow> steady E \<Longrightarrow> n \<le> k \<Longrightarrow> extends_log E n k h"
  by (induction rule: runtime_request.induct;
      (intro log_intros; simp; fail)?; unfold runtime_handlers free_host_def Let_def error_text_def; intro log_intros;
      simp add: sizeof_cudaDeviceProp_def)

lemma extends_error_string [log_intros]: "extends_log E n k (rpc_cugeterrorstring_1_svc E' err)"
  unfolding rpc_cugeterrorstring_1_svc_def
  by (intro log_intros) (auto intro!: log_intros split: list.split cval.split)

lemma driver_extends:
  "driver_request E p h \<Longrightarrow> steady E \<Longrightarrow> n \<le> k \<Longrightarrow> extends_log E n k h"
  by (induction rule: driver_request.induct;
      (intro log_intros; simp; fail)?; unfold driver_handlers Let_def; intro log_intros; simp)

lemma dnn_extends:
  "dnn_request E p h \<Longrightarrow> steady E \<Longrightarrow> n \<le> k \<Longrightarrow> extends_log E n k h"
  by (induction rule: dnn_request.induct;
      (intro log_intros; simp; fail)?; unfold dnn_handlers; intro log_intros; simp)

lemma request_extends: "request E p h \<Longrightarrow> steady E \<Longrightarrow> extends_log E n n h"
  unfolding request_def by (blast intro: runtime_extends driver_extends library_extends dnn_extends)

lemma served_log:
  assumes "served E s s'" and "steady E" and "list_rep (api_records s) xs" and "log_fits E xs"
  shows "\<exists>ys. list_rep (api_records s') (xs @ ys) \<and> log_fits E (xs @ ys)"
  using assms(1)
proof induction
  case served_start
  show ?case using assms(3,4) by (intro exI [of _ "[]"]) simp
next
  case (served_step s1 p h r s2)
  then obtain ys where ys: "list_rep (api_records s1) (xs @ ys)" "log_fits E (xs @ ys)" by blast
  obtain zs where zs: "list_rep (api_records s2) zs" "length (xs @ ys) \<le> length zs"
    "take (length (xs @ ys)) zs = take (length (xs @ ys)) (xs @ ys)" "log_fits E zs"
    using extends_logD [OF request_extends [OF served_step.hyps(2) assms(2)] ys(1) le_refl ys(2)
      served_step.hyps(3)] by blast
  then have "zs = xs @ ys @ drop (length (xs @ ys)) zs"
    using append_take_drop_id [of "length (xs @ ys)" zs] by simp
  with zs show ?case by metis
qed

end
