(* ===== verification/Runs.thy ===== *)
theory Runs
  imports Requests
begin

text \<open>
  Whole runs: requests are served, the log is written to a checkpoint, and a new process restores
  it. The replay of an iteration: which addresses inputs are copied to, and which launches happen.
\<close>

section \<open>Checkpoint of a run\<close>

text \<open>The procedures whose resources a restore recreates or skips, without calling them.\<close>

definition rebuilt_procs :: "u32 set" where
  "rebuilt_procs = {CUDA_MALLOC, CUDA_MEMCPY_HTOD, CUDA_MEMCPY_DTOD, CUDA_MEMCPY_DTOH,
     CUDA_MEMCPY_TO_SYMBOL, CUDA_STREAM_CREATE, CUDA_STREAM_CREATE_WITH_FLAGS,
     CUDA_STREAM_CREATE_WITH_PRIORITY, CUDA_EVENT_CREATE, CUDA_EVENT_CREATE_WITH_FLAGS,
     CUDA_MALLOC_ARRAY, CUDA_MALLOC_3D_ARRAY, CUDA_LAUNCH_KERNEL,
     CUDA_LAUNCH_COOPERATIVE_KERNEL, rpc_cusolverDnCreate, rpc_cublasCreate}"

lemma logged_args:
  assumes "logged_ok E r"
  shows "proc_size (rq_function r) \<le> length (case arguments r of None \<Rightarrow> [] | Some a \<Rightarrow> a)"
  using assms unfolding logged_ok_def record_fits_def record_wf_def
  by (cases "arguments r") (simp_all del: proc_size_num)

lemma proc_sizes:
  "rq \<in> {CUDA_MALLOC, CUDA_STREAM_CREATE_WITH_PRIORITY} \<Longrightarrow> proc_size rq = 8"
  "rq \<in> {CUDA_STREAM_CREATE_WITH_FLAGS, CUDA_EVENT_CREATE_WITH_FLAGS} \<Longrightarrow> 4 \<le> proc_size rq"
  unfolding proc_size_def by (simp, simp only: if_True split: if_split, simp)

lemma logged_printable: "logged_ok E r \<Longrightarrow> printable r"
  using logged_args [of E r] proc_sizes(1) [of "rq_function r"] unfolding printable_def
  by (cases "rq_function r = CUDA_MALLOC"; cases "arguments r") (simp_all del: proc_size_num)

lemma logged_restorable:
  assumes "logged_ok E r" and "rq_function r \<in> rebuilt_procs"
  shows "restorable (norm_record r)"
proof -
  let ?a = "case arguments r of None \<Rightarrow> [] | Some a \<Rightarrow> a"
  have eq: "arguments (norm_record r) = Some ?a" "rq_function (norm_record r) = rq_function r"
    by (simp_all add: norm_record_def)
  note sz = logged_args [OF assms(1)]
  have "rq_function r \<in> {CUDA_MALLOC, CUDA_STREAM_CREATE_WITH_PRIORITY} \<longrightarrow> 8 \<le> length ?a"
    using sz proc_sizes(1) by (intro impI) (simp only:)
  moreover have "rq_function r \<in> {CUDA_STREAM_CREATE_WITH_FLAGS, CUDA_EVENT_CREATE_WITH_FLAGS} \<longrightarrow> 4 \<le> length ?a"
    using sz proc_sizes(2) le_trans by blast
  ultimately show ?thesis
    unfolding restorable_def eq option.case using assms(2) [unfolded rebuilt_procs_def] by (intro conjI)
qed

text \<open>C6: A checkpoint of a run can be restored: take any sequence of requests served from an empty
  log, whose log holds only calls the restore recreates itself and no kernel launch but the
  first record. Then \<open>cr_dump\<close> writes it, \<open>cr_restore\<close> in a new process returns 0, the new log is the
  old one (up to empty blocks), and the new memory table translates exactly the device pointers
  of the recorded allocations, so the pointers the client holds stay valid.\<close>

theorem run_checkpoint_restores:
  assumes run: "served E s0 s" "steady E" "list_rep (api_records s0) []"
    and log: "list_rep (api_records s) xs" "xs \<noteq> []"
      "\<forall>r \<in> set xs. rq_function r \<in> rebuilt_procs \<and> memory_ok E fs path (norm_record r)"
      "\<forall>r \<in> set (tl xs). \<not> is_launch r"
    and outf: "creatable fs (path @ ''/api_records'')" "length (log_bytes xs) \<le> disk_free fs"
    and heap: "heap_ok E (length (path @ ''/api_records'') + 1)"
      "\<forall>n \<le> 2 * (length xs + 1) * element_size (api_records t). heap_ok E n"
      "\<forall>n \<le> 32 * (length xs + 1). heap_ok E n"
    and works: "cuda_works E"
    and fresh: "list_rep (api_records t) []" "restore_ready t 0" "mg_handles (rm_memory t) Map.empty"
  shows "\<exists>fs' t' mm. cr_dump E path (api_records s) fs = Inr (0, fs') \<and>
    cr_restore E svc fs' path t = Inr (0, t') \<and>
    list_rep (api_records t') (map norm_record xs) \<and> mg_handles (rm_memory t') mm \<and>
    dom mm = malloc_ptrs xs"
proof -
  have "log_fits E []" by (simp add: log_fits_def)
  then obtain ys where "list_rep (api_records s) ys" "log_fits E ys"
    using served_log [OF run] by auto
  with log(1) have "log_fits E xs" using list_rep_unique by blast
  then have ok: "logged_ok E r" if "r \<in> set xs" for r using that by (simp add: log_fits_def)
  have "heap_ok E = glibc (heap_ok E)" using run(2) glibc_id by (simp add: steady_def)
  moreover have "record_fits E r \<and> printable r \<and> restorable (norm_record r) \<and>
      memory_ok E fs path (norm_record r)" if "r \<in> set xs" for r
    using ok [OF that] logged_printable logged_restorable log(3) that unfolding logged_ok_def by blast
  ultimately show ?thesis
    by (intro dump_then_restore [OF log(1,2) _ log(4) outf _ heap works fresh]) blast+
qed

text \<open>A run of one request, \<open>cudaMalloc\<close>.\<close>

lemma malloc_runs:
  assumes st: "steady E" and rep: "list_rep (api_records s) xs" "room (heap_ok E) (api_records s)"
    and new: "list_rep (new_res (rm_memory s)) ps" "room (heap_ok E) (new_res (rm_memory s))"
    and cuda: "cuda E ''cudaMalloc'' [Word64 n] (gpu s) = (err, outs, d)"
  obtains s' where "cuda_malloc_1_svc E rq n s = Inr (Reply [Int32 err, Word64 (out64 E outs 0)], s')"
    and "list_rep (api_records s') (xs @ [(call_record E rq 8 (Some (i64 n)))\<lparr>result_lo :=
      set_low32 (result_lo (fresh_record E)) err, result_hi := out64 E outs 0\<rparr>])"
proof -
  let ?new = "create_call E rm_memory (\<lambda>m s. s\<lparr>rm_memory := m\<rparr>) ''cudaMalloc'' [W n]"
  let ?r = "call_record E rq 8 (Some (i64 n))"
  have put: "put_fields [(0, i64 n)] (replicate 8 (fresh_byte E)) = i64 n"
    by (simp add: blit_def)
  obtain l where l: "recorded E rq 8 [(0, i64 n)] ?new s = ?new (length xs) (s\<lparr>api_records := l\<rparr>)"
    "list_rep l (xs @ [?r])"
    using recorded_opens [OF st _ _ rep, of 8 "[(0, i64 n)]" rq ?new] put by (auto simp: fields_fit_def)
  obtain l' m where "?new (length xs) (s\<lparr>api_records := l\<rparr>) = Inr (Reply [Int32 err, Word64 (out64 E outs 0)],
      (s\<lparr>api_records := l, gpu := d, rm_memory := (rm_memory s)\<lparr>new_res := m\<rparr>, api_records := l'\<rparr>))"
    "list_rep l' (xs @ [?r\<lparr>result_lo := set_low32 (result_lo ?r) err, result_hi := out64 E outs 0\<rparr>])"
    by (rule create_call_runs [OF st, of "s\<lparr>api_records := l\<rparr>" xs ?r "[W n]" "[Word64 n]" "''cudaMalloc''"
          err outs d rm_memory ps "\<lambda>m s. s\<lparr>rm_memory := m\<rparr>"])
      (use l(2) new cuda in \<open>auto simp: bind_h_def ret_h_def\<close>)
  with l(1) show thesis
    by (intro that) (auto simp: cuda_malloc_1_svc_def call_record_def)
qed

lemma roomy_steady: "steady roomy_env"
  by (auto simp: steady_def roomy_env_def glibc_def alloc_bounded_def)

lemma sample_log: "list_rep (api_records sample_server) []"
  by (simp add: server_on_def list_rep_def list_wf_def list_abs_def)

definition malloc_record :: api_record where
  "malloc_record = (call_record roomy_env 414 8 (Some (i64 77)))\<lparr>result_lo :=
     set_low32 (result_lo (fresh_record roomy_env)) 0, result_hi := 4096\<rparr>"

lemma run_of_malloc:
  obtains s where "served roomy_env sample_server s" and "list_rep (api_records s) [malloc_record]"
proof -
  have rep: "room (heap_ok roomy_env) (api_records sample_server)"
    "list_rep (new_res (rm_memory sample_server)) []" "room (heap_ok roomy_env) (new_res (rm_memory sample_server))"
    by (simp_all add: server_on_def fresh_mg_def list_rep_def list_wf_def list_abs_def room_def)
  obtain s where s: "cuda_malloc_1_svc roomy_env 414 77 sample_server = Inr (Reply [Int32 0, Word64 4096], s)"
    "list_rep (api_records s) [malloc_record]"
    using malloc_runs [OF roomy_steady sample_log rep, of 77 0 "[Word64 4096]" "()" 414]
    by (auto simp: roomy_env_def sample_env_def out64_def malloc_record_def)
  have "request roomy_env 414 (cuda_malloc_1_svc roomy_env 414 77)"
    by (simp add: request_def runtime_request.intros)
  from served_step [OF served_start this s(1)] s(2) show thesis by (rule that)
qed

theorem run_checkpoint_restores_witness:
  "\<exists>s fs' t' mm. served roomy_env sample_server s \<and>
    cr_dump roomy_env ''ckp'' (api_records s) \<lparr>files = Map.empty, creatable = (\<lambda>_. True), disk_free = 1000\<rparr> =
      Inr (0, fs') \<and>
    cr_restore roomy_env (\<lambda>_ _ _. ret_h 1) fs' ''ckp'' sample_server = Inr (0, t') \<and>
    mg_handles (rm_memory t') mm \<and> dom mm = {4096}"
proof -
  let ?r = malloc_record
  obtain s where run: "served roomy_env sample_server s" and s: "list_rep (api_records s) [?r]"
    by (rule run_of_malloc)
  have r: "rq_function ?r = CUDA_MALLOC" "result_hi ?r = 4096"
    by (simp_all add: malloc_record_def call_record_def CUDA_MALLOC_def)
  have "\<exists>fs' t' mm. cr_dump roomy_env ''ckp'' (api_records s)
      \<lparr>files = Map.empty, creatable = (\<lambda>_. True), disk_free = 1000\<rparr> = Inr (0, fs') \<and>
    cr_restore roomy_env (\<lambda>_ _ _. ret_h 1) fs' ''ckp'' sample_server = Inr (0, t') \<and>
    list_rep (api_records t') (map norm_record [?r]) \<and> mg_handles (rm_memory t') mm \<and>
    dom mm = malloc_ptrs [?r]"
    by (rule run_checkpoint_restores [OF run roomy_steady sample_log s])
      (use hex_length_u64 [of 4096] in \<open>simp_all add: procs le_val_le_bytes rebuilt_procs_def memory_ok_def norm_record_def call_record_def
        malloc_record_def arg_word_def blk_def i64_def roomy_env_def sample_env_def glibc_def asprintf_def read_mem_file_def fopen_r_def
        mem_file_def log_bytes_def record_bytes_def cuda_works_def server_on_def restore_ready_def fresh_mg_ready
        list_rep_def list_wf_def list_abs_def\<close>)
  then show ?thesis using run r by auto
qed

text \<open>C18: Whatever requests the server serves, the log only grows: the records of earlier calls are
  never changed or dropped, and every record in it is complete, of a size a checkpoint can
  hold, and with an argument block as long as the restore of its procedure reads.\<close>

theorem log_only_grows:
  assumes "served E s s'" and "steady E" and "list_rep (api_records s) xs" and "log_fits E xs"
  shows "\<exists>ys. list_rep (api_records s') (xs @ ys) \<and>
    (\<forall>r \<in> set (xs @ ys). record_fits E r \<and> proc_size (rq_function r) \<le> arg_size r)"
  using served_log [OF assms] unfolding log_fits_def logged_ok_def .

theorem log_only_grows_witness:
  "\<exists>s r. served roomy_env sample_server s \<and> list_rep (api_records s) [r] \<and> record_fits roomy_env r"
proof -
  obtain s r where run: "served roomy_env sample_server s" "list_rep (api_records s) [r]"
    using run_of_malloc by blast
  then obtain ys where "list_rep (api_records s) ([] @ ys)" "\<forall>r \<in> set ([] @ ys). record_fits roomy_env r"
    using log_only_grows [OF run(1) roomy_steady, of "[]"] sample_log by (auto simp: log_fits_def)
  moreover have "ys = [r]" using list_rep_unique [of "api_records s" ys "[r]"] calculation(1) run(2) by simp
  ultimately show ?thesis using run by auto
qed

end
