(* ===== verification/Restart.thy ===== *)
theory Restart
  imports Runs
begin

text \<open>
  Checkpoint and restart with the contents of the device memory. \<open>memory_device E mem blocks K\<close>
  states what the code relies on in the CUDA library: \<open>mem d\<close> maps the pointers of the device
  state \<open>d\<close> to the contents of the allocations behind them, \<open>blocks d\<close> counts the allocations
  made; up to \<open>K\<close> of them a new one is disjoint from the others, copies move the bytes, and the
  calls that create streams, events and library handles leave the memory alone.
\<close>

section \<open>The device memory\<close>

definition creators :: "string set" where
  "creators = {''cudaStreamCreate'', ''cudaStreamCreateWithFlags'', ''cudaStreamCreateWithPriority'',
     ''cudaEventCreate'', ''cudaEventCreateWithFlags'', ''cublasCreate_v2'', ''cusolverDnCreate''}"

definition memory_device :: "'d env \<Rightarrow> ('d \<Rightarrow> u64 \<rightharpoonup> u8 list) \<Rightarrow> ('d \<Rightarrow> nat) \<Rightarrow> nat \<Rightarrow> bool" where
  "memory_device E mem blocks K \<longleftrightarrow>
     (\<forall>d n. blocks d < K \<longrightarrow> (\<exists>p bs d'. cuda E ''cudaMalloc'' [Word64 n] d = (0, [Word64 p], d') \<and>
        mem d p = None \<and> length bs = unat n \<and> mem d' = (mem d)(p \<mapsto> bs) \<and> blocks d' = Suc (blocks d))) \<and>
     (\<forall>d p old bs. mem d p = Some old \<and> length old = length bs \<longrightarrow> (\<exists>outs d'.
        cuda E ''cudaMemcpy'' [Word64 p, Bytes bs, Word64 (of_nat (length bs)), Int32 1] d = (0, outs, d') \<and>
        mem d' = (mem d)(p \<mapsto> bs) \<and> blocks d' = blocks d)) \<and>
     (\<forall>d a p bs. mem d p = Some bs \<longrightarrow>
        cuda E ''cudaMemcpy'' [Word64 a, Word64 p, Word64 (of_nat (length bs)), Int32 2] d = (0, [Bytes bs], d)) \<and>
     (\<forall>f \<in> creators. \<forall>a d. mem (snd (snd (cuda E f a d))) = mem d \<and> blocks (snd (snd (cuda E f a d))) = blocks d)"

lemma device_malloc:
  assumes "memory_device E mem blocks K" and "blocks d < K"
  obtains p bs d' where "cuda E ''cudaMalloc'' [Word64 n] d = (0, [Word64 p], d')" and "mem d p = None"
    and "length bs = unat n" and "mem d' = (mem d)(p \<mapsto> bs)" and "blocks d' = Suc (blocks d)"
  using assms unfolding memory_device_def by blast

lemma device_write:
  assumes "memory_device E mem blocks K" and "mem d p = Some old" and "length old = length bs"
  obtains outs d' where "cuda E ''cudaMemcpy'' [Word64 p, Bytes bs, Word64 (of_nat (length bs)), Int32 1] d = (0, outs, d')"
    and "mem d' = (mem d)(p \<mapsto> bs)" and "blocks d' = blocks d"
  using assms unfolding memory_device_def by blast

lemma device_read: "memory_device E mem blocks K \<Longrightarrow> mem d p = Some bs \<Longrightarrow>
    cuda E ''cudaMemcpy'' [Word64 a, Word64 p, Word64 (of_nat (length bs)), Int32 2] d = (0, [Bytes bs], d)"
  unfolding memory_device_def by blast

lemma device_create: "memory_device E mem blocks K \<Longrightarrow> f \<in> creators \<Longrightarrow>
    mem (snd (snd (cuda E f a d))) = mem d \<and> blocks (snd (snd (cuda E f a d))) = blocks d"
  unfolding memory_device_def by blast

section \<open>One allocation\<close>

lemma restore_memory_contents:
  assumes dev: "memory_device E mem blocks K" "blocks (gpu s) < K"
    and tab: "mg_handles (rm_memory s) mm" and heap: "heap_ok E = glibc h"
    and r: "arg_word r 0 8 = Inr (length bs)" "length bs < 2 ^ 64"
    and fl: "files fs (mem_file path (result_hi r)) = Some bs"
    and nm: "asprintf E (mem_file path (result_hi r)) = Some (mem_file path (result_hi r))"
    and run: "cr_restore_memory E fs path r s = Inr (0, s')" "heap_ok E (length bs)"
  obtains q where "mg_handles (rm_memory s') (mm(result_hi r \<mapsto> q))" and "mem (gpu s) q = None"
    and "mem (gpu s') = (mem (gpu s))(q \<mapsto> bs)" and "blocks (gpu s') = Suc (blocks (gpu s))"
proof -
  have rd: "read_mem_file fs (mem_file path (result_hi r)) (length bs) = Inr (Some bs)"
    by (simp add: read_mem_file_def fopen_r_def fl fread_def)
  have n: "unat (of_nat (length bs) :: u64) = length bs" using r(2) by (simp add: unat_of_nat take_bit_nat_eq_self)
  obtain q old d1 where m: "cuda E ''cudaMalloc'' [Word64 (of_nat (length bs))] (gpu s) = (0, [Word64 q], d1)"
    "mem (gpu s) q = None" "length old = length bs" "mem d1 = (mem (gpu s))(q \<mapsto> old)" "blocks d1 = Suc (blocks (gpu s))"
    by (rule device_malloc [OF dev, of "of_nat (length bs)"]) (simp only: n)
  have "mem d1 q = Some old" using m(4) by simp
  then obtain outs d2 where c: "cuda E ''cudaMemcpy'' [Word64 q, Bytes bs, Word64 (of_nat (length bs)), Int32 1] d1 =
      (0, outs, d2)" "mem d2 = (mem d1)(q \<mapsto> bs)" "blocks d2 = blocks d1"
    using device_write [OF dev(1) _ m(3)] by blast
  consider (ok) m' where "resource_mg_add_sorted (heap_ok E) (rm_memory s) (result_hi r) q = Inr (0, m')"
      "mg_handles m' (mm(result_hi r \<mapsto> q))"
    | (full) m' where "resource_mg_add_sorted (heap_ok E) (rm_memory s) (result_hi r) q = Inr (1, m')"
    using add_cases [OF tab heap, of "result_hi r" q] by blast
  then show thesis
  proof cases
    case ok
    have "s' = s\<lparr>gpu := d2, rm_memory := m'\<rparr>"
      using run rd nm r(1) m(1) c(1) ok(1)
      by (auto simp: cr_restore_memory_def cuda_call_def Let_def out64_def split: if_split_asm)
    with ok(2) m(2,4,5) c(2,3) show thesis by (intro that [of q]) simp_all
  next
    case full
    with run rd nm r(1) m(1) c(1) show thesis
      by (auto simp: cr_restore_memory_def cuda_call_def Let_def out64_def split: if_split_asm)
  qed
qed

section \<open>The other resources\<close>

definition same_memory :: "('d \<Rightarrow> u64 \<rightharpoonup> u8 list) \<Rightarrow> ('d \<Rightarrow> nat) \<Rightarrow> 'd server \<Rightarrow> (int \<times> 'd server) res \<Rightarrow> bool" where
  "same_memory mem blocks s res \<longleftrightarrow> (\<forall>rc s'. res = Inr (rc, s') \<longrightarrow>
     mem (gpu s') = mem (gpu s) \<and> blocks (gpu s') = blocks (gpu s) \<and> rm_memory s' = rm_memory s)"

lemma same_memory_wrap:
  "same_memory mem blocks s res \<Longrightarrow>
   same_memory mem blocks s (bind_r res (\<lambda>(rc, s). Inr (if rc \<noteq> 0 then 1 else 0, s)))"
  by (auto simp: same_memory_def bind_r_Inr_iff)

lemma same_memory_enter:
  assumes dev: "memory_device E mem blocks K" and "f \<in> creators"
    and upd: "\<And>m s. gpu (upd m s) = gpu s \<and> rm_memory (upd m s) = rm_memory s"
  shows "same_memory mem blocks s (bind_r (cuda_call E f a s) (\<lambda>((err, outs), s).
      if err \<noteq> 0 then Inr (1, s)
      else bind_r (resource_mg_add_sorted (heap_ok E) (sel s) k (out64 E outs 0))
        (\<lambda>(rc, m). Inr (if rc \<noteq> 0 then 1 else 0, upd m s))))"
  using device_create [OF dev assms(2), of a "gpu s"] upd
  by (auto simp: same_memory_def cuda_call_eq bind_r_Inr_iff split: if_split_asm)

lemma same_memory_arg:
  "(\<And>n. same_memory mem blocks s (bind_r (k n) g)) \<Longrightarrow> same_memory mem blocks s (bind_r (bind_r (arg_word r i n') k) g)"
  by (auto simp: same_memory_def bind_r_Inr_iff)

lemma restore_other_contents:
  assumes dev: "memory_device E mem blocks K" and "restorable r" and "rq_function r \<noteq> CUDA_MALLOC"
  shows "same_memory mem blocks s (cr_restore_resources E svc fs path r s)"
proof -
  note enter = same_memory_enter [OF dev]
  have skip: "same_memory mem blocks s (Inr (rc, s))" for rc :: int by (simp add: same_memory_def)
  have streams: "same_memory mem blocks s (cr_restore_streams E r s)"
    using skip unfolding cr_restore_streams_def
    by (auto intro!: same_memory_arg enter simp: creators_def)
  have events: "same_memory mem blocks s (cr_restore_events E r s)"
    using skip unfolding cr_restore_events_def
    by (auto intro!: same_memory_arg enter simp: creators_def)
  have libs: "same_memory mem blocks s (cr_restore_cusolver E r s)" "same_memory mem blocks s (cr_restore_cublas E r s)"
    using skip unfolding cr_restore_cusolver_def cr_restore_cublas_def
    by (auto intro!: enter simp: creators_def)
  have arrays: "cr_restore_arrays E fs path r s = Inr (0, s)"
    by (simp add: cr_restore_arrays_def procs)
  show ?thesis
    unfolding cr_restore_resources_def Let_def
    by (rule same_memory_wrap) (use assms(2,3) streams events libs arrays skip in \<open>auto simp: restorable_def procs\<close>)
qed

section \<open>All of the log\<close>

text \<open>
  \<open>holds c mem mm s\<close>: the memory table translates along \<open>mm\<close>, and behind every translated
  pointer the device holds the contents \<open>c\<close> gives for the pointer of the client.
  \<open>stored\<close>: the checkpoint has the contents of this allocation in a file of its own.
\<close>

definition holds :: "(u64 \<Rightarrow> u8 list) \<Rightarrow> ('d \<Rightarrow> u64 \<rightharpoonup> u8 list) \<Rightarrow> (u64 \<rightharpoonup> u64) \<Rightarrow> 'd server \<Rightarrow> bool" where
  "holds c mem mm s \<longleftrightarrow> mg_handles (rm_memory s) mm \<and> (\<forall>p q. mm p = Some q \<longrightarrow> mem (gpu s) q = Some (c p))"

definition stored :: "'d env \<Rightarrow> fsys \<Rightarrow> string \<Rightarrow> (u64 \<Rightarrow> u8 list) \<Rightarrow> api_record \<Rightarrow> bool" where
  "stored E fs path c r \<longleftrightarrow> (is_malloc r \<longrightarrow> arg_word r 0 8 = Inr (length (c (result_hi r))) \<and>
     files fs (mem_file path (result_hi r)) = Some (c (result_hi r)) \<and>
     heap_ok E (length (mem_file path (result_hi r)) + 1) \<and> heap_ok E (length (c (result_hi r))))"

lemma stored_memory_ok: "stored E fs path c r \<Longrightarrow> memory_ok E fs path r"
  by (auto simp: stored_def memory_ok_def is_malloc_def asprintf_def read_mem_file_def fopen_r_def fread_def)

definition mallocs :: "api_record list \<Rightarrow> nat" where
  "mallocs xs = length (filter is_malloc xs)"

lemma mallocs_Cons [simp]: "mallocs (r # xs) = (if is_malloc r then 1 else 0) + mallocs xs"
  by (simp add: mallocs_def)

lemma restore_malloc_holds:
  assumes dev: "memory_device E mem blocks K" "blocks (gpu s) < K" and h: "holds c mem mm s"
    and heap: "heap_ok E = glibc h" and m: "is_malloc r" and st: "stored E fs path c r"
    and run: "cr_restore_resources E svc fs path r s = Inr (0, s')"
  obtains q where "holds c mem (mm(result_hi r \<mapsto> q)) s'" and "blocks (gpu s') = Suc (blocks (gpu s))"
proof -
  have w: "arg_word r 0 8 = Inr (length (c (result_hi r)))" "files fs (mem_file path (result_hi r)) = Some (c (result_hi r))"
    "asprintf E (mem_file path (result_hi r)) = Some (mem_file path (result_hi r))" "heap_ok E (length (c (result_hi r)))"
    using st m by (simp_all add: stored_def asprintf_def)
  have mr: "cr_restore_memory E fs path r s = Inr (0, s')"
    using run m by (auto simp: cr_restore_resources_def is_malloc_def bind_r_Inr_iff split: if_split_asm)
  have tab: "mg_handles (rm_memory s) mm" using h by (simp add: holds_def)
  obtain q where q: "mg_handles (rm_memory s') (mm(result_hi r \<mapsto> q))" "mem (gpu s) q = None"
    "mem (gpu s') = (mem (gpu s))(q \<mapsto> c (result_hi r))" "blocks (gpu s') = Suc (blocks (gpu s))"
    by (rule restore_memory_contents [OF dev tab heap w(1) arg_word_bound [OF w(1)] w(2,3) mr w(4)])
  have "holds c mem (mm(result_hi r \<mapsto> q)) s'"
    using h q(1,2,3) by (auto simp: holds_def)
  then show thesis using q(4) by (rule that)
qed

lemma restore_step_holds:
  assumes dev: "memory_device E mem blocks K" "blocks (gpu s) + mallocs [r] \<le> K" and h: "holds c mem mm s"
    and heap: "heap_ok E = glibc h" and r: "restorable r" "stored E fs path c r"
    and run: "cr_restore_resources E svc fs path r s = Inr (0, s')"
  obtains mm' where "holds c mem mm' s'" and "dom mm' = dom mm \<union> malloc_ptrs [r]"
    and "blocks (gpu s') = blocks (gpu s) + mallocs [r]"
proof (cases "is_malloc r")
  case True
  then have "blocks (gpu s) < K" using dev(2) by (simp add: mallocs_def)
  then obtain q where "holds c mem (mm(result_hi r \<mapsto> q)) s'" "blocks (gpu s') = Suc (blocks (gpu s))"
    using restore_malloc_holds [OF dev(1) _ h heap True r(2) run] by blast
  with True show thesis by (intro that) (auto simp: is_malloc_def mallocs_def)
next
  case False
  with restore_other_contents [OF dev(1) r(1)] run h show thesis
    by (intro that [of mm]) (auto simp: is_malloc_def mallocs_def holds_def same_memory_def)
qed

lemma restore_loop_holds:
  "list_rep (api_records s) ys \<Longrightarrow> rm_tables s mm \<Longrightarrow> heap_ok E = glibc h \<Longrightarrow> memory_device E mem blocks K \<Longrightarrow>
   blocks (gpu s) + mallocs xs \<le> K \<Longrightarrow> holds c mem mm s \<Longrightarrow>
   \<forall>n \<le> 2 * (length ys + length xs + 1) * element_size (api_records s). heap_ok E n \<Longrightarrow>
   \<forall>r \<in> set xs. record_fits E r \<and> restorable (norm_record r) \<and> stored E fs path c (norm_record r) \<Longrightarrow>
   length xs < n \<Longrightarrow>
   cr_restore_loop n E svc fs path res \<lparr>ahead = log_bytes xs, eof = False\<rparr> s = Inr (2, False, s') \<Longrightarrow>
   \<exists>mm'. holds c mem mm' s' \<and> dom mm' = dom mm \<union> malloc_ptrs xs"
proof (induction xs arbitrary: n ys s mm res)
  case Nil
  then obtain j where n: "n = Suc j" by (cases n) auto
  have room: "room (glibc h) (api_records s)"
    using budget_room [OF Nil.prems(1), of 0] Nil.prems(3,7) by simp
  obtain l where "cr_restore_loop n E svc fs path res \<lparr>ahead = log_bytes [], eof = False\<rparr> s =
      Inr (2, False, s\<lparr>api_records := l\<rparr>)"
    unfolding n by (rule restore_loop_end [OF Nil.prems(1,3) room])
  with Nil.prems(6,10) show ?case by (auto simp: holds_def)
next
  case (Cons x xs)
  then obtain j where n: "n = Suc j" and j: "length xs < j" by (cases n) auto
  have fits: "record_fits E x" and rst: "restorable (norm_record x)" and st: "stored E fs path c (norm_record x)"
    using Cons.prems(8) by auto
  have room: "room (glibc h) (api_records s)"
    using budget_room [OF Cons.prems(1,7)] Cons.prems(3) by simp
  obtain l where l: "list_rep l (ys @ [norm_record x])" "element_size l = element_size (api_records s)"
    and run: "cr_restore_loop n E svc fs path res \<lparr>ahead = log_bytes (x # xs), eof = False\<rparr> s =
      bind_r (cr_restore_resources E svc fs path (norm_record x) (s\<lparr>api_records := l\<rparr>)) (\<lambda>(rc, s).
        if rc \<noteq> 0 then Inr (0, True, s)
        else cr_restore_loop j E svc fs path 0 \<lparr>ahead = log_bytes xs, eof = False\<rparr> s)"
    unfolding n using restore_loop_step [OF Cons.prems(1,3) room fits rst] by blast
  let ?s = "s\<lparr>api_records := l\<rparr>"
  from Cons.prems(10) [unfolded run] obtain s1 where s1: "cr_restore_resources E svc fs path (norm_record x) ?s = Inr (0, s1)"
    "cr_restore_loop j E svc fs path 0 \<lparr>ahead = log_bytes xs, eof = False\<rparr> s1 = Inr (2, False, s')"
    by (auto simp: bind_r_Inr_iff split: if_split_asm)
  have tb: "rm_tables ?s mm" and hs: "holds c mem mm ?s" using Cons.prems(2,6) by (simp_all add: rm_tables_def holds_def)
  have nm: "is_malloc (norm_record x) = is_malloc x" "malloc_ptrs [norm_record x] = malloc_ptrs [x]"
    by (simp_all add: is_malloc_def norm_record_def)
  obtain mm1 where mm1: "holds c mem mm1 s1" "dom mm1 = dom mm \<union> malloc_ptrs [x]"
    "blocks (gpu s1) = blocks (gpu s) + mallocs [x]"
    by (rule restore_step_holds [OF Cons.prems(4) _ hs Cons.prems(3) rst st s1(1)])
      (use Cons.prems(5) nm in \<open>auto simp: mallocs_def\<close>)
  have mem: "memory_ok E fs path (norm_record x)" using st by (rule stored_memory_ok)
  obtain mm2 where s1tab: "rm_tables s1 mm2" "api_records s1 = l"
    using restore_resources_step [OF tb Cons.prems(3) rst, of fs path svc] mem s1(1) by (auto simp: step_ok_def)
  then have "rm_tables s1 mm1" using mm1(1) by (simp add: rm_tables_def holds_def)
  then have "\<exists>mm'. holds c mem mm' s' \<and> dom mm' = dom mm1 \<union> malloc_ptrs xs"
    using Cons.prems(3,5,7,8) l s1tab(2) mm1(3) j
    by (intro Cons.IH [OF _ _ Cons.prems(3,4) _ mm1(1) _ _ _ s1(2), of "ys @ [norm_record x]"])
      (auto simp: algebra_simps mallocs_def)
  then show ?case using mm1(2) by (simp add: Un_assoc)
qed

section \<open>Properties\<close>

text \<open>
  An allocation that is alive when the checkpoint is taken: the device holds \<open>c p\<close> behind the
  recorded pointer \<open>p\<close>, and its recorded size is that of the contents. \<open>B\<close> bounds the blocks the
  heap must be able to give.
\<close>

definition alive :: "('d \<Rightarrow> u64 \<rightharpoonup> u8 list) \<Rightarrow> (u64 \<Rightarrow> u8 list) \<Rightarrow> nat \<Rightarrow> 'd server \<Rightarrow> api_record \<Rightarrow> bool" where
  "alive mem c B s r \<longleftrightarrow> (is_malloc r \<longrightarrow> mem (gpu s) (result_hi r) = Some (c (result_hi r)) \<and>
     arg_word r 0 8 = Inr (length (c (result_hi r))) \<and> length (c (result_hi r)) \<le> B)"

lemma arg_word_norm: "arg_word r i n = Inr v \<Longrightarrow> arg_word (norm_record r) i n = Inr v"
  by (auto simp: arg_word_def norm_record_def split: option.splits if_split_asm)

lemma mem_file_length: "length (mem_file path p) + 1 \<le> length path + 24"
  using hex_length_u64 [of p] by (simp add: mem_file_def)

lemma alive_dumpable:
  assumes "memory_device E mem blocks K" and "alive mem c B s r" and "logged_ok E r"
    and "\<forall>n \<le> B. heap_ok E n" and "length path + 24 \<le> B" and "\<forall>f. creatable fs f"
  shows "dumpable E c path (gpu s) fs r"
  using assms device_read [OF assms(1)] logged_printable [OF assms(3)] mem_file_length [of path "result_hi r"]
  by (auto simp: dumpable_def alive_def)

lemma alive_stored:
  assumes "alive mem c B s r" and "\<forall>n \<le> B. heap_ok E n" and "length path + 24 \<le> B"
    and "is_malloc r \<longrightarrow> files fs (mem_file path (result_hi r)) = Some (c (result_hi r))"
  shows "stored E fs path c (norm_record r)"
proof -
  have "result_hi (norm_record r) = result_hi r" "is_malloc (norm_record r) = is_malloc r"
    by (simp_all add: norm_record_def is_malloc_def)
  then show ?thesis
    using assms mem_file_length [of path "result_hi r"] arg_word_norm [of r 0 8]
    by (auto simp: stored_def alive_def)
qed

lemma fwrite_fits: "length bs \<le> disk_free fs \<Longrightarrow> \<exists>fs'. fwrite name bs fs = (True, fs') \<and>
    creatable fs' = creatable fs \<and> disk_free fs' = disk_free fs - length bs"
  by (simp add: fwrite_def)

lemma dump_rpc_id_ok:
  assumes "heap_ok E (length (path @ ''/rpc_id'') + 1)" and "\<forall>f. creatable fs f" and "16 \<le> disk_free fs"
  obtains fs' where "cr_dump_rpc_id E path prog vers fs = (0, fs')" and "creatable fs' = creatable fs"
    and "disk_free fs' = disk_free fs - 16"
proof -
  let ?name = "path @ ''/rpc_id''" and ?fs = "fs\<lparr>files := (files fs)(path @ ''/rpc_id'' \<mapsto> [])\<rparr>"
  obtain fs1 where fs1: "fwrite ?name (le_bytes 8 (unat prog)) ?fs = (True, fs1)" "creatable fs1 = creatable fs"
    "disk_free fs1 = disk_free fs - 8"
    using fwrite_fits [of "le_bytes 8 (unat prog)" ?fs ?name] assms(3) by auto
  have "8 \<le> disk_free fs1" using assms(3) fs1(3) by simp
  then obtain fs2 where "fwrite ?name (le_bytes 8 (unat vers)) fs1 = (True, fs2)" "creatable fs2 = creatable fs1"
    "disk_free fs2 = disk_free fs1 - 8"
    using fwrite_fits [of "le_bytes 8 (unat vers)" fs1 ?name] by auto
  with fs1 assms(1,2) show thesis
    by (intro that [of fs2]) (simp_all add: cr_dump_rpc_id_def asprintf_def fopen_w_def)
qed

lemma checkpoint_files:
  assumes log: "list_rep (api_records s) xs" and recs: "\<forall>r \<in> set xs. logged_ok E r \<and> alive mem c B s r"
    and disk: "\<forall>f. creatable fs f" "16 + length (log_bytes xs) + dump_size c xs \<le> disk_free fs"
    and dev: "memory_device E mem blocks K" and heap: "\<forall>n \<le> B. heap_ok E n" "length path + 24 \<le> B"
  obtains fs' where "server_runtime_checkpoint E path 1 prog vers fs s = Inr ((0, fs'), s)"
    and "files fs' (path @ ''/api_records'') = Some (log_bytes xs)"
    and "\<forall>r \<in> set xs. stored E fs' path c (norm_record r)"
proof -
  have names: "heap_ok E (length (path @ ''/rpc_id'') + 1)" "heap_ok E (length (path @ ''/api_records'') + 1)"
    using heap by simp_all
  obtain fs1 where fs1: "cr_dump_rpc_id E path prog vers fs = (0, fs1)" "creatable fs1 = creatable fs"
    "disk_free fs1 = disk_free fs - 16"
    by (rule dump_rpc_id_ok [of E path fs prog vers]) (use names disk in simp_all)
  have wf: "\<forall>r \<in> set xs. record_wf r \<and> printable r"
    using recs logged_printable by (auto simp: logged_ok_def record_fits_def)
  have room: "creatable fs1 (path @ ''/api_records'')" "length (log_bytes xs) \<le> disk_free fs1"
    using disk unfolding fs1(2,3) by auto
  obtain fs2 where fs2: "cr_dump E path (api_records s) fs1 = Inr (0, fs2)"
    "files fs2 = (files fs1)(path @ ''/api_records'' \<mapsto> log_bytes xs)" "creatable fs2 = creatable fs1"
    "disk_free fs2 = disk_free fs1 - length (log_bytes xs)"
    using cr_dump_ok [OF log wf names(2) room] by blast
  have free: "dump_size c xs \<le> disk_free fs2" using disk(2) unfolding fs2(4) fs1(3) by simp
  have "\<forall>r \<in> set xs. dumpable E c path (gpu s) fs2 r"
    using recs alive_dumpable [OF dev _ _ heap] disk(1) fs1(2) fs2(3) by simp
  then obtain fs3 where fs3: "cr_dump_memory E path fs2 s = Inr ((0, fs3), s)" "dumped c path xs fs2 fs3"
    using dump_memory_loop_ok [OF log, of 0 "length xs" E c path fs2] free
    by (auto simp: cr_dump_memory_def list_rep_len [OF log])
  have "path @ ''/api_records'' \<notin> mem_names path xs"
    using mem_file_other [of path, symmetric] by (simp add: mem_names_def)
  then have "files fs3 (path @ ''/api_records'') = Some (log_bytes xs)"
    using fs3(2) fs2(2) by (simp add: dumped_def)
  moreover have "server_runtime_checkpoint E path 1 prog vers fs s = Inr ((0, fs3), s)"
    using fs1(1) fs2(1) fs3(1) by (simp add: server_runtime_checkpoint_def)
  moreover have "\<forall>r \<in> set xs. stored E fs3 path c (norm_record r)"
    using recs fs3(2) by (auto simp: dumped_def intro!: alive_stored [OF _ heap])
  ultimately show thesis using that by blast
qed

text \<open>C5: A checkpoint with memory and a restart keep the contents of the device memory. Take a log
  of calls that the restore recreates itself, whose allocations are all alive, and a CUDA library
  that keeps memory like one. Then \<open>server_runtime_checkpoint\<close> returns 0 and leaves the server as
  it was, \<open>cr_restore\<close> in a new process returns 0, and every device pointer the client holds is
  translated to an allocation of the new device with the bytes that were behind it in the old
  one.\<close>

theorem checkpoint_preserves_memory:
  assumes log: "list_rep (api_records s) xs" "xs \<noteq> []"
      "\<forall>r \<in> set xs. logged_ok E r \<and> rq_function r \<in> rebuilt_procs \<and> alive mem c B s r"
      "\<forall>r \<in> set (tl xs). \<not> is_launch r"
    and disk: "\<forall>f. creatable fs f" "16 + length (log_bytes xs) + dump_size c xs \<le> disk_free fs"
    and heap: "heap_ok E = glibc h" "\<forall>n \<le> B. heap_ok E n" "length path + 24 \<le> B"
      "2 * (length xs + 1) * element_size (api_records t) \<le> B" "32 * (length xs + 1) \<le> B"
    and dev: "memory_device E mem blocks K" "blocks (gpu t) + mallocs xs \<le> K" "cuda_works E"
    and fresh: "list_rep (api_records t) []" "restore_ready t 0" "mg_handles (rm_memory t) Map.empty"
  shows "\<exists>fs' t' mm. server_runtime_checkpoint E path 1 prog vers fs s = Inr ((0, fs'), s) \<and>
    cr_restore E svc fs' path t = Inr (0, t') \<and> mg_handles (rm_memory t') mm \<and>
    dom mm = malloc_ptrs xs \<and> (\<forall>p \<in> malloc_ptrs xs. mem (gpu t') (the (mm p)) = mem (gpu s) p)"
proof -
  obtain fs' where ck: "server_runtime_checkpoint E path 1 prog vers fs s = Inr ((0, fs'), s)"
    "files fs' (path @ ''/api_records'') = Some (log_bytes xs)" "\<forall>r \<in> set xs. stored E fs' path c (norm_record r)"
    by (rule checkpoint_files [OF log(1) _ disk dev(1) heap(2,3), of prog vers]) (use log(3) in auto)
  have recs: "\<forall>r \<in> set xs. record_fits E r \<and> restorable (norm_record r) \<and> stored E fs' path c (norm_record r) \<and>
      memory_ok E fs' path (norm_record r)"
    using log(3) ck(3) logged_restorable stored_memory_ok unfolding logged_ok_def by blast
  have fuel: "length xs < length (log_bytes xs) + 2" using recs by (intro log_fuel) (auto simp: record_fits_def)
  have alloc: "\<forall>n \<le> 2 * (length ([] :: api_record list) + length xs + 1) * element_size (api_records t). heap_ok E n"
    "\<forall>n \<le> 32 * (0 + length xs + 1). heap_ok E n" using heap(2,4,5) by auto
  let ?loop = "cr_restore_loop (length (log_bytes xs) + 2) E svc fs' path 1 \<lparr>ahead = log_bytes xs, eof = False\<rparr> t"
  obtain t' where t': "?loop = Inr (2, False, t')"
    using restore_loop_completes [OF fresh(1,2) heap(1) dev(3) alloc _ fuel] recs by blast
  have tab: "rm_tables t Map.empty" using restore_ready_tables [OF fresh(2,3)] .
  have "holds c mem Map.empty t" using fresh(3) by (simp add: holds_def)
  from restore_loop_holds [OF fresh(1) tab heap(1) dev(1,2) this alloc(1) _ fuel t'] recs
  obtain mm where mm: "holds c mem mm t'" "dom mm = malloc_ptrs xs" by auto
  have "loop_result ([] @ map norm_record xs) (dom (Map.empty :: u64 \<rightharpoonup> u64) \<union> malloc_ptrs xs) ?loop"
    using recs by (intro restore_loop_result [OF fresh(1) tab heap(1) alloc(1) _ fuel]) blast
  with t' have rep: "list_rep (api_records t') (map norm_record xs)" by (auto simp: loop_result_def)
  have "cr_launch_kernel svc t' = Inr (0, t')"
    using log(2,4)
    by (intro launch_kernel_none [OF rep]) (auto simp: is_launch_def norm_record_def map_tl [symmetric])
  then have "cr_restore E svc fs' path t = Inr (0, t')"
    using cr_restore_from_file [OF ck(2), of E svc t] t' heap(2,3) by simp
  moreover have "mem (gpu t') (the (mm p)) = mem (gpu s) p" if p: "p \<in> malloc_ptrs xs" for p
  proof -
    obtain q where "mm p = Some q" using p mm(2) by blast
    moreover have "mem (gpu s) p = Some (c p)"
      using p log(3) by (auto simp: malloc_ptrs_def alive_def is_malloc_def)
    ultimately show ?thesis using mm(1) by (simp add: holds_def)
  qed
  ultimately show ?thesis using ck(1) mm by (auto simp: holds_def)
qed

text \<open>
  A device for the example: the blocks allocated so far, the pointer of a block is its place
  in the list counted from 1.
\<close>

definition block_mem :: "u8 list list \<Rightarrow> u64 \<rightharpoonup> u8 list" where
  "block_mem d p = (if 0 < unat p \<and> unat p \<le> length d then Some (d ! (unat p - 1)) else None)"

definition block_cuda :: "u8 list list cuda_api" where
  "block_cuda f args d =
     (if f = ''cudaMalloc''
      then (case args of [Word64 n] \<Rightarrow> (0, [Word64 (of_nat (Suc (length d)))], d @ [replicate (unat n) 0])
            | _ \<Rightarrow> (0, [], d))
      else if f = ''cudaMemcpy''
      then (case args of [Word64 p, Bytes bs, _, _] \<Rightarrow> (0, [], d[unat p - 1 := bs])
            | [_, Word64 p, _, _] \<Rightarrow> (0, [Bytes (d ! (unat p - 1))], d)
            | _ \<Rightarrow> (0, [], d))
      else (0, [], d))"

definition block_env :: "u8 list list env" where
  "block_env = \<lparr>heap_ok = glibc (\<lambda>_. True), fresh_record = fresh_record sample_env, fresh_byte = 165,
     fresh_word = 7, fresh_int = 99, cuda = block_cuda\<rparr>"

definition block_record :: api_record where
  "block_record = \<lparr>rq_function = 414, arg_size = 8, arguments = Some (i64 2), result_lo = 0, result_hi = 1,
     data = None, data_size = 0\<rparr>"

definition block_server :: "u8 list list \<Rightarrow> api_record clist \<Rightarrow> u8 list list server" where
  "block_server d l = (server_on d)\<lparr>api_records := l\<rparr>"

lemma block_pointer: "n < 2 \<Longrightarrow> unat (of_nat (Suc n) :: u64) = Suc n"
  by (subst unat_of_nat) (simp add: take_bit_nat_eq_self)

lemma block_malloc:
  assumes "length d < 2"
  shows "block_mem (d @ [bs]) = (block_mem d)(of_nat (Suc (length d)) \<mapsto> bs)"
    and "block_mem d (of_nat (Suc (length d))) = None"
proof -
  note p = block_pointer [OF assms]
  have "block_mem (d @ [bs]) q = ((block_mem d)(of_nat (Suc (length d)) \<mapsto> bs)) q" for q
  proof (cases "q = of_nat (Suc (length d))")
    case True
    then show ?thesis using p by (simp add: block_mem_def)
  next
    case False
    then have "unat q \<noteq> Suc (length d)" by (metis p unsigned_word_eqI)
    with False show ?thesis by (auto simp: block_mem_def nth_append)
  qed
  then show "block_mem (d @ [bs]) = (block_mem d)(of_nat (Suc (length d)) \<mapsto> bs)" by (rule ext)
  show "block_mem d (of_nat (Suc (length d))) = None" using p by (simp add: block_mem_def)
qed

lemma block_write:
  assumes "block_mem d p = Some old"
  shows "block_mem (d[unat p - 1 := bs]) = (block_mem d)(p \<mapsto> bs)"
proof (rule ext)
  fix q
  show "block_mem (d[unat p - 1 := bs]) q = ((block_mem d)(p \<mapsto> bs)) q"
  proof (cases "q = p")
    case True
    then show ?thesis using assms by (auto simp: block_mem_def split: if_split_asm)
  next
    case False
    then have "unat q \<noteq> unat p" by (metis unsigned_word_eqI)
    with False assms show ?thesis by (auto simp: block_mem_def nth_list_update split: if_split_asm)
  qed
qed

lemma block_device: "memory_device block_env block_mem length 2"
  unfolding memory_device_def
proof (intro conjI allI impI ballI)
  fix d :: "u8 list list" and n :: u64
  assume d: "length d < 2"
  have "cuda block_env ''cudaMalloc'' [Word64 n] d =
      (0, [Word64 (of_nat (Suc (length d)))], d @ [replicate (unat n) 0])"
    by (simp add: block_env_def block_cuda_def)
  moreover have "length (replicate (unat n) (0 :: u8)) = unat n" "length (d @ [replicate (unat n) (0 :: u8)]) = Suc (length d)"
    by simp_all
  ultimately show "\<exists>p bs d'. cuda block_env ''cudaMalloc'' [Word64 n] d = (0, [Word64 p], d') \<and> block_mem d p = None \<and>
      length bs = unat n \<and> block_mem d' = (block_mem d)(p \<mapsto> bs) \<and> length d' = Suc (length d)"
    using block_malloc [OF d] by blast
qed (use block_write in \<open>auto simp: block_env_def block_cuda_def block_mem_def creators_def split: if_split_asm\<close>)

theorem checkpoint_preserves_memory_witness:
  "\<exists>fs' t' mm. server_runtime_checkpoint block_env ''ckp'' 1 99 1
        \<lparr>files = Map.empty, creatable = (\<lambda>_. True), disk_free = 1000\<rparr>
        (block_server [[5, 6]] \<lparr>elements = Buf [Some block_record, None], len = 1, capacity = 2, element_size = 64\<rparr>) =
      Inr ((0, fs'), block_server [[5, 6]] \<lparr>elements = Buf [Some block_record, None], len = 1, capacity = 2, element_size = 64\<rparr>) \<and>
    cr_restore block_env (\<lambda>_ _ _. ret_h 1) fs' ''ckp'' (block_server [[9]] (api_records sample_server)) = Inr (0, t') \<and>
    mg_handles (rm_memory t') mm \<and> block_mem (gpu t') (the (mm 1)) = Some [5, 6]"
proof -
  let ?s = "block_server [[5, 6]] \<lparr>elements = Buf [Some block_record, None], len = 1, capacity = 2, element_size = 64\<rparr>"
  let ?t = "block_server [[9]] (api_records sample_server)"
  let ?fs = "\<lparr>files = Map.empty, creatable = (\<lambda>_. True), disk_free = 1000\<rparr>"
  have rep: "list_rep (api_records ?s) [block_record]" "list_rep (api_records ?t) []"
    using sample_log by (simp_all add: block_server_def server_on_def list_rep_def list_wf_def list_abs_def)
  have arg: "arg_word block_record 0 8 = Inr 2"
    by (simp add: block_record_def arg_word_def blk_def i64_def le_val_le_bytes)
  have "logged_ok block_env block_record"
    by (simp add: logged_ok_def record_fits_def record_wf_def block_record_def block_env_def glibc_def)
  moreover have "rq_function block_record \<in> rebuilt_procs" by (simp add: rebuilt_procs_def block_record_def procs)
  moreover have "alive block_mem (\<lambda>_. [5, 6]) 300 ?s block_record"
    using arg by (simp add: alive_def block_server_def server_on_def block_mem_def block_record_def)
  ultimately have log: "\<forall>r \<in> set [block_record]. logged_ok block_env r \<and> rq_function r \<in> rebuilt_procs \<and>
      alive block_mem (\<lambda>_. [5, 6]) 300 ?s r" by simp
  have "length (log_bytes [block_record]) \<le> 100" "dump_size (\<lambda>_. [5, 6]) [block_record] \<le> 2"
    by (simp_all add: log_bytes_def dump_size_def record_bytes_def block_record_def)
  then have disk: "16 + length (log_bytes [block_record]) + dump_size (\<lambda>_. [5, 6]) [block_record] \<le> disk_free ?fs" by simp
  have ptr: "malloc_ptrs [block_record] = {1}" "mallocs [block_record] = 1"
    by (simp_all add: block_record_def procs mallocs_def is_malloc_def)
  have fresh: "restore_ready ?t 0" "mg_handles (rm_memory ?t) Map.empty" "cuda_works block_env"
    using fresh_mg_ready by (simp_all add: block_server_def server_on_def restore_ready_def cuda_works_def block_env_def block_cuda_def split: list.split cval.split)
  have heap: "heap_ok block_env = glibc (\<lambda>_. True)" "\<forall>n \<le> 300. heap_ok block_env n"
    by (simp_all add: block_env_def glibc_def)
  have sizes: "length ''ckp'' + 24 \<le> 300" "2 * (length [block_record] + 1) * element_size (api_records ?t) \<le> 300"
    "32 * (length [block_record] + 1) \<le> 300" "length (gpu ?t) + mallocs [block_record] \<le> 2"
    using ptr by (simp_all add: block_server_def server_on_def server_on_def)
  have "\<exists>fs' t' mm. server_runtime_checkpoint block_env ''ckp'' 1 99 1 ?fs ?s = Inr ((0, fs'), ?s) \<and>
    cr_restore block_env (\<lambda>_ _ _. ret_h 1) fs' ''ckp'' ?t = Inr (0, t') \<and> mg_handles (rm_memory t') mm \<and>
    dom mm = malloc_ptrs [block_record] \<and>
    (\<forall>p \<in> malloc_ptrs [block_record]. block_mem (gpu t') (the (mm p)) = block_mem (gpu ?s) p)"
    by (rule checkpoint_preserves_memory [OF rep(1) _ log _ _ disk heap sizes(1-3) block_device sizes(4) fresh(3) rep(2) fresh(1,2)])
      simp_all
  moreover have "block_mem (gpu ?s) 1 = Some [5, 6]" by (simp add: block_server_def server_on_def block_mem_def)
  ultimately show ?thesis unfolding ptr(1) by auto
qed

end
