(* ===== verification/Replay.thy ===== *)
theory Replay
  imports Requests
begin

text \<open>
  The replay of an iteration. The server counts inputs (\<open>input_times\<close>) and outputs
  (\<open>output_times\<close>) of the application: the first input of an iteration makes the counters differ,
  the output ends it. In the first iteration the addresses of the inputs are remembered, in
  later ones they are used; kernel launches are meant to be recorded in the first iteration and
  issued by the first launch request of a later one.
\<close>

section \<open>An invariant of all requests\<close>

text \<open>
  The counters of the iterations differ by at most one, the number of operators is 0 and the
  indices stay inside the fixed arrays of the source.
\<close>

definition replay_inv :: "'d server \<Rightarrow> bool" where
  "replay_inv s \<longleftrightarrow>
     0 \<le> output_times s \<and> (input_times s = output_times s \<or> input_times s = output_times s + 1) \<and>
     operator_count s = 0 \<and> length (recorded_calls s) = 1000 \<and>
     0 \<le> input_count s \<and> input_count s \<le> 100 \<and> length (input_address s) = 100 \<and>
     hainfo_cnt s \<le> 64 \<and> length (hainfo s) = 64"

section \<open>Relations that every request keeps\<close>

text \<open>
  \<open>keeps R h\<close>: whenever \<open>h\<close> returns, its states are related by \<open>R\<close>. \<open>kept_base\<close> asks for a preorder that does not
  look at the log, the device, the tables of handles and the other fields that many handlers change; then sequences
  of calls, cases and the common parts of the handlers keep it. \<open>kept\<close> adds the few operations that
  change the counters of the replay, the recorded calls and the table of host allocations; then every request keeps it,
  but for the one that copies from the device, which has to be shown to keep it where it does.
\<close>

definition keeps :: "('d server \<Rightarrow> 'd server \<Rightarrow> bool) \<Rightarrow> ('d, 'a) handler \<Rightarrow> bool" where
  "keeps R h \<longleftrightarrow> (\<forall>s r s'. h s = Inr (r, s') \<longrightarrow> R s s')"

named_theorems keeps_intros \<open>introduction rules for keeps\<close>

lemma keepsI: "(\<And>s r s'. h s = Inr (r, s') \<Longrightarrow> R s s') \<Longrightarrow> keeps R h"
  by (auto simp: keeps_def)

lemma keepsD: "keeps R h \<Longrightarrow> h s = Inr (r, s') \<Longrightarrow> R s s'"
  by (auto simp: keeps_def)

locale kept_base =
  fixes R :: "'d server \<Rightarrow> 'd server \<Rightarrow> bool"
  assumes refl [simp]: "R s s"
    and trans: "R s t \<Longrightarrow> R t u \<Longrightarrow> R s u"
    and upd [simp]: "R s (s\<lparr>api_records := l\<rparr>)" "R s (s\<lparr>gpu := d\<rparr>)"
      "R s (s\<lparr>rm_streams := m\<rparr>)" "R s (s\<lparr>rm_events := m\<rparr>)" "R s (s\<lparr>rm_arrays := m\<rparr>)"
      "R s (s\<lparr>rm_memory := m\<rparr>)" "R s (s\<lparr>rm_kernels := m\<rparr>)" "R s (s\<lparr>rm_modules := m\<rparr>)"
      "R s (s\<lparr>rm_functions := m\<rparr>)" "R s (s\<lparr>rm_globals := m\<rparr>)" "R s (s\<lparr>rm_cusolver := m\<rparr>)"
      "R s (s\<lparr>rm_cublas := m\<rparr>)" "R s (s\<lparr>rm_cublaslt := m\<rparr>)" "R s (s\<lparr>mt_memcpy_list := ml\<rparr>)"
      "R s (s\<lparr>cudnn := cm\<rparr>)" "R s (set_sched f s)"
begin

lemma keeps_ret [keeps_intros]: "keeps R (ret_h x)" "keeps R (\<lambda>s. Inr (x, s))" "keeps R (\<lambda>s. Inl f)"
  by (simp_all add: keeps_def ret_h_def)

lemma keeps_bind [keeps_intros]: "keeps R m \<Longrightarrow> (\<And>x. keeps R (f x)) \<Longrightarrow> keeps R (bind_h m f)"
  unfolding keeps_def bind_h_Inr_iff using trans by blast

lemma keeps_bind_r [keeps_intros]: "(\<And>x. keeps R (h x)) \<Longrightarrow> keeps R (\<lambda>s. bind_r (g s) (\<lambda>x. h x s))"
  unfolding keeps_def bind_r_Inr_iff by blast

lemma keeps_cases [keeps_intros]:
  "(\<And>a b. keeps R (g a b)) \<Longrightarrow> keeps R (case p of (a, b) \<Rightarrow> g a b)"
  "(\<And>a b. keeps R (g a b)) \<Longrightarrow> keeps R (\<lambda>s. case p of (a, b) \<Rightarrow> g a b s)"
  "keeps R h \<Longrightarrow> keeps R k \<Longrightarrow> keeps R (if c then h else k)"
  "keeps R h \<Longrightarrow> keeps R k \<Longrightarrow> keeps R (\<lambda>s. if c then h s else k s)"
  "keeps R h \<Longrightarrow> (\<And>x. keeps R (f x)) \<Longrightarrow> keeps R (case o' of None \<Rightarrow> h | Some x \<Rightarrow> f x)"
  by (cases p; cases c; cases o'; simp)+

lemma keeps_prims [keeps_intros]:
  "keeps R (cuda_call E name args)" "keeps R (handle sel h)" "keeps R (get_s g)"
  "keeps R (on_log f)" "keeps R (set_result i v)" "keeps R (set_result_ptr i v p)"
  "keeps R (set_args i fs)" "keeps R (set_data E i n src)" "keeps R (on_mt ml)"
  "keeps R (hainfo_at j)" "keeps R (hainfo_getserverindex p)"
  by (auto simp: keeps_def cuda_call_def handle_Inr_iff get_s_def on_log_def set_result_def
      set_result_ptr_def set_args_def set_data_def on_mt_def hainfo_at_def
      hainfo_getserverindex_def bind_r_Inr_iff split: prod.split_asm if_split_asm)

lemma keeps_managers [keeps_intros]:
  assumes "\<And>m s. R s (upd m s)"
  shows "keeps R (create_in E sel upd p)" "keeps R (add_in E sel upd k v)"
  using assms by (auto simp: keeps_def create_in_def add_in_def bind_r_Inr_iff)

lemma keeps_recorded [keeps_intros]:
  "(\<And>i. keeps R (body i)) \<Longrightarrow> keeps R (recorded E rq sz fs body)"
  "(\<And>i. keeps R (body i)) \<Longrightarrow> keeps R (recorded_void E rq body)"
  unfolding keeps_def recorded_def recorded_void_def bind_r_Inr_iff
  by (auto simp: bind_r_Inr_iff) (metis trans upd(1))+

lemma keeps_eval_args [keeps_intros]: "keeps R (eval_args args)"
proof (induction args)
  case (Cons a as)
  then show ?case by (cases a) (auto intro!: keeps_intros)
qed (simp add: keeps_intros)

lemma keeps_calls [keeps_intros]:
  "keeps R (lib_call E name args)" "keeps R (int_call E name args i)"
  "keeps R (logged_call E rq sz fs name args)" "keeps R (logged_void E rq name)"
  "keeps R (query_call E name args g)"
  unfolding lib_call_def int_call_def logged_call_def logged_void_def query_call_def
  by (intro keeps_intros)+

lemma keeps_create [keeps_intros]:
  "(\<And>m s. R s (upd m s)) \<Longrightarrow> keeps R (create_call E sel upd name args i)"
  unfolding create_call_def by (intro keeps_intros)

lemma keeps_gsched [keeps_intros]:
  "keeps R (gsched_none_retain E fd)" "keeps R (gsched_none_release fd)"
proof -
  show "keeps R (gsched_none_retain E fd)"
    by (rule keepsI) (metis retain_fails upd(16))
  show "keeps R (gsched_none_release fd)"
    by (auto simp: keeps_def gsched_none_release_def)
qed

lemma keeps_scheduled [keeps_intros]: "keeps R h \<Longrightarrow> keeps R (scheduled E fd h)"
  unfolding scheduled_def by (intro keeps_intros)

lemma keeps_sched_calls [keeps_intros]:
  "keeps R (sched_int E fd name args i)" "keeps R (sched_call E rq fd sz fs name args)"
  "keeps R (sched_query E fd name args g)"
  unfolding sched_call_def sched_int_def sched_query_def by (intro keeps_intros)+

lemma keeps_sched_objects [keeps_intros]:
  assumes "\<And>m s. R s (upd m s)"
  shows "keeps R (sched_obj E fd sel upd name args)" "keeps R (sched_new E fd sel upd name args i)"
    "keeps R (sched_create E rq fd sel upd name args)"
  unfolding sched_create_def sched_new_def sched_obj_def by (intro keeps_intros assms)+

lemma keeps_buffers [keeps_intros]:
  "(\<And>buf. keeps R (body buf)) \<Longrightarrow> keeps R (reply_buffer E n body)"
  "keeps R (fill_buffer E name args ps buf)" "keeps R (buffer_query E fd n name args ps)"
  "keeps R (held_query E fd n name args ps)"
  unfolding buffer_query_def held_query_def reply_buffer_def fill_buffer_def
  by (intro keeps_intros; simp)+

lemma keeps_lt_create [keeps_intros]: "keeps R (lt_create E fd name args)"
  unfolding lt_create_def by (intro keeps_intros) simp

lemma keeps_replay [keeps_intros]:
  "keeps R (replay_each_operator E rq l)" "keeps R (replay_loop E rq i n res)"
proof -
  show one: "keeps R (replay_each_operator E rq l)" for l
    unfolding replay_each_operator_def by (intro keeps_intros)
  show "keeps R (replay_loop E rq i n res)"
    by (induction n arbitrary: i res) (auto intro!: keeps_intros one)
qed

lemma keeps_shared [keeps_intros]:
  "keeps R (mt_memcpy_init_server E dev sz dir threads)" "keeps R (mt_memcpy_sync_server E server)"
  "keeps R (load_module E fd name args i)"
  "keeps R (cuda_memcpy_shm_1_svc E rq index p sz64 kind)" "keeps R (rpc_cugeterrorstring_1_svc E err)"
  unfolding mt_memcpy_init_server_def mt_memcpy_sync_server_def load_module_def Let_def
    cuda_memcpy_shm_1_svc_def rpc_cugeterrorstring_1_svc_def
  by ((intro keeps_intros; auto intro!: keeps_intros split: list.split cval.split)+)

lemma keeps_mt [keeps_intros]:
  "keeps R (mt_start E rq dir dev sz threads)" "keeps R (mt_wait E fuel k i)"
  unfolding mt_start_def mt_wait_def by (intro keeps_intros)+

end

locale kept = kept_base R for R :: "'d server \<Rightarrow> 'd server \<Rightarrow> bool" +
  assumes input_kept: "keeps R (input_slot p)"
    and recorded_kept: "R s (s\<lparr>recorded_calls := (recorded_calls s)[nat (operator_count s) := l]\<rparr>)"
    and host_alloc_kept: "keeps R (host_alloc E st local sz flags)"
    and regshm_kept: "keeps R (cuda_host_alloc_regshm_1_svc E rq st local idx client_ptr)"
    and free_host_kept: "keeps R (free_host E st index i)"
begin

lemmas specials [keeps_intros] = input_kept host_alloc_kept regshm_kept free_host_kept

lemma keeps_launch [keeps_intros]: "keeps R (cuda_launch_kernel_1_svc E rq l)"
proof -
  have "keeps R (modify_s (\<lambda>s. s\<lparr>recorded_calls := (recorded_calls s)[nat (operator_count s) := l]\<rparr>))"
    by (auto simp: keeps_def modify_s_def recorded_kept)
  then show ?thesis unfolding cuda_launch_kernel_1_svc_def by (intro keeps_intros)
qed

lemma keeps_htod [keeps_intros]: "keeps R (cuda_memcpy_htod_1_svc E rq p mem sz64)"
  unfolding cuda_memcpy_htod_1_svc_def by (intro keeps_intros)

lemma request_kept:
  assumes "request E p h" and copy: "p = 441 \<longrightarrow> keeps R count_output"
  shows "keeps R h"
proof -
  have "library_request E p h \<Longrightarrow> keeps R h"
    by (induction rule: library_request.induct; unfold library_handlers; intro keeps_intros; simp)
  moreover have "driver_request E p h \<Longrightarrow> keeps R h"
    by (induction rule: driver_request.induct;
        (intro keeps_intros; fail)?; unfold driver_handlers Let_def; intro keeps_intros; simp)
  moreover have "runtime_request E p h \<Longrightarrow> p = 441 \<longrightarrow> keeps R count_output \<Longrightarrow> keeps R h"
    by (induction rule: runtime_request.induct;
        (intro keeps_intros; fail)?; unfold runtime_handlers Let_def error_text_def; intro keeps_intros; simp)
  moreover have "dnn_request E p h \<Longrightarrow> keeps R h"
    by (induction rule: dnn_request.induct; unfold dnn_handlers; intro keeps_intros; simp)
  ultimately show ?thesis using assms unfolding request_def by blast
qed

end

section \<open>The invariant of the counters\<close>

definition inv_kept :: "'d server \<Rightarrow> 'd server \<Rightarrow> bool" where
  "inv_kept s t \<longleftrightarrow> (replay_inv s \<longrightarrow> replay_inv t)"

abbreviation keeps_inv :: "('d, 'a) handler \<Rightarrow> bool" where
  "keeps_inv \<equiv> keeps inv_kept"

interpretation inv: kept_base inv_kept
  by unfold_locales (auto simp: inv_kept_def replay_inv_def set_sched_def)

lemma keeps_hainfo [keeps_intros]:
  "keeps_inv (hainfo_set j ha)"
  "keeps_inv (bind_h (hainfo_set (int cnt) h) (\<lambda>_. bind_h (modify_s (\<lambda>s. s\<lparr>hainfo_cnt := cnt + 1\<rparr>)) (\<lambda>_. ret_h x)))"
  by (auto simp: keeps_def inv_kept_def bind_h_Inr_iff hainfo_set_def modify_s_def ret_h_def
      replay_inv_def split: if_split_asm)

interpretation counters: kept inv_kept
proof unfold_locales
  show "keeps_inv (input_slot p)" for p
    by (auto simp: keeps_def inv_kept_def input_slot_def Let_def replay_inv_def split: if_split_asm)
  show "inv_kept s (s\<lparr>recorded_calls := (recorded_calls s)[nat (operator_count s) := l]\<rparr>)" for s :: "'a server" and l
    by (simp add: inv_kept_def replay_inv_def)
  show "keeps_inv (host_alloc E st local sz flags)" for E :: "'a env" and st local sz flags
    unfolding host_alloc_def Let_def by (intro keeps_intros)
  show "keeps_inv (cuda_host_alloc_regshm_1_svc E rq st local idx client_ptr)" for E :: "'a env" and rq st local idx client_ptr
    unfolding cuda_host_alloc_regshm_1_svc_def by (intro keeps_intros)
  show "keeps_inv (free_host E st index i)" for E :: "'a env" and st index i
    unfolding free_host_def by (intro keeps_intros)
qed

lemma keeps_count_output [keeps_intros]: "keeps_inv count_output"
  by (auto simp: keeps_def inv_kept_def count_output_def modify_s_def replay_inv_def)

lemma inv_gpu [simp]: "replay_inv (s\<lparr>gpu := d\<rparr>) \<longleftrightarrow> replay_inv s"
  by (simp add: replay_inv_def)

lemma keeps_invD: "keeps_inv h \<Longrightarrow> replay_inv s \<Longrightarrow> h s = Inr (r, s') \<Longrightarrow> replay_inv s'"
  by (auto simp: keeps_def inv_kept_def)

lemma request_keeps: "request E p h \<Longrightarrow> keeps_inv h"
  by (rule counters.request_kept) (simp_all add: keeps_count_output)

lemma served_inv: "served E s s' \<Longrightarrow> replay_inv s \<Longrightarrow> replay_inv s'"
  by (induction rule: served.induct) (auto dest: request_keeps keeps_invD)

section \<open>The number of iterations\<close>

text \<open>Only a copy from the device ends an iteration, and it ends one.\<close>

definition same_output :: "'d server \<Rightarrow> 'd server \<Rightarrow> bool" where
  "same_output s t \<longleftrightarrow> output_times t = output_times s"

interpretation out: kept_base same_output
  by unfold_locales (auto simp: same_output_def set_sched_def)

lemma output_hainfo [keeps_intros]:
  "keeps same_output (hainfo_set j ha)" "keeps same_output (modify_s (\<lambda>s. s\<lparr>hainfo_cnt := n\<rparr>))"
  by (auto simp: keeps_def same_output_def hainfo_set_def modify_s_def split: if_split_asm)

interpretation outputs: kept same_output
proof unfold_locales
  show "keeps same_output (input_slot p)" for p
    by (auto simp: keeps_def same_output_def input_slot_def Let_def split: if_split_asm)
  show "same_output s (s\<lparr>recorded_calls := (recorded_calls s)[nat (operator_count s) := l]\<rparr>)" for s :: "'a server" and l
    by (simp add: same_output_def)
  show "keeps same_output (host_alloc E st local sz flags)" for E :: "'a env" and st local sz flags
    unfolding host_alloc_def Let_def by (intro keeps_intros)
  show "keeps same_output (cuda_host_alloc_regshm_1_svc E rq st local idx client_ptr)" for E :: "'a env" and rq st local idx client_ptr
    unfolding cuda_host_alloc_regshm_1_svc_def by (intro keeps_intros)
  show "keeps same_output (free_host E st index i)" for E :: "'a env" and st index i
    unfolding free_host_def by (intro keeps_intros)
qed

lemma request_output_once:
  assumes "request E p h" and "h s = Inr (r, s')"
  shows "output_times s' \<le> output_times s + 1"
proof (cases "p = 441")
  case False
  with outputs.request_kept [OF assms(1)] assms(2) have "same_output s s'" by (blast dest: keepsD)
  then show ?thesis by (simp add: same_output_def)
next
  case True
  with assms(1) obtain q sz where h: "h = cuda_memcpy_dtoh_1_svc E q sz"
    by (auto simp: request_def elim: runtime_request.cases driver_request.cases library_request.cases dnn_request.cases)
  obtain t where t: "count_output s = Inr ((), t)" "output_times t \<le> output_times s + 1"
    by (simp add: count_output_def modify_s_def)
  have "keeps same_output (bind_h (lib_call E ''cudaMemcpy''
           [W (if heap_ok E (unat sz) then fresh_word E else 0), Handle rm_memory q, W sz, I 2])
         (\<lambda>(err, outs). ret_h (if err \<noteq> 0 then Reply [Int32 err]
                  else Reply [Int32 err, Bytes (out_bytes E outs 0 (unat sz))])))"
    by (intro keeps_intros)
  from keepsD [OF this, of t] t assms(2) show ?thesis
    unfolding h cuda_memcpy_dtoh_1_svc_def by (auto simp: bind_h_def same_output_def)
qed

text \<open>Runs with the number of their requests.\<close>

inductive served_in :: "'d env \<Rightarrow> 'd server \<Rightarrow> nat \<Rightarrow> 'd server \<Rightarrow> bool" for E s where
  served_in_start: "served_in E s 0 s"
| served_in_step: "served_in E s n s1 \<Longrightarrow> request E proc h \<Longrightarrow> h s1 = Inr (r, s2) \<Longrightarrow> served_in E s (Suc n) s2"

lemma served_in_served: "served_in E s n s' \<Longrightarrow> served E s s'"
  by (induction rule: served_in.induct) (auto intro: served.intros)

lemma served_served_in: "served E s s' \<Longrightarrow> \<exists>n. served_in E s n s'"
  by (induction rule: served.induct) (blast intro: served_in.intros)+

lemma served_in_outputs: "served_in E s n s' \<Longrightarrow> output_times s' \<le> output_times s + int n"
  by (induction rule: served_in.induct) (auto dest: request_output_once)

text \<open>Nothing bounds the number of inputs of an iteration: the request after the hundredth
  writes, or reads, behind the array of remembered addresses.\<close>

lemma input_overflow:
  assumes "input_count s = 100" and "length (input_address s) = 100"
  shows "cuda_memcpy_htod_1_svc E rq p mem sz s = Inl Out_Of_Bounds"
  using assms by (simp add: cuda_memcpy_htod_1_svc_def bind_h_def input_slot_def Let_def)

text \<open>C31: After a run of \<open>n\<close> answered requests, whatever they are, the numbers of begun and of ended iterations differ by at
  most one, at most \<open>n\<close> iterations have ended since the start (so that the \<open>int\<close> counters of the code do not overflow
  in fewer than \<open>2 ^ 31 - 1\<close> requests), and no operator has been recorded for the replay. The index into the
  remembered inputs is inside the array until the hundredth input of an iteration, and the next one is out of bounds,
  which the code does not check.\<close>

theorem replay_invariant:
  assumes "served_in E s n s'" and "replay_inv s"
  shows "0 \<le> output_times s' \<and> input_times s' \<in> {output_times s', output_times s' + 1} \<and>
    output_times s' \<le> output_times s + int n \<and> operator_count s' = 0 \<and>
    (if input_count s' = 100 then cuda_memcpy_htod_1_svc E' rq p mem sz s' = Inl Out_Of_Bounds
     else 0 \<le> input_count s' \<and> input_count s' < int (length (input_address s')))"
proof -
  have "replay_inv s'" using served_inv [OF served_in_served [OF assms(1)] assms(2)] .
  with served_in_outputs [OF assms(1)] input_overflow [of s' E' rq p mem sz] show ?thesis
    by (auto simp: replay_inv_def)
qed

text \<open>A server at the start of an output, for the examples.\<close>

definition output_server :: "int \<Rightarrow> unit server" where
  "output_server n = sample_server\<lparr>input_times := n + 1, output_times := n, recorded_calls := replicate 1000
     \<lparr>l_func = 0, l_grid = \<lparr>dim_x = 0, dim_y = 0, dim_z = 0\<rparr>, l_block = \<lparr>dim_x = 0, dim_y = 0, dim_z = 0\<rparr>,
      l_args = \<lparr>mem_addr = 0, mem_val = []\<rparr>, l_shared = 0, l_stream = 0\<rparr>\<rparr>"

lemma output_server_inv: "0 \<le> n \<Longrightarrow> replay_inv (output_server n)"
  by (simp add: replay_inv_def output_server_def server_on_def)

lemma output_run:
  obtains s where "served_in roomy_env (output_server n) 1 s" and "input_times s = n + 1" and "output_times s = n + 1"
    and "input_count s = 0"
proof -
  have get: "resource_mg_get fresh_mg q = Inr q" for q
    by (simp add: resource_mg_get_def resource_mg_search_map_def fresh_mg_def)
  let ?s = "(output_server n)\<lparr>output_times := n + 1, input_count := 0\<rparr>"
  have run: "cuda_memcpy_dtoh_1_svc roomy_env 4096 8 (output_server n) =
      Inr (Reply [Int32 0, Bytes (out_bytes roomy_env [Word64 4096] 0 8)], ?s)"
    by (simp add: cuda_memcpy_dtoh_1_svc_def bind_h_def count_output_def modify_s_def output_server_def
        server_on_def lib_call_def ret_h_def handle_def get cuda_call_def roomy_env_def sample_env_def)
  have "request roomy_env 441 (cuda_memcpy_dtoh_1_svc roomy_env 4096 8)"
    by (simp add: request_def runtime_request.intros)
  from served_in_step [OF served_in_start this run] show thesis
    by (intro that [of ?s]) (simp_all add: output_server_def)
qed

theorem replay_invariant_witness:
  "\<exists>s. served_in roomy_env (output_server 1) 1 s \<and> input_times s = 2 \<and> output_times s \<le> 1 + 1 \<and>
     operator_count s = 0 \<and> input_count s < int (length (input_address s))"
proof -
  obtain s where s: "served_in roomy_env (output_server 1) 1 s" "input_times s = 2" "input_count s = 0"
    by (rule output_run [of 1]) simp
  show ?thesis using replay_invariant [OF s(1) output_server_inv] s by (auto simp: output_server_def)
qed

section \<open>Launches\<close>

text \<open>What a launch request does in a run: in the first iteration it is recorded, always in
  entry 0, and issued; in every other iteration nothing is launched and nothing changes, since
  the number of recorded operators is still 0, and the result code is never set.\<close>

lemma launch_by_iteration:
  assumes "served E s0 s" and "replay_inv s0"
  shows "cuda_launch_kernel_1_svc E rq l s =
    (if input_times s = 1
     then bind_h (replay_each_operator E rq l) (\<lambda>r. ret_h (if fresh_int E = 0 then No_Reply else r))
            (s\<lparr>recorded_calls := (recorded_calls s)[0 := l]\<rparr>)
     else Inr (if fresh_int E = 0 then No_Reply else Reply [Int32 (of_int (fresh_int E))], s))"
proof -
  have "operator_count s = 0" "length (recorded_calls s) = 1000"
    using served_inv [OF assms] by (simp_all add: replay_inv_def)
  then show ?thesis
    by (simp add: cuda_launch_kernel_1_svc_def bind_h_def get_s_def modify_s_def ret_h_def)
qed

section \<open>Inputs\<close>

text \<open>The inputs of an iteration in order, and iterations that end with an output.\<close>

fun copy_inputs :: "u64 list \<Rightarrow> ('d, u64 list) handler" where
  "copy_inputs [] = ret_h []"
| "copy_inputs (p # ps) = bind_h (input_slot p) (\<lambda>q. bind_h (copy_inputs ps) (\<lambda>qs. ret_h (q # qs)))"

fun iterations :: "u64 list list \<Rightarrow> ('d, u64 list list) handler" where
  "iterations [] = ret_h []"
| "iterations (ps # pss) = bind_h (copy_inputs ps) (\<lambda>qs. bind_h count_output (\<lambda>_.
     bind_h (iterations pss) (\<lambda>qss. ret_h (qs # qss))))"

definition in_iteration :: "nat \<Rightarrow> 'd server \<Rightarrow> bool" where
  "in_iteration k s \<longleftrightarrow> input_count s = int k \<and> length (input_address s) = 100 \<and> 0 \<le> output_times s"

lemma input_slot_first:
  assumes "in_iteration k s" and "k < 100" and "output_times s = 0"
  obtains s' where "input_slot p s = Inr (p, s')" and "in_iteration (Suc k) s'"
    and "input_address s' = (input_address s)[k := p]" and "output_times s' = 0" and "input_times s' \<noteq> 0"
  using assms by (intro that [of "snd (projr (input_slot p s))"])
    (auto simp: input_slot_def in_iteration_def Let_def)

lemma input_slot_later:
  assumes "in_iteration k s" and "k < 100" and "output_times s \<noteq> 0"
  obtains s' where "input_slot p s = Inr (input_address s ! k, s')" and "in_iteration (Suc k) s'"
    and "input_address s' = input_address s" and "output_times s' = output_times s"
    and "input_times s' \<noteq> output_times s"
  using assms by (intro that [of "snd (projr (input_slot p s))"])
    (auto simp: input_slot_def in_iteration_def Let_def)

lemma copy_inputs_first:
  "in_iteration k s \<Longrightarrow> k + length ps \<le> 100 \<Longrightarrow> output_times s = 0 \<Longrightarrow>
   \<exists>s'. copy_inputs ps s = Inr (ps, s') \<and> in_iteration (k + length ps) s' \<and> output_times s' = 0 \<and>
        take (k + length ps) (input_address s') = take k (input_address s) @ ps \<and>
        (ps \<noteq> [] \<longrightarrow> input_times s' \<noteq> 0) \<and> (input_times s \<noteq> 0 \<longrightarrow> input_times s' \<noteq> 0)"
proof (induction ps arbitrary: k s)
  case (Cons p ps)
  obtain s1 where s1: "input_slot p s = Inr (p, s1)" "in_iteration (Suc k) s1"
    "input_address s1 = (input_address s)[k := p]" "output_times s1 = 0" "input_times s1 \<noteq> 0"
    using input_slot_first [of k s p] Cons.prems by auto
  then obtain s2 where s2: "copy_inputs ps s1 = Inr (ps, s2)" "in_iteration (Suc k + length ps) s2"
    "output_times s2 = 0" "take (Suc k + length ps) (input_address s2) = take (Suc k) (input_address s1) @ ps"
    "input_times s2 \<noteq> 0"
    using Cons.IH [of "Suc k" s1] Cons.prems by auto
  moreover have "take (Suc k) ((input_address s)[k := p]) = take k (input_address s) @ [p]"
    using Cons.prems by (simp add: in_iteration_def take_Suc_conv_app_nth)
  ultimately show ?case using s1 by (intro exI [of _ s2]) (simp add: bind_h_def ret_h_def)
qed (simp add: ret_h_def)

lemma copy_inputs_later:
  "in_iteration k s \<Longrightarrow> k + length ps \<le> 100 \<Longrightarrow> output_times s \<noteq> 0 \<Longrightarrow>
   \<exists>s'. copy_inputs ps s = Inr (take (length ps) (drop k (input_address s)), s') \<and> in_iteration (k + length ps) s' \<and>
        output_times s' = output_times s \<and> input_address s' = input_address s \<and>
        (ps \<noteq> [] \<longrightarrow> input_times s' \<noteq> output_times s) \<and>
        (input_times s \<noteq> output_times s \<longrightarrow> input_times s' \<noteq> output_times s)"
proof (induction ps arbitrary: k s)
  case (Cons p ps)
  obtain s1 where s1: "input_slot p s = Inr (input_address s ! k, s1)" "in_iteration (Suc k) s1"
    "input_address s1 = input_address s" "output_times s1 = output_times s" "input_times s1 \<noteq> output_times s"
    using input_slot_later [of k s p] Cons.prems by auto
  then obtain s2 where s2: "copy_inputs ps s1 = Inr (take (length ps) (drop (Suc k) (input_address s)), s2)"
    "in_iteration (Suc k + length ps) s2" "output_times s2 = output_times s" "input_address s2 = input_address s"
    "input_times s2 \<noteq> output_times s"
    using Cons.IH [of "Suc k" s1] Cons.prems by auto
  moreover have "take (Suc (length ps)) (drop k (input_address s)) =
      input_address s ! k # take (length ps) (drop (Suc k) (input_address s))"
    using Cons.prems by (simp add: in_iteration_def Cons_nth_drop_Suc [symmetric])
  ultimately show ?case using s1 by (intro exI [of _ s2]) (simp add: bind_h_def ret_h_def)
qed (simp add: ret_h_def)

lemma count_output_ends:
  assumes "in_iteration k s" and "input_times s \<noteq> output_times s"
  obtains s' where "count_output s = Inr ((), s')" and "in_iteration 0 s'" and "output_times s' \<noteq> 0"
    and "input_address s' = input_address s"
  using assms by (intro that [of "s\<lparr>output_times := output_times s + 1, input_count := 0\<rparr>"])
    (simp_all add: count_output_def modify_s_def in_iteration_def)

lemma later_iterations:
  "in_iteration 0 s \<Longrightarrow> output_times s \<noteq> 0 \<Longrightarrow> take (length ps) (input_address s) = ps \<Longrightarrow> length ps \<le> 100 \<Longrightarrow>
   \<forall>qs \<in> set qss. qs \<noteq> [] \<and> length qs \<le> length ps \<Longrightarrow>
   \<exists>s'. iterations qss s = Inr (map (\<lambda>qs. take (length qs) ps) qss, s')"
proof (induction qss arbitrary: s)
  case (Cons qs qss)
  then obtain s1 where s1: "copy_inputs qs s = Inr (take (length qs) (input_address s), s1)"
    "in_iteration (length qs) s1" "output_times s1 = output_times s" "input_address s1 = input_address s"
    "input_times s1 \<noteq> output_times s"
    using copy_inputs_later [of 0 s qs] by auto
  then obtain s2 where s2: "count_output s1 = Inr ((), s2)" "in_iteration 0 s2" "output_times s2 \<noteq> 0"
    "input_address s2 = input_address s"
    using count_output_ends [of "length qs" s1] by metis
  then obtain s3 where "iterations qss s2 = Inr (map (\<lambda>qs. take (length qs) ps) qss, s3)"
    using Cons.IH [of s2] Cons.prems by auto
  moreover have "take (length qs) (input_address s) = take (length qs) ps"
    using Cons.prems(3,5) by (metis list.set_intros(1) min.absorb1 take_take)
  ultimately show ?case using s1(1) s2(1) by (simp add: bind_h_def ret_h_def)
qed (simp add: ret_h_def)

text \<open>The replay of inputs: the addresses the first iteration copies its inputs to are the ones
  every later iteration uses, in the same order, whatever addresses its requests carry.\<close>

lemma inputs_replayed:
  assumes "input_count s = 0" and "input_times s = 0" and "output_times s = 0" and "length (input_address s) = 100"
    and "ps \<noteq> []" and "length ps \<le> 100" and "\<forall>qs \<in> set qss. qs \<noteq> [] \<and> length qs \<le> length ps"
  shows "\<exists>s'. iterations (ps # qss) s = Inr (ps # map (\<lambda>qs. take (length qs) ps) qss, s')"
proof -
  have "in_iteration 0 s" using assms by (simp add: in_iteration_def)
  then obtain s1 where s1: "copy_inputs ps s = Inr (ps, s1)" "in_iteration (length ps) s1" "output_times s1 = 0"
    "take (length ps) (input_address s1) = ps" "input_times s1 \<noteq> 0"
    using copy_inputs_first [of 0 s ps] assms by auto
  then obtain s2 where s2: "count_output s1 = Inr ((), s2)" "in_iteration 0 s2" "output_times s2 \<noteq> 0"
    "input_address s2 = input_address s1"
    using count_output_ends [of "length ps" s1] by metis
  then obtain s3 where "iterations qss s2 = Inr (map (\<lambda>qs. take (length qs) ps) qss, s3)"
    using later_iterations [of s2 ps qss] s1(4) assms(6,7) by auto
  with s1(1) s2(1) show ?thesis by (simp add: bind_h_def ret_h_def)
qed

end
