(* ===== verification/LaunchParams.thy ===== *)
theory LaunchParams
  imports RuntimeLaunch CrRestore
begin

text \<open>
  What the packing of kernel parameters on the client and their unpacking on the server do
  together. \<open>layout k fs\<close>: the parameters of the kernel \<open>k\<close> have the offsets and sizes \<open>fs\<close>, in
  ascending order, without overlap and inside the parameter block.
\<close>

section \<open>Blocks\<close>

lemma blk_concat:
  "i < length xs \<Longrightarrow> (\<And>x. length (f x) = c) \<Longrightarrow> blk (c * i) c (concat (map f xs) @ rest) = f (xs ! i)"
proof (induction xs arbitrary: i)
  case (Cons x xs)
  then show ?case
  proof (cases i)
    case (Suc j)
    have "blk (c * i) c (concat (map f (x # xs)) @ rest) = blk (c * j) c (concat (map f xs) @ rest)"
      using Cons.prems(2) by (simp add: Suc blk_def)
    with Suc Cons show ?thesis by simp
  qed (simp add: blk_def)
qed simp

lemma blk_take: "i + n \<le> l \<Longrightarrow> blk i n (take l xs) = blk i n xs"
  by (simp add: blk_def drop_take min_def)

lemma blk_drop: "blk i n (drop j xs) = blk (j + i) n xs"
  by (simp add: blk_def add.commute)

section \<open>The packed buffer\<close>

definition layout :: "kernel_info \<Rightarrow> (nat \<times> nat) list \<Rightarrow> bool" where
  "layout k fs \<longleftrightarrow> param_num k = length fs \<and> param_offsets k = map (Some \<circ> fst) fs \<and>
     param_sizes k = map (Some \<circ> snd) fs \<and> sorted_wrt (\<lambda>a b. fst a + snd a \<le> fst b) fs \<and>
     (\<forall>a \<in> set fs. fst a + snd a \<le> param_size k \<and> fst a < 2 ^ 16) \<and>
     8 + 2 * length fs + param_size k < 2 ^ 32"

abbreviation param_base :: "(nat \<times> nat) list \<Rightarrow> nat" where
  "param_base fs \<equiv> 8 + 2 * length fs"

text \<open>\<open>packed k fs bss m\<close>: the buffer \<open>m\<close> holds the offsets \<open>fs\<close> and the parameters \<open>bss\<close>.\<close>

definition packed_header :: "kernel_info \<Rightarrow> (nat \<times> nat) list \<Rightarrow> u8 list \<Rightarrow> bool" where
  "packed_header k fs m \<longleftrightarrow> length m = param_base fs + param_size k \<and>
     take (param_base fs) m = le_bytes 8 (length fs) @ concat (map (\<lambda>a. le_bytes 2 (fst a)) fs)"

definition param_at :: "(nat \<times> nat) list \<Rightarrow> nat \<Rightarrow> u8 list \<Rightarrow> u8 list" where
  "param_at fs j m = blk (param_base fs + fst (fs ! j)) (snd (fs ! j)) m"

lemma layout_bounds: "layout k fs \<Longrightarrow> j < length fs \<Longrightarrow> fst (fs ! j) + snd (fs ! j) \<le> param_size k"
  by (auto simp: layout_def)

lemma layout_disjoint:
  "layout k fs \<Longrightarrow> i < length fs \<Longrightarrow> j < length fs \<Longrightarrow> i \<noteq> j \<Longrightarrow>
   fst (fs ! i) + snd (fs ! i) \<le> fst (fs ! j) \<or> fst (fs ! j) + snd (fs ! j) \<le> fst (fs ! i)"
  unfolding layout_def sorted_wrt_iff_nth_less by (metis linorder_neqE_nat)

lemma header_count: "packed_header k fs m \<Longrightarrow> length fs < 2 ^ 32 \<Longrightarrow> rd m 0 8 = Inr (length fs)"
proof -
  assume h: "packed_header k fs m" and n: "length fs < 2 ^ 32"
  have "blk 0 8 m = blk 0 8 (take (param_base fs) m)" by (simp add: blk_take)
  also have "\<dots> = le_bytes 8 (length fs)" using h by (simp add: packed_header_def blk_def)
  finally show ?thesis using h n by (simp add: rd_def packed_header_def le_val_le_bytes)
qed

lemma header_offset:
  assumes h: "packed_header k fs m" and i: "i < length fs" and "fst (fs ! i) < 2 ^ 16"
  shows "rd m (8 + 2 * i) 2 = Inr (fst (fs ! i))"
proof -
  have "blk (8 + 2 * i) 2 m = blk (8 + 2 * i) 2 (take (param_base fs) m)" using i by (simp add: blk_take)
  also have "\<dots> = blk (2 * i) 2 (drop 8 (take (param_base fs) m))" by (simp add: blk_drop)
  also have "drop 8 (take (param_base fs) m) = concat (map (\<lambda>a. le_bytes 2 (fst a)) fs)"
    using h by (simp add: packed_header_def)
  also have "blk (2 * i) 2 (concat (map (\<lambda>a. le_bytes 2 (fst a)) fs)) = le_bytes 2 (fst (fs ! i))"
    using blk_concat [OF i, of "\<lambda>a. le_bytes 2 (fst a)" 2 "[]"] by simp
  finally show ?thesis using h i assms(3) by (simp add: rd_def packed_header_def le_val_le_bytes)
qed

text \<open>Writing one parameter keeps the header and the other parameters.\<close>

lemma write_param:
  assumes l: "layout k fs" and j: "j < length fs" and bs: "length bs = snd (fs ! j)" and h: "packed_header k fs m"
  shows "put_block (param_base fs + fst (fs ! j)) bs m = Inr (blit m (param_base fs + fst (fs ! j)) bs)"
    and "packed_header k fs (blit m (param_base fs + fst (fs ! j)) bs)"
    and "i < length fs \<Longrightarrow> param_at fs i (blit m (param_base fs + fst (fs ! j)) bs) =
      (if i = j then bs else param_at fs i m)"
proof -
  have fit: "param_base fs + fst (fs ! j) + length bs \<le> length m"
    using layout_bounds [OF l j] h bs by (simp add: packed_header_def)
  then show "put_block (param_base fs + fst (fs ! j)) bs m = Inr (blit m (param_base fs + fst (fs ! j)) bs)"
    by (simp add: put_block_def)
  have "take (param_base fs) (blit m (param_base fs + fst (fs ! j)) bs) = take (param_base fs) m"
    using blk_blit_disjoint [OF fit, of 0 "param_base fs"] by (simp add: blk_def)
  with fit h show "packed_header k fs (blit m (param_base fs + fst (fs ! j)) bs)"
    by (simp add: packed_header_def)
  show "param_at fs i (blit m (param_base fs + fst (fs ! j)) bs) = (if i = j then bs else param_at fs i m)"
    if "i < length fs"
    using blk_blit [OF fit] bs blk_blit_disjoint [OF fit, of "param_base fs + fst (fs ! i)" "snd (fs ! i)"]
      layout_disjoint [OF l that j] by (auto simp: param_at_def)
qed

lemma pack_params_packs:
  "layout k fs \<Longrightarrow> packed_header k fs m \<Longrightarrow> j + r = length fs \<Longrightarrow> length args = length fs \<Longrightarrow>
   \<forall>i < length fs. snd (fs ! i) \<le> length (args ! i) \<Longrightarrow>
   \<exists>m'. pack_params k args j r m = Inr m' \<and> packed_header k fs m' \<and>
     (\<forall>i < length fs. param_at fs i m' = (if j \<le> i then take (snd (fs ! i)) (args ! i) else param_at fs i m))"
proof (induction r arbitrary: j m)
  case (Suc r)
  let ?bs = "take (snd (fs ! j)) (args ! j)" and ?at = "param_base fs + fst (fs ! j)"
  have j: "j < length fs" and bs: "length ?bs = snd (fs ! j)" using Suc.prems by auto
  note w = write_param [OF Suc.prems(1) j bs Suc.prems(2)]
  obtain m' where m': "pack_params k args (Suc j) r (blit m ?at ?bs) = Inr m'" "packed_header k fs m'"
    "\<forall>i < length fs. param_at fs i m' = (if Suc j \<le> i then take (snd (fs ! i)) (args ! i)
       else param_at fs i (blit m ?at ?bs))"
    using Suc.IH [OF Suc.prems(1) w(2) _ Suc.prems(4,5), of "Suc j"] Suc.prems(3) by auto
  have "pack_params k args j (Suc r) m = Inr m'"
    using Suc.prems j m'(1) w(1) by (simp add: layout_def not_less)
  moreover have "param_at fs i m' = (if j \<le> i then take (snd (fs ! i)) (args ! i) else param_at fs i m)"
    if "i < length fs" for i
    using m'(3) that w(3) [OF that] by (cases "i = j") auto
  ultimately show ?case using m'(2) by blast
qed auto

lemma pack_args_packs:
  assumes l: "layout k fs" and args: "length args = length fs" "\<forall>i < length fs. snd (fs ! i) \<le> length (args ! i)"
    and heap: "heap_ok E (param_base fs + param_size k)"
  obtains m where "pack_args E k args = Inr m" and "packed_header k fs m"
    and "\<And>i. i < length fs \<Longrightarrow> param_at fs i m = take (snd (fs ! i)) (args ! i)"
proof -
  let ?L = "param_base fs + param_size k" and ?offs = "concat (map (\<lambda>a. le_bytes 2 (fst a)) fs)"
  note ly = l [unfolded layout_def]
  have len: "length ?offs = 2 * length fs" by (induction fs) auto
  have offs: "concat (map (offset_bytes E) (take (param_num k) (param_offsets k))) = ?offs"
    using ly by (simp add: offset_bytes_def comp_def)
  let ?m1 = "blit (replicate ?L (fresh_byte E)) 0 (le_bytes 8 (length fs))" and ?m2 = "\<lambda>m. blit m 8 ?offs"
  have m1: "put_block 0 (le_bytes 8 (param_num k)) (replicate ?L (fresh_byte E)) = Inr ?m1"
    using ly by (simp add: put_block_def)
  have m2: "put_block 8 ?offs ?m1 = Inr (?m2 ?m1)" using len by (simp add: put_block_def)
  have "packed_header k fs (?m2 ?m1)"
    using len by (simp add: packed_header_def blit_def)
  then obtain m where m: "pack_params k args 0 (length fs) (?m2 ?m1) = Inr m" "packed_header k fs m"
    "\<forall>i < length fs. param_at fs i m = take (snd (fs ! i)) (args ! i)"
    using pack_params_packs [OF l, of "?m2 ?m1" 0 "length fs" args] args by auto
  have "pack_args E k args = Inr m"
    using ly heap m1 m2 m(1) offs by (simp add: pack_args_def)
  with m show thesis by (intro that) auto
qed

section \<open>Unpacking\<close>

lemma slots_fit: "layout k fs \<Longrightarrow> wrap64 (length fs * 2) = 2 * length fs \<and> wrap64 (length fs * 8) div 8 = length fs"
  by (auto simp: layout_def wrap64_id)

text \<open>Without translation the addresses of the parameters result and the buffer is unchanged.\<close>

lemma launch_params_keep:
  assumes l: "layout k fs" and h: "packed_header k fs m"
  shows "i + r = length fs \<Longrightarrow> launch_params None (length fs) (length fs) i r m =
    Inr (map (\<lambda>a. param_base fs + fst a) (drop i fs), m)"
proof (induction r arbitrary: i)
  case (Suc r)
  then have i: "i < length fs" by simp
  have off: "rd m (8 + 2 * i) 2 = Inr (fst (fs ! i))"
    using l i by (intro header_offset [OF h i]) (simp add: layout_def)
  have "drop i fs = fs ! i # drop (Suc i) fs" using i by (simp add: Cons_nth_drop_Suc)
  then show ?case
    using Suc i off slots_fit [OF l] by (simp add: Let_def)
qed simp

lemma kernel_params_eq:
  assumes "layout k fs" and "packed_header k fs m" and "heap_ok E (8 * length fs)"
  shows "kernel_params E tr m = launch_params tr (length fs) (length fs) 0 (length fs) m"
proof -
  have "length fs < 2 ^ 32" using assms(1) by (simp add: layout_def)
  with header_count [OF assms(2)] slots_fit [OF assms(1)] assms(3) show ?thesis
    by (simp add: kernel_params_def wrap64_id mult.commute)
qed

text \<open>A kernel with two parameters, a pointer and an \<open>int\<close>, padded to 16 bytes or not.\<close>

definition sample_kernel :: "nat \<Rightarrow> kernel_info" where
  "sample_kernel n = \<lparr>k_name = ''k'', param_size = n, param_num = 2, param_offsets = [Some 0, Some 8],
     param_sizes = [Some 8, Some 4], host_fun = None\<rparr>"

lemma sample_layout: "12 \<le> n \<Longrightarrow> n < 1000 \<Longrightarrow> layout (sample_kernel n) [(0, 8), (8, 4)]"
  by (simp add: layout_def sample_kernel_def)

section \<open>Translation of pointers\<close>

lemma put_word:
  assumes "layout k fs" and "j < length fs" and "packed_header k fs m" and "fst (fs ! j) + 8 \<le> param_size k"
  shows "put_block (param_base fs + fst (fs ! j)) (i64 q) m = Inr (blit m (param_base fs + fst (fs ! j)) (i64 q)) \<and>
    packed_header k fs (blit m (param_base fs + fst (fs ! j)) (i64 q))"
proof -
  have fit: "param_base fs + fst (fs ! j) + length (i64 q) \<le> length m"
    using assms(3,4) by (simp add: packed_header_def)
  have "take (param_base fs) (blit m (param_base fs + fst (fs ! j)) (i64 q)) = take (param_base fs) m"
    using blk_blit_disjoint [OF fit, of 0 "param_base fs"] by (simp add: blk_def)
  with fit assms(3) show ?thesis by (simp add: put_block_def packed_header_def)
qed

lemma launch_params_overflow:
  "layout k fs \<Longrightarrow> packed_header k fs m \<Longrightarrow> \<forall>p. \<exists>q. get p = Inr q \<Longrightarrow> i + r = length fs \<Longrightarrow>
   \<exists>a \<in> set (drop i fs). param_size k < fst a + 8 \<Longrightarrow>
   launch_params (Some get) (length fs) (length fs) i r m = Inl Out_Of_Bounds"
proof (induction r arbitrary: i m)
  case (Suc r)
  then have i: "i < length fs" by simp
  let ?a = "param_base fs + fst (fs ! i)"
  have off: "rd m (8 + 2 * i) 2 = Inr (fst (fs ! i))"
    using Suc.prems(1) i by (intro header_offset [OF Suc.prems(2) i]) (simp add: layout_def)
  have len: "length m = param_base fs + param_size k" using Suc.prems(2) by (simp add: packed_header_def)
  have dr: "drop i fs = fs ! i # drop (Suc i) fs" using i by (simp add: Cons_nth_drop_Suc)
  show ?case
  proof (cases "param_size k < fst (fs ! i) + 8")
    case True
    then show ?thesis using off slots_fit [OF Suc.prems(1)] i len by (simp add: rd_def Let_def)
  next
    case False
    obtain q where q: "get (of_nat (le_val (blk ?a 8 m))) = Inr q" using Suc.prems(3) by blast
    note w = put_word [OF Suc.prems(1) i Suc.prems(2), of q]
    have "launch_params (Some get) (length fs) (length fs) (Suc i) r (blit m ?a (i64 q)) = Inl Out_Of_Bounds"
      using Suc.IH [OF Suc.prems(1) _ Suc.prems(3), of "blit m ?a (i64 q)" "Suc i"] w False Suc.prems(4,5) dr by auto
    with False q w show ?thesis using off slots_fit [OF Suc.prems(1)] i len
      by (simp add: rd_def Let_def)
  qed
qed simp

text \<open>The server treats every parameter as a pointer: it reads and replaces eight bytes at each
  offset, so a launch whose last parameter starts in the last seven bytes of the block (an \<open>int\<close>
  behind pointers) runs over the end of the received buffer.\<close>

lemma short_parameter_overflows:
  assumes "layout k fs" and "length args = length fs" and "\<forall>i < length fs. snd (fs ! i) \<le> length (args ! i)"
    and "heap_ok E (8 + 2 * length fs + param_size k)" and "heap_ok E (8 * length fs)"
    and "\<forall>p. \<exists>q. get p = Inr q" and "\<exists>a \<in> set fs. param_size k < fst a + 8"
  shows "\<exists>m. pack_args E k args = Inr m \<and> kernel_params E (Some get) m = Inl Out_Of_Bounds"
proof -
  obtain m where m: "pack_args E k args = Inr m" "packed_header k fs m"
    using pack_args_packs [OF assms(1-4)] by blast
  then show ?thesis
    using kernel_params_eq [OF assms(1) m(2) assms(5)] launch_params_overflow [OF assms(1) m(2) assms(6), of 0] assms(7)
    by simp
qed

text \<open>With a translation, the word at a parameter is replaced. For a parameter of eight bytes and
  more this is its beginning; the word at a shorter one has bytes behind it, and the parameter
  stays as it is when the translation keeps that word.\<close>

definition word_at :: "(nat \<times> nat) list \<Rightarrow> nat \<Rightarrow> u8 list \<Rightarrow> u64" where
  "word_at fs j m = of_nat (le_val (blk (param_base fs + fst (fs ! j)) 8 m))"

definition translated :: "(u64 \<Rightarrow> u64) \<Rightarrow> u8 list \<Rightarrow> u8 list" where
  "translated g bs = (if length bs < 8 then bs else i64 (g (of_nat (le_val (take 8 bs)))) @ drop 8 bs)"

lemma blit_blk_same: "a + n \<le> length m \<Longrightarrow> blit m a (blk a n m) = m"
  by (intro nth_equalityI) (auto simp: nth_append blit_def blk_def)

lemma i64_word:
  assumes "a + 8 \<le> length m"
  shows "i64 (of_nat (le_val (blk a 8 m))) = blk a 8 m"
proof -
  have "length (blk a 8 m) = 8" using assms by simp
  then show ?thesis
    using le_val_bound [of "blk a 8 m"] le_bytes_le_val [of "blk a 8 m"]
    by (simp add: i64_def unat_of_nat take_bit_nat_eq_self)
qed

lemma blk_split: "blk a (n + k) m = blk a n m @ blk (a + n) k m"
  by (simp add: blk_def take_add add.commute [of a n])

lemma translate_step:
  assumes l: "layout k fs" and h: "packed_header k fs m" and j: "j < length fs"
    and fit: "fst (fs ! j) + 8 \<le> param_size k"
    and short: "snd (fs ! j) < 8 \<longrightarrow> g (word_at fs j m) = word_at fs j m"
  defines "c \<equiv> blit m (param_base fs + fst (fs ! j)) (i64 (g (word_at fs j m)))"
  shows "packed_header k fs c"
    and "i < length fs \<Longrightarrow> param_at fs i c = (if i = j then translated g (param_at fs i m) else param_at fs i m)"
    and "i < length fs \<Longrightarrow> j < i \<Longrightarrow> word_at fs i c = word_at fs i m"
proof -
  let ?a = "param_base fs + fst (fs ! j)"
  have len: "?a + 8 \<le> length m" using h fit by (simp add: packed_header_def)
  have fit': "?a + length (i64 (g (word_at fs j m))) \<le> length m" using len by simp
  show h': "packed_header k fs c" using put_word [OF l j h fit] by (simp add: c_def)
  have pl: "length (param_at fs i m) = snd (fs ! i)" if "i < length fs" for i
    using layout_bounds [OF l that] h by (simp add: packed_header_def param_at_def)
  have same: "c = m" if "snd (fs ! j) < 8"
    using short that len by (simp add: c_def word_at_def i64_word blit_blk_same)
  show "param_at fs i c = (if i = j then translated g (param_at fs i m) else param_at fs i m)"
    if i: "i < length fs"
  proof (cases "snd (fs ! j) < 8")
    case True
    with same pl [OF i] show ?thesis by (auto simp: translated_def)
  next
    case False
    show ?thesis
    proof (cases "i = j")
      case True
      obtain e where e: "snd (fs ! j) = 8 + e" using False le_Suc_ex by (metis not_less)
      have "param_at fs j c = blk ?a 8 c @ blk (?a + 8) e c"
        by (simp add: param_at_def e blk_split)
      also have "blk ?a 8 c = i64 (g (word_at fs j m))"
        using blk_blit [OF fit'] by (simp add: c_def)
      also have "blk (?a + 8) e c = blk (?a + 8) e m"
        using blk_blit_disjoint [OF fit', of "?a + 8" e] by (simp add: c_def)
      also have "blk (?a + 8) e m = drop 8 (param_at fs j m)"
        by (simp add: param_at_def e blk_def drop_take add.commute [of 8])
      also have "word_at fs j m = of_nat (le_val (take 8 (param_at fs j m)))"
        by (simp add: word_at_def param_at_def e blk_def min_def)
      finally show ?thesis using True False pl [OF i] by (simp add: translated_def)
    next
      case ne: False
      with False blk_blit_disjoint [OF fit', of "param_base fs + fst (fs ! i)" "snd (fs ! i)"]
        layout_disjoint [OF l i j ne] show ?thesis by (auto simp: c_def param_at_def)
    qed
  qed
  show "word_at fs i c = word_at fs i m" if i: "i < length fs" and ji: "j < i"
  proof (cases "snd (fs ! j) < 8")
    case False
    have "fst (fs ! j) + snd (fs ! j) \<le> fst (fs ! i)"
      using l i ji by (simp add: layout_def sorted_wrt_iff_nth_less)
    with False blk_blit_disjoint [OF fit', of "param_base fs + fst (fs ! i)" 8]
    show ?thesis by (simp add: c_def word_at_def)
  qed (simp add: same)
qed

lemma launch_params_translate:
  "layout k fs \<Longrightarrow> \<forall>p. get p = Inr (g p) \<Longrightarrow> packed_header k fs m \<Longrightarrow> i + r = length fs \<Longrightarrow>
   \<forall>l < length fs. i \<le> l \<longrightarrow> fst (fs ! l) + 8 \<le> param_size k \<Longrightarrow>
   \<forall>l < length fs. i \<le> l \<longrightarrow> snd (fs ! l) < 8 \<longrightarrow> g (word_at fs l m) = word_at fs l m \<Longrightarrow>
   \<exists>m'. launch_params (Some get) (length fs) (length fs) i r m =
      Inr (map (\<lambda>a. param_base fs + fst a) (drop i fs), m') \<and>
     (\<forall>l < length fs. param_at fs l m' = (if i \<le> l then translated g (param_at fs l m) else param_at fs l m))"
proof (induction r arbitrary: i m)
  case (Suc r)
  then have i: "i < length fs" by simp
  let ?a = "param_base fs + fst (fs ! i)" and ?q = "g (word_at fs i m)"
  have fit: "fst (fs ! i) + 8 \<le> param_size k"
    and short: "snd (fs ! i) < 8 \<longrightarrow> g (word_at fs i m) = word_at fs i m"
    using Suc.prems(5,6) i by auto
  have off: "rd m (8 + 2 * i) 2 = Inr (fst (fs ! i))"
    using Suc.prems(1) i by (intro header_offset [OF Suc.prems(3) i]) (simp add: layout_def)
  have word: "rd m ?a 8 = Inr (le_val (blk ?a 8 m))"
    using fit Suc.prems(3) by (simp add: rd_def packed_header_def)
  have get: "get (of_nat (le_val (blk ?a 8 m))) = Inr ?q"
    using Suc.prems(2) by (simp add: word_at_def)
  let ?c = "blit m ?a (i64 ?q)"
  note w = put_word [OF Suc.prems(1) i Suc.prems(3) fit, of ?q]
  note st = translate_step [where g = g, OF Suc.prems(1,3) i fit short]
  have ws: "word_at fs l ?c = word_at fs l m" if "l < length fs" "Suc i \<le> l" for l
    using st(3) that by simp
  obtain m' where m': "launch_params (Some get) (length fs) (length fs) (Suc i) r ?c =
      Inr (map (\<lambda>a. param_base fs + fst a) (drop (Suc i) fs), m')"
    "\<forall>l < length fs. param_at fs l m' = (if Suc i \<le> l then translated g (param_at fs l ?c) else param_at fs l ?c)"
    using Suc.IH [OF Suc.prems(1,2), of ?c "Suc i"] w Suc.prems(4-6) ws by auto
  have "drop i fs = fs ! i # drop (Suc i) fs" using i by (simp add: Cons_nth_drop_Suc)
  then have "launch_params (Some get) (length fs) (length fs) i (Suc r) m =
      Inr (map (\<lambda>a. param_base fs + fst a) (drop i fs), m')"
    using off word get w m'(1) slots_fit [OF Suc.prems(1)] i by (simp add: Let_def)
  moreover have "param_at fs l m' = (if i \<le> l then translated g (param_at fs l m) else param_at fs l m)"
    if "l < length fs" for l
    using m'(2) that st(2) [OF that] by (cases "l = i") auto
  ultimately show ?case by blast
qed auto

text \<open>C10: Client and server agree on the parameters of a launch. When the parameters of a kernel
  lie apart inside its parameter block, the client packs a buffer \<open>m\<close> from which the server takes
  an address for every parameter. (i) In a cooperative launch these are exactly the bytes of
  the arguments. (ii) In a normal launch, with a table of device memory \<open>mm\<close>, an argument of at
  least eight bytes has its first eight replaced by the handle they stand for, or kept when the
  table does not know them, and a shorter argument arrives unchanged; this needs eight bytes of
  the block from the beginning of every parameter, and that the eight bytes from a shorter
  parameter, which reach into what lies behind it, are not by chance translated. (iii) With a
  parameter in the last seven bytes of the block a normal launch runs over the end of the
  buffer.\<close>

theorem launch_round_trip:
  assumes "layout k fs" and "length args = length fs" and "\<forall>i < length fs. snd (fs ! i) \<le> length (args ! i)"
    and "heap_ok E (8 + 2 * length fs + param_size k)" and "heap_ok E (8 * length fs)"
    and "mg_handles mg mm"
  shows "\<exists>m. pack_args E k args = Inr m \<and>
    (\<exists>as. kernel_params E None m = Inr (as, m) \<and> length as = length fs \<and>
       (\<forall>i < length fs. blk (as ! i) (snd (fs ! i)) m = take (snd (fs ! i)) (args ! i))) \<and>
    ((\<forall>a \<in> set fs. fst a + 8 \<le> param_size k) \<and>
     (\<forall>i < length fs. snd (fs ! i) < 8 \<longrightarrow> lookup_or_key mm (word_at fs i m) = word_at fs i m) \<longrightarrow>
     (\<exists>as m'. kernel_params E (Some (resource_mg_get mg)) m = Inr (as, m') \<and> length as = length fs \<and>
       (\<forall>i < length fs. blk (as ! i) (snd (fs ! i)) m' =
          translated (lookup_or_key mm) (take (snd (fs ! i)) (args ! i))))) \<and>
    ((\<exists>a \<in> set fs. param_size k < fst a + 8) \<longrightarrow>
     kernel_params E (Some (resource_mg_get mg)) m = Inl Out_Of_Bounds)"
proof -
  have get: "\<forall>p. resource_mg_get mg p = Inr (lookup_or_key mm p)"
    using rm.lookup_law [OF assms(6)] by (simp add: lookup_or_key_def)
  obtain m where m: "pack_args E k args = Inr m" "packed_header k fs m"
    "\<And>i. i < length fs \<Longrightarrow> param_at fs i m = take (snd (fs ! i)) (args ! i)"
    using pack_args_packs [OF assms(1-4)] by blast
  note kp = kernel_params_eq [OF assms(1) m(2) assms(5)]
  have "kernel_params E None m = Inr (map (\<lambda>a. 8 + 2 * length fs + fst a) fs, m)"
    using kp launch_params_keep [OF assms(1) m(2), of 0] by simp
  moreover have "\<exists>m'. kernel_params E (Some (resource_mg_get mg)) m =
        Inr (map (\<lambda>a. 8 + 2 * length fs + fst a) fs, m') \<and>
      (\<forall>i < length fs. param_at fs i m' = translated (lookup_or_key mm) (param_at fs i m))"
    if "\<forall>a \<in> set fs. fst a + 8 \<le> param_size k"
      and "\<forall>i < length fs. snd (fs ! i) < 8 \<longrightarrow> lookup_or_key mm (word_at fs i m) = word_at fs i m"
    using kp launch_params_translate [OF assms(1) get m(2), of 0 "length fs"] that by simp
  moreover have "kernel_params E (Some (resource_mg_get mg)) m = Inl Out_Of_Bounds"
    if "\<exists>a \<in> set fs. param_size k < fst a + 8"
    using kp launch_params_overflow [OF assms(1) m(2), of "resource_mg_get mg" 0] get that by simp
  ultimately show ?thesis using m(1,3) by (fastforce simp: param_at_def)
qed

lemma pack_params_two:
  "pack_params k args 0 2 m = pack_params k args 0 (Suc (Suc 0)) m"
  by (simp only: numeral_2_eq_2)

definition sample_buffer :: "u8 list" where
  "sample_buffer = le_bytes 8 2 @ le_bytes 2 0 @ le_bytes 2 8 @ i64 77 @ [9, 10, 11, 12, 165, 165, 165, 165]"

lemma sample_packed:
  "pack_args sample_env (sample_kernel 16) [i64 77, [9, 10, 11, 12]] = Inr sample_buffer"
  by (simp add: pack_args_def sample_env_def sample_kernel_def offset_bytes_def put_block_def blit_def
      pack_params_two sample_buffer_def replicate_num)

lemma sample_word: "word_at [(0, 8), (8, 4)] 1 sample_buffer \<noteq> 77"
  by (simp add: word_at_def sample_buffer_def blk_def)

theorem launch_round_trip_witness:
  "\<exists>mg m m' as as'.
     resource_mg_add_sorted (glibc (\<lambda>_. True)) (rm_memory sample_server) 77 99 = Inr (0, mg) \<and>
     pack_args sample_env (sample_kernel 16) [i64 77, [9, 10, 11, 12]] = Inr m \<and>
     kernel_params sample_env (Some (resource_mg_get mg)) m = Inr (as, m') \<and>
     blk (as ! 0) 8 m' = i64 99 \<and> blk (as ! 1) 4 m' = [9, 10, 11, 12] \<and>
     kernel_params sample_env None m = Inr (as', m) \<and> blk (as' ! 0) 8 m = i64 77"
proof -
  let ?fs = "[(0, 8), (8, 4)] :: (nat \<times> nat) list" and ?args = "[i64 77, [9, 10, 11, 12]]"
  have "mg_ready (rm_memory sample_server) 0"
    by (simp add: server_on_def fresh_mg_ready)
  then obtain mg where mg: "resource_mg_add_sorted (glibc (\<lambda>_. True)) (rm_memory sample_server) 77 99 = Inr (0, mg)"
    using mg_ready_add [of "rm_memory sample_server" 0 "\<lambda>_. True" 77 99] by (auto simp: glibc_def)
  have "mg_handles (rm_memory sample_server) Map.empty" by (simp add: server_on_def fresh_mg_ready)
  from rm.add_law [OF this, of "\<lambda>_. True" 77 99] mg have h: "mg_handles mg [77 \<mapsto> 99]" by auto
  have tr: "translated (lookup_or_key [77 \<mapsto> 99]) (i64 77) = i64 99"
    by (simp add: translated_def lookup_or_key_def i64_def le_val_le_bytes)
  have pre: "length ?args = length ?fs" "\<forall>i < length ?fs. snd (?fs ! i) \<le> length (?args ! i)"
    "heap_ok sample_env (8 + 2 * length ?fs + param_size (sample_kernel 16))" "heap_ok sample_env (8 * length ?fs)"
    by (simp_all add: sample_env_def sample_kernel_def All_less_Suc)
  have fit: "\<forall>a \<in> set ?fs. fst a + 8 \<le> param_size (sample_kernel 16)" by (simp add: sample_kernel_def)
  have short: "\<forall>i < length ?fs. snd (?fs ! i) < 8 \<longrightarrow>
      lookup_or_key [77 \<mapsto> 99] (word_at ?fs i sample_buffer) = word_at ?fs i sample_buffer"
    using sample_word by (simp add: All_less_Suc lookup_or_key_def)
  obtain m as as' m' where m: "pack_args sample_env (sample_kernel 16) ?args = Inr m"
    and c: "kernel_params sample_env None m = Inr (as', m)"
      "\<forall>i < length ?fs. blk (as' ! i) (snd (?fs ! i)) m = take (snd (?fs ! i)) (?args ! i)"
    and n: "m = sample_buffer \<Longrightarrow> kernel_params sample_env (Some (resource_mg_get mg)) m = Inr (as, m') \<and>
      (\<forall>i < length ?fs. blk (as ! i) (snd (?fs ! i)) m' =
         translated (lookup_or_key [77 \<mapsto> 99]) (take (snd (?fs ! i)) (?args ! i)))"
    using launch_round_trip [OF sample_layout [of 16] pre h] fit short by fastforce
  have b: "m = sample_buffer" using m sample_packed by simp
  show ?thesis
    using mg m c n [OF b] tr by (intro exI [of _ mg] exI [of _ m] exI [of _ m'] exI [of _ as] exI [of _ as'])
      (auto simp: All_less_Suc translated_def)
qed

end
