(* ===== verification/HandlerProps.thy ===== *)
theory HandlerProps
  imports ServerDriver RuntimeCopy
begin

text \<open>
  What single request handlers do: the logged calls issue exactly one library call with
  translated handles and leave exactly one record; the requests with which a client stops the
  server or makes it leave its buffers; the host allocation that is never released.
\<close>

section \<open>Logged calls\<close>

text \<open>The logged memory calls: each issues exactly one library call, with its pointers and streams
  translated, changes nothing but the device and the log, appends exactly one record with the
  procedure number, the arguments and the code, and replies with the code. The two-dimensional
  calls record the height in the place of the width, and the asynchronous \<open>memset\<close> writes the
  stream over the count.\<close>

lemma memory_calls_logged:
  assumes "steady E"
  shows "logs_call E (cuda_memset_1_svc E rq p v n) rq 24 [(0, i64 p), (8, i32 v), (16, i64 n)]
      ''cudaMemset'' [Handle rm_memory p, I v, W n] \<and>
    logs_call E (cuda_memset_2d_1_svc E rq p pitch v w h) rq 40
      [(0, i64 p), (8, i64 pitch), (16, i32 v), (24, i64 h), (32, i64 w)]
      ''cudaMemset2D'' [Handle rm_memory p, W pitch, I v, W w, W h] \<and>
    logs_call E (cuda_memset_async_1_svc E rq p v n stream) rq 32
      [(0, i64 p), (8, i32 v), (16, i64 stream)]
      ''cudaMemsetAsync'' [Handle rm_memory p, I v, W n, Handle rm_streams stream] \<and>
    logs_call E (cuda_memcpy_dtod_1_svc E rq dst src n) rq 24 [(0, i64 dst), (8, i64 src), (16, i64 n)]
      ''cudaMemcpy'' [Handle rm_memory dst, Handle rm_memory src, W n, I 3] \<and>
    logs_call E (cuda_mem_advise_1_svc E rq p n advice device) rq 24
      [(0, i64 p), (8, i64 n), (16, i32 advice), (20, i32 device)]
      ''cudaMemAdvise'' [Handle rm_memory p, W n, I advice, I device] \<and>
    logs_call E (cuda_free_array_1_svc E rq p) rq 8 [(0, i64 p)] ''cudaFreeArray'' [Handle rm_arrays p]"
proof -
  have twice: "put_fields [(0, i64 p), (8, i32 v), (16, i64 n), (16, i64 stream)] a =
      put_fields [(0, i64 p), (8, i32 v), (16, i64 stream)] a" if "length a = 32" for a
    using that by (simp add: blit_def)
  have async: "logs_call E (cuda_memset_async_1_svc E rq p v n stream) rq 32
      [(0, i64 p), (8, i32 v), (16, i64 n), (16, i64 stream)]
      ''cudaMemsetAsync'' [Handle rm_memory p, I v, W n, Handle rm_streams stream]"
    unfolding cuda_memset_async_1_svc_def by (rule logged_call_logs [OF assms]) (simp_all add: fields_fit_def)
  show ?thesis
    unfolding cuda_memset_1_svc_def cuda_memset_2d_1_svc_def cuda_memcpy_dtod_1_svc_def cuda_mem_advise_1_svc_def
      cuda_free_array_1_svc_def
    using async twice
    by (intro conjI logged_call_logs [OF assms]) (simp_all add: fields_fit_def logs_call_def)
qed

section \<open>Requests that stop or break the server\<close>

lemma drop_loop_stuck:
  "list_rep l (ys @ [x]) \<Longrightarrow> mt_dev_ptr x = 0 \<Longrightarrow> mt_drop_loop fuel l = Inl No_Fuel"
proof (induction fuel)
  case (Suc n)
  have "elem_at l (len l - 1) = Inr x"
    using list_rep_cell [OF Suc.prems(1), of "length ys"] Suc.prems(1) by (simp add: list_rep_len)
  moreover have "list_rm l (len l) = Inr (1, l)"
    using list_rm_out [OF Suc.prems(1)] Suc.prems(1) by (simp add: list_rep_len)
  ultimately show ?case using Suc by (simp add: list_rep_len)
qed simp

lemma scast_nat: "k < 2 ^ 31 \<Longrightarrow> unat (scast (of_nat k :: u32) :: u64) = k"
proof -
  assume k: "k < 2 ^ 31"
  then have "sint (of_nat k :: u32) = int k" by (simp add: signed_of_nat signed_take_bit_int_eq_self)
  then have "(scast (of_nat k :: u32) :: u64) = of_nat k" by (metis of_int_of_nat_eq of_int_sint)
  with k show ?thesis by (simp add: unat_of_nat take_bit_nat_eq_self)
qed

lemma sync_runs: "\<exists>r d. mt_memcpy_sync_server E y t = Inr (r, t\<lparr>gpu := d\<rparr>)"
  by (auto simp: mt_memcpy_sync_server_def lib_call_def bind_h_def ret_h_def cuda_call_def split: prod.split)

text \<open>C38: A client can hang the server: after a transfer to address 0 and another one, the request to
  wait for the second never returns. The loop that drops finished transfers from the end asks
  \<open>list_rm\<close> for the element behind the last one, which removes nothing.\<close>

theorem sync_never_returns:
  assumes "steady E" and "list_rep (api_records s) xs" and "room (heap_ok E) (api_records s)"
    and "list_rep (mt_memcpy_list s) (ys @ [x, y])" and "mt_dev_ptr x = 0" and "length ys + 1 < 2 ^ 31"
  shows "\<forall>fuel. cuda_memcpy_mt_sync_1_svc E rq fuel (of_nat (length ys + 1)) s = Inl No_Fuel"
proof
  fix fuel
  let ?k = "length ys + 1"
  obtain l where l: "cuda_memcpy_mt_sync_1_svc E rq fuel (of_nat ?k) s =
      mt_wait E fuel (unat (scast (of_nat ?k :: u32) :: u64)) (length xs) (s\<lparr>api_records := l\<rparr>)"
    unfolding cuda_memcpy_mt_sync_1_svc_def by (rule recorded_void_opens [OF assms(1-3)])
  have k: "unat (scast (of_nat ?k :: u32) :: u64) = ?k" using assms(6) by (rule scast_nat)
  have at: "list_at (mt_memcpy_list s) ?k = (0, Some ?k)" "elem_at (mt_memcpy_list s) ?k = Inr y"
    using list_at_rep [OF assms(4)] list_rep_cell [OF assms(4), of ?k] by (simp_all add: nth_append)
  obtain m where m: "list_rm (mt_memcpy_list s) ?k = Inr (0, m)" "list_rep m (ys @ [x])"
    using list_rm_rep [OF assms(4), of ?k] by auto
  obtain r d where sync: "mt_memcpy_sync_server E y (s\<lparr>api_records := l\<rparr>) =
      Inr (r, s\<lparr>api_records := l, gpu := d\<rparr>)"
    using sync_runs [of E y "s\<lparr>api_records := l\<rparr>"] by (elim exE) (rule that)
  show "cuda_memcpy_mt_sync_1_svc E rq fuel (of_nat ?k) s = Inl No_Fuel"
    unfolding l k
    using at m(1) drop_loop_stuck [OF m(2) assms(5)] sync list_rep_len [OF assms(4)]
    by (simp add: mt_wait_def bind_h_def get_s_def on_mt_def)
qed

definition transfer_to :: "u64 \<Rightarrow> mt_memcpy_server" where
  "transfer_to p = \<lparr>mt_dev_ptr = p, mt_mem_size = 8, mt_thread_num = 1, mt_port = 7, mt_dir = MT_MEMCPY_HTOD\<rparr>"

theorem sync_never_returns_witness:
  "\<forall>fuel. cuda_memcpy_mt_sync_1_svc roomy_env 451 fuel 1 (sample_server\<lparr>mt_memcpy_list :=
     \<lparr>elements = Buf [Some (transfer_to 0), Some (transfer_to 4096), None, None], len = 2, capacity = 4,
      element_size = 96\<rparr>\<rparr>) = Inl No_Fuel"
proof -
  have st: "steady roomy_env" by (auto simp: steady_def roomy_env_def glibc_def alloc_bounded_def)
  show ?thesis
    using sync_never_returns [OF st, of "sample_server\<lparr>mt_memcpy_list := \<lparr>elements = Buf [Some (transfer_to 0),
        Some (transfer_to 4096), None, None], len = 2, capacity = 4, element_size = 96\<rparr>\<rparr>"
        "[]" "[]" "transfer_to 0" "transfer_to 4096" 451]
    by (simp add: server_on_def list_rep_def list_wf_def list_abs_def room_def transfer_to_def)
qed

text \<open>The first host allocation is never released: its index is 0, which the release takes for a
  free entry, so \<open>cudaFreeHost\<close> reports an error and calls nothing.\<close>

lemma first_host_allocation_kept:
  assumes "steady E" and "list_rep (api_records s) xs" and "room (heap_ok E) (api_records s)"
    and "hainfo s = h # hs" and "hai_idx h = 0"
  shows "\<exists>l. cuda_free_host_1_svc E rq UNIX 0 s =
    Inr (Reply [Int32 cudaErrorInitializationError], s\<lparr>api_records := l\<rparr>)"
proof -
  obtain l where l: "cuda_free_host_1_svc E rq UNIX 0 s = free_host E UNIX 0 (length xs) (s\<lparr>api_records := l\<rparr>)"
    "list_rep l (xs @ [call_record E rq 4 (Some (put_fields [(0, i32 0)] (replicate 4 (fresh_byte E))))])"
    unfolding cuda_free_host_1_svc_def
    using recorded_opens [OF assms(1) _ _ assms(2,3), of 4 "[(0, i32 0)]" rq "free_host E UNIX 0"]
    by (auto simp: fields_fit_def)
  then obtain l' where "RECORD_RESULT_integer (length xs) cudaErrorInitializationError l = Inr l'"
    unfolding RECORD_RESULT_integer_def
    using update_record_rep [OF l(2), of "length xs"
        "\<lambda>r. Inr (r\<lparr>result_lo := set_low32 (result_lo r) cudaErrorInitializationError\<rparr>)"] by auto
  then have "free_host E UNIX 0 (length xs) (s\<lparr>api_records := l\<rparr>) =
      Inr (Reply [Int32 cudaErrorInitializationError], s\<lparr>api_records := l'\<rparr>)"
    using assms(4,5)
    by (simp add: free_host_def hainfo_at_def bind_h_def set_result_def on_log_def ret_h_def)
  with l(1) show ?thesis by auto
qed

lemma roomy_log: "steady roomy_env" "list_rep (api_records sample_server) []" "room (heap_ok roomy_env) (api_records sample_server)"
  by (auto simp: steady_def roomy_env_def glibc_def alloc_bounded_def server_on_def list_rep_def list_wf_def
      list_abs_def room_def)

text \<open>The length check of the driver launch wraps: a buffer of eight bytes that announces
  \<open>2 ^ 63\<close> parameters passes it, since the expected length is computed modulo \<open>2 ^ 64\<close>, and the
  first offset is then read behind the buffer.\<close>

lemma launch_check_wraps:
  assumes "mem_addr (l_args l) \<noteq> 0" and "mem_val (l_args l) = le_bytes 8 (2 ^ 63)" and "heap_ok E 0"
  shows "rpc_culaunchkernel_1_svc E fd l s = Inl Out_Of_Bounds"
proof -
  have n: "rd (le_bytes 8 (2 ^ 63)) 0 8 = Inr (2 ^ 63)"
    by (simp add: rd_def blk_def le_val_le_bytes)
  have w: "wrap64 (2 * 2 ^ 63) = 0" "wrap64 (2 ^ 63 * 8) = 0" by (simp_all add: wrap64_def)
  have "launch_params tr (2 ^ 63) 0 0 (Suc (2 ^ 63 - 1)) (le_bytes 8 (2 ^ 63)) = Inl Out_Of_Bounds" for tr
    by (subst launch_params.simps) (simp add: rd_def)
  then have "kernel_params E tr (le_bytes 8 (2 ^ 63)) = Inl Out_Of_Bounds" for tr
    using n w assms(3) by (simp add: kernel_params_def del: launch_params.simps)
  then show ?thesis
    using assms n w by (simp add: rpc_culaunchkernel_1_svc_def wrap64_def)
qed

end
