(* ===== verification/Oob.thy ===== *)
theory Oob
  imports Prelude
begin

text \<open>
  The loops of \<open>cpu/oob.c\<close> that send and receive a buffer over a socket. The socket is a
  parameter: the results of the successive \<open>send\<close> calls, and what the successive \<open>recv\<close> calls
  deliver. A loop that needs more results than are given has not ended (\<open>No_Fuel\<close>).
\<close>

section \<open>Sending\<close>

text \<open>
  A failed \<open>send\<close> is -1, and the loop adds it to the \<open>size_t\<close> counter like any other result. The
  last argument of the loop collects the bytes that went out.
\<close>

fun send_loop :: "int list \<Rightarrow> u8 list \<Rightarrow> nat \<Rightarrow> nat \<Rightarrow> u8 list \<Rightarrow> (nat \<times> u8 list) res" where
  "send_loop rets buf n sent wire =
     (if sent < n
      then case rets of
        [] \<Rightarrow> Inl No_Fuel
      | r # rets \<Rightarrow>
          if r < 0 then send_loop rets buf n (wrap64 (sent + size_max)) wire
          else send_loop rets buf n (wrap64 (sent + nat r)) (wire @ blk sent (nat r) (take n buf))
      else Inr (sent, wire))"

declare send_loop.simps [simp del]

text \<open>The counter is returned as an \<open>int\<close>.\<close>

definition as_int :: "nat \<Rightarrow> int" where
  "as_int n = sint (of_nat n :: u32)"

definition oob_send_s :: "int list \<Rightarrow> u8 list option \<Rightarrow> nat \<Rightarrow> (int \<times> u8 list) res" where
  "oob_send_s rets buffer n =
     (case buffer of None \<Rightarrow> Inr (-1, [])
      | Some buf \<Rightarrow>
          if length buf < n then Inl Out_Of_Bounds
          else bind_r (send_loop rets buf n 0 []) (\<lambda>(sent, wire). Inr (as_int sent, wire)))"

section \<open>Receiving\<close>

text \<open>A \<open>recv\<close> delivers a chunk (the empty one at the end of the stream) or fails with -1.\<close>

datatype recv_result = Got "u8 list" | Recv_Error

fun recv_loop :: "recv_result list \<Rightarrow> u8 list \<Rightarrow> nat \<Rightarrow> nat \<Rightarrow> (nat \<times> u8 list \<times> recv_result list) res" where
  "recv_loop rs buf n got =
     (if got < n
      then case rs of
        [] \<Rightarrow> Inl No_Fuel
      | Got bs # rs \<Rightarrow>
          if length buf < got + length bs then Inl Out_Of_Bounds
          else recv_loop rs (blit buf got bs) n (wrap64 (got + length bs))
      | Recv_Error # rs \<Rightarrow> recv_loop rs buf n (wrap64 (got + size_max))
      else Inr (got, buf, rs))"

declare recv_loop.simps [simp del]

definition oob_receive_s ::
  "recv_result list \<Rightarrow> u8 list option \<Rightarrow> nat \<Rightarrow> (int \<times> u8 list option \<times> recv_result list) res" where
  "oob_receive_s rs buffer n =
     (case buffer of None \<Rightarrow> Inr (-1, None, rs)
      | Some buf \<Rightarrow> bind_r (recv_loop rs buf n 0) (\<lambda>(got, buf, rs). Inr (as_int got, Some buf, rs)))"

section \<open>What the loops do\<close>

lemma as_int_id: "n < 2 ^ 31 \<Longrightarrow> as_int n = int n"
  by (simp add: as_int_def sint_uint signed_take_bit_int_eq_self unsigned_of_nat take_bit_nat_eq_self)

text \<open>Results of \<open>send\<close> for a buffer that is accepted piece by piece.\<close>

lemma send_loop_pieces:
  "n \<le> length buf \<Longrightarrow> n < 2 ^ 64 \<Longrightarrow> \<forall>k \<in> set ks. 0 < k \<Longrightarrow> sent + sum_list ks = n \<Longrightarrow>
   send_loop (map int ks @ rets) buf n sent wire = Inr (n, wire @ drop sent (take n buf))"
proof (induction ks arbitrary: sent wire)
  case Nil
  then show ?case by (simp add: send_loop.simps)
next
  case (Cons k ks)
  then have k: "0 < k" "sent + k \<le> n" "sent < n" by auto
  have "send_loop (map int (k # ks) @ rets) buf n sent wire =
      send_loop (map int ks @ rets) buf n (sent + k) (wire @ blk sent k (take n buf))"
    using k Cons.prems(2) by (simp add: send_loop.simps [of "int k # _"] wrap64_id)
  also have "\<dots> = Inr (n, (wire @ blk sent k (take n buf)) @ drop (sent + k) (take n buf))"
    using Cons.prems by (intro Cons.IH) auto
  also have "(wire @ blk sent k (take n buf)) @ drop (sent + k) (take n buf) = wire @ drop sent (take n buf)"
    by (simp add: blk_def add.commute [of sent] drop_drop [symmetric] del: drop_drop)
  finally show ?case .
qed

lemma recv_loop_pieces:
  "n < 2 ^ 64 \<Longrightarrow> n \<le> length buf \<Longrightarrow> \<forall>bs \<in> set bss. bs \<noteq> [] \<Longrightarrow> got + length (concat bss) = n \<Longrightarrow>
   recv_loop (map Got bss @ rs) buf n got = Inr (n, blit buf got (concat bss), rs)"
proof (induction bss arbitrary: buf got)
  case Nil
  then show ?case by (simp add: recv_loop.simps blit_def)
next
  case (Cons bs bss)
  then have b: "0 < length bs" "got + length bs \<le> n" "got < n" by auto
  have "recv_loop (map Got (bs # bss) @ rs) buf n got =
      recv_loop (map Got bss @ rs) (blit buf got bs) n (got + length bs)"
    using b Cons.prems(1,2) by (simp add: recv_loop.simps [of "Got bs # _"] wrap64_id)
  also have "\<dots> = Inr (n, blit (blit buf got bs) (got + length bs) (concat bss), rs)"
    using Cons.prems b by (intro Cons.IH) auto
  also have "blit (blit buf got bs) (got + length bs) (concat bss) = blit buf got (concat (bs # bss))"
    using b Cons.prems(2) by (simp add: blit_def ac_simps)
  finally show ?case .
qed

lemma recv_loop_starved:
  "n < 2 ^ 64 \<Longrightarrow> n \<le> length buf \<Longrightarrow> got + length (concat bss) < n \<Longrightarrow>
   recv_loop (map Got bss) buf n got = Inl No_Fuel"
proof (induction bss arbitrary: buf got)
  case Nil
  then show ?case by (simp add: recv_loop.simps)
next
  case (Cons bs bss)
  then have "recv_loop (map Got bss) (blit buf got bs) n (got + length bs) = Inl No_Fuel"
    by (intro Cons.IH) auto
  with Cons.prems show ?case by (simp add: recv_loop.simps [of "Got bs # _"] wrap64_id)
qed

section \<open>Properties\<close>

text \<open>C19: A buffer arrives as it was sent, however the network cuts it into pieces: when every
  \<open>send\<close> accepts and every \<open>recv\<close> delivers at least one byte, \<open>oob_send_s\<close> and \<open>oob_receive_s\<close> return
  the length, and the receiver's buffer starts with the bytes sent and is unchanged behind them.\<close>

theorem socket_round_trip:
  assumes "n \<le> length buf" and "n \<le> length dst" and "n < 2 ^ 31"
    and "\<forall>k \<in> set ks. 0 < k" and "sum_list ks = n"
    and "\<forall>bs \<in> set bss. bs \<noteq> []" and "concat bss = take n buf"
  shows "oob_send_s (map int ks @ rets) (Some buf) n = Inr (int n, take n buf) \<and>
    oob_receive_s (map Got bss @ rs) (Some dst) n = Inr (int n, Some (take n buf @ drop n dst), rs)"
proof -
  have "length (concat bss) = n" using assms(1,7) by simp
  then show ?thesis
    using send_loop_pieces [of n buf ks 0 rets "[]"] recv_loop_pieces [of n dst bss 0 rs] assms
    by (simp add: oob_send_s_def oob_receive_s_def as_int_id blit_def)
qed

theorem socket_round_trip_witness:
  "oob_send_s [1, 2] (Some [10, 11, 12, 13]) 3 = Inr (3, [10, 11, 12]) \<and>
   oob_receive_s [Got [10, 11], Got [12], Got [77]] (Some [0, 0, 0, 0]) 3 = Inr (3, Some [10, 11, 12, 0], [Got [77]])"
  using socket_round_trip [of 3 "[10, 11, 12, 13]" "[0, 0, 0, 0]" "[1, 2]" "[[10, 11], [12]]" "[]" "[Got [77]]"]
  by simp

text \<open>An error of \<open>send\<close> is not noticed: the -1 is added to the counter, so the byte sent last goes
  out a second time, everything behind it arrives one place too late, and the length is returned
  as if nothing had happened.\<close>

lemma send_error_resends:
  assumes "0 < k" and "k < n" and "n \<le> length buf" and "n < 2 ^ 31"
  shows "oob_send_s (int k # -1 # int (n - k + 1) # rets) (Some buf) n =
    Inr (int n, take k buf @ drop (k - 1) (take n buf))"
proof -
  have w: "wrap64 (k + size_max) = k - 1" using assms
    by (simp add: wrap64_def size_max_def mod_if le_mod_geq)
  have "send_loop (int k # -1 # int (n - k + 1) # rets) buf n 0 [] =
      send_loop (-1 # int (n - k + 1) # rets) buf n k (take k buf)"
    using assms by (simp add: send_loop.simps [of "int k # _"] wrap64_id blk_def min_def)
  also have "\<dots> = send_loop (int (n - k + 1) # rets) buf n (k - 1) (take k buf)"
    using assms w by (simp add: send_loop.simps [of "-1 # _"])
  also have "\<dots> = Inr (n, take k buf @ drop (k - 1) (take n buf))"
    using send_loop_pieces [of n buf "[n - k + 1]" "k - 1" rets "take k buf"] assms by simp
  finally show ?thesis using assms by (simp add: oob_send_s_def as_int_id)
qed

text \<open>A peer that closes the connection too early hangs the receiver: at the end of the stream
  \<open>recv\<close> returns 0, the counter does not move, and the loop never ends.\<close>

lemma receive_hangs_at_eof:
  assumes "length (concat bss) < n" and "n \<le> length dst" and "n < 2 ^ 64"
  shows "\<forall>j. oob_receive_s (map Got (bss @ replicate j [])) (Some dst) n = Inl No_Fuel"
proof
  fix j
  have "concat (bss @ replicate j []) = concat bss" by (induction j) (simp_all add: replicate_append_same [symmetric])
  then show "oob_receive_s (map Got (bss @ replicate j [])) (Some dst) n = Inl No_Fuel"
    using recv_loop_starved [of n dst 0 "bss @ replicate j []"] assms by (simp add: oob_receive_s_def)
qed

end
