(* ===== verification/MtCopy.thy ===== *)
theory MtCopy
  imports RuntimeCopy CrRestore Oob
begin

text \<open>
  Transfers with several threads (\<open>cpu/mt-memcpy.c\<close>): the client cuts the buffer into one piece
  per thread, every thread sends the number of its piece and the piece over a connection of its
  own, and a thread of the server per connection puts the piece into the server's buffer and
  copies it to the device. Connections are accepted in any order and the threads of the server
  run interleaved; a thread that is not created yet is one that has not made a step.
\<close>

section \<open>The pieces\<close>

text \<open>Offset and length of a piece; \<open>thread_num\<close> is an \<open>int\<close>, the number of the piece a \<open>uint32_t\<close>.\<close>

definition mem_part :: "nat \<Rightarrow> int \<Rightarrow> nat \<Rightarrow> (nat \<times> nat) res" where
  "mem_part sz threads tid =
     (let n = nat (threads mod 2 ^ 64) in
      if n = 0 then Inl Div_By_Zero
      else let per = sz div n; off = wrap64 (tid * per) in
        Inr (off, if int tid = (threads - 1) mod 2 ^ 32 then wrap64 (sz + (2 ^ 64 - off)) else per))"

section \<open>The client\<close>

text \<open>The two results of \<open>oob_send_s\<close> are compared as \<open>size_t\<close>. The result has the bytes sent.\<close>

definition as_size :: "int \<Rightarrow> nat" where
  "as_size r = nat (r mod 2 ^ 64)"

definition mt_client_htod :: "int list \<Rightarrow> int list \<Rightarrow> u8 list \<Rightarrow> int \<Rightarrow> nat \<Rightarrow> (int \<times> u8 list) res" where
  "mt_client_htod rets rets' host threads tid =
     bind_r (mem_part (length host) threads tid) (\<lambda>(off, l).
     bind_r (oob_send_s rets (Some (le_bytes 4 tid)) 4) (\<lambda>(r, wire).
       if as_size r \<noteq> 4 then Inr (1, wire)
       else bind_r (oob_send_s rets' (Some (drop off host)) l) (\<lambda>(r, wire').
         Inr (if as_size r \<noteq> l then 1 else 0, wire @ wire'))))"

section \<open>The threads of the server\<close>

text \<open>
  How far a thread of \<open>mt_memcpy_copy_thread\<close> has come, with what its connection will deliver:
  it has received nothing, the number of its piece, the piece, or it has copied it to the device.
\<close>

datatype copy_stage =
    Accepted "recv_result list"
  | Named nat "recv_result list"
  | Filled nat
  | Copied
  | Failed

fun htod_step ::
  "'d env \<Rightarrow> mt_memcpy_server \<Rightarrow> copy_stage \<Rightarrow> u8 list \<Rightarrow> 'd server \<Rightarrow> (copy_stage \<times> u8 list \<times> 'd server) res" where
  "htod_step E srv (Accepted rs) mem s =
     bind_r (oob_receive_s rs (Some (replicate 4 (fresh_byte E))) 4) (\<lambda>(r, b, rs).
       Inr (if as_size r \<noteq> 4 then Failed else Named (le_val (the b)) rs, mem, s))"
| "htod_step E srv (Named tid rs) mem s =
     bind_r (mem_part (mt_mem_size srv) (mt_thread_num srv) tid) (\<lambda>(off, l).
     bind_r (oob_receive_s rs (Some (drop off mem)) l) (\<lambda>(r, b, rs).
       Inr (if as_size r \<noteq> l then Failed else Filled tid, take off mem @ the b, s)))"
| "htod_step E srv (Filled tid) mem s =
     bind_r (mem_part (mt_mem_size srv) (mt_thread_num srv) tid) (\<lambda>(off, l).
       if length mem < off + l then Inl Out_Of_Bounds
       else bind_r (resource_mg_get (rm_memory s) (mt_dev_ptr srv)) (\<lambda>p.
         bind_r (cuda_call E ''cudaMemcpy'' [Word64 (p + of_nat off), Bytes (blk off l mem), Word64 (of_nat l), Int32 1] s)
           (\<lambda>(_, s). Inr (Copied, mem, s))))"
| "htod_step E srv Copied mem s = Inr (Copied, mem, s)"
| "htod_step E srv Failed mem s = Inr (Failed, mem, s)"

record 'd mt_run =
  mt_stages :: "copy_stage list"
  mt_mem :: "u8 list"
  mt_state :: "'d server"

text \<open>One step of one thread that has not ended.\<close>

inductive mt_step :: "'d env \<Rightarrow> mt_memcpy_server \<Rightarrow> 'd mt_run \<Rightarrow> 'd mt_run \<Rightarrow> bool" for E srv where
  mt_thread: "i < length (mt_stages r) \<Longrightarrow> mt_stages r ! i \<notin> {Copied, Failed} \<Longrightarrow>
    htod_step E srv (mt_stages r ! i) (mt_mem r) (mt_state r) = Inr (st, mem, s) \<Longrightarrow>
    mt_step E srv r \<lparr>mt_stages = (mt_stages r)[i := st], mt_mem = mem, mt_state = s\<rparr>"

inductive_cases mt_stepE: "mt_step E srv r r'"

section \<open>The pieces partition the buffer\<close>

definition piece_off :: "nat \<Rightarrow> nat \<Rightarrow> nat \<Rightarrow> nat" where
  "piece_off sz n tid = tid * (sz div n)"

definition piece_len :: "nat \<Rightarrow> nat \<Rightarrow> nat \<Rightarrow> nat" where
  "piece_len sz n tid = (if tid = n - 1 then sz - tid * (sz div n) else sz div n)"

text \<open>Sizes for which no integer of the code overflows.\<close>

definition mt_fits :: "nat \<Rightarrow> nat \<Rightarrow> bool" where
  "mt_fits sz n \<longleftrightarrow> 0 < n \<and> sz < 2 ^ 63 \<and> sz div n + n < 2 ^ 31"

lemma piece_inside: "tid < n \<Longrightarrow> piece_off sz n tid + piece_len sz n tid \<le> sz"
proof -
  assume t: "tid < n"
  have "Suc tid * (sz div n) \<le> n * (sz div n)" using t by (intro mult_le_mono1) simp
  also have "\<dots> \<le> sz" by simp
  finally show ?thesis by (auto simp: piece_off_def piece_len_def)
qed

lemma piece_disjoint:
  assumes "t < n" and "u < n" and "t \<noteq> u"
  shows "piece_off sz n t + piece_len sz n t \<le> piece_off sz n u \<or> piece_off sz n u + piece_len sz n u \<le> piece_off sz n t"
proof -
  have "piece_off sz n t + piece_len sz n t \<le> piece_off sz n u" if "t < u" "u < n" for t u
  proof -
    have "t \<noteq> n - 1" using that by linarith
    then have "piece_len sz n t = sz div n" by (simp add: piece_len_def)
    moreover have "Suc t * (sz div n) \<le> u * (sz div n)" using that by (intro mult_le_mono1) simp
    ultimately show ?thesis by (simp add: piece_off_def)
  qed
  with assms show ?thesis by (metis linorder_neqE_nat)
qed

lemma piece_cover:
  assumes "x < sz" and "0 < n"
  obtains t where "t < n" and "piece_off sz n t \<le> x" and "x < piece_off sz n t + piece_len sz n t"
proof (cases "x < (n - 1) * (sz div n)")
  case True
  then have per: "0 < sz div n" by (cases "sz div n = 0") auto
  let ?t = "x div (sz div n)"
  have t: "?t < n - 1" using True by (simp add: less_mult_imp_div_less)
  have "?t * (sz div n) + x mod (sz div n) = x" "x mod (sz div n) < sz div n"
    using per by (simp_all only: div_mult_mod_eq mod_less_divisor)
  then have "?t * (sz div n) \<le> x" "x < ?t * (sz div n) + sz div n" by linarith+
  with t show thesis by (intro that [of ?t]) (auto simp: piece_off_def piece_len_def)
next
  case False
  with assms show thesis by (intro that [of "n - 1"]) (auto simp: piece_off_def piece_len_def)
qed

lemma piece_small: "mt_fits sz n \<Longrightarrow> tid < n \<Longrightarrow> piece_len sz n tid < 2 ^ 31"
proof -
  assume f: "mt_fits sz n" "tid < n"
  have "sz = (n - 1) * (sz div n) + (sz div n + sz mod n)"
    using f(2) by (metis Suc_diff_1 add.assoc add.commute div_mult_mod_eq gr_implies_not0 mult.commute mult_Suc not_gr_zero)
  moreover have "sz mod n < n" using f(2) by simp
  ultimately have "sz - (n - 1) * (sz div n) < sz div n + n" by linarith
  with f show ?thesis by (auto simp: piece_len_def mt_fits_def)
qed

lemma mem_part_piece:
  assumes "mt_fits sz n" and "tid < n"
  shows "mem_part sz (int n) tid = Inr (piece_off sz n tid, piece_len sz n tid)"
proof -
  have n: "n < 2 ^ 31" "nat (int n mod 2 ^ 64) = n" using assms by (simp_all add: mt_fits_def nat_mod_distrib)
  have off: "piece_off sz n tid \<le> sz" "sz < 2 ^ 63" using piece_inside [OF assms(2), of sz] assms(1) by (simp_all add: mt_fits_def)
  have w: "wrap64 (tid * (sz div n)) = piece_off sz n tid"
    using off by (simp add: piece_off_def wrap64_id)
  have "wrap64 (sz + (2 ^ 64 - piece_off sz n tid)) = sz - piece_off sz n tid"
  proof -
    have "sz + (2 ^ 64 - piece_off sz n tid) = (sz - piece_off sz n tid) + 2 ^ 64" using off by simp
    moreover have "wrap64 (a + 2 ^ 64) = a" if "a < 2 ^ 64" for a using that by (simp add: wrap64_def)
    moreover have "sz - piece_off sz n tid < 2 ^ 64" using off(2) by (simp add: less_imp_diff_less)
    ultimately show ?thesis by (simp only:)
  qed
  moreover have "int tid = (int n - 1) mod 2 ^ 32 \<longleftrightarrow> tid = n - 1" using assms n(1) by (auto simp: zmod_trivial_iff)
  ultimately show ?thesis
    using n(2) assms w by (auto simp: mem_part_def Let_def piece_len_def piece_off_def mt_fits_def)
qed

section \<open>One step of a thread\<close>

text \<open>
  \<open>carries rs bs\<close>: the connection delivers the bytes \<open>bs\<close>, cut into pieces. \<open>byte_device\<close>: what
  the code relies on in \<open>cudaMemcpy\<close>; \<open>bytes d\<close> is the memory of the device.
\<close>

definition carries :: "recv_result list \<Rightarrow> u8 list \<Rightarrow> recv_result list \<Rightarrow> bool" where
  "carries rs bs rest \<longleftrightarrow> (\<exists>bss. rs = map Got bss @ rest \<and> (\<forall>b \<in> set bss. b \<noteq> []) \<and> concat bss = bs)"

definition byte_device :: "'d env \<Rightarrow> ('d \<Rightarrow> u64 \<Rightarrow> u8) \<Rightarrow> bool" where
  "byte_device E bytes \<longleftrightarrow> (\<forall>d p bs. \<exists>outs d'.
     cuda E ''cudaMemcpy'' [Word64 p, Bytes bs, Word64 (of_nat (length bs)), Int32 1] d = (0, outs, d') \<and>
     (\<forall>q. bytes d' q = (if unat (q - p) < length bs then bs ! unat (q - p) else bytes d q)))"

lemma receive_carried:
  assumes "carries rs bs rest" and "length bs \<le> length buf" and "length bs < 2 ^ 31"
  shows "oob_receive_s rs (Some buf) (length bs) = Inr (int (length bs), Some (bs @ drop (length bs) buf), rest)"
proof -
  obtain bss where "rs = map Got bss @ rest" "\<forall>b \<in> set bss. b \<noteq> []" "concat bss = bs"
    using assms(1) by (auto simp: carries_def)
  then show ?thesis
    using recv_loop_pieces [of "length bs" buf bss 0 rest] assms(2,3)
    by (simp add: oob_receive_s_def as_int_id blit_def)
qed

lemma as_size_int: "n < 2 ^ 64 \<Longrightarrow> as_size (int n) = n"
  by (simp add: as_size_def nat_mod_distrib)

lemma step_accepted:
  assumes "carries rs (le_bytes 4 tid) rest" and "tid < 2 ^ 32"
  shows "htod_step E srv (Accepted rs) mem s = Inr (Named tid rest, mem, s)"
proof -
  have "oob_receive_s rs (Some (replicate 4 (fresh_byte E))) 4 = Inr (4, Some (le_bytes 4 tid), rest)"
    using receive_carried [OF assms(1), of "replicate 4 (fresh_byte E)"] by simp
  then show ?thesis using assms(2) as_size_int [of 4] by (simp add: le_val_le_bytes)
qed

lemma step_named:
  assumes "mt_fits (mt_mem_size srv) n" and "mt_thread_num srv = int n" and "tid < n"
    and "length mem = mt_mem_size srv" and "carries rs bs rest" and "length bs = piece_len (mt_mem_size srv) n tid"
  shows "htod_step E srv (Named tid rs) mem s = Inr (Filled tid, blit mem (piece_off (mt_mem_size srv) n tid) bs, s)"
proof -
  let ?off = "piece_off (mt_mem_size srv) n tid"
  have len: "length bs < 2 ^ 31" "?off + length bs \<le> length mem"
    using piece_small [OF assms(1,3)] piece_inside [OF assms(3), of "mt_mem_size srv"] assms(4,6) by simp_all
  have rc: "oob_receive_s rs (Some (drop ?off mem)) (length bs) =
      Inr (int (length bs), Some (bs @ drop (length bs) (drop ?off mem)), rest)"
    using len by (intro receive_carried [OF assms(5)]) simp_all
  have sz: "as_size (int (length bs)) = length bs" using len by (intro as_size_int) simp
  show ?thesis
    using rc sz mem_part_piece [OF assms(1,3)] assms(2,6)
    by (simp add: blit_def add.commute)
qed

text \<open>Addresses on the device: \<open>x\<close> bytes behind \<open>p\<close>, seen from a write at \<open>p + off\<close>.\<close>

lemma unat_small: "n < 2 ^ 64 \<Longrightarrow> unat (of_nat n :: u64) = n"
  by (simp add: unat_of_nat take_bit_nat_eq_self)

lemma address_diff:
  assumes "x \<le> 2 ^ 63" and "off \<le> 2 ^ 63"
  shows "unat ((p + of_nat x) - (p + of_nat off) :: u64) = (if off \<le> x then x - off else x + 2 ^ 64 - off)"
proof -
  have "x < 2 ^ 64" "off < 2 ^ 64" using assms by simp_all
  then have u: "unat (of_nat x :: u64) = x" "unat (of_nat off :: u64) = off" by (simp_all only: unat_small)
  have "unat (of_nat x - of_nat off :: u64) = (if off \<le> x then x - off else x + 2 ^ LENGTH(64) - off)"
    unfolding unat_sub_if' u ..
  then show ?thesis by simp
qed

lemma address_inside: "off \<le> x \<Longrightarrow> x < 2 ^ 63 \<Longrightarrow> unat ((p + of_nat x) - (p + of_nat off) :: u64) = x - off"
  using address_diff [of x off p] by simp

lemma address_before: "x < off \<Longrightarrow> off \<le> 2 ^ 63 \<Longrightarrow> l \<le> 2 ^ 63 \<Longrightarrow> \<not> unat ((p + of_nat x) - (p + of_nat off) :: u64) < l"
  using address_diff [of x off p] by simp

definition on_device :: "('d \<Rightarrow> u64 \<Rightarrow> u8) \<Rightarrow> 'd \<Rightarrow> u64 \<Rightarrow> nat \<Rightarrow> u8 list \<Rightarrow> bool" where
  "on_device bytes d p off bs \<longleftrightarrow> (\<forall>j < length bs. bytes d (p + of_nat (off + j)) = bs ! j)"

lemma device_copy:
  assumes "byte_device E bytes" and "off + length bs \<le> 2 ^ 63"
  obtains outs d' where
    "cuda E ''cudaMemcpy'' [Word64 (p + of_nat off), Bytes bs, Word64 (of_nat (length bs)), Int32 1] d = (0, outs, d')"
    and "on_device bytes d' p off bs"
    and "\<And>off' cs. on_device bytes d p off' cs \<Longrightarrow> off' + length cs \<le> 2 ^ 63 \<Longrightarrow>
      off' + length cs \<le> off \<or> off + length bs \<le> off' \<Longrightarrow> on_device bytes d' p off' cs"
proof -
  obtain outs d' where c:
    "cuda E ''cudaMemcpy'' [Word64 (p + of_nat off), Bytes bs, Word64 (of_nat (length bs)), Int32 1] d = (0, outs, d')"
    "\<And>q. bytes d' q = (if unat (q - (p + of_nat off)) < length bs then bs ! unat (q - (p + of_nat off)) else bytes d q)"
    using assms(1) unfolding byte_device_def by blast
  have "bytes d' (p + of_nat (off + j)) = bs ! j" if "j < length bs" for j
    using address_inside [of off "off + j" p] that assms(2) c(2) by simp
  then have new: "on_device bytes d' p off bs" unfolding on_device_def by blast
  have "on_device bytes d' p off' cs"
    if old: "on_device bytes d p off' cs" "off' + length cs \<le> 2 ^ 63" "off' + length cs \<le> off \<or> off + length bs \<le> off'"
    for off' cs
    unfolding on_device_def
  proof (intro allI impI)
    fix j assume j: "j < length cs"
    have "\<not> unat ((p + of_nat (off' + j)) - (p + of_nat off)) < length bs"
      using address_inside [of off "off' + j" p] address_before [of "off' + j" off "length bs" p] old(2,3) j assms(2)
      by (cases "off \<le> off' + j") auto
    then show "bytes d' (p + of_nat (off' + j)) = cs ! j"
      using c(2) old(1) j by (simp add: on_device_def)
  qed
  with c(1) new show thesis by (rule that)
qed

lemma step_filled:
  assumes "byte_device E bytes" and "mt_fits (mt_mem_size srv) n" and "mt_thread_num srv = int n" and "tid < n"
    and "length mem = mt_mem_size srv" and "resource_mg_get (rm_memory s) (mt_dev_ptr srv) = Inr p"
  obtains d' where "htod_step E srv (Filled tid) mem s = Inr (Copied, mem, s\<lparr>gpu := d'\<rparr>)"
    and "on_device bytes d' p (piece_off (mt_mem_size srv) n tid)
      (blk (piece_off (mt_mem_size srv) n tid) (piece_len (mt_mem_size srv) n tid) mem)"
    and "\<And>u bs. on_device bytes (gpu s) p (piece_off (mt_mem_size srv) n u) bs \<Longrightarrow>
      length bs = piece_len (mt_mem_size srv) n u \<Longrightarrow> u < n \<Longrightarrow> u \<noteq> tid \<Longrightarrow>
      on_device bytes d' p (piece_off (mt_mem_size srv) n u) bs"
proof -
  let ?sz = "mt_mem_size srv"
  let ?off = "piece_off ?sz n tid" and ?l = "piece_len ?sz n tid"
  have in_sz: "piece_off ?sz n u + piece_len ?sz n u \<le> ?sz" if "u < n" for u using that by (rule piece_inside)
  have sz: "?sz < 2 ^ 63" using assms(2) by (simp add: mt_fits_def)
  have len: "length (blk ?off ?l mem) = ?l" using in_sz [OF assms(4)] assms(5) by simp
  have "?off + length (blk ?off ?l mem) \<le> 2 ^ 63" unfolding len using in_sz [OF assms(4)] sz by simp
  then obtain outs d' where d': "cuda E ''cudaMemcpy'' [Word64 (p + of_nat ?off), Bytes (blk ?off ?l mem),
        Word64 (of_nat (length (blk ?off ?l mem))), Int32 1] (gpu s) = (0, outs, d')"
    and new: "on_device bytes d' p ?off (blk ?off ?l mem)"
    and old: "\<And>off' cs. on_device bytes (gpu s) p off' cs \<Longrightarrow> off' + length cs \<le> 2 ^ 63 \<Longrightarrow>
      off' + length cs \<le> ?off \<or> ?off + length (blk ?off ?l mem) \<le> off' \<Longrightarrow> on_device bytes d' p off' cs"
    by (rule device_copy [OF assms(1), of ?off "blk ?off ?l mem" p "gpu s"]) blast
  have "htod_step E srv (Filled tid) mem s = Inr (Copied, mem, s\<lparr>gpu := d'\<rparr>)"
    using d' [unfolded len] mem_part_piece [OF assms(2,4)] assms(3,5,6) in_sz [OF assms(4)]
    by (simp add: cuda_call_def)
  moreover have "on_device bytes d' p (piece_off ?sz n u) bs"
    if "on_device bytes (gpu s) p (piece_off ?sz n u) bs" "length bs = piece_len ?sz n u" "u < n" "u \<noteq> tid" for u bs
    using old [OF that(1)] piece_disjoint [OF that(3) assms(4) that(4), of ?sz] in_sz [OF that(3)] sz that(2) len by simp
  ultimately show thesis using new by (intro that)
qed

section \<open>Runs\<close>

definition piece :: "u8 list \<Rightarrow> nat \<Rightarrow> nat \<Rightarrow> u8 list" where
  "piece host n tid = blk (piece_off (length host) n tid) (piece_len (length host) n tid) host"

lemma length_piece: "tid < n \<Longrightarrow> length (piece host n tid) = piece_len (length host) n tid"
  using piece_inside [of tid n "length host"] by (simp add: piece_def)

text \<open>What holds of a thread that serves the piece \<open>tid\<close> at each of its stages.\<close>

fun stage_ok ::
  "('d \<Rightarrow> u64 \<Rightarrow> u8) \<Rightarrow> u64 \<Rightarrow> u8 list \<Rightarrow> nat \<Rightarrow> nat \<Rightarrow> u8 list \<Rightarrow> 'd \<Rightarrow> copy_stage \<Rightarrow> bool" where
  "stage_ok bytes p host n tid mem d (Accepted rs) \<longleftrightarrow>
     (\<exists>rest rest'. carries rs (le_bytes 4 tid) rest \<and> carries rest (piece host n tid) rest')"
| "stage_ok bytes p host n tid mem d (Named t rs) \<longleftrightarrow> t = tid \<and> (\<exists>rest. carries rs (piece host n tid) rest)"
| "stage_ok bytes p host n tid mem d (Filled t) \<longleftrightarrow>
     t = tid \<and> blk (piece_off (length host) n tid) (piece_len (length host) n tid) mem = piece host n tid"
| "stage_ok bytes p host n tid mem d Copied \<longleftrightarrow>
     blk (piece_off (length host) n tid) (piece_len (length host) n tid) mem = piece host n tid \<and>
     on_device bytes d p (piece_off (length host) n tid) (piece host n tid)"
| "stage_ok bytes p host n tid mem d Failed \<longleftrightarrow> False"

definition mt_inv ::
  "('d \<Rightarrow> u64 \<Rightarrow> u8) \<Rightarrow> mt_memcpy_server \<Rightarrow> u64 \<Rightarrow> u8 list \<Rightarrow> nat list \<Rightarrow> 'd mt_run \<Rightarrow> bool" where
  "mt_inv bytes srv p host order r \<longleftrightarrow>
     length (mt_stages r) = length order \<and> length (mt_mem r) = length host \<and>
     resource_mg_get (rm_memory (mt_state r)) (mt_dev_ptr srv) = Inr p \<and>
     (\<forall>i < length order.
        stage_ok bytes p host (length order) (order ! i) (mt_mem r) (gpu (mt_state r)) (mt_stages r ! i))"

text \<open>\<open>mt_setting\<close>: the transfer of the server fits the buffer, and every piece has one connection.\<close>

definition mt_setting :: "'d env \<Rightarrow> ('d \<Rightarrow> u64 \<Rightarrow> u8) \<Rightarrow> mt_memcpy_server \<Rightarrow> u8 list \<Rightarrow> nat list \<Rightarrow> bool" where
  "mt_setting E bytes srv host order \<longleftrightarrow> byte_device E bytes \<and> mt_fits (length host) (length order) \<and>
     mt_mem_size srv = length host \<and> mt_thread_num srv = int (length order) \<and>
     distinct order \<and> set order = {..<length order}"

lemma mt_settingD:
  assumes "mt_setting E bytes srv host order"
  shows "byte_device E bytes" and "mt_fits (mt_mem_size srv) (length order)"
    and "mt_thread_num srv = int (length order)" and "mt_mem_size srv = length host"
    and "i < length order \<Longrightarrow> order ! i < length order"
    and "i < length order \<Longrightarrow> j < length order \<Longrightarrow> i \<noteq> j \<Longrightarrow> order ! i \<noteq> order ! j"
  using assms nth_mem [of i order] by (auto simp: mt_setting_def nth_eq_iff_index_eq)

text \<open>Only the piece a thread serves is touched by its steps.\<close>

lemma stage_ok_blit:
  assumes "stage_ok bytes p host n u mem d st" and "u \<noteq> tid" and "u < n" and "tid < n"
    and "length mem = length host" and "length bs = piece_len (length host) n tid"
  shows "stage_ok bytes p host n u (blit mem (piece_off (length host) n tid) bs) d st"
proof -
  have "blk (piece_off (length host) n u) (piece_len (length host) n u) (blit mem (piece_off (length host) n tid) bs) =
      blk (piece_off (length host) n u) (piece_len (length host) n u) mem"
    using piece_disjoint [OF assms(3,4,2), of "length host"] piece_inside [OF assms(4), of "length host"] assms(5,6)
    by (intro blk_blit_disjoint) auto
  with assms(1) show ?thesis by (cases st) auto
qed

lemma stage_ok_device:
  assumes "stage_ok bytes p host n u mem d st" and "u < n"
    and "on_device bytes d p (piece_off (length host) n u) (piece host n u) \<Longrightarrow>
      on_device bytes d' p (piece_off (length host) n u) (piece host n u)"
  shows "stage_ok bytes p host n u mem d' st"
  using assms by (cases st) auto

fun stage_rank :: "copy_stage \<Rightarrow> nat" where
  "stage_rank (Accepted rs) = 3"
| "stage_rank (Named t rs) = 2"
| "stage_rank (Filled t) = 1"
| "stage_rank Copied = 0"
| "stage_rank Failed = 0"

text \<open>A step of the thread of connection \<open>i\<close> keeps the invariant and brings the thread one stage on.\<close>

lemma mt_inv_step:
  assumes set: "mt_setting E bytes srv host order" and inv: "mt_inv bytes srv p host order r"
    and i: "i < length order"
    and st: "stage_ok bytes p host (length order) (order ! i) mem (gpu s) st"
    and mem: "length mem = length host" and get: "resource_mg_get (rm_memory s) (mt_dev_ptr srv) = Inr p"
    and others: "\<And>j. j < length order \<Longrightarrow> j \<noteq> i \<Longrightarrow>
      stage_ok bytes p host (length order) (order ! j) mem (gpu s) (mt_stages r ! j)"
  shows "mt_inv bytes srv p host order \<lparr>mt_stages = (mt_stages r)[i := st], mt_mem = mem, mt_state = s\<rparr>"
  using inv st mem get others i by (auto simp: mt_inv_def nth_list_update)

lemma mt_thread_steps:
  assumes set: "mt_setting E bytes srv host order" and inv: "mt_inv bytes srv p host order r"
    and i: "i < length order" and run: "mt_stages r ! i \<notin> {Copied, Failed}"
  obtains st mem s where "htod_step E srv (mt_stages r ! i) (mt_mem r) (mt_state r) = Inr (st, mem, s)"
    and "mt_inv bytes srv p host order \<lparr>mt_stages = (mt_stages r)[i := st], mt_mem = mem, mt_state = s\<rparr>"
    and "stage_rank (mt_stages r ! i) = Suc (stage_rank st)"
proof -
  let ?n = "length order" and ?t = "order ! i"
  note D = mt_settingD [OF set]
  have ok: "stage_ok bytes p host ?n (order ! j) (mt_mem r) (gpu (mt_state r)) (mt_stages r ! j)" if "j < ?n" for j
    using inv that by (simp add: mt_inv_def)
  have mem: "length (mt_mem r) = length host" "length (mt_mem r) = mt_mem_size srv"
    and get: "resource_mg_get (rm_memory (mt_state r)) (mt_dev_ptr srv) = Inr p"
    using inv D(4) by (simp_all add: mt_inv_def)
  have t: "?t < ?n" using D(5) [OF i] .
  have step: "mt_inv bytes srv p host order \<lparr>mt_stages = (mt_stages r)[i := st], mt_mem = m, mt_state = s\<rparr>"
    if "stage_ok bytes p host ?n ?t m (gpu s) st" "length m = length host" "resource_mg_get (rm_memory s) (mt_dev_ptr srv) = Inr p"
      "\<And>j. j < ?n \<Longrightarrow> j \<noteq> i \<Longrightarrow> stage_ok bytes p host ?n (order ! j) m (gpu s) (mt_stages r ! j)" for st m s
    using that by (intro mt_inv_step [OF set inv i])
  show thesis
  proof (cases "mt_stages r ! i")
    case (Accepted rs)
    then obtain rest rest' where c: "carries rs (le_bytes 4 ?t) rest" "carries rest (piece host ?n ?t) rest'"
      using ok [OF i] by auto
    have "?n < 2 ^ 32" using D(2) by (simp add: mt_fits_def)
    with t have small: "?t < 2 ^ 32" by (rule less_trans)
    have run: "htod_step E srv (Accepted rs) (mt_mem r) (mt_state r) = Inr (Named ?t rest, mt_mem r, mt_state r)"
      by (rule step_accepted [OF c(1) small])
    show thesis by (rule that [of "Named ?t rest" "mt_mem r" "mt_state r"])
      (use Accepted run c(2) ok mem get in \<open>auto intro!: step\<close>)
  next
    case (Named tid rs)
    then obtain rest where c: "tid = ?t" "carries rs (piece host ?n ?t) rest" using ok [OF i] by auto
    have len: "length (piece host ?n ?t) = piece_len (mt_mem_size srv) ?n ?t" using length_piece [OF t] D(4) by simp
    let ?m = "blit (mt_mem r) (piece_off (length host) ?n ?t) (piece host ?n ?t)"
    have fit: "piece_off (length host) ?n ?t + length (piece host ?n ?t) \<le> length (mt_mem r)"
      using piece_inside [OF t, of "length host"] length_piece [OF t] mem(1) by simp
    have run: "htod_step E srv (Named tid rs) (mt_mem r) (mt_state r) = Inr (Filled ?t, ?m, mt_state r)"
      using step_named [OF D(2,3) t mem(2) c(2) len, of E "mt_state r"] c(1) D(4) by simp
    have "stage_ok bytes p host ?n (order ! j) ?m (gpu (mt_state r)) (mt_stages r ! j)" if "j < ?n" "j \<noteq> i" for j
      using stage_ok_blit [OF ok [OF that(1)] _ D(5) [OF that(1)] t mem(1) length_piece [OF t]] D(6) [OF that(1) i that(2)] by simp
    moreover have "stage_ok bytes p host ?n ?t ?m (gpu (mt_state r)) (Filled ?t)"
      using blk_blit [OF fit] length_piece [OF t] by simp
    ultimately show thesis using Named run fit mem(1) get
      by (intro that [of "Filled ?t" ?m "mt_state r"]) (auto intro!: step)
  next
    case (Filled tid)
    then have c: "tid = ?t" "blk (piece_off (length host) ?n ?t) (piece_len (length host) ?n ?t) (mt_mem r) = piece host ?n ?t"
      using ok [OF i] by auto
    obtain d' where run: "htod_step E srv (Filled ?t) (mt_mem r) (mt_state r) = Inr (Copied, mt_mem r, (mt_state r)\<lparr>gpu := d'\<rparr>)"
      and new: "on_device bytes d' p (piece_off (length host) ?n ?t) (piece host ?n ?t)"
      and old: "\<And>u bs. on_device bytes (gpu (mt_state r)) p (piece_off (length host) ?n u) bs \<Longrightarrow>
        length bs = piece_len (length host) ?n u \<Longrightarrow> u < ?n \<Longrightarrow> u \<noteq> ?t \<Longrightarrow>
        on_device bytes d' p (piece_off (length host) ?n u) bs"
      using step_filled [OF D(1-3) t mem(2) get] c(2) unfolding D(4) by metis
    have "stage_ok bytes p host ?n (order ! j) (mt_mem r) d' (mt_stages r ! j)" if "j < ?n" "j \<noteq> i" for j
      using stage_ok_device [OF ok [OF that(1)] D(5) [OF that(1)]] old [OF _ length_piece [OF D(5) [OF that(1)]] D(5) [OF that(1)]]
        D(6) [OF that(1) i that(2)] by blast
    then show thesis using Filled run c new mem(1) get
      by (intro that [of Copied "mt_mem r" "(mt_state r)\<lparr>gpu := d'\<rparr>"]) (auto intro!: step)
  qed (use run in simp_all)
qed

text \<open>
  \<open>connected host n tid rs\<close>: the connection \<open>rs\<close> delivers, cut in any way, what the thread of the
  client sends that has the piece \<open>tid\<close>.
\<close>

definition connected :: "u8 list \<Rightarrow> nat \<Rightarrow> nat \<Rightarrow> recv_result list \<Rightarrow> bool" where
  "connected host n tid rs \<longleftrightarrow> (\<exists>ks ks' wire bss bss' rest.
     (\<forall>k \<in> set (ks @ ks'). 0 < k) \<and> sum_list ks = 4 \<and> sum_list ks' = piece_len (length host) n tid \<and>
     mt_client_htod (map int ks) (map int ks') host (int n) tid = Inr (0, wire) \<and>
     rs = map Got bss @ map Got bss' @ rest \<and> (\<forall>b \<in> set (bss @ bss'). b \<noteq> []) \<and>
     concat bss = take 4 wire \<and> concat bss' = drop 4 wire)"

lemma send_all:
  assumes "\<forall>k \<in> set ks. 0 < k" and "sum_list ks \<le> length buf" and "sum_list ks < 2 ^ 31"
  shows "oob_send_s (map int ks) (Some buf) (sum_list ks) = Inr (int (sum_list ks), take (sum_list ks) buf)"
  using send_loop_pieces [of "sum_list ks" buf ks 0 "[]" "[]"] assms by (simp add: oob_send_s_def as_int_id)

lemma mt_client_sends:
  assumes f: "mt_fits (length host) n" "tid < n" and ks: "\<forall>k \<in> set (ks @ ks'). 0 < k"
    and s: "sum_list ks = 4" "sum_list ks' = piece_len (length host) n tid"
  shows "mt_client_htod (map int ks) (map int ks') host (int n) tid = Inr (0, le_bytes 4 tid @ piece host n tid)"
proof -
  let ?off = "piece_off (length host) n tid" and ?l = "piece_len (length host) n tid"
  have l: "?l < 2 ^ 31" "?off + ?l \<le> length host" using piece_small [OF f] piece_inside [OF f(2)] by simp_all
  have "oob_send_s (map int ks) (Some (le_bytes 4 tid)) 4 = Inr (4, le_bytes 4 tid)"
    using send_all [of ks "le_bytes 4 tid"] ks s(1) by simp
  moreover have "oob_send_s (map int ks') (Some (drop ?off host)) ?l = Inr (int ?l, piece host n tid)"
    using send_all [of ks' "drop ?off host"] ks s(2) l by (simp add: piece_def blk_def)
  ultimately show ?thesis
    using mem_part_piece [OF f] as_size_int [of 4] as_size_int [of ?l] l(1) by (simp add: mt_client_htod_def)
qed

lemma connected_carries:
  assumes "mt_fits (length host) n" and "tid < n" and "connected host n tid rs"
  shows "\<exists>rest rest'. carries rs (le_bytes 4 tid) rest \<and> carries rest (piece host n tid) rest'"
proof -
  obtain ks ks' wire bss bss' rest where c: "\<forall>k \<in> set (ks @ ks'). 0 < k" "sum_list ks = 4"
    "sum_list ks' = piece_len (length host) n tid" "mt_client_htod (map int ks) (map int ks') host (int n) tid = Inr (0, wire)"
    "rs = map Got bss @ map Got bss' @ rest" "\<forall>b \<in> set (bss @ bss'). b \<noteq> []"
    "concat bss = take 4 wire" "concat bss' = drop 4 wire"
    using assms(3) unfolding connected_def by blast
  have "wire = le_bytes 4 tid @ piece host n tid" using mt_client_sends [OF assms(1,2) c(1-3)] c(4) by simp
  then have "carries rs (le_bytes 4 tid) (map Got bss' @ rest)" "carries (map Got bss' @ rest) (piece host n tid) rest"
    using c(5-8) unfolding carries_def by (intro exI [of _ bss] exI [of _ bss']; simp)+
  then show ?thesis by blast
qed

definition stages_left :: "'d mt_run \<Rightarrow> nat" where
  "stages_left r = sum_list (map stage_rank (mt_stages r))"

lemma mt_step_keeps:
  assumes "mt_setting E bytes srv host order" and "mt_inv bytes srv p host order r" and "mt_step E srv r r'"
  shows "mt_inv bytes srv p host order r' \<and> Suc (stages_left r') = stages_left r"
proof -
  obtain i st mem s where i: "i < length (mt_stages r)" "mt_stages r ! i \<notin> {Copied, Failed}"
    "htod_step E srv (mt_stages r ! i) (mt_mem r) (mt_state r) = Inr (st, mem, s)"
    "r' = \<lparr>mt_stages = (mt_stages r)[i := st], mt_mem = mem, mt_state = s\<rparr>"
    using assms(3) by (rule mt_stepE) blast
  have "i < length order" using i(1) assms(2) by (simp add: mt_inv_def)
  with i have "mt_inv bytes srv p host order r'" "stage_rank (mt_stages r ! i) = Suc (stage_rank st)"
    using mt_thread_steps [OF assms(1,2) _ i(2)] by fastforce+
  moreover have "sum_list (map stage_rank ((mt_stages r)[i := st])) + stage_rank (mt_stages r ! i) =
      stages_left r + stage_rank st"
    using i(1) sum_list_update [of i "map stage_rank (mt_stages r)" "stage_rank st"]
      elem_le_sum_list [of i "map stage_rank (mt_stages r)"]
    by (simp add: stages_left_def map_update)
  ultimately show ?thesis using i(4) by (simp add: stages_left_def)
qed

lemma mt_steps_keep:
  assumes "mt_setting E bytes srv host order" and "mt_inv bytes srv p host order r0"
  shows "(mt_step E srv ^^ k) r0 r \<Longrightarrow> mt_inv bytes srv p host order r \<and> k + stages_left r = stages_left r0"
proof (induction k arbitrary: r)
  case 0
  then show ?case using assms by simp
next
  case (Suc k)
  then obtain r1 where "(mt_step E srv ^^ k) r0 r1" "mt_step E srv r1 r" by auto
  with Suc.IH [of r1] mt_step_keeps [OF assms(1), of p r1 r] show ?case by auto
qed

lemma mt_inv_done:
  assumes "mt_setting E bytes srv host order" and "mt_inv bytes srv p host order r" and "stages_left r = 0"
  shows "mt_mem r = host \<and> (\<forall>x < length host. bytes (gpu (mt_state r)) (p + of_nat x) = host ! x)"
proof -
  let ?n = "length order"
  have ok: "stage_ok bytes p host ?n (order ! i) (mt_mem r) (gpu (mt_state r)) (mt_stages r ! i)" "mt_stages r ! i = Copied"
    if "i < ?n" for i
  proof -
    show st: "stage_ok bytes p host ?n (order ! i) (mt_mem r) (gpu (mt_state r)) (mt_stages r ! i)"
      using assms(2) that by (simp add: mt_inv_def)
    have "stage_rank (mt_stages r ! i) = 0"
      using assms(2,3) that by (simp add: stages_left_def mt_inv_def)
    with st show "mt_stages r ! i = Copied" by (cases "mt_stages r ! i") auto
  qed
  have n: "0 < ?n" using mt_settingD(2) [OF assms(1)] by (simp add: mt_fits_def)
  have len: "length (mt_mem r) = length host" using assms(2) by (simp add: mt_inv_def)
  have "mt_mem r ! x = host ! x \<and> bytes (gpu (mt_state r)) (p + of_nat x) = host ! x" if x: "x < length host" for x
  proof -
    obtain tid where t: "tid < ?n" "piece_off (length host) ?n tid \<le> x"
      "x < piece_off (length host) ?n tid + piece_len (length host) ?n tid"
      using piece_cover [OF x n] by blast
    then have "tid \<in> set order" using assms(1) by (simp add: mt_setting_def)
    then obtain i where i: "i < ?n" "order ! i = tid" by (auto simp: in_set_conv_nth)
    let ?o = "piece_off (length host) ?n tid" and ?l = "piece_len (length host) ?n tid"
    have b: "blk ?o ?l (mt_mem r) = blk ?o ?l host"
      and d: "on_device bytes (gpu (mt_state r)) p ?o (blk ?o ?l host)"
      using ok [OF i(1)] i(2) by (simp_all add: piece_def)
    have at: "blk ?o ?l ys ! (x - ?o) = ys ! x" if "length ys = length host" for ys :: "u8 list"
      using t(2,3) x that by (simp add: blk_def)
    have "mt_mem r ! x = host ! x" using at [OF len] at [of host] b by simp
    moreover have "x - ?o < length (blk ?o ?l host)"
      unfolding length_blk min_less_iff_conj using t(2,3) x by (intro conjI) linarith+
    then have "bytes (gpu (mt_state r)) (p + of_nat (?o + (x - ?o))) = blk ?o ?l host ! (x - ?o)"
      using d unfolding on_device_def by blast
    ultimately show ?thesis using at [of host] t(2) by simp
  qed
  with len show ?thesis by (auto intro: nth_equalityI)
qed

lemma mt_progress:
  assumes "mt_setting E bytes srv host order" and "mt_inv bytes srv p host order r" and "stages_left r \<noteq> 0"
  shows "\<exists>r'. mt_step E srv r r'"
proof -
  obtain st where "st \<in> set (mt_stages r)" "stage_rank st \<noteq> 0" using assms(3) by (auto simp: stages_left_def)
  then obtain i where i: "i < length (mt_stages r)" "mt_stages r ! i \<notin> {Copied, Failed}"
    by (metis in_set_conv_nth insert_iff singletonD stage_rank.simps(4,5))
  then have "i < length order" using assms(2) by (simp add: mt_inv_def)
  then obtain st m s where "htod_step E srv (mt_stages r ! i) (mt_mem r) (mt_state r) = Inr (st, m, s)"
    using mt_thread_steps [OF assms(1,2) _ i(2)] by blast
  with i show ?thesis by (blast intro: mt_thread)
qed

text \<open>The start of a transfer: all connections are accepted and nothing is received.\<close>

definition mt_start_run :: "recv_result list list \<Rightarrow> u8 list \<Rightarrow> 'd server \<Rightarrow> 'd mt_run" where
  "mt_start_run rss mem s = \<lparr>mt_stages = map Accepted rss, mt_mem = mem, mt_state = s\<rparr>"

lemma mt_start_inv:
  assumes "mt_setting E bytes srv host order" and "length rss = length order"
    and "\<forall>i < length order. connected host (length order) (order ! i) (rss ! i)"
    and "length mem = length host" and "resource_mg_get (rm_memory s) (mt_dev_ptr srv) = Inr p"
  shows "mt_inv bytes srv p host order (mt_start_run rss mem s) \<and>
    stages_left (mt_start_run rss mem s) = 3 * length order"
proof -
  note D = mt_settingD [OF assms(1)]
  have "mt_fits (length host) (length order)" using D(2,4) by simp
  then show ?thesis
    using assms(2-5) connected_carries D(5)
    by (simp add: mt_inv_def mt_start_run_def stages_left_def comp_def sum_list_triv)
qed

lemma mt_run_exists:
  assumes "mt_setting E bytes srv host order" and "mt_inv bytes srv p host order r0"
  shows "k \<le> stages_left r0 \<Longrightarrow> \<exists>r. (mt_step E srv ^^ k) r0 r"
proof (induction k)
  case (Suc k)
  then obtain r where r: "(mt_step E srv ^^ k) r0 r" by auto
  then have "mt_inv bytes srv p host order r" "stages_left r \<noteq> 0"
    using mt_steps_keep [OF assms r] Suc.prems by auto
  with mt_progress [OF assms(1)] r show ?case by (blast intro: relpowp_Suc_I)
qed auto

section \<open>Properties\<close>

text \<open>C12: A transfer with several threads delivers the buffer, whatever the order in which the
  connections are accepted, the sizes in which the network delivers, and the interleaving of the
  threads: no thread fails or leaves its buffer, some thread can go on until each has made three
  steps, and then the server's buffer and the memory of the device behind the translated pointer
  hold the client's bytes.\<close>

theorem mt_copy_delivers:
  assumes "mt_setting E bytes srv host order" and "length rss = length order"
    and "\<forall>i < length order. connected host (length order) (order ! i) (rss ! i)"
    and "length mem = length host" and "resource_mg_get (rm_memory s) (mt_dev_ptr srv) = Inr p"
    and "(mt_step E srv ^^ k) (mt_start_run rss mem s) r"
  shows "k \<le> 3 * length order \<and> (k < 3 * length order \<longrightarrow> (\<exists>r'. mt_step E srv r r')) \<and>
    (k = 3 * length order \<longrightarrow> mt_mem r = host \<and>
      (\<forall>x < length host. bytes (gpu (mt_state r)) (p + of_nat x) = host ! x))"
proof -
  have r: "mt_inv bytes srv p host order r" "k + stages_left r = 3 * length order"
    using mt_steps_keep [OF assms(1) _ assms(6), of p] mt_start_inv [OF assms(1-5)] by simp_all
  then show ?thesis using mt_progress [OF assms(1) r(1)] mt_inv_done [OF assms(1) r(1)] by auto
qed

text \<open>A device that is a memory, and a transfer of five bytes by two threads.\<close>

definition plain_env :: "(u64 \<Rightarrow> u8) env" where
  "plain_env = \<lparr>heap_ok = (\<lambda>n. n < 4096), fresh_record = fresh_record sample_env, fresh_byte = 165,
     fresh_word = 7, fresh_int = 99, cuda = (\<lambda>f args d. (0, [], case args of
       [Word64 p, Bytes bs, _, _] \<Rightarrow> (\<lambda>q. if unat (q - p) < length bs then bs ! unat (q - p) else d q) | _ \<Rightarrow> d))\<rparr>"

definition two_threads :: mt_memcpy_server where
  "two_threads = \<lparr>mt_dev_ptr = 4096, mt_mem_size = 5, mt_thread_num = 2, mt_port = 0, mt_dir = MT_MEMCPY_HTOD\<rparr>"

definition two_connections :: "recv_result list list" where
  "two_connections = [[Got [1, 0], Got [0, 0], Got [13, 14], Got [15]], [Got [0, 0, 0, 0], Got [11, 12]]]"

lemma le_bytes_4: "le_bytes 4 v = [of_nat (v mod 256), of_nat (v div 256 mod 256), of_nat (v div 256 div 256 mod 256),
    of_nat (v div 256 div 256 div 256 mod 256)]"
proof -
  have four: "(4 :: nat) = Suc (Suc (Suc (Suc 0)))" by simp
  show ?thesis unfolding four by simp
qed

lemma two_pieces:
  "piece [11, 12, 13, 14, 15] 2 0 = [11, 12]" "piece [11, 12, 13, 14, 15] 2 1 = [13, 14, 15]"
  "piece_len (length [11, 12, 13, 14, 15 :: u8]) 2 0 = 2" "piece_len (length [11, 12, 13, 14, 15 :: u8]) 2 1 = 3"
  by (simp_all add: piece_def piece_len_def piece_off_def blk_def)

lemma two_connected:
  "connected [11, 12, 13, 14, 15] 2 1 [Got [1, 0], Got [0, 0], Got [13, 14], Got [15]]"
  "connected [11, 12, 13, 14, 15] 2 0 [Got [0, 0, 0, 0], Got [11, 12]]"
proof -
  have f: "mt_fits (length [11, 12, 13, 14, 15 :: u8]) 2" by (simp add: mt_fits_def)
  have "mt_client_htod (map int [4]) (map int [3]) [11, 12, 13, 14, 15] (int 2) 1 = Inr (0, [1, 0, 0, 0, 13, 14, 15])"
    "mt_client_htod (map int [4]) (map int [2]) [11, 12, 13, 14, 15] (int 2) 0 = Inr (0, [0, 0, 0, 0, 11, 12])"
    using mt_client_sends [OF f, of 1 "[4]" "[3]"] mt_client_sends [OF f, of 0 "[4]" "[2]"]
    by (simp_all only: two_pieces le_bytes_4) simp_all
  then have sent: "mt_client_htod (map int [4]) (map int [3]) [11, 12, 13, 14, 15] (int 2) 1 = Inr (0, [1, 0, 0, 0, 13, 14, 15])"
    "mt_client_htod (map int [4]) (map int [2]) [11, 12, 13, 14, 15] (int 2) 0 = Inr (0, [0, 0, 0, 0, 11, 12])" .
  show "connected [11, 12, 13, 14, 15] 2 1 [Got [1, 0], Got [0, 0], Got [13, 14], Got [15]]"
    unfolding connected_def
    by (rule exI [of _ "[4]"], rule exI [of _ "[3]"], rule exI [of _ "[1, 0, 0, 0, 13, 14, 15]"],
        rule exI [of _ "[[1, 0], [0, 0]]"], rule exI [of _ "[[13, 14], [15]]"], rule exI [of _ "[]"])
      (use sent(1) two_pieces(4) in simp)
  show "connected [11, 12, 13, 14, 15] 2 0 [Got [0, 0, 0, 0], Got [11, 12]]"
    unfolding connected_def
    by (rule exI [of _ "[4]"], rule exI [of _ "[2]"], rule exI [of _ "[0, 0, 0, 0, 11, 12]"],
        rule exI [of _ "[[0, 0, 0, 0]]"], rule exI [of _ "[[11, 12]]"], rule exI [of _ "[]"])
      (use sent(2) two_pieces(3) in simp)
qed

theorem mt_copy_delivers_witness:
  "\<exists>r. (mt_step plain_env two_threads ^^ 6) (mt_start_run two_connections [0, 0, 0, 0, 0] (server_on (\<lambda>_. 0))) r \<and>
     mt_mem r = [11, 12, 13, 14, 15] \<and> gpu (mt_state r) 4100 = 15"
proof -
  let ?host = "[11, 12, 13, 14, 15 :: u8]" and ?s = "server_on (\<lambda>_. 0) :: (u64 \<Rightarrow> u8) server"
  have len: "length ?host = 5" "length [1, 0 :: nat] = 2" by simp_all
  have "byte_device plain_env (\<lambda>d. d)" by (simp add: byte_device_def plain_env_def)
  then have set: "mt_setting plain_env (\<lambda>d. d) two_threads ?host [1, 0]"
    unfolding mt_setting_def len by (auto simp: mt_fits_def two_threads_def)
  have "connected ?host 2 ([1, 0] ! i) (two_connections ! i)" if "i < 2" for i
    using that two_connected by (auto simp: two_connections_def less_2_cases_iff)
  then have conn: "\<forall>i < length [1, 0 :: nat]. connected ?host (length [1, 0 :: nat]) ([1, 0] ! i) (two_connections ! i)"
    unfolding len by blast
  have start: "length two_connections = length [1, 0 :: nat]" "length [0, 0, 0, 0, 0 :: u8] = length ?host"
    "resource_mg_get (rm_memory ?s) (mt_dev_ptr two_threads) = Inr 4096"
    by (simp_all add: two_connections_def server_on_def fresh_mg_def resource_mg_get_def
        resource_mg_search_map_def two_threads_def)
  let ?r0 = "mt_start_run two_connections [0, 0, 0, 0, 0] ?s"
  have r0: "mt_inv (\<lambda>d. d) two_threads 4096 ?host [1, 0] ?r0" "6 \<le> stages_left ?r0"
    using mt_start_inv [OF set start(1) conn start(2,3)] by simp_all
  obtain r where r: "(mt_step plain_env two_threads ^^ 6) ?r0 r"
    using mt_run_exists [OF set r0] by blast
  have all: "mt_mem r = ?host \<and> (\<forall>x < length ?host. gpu (mt_state r) (4096 + of_nat x) = ?host ! x)"
    using mt_copy_delivers [OF set start(1) conn start(2,3) r] by simp
  moreover have "4 < length ?host" by simp
  ultimately have "gpu (mt_state r) (4096 + of_nat 4) = ?host ! 4" by blast
  then show ?thesis using all r by auto
qed

text \<open>The server believes the piece number a client sends: when the pieces are larger than their
  number, as they are in every transfer the client starts, a number behind the last one puts the
  piece behind the end of the server's buffer.\<close>

lemma mt_piece_number_overflows:
  assumes "mt_fits (mt_mem_size srv) n" and "mt_thread_num srv = int n" and "n \<le> mt_mem_size srv div n"
    and "length mem = mt_mem_size srv" and "n \<le> tid" and "tid < 2 ^ 32" and "tid * (mt_mem_size srv div n) < 2 ^ 64"
    and "length bs = mt_mem_size srv div n"
  shows "htod_step E srv (Named tid (Got bs # rs)) mem s = Inl Out_Of_Bounds"
proof -
  let ?sz = "mt_mem_size srv" and ?per = "mt_mem_size srv div n"
  have n: "n < 2 ^ 31" "nat (int n mod 2 ^ 64) = n" "0 < n" using assms(1) by (simp_all add: mt_fits_def nat_mod_distrib)
  have "int tid \<noteq> (int n - 1) mod 2 ^ 32" using assms(5) n(1,3) by simp
  then have part: "mem_part ?sz (int n) tid = Inr (tid * ?per, ?per)"
    using n(2,3) wrap64_id [OF assms(7)] by (simp add: mem_part_def Let_def)
  have "?sz < n * ?per + n" using n(3) by (metis add.commute add_less_cancel_left div_mod_decomp mod_less_divisor mult.commute)
  also have "\<dots> \<le> tid * ?per + ?per" using assms(3,5) by (intro add_mono mult_le_mono1)
  finally have over: "length (drop (tid * ?per) mem) < length bs" "0 < length bs"
    using assms(3,4,8) n(3) by auto
  then show ?thesis
    using part assms(2,8) by (simp add: oob_receive_s_def recv_loop.simps [of "Got bs # rs"])
qed

end
