(* ===== verification/Client.thy ===== *)
theory Client
  imports ServerRuntime ServerDriver
begin

text \<open>
  The client library (\<open>cpu/cpu-client.c\<close>, \<open>cpu/cpu-client-runtime.c\<close>): its global variables, a
  remote call, and the shapes its functions share. Theory \<open>ClientCopy\<close> has host memory, copies,
  launches and the registration of kernels, \<open>ClientRuntime\<close> the other functions.

  The stub of a remote call and the dispatcher of the server are generated from
  \<open>cpu_rpc_prot.x\<close>: the call \<open>f_1\<close> runs the handler \<open>f_1_svc\<close> of the server, with its procedure
  number where the handler records it.
\<close>

section \<open>State\<close>

text \<open>
  What the network does with a request: it is answered, it never arrives, or its reply is lost.
  A client with no further entries in \<open>net\<close> is always answered.
\<close>

datatype delivery = Answered | Request_Lost | Reply_Lost

record client_hainfo =
  ch_idx :: u32
  ch_size :: u64
  ch_client_ptr :: u64

record 'd client =
  remote :: "'d server"
  net :: "delivery list"
  socktype :: socktype_t
  shm_enabled :: bool
  connection_is_local :: bool
  kernel_infos :: "kernel_info clist"
  cl_hainfo :: "client_hainfo list"
  cl_hainfo_cnt :: nat
  recorded_count :: u32
  recorded_lasterror :: u32
  cl_input_times :: int
  cl_output_times :: int
  cl_operator_count :: int
  recorded_operator_result :: u32

type_synonym ('d, 'a) client_fn = "'d client \<Rightarrow> ('a \<times> 'd client) res"

section \<open>Remote calls\<close>

text \<open>
  The status of the stub with the values of the reply, if there is one. A handler that sends no
  reply lets the call time out.
\<close>

definition RPC_SUCCESS :: u32 where "RPC_SUCCESS = 0"
definition RPC_CANTSEND :: u32 where "RPC_CANTSEND = 3"
definition RPC_CANTRECV :: u32 where "RPC_CANTRECV = 4"
definition RPC_TIMEDOUT :: u32 where "RPC_TIMEDOUT = 5"

definition rpc :: "('d, reply) handler \<Rightarrow> ('d, u32 \<times> cval list option) client_fn" where
  "rpc h c =
     (case net c of
       Request_Lost # ns \<Rightarrow> Inr ((RPC_CANTSEND, None), c\<lparr>net := ns\<rparr>)
     | ds \<Rightarrow> bind_r (h (remote c)) (\<lambda>(r, s).
         Inr (case r of
                No_Reply \<Rightarrow> (RPC_TIMEDOUT, None)
              | Reply vs \<Rightarrow> (case ds of Reply_Lost # _ \<Rightarrow> (RPC_CANTRECV, None) | _ \<Rightarrow> (RPC_SUCCESS, Some vs)),
              c\<lparr>remote := s, net := tl ds\<rparr>)))"

text \<open>
  The error code of a reply. A result the stub has not set is an uninitialised variable; a
  failed call is only reported, and the variable used all the same.
\<close>

definition err_of :: "u32 \<Rightarrow> cval list option \<Rightarrow> u32" where
  "err_of init r = (case r of Some (Int32 e # _) \<Rightarrow> e | _ \<Rightarrow> init)"

definition unset32 :: "'d env \<Rightarrow> u32" where
  "unset32 E = of_int (fresh_int E)"

text \<open>
  The shapes of the functions: a result that is only a code (\<open>int_rpc\<close>), and a code with values
  that are stored behind the pointers of the application when the code is 0 (\<open>value_rpc\<close>, the
  values being those of \<open>unset\<close> when they have not been received). The pointers are valid, but
  for those the code checks.
\<close>

definition int_rpc_from :: "u32 \<Rightarrow> ('d, reply) handler \<Rightarrow> ('d, u32 \<times> u32) client_fn" where
  "int_rpc_from init h c = bind_r (rpc h c) (\<lambda>((st, r), c). Inr ((st, err_of init r), c))"

definition int_rpc :: "'d env \<Rightarrow> ('d, reply) handler \<Rightarrow> ('d, u32) client_fn" where
  "int_rpc E h c = bind_r (int_rpc_from (unset32 E) h c) (\<lambda>((st, e), c). Inr (e, c))"

definition value_rpc :: "'d env \<Rightarrow> cval list \<Rightarrow> ('d, reply) handler \<Rightarrow> ('d, u32 \<times> cval list) client_fn" where
  "value_rpc E unset h c =
     bind_r (rpc h c) (\<lambda>((st, r), c).
       let e = err_of (unset32 E) r in
       Inr ((e, if e \<noteq> 0 then [] else case r of Some (_ # vs) \<Rightarrow> vs | _ \<Rightarrow> unset), c))"

definition word_rpc :: "'d env \<Rightarrow> ('d, reply) handler \<Rightarrow> ('d, u32 \<times> cval list) client_fn" where
  "word_rpc E = value_rpc E [Int32 (unset32 E)]"

definition word64_rpc :: "'d env \<Rightarrow> ('d, reply) handler \<Rightarrow> ('d, u32 \<times> cval list) client_fn" where
  "word64_rpc E = value_rpc E [Word64 (fresh_word E)]"

text \<open>
  A result that is a block or a string: XDR decodes it to the pointer in the result variable, and
  allocates a block only if that is NULL. The functions that leave the pointer uninitialised have
  an undefined outcome whenever there is a block to decode or to copy.
\<close>

definition block_rpc :: "'d env \<Rightarrow> ('d, reply) handler \<Rightarrow> ('d, u32) client_fn" where
  "block_rpc E h c =
     bind_r (rpc h c) (\<lambda>((st, r), c).
       let e = err_of (unset32 E) r in if e = 0 then Inl Uninit_Read else Inr (e, c))"

text \<open>A system call of the client, on the machine it shares with the server.\<close>

definition os_call :: "'d env \<Rightarrow> string \<Rightarrow> cval list \<Rightarrow> ('d, u32 \<times> cval list) client_fn" where
  "os_call E name args c =
     bind_r (cuda_call E name args (remote c)) (\<lambda>(r, s). Inr (r, c\<lparr>remote := s\<rparr>))"

definition bind_c :: "('d, 'a) client_fn \<Rightarrow> ('a \<Rightarrow> ('d, 'b) client_fn) \<Rightarrow> ('d, 'b) client_fn" where
  "bind_c m f c = bind_r (m c) (\<lambda>(x, c). f x c)"

definition ret_c :: "'a \<Rightarrow> ('d, 'a) client_fn" where
  "ret_c x c = Inr (x, c)"

definition get_c :: "('d client \<Rightarrow> 'a) \<Rightarrow> ('d, 'a) client_fn" where
  "get_c g c = Inr (g c, c)"

definition set_c :: "('d client \<Rightarrow> 'd client) \<Rightarrow> ('d, unit) client_fn" where
  "set_c g c = Inr ((), g c)"

definition lift_c :: "'a res \<Rightarrow> ('d, 'a) client_fn" where
  "lift_c r c = bind_r r (\<lambda>x. Inr (x, c))"

lemma bind_c_Inr_iff: "bind_c m f c = Inr (y, c') \<longleftrightarrow> (\<exists>x c1. m c = Inr (x, c1) \<and> f x c1 = Inr (y, c'))"
  by (auto simp: bind_c_def bind_r_Inr_iff)

text \<open>What a request that arrives leads to, and the values of a reply.\<close>

lemma rpc_arrives:
  assumes "\<nexists>ns. net c = Request_Lost # ns"
  shows "bind_r (h (remote c)) (\<lambda>(a, s). Inr (case a of No_Reply \<Rightarrow> (RPC_TIMEDOUT, None)
      | Reply vs \<Rightarrow> (case net c of Reply_Lost # _ \<Rightarrow> (RPC_CANTRECV, None) | _ \<Rightarrow> (RPC_SUCCESS, Some vs)),
      c\<lparr>remote := s, net := tl (net c)\<rparr>)) = rpc h c"
  using assms by (auto simp: rpc_def split: list.split delivery.split cong: reply.case_cong)

lemma rpc_cases:
  assumes "rpc h c = Inr ((st, r), c')"
  obtains (lost) "st = RPC_CANTSEND" "r = None" "remote c' = remote c" "kernel_infos c' = kernel_infos c"
  | (silent) "st \<in> {RPC_TIMEDOUT, RPC_CANTRECV}" "r = None" "kernel_infos c' = kernel_infos c"
  | (answered) vs where "st = RPC_SUCCESS" "r = Some vs" "h (remote c) = Inr (Reply vs, remote c')" "kernel_infos c' = kernel_infos c"
proof (cases "\<exists>ns. net c = Request_Lost # ns")
  case True
  then show thesis using assms lost by (auto simp: rpc_def)
next
  case False
  obtain a s where "h (remote c) = Inr (a, s)" "remote c' = s" "kernel_infos c' = kernel_infos c"
      "(st, r) = (case a of No_Reply \<Rightarrow> (RPC_TIMEDOUT, None)
        | Reply vs \<Rightarrow> (case net c of Reply_Lost # _ \<Rightarrow> (RPC_CANTRECV, None) | _ \<Rightarrow> (RPC_SUCCESS, Some vs)))"
    using assms unfolding rpc_arrives [OF False, symmetric] by (auto simp: bind_r_Inr_iff)
  then show thesis
    by (cases a) (auto intro: silent answered split: list.split_asm delivery.split_asm)
qed

lemma rpc_reply:
  assumes "rpc h c = Inr ((st, r), c')"
  shows "r = None \<or> (\<exists>vs. r = Some vs \<and> h (remote c) = Inr (Reply vs, remote c'))"
  using assms by (cases rule: rpc_cases) auto

lemma rpc_success:
  assumes "rpc h c = Inr ((RPC_SUCCESS, r), c')"
  obtains vs where "r = Some vs" "h (remote c) = Inr (Reply vs, remote c')" "kernel_infos c' = kernel_infos c"
  using assms by (cases rule: rpc_cases) (auto simp: RPC_SUCCESS_def RPC_CANTSEND_def RPC_CANTRECV_def RPC_TIMEDOUT_def)

end
