(* ===== verification/ClientCopy.thy ===== *)
theory ClientCopy
  imports Client
begin

text \<open>
  The functions of the client library with a state of their own: host memory shared with the
  server, copies, kernel launches (\<open>cpu/cpu-client-runtime.c\<close>) and the registration of kernels
  and variables (\<open>cpu/cpu-client.c\<close>). The code is taken as compiled without InfiniBand. Two
  missing semicolons, with which the source does not compile, are added.
\<close>

section \<open>Host memory\<close>

fun getindex_loop :: "client_hainfo list \<Rightarrow> u64 \<Rightarrow> nat \<Rightarrow> nat \<Rightarrow> nat option res" where
  "getindex_loop hs p i 0 = Inr None"
| "getindex_loop hs p i (Suc n) =
     (if length hs \<le> i then Inl Out_Of_Bounds
      else if ch_client_ptr (hs ! i) \<noteq> 0 \<and> ch_client_ptr (hs ! i) = p then Inr (Some i)
      else getindex_loop hs p (Suc i) n)"

definition hainfo_getindex :: "u64 \<Rightarrow> ('d, nat option) client_fn" where
  "hainfo_getindex p = bind_c (get_c (\<lambda>c. c)) (\<lambda>c. lift_c (getindex_loop (cl_hainfo c) p 0 (cl_hainfo_cnt c)))"

definition shared_memory :: "'d client \<Rightarrow> bool" where
  "shared_memory c \<longleftrightarrow> shm_enabled c \<and> connection_is_local c"

text \<open>The pointer given to \<open>free\<close> is one of \<open>malloc\<close>. Whatever happens, success is returned.\<close>

definition cudaFreeHost :: "'d env \<Rightarrow> u64 \<Rightarrow> ('d, u32) client_fn" where
  "cudaFreeHost E p =
     bind_c (get_c (\<lambda>c. c)) (\<lambda>c.
     if shared_memory c
     then bind_c (hainfo_getindex p) (\<lambda>i.
       case i of None \<Rightarrow> ret_c 0
       | Some i \<Rightarrow>
           bind_c (os_call E ''munmap'' [Word64 (ch_client_ptr (cl_hainfo c ! i)), Word64 (ch_size (cl_hainfo c ! i))]) (\<lambda>_.
           bind_c (set_c (\<lambda>c. c\<lparr>cl_hainfo := (cl_hainfo c)[i := \<lparr>ch_idx = 0, ch_size = 0, ch_client_ptr = 0\<rparr>]\<rparr>)) (\<lambda>_.
           bind_c (int_rpc_from cudaErrorInitializationError (cuda_free_host_1_svc E 404 (socktype c) (of_nat i))) (\<lambda>_.
             ret_c 0))))
     else ret_c 0)"

text \<open>
  The result has what is stored behind \<open>pHost\<close>. A failure of the second remote call is not one of
  \<open>ret.err\<close>, which is returned.
\<close>

definition MAP_FAILED :: u64 where "MAP_FAILED = - 1"

definition map_shared :: "'d env \<Rightarrow> u64 \<Rightarrow> u64 \<Rightarrow> ('d, u32 \<times> u64 option) client_fn" where
  "map_shared E idx sz =
     (case asprintf E (''/RRTOhostalloc-'' @ dec (unat idx)) of
       None \<Rightarrow> ret_c (cudaErrorMemoryAllocation, None)
     | Some shm_name \<Rightarrow>
         bind_c (os_call E ''shm_open'' [Text shm_name]) (\<lambda>(err, _).
         if err \<noteq> 0 then ret_c (cudaErrorMemoryAllocation, None)
         else bind_c (os_call E ''mmap'' [Text shm_name, Word64 sz]) (\<lambda>(err, outs).
         if err \<noteq> 0
         then bind_c (os_call E ''shm_unlink'' [Text shm_name]) (\<lambda>_.
                ret_c (cudaErrorMemoryAllocation, Some MAP_FAILED))
         else let p = out64 E outs 0 in
           bind_c (get_c (\<lambda>c. c)) (\<lambda>c.
           if length (cl_hainfo c) \<le> cl_hainfo_cnt c then lift_c (Inl Out_Of_Bounds)
           else bind_c (set_c (\<lambda>c. c\<lparr>cl_hainfo := (cl_hainfo c)[cl_hainfo_cnt c :=
                      \<lparr>ch_idx = ucast idx, ch_size = sz, ch_client_ptr = p\<rparr>],
                    cl_hainfo_cnt := cl_hainfo_cnt c + 1\<rparr>)) (\<lambda>_.
           bind_c (rpc (cuda_host_alloc_regshm_1_svc E 477 (socktype c) (shared_memory c) idx p)) (\<lambda>(st, _).
             if st \<noteq> RPC_SUCCESS then ret_c (0, Some p)
             else bind_c (os_call E ''shm_unlink'' [Text shm_name]) (\<lambda>_. ret_c (0, Some p))))))))"

definition cudaHostAlloc :: "'d env \<Rightarrow> u64 \<Rightarrow> u32 \<Rightarrow> ('d, u32 \<times> u64 option) client_fn" where
  "cudaHostAlloc E sz flags =
     bind_c (get_c (\<lambda>c. c)) (\<lambda>c.
     if shared_memory c
     then bind_c (rpc (cuda_host_alloc_1_svc E 409 (socktype c) (shared_memory c) sz flags)) (\<lambda>(st, r).
       let err = err_of cudaErrorMemoryAllocation r in
       if st \<noteq> RPC_SUCCESS \<or> err \<noteq> 0 then ret_c (err, None)
       else map_shared E (case r of Some (_ # Word64 idx # _) \<Rightarrow> idx | _ \<Rightarrow> fresh_word E) sz)
     else if socktype c = TCP
     then ret_c (if heap_ok E (unat sz) then (0, Some (fresh_word E)) else (cudaErrorMemoryAllocation, Some 0))
     else ret_c (cudaErrorMemoryAllocation, None))"

section \<open>Copies\<close>

text \<open>
  A complete transfer with several threads, from the connections of \<open>mt_memcpy_client\<close> to the end of
  the threads on both sides, is a step of its own here: its outcome, the bytes it leaves in the
  client's buffer, and the new state of the server. Theory \<open>MtCopy\<close> has the threads themselves.
\<close>

type_synonym 'd transfer =
  "mt_memcpy_direction \<Rightarrow> u16 \<Rightarrow> u8 list \<Rightarrow> u32 \<Rightarrow> ('d, int \<times> u8 list) handler"

definition run_transfer :: "('d, 'a) handler \<Rightarrow> ('d, 'a) client_fn" where
  "run_transfer x c = bind_r (x (remote c)) (\<lambda>(r, s). Inr (r, c\<lparr>remote := s\<rparr>))"

definition MT_MEMCPY_MEM_PER_THREAD :: u64 where
  "MT_MEMCPY_MEM_PER_THREAD = 128 * 1024 * 1024"

text \<open>
  The part both directions share: announce the transfer, run it, and wait for the server. The code
  in the reply to the announcement is not looked at.
\<close>

definition mt_copy ::
  "'d env \<Rightarrow> 'd transfer \<Rightarrow> nat \<Rightarrow> mt_memcpy_direction \<Rightarrow> (u32 \<Rightarrow> ('d, reply) handler) \<Rightarrow> u8 list \<Rightarrow> u64 \<Rightarrow>
   ('d, u32 \<times> u8 list) client_fn" where
  "mt_copy E xfer fuel dir announce host count =
     (let thread_num = ucast (count div MT_MEMCPY_MEM_PER_THREAD) in
      bind_c (rpc (announce thread_num)) (\<lambda>(st, r).
      if st \<noteq> RPC_SUCCESS then ret_c (1, host)
      else let (i1, i2) = (case r of Some [Int32 e, Int32 i1, Int32 i2] \<Rightarrow> if e = 0 then (i1, i2) else (unset32 E, unset32 E)
                        | _ \<Rightarrow> (unset32 E, unset32 E)) in
      bind_c (run_transfer (xfer dir (ucast i1) host thread_num)) (\<lambda>(res, host).
      if res \<noteq> 0 then ret_c (1, host)
      else bind_c (int_rpc_from 1 (cuda_memcpy_mt_sync_1_svc E 451 fuel i2)) (\<lambda>(_, ret). ret_c (ret, host)))))"

text \<open>
  \<open>host\<close> is the block of the application behind the host pointer, the result has it as the copy
  leaves it. The block behind a shared pointer is mapped by the server too.
\<close>

definition begin_iteration :: "('d, unit) client_fn" where
  "begin_iteration =
     set_c (\<lambda>c. if cl_input_times c = cl_output_times c
                then c\<lparr>cl_input_times := cl_input_times c + 1, cl_operator_count := 0\<rparr> else c)"

definition end_iteration :: "('d, unit) client_fn" where
  "end_iteration =
     set_c (\<lambda>c. if cl_input_times c \<noteq> cl_output_times c then c\<lparr>cl_output_times := cl_output_times c + 1\<rparr> else c)"

definition shm_copy :: "'d env \<Rightarrow> nat \<Rightarrow> u64 \<Rightarrow> u64 \<Rightarrow> u32 \<Rightarrow> ('d, u32) client_fn" where
  "shm_copy E i p count kind =
     bind_c (get_c (\<lambda>c. c)) (\<lambda>c.
     if shared_memory c
     then bind_c (int_rpc_from 1 (cuda_memcpy_shm_1_svc E 442 (ch_idx (cl_hainfo c ! i)) p count kind))
            (\<lambda>(_, ret). ret_c ret)
     else ret_c 1)"

definition copy_to_device ::
  "'d env \<Rightarrow> 'd transfer \<Rightarrow> nat \<Rightarrow> u64 \<Rightarrow> u64 \<Rightarrow> u8 list \<Rightarrow> u64 \<Rightarrow> ('d, u32 \<times> u8 list) client_fn" where
  "copy_to_device E xfer fuel dst src host count =
     bind_c begin_iteration (\<lambda>_.
     bind_c (hainfo_getindex src) (\<lambda>index.
     case index of
       Some i \<Rightarrow> bind_c (shm_copy E i dst count 1) (\<lambda>ret. ret_c (ret, host))
     | None \<Rightarrow>
         if length host < unat count then lift_c (Inl Out_Of_Bounds)
         else if count > 2 * MT_MEMCPY_MEM_PER_THREAD
         then mt_copy E xfer fuel MT_MEMCPY_HTOD (cuda_memcpy_mt_htod_1_svc E 449 dst count) host count
         else bind_c (int_rpc_from 1 (cuda_memcpy_htod_1_svc E 440 dst
                \<lparr>mem_addr = fresh_word E, mem_val = take (unat count) host\<rparr> count))
                (\<lambda>(_, ret). ret_c (ret, host))))"

text \<open>XDR puts the block of the reply behind \<open>dst\<close>, as long as it is.\<close>

definition copy_from_device ::
  "'d env \<Rightarrow> 'd transfer \<Rightarrow> nat \<Rightarrow> u64 \<Rightarrow> u64 \<Rightarrow> u8 list \<Rightarrow> u64 \<Rightarrow> ('d, u32 \<times> u8 list) client_fn" where
  "copy_from_device E xfer fuel dst src host count =
     bind_c end_iteration (\<lambda>_.
     bind_c (hainfo_getindex dst) (\<lambda>index.
     case index of
       Some i \<Rightarrow> bind_c (shm_copy E i src count 2) (\<lambda>ret. ret_c (ret, host))
     | None \<Rightarrow>
         if count > 2 * MT_MEMCPY_MEM_PER_THREAD
         then mt_copy E xfer fuel MT_MEMCPY_DTOH (cuda_memcpy_mt_dtoh_1_svc E 450 src count) host count
         else bind_c (rpc (cuda_memcpy_dtoh_1_svc E src count)) (\<lambda>(_, r).
           case r of
             Some [Int32 e, Bytes bs] \<Rightarrow>
               if e \<noteq> 0 then ret_c (e, host)
               else if length host < length bs then lift_c (Inl Out_Of_Bounds)
               else ret_c (e, bs @ drop (length bs) host)
           | _ \<Rightarrow> ret_c (err_of (unset32 E) r, host))))"

definition cudaMemcpy ::
  "'d env \<Rightarrow> 'd transfer \<Rightarrow> nat \<Rightarrow> u64 \<Rightarrow> u64 \<Rightarrow> u8 list \<Rightarrow> u64 \<Rightarrow> u32 \<Rightarrow> ('d, u32 \<times> u8 list) client_fn" where
  "cudaMemcpy E xfer fuel dst src host count kind =
     (if kind = 1 then copy_to_device E xfer fuel dst src host count
      else if kind = 2 then copy_from_device E xfer fuel dst src host count
      else if kind = 3
      then bind_c (int_rpc_from 1 (cuda_memcpy_dtod_1_svc E 443 dst src count)) (\<lambda>(_, ret). ret_c (ret, host))
      else ret_c (1, host))"

definition cudaMemcpyAsync ::
  "'d env \<Rightarrow> 'd transfer \<Rightarrow> nat \<Rightarrow> u64 \<Rightarrow> u64 \<Rightarrow> u8 list \<Rightarrow> u64 \<Rightarrow> u32 \<Rightarrow> u64 \<Rightarrow> ('d, u32 \<times> u8 list) client_fn" where
  "cudaMemcpyAsync E xfer fuel dst src host count kind stream = cudaMemcpy E xfer fuel dst src host count kind"

text \<open>The length of the block on the wire has 32 bits.\<close>

definition cudaMemcpyToSymbol :: "'d env \<Rightarrow> u64 \<Rightarrow> u64 \<Rightarrow> u8 list \<Rightarrow> u64 \<Rightarrow> u64 \<Rightarrow> u32 \<Rightarrow> ('d, u32) client_fn" where
  "cudaMemcpyToSymbol E symbol src host count offset kind =
     (if kind = 1
      then bind_c (hainfo_getindex src) (\<lambda>index.
        let n = unat count mod 2 ^ 32 in
        if index = None \<and> length host < n then lift_c (Inl Out_Of_Bounds)
        else bind_c (int_rpc_from 1 (case index of
            None \<Rightarrow> cuda_memcpy_to_symbol_1_svc E 445 symbol \<lparr>mem_addr = fresh_word E, mem_val = take n host\<rparr> count offset
          | Some i \<Rightarrow> cuda_memcpy_to_symbol_shm_1_svc E 446 (of_nat i) symbol count offset kind))
          (\<lambda>(_, ret). ret_c ret))
      else ret_c 1)"

section \<open>Launches\<close>

text \<open>
  The kernel with the given host function; \<open>None\<close> if there is none, or \<open>list_at\<close> fails. A kernel
  that has not been registered has no host function to compare with.
\<close>

fun find_kernel :: "kernel_info clist \<Rightarrow> u64 \<Rightarrow> nat \<Rightarrow> nat \<Rightarrow> kernel_info option res" where
  "find_kernel l func i 0 = Inr None"
| "find_kernel l func i (Suc n) =
     (case list_at l i of
        (_, None) \<Rightarrow> Inr None
      | (_, Some p) \<Rightarrow>
          if func = 0 then find_kernel l func (Suc i) n
          else bind_r (elem_at l p) (\<lambda>info.
            case host_fun info of
              None \<Rightarrow> Inl Uninit_Read
            | Some f \<Rightarrow> if f = func then Inr (Some info) else find_kernel l func (Suc i) n))"

definition cudaErrorInvalidDeviceFunction :: u32 where
  "cudaErrorInvalidDeviceFunction = 98"

text \<open>
  The part the launch functions share: find the kernel, pack the parameters and send the request.
  \<open>Inl\<close> is an early return.
\<close>

definition launch_with ::
  "'d env \<Rightarrow> (launch \<Rightarrow> ('d, reply) handler) \<Rightarrow> u64 \<Rightarrow> rpc_dim3 \<Rightarrow> rpc_dim3 \<Rightarrow> u8 list list \<Rightarrow> u64 \<Rightarrow> u64 \<Rightarrow>
   ('d, u32 + u32) client_fn" where
  "launch_with E send func grid block args shared stream =
     bind_c (get_c kernel_infos) (\<lambda>infos.
     bind_c (lift_c (find_kernel infos func 0 (len infos))) (\<lambda>info.
     case info of
       None \<Rightarrow> ret_c (Inl cudaErrorInvalidDeviceFunction)
     | Some k \<Rightarrow>
         bind_c (lift_c (pack_args E k args)) (\<lambda>buf.
         bind_c (int_rpc E (send \<lparr>l_func = func, l_grid = grid, l_block = block,
             l_args = \<lparr>mem_addr = fresh_word E, mem_val = buf\<rparr>, l_shared = shared, l_stream = stream\<rparr>))
           (\<lambda>result. ret_c (Inr result)))))"

definition cudaLaunchCooperativeKernel ::
  "'d env \<Rightarrow> u64 \<Rightarrow> rpc_dim3 \<Rightarrow> rpc_dim3 \<Rightarrow> u8 list list \<Rightarrow> u64 \<Rightarrow> u64 \<Rightarrow> ('d, u32) client_fn" where
  "cudaLaunchCooperativeKernel E func grid block args shared stream =
     bind_c (launch_with E (cuda_launch_cooperative_kernel_1_svc E 314) func grid block args shared stream)
       (\<lambda>r. ret_c (case r of Inl e \<Rightarrow> e | Inr e \<Rightarrow> e))"

text \<open>Only the first entry of the list of launches is used, and the number of devices is ignored.\<close>

definition cudaLaunchCooperativeKernelMultiDevice ::
  "'d env \<Rightarrow> (u64 \<times> rpc_dim3 \<times> rpc_dim3 \<times> u8 list list \<times> u64 \<times> u64) list \<Rightarrow> u32 \<Rightarrow> u32 \<Rightarrow> ('d, u32) client_fn" where
  "cudaLaunchCooperativeKernelMultiDevice E launches numDevices flags =
     (case launches of [] \<Rightarrow> lift_c (Inl Out_Of_Bounds)
      | (func, grid, block, args, shared, stream) # _ \<Rightarrow>
          bind_c (launch_with E (cuda_launch_cooperative_kernel_1_svc E 314) func grid block args shared stream)
            (\<lambda>r. ret_c (case r of Inl e \<Rightarrow> e | Inr e \<Rightarrow> e)))"

text \<open>Both branches return: the increment of \<open>operator_count\<close> behind them is never reached.\<close>

definition cudaLaunchKernel ::
  "'d env \<Rightarrow> u64 \<Rightarrow> rpc_dim3 \<Rightarrow> rpc_dim3 \<Rightarrow> u8 list list \<Rightarrow> u64 \<Rightarrow> u64 \<Rightarrow> ('d, u32) client_fn" where
  "cudaLaunchKernel E func grid block args shared stream =
     bind_c (get_c (\<lambda>c. c)) (\<lambda>c.
     if cl_output_times c = 1 \<or> cl_operator_count c = 0
     then bind_c (launch_with E (cuda_launch_kernel_1_svc E 317) func grid block args shared stream) (\<lambda>r.
       case r of Inl e \<Rightarrow> ret_c e
       | Inr result \<Rightarrow> bind_c (set_c (\<lambda>c. c\<lparr>recorded_operator_result := result\<rparr>)) (\<lambda>_. ret_c result))
     else ret_c (recorded_operator_result c))"

section \<open>Kernels and variables of a module\<close>

text \<open>
  The functions that compiled programs call for their kernels and variables; their names start
  with two underscores in the source. \<open>fd\<close> is the socket the server sees. \<open>None\<close>: the process
  has exited.
\<close>

definition cudaRegisterVar ::
  "'d env \<Rightarrow> int \<Rightarrow> u64 \<Rightarrow> u64 \<Rightarrow> u64 \<Rightarrow> rpc_string \<Rightarrow> u32 \<Rightarrow> u64 \<Rightarrow> u32 \<Rightarrow> u32 \<Rightarrow> ('d, unit) client_fn" where
  "cudaRegisterVar E fd fatCubinHandle hostVar deviceAddress deviceName ext' sz constant global' =
     bind_c (rpc (rpc_register_var_1_svc E 53 fd fatCubinHandle hostVar deviceAddress deviceName ext' sz constant global'))
       (\<lambda>_. ret_c ())"

definition cudaRegisterFunction ::
  "'d env \<Rightarrow> int \<Rightarrow> u64 \<Rightarrow> u64 \<Rightarrow> rpc_string \<Rightarrow> rpc_string \<Rightarrow> u32 \<Rightarrow> ('d, unit option) client_fn" where
  "cudaRegisterFunction E fd fatCubinHandle hostFun deviceFun deviceName thread_limit =
     bind_c (get_c kernel_infos) (\<lambda>infos.
     bind_c (lift_c (utils_search_info infos (snd deviceName))) (\<lambda>found.
     case found of
       None \<Rightarrow> ret_c (Some ())
     | Some i \<Rightarrow>
         bind_c (rpc (rpc_register_function_1_svc E 50 fd fatCubinHandle hostFun deviceFun deviceName thread_limit)) (\<lambda>(st, r).
         if st \<noteq> RPC_SUCCESS \<or> err_of (unset32 E) r \<noteq> 0 then ret_c None
         else bind_c (lift_c (elem_at infos i)) (\<lambda>info.
              bind_c (lift_c (set_elem infos i (info\<lparr>host_fun := Some hostFun\<rparr>))) (\<lambda>l.
              bind_c (set_c (\<lambda>c. c\<lparr>kernel_infos := l\<rparr>)) (\<lambda>_. ret_c (Some ())))))))"

end
