(* ===== verification/ClientRuntime.thy ===== *)
theory ClientRuntime
  imports ClientCopy
begin

text \<open>
  The functions of \<open>cpu/cpu-client-runtime.c\<close> that forward their arguments to the server, with the
  two that remember a result. The code is taken as compiled for CUDA 11.
\<close>

section \<open>Devices\<close>

definition cudaChooseDevice :: "'d env \<Rightarrow> u8 list \<Rightarrow> ('d, u32 \<times> cval list) client_fn" where
  "cudaChooseDevice E prop =
     word_rpc E (cuda_choose_device_1_svc E 101 \<lparr>mem_addr = fresh_word E, mem_val = prop\<rparr>)"

definition cudaDeviceGetAttribute :: "'d env \<Rightarrow> u32 \<Rightarrow> u32 \<Rightarrow> ('d, u32 \<times> cval list) client_fn" where
  "cudaDeviceGetAttribute E attr device = word_rpc E (cuda_device_get_attribute_1_svc E attr device)"

definition cudaDeviceGetByPCIBusId :: "'d env \<Rightarrow> string \<Rightarrow> ('d, u32 \<times> cval list) client_fn" where
  "cudaDeviceGetByPCIBusId E pciBusId = word_rpc E (cuda_device_get_by_pci_bus_id_1_svc E pciBusId)"

definition cudaDeviceGetCacheConfig :: "'d env \<Rightarrow> ('d, u32 \<times> cval list) client_fn" where
  "cudaDeviceGetCacheConfig E = word_rpc E (cuda_device_get_cache_config_1_svc E)"

definition cudaDeviceGetLimit :: "'d env \<Rightarrow> u32 \<Rightarrow> ('d, u32 \<times> cval list) client_fn" where
  "cudaDeviceGetLimit E limit = word64_rpc E (cuda_device_get_limit_1_svc E limit)"

definition cudaDeviceGetP2PAttribute :: "'d env \<Rightarrow> u32 \<Rightarrow> u32 \<Rightarrow> u32 \<Rightarrow> ('d, u32 \<times> cval list) client_fn" where
  "cudaDeviceGetP2PAttribute E attr srcDevice dstDevice =
     word_rpc E (cuda_device_get_p2p_attribute_1_svc E attr srcDevice dstDevice)"

definition cudaDeviceGetPCIBusId :: "'d env \<Rightarrow> u32 \<Rightarrow> u32 \<Rightarrow> ('d, u32) client_fn" where
  "cudaDeviceGetPCIBusId E n device = block_rpc E (cuda_device_get_pci_bus_id_1_svc E n device)"

definition cudaDeviceGetSharedMemConfig :: "'d env \<Rightarrow> ('d, u32 \<times> cval list) client_fn" where
  "cudaDeviceGetSharedMemConfig E = word_rpc E (cuda_device_get_shared_mem_config_1_svc E)"

definition cudaDeviceGetStreamPriorityRange :: "'d env \<Rightarrow> ('d, u32 \<times> cval list) client_fn" where
  "cudaDeviceGetStreamPriorityRange E =
     value_rpc E [Int32 (unset32 E), Int32 (unset32 E)] (cuda_device_get_stream_priority_range_1_svc E)"

definition cudaDeviceReset :: "'d env \<Rightarrow> ('d, u32) client_fn" where
  "cudaDeviceReset E = int_rpc E (cuda_device_reset_1_svc E 112)"

definition cudaDeviceSetCacheConfig :: "'d env \<Rightarrow> u32 \<Rightarrow> ('d, u32) client_fn" where
  "cudaDeviceSetCacheConfig E cacheConfig = int_rpc E (cuda_device_set_cache_config_1_svc E 113 cacheConfig)"

definition cudaDeviceSetLimit :: "'d env \<Rightarrow> u32 \<Rightarrow> u64 \<Rightarrow> ('d, u32) client_fn" where
  "cudaDeviceSetLimit E limit v = int_rpc E (cuda_device_set_limit_1_svc E 114 limit v)"

definition cudaDeviceSetSharedMemConfig :: "'d env \<Rightarrow> u32 \<Rightarrow> ('d, u32) client_fn" where
  "cudaDeviceSetSharedMemConfig E config = int_rpc E (cuda_device_set_shared_mem_config_1_svc E 115 config)"

text \<open>
  What is returned is the status of the call, not the result of the server. The timeout is
  negative: the client waits for ever for a server that sends no reply.
\<close>

definition cudaDeviceSynchronize :: "'d env \<Rightarrow> ('d, u32) client_fn" where
  "cudaDeviceSynchronize E =
     bind_c (rpc (cuda_device_synchronize_1_svc E 116)) (\<lambda>(st, _).
       if st = RPC_TIMEDOUT then lift_c (Inl No_Fuel) else ret_c st)"

text \<open>The device is asked for only once.\<close>

definition cudaGetDevice :: "'d env \<Rightarrow> ('d, u32 \<times> cval list) client_fn" where
  "cudaGetDevice E =
     bind_c (get_c recorded_count) (\<lambda>recorded.
     if recorded = - 1
     then bind_c (rpc (cuda_get_device_1_svc E)) (\<lambda>(_, r).
       let err = err_of (unset32 E) r;
           data = (if err \<noteq> 0 then unset32 E else case r of Some (_ # Int32 v # _) \<Rightarrow> v | _ \<Rightarrow> unset32 E) in
       bind_c (set_c (\<lambda>c. c\<lparr>recorded_count := data\<rparr>)) (\<lambda>_. ret_c (err, if err = 0 then [Int32 data] else [])))
     else ret_c (0, [Int32 recorded]))"

definition cudaGetDeviceCount :: "'d env \<Rightarrow> ('d, u32 \<times> cval list) client_fn" where
  "cudaGetDeviceCount E = word_rpc E (cuda_get_device_count_1_svc E)"

definition cudaGetDeviceFlags :: "'d env \<Rightarrow> ('d, u32 \<times> cval list) client_fn" where
  "cudaGetDeviceFlags E = word_rpc E (cuda_get_device_flags_1_svc E)"

definition cudaErrorInvalidValue :: u32 where "cudaErrorInvalidValue = 1"

definition cudaGetDeviceProperties :: "'d env \<Rightarrow> bool \<Rightarrow> u32 \<Rightarrow> ('d, u32 \<times> cval list) client_fn" where
  "cudaGetDeviceProperties E prop_null device =
     (if prop_null then ret_c (cudaErrorInvalidValue, [])
      else value_rpc E [Bytes (replicate sizeof_cudaDeviceProp (fresh_byte E))]
             (cuda_get_device_properties_1_svc E device))"

definition cudaGetDeviceProperties_v2 :: "'d env \<Rightarrow> bool \<Rightarrow> u32 \<Rightarrow> ('d, u32 \<times> cval list) client_fn" where
  "cudaGetDeviceProperties_v2 E prop_null device = cudaGetDeviceProperties E prop_null device"

definition cudaSetDevice :: "'d env \<Rightarrow> u32 \<Rightarrow> ('d, u32) client_fn" where
  "cudaSetDevice E device = int_rpc E (cuda_set_device_1_svc E 126 device)"

definition cudaSetDeviceFlags :: "'d env \<Rightarrow> u32 \<Rightarrow> ('d, u32) client_fn" where
  "cudaSetDeviceFlags E flags = int_rpc E (cuda_set_device_flags_1_svc E 127 flags)"

text \<open>The length of the block on the wire has 32 bits.\<close>

definition cudaSetValidDevices :: "'d env \<Rightarrow> u8 list \<Rightarrow> u32 \<Rightarrow> ('d, u32) client_fn" where
  "cudaSetValidDevices E device_arr n =
     (let bytes = unat (n * 4) in
      if length device_arr < bytes then lift_c (Inl Out_Of_Bounds)
      else int_rpc E (cuda_set_valid_devices_1_svc E 128 \<lparr>mem_addr = fresh_word E, mem_val = take bytes device_arr\<rparr> n))"

section \<open>Errors\<close>

text \<open>
  The string is decoded to a block of 128 or 256 bytes, or to one XDR allocates when there is no
  memory for that one; it comes with its terminating zero. \<open>None\<close> is the block as \<open>malloc\<close> has
  left it, or NULL.
\<close>

definition error_string :: "'d env \<Rightarrow> nat \<Rightarrow> ('d, reply) handler \<Rightarrow> ('d, string option) client_fn" where
  "error_string E sz h =
     bind_c (rpc h) (\<lambda>(_, r).
       case r of
         Some [Int32 e, Text t] \<Rightarrow>
           if e \<noteq> 0 then ret_c None
           else if heap_ok E sz \<and> sz \<le> length t then lift_c (Inl Out_Of_Bounds)
           else ret_c (Some t)
       | _ \<Rightarrow> ret_c None)"

definition cudaGetErrorName :: "'d env \<Rightarrow> u32 \<Rightarrow> ('d, string option) client_fn" where
  "cudaGetErrorName E error = error_string E 128 (cuda_get_error_name_1_svc E error)"

definition cudaGetErrorString :: "'d env \<Rightarrow> u32 \<Rightarrow> ('d, string option) client_fn" where
  "cudaGetErrorString E error = error_string E 256 (cuda_get_error_string_1_svc E error)"

text \<open>The last error is asked for only once, too.\<close>

definition cudaGetLastError :: "'d env \<Rightarrow> ('d, u32) client_fn" where
  "cudaGetLastError E =
     bind_c (get_c recorded_lasterror) (\<lambda>recorded.
     if recorded = - 1
     then bind_c (int_rpc E (cuda_get_last_error_1_svc E)) (\<lambda>result.
       bind_c (set_c (\<lambda>c. c\<lparr>recorded_lasterror := result\<rparr>)) (\<lambda>_. ret_c result))
     else ret_c recorded)"

definition cudaPeekAtLastError :: "'d env \<Rightarrow> ('d, u32) client_fn" where
  "cudaPeekAtLastError E = int_rpc E (cuda_peek_at_last_error_1_svc E)"

section \<open>Streams and events\<close>

definition cudaStreamCreate :: "'d env \<Rightarrow> ('d, u32 \<times> cval list) client_fn" where
  "cudaStreamCreate E = word64_rpc E (cuda_stream_create_1_svc E 255)"

definition cudaStreamCreateWithFlags :: "'d env \<Rightarrow> u32 \<Rightarrow> ('d, u32 \<times> cval list) client_fn" where
  "cudaStreamCreateWithFlags E flags = word64_rpc E (cuda_stream_create_with_flags_1_svc E 256 flags)"

definition cudaStreamCreateWithPriority :: "'d env \<Rightarrow> u32 \<Rightarrow> u32 \<Rightarrow> ('d, u32 \<times> cval list) client_fn" where
  "cudaStreamCreateWithPriority E flags priority =
     word64_rpc E (cuda_stream_create_with_priority_1_svc E 257 flags priority)"

definition cudaStreamDestroy :: "'d env \<Rightarrow> u64 \<Rightarrow> ('d, u32) client_fn" where
  "cudaStreamDestroy E stream = int_rpc E (cuda_stream_destroy_1_svc E 258 stream)"

definition cudaStreamGetFlags :: "'d env \<Rightarrow> u64 \<Rightarrow> ('d, u32 \<times> cval list) client_fn" where
  "cudaStreamGetFlags E hStream = word_rpc E (cuda_stream_get_flags_1_svc E hStream)"

definition cudaStreamGetPriority :: "'d env \<Rightarrow> u64 \<Rightarrow> ('d, u32 \<times> cval list) client_fn" where
  "cudaStreamGetPriority E hStream = word_rpc E (cuda_stream_get_priority_1_svc E hStream)"

definition cudaStreamIsCapturing :: "'d env \<Rightarrow> u64 \<Rightarrow> bool \<Rightarrow> ('d, u32 \<times> cval list) client_fn" where
  "cudaStreamIsCapturing E stream status_null =
     (if status_null then ret_c (cudaErrorInvalidValue, [])
      else word_rpc E (cuda_stream_is_capturing_1_svc E stream))"

definition cudaStreamQuery :: "'d env \<Rightarrow> u64 \<Rightarrow> ('d, u32) client_fn" where
  "cudaStreamQuery E stream = int_rpc E (cuda_stream_query_1_svc E stream)"

definition cudaStreamSynchronize :: "'d env \<Rightarrow> u64 \<Rightarrow> ('d, u32) client_fn" where
  "cudaStreamSynchronize E stream = int_rpc E (cuda_stream_synchronize_1_svc E 267 stream)"

definition cudaStreamWaitEvent :: "'d env \<Rightarrow> u64 \<Rightarrow> u64 \<Rightarrow> u32 \<Rightarrow> ('d, u32) client_fn" where
  "cudaStreamWaitEvent E stream event flags =
     int_rpc E (cuda_stream_wait_event_1_svc E 268 stream event flags)"

definition cudaThreadExchangeStreamCaptureMode :: "'d env \<Rightarrow> u32 \<Rightarrow> ('d, u32 \<times> cval list) client_fn" where
  "cudaThreadExchangeStreamCaptureMode E mode =
     word_rpc E (cuda_thread_exchange_stream_capture_mode_1_svc E 269 mode)"

definition cudaEventCreate :: "'d env \<Rightarrow> ('d, u32 \<times> cval list) client_fn" where
  "cudaEventCreate E = word64_rpc E (cuda_event_create_1_svc E 280)"

definition cudaEventCreateWithFlags :: "'d env \<Rightarrow> u32 \<Rightarrow> ('d, u32 \<times> cval list) client_fn" where
  "cudaEventCreateWithFlags E flags = word64_rpc E (cuda_event_create_with_flags_1_svc E 281 flags)"

definition cudaEventDestroy :: "'d env \<Rightarrow> u64 \<Rightarrow> ('d, u32) client_fn" where
  "cudaEventDestroy E event = int_rpc E (cuda_event_destroy_1_svc E 282 event)"

definition cudaEventElapsedTime :: "'d env \<Rightarrow> u64 \<Rightarrow> u64 \<Rightarrow> ('d, u32 \<times> cval list) client_fn" where
  "cudaEventElapsedTime E start stop = word_rpc E (cuda_event_elapsed_time_1_svc E start stop)"

definition cudaEventQuery :: "'d env \<Rightarrow> u64 \<Rightarrow> ('d, u32) client_fn" where
  "cudaEventQuery E event = int_rpc E (cuda_event_query_1_svc E 284 event)"

definition cudaEventRecord :: "'d env \<Rightarrow> u64 \<Rightarrow> u64 \<Rightarrow> ('d, u32) client_fn" where
  "cudaEventRecord E event stream = int_rpc E (cuda_event_record_1_svc E 285 event stream)"

text \<open>The call is repeated while the result is negative, at most ten times; it starts with -1.\<close>

fun event_sync_loop :: "'d env \<Rightarrow> u64 \<Rightarrow> u32 \<Rightarrow> nat \<Rightarrow> ('d, u32) client_fn" where
  "event_sync_loop E event result 0 = ret_c result"
| "event_sync_loop E event result (Suc n) =
     (if sint result < 0
      then bind_c (int_rpc_from result (cuda_event_synchronize_1_svc E 287 event)) (\<lambda>(_, result).
             event_sync_loop E event result n)
      else ret_c result)"

definition cudaEventSynchronize :: "'d env \<Rightarrow> u64 \<Rightarrow> ('d, u32) client_fn" where
  "cudaEventSynchronize E event = event_sync_loop E event (- 1) 10"

section \<open>Functions and occupancy\<close>

definition cudaFuncGetAttributes :: "'d env \<Rightarrow> u64 \<Rightarrow> ('d, u32) client_fn" where
  "cudaFuncGetAttributes E func = block_rpc E (cuda_func_get_attributes_1_svc E func)"

definition cudaFuncSetAttribute :: "'d env \<Rightarrow> u64 \<Rightarrow> u32 \<Rightarrow> u32 \<Rightarrow> ('d, u32) client_fn" where
  "cudaFuncSetAttribute E func attr v = int_rpc E (cuda_func_set_attributes_1_svc E 311 func attr v)"

definition cudaFuncSetCacheConfig :: "'d env \<Rightarrow> u64 \<Rightarrow> u32 \<Rightarrow> ('d, u32) client_fn" where
  "cudaFuncSetCacheConfig E func cacheConfig =
     int_rpc E (cuda_func_set_cache_config_1_svc E 312 func cacheConfig)"

definition cudaFuncSetSharedMemConfig :: "'d env \<Rightarrow> u64 \<Rightarrow> u32 \<Rightarrow> ('d, u32) client_fn" where
  "cudaFuncSetSharedMemConfig E func config =
     int_rpc E (cuda_func_set_shared_mem_config_1_svc E 313 func config)"

definition cudaOccupancyMaxActiveBlocksPerMultiprocessor ::
  "'d env \<Rightarrow> u64 \<Rightarrow> u32 \<Rightarrow> u64 \<Rightarrow> ('d, u32 \<times> cval list) client_fn" where
  "cudaOccupancyMaxActiveBlocksPerMultiprocessor E func blockSize dynamicSMemSize =
     word_rpc E (cuda_occupancy_max_active_bpm_1_svc E func blockSize dynamicSMemSize)"

definition cudaOccupancyMaxActiveBlocksPerMultiprocessorWithFlags ::
  "'d env \<Rightarrow> u64 \<Rightarrow> u32 \<Rightarrow> u64 \<Rightarrow> u32 \<Rightarrow> ('d, u32 \<times> cval list) client_fn" where
  "cudaOccupancyMaxActiveBlocksPerMultiprocessorWithFlags E func blockSize dynamicSMemSize flags =
     word_rpc E (cuda_occupancy_max_active_bpm_with_flags_1_svc E func blockSize dynamicSMemSize flags)"

section \<open>Memory\<close>

definition cudaArrayGetInfo :: "'d env \<Rightarrow> u64 \<Rightarrow> ('d, u32) client_fn" where
  "cudaArrayGetInfo E array = block_rpc E (cuda_array_get_info_1_svc E array)"

text \<open>This one sends the request of \<open>cudaArrayGetInfo\<close>.\<close>

definition cudaArrayGetSparseProperties :: "'d env \<Rightarrow> u64 \<Rightarrow> ('d, u32) client_fn" where
  "cudaArrayGetSparseProperties E array = block_rpc E (cuda_array_get_info_1_svc E array)"

definition cudaFree :: "'d env \<Rightarrow> u64 \<Rightarrow> ('d, u32) client_fn" where
  "cudaFree E devPtr = int_rpc E (cuda_free_1_svc E 402 devPtr)"

definition cudaFreeArray :: "'d env \<Rightarrow> u64 \<Rightarrow> ('d, u32) client_fn" where
  "cudaFreeArray E array = int_rpc E (cuda_free_array_1_svc E 403 array)"

definition cudaGetSymbolAddress :: "'d env \<Rightarrow> u64 \<Rightarrow> ('d, u32 \<times> cval list) client_fn" where
  "cudaGetSymbolAddress E symbol = word64_rpc E (cuda_get_symbol_address_1_svc E symbol)"

definition cudaGetSymbolSize :: "'d env \<Rightarrow> u64 \<Rightarrow> ('d, u32 \<times> cval list) client_fn" where
  "cudaGetSymbolSize E symbol = word64_rpc E (cuda_get_symbol_size_1_svc E symbol)"

definition cudaHostGetDevicePointer :: "'d env \<Rightarrow> u64 \<Rightarrow> u32 \<Rightarrow> ('d, u32 \<times> cval list) client_fn" where
  "cudaHostGetDevicePointer E pHost flags = word64_rpc E (cuda_host_get_device_pointer_1_svc E pHost flags)"

definition cudaHostGetFlags :: "'d env \<Rightarrow> u64 \<Rightarrow> ('d, u32 \<times> cval list) client_fn" where
  "cudaHostGetFlags E pHost = word_rpc E (cuda_host_get_flags_1_svc E pHost)"

definition cudaMalloc :: "'d env \<Rightarrow> u64 \<Rightarrow> ('d, u32 \<times> cval list) client_fn" where
  "cudaMalloc E sz = word64_rpc E (cuda_malloc_1_svc E 414 sz)"

text \<open>Pitch, pointer, \<open>xsize\<close> and \<open>ysize\<close>; the last is set to the pitch.\<close>

definition cudaMalloc3D :: "'d env \<Rightarrow> u64 \<Rightarrow> u64 \<Rightarrow> u64 \<Rightarrow> ('d, u32 \<times> cval list) client_fn" where
  "cudaMalloc3D E depth height width =
     bind_c (value_rpc E (replicate 4 (Word64 (fresh_word E))) (cuda_malloc_3d_1_svc E 415 depth height width))
       (\<lambda>(err, vs). ret_c (err, case vs of [pitch, p, xsize, ysize] \<Rightarrow> [pitch, p, xsize, pitch] | _ \<Rightarrow> vs))"

definition cudaMalloc3DArray ::
  "'d env \<Rightarrow> channel_format_desc \<Rightarrow> u64 \<Rightarrow> u64 \<Rightarrow> u64 \<Rightarrow> u32 \<Rightarrow> ('d, u32 \<times> cval list) client_fn" where
  "cudaMalloc3DArray E desc depth height width flags =
     word64_rpc E (cuda_malloc_3d_array_1_svc E 416 desc depth height width flags)"

definition cudaMallocArray ::
  "'d env \<Rightarrow> channel_format_desc \<Rightarrow> u64 \<Rightarrow> u64 \<Rightarrow> u32 \<Rightarrow> ('d, u32 \<times> cval list) client_fn" where
  "cudaMallocArray E desc width height flags =
     word64_rpc E (cuda_malloc_array_1_svc E 417 desc width height flags)"

definition cudaMallocPitch :: "'d env \<Rightarrow> u64 \<Rightarrow> u64 \<Rightarrow> ('d, u32 \<times> cval list) client_fn" where
  "cudaMallocPitch E width height =
     value_rpc E [Word64 (fresh_word E), Word64 (fresh_word E)] (cuda_malloc_pitch_1_svc E 421 width height)"

definition cudaMemAdvise :: "'d env \<Rightarrow> u64 \<Rightarrow> u64 \<Rightarrow> u32 \<Rightarrow> u32 \<Rightarrow> ('d, u32) client_fn" where
  "cudaMemAdvise E devPtr count advice device =
     int_rpc E (cuda_mem_advise_1_svc E 422 devPtr count advice device)"

definition cudaMemGetInfo :: "'d env \<Rightarrow> ('d, u32 \<times> cval list) client_fn" where
  "cudaMemGetInfo E = value_rpc E [Word64 (fresh_word E), Word64 (fresh_word E)] (cuda_mem_get_info_1_svc E)"

definition cudaMemPrefetchAsync :: "'d env \<Rightarrow> u64 \<Rightarrow> u64 \<Rightarrow> u32 \<Rightarrow> u64 \<Rightarrow> ('d, u32) client_fn" where
  "cudaMemPrefetchAsync E devPtr count dstDevice stream =
     int_rpc E (cuda_mem_prefetch_async_1_svc E 424 devPtr count dstDevice stream)"

definition cudaMemset :: "'d env \<Rightarrow> u64 \<Rightarrow> u32 \<Rightarrow> u64 \<Rightarrow> ('d, u32) client_fn" where
  "cudaMemset E devPtr v count = int_rpc E (cuda_memset_1_svc E 470 devPtr v count)"

definition cudaMemset2D :: "'d env \<Rightarrow> u64 \<Rightarrow> u64 \<Rightarrow> u32 \<Rightarrow> u64 \<Rightarrow> u64 \<Rightarrow> ('d, u32) client_fn" where
  "cudaMemset2D E devPtr pitch v width height =
     int_rpc E (cuda_memset_2d_1_svc E 471 devPtr pitch v width height)"

definition cudaMemset2DAsync :: "'d env \<Rightarrow> u64 \<Rightarrow> u64 \<Rightarrow> u32 \<Rightarrow> u64 \<Rightarrow> u64 \<Rightarrow> u64 \<Rightarrow> ('d, u32) client_fn" where
  "cudaMemset2DAsync E devPtr pitch v width height stream =
     int_rpc E (cuda_memset_2d_async_1_svc E 472 devPtr pitch v width height stream)"

definition cudaMemset3D ::
  "'d env \<Rightarrow> u64 \<Rightarrow> u64 \<Rightarrow> u64 \<Rightarrow> u64 \<Rightarrow> u32 \<Rightarrow> u64 \<Rightarrow> u64 \<Rightarrow> u64 \<Rightarrow> ('d, u32) client_fn" where
  "cudaMemset3D E pitch p xsize ysize v depth height width =
     int_rpc E (cuda_memset_3d_1_svc E 473 pitch p xsize ysize v depth height width)"

definition cudaMemset3DAsync ::
  "'d env \<Rightarrow> u64 \<Rightarrow> u64 \<Rightarrow> u64 \<Rightarrow> u64 \<Rightarrow> u32 \<Rightarrow> u64 \<Rightarrow> u64 \<Rightarrow> u64 \<Rightarrow> u64 \<Rightarrow> ('d, u32) client_fn" where
  "cudaMemset3DAsync E pitch p xsize ysize v depth height width stream =
     int_rpc E (cuda_memset_3d_async_1_svc E 474 pitch p xsize ysize v depth height width stream)"

definition cudaMemsetAsync :: "'d env \<Rightarrow> u64 \<Rightarrow> u32 \<Rightarrow> u64 \<Rightarrow> u64 \<Rightarrow> ('d, u32) client_fn" where
  "cudaMemsetAsync E devPtr v count stream = int_rpc E (cuda_memset_async_1_svc E 475 devPtr v count stream)"

section \<open>Peers, versions and the profiler\<close>

definition cudaDeviceCanAccessPeer :: "'d env \<Rightarrow> u32 \<Rightarrow> u32 \<Rightarrow> ('d, u32 \<times> cval list) client_fn" where
  "cudaDeviceCanAccessPeer E device peerDevice =
     word_rpc E (cuda_device_can_access_peer_1_svc E device peerDevice)"

definition cudaDeviceDisablePeerAccess :: "'d env \<Rightarrow> u32 \<Rightarrow> ('d, u32) client_fn" where
  "cudaDeviceDisablePeerAccess E peerDevice =
     int_rpc E (cuda_device_disable_peer_access_1_svc E 501 peerDevice)"

text \<open>This one sends the request to disable the access.\<close>

definition cudaDeviceEnablePeerAccess :: "'d env \<Rightarrow> u32 \<Rightarrow> u32 \<Rightarrow> ('d, u32) client_fn" where
  "cudaDeviceEnablePeerAccess E peerDevice flags =
     int_rpc E (cuda_device_disable_peer_access_1_svc E 501 peerDevice)"

definition cudaDriverGetVersion :: "'d env \<Rightarrow> ('d, u32 \<times> cval list) client_fn" where
  "cudaDriverGetVersion E = word_rpc E (cuda_driver_get_version_1_svc E)"

definition cudaRuntimeGetVersion :: "'d env \<Rightarrow> ('d, u32 \<times> cval list) client_fn" where
  "cudaRuntimeGetVersion E = word_rpc E (cuda_runtime_get_version_1_svc E)"

definition cudaProfilerStart :: "'d env \<Rightarrow> ('d, u32) client_fn" where
  "cudaProfilerStart E = int_rpc E (cuda_profiler_start_1_svc E 701)"

definition cudaProfilerStop :: "'d env \<Rightarrow> ('d, u32) client_fn" where
  "cudaProfilerStop E = int_rpc E (cuda_profiler_stop_1_svc E 702)"

end
