(* ===== verification/ClientRuns.thy ===== *)
theory ClientRuns
  imports ClientRuntime Replay MtCopy
begin

text \<open>
  Runs of an application against the client library: \<open>client_call\<close> has every function of the
  library, \<open>client_ran E xfer c c'\<close> says that calls of them lead from \<open>c\<close> to \<open>c'\<close>. The server gets from
  state to state by requests of the protocol (\<open>reaches\<close>), so that the properties of its runs carry
  over; the results the client remembers never change.
\<close>

section \<open>Calls\<close>

definition effect :: "('d, 'a) client_fn \<Rightarrow> 'd client \<Rightarrow> 'd client res" where
  "effect m c = bind_r (m c) (\<lambda>(_, c). Inr c)"

inductive client_call :: "'d env \<Rightarrow> 'd transfer \<Rightarrow> ('d client \<Rightarrow> 'd client res) \<Rightarrow> bool" for E xfer where
  "client_call E xfer (effect (cudaChooseDevice E prop))"
| "client_call E xfer (effect (cudaDeviceGetAttribute E attr device))"
| "client_call E xfer (effect (cudaDeviceGetByPCIBusId E pciBusId))"
| "client_call E xfer (effect (cudaDeviceGetCacheConfig E))"
| "client_call E xfer (effect (cudaDeviceGetLimit E limit))"
| "client_call E xfer (effect (cudaDeviceGetP2PAttribute E attr srcDevice dstDevice))"
| "client_call E xfer (effect (cudaDeviceGetPCIBusId E n device))"
| "client_call E xfer (effect (cudaDeviceGetSharedMemConfig E))"
| "client_call E xfer (effect (cudaDeviceGetStreamPriorityRange E))"
| "client_call E xfer (effect (cudaDeviceReset E))"
| "client_call E xfer (effect (cudaDeviceSetCacheConfig E cacheConfig))"
| "client_call E xfer (effect (cudaDeviceSetLimit E limit v))"
| "client_call E xfer (effect (cudaDeviceSetSharedMemConfig E config))"
| "client_call E xfer (effect (cudaDeviceSynchronize E))"
| "client_call E xfer (effect (cudaGetDevice E))"
| "client_call E xfer (effect (cudaGetDeviceCount E))"
| "client_call E xfer (effect (cudaGetDeviceFlags E))"
| "client_call E xfer (effect (cudaGetDeviceProperties E prop_null device))"
| "client_call E xfer (effect (cudaGetDeviceProperties_v2 E prop_null device))"
| "client_call E xfer (effect (cudaSetDevice E device))"
| "client_call E xfer (effect (cudaSetDeviceFlags E flags))"
| "client_call E xfer (effect (cudaSetValidDevices E device_arr n))"
| "client_call E xfer (effect (cudaGetErrorName E error))"
| "client_call E xfer (effect (cudaGetErrorString E error))"
| "client_call E xfer (effect (cudaGetLastError E))"
| "client_call E xfer (effect (cudaPeekAtLastError E))"
| "client_call E xfer (effect (cudaStreamCreate E))"
| "client_call E xfer (effect (cudaStreamCreateWithFlags E flags))"
| "client_call E xfer (effect (cudaStreamCreateWithPriority E flags priority))"
| "client_call E xfer (effect (cudaStreamDestroy E stream))"
| "client_call E xfer (effect (cudaStreamGetFlags E hStream))"
| "client_call E xfer (effect (cudaStreamGetPriority E hStream))"
| "client_call E xfer (effect (cudaStreamIsCapturing E stream status_null))"
| "client_call E xfer (effect (cudaStreamQuery E stream))"
| "client_call E xfer (effect (cudaStreamSynchronize E stream))"
| "client_call E xfer (effect (cudaStreamWaitEvent E stream event flags))"
| "client_call E xfer (effect (cudaThreadExchangeStreamCaptureMode E mode))"
| "client_call E xfer (effect (cudaEventCreate E))"
| "client_call E xfer (effect (cudaEventCreateWithFlags E flags))"
| "client_call E xfer (effect (cudaEventDestroy E event))"
| "client_call E xfer (effect (cudaEventElapsedTime E start stop))"
| "client_call E xfer (effect (cudaEventQuery E event))"
| "client_call E xfer (effect (cudaEventRecord E event stream))"
| "client_call E xfer (effect (cudaEventSynchronize E event))"
| "client_call E xfer (effect (cudaFuncGetAttributes E func))"
| "client_call E xfer (effect (cudaFuncSetAttribute E func attr v))"
| "client_call E xfer (effect (cudaFuncSetCacheConfig E func cacheConfig))"
| "client_call E xfer (effect (cudaFuncSetSharedMemConfig E func config))"
| "client_call E xfer (effect (cudaOccupancyMaxActiveBlocksPerMultiprocessor E func blockSize dynamicSMemSize))"
| "client_call E xfer (effect (cudaOccupancyMaxActiveBlocksPerMultiprocessorWithFlags E func blockSize dynamicSMemSize flags))"
| "client_call E xfer (effect (cudaArrayGetInfo E array))"
| "client_call E xfer (effect (cudaArrayGetSparseProperties E array))"
| "client_call E xfer (effect (cudaFree E devPtr))"
| "client_call E xfer (effect (cudaFreeArray E array))"
| "client_call E xfer (effect (cudaGetSymbolAddress E symbol))"
| "client_call E xfer (effect (cudaGetSymbolSize E symbol))"
| "client_call E xfer (effect (cudaHostGetDevicePointer E pHost flags))"
| "client_call E xfer (effect (cudaHostGetFlags E pHost))"
| "client_call E xfer (effect (cudaMalloc E sz))"
| "client_call E xfer (effect (cudaMalloc3D E depth height width))"
| "client_call E xfer (effect (cudaMalloc3DArray E desc depth height width flags))"
| "client_call E xfer (effect (cudaMallocArray E desc width height flags))"
| "client_call E xfer (effect (cudaMallocPitch E width height))"
| "client_call E xfer (effect (cudaMemAdvise E devPtr count advice device))"
| "client_call E xfer (effect (cudaMemGetInfo E))"
| "client_call E xfer (effect (cudaMemPrefetchAsync E devPtr count dstDevice stream))"
| "client_call E xfer (effect (cudaMemset E devPtr v count))"
| "client_call E xfer (effect (cudaMemset2D E devPtr pitch v width height))"
| "client_call E xfer (effect (cudaMemset2DAsync E devPtr pitch v width height stream))"
| "client_call E xfer (effect (cudaMemset3D E pitch p xsize ysize v depth height width))"
| "client_call E xfer (effect (cudaMemset3DAsync E pitch p xsize ysize v depth height width stream))"
| "client_call E xfer (effect (cudaMemsetAsync E devPtr v count stream))"
| "client_call E xfer (effect (cudaDeviceCanAccessPeer E device peerDevice))"
| "client_call E xfer (effect (cudaDeviceDisablePeerAccess E peerDevice))"
| "client_call E xfer (effect (cudaDeviceEnablePeerAccess E peerDevice flags))"
| "client_call E xfer (effect (cudaDriverGetVersion E))"
| "client_call E xfer (effect (cudaRuntimeGetVersion E))"
| "client_call E xfer (effect (cudaProfilerStart E))"
| "client_call E xfer (effect (cudaProfilerStop E))"
| "client_call E xfer (effect (cudaFreeHost E p))"
| "client_call E xfer (effect (cudaHostAlloc E sz flags))"
| "client_call E xfer (effect (cudaMemcpyToSymbol E symbol src host count offset kind))"
| "client_call E xfer (effect (cudaLaunchCooperativeKernel E func grid block args shared stream))"
| "client_call E xfer (effect (cudaLaunchCooperativeKernelMultiDevice E launches numDevices flags))"
| "client_call E xfer (effect (cudaLaunchKernel E func grid block args shared stream))"
| "client_call E xfer (effect (cudaRegisterVar E fd fatCubinHandle hostVar deviceAddress deviceName ext' sz constant global'))"
| "client_call E xfer (effect (cudaRegisterFunction E fd fatCubinHandle hostFun deviceFun deviceName thread_limit))"
| "client_call E xfer (effect (cudaMemcpy E xfer fuel dst src host count kind))"
| "client_call E xfer (effect (cudaMemcpyAsync E xfer fuel dst src host count kind stream))"

inductive client_ran :: "'d env \<Rightarrow> 'd transfer \<Rightarrow> 'd client \<Rightarrow> 'd client \<Rightarrow> bool" for E xfer where
  ran_start: "client_ran E xfer c c"
| ran_call: "client_ran E xfer c c1 \<Longrightarrow> client_call E xfer f \<Longrightarrow> f c1 = Inr c2 \<Longrightarrow> client_ran E xfer c c2"

lemmas client_functions =
  cudaChooseDevice_def cudaDeviceGetAttribute_def cudaDeviceGetByPCIBusId_def
  cudaDeviceGetCacheConfig_def cudaDeviceGetLimit_def cudaDeviceGetP2PAttribute_def
  cudaDeviceGetPCIBusId_def cudaDeviceGetSharedMemConfig_def cudaDeviceGetStreamPriorityRange_def
  cudaDeviceReset_def cudaDeviceSetCacheConfig_def cudaDeviceSetLimit_def
  cudaDeviceSetSharedMemConfig_def cudaDeviceSynchronize_def cudaGetDevice_def cudaGetDeviceCount_def
  cudaGetDeviceFlags_def cudaGetDeviceProperties_def cudaGetDeviceProperties_v2_def cudaSetDevice_def
  cudaSetDeviceFlags_def cudaSetValidDevices_def cudaGetErrorName_def cudaGetErrorString_def
  cudaGetLastError_def cudaPeekAtLastError_def cudaStreamCreate_def cudaStreamCreateWithFlags_def
  cudaStreamCreateWithPriority_def cudaStreamDestroy_def cudaStreamGetFlags_def
  cudaStreamGetPriority_def cudaStreamIsCapturing_def cudaStreamQuery_def cudaStreamSynchronize_def
  cudaStreamWaitEvent_def cudaThreadExchangeStreamCaptureMode_def cudaEventCreate_def
  cudaEventCreateWithFlags_def cudaEventDestroy_def cudaEventElapsedTime_def cudaEventQuery_def
  cudaEventRecord_def cudaEventSynchronize_def cudaFuncGetAttributes_def cudaFuncSetAttribute_def
  cudaFuncSetCacheConfig_def cudaFuncSetSharedMemConfig_def
  cudaOccupancyMaxActiveBlocksPerMultiprocessor_def
  cudaOccupancyMaxActiveBlocksPerMultiprocessorWithFlags_def cudaArrayGetInfo_def
  cudaArrayGetSparseProperties_def cudaFree_def cudaFreeArray_def cudaGetSymbolAddress_def
  cudaGetSymbolSize_def cudaHostGetDevicePointer_def cudaHostGetFlags_def cudaMalloc_def
  cudaMalloc3D_def cudaMalloc3DArray_def cudaMallocArray_def cudaMallocPitch_def cudaMemAdvise_def
  cudaMemGetInfo_def cudaMemPrefetchAsync_def cudaMemset_def cudaMemset2D_def cudaMemset2DAsync_def
  cudaMemset3D_def cudaMemset3DAsync_def cudaMemsetAsync_def cudaDeviceCanAccessPeer_def
  cudaDeviceDisablePeerAccess_def cudaDeviceEnablePeerAccess_def cudaDriverGetVersion_def
  cudaRuntimeGetVersion_def cudaProfilerStart_def cudaProfilerStop_def

section \<open>What a run does to the server\<close>

inductive reaches :: "'d env \<Rightarrow> 'd transfer \<Rightarrow> 'd server \<Rightarrow> 'd server \<Rightarrow> bool" for E xfer where
  reach_start: "reaches E xfer s s"
| reach_request: "reaches E xfer s s1 \<Longrightarrow> request E p h \<Longrightarrow> h s1 = Inr (r, s2) \<Longrightarrow> reaches E xfer s s2"
| reach_os: "reaches E xfer s s1 \<Longrightarrow> reaches E xfer s (s1\<lparr>gpu := d\<rparr>)"
| reach_transfer: "reaches E xfer s s1 \<Longrightarrow> xfer dir port host n s1 = Inr (r, s2) \<Longrightarrow> reaches E xfer s s2"

lemma reaches_trans: "reaches E xfer s1 s2 \<Longrightarrow> reaches E xfer s0 s1 \<Longrightarrow> reaches E xfer s0 s2"
  by (induction rule: reaches.induct) (blast intro: reaches.intros)+

definition stays :: "'d env \<Rightarrow> 'd transfer \<Rightarrow> 'd client \<Rightarrow> 'd client \<Rightarrow> bool" where
  "stays E xfer c c' \<longleftrightarrow>
     reaches E xfer (remote c) (remote c') \<and>
     (recorded_count c \<noteq> - 1 \<longrightarrow> recorded_count c' = recorded_count c) \<and>
     (recorded_lasterror c \<noteq> - 1 \<longrightarrow> recorded_lasterror c' = recorded_lasterror c) \<and>
     (cl_operator_count c = 0 \<longrightarrow> cl_operator_count c' = 0)"

definition stays_fn :: "'d env \<Rightarrow> 'd transfer \<Rightarrow> ('d, 'a) client_fn \<Rightarrow> bool" where
  "stays_fn E xfer m \<longleftrightarrow> (\<forall>c x c'. m c = Inr (x, c') \<longrightarrow> stays E xfer c c')"

named_theorems stay_intros \<open>introduction rules for stays_fn\<close>

lemma stays_trans: "stays E xfer c c1 \<Longrightarrow> stays E xfer c1 c2 \<Longrightarrow> stays E xfer c c2"
  unfolding stays_def using reaches_trans by metis

lemma stays_refl: "stays E xfer c c"
  by (simp add: stays_def reach_start)

lemma stays_fnI: "(\<And>c x c'. m c = Inr (x, c') \<Longrightarrow> stays E xfer c c') \<Longrightarrow> stays_fn E xfer m"
  by (simp add: stays_fn_def)

lemma stays_fnD: "stays_fn E xfer m \<Longrightarrow> m c = Inr (x, c') \<Longrightarrow> stays E xfer c c'"
  by (simp add: stays_fn_def)

lemma stays_pure: "(\<And>c x c'. m c = Inr (x, c') \<Longrightarrow> remote c' = remote c \<and> recorded_count c' = recorded_count c \<and>
    recorded_lasterror c' = recorded_lasterror c \<and> (cl_operator_count c = 0 \<longrightarrow> cl_operator_count c' = 0)) \<Longrightarrow>
    stays_fn E xfer m"
  by (simp add: stays_fn_def stays_def reach_start)

lemma stays_ret [stay_intros]: "stays_fn E xfer (ret_c x)" "stays_fn E xfer (\<lambda>c. Inl e)" "stays_fn E xfer (\<lambda>c. Inr (x, c))"
  by (rule stays_pure; simp add: ret_c_def)+

lemma stays_bind [stay_intros]:
  "stays_fn E xfer m \<Longrightarrow> (\<And>x. stays_fn E xfer (f x)) \<Longrightarrow> stays_fn E xfer (bind_c m f)"
  unfolding stays_fn_def bind_c_Inr_iff by (blast intro: stays_trans)

lemma stays_cases [stay_intros]:
  "(\<And>a b. stays_fn E xfer (g a b)) \<Longrightarrow> stays_fn E xfer (case p of (a, b) \<Rightarrow> g a b)"
  "stays_fn E xfer m \<Longrightarrow> stays_fn E xfer k \<Longrightarrow> stays_fn E xfer (if b then m else k)"
  "stays_fn E xfer m \<Longrightarrow> (\<And>x. stays_fn E xfer (f x)) \<Longrightarrow> stays_fn E xfer (case o' of None \<Rightarrow> m | Some x \<Rightarrow> f x)"
  by (cases p; cases b; cases o'; simp)+

lemma stays_rpc: "request E p h \<Longrightarrow> stays_fn E xfer (rpc h)"
  by (rule stays_fnI)
    (auto simp: rpc_def bind_r_Inr_iff stays_def reach_start split: list.split_asm delivery.split_asm
      intro: reach_request [OF reach_start])

lemma stays_map: "stays_fn E xfer m \<Longrightarrow> (\<And>x c y c'. g x c = Inr (y, c') \<Longrightarrow> c' = c) \<Longrightarrow>
    stays_fn E xfer (\<lambda>c. bind_r (m c) (\<lambda>(x, c). g x c))"
  unfolding stays_fn_def bind_r_Inr_iff by (fastforce split: prod.split_asm)

lemma stays_stubs:
  assumes "request E p h"
  shows "stays_fn E xfer (int_rpc_from i h)" "stays_fn E xfer (int_rpc E h)" "stays_fn E xfer (value_rpc E vs h)"
    "stays_fn E xfer (word_rpc E h)" "stays_fn E xfer (word64_rpc E h)" "stays_fn E xfer (block_rpc E h)"
proof -
  show from': "stays_fn E xfer (int_rpc_from i h)" for i
    unfolding int_rpc_from_def by (rule stays_map [OF stays_rpc [OF assms]]) auto
  show "stays_fn E xfer (int_rpc E h)" unfolding int_rpc_def by (rule stays_map [OF from']) auto
  show val: "stays_fn E xfer (value_rpc E vs h)" for vs
    unfolding value_rpc_def by (rule stays_map [OF stays_rpc [OF assms]]) (auto simp: Let_def)
  show "stays_fn E xfer (word_rpc E h)" "stays_fn E xfer (word64_rpc E h)"
    unfolding word_rpc_def word64_rpc_def by (rule val)+
  show "stays_fn E xfer (block_rpc E h)"
    unfolding block_rpc_def by (rule stays_map [OF stays_rpc [OF assms]]) (auto simp: Let_def split: if_split_asm)
qed

lemma requests:
  "runtime_request E p h \<Longrightarrow> request E p h" "driver_request E p h \<Longrightarrow> request E p h"
  by (simp_all add: request_def)

text \<open>The functions with a state of their own.\<close>

lemma stays_os [stay_intros]: "stays_fn E xfer (os_call E name args)"
  by (rule stays_fnI)
    (auto simp: os_call_def bind_r_Inr_iff cuda_call_Inr_iff stays_def intro: reach_os [OF reach_start])

lemma stays_client [stay_intros]:
  "stays_fn E xfer begin_iteration" "stays_fn E xfer end_iteration" "stays_fn E xfer (get_c g)"
  "stays_fn E xfer (lift_c r)" "stays_fn E xfer (set_c (\<lambda>c. c\<lparr>cl_hainfo := h c\<rparr>))"
  "stays_fn E xfer (set_c (\<lambda>c. c\<lparr>cl_hainfo := h c, cl_hainfo_cnt := n c\<rparr>))"
  "stays_fn E xfer (set_c (\<lambda>c. c\<lparr>recorded_operator_result := e\<rparr>))"
  "stays_fn E xfer (set_c (\<lambda>c. c\<lparr>kernel_infos := l\<rparr>))"
  by (rule stays_pure; auto simp: begin_iteration_def end_iteration_def get_c_def set_c_def lift_c_def bind_r_Inr_iff)+

lemma stays_getindex [stay_intros]: "stays_fn E xfer (hainfo_getindex p)"
  unfolding hainfo_getindex_def by (intro stay_intros)

lemma stays_transfer [stay_intros]: "stays_fn E xfer (run_transfer (xfer dir port host n))"
  by (rule stays_fnI) (auto simp: run_transfer_def bind_r_Inr_iff stays_def intro: reach_transfer [OF reach_start])

lemma stays_mt_copy:
  "(\<And>n. request E p (announce n)) \<Longrightarrow> stays_fn E xfer (mt_copy E xfer fuel dir announce host count)"
  unfolding mt_copy_def Let_def
  by (intro stay_intros stays_rpc stays_stubs; (assumption | rule requests(1), rule runtime_request.intros)?)

lemma stays_memcpy: "stays_fn E xfer (cudaMemcpy E xfer fuel dst src host count kind)"
  unfolding cudaMemcpy_def copy_to_device_def copy_from_device_def shm_copy_def Let_def
  by (intro stay_intros stays_mt_copy stays_stubs stays_rpc;
      (rule requests(1), rule runtime_request.intros | auto split: list.split cval.split intro: stay_intros)?)

lemma stays_choice:
  "request E p h \<Longrightarrow> (\<And>i. request E q (k i)) \<Longrightarrow>
   stays_fn E xfer (int_rpc_from v (case x of None \<Rightarrow> h | Some i \<Rightarrow> k i))"
  by (cases x) (auto intro: stays_stubs(1))

lemma stays_to_symbol: "stays_fn E xfer (cudaMemcpyToSymbol E symbol src host count offset kind)"
  unfolding cudaMemcpyToSymbol_def Let_def
  by (intro stay_intros stays_choice; rule requests(1), rule runtime_request.intros)

lemma stays_host: "stays_fn E xfer (cudaFreeHost E p)" "stays_fn E xfer (cudaHostAlloc E sz flags)"
  unfolding cudaFreeHost_def cudaHostAlloc_def map_shared_def Let_def
  by (intro stay_intros stays_stubs stays_rpc; rule requests(1), rule runtime_request.intros)+

lemma stays_launch_with [stay_intros]:
  "(\<And>l. request E p (send l)) \<Longrightarrow> stays_fn E xfer (launch_with E send func grid block args shared stream)"
  unfolding launch_with_def by (intro stay_intros stays_stubs)

lemma stays_sum_case [stay_intros]:
  "(\<And>e. stays_fn E xfer (f e)) \<Longrightarrow> (\<And>e. stays_fn E xfer (g e)) \<Longrightarrow> stays_fn E xfer (case r of Inl e \<Rightarrow> f e | Inr e \<Rightarrow> g e)"
  by (cases r) simp_all

lemma stays_launch:
  "stays_fn E xfer (cudaLaunchCooperativeKernel E func grid block args shared stream)"
  "stays_fn E xfer (cudaLaunchCooperativeKernelMultiDevice E launches numDevices flags)"
  "stays_fn E xfer (cudaLaunchKernel E func grid block args shared stream)"
proof -
  have coop: "stays_fn E xfer (launch_with E (cuda_launch_cooperative_kernel_1_svc E 314) func grid block args shared stream)"
    and one: "stays_fn E xfer (launch_with E (cuda_launch_kernel_1_svc E 317) func grid block args shared stream)"
    for func grid block args shared stream
    by (rule stays_launch_with, rule requests(1), rule runtime_request.intros)+
  show "stays_fn E xfer (cudaLaunchCooperativeKernel E func grid block args shared stream)"
    unfolding cudaLaunchCooperativeKernel_def by (intro stay_intros coop)
  show "stays_fn E xfer (cudaLaunchCooperativeKernelMultiDevice E launches numDevices flags)"
    unfolding cudaLaunchCooperativeKernelMultiDevice_def
    by (cases launches) (auto intro!: stay_intros coop split: prod.split)
  show "stays_fn E xfer (cudaLaunchKernel E func grid block args shared stream)"
    unfolding cudaLaunchKernel_def by (intro stay_intros one)
qed

lemma stays_register:
  "stays_fn E xfer (cudaRegisterVar E fd fatCubinHandle hostVar deviceAddress deviceName ext' sz constant global')"
  "stays_fn E xfer (cudaRegisterFunction E fd fatCubinHandle hostFun deviceFun deviceName thread_limit)"
  unfolding cudaRegisterVar_def cudaRegisterFunction_def
  by (intro stay_intros stays_rpc; rule requests(2), rule driver_request.intros)+

lemma stays_cached:
  "stays_fn E xfer (cudaGetDevice E)" "stays_fn E xfer (cudaGetLastError E)"
proof -
  have req: "request E 117 (cuda_get_device_1_svc E)" "request E 142 (cuda_get_last_error_1_svc E)"
    by (rule requests(1), rule runtime_request.intros)+
  show "stays_fn E xfer (cudaGetDevice E)"
    by (rule stays_fnI)
      (auto simp: cudaGetDevice_def bind_c_Inr_iff get_c_def set_c_def ret_c_def Let_def stays_refl
        split: if_split_asm prod.split_asm dest!: stays_fnD [OF stays_rpc [OF req(1), of xfer]], auto simp: stays_def)
  show "stays_fn E xfer (cudaGetLastError E)"
    by (rule stays_fnI)
      (auto simp: cudaGetLastError_def bind_c_Inr_iff get_c_def set_c_def ret_c_def stays_refl
        split: if_split_asm dest!: stays_fnD [OF stays_stubs(2) [OF req(2), of xfer]], auto simp: stays_def)
qed

lemma stays_event_loop: "stays_fn E xfer (event_sync_loop E event result n)"
proof (induction n arbitrary: result)
  case (Suc n)
  have "stays_fn E xfer (int_rpc_from result (cuda_event_synchronize_1_svc E 287 event))"
    by (rule stays_stubs, rule requests(1), rule runtime_request.intros)
  with Suc show ?case by (auto intro!: stay_intros split: prod.split)
qed (simp add: stay_intros)

lemma stays_strings:
  "request E p h \<Longrightarrow> stays_fn E xfer (error_string E sz h)"
  unfolding error_string_def
  by (intro stay_intros stays_rpc) (auto intro!: stay_intros split: option.split list.split cval.split)

lemma effect_stays: "stays_fn E xfer m \<Longrightarrow> effect m c = Inr c' \<Longrightarrow> stays E xfer c c'"
  by (auto simp: effect_def bind_r_Inr_iff dest: stays_fnD)

lemma call_stays: "client_call E xfer f \<Longrightarrow> f c = Inr c' \<Longrightarrow> stays E xfer c c'"
  by (induction rule: client_call.induct; erule effect_stays [rotated];
      (rule stays_memcpy stays_host stays_to_symbol stays_launch stays_register stays_cached; fail)?;
      unfold client_functions cudaMemcpyAsync_def Let_def;
      intro stay_intros stays_stubs stays_rpc stays_strings stays_event_loop stays_memcpy;
      rule requests(1), rule runtime_request.intros)

lemma ran_stays: "client_ran E xfer c c' \<Longrightarrow> stays E xfer c c'"
  by (induction rule: client_ran.induct) (blast intro: stays_refl stays_trans call_stays)+

lemma reaches_inv:
  assumes "\<And>dir port host n. keeps_inv (xfer dir port host n)"
  shows "reaches E xfer s s' \<Longrightarrow> replay_inv s \<Longrightarrow> replay_inv s'"
  by (induction rule: reaches.induct) (auto dest: request_keeps keeps_invD assms [THEN keeps_invD])

lemma ran_replay:
  assumes "client_ran E xfer c0 c" and "\<And>dir port host n. keeps_inv (xfer dir port host n)"
    and "replay_inv (remote c0)" and "cl_operator_count c0 = 0"
  shows "replay_inv (remote c)" "cl_operator_count c = 0"
  using ran_stays [OF assms(1)] reaches_inv [of xfer, OF assms(2)] assms(3,4) unfolding stays_def by blast+

text \<open>A client after its start, over TCP to another machine.\<close>

definition client_on :: "'d server \<Rightarrow> 'd client" where
  "client_on s = \<lparr>remote = s, net = [], socktype = TCP, shm_enabled = True, connection_is_local = False,
     kernel_infos = \<lparr>elements = Buf (replicate 4 None), len = 0, capacity = 4, element_size = 48\<rparr>,
     cl_hainfo = replicate 64 \<lparr>ch_idx = 0, ch_size = 0, ch_client_ptr = 0\<rparr>, cl_hainfo_cnt = 0,
     recorded_count = - 1, recorded_lasterror = - 1, cl_input_times = 0, cl_output_times = 0,
     cl_operator_count = 0, recorded_operator_result = 0\<rparr>"

end
