(* ===== verification/ClientForwards.thy ===== *)
theory ClientForwards
  imports ClientRuns Runs
begin

text \<open>
  What the forwarding functions of the client library do when their request is answered: the
  library call of the server, with the handles of the application translated.
\<close>

section \<open>Calls\<close>

text \<open>
  \<open>issues E f name args\<close>: the function \<open>f\<close> of the client stands for the call \<open>name\<close> with the arguments
  \<open>args\<close>, which the server logs; \<open>asks E f name args out\<close>: it stands for a call that is not logged, and
  stores the values \<open>out\<close> makes of the output variables. Both tables are what the interface of CUDA asks for: the
  call has the name of the function and its arguments in their order, in the first with every handle translated.
  The logged functions that do something else are not in the table: \<open>cudaDeviceEnablePeerAccess\<close> sends the request
  that disables the access (\<open>enable_peer_disables\<close>), and four functions pass a handle as it is
  (\<open>handle_passed_through\<close>).
\<close>

inductive issues :: "'d env \<Rightarrow> ('d, u32) client_fn \<Rightarrow> string \<Rightarrow> 'd arg list \<Rightarrow> bool" for E where
  "issues E (cudaDeviceReset E) ''cudaDeviceReset'' []"
| "issues E (cudaDeviceSetCacheConfig E cacheConfig) ''cudaDeviceSetCacheConfig'' [I cacheConfig]"
| "issues E (cudaDeviceSetLimit E limit v) ''cudaDeviceSetLimit'' [I limit, W v]"
| "issues E (cudaDeviceSetSharedMemConfig E config) ''cudaDeviceSetSharedMemConfig'' [I config]"
| "issues E (cudaSetDevice E device) ''cudaSetDevice'' [I device]"
| "issues E (cudaSetDeviceFlags E flags) ''cudaSetDeviceFlags'' [I flags]"
| "issues E (cudaStreamDestroy E stream) ''cudaStreamDestroy'' [Handle rm_streams stream]"
| "issues E (cudaStreamSynchronize E stream) ''cudaStreamSynchronize'' [Handle rm_streams stream]"
| "issues E (cudaStreamWaitEvent E stream event flags) ''cudaStreamWaitEvent'' [Handle rm_streams stream,
      Handle rm_events event, I flags]"
| "issues E (cudaEventDestroy E event) ''cudaEventDestroy'' [Handle rm_events event]"
| "issues E (cudaEventQuery E event) ''cudaEventQuery'' [Handle rm_events event]"
| "issues E (cudaEventRecord E event stream) ''cudaEventRecord'' [Handle rm_events event, Handle rm_streams stream]"
| "issues E (cudaFreeArray E array) ''cudaFreeArray'' [Handle rm_arrays array]"
| "issues E (cudaMemAdvise E devPtr count advice device) ''cudaMemAdvise'' [Handle rm_memory devPtr, W count, I
      advice, I device]"
| "issues E (cudaMemset E devPtr v count) ''cudaMemset'' [Handle rm_memory devPtr, I v, W count]"
| "issues E (cudaMemset2D E devPtr pitch v width height) ''cudaMemset2D'' [Handle rm_memory devPtr, W pitch, I
      v, W width, W height]"
| "issues E (cudaMemset2DAsync E devPtr pitch v width height stream) ''cudaMemset2DAsync'' [Handle rm_memory
      devPtr, W pitch, I v, W width, W height, Handle rm_streams stream]"
| "issues E (cudaMemset3D E pitch p xsize ysize v depth height width) ''cudaMemset3D'' [W pitch, Handle
      rm_memory p, W xsize, W ysize, I v, W depth, W height, W width]"
| "issues E (cudaMemset3DAsync E pitch p xsize ysize v depth height width stream) ''cudaMemset3DAsync'' [W
      pitch, Handle rm_memory p, W xsize, W ysize, I v, W depth, W height, W width, Handle rm_streams stream]"
| "issues E (cudaMemsetAsync E devPtr v count stream) ''cudaMemsetAsync'' [Handle rm_memory devPtr, I v, W
      count, Handle rm_streams stream]"
| "issues E (cudaDeviceDisablePeerAccess E peerDevice) ''cudaDeviceDisablePeerAccess'' [I peerDevice]"
| "issues E (cudaProfilerStart E) ''cudaProfilerStart'' []"
| "issues E (cudaProfilerStop E) ''cudaProfilerStop'' []"

inductive asks ::
  "'d env \<Rightarrow> ('d, u32 \<times> cval list) client_fn \<Rightarrow> string \<Rightarrow> 'd arg list \<Rightarrow> (cval list \<Rightarrow> cval list) \<Rightarrow> bool" for E where
  "asks E (cudaDeviceGetAttribute E attr device) ''cudaDeviceGetAttribute'' [I attr, I device] (\<lambda>outs.
      [Int32 (out32 E outs 0)])"
| "asks E (cudaDeviceGetByPCIBusId E pciBusId) ''cudaDeviceGetByPCIBusId'' [Val (Text pciBusId)]
      (\<lambda>outs. [Int32 (out32 E outs 0)])"
| "asks E (cudaDeviceGetCacheConfig E) ''cudaDeviceGetCacheConfig'' [] (\<lambda>outs. [Int32 (out32 E outs 0)])"
| "asks E (cudaDeviceGetLimit E limit) ''cudaDeviceGetLimit'' [I limit] (\<lambda>outs. [Word64 (out64 E outs 0)])"
| "asks E (cudaDeviceGetP2PAttribute E attr srcDevice dstDevice) ''cudaDeviceGetP2PAttribute'' [I attr, I
      srcDevice, I dstDevice] (\<lambda>outs. [Int32 (out32 E outs 0)])"
| "asks E (cudaDeviceGetSharedMemConfig E) ''cudaDeviceGetSharedMemConfig'' [] (\<lambda>outs. [Int32 (out32 E
      outs 0)])"
| "asks E (cudaDeviceGetStreamPriorityRange E) ''cudaDeviceGetStreamPriorityRange'' [] (\<lambda>outs. [Int32
      (out32 E outs 0), Int32 (out32 E outs 1)])"
| "asks E (cudaGetDeviceCount E) ''cudaGetDeviceCount'' [] (\<lambda>outs. [Int32 (out32 E outs 0)])"
| "asks E (cudaGetDeviceFlags E) ''cudaGetDeviceFlags'' [] (\<lambda>outs. [Int32 (out32 E outs 0)])"
| "asks E (cudaStreamGetFlags E hStream) ''cudaStreamGetFlags'' [Handle rm_streams hStream] (\<lambda>outs.
      [Int32 (out32 E outs 0)])"
| "asks E (cudaStreamGetPriority E hStream) ''cudaStreamGetPriority'' [Handle rm_streams hStream]
      (\<lambda>outs. [Int32 (out32 E outs 0)])"
| "asks E (cudaEventElapsedTime E start stop) ''cudaEventElapsedTime'' [Handle rm_events start, Handle
      rm_events stop] (\<lambda>outs. [Int32 (out32 E outs 0)])"
| "asks E (cudaOccupancyMaxActiveBlocksPerMultiprocessor E func blockSize dynamicSMemSize)
      ''cudaOccupancyMaxActiveBlocksPerMultiprocessor'' [W func, I blockSize, W dynamicSMemSize]
      (\<lambda>outs. [Int32 (out32 E outs 0)])"
| "asks E (cudaOccupancyMaxActiveBlocksPerMultiprocessorWithFlags E func blockSize dynamicSMemSize flags)
      ''cudaOccupancyMaxActiveBlocksPerMultiprocessorWithFlags'' [W func, I blockSize, W dynamicSMemSize, I
      flags] (\<lambda>outs. [Int32 (out32 E outs 0)])"
| "asks E (cudaGetSymbolAddress E symbol) ''cudaGetSymbolAddress'' [W symbol] (\<lambda>outs. [Word64 (out64 E
      outs 0)])"
| "asks E (cudaGetSymbolSize E symbol) ''cudaGetSymbolSize'' [W symbol] (\<lambda>outs. [Word64 (out64 E outs 0)])"
| "asks E (cudaMemGetInfo E) ''cudaMemGetInfo'' [] (\<lambda>outs. [Word64 (out64 E outs 0), Word64 (out64 E
      outs 1)])"
| "asks E (cudaDeviceCanAccessPeer E device peerDevice) ''cudaDeviceCanAccessPeer'' [I device, I peerDevice]
      (\<lambda>outs. [Int32 (out32 E outs 0)])"
| "asks E (cudaDriverGetVersion E) ''cudaDriverGetVersion'' [] (\<lambda>outs. [Int32 (out32 E outs 0)])"
| "asks E (cudaRuntimeGetVersion E) ''cudaRuntimeGetVersion'' [] (\<lambda>outs. [Int32 (out32 E outs 0)])"

lemma rpc_answered:
  assumes "net c = []" and "h (remote c) = Inr (Reply vs, s)"
  shows "rpc h c = Inr ((RPC_SUCCESS, Some vs), c\<lparr>remote := s\<rparr>)"
  using assms by (simp add: rpc_def)

lemma int_rpc_answered:
  assumes "net c = []" and "h (remote c) = Inr (Reply [Int32 err], s)"
  shows "int_rpc E h c = Inr (err, c\<lparr>remote := s\<rparr>)"
  using rpc_answered [of c h, OF assms] by (simp add: int_rpc_def int_rpc_from_def err_of_def)

lemma value_rpc_answered:
  assumes "net c = []" and "h (remote c) = Inr (Reply (Int32 err # vs), s)"
  shows "value_rpc E unset h c = Inr ((err, if err = 0 then vs else []), c\<lparr>remote := s\<rparr>)"
  using rpc_answered [of c h, OF assms] by (simp add: value_rpc_def err_of_def)

text \<open>Every function of the first table is a logged call behind the plain stub.\<close>

lemma issued:
  "steady E \<Longrightarrow> 0 < sz \<Longrightarrow> sz \<le> 1024 \<Longrightarrow> fields_fit fs sz \<Longrightarrow>
   \<exists>h rq sz' fs'. int_rpc E (logged_call E rq0 sz fs name args) = int_rpc E h \<and> logs_call E h rq sz' fs' name args"
  "steady E \<Longrightarrow> \<exists>h rq sz' fs'. int_rpc E (logged_void E rq0 name) = int_rpc E h \<and> logs_call E h rq sz' fs' name []"
  using logged_call_logs logged_void_logs by blast+

lemma issues_logged:
  "issues E f name args \<Longrightarrow> steady E \<Longrightarrow> \<exists>h rq sz fs. f = int_rpc E h \<and> logs_call E h rq sz fs name args"
  by (induction rule: issues.induct; unfold client_functions runtime_handlers; rule issued; simp add: fields_fit_def)

lemma asks_query:
  "asks E f name args out \<Longrightarrow> \<exists>vs. f = value_rpc E vs (query_call E name args out)"
  by (induction rule: asks.induct; unfold client_functions runtime_handlers word_rpc_def word64_rpc_def; blast)

text \<open>The logged functions that are not in the table.\<close>

lemma enable_peer_disables:
  "steady E \<Longrightarrow> cudaDeviceEnablePeerAccess E peerDevice flags = cudaDeviceDisablePeerAccess E peerDevice \<and>
   (\<exists>h rq sz fs. cudaDeviceEnablePeerAccess E peerDevice flags = int_rpc E h \<and>
      logs_call E h rq sz fs ''cudaDeviceDisablePeerAccess'' [I peerDevice])"
  using issues_logged [OF issues.intros(21), of E peerDevice]
  by (simp add: cudaDeviceEnablePeerAccess_def cudaDeviceDisablePeerAccess_def)

lemma handle_passed_through:
  assumes "steady E"
  shows "\<exists>h rq sz fs. cudaFuncSetAttribute E func attr v = int_rpc E h \<and>
      logs_call E h rq sz fs ''cudaFuncSetAttribute'' [W func, I attr, I v]"
    and "\<exists>h rq sz fs. cudaFuncSetCacheConfig E func cacheConfig = int_rpc E h \<and>
      logs_call E h rq sz fs ''cudaFuncSetCacheConfig'' [W func, I cacheConfig]"
    and "\<exists>h rq sz fs. cudaFuncSetSharedMemConfig E func config = int_rpc E h \<and>
      logs_call E h rq sz fs ''cudaFuncSetSharedMemConfig'' [W func, I config]"
    and "\<exists>h rq sz fs. cudaMemPrefetchAsync E devPtr count dstDevice stream = int_rpc E h \<and>
      logs_call E h rq sz fs ''cudaMemPrefetchAsync'' [Handle rm_memory devPtr, W count, I dstDevice, W stream]"
  using assms
  by (unfold client_functions runtime_handlers; rule issued; simp add: fields_fit_def)+

section \<open>Properties\<close>

text \<open>C22: A function of the client that stands for a logged call behaves as the library on the server's
  device: when its request is answered and the handles can be translated, it returns the code of
  the library, leaves the device in the state of the library call with the translated arguments,
  changes nothing else on either side but the log, and that by one record with the code.\<close>

theorem client_forwards:
  assumes "issues E f name args" and "steady E" and "net c = []"
    and "list_rep (api_records (remote c)) xs" and "room (heap_ok E) (api_records (remote c))"
    and "\<forall>l. eval_args args ((remote c)\<lparr>api_records := l\<rparr>) = Inr (vals, (remote c)\<lparr>api_records := l\<rparr>)"
    and "cuda E name vals (gpu (remote c)) = (err, outs, d)"
  shows "\<exists>l r. f c = Inr (err, c\<lparr>remote := (remote c)\<lparr>api_records := l, gpu := d\<rparr>\<rparr>) \<and>
    list_rep l (xs @ [r]) \<and> result_lo r = set_low32 (result_lo (fresh_record E)) err"
proof -
  obtain h rq sz fs where h: "f = int_rpc E h" "logs_call E h rq sz fs name args"
    using issues_logged [OF assms(1,2)] by blast
  then obtain l where l: "h (remote c) = Inr (Reply [Int32 err], (remote c)\<lparr>api_records := l, gpu := d\<rparr>)"
    "list_rep l (xs @ [(call_record E rq sz (if sz = 0 then None
        else Some (put_fields fs (replicate sz (fresh_byte E)))))\<lparr>result_lo := set_low32 (result_lo (fresh_record E)) err\<rparr>])"
    using assms(4-7) unfolding logs_call_def by blast
  show ?thesis
    unfolding h(1) int_rpc_answered [of c h, OF assms(3) l(1)] using l(2) by (intro exI conjI) (rule refl, assumption, simp)
qed

theorem client_forwards_witness:
  "\<exists>l r. cudaMemset roomy_env 77 1 8 (client_on sample_server) =
      Inr (0, client_on (sample_server\<lparr>api_records := l, gpu := ()\<rparr>)) \<and>
    list_rep l [r] \<and> result_lo r = set_low32 (result_lo (fresh_record roomy_env)) 0"
proof -
  have get: "resource_mg_get fresh_mg q = Inr q" for q
    by (simp add: resource_mg_get_def resource_mg_search_map_def fresh_mg_def)
  have call: "issues roomy_env (cudaMemset roomy_env 77 1 8) ''cudaMemset'' [Handle rm_memory 77, I 1, W 8]"
    by (rule issues.intros)
  have ev: "\<forall>l. eval_args [Handle rm_memory 77, I 1, W 8] (sample_server\<lparr>api_records := l\<rparr>) =
      Inr ([Word64 77, Int32 1, Word64 8], sample_server\<lparr>api_records := l\<rparr>)"
    by (simp add: bind_h_def ret_h_def handle_def server_on_def get)
  have "room (heap_ok roomy_env) (api_records sample_server)" by (simp add: room_def server_on_def)
  from client_forwards [OF call roomy_steady, of "client_on sample_server" "[]"] this ev sample_log show ?thesis
    by (simp add: client_on_def roomy_env_def sample_env_def)
qed

text \<open>A function that only asks changes nothing on the server but the state of the device, and
  stores exactly the values of the library, or none when the library reports an error.\<close>

lemma client_asks:
  assumes "asks E f name args out" and "net c = []" and "eval_args args (remote c) = Inr (vals, remote c)"
    and "cuda E name vals (gpu (remote c)) = (err, outs, d)"
  shows "f c = Inr ((err, if err = 0 then out outs else []), c\<lparr>remote := (remote c)\<lparr>gpu := d\<rparr>\<rparr>)"
proof -
  obtain vs where f: "f = value_rpc E vs (query_call E name args out)" using asks_query [OF assms(1)] by blast
  have "query_call E name args out (remote c) = Inr (Reply (Int32 err # out outs), (remote c)\<lparr>gpu := d\<rparr>)"
    using assms(3,4) by (simp add: query_call_def lib_call_def bind_h_def cuda_call_def ret_h_def)
  then show ?thesis unfolding f using value_rpc_answered [of c, OF assms(2)] by simp
qed

end
