(* ===== verification/ClientProps.thy ===== *)
theory ClientProps
  imports ClientForwards
begin

text \<open>
  Properties of the client library and the server together: results the client remembers for
  ever, kernel launches by iteration, the round trip of a copy, and the copies that only one of
  the two sides counts.
\<close>

section \<open>Remembered results\<close>

text \<open>C28: What the client has once learned from \<open>cudaGetDevice\<close> and \<open>cudaGetLastError\<close> it returns for the
  rest of the run without asking the server, whatever is called in between: a later
  \<open>cudaSetDevice\<close> is not seen, and no later error is ever reported.\<close>

theorem remembered_results:
  assumes "client_ran E xfer c c'"
  shows "(recorded_count c \<noteq> - 1 \<longrightarrow> cudaGetDevice E c' = Inr ((0, [Int32 (recorded_count c)]), c')) \<and>
    (recorded_lasterror c \<noteq> - 1 \<longrightarrow> cudaGetLastError E c' = Inr (recorded_lasterror c, c'))"
  using ran_stays [OF assms]
  by (auto simp: stays_def cudaGetDevice_def cudaGetLastError_def bind_c_def get_c_def ret_c_def)

definition idle_transfer :: "unit transfer" where
  "idle_transfer dir port host n = ret_h (0, host)"

theorem remembered_results_witness:
  "\<exists>c'. client_ran roomy_env idle_transfer ((client_on sample_server)\<lparr>recorded_count := 0, recorded_lasterror := 0\<rparr>) c' \<and>
     effect (cudaSetDevice roomy_env 1) ((client_on sample_server)\<lparr>recorded_count := 0, recorded_lasterror := 0\<rparr>) = Inr c' \<and>
     cudaGetDevice roomy_env c' = Inr ((0, [Int32 0]), c') \<and> cudaGetLastError roomy_env c' = Inr (0, c')"
proof -
  let ?c = "(client_on sample_server)\<lparr>recorded_count := 0, recorded_lasterror := 0\<rparr>"
  have call: "issues roomy_env (cudaSetDevice roomy_env 1) ''cudaSetDevice'' [I 1]" by (rule issues.intros)
  have "room (heap_ok roomy_env) (api_records sample_server)" by (simp add: room_def server_on_def)
  then obtain h rq sz fs where h: "cudaSetDevice roomy_env 1 = int_rpc roomy_env h"
      "logs_call roomy_env h rq sz fs ''cudaSetDevice'' [I 1]" "room (heap_ok roomy_env) (api_records sample_server)"
    using issues_logged [OF call roomy_steady] by blast
  have "cuda roomy_env ''cudaSetDevice'' [Int32 1] (gpu sample_server) = (0, [Word64 4096], ())"
    by (simp add: roomy_env_def sample_env_def)
  then obtain l where "h sample_server = Inr (Reply [Int32 0], sample_server\<lparr>api_records := l, gpu := ()\<rparr>)"
    using h(2,3) sample_log unfolding logs_call_def by (auto simp: bind_h_def ret_h_def)
  then have run: "effect (cudaSetDevice roomy_env 1) ?c = Inr (?c\<lparr>remote := sample_server\<lparr>api_records := l, gpu := ()\<rparr>\<rparr>)"
    using int_rpc_answered [of ?c h] by (simp add: effect_def h(1) client_on_def)
  let ?c' = "?c\<lparr>remote := sample_server\<lparr>api_records := l, gpu := ()\<rparr>\<rparr>"
  have "client_call roomy_env idle_transfer (effect (cudaSetDevice roomy_env 1))" by (rule client_call.intros)
  with run have ran: "client_ran roomy_env idle_transfer ?c ?c'" by (blast intro: ran_call ran_start)
  then show ?thesis using remembered_results [OF ran] run by (intro exI [of _ ?c']) simp
qed

section \<open>Launches\<close>

lemma find_then_launch:
  assumes "find_kernel (kernel_infos c) func 0 (len (kernel_infos c)) = Inr (Some k)" and "pack_args E k args = Inr buf"
    and "net c = []"
    and "send \<lparr>l_func = func, l_grid = grid, l_block = block, l_args = \<lparr>mem_addr = fresh_word E, mem_val = buf\<rparr>,
      l_shared = shared, l_stream = stream\<rparr> (remote c) = Inr (r, s)"
  shows "launch_with E send func grid block args shared stream c =
    Inr (Inr (err_of (unset32 E) (case r of No_Reply \<Rightarrow> None | Reply vs \<Rightarrow> Some vs)), c\<lparr>remote := s\<rparr>)"
  using assms
  by (simp add: launch_with_def bind_c_def get_c_def lift_c_def int_rpc_def int_rpc_from_def rpc_def ret_c_def
      split: reply.split)

text \<open>C26: What a kernel launch of the application comes to, in any run of the client library: the kernel
  is found and its parameters are packed, and while the server is in its first iteration the
  launch is recorded and issued; before the first input and in every later iteration nothing is
  launched, nothing changes on the server, and the code returned is an uninitialised variable.\<close>

theorem client_launch_by_iteration:
  assumes "client_ran E xfer c0 c" and "\<forall>dir port host n. keeps_inv (xfer dir port host n)"
    and "replay_inv (remote c0)" and "cl_operator_count c0 = 0"
    and "find_kernel (kernel_infos c) func 0 (len (kernel_infos c)) = Inr (Some k)" and "pack_args E k args = Inr buf"
    and "net c = []"
    and "l = \<lparr>l_func = func, l_grid = grid, l_block = block, l_args = \<lparr>mem_addr = fresh_word E, mem_val = buf\<rparr>,
      l_shared = shared, l_stream = stream\<rparr>"
  shows "(input_times (remote c) \<noteq> 1 \<longrightarrow>
      cudaLaunchKernel E func grid block args shared stream c =
        Inr (unset32 E, c\<lparr>recorded_operator_result := unset32 E\<rparr>)) \<and>
    (input_times (remote c) = 1 \<longrightarrow>
      (\<forall>e s. replay_each_operator E 317 l ((remote c)\<lparr>recorded_calls := (recorded_calls (remote c))[0 := l]\<rparr>) =
          Inr (Reply [Int32 e], s) \<longrightarrow> fresh_int E \<noteq> 0 \<longrightarrow>
        cudaLaunchKernel E func grid block args shared stream c =
          Inr (e, c\<lparr>remote := s, recorded_operator_result := e\<rparr>)))"
proof -
  have inv: "replay_inv (remote c)" "cl_operator_count c = 0"
    using ran_replay [OF assms(1) _ assms(3,4)] assms(2) by blast+
  then have srv: "operator_count (remote c) = 0" "0 < length (recorded_calls (remote c))"
    by (simp_all add: replay_inv_def)
  have one: "cudaLaunchKernel E func grid block args shared stream c =
      Inr (e, c\<lparr>remote := s, recorded_operator_result := e\<rparr>)"
    if "cuda_launch_kernel_1_svc E 317 l (remote c) = Inr (r, s)"
      "e = err_of (unset32 E) (case r of No_Reply \<Rightarrow> None | Reply vs \<Rightarrow> Some vs)" for e r s
    using find_then_launch [OF assms(5,6,7), of "cuda_launch_kernel_1_svc E 317" grid block shared stream r s] that inv(2) assms(8)
    by (simp add: cudaLaunchKernel_def bind_c_def get_c_def set_c_def ret_c_def)
  show ?thesis
  proof (intro conjI impI allI)
    assume "input_times (remote c) \<noteq> 1"
    then have "cuda_launch_kernel_1_svc E 317 l (remote c) =
        Inr (if fresh_int E = 0 then No_Reply else Reply [Int32 (unset32 E)], remote c)"
      using srv by (simp add: cuda_launch_kernel_1_svc_def bind_h_def get_s_def ret_h_def unset32_def)
    from one [OF this, of "unset32 E"] show "cudaLaunchKernel E func grid block args shared stream c =
        Inr (unset32 E, c\<lparr>recorded_operator_result := unset32 E\<rparr>)"
      by (simp add: err_of_def)
  next
    fix e s
    assume first: "input_times (remote c) = 1" and fresh: "fresh_int E \<noteq> 0"
      and run: "replay_each_operator E 317 l ((remote c)\<lparr>recorded_calls := (recorded_calls (remote c))[0 := l]\<rparr>) =
        Inr (Reply [Int32 e], s)"
    have "cuda_launch_kernel_1_svc E 317 l (remote c) = Inr (Reply [Int32 e], s)"
      using srv first fresh run by (simp add: cuda_launch_kernel_1_svc_def bind_h_def get_s_def modify_s_def ret_h_def)
    from one [OF this, of e] show "cudaLaunchKernel E func grid block args shared stream c =
        Inr (e, c\<lparr>remote := s, recorded_operator_result := e\<rparr>)"
      by (simp add: err_of_def)
  qed
qed

definition plain_kernel :: kernel_info where
  "plain_kernel = \<lparr>k_name = ''k'', param_size = 0, param_num = 0, param_offsets = [], param_sizes = [], host_fun = Some 77\<rparr>"

definition launching_client :: "unit client" where
  "launching_client = (client_on (output_server 1))\<lparr>kernel_infos :=
     \<lparr>elements = Buf [Some plain_kernel], len = 1, capacity = 1, element_size = 48\<rparr>\<rparr>"

lemma plain_kernel_ready:
  "find_kernel (kernel_infos launching_client) 77 0 (len (kernel_infos launching_client)) = Inr (Some plain_kernel)"
  "pack_args roomy_env plain_kernel [] = Inr (le_bytes 8 0)"
proof -
  show "find_kernel (kernel_infos launching_client) 77 0 (len (kernel_infos launching_client)) = Inr (Some plain_kernel)"
    by (simp add: launching_client_def plain_kernel_def list_at_def list_get_def elem_at_def)
  have "put_block 0 (le_bytes 8 0) (replicate 8 (fresh_byte roomy_env)) = Inr (le_bytes 8 0)"
    "put_block 8 [] (le_bytes 8 0) = Inr (le_bytes 8 0)"
    by (simp_all add: put_block_def blit_def)
  then show "pack_args roomy_env plain_kernel [] = Inr (le_bytes 8 0)"
    by (simp add: pack_args_def plain_kernel_def roomy_env_def glibc_def)
qed

theorem client_launch_by_iteration_witness:
  "\<forall>grid block. cudaLaunchKernel roomy_env 77 grid block [] 0 0 launching_client =
     Inr (99, launching_client\<lparr>recorded_operator_result := 99\<rparr>)"
proof (intro allI)
  fix grid block
  have keeps: "\<forall>dir port host n. keeps_inv (idle_transfer dir port host n)"
    by (simp add: idle_transfer_def keeps_intros)
  have state: "replay_inv (remote launching_client)" "cl_operator_count launching_client = 0" "net launching_client = []"
    "input_times (remote launching_client) \<noteq> 1"
    using output_server_inv [of 1] by (simp_all add: launching_client_def client_on_def output_server_def)
  have "unset32 roomy_env = 99" by (simp add: unset32_def roomy_env_def sample_env_def)
  then show "cudaLaunchKernel roomy_env 77 grid block [] 0 0 launching_client =
      Inr (99, launching_client\<lparr>recorded_operator_result := 99\<rparr>)"
    using client_launch_by_iteration [OF ran_start keeps state(1,2) plain_kernel_ready state(3) refl] state(4) by simp
qed

section \<open>Copies\<close>

text \<open>
  A device that is a memory: a copy to it changes the bytes from the address on, a copy from it
  yields them. The library gets the address of the server's buffer in the second case.
\<close>

definition stores_bytes :: "'d env \<Rightarrow> ('d \<Rightarrow> u64 \<Rightarrow> u8) \<Rightarrow> bool" where
  "stores_bytes E bytes \<longleftrightarrow> byte_device E bytes \<and>
     (\<forall>d a p n. \<exists>d'. cuda E ''cudaMemcpy'' [Word64 a, Word64 p, Word64 n, Int32 2] d =
        (0, [Bytes (map (\<lambda>i. bytes d (p + of_nat i)) [0..<unat n])], d') \<and> bytes d' = bytes d)"

text \<open>A pointer to plain host memory, and a size copied by one request.\<close>

definition plain_pointer :: "'d client \<Rightarrow> u64 \<Rightarrow> bool" where
  "plain_pointer c p \<longleftrightarrow> getindex_loop (cl_hainfo c) p 0 (cl_hainfo_cnt c) = Inr None"

definition plain_size :: "u64 \<Rightarrow> bool" where
  "plain_size n \<longleftrightarrow> n \<le> 2 * MT_MEMCPY_MEM_PER_THREAD"

text \<open>The counters of both sides agree.\<close>

definition in_step :: "'d client \<Rightarrow> bool" where
  "in_step c \<longleftrightarrow> cl_input_times c = input_times (remote c) \<and> cl_output_times c = output_times (remote c)"

text \<open>The address the server copies an input to.\<close>

definition slot_address :: "'d server \<Rightarrow> u64 \<Rightarrow> u64" where
  "slot_address s dst = (if output_times s = 0 then dst else input_address s ! nat (input_count s))"

lemma input_slot_address:
  assumes "0 \<le> input_count s" and "input_count s < int (length (input_address s))"
  obtains s' where "input_slot dst s = Inr (slot_address s dst, s')"
    and "api_records s' = api_records s" and "rm_memory s' = rm_memory s" and "gpu s' = gpu s"
    and "output_times s' = output_times s"
    and "input_times s' = (if input_times s = output_times s then input_times s + 1 else input_times s)"
  using assms by (intro that [of "snd (projr (input_slot dst s))"])
    (auto simp: input_slot_def slot_address_def Let_def)

lemma htod_runs:
  assumes "steady E" and "byte_device E bytes" and "length bs = unat count"
    and "list_rep (api_records s) xs" and "room (heap_ok E) (api_records s)"
    and "0 \<le> input_count s" and "input_count s < int (length (input_address s))"
    and "resource_mg_get (rm_memory s) (slot_address s dst) = Inr g"
  obtains s' where "cuda_memcpy_htod_1_svc E rq dst \<lparr>mem_addr = a, mem_val = bs\<rparr> count s = Inr (Reply [Int32 0], s')"
    and "rm_memory s' = rm_memory s" and "output_times s' = output_times s"
    and "input_times s' = (if input_times s = output_times s then input_times s + 1 else input_times s)"
    and "\<And>i. i < unat count \<Longrightarrow> bytes (gpu s') (g + of_nat i) = bs ! i"
proof -
  obtain s1 where s1: "input_slot dst s = Inr (slot_address s dst, s1)" "api_records s1 = api_records s"
    "rm_memory s1 = rm_memory s" "gpu s1 = gpu s" "output_times s1 = output_times s"
    "input_times s1 = (if input_times s = output_times s then input_times s + 1 else input_times s)"
    using input_slot_address [OF assms(6,7)] by metis
  let ?fs = "[(0, i64 (slot_address s dst)), (8, i32 (of_nat (length bs))), (16, i64 a), (24, i64 count)]"
  let ?args = "[Handle rm_memory (slot_address s dst), Val (Bytes bs), W count, I 1]"
  have fit: "fields_fit ?fs 32" "list_rep (api_records s1) xs" "room (heap_ok E) (api_records s1)" "(32 :: nat) \<le> 1024"
    using assms(4,5) s1(2) by (simp_all add: fields_fit_def)
  obtain l2 where l2: "recorded E rq 32 ?fs (int_call E ''cudaMemcpy'' ?args) s1 =
      int_call E ''cudaMemcpy'' ?args (length xs) (s1\<lparr>api_records := l2\<rparr>)"
    "list_rep l2 (xs @ [call_record E rq 32 (Some (put_fields ?fs (replicate 32 (fresh_byte E))))])"
    by (rule recorded_opens [OF assms(1) fit(4,1-3), of rq "int_call E ''cudaMemcpy'' ?args"])
  have htod: "cuda_memcpy_htod_1_svc E rq dst \<lparr>mem_addr = a, mem_val = bs\<rparr> count s =
      recorded E rq 32 ?fs (int_call E ''cudaMemcpy'' ?args) s1"
    by (simp only: cuda_memcpy_htod_1_svc_def bind_h_def s1(1) bind_r.simps prod.case mem_data.select_convs assms(3)
        simp_thms if_False)
  have size: "of_nat (length bs) = count" using assms(3) by simp
  have "\<exists>outs d. cuda E ''cudaMemcpy'' [Word64 g, Bytes bs, Word64 (of_nat (length bs)), Int32 1] (gpu s1) = (0, outs, d) \<and>
      (\<forall>q. bytes d q = (if unat (q - g) < length bs then bs ! unat (q - g) else bytes (gpu s1) q))"
    using assms(2) unfolding byte_device_def by blast
  then obtain outs d where d: "cuda E ''cudaMemcpy'' [Word64 g, Bytes bs, Word64 count, Int32 1] (gpu s1) = (0, outs, d)"
    "\<And>q. bytes d q = (if unat (q - g) < length bs then bs ! unat (q - g) else bytes (gpu s1) q)"
    unfolding size by blast
  have ev: "eval_args ?args (s1\<lparr>api_records := l2\<rparr>) =
      Inr ([Word64 g, Bytes bs, Word64 count, Int32 1], s1\<lparr>api_records := l2\<rparr>)"
    using assms(8) s1(3) by (simp add: bind_h_def ret_h_def handle_def)
  have at: "list_rep (api_records (s1\<lparr>api_records := l2\<rparr>))
      (xs @ [call_record E rq 32 (Some (put_fields ?fs (replicate 32 (fresh_byte E))))])"
    "cuda E ''cudaMemcpy'' [Word64 g, Bytes bs, Word64 count, Int32 1] (gpu (s1\<lparr>api_records := l2\<rparr>)) = (0, outs, d)"
    using l2(2) d(1) by simp_all
  obtain l where "int_call E ''cudaMemcpy'' ?args (length xs) (s1\<lparr>api_records := l2\<rparr>) =
      Inr (Reply [Int32 0], s1\<lparr>api_records := l2, api_records := l, gpu := d\<rparr>)"
    by (rule int_call_last [OF at(1) ev at(2)])
  then have run: "cuda_memcpy_htod_1_svc E rq dst \<lparr>mem_addr = a, mem_val = bs\<rparr> count s =
      Inr (Reply [Int32 0], s1\<lparr>api_records := l, gpu := d\<rparr>)"
    unfolding htod l2(1) by simp
  have "bytes d (g + of_nat i) = bs ! i" if "i < unat count" for i
  proof -
    have "i < 2 ^ 64" using that unat_u64_less [of count] by simp
    then have "unat (of_nat i :: u64) = i" by (simp add: unsigned_of_nat take_bit_nat_eq_self)
    then show ?thesis using that d(2) assms(3) by simp
  qed
  with run s1 show thesis by (intro that [of "s1\<lparr>api_records := l, gpu := d\<rparr>"]) simp_all
qed

lemma to_device:
  assumes "steady E" and "stores_bytes E bytes" and "net c = []" and "plain_pointer c src" and "plain_size count"
    and "unat count \<le> length host" and "list_rep (api_records (remote c)) xs" and "room (heap_ok E) (api_records (remote c))"
    and "0 \<le> input_count (remote c)" and "input_count (remote c) < int (length (input_address (remote c)))"
    and "resource_mg_get (rm_memory (remote c)) (slot_address (remote c) dst) = Inr g"
  obtains c1 where "cudaMemcpy E xfer fuel dst src host count 1 c = Inr ((0, host), c1)"
    and "net c1 = []" and "cl_hainfo c1 = cl_hainfo c" and "cl_hainfo_cnt c1 = cl_hainfo_cnt c"
    and "rm_memory (remote c1) = rm_memory (remote c)" and "in_step c \<Longrightarrow> in_step c1"
    and "\<And>i. i < unat count \<Longrightarrow> bytes (gpu (remote c1)) (g + of_nat i) = host ! i"
proof -
  have dev: "byte_device E bytes" and len: "length (take (unat count) host) = unat count"
    using assms(2,6) by (simp_all add: stores_bytes_def)
  obtain s where s: "cuda_memcpy_htod_1_svc E 440 dst \<lparr>mem_addr = fresh_word E, mem_val = take (unat count) host\<rparr> count
      (remote c) = Inr (Reply [Int32 0], s)" "rm_memory s = rm_memory (remote c)" "output_times s = output_times (remote c)"
    "input_times s = (if input_times (remote c) = output_times (remote c) then input_times (remote c) + 1 else input_times (remote c))"
    "\<And>i. i < unat count \<Longrightarrow> bytes (gpu s) (g + of_nat i) = take (unat count) host ! i"
    using htod_runs [OF assms(1) dev len assms(7-11)] by metis
  define c' where "c' = (if cl_input_times c = cl_output_times c
    then c\<lparr>cl_input_times := cl_input_times c + 1, cl_operator_count := 0\<rparr> else c)"
  have c': "net c' = []" "remote c' = remote c" "cl_hainfo c' = cl_hainfo c" "cl_hainfo_cnt c' = cl_hainfo_cnt c"
    "cl_output_times c' = cl_output_times c"
    "cl_input_times c' = (if cl_input_times c = cl_output_times c then cl_input_times c + 1 else cl_input_times c)"
    using assms(3) by (simp_all add: c'_def)
  have "rpc (cuda_memcpy_htod_1_svc E 440 dst \<lparr>mem_addr = fresh_word E, mem_val = take (unat count) host\<rparr> count) c' =
      Inr ((RPC_SUCCESS, Some [Int32 0]), c'\<lparr>remote := s\<rparr>)"
    using rpc_answered [of c', OF c'(1)] s(1) c'(2) by simp
  moreover have "begin_iteration c = Inr ((), c')" by (simp add: begin_iteration_def set_c_def c'_def)
  moreover have "hainfo_getindex src c' = Inr (None, c')"
    using assms(4) c' by (simp add: hainfo_getindex_def bind_c_def get_c_def lift_c_def plain_pointer_def)
  ultimately have "cudaMemcpy E xfer fuel dst src host count 1 c = Inr ((0, host), c'\<lparr>remote := s\<rparr>)"
    using assms(5,6)
    by (simp add: cudaMemcpy_def copy_to_device_def bind_c_def int_rpc_from_def err_of_def ret_c_def plain_size_def not_less [symmetric])
  then show thesis
    by (rule that) (use c' s in \<open>auto simp: in_step_def\<close>)
qed

lemma from_device:
  assumes "stores_bytes E bytes" and "net c = []" and "plain_pointer c dst" and "plain_size count"
    and "unat count \<le> length host" and "resource_mg_get (rm_memory (remote c)) src = Inr g"
  obtains c1 where "cudaMemcpy E xfer fuel dst src host count 2 c =
      Inr ((0, map (\<lambda>i. bytes (gpu (remote c)) (g + of_nat i)) [0..<unat count] @ drop (unat count) host), c1)"
    and "in_step c \<Longrightarrow> in_step c1" and "bytes (gpu (remote c1)) = bytes (gpu (remote c))"
proof -
  define c' where "c' = (if cl_input_times c \<noteq> cl_output_times c then c\<lparr>cl_output_times := cl_output_times c + 1\<rparr> else c)"
  have c': "net c' = []" "remote c' = remote c" "cl_hainfo c' = cl_hainfo c" "cl_hainfo_cnt c' = cl_hainfo_cnt c"
    "cl_input_times c' = cl_input_times c"
    "cl_output_times c' = (if cl_input_times c \<noteq> cl_output_times c then cl_output_times c + 1 else cl_output_times c)"
    using assms(2) by (simp_all add: c'_def)
  let ?bs = "map (\<lambda>i. bytes (gpu (remote c)) (g + of_nat i)) [0..<unat count]"
  define a where "a = (if heap_ok E (unat count) then fresh_word E else 0)"
  define s where "s = (if input_times (remote c) \<noteq> output_times (remote c)
    then (remote c)\<lparr>output_times := output_times (remote c) + 1, input_count := 0\<rparr> else remote c)"
  have s: "gpu s = gpu (remote c)" "rm_memory s = rm_memory (remote c)" by (simp_all add: s_def)
  obtain d where d: "cuda E ''cudaMemcpy'' [Word64 a, Word64 g, Word64 count, Int32 2] (gpu s) = (0, [Bytes ?bs], d)"
    "bytes d = bytes (gpu (remote c))"
    using assms(1) s(1) unfolding stores_bytes_def by metis
  have "out_bytes E [Bytes ?bs] 0 (unat count) = ?bs" by (simp add: out_bytes_def)
  then have run: "cuda_memcpy_dtoh_1_svc E src count (remote c) = Inr (Reply [Int32 0, Bytes ?bs], s\<lparr>gpu := d\<rparr>)"
    using assms(6) d(1) s
    by (simp add: cuda_memcpy_dtoh_1_svc_def bind_h_def count_output_def modify_s_def s_def [symmetric] a_def [symmetric]
        lib_call_def ret_h_def handle_def cuda_call_def)
  then have "rpc (cuda_memcpy_dtoh_1_svc E src count) c' =
      Inr ((RPC_SUCCESS, Some [Int32 0, Bytes ?bs]), c'\<lparr>remote := s\<lparr>gpu := d\<rparr>\<rparr>)"
    using rpc_answered [of c', OF c'(1)] c'(2) by simp
  moreover have "end_iteration c = Inr ((), c')" by (simp add: end_iteration_def set_c_def c'_def)
  moreover have "hainfo_getindex dst c' = Inr (None, c')"
    using assms(3) c' by (simp add: hainfo_getindex_def bind_c_def get_c_def lift_c_def plain_pointer_def)
  ultimately have "cudaMemcpy E xfer fuel dst src host count 2 c =
      Inr ((0, ?bs @ drop (unat count) host), c'\<lparr>remote := s\<lparr>gpu := d\<rparr>\<rparr>)"
    using assms(4,5)
    by (simp add: cudaMemcpy_def copy_from_device_def bind_c_def ret_c_def plain_size_def not_less [symmetric])
  then show thesis
    by (rule that) (use c' d(2) in \<open>auto simp: in_step_def s_def\<close>)
qed

text \<open>C27: A buffer copied to the device comes back unchanged, through both libraries: in the first
  iteration from the address it was copied to, in every later one from the address that the
  first iteration has remembered for this input, which is where the server puts it whatever the
  application says. Both copies return success, and the counters of client and server stay in
  step.\<close>

theorem copy_round_trip:
  assumes "steady E" and "stores_bytes E bytes" and "net c = []" and "plain_pointer c src" and "plain_pointer c dst'"
    and "plain_size count" and "unat count \<le> length host" and "unat count \<le> length host'"
    and "list_rep (api_records (remote c)) xs" and "room (heap_ok E) (api_records (remote c))"
    and "0 \<le> input_count (remote c)" and "input_count (remote c) < int (length (input_address (remote c)))"
    and "resource_mg_get (rm_memory (remote c)) (slot_address (remote c) dst) = Inr g" and "in_step c"
  shows "\<exists>c1 c2. cudaMemcpy E xfer fuel dst src host count 1 c = Inr ((0, host), c1) \<and>
    cudaMemcpy E xfer fuel dst' (slot_address (remote c) dst) host' count 2 c1 =
      Inr ((0, take (unat count) host @ drop (unat count) host'), c2) \<and> in_step c1 \<and> in_step c2"
proof -
  obtain c1 where c1: "cudaMemcpy E xfer fuel dst src host count 1 c = Inr ((0, host), c1)"
    "net c1 = []" "cl_hainfo c1 = cl_hainfo c" "cl_hainfo_cnt c1 = cl_hainfo_cnt c"
    "rm_memory (remote c1) = rm_memory (remote c)" "in_step c1"
    "\<And>i. i < unat count \<Longrightarrow> bytes (gpu (remote c1)) (g + of_nat i) = host ! i"
    using to_device [OF assms(1-4,6,7,9-13)] assms(14) by metis
  have "plain_pointer c1 dst'" "resource_mg_get (rm_memory (remote c1)) (slot_address (remote c) dst) = Inr g"
    using assms(5,13) c1(3-5) by (simp_all add: plain_pointer_def)
  then obtain c2 where "cudaMemcpy E xfer fuel dst' (slot_address (remote c) dst) host' count 2 c1 =
      Inr ((0, map (\<lambda>i. bytes (gpu (remote c1)) (g + of_nat i)) [0..<unat count] @ drop (unat count) host'), c2)" "in_step c2"
    using from_device [OF assms(2) c1(2) _ assms(6,8)] c1(6) by metis
  moreover have "map (\<lambda>i. bytes (gpu (remote c1)) (g + of_nat i)) [0..<unat count] = take (unat count) host"
    using c1(7) assms(7) by (intro nth_equalityI) simp_all
  ultimately show ?thesis using c1(1,6) by auto
qed

text \<open>A device with a byte at every address, behind plain managers.\<close>

definition store_env :: "(u64 \<Rightarrow> u8) env" where
  "store_env = plain_env\<lparr>heap_ok := glibc (\<lambda>_. True), cuda := (\<lambda>f args d. case args of
     [Word64 p, Bytes bs, _, _] \<Rightarrow> (0, [], \<lambda>q. if unat (q - p) < length bs then bs ! unat (q - p) else d q)
   | [_, Word64 p, Word64 n, _] \<Rightarrow> (0, [Bytes (map (\<lambda>i. d (p + of_nat i)) [0..<unat n])], d)
   | _ \<Rightarrow> (0, [], d))\<rparr>"

lemma store_env_ready: "steady store_env" "stores_bytes store_env (\<lambda>d. d)"
  by (auto simp: steady_def store_env_def glibc_def alloc_bounded_def stores_bytes_def byte_device_def)

lemma store_client_ready:
  "list_rep (api_records (server_on d)) []" "room (heap_ok store_env) (api_records (server_on d))"
  "plain_pointer (client_on s) p" "resource_mg_get fresh_mg q = Inr q" "in_step (client_on (server_on d))"
  by (simp_all add: server_on_def list_rep_def list_wf_def list_abs_def room_def plain_pointer_def client_on_def
      resource_mg_get_def resource_mg_search_map_def fresh_mg_def in_step_def)

theorem copy_round_trip_witness:
  "\<exists>c1 c2. cudaMemcpy store_env (\<lambda>_ _ host _. ret_h (0, host)) 1 4096 64 [1, 2, 3] 3 1 (client_on (server_on (\<lambda>_. 0))) =
      Inr ((0, [1, 2, 3]), c1) \<and>
    cudaMemcpy store_env (\<lambda>_ _ host _. ret_h (0, host)) 1 80 4096 [9, 9, 9, 9] 3 2 c1 = Inr ((0, [1, 2, 3, 9]), c2)"
proof -
  let ?c = "client_on (server_on (\<lambda>_. 0)) :: (u64 \<Rightarrow> u8) client"
  have size: "plain_size 3" by (simp add: plain_size_def MT_MEMCPY_MEM_PER_THREAD_def)
  have slot: "slot_address (remote ?c) 4096 = 4096" "remote ?c = server_on (\<lambda>_. 0)" "net ?c = []"
    by (simp_all add: slot_address_def client_on_def server_on_def)
  have map: "resource_mg_get (rm_memory (remote ?c)) (slot_address (remote ?c) 4096) = Inr 4096"
    "0 \<le> input_count (remote ?c)" "input_count (remote ?c) < int (length (input_address (remote ?c)))"
    unfolding slot using store_client_ready(4) by (simp_all add: server_on_def slot_address_def)
  have three: "unat (3 :: u64) \<le> length [1, 2, 3 :: u8]" "unat (3 :: u64) \<le> length [9, 9, 9, 9 :: u8]" by simp_all
  have log: "list_rep (api_records (remote ?c)) []" "room (heap_ok store_env) (api_records (remote ?c))"
    unfolding slot by (rule store_client_ready)+
  show ?thesis
    using copy_round_trip [where xfer = "\<lambda>_ _ host _. ret_h (0, host)" and fuel = 1 and src = 64 and dst' = 80,
        OF store_env_ready slot(3) store_client_ready(3,3) size three log map(2,3,1) store_client_ready(5)]
    unfolding slot(1) by (simp del: One_nat_def) blast
qed

text \<open>A copy to a constant of the device is an input for the server and none for the client: after it
  the server is in an iteration of its own. It also takes a place in the list of remembered
  addresses, and in later iterations goes to the address found there.\<close>

lemma symbol_copy_diverges:
  assumes "steady E" and "byte_device E bytes" and "net c = []" and "plain_pointer c src"
    and "unat count \<le> length host" and "unat count < 2 ^ 32"
    and "list_rep (api_records (remote c)) xs" and "room (heap_ok E) (api_records (remote c))"
    and "0 \<le> input_count (remote c)" and "input_count (remote c) < int (length (input_address (remote c)))"
    and "resource_mg_get (rm_globals (remote c)) symbol = Inr a" and "a \<noteq> 0"
    and "resource_mg_get (rm_memory (remote c)) (slot_address (remote c) (a + offset)) = Inr g"
    and "in_step c" and "cl_input_times c = cl_output_times c"
  shows "\<exists>c'. cudaMemcpyToSymbol E symbol src host count offset 1 c = Inr (0, c') \<and>
    (\<forall>i < unat count. bytes (gpu (remote c')) (g + of_nat i) = host ! i) \<and>
    cl_input_times c' = cl_output_times c' \<and> input_times (remote c') = output_times (remote c') + 1"
proof -
  have len: "length (take (unat count) host) = unat count" using assms(5) by simp
  obtain s where s: "cuda_memcpy_htod_1_svc E 445 (a + offset) \<lparr>mem_addr = fresh_word E, mem_val = take (unat count) host\<rparr>
      count (remote c) = Inr (Reply [Int32 0], s)" "output_times s = output_times (remote c)"
    "input_times s = (if input_times (remote c) = output_times (remote c) then input_times (remote c) + 1 else input_times (remote c))"
    "\<And>i. i < unat count \<Longrightarrow> bytes (gpu s) (g + of_nat i) = take (unat count) host ! i"
    using htod_runs [OF assms(1,2) len assms(7-10,13)] by metis
  have "cuda_memcpy_to_symbol_1_svc E 445 symbol \<lparr>mem_addr = fresh_word E, mem_val = take (unat count) host\<rparr> count offset
      (remote c) = Inr (Reply [Int32 0], s)"
    using s(1) assms(11,12) by (simp add: cuda_memcpy_to_symbol_1_svc_def bind_h_def handle_def)
  then have "rpc (cuda_memcpy_to_symbol_1_svc E 445 symbol \<lparr>mem_addr = fresh_word E, mem_val = take (unat count) host\<rparr>
      count offset) c = Inr ((RPC_SUCCESS, Some [Int32 0]), c\<lparr>remote := s\<rparr>)"
    using rpc_answered [of c, OF assms(3)] by simp
  moreover have "hainfo_getindex src c = Inr (None, c)"
    using assms(4) by (simp add: hainfo_getindex_def bind_c_def get_c_def lift_c_def plain_pointer_def)
  ultimately have "cudaMemcpyToSymbol E symbol src host count offset 1 c = Inr (0, c\<lparr>remote := s\<rparr>)"
    using assms(5,6) by (simp add: cudaMemcpyToSymbol_def bind_c_def int_rpc_from_def err_of_def ret_c_def)
  then show ?thesis using s assms(14,15) by (intro exI [of _ "c\<lparr>remote := s\<rparr>"]) (simp add: in_step_def)
qed

end
