(* ===== verification/ProtocolTypes.thy ===== *)
theory ProtocolTypes
  imports Replay Runs
begin

text \<open>
  The types of the replies. \<open>cpu/cpu_rpc_prot.x\<close> declares a result type for every procedure, from
  which rpcgen makes the routine that encodes the result: a reply of another shape cannot be sent.
  \<open>result_type p\<close> is the declared type of procedure \<open>p\<close>, \<open>has_type\<close> says that a reply can be encoded
  with a type, and \<open>replies t h\<close> that every reply of a handler can.
\<close>

section \<open>Types of the protocol\<close>

text \<open>
  \<open>int\<close> and \<open>float\<close> take 32 bits, \<open>hyper\<close> and \<open>double\<close> 64; \<open>opaque\<close> data has a fixed (\<open>X_opaque\<close>) or
  any length (\<open>X_data\<close>); a string may have a maximal length. A result is a value (\<open>Plain\<close>) or a union
  over the error code, whose data is sent only with code 0 (\<open>On_Success\<close>).
\<close>

datatype xdr_type = X_int | X_hyper | X_opaque nat | X_data | X_string "nat option"

datatype result_type = Plain "xdr_type list" | On_Success "xdr_type list"

fun fits :: "xdr_type \<Rightarrow> cval \<Rightarrow> bool" where
  "fits X_int (Int32 w) = True"
| "fits X_hyper (Word64 w) = True"
| "fits (X_opaque n) (Bytes bs) = (length bs = n)"
| "fits X_data (Bytes bs) = True"
| "fits (X_string m) (Text t) = (case m of None \<Rightarrow> True | Some n \<Rightarrow> length t \<le> n)"
| "fits _ _ = False"

fun has_type :: "result_type \<Rightarrow> reply \<Rightarrow> bool" where
  "has_type _ No_Reply = True"
| "has_type (Plain ts) (Reply vs) = list_all2 fits ts vs"
| "has_type (On_Success ts) (Reply (Int32 err # vs)) = (err = 0 \<longrightarrow> list_all2 fits ts vs)"
| "has_type (On_Success ts) (Reply vs) = False"

definition int_reply :: result_type where "int_reply = Plain [X_int]"
definition size_reply :: result_type where "size_reply = Plain [X_hyper]"
definition string_reply :: result_type where "string_reply = Plain [X_string None]"
definition int_result :: result_type where "int_result = On_Success [X_int]"
definition dint_result :: result_type where "dint_result = On_Success [X_int, X_int]"
definition float_result :: result_type where "float_result = On_Success [X_int]"
definition d_result :: result_type where "d_result = On_Success [X_hyper]"
definition u64_result :: result_type where "u64_result = On_Success [X_hyper]"
definition dsz_result :: result_type where "dsz_result = On_Success [X_hyper, X_hyper]"
definition sz_result :: result_type where "sz_result = On_Success [X_hyper]"
definition ptr_result :: result_type where "ptr_result = On_Success [X_hyper]"
definition pptr_result :: result_type where "pptr_result = On_Success [X_hyper, X_hyper, X_hyper, X_hyper]"
definition str_result :: result_type where "str_result = On_Success [X_string (Some 128)]"
definition ptrsz_result :: result_type where "ptrsz_result = On_Success [X_hyper, X_hyper]"
definition matmul_hr_result :: result_type where "matmul_hr_result = On_Success [X_opaque 96, X_int]"
definition mem_result :: result_type where "mem_result = On_Success [X_data]"
definition cuda_device_prop_result :: result_type where "cuda_device_prop_result = On_Success [X_opaque 728]"
definition int4_result :: result_type where "int4_result = On_Success (replicate 4 X_int)"
definition int6_result :: result_type where "int6_result = On_Success (replicate 6 X_int)"
definition int8_result :: result_type where "int8_result = On_Success (replicate 8 X_int)"
definition int9_result :: result_type where "int9_result = On_Success (replicate 9 X_int)"
definition int2d1_result :: result_type where "int2d1_result = On_Success [X_int, X_int, X_hyper]"
definition int1d3_result :: result_type where "int1d3_result = On_Success [X_int, X_hyper, X_hyper, X_hyper]"

lemmas result_type_defs =
  int_reply_def size_reply_def string_reply_def int_result_def dint_result_def float_result_def
  d_result_def u64_result_def dsz_result_def sz_result_def ptr_result_def pptr_result_def str_result_def
  ptrsz_result_def matmul_hr_result_def mem_result_def cuda_device_prop_result_def int4_result_def
  int6_result_def int8_result_def int9_result_def int2d1_result_def int1d3_result_def

section \<open>The procedures\<close>

definition runtime_types :: "(nat \<times> result_type) list" where
  "runtime_types =
     [(101, int_result), (102, int_result), (103, int_result), (104, int_result), (105, u64_result),
      (107, int_result), (108, str_result), (109, int_result), (110, dint_result), (111, u64_result),
      (112, int_reply), (113, int_reply), (114, int_reply), (115, int_reply), (116, int_reply),
      (117, int_result), (118, int_result), (119, int_result), (120, cuda_device_prop_result),
      (126, int_reply), (127, int_reply), (128, int_reply), (140, str_result), (141, str_result),
      (142, int_reply), (143, int_reply), (250, int_reply), (254, int_reply), (255, ptr_result),
      (256, ptr_result), (257, ptr_result), (258, int_reply), (262, int_result), (263, int_result),
      (264, int_result), (265, int_reply), (267, int_reply), (268, int_reply), (269, int_result),
      (280, ptr_result), (281, ptr_result), (282, int_reply), (283, float_result), (284, int_reply),
      (285, int_reply), (286, int_reply), (287, int_reply), (310, mem_result), (311, int_reply),
      (312, int_reply), (313, int_reply), (314, int_reply), (317, int_reply), (330, u64_result),
      (331, int_result), (332, int_result), (400, mem_result), (401, mem_result), (402, int_reply),
      (403, int_reply), (404, int_reply), (407, ptr_result), (408, u64_result), (409, sz_result),
      (410, ptr_result), (411, int_result), (414, ptr_result), (415, pptr_result), (416, ptr_result),
      (417, ptr_result), (421, ptrsz_result), (422, int_reply), (423, dsz_result), (424, int_reply),
      (440, int_reply), (441, mem_result), (442, int_reply), (443, int_reply), (445, int_reply),
      (446, int_reply), (447, int_reply), (449, dint_result), (450, dint_result), (451, int_reply),
      (470, int_reply), (471, int_reply), (472, int_reply), (473, int_reply), (474, int_reply),
      (475, int_reply), (477, int_reply), (500, int_result), (501, int_reply), (502, int_reply),
      (510, int_result), (511, int_result), (701, int_reply), (702, int_reply)]"

definition driver_types :: "(nat \<times> result_type) list" where
  "driver_types =
     [(50, ptr_result), (51, int_reply), (52, int_reply), (53, int_reply), (1002, int_result),
      (1003, int_reply), (1004, int_result), (1005, int_result), (1006, str_result), (1007, u64_result),
      (1008, int_result), (1009, str_result), (1010, ptr_result), (1011, int_reply), (1012, ptr_result),
      (1013, ptr_result), (1015, ptr_result), (1016, int_result), (1017, int_reply), (1018, int_reply),
      (1019, ptr_result), (1020, str_result), (1021, int_reply), (1022, dint_result), (1023, mem_result),
      (1024, dint_result), (1025, int_result), (1026, ptr_result)]"

definition library_types :: "(nat \<times> result_type) list" where
  "library_types =
     [(2001, ptr_result), (2002, int_reply), (2003, int_result), (2004, int_reply), (2005, int_reply),
      (2006, int_reply), (3001, ptr_result), (3002, int_reply), (3003, int_reply), (3004, int_reply),
      (3005, int_reply), (3006, int_reply), (3007, int_reply), (3008, int_reply), (3009, int_reply),
      (3010, int_reply), (5328, int_result), (5329, int_reply), (5330, int_reply), (5331, int_reply)]"

definition dnn_types :: "(nat \<times> result_type) list" where
  "dnn_types =
     [(4000, int_result), (4001, int_reply), (4002, int_reply), (4003, int_reply), (5000, size_reply),
      (5001, size_reply), (5002, size_reply), (5003, string_reply), (5004, int_result),
      (5005, int_result), (5006, ptr_result), (5007, int_reply), (5008, int_reply), (5009, ptr_result),
      (5010, ptr_result), (5011, int_reply), (5012, int_reply), (5013, int9_result), (5014, int_reply),
      (5015, int_reply), (5016, mem_result), (5017, sz_result), (5018, int_reply), (5024, int_reply),
      (5026, int_reply), (5041, ptr_result), (5042, int_reply), (5043, int6_result), (5044, int_reply),
      (5045, mem_result), (5046, sz_result), (5047, int_reply), (5048, int_reply), (5049, int_reply),
      (5050, ptr_result), (5051, int_reply), (5052, int8_result), (5053, int_reply), (5054, mem_result),
      (5055, mem_result), (5056, int4_result), (5057, int_reply), (5058, int_reply), (5059, ptr_result),
      (5060, int_reply), (5061, int2d1_result), (5062, int_reply), (5063, d_result), (5064, int_reply),
      (5065, int_reply), (5066, ptr_result), (5067, int_reply), (5068, int1d3_result), (5069, int_reply),
      (5070, int_reply), (5301, ptr_result), (5302, int_reply), (5303, mem_result), (5304, int_reply),
      (5305, mem_result), (5306, mem_result), (5307, sz_result), (5308, int_reply), (5309, ptr_result),
      (5310, int_reply), (5311, int_reply), (5312, int_reply), (5313, int_reply), (5314, mem_result),
      (5315, int_reply), (5316, int_reply), (5317, int_reply), (5318, ptr_result), (5319, ptr_result),
      (5320, matmul_hr_result), (5321, int_reply), (5322, int_reply), (5323, ptr_result),
      (5324, ptr_result), (5325, int_reply), (5326, int_reply), (5327, int_reply)]"

text \<open>The table of a procedure, by the ranges of the numbers, and its type.\<close>

definition types_for :: "nat \<Rightarrow> (nat \<times> result_type) list" where
  "types_for p =
     (if p < 100 then driver_types else if p < 1000 then runtime_types else if p < 2000 then driver_types
      else if p < 4000 then library_types else if p < 5328 then dnn_types else library_types)"

definition result_type :: "nat \<Rightarrow> result_type option" where
  "result_type p = map_of (types_for p) p"

section \<open>Typing rules of handlers\<close>

definition replies :: "result_type \<Rightarrow> ('d, reply) handler \<Rightarrow> bool" where
  "replies t h \<longleftrightarrow> (\<forall>s r s'. h s = Inr (r, s') \<longrightarrow> has_type t r)"

named_theorems reply_intros \<open>introduction rules for replies\<close>

lemma repliesI: "(\<And>s r s'. h s = Inr (r, s') \<Longrightarrow> has_type t r) \<Longrightarrow> replies t h"
  by (auto simp: replies_def)

lemma repliesD: "replies t h \<Longrightarrow> h s = Inr (r, s') \<Longrightarrow> has_type t r"
  by (auto simp: replies_def)

lemma replies_ret [reply_intros]:
  "has_type t x \<Longrightarrow> replies t (ret_h x)" "has_type t x \<Longrightarrow> replies t (\<lambda>s. Inr (x, s))"
  "has_type t x \<Longrightarrow> replies t (\<lambda>s. Inr (x, g s))" "replies t (\<lambda>s. Inl f)"
  by (simp_all add: replies_def ret_h_def)

lemma replies_bind [reply_intros]: "(\<And>x. replies t (f x)) \<Longrightarrow> replies t (bind_h m f)"
  unfolding replies_def bind_h_Inr_iff by blast

lemma replies_bind_r [reply_intros]: "(\<And>x. replies t (h x)) \<Longrightarrow> replies t (\<lambda>s. bind_r (g s) (\<lambda>x. h x s))"
  unfolding replies_def bind_r_Inr_iff by blast

lemma replies_cases [reply_intros]:
  "(\<And>a b. replies t (g a b)) \<Longrightarrow> replies t (case p of (a, b) \<Rightarrow> g a b)"
  "(\<And>a b. replies t (g a b)) \<Longrightarrow> replies t (\<lambda>s. case p of (a, b) \<Rightarrow> g a b s)"
  "(c \<Longrightarrow> replies t h) \<Longrightarrow> (\<not> c \<Longrightarrow> replies t k) \<Longrightarrow> replies t (if c then h else k)"
  "(c \<Longrightarrow> replies t h) \<Longrightarrow> (\<not> c \<Longrightarrow> replies t k) \<Longrightarrow> replies t (\<lambda>s. if c then h s else k s)"
  "replies t h \<Longrightarrow> (\<And>x. replies t (f x)) \<Longrightarrow> replies t (case o' of None \<Rightarrow> h | Some x \<Rightarrow> f x)"
  by (cases p; cases c; cases o'; simp)+

lemma replies_recorded [reply_intros]:
  "(\<And>i. replies t (body i)) \<Longrightarrow> replies t (recorded E rq sz fs body)"
  "(\<And>i. replies t (body i)) \<Longrightarrow> replies t (recorded_void E rq body)"
  unfolding replies_def recorded_def recorded_void_def bind_r_Inr_iff by (auto simp: bind_r_Inr_iff)

lemma replies_calls [reply_intros]:
  "replies (Plain [X_int]) (int_call E name args i)"
  "replies (Plain [X_int]) (logged_call E rq sz fs name args)"
  "replies (Plain [X_int]) (logged_void E rq name)"
  "replies (Plain [X_int]) (sched_int E fd name args i)"
  "replies (Plain [X_int]) (sched_call E rq fd sz fs name args)"
  "replies (On_Success [X_hyper]) (create_call E sel upd name args i)"
  "replies (On_Success [X_hyper]) (sched_new E fd sel upd name args i)"
  "replies (On_Success [X_hyper]) (sched_create E rq fd sel upd name args)"
  "replies (On_Success [X_hyper]) (lt_create E fd name args)"
  "replies (On_Success [X_data]) (buffer_query E fd n name args ps)"
  "replies (On_Success [X_data]) (held_query E fd n name args ps)"
  unfolding logged_call_def logged_void_def int_call_def sched_call_def sched_int_def create_call_def
    sched_create_def sched_new_def lt_create_def buffer_query_def held_query_def reply_buffer_def
  by (intro reply_intros; simp)+

lemma replies_query [reply_intros]:
  "(\<And>outs. list_all2 fits ts (k outs)) \<Longrightarrow> replies (On_Success ts) (query_call E name args k)"
  "(\<And>outs. list_all2 fits ts (k outs)) \<Longrightarrow> replies (Plain (X_int # ts)) (query_call E name args k)"
  "(\<And>outs. list_all2 fits ts (k outs)) \<Longrightarrow> replies (On_Success ts) (sched_query E fd name args k)"
  "(\<And>outs. list_all2 fits ts (k outs)) \<Longrightarrow> replies (Plain (X_int # ts)) (sched_query E fd name args k)"
  unfolding query_call_def sched_query_def by (intro reply_intros; simp)+

text \<open>Where the result of the inner handler is the reply or part of it.\<close>

lemma replies_pass:
  "replies t m \<Longrightarrow> (\<And>r. has_type t r \<Longrightarrow> replies t (f r)) \<Longrightarrow> replies t (bind_h m f)"
  unfolding replies_def bind_h_Inr_iff by blast

lemma replies_named:
  assumes "\<And>args d. list_all2 fits ts (k (fst (snd (cuda E name args d))))"
  shows "replies (On_Success ts) (query_call E name args k)"
    "replies (On_Success ts) (sched_query E fd name args k)"
proof -
  have "list_all2 fits ts (k outs)" if "lib_call E name args s = Inr ((err, outs), s')" for err outs s s'
    using that assms unfolding lib_call_def bind_h_Inr_iff cuda_call_Inr_iff by (metis fst_conv snd_conv)
  then show "replies (On_Success ts) (query_call E name args k)"
    "replies (On_Success ts) (sched_query E fd name args k)"
    unfolding replies_def query_call_def sched_query_def scheduled_def
    by (fastforce simp: bind_h_Inr_iff ret_h_def)+
qed

lemma replies_replay [reply_intros]:
  "replies (Plain [X_int]) (replay_each_operator E rq l)"
  "has_type (Plain [X_int]) r \<Longrightarrow> replies (Plain [X_int]) (replay_loop E rq i n r)"
proof -
  show one: "replies (Plain [X_int]) (replay_each_operator E rq l)" for l
    unfolding replay_each_operator_def by (intro reply_intros)
  have step: "replies (Plain [X_int]) (bind_h (replay_each_operator E rq l) (replay_loop E rq i n))"
    if "\<And>r. has_type (Plain [X_int]) r \<Longrightarrow> replies (Plain [X_int]) (replay_loop E rq i n r)" for l i n
    by (rule replies_pass [OF one that])
  show "has_type (Plain [X_int]) r \<Longrightarrow> replies (Plain [X_int]) (replay_loop E rq i n r)"
    by (induction n arbitrary: i r) (auto intro!: replies_ret replies_bind replies_cases step)
qed

lemma replies_shared [reply_intros]:
  "replies (Plain [X_int]) (cuda_launch_kernel_1_svc E rq l)"
  "replies (On_Success [X_int, X_int]) (mt_start E rq dir dev sz threads)"
  "replies (Plain [X_int]) (mt_wait E fuel k i)"
  "replies (On_Success [X_hyper]) (load_module E fd name args i)"
  "replies (Plain [X_int]) (cuda_memcpy_htod_1_svc E rq p mem sz)"
  "replies (Plain [X_int]) (cuda_memcpy_shm_1_svc E rq index p sz kind)"
proof -
  have last: "replies (Plain [X_int]) (bind_h m (\<lambda>r. ret_h (if d then No_Reply else r)))"
    if "replies (Plain [X_int]) m" for m :: "('a, reply) handler" and d
    by (rule replies_pass [OF that]) (auto intro: replies_ret)
  show "replies (Plain [X_int]) (cuda_launch_kernel_1_svc E rq l)"
    unfolding cuda_launch_kernel_1_svc_def
    by (rule replies_bind, rule last, rule replies_cases; intro reply_intros; simp)
qed (unfold mt_start_def mt_wait_def load_module_def cuda_memcpy_htod_1_svc_def cuda_memcpy_shm_1_svc_def,
     (intro reply_intros; simp add: cuda_codes)+)

section \<open>Every reply has its type\<close>

text \<open>
  What the C side relies on: a block of 128 bytes can be allocated, and the two calls that write a
  name into a buffer of the caller write at most 128 characters.
\<close>

definition names_short :: "'d env \<Rightarrow> bool" where
  "names_short E \<longleftrightarrow> heap_ok E 128 \<and>
     (\<forall>name \<in> {''cuDeviceGetName'', ''cudaDeviceGetPCIBusId''}. \<forall>args d.
        length (out_text (fst (snd (cuda E name args d)))) \<le> 128)"

lemma text_typed:
  assumes "names_short E"
  shows "replies str_result (rpc_cudevicegetname_1_svc E fd dev)"
    "replies str_result (cuda_device_get_pci_bus_id_1_svc E n dev)"
    "replies str_result (rpc_cugeterrorstring_1_svc E err)"
proof -
  show "replies str_result (rpc_cudevicegetname_1_svc E fd dev)"
    unfolding rpc_cudevicegetname_1_svc_def str_result_def
    by (rule replies_named) (use assms in \<open>simp add: names_short_def\<close>)
  show "replies str_result (cuda_device_get_pci_bus_id_1_svc E n dev)"
    unfolding cuda_device_get_pci_bus_id_1_svc_def str_result_def
    by (intro replies_cases replies_ret replies_named) (use assms in \<open>simp_all add: names_short_def\<close>)
  show "replies str_result (rpc_cugeterrorstring_1_svc E err)"
    using assms unfolding rpc_cugeterrorstring_1_svc_def str_result_def names_short_def
    by (intro replies_bind replies_cases) (auto intro!: replies_ret split: list.split cval.split)
qed

lemma dnn_special_typed:
  "replies int4_result (rpc_cudnngetpooling2dforwardoutputdim_1_svc E fd p q)"
  "replies int6_result (rpc_cudnngetfilter4ddescriptor_1_svc E fd p)"
  "replies int8_result (rpc_cudnngetpooling2ddescriptor_1_svc E fd p)"
  "replies int9_result (rpc_cudnngettensor4ddescriptor_1_svc E fd p)"
  "replies int1d3_result (rpc_cudnngetlrndescriptor_1_svc E fd p)"
  "replies mem_result (rpc_cudnngetpoolingnddescriptor_1_svc E fd p n)"
  unfolding dnn_handlers result_type_defs reply_buffer_def
  by (intro reply_intros; (simp; fail | simp add: list_all2_conv_all_nth; fail | simp add: upt_rec))+

lemma length_blit_outs: "write_outs ws buf = Inr buf' \<Longrightarrow> length buf' = length buf"
  by (induction ws buf rule: write_outs.induct) (auto split: if_splits)

lemma heuristic_typed: "replies matmul_hr_result (rpc_cublasltmatmulalgogetheuristic_1_svc E fd a b c d e f g n)"
  unfolding rpc_cublasltmatmulalgogetheuristic_1_svc_def matmul_hr_result_def
  by (rule repliesI)
    (auto simp: bind_h_Inr_iff scheduled_def ret_h_def bind_r_Inr_iff sizeof_cublasLtMatmulHeuristicResult_t_def
      dest!: length_blit_outs)

text \<open>Looking up a number in a table, without the case splits of the simplifier's own setup.\<close>

lemmas lookup = result_type_def types_for_def map_of.simps fst_conv snd_conv fun_upd_apply refl rel_simps if_True if_False

lemma library_typed:
  "library_request E p h \<Longrightarrow> \<exists>t. result_type p = Some t \<and> replies t h"
  by (induction rule: library_request.induct; unfold library_handlers; 
      rule exI, rule conjI, simp only: library_types_def lookup cong: if_weak_cong, unfold result_type_defs, intro reply_intros; simp)

lemma dnn_typed:
  "dnn_request E p h \<Longrightarrow> \<exists>t. result_type p = Some t \<and> replies t h"
  by (induction rule: dnn_request.induct; rule exI, rule conjI, simp only: dnn_types_def lookup cong: if_weak_cong;
      (rule dnn_special_typed heuristic_typed)?; unfold dnn_handlers result_type_defs; intro reply_intros; simp)

lemma driver_typed:
  "driver_request E p h \<Longrightarrow> names_short E \<Longrightarrow> \<exists>t. result_type p = Some t \<and> replies t h"
  by (induction rule: driver_request.induct; rule exI, rule conjI, simp only: driver_types_def lookup cong: if_weak_cong;
      (rule text_typed, assumption)?; unfold driver_handlers Let_def result_type_defs; intro reply_intros; simp)

lemma runtime_typed:
  "runtime_request E p h \<Longrightarrow> names_short E \<Longrightarrow> \<exists>t. result_type p = Some t \<and> replies t h"
  by (induction rule: runtime_request.induct; rule exI, rule conjI, simp only: runtime_types_def lookup cong: if_weak_cong;
      (rule text_typed, assumption)?;
      (unfold result_type_defs; rule replies_shared)?;
      unfold runtime_handlers free_host_def Let_def error_text_def result_type_defs; intro reply_intros;
      simp add: sizeof_cudaDeviceProp_def cuda_codes)

text \<open>Every reply the server sends has the type the protocol declares for the procedure: whatever
  the state and the arguments, when a handler returns a result, its fields are the ones rpcgen's
  routine encodes for this procedure (an error code, followed by the declared data when it is 0),
  so the client decodes the same fields. It relies on the library for the length of two names.\<close>

lemma replies_have_their_type:
  assumes "request E p h" and "names_short E" and "h s = Inr (r, s')"
  shows "\<exists>t. result_type p = Some t \<and> has_type t r"
proof -
  obtain t where "result_type p = Some t" "replies t h"
    using assms(1) runtime_typed [OF _ assms(2)] driver_typed [OF _ assms(2)] library_typed dnn_typed
    unfolding request_def by blast
  with assms(3) show ?thesis by (blast dest: repliesD)
qed

end
