(* ===== verification/CudnnProps.thy ===== *)
theory CudnnProps
  imports Runs
begin

text \<open>
  What the cuDNN and cuBLASLt handlers do with arrays: which answers fit into the buffer of the reply
  and which overflow it, and what a refused call leaves in the log.
\<close>

section \<open>Calls between the scheduler's brackets\<close>

lemma scheduled_runs:
  "gsched_none_retain E fd s = Inr (r, s1) \<Longrightarrow> h s1 = Inr (x, s2) \<Longrightarrow>
   scheduled E fd h s = Inr (x, set_sched (\<lambda>g. g\<lparr>gs_device_locked := False\<rparr>) s2)"
  by (simp add: scheduled_def bind_h_def gsched_none_release_def ret_h_def)

lemma scheduled_faults:
  "gsched_none_retain E fd s = Inr (r, s1) \<Longrightarrow> h s1 = Inl f \<Longrightarrow> scheduled E fd h s = Inl f"
  by (simp add: scheduled_def bind_h_def)

lemma retain_frame:
  assumes "gsched_none_retain E fd s = Inr (r, s1)"
  shows "cudnn s1 = cudnn s" "gpu s1 = gpu s" "rm_cublaslt s1 = rm_cublaslt s"
  using retain_fails [OF assms] by (auto simp: set_sched_def)

text \<open>The arguments of a query on one descriptor, and the buffer of its reply.\<close>

lemma fill_buffer_runs:
  assumes "eval_args args s = Inr (as, s)" and "cuda E name as (gpu s) = (err, outs, d)"
  shows "fill_buffer E name args ps buf s =
    bind_r (write_outs (zip ps outs) buf) (\<lambda>buf. Inr ((err, buf), s\<lparr>gpu := d\<rparr>))"
  using assms by (simp add: fill_buffer_def lib_call_def bind_h_def cuda_call_def)

lemma buffer_query_runs:
  assumes heap: "heap_ok E (unat n)" and retain: "gsched_none_retain E fd s = Inr (r, s1)"
    and args: "eval_args args s1 = Inr (as, s1)" and cuda: "cuda E name as (gpu s) = (err, outs, d)"
    and fit: "write_outs (zip ps outs) (replicate (unat n) (fresh_byte E)) = Inr buf"
  shows "\<exists>s'. buffer_query E fd n name args ps s = Inr (Reply [Int32 err, Bytes buf], s')"
proof -
  have "fill_buffer E name args ps (replicate (unat n) (fresh_byte E)) s1 = Inr ((err, buf), s1\<lparr>gpu := d\<rparr>)"
    using fill_buffer_runs [OF args] cuda retain_frame [OF retain] fit by simp
  from scheduled_runs [where h = "fill_buffer E name args ps (replicate (unat n) (fresh_byte E))", OF retain this] heap
  show ?thesis
    by (simp add: buffer_query_def reply_buffer_def bind_h_def ret_h_def)
qed

lemma buffer_query_faults:
  assumes heap: "heap_ok E (unat n)" and retain: "gsched_none_retain E fd s = Inr (r, s1)"
    and args: "eval_args args s1 = Inr (as, s1)" and cuda: "cuda E name as (gpu s) = (err, outs, d)"
    and fit: "write_outs (zip ps outs) (replicate (unat n) (fresh_byte E)) = Inl f"
  shows "buffer_query E fd n name args ps s = Inl f"
proof -
  have "fill_buffer E name args ps (replicate (unat n) (fresh_byte E)) s1 = Inl f"
    using fill_buffer_runs [OF args] cuda retain_frame [OF retain] fit by simp
  from scheduled_faults [where h = "fill_buffer E name args ps (replicate (unat n) (fresh_byte E))", OF retain this] heap
  show ?thesis
    by (simp add: buffer_query_def reply_buffer_def bind_h_def)
qed

section \<open>Numbers of dimensions\<close>

lemma scast_small:
  assumes "n < 2 ^ 31"
  shows "(scast (of_nat n :: u32) :: u64) = of_nat n"
proof -
  have "sint (of_nat n :: u32) = int n"
    using assms by (simp add: signed_of_nat signed_take_bit_int_eq_self)
  then show ?thesis by (simp add: scast_eq)
qed

lemma descriptor_args:
  assumes "gsched_none_retain E fd s = Inr (r, s1)" and "resource_mg_get (f (cudnn s)) h = Inr p"
  shows "eval_args [Dn f h, I n] s1 = Inr ([Word64 p, Int32 n], s1)"
  using assms(2) retain_frame(1) [OF assms(1)] by (simp add: bind_h_def handle_def ret_h_def)

section \<open>Examples\<close>

text \<open>A server that has a connection, and a library that answers every call in the same way.\<close>

definition connected_server :: "unit server" where
  "connected_server = set_sched (\<lambda>g. g\<lparr>gs_ids := \<lparr>elements = Buf [Some \<lparr>gs_id = 7, gs_device = 0\<rparr>, None, None, None],
     len = 1, capacity = 4, element_size = 8\<rparr>\<rparr>) sample_server"

definition answering :: "cval list \<Rightarrow> unit env" where
  "answering outs = roomy_env\<lparr>cuda := \<lambda>_ _ _. (0, outs, ())\<rparr>"

lemma connected_retains:
  "gsched_none_retain (answering outs) 7 connected_server = Inr (1, connected_server)"
  by (simp add: gsched_none_retain_def connected_server_def server_on_def set_sched_def elem_at_def retain_entry_def
      list_get_def wrap64_def Let_def)

lemma connected_tables:
  "resource_mg_get (rm_cudnn_tensors (cudnn connected_server)) h = Inr h"
  "resource_mg_get (rm_cudnn_filters (cudnn connected_server)) h = Inr h"
  by (simp_all add: connected_server_def set_sched_def server_on_def zero_cudnn_def zero_mg_def zero_list_def
      resource_mg_get_def resource_mg_search_map_def)

lemma small_i32: "i32 0 = [0, 0, 0, 0]" "i32 1 = [1, 0, 0, 0]"
proof -
  have four: "(4 :: nat) = Suc (Suc (Suc (Suc 0)))" by simp
  show "i32 0 = [0, 0, 0, 0]" "i32 1 = [1, 0, 0, 0]" unfolding i32_def four by simp_all
qed

lemma answering_simps:
  "cuda (answering outs) name as d = (0, outs, ())" "heap_ok (answering outs) n = (n < 2 ^ 63)"
  "fresh_byte (answering outs) = fresh_byte sample_env"
  by (simp_all add: answering_def roomy_env_def glibc_def)

section \<open>Descriptors with arrays\<close>

text \<open>The offsets and the size for \<open>n\<close> dimensions, as numbers.\<close>

lemma dims_offsets:
  assumes "n < 2 ^ 28"
  shows "unat (ucast (8 + scast (of_nat n :: u32) * 8 :: u64) :: u32) = 8 + 8 * n"
    "unat (8 + scast (of_nat n :: u32) * 4 :: u64) = 8 + 4 * n"
    "unat (ucast (12 + scast (of_nat n :: u32) * 4 :: u64) :: u32) = 12 + 4 * n"
proof -
  have eq: "(8 + of_nat n * 8 :: u64) = of_nat (8 + 8 * n)" "(8 + of_nat n * 4 :: u64) = of_nat (8 + 4 * n)"
    "(12 + of_nat n * 4 :: u64) = of_nat (12 + 4 * n)" by simp_all
  have small: "8 + 8 * n < 2 ^ 32" "12 + 4 * n < 2 ^ 32" using assms by simp_all
  have u64: "unat (of_nat k :: u64) = k" if "k < 2 ^ 32" for k
    using that by (simp add: unsigned_of_nat take_bit_nat_eq_self)
  have u32: "unat (ucast (of_nat k :: u64) :: u32) = k" if "k < 2 ^ 32" for k
    using that by (simp add: unsigned_ucast_eq unsigned_of_nat take_bit_nat_eq_self)
  have s: "(scast (of_nat n :: u32) :: u64) = of_nat n" by (rule scast_small) (use assms in simp)
  show "unat (ucast (8 + scast (of_nat n :: u32) * 8 :: u64) :: u32) = 8 + 8 * n"
    "unat (8 + scast (of_nat n :: u32) * 4 :: u64) = 8 + 4 * n"
    "unat (ucast (12 + scast (of_nat n :: u32) * 4 :: u64) :: u32) = 12 + 4 * n"
    unfolding s eq using small by (simp_all only: u64 u32)
qed

text \<open>C2: The description of a tensor reaches the client: for any number of dimensions up to
  \<open>2 ^ 28\<close> the data type, the number of dimensions, the dimensions and the strides the library
  returns lie behind each other in the reply, without gaps, overlap or overflow of the buffer.\<close>

theorem tensor_descriptor_reply:
  assumes "n < 2 ^ 28" and "heap_ok E (8 + 8 * n)"
    and "gsched_none_retain E fd s = Inr (r, s1)"
    and "resource_mg_get (rm_cudnn_tensors (cudnn s)) desc = Inr p"
    and "cuda E ''cudnnGetTensorNdDescriptor'' [Word64 p, Int32 (of_nat n)] (gpu s) =
      (err, [Int32 ty, Int32 nb, Bytes dims, Bytes strides], d)"
    and "length dims = 4 * n" and "length strides = 4 * n"
  shows "\<exists>s'. rpc_cudnngettensornddescriptor_1_svc E fd desc (of_nat n) s =
    Inr (Reply [Int32 err, Bytes (i32 ty @ i32 nb @ dims @ strides)], s')"
proof -
  have len: "length (i32 ty) = 4" "length (i32 nb) = 4" by simp_all
  have "write_outs (zip [0, 4, 8, 8 + scast (of_nat n :: u32) * 4] [Int32 ty, Int32 nb, Bytes dims, Bytes strides])
      (replicate (8 + 8 * n) (fresh_byte E)) = Inr (i32 ty @ i32 nb @ dims @ strides)"
    using assms(6,7) len by (simp add: dims_offsets(2) [OF assms(1)] blit_def)
  with buffer_query_runs [OF _ assms(3) descriptor_args [where f = rm_cudnn_tensors, OF assms(3,4)] assms(5),
      of "ucast (8 + scast (of_nat n :: u32) * 8 :: u64)"] dims_offsets(1) [OF assms(1)] assms(2)
  show ?thesis unfolding rpc_cudnngettensornddescriptor_1_svc_def by simp
qed

theorem tensor_descriptor_reply_witness:
  "\<exists>s'. rpc_cudnngettensornddescriptor_1_svc (answering [Int32 0, Int32 1, Bytes [5, 0, 0, 0], Bytes [1, 0, 0, 0]]) 7 9 1
    connected_server = Inr (Reply [Int32 0, Bytes [0, 0, 0, 0, 1, 0, 0, 0, 5, 0, 0, 0, 1, 0, 0, 0]], s')"
  using tensor_descriptor_reply [of 1 "answering [Int32 0, Int32 1, Bytes [5, 0, 0, 0], Bytes [1, 0, 0, 0]]" 7
      connected_server 1 connected_server 9 9 0 0 1 "[5, 0, 0, 0]" "[1, 0, 0, 0]" "()"]
  by (simp add: connected_retains connected_tables answering_simps small_i32)

text \<open>C3: The description of a filter never fits: whenever the library returns the dimensions it was
  asked for, and there is at least one, writing them overflows the buffer of the reply by four
  bytes (the offset of the array counts eight bytes for the format, which takes four).\<close>

theorem filter_descriptor_overflows:
  assumes "0 < n" and "n < 2 ^ 28" and "heap_ok E (12 + 4 * n)"
    and "gsched_none_retain E fd s = Inr (r, s1)"
    and "resource_mg_get (rm_cudnn_filters (cudnn s)) desc = Inr p"
    and "cuda E ''cudnnGetFilterNdDescriptor'' [Word64 p, Int32 (of_nat n)] (gpu s) =
      (err, [Int32 ty, Int32 fmt, Int32 nb, Bytes dims], d)"
    and "length dims = 4 * n"
  shows "rpc_cudnngetfilternddescriptor_1_svc E fd desc (of_nat n) s = Inl Out_Of_Bounds"
proof -
  have "write_outs (zip [0, 4, 12, 16] [Int32 ty, Int32 fmt, Int32 nb, Bytes dims])
      (replicate (12 + 4 * n) (fresh_byte E)) = Inl Out_Of_Bounds"
    using assms(1,7) by simp
  with buffer_query_faults [OF _ assms(4) descriptor_args [where f = rm_cudnn_filters, OF assms(4,5)] assms(6),
      of "ucast (12 + scast (of_nat n :: u32) * 4 :: u64)"] dims_offsets(3) [OF assms(2)] assms(3)
  show ?thesis unfolding rpc_cudnngetfilternddescriptor_1_svc_def by simp
qed

theorem filter_descriptor_overflows_witness:
  "rpc_cudnngetfilternddescriptor_1_svc (answering [Int32 0, Int32 0, Int32 1, Bytes [5, 0, 0, 0]]) 7 9 1
    connected_server = Inl Out_Of_Bounds"
  using filter_descriptor_overflows [of 1 "answering [Int32 0, Int32 0, Int32 1, Bytes [5, 0, 0, 0]]" 7
      connected_server 1 connected_server 9 9 0 0 0 1 "[5, 0, 0, 0]" "()"]
  by (simp add: connected_retains connected_tables answering_simps)

section \<open>Refused calls\<close>

text \<open>C4: A call the handler refuses is logged all the same: when the arrays of a tensor description
  do not have the length the number of dimensions asks for, the client gets no answer and the library
  is not called, but the log has one more record, with the arguments and a result that was never set.\<close>

theorem refused_call_stays_logged:
  assumes "\<not> (dims_ok dimA n \<and> dims_ok strideA n)" and "steady E"
    and "list_rep (api_records s) xs" and "room (heap_ok E) (api_records s)"
  shows "\<exists>l. rpc_cudnnsettensornddescriptor_1_svc E rq fd desc ty n dimA strideA s =
      Inr (No_Reply, s\<lparr>api_records := l\<rparr>) \<and>
    list_rep l (xs @ [call_record E rq 48 (Some (put_fields
      [(0, i64 desc), (8, i32 ty), (12, i32 n), (16, i32 (mem_len dimA)), (24, i64 (mem_addr dimA)),
       (32, i32 (mem_len strideA)), (40, i64 (mem_addr strideA))] (replicate 48 (fresh_byte E))))])"
proof -
  let ?fs = "[(0, i64 desc), (8, i32 ty), (12, i32 n), (16, i32 (mem_len dimA)), (24, i64 (mem_addr dimA)),
    (32, i32 (mem_len strideA)), (40, i64 (mem_addr strideA))]"
  let ?body = "\<lambda>i. if \<not> (dims_ok dimA n \<and> dims_ok strideA n) then ret_h No_Reply else
    sched_int E fd ''cudnnSetTensorNdDescriptor'' [Dn rm_cudnn_tensors desc, I ty, I n,
      Val (Bytes (mem_val dimA)), Val (Bytes (mem_val strideA))] i"
  have fit: "fields_fit ?fs 48" by (simp add: fields_fit_def)
  obtain l where l: "recorded E rq 48 ?fs ?body s = ?body (length xs) (s\<lparr>api_records := l\<rparr>)"
      "list_rep l (xs @ [call_record E rq 48 (Some (put_fields ?fs (replicate 48 (fresh_byte E))))])"
    by (rule recorded_opens [OF assms(2) _ fit assms(3,4), of rq ?body]) simp_all
  have "?body (length xs) (s\<lparr>api_records := l\<rparr>) = Inr (No_Reply, s\<lparr>api_records := l\<rparr>)"
    using assms(1) by (simp add: ret_h_def)
  with l show ?thesis unfolding rpc_cudnnsettensornddescriptor_1_svc_def by (simp only:) blast
qed

theorem refused_call_stays_logged_witness:
  "\<exists>l r. rpc_cudnnsettensornddescriptor_1_svc roomy_env 5014 7 9 0 2 \<lparr>mem_addr = 8, mem_val = [1]\<rparr>
      \<lparr>mem_addr = 16, mem_val = []\<rparr> sample_server = Inr (No_Reply, sample_server\<lparr>api_records := l\<rparr>) \<and>
    list_rep l [r] \<and> rq_function r = 5014"
proof -
  have "\<not> dims_ok \<lparr>mem_addr = 8, mem_val = [1]\<rparr> 2" by (simp add: dims_ok_def mem_len_def)
  moreover have "room (heap_ok roomy_env) (api_records sample_server)" by (simp add: room_def server_on_def)
  ultimately obtain l a where
    "rpc_cudnnsettensornddescriptor_1_svc roomy_env 5014 7 9 0 2 \<lparr>mem_addr = 8, mem_val = [1]\<rparr>
      \<lparr>mem_addr = 16, mem_val = []\<rparr> sample_server = Inr (No_Reply, sample_server\<lparr>api_records := l\<rparr>)"
    "list_rep l ([] @ [call_record roomy_env 5014 48 (Some a)])"
    using refused_call_stays_logged [OF _ roomy_steady sample_log] by blast
  then show ?thesis by (intro exI [of _ l] exI [of _ "call_record roomy_env 5014 48 (Some a)"]) (simp add: call_record_def)
qed

section \<open>Results of a search\<close>

text \<open>A client that asks cuBLASLt for more than one algorithm makes the server overflow the
  structure of the reply: the handler passes the number it was asked for and the address of a
  structure for one result, so it answers exactly when the library writes at most 96 bytes.\<close>

lemma heuristic_results_overflow:
  assumes "gsched_none_retain E fd s = Inr (r, s1)" and "\<forall>h. resource_mg_get (rm_cublaslt s) h = Inr h"
    and "cuda E ''cublasLtMatmulAlgoGetHeuristic''
      [Word64 a, Word64 b, Word64 c, Word64 d, Word64 e, Word64 f, Word64 g, Int32 n] (gpu s) =
      (err, [Bytes results, Int32 m], d')"
  shows "case rpc_cublasltmatmulalgogetheuristic_1_svc E fd a b c d e f g n s of
      Inl fault \<Rightarrow> fault = Out_Of_Bounds \<and> 96 < length results
    | Inr (reply, s') \<Rightarrow> length results \<le> 96 \<and>
        (\<exists>p. reply = Reply [Int32 err, Bytes p, Int32 m] \<and> take (length results) p = results)"
proof -
  let ?args = "[Handle rm_cublaslt a, Handle rm_cublaslt b, Handle rm_cublaslt c, Handle rm_cublaslt d,
    Handle rm_cublaslt e, Handle rm_cublaslt f, Handle rm_cublaslt g, I n]"
  have get: "resource_mg_get (rm_cublaslt s1) h = Inr h" for h
    using assms(2) retain_frame(3) [OF assms(1)] by simp
  have call: "lib_call E ''cublasLtMatmulAlgoGetHeuristic'' ?args s1 = Inr ((err, [Bytes results, Int32 m]), s1\<lparr>gpu := d'\<rparr>)"
    using assms(3) retain_frame(2) [OF assms(1)]
    by (simp add: lib_call_def bind_h_def handle_def get ret_h_def cuda_call_def)
  show ?thesis
    unfolding rpc_cublasltmatmulalgogetheuristic_1_svc_def
    by (simp add: scheduled_def bind_h_def assms(1) call gsched_none_release_def ret_h_def out32_def
        sizeof_cublasLtMatmulHeuristicResult_t_def blit_def)
qed

end
