(* ===== verification/ServerMain.thy ===== *)
theory ServerMain
  imports Runs
begin

text \<open>
  The server process (\<open>cpu/cpu-server.c\<close>): start, the loop of \<open>svc_run\<close> as a parameter, the clean-up
  at its end, and the requests for a checkpoint. The calls of the RPC library and of the system go
  through \<open>lib_call\<close>; \<open>getenv\<close> and the socket type are arguments.
\<close>

section \<open>Checkpoint\<close>

text \<open>The first result of \<open>stat\<close> is \<open>S_ISDIR\<close> of the mode.\<close>

definition RRTO_server_checkpoint ::
  "'d env \<Rightarrow> int \<Rightarrow> u64 \<Rightarrow> u64 \<Rightarrow> fsys \<Rightarrow> ('d, int \<times> fsys) handler" where
  "RRTO_server_checkpoint E dump_memory prog vers fs =
     bind_h (lib_call E ''stat'' [Val (Text ''ckp'')]) (\<lambda>(err, outs).
     bind_h (if err \<noteq> 0
             then bind_h (lib_call E ''mkdir'' [Val (Text ''ckp'')]) (\<lambda>(err, _). ret_h (err = 0))
             else ret_h (out32 E outs 0 \<noteq> 0)) (\<lambda>dir.
       if \<not> dir then ret_h (1, fs)
       else bind_h (server_runtime_checkpoint E ''ckp'' dump_memory prog vers fs) (\<lambda>(r, fs).
         ret_h (if r \<noteq> 0 then 1 else 0, fs))))"

text \<open>A checkpoint that succeeds leaves the result unset; one that fails is not answered.\<close>

definition rpc_checkpoint_1_svc :: "'d env \<Rightarrow> u64 \<Rightarrow> u64 \<Rightarrow> fsys \<Rightarrow> ('d, reply \<times> fsys) handler" where
  "rpc_checkpoint_1_svc E prog vers fs =
     bind_h (RRTO_server_checkpoint E 1 prog vers fs) (\<lambda>(r, fs).
       ret_h (if r = 0 then Reply [Int32 (of_int (fresh_int E))] else No_Reply, fs))"

definition signal_checkpoint :: "'d env \<Rightarrow> u64 \<Rightarrow> u64 \<Rightarrow> fsys \<Rightarrow> ('d, fsys) handler" where
  "signal_checkpoint E prog vers fs =
     bind_h (RRTO_server_checkpoint E 1 prog vers fs) (\<lambda>(_, fs). ret_h fs)"

definition rpc_printmessage_1_svc :: "string \<Rightarrow> ('d, reply) handler" where
  "rpc_printmessage_1_svc argp = ret_h (Reply [Int32 42])"

definition rpc_deinit_1_svc :: "'d env \<Rightarrow> ('d, reply) handler" where
  "rpc_deinit_1_svc E = ret_h (Reply [Int32 (of_int (fresh_int E))])"

definition rpc_dlopen_1_svc :: "'d env \<Rightarrow> string option \<Rightarrow> ('d, reply) handler" where
  "rpc_dlopen_1_svc E path =
     (case path of None \<Rightarrow> ret_h (Reply [Int32 1])
      | Some p \<Rightarrow> bind_h (lib_call E ''dlopen'' [Val (Text p)]) (\<lambda>(_, outs).
          ret_h (Reply [Int32 (if out64 E outs 0 = 0 then 1 else 0)])))"

section \<open>Start and end\<close>

text \<open>
  The steps of the start, up to \<open>svc_run\<close> (\<open>Ready\<close>) or a jump to one of the labels behind it. The
  parameter of \<open>server_cudnn_init\<close> is called \<open>bypass\<close> there and \<open>restore\<close> here.
\<close>

datatype label = Ready | Cleanup00 | Cleanup0 | Cleanup1 | Cleanup2 | Cleanup3 | Cleanup4

definition init_api_records :: "'d env \<Rightarrow> ('d, int) handler" where
  "init_api_records E s =
     (let (r, l) = list_init (heap_ok E) (api_records s) 64 in Inr (r, s\<lparr>api_records := l\<rparr>))"

definition init_or :: "label \<Rightarrow> ('d, int) handler \<Rightarrow> ('d, label) handler \<Rightarrow> ('d, label) handler" where
  "init_or fail init rest = bind_h init (\<lambda>r. if r \<noteq> 0 then ret_h fail else rest)"

definition start_services :: "'d env \<Rightarrow> 'd svc \<Rightarrow> fsys \<Rightarrow> bool \<Rightarrow> ('d, label) handler" where
  "start_services E svc fs restore =
     init_or Cleanup4 (gsched_none_init E)
     (init_or Cleanup4 (init_api_records E)
     (init_or Cleanup3 (server_runtime_init E svc fs restore)
     (init_or Cleanup2 (server_driver_init E restore)
     (init_or Cleanup1 (server_nvml_init restore)
     (init_or Cleanup0 (server_cudnn_init E (if restore then 1 else 0))
     (bind_h (lib_call E ''signal'' [I 10]) (\<lambda>(_, outs).
        ret_h (if out64 E outs 0 = - 1 then Cleanup00 else Ready))))))))"

definition free_api_records :: "('d, unit) handler" where
  "free_api_records s = bind_r (api_records_free (api_records s)) (\<lambda>(_, l). Inr ((), s\<lparr>api_records := l\<rparr>))"

text \<open>The labels fall through from the first one reached.\<close>

definition cleanup_steps :: "(label \<times> ('d, unit) handler) list" where
  "cleanup_steps =
     [(Cleanup00, bind_h server_cudnn_deinit (\<lambda>_. ret_h ())),
      (Cleanup0, bind_h server_driver_deinit (\<lambda>_. ret_h ())),
      (Cleanup1, bind_h server_nvml_deinit (\<lambda>_. ret_h ())),
      (Cleanup2, bind_h server_runtime_deinit (\<lambda>_. ret_h ())),
      (Cleanup3, free_api_records)]"

fun run_steps :: "(label \<times> ('d, unit) handler) list \<Rightarrow> ('d, unit) handler" where
  "run_steps [] = ret_h ()"
| "run_steps ((_, h) # hs) = bind_h h (\<lambda>_. run_steps hs)"

definition cleanup_from :: "label \<Rightarrow> ('d, unit) handler" where
  "cleanup_from l = run_steps (dropWhile (\<lambda>(l', _). l' \<noteq> l) cleanup_steps)"

text \<open>The transport: NULL (the process ends), or for UDP a variable that was never set.\<close>

definition create_transport :: "'d env \<Rightarrow> socktype_t \<Rightarrow> u64 \<Rightarrow> u64 \<Rightarrow> ('d, u64 option) handler" where
  "create_transport E st prog vers =
     (case st of
        UNIX \<Rightarrow> bind_h (lib_call E ''svcunix_create'' [Val (Text ''/tmp/RRTOd_sock'')]) (\<lambda>(_, outs).
          ret_h (Some (out64 E outs 0)))
      | TCP \<Rightarrow> bind_h (lib_call E ''svctcp_create'' []) (\<lambda>(_, outs).
          if out64 E outs 0 = 0 then ret_h (Some 0)
          else bind_h (lib_call E ''pmap_unset'' [W prog, W vers]) (\<lambda>_. ret_h (Some (out64 E outs 0))))
      | UDP \<Rightarrow> ret_h None)"

text \<open>
  \<open>serve\<close> is what \<open>svc_run\<close> does. The result is the exit code, or \<open>None\<close> for the return of a server
  that is disabled. A failure to read the identification of a checkpoint is only logged.
\<close>

definition RRTO_main ::
  "'d env \<Rightarrow> 'd svc \<Rightarrow> fsys \<Rightarrow> bool \<Rightarrow> bool \<Rightarrow> socktype_t \<Rightarrow> u64 \<Rightarrow> u64 \<Rightarrow> ('d, unit) handler \<Rightarrow>
   ('d, int option) handler" where
  "RRTO_main E svc fs disabled restore st prog_num vers_num serve =
     (if disabled then ret_h None
      else let (prog, vers) =
          (if restore then (case cr_restore_rpc_id E ''ckp'' (Some 0) (Some 0) fs of (_, p, v) \<Rightarrow> (the p, the v))
           else (prog_num, vers_num)) in
        bind_h (create_transport E st prog vers) (\<lambda>t.
          case t of
            None \<Rightarrow> (\<lambda>s. Inl Uninit_Read)
          | Some tp \<Rightarrow>
              if tp = 0 then ret_h (Some 1)
              else bind_h (lib_call E ''svc_register'' [W tp, W prog, W vers]) (\<lambda>(ok, _).
                if ok = 0 then ret_h (Some 1)
                else bind_h (start_services E svc fs restore) (\<lambda>l.
                  bind_h (if l = Ready then serve else ret_h ()) (\<lambda>_.
                  bind_h (cleanup_from (if l = Ready then Cleanup00 else l)) (\<lambda>_.
                  bind_h (lib_call E ''pmap_unset'' [W prog, W vers]) (\<lambda>_.
                  bind_h (lib_call E ''svc_destroy'' [W tp]) (\<lambda>_.
                  bind_h (lib_call E ''unlink'' [Val (Text ''/tmp/RRTOd_sock'')]) (\<lambda>_.
                    ret_h (Some (if l = Ready then 0 else 1)))))))))))"

section \<open>What a start leaves behind\<close>

lemma init_or_Ready:
  "init_or fail init rest s = Inr (Ready, s') \<Longrightarrow> fail \<noteq> Ready \<Longrightarrow>
   \<exists>s1. init s = Inr (0, s1) \<and> rest s1 = Inr (Ready, s')"
  by (auto simp: init_or_def bind_h_Inr_iff ret_h_def split: if_split_asm)

text \<open>A manager that translates nothing: it bypasses its table, or the table is empty.\<close>

definition translates_nothing :: "resource_mg \<Rightarrow> bool" where
  "translates_nothing mg \<longleftrightarrow> bypass mg \<noteq> 0 \<or> len (map_res mg) = 0"

lemma translates_nothing_get: "translates_nothing mg \<Longrightarrow> resource_mg_get mg h = Inr h"
  by (auto simp: translates_nothing_def resource_mg_get_def resource_mg_search_map_def)

lemma init_translates_nothing:
  assumes "heap_ok E 32" and "heap_ok E 64"
  shows "translates_nothing (snd (resource_mg_init (heap_ok E) mg byp))"
proof -
  have "list_init (heap_ok E) l 8 = (0, \<lparr>elements = Buf (replicate 4 None), len = 0, capacity = 4, element_size = 8\<rparr>)"
    "list_init (heap_ok E) m 16 = (0, \<lparr>elements = Buf (replicate 4 None), len = 0, capacity = 4, element_size = 16\<rparr>)"
    for l :: "u64 clist" and m :: "resource_mg_map_elem clist"
    by (intro list_init_eq; use assms in simp)+
  then show ?thesis by (simp add: resource_mg_init_def translates_nothing_def Let_def)
qed

lemma init_mg_sets:
  assumes "heap_ok E 32" and "heap_ok E 64" and "init_mg E sel upd byp ret s = Inr (r, s')"
  shows "\<exists>m. translates_nothing m \<and> s' = upd m s"
  using assms(3) init_translates_nothing [OF assms(1,2), of "sel s" byp]
  by (auto simp: init_mg_def split: prod.split_asm)

text \<open>The managers of cuDNN the server initialises.\<close>

definition cudnn_tables :: "cudnn_managers \<Rightarrow> resource_mg list" where
  "cudnn_tables c =
     [rm_cudnn c, rm_cudnn_tensors c, rm_cudnn_filters c, rm_cudnn_poolings c, rm_cudnn_activations c,
      rm_cudnn_lrns c, rm_cudnn_convs c, rm_cudnn_backendds c]"

lemma cudnn_init_sets:
  assumes "heap_ok E 32" and "heap_ok E 64" and "server_cudnn_init E byp s = Inr (r, s')"
  shows "\<exists>c. s' = s\<lparr>cudnn := c\<rparr> \<and> (\<forall>m \<in> set (cudnn_tables c). translates_nothing m)"
proof -
  have init: "\<exists>m. translates_nothing m \<and> s2 = set_dn upd m s1"
    if "init_dn E sel upd byp ret s1 = Inr (r', s2)" for sel upd ret s1 r' s2
    using init_mg_sets [OF assms(1,2)] that unfolding init_dn_def by blast
  obtain s1 r1 s2 r2 s3 r3 s4 r4 s5 r5 s6 r6 s7 r7 where run:
    "init_dn E rm_cudnn rm_cudnn_update byp 0 s = Inr (r1, s1)"
    "init_dn E rm_cudnn_tensors rm_cudnn_tensors_update byp r1 s1 = Inr (r2, s2)"
    "init_dn E rm_cudnn_filters rm_cudnn_filters_update byp r2 s2 = Inr (r3, s3)"
    "init_dn E rm_cudnn_poolings rm_cudnn_poolings_update byp r3 s3 = Inr (r4, s4)"
    "init_dn E rm_cudnn_activations rm_cudnn_activations_update byp r4 s4 = Inr (r5, s5)"
    "init_dn E rm_cudnn_lrns rm_cudnn_lrns_update byp r5 s5 = Inr (r6, s6)"
    "init_dn E rm_cudnn_convs rm_cudnn_convs_update byp r6 s6 = Inr (r7, s7)"
    "init_dn E rm_cudnn_backendds rm_cudnn_backendds_update byp r7 s7 = Inr (r, s')"
    using assms(3) unfolding server_cudnn_init_def bind_h_Inr_iff by blast
  obtain m1 m2 m3 m4 m5 m6 m7 m8 where m: "translates_nothing m1" "s1 = set_dn rm_cudnn_update m1 s"
    "translates_nothing m2" "s2 = set_dn rm_cudnn_tensors_update m2 s1"
    "translates_nothing m3" "s3 = set_dn rm_cudnn_filters_update m3 s2"
    "translates_nothing m4" "s4 = set_dn rm_cudnn_poolings_update m4 s3"
    "translates_nothing m5" "s5 = set_dn rm_cudnn_activations_update m5 s4"
    "translates_nothing m6" "s6 = set_dn rm_cudnn_lrns_update m6 s5"
    "translates_nothing m7" "s7 = set_dn rm_cudnn_convs_update m7 s6"
    "translates_nothing m8" "s' = set_dn rm_cudnn_backendds_update m8 s7"
    using init [OF run(1)] init [OF run(2)] init [OF run(3)] init [OF run(4)] init [OF run(5)] init [OF run(6)] init [OF run(7)] init [OF run(8)] by blast
  then show ?thesis
    by (intro exI [of _ "cudnn s'"]) (simp add: cudnn_tables_def)
qed

lemma driver_init_sets:
  assumes "heap_ok E 32" and "heap_ok E 64" and "server_driver_init E restore s = Inr (r, s')"
  shows "\<exists>m f g. s' = s\<lparr>rm_modules := m, rm_functions := f, rm_globals := g\<rparr> \<and>
    translates_nothing m \<and> translates_nothing f \<and> translates_nothing g"
proof -
  let ?m = "\<lambda>mg. snd (resource_mg_init (heap_ok E) mg 0)"
  have "s' = s\<lparr>rm_modules := ?m (rm_modules s), rm_functions := ?m (rm_functions s), rm_globals := ?m (rm_globals s)\<rparr>"
    using assms(3) by (simp add: server_driver_init_def Let_def case_prod_beta)
  then show ?thesis using init_translates_nothing [OF assms(1,2)] by blast
qed

text \<open>C1: A restart forgets the modules, the functions, the variables and the cuDNN objects of the
  checkpoint: when the server reaches \<open>svc_run\<close>, whatever the restore has entered into
  \<open>rm_modules\<close>, \<open>rm_functions\<close> and \<open>rm_globals\<close> is gone, because \<open>server_driver_init\<close> runs after it,
  and the managers of cuDNN bypass their tables, because \<open>server_cudnn_init\<close> gets the restore flag
  for its parameter \<open>bypass\<close>. Every such handle of the client is passed on untranslated.\<close>

theorem restart_forgets_handles:
  assumes "start_services E svc fs True s = Inr (Ready, s')" and "steady E"
  shows "\<forall>m \<in> {rm_modules s', rm_functions s', rm_globals s'} \<union> set (cudnn_tables (cudnn s')).
    \<forall>h. resource_mg_get m h = Inr h"
proof -
  have heap: "heap_ok E 32" "heap_ok E 64" using assms(2) by (simp_all add: steady_def)
  obtain s1 s2 s3 s4 where run: "server_driver_init E True s1 = Inr (0, s2)" "server_nvml_init True s2 = Inr (0, s3)"
      "server_cudnn_init E 1 s3 = Inr (0, s4)"
      "bind_h (lib_call E ''signal'' [I 10]) (\<lambda>(_, outs).
        ret_h (if out64 E outs 0 = - 1 then Cleanup00 else Ready)) s4 = Inr (Ready, s')"
    using assms(1) unfolding start_services_def by (auto dest!: init_or_Ready)
  have sig: "\<exists>d. s' = s4\<lparr>gpu := d\<rparr>"
    using run(4) by (auto simp: bind_h_Inr_iff lib_call_def ret_h_def cuda_call_def split: prod.split_asm)
  have "s3 = s2" using run(2) by (simp add: server_nvml_init_def ret_h_def)
  then show ?thesis
    using driver_init_sets [OF heap run(1)] cudnn_init_sets [OF heap run(3)] sig
    by (auto intro: translates_nothing_get)
qed

text \<open>A restart without a checkpoint reaches \<open>svc_run\<close> as well.\<close>

definition succeeds :: "('d, int) handler \<Rightarrow> bool" where
  "succeeds h \<longleftrightarrow> (\<forall>s. \<exists>s'. h s = Inr (0, s'))"

lemma succeeds_bind: "succeeds m \<Longrightarrow> succeeds (f 0) \<Longrightarrow> succeeds (bind_h m f)"
  unfolding succeeds_def bind_h_def by (metis bind_r.simps(2) case_prod_conv)

lemma succeeds_init: "succeeds (init_mg roomy_env sel upd byp 0)"
  unfolding succeeds_def using roomy_init_mg by fastforce

lemma succeeds_and: "(\<And>s. \<exists>r s'. h s = Inr (r, s')) \<Longrightarrow> succeeds (and_ret 0 h)"
  unfolding succeeds_def using and_ret_runs by blast

lemma succeeds_ret: "succeeds (ret_h 0)"
  by (simp add: succeeds_def ret_h_def)

lemma roomy_call: "lib_call roomy_env name [I v] s = Inr ((0, [Word64 4096]), s\<lparr>gpu := ()\<rparr>)"
  "lib_call roomy_env name [] s = Inr ((0, [Word64 4096]), s\<lparr>gpu := ()\<rparr>)"
  by (simp_all add: lib_call_def bind_h_def ret_h_def cuda_call_def roomy_env_def sample_env_def)

lemma roomy_list: "0 < es \<Longrightarrow> es < 2 ^ 61 \<Longrightarrow> fst (list_init (heap_ok roomy_env) l es) = 0"
  using list_init_eq [of es "heap_ok roomy_env" l] by (simp add: roomy_env_def glibc_def)

lemma roomy_restores: "\<exists>r s'. server_runtime_restore roomy_env svc no_files ''ckp'' s = Inr (r, s')"
  by (simp add: server_runtime_restore_def bind_h_def cr_restore_def asprintf_def roomy_env_def sample_env_def
      glibc_def fopen_r_def no_files_def ret_h_def)

lemma roomy_inits: "\<exists>r s'. cusolver_init roomy_env byp s = Inr (r, s')" "\<exists>r s'. cublas_init roomy_env byp s = Inr (r, s')"
  "\<exists>r s'. cublaslt_init roomy_env byp s = Inr (r, s')"
  unfolding cusolver_init_def cublas_init_def cublaslt_init_def using roomy_init_mg by blast+

lemma roomy_runtime: "succeeds (server_runtime_init roomy_env svc no_files restore)"
proof -
  have "succeeds (init_mt_list roomy_env)"
    by (simp add: succeeds_def init_mt_list_def sizeof_mt_memcpy_server_def case_prod_beta roomy_list)
  moreover have "succeeds (bind_h (lib_call roomy_env ''cudaSetDevice'' [I 0]) (\<lambda>(cres, _).
      bind_h (lib_call roomy_env ''cudaDeviceSynchronize'' []) (\<lambda>_. ret_h (if cres \<noteq> 0 then 1 else 0))))"
    by (simp add: succeeds_def bind_h_def roomy_call ret_h_def)
  moreover have "succeeds (if restore then init_mg roomy_env sel upd 0 0 else ret_h 0)"
    "succeeds (if restore then and_ret 0 (server_runtime_restore roomy_env svc no_files ''ckp'') else ret_h 0)" for sel upd
    using succeeds_init succeeds_ret succeeds_and [OF roomy_restores] by auto
  ultimately show ?thesis
    unfolding server_runtime_init_def Let_def
    by (intro succeeds_bind succeeds_init succeeds_and roomy_inits)
qed

definition gets_ready :: "('d, label) handler \<Rightarrow> bool" where
  "gets_ready h \<longleftrightarrow> (\<forall>s. \<exists>s'. h s = Inr (Ready, s'))"

lemma gets_ready_init: "succeeds init \<Longrightarrow> gets_ready rest \<Longrightarrow> gets_ready (init_or fail init rest)"
  unfolding gets_ready_def succeeds_def init_or_def
proof
  fix s assume "\<forall>s. \<exists>s'. init s = Inr (0, s')" and rest: "\<forall>s. \<exists>s'. rest s = Inr (Ready, s')"
  then obtain s1 where "init s = Inr (0, s1)" by blast
  then show "\<exists>s'. bind_h init (\<lambda>r. if r \<noteq> 0 then ret_h fail else rest) s = Inr (Ready, s')"
    using rest by (simp add: bind_h_def)
qed

lemma roomy_ready: "gets_ready (start_services roomy_env svc no_files restore)"
proof -
  have "succeeds (gsched_none_init roomy_env)"
    by (simp add: succeeds_def gsched_none_init_def Let_def cuda_call_def roomy_env_def sample_env_def case_prod_beta)
  moreover have "succeeds (init_api_records roomy_env)"
    by (simp add: succeeds_def init_api_records_def case_prod_beta roomy_list)
  moreover have "succeeds (server_driver_init roomy_env restore)"
    by (simp add: succeeds_def server_driver_init_def Let_def split: prod.split)
  moreover have "succeeds (server_cudnn_init roomy_env byp)" for byp
    unfolding server_cudnn_init_def init_dn_def by (intro succeeds_bind succeeds_init)
  moreover have "succeeds (server_nvml_init restore)" by (simp add: server_nvml_init_def succeeds_ret)
  moreover have "gets_ready (bind_h (lib_call roomy_env ''signal'' [I 10]) (\<lambda>(_, outs).
        ret_h (if out64 roomy_env outs 0 = - 1 then Cleanup00 else Ready)))"
    by (simp add: gets_ready_def bind_h_def roomy_call ret_h_def out64_def)
  ultimately show ?thesis
    unfolding start_services_def by (intro gets_ready_init roomy_runtime)
qed

theorem restart_forgets_handles_witness:
  "\<exists>s'. start_services roomy_env (\<lambda>_ _ _. ret_h 1) no_files True sample_server = Inr (Ready, s') \<and>
    resource_mg_get (rm_functions s') 77 = Inr 77 \<and> resource_mg_get (rm_cudnn (cudnn s')) 77 = Inr 77"
proof -
  obtain s' where s': "start_services roomy_env (\<lambda>_ _ _. ret_h 1) no_files True sample_server = Inr (Ready, s')"
    using roomy_ready unfolding gets_ready_def by blast
  with restart_forgets_handles [OF s' roomy_steady] show ?thesis
    by (intro exI [of _ s']) (simp add: cudnn_tables_def)
qed

end
