(* ===== verification/ClientLib.thy ===== *)
theory ClientLib
  imports Client ServerLt
begin

text \<open>
  The shapes the functions of the client for the driver API, cuBLAS, cuBLASLt, cuSOLVER, NVML and
  cuDNN share. \<open>fd\<close> is the connection as the server sees it. A pointer the application passes for a
  value that is sent is the block behind it; a pointer that is only handed on is its address; one
  the code compares with NULL, a truth value. What is stored behind pointers is in the result.
\<close>

section \<open>Arguments\<close>

definition load32 :: "u8 list \<Rightarrow> u32 res" where
  "load32 m = (if length m < 4 then Inl Out_Of_Bounds else Inr (of_nat (le_val (take 4 m))))"

definition load64 :: "u8 list \<Rightarrow> u64 res" where
  "load64 m = (if length m < 8 then Inl Out_Of_Bounds else Inr (of_nat (le_val (take 8 m))))"

text \<open>A block with the length that is on the wire.\<close>

definition send_block :: "'d env \<Rightarrow> u8 list \<Rightarrow> u32 \<Rightarrow> (mem_data \<Rightarrow> ('d, 'a) client_fn) \<Rightarrow> ('d, 'a) client_fn" where
  "send_block E m n body =
     (if length m < unat n then lift_c (Inl Out_Of_Bounds)
      else body \<lparr>mem_addr = fresh_word E, mem_val = take (unat n) m\<rparr>)"

text \<open>A scaling factor is always sent as a \<open>double\<close>, whatever type the application keeps it in.\<close>

definition CUDNN_DATA_DOUBLE :: u32 where "CUDNN_DATA_DOUBLE = 1"

definition send_scaling :: "u8 list \<Rightarrow> (scaling \<Rightarrow> ('d, 'a) client_fn) \<Rightarrow> ('d, 'a) client_fn" where
  "send_scaling m body =
     bind_c (lift_c (load64 m)) (\<lambda>d. body \<lparr>sc_type = CUDNN_DATA_DOUBLE, sc_val = d\<rparr>)"

section \<open>Results\<close>

text \<open>
  The driver API returns a code of its own for a failed call. Otherwise it stores the value of the
  result, which has not been received if the code is not 0.
\<close>

definition CUDA_ERROR_UNKNOWN :: u32 where "CUDA_ERROR_UNKNOWN = 999"

definition driver_int_rpc :: "'d env \<Rightarrow> ('d, reply) handler \<Rightarrow> ('d, u32) client_fn" where
  "driver_int_rpc E h =
     bind_c (int_rpc_from (unset32 E) h) (\<lambda>(st, e). ret_c (if st \<noteq> RPC_SUCCESS then CUDA_ERROR_UNKNOWN else e))"

definition driver_rpc :: "'d env \<Rightarrow> cval list \<Rightarrow> ('d, reply) handler \<Rightarrow> ('d, u32 \<times> cval list) client_fn" where
  "driver_rpc E unset h =
     bind_c (rpc h) (\<lambda>(st, r).
       if st \<noteq> RPC_SUCCESS then ret_c (CUDA_ERROR_UNKNOWN, [])
       else let e = err_of (unset32 E) r in
            ret_c (e, if e \<noteq> 0 then unset else case r of Some (_ # vs) \<Rightarrow> vs | _ \<Rightarrow> unset))"

text \<open>
  A result that is only a number.
\<close>

definition size_rpc :: "'d env \<Rightarrow> ('d, reply) handler \<Rightarrow> ('d, u64) client_fn" where
  "size_rpc E h =
     bind_c (rpc h) (\<lambda>(_, r). ret_c (case r of Some (Word64 v # _) \<Rightarrow> v | _ \<Rightarrow> fresh_word E))"

text \<open>
  A result that is a block, with the pointer in the result variable set before the call: XDR
  decodes to that block, however long it is, or allocates one if the pointer is NULL. The result is
  the code, the length and the block; the length is uninitialised unless a block has come.
\<close>

definition mem_rpc ::
  "'d env \<Rightarrow> u8 list option \<Rightarrow> ('d, reply) handler \<Rightarrow> ('d, u32 \<times> u32 \<times> u8 list option) client_fn" where
  "mem_rpc E buf h =
     bind_c (rpc h) (\<lambda>(_, r).
       case r of
         Some (Int32 e # Bytes bs # _) \<Rightarrow>
           if e \<noteq> 0 then ret_c (e, unset32 E, buf)
           else (case buf of
               None \<Rightarrow> ret_c (e, of_nat (length bs), Some bs)
             | Some b \<Rightarrow> if length b < length bs then lift_c (Inl Out_Of_Bounds)
                         else ret_c (e, of_nat (length bs), Some (bs @ drop (length bs) b)))
       | _ \<Rightarrow> ret_c (err_of (unset32 E) r, unset32 E, buf))"

definition malloc_bytes :: "'d env \<Rightarrow> nat \<Rightarrow> u8 list option" where
  "malloc_bytes E n = (if heap_ok E n then Some (replicate n (fresh_byte E)) else None)"

text \<open>Reading a block the pointer to which may be NULL: a \<open>char\<close>, as an \<open>int\<close>, and a copy.\<close>

definition byte_at :: "u8 list option \<Rightarrow> nat \<Rightarrow> u32 res" where
  "byte_at m i =
     (case m of None \<Rightarrow> Inl Null_Deref
      | Some m \<Rightarrow> if i < length m then Inr (scast (m ! i)) else Inl Out_Of_Bounds)"

definition copy_out :: "u8 list option \<Rightarrow> nat \<Rightarrow> nat \<Rightarrow> u8 list \<Rightarrow> u8 list res" where
  "copy_out m i n dst =
     (case m of None \<Rightarrow> if n = 0 then Inr dst else Inl Null_Deref
      | Some m \<Rightarrow> if i + n \<le> length m \<and> n \<le> length dst then Inr (take n (drop i m) @ drop n dst)
                  else Inl Out_Of_Bounds)"

definition words_at :: "u8 list option \<Rightarrow> nat \<Rightarrow> nat \<Rightarrow> nat res" where
  "words_at m i n =
     (case m of None \<Rightarrow> Inl Null_Deref
      | Some m \<Rightarrow> if i + n \<le> length m then Inr (le_val (blk i n m)) else Inl Out_Of_Bounds)"

text \<open>
  The first \<open>n\<close> characters of a string in a block of 128 bytes, where \<open>malloc\<close> has left the
  block as it was.
\<close>

definition blank_text :: "'d env \<Rightarrow> nat \<Rightarrow> string res" where
  "blank_text E n =
     (if fresh_byte E = 0 then Inr []
      else if n \<le> 128 then Inr (replicate n (char_of (unat (fresh_byte E)))) else Inl Out_Of_Bounds)"

end
