(* ===== verification/CuObjdump.thy ===== *)
theory CuObjdump
  imports KernelInfo
begin

text \<open>
  The kernels of a file as the client finds them (\<open>cpu/cpu-utils.c\<close>): \<open>cuobjdump\<close> is run on the
  file, and its text output is read by a state machine. The output is the list of lines \<open>getline\<close>
  returns, with their newlines.
\<close>

section \<open>sscanf\<close>

definition isspace :: "char \<Rightarrow> bool" where
  "isspace c \<longleftrightarrow> c \<in> {CHR '' '', CHR 0x09, CHR 0x0A, CHR 0x0B, CHR 0x0C, CHR 0x0D}"

definition hex_digit :: "char \<Rightarrow> nat option" where
  "hex_digit c =
     (let n = of_char c :: nat in
      if 48 \<le> n \<and> n \<le> 57 then Some (n - 48)
      else if 65 \<le> n \<and> n \<le> 70 then Some (n - 55)
      else if 97 \<le> n \<and> n \<le> 102 then Some (n - 87) else None)"

fun hex_number :: "nat \<Rightarrow> string \<Rightarrow> nat \<times> string" where
  "hex_number v (c # s) = (case hex_digit c of None \<Rightarrow> (v, c # s) | Some d \<Rightarrow> hex_number (16 * v + d) s)"
| "hex_number v [] = (v, [])"

text \<open>
  The formats the code uses: white space, a literal character, and \<open>%x\<close> into a variable of some
  width or without assignment. A hexadecimal number may have a sign and a prefix. The result is the
  values assigned before the first mismatch.
\<close>

datatype directive = Blank | Lit char | Hex nat | Skip_Hex

definition scan_hex :: "string \<Rightarrow> (nat \<times> string) option" where
  "scan_hex s =
     (let s = dropWhile isspace s;
          minus = (case s of c # _ \<Rightarrow> c = CHR ''-'' | _ \<Rightarrow> False);
          s = (case s of c # r \<Rightarrow> if c = CHR ''-'' \<or> c = CHR ''+'' then r else s | _ \<Rightarrow> s);
          s = (case s of c # d # r \<Rightarrow> if c = CHR ''0'' \<and> (d = CHR ''x'' \<or> d = CHR ''X'') then r else s | _ \<Rightarrow> s)
      in case s of [] \<Rightarrow> None
         | c # _ \<Rightarrow> if hex_digit c = None then None
             else let (v, r) = hex_number 0 s;
                      v = (if 2 ^ 64 \<le> v then 2 ^ 64 - 1 else if minus then (2 ^ 64 - v) mod 2 ^ 64 else v)
                  in Some (v, r))"

fun sscanf :: "directive list \<Rightarrow> string \<Rightarrow> nat list" where
  "sscanf [] s = []"
| "sscanf (Blank # ds) s = sscanf ds (dropWhile isspace s)"
| "sscanf (Lit c # ds) s = (case s of [] \<Rightarrow> [] | x # r \<Rightarrow> if x = c then sscanf ds r else [])"
| "sscanf (Hex w # ds) s = (case scan_hex s of None \<Rightarrow> [] | Some (v, r) \<Rightarrow> v mod 2 ^ w # sscanf ds r)"
| "sscanf (Skip_Hex # ds) s = (case scan_hex s of None \<Rightarrow> [] | Some (_, r) \<Rightarrow> sscanf ds r)"

fun literal :: "string \<Rightarrow> directive list" where
  "literal [] = []"
| "literal (c # s) = (if isspace c then Blank else Lit c) # literal s"

text \<open>
  \<open>sscanf(line, "%31s %255c\n", key, val)\<close>: its result, the key and the value; \<open>val\<close> is filled
  with zeros before. The last character of the value, the newline, is cut off.
\<close>

definition key_value :: "string \<Rightarrow> int \<times> string \<times> string" where
  "key_value line =
     (let s = dropWhile isspace line in
      if s = [] then (- 1, [], [])
      else let key = take 31 (takeWhile (\<lambda>c. \<not> isspace c) s);
               r = dropWhile isspace (drop (length key) s)
           in if r = [] then (1, key, []) else (2, key, butlast (take 255 r)))"

section \<open>The parameters of one kernel\<close>

datatype attr_t = KPARAM_INFO | CBANK_PARAM_SIZE | PARAM_CBANK | ATTR_T_LAST

definition attr_of :: "string \<Rightarrow> attr_t" where
  "attr_of val =
     (if val = ''EIATTR_KPARAM_INFO'' then KPARAM_INFO
      else if val = ''EIATTR_CBANK_PARAM_SIZE'' then CBANK_PARAM_SIZE
      else if val = ''EIATTR_PARAM_CBANK'' then PARAM_CBANK else ATTR_T_LAST)"

definition kparam_format :: "directive list" where
  "kparam_format =
     literal ''Index : 0x'' @ [Skip_Hex] @ literal '' Ordinal : 0x'' @ [Hex 16] @
     literal '' Offset : 0x'' @ [Hex 16] @ literal '' Size : 0x'' @ [Hex 16, Blank]"

definition size_format :: "directive list" where
  "size_format = literal ''0x'' @ [Hex 64]"

definition cbank_format :: "directive list" where
  "cbank_format = literal ''0x'' @ [Skip_Hex] @ literal '' 0x'' @ [Hex 64]"

text \<open>The effect of a value on the kernel; \<open>None\<close> is an unexpected format.\<close>

definition read_value :: "'d env \<Rightarrow> attr_t \<Rightarrow> string \<Rightarrow> kernel_info \<Rightarrow> kernel_info option res" where
  "read_value E attr val k =
     (case attr of
        KPARAM_INFO \<Rightarrow>
          (case sscanf kparam_format val of
             [ordinal, offset, sz] \<Rightarrow> bind_r (store_param E ordinal offset sz k) (\<lambda>k. Inr (Some k))
           | _ \<Rightarrow> Inr None)
      | CBANK_PARAM_SIZE \<Rightarrow>
          (case sscanf size_format val of [n] \<Rightarrow> Inr (Some (k\<lparr>param_size := n\<rparr>)) | _ \<Rightarrow> Inr None)
      | PARAM_CBANK \<Rightarrow> (case sscanf cbank_format val of [n] \<Rightarrow> Inr (Some k) | _ \<Rightarrow> Inr None)
      | ATTR_T_LAST \<Rightarrow> Inr (Some k))"

text \<open>
  The loop over the lines, with the state of the machine and the number of empty lines before. The
  result has the lines that are left.
\<close>

datatype line_kind = Empty | Plain | Attribute string | Value string

definition line_kind :: "string \<Rightarrow> line_kind" where
  "line_kind line =
     (let (rc, key, val) = key_value line in
      if rc = - 1 then Empty
      else if rc = 1 then Plain
      else if key = ''Attribute:'' then Attribute val
      else if key = ''Value:'' then Value val else Plain)"

fun read_pars_loop ::
  "'d env \<Rightarrow> attr_t \<Rightarrow> nat \<Rightarrow> string list \<Rightarrow> kernel_info \<Rightarrow> (int \<times> kernel_info \<times> string list) res" where
  "read_pars_loop E attr empty_lines [] k = Inr (0, k, [])"
| "read_pars_loop E attr empty_lines (line # ls) k =
     (case line_kind line of
        Empty \<Rightarrow> if empty_lines + 1 \<ge> 2 then Inr (0, k, ls) else read_pars_loop E attr (empty_lines + 1) ls k
      | Plain \<Rightarrow> read_pars_loop E attr 0 ls k
      | Attribute val \<Rightarrow> read_pars_loop E (attr_of val) 0 ls k
      | Value val \<Rightarrow>
          bind_r (read_value E attr val k) (\<lambda>r.
            case r of None \<Rightarrow> Inr (1, k, ls) | Some k \<Rightarrow> read_pars_loop E attr 0 ls k))"

definition cpu_utils_read_pars :: "'d env \<Rightarrow> kernel_info \<Rightarrow> string list \<Rightarrow> (int \<times> kernel_info \<times> string list) res" where
  "cpu_utils_read_pars E k ls =
     read_pars_loop E ATTR_T_LAST 0 ls (k\<lparr>param_num := 0, param_offsets := [], param_sizes := []\<rparr>)"

lemma read_pars_rest: "read_pars_loop E attr n ls k = Inr (rc, k', ls') \<Longrightarrow> length ls' \<le> length ls"
  by (induction E attr n ls k rule: read_pars_loop.induct)
    (auto simp: bind_r_Inr_iff le_SucI split: line_kind.split_asm if_split_asm option.split_asm)

section \<open>The kernels of a file\<close>

text \<open>
  The system: \<open>stat\<close> (whether the mode is that of a symbolic link), the target of
  \<open>/proc/self/exe\<close>, a child process with the lines it prints and its exit status, the stream on its
  output and its error flag.
\<close>

record system =
  stat_link :: "string \<Rightarrow> bool option"
  self_exe :: string
  run_child :: "string list \<Rightarrow> (string list \<times> int) option"
  stream_opens :: bool
  stream_error :: bool

definition nv_info_prefix :: string where "nv_info_prefix = ''.nv.info.''"

definition PATH_MAX :: nat where "PATH_MAX = 4096"

function kernels_loop :: "'d env \<Rightarrow> string list \<Rightarrow> kernel_info clist \<Rightarrow> (bool \<times> kernel_info clist) res" where
  "kernels_loop E [] l = Inr (True, l)"
| "kernels_loop E (line # ls) l =
     (if take (length nv_info_prefix) line \<noteq> nv_info_prefix then kernels_loop E ls l
      else let kernelname = drop (length nv_info_prefix) line in
      if kernelname = [] then Inr (False, l)
      else bind_r (list_append (heap_ok E) l True) (\<lambda>(rc, l, p).
        case p of
          None \<Rightarrow> Inr (False, l)
        | Some i \<Rightarrow>
            if \<not> heap_ok E (length kernelname) then Inr (False, l)
            else case cpu_utils_read_pars E \<lparr>k_name = butlast kernelname, param_size = unat (fresh_word E),
                   param_num = 0, param_offsets = [], param_sizes = [], host_fun = None\<rparr> ls of
              Inl e \<Rightarrow> Inl e
            | Inr (rc, k, ls') \<Rightarrow>
                bind_r (set_elem l i k) (\<lambda>l.
                  if rc \<noteq> 0 then Inr (False, l) else kernels_loop E ls' l)))"
  by pat_completeness auto
termination
  by (relation "measure (\<lambda>(E, ls, l). length ls)")
    (auto simp: cpu_utils_read_pars_def less_Suc_eq_le dest: read_pars_rest)

declare kernels_loop.simps [simp del]

text \<open>
  1 is returned when everything has been read and the child has ended with status 0, otherwise 0.
\<close>

definition cpu_utils_parameter_info ::
  "'d env \<Rightarrow> system \<Rightarrow> kernel_info clist \<Rightarrow> string option \<Rightarrow> (int \<times> kernel_info clist) res" where
  "cpu_utils_parameter_info E sys l path =
     (case path of None \<Rightarrow> Inr (0, l)
      | Some path \<Rightarrow>
      (case stat_link sys path of None \<Rightarrow> Inr (0, l)
      | Some link \<Rightarrow>
        let self = link \<or> path = ''/proc/self/exe'' in
        if self \<and> PATH_MAX \<le> length (self_exe sys) then Inr (0, l)
        else case run_child sys [''/usr/local/cuda/bin/cuobjdump'', ''--dump-elf'', if self then self_exe sys else path] of
          None \<Rightarrow> Inr (0, l)
        | Some (ls, child_exit) \<Rightarrow>
            if \<not> stream_opens sys then Inr (0, l)
            else bind_r (kernels_loop E ls l) (\<lambda>(done, l).
              Inr (if done \<and> \<not> stream_error sys \<and> child_exit = 0 then 1 else 0, l))))"

text \<open>Only that there is output to read is checked.\<close>

definition cpu_utils_contains_kernel :: "system \<Rightarrow> string \<Rightarrow> int" where
  "cpu_utils_contains_kernel sys path =
     (case stat_link sys path of None \<Rightarrow> 0
      | Some link \<Rightarrow>
        if link \<and> PATH_MAX \<le> length (self_exe sys) then 0
        else case run_child sys [''/usr/local/cuda/bin/cuobjdump'', ''--dump-elf'', if link then self_exe sys else path] of
          None \<Rightarrow> 0
        | Some (ls, child_exit) \<Rightarrow> if stream_opens sys \<and> child_exit = 0 then 1 else 0)"

section \<open>Small functions\<close>

text \<open>
  The name of the command: what \<open>/proc/self/comm\<close> has, without its last character. \<open>None\<close>: the
  file does not open.
\<close>

definition cpu_utils_command :: "'d env \<Rightarrow> string option \<Rightarrow> int \<times> string option" where
  "cpu_utils_command E comm =
     (case comm of None \<Rightarrow> (- 1, None)
      | Some s \<Rightarrow>
          let str = take 128 s in
          if str = [] \<or> \<not> heap_ok E (length str) then (- 1, None) else (0, Some (butlast str)))"

text \<open>The entries whose name and arrays are freed, in this order.\<close>

fun kernel_infos_free :: "kernel_info clist \<Rightarrow> nat \<Rightarrow> nat \<Rightarrow> kernel_info list res" where
  "kernel_infos_free l i 0 = Inr []"
| "kernel_infos_free l i (Suc n) =
     bind_r (elem_at l i) (\<lambda>k. bind_r (kernel_infos_free l (Suc i) n) (\<lambda>ks. Inr (k # ks)))"

text \<open>A dump of a block, as it is printed.\<close>

definition hex2 :: "u8 \<Rightarrow> string" where
  "hex2 b = (let h = hex (unat b) in if length h < 2 then CHR ''0'' # h else h)"

definition hexdump_line :: "u8 list \<Rightarrow> nat \<Rightarrow> string" where
  "hexdump_line m pos =
     concat (map (\<lambda>i. (if pos + i < length m then hex2 (m ! (pos + i)) else ''  '') @
       (if i mod 4 = 3 then '' '' else [])) [0..<16]) @ '' | '' @
     map (\<lambda>i. if pos + i < length m
       then (let b = m ! (pos + i) in if 0x20 \<le> b \<and> b \<le> 0x7e then char_of (unat b) else CHR ''.'') else CHR '' '') [0..<16] @
     [CHR 0x0A]"

text \<open>The position has a prefix, and zeros up to five characters; the position 0 has no prefix.\<close>

definition hexdump_pos :: "nat \<Rightarrow> string" where
  "hexdump_pos pos =
     (let h = hex pos in
      if pos = 0 then ''00000'' else ''0x'' @ replicate (3 - length h) (CHR ''0'') @ h)"

function hexdump_from :: "u8 list \<Rightarrow> nat \<Rightarrow> string" where
  "hexdump_from m pos =
     (if pos < length m
      then hexdump_pos pos @ '': '' @ hexdump_line m pos @ hexdump_from m (pos + 16) else [])"
  by pat_completeness auto
termination by (relation "measure (\<lambda>(m, pos). length m - pos)") auto

declare hexdump_from.simps [simp del]

definition hexdump :: "u8 list \<Rightarrow> string" where
  "hexdump m = hexdump_from m 0"

end
