(* ===== verification/ClientDriver.thy ===== *)
theory ClientDriver
  imports ClientCopy ClientLib CuObjdump
begin

text \<open>
  The functions of the client library for the driver API that have code of their own
  (\<open>cpu/cpu-client-driver.c\<close>), as compiled for CUDA 11.
\<close>

(* ARITY cuLaunchKernel ['l'] ['f', 'gridDimX', 'gridDimY', 'gridDimZ', 'blockDimX', 'blockDimY', 'blockDimZ', 'sharedMemBytes', 'hStream', '??rpc_args'] *)
(* NO CALL cuGetProcAddress *)
definition cuDeviceTotalMem :: "'d env \<Rightarrow> int \<Rightarrow> u32 \<Rightarrow> ('d, u32 \<times> cval list) client_fn" where
  "cuDeviceTotalMem E fd dev =
     driver_rpc E [Word64 (fresh_word E)] (rpc_cudevicetotalmem_1_svc E fd dev)"

definition cuMemAlloc :: "'d env \<Rightarrow> int \<Rightarrow> u64 \<Rightarrow> ('d, u32 \<times> cval list) client_fn" where
  "cuMemAlloc E fd bytesize =
     driver_rpc E [Word64 (fresh_word E)] (rpc_cumemalloc_1_svc E fd bytesize)"

definition cuInit :: "'d env \<Rightarrow> u32 \<Rightarrow> ('d, u32) client_fn" where
  "cuInit E Flags =
     driver_int_rpc E (rpc_cuinit_1_svc E Flags)"

definition cuDeviceGet :: "'d env \<Rightarrow> int \<Rightarrow> u32 \<Rightarrow> ('d, u32 \<times> cval list) client_fn" where
  "cuDeviceGet E fd ordinal =
     driver_rpc E [Int32 (unset32 E)] (rpc_cudeviceget_1_svc E fd ordinal)"

definition cuDeviceGetCount :: "'d env \<Rightarrow> ('d, u32 \<times> cval list) client_fn" where
  "cuDeviceGetCount E =
     driver_rpc E [Int32 (unset32 E)] (rpc_cudevicegetcount_1_svc E)"

text \<open>
  The string is decoded to a block of 128 bytes, or one XDR allocates if there is no memory for that;
  \<open>ln\<close> characters of it are copied at most. If the code is not 0 the block is copied as \<open>malloc\<close>
  has left it.
\<close>

definition cuDeviceGetName :: "'d env \<Rightarrow> int \<Rightarrow> u32 \<Rightarrow> u32 \<Rightarrow> ('d, u32 \<times> string option) client_fn" where
  "cuDeviceGetName E fd ln dev =
     bind_c (rpc (rpc_cudevicegetname_1_svc E fd dev)) (\<lambda>(st, r).
       let n = unat (scast ln :: u64) in
       if st \<noteq> RPC_SUCCESS then ret_c (CUDA_ERROR_UNKNOWN, None)
       else case r of
         Some [Int32 e, Text t] \<Rightarrow>
           if e = 0
           then (if heap_ok E 128 \<and> 128 \<le> length t then lift_c (Inl Out_Of_Bounds)
                 else ret_c (e, Some (take n t)))
           else if \<not> heap_ok E 128 then ret_c (CUDA_ERROR_UNKNOWN, None)
           else bind_c (lift_c (blank_text E n)) (\<lambda>t. ret_c (e, Some t))
       | _ \<Rightarrow> if \<not> heap_ok E 128 then ret_c (CUDA_ERROR_UNKNOWN, None)
           else bind_c (lift_c (blank_text E n)) (\<lambda>t. ret_c (err_of (unset32 E) r, Some t)))"

text \<open>The bytes are copied from a string whose pointer has not been set, or not by this function.\<close>

definition cuDeviceGetUuid :: "'d env \<Rightarrow> int \<Rightarrow> u32 \<Rightarrow> ('d, u32) client_fn" where
  "cuDeviceGetUuid E fd dev =
     bind_c (rpc (rpc_cudevicegetuuid_1_svc E fd dev)) (\<lambda>(st, r).
       if st \<noteq> RPC_SUCCESS then ret_c CUDA_ERROR_UNKNOWN else lift_c (Inl Uninit_Read))"

definition cuDeviceGetAttribute :: "'d env \<Rightarrow> int \<Rightarrow> u32 \<Rightarrow> u32 \<Rightarrow> ('d, u32 \<times> cval list) client_fn" where
  "cuDeviceGetAttribute E fd attrib dev =
     driver_rpc E [Int32 (unset32 E)] (rpc_cudevicegetattribute_1_svc E fd attrib dev)"

text \<open>
  The block is decoded to an uninitialised pointer. If the code is not 0, the length that is compared
  is uninitialised.
\<close>

definition cuDeviceGetProperties :: "'d env \<Rightarrow> int \<Rightarrow> bool \<Rightarrow> u32 \<Rightarrow> ('d, u32) client_fn" where
  "cuDeviceGetProperties E fd prop_null dev =
     (if prop_null then ret_c CUDA_ERROR_INVALID_VALUE
      else bind_c (rpc (rpc_cudevicegetproperties_1_svc E fd dev)) (\<lambda>(st, r).
        if st \<noteq> RPC_SUCCESS then ret_c CUDA_ERROR_UNKNOWN
        else if err_of (unset32 E) r = 0 \<or> unset32 E = of_nat sizeof_CUdevprop then lift_c (Inl Uninit_Read)
        else ret_c CUDA_ERROR_INVALID_VALUE))"

definition cuDeviceComputeCapability :: "'d env \<Rightarrow> int \<Rightarrow> u32 \<Rightarrow> bool \<Rightarrow> ('d, u32 \<times> cval list) client_fn"
  where
  "cuDeviceComputeCapability E fd dev some_null =
     (if some_null then ret_c (CUDA_ERROR_INVALID_VALUE, [])
      else driver_rpc E [Int32 (unset32 E), Int32 (unset32 E)] (rpc_cudevicecomputecapability_1_svc E fd
         dev))"

text \<open>The value is not stored.\<close>

definition cuDeviceGetP2PAttribute :: "'d env \<Rightarrow> int \<Rightarrow> u32 \<Rightarrow> u64 \<Rightarrow> u64 \<Rightarrow> ('d, u32) client_fn" where
  "cuDeviceGetP2PAttribute E fd attrib srcDevice dstDevice =
     bind_c (driver_rpc E [] (rpc_cudevicegetp2pattribute_1_svc E fd attrib srcDevice dstDevice)) (\<lambda>(e, _). ret_c e)"

definition cuDriverGetVersion :: "'d env \<Rightarrow> ('d, u32 \<times> cval list) client_fn" where
  "cuDriverGetVersion E =
     driver_rpc E [Int32 (unset32 E)] (rpc_cudrivergetversion_1_svc E)"

definition cuDevicePrimaryCtxRetain :: "'d env \<Rightarrow> u32 \<Rightarrow> ('d, u32 \<times> cval list) client_fn" where
  "cuDevicePrimaryCtxRetain E dev =
     driver_rpc E [Word64 (fresh_word E)] (rpc_cudeviceprimaryctxretain_1_svc E dev)"

definition cuDevicePrimaryCtxGetState :: "'d env \<Rightarrow> int \<Rightarrow> u32 \<Rightarrow> bool \<Rightarrow> ('d, u32 \<times> cval list) client_fn"
  where
  "cuDevicePrimaryCtxGetState E fd dev some_null =
     (if some_null then ret_c (CUDA_ERROR_INVALID_VALUE, [])
      else driver_rpc E [Int32 (unset32 E), Int32 (unset32 E)] (rpc_cudeviceprimaryctxgetstate_1_svc E fd
         dev))"

definition cuCtxSetCurrent :: "'d env \<Rightarrow> u64 \<Rightarrow> ('d, u32) client_fn" where
  "cuCtxSetCurrent E ctx =
     driver_int_rpc E (rpc_cuctxsetcurrent_1_svc E ctx)"

definition cuCtxGetCurrent :: "'d env \<Rightarrow> int \<Rightarrow> ('d, u32 \<times> cval list) client_fn" where
  "cuCtxGetCurrent E fd =
     driver_rpc E [Word64 (fresh_word E)] (rpc_cuctxgetcurrent_1_svc E fd)"

definition cuCtxGetDevice :: "'d env \<Rightarrow> int \<Rightarrow> ('d, u32 \<times> cval list) client_fn" where
  "cuCtxGetDevice E fd =
     driver_rpc E [Int32 (unset32 E)] (rpc_cuctxgetdevice_1_svc E fd)"

text \<open>
  The kernels of the module are read first, with the result 1 when that has worked. The module is
  not stored if its pointer is NULL.
\<close>

definition CUDA_ERROR_FILE_NOT_FOUND :: u32 where "CUDA_ERROR_FILE_NOT_FOUND = 301"

definition module_of :: "bool \<Rightarrow> u32 \<times> cval list \<Rightarrow> u32 \<times> cval list" where
  "module_of module_null r = (fst r, if module_null then [] else snd r)"

definition cuModuleLoad ::
  "'d env \<Rightarrow> system \<Rightarrow> int \<Rightarrow> bool \<Rightarrow> rpc_string option \<Rightarrow> ('d, u32 \<times> cval list) client_fn" where
  "cuModuleLoad E sys fd module_null fname =
     (case fname of None \<Rightarrow> ret_c (CUDA_ERROR_FILE_NOT_FOUND, [])
      | Some name \<Rightarrow>
        bind_c (get_c kernel_infos) (\<lambda>infos.
        bind_c (lift_c (cpu_utils_parameter_info E sys infos (Some (snd name)))) (\<lambda>(rc, infos).
        bind_c (set_c (\<lambda>c. c\<lparr>kernel_infos := infos\<rparr>)) (\<lambda>_.
        if rc \<noteq> 0 then ret_c (CUDA_ERROR_FILE_NOT_FOUND, [])
        else bind_c (driver_rpc E [Word64 (fresh_word E)] (rpc_cumoduleload_1_svc E 1019 fd name))
               (\<lambda>r. ret_c (module_of module_null r))))))"

text \<open>
  The length of the image is taken from its ELF header: the offset of the section headers
  (\<open>e_shoff\<close>, at 40) and their size (\<open>e_shentsize\<close>, at 58) and number (\<open>e_shnum\<close>, at 60), cut to the
  32 bits of \<open>mem_data_len\<close>. \<open>img\<close> is the memory behind the pointer.
\<close>

definition CUDA_ERROR_INVALID_IMAGE :: u32 where "CUDA_ERROR_INVALID_IMAGE = 200"

definition ELFMAG :: "u8 list" where "ELFMAG = [0x7f, 0x45, 0x4c, 0x46]"

definition image_size :: "u8 list \<Rightarrow> nat res" where
  "image_size m =
     bind_r (rd m 40 8) (\<lambda>shoff. bind_r (rd m 58 2) (\<lambda>shentsize. bind_r (rd m 60 2) (\<lambda>shnum.
       Inr ((shoff + shnum * shentsize) mod 2 ^ 32))))"

definition cuModuleLoadData ::
  "'d env \<Rightarrow> bool \<Rightarrow> (u8 list \<Rightarrow> elf_image) \<Rightarrow> int \<Rightarrow> bool \<Rightarrow> u8 list option \<Rightarrow> ('d, u32 \<times> cval list) client_fn" where
  "cuModuleLoadData E dump_opens elf_memory fd module_null img =
     (case img of None \<Rightarrow> ret_c (CUDA_ERROR_INVALID_IMAGE, [])
      | Some m \<Rightarrow>
        if length m < 4 then lift_c (Inl Out_Of_Bounds)
        else if take 4 m \<noteq> ELFMAG then ret_c (CUDA_ERROR_INVALID_IMAGE, [])
        else bind_c (lift_c (image_size m)) (\<lambda>n.
        if length m < n then lift_c (Inl Out_Of_Bounds)
        else bind_c (get_c kernel_infos) (\<lambda>infos.
        bind_c (lift_c (elf2_parameter_info E dump_opens elf_memory infos (take n m))) (\<lambda>(rc, infos).
        bind_c (set_c (\<lambda>c. c\<lparr>kernel_infos := infos\<rparr>)) (\<lambda>_.
        if rc \<noteq> 0 then ret_c (CUDA_ERROR_INVALID_IMAGE, [])
        else bind_c (driver_rpc E [Word64 (fresh_word E)]
               (rpc_cumoduleloaddata_1_svc E 1026 fd \<lparr>mem_addr = fresh_word E, mem_val = take n m\<rparr>))
               (\<lambda>r. ret_c (module_of module_null r)))))))"

definition cuModuleUnload :: "'d env \<Rightarrow> int \<Rightarrow> u64 \<Rightarrow> ('d, u32) client_fn" where
  "cuModuleUnload E fd hmod =
     driver_int_rpc E (rpc_cumoduleunload_1_svc E 1021 fd hmod)"

text \<open>
  The function is stored, and becomes the host function of the kernel of that name, whatever the
  code is.
\<close>

definition cuModuleGetFunction ::
  "'d env \<Rightarrow> int \<Rightarrow> u64 \<Rightarrow> rpc_string \<Rightarrow> ('d, u32 \<times> u64 option) client_fn" where
  "cuModuleGetFunction E fd hmod name =
     bind_c (rpc (rpc_cumodulegetfunction_1_svc E 1013 fd hmod name)) (\<lambda>(st, r).
       if st \<noteq> RPC_SUCCESS then ret_c (CUDA_ERROR_UNKNOWN, None)
       else
         let e = err_of (unset32 E) r;
             p = (case r of Some [_, Word64 p] \<Rightarrow> if e = 0 then p else fresh_word E | _ \<Rightarrow> fresh_word E) in
         bind_c (get_c kernel_infos) (\<lambda>infos.
         bind_c (lift_c (utils_search_info infos (snd name))) (\<lambda>found.
         case found of
           None \<Rightarrow> ret_c (CUDA_ERROR_UNKNOWN, Some p)
         | Some i \<Rightarrow>
             bind_c (lift_c (elem_at infos i)) (\<lambda>info.
             bind_c (lift_c (set_elem infos i (info\<lparr>host_fun := Some p\<rparr>))) (\<lambda>l.
             bind_c (set_c (\<lambda>c. c\<lparr>kernel_infos := l\<rparr>)) (\<lambda>_. ret_c (e, Some p)))))))"

definition cuMemcpyHtoD :: "'d env \<Rightarrow> int \<Rightarrow> u64 \<Rightarrow> u8 list \<Rightarrow> u64 \<Rightarrow> ('d, u32) client_fn" where
  "cuMemcpyHtoD E fd dstDevice srcHost ByteCount =
     send_block E srcHost (ucast ByteCount) (\<lambda>src.
     driver_int_rpc E (rpc_cumemcpyhtod_1_svc E fd dstDevice src))"

text \<open>
  The parameters come as an array of pointers, or in a buffer whose pointer and size are entries of
  \<open>extra\<close>. The size is the fourth entry itself, which by the interface is the address of the size.
\<close>

definition CUDA_ERROR_INVALID_CONTEXT :: u32 where "CUDA_ERROR_INVALID_CONTEXT = 201"

datatype kernel_args = Params "u8 list list" | Extra "u8 list" u64 | No_Args

definition driver_args :: "'d env \<Rightarrow> kernel_info \<Rightarrow> kernel_args \<Rightarrow> mem_data res" where
  "driver_args E k as =
     (case as of
        Params args \<Rightarrow> bind_r (pack_args E k args) (\<lambda>buf. Inr \<lparr>mem_addr = fresh_word E, mem_val = buf\<rparr>)
      | Extra buf sz \<Rightarrow>
          (if length buf < unat (ucast sz :: u32) then Inl Out_Of_Bounds
           else Inr \<lparr>mem_addr = fresh_word E, mem_val = take (unat (ucast sz :: u32)) buf\<rparr>)
      | No_Args \<Rightarrow> Inr \<lparr>mem_addr = 0, mem_val = []\<rparr>)"

definition cuLaunchKernel ::
  "'d env \<Rightarrow> int \<Rightarrow> u64 \<Rightarrow> rpc_dim3 \<Rightarrow> rpc_dim3 \<Rightarrow> u32 \<Rightarrow> u64 \<Rightarrow> kernel_args \<Rightarrow> ('d, u32) client_fn" where
  "cuLaunchKernel E fd f grid block sharedMemBytes hStream kargs =
     bind_c (get_c kernel_infos) (\<lambda>infos.
     bind_c (lift_c (find_kernel infos f 0 (len infos))) (\<lambda>info.
     case info of None \<Rightarrow> ret_c CUDA_ERROR_INVALID_CONTEXT
     | Some k \<Rightarrow>
         bind_c (lift_c (driver_args E k kargs)) (\<lambda>args.
         driver_int_rpc E (rpc_culaunchkernel_1_svc E fd \<lparr>l_func = f, l_grid = grid, l_block = block,
           l_args = args, l_shared = ucast sharedMemBytes, l_stream = hStream\<rparr>))))"

text \<open>The string is copied to a block of its own; \<open>None\<close>: nothing is stored, or NULL.\<close>

definition cuGetErrorString :: "'d env \<Rightarrow> bool \<Rightarrow> u32 \<Rightarrow> ('d, u32 \<times> string option) client_fn" where
  "cuGetErrorString E pStr_null error =
     bind_c (rpc (rpc_cugeterrorstring_1_svc E error)) (\<lambda>(st, r).
       if st \<noteq> RPC_SUCCESS then ret_c (CUDA_ERROR_UNKNOWN, None)
       else case r of
         Some [Int32 e, Text t] \<Rightarrow>
           if e = 0
           then (if heap_ok E 128 \<and> 128 \<le> length t then lift_c (Inl Out_Of_Bounds)
                 else ret_c (e, if pStr_null \<or> \<not> heap_ok E 128 then None else Some t))
           else if pStr_null \<or> \<not> heap_ok E 128 then ret_c (e, None)
           else bind_c (lift_c (blank_text E 128)) (\<lambda>t. ret_c (e, Some t))
       | _ \<Rightarrow> if pStr_null \<or> \<not> heap_ok E 128 then ret_c (err_of (unset32 E) r, None)
           else bind_c (lift_c (blank_text E 128)) (\<lambda>t. ret_c (err_of (unset32 E) r, Some t)))"


end
