(* ===== verification/Fatbin.thy ===== *)
theory Fatbin
  imports Decompress KernelInfo
begin

text \<open>
  The headers of fat binaries (\<open>cpu/cpu-elf2.c\<close>, \<open>cpu/cpu-elf2.h\<close>): the checks of both headers, the
  walk over the sections of a binary that collects its kernels, and the decompression of a whole
  binary. \<open>m\<close> is the memory readable from the beginning of the binary, \<open>addr\<close> its address; a pointer
  into it is a position. \<open>size_t\<close> differences are taken modulo \<open>2 ^ 64\<close>.
\<close>

section \<open>Headers\<close>

record fat_elf_header =
  eh_magic :: nat
  eh_version :: nat
  eh_header_size :: nat
  eh_size :: nat

record fat_text_header =
  th_kind :: nat
  th_header_size :: nat
  th_size :: nat
  th_compressed_size :: nat
  th_obj_name_offset :: nat
  th_obj_name_len :: nat
  th_flags :: nat
  th_decompressed_size :: nat

text \<open>The header of the structure the compiler leaves in the binary; its pointer is the memory behind it.\<close>

record fat_header =
  fh_magic :: nat
  fh_text :: "u8 list option"

definition FATBIN_STRUCT_MAGIC :: nat where "FATBIN_STRUCT_MAGIC = 0x466243b1"
definition FATBIN_TEXT_MAGIC :: nat where "FATBIN_TEXT_MAGIC = 0xBA55ED50"
definition sizeof_fat_elf_header :: nat where "sizeof_fat_elf_header = 16"
definition sizeof_fat_text_header :: nat where "sizeof_fat_text_header = 64"

text \<open>\<open>flags & FATBIN_FLAG_COMPRESS\<close>, and the flags without this one.\<close>

definition FATBIN_FLAG_COMPRESS :: nat where "FATBIN_FLAG_COMPRESS = 0x2000"

definition compressed :: "fat_text_header \<Rightarrow> bool" where
  "compressed th \<longleftrightarrow> odd (th_flags th div FATBIN_FLAG_COMPRESS)"

definition clear_compressed :: "nat \<Rightarrow> nat" where
  "clear_compressed flags =
     (if odd (flags div FATBIN_FLAG_COMPRESS) then flags - FATBIN_FLAG_COMPRESS else flags)"

definition sub64 :: "nat \<Rightarrow> nat \<Rightarrow> nat" where
  "sub64 a b = wrap64 (a + 2 ^ 64 - wrap64 b)"

definition get_elf_header :: "u8 list \<Rightarrow> nat \<Rightarrow> nat \<Rightarrow> fat_elf_header option res" where
  "get_elf_header m p fatbin_size =
     (if fatbin_size < sizeof_fat_elf_header then Inr None
      else bind_r (rd m p 4) (\<lambda>magic. bind_r (rd m (p + 4) 2) (\<lambda>version.
           bind_r (rd m (p + 6) 2) (\<lambda>header_size. bind_r (rd m (p + 8) 8) (\<lambda>size.
             Inr (if magic \<noteq> FATBIN_TEXT_MAGIC then None
                  else if version \<noteq> 1 \<or> header_size \<noteq> sizeof_fat_elf_header then None
                  else Some \<lparr>eh_magic = magic, eh_version = version, eh_header_size = header_size, eh_size = size\<rparr>))))))"

text \<open>The last character of the name is looked at, at the offset the header gives.\<close>

definition get_text_header :: "u8 list \<Rightarrow> nat \<Rightarrow> nat \<Rightarrow> fat_text_header option res" where
  "get_text_header m p fatbin_size =
     (if fatbin_size < sizeof_fat_text_header then Inr None
      else bind_r (rd m p 2) (\<lambda>kind. bind_r (rd m (p + 4) 4) (\<lambda>header_size.
           bind_r (rd m (p + 8) 8) (\<lambda>size. bind_r (rd m (p + 16) 4) (\<lambda>csize.
           bind_r (rd m (p + 32) 4) (\<lambda>off. bind_r (rd m (p + 36) 4) (\<lambda>ln.
           bind_r (rd m (p + 40) 8) (\<lambda>flags. bind_r (rd m (p + 56) 8) (\<lambda>dsize.
           bind_r (if off \<noteq> 0 then rd m (p + (off + ln) mod 2 ^ 32) 1 else Inr 0) (\<lambda>_.
             Inr (Some \<lparr>th_kind = kind, th_header_size = header_size, th_size = size, th_compressed_size = csize,
               th_obj_name_offset = off, th_obj_name_len = ln, th_flags = flags, th_decompressed_size = dsize\<rparr>)))))))))))"

section \<open>The kernels of a binary\<close>

text \<open>
  One section: it is skipped unless it has device code (kind 2); otherwise the kernels of its data
  are added, after it has been decompressed. The result has the position behind it, \<open>None\<close> is an
  error.
\<close>

definition section_kernels ::
  "'d env \<Rightarrow> bool \<Rightarrow> (u8 list \<Rightarrow> elf_image) \<Rightarrow> nat \<Rightarrow> u8 list \<Rightarrow> fat_text_header \<Rightarrow> nat \<Rightarrow> kernel_info clist \<Rightarrow>
   (nat option \<times> kernel_info clist) res" where
  "section_kernels E dump_opens elf_memory addr m th p l =
     (if th_kind th \<noteq> 2 then Inr (Some (p + th_size th), l)
      else bind_r
        (if compressed th
         then bind_r (decompress_single_section E (addr + p) (drop p m) (th_compressed_size th) (th_decompressed_size th))
           (\<lambda>(rc, out). Inr (case out of None \<Rightarrow> None | Some (output, n) \<Rightarrow> Some (take n output, p + nat rc)))
         else if length m < p + th_size th then Inl Out_Of_Bounds
         else Inr (Some (blk p (th_size th) m, p + th_size th)))
        (\<lambda>r. case r of None \<Rightarrow> Inr (None, l)
           | Some (text_data, p') \<Rightarrow>
               bind_r (elf2_parameter_info E dump_opens elf_memory l text_data) (\<lambda>(rc, l).
                 Inr (if rc \<noteq> 0 then None else Some p', l))))"

text \<open>
  \<open>fatbin_size\<close> is what the variable behind the pointer has on entry. The position moves by what the
  headers say, so the loop may not end.
\<close>

fun fatbin_loop ::
  "nat \<Rightarrow> 'd env \<Rightarrow> bool \<Rightarrow> (u8 list \<Rightarrow> elf_image) \<Rightarrow> nat \<Rightarrow> u8 list \<Rightarrow> nat \<Rightarrow> fat_elf_header \<Rightarrow> nat \<Rightarrow> kernel_info clist \<Rightarrow>
   (int \<times> kernel_info clist) res" where
  "fatbin_loop 0 E dump_opens elf_memory addr m fatbin_size eh p l = Inl No_Fuel"
| "fatbin_loop (Suc fuel) E dump_opens elf_memory addr m fatbin_size eh p l =
     bind_r (get_text_header m p (sub64 (sub64 fatbin_size p) (eh_header_size eh))) (\<lambda>th.
       case th of None \<Rightarrow> Inr (- 1, l)
       | Some th \<Rightarrow>
           bind_r (section_kernels E dump_opens elf_memory addr m th (p + th_header_size th) l) (\<lambda>(p', l).
             case p' of None \<Rightarrow> Inr (- 1, l)
             | Some p \<Rightarrow>
                 if p < eh_header_size eh + eh_size eh
                 then fatbin_loop fuel E dump_opens elf_memory addr m fatbin_size eh p l
                 else Inr (0, l)))"

definition elf2_get_fatbin_info ::
  "nat \<Rightarrow> 'd env \<Rightarrow> bool \<Rightarrow> (u8 list \<Rightarrow> elf_image) \<Rightarrow> nat \<Rightarrow> fat_header option \<Rightarrow> nat \<Rightarrow> kernel_info clist \<Rightarrow>
   ((u8 list \<times> nat) option \<times> kernel_info clist) res" where
  "elf2_get_fatbin_info fuel E dump_opens elf_memory addr fatbin fatbin_size l =
     (case fatbin of None \<Rightarrow> Inr (None, l)
      | Some fh \<Rightarrow>
        if fh_magic fh \<noteq> FATBIN_STRUCT_MAGIC then Inr (None, l)
        else case fh_text fh of None \<Rightarrow> Inr (None, l)
        | Some m \<Rightarrow>
            bind_r (get_elf_header m 0 sizeof_fat_elf_header) (\<lambda>eh.
              case eh of None \<Rightarrow> Inr (None, l)
              | Some eh \<Rightarrow>
                  bind_r (fatbin_loop fuel E dump_opens elf_memory addr m fatbin_size eh (eh_header_size eh) l) (\<lambda>(rc, l).
                    Inr (if rc \<noteq> 0 then None else Some (m, wrap64 (eh_header_size eh + eh_size eh)), l))))"

section \<open>Decompression of a whole binary\<close>

text \<open>
  A number in the output block is replaced by one of the same width; \<open>upd\<close> reads the old one.
\<close>

definition upd :: "u8 list \<Rightarrow> nat \<Rightarrow> nat \<Rightarrow> (nat \<Rightarrow> nat) \<Rightarrow> u8 list res" where
  "upd out p n f =
     (if p + n \<le> length out then Inr (blit out p (le_bytes n (f (le_val (blk p n out))))) else Inl Out_Of_Bounds)"

definition put :: "u8 list \<Rightarrow> nat \<Rightarrow> u8 list \<Rightarrow> u8 list res" where
  "put out p bs = (if p + length bs \<le> length out then Inr (blit out p bs) else Inl Out_Of_Bounds)"

definition read_block :: "u8 list \<Rightarrow> nat \<Rightarrow> nat \<Rightarrow> u8 list res" where
  "read_block m p n = (if p + n \<le> length m then Inr (blk p n m) else Inl Out_Of_Bounds)"

text \<open>
  \<open>decompress_section\<close>: the text header at \<open>tp\<close>, its data at \<open>p\<close>, the ELF header at \<open>ep\<close>. The output
  block grows; the first section of a binary copies the ELF header to it, at \<open>off\<close>. The padding
  behind the data is compared with a block of six zeros. The state is the output block (\<open>None\<close> is
  NULL), the size of the output and \<open>off\<close>; the result is the number of bytes read, or -1.
\<close>

definition decompress_section ::
  "'d env \<Rightarrow> nat \<Rightarrow> u8 list \<Rightarrow> nat \<Rightarrow> nat \<Rightarrow> nat \<Rightarrow> fat_elf_header \<Rightarrow> fat_text_header \<Rightarrow>
   u8 list option \<times> nat \<times> nat \<Rightarrow> (int \<times> u8 list option \<times> nat \<times> nat) res" where
  "decompress_section E addr m ep tp p eh th st =
     (let (output, size, off) = st;
          dsize = th_decompressed_size th;
          hsize = th_header_size th;
          total = wrap64 (size + dsize + eh_header_size eh + hsize);
          old = (case output of None \<Rightarrow> [] | Some b \<Rightarrow> b);
          pos = size;
          size' = wrap64 (size + dsize + hsize) in
      if \<not> heap_ok E total then Inr (- 1, None, size, off)
      else
        let out = take total old @ replicate (total - length old) (fresh_byte E);
            first = (p = ep + eh_header_size eh + hsize) in
        bind_r (if first then bind_r (read_block m ep (eh_header_size eh)) (\<lambda>h.
                  bind_r (put out pos h) (\<lambda>out. upd out (pos + 8) 8 (\<lambda>_. 0)))
                else Inr out) (\<lambda>out.
        let off = (if first then pos else off);
            size' = (if first then wrap64 (size' + eh_header_size eh) else size');
            pos = (if first then pos + eh_header_size eh else pos) in
        bind_r (upd out (off + 8) 8 (\<lambda>n. wrap64 (n + dsize + hsize))) (\<lambda>out.
        bind_r (read_block m tp hsize) (\<lambda>h.
        bind_r (put out pos h) (\<lambda>out.
        bind_r (upd out (pos + 40) 8 clear_compressed) (\<lambda>out.
        bind_r (upd out (pos + 16) 4 (\<lambda>_. 0)) (\<lambda>out.
        bind_r (upd out (pos + 56) 8 (\<lambda>_. 0)) (\<lambda>out.
        bind_r (upd out (pos + 8) 8 (\<lambda>_. dsize)) (\<lambda>out.
        let dpos = pos + hsize in
        bind_r (decompress (drop p m) (th_compressed_size th) (drop dpos out) dsize) (\<lambda>(ret, d).
        let out = take dpos out @ d in
        if ret \<noteq> dsize then Inr (- 1, None, size', off)
        else
          let input_read = th_compressed_size th;
              padding = 8 - (addr + p + input_read) mod 8 in
          if 6 < padding then Inl Out_Of_Bounds
          else bind_r (read_block m (p + input_read) padding) (\<lambda>z.
          if \<not> all_zero z then Inr (- 1, None, size', off)
          else
            let input_read = input_read + padding; padding = pad8 dsize in
            bind_r (put out (dpos + dsize) (replicate padding 0)) (\<lambda>out.
            bind_r (upd out (off + 8) 8 (\<lambda>n. wrap64 (n + padding))) (\<lambda>out.
            bind_r (upd out (pos + 8) 8 (\<lambda>n. wrap64 (n + padding))) (\<lambda>out.
              Inr (int input_read, Some out, wrap64 (size' + padding), off)))))))))))))))"

text \<open>The two loops of \<open>decompress_fatbin\<close>: over the binaries in the data, and over the sections of one.\<close>

fun sections_loop ::
  "nat \<Rightarrow> 'd env \<Rightarrow> nat \<Rightarrow> u8 list \<Rightarrow> nat \<Rightarrow> nat \<Rightarrow> fat_elf_header \<Rightarrow> nat \<Rightarrow> u8 list option \<times> nat \<times> nat \<Rightarrow>
   (nat option \<times> u8 list option \<times> nat \<times> nat) res" where
  "sections_loop 0 E addr m fatbin_size ep eh p st = Inl No_Fuel"
| "sections_loop (Suc fuel) E addr m fatbin_size ep eh p st =
     bind_r (get_text_header m p (sub64 (sub64 fatbin_size p) (eh_header_size eh))) (\<lambda>th.
       case th of None \<Rightarrow> Inr (None, st)
       | Some th \<Rightarrow>
           bind_r (decompress_section E addr m ep p (p + th_header_size th) eh th st) (\<lambda>(rc, st).
             if rc < 0 then Inr (None, st)
             else let p = p + th_header_size th + nat rc in
               if p < ep + eh_header_size eh + eh_size eh then sections_loop fuel E addr m fatbin_size ep eh p st
               else Inr (Some p, st)))"

fun binaries_loop ::
  "nat \<Rightarrow> 'd env \<Rightarrow> nat \<Rightarrow> u8 list \<Rightarrow> nat \<Rightarrow> nat \<Rightarrow> u8 list option \<times> nat \<times> nat \<Rightarrow> (nat \<times> u8 list option) res" where
  "binaries_loop 0 E addr m fatbin_size p st = Inl No_Fuel"
| "binaries_loop (Suc fuel) E addr m fatbin_size p st =
     (if p < fatbin_size
      then bind_r (get_elf_header m p (sub64 fatbin_size p)) (\<lambda>eh.
        case eh of None \<Rightarrow> Inr (0, None)
        | Some eh \<Rightarrow>
            bind_r (sections_loop fuel E addr m fatbin_size p eh (p + eh_header_size eh) st) (\<lambda>(p', st).
              case p' of None \<Rightarrow> Inr (0, None)
              | Some p \<Rightarrow> binaries_loop fuel E addr m fatbin_size p st))
      else Inr (fst (snd st), fst st))"

definition decompress_fatbin :: "nat \<Rightarrow> 'd env \<Rightarrow> nat \<Rightarrow> u8 list option \<Rightarrow> nat \<Rightarrow> (nat \<times> u8 list option) res" where
  "decompress_fatbin fuel E addr fatbin_data fatbin_size =
     (case fatbin_data of None \<Rightarrow> Inr (0, None)
      | Some m \<Rightarrow> binaries_loop fuel E addr m fatbin_size 0 (None, 0, 0))"

end
