(* ===== verification/ClientStart.thy ===== *)
theory ClientStart
  imports ServerMain ClientDriver Fatbin
begin

text \<open>
  The process of the application (\<open>cpu/cpu-client.c\<close>): the connection, the constructor and the
  destructor of the library, the functions it puts in front of \<open>dlopen\<close> and \<open>dlclose\<close>, and the
  registration of fat binaries. The calls of the system and of the RPC library go through \<open>os_call\<close>;
  the environment variables are an argument. \<open>exit\<close> is the fault \<open>Exited\<close>; what runs after it is left
  out.
\<close>

section \<open>State\<close>

text \<open>\<open>clnt\<close> and the pointers of the functions and of the library are addresses; 0 is NULL.\<close>

record 'd process =
  app :: "'d client"
  clnt :: u64
  server_name :: string
  initialized :: bool
  dlopen_orig :: u64
  dlclose_orig :: u64
  dl_handle :: u64

type_synonym ('d, 'a) process_fn = "'d process \<Rightarrow> ('a \<times> 'd process) res"

definition bind_p :: "('d, 'a) process_fn \<Rightarrow> ('a \<Rightarrow> ('d, 'b) process_fn) \<Rightarrow> ('d, 'b) process_fn" where
  "bind_p m f p = bind_r (m p) (\<lambda>(x, p). f x p)"

definition ret_p :: "'a \<Rightarrow> ('d, 'a) process_fn" where
  "ret_p x p = Inr (x, p)"

definition set_p :: "('d process \<Rightarrow> 'd process) \<Rightarrow> ('d, unit) process_fn" where
  "set_p g p = Inr ((), g p)"

definition fail_p :: "fault \<Rightarrow> ('d, 'a) process_fn" where
  "fail_p e p = Inl e"

definition on_app :: "('d, 'a) client_fn \<Rightarrow> ('d, 'a) process_fn" where
  "on_app m p = bind_r (m (app p)) (\<lambda>(x, c). Inr (x, p\<lparr>app := c\<rparr>))"

text \<open>A system call that returns an address.\<close>

definition address_call :: "'d env \<Rightarrow> string \<Rightarrow> cval list \<Rightarrow> ('d, u64) process_fn" where
  "address_call E name args = bind_p (on_app (os_call E name args)) (\<lambda>(_, outs). ret_p (out64 E outs 0))"

section \<open>Connection\<close>

text \<open>\<open>sscanf\<close> with \<open>%lu\<close>.\<close>

definition decimal_digit :: "char \<Rightarrow> bool" where
  "decimal_digit c \<longleftrightarrow> 48 \<le> (of_char c :: nat) \<and> (of_char c :: nat) \<le> 57"

definition scan_lu :: "string \<Rightarrow> u64 option" where
  "scan_lu s =
     (let s = dropWhile isspace s;
          minus = (case s of c # _ \<Rightarrow> c = CHR ''-'' | _ \<Rightarrow> False);
          s = (case s of c # r \<Rightarrow> if c = CHR ''-'' \<or> c = CHR ''+'' then r else s | _ \<Rightarrow> s);
          ds = takeWhile decimal_digit s;
          v = foldl (\<lambda>v c. 10 * v + (of_char c - 48)) 0 ds :: nat
      in if ds = [] then None
         else Some (if 2 ^ 64 \<le> v then - 1 else if minus then - of_nat v else of_nat v))"

definition rpc_version :: "string option \<Rightarrow> u64 option" where
  "rpc_version v = (case v of None \<Rightarrow> Some 1 | Some s \<Rightarrow> scan_lu s)"

text \<open>
  The client handle. Whether server and client are on one machine is whether the address of the
  socket is that of the server; a socket that could not be created has the address 0. UDP leaves the
  handle as it is.
\<close>

definition create_client :: "'d env \<Rightarrow> u64 \<Rightarrow> string \<Rightarrow> socktype_t \<Rightarrow> ('d, unit) process_fn" where
  "create_client E vers server st =
     (case st of
        UNIX \<Rightarrow>
          bind_p (address_call E ''clntunix_create'' [Text ''/tmp/RRTOd_sock'', Word64 99, Word64 vers]) (\<lambda>h.
          set_p (\<lambda>p. p\<lparr>clnt := h, app := (app p)\<lparr>connection_is_local := True\<rparr>\<rparr>))
      | TCP \<Rightarrow>
          if 256 \<le> length server then fail_p Out_Of_Bounds
          else bind_p (on_app (os_call E ''gethostbyname'' [Text server])) (\<lambda>(_, host).
          if out64 E host 0 = 0 then fail_p Exited
          else bind_p (address_call E ''clnttcp_create'' [Int32 (out32 E host 1), Word64 99, Word64 vers]) (\<lambda>h.
          bind_p (on_app (os_call E ''getsockname'' [])) (\<lambda>(r, outs).
          set_p (\<lambda>p. p\<lparr>clnt := h, app := (app p)\<lparr>connection_is_local :=
            ((if r = 0 then out32 E outs 0 else 0) = out32 E host 1)\<rparr>\<rparr>))))
      | UDP \<Rightarrow> ret_p ())"

text \<open>The name of the command is only logged.\<close>

definition rpc_connect :: "'d env \<Rightarrow> (string \<Rightarrow> string option) \<Rightarrow> ('d, unit) process_fn" where
  "rpc_connect E getenv =
     (case getenv ''REMOTE_GPU_ADDRESS'' of None \<Rightarrow> fail_p Exited
      | Some address \<Rightarrow>
        bind_p (set_p (\<lambda>p. p\<lparr>server_name := take 256 address\<rparr>)) (\<lambda>_.
        case rpc_version (getenv ''RRTO_RPCID'') of None \<Rightarrow> fail_p Exited
        | Some vers \<Rightarrow>
          bind_p (\<lambda>p. create_client E vers (server_name p) (socktype (app p)) p) (\<lambda>_ p.
            if clnt p = 0 then Inl Exited else Inr ((), p))))"

text \<open>The handler of \<open>SIGUSR1\<close>. The old handle is not destroyed.\<close>

definition repair_connection :: "'d env \<Rightarrow> (string \<Rightarrow> string option) \<Rightarrow> ('d, unit) process_fn" where
  "repair_connection E getenv =
     bind_p (rpc_connect E getenv) (\<lambda>_.
     bind_p (on_app (rpc (cuda_device_synchronize_1_svc E 116))) (\<lambda>_. ret_p ()))"

text \<open>A list that cannot be made, and a libelf that does not initialise, are only logged.\<close>

definition init_rpc :: "'d env \<Rightarrow> (string \<Rightarrow> string option) \<Rightarrow> ('d, unit) process_fn" where
  "init_rpc E getenv =
     bind_p (rpc_connect E getenv) (\<lambda>_.
     bind_p (address_call E ''signal'' [Int32 10]) (\<lambda>old.
     if old = - 1 then fail_p Exited
     else bind_p (on_app (rpc (rpc_printmessage_1_svc ''hello''))) (\<lambda>_.
     bind_p (set_p (\<lambda>p. if initialized p then p
       else p\<lparr>app := (app p)\<lparr>kernel_infos := snd (list_init (heap_ok E) (kernel_infos (app p)) 48)\<rparr>\<rparr>)) (\<lambda>_.
     bind_p (set_p (\<lambda>p. p\<lparr>initialized := True\<rparr>)) (\<lambda>_.
     bind_p (on_app (os_call E ''elf_version'' [Int32 1])) (\<lambda>_. ret_p ()))))))"

text \<open>The exit at the end is the normal one: the result has the process it leaves.\<close>

definition deinit_rpc :: "'d env \<Rightarrow> ('d, unit) process_fn" where
  "deinit_rpc E p =
     bind_p (if \<not> initialized p then ret_p ()
        else bind_p (on_app (rpc (rpc_deinit_1_svc E))) (\<lambda>_.
             bind_p (on_app (\<lambda>c. bind_r (kernel_infos_free (kernel_infos c) 0 (len (kernel_infos c))) (\<lambda>_.
               bind_r (list_free (kernel_infos c)) (\<lambda>(_, l). Inr ((), c\<lparr>kernel_infos := l\<rparr>))))) (\<lambda>_. ret_p ())))
       (\<lambda>_ p. if clnt p = 0 then Inr ((), p)
              else bind_p (on_app (os_call E ''clnt_destroy'' [Word64 (clnt p)])) (\<lambda>_. ret_p ()) p) p"

section \<open>Dynamic libraries\<close>

definition replace_libs :: "string list" where
  "replace_libs = [''libcuda.so.1'', ''libcuda.so'', ''libnvidia-ml.so.1'', ''libcudnn_cnn_infer.so.8'']"

text \<open>Calls through the pointers of the functions that have been replaced.\<close>

definition call_dlopen :: "'d env \<Rightarrow> string option \<Rightarrow> u32 \<Rightarrow> ('d, u64) process_fn" where
  "call_dlopen E filename flag p =
     (if dlopen_orig p = 0 then Inl Null_Deref
      else address_call E ''dlopen'' [case filename of None \<Rightarrow> Word64 0 | Some f \<Rightarrow> Text f, Int32 flag] p)"

definition call_dlclose :: "'d env \<Rightarrow> u64 \<Rightarrow> ('d, u32) process_fn" where
  "call_dlclose E h p =
     (if dlclose_orig p = 0 then Inl Null_Deref
      else bind_p (on_app (os_call E ''dlclose'' [Word64 h])) (\<lambda>(r, _). ret_p r) p)"

definition dlopen :: "'d env \<Rightarrow> string option \<Rightarrow> u32 \<Rightarrow> ('d, u64) process_fn" where
  "dlopen E filename flag =
     (case filename of None \<Rightarrow> call_dlopen E None flag
      | Some name \<Rightarrow>
        bind_p (\<lambda>p. if dlopen_orig p \<noteq> 0 then ret_p () p
                 else bind_p (address_call E ''dlsym'' [Text ''dlopen'']) (\<lambda>f. set_p (\<lambda>p. p\<lparr>dlopen_orig := f\<rparr>)) p) (\<lambda>_.
        if name \<in> set replace_libs
        then bind_p (call_dlopen E (Some ''RRTO-client.so'') flag) (\<lambda>h.
             bind_p (set_p (\<lambda>p. p\<lparr>dl_handle := h\<rparr>)) (\<lambda>_. ret_p h))
        else call_dlopen E (Some name) flag))"

definition dlclose :: "'d env \<Rightarrow> u64 \<Rightarrow> ('d, u32) process_fn" where
  "dlclose E h =
     (if h = 0 then ret_p (- 1)
      else bind_p (\<lambda>p. if dlclose_orig p \<noteq> 0 then ret_p () p
                  else bind_p (address_call E ''dlsym'' [Text ''dlclose'']) (\<lambda>f. set_p (\<lambda>p. p\<lparr>dlclose_orig := f\<rparr>)) p) (\<lambda>_ p.
           if dl_handle p = h then Inr (0, p) else call_dlclose E h p))"

section \<open>Fat binaries\<close>

text \<open>
  The functions compiled programs call for their fat binaries; their names start with two underscores
  in the source. The size of the binary is an uninitialised variable when the walk over it starts. The
  result is the block of zeros whose address is the key of the module; a reply that has not come
  leaves its code uninitialised.
\<close>

definition cudaRegisterFatBinary ::
  "nat \<Rightarrow> 'd env \<Rightarrow> bool \<Rightarrow> (u8 list \<Rightarrow> elf_image) \<Rightarrow> nat \<Rightarrow> fat_header option \<Rightarrow> ('d, u64) process_fn" where
  "cudaRegisterFatBinary fuel E dump_opens elf_memory addr fatCubin =
     bind_p (on_app (\<lambda>c. bind_r (elf2_get_fatbin_info fuel E dump_opens elf_memory addr fatCubin
         (unat (fresh_word E)) (kernel_infos c)) (\<lambda>(r, l). Inr (r, c\<lparr>kernel_infos := l\<rparr>)))) (\<lambda>found.
     case found of None \<Rightarrow> ret_p 0
     | Some (m, fatbin_size) \<Rightarrow>
         bind_p (address_call E ''calloc'' [Word64 1, Word64 0x58]) (\<lambda>result.
         if length m < fatbin_size mod 2 ^ 32 then fail_p Out_Of_Bounds
         else bind_p (on_app (rpc (rpc_elf_load_1_svc E
             \<lparr>mem_addr = of_nat addr, mem_val = take (fatbin_size mod 2 ^ 32) m\<rparr> result))) (\<lambda>(st, r).
         ret_p (if err_of (unset32 E) r \<noteq> 0 then 0 else result))))"

text \<open>The module stays loaded: the request to unload it is commented out.\<close>

definition cudaUnregisterFatBinary :: "u64 \<Rightarrow> ('d, unit) process_fn" where
  "cudaUnregisterFatBinary fatCubinHandle = ret_p ()"

end
