(* ===== verification/StartProps.thy ===== *)
theory StartProps
  imports ClientStart ClientRuns CudnnProps
begin

text \<open>
  Properties of the registration of kernels: the walk over a fat binary, and what a launch finds
  after a kernel has been registered.
\<close>

section \<open>The walk over a fat binary\<close>

text \<open>
  A section as it stands in a binary: its header, of at least 64 bytes (the name may follow the
  fields), and its data. The header gives the length of both.
\<close>

definition field :: "u8 list \<Rightarrow> nat \<Rightarrow> nat \<Rightarrow> nat" where
  "field h i n = le_val (blk i n h)"

definition section_ok :: "u8 list \<times> u8 list \<Rightarrow> bool" where
  "section_ok s \<longleftrightarrow> (let (h, d) = s in
     64 \<le> length h \<and> field h 4 4 = length h \<and> field h 8 8 = length d \<and>
     (field h 32 4 = 0 \<or> field h 32 4 + field h 36 4 < length h) \<and>
     (field h 0 2 = 2 \<longrightarrow> even (field h 40 8 div FATBIN_FLAG_COMPRESS)))"

definition sections_bytes :: "(u8 list \<times> u8 list) list \<Rightarrow> u8 list" where
  "sections_bytes secs = concat (map (\<lambda>(h, d). h @ d) secs)"

definition binary_header :: "nat \<Rightarrow> u8 list" where
  "binary_header n = le_bytes 4 FATBIN_TEXT_MAGIC @ le_bytes 2 1 @ le_bytes 2 16 @ le_bytes 8 n"

text \<open>The kernels of the sections with device code, in order, up to the first that cannot be read.\<close>

fun binary_kernels ::
  "'d env \<Rightarrow> bool \<Rightarrow> (u8 list \<Rightarrow> elf_image) \<Rightarrow> (u8 list \<times> u8 list) list \<Rightarrow> kernel_info clist \<Rightarrow>
   (bool \<times> kernel_info clist) res" where
  "binary_kernels E dump elf [] l = Inr (True, l)"
| "binary_kernels E dump elf ((h, d) # secs) l =
     (if field h 0 2 \<noteq> 2 then binary_kernels E dump elf secs l
      else bind_r (elf2_parameter_info E dump elf l d) (\<lambda>(rc, l).
        if rc \<noteq> 0 then Inr (False, l) else binary_kernels E dump elf secs l))"

lemma sections_bytes_simps [simp]:
  "sections_bytes [] = []" "sections_bytes ((h, d) # secs) = h @ d @ sections_bytes secs"
  by (simp_all add: sections_bytes_def)

lemma field_rd: "i + n \<le> length h \<Longrightarrow> rd (xs @ h @ ys) (length xs + i) n = Inr (field h i n)"
  by (simp add: rd_def field_def blk_def)

lemma binary_header_read:
  assumes "n < 2 ^ 64"
  shows "get_elf_header (binary_header n @ m) 0 sizeof_fat_elf_header =
     Inr (Some \<lparr>eh_magic = FATBIN_TEXT_MAGIC, eh_version = 1, eh_header_size = 16, eh_size = n\<rparr>)"
proof -
  let ?m = "binary_header n @ m"
  have "rd ?m 0 4 = Inr FATBIN_TEXT_MAGIC"
    using rd_field [of 0 ?m "[]" 4 FATBIN_TEXT_MAGIC] by (simp add: binary_header_def FATBIN_TEXT_MAGIC_def)
  moreover have "rd ?m 4 2 = Inr 1"
    using rd_field [of 0 ?m "le_bytes 4 FATBIN_TEXT_MAGIC" 2 1] by (simp add: binary_header_def)
  moreover have "rd ?m 6 2 = Inr 16"
    using rd_field [of 0 ?m "le_bytes 4 FATBIN_TEXT_MAGIC @ le_bytes 2 1" 2 16] by (simp add: binary_header_def)
  moreover have "rd ?m 8 8 = Inr n"
    using rd_field [of 0 ?m "le_bytes 4 FATBIN_TEXT_MAGIC @ le_bytes 2 1 @ le_bytes 2 16" 8 n] assms
    by (simp add: binary_header_def)
  ultimately show ?thesis by (simp add: get_elf_header_def sizeof_fat_elf_header_def)
qed

lemma section_header_read:
  assumes "section_ok (h, d)" and "64 \<le> n"
  shows "get_text_header (xs @ h @ ys) (length xs) n =
     Inr (Some \<lparr>th_kind = field h 0 2, th_header_size = length h, th_size = length d, th_compressed_size = field h 16 4,
       th_obj_name_offset = field h 32 4, th_obj_name_len = field h 36 4, th_flags = field h 40 8,
       th_decompressed_size = field h 56 8\<rparr>)"
proof -
  have h: "64 \<le> length h" "field h 4 4 = length h" "field h 8 8 = length d"
    and name: "field h 32 4 = 0 \<or> field h 32 4 + field h 36 4 < length h"
    using assms(1) by (simp_all add: section_ok_def)
  have "field h 4 4 < 256 ^ 4" using le_val_bound [of "blk 4 4 h"] h(1) by (simp add: field_def)
  then have "length h < 2 ^ 32" using h(2) by simp
  then have "field h 32 4 \<noteq> 0 \<Longrightarrow> rd (xs @ h @ ys) (length xs + (field h 32 4 + field h 36 4) mod 2 ^ 32) 1 =
      Inr (field h (field h 32 4 + field h 36 4) 1)"
    using name by (subst field_rd) auto
  then show ?thesis
    using assms(2) h field_rd [of 0 2 h xs ys] field_rd [of _ _ h xs ys]
    by (simp add: get_text_header_def sizeof_fat_text_header_def)
qed

lemma sub64_less: "a \<le> x \<Longrightarrow> x < 2 ^ 64 \<Longrightarrow> sub64 x a = x - a"
  using mod_add_self2 [of "x - a" "2 ^ 64"] by (simp add: sub64_def wrap64_def)

lemma section_walked:
  assumes "section_ok (h, d)"
  shows "section_kernels E dump elf addr (xs @ h @ d @ ys)
       \<lparr>th_kind = field h 0 2, th_header_size = length h, th_size = length d, th_compressed_size = field h 16 4,
       th_obj_name_offset = field h 32 4, th_obj_name_len = field h 36 4, th_flags = field h 40 8,
       th_decompressed_size = field h 56 8\<rparr> (length xs + length h) l =
     (if field h 0 2 \<noteq> 2 then Inr (Some (length xs + length h + length d), l)
      else bind_r (elf2_parameter_info E dump elf l d) (\<lambda>(rc, l).
        Inr (if rc \<noteq> 0 then None else Some (length xs + length h + length d), l)))"
  using assms by (simp add: section_kernels_def section_ok_def compressed_def blk_def)

lemma binary_walked:
  assumes "secs \<noteq> []" and "\<forall>s \<in> set secs. section_ok s" and "length secs \<le> fuel"
    and "fatbin_size < 2 ^ 64" and "length xs + length (sections_bytes secs) + 16 \<le> fatbin_size"
    and "eh_header_size eh = 16" and "16 + eh_size eh = length xs + length (sections_bytes secs)"
  shows "fatbin_loop fuel E dump elf addr (xs @ sections_bytes secs @ rest) fatbin_size eh (length xs) l =
     bind_r (binary_kernels E dump elf secs l) (\<lambda>(ok, l). Inr (if ok then 0 else - 1, l))"
  using assms
proof (induction secs arbitrary: fuel xs l)
  case (Cons s secs)
  obtain h d where s: "s = (h, d)" by (cases s)
  obtain fuel' where fuel: "fuel = Suc fuel'" using Cons.prems(3) by (cases fuel) auto
  have ok: "section_ok (h, d)" and len: "64 \<le> length h" using Cons.prems(2) by (auto simp: s section_ok_def)
  have "64 \<le> sub64 (sub64 fatbin_size (length xs)) (eh_header_size eh)"
    using Cons.prems(4-6) len by (simp add: s sub64_less)
  note header = section_header_read [OF ok this, of xs "d @ sections_bytes secs @ rest"]
  have end_iff: "length xs + length h + length d < eh_header_size eh + eh_size eh \<longleftrightarrow> secs \<noteq> []"
    using Cons.prems(2,6,7) by (cases secs) (auto simp: s section_ok_def)
  have after: "secs \<noteq> [] \<Longrightarrow>
     fatbin_loop fuel' E dump elf addr (xs @ h @ d @ sections_bytes secs @ rest) fatbin_size eh (length xs + length h + length d) l =
     bind_r (binary_kernels E dump elf secs l) (\<lambda>(ok, l). Inr (if ok then 0 else - 1, l))" for l
    using Cons.IH [of fuel' "xs @ h @ d" l] Cons.prems by (simp add: s fuel add.assoc)
  have step: "fatbin_loop fuel E dump elf addr (xs @ sections_bytes (s # secs) @ rest) fatbin_size eh (length xs) l =
     bind_r (if field h 0 2 \<noteq> 2 then Inr (True, l)
       else bind_r (elf2_parameter_info E dump elf l d) (\<lambda>(rc, l). Inr (rc = 0, l))) (\<lambda>(ok, l).
         if \<not> ok then Inr (- 1, l) else if secs = [] then Inr (0, l)
         else bind_r (binary_kernels E dump elf secs l) (\<lambda>(ok, l). Inr (if ok then 0 else - 1, l)))"
    using end_iff after
    by (cases "elf2_parameter_info E dump elf l d") (auto simp: s fuel header section_walked [OF ok] split: if_split_asm)
  show ?case unfolding step
    by (cases "elf2_parameter_info E dump elf l d"; cases "secs = []") (auto simp: s)
qed simp

text \<open>C35: The walk over a fat binary reads what the compiler has put there: for every binary whose header gives
  the length of its sections, and whose sections each have a header of at least 64 bytes (the name of the object may
  follow inside it) with the length of the header and of the data, the kernels of the data of every section with device
  code are added to the list, in order, and the others are skipped; the first image that cannot be read ends the walk
  with an error. The binary is handed on with the length of its header and its sections. (Device code is taken as
  uncompressed; the length the caller passes in, which nothing sets, is taken to be at least 32 bytes more than that
  of the sections.)
\<close>

theorem fatbin_walk_reads:
  assumes "secs \<noteq> []" and "\<forall>s \<in> set secs. section_ok s" and "length secs \<le> fuel"
    and "length (sections_bytes secs) + 32 \<le> fatbin_size" and "fatbin_size < 2 ^ 64"
    and "m = binary_header (length (sections_bytes secs)) @ sections_bytes secs @ rest"
  shows "elf2_get_fatbin_info fuel E dump elf addr (Some \<lparr>fh_magic = FATBIN_STRUCT_MAGIC, fh_text = Some m\<rparr>) fatbin_size l =
     bind_r (binary_kernels E dump elf secs l) (\<lambda>(ok, l).
       Inr (if ok then Some (m, 16 + length (sections_bytes secs)) else None, l))"
proof -
  let ?n = "length (sections_bytes secs)"
  let ?eh = "\<lparr>eh_magic = FATBIN_TEXT_MAGIC, eh_version = 1, eh_header_size = 16, eh_size = ?n\<rparr>"
  have "length (binary_header ?n) = 16" by (simp add: binary_header_def)
  then have "fatbin_loop fuel E dump elf addr m fatbin_size ?eh 16 l =
      bind_r (binary_kernels E dump elf secs l) (\<lambda>(ok, l). Inr (if ok then 0 else - 1, l))"
    using binary_walked [of secs fuel fatbin_size "binary_header ?n" ?eh E dump elf addr rest l] assms by simp
  moreover have "get_elf_header m 0 sizeof_fat_elf_header = Inr (Some ?eh)"
    using assms(4-6) by (simp add: binary_header_read)
  moreover have "wrap64 (16 + ?n) = 16 + ?n" using assms(4,5) by (simp add: wrap64_def)
  ultimately show ?thesis
    by (cases "binary_kernels E dump elf secs l") (auto simp: elf2_get_fatbin_info_def)
qed

lemma le_val_zeros: "le_val (replicate n 0) = 0"
  by (induction n) simp_all

text \<open>A section that is not device code, with four bytes of data, before one with a binary.\<close>

definition small_section :: "u8 \<Rightarrow> u8 \<Rightarrow> u8 list" where
  "small_section kind n = [kind, 0, 0, 0, 64, 0, 0, 0, n] @ replicate 55 0"

lemma small_section_fields:
  "field (small_section kind n) 0 2 = unat kind" "field (small_section kind n) 4 4 = 64"
  "field (small_section kind n) 8 8 = unat n"
  by (simp_all add: small_section_def field_def blk_def le_val_zeros)

lemma small_section_zeros:
  "length xs \<le> i \<Longrightarrow> i + n \<le> length xs + k \<Longrightarrow> field (xs @ replicate k 0) i n = 0"
  by (simp add: field_def blk_def le_val_zeros min_def)

lemma small_field: "9 \<le> i \<Longrightarrow> i + n \<le> 64 \<Longrightarrow> field (small_section kind k) i n = 0"
  unfolding small_section_def by (rule small_section_zeros) simp_all

definition small_sections :: "(u8 list \<times> u8 list) list" where
  "small_sections = [(small_section 1 4, [1, 2, 3, 4]), (small_section 2 3, [7, 8, 9])]"

lemma small_sections_ok: "\<forall>s \<in> set small_sections. section_ok s"
  by (simp add: small_sections_def section_ok_def small_section_fields small_field)
     (simp add: small_section_def)

definition named_kernel :: kernel_info where
  "named_kernel = \<lparr>k_name = ''f'', param_size = 8, param_num = 0, param_offsets = [], param_sizes = [], host_fun = None\<rparr>"

lemma sample_kernels:
  "elf2_parameter_info kernel_env True (\<lambda>_. sample_elf) sample_table [7, 8, 9] =
     Inr (0, sample_table\<lparr>elements := Buf [Some named_kernel, None], len := 1\<rparr>)"
proof -
  let ?l = "sample_table\<lparr>elements := Buf [Some named_kernel, None], len := 1\<rparr>"
  have heap: "heap_ok kernel_env (Suc (Suc 0))" by (simp add: kernel_env_def glibc_def)
  have here: "sample_info \<noteq> []" "rd sample_info (Suc (Suc 0)) 2 = Inr 8"
    "rd sample_info (Suc 0) (Suc 0) = Inr EIATTR_FRAME_SIZE" "rd sample_info 4 4 = Inr 1"
    by (simp_all add: sample_info_def rd_def blk_def EIATTR_FRAME_SIZE_def)
  have new: "utils_search_info sample_table ''f'' = Inr None" by (simp add: utils_search_info_def sample_table_def)
  have room: "list_append (heap_ok kernel_env) sample_table True = Inr (0, sample_table\<lparr>len := 1\<rparr>, Some 0)"
    by (simp add: list_append_def sample_table_def wrap64_def list_get_def)
  have stored: "set_elem (sample_table\<lparr>len := 1\<rparr>) 0 named_kernel = Inr ?l"
    by (simp add: set_elem_def sample_table_def list_get_def wrap64_def)
  have found: "utils_search_info ?l ''f'' = Inr (Some 0)"
    by (simp add: utils_search_info_def elem_at_def named_kernel_def sample_table_def list_get_def wrap64_def)
  have "info_loop kernel_env sample_elf [None, Some ''f''] sample_info 0 sample_table =
     info_loop kernel_env sample_elf [None, Some ''f''] sample_info 12 ?l"
    by (subst info_loop.simps)
     (simp add: here heap new room stored [simplified] sample_parm [folded named_kernel_def])
  then show ?thesis using sample_steps(1) [of ?l] sample_steps(2) [of ?l] sample_steps(3) [OF found]
    by (simp add: elf2_parameter_info_def sample_elf_def Let_def)
qed

theorem fatbin_walk_reads_witness:
  "elf2_get_fatbin_info 2 kernel_env True (\<lambda>_. sample_elf) 0 (Some \<lparr>fh_magic = FATBIN_STRUCT_MAGIC,
     fh_text = Some (binary_header (length (sections_bytes small_sections)) @ sections_bytes small_sections)\<rparr>) 200 sample_table =
   Inr (Some (binary_header (length (sections_bytes small_sections)) @ sections_bytes small_sections, 151),
     sample_table\<lparr>elements := Buf [Some named_kernel, None], len := 1\<rparr>)"
proof -
  have n: "length (sections_bytes small_sections) = 135" by (simp add: small_sections_def small_section_def)
  have "binary_kernels kernel_env True (\<lambda>_. sample_elf) small_sections sample_table =
      Inr (True, sample_table\<lparr>elements := Buf [Some named_kernel, None], len := 1\<rparr>)"
    using sample_kernels by (simp add: small_sections_def small_section_fields)
  moreover have "small_sections \<noteq> []" "length small_sections \<le> 2" by (simp_all add: small_sections_def)
  ultimately show ?thesis
    using fatbin_walk_reads [OF _ small_sections_ok, of 2 200 _ "[]" kernel_env True "\<lambda>_. sample_elf" 0 sample_table]
    by (simp add: n)
qed

text \<open>A fat binary can hang the application while it is loaded: a section that is not device code, with a
  header of size 0 and no data, keeps the walk at its place for ever. (Neither size is checked.)
\<close>

lemma fatbin_walk_hangs:
  assumes "get_elf_header m 0 sizeof_fat_elf_header = Inr (Some eh)" and "0 < eh_size eh"
    and "get_text_header m (eh_header_size eh) (sub64 (sub64 sz (eh_header_size eh)) (eh_header_size eh)) = Inr (Some th)"
    and "th_kind th \<noteq> 2" and "th_header_size th = 0" and "th_size th = 0"
  shows "elf2_get_fatbin_info fuel E dump elf addr (Some \<lparr>fh_magic = FATBIN_STRUCT_MAGIC, fh_text = Some m\<rparr>) sz l = Inl No_Fuel"
proof -
  have "fatbin_loop fuel E dump elf addr m sz eh (eh_header_size eh) l = Inl No_Fuel"
  proof (induction fuel)
    case (Suc fuel)
    then show ?case using assms(2-6) by (simp add: section_kernels_def)
  qed simp
  then show ?thesis using assms(1) by (simp add: elf2_get_fatbin_info_def)
qed

section \<open>Registered kernels\<close>

text \<open>The handler: when it answers with 0, the host function is translated to what the library has found.\<close>

lemma register_function_answers:
  assumes "rpc_register_function_1_svc E 50 fd fat hostFun devFun name limit s = Inr (Reply vs, s')"
    and "err_of u (Some vs) = 0"
    and "heap_ok E = glibc alloc" and "mg_ready (rm_functions s) k" and "\<forall>n \<le> 32 * (k + 1). glibc alloc n"
  shows "\<exists>module outs d d'. resource_mg_get (rm_modules s) fat = Inr module \<and>
    cuda E ''cuModuleGetFunction'' [Word64 module, Text (snd name)] d = (0, outs, d') \<and>
    resource_mg_get (rm_functions s') hostFun = Inr (out64 E outs 0)"
proof -
  let ?body = "\<lambda>i. bind_h (gsched_none_retain E fd) (\<lambda>_.
       bind_h (handle rm_modules fat) (\<lambda>module.
         if module = fat then ret_h (Reply [Int32 (- 1)])
         else bind_h (lib_call E ''cuModuleGetFunction'' [W module, Val (Text (snd name))]) (\<lambda>(err, outs).
           bind_h (add_in E rm_functions (\<lambda>m s. s\<lparr>rm_functions := m\<rparr>) hostFun (out64 E outs 0)) (\<lambda>_.
           bind_h (gsched_none_release fd) (\<lambda>_.
           bind_h (set_result_ptr i err (out64 E outs 0)) (\<lambda>_.
             ret_h (Reply [Int32 err, Word64 (out64 E outs 0)])))))))"
  obtain i l where "?body i (s\<lparr>api_records := l\<rparr>) = Inr (Reply vs, s')"
    using assms(1) unfolding rpc_register_function_1_svc_def recorded_def by (auto simp: bind_r_Inr_iff)
  then obtain r s1 module where retain: "gsched_none_retain E fd (s\<lparr>api_records := l\<rparr>) = Inr (r, s1)"
    and module: "handle rm_modules fat s1 = Inr (module, s1)"
    and rest: "(if module = fat then ret_h (Reply [Int32 (- 1)])
         else bind_h (lib_call E ''cuModuleGetFunction'' [W module, Val (Text (snd name))]) (\<lambda>(err, outs).
           bind_h (add_in E rm_functions (\<lambda>m s. s\<lparr>rm_functions := m\<rparr>) hostFun (out64 E outs 0)) (\<lambda>_.
           bind_h (gsched_none_release fd) (\<lambda>_.
           bind_h (set_result_ptr i err (out64 E outs 0)) (\<lambda>_.
             ret_h (Reply [Int32 err, Word64 (out64 E outs 0)])))))) s1 = Inr (Reply vs, s')"
    by (auto simp: bind_h_Inr_iff handle_def bind_r_Inr_iff)
  obtain f where s1: "s1 = set_sched f (s\<lparr>api_records := l\<rparr>)" using retain_fails [OF retain] by blast
  then have frame: "rm_functions s1 = rm_functions s" "rm_modules s1 = rm_modules s" by (simp_all add: set_sched_def)
  have "module \<noteq> fat" using rest assms(2) by (auto simp: ret_h_def err_of_def)
  with rest obtain outs d' r2 s3 s4 where
    call: "cuda E ''cuModuleGetFunction'' [Word64 module, Text (snd name)] (gpu s1) = (0, outs, d')"
    and add: "add_in E rm_functions (\<lambda>m s. s\<lparr>rm_functions := m\<rparr>) hostFun (out64 E outs 0) (s1\<lparr>gpu := d'\<rparr>) = Inr (r2, s3)"
    and res: "set_result_ptr i 0 (out64 E outs 0) (set_sched (\<lambda>g. g\<lparr>gs_device_locked := False\<rparr>) s3) = Inr ((), s')"
    using assms(2)
    by (auto simp: bind_h_Inr_iff lib_call_def cuda_call_def ret_h_def gsched_none_release_def handle_def bind_r_Inr_iff
        err_of_def split: prod.split_asm)
  obtain mg' where mg': "resource_mg_add_sorted (glibc alloc) (rm_functions s) hostFun (out64 E outs 0) = Inr (0, mg')"
    using mg_ready_add [OF assms(4,5)] by blast
  obtain m where "mg_handles (rm_functions s) m" using mg_ready_handles [OF assms(4)] by blast
  then have "resource_mg_get mg' hostFun = Inr (out64 E outs 0)" using mg' by (rule rm.lookup_added)
  moreover have "rm_functions s' = mg'"
    using add res mg' frame by (auto simp: add_in_def assms(3) set_result_ptr_def on_log_def bind_r_Inr_iff set_sched_def)
  moreover have "resource_mg_get (rm_modules s) fat = Inr module"
    using module frame by (auto simp: handle_def bind_r_Inr_iff)
  ultimately show ?thesis using call by blast
qed

text \<open>The search of a launch.\<close>

lemma find_kernel_found:
  assumes "list_rep l xs" and "j < length xs" and "host_fun (xs ! j) = Some f" and "f \<noteq> 0"
    and "\<forall>i < j. \<exists>g. host_fun (xs ! i) = Some g \<and> g \<noteq> f" and "i \<le> j" and "i + n = length xs"
  shows "find_kernel l f i n = Inr (Some (xs ! j))"
  using assms(6,7)
proof (induction n arbitrary: i)
  case 0
  then show ?case using assms(2) by simp
next
  case (Suc n)
  then have i: "i < length xs" by simp
  have at: "list_at l i = (0, Some i)"
    by (rule list_at_rep [OF assms(1) i])
  have el: "elem_at l i = Inr (xs ! i)" by (rule list_rep_cell [OF assms(1) i])
  show ?case
  proof (cases "i = j")
    case True
    then show ?thesis using at el assms(3,4) by simp
  next
    case False
    then obtain g where "host_fun (xs ! i) = Some g" "g \<noteq> f" using assms(5) Suc.prems by (metis le_neq_implies_less)
    then show ?thesis using at el assms(4) Suc False by simp
  qed
qed

text \<open>C8: A kernel that has been registered can be launched: the search of a launch for its host function
  finds the kernel of that name in the table of the client, and the server translates the host function
  to the function the library has found in the module. (The kernels before it must have been
  registered, with other host functions: the search reads theirs.)
\<close>

theorem registered_kernel_found:
  assumes "cudaRegisterFunction E fd fatCubinHandle hostFun deviceFun deviceName thread_limit c = Inr (Some (), c')"
    and "list_rep (kernel_infos c) xs" and "j < length xs" and "k_name (xs ! j) = snd deviceName" and "hostFun \<noteq> 0"
    and "\<forall>i < j. k_name (xs ! i) \<noteq> snd deviceName \<and> (\<exists>g. host_fun (xs ! i) = Some g \<and> g \<noteq> hostFun)"
    and "heap_ok E = glibc alloc" and "mg_ready (rm_functions (remote c)) n" and "\<forall>m \<le> 32 * (n + 1). glibc alloc m"
  shows "find_kernel (kernel_infos c') hostFun 0 (len (kernel_infos c')) = Inr (Some ((xs ! j)\<lparr>host_fun := Some hostFun\<rparr>))
    \<and> (\<exists>module outs d d'. resource_mg_get (rm_modules (remote c)) fatCubinHandle = Inr module
        \<and> cuda E ''cuModuleGetFunction'' [Word64 module, Text (snd deviceName)] d = (0, outs, d')
        \<and> resource_mg_get (rm_functions (remote c')) hostFun = Inr (out64 E outs 0))"
proof -
  have tw: "length (takeWhile (\<lambda>k. k_name k \<noteq> snd deviceName) xs) = j"
    using takeWhile_eq_take_P_nth [of j xs "\<lambda>k. k_name k \<noteq> snd deviceName"] assms(3,4,6) by simp
  have found: "utils_search_info (kernel_infos c) (snd deviceName) = Inr (Some j)"
  proof -
    have "snd deviceName \<in> k_name ` set xs" using nth_mem [OF assms(3)] assms(4) by force
    then show ?thesis using utils_search_info_found [OF assms(2), of "snd deviceName"] tw by simp
  qed
  obtain r c1 where call: "rpc (rpc_register_function_1_svc E 50 fd fatCubinHandle hostFun deviceFun deviceName thread_limit) c = Inr ((RPC_SUCCESS, r), c1)"
    and err: "err_of (unset32 E) r = 0"
    and after: "bind_c (lift_c (elem_at (kernel_infos c) j)) (\<lambda>info.
              bind_c (lift_c (set_elem (kernel_infos c) j (info\<lparr>host_fun := Some hostFun\<rparr>))) (\<lambda>l.
              bind_c (set_c (\<lambda>c. c\<lparr>kernel_infos := l\<rparr>)) (\<lambda>_. ret_c (Some ())))) c1 = Inr (Some (), c')"
    using assms(1) found
    by (auto simp: cudaRegisterFunction_def bind_c_Inr_iff get_c_def lift_c_def ret_c_def split: if_split_asm)
  obtain vs where vs: "r = Some vs" "rpc_register_function_1_svc E 50 fd fatCubinHandle hostFun deviceFun deviceName thread_limit (remote c) =
      Inr (Reply vs, remote c1)" "kernel_infos c1 = kernel_infos c"
    using call by (rule rpc_success)
  obtain l where l: "set_elem (kernel_infos c) j ((xs ! j)\<lparr>host_fun := Some hostFun\<rparr>) = Inr l"
      "list_rep l (xs[j := (xs ! j)\<lparr>host_fun := Some hostFun\<rparr>])"
    using list_rep_update [OF assms(2,3)] by blast
  have c': "c' = c1\<lparr>kernel_infos := l\<rparr>"
    using after l(1) list_rep_cell [OF assms(2,3)] by (simp add: bind_c_def lift_c_def set_c_def ret_c_def)
  have "find_kernel l hostFun 0 (len l) = Inr (Some (xs[j := (xs ! j)\<lparr>host_fun := Some hostFun\<rparr>] ! j))"
    by (rule find_kernel_found [OF l(2)]) (use assms(3,5,6) list_rep_len [OF l(2)] in simp_all)
  then have "find_kernel (kernel_infos c') hostFun 0 (len (kernel_infos c')) = Inr (Some ((xs ! j)\<lparr>host_fun := Some hostFun\<rparr>))"
    using assms(3) by (simp add: c')
  moreover have "remote c' = remote c1" by (simp add: c')
  ultimately show ?thesis
    using register_function_answers [OF vs(2) err [unfolded vs(1)] assms(7-9)] by simp
qed

text \<open>A server with one module, and a client with one kernel.\<close>

definition module_server :: "unit server" where
  "module_server = connected_server\<lparr>rm_modules := \<lparr>map_res = \<lparr>elements = Buf [Some \<lparr>client_address = 5, cuda_address = 6\<rparr>, None, None, None],
     len = 1, capacity = 4, element_size = 16\<rparr>, new_res = zero_list, bypass = 0\<rparr>, rm_functions := fresh_mg\<rparr>"

definition plain_add :: kernel_info where
  "plain_add = \<lparr>k_name = ''add'', param_size = 0, param_num = 0, param_offsets = [], param_sizes = [], host_fun = None\<rparr>"

definition module_client :: "unit client" where
  "module_client = (client_on module_server)\<lparr>kernel_infos := \<lparr>elements = Buf [Some plain_add, None, None, None], len = 1,
     capacity = 4, element_size = 48\<rparr>\<rparr>"

lemma module_translated: "resource_mg_get (rm_modules module_server) 5 = Inr 6"
  by (simp add: module_server_def resource_mg_get_def resource_mg_search_map_def search_loop.simps elem_at_def
      list_get_def wrap64_def elem_null_def)

lemma module_registers:
  "\<exists>s' p. rpc_register_function_1_svc (answering [Word64 4096]) 50 7 5 99 (1, ''add'') (1, ''add'') 0 module_server =
     Inr (Reply [Int32 0, Word64 p], s')"
proof -
  let ?E = "answering [Word64 4096] :: unit env" and ?fs = "[(0, i64 5), (8, i64 99), (16, i64 1), (24, i64 1), (32, i32 0)]"
  let ?body = "\<lambda>i. bind_h (gsched_none_retain ?E 7) (\<lambda>_.
       bind_h (handle rm_modules 5) (\<lambda>module.
         if module = 5 then ret_h (Reply [Int32 (- 1)])
         else bind_h (lib_call ?E ''cuModuleGetFunction'' [W module, Val (Text ''add'')]) (\<lambda>(err, outs).
           bind_h (add_in ?E rm_functions (\<lambda>m s. s\<lparr>rm_functions := m\<rparr>) 99 (out64 ?E outs 0)) (\<lambda>_.
           bind_h (gsched_none_release 7) (\<lambda>_.
           bind_h (set_result_ptr i err (out64 ?E outs 0)) (\<lambda>_.
             ret_h (Reply [Int32 err, Word64 (out64 ?E outs 0)])))))))"
  have steady: "steady ?E" using roomy_steady by (simp add: steady_def answering_def)
  have log: "list_rep (api_records module_server) []" "room (heap_ok ?E) (api_records module_server)"
    using sample_log by (simp_all add: module_server_def connected_server_def set_sched_def room_def server_on_def)
  have fit: "fields_fit ?fs 40" and sz: "(40 :: nat) \<le> 1024" by (simp_all add: fields_fit_def)
  obtain l where l: "recorded ?E 50 40 ?fs ?body module_server = ?body 0 (module_server\<lparr>api_records := l\<rparr>)"
      "list_rep l ([] @ [call_record ?E 50 40 (Some (put_fields ?fs (replicate 40 (fresh_byte ?E))))])"
    by (rule recorded_opens [OF steady sz fit log, of 50 ?body, unfolded list.size])
  let ?s = "module_server\<lparr>api_records := l\<rparr>"
  have retain: "gsched_none_retain ?E 7 ?s = Inr (1, ?s)"
    using connected_retains [of "[Word64 4096]"]
    by (simp add: module_server_def gsched_none_retain_def connected_server_def server_on_def set_sched_def elem_at_def
        retain_entry_def list_get_def wrap64_def Let_def)
  obtain mg' where add: "resource_mg_add_sorted (heap_ok ?E) fresh_mg 99 4096 = Inr (0, mg')"
    using mg_ready_add [OF fresh_mg_ready(1), of "\<lambda>_. True" 99 4096] by (auto simp: glibc_def answering_def roomy_env_def)
  obtain l' where res: "set_result_ptr 0 0 4096 (set_sched (\<lambda>g. g\<lparr>gs_device_locked := False\<rparr>) (?s\<lparr>gpu := (), rm_functions := mg'\<rparr>)) =
      Inr ((), (set_sched (\<lambda>g. g\<lparr>gs_device_locked := False\<rparr>) (?s\<lparr>gpu := (), rm_functions := mg'\<rparr>))\<lparr>api_records := l'\<rparr>)"
    by (rule set_result_ptr_last [of "set_sched (\<lambda>g. g\<lparr>gs_device_locked := False\<rparr>) (?s\<lparr>gpu := (), rm_functions := mg'\<rparr>)" "[]",
          unfolded list.size]) (use l(2) in \<open>simp_all add: set_sched_def\<close>)
  have "\<exists>s'. ?body 0 ?s = Inr (Reply [Int32 0, Word64 4096], s')"
    using retain module_translated add res
    by (simp add: bind_h_def handle_def lib_call_def ret_h_def cuda_call_def answering_simps out64_def add_in_def
        gsched_none_release_def module_server_def)
  then show ?thesis unfolding rpc_register_function_1_svc_def fst_conv snd_conv l(1) by blast
qed

theorem registered_kernel_found_witness:
  "\<exists>c'. cudaRegisterFunction (answering [Word64 4096]) 7 5 99 (1, ''add'') (1, ''add'') 0 module_client = Inr (Some (), c') \<and>
     find_kernel (kernel_infos c') 99 0 (len (kernel_infos c')) = Inr (Some (plain_add\<lparr>host_fun := Some 99\<rparr>)) \<and>
     resource_mg_get (rm_functions (remote c')) 99 = Inr 4096"
proof -
  let ?E = "answering [Word64 4096]"
  have rep: "list_rep (kernel_infos module_client) [plain_add]"
    by (simp add: module_client_def list_rep_def list_wf_def list_abs_def)
  have rem: "remote module_client = module_server" "net module_client = []"
    by (simp_all add: module_client_def client_on_def)
  have found: "utils_search_info (kernel_infos module_client) ''add'' = Inr (Some 0)"
    using utils_search_info_found [OF rep, of "''add''"] by (simp add: plain_add_def)
  obtain s' p where "rpc_register_function_1_svc ?E 50 7 5 99 (1, ''add'') (1, ''add'') 0 module_server = Inr (Reply [Int32 0, Word64 p], s')"
    using module_registers by blast
  then have "rpc (rpc_register_function_1_svc ?E 50 7 5 99 (1, ''add'') (1, ''add'') 0) module_client =
      Inr ((RPC_SUCCESS, Some [Int32 0, Word64 p]), module_client\<lparr>remote := s', net := []\<rparr>)"
    using rem by (simp add: rpc_def)
  moreover obtain l where l: "set_elem (kernel_infos module_client) 0 (plain_add\<lparr>host_fun := Some 99\<rparr>) = Inr l"
    using list_rep_update [OF rep, of 0] by auto
  moreover have "elem_at (kernel_infos module_client) 0 = Inr plain_add"
    using list_rep_cell [OF rep, of 0] by simp
  ultimately obtain c' where
    run: "cudaRegisterFunction ?E 7 5 99 (1, ''add'') (1, ''add'') 0 module_client = Inr (Some (), c')"
    using found by (auto simp: cudaRegisterFunction_def bind_c_def get_c_def lift_c_def set_c_def ret_c_def err_of_def)
  have "heap_ok ?E = glibc (\<lambda>_. True)" by (simp add: answering_def roomy_env_def)
  moreover have "mg_ready (rm_functions (remote module_client)) 0"
    using fresh_mg_ready(1) by (simp add: rem module_server_def)
  ultimately have "find_kernel (kernel_infos c') 99 0 (len (kernel_infos c')) = Inr (Some (([plain_add] ! 0)\<lparr>host_fun := Some 99\<rparr>))
    \<and> (\<exists>module outs d d'. resource_mg_get (rm_modules (remote module_client)) 5 = Inr module
        \<and> cuda ?E ''cuModuleGetFunction'' [Word64 module, Text ''add''] d = (0, outs, d')
        \<and> resource_mg_get (rm_functions (remote c')) 99 = Inr (out64 ?E outs 0))"
    using registered_kernel_found [OF run rep, of 0 "\<lambda>_. True" 0] by (simp add: plain_add_def glibc_def)
  then show ?thesis using run by (auto simp: answering_simps out64_def)
qed

end
