(* ===== verification/TextParser.thy ===== *)
theory TextParser
  imports CuObjdump
begin

text \<open>
  The two parsers of kernel attributes, the one of the text \<open>cuobjdump\<close> prints and the one of the
  attribute section, read the same parameters.
\<close>

section \<open>Hexadecimal numbers\<close>

lemma hex_digit_digit: "d < 16 \<Longrightarrow> hex_digit (digit d) = Some d"
  by (auto simp: hex_digit_def digit_def Let_def)

lemma hex_number_digits: "hex_number v (digits 16 n @ rest) = hex_number (v * 16 ^ length (digits 16 n) + n) rest"
proof (induction n arbitrary: v rest rule: less_induct)
  case (less n)
  show ?case
  proof (cases "n < 16")
    case True
    then show ?thesis by (simp add: digits.simps hex_digit_digit mult.commute)
  next
    case False
    then have "digits 16 n = digits 16 (n div 16) @ [digit (n mod 16)]" by (subst digits.simps) simp
    with less.IH [of "n div 16" v "digit (n mod 16) # rest"] False show ?thesis
      by (simp add: hex_digit_digit algebra_simps)
  qed
qed

lemma digits_Cons: "\<exists>d ds. digits 16 n = digit d # map digit ds \<and> d < 16 \<and> (\<forall>x \<in> set ds. x < 16) \<and> (d = 0 \<longrightarrow> ds = [])"
proof (induction n rule: less_induct)
  case (less n)
  show ?case
  proof (cases "n < 16")
    case True
    then show ?thesis by (intro exI [of _ n] exI [of _ "[]"]) (simp add: digits.simps)
  next
    case False
    then obtain d ds where d: "digits 16 (n div 16) = digit d # map digit ds" "d < 16" "\<forall>x \<in> set ds. x < 16" "d = 0 \<longrightarrow> ds = []"
      using less.IH [of "n div 16"] by auto
    have "d \<noteq> 0"
    proof
      assume "d = 0"
      then have "digits 16 (n div 16) = digits 16 0" using d by (simp add: digits.simps)
      then have "n div 16 = 0" using hex_inj [of "n div 16" 0] by (simp add: hex_def)
      with False show False by simp
    qed
    then show ?thesis using d False
      by (intro exI [of _ d] exI [of _ "ds @ [n mod 16]"]) (subst digits.simps, auto)
  qed
qed

text \<open>What may follow a number.\<close>

definition ends_number :: "string \<Rightarrow> bool" where
  "ends_number s \<longleftrightarrow> (case s of [] \<Rightarrow> True | c # _ \<Rightarrow> hex_digit c = None \<and> c \<noteq> CHR ''x'' \<and> c \<noteq> CHR ''X'')"

lemma of_digit: "d < 16 \<Longrightarrow> (of_char (digit d) :: nat) = (if d < 10 then 48 + d else 87 + d)"
  by (simp add: digit_def)

lemma digit_neq: "d < 16 \<Longrightarrow> (of_char c :: nat) \<notin> {48..57} \<union> {97..102} \<Longrightarrow> digit d \<noteq> c"
  using of_digit [of d] by (auto split: if_split_asm)

lemma digit_plain:
  assumes "d < 16"
  shows "\<not> isspace (digit d)" "digit d \<noteq> CHR ''-''" "digit d \<noteq> CHR ''+''" "digit d \<noteq> CHR ''x''" "digit d \<noteq> CHR ''X''"
    "digit d = CHR ''0'' \<longleftrightarrow> d = 0"
proof -
  show "\<not> isspace (digit d)" unfolding isspace_def by (simp add: digit_neq [OF assms])
  show "digit d \<noteq> CHR ''-''" "digit d \<noteq> CHR ''+''" "digit d \<noteq> CHR ''x''" "digit d \<noteq> CHR ''X''"
    by (simp_all add: digit_neq [OF assms])
  have "(of_char (CHR ''0'') :: nat) = of_char (digit 0)" by (simp add: of_digit)
  then have "digit 0 = CHR ''0''" by (metis char_of_char)
  then show "digit d = CHR ''0'' \<longleftrightarrow> d = 0" using digit_inj [OF assms, of 0] by auto
qed

lemma scan_hex_hex:
  assumes "n < 2 ^ 64" and "ends_number rest"
  shows "scan_hex (hex n @ rest) = Some (n, rest)"
proof -
  obtain d ds where d: "hex n = digit d # map digit ds" "d < 16" "\<forall>x \<in> set ds. x < 16" "d = 0 \<longrightarrow> ds = []"
    using digits_Cons [of n] by (auto simp: hex_def)
  have rest: "hex_number v rest = (v, rest)" for v
    using assms(2) by (cases rest) (auto simp: ends_number_def split: option.split)
  then have num: "hex_number 0 (hex n @ rest) = (n, rest)" by (simp add: hex_def hex_number_digits)
  have zero: "digit d \<noteq> CHR ''0'' \<or> (case map digit ds @ rest of [] \<Rightarrow> True | c # _ \<Rightarrow> c \<noteq> CHR ''x'' \<and> c \<noteq> CHR ''X'')"
  proof (cases ds)
    case Nil
    then show ?thesis using assms(2) by (auto simp: ends_number_def split: list.split)
  next
    case (Cons e es)
    then show ?thesis using d digit_plain(6) [OF d(2)] by auto
  qed
  define c t where "c = digit d" and "t = map digit ds @ rest"
  have s: "hex n @ rest = c # t" by (simp add: d(1) c_def t_def)
  have c: "\<not> isspace c" "c \<noteq> CHR ''-''" "c \<noteq> CHR ''+''" "hex_digit c = Some d"
    using digit_plain [OF d(2)] hex_digit_digit [OF d(2)] by (simp_all add: c_def)
  show ?thesis
  proof (cases t)
    case Nil
    then show ?thesis using num assms(1) c unfolding s by (simp add: scan_hex_def Let_def del: hex_number.simps)
  next
    case (Cons e r)
    then have "\<not> (c = CHR ''0'' \<and> (e = CHR ''x'' \<or> e = CHR ''X''))"
      using zero by (auto simp: c_def [symmetric] t_def [symmetric])
    then show ?thesis using num assms(1) c unfolding s Cons
      by (cases "c = CHR ''0''") (simp_all add: scan_hex_def Let_def del: hex_number.simps)
  qed
qed

section \<open>Lines\<close>

text \<open>
  The text is described by what the source scans in it, \<open>"%31s %255c"\<close> for a line and the formats of the values;
  nothing else is taken for granted of \<open>cuobjdump\<close>. White space may be of any kind wherever a format has a blank, other
  lines may stand between the ones that are read, and attributes that are not read may have any values.
\<close>

definition newline :: char where "newline = CHR 0x0A"

definition blank :: "string \<Rightarrow> bool" where
  "blank s \<longleftrightarrow> (\<forall>c \<in> set s. isspace c)"

definition no_space :: "string \<Rightarrow> bool" where
  "no_space s \<longleftrightarrow> (\<forall>c \<in> set s. \<not> isspace c)"

lemma isspace_blank: "isspace newline" "isspace (CHR '' '')"
  by (simp_all add: isspace_def newline_def)

lemma blank_skipped:
  "blank g \<Longrightarrow> dropWhile isspace (g @ s) = dropWhile isspace s"
  "blank g \<Longrightarrow> dropWhile isspace g = []"
  by (auto simp: blank_def dropWhile_append1 dropWhile_eq_Nil_conv intro: dropWhile_append2)

lemma key_taken:
  "no_space key \<Longrightarrow> blank m \<Longrightarrow> m \<noteq> [] \<Longrightarrow> takeWhile (\<lambda>c. \<not> isspace c) (key @ m @ s) = key"
  by (cases m) (simp_all add: no_space_def blank_def)

text \<open>A line with a key and a value, \<open>w\<close> being the white space before the key and behind it.\<close>

definition kv_line :: "string \<times> string \<Rightarrow> string \<Rightarrow> string \<Rightarrow> string" where
  "kv_line w key val = fst w @ key @ snd w @ val @ [newline]"

definition white :: "string \<times> string \<Rightarrow> bool" where
  "white w \<longleftrightarrow> blank (fst w) \<and> blank (snd w) \<and> snd w \<noteq> []"

definition value_ok :: "string \<Rightarrow> bool" where
  "value_ok v \<longleftrightarrow> v \<noteq> [] \<and> \<not> isspace (hd v) \<and> length v < 255"

lemma key_value_line:
  assumes "white w" and "key \<noteq> []" and "no_space key" and "length key \<le> 31" and "value_ok val"
  shows "key_value (kv_line w key val) = (2, key, val)"
proof -
  obtain k ks where key: "key = k # ks" "\<not> isspace k" using assms(2,3) by (cases key) (auto simp: no_space_def)
  obtain v vs where val: "val = v # vs" "\<not> isspace v" using assms(5) by (cases val) (auto simp: value_ok_def)
  have line: "dropWhile isspace (kv_line w key val) = key @ snd w @ val @ [newline]"
    using key assms(1) by (simp add: kv_line_def white_def blank_skipped)
  have "takeWhile (\<lambda>c. \<not> isspace c) (key @ snd w @ val @ [newline]) = key"
    using assms(1,3) by (intro key_taken) (simp_all add: white_def)
  moreover have "dropWhile isspace (snd w @ val @ [newline]) = val @ [newline]"
    using val assms(1) by (simp add: white_def blank_skipped)
  ultimately show ?thesis
    using key val assms(4,5) unfolding key_value_def line by (simp add: Let_def value_ok_def)
qed

lemma line_kinds:
  assumes "white w" and "value_ok v"
  shows "line_kind (kv_line w ''Attribute:'' v) = Attribute v"
    and "line_kind (kv_line w ''Value:'' v) = Value v"
  using assms by (simp_all add: line_kind_def key_value_line no_space_def isspace_def)

lemma blank_line: "line_kind [newline] = Empty"
  by (simp add: line_kind_def key_value_def isspace_blank)

section \<open>Values\<close>

text \<open>The values of a parameter and of the place of the parameters; \<open>g\<close> has the white space between the parts.\<close>

definition param_value :: "(nat \<Rightarrow> string) \<Rightarrow> nat \<Rightarrow> nat \<Rightarrow> nat \<Rightarrow> nat \<Rightarrow> string" where
  "param_value g ix ord off sz =
     ''Index'' @ g 0 @ '':'' @ g 1 @ ''0x'' @ hex ix @ g 2 @ ''Ordinal'' @ g 3 @ '':'' @ g 4 @ ''0x'' @ hex ord @ g 5 @
     ''Offset'' @ g 6 @ '':'' @ g 7 @ ''0x'' @ hex off @ g 8 @ ''Size'' @ g 9 @ '':'' @ g 10 @ ''0x'' @ hex sz @ g 11"

definition cbank_value :: "string \<Rightarrow> nat \<Rightarrow> nat \<Rightarrow> string" where
  "cbank_value g a b = ''0x'' @ hex a @ g @ ''0x'' @ hex b"

lemma hex_short: "n < 2 ^ 32 \<Longrightarrow> length (hex n) \<le> 8"
  using digits_length [of 16 n 7] by (simp add: hex_def)

lemma plain_chars: "\<not> isspace c" if "(of_char c :: nat) > 32"
proof
  assume "isspace c"
  then have "(of_char c :: nat) \<in> {32, 9, 10, 11, 12, 13}" by (auto simp: isspace_def)
  then show False using that by auto
qed

lemma space_no_digit: "isspace c \<Longrightarrow> hex_digit c = None \<and> c \<noteq> CHR ''x'' \<and> c \<noteq> CHR ''X''"
  by (auto simp: isspace_def hex_digit_def)

lemma ends_number_blank: "blank g \<Longrightarrow> g \<noteq> [] \<or> ends_number s \<Longrightarrow> ends_number (g @ s)"
  by (cases g) (auto simp: ends_number_def blank_def space_no_digit)

lemma ends_number_letters: "ends_number []" "ends_number (CHR ''O'' # s)" "ends_number (CHR ''S'' # s)"
  by (simp_all add: ends_number_def hex_digit_def)

lemma scan_hex_end: "n < 2 ^ 64 \<Longrightarrow> scan_hex (hex n) = Some (n, [])"
  using scan_hex_hex [of n "[]"] by (simp add: ends_number_letters)

lemma param_value_scanned:
  assumes "\<forall>i. blank (g i)" and "ix < 2 ^ 32" and "ord < 65536" and "off < 65536" and "sz < 65536"
  shows "sscanf kparam_format (param_value g ix ord off sz) = [ord, off, sz]"
proof -
  have b: "dropWhile isspace (g i @ s) = dropWhile isspace s" for i s using assms(1) by (simp add: blank_skipped)
  have e: "scan_hex (hex n @ g i @ s) = Some (n, g i @ s)" if "n < 2 ^ 64" "ends_number s" for n i s
    using assms(1) that by (intro scan_hex_hex ends_number_blank) auto
  have l: "scan_hex (hex n @ g i) = Some (n, g i)" if "n < 2 ^ 64" for n i
    using e [of n "[]" i] that by (simp add: ends_number_letters)
  show ?thesis using assms(2-5)
    by (simp add: kparam_format_def param_value_def isspace_blank plain_chars b e l ends_number_letters)
qed

lemma size_value_scanned: "v < 2 ^ 64 \<Longrightarrow> sscanf size_format (''0x'' @ hex v) = [v]"
  by (simp add: size_format_def plain_chars scan_hex_end)

lemma cbank_value_scanned:
  assumes "blank g" and "g \<noteq> []" and "a < 2 ^ 64" and "b < 2 ^ 64"
  shows "sscanf cbank_format (cbank_value g a b) = [b]"
proof -
  have "scan_hex (hex a @ g @ s) = Some (a, g @ s)" for s
    using assms by (intro scan_hex_hex ends_number_blank) auto
  then show ?thesis using assms
    by (simp add: cbank_format_def cbank_value_def isspace_blank plain_chars blank_skipped scan_hex_end)
qed

section \<open>The text of a kernel\<close>

text \<open>
  The parts of the text: a parameter, the size of the parameters and their place in the constant bank, each with
  the lines between the name of the attribute and its value; an attribute that is not read with all its lines; and
  any other line.
\<close>

datatype text_item =
    Param_Item "string list" "nat \<Rightarrow> string" nat nat nat nat
  | Size_Item "string list" nat
  | Cbank_Item "string list" string nat nat
  | Other_Item string "string list"
  | Line_Item string

fun item_lines :: "string \<times> string \<Rightarrow> text_item \<Rightarrow> string list" where
  "item_lines w (Param_Item ls g ix ord off sz) =
     kv_line w ''Attribute:'' ''EIATTR_KPARAM_INFO'' # ls @ [kv_line w ''Value:'' (param_value g ix ord off sz)]"
| "item_lines w (Size_Item ls v) =
     kv_line w ''Attribute:'' ''EIATTR_CBANK_PARAM_SIZE'' # ls @ [kv_line w ''Value:'' (''0x'' @ hex v)]"
| "item_lines w (Cbank_Item ls g a b) =
     kv_line w ''Attribute:'' ''EIATTR_PARAM_CBANK'' # ls @ [kv_line w ''Value:'' (cbank_value g a b)]"
| "item_lines w (Other_Item name ls) = kv_line w ''Attribute:'' name # ls"
| "item_lines w (Line_Item l) = [l]"

abbreviation plain_lines :: "string list \<Rightarrow> bool" where
  "plain_lines ls \<equiv> \<forall>l \<in> set ls. line_kind l = Plain"

fun item_ok :: "text_item \<Rightarrow> bool" where
  "item_ok (Param_Item ls g ix ord off sz) \<longleftrightarrow> plain_lines ls \<and> (\<forall>i. blank (g i)) \<and>
     ix < 2 ^ 32 \<and> ord < 65536 \<and> off < 65536 \<and> sz < 65536 \<and> length (param_value g ix ord off sz) < 255"
| "item_ok (Size_Item ls v) \<longleftrightarrow> plain_lines ls \<and> v < 2 ^ 32"
| "item_ok (Cbank_Item ls g a b) \<longleftrightarrow> plain_lines ls \<and> blank g \<and> g \<noteq> [] \<and> a < 2 ^ 32 \<and> b < 2 ^ 32 \<and> length g < 230"
| "item_ok (Other_Item name ls) \<longleftrightarrow> value_ok name \<and> attr_of name = ATTR_T_LAST \<and>
     (\<forall>l \<in> set ls. line_kind l = Plain \<or> (\<exists>v. line_kind l = Value v))"
| "item_ok (Line_Item l) \<longleftrightarrow> line_kind l = Plain"

text \<open>What a part of the text, and an entry of the attribute section, say of the parameters.\<close>

datatype param_fact = Is_Param nat nat nat | Is_Size nat

fun item_facts :: "text_item \<Rightarrow> param_fact list" where
  "item_facts (Param_Item ls g ix ord off sz) = [Is_Param ord off sz]"
| "item_facts (Size_Item ls v) = [Is_Size v]"
| "item_facts _ = []"

fun entry_facts :: "nv_entry \<Rightarrow> param_fact list" where
  "entry_facts (KParam ix ord off low sz) = [Is_Param ord off sz]"
| "entry_facts (Cbank_Size v) = [Is_Size v]"
| "entry_facts _ = []"

fun apply_fact :: "param_fact \<Rightarrow> kernel_info \<Rightarrow> kernel_info" where
  "apply_fact (Is_Param ord off sz) k = set_param ord off sz k"
| "apply_fact (Is_Size v) k = k\<lparr>param_size := v\<rparr>"

lemma apply_facts_ok: "arrays_ok k \<Longrightarrow> arrays_ok (fold apply_fact fs k)"
proof (induction fs arbitrary: k)
  case (Cons f fs)
  then show ?case by (cases f) (simp_all add: set_param_ok, simp add: arrays_ok_def)
qed simp

lemma entry_applies: "apply_entry e k = fold apply_fact (entry_facts e) k"
  by (cases e) simp_all

lemma entries_apply: "fold apply_entry es k = fold apply_fact (concat (map entry_facts es)) k"
  by (induction es arbitrary: k) (simp_all add: entry_applies)

lemma read_plain0: "plain_lines ls \<Longrightarrow> read_pars_loop E attr 0 (ls @ rest) k = read_pars_loop E attr 0 rest k"
  by (induction ls) simp_all

lemma read_other:
  "\<forall>l \<in> set ls. line_kind l = Plain \<or> (\<exists>v. line_kind l = Value v) \<Longrightarrow>
   read_pars_loop E ATTR_T_LAST 0 (ls @ rest) k = read_pars_loop E ATTR_T_LAST 0 rest k"
  by (induction ls) (auto simp: read_value_def)

lemma attr_of_names:
  "attr_of ''EIATTR_KPARAM_INFO'' = KPARAM_INFO" "attr_of ''EIATTR_CBANK_PARAM_SIZE'' = CBANK_PARAM_SIZE"
  "attr_of ''EIATTR_PARAM_CBANK'' = PARAM_CBANK"
  by (simp_all add: attr_of_def)

lemma values_ok:
  "value_ok ''EIATTR_KPARAM_INFO''" "value_ok ''EIATTR_CBANK_PARAM_SIZE''" "value_ok ''EIATTR_PARAM_CBANK''"
  "length (param_value g ix ord off sz) < 255 \<Longrightarrow> value_ok (param_value g ix ord off sz)"
  "v < 2 ^ 32 \<Longrightarrow> value_ok (''0x'' @ hex v)"
  "a < 2 ^ 32 \<Longrightarrow> b < 2 ^ 32 \<Longrightarrow> length h < 230 \<Longrightarrow> value_ok (cbank_value h a b)"
  using hex_short [of v] hex_short [of a] hex_short [of b]
  by (simp_all add: value_ok_def plain_chars param_value_def cbank_value_def)

lemma read_attribute:
  assumes "white w" and "value_ok name" and "value_ok v" and "plain_lines ls"
  shows "read_pars_loop E attr n ((kv_line w ''Attribute:'' name # ls @ [kv_line w ''Value:'' v]) @ rest) k =
    bind_r (read_value E (attr_of name) v k) (\<lambda>r. case r of None \<Rightarrow> Inr (1, k, rest)
      | Some k \<Rightarrow> read_pars_loop E (attr_of name) 0 rest k)"
  using read_plain0 [OF assms(4), of E "attr_of name" "kv_line w ''Value:'' v # rest" k]
  by (simp add: line_kinds [OF assms(1,2)] line_kinds [OF assms(1,3)])

lemma read_item:
  assumes "item_ok it" and "arrays_ok k" and "heap_params E" and "white w"
  shows "\<exists>attr'. read_pars_loop E attr 0 (item_lines w it @ rest) k =
    read_pars_loop E attr' 0 rest (fold apply_fact (item_facts it) k)"
proof (cases it)
  case (Param_Item ls g ix ord off sz)
  then have ok: "plain_lines ls" "value_ok (param_value g ix ord off sz)"
    "sscanf kparam_format (param_value g ix ord off sz) = [ord, off, sz]" "ord < 65536"
    using assms(1) values_ok(4) param_value_scanned by auto
  show ?thesis
    unfolding Param_Item item_lines.simps read_attribute [OF assms(4) values_ok(1) ok(2,1)]
    using ok(3) store_param_ok [OF assms(2,3) ok(4), of off sz] by (auto simp: attr_of_names read_value_def)
next
  case (Size_Item ls v)
  then have ok: "plain_lines ls" "value_ok (''0x'' @ hex v)" "sscanf size_format (''0x'' @ hex v) = [v]"
    using assms(1) values_ok(5) size_value_scanned [of v] by auto
  show ?thesis
    unfolding Size_Item item_lines.simps read_attribute [OF assms(4) values_ok(2) ok(2,1)]
    using ok(3) by (auto simp: attr_of_names read_value_def)
next
  case (Cbank_Item ls g a b)
  then have ok: "plain_lines ls" "value_ok (cbank_value g a b)" "sscanf cbank_format (cbank_value g a b) = [b]"
    using assms(1) values_ok(6) cbank_value_scanned [of g a b] by auto
  show ?thesis
    unfolding Cbank_Item item_lines.simps read_attribute [OF assms(4) values_ok(3) ok(2,1)]
    using ok(3) by (auto simp: attr_of_names read_value_def)
next
  case (Other_Item name ls)
  then have ok: "value_ok name" "attr_of name = ATTR_T_LAST" "\<forall>l \<in> set ls. line_kind l = Plain \<or> (\<exists>v. line_kind l = Value v)"
    using assms(1) by auto
  show ?thesis using read_other [OF ok(3), of E rest k] line_kinds(1) [OF assms(4) ok(1)] ok(2) by (auto simp: Other_Item)
next
  case (Line_Item l)
  then show ?thesis using assms(1) by auto
qed

definition kernel_end :: "string list" where "kernel_end = [[newline], [newline]]"

lemma read_items:
  assumes "heap_params E" and "white w" and "arrays_ok k" and "\<forall>it \<in> set its. item_ok it"
  shows "read_pars_loop E attr 0 (concat (map (item_lines w) its) @ kernel_end @ ls) k =
    Inr (0, fold apply_fact (concat (map item_facts its)) k, ls)"
  using assms(3,4)
proof (induction its arbitrary: attr k)
  case Nil
  then show ?case by (simp add: kernel_end_def blank_line)
next
  case (Cons it its)
  obtain attr' where "read_pars_loop E attr 0 (item_lines w it @ concat (map (item_lines w) its) @ kernel_end @ ls) k =
      read_pars_loop E attr' 0 (concat (map (item_lines w) its) @ kernel_end @ ls) (fold apply_fact (item_facts it) k)"
    using read_item [of it k E w attr] Cons.prems assms(1,2) by force
  then show ?case using Cons.IH [OF apply_facts_ok [OF Cons.prems(1)]] Cons.prems(2) by simp
qed

text \<open>The size is set by an entry, so that the value before does not matter.\<close>

lemma apply_fact_size:
  "apply_fact f (k\<lparr>param_size := a\<rparr>) = (apply_fact f k)\<lparr>param_size := param_size (apply_fact f (k\<lparr>param_size := a\<rparr>))\<rparr>"
  by (cases f) (simp_all add: set_param_def)

lemma fold_size:
  "Is_Size v \<in> set fs \<Longrightarrow> fold apply_fact fs (k\<lparr>param_size := a\<rparr>) = fold apply_fact fs k"
proof (induction fs arbitrary: k a)
  case (Cons f fs)
  show ?case
  proof (cases "Is_Size v \<in> set fs")
    case True
    then show ?thesis using Cons.IH [OF True, of "param_size (apply_fact f (k\<lparr>param_size := a\<rparr>))" "apply_fact f k"]
      apply_fact_size [of f a k] by simp
  next
    case False
    then have "f = Is_Size v" using Cons.prems by auto
    then show ?thesis by simp
  qed
qed simp


definition sample_items :: "text_item list" where
  "sample_items =
     [Line_Item ''header'', Other_Item ''EIATTR_EXIT_INSTR_OFFSETS'' [kv_line ('' '', '' '') ''Value:'' ''0x80 0xa0''],
      Param_Item [''EIFMT_SVAL''] (\<lambda>_. '' '') 0 1 8 4, Cbank_Item [] '' '' 2 0x140,
      Param_Item [] (\<lambda>_. []) 0 0 0 8, Size_Item [''EIFMT_HVAL''] 12]"

lemma sample_white: "white ('' '', '' '')"
  by (simp add: white_def blank_def isspace_def)

lemma sample_items_ok: "\<forall>it \<in> set sample_items. item_ok it"
proof -
  have plain: "line_kind ''header'' = Plain" "line_kind ''EIFMT_SVAL'' = Plain" "line_kind ''EIFMT_HVAL'' = Plain"
    by (simp_all add: line_kind_def key_value_def plain_chars Let_def)
  have v: "line_kind (kv_line ('' '', '' '') ''Value:'' ''0x80 0xa0'') = Value ''0x80 0xa0''"
    by (rule line_kinds(2) [OF sample_white]) (simp add: value_ok_def plain_chars)
  have len: "length (hex 0) = 1" "length (hex (Suc 0)) = 1" "length (hex 4) = 1" "length (hex 8) = 1"
    by (simp_all add: hex_def digits.simps)
  show ?thesis
    using plain v by (simp add: sample_items_def blank_def isspace_def param_value_def len value_ok_def attr_of_def)
qed


section \<open>A file\<close>

text \<open>The text for a file: for each kernel a line with its name, its attributes, and the end.\<close>

definition kernel_text :: "string \<times> string \<Rightarrow> string \<times> text_item list \<Rightarrow> string list" where
  "kernel_text w k = (nv_info_prefix @ fst k @ [newline]) # concat (map (item_lines w) (snd k)) @ kernel_end"

definition text_kernel :: "'d env \<Rightarrow> string \<times> text_item list \<Rightarrow> kernel_info" where
  "text_kernel E k = fold apply_fact (concat (map item_facts (snd k))) \<lparr>k_name = fst k, param_size = unat (fresh_word E), param_num = 0,
     param_offsets = [], param_sizes = [], host_fun = None\<rparr>"

lemma kernels_loop_kernel:
  assumes "heap_params E" and "white w" and "\<forall>it \<in> set (snd k). item_ok it"
    and "kernels_loop E (kernel_text w k @ ls) l = Inr (True, l')"
  obtains rc l1 i l2 where "list_append (heap_ok E) l True = Inr (rc, l1, Some i)"
    and "set_elem l1 i (text_kernel E k) = Inr l2" and "kernels_loop E ls l2 = Inr (True, l')"
proof -
  let ?k = "\<lparr>k_name = fst k, param_size = unat (fresh_word E), param_num = 0, param_offsets = [], param_sizes = [], host_fun = None\<rparr>"
  have "cpu_utils_read_pars E ?k (concat (map (item_lines w) (snd k)) @ kernel_end @ ls) = Inr (0, text_kernel E k, ls)"
    using read_items [OF assms(1,2) _ assms(3), of ?k ATTR_T_LAST ls]
    by (simp add: cpu_utils_read_pars_def text_kernel_def arrays_ok_def)
  then show thesis
    using assms(4) that
    by (auto simp: kernel_text_def kernels_loop.simps bind_r_Inr_iff butlast_append split: if_split_asm option.split_asm)
qed

lemma kernels_loop_file:
  assumes "heap_params E" and "white w" and "alloc_bounded (heap_ok E)"
    and "\<forall>k \<in> set ks. \<forall>it \<in> set (snd k). item_ok it" and "list_rep l xs"
    and "kernels_loop E (concat (map (kernel_text w) ks)) l = Inr (True, l')"
  shows "list_rep l' (xs @ map (text_kernel E) ks)"
  using assms(4-6)
proof (induction ks arbitrary: l xs)
  case Nil
  then show ?case by (simp add: kernels_loop.simps)
next
  case (Cons k ks)
  obtain rc l1 i l2 where step: "list_append (heap_ok E) l True = Inr (rc, l1, Some i)"
      "set_elem l1 i (text_kernel E k) = Inr l2" "kernels_loop E (concat (map (kernel_text w) ks)) l2 = Inr (True, l')"
    by (rule kernels_loop_kernel [OF assms(1,2), of k "concat (map (kernel_text w) ks)" l l']) (use Cons.prems in simp_all)
  have "list_rep l2 (xs @ [text_kernel E k])" by (rule append_entry [OF Cons.prems(2) assms(3) step(1,2)])
  then have "list_rep l' ((xs @ [text_kernel E k]) @ map (text_kernel E) ks)"
    using Cons.prems(1) by (intro Cons.IH [OF _ _ step(3)]) simp_all
  then show ?case by simp
qed

end
