(* ===== verification/ClientDnn.thy ===== *)
theory ClientDnn
  imports ClientLib
begin

text \<open>
  The functions of the client library for cuDNN (\<open>cpu/cpu-client-cudnn.c\<close>), in the order of the
  source. Handles are those of the server. Codes are those of the cuDNN headers.
\<close>

definition CUDNN_STATUS_BAD_PARAM :: u32 where "CUDNN_STATUS_BAD_PARAM = 3"

definition cudnnGetVersion :: "'d env \<Rightarrow> int \<Rightarrow> ('d, u64) client_fn" where
  "cudnnGetVersion E fd =
     size_rpc E (rpc_cudnngetversion_1_svc E fd)"

definition cudnnGetMaxDeviceVersion :: "'d env \<Rightarrow> int \<Rightarrow> ('d, u64) client_fn" where
  "cudnnGetMaxDeviceVersion E fd =
     size_rpc E (rpc_cudnngetmaxdeviceversion_1_svc E fd)"

definition cudnnGetCudartVersion :: "'d env \<Rightarrow> int \<Rightarrow> ('d, u64) client_fn" where
  "cudnnGetCudartVersion E fd =
     size_rpc E (rpc_cudnngetcudartversion_1_svc E fd)"

text \<open>
  The string is copied to a static buffer of 128 bytes, up to its end or the end of the buffer. If no
  reply comes, it is copied from NULL.
\<close>

definition cudnnGetErrorString :: "'d env \<Rightarrow> int \<Rightarrow> u32 \<Rightarrow> ('d, string) client_fn" where
  "cudnnGetErrorString E fd status =
     bind_c (rpc (rpc_cudnngeterrorstring_1_svc E fd status)) (\<lambda>(_, r).
       case r of Some (Text t # _) \<Rightarrow> ret_c (take 128 t) | _ \<Rightarrow> lift_c (Inl Null_Deref))"

definition cudnnQueryRuntimeError :: "'d env \<Rightarrow> int \<Rightarrow> u64 \<Rightarrow> u32 \<Rightarrow> ('d, u32 \<times> cval list) client_fn" where
  "cudnnQueryRuntimeError E fd hnd mode =
     word_rpc E (rpc_cudnnqueryruntimeerror_1_svc E fd hnd mode)"

definition cudnnGetProperty :: "'d env \<Rightarrow> int \<Rightarrow> u32 \<Rightarrow> bool \<Rightarrow> ('d, u32 \<times> cval list) client_fn" where
  "cudnnGetProperty E fd ty value_null =
     (if value_null then ret_c (CUDNN_STATUS_BAD_PARAM, [])
      else word_rpc E (rpc_cudnngetproperty_1_svc E fd ty))"

definition cudnnCreate :: "'d env \<Rightarrow> int \<Rightarrow> bool \<Rightarrow> ('d, u32 \<times> cval list) client_fn" where
  "cudnnCreate E fd handle_null =
     (if handle_null then ret_c (CUDNN_STATUS_BAD_PARAM, [])
      else word64_rpc E (rpc_cudnncreate_1_svc E 5006 fd))"

definition cudnnDestroy :: "'d env \<Rightarrow> int \<Rightarrow> u64 \<Rightarrow> ('d, u32) client_fn" where
  "cudnnDestroy E fd hnd =
     int_rpc E (rpc_cudnndestroy_1_svc E 5007 fd hnd)"

definition cudnnSetStream :: "'d env \<Rightarrow> int \<Rightarrow> u64 \<Rightarrow> u64 \<Rightarrow> ('d, u32) client_fn" where
  "cudnnSetStream E fd hnd streamId =
     int_rpc E (rpc_cudnnsetstream_1_svc E 5008 fd hnd streamId)"

definition cudnnGetStream :: "'d env \<Rightarrow> int \<Rightarrow> u64 \<Rightarrow> bool \<Rightarrow> ('d, u32 \<times> cval list) client_fn" where
  "cudnnGetStream E fd hnd streamId_null =
     (if streamId_null then ret_c (CUDNN_STATUS_BAD_PARAM, [])
      else word64_rpc E (rpc_cudnngetstream_1_svc E fd hnd))"

definition cudnnCreateTensorDescriptor :: "'d env \<Rightarrow> int \<Rightarrow> bool \<Rightarrow> ('d, u32 \<times> cval list) client_fn" where
  "cudnnCreateTensorDescriptor E fd tensorDesc_null =
     (if tensorDesc_null then ret_c (CUDNN_STATUS_BAD_PARAM, [])
      else word64_rpc E (rpc_cudnncreatetensordescriptor_1_svc E 5010 fd))"

definition cudnnSetTensor4dDescriptor :: "'d env \<Rightarrow> int \<Rightarrow> u64 \<Rightarrow> u32 \<Rightarrow> u32 \<Rightarrow> u32 \<Rightarrow> u32 \<Rightarrow> u32 \<Rightarrow> u32 \<Rightarrow> ('d,
  u32) client_fn" where
  "cudnnSetTensor4dDescriptor E fd tensorDesc fmt dataType n c h w =
     int_rpc E (rpc_cudnnsettensor4ddescriptor_1_svc E 5011 fd tensorDesc fmt dataType n c h w)"

definition cudnnSetTensor4dDescriptorEx :: "'d env \<Rightarrow> int \<Rightarrow> u64 \<Rightarrow> u32 \<Rightarrow> u32 \<Rightarrow> u32 \<Rightarrow> u32 \<Rightarrow> u32 \<Rightarrow> u32 \<Rightarrow> u32 \<Rightarrow>
  u32 \<Rightarrow> u32 \<Rightarrow> ('d, u32) client_fn" where
  "cudnnSetTensor4dDescriptorEx E fd tensorDesc dataType n c h w nStride cStride hStride wStride =
     int_rpc E (rpc_cudnnsettensor4ddescriptorex_1_svc E 5012 fd tensorDesc dataType n c h w nStride
        cStride hStride wStride)"

definition cudnnGetTensor4dDescriptor :: "'d env \<Rightarrow> int \<Rightarrow> u64 \<Rightarrow> bool \<Rightarrow> ('d, u32 \<times> cval list) client_fn"
  where
  "cudnnGetTensor4dDescriptor E fd tensorDesc some_null =
     (if some_null then ret_c (CUDNN_STATUS_BAD_PARAM, [])
      else value_rpc E (replicate 9 (Int32 (unset32 E))) (rpc_cudnngettensor4ddescriptor_1_svc E fd
         tensorDesc))"

definition cudnnSetTensorNdDescriptor :: "'d env \<Rightarrow> int \<Rightarrow> u64 \<Rightarrow> u32 \<Rightarrow> u32 \<Rightarrow> u8 list \<Rightarrow> u8 list \<Rightarrow> ('d, u32)
  client_fn" where
  "cudnnSetTensorNdDescriptor E fd tensorDesc dataType nbDims dimA strideA =
     send_block E dimA (nbDims * 4) (\<lambda>m1.
     send_block E strideA (nbDims * 4) (\<lambda>m2.
     int_rpc E (rpc_cudnnsettensornddescriptor_1_svc E 5014 fd tensorDesc dataType nbDims m1 m2)))"

definition cudnnSetTensorNdDescriptorEx :: "'d env \<Rightarrow> int \<Rightarrow> u64 \<Rightarrow> u32 \<Rightarrow> u32 \<Rightarrow> u32 \<Rightarrow> u8 list \<Rightarrow> ('d, u32)
  client_fn" where
  "cudnnSetTensorNdDescriptorEx E fd tensorDesc fmt dataType nbDims dimA =
     send_block E dimA (nbDims * 4) (\<lambda>m1.
     int_rpc E (rpc_cudnnsettensornddescriptorex_1_svc E 5015 fd tensorDesc fmt dataType nbDims m1))"

text \<open>
  Descriptors of any dimension come as one block, which is read at fixed offsets; a type or count is
  the one byte at its offset. The arrays of the application are the blocks behind them; nothing is
  stored, and the code returned all the same, when the block has not the expected length.
\<close>

definition cudnnGetTensorNdDescriptor ::
  "'d env \<Rightarrow> int \<Rightarrow> u64 \<Rightarrow> u32 \<Rightarrow> u8 list \<Rightarrow> u8 list \<Rightarrow> bool \<Rightarrow>
   ('d, u32 \<times> (u32 \<times> u32 \<times> u8 list \<times> u8 list) option) client_fn" where
  "cudnnGetTensorNdDescriptor E fd tensorDesc nbDimsRequested dimA strideA some_null =
     (let expected_size = scast nbDimsRequested * 4 * 2 + 4 + 4 :: u64 in
      if some_null then ret_c (CUDNN_STATUS_BAD_PARAM, None)
      else bind_c (mem_rpc E (malloc_bytes E (unat expected_size))
          (rpc_cudnngettensornddescriptor_1_svc E fd tensorDesc nbDimsRequested)) (\<lambda>(err, sz, m).
        if err \<noteq> 0 \<or> ucast sz \<noteq> expected_size then ret_c (err, None)
        else bind_c (lift_c (byte_at m 0)) (\<lambda>dataType.
        bind_c (lift_c (byte_at m 4)) (\<lambda>nbDims.
        let n = unat (scast nbDims * 4 :: u64) in
        bind_c (lift_c (copy_out m 8 n dimA)) (\<lambda>dimA.
        bind_c (lift_c (copy_out m (8 + n) n strideA)) (\<lambda>strideA.
          ret_c (err, Some (dataType, nbDims, dimA, strideA))))))))"

definition cudnnGetTensorSizeInBytes :: "'d env \<Rightarrow> int \<Rightarrow> u64 \<Rightarrow> bool \<Rightarrow> ('d, u32 \<times> cval list) client_fn"
  where
  "cudnnGetTensorSizeInBytes E fd tensorDesc size_null =
     (if size_null then ret_c (CUDNN_STATUS_BAD_PARAM, [])
      else word64_rpc E (rpc_cudnngettensorsizeinbytes_1_svc E fd tensorDesc))"

definition cudnnDestroyTensorDescriptor :: "'d env \<Rightarrow> int \<Rightarrow> u64 \<Rightarrow> ('d, u32) client_fn" where
  "cudnnDestroyTensorDescriptor E fd tensorDesc =
     int_rpc E (rpc_cudnndestroytensordescriptor_1_svc E 5018 fd tensorDesc)"

definition cudnnTransformTensor :: "'d env \<Rightarrow> int \<Rightarrow> u64 \<Rightarrow> u8 list \<Rightarrow> u64 \<Rightarrow> u64 \<Rightarrow> u8 list \<Rightarrow> u64 \<Rightarrow> u64 \<Rightarrow> ('d,
  u32) client_fn" where
  "cudnnTransformTensor E fd hnd alpha xDesc x beta yDesc y =
     send_scaling alpha (\<lambda>m1.
     send_scaling beta (\<lambda>m2.
     int_rpc E (rpc_cudnntransformtensor_1_svc E 5024 fd hnd m1 xDesc x m2 yDesc y)))"

definition cudnnAddTensor :: "'d env \<Rightarrow> int \<Rightarrow> u64 \<Rightarrow> u8 list \<Rightarrow> u64 \<Rightarrow> u64 \<Rightarrow> u8 list \<Rightarrow> u64 \<Rightarrow> u64 \<Rightarrow> ('d, u32)
  client_fn" where
  "cudnnAddTensor E fd hnd alpha aDesc A beta cDesc C =
     send_scaling alpha (\<lambda>m1.
     send_scaling beta (\<lambda>m2.
     int_rpc E (rpc_cudnnaddtensor_1_svc E 5026 fd hnd m1 aDesc A m2 cDesc C)))"

definition cudnnCreateFilterDescriptor :: "'d env \<Rightarrow> int \<Rightarrow> bool \<Rightarrow> ('d, u32 \<times> cval list) client_fn" where
  "cudnnCreateFilterDescriptor E fd filterDesc_null =
     (if filterDesc_null then ret_c (CUDNN_STATUS_BAD_PARAM, [])
      else word64_rpc E (rpc_cudnncreatefilterdescriptor_1_svc E 5041 fd))"

definition cudnnSetFilter4dDescriptor :: "'d env \<Rightarrow> int \<Rightarrow> u64 \<Rightarrow> u32 \<Rightarrow> u32 \<Rightarrow> u32 \<Rightarrow> u32 \<Rightarrow> u32 \<Rightarrow> u32 \<Rightarrow> ('d,
  u32) client_fn" where
  "cudnnSetFilter4dDescriptor E fd filterDesc dataType fmt k c h w =
     int_rpc E (rpc_cudnnsetfilter4ddescriptor_1_svc E 5042 fd filterDesc dataType fmt k c h w)"

definition cudnnGetFilter4dDescriptor :: "'d env \<Rightarrow> int \<Rightarrow> u64 \<Rightarrow> bool \<Rightarrow> ('d, u32 \<times> cval list) client_fn"
  where
  "cudnnGetFilter4dDescriptor E fd filterDesc some_null =
     (if some_null then ret_c (CUDNN_STATUS_BAD_PARAM, [])
      else value_rpc E (replicate 6 (Int32 (unset32 E))) (rpc_cudnngetfilter4ddescriptor_1_svc E fd
         filterDesc))"

definition cudnnSetFilterNdDescriptor :: "'d env \<Rightarrow> int \<Rightarrow> u64 \<Rightarrow> u32 \<Rightarrow> u32 \<Rightarrow> u32 \<Rightarrow> u8 list \<Rightarrow> ('d, u32)
  client_fn" where
  "cudnnSetFilterNdDescriptor E fd filterDesc dataType fmt nbDims filterDimA =
     send_block E filterDimA (nbDims * 4) (\<lambda>m1.
     int_rpc E (rpc_cudnnsetfilternddescriptor_1_svc E 5044 fd filterDesc dataType fmt nbDims m1))"

definition cudnnGetFilterNdDescriptor ::
  "'d env \<Rightarrow> int \<Rightarrow> u64 \<Rightarrow> u32 \<Rightarrow> u8 list \<Rightarrow> bool \<Rightarrow> ('d, u32 \<times> (u32 \<times> u32 \<times> u32 \<times> u8 list) option) client_fn" where
  "cudnnGetFilterNdDescriptor E fd filterDesc nbDimsRequested filterDimA some_null =
     (let expected_size = scast nbDimsRequested * 4 + 4 + 4 + 4 :: u64 in
      if some_null then ret_c (CUDNN_STATUS_BAD_PARAM, None)
      else bind_c (mem_rpc E (malloc_bytes E (unat expected_size))
          (rpc_cudnngetfilternddescriptor_1_svc E fd filterDesc nbDimsRequested)) (\<lambda>(err, sz, m).
        if err \<noteq> 0 \<or> ucast sz < expected_size then ret_c (err, None)
        else bind_c (lift_c (byte_at m 0)) (\<lambda>dataType.
        bind_c (lift_c (byte_at m 4)) (\<lambda>fmt.
        bind_c (lift_c (byte_at m 8)) (\<lambda>nbDims.
        bind_c (lift_c (copy_out m 12 (unat (scast nbDims * 4 :: u64)) filterDimA)) (\<lambda>filterDimA.
          ret_c (err, Some (dataType, fmt, nbDims, filterDimA))))))))"

definition cudnnGetFilterSizeInBytes :: "'d env \<Rightarrow> int \<Rightarrow> u64 \<Rightarrow> bool \<Rightarrow> ('d, u32 \<times> cval list) client_fn"
  where
  "cudnnGetFilterSizeInBytes E fd filterDesc size_null =
     (if size_null then ret_c (CUDNN_STATUS_BAD_PARAM, [])
      else word64_rpc E (rpc_cudnngetfiltersizeinbytes_1_svc E fd filterDesc))"

definition cudnnTransformFilter :: "'d env \<Rightarrow> int \<Rightarrow> u64 \<Rightarrow> u64 \<Rightarrow> u8 list \<Rightarrow> u64 \<Rightarrow> u64 \<Rightarrow> u8 list \<Rightarrow> u64 \<Rightarrow> u64 \<Rightarrow>
  ('d, u32) client_fn" where
  "cudnnTransformFilter E fd hnd transDesc alpha srcDesc srcData beta destDesc destData =
     send_scaling alpha (\<lambda>m1.
     send_scaling beta (\<lambda>m2.
     int_rpc E (rpc_cudnntransformfilter_1_svc E 5047 fd hnd transDesc m1 srcDesc srcData m2 destDesc
        destData)))"

definition cudnnDestroyFilterDescriptor :: "'d env \<Rightarrow> int \<Rightarrow> u64 \<Rightarrow> ('d, u32) client_fn" where
  "cudnnDestroyFilterDescriptor E fd filterDesc =
     int_rpc E (rpc_cudnndestroyfilterdescriptor_1_svc E 5048 fd filterDesc)"

definition cudnnSoftmaxForward :: "'d env \<Rightarrow> int \<Rightarrow> u64 \<Rightarrow> u32 \<Rightarrow> u32 \<Rightarrow> u8 list \<Rightarrow> u64 \<Rightarrow> u64 \<Rightarrow> u8 list \<Rightarrow> u64 \<Rightarrow>
  u64 \<Rightarrow> ('d, u32) client_fn" where
  "cudnnSoftmaxForward E fd hnd algo mode alpha xDesc x beta yDesc y =
     send_scaling alpha (\<lambda>m1.
     send_scaling beta (\<lambda>m2.
     int_rpc E (rpc_cudnnsoftmaxforward_1_svc E 5049 fd hnd algo mode m1 xDesc x m2 yDesc y)))"

definition cudnnCreatePoolingDescriptor :: "'d env \<Rightarrow> int \<Rightarrow> bool \<Rightarrow> ('d, u32 \<times> cval list) client_fn" where
  "cudnnCreatePoolingDescriptor E fd poolingDesc_null =
     (if poolingDesc_null then ret_c (CUDNN_STATUS_BAD_PARAM, [])
      else word64_rpc E (rpc_cudnncreatepoolingdescriptor_1_svc E 5050 fd))"

definition cudnnSetPooling2dDescriptor :: "'d env \<Rightarrow> int \<Rightarrow> u64 \<Rightarrow> u32 \<Rightarrow> u32 \<Rightarrow> u32 \<Rightarrow> u32 \<Rightarrow> u32 \<Rightarrow> u32 \<Rightarrow> u32 \<Rightarrow>
  u32 \<Rightarrow> ('d, u32) client_fn" where
  "cudnnSetPooling2dDescriptor E fd poolingDesc mode maxpoolingNanOpt windowHeight windowWidth
      verticalPadding horizontalPadding verticalStride horizontalStride =
     int_rpc E (rpc_cudnnsetpooling2ddescriptor_1_svc E 5051 fd poolingDesc mode maxpoolingNanOpt
        windowHeight windowWidth verticalPadding horizontalPadding verticalStride horizontalStride)"

definition cudnnGetPooling2dDescriptor :: "'d env \<Rightarrow> int \<Rightarrow> u64 \<Rightarrow> bool \<Rightarrow> ('d, u32 \<times> cval list) client_fn"
  where
  "cudnnGetPooling2dDescriptor E fd poolingDesc some_null =
     (if some_null then ret_c (CUDNN_STATUS_BAD_PARAM, [])
      else value_rpc E (replicate 8 (Int32 (unset32 E))) (rpc_cudnngetpooling2ddescriptor_1_svc E fd
         poolingDesc))"

definition cudnnSetPoolingNdDescriptor :: "'d env \<Rightarrow> int \<Rightarrow> u64 \<Rightarrow> u32 \<Rightarrow> u32 \<Rightarrow> u32 \<Rightarrow> u8 list \<Rightarrow> u8 list \<Rightarrow> u8
  list \<Rightarrow> ('d, u32) client_fn" where
  "cudnnSetPoolingNdDescriptor E fd poolingDesc mode maxpoolingNanOpt nbDims windowDimA paddingA strideA =
     send_block E windowDimA (nbDims * 4) (\<lambda>m1.
     send_block E paddingA (nbDims * 4) (\<lambda>m2.
     send_block E strideA (nbDims * 4) (\<lambda>m3.
     int_rpc E (rpc_cudnnsetpoolingnddescriptor_1_svc E 5053 fd poolingDesc mode maxpoolingNanOpt nbDims
        m1 m2 m3))))"

definition cudnnGetPoolingNdDescriptor ::
  "'d env \<Rightarrow> int \<Rightarrow> u64 \<Rightarrow> u32 \<Rightarrow> u8 list \<Rightarrow> u8 list \<Rightarrow> u8 list \<Rightarrow> bool \<Rightarrow>
   ('d, u32 \<times> (u32 \<times> u32 \<times> u32 \<times> u8 list \<times> u8 list \<times> u8 list) option) client_fn" where
  "cudnnGetPoolingNdDescriptor E fd poolingDesc nbDimsRequested windowDimA paddingA strideA some_null =
     (let expected_size = scast nbDimsRequested * 4 * 3 + 4 + 4 + 4 :: u64 in
      if some_null then ret_c (CUDNN_STATUS_BAD_PARAM, None)
      else bind_c (mem_rpc E (malloc_bytes E (unat expected_size))
          (rpc_cudnngetpoolingnddescriptor_1_svc E fd poolingDesc nbDimsRequested)) (\<lambda>(err, sz, m).
        if err \<noteq> 0 \<or> ucast sz \<noteq> expected_size then ret_c (err, None)
        else bind_c (lift_c (byte_at m 0)) (\<lambda>mode.
        bind_c (lift_c (byte_at m 4)) (\<lambda>maxpoolingNanOpt.
        bind_c (lift_c (byte_at m 8)) (\<lambda>nbDims.
        let n = unat (scast nbDims * 4 :: u64) in
        bind_c (lift_c (copy_out m 12 n windowDimA)) (\<lambda>windowDimA.
        bind_c (lift_c (copy_out m (12 + n) n paddingA)) (\<lambda>paddingA.
        bind_c (lift_c (copy_out m (12 + n + n) n strideA)) (\<lambda>strideA.
          ret_c (err, Some (mode, maxpoolingNanOpt, nbDims, windowDimA, paddingA, strideA))))))))))"

text \<open>The block is decoded to the array of the application; its length is only reported.\<close>

definition cudnnGetPoolingNdForwardOutputDim ::
  "'d env \<Rightarrow> int \<Rightarrow> u64 \<Rightarrow> u64 \<Rightarrow> u32 \<Rightarrow> u8 list option \<Rightarrow> ('d, u32 \<times> u8 list option) client_fn" where
  "cudnnGetPoolingNdForwardOutputDim E fd poolingDesc inputTensorDesc nbDims outputTensorDimA =
     (if outputTensorDimA = None then ret_c (CUDNN_STATUS_BAD_PARAM, None)
      else bind_c (mem_rpc E outputTensorDimA
          (rpc_cudnngetpoolingndforwardoutputdim_1_svc E fd poolingDesc inputTensorDesc nbDims)) (\<lambda>(err, _, m).
        ret_c (err, m)))"

definition cudnnGetPooling2dForwardOutputDim :: "'d env \<Rightarrow> int \<Rightarrow> u64 \<Rightarrow> u64 \<Rightarrow> bool \<Rightarrow> ('d, u32 \<times> cval list)
  client_fn" where
  "cudnnGetPooling2dForwardOutputDim E fd poolingDesc inputTensorDesc some_null =
     (if some_null then ret_c (CUDNN_STATUS_BAD_PARAM, [])
      else value_rpc E (replicate 4 (Int32 (unset32 E))) (rpc_cudnngetpooling2dforwardoutputdim_1_svc E fd
         poolingDesc inputTensorDesc))"

definition cudnnDestroyPoolingDescriptor :: "'d env \<Rightarrow> int \<Rightarrow> u64 \<Rightarrow> ('d, u32) client_fn" where
  "cudnnDestroyPoolingDescriptor E fd poolingDesc =
     int_rpc E (rpc_cudnndestroypoolingdescriptor_1_svc E 5057 fd poolingDesc)"

definition cudnnPoolingForward :: "'d env \<Rightarrow> int \<Rightarrow> u64 \<Rightarrow> u64 \<Rightarrow> u8 list \<Rightarrow> u64 \<Rightarrow> u64 \<Rightarrow> u8 list \<Rightarrow> u64 \<Rightarrow> u64 \<Rightarrow>
  ('d, u32) client_fn" where
  "cudnnPoolingForward E fd hnd poolingDesc alpha xDesc x beta yDesc y =
     send_scaling alpha (\<lambda>m1.
     send_scaling beta (\<lambda>m2.
     int_rpc E (rpc_cudnnpoolingforward_1_svc E 5058 fd hnd poolingDesc m1 xDesc x m2 yDesc y)))"

definition cudnnCreateActivationDescriptor :: "'d env \<Rightarrow> int \<Rightarrow> bool \<Rightarrow> ('d, u32 \<times> cval list) client_fn"
  where
  "cudnnCreateActivationDescriptor E fd activationDesc_null =
     (if activationDesc_null then ret_c (CUDNN_STATUS_BAD_PARAM, [])
      else word64_rpc E (rpc_cudnncreateactivationdescriptor_1_svc E 5059 fd))"

definition cudnnSetActivationDescriptor :: "'d env \<Rightarrow> int \<Rightarrow> u64 \<Rightarrow> u32 \<Rightarrow> u32 \<Rightarrow> u64 \<Rightarrow> ('d, u32) client_fn"
  where
  "cudnnSetActivationDescriptor E fd activationDesc mode reluNanOpt coef =
     int_rpc E (rpc_cudnnsetactivationdescriptor_1_svc E 5060 fd activationDesc mode reluNanOpt coef)"

definition cudnnGetActivationDescriptor :: "'d env \<Rightarrow> int \<Rightarrow> u64 \<Rightarrow> bool \<Rightarrow> ('d, u32 \<times> cval list) client_fn"
  where
  "cudnnGetActivationDescriptor E fd activationDesc some_null =
     (if some_null then ret_c (CUDNN_STATUS_BAD_PARAM, [])
      else value_rpc E [Int32 (unset32 E), Int32 (unset32 E), Word64 (fresh_word E)]
         (rpc_cudnngetactivationdescriptor_1_svc E fd activationDesc))"

definition cudnnSetActivationDescriptorSwishBeta :: "'d env \<Rightarrow> int \<Rightarrow> u64 \<Rightarrow> u64 \<Rightarrow> ('d, u32) client_fn" where
  "cudnnSetActivationDescriptorSwishBeta E fd activationDesc swish_beta =
     int_rpc E (rpc_cudnnsetactivationdescriptorswishbeta_1_svc E 5062 fd activationDesc swish_beta)"

definition cudnnGetActivationDescriptorSwishBeta :: "'d env \<Rightarrow> int \<Rightarrow> u64 \<Rightarrow> bool \<Rightarrow> ('d, u32 \<times> cval list)
  client_fn" where
  "cudnnGetActivationDescriptorSwishBeta E fd activationDesc swish_beta_null =
     (if swish_beta_null then ret_c (CUDNN_STATUS_BAD_PARAM, [])
      else word64_rpc E (rpc_cudnngetactivationdescriptorswishbeta_1_svc E fd activationDesc))"

definition cudnnDestroyActivationDescriptor :: "'d env \<Rightarrow> int \<Rightarrow> u64 \<Rightarrow> ('d, u32) client_fn" where
  "cudnnDestroyActivationDescriptor E fd activationDesc =
     int_rpc E (rpc_cudnndestroyactivationdescriptor_1_svc E 5064 fd activationDesc)"

definition cudnnActivationForward :: "'d env \<Rightarrow> int \<Rightarrow> u64 \<Rightarrow> u64 \<Rightarrow> u8 list \<Rightarrow> u64 \<Rightarrow> u64 \<Rightarrow> u8 list \<Rightarrow> u64 \<Rightarrow> u64
  \<Rightarrow> ('d, u32) client_fn" where
  "cudnnActivationForward E fd hnd activationDesc alpha xDesc x beta yDesc y =
     send_scaling alpha (\<lambda>m1.
     send_scaling beta (\<lambda>m2.
     int_rpc E (rpc_cudnnactivationforward_1_svc E 5065 fd hnd activationDesc m1 xDesc x m2 yDesc y)))"

definition cudnnCreateLRNDescriptor :: "'d env \<Rightarrow> int \<Rightarrow> bool \<Rightarrow> ('d, u32 \<times> cval list) client_fn" where
  "cudnnCreateLRNDescriptor E fd normDesc_null =
     (if normDesc_null then ret_c (CUDNN_STATUS_BAD_PARAM, [])
      else word64_rpc E (rpc_cudnncreatelrndescriptor_1_svc E 5066 fd))"

definition cudnnSetLRNDescriptor :: "'d env \<Rightarrow> int \<Rightarrow> u64 \<Rightarrow> u32 \<Rightarrow> u64 \<Rightarrow> u64 \<Rightarrow> u64 \<Rightarrow> ('d, u32) client_fn"
  where
  "cudnnSetLRNDescriptor E fd normDesc lrnN lrnAlpha lrnBeta lrnK =
     int_rpc E (rpc_cudnnsetlrndescriptor_1_svc E 5067 fd normDesc lrnN lrnAlpha lrnBeta lrnK)"

definition cudnnGetLRNDescriptor :: "'d env \<Rightarrow> int \<Rightarrow> u64 \<Rightarrow> bool \<Rightarrow> ('d, u32 \<times> cval list) client_fn" where
  "cudnnGetLRNDescriptor E fd normDesc some_null =
     (if some_null then ret_c (CUDNN_STATUS_BAD_PARAM, [])
      else value_rpc E [Int32 (unset32 E), Word64 (fresh_word E), Word64 (fresh_word E), Word64
         (fresh_word E)] (rpc_cudnngetlrndescriptor_1_svc E fd normDesc))"

definition cudnnDestroyLRNDescriptor :: "'d env \<Rightarrow> int \<Rightarrow> u64 \<Rightarrow> ('d, u32) client_fn" where
  "cudnnDestroyLRNDescriptor E fd lrnDesc =
     int_rpc E (rpc_cudnndestroylrndescriptor_1_svc E 5069 fd lrnDesc)"

definition cudnnLRNCrossChannelForward :: "'d env \<Rightarrow> int \<Rightarrow> u64 \<Rightarrow> u64 \<Rightarrow> u32 \<Rightarrow> u8 list \<Rightarrow> u64 \<Rightarrow> u64 \<Rightarrow> u8 list
  \<Rightarrow> u64 \<Rightarrow> u64 \<Rightarrow> ('d, u32) client_fn" where
  "cudnnLRNCrossChannelForward E fd hnd normDesc lrnMode alpha xDesc x beta yDesc y =
     send_scaling alpha (\<lambda>m1.
     send_scaling beta (\<lambda>m2.
     int_rpc E (rpc_cudnnlrncrosschannelforward_1_svc E 5070 fd hnd normDesc lrnMode m1 xDesc x m2 yDesc
        y)))"

definition cudnnCreateConvolutionDescriptor :: "'d env \<Rightarrow> int \<Rightarrow> bool \<Rightarrow> ('d, u32 \<times> cval list) client_fn"
  where
  "cudnnCreateConvolutionDescriptor E fd convDesc_null =
     (if convDesc_null then ret_c (CUDNN_STATUS_BAD_PARAM, [])
      else word64_rpc E (rpc_cudnncreateconvolutiondescriptor_1_svc E 5301 fd))"

definition cudnnDestroyConvolutionDescriptor :: "'d env \<Rightarrow> int \<Rightarrow> u64 \<Rightarrow> ('d, u32) client_fn" where
  "cudnnDestroyConvolutionDescriptor E fd convDesc =
     int_rpc E (rpc_cudnndestroyconvolutiondescriptor_1_svc E 5302 fd convDesc)"

definition cudnnSetConvolutionMathType :: "'d env \<Rightarrow> int \<Rightarrow> u64 \<Rightarrow> u32 \<Rightarrow> ('d, u32) client_fn" where
  "cudnnSetConvolutionMathType E fd convDesc mathType =
     int_rpc E (rpc_cudnnsetconvolutionmathtype_1_svc E 5317 fd convDesc mathType)"

definition cudnnSetConvolutionGroupCount :: "'d env \<Rightarrow> int \<Rightarrow> u64 \<Rightarrow> u32 \<Rightarrow> ('d, u32) client_fn" where
  "cudnnSetConvolutionGroupCount E fd convDesc groupCount =
     int_rpc E (rpc_cudnnsetconvolutiongroupcount_1_svc E 5316 fd convDesc groupCount)"

definition cudnnSetConvolutionNdDescriptor :: "'d env \<Rightarrow> int \<Rightarrow> u64 \<Rightarrow> u32 \<Rightarrow> u8 list \<Rightarrow> u8 list \<Rightarrow> u8 list \<Rightarrow>
  u32 \<Rightarrow> u32 \<Rightarrow> ('d, u32) client_fn" where
  "cudnnSetConvolutionNdDescriptor E fd convDesc arrayLength padA filterStrideA dilationA mode computeType
      =
     send_block E padA (arrayLength * 4) (\<lambda>m1.
     send_block E filterStrideA (arrayLength * 4) (\<lambda>m2.
     send_block E dilationA (arrayLength * 4) (\<lambda>m3.
     int_rpc E (rpc_cudnnsetconvolutionnddescriptor_1_svc E 5304 fd convDesc arrayLength m1 m2 m3 mode
        computeType))))"

definition cudnnGetConvolutionNdForwardOutputDim ::
  "'d env \<Rightarrow> int \<Rightarrow> u64 \<Rightarrow> u64 \<Rightarrow> u64 \<Rightarrow> u32 \<Rightarrow> u8 list option \<Rightarrow> ('d, u32 \<times> u8 list option) client_fn" where
  "cudnnGetConvolutionNdForwardOutputDim E fd convDesc inputTensorDesc filterDesc nbDims tensorOutputDimA =
     (if tensorOutputDimA = None then ret_c (CUDNN_STATUS_BAD_PARAM, None)
      else bind_c (mem_rpc E tensorOutputDimA
          (rpc_cudnngetconvolutionndforwardoutputdim_1_svc E fd convDesc inputTensorDesc filterDesc nbDims))
        (\<lambda>(err, _, m). ret_c (err, m)))"

text \<open>
  The two functions that return algorithms share this part. The count is stored even if it is too
  large.
\<close>

definition CUDNN_STATUS_INTERNAL_ERROR :: u32 where "CUDNN_STATUS_INTERNAL_ERROR = 4"

definition algo_rpc ::
  "'d env \<Rightarrow> u32 \<Rightarrow> u8 list \<Rightarrow> bool \<Rightarrow> ('d, reply) handler \<Rightarrow> ('d, u32 \<times> (u32 \<times> u8 list) option) client_fn" where
  "algo_rpc E requestedAlgoCount perfResults some_null h =
     (let expected_size = scast requestedAlgoCount * sizeof_cudnnConvolutionFwdAlgoPerf_t + 4 in
      if some_null then ret_c (CUDNN_STATUS_BAD_PARAM, None)
      else bind_c (mem_rpc E (malloc_bytes E (unat expected_size)) h) (\<lambda>(err, sz, m).
        if err \<noteq> 0 \<or> ucast sz \<noteq> expected_size then ret_c (err, None)
        else bind_c (lift_c (words_at m 0 4)) (\<lambda>n.
        let returnedAlgoCount = of_nat n :: u32 in
        if sint returnedAlgoCount > sint requestedAlgoCount
        then ret_c (CUDNN_STATUS_INTERNAL_ERROR, Some (returnedAlgoCount, perfResults))
        else bind_c (lift_c (copy_out m 4
              (unat (scast returnedAlgoCount * sizeof_cudnnConvolutionFwdAlgoPerf_t)) perfResults)) (\<lambda>perfResults.
          ret_c (err, Some (returnedAlgoCount, perfResults))))))"

definition cudnnGetConvolutionForwardAlgorithm_v7 ::
  "'d env \<Rightarrow> int \<Rightarrow> u64 \<Rightarrow> u64 \<Rightarrow> u64 \<Rightarrow> u64 \<Rightarrow> u64 \<Rightarrow> u32 \<Rightarrow> u8 list \<Rightarrow> bool \<Rightarrow>
   ('d, u32 \<times> (u32 \<times> u8 list) option) client_fn" where
  "cudnnGetConvolutionForwardAlgorithm_v7 E fd hnd srcDesc filterDesc convDesc destDesc requestedAlgoCount perfResults some_null =
     algo_rpc E requestedAlgoCount perfResults some_null
       (rpc_cudnngetconvolutionforwardalgorithm_v7_1_svc E fd hnd srcDesc filterDesc convDesc destDesc requestedAlgoCount)"

definition cudnnFindConvolutionForwardAlgorithm ::
  "'d env \<Rightarrow> int \<Rightarrow> u64 \<Rightarrow> u64 \<Rightarrow> u64 \<Rightarrow> u64 \<Rightarrow> u64 \<Rightarrow> u32 \<Rightarrow> u8 list \<Rightarrow> bool \<Rightarrow>
   ('d, u32 \<times> (u32 \<times> u8 list) option) client_fn" where
  "cudnnFindConvolutionForwardAlgorithm E fd hnd xDesc wDesc convDesc yDesc requestedAlgoCount perfResults some_null =
     algo_rpc E requestedAlgoCount perfResults some_null
       (rpc_cudnnfindconvolutionforwardalgorithm_1_svc E fd hnd xDesc wDesc convDesc yDesc requestedAlgoCount)"

definition cudnnGetConvolutionForwardWorkspaceSize :: "'d env \<Rightarrow> int \<Rightarrow> u64 \<Rightarrow> u64 \<Rightarrow> u64 \<Rightarrow> u64 \<Rightarrow> u64 \<Rightarrow> u32 \<Rightarrow>
  bool \<Rightarrow> ('d, u32 \<times> cval list) client_fn" where
  "cudnnGetConvolutionForwardWorkspaceSize E fd hnd xDesc wDesc convDesc yDesc algo sizeInBytes_null =
     (if sizeInBytes_null then ret_c (CUDNN_STATUS_BAD_PARAM, [])
      else word64_rpc E (rpc_cudnngetconvolutionforwardworkspacesize_1_svc E fd hnd xDesc wDesc convDesc
         yDesc algo))"

definition cudnnConvolutionForward :: "'d env \<Rightarrow> int \<Rightarrow> u64 \<Rightarrow> u8 list \<Rightarrow> u64 \<Rightarrow> u64 \<Rightarrow> u64 \<Rightarrow> u64 \<Rightarrow> u64 \<Rightarrow> u32 \<Rightarrow>
  u64 \<Rightarrow> u64 \<Rightarrow> u8 list \<Rightarrow> u64 \<Rightarrow> u64 \<Rightarrow> ('d, u32) client_fn" where
  "cudnnConvolutionForward E fd hnd alpha xDesc x wDesc w convDesc algo workSpace workSpaceSizeInBytes
      beta yDesc y =
     send_scaling alpha (\<lambda>m1.
     send_scaling beta (\<lambda>m2.
     int_rpc E (rpc_cudnnconvolutionforward_1_svc E 5308 fd hnd m1 xDesc x wDesc w convDesc algo workSpace
        workSpaceSizeInBytes m2 yDesc y)))"

definition cudnnBackendCreateDescriptor :: "'d env \<Rightarrow> int \<Rightarrow> u32 \<Rightarrow> bool \<Rightarrow> ('d, u32 \<times> cval list) client_fn"
  where
  "cudnnBackendCreateDescriptor E fd descriptorType descriptor_null =
     (if descriptor_null then ret_c (CUDNN_STATUS_BAD_PARAM, [])
      else word64_rpc E (rpc_cudnnbackendcreatedescriptor_1_svc E 5309 fd descriptorType))"

definition cudnnBackendDestroyDescriptor :: "'d env \<Rightarrow> int \<Rightarrow> u64 \<Rightarrow> ('d, u32) client_fn" where
  "cudnnBackendDestroyDescriptor E fd descriptor =
     int_rpc E (rpc_cudnnbackenddestroydescriptor_1_svc E 5313 fd descriptor)"

definition cudnnBackendInitialize :: "'d env \<Rightarrow> int \<Rightarrow> u64 \<Rightarrow> ('d, u32) client_fn" where
  "cudnnBackendInitialize E fd descriptor =
     int_rpc E (rpc_cudnnbackendinitialize_1_svc E 5311 fd descriptor)"

definition cudnnBackendFinalize :: "'d env \<Rightarrow> int \<Rightarrow> u64 \<Rightarrow> ('d, u32) client_fn" where
  "cudnnBackendFinalize E fd descriptor =
     int_rpc E (rpc_cudnnbackendfinalize_1_svc E 5312 fd descriptor)"

text \<open>The table of sizes is the one of the server.\<close>

definition cudnnBackendSetAttribute ::
  "'d env \<Rightarrow> int \<Rightarrow> u64 \<Rightarrow> u32 \<Rightarrow> u32 \<Rightarrow> u64 \<Rightarrow> u8 list \<Rightarrow> ('d, u32) client_fn" where
  "cudnnBackendSetAttribute E fd descriptor attributeName attributeType elementCount arrayOfElements =
     (if attributeType > 19 then ret_c CUDNN_STATUS_BAD_PARAM
      else send_block E arrayOfElements
          (ucast (elementCount * of_nat (backendAttributeSizes ! unat attributeType))) (\<lambda>dat.
        int_rpc E (rpc_cudnnbackendsetattribute_1_svc E 5313 fd descriptor attributeName attributeType
          elementCount dat)))"

text \<open>
  The type is not checked here. The number of elements the library reports is the number that is
  copied. \<open>None\<close> is the pointer NULL for the array, \<open>count_null\<close> tells it for the count.
\<close>

definition CUDNN_STATUS_ALLOC_FAILED :: u32 where "CUDNN_STATUS_ALLOC_FAILED = 2"

definition cudnnBackendGetAttribute ::
  "'d env \<Rightarrow> int \<Rightarrow> u64 \<Rightarrow> u32 \<Rightarrow> u32 \<Rightarrow> u64 \<Rightarrow> bool \<Rightarrow> u8 list option \<Rightarrow>
   ('d, u32 \<times> u64 option \<times> u8 list option) client_fn" where
  "cudnnBackendGetAttribute E fd descriptor attributeName attributeType requestedElementCount count_null
      arrayOfElements =
     (if length backendAttributeSizes \<le> unat attributeType then lift_c (Inl Out_Of_Bounds)
      else let esz = of_nat (backendAttributeSizes ! unat attributeType);
               expected_size = requestedElementCount * esz + 8 :: u64 in
      if malloc_bytes E (unat expected_size) = None then ret_c (CUDNN_STATUS_ALLOC_FAILED, None, arrayOfElements)
      else bind_c (mem_rpc E (malloc_bytes E (unat expected_size))
          (rpc_cudnnbackendgetattribute_1_svc E fd descriptor attributeName attributeType requestedElementCount))
        (\<lambda>(err, sz, m).
        if err \<noteq> 0 \<or> ucast sz \<noteq> expected_size
        then ret_c (err, if count_null then None else Some 0, arrayOfElements)
        else case arrayOfElements of
            None \<Rightarrow> if count_null then ret_c (err, None, None)
                    else bind_c (lift_c (words_at m 0 8)) (\<lambda>n. ret_c (err, Some (of_nat n), None))
          | Some a \<Rightarrow>
              if count_null then lift_c (Inl Null_Deref)
              else bind_c (lift_c (words_at m 0 8)) (\<lambda>n.
                   bind_c (lift_c (copy_out m 8 (unat (of_nat n * esz :: u64)) a)) (\<lambda>a.
                     ret_c (err, Some (of_nat n), Some a)))))"

definition cudnnBackendExecute :: "'d env \<Rightarrow> int \<Rightarrow> u64 \<Rightarrow> u64 \<Rightarrow> u64 \<Rightarrow> ('d, u32) client_fn" where
  "cudnnBackendExecute E fd hnd executionPlan variantPack =
     int_rpc E (rpc_cudnnbackendexecute_1_svc E 5315 fd hnd executionPlan variantPack)"


end
