(* ===== verification/ClientLibProps.thy ===== *)
theory ClientLibProps
  imports TextParser ClientDnn ClientDriver CudnnProps ClientRuns
begin

text \<open>
  Properties of the client library beyond the runtime API: loading a module, and the descriptors of
  cuDNN that are read back.
\<close>

section \<open>Loading a module\<close>

text \<open>C36: Loading a module from a file fails because its kernels have been read: when the lines \<open>cuobjdump\<close> has printed
  for the kernels of the file are in the formats the source accepts and all of them have been read into the table, which
  has the kernels with the parameters the text gives, the client returns "file not
  found" and sends no request. (The function that reads them returns 1 for success, and the caller
  takes everything but 0 for a failure.)
\<close>

theorem module_load_inverted:
  assumes "heap_params E" and "alloc_bounded (heap_ok E)" and "white w"
    and "\<forall>k \<in> set ks. \<forall>it \<in> set (snd k). item_ok it" and "list_rep (kernel_infos c) xs"
    and "stat_link sys (snd path) = Some False" and "snd path \<noteq> ''/proc/self/exe''"
    and "run_child sys [''/usr/local/cuda/bin/cuobjdump'', ''--dump-elf'', snd path] = Some (concat (map (kernel_text w) ks), 0)"
    and "stream_opens sys" and "\<not> stream_error sys"
    and "kernels_loop E (concat (map (kernel_text w) ks)) (kernel_infos c) = Inr (True, l)"
  shows "cuModuleLoad E sys fd module_null (Some path) c = Inr ((CUDA_ERROR_FILE_NOT_FOUND, []), c\<lparr>kernel_infos := l\<rparr>)
    \<and> list_rep l (xs @ map (text_kernel E) ks)"
proof
  have "cpu_utils_parameter_info E sys (kernel_infos c) (Some (snd path)) = Inr (1, l)"
    using assms(6-11) by (simp add: cpu_utils_parameter_info_def Let_def)
  then show "cuModuleLoad E sys fd module_null (Some path) c = Inr ((CUDA_ERROR_FILE_NOT_FOUND, []), c\<lparr>kernel_infos := l\<rparr>)"
    by (simp add: cuModuleLoad_def bind_c_def get_c_def lift_c_def set_c_def ret_c_def)
  show "list_rep l (xs @ map (text_kernel E) ks)"
    by (rule kernels_loop_file [OF assms(1,3,2,4,5,11)])
qed

definition one_kernel_file :: "string list" where
  "one_kernel_file = kernel_text ('' '', '' '') (''k'', sample_items)"

definition dump_system :: system where
  "dump_system = \<lparr>stat_link = \<lambda>_. Some False, self_exe = ''/bin/app'', run_child = \<lambda>_. Some (one_kernel_file, 0),
     stream_opens = True, stream_error = False\<rparr>"

lemma roomy_params: "heap_params roomy_env" "alloc_bounded (heap_ok roomy_env)"
  by (simp_all add: heap_params_def roomy_env_def glibc_def alloc_bounded_def)

lemma one_kernel_read:
  "kernels_loop roomy_env one_kernel_file (kernel_infos (client_on sample_server)) =
     Inr (True, \<lparr>elements = Buf [Some (text_kernel roomy_env (''k'', sample_items)), None, None, None], len = 1, capacity = 4, element_size = 48\<rparr>)"
proof -
  let ?its = "concat (map (item_lines ('' '', '' '')) sample_items)"
  have "cpu_utils_read_pars roomy_env k (?its @ kernel_end @ []) =
      Inr (0, fold apply_fact (concat (map item_facts sample_items)) (k\<lparr>param_num := 0, param_offsets := [], param_sizes := []\<rparr>), [])" for k
    using read_items [OF roomy_params(1) sample_white _ sample_items_ok, of "k\<lparr>param_num := 0, param_offsets := [], param_sizes := []\<rparr>" ATTR_T_LAST "[]"]
    by (simp add: cpu_utils_read_pars_def arrays_ok_def)
  moreover have "replicate 4 (None :: kernel_info option) = [None, None, None, None]"
    by (simp add: eval_nat_numeral)
  ultimately show ?thesis
    by (simp add: one_kernel_file_def kernel_text_def nv_info_prefix_def kernels_loop.simps list_append_def client_on_def
        set_elem_def list_get_def text_kernel_def Let_def roomy_env_def glibc_def wrap64_def)
qed

theorem module_load_inverted_witness:
  "\<exists>l. cuModuleLoad roomy_env dump_system 7 False (Some (8, ''k.cubin'')) (client_on sample_server) =
      Inr ((CUDA_ERROR_FILE_NOT_FOUND, []), (client_on sample_server)\<lparr>kernel_infos := l\<rparr>)
    \<and> list_rep l [text_kernel roomy_env (''k'', sample_items)]"
  using module_load_inverted [OF roomy_params sample_white, of "[(''k'', sample_items)]" "client_on sample_server" "[]" dump_system
      "(8, ''k.cubin'')" _ 7 False] one_kernel_read sample_items_ok
  by (auto simp: dump_system_def one_kernel_file_def client_on_def list_rep_def list_wf_def list_abs_def)

section \<open>Descriptors\<close>

text \<open>A handler whose reply is a code and a block of \<open>n\<close> bytes.\<close>

definition replies_block :: "('d, reply) handler \<Rightarrow> nat \<Rightarrow> bool" where
  "replies_block h n \<longleftrightarrow> (\<forall>s vs s'. h s = Inr (Reply vs, s') \<longrightarrow> (\<exists>e bs. vs = [Int32 e, Bytes bs] \<and> length bs = n))"

lemma mem_rpc_size:
  assumes "replies_block h n" and "mem_rpc E buf h c = Inr ((err, sz, m), c')" and "err = 0"
  shows "sz = of_nat n \<or> sz = 0"
proof -
  obtain st r c1 where rpc: "rpc h c = Inr ((st, r), c1)"
    and res: "(case r of Some (Int32 e # Bytes bs # _) \<Rightarrow>
           if e \<noteq> 0 then ret_c (e, unset32 E, buf)
           else (case buf of
               None \<Rightarrow> ret_c (e, of_nat (length bs), Some bs)
             | Some b \<Rightarrow> if length b < length bs then lift_c (Inl Out_Of_Bounds)
                         else ret_c (e, of_nat (length bs), Some (bs @ drop (length bs) b)))
       | _ \<Rightarrow> ret_c (err_of (unset32 E) r, unset32 E, buf)) c1 = Inr ((err, sz, m), c')"
    using assms(2) by (auto simp: mem_rpc_def bind_c_Inr_iff)
  have "r = None \<or> (\<exists>e bs. r = Some [Int32 e, Bytes bs] \<and> length bs = n)"
    using rpc_reply [OF rpc] assms(1) unfolding replies_block_def by blast
  then show ?thesis
    using res assms(3) by (auto simp: ret_c_def lift_c_def err_of_def split: if_split_asm option.split_asm)
qed

lemma replies_reply_buffer:
  assumes "\<And>buf s vs s'. body buf s = Inr (Reply vs, s') \<Longrightarrow> \<exists>e. vs = [Int32 e, Bytes buf]"
  shows "replies_block (reply_buffer E n body) (unat n)"
  using assms by (fastforce simp: replies_block_def reply_buffer_def bind_h_def ret_h_def split: if_split_asm)

lemma unat_ucast_small: "k < 2 ^ 32 \<Longrightarrow> unat (ucast (of_nat k :: u64) :: u32) = k"
  by (simp add: unsigned_ucast_eq unsigned_of_nat take_bit_nat_eq_self)

lemma of_nat_u64_inj: "i < 2 ^ 64 \<Longrightarrow> j < 2 ^ 64 \<Longrightarrow> (of_nat i :: u64) = of_nat j \<longleftrightarrow> i = j"
  by (auto dest!: arg_cong [of _ _ unat] simp: unsigned_of_nat take_bit_nat_eq_self)

text \<open>C25: The description of a pooling operation never reaches the application: whatever the number of
  dimensions, the server and the network do, a call that reports success stores none of the results.
  (The server's buffer has room for one number less than the client expects, so that the lengths
  never agree, and a wrong length is not an error.)
\<close>

theorem pooling_descriptor_lost:
  assumes "n < 2 ^ 28"
    and "cudnnGetPoolingNdDescriptor E fd poolingDesc (of_nat n) windowDimA paddingA strideA some_null c = Inr ((err, stored), c')"
  shows "stored = None"
proof (rule ccontr)
  assume stored: "stored \<noteq> None"
  let ?h = "rpc_cudnngetpoolingnddescriptor_1_svc E fd poolingDesc (of_nat n)"
  have n: "(scast (of_nat n :: u32) :: u64) = of_nat n" by (rule scast_small) (use assms(1) in simp)
  obtain e sz m c1 where call: "mem_rpc E (malloc_bytes E (unat (of_nat n * 4 * 3 + 4 + 4 + 4 :: u64))) ?h c = Inr ((e, sz, m), c1)"
    and ok: "e = 0" "ucast sz = (of_nat n * 4 * 3 + 4 + 4 + 4 :: u64)"
    using assms(2) stored
    by (auto simp: cudnnGetPoolingNdDescriptor_def Let_def n bind_c_Inr_iff ret_c_def split: if_split_asm)
  have "replies_block ?h (unat (ucast (8 + scast (of_nat n :: u32) * 4 * 3 :: u64) :: u32))"
    unfolding rpc_cudnngetpoolingnddescriptor_1_svc_def
    by (rule replies_reply_buffer) (auto simp: bind_h_Inr_iff ret_h_def)
  from mem_rpc_size [OF this call ok(1)] have "sz = ucast (8 + of_nat n * 4 * 3 :: u64) \<or> sz = 0" by (simp add: n)
  then have "(ucast sz :: u64) = of_nat (8 + 12 * n) \<or> (ucast sz :: u64) = 0"
  proof
    assume sz: "sz = ucast (8 + of_nat n * 4 * 3 :: u64)"
    have "(8 + of_nat n * 4 * 3 :: u64) = of_nat (8 + 12 * n)" by simp
    then have "unat sz = 8 + 12 * n" unfolding sz using assms(1) by (simp only:) (rule unat_ucast_small, simp)
    then show ?thesis by (metis of_nat_unat)
  qed simp
  moreover have "(of_nat n * 4 * 3 + 4 + 4 + 4 :: u64) = of_nat (12 + 12 * n)" by simp
  moreover have "(of_nat (12 + 12 * n) :: u64) \<noteq> of_nat (8 + 12 * n)" "(of_nat (12 + 12 * n) :: u64) \<noteq> 0"
    using assms(1) of_nat_u64_inj [of "12 + 12 * n" "8 + 12 * n"] of_nat_u64_inj [of "12 + 12 * n" 0] by simp_all
  ultimately show False using ok(2) by metis
qed

lemma pooling_call:
  "\<exists>s' bs. rpc_cudnngetpoolingnddescriptor_1_svc (answering []) 7 9 2 connected_server = Inr (Reply [Int32 0, Bytes bs], s')
    \<and> length bs = 32"
proof -
  have get: "resource_mg_get (rm_cudnn_poolings (cudnn connected_server)) 9 = Inr 9"
    by (simp add: connected_server_def set_sched_def server_on_def zero_cudnn_def zero_mg_def zero_list_def
        resource_mg_get_def resource_mg_search_map_def)
  show ?thesis
    by (simp add: rpc_cudnngetpoolingnddescriptor_1_svc_def reply_buffer_def answering_simps bind_h_def connected_retains
        lib_call_def handle_def get ret_h_def cuda_call_def gsched_none_release_def)
qed

theorem pooling_descriptor_lost_witness:
  "\<exists>c'. cudnnGetPoolingNdDescriptor (answering []) 7 9 2 [] [] [] False (client_on connected_server) = Inr ((0, None), c')"
proof -
  obtain s' bs where call: "rpc_cudnngetpoolingnddescriptor_1_svc (answering []) 7 9 2 connected_server = Inr (Reply [Int32 0, Bytes bs], s')"
    and len: "length bs = 32" using pooling_call by blast
  have "\<exists>stored c'. cudnnGetPoolingNdDescriptor (answering []) 7 9 2 [] [] [] False (client_on connected_server) = Inr ((0, stored), c')"
    using call len by (simp add: cudnnGetPoolingNdDescriptor_def Let_def mem_rpc_def bind_c_def rpc_def client_on_def ret_c_def
        malloc_bytes_def answering_simps)
  then obtain stored c' where
    "cudnnGetPoolingNdDescriptor (answering []) 7 9 2 [] [] [] False (client_on connected_server) = Inr ((0, stored), c')" by blast
  with pooling_descriptor_lost [of 2 "answering []" 7 9 "[]" "[]" "[]" False "client_on connected_server" 0 stored c']
  show ?thesis by simp
qed

end
