(* ===== verification/Libwrap.thy ===== *)
theory Libwrap
  imports ClientStart
begin

text \<open>
  The functions the client library does not forward (\<open>cpu/cpu-libwrap.c\<close>, \<open>cpu/cpu-libwrap.h\<close>): the macro
  \<open>DEF_FN\<close> defines a function that looks its own name up in a library and calls what it finds there, on
  the machine of the application. The names of parameters are left out. \<open>dlopen\<close> is the function of the
  client library; \<open>dlsym\<close> returns an address, with a result other than 0 if \<open>dlerror\<close> has a message.
\<close>

section \<open>The macro\<close>

datatype ctype = Named string | Ptr ctype | Const ctype

text \<open>
  An argument of an invocation: a type, a name, or what is neither because a comma is missing or
  there is one too many.
\<close>

datatype macro_arg = T ctype | N | Other string

type_synonym invocation = "ctype \<times> string \<times> macro_arg list"

record wrapper =
  w_ret :: ctype
  w_name :: string
  w_params :: "macro_arg list"

fun odd_places :: "'a list \<Rightarrow> 'a list" where
  "odd_places (x # y # xs) = x # odd_places xs"
| "odd_places xs = xs"

text \<open>
  The expansion is selected by the number of arguments: for \<open>2 + 2 * k\<close> it defines a function of \<open>k\<close>
  parameters, in between it is empty.
\<close>

definition DEF_FN :: "invocation \<Rightarrow> wrapper option" where
  "DEF_FN i =
     (case i of (ret, name, args) \<Rightarrow>
        if even (length args) then Some \<lparr>w_ret = ret, w_name = name, w_params = odd_places args\<rparr> else None)"

section \<open>A call\<close>

definition LIBCUDA_PATH :: string where
  "LIBCUDA_PATH = ''/usr/local/cuda/lib64/libcudart.so''"

text \<open>The handle is only stored if the library has been opened; the message of a failure is consumed.\<close>

record 'd library =
  proc :: "'d process"
  so_handle :: u64

definition on_proc :: "('d, 'a) process_fn \<Rightarrow> 'd library \<Rightarrow> ('a \<times> 'd library) res" where
  "on_proc m l = bind_r (m (proc l)) (\<lambda>(x, p). Inr (x, l\<lparr>proc := p\<rparr>))"

definition RTLD_LAZY :: u32 where "RTLD_LAZY = 1"

definition libwrap_get_sohandle :: "'d env \<Rightarrow> 'd library \<Rightarrow> (u64 \<times> 'd library) res" where
  "libwrap_get_sohandle E l =
     (if so_handle l \<noteq> 0 then Inr (so_handle l, l)
      else bind_r (on_proc (dlopen E (Some LIBCUDA_PATH) RTLD_LAZY) l) (\<lambda>(h, l). Inr (h, l\<lparr>so_handle := h\<rparr>)))"

text \<open>
  \<open>own\<close> has the addresses of the functions of the client library itself. A search without a library
  (handle 0) goes through all that are loaded and can find the function that searches, which then
  calls itself. The result is what is returned, and what the function called stores. The library is
  loaded through the hooked \<open>dlopen\<close> of \<open>ClientStart\<close>; its function is a call of the environment, and that this can enter
  the client again through the hooks is not modelled.
\<close>

fun wrapper_call ::
  "nat \<Rightarrow> 'd env \<Rightarrow> (string \<Rightarrow> u64) \<Rightarrow> wrapper \<Rightarrow> cval list \<Rightarrow> 'd library \<Rightarrow> ((u32 \<times> cval list) \<times> 'd library) res" where
  "wrapper_call 0 E own w args l = Inl No_Fuel"
| "wrapper_call (Suc fuel) E own w args l =
     bind_r (libwrap_get_sohandle E l) (\<lambda>(h, l).
     bind_r (on_proc (on_app (os_call E ''dlsym'' [Word64 h, Text (w_name w)])) l) (\<lambda>((err, outs), l).
       if err \<noteq> 0 then Inr ((unset32 E, []), l)
       else if out64 E outs 0 = 0 then Inl Null_Deref
       else if out64 E outs 0 = own (w_name w) then wrapper_call fuel E own w args l
       else on_proc (on_app (os_call E (w_name w) args)) l))"

end
