(* ===== verification/WrapperTables.thy ===== *)
theory WrapperTables
  imports Libwrap
begin

text \<open>
  The invocations of \<open>DEF_FN\<close> in the files of the client library, in their order, as compiled for CUDA 11:
  the result type, the name, and the further arguments of the macro. One table for each run of
  invocations with no other code between them.
\<close>

section \<open>Types\<close>

definition t_CUDA_ARRAY3D_DESCRIPTOR :: ctype where "t_CUDA_ARRAY3D_DESCRIPTOR = Named ''CUDA_ARRAY3D_DESCRIPTOR''"
definition t_CUDA_ARRAY_DESCRIPTOR :: ctype where "t_CUDA_ARRAY_DESCRIPTOR = Named ''CUDA_ARRAY_DESCRIPTOR''"
definition t_CUDA_EXTERNAL_MEMORY_BUFFER_DESC :: ctype where "t_CUDA_EXTERNAL_MEMORY_BUFFER_DESC = Named ''CUDA_EXTERNAL_MEMORY_BUFFER_DESC''"
definition t_CUDA_EXTERNAL_MEMORY_HANDLE_DESC :: ctype where "t_CUDA_EXTERNAL_MEMORY_HANDLE_DESC = Named ''CUDA_EXTERNAL_MEMORY_HANDLE_DESC''"
definition t_CUDA_EXTERNAL_MEMORY_MIPMAPPED_ARRAY_DESC :: ctype where "t_CUDA_EXTERNAL_MEMORY_MIPMAPPED_ARRAY_DESC = Named ''CUDA_EXTERNAL_MEMORY_MIPMAPPED_ARRAY_DESC''"
definition t_CUDA_EXTERNAL_SEMAPHORE_HANDLE_DESC :: ctype where "t_CUDA_EXTERNAL_SEMAPHORE_HANDLE_DESC = Named ''CUDA_EXTERNAL_SEMAPHORE_HANDLE_DESC''"
definition t_CUDA_EXTERNAL_SEMAPHORE_SIGNAL_PARAMS :: ctype where "t_CUDA_EXTERNAL_SEMAPHORE_SIGNAL_PARAMS = Named ''CUDA_EXTERNAL_SEMAPHORE_SIGNAL_PARAMS''"
definition t_CUDA_EXTERNAL_SEMAPHORE_WAIT_PARAMS :: ctype where "t_CUDA_EXTERNAL_SEMAPHORE_WAIT_PARAMS = Named ''CUDA_EXTERNAL_SEMAPHORE_WAIT_PARAMS''"
definition t_CUDA_HOST_NODE_PARAMS :: ctype where "t_CUDA_HOST_NODE_PARAMS = Named ''CUDA_HOST_NODE_PARAMS''"
definition t_CUDA_KERNEL_NODE_PARAMS :: ctype where "t_CUDA_KERNEL_NODE_PARAMS = Named ''CUDA_KERNEL_NODE_PARAMS''"
definition t_CUDA_LAUNCH_PARAMS :: ctype where "t_CUDA_LAUNCH_PARAMS = Named ''CUDA_LAUNCH_PARAMS''"
definition t_CUDA_MEMCPY2D :: ctype where "t_CUDA_MEMCPY2D = Named ''CUDA_MEMCPY2D''"
definition t_CUDA_MEMCPY3D :: ctype where "t_CUDA_MEMCPY3D = Named ''CUDA_MEMCPY3D''"
definition t_CUDA_MEMCPY3D_PEER :: ctype where "t_CUDA_MEMCPY3D_PEER = Named ''CUDA_MEMCPY3D_PEER''"
definition t_CUDA_MEMSET_NODE_PARAMS :: ctype where "t_CUDA_MEMSET_NODE_PARAMS = Named ''CUDA_MEMSET_NODE_PARAMS''"
definition t_CUDA_RESOURCE_DESC :: ctype where "t_CUDA_RESOURCE_DESC = Named ''CUDA_RESOURCE_DESC''"
definition t_CUDA_RESOURCE_VIEW_DESC :: ctype where "t_CUDA_RESOURCE_VIEW_DESC = Named ''CUDA_RESOURCE_VIEW_DESC''"
definition t_CUDA_TEXTURE_DESC :: ctype where "t_CUDA_TEXTURE_DESC = Named ''CUDA_TEXTURE_DESC''"
definition t_CUGLDeviceList :: ctype where "t_CUGLDeviceList = Named ''CUGLDeviceList''"
definition t_CUaddress_mode :: ctype where "t_CUaddress_mode = Named ''CUaddress_mode''"
definition t_CUarray :: ctype where "t_CUarray = Named ''CUarray''"
definition t_CUarray_format :: ctype where "t_CUarray_format = Named ''CUarray_format''"
definition t_CUcontext :: ctype where "t_CUcontext = Named ''CUcontext''"
definition t_CUdevice :: ctype where "t_CUdevice = Named ''CUdevice''"
definition t_CUdeviceptr :: ctype where "t_CUdeviceptr = Named ''CUdeviceptr''"
definition t_CUeglFrame :: ctype where "t_CUeglFrame = Named ''CUeglFrame''"
definition t_CUeglStreamConnection :: ctype where "t_CUeglStreamConnection = Named ''CUeglStreamConnection''"
definition t_CUevent :: ctype where "t_CUevent = Named ''CUevent''"
definition t_CUexternalMemory :: ctype where "t_CUexternalMemory = Named ''CUexternalMemory''"
definition t_CUexternalSemaphore :: ctype where "t_CUexternalSemaphore = Named ''CUexternalSemaphore''"
definition t_CUfilter_mode :: ctype where "t_CUfilter_mode = Named ''CUfilter_mode''"
definition t_CUfunc_cache :: ctype where "t_CUfunc_cache = Named ''CUfunc_cache''"
definition t_CUfunction :: ctype where "t_CUfunction = Named ''CUfunction''"
definition t_CUfunction_attribute :: ctype where "t_CUfunction_attribute = Named ''CUfunction_attribute''"
definition t_CUgraph :: ctype where "t_CUgraph = Named ''CUgraph''"
definition t_CUgraphExec :: ctype where "t_CUgraphExec = Named ''CUgraphExec''"
definition t_CUgraphNode :: ctype where "t_CUgraphNode = Named ''CUgraphNode''"
definition t_CUgraphNodeType :: ctype where "t_CUgraphNodeType = Named ''CUgraphNodeType''"
definition t_CUgraphicsResource :: ctype where "t_CUgraphicsResource = Named ''CUgraphicsResource''"
definition t_CUhostFn :: ctype where "t_CUhostFn = Named ''CUhostFn''"
definition t_CUipcEventHandle :: ctype where "t_CUipcEventHandle = Named ''CUipcEventHandle''"
definition t_CUipcMemHandle :: ctype where "t_CUipcMemHandle = Named ''CUipcMemHandle''"
definition t_CUjitInputType :: ctype where "t_CUjitInputType = Named ''CUjitInputType''"
definition t_CUjit_option :: ctype where "t_CUjit_option = Named ''CUjit_option''"
definition t_CUlimit :: ctype where "t_CUlimit = Named ''CUlimit''"
definition t_CUlinkState :: ctype where "t_CUlinkState = Named ''CUlinkState''"
definition t_CUmem_advise :: ctype where "t_CUmem_advise = Named ''CUmem_advise''"
definition t_CUmem_range_attribute :: ctype where "t_CUmem_range_attribute = Named ''CUmem_range_attribute''"
definition t_CUmipmappedArray :: ctype where "t_CUmipmappedArray = Named ''CUmipmappedArray''"
definition t_CUmodule :: ctype where "t_CUmodule = Named ''CUmodule''"
definition t_CUpointer_attribute :: ctype where "t_CUpointer_attribute = Named ''CUpointer_attribute''"
definition t_CUresult :: ctype where "t_CUresult = Named ''CUresult''"
definition t_CUsharedconfig :: ctype where "t_CUsharedconfig = Named ''CUsharedconfig''"
definition t_CUstream :: ctype where "t_CUstream = Named ''CUstream''"
definition t_CUstreamBatchMemOpParams :: ctype where "t_CUstreamBatchMemOpParams = Named ''CUstreamBatchMemOpParams''"
definition t_CUstreamCallback :: ctype where "t_CUstreamCallback = Named ''CUstreamCallback''"
definition t_CUstreamCaptureMode :: ctype where "t_CUstreamCaptureMode = Named ''CUstreamCaptureMode''"
definition t_CUstreamCaptureStatus :: ctype where "t_CUstreamCaptureStatus = Named ''CUstreamCaptureStatus''"
definition t_CUsurfObject :: ctype where "t_CUsurfObject = Named ''CUsurfObject''"
definition t_CUsurfref :: ctype where "t_CUsurfref = Named ''CUsurfref''"
definition t_CUtexObject :: ctype where "t_CUtexObject = Named ''CUtexObject''"
definition t_CUtexref :: ctype where "t_CUtexref = Named ''CUtexref''"
definition t_EGLImageKHR :: ctype where "t_EGLImageKHR = Named ''EGLImageKHR''"
definition t_EGLStreamKHR :: ctype where "t_EGLStreamKHR = Named ''EGLStreamKHR''"
definition t_EGLint :: ctype where "t_EGLint = Named ''EGLint''"
definition t_GLenum :: ctype where "t_GLenum = Named ''GLenum''"
definition t_GLuint :: ctype where "t_GLuint = Named ''GLuint''"
definition t_VdpDevice :: ctype where "t_VdpDevice = Named ''VdpDevice''"
definition t_VdpGetProcAddress :: ctype where "t_VdpGetProcAddress = Named ''VdpGetProcAddress''"
definition t_VdpOutputSurface :: ctype where "t_VdpOutputSurface = Named ''VdpOutputSurface''"
definition t_VdpVideoSurface :: ctype where "t_VdpVideoSurface = Named ''VdpVideoSurface''"
definition t_char :: ctype where "t_char = Named ''char''"
definition t_cuComplex :: ctype where "t_cuComplex = Named ''cuComplex''"
definition t_cuDoubleComplex :: ctype where "t_cuDoubleComplex = Named ''cuDoubleComplex''"
definition t_cublasAtomicsMode_t :: ctype where "t_cublasAtomicsMode_t = Named ''cublasAtomicsMode_t''"
definition t_cublasComputeType_t :: ctype where "t_cublasComputeType_t = Named ''cublasComputeType_t''"
definition t_cublasDiagType_t :: ctype where "t_cublasDiagType_t = Named ''cublasDiagType_t''"
definition t_cublasFillMode_t :: ctype where "t_cublasFillMode_t = Named ''cublasFillMode_t''"
definition t_cublasGemmAlgo_t :: ctype where "t_cublasGemmAlgo_t = Named ''cublasGemmAlgo_t''"
definition t_cublasHandle_t :: ctype where "t_cublasHandle_t = Named ''cublasHandle_t''"
definition t_cublasLogCallback :: ctype where "t_cublasLogCallback = Named ''cublasLogCallback''"
definition t_cublasOperation_t :: ctype where "t_cublasOperation_t = Named ''cublasOperation_t''"
definition t_cublasPointerMode_t :: ctype where "t_cublasPointerMode_t = Named ''cublasPointerMode_t''"
definition t_cublasSideMode_t :: ctype where "t_cublasSideMode_t = Named ''cublasSideMode_t''"
definition t_cublasStatus_t :: ctype where "t_cublasStatus_t = Named ''cublasStatus_t''"
definition t_cudaArray_const_t :: ctype where "t_cudaArray_const_t = Named ''cudaArray_const_t''"
definition t_cudaArray_t :: ctype where "t_cudaArray_t = Named ''cudaArray_t''"
definition t_cudaDataType :: ctype where "t_cudaDataType = Named ''cudaDataType''"
definition t_cudaError_t :: ctype where "t_cudaError_t = Named ''cudaError_t''"
definition t_cudaEvent_t :: ctype where "t_cudaEvent_t = Named ''cudaEvent_t''"
definition t_cudaExternalMemory_t :: ctype where "t_cudaExternalMemory_t = Named ''cudaExternalMemory_t''"
definition t_cudaExternalSemaphore_t :: ctype where "t_cudaExternalSemaphore_t = Named ''cudaExternalSemaphore_t''"
definition t_cudaGraphExec_t :: ctype where "t_cudaGraphExec_t = Named ''cudaGraphExec_t''"
definition t_cudaGraphNode_t :: ctype where "t_cudaGraphNode_t = Named ''cudaGraphNode_t''"
definition t_cudaGraph_t :: ctype where "t_cudaGraph_t = Named ''cudaGraph_t''"
definition t_cudaHostFn_t :: ctype where "t_cudaHostFn_t = Named ''cudaHostFn_t''"
definition t_cudaIpcEventHandle_t :: ctype where "t_cudaIpcEventHandle_t = Named ''cudaIpcEventHandle_t''"
definition t_cudaIpcMemHandle_t :: ctype where "t_cudaIpcMemHandle_t = Named ''cudaIpcMemHandle_t''"
definition t_cudaMipmappedArray_const_t :: ctype where "t_cudaMipmappedArray_const_t = Named ''cudaMipmappedArray_const_t''"
definition t_cudaMipmappedArray_t :: ctype where "t_cudaMipmappedArray_t = Named ''cudaMipmappedArray_t''"
definition t_cudaStreamCallback_t :: ctype where "t_cudaStreamCallback_t = Named ''cudaStreamCallback_t''"
definition t_cudaStream_t :: ctype where "t_cudaStream_t = Named ''cudaStream_t''"
definition t_cudaSurfaceObject_t :: ctype where "t_cudaSurfaceObject_t = Named ''cudaSurfaceObject_t''"
definition t_cudaTextureObject_t :: ctype where "t_cudaTextureObject_t = Named ''cudaTextureObject_t''"
definition t_cudnnActivationDescriptor_t :: ctype where "t_cudnnActivationDescriptor_t = Named ''cudnnActivationDescriptor_t''"
definition t_cudnnAlgorithmDescriptor_t :: ctype where "t_cudnnAlgorithmDescriptor_t = Named ''cudnnAlgorithmDescriptor_t''"
definition t_cudnnAlgorithmPerformance_t :: ctype where "t_cudnnAlgorithmPerformance_t = Named ''cudnnAlgorithmPerformance_t''"
definition t_cudnnAlgorithm_t :: ctype where "t_cudnnAlgorithm_t = Named ''cudnnAlgorithm_t''"
definition t_cudnnBatchNormMode_t :: ctype where "t_cudnnBatchNormMode_t = Named ''cudnnBatchNormMode_t''"
definition t_cudnnCallback_t :: ctype where "t_cudnnCallback_t = Named ''cudnnCallback_t''"
definition t_cudnnConvolutionBwdDataAlgoPerf_t :: ctype where "t_cudnnConvolutionBwdDataAlgoPerf_t = Named ''cudnnConvolutionBwdDataAlgoPerf_t''"
definition t_cudnnConvolutionBwdDataAlgo_t :: ctype where "t_cudnnConvolutionBwdDataAlgo_t = Named ''cudnnConvolutionBwdDataAlgo_t''"
definition t_cudnnConvolutionDescriptor_t :: ctype where "t_cudnnConvolutionDescriptor_t = Named ''cudnnConvolutionDescriptor_t''"
definition t_cudnnConvolutionFwdAlgoPerf_t :: ctype where "t_cudnnConvolutionFwdAlgoPerf_t = Named ''cudnnConvolutionFwdAlgoPerf_t''"
definition t_cudnnConvolutionFwdAlgo_t :: ctype where "t_cudnnConvolutionFwdAlgo_t = Named ''cudnnConvolutionFwdAlgo_t''"
definition t_cudnnConvolutionMode_t :: ctype where "t_cudnnConvolutionMode_t = Named ''cudnnConvolutionMode_t''"
definition t_cudnnDataType_t :: ctype where "t_cudnnDataType_t = Named ''cudnnDataType_t''"
definition t_cudnnDivNormMode_t :: ctype where "t_cudnnDivNormMode_t = Named ''cudnnDivNormMode_t''"
definition t_cudnnDropoutDescriptor_t :: ctype where "t_cudnnDropoutDescriptor_t = Named ''cudnnDropoutDescriptor_t''"
definition t_cudnnFilterDescriptor_t :: ctype where "t_cudnnFilterDescriptor_t = Named ''cudnnFilterDescriptor_t''"
definition t_cudnnFoldingDirection_t :: ctype where "t_cudnnFoldingDirection_t = Named ''cudnnFoldingDirection_t''"
definition t_cudnnHandle_t :: ctype where "t_cudnnHandle_t = Named ''cudnnHandle_t''"
definition t_cudnnIndicesType_t :: ctype where "t_cudnnIndicesType_t = Named ''cudnnIndicesType_t''"
definition t_cudnnLRNDescriptor_t :: ctype where "t_cudnnLRNDescriptor_t = Named ''cudnnLRNDescriptor_t''"
definition t_cudnnMathType_t :: ctype where "t_cudnnMathType_t = Named ''cudnnMathType_t''"
definition t_cudnnNanPropagation_t :: ctype where "t_cudnnNanPropagation_t = Named ''cudnnNanPropagation_t''"
definition t_cudnnNormMode_t :: ctype where "t_cudnnNormMode_t = Named ''cudnnNormMode_t''"
definition t_cudnnOpTensorDescriptor_t :: ctype where "t_cudnnOpTensorDescriptor_t = Named ''cudnnOpTensorDescriptor_t''"
definition t_cudnnOpTensorOp_t :: ctype where "t_cudnnOpTensorOp_t = Named ''cudnnOpTensorOp_t''"
definition t_cudnnReduceTensorDescriptor_t :: ctype where "t_cudnnReduceTensorDescriptor_t = Named ''cudnnReduceTensorDescriptor_t''"
definition t_cudnnReduceTensorIndices_t :: ctype where "t_cudnnReduceTensorIndices_t = Named ''cudnnReduceTensorIndices_t''"
definition t_cudnnReduceTensorOp_t :: ctype where "t_cudnnReduceTensorOp_t = Named ''cudnnReduceTensorOp_t''"
definition t_cudnnReorderType_t :: ctype where "t_cudnnReorderType_t = Named ''cudnnReorderType_t''"
definition t_cudnnSamplerType_t :: ctype where "t_cudnnSamplerType_t = Named ''cudnnSamplerType_t''"
definition t_cudnnSpatialTransformerDescriptor_t :: ctype where "t_cudnnSpatialTransformerDescriptor_t = Named ''cudnnSpatialTransformerDescriptor_t''"
definition t_cudnnStatus_t :: ctype where "t_cudnnStatus_t = Named ''cudnnStatus_t''"
definition t_cudnnTensorDescriptor_t :: ctype where "t_cudnnTensorDescriptor_t = Named ''cudnnTensorDescriptor_t''"
definition t_cudnnTensorFormat_t :: ctype where "t_cudnnTensorFormat_t = Named ''cudnnTensorFormat_t''"
definition t_cudnnTensorTransformDescriptor_t :: ctype where "t_cudnnTensorTransformDescriptor_t = Named ''cudnnTensorTransformDescriptor_t''"
definition t_cusolverDnHandle_t :: ctype where "t_cusolverDnHandle_t = Named ''cusolverDnHandle_t''"
definition t_cusolverDnIRSInfos_t :: ctype where "t_cusolverDnIRSInfos_t = Named ''cusolverDnIRSInfos_t''"
definition t_cusolverDnIRSParams_t :: ctype where "t_cusolverDnIRSParams_t = Named ''cusolverDnIRSParams_t''"
definition t_cusolverEigMode_t :: ctype where "t_cusolverEigMode_t = Named ''cusolverEigMode_t''"
definition t_cusolverEigRange_t :: ctype where "t_cusolverEigRange_t = Named ''cusolverEigRange_t''"
definition t_cusolverEigType_t :: ctype where "t_cusolverEigType_t = Named ''cusolverEigType_t''"
definition t_cusolverIRSRefinement_t :: ctype where "t_cusolverIRSRefinement_t = Named ''cusolverIRSRefinement_t''"
definition t_cusolverPrecType_t :: ctype where "t_cusolverPrecType_t = Named ''cusolverPrecType_t''"
definition t_cusolverStatus_t :: ctype where "t_cusolverStatus_t = Named ''cusolverStatus_t''"
definition t_cusolver_int_t :: ctype where "t_cusolver_int_t = Named ''cusolver_int_t''"
definition t_cuuint32_t :: ctype where "t_cuuint32_t = Named ''cuuint32_t''"
definition t_cuuint64_t :: ctype where "t_cuuint64_t = Named ''cuuint64_t''"
definition t_double :: ctype where "t_double = Named ''double''"
definition t_cudaChannelFormatKind :: ctype where "t_cudaChannelFormatKind = Named ''enum cudaChannelFormatKind''"
definition t_cudaGraphNodeType :: ctype where "t_cudaGraphNodeType = Named ''enum cudaGraphNodeType''"
definition t_cudaMemRangeAttribute :: ctype where "t_cudaMemRangeAttribute = Named ''enum cudaMemRangeAttribute''"
definition t_cudaMemcpyKind :: ctype where "t_cudaMemcpyKind = Named ''enum cudaMemcpyKind''"
definition t_cudaStreamAttrID :: ctype where "t_cudaStreamAttrID = Named ''enum cudaStreamAttrID''"
definition t_cudaStreamCaptureMode :: ctype where "t_cudaStreamCaptureMode = Named ''enum cudaStreamCaptureMode''"
definition t_float :: ctype where "t_float = Named ''float''"
definition t_gesvdjInfo_t :: ctype where "t_gesvdjInfo_t = Named ''gesvdjInfo_t''"
definition t_int :: ctype where "t_int = Named ''int''"
definition t_int32_t :: ctype where "t_int32_t = Named ''int32_t''"
definition t_int64_t :: ctype where "t_int64_t = Named ''int64_t''"
definition t_libraryPropertyType :: ctype where "t_libraryPropertyType = Named ''libraryPropertyType''"
definition t_long_long_int :: ctype where "t_long_long_int = Named ''long long int''"
definition t_nvmlBAR1Memory_t :: ctype where "t_nvmlBAR1Memory_t = Named ''nvmlBAR1Memory_t''"
definition t_nvmlBrandType_t :: ctype where "t_nvmlBrandType_t = Named ''nvmlBrandType_t''"
definition t_nvmlBridgeChipHierarchy_t :: ctype where "t_nvmlBridgeChipHierarchy_t = Named ''nvmlBridgeChipHierarchy_t''"
definition t_nvmlClockId_t :: ctype where "t_nvmlClockId_t = Named ''nvmlClockId_t''"
definition t_nvmlClockType_t :: ctype where "t_nvmlClockType_t = Named ''nvmlClockType_t''"
definition t_nvmlComputeMode_t :: ctype where "t_nvmlComputeMode_t = Named ''nvmlComputeMode_t''"
definition t_nvmlDevice_t :: ctype where "t_nvmlDevice_t = Named ''nvmlDevice_t''"
definition t_nvmlDriverModel_t :: ctype where "t_nvmlDriverModel_t = Named ''nvmlDriverModel_t''"
definition t_nvmlEccCounterType_t :: ctype where "t_nvmlEccCounterType_t = Named ''nvmlEccCounterType_t''"
definition t_nvmlEccErrorCounts_t :: ctype where "t_nvmlEccErrorCounts_t = Named ''nvmlEccErrorCounts_t''"
definition t_nvmlEnableState_t :: ctype where "t_nvmlEnableState_t = Named ''nvmlEnableState_t''"
definition t_nvmlEncoderSessionInfo_t :: ctype where "t_nvmlEncoderSessionInfo_t = Named ''nvmlEncoderSessionInfo_t''"
definition t_nvmlEncoderType_t :: ctype where "t_nvmlEncoderType_t = Named ''nvmlEncoderType_t''"
definition t_nvmlFBCSessionInfo_t :: ctype where "t_nvmlFBCSessionInfo_t = Named ''nvmlFBCSessionInfo_t''"
definition t_nvmlFBCStats_t :: ctype where "t_nvmlFBCStats_t = Named ''nvmlFBCStats_t''"
definition t_nvmlGpuOperationMode_t :: ctype where "t_nvmlGpuOperationMode_t = Named ''nvmlGpuOperationMode_t''"
definition t_nvmlGpuP2PCapsIndex_t :: ctype where "t_nvmlGpuP2PCapsIndex_t = Named ''nvmlGpuP2PCapsIndex_t''"
definition t_nvmlGpuP2PStatus_t :: ctype where "t_nvmlGpuP2PStatus_t = Named ''nvmlGpuP2PStatus_t''"
definition t_nvmlGpuTopologyLevel_t :: ctype where "t_nvmlGpuTopologyLevel_t = Named ''nvmlGpuTopologyLevel_t''"
definition t_nvmlInforomObject_t :: ctype where "t_nvmlInforomObject_t = Named ''nvmlInforomObject_t''"
definition t_nvmlMemoryErrorType_t :: ctype where "t_nvmlMemoryErrorType_t = Named ''nvmlMemoryErrorType_t''"
definition t_nvmlMemoryLocation_t :: ctype where "t_nvmlMemoryLocation_t = Named ''nvmlMemoryLocation_t''"
definition t_nvmlMemory_t :: ctype where "t_nvmlMemory_t = Named ''nvmlMemory_t''"
definition t_nvmlPageRetirementCause_t :: ctype where "t_nvmlPageRetirementCause_t = Named ''nvmlPageRetirementCause_t''"
definition t_nvmlPciInfo_t :: ctype where "t_nvmlPciInfo_t = Named ''nvmlPciInfo_t''"
definition t_nvmlPcieUtilCounter_t :: ctype where "t_nvmlPcieUtilCounter_t = Named ''nvmlPcieUtilCounter_t''"
definition t_nvmlPerfPolicyType_t :: ctype where "t_nvmlPerfPolicyType_t = Named ''nvmlPerfPolicyType_t''"
definition t_nvmlProcessInfo_t :: ctype where "t_nvmlProcessInfo_t = Named ''nvmlProcessInfo_t''"
definition t_nvmlPstates_t :: ctype where "t_nvmlPstates_t = Named ''nvmlPstates_t''"
definition t_nvmlRestrictedAPI_t :: ctype where "t_nvmlRestrictedAPI_t = Named ''nvmlRestrictedAPI_t''"
definition t_nvmlReturn_t :: ctype where "t_nvmlReturn_t = Named ''nvmlReturn_t''"
definition t_nvmlSample_t :: ctype where "t_nvmlSample_t = Named ''nvmlSample_t''"
definition t_nvmlSamplingType_t :: ctype where "t_nvmlSamplingType_t = Named ''nvmlSamplingType_t''"
definition t_nvmlTemperatureSensors_t :: ctype where "t_nvmlTemperatureSensors_t = Named ''nvmlTemperatureSensors_t''"
definition t_nvmlTemperatureThresholds_t :: ctype where "t_nvmlTemperatureThresholds_t = Named ''nvmlTemperatureThresholds_t''"
definition t_nvmlUtilization_t :: ctype where "t_nvmlUtilization_t = Named ''nvmlUtilization_t''"
definition t_nvmlValueType_t :: ctype where "t_nvmlValueType_t = Named ''nvmlValueType_t''"
definition t_nvmlVgpuInstance_t :: ctype where "t_nvmlVgpuInstance_t = Named ''nvmlVgpuInstance_t''"
definition t_nvmlViolationTime_t :: ctype where "t_nvmlViolationTime_t = Named ''nvmlViolationTime_t''"
definition t_signed_char :: ctype where "t_signed_char = Named ''signed char''"
definition t_size_t :: ctype where "t_size_t = Named ''size_t''"
definition t_cudaChannelFormatDesc :: ctype where "t_cudaChannelFormatDesc = Named ''struct cudaChannelFormatDesc''"
definition t_cudaExtent :: ctype where "t_cudaExtent = Named ''struct cudaExtent''"
definition t_cudaExternalMemoryBufferDesc :: ctype where "t_cudaExternalMemoryBufferDesc = Named ''struct cudaExternalMemoryBufferDesc''"
definition t_cudaExternalMemoryHandleDesc :: ctype where "t_cudaExternalMemoryHandleDesc = Named ''struct cudaExternalMemoryHandleDesc''"
definition t_cudaExternalMemoryMipmappedArrayDesc :: ctype where "t_cudaExternalMemoryMipmappedArrayDesc = Named ''struct cudaExternalMemoryMipmappedArrayDesc''"
definition t_cudaExternalSemaphoreHandleDesc :: ctype where "t_cudaExternalSemaphoreHandleDesc = Named ''struct cudaExternalSemaphoreHandleDesc''"
definition t_cudaExternalSemaphoreSignalParams :: ctype where "t_cudaExternalSemaphoreSignalParams = Named ''struct cudaExternalSemaphoreSignalParams''"
definition t_cudaExternalSemaphoreWaitParams :: ctype where "t_cudaExternalSemaphoreWaitParams = Named ''struct cudaExternalSemaphoreWaitParams''"
definition t_cudaHostNodeParams :: ctype where "t_cudaHostNodeParams = Named ''struct cudaHostNodeParams''"
definition t_cudaKernelNodeParams :: ctype where "t_cudaKernelNodeParams = Named ''struct cudaKernelNodeParams''"
definition t_cudaMemcpy3DParms :: ctype where "t_cudaMemcpy3DParms = Named ''struct cudaMemcpy3DParms''"
definition t_cudaMemcpy3DPeerParms :: ctype where "t_cudaMemcpy3DPeerParms = Named ''struct cudaMemcpy3DPeerParms''"
definition t_cudaMemsetParams :: ctype where "t_cudaMemsetParams = Named ''struct cudaMemsetParams''"
definition t_cudaPitchedPtr :: ctype where "t_cudaPitchedPtr = Named ''struct cudaPitchedPtr''"
definition t_cudaPointerAttributes :: ctype where "t_cudaPointerAttributes = Named ''struct cudaPointerAttributes''"
definition t_cudaPos :: ctype where "t_cudaPos = Named ''struct cudaPos''"
definition t_cudaResourceDesc :: ctype where "t_cudaResourceDesc = Named ''struct cudaResourceDesc''"
definition t_cudaResourceViewDesc :: ctype where "t_cudaResourceViewDesc = Named ''struct cudaResourceViewDesc''"
definition t_cudaTextureDesc :: ctype where "t_cudaTextureDesc = Named ''struct cudaTextureDesc''"
definition t_syevjInfo_t :: ctype where "t_syevjInfo_t = Named ''syevjInfo_t''"
definition t_uint32_t :: ctype where "t_uint32_t = Named ''uint32_t''"
definition t_cudaStreamAttrValue :: ctype where "t_cudaStreamAttrValue = Named ''union cudaStreamAttrValue''"
definition t_unsigned :: ctype where "t_unsigned = Named ''unsigned''"
definition t_unsigned_char :: ctype where "t_unsigned_char = Named ''unsigned char''"
definition t_unsigned_int :: ctype where "t_unsigned_int = Named ''unsigned int''"
definition t_unsigned_long_long :: ctype where "t_unsigned_long_long = Named ''unsigned long long''"
definition t_void :: ctype where "t_void = Named ''void''"

section \<open>Invocations\<close>

definition cublas_wrappers_1 :: "invocation list" where
  "cublas_wrappers_1 = [
    (t_cublasStatus_t, ''cublasGetVersion_v2'', [T t_cublasHandle_t, N, T (Ptr t_int), N]),
    (t_cublasStatus_t, ''cublasGetProperty'', [T t_libraryPropertyType, N, T (Ptr t_int), N]),
    (t_size_t, ''cublasGetCudartVersion'', [])]"

definition cublas_wrappers_2 :: "invocation list" where
  "cublas_wrappers_2 = [
    (t_cublasStatus_t, ''cublasGetStream_v2'', [T t_cublasHandle_t, N, T (Ptr t_cudaStream_t), N]),
    (t_cublasStatus_t, ''cublasGetPointerMode_v2'', [T t_cublasHandle_t, N, T (Ptr t_cublasPointerMode_t), N]),
    (t_cublasStatus_t, ''cublasSetPointerMode_v2'', [T t_cublasHandle_t, N, T t_cublasPointerMode_t, N]),
    (t_cublasStatus_t, ''cublasGetAtomicsMode'', [T t_cublasHandle_t, N, T (Ptr t_cublasAtomicsMode_t), N]),
    (t_cublasStatus_t, ''cublasSetAtomicsMode'', [T t_cublasHandle_t, N, T t_cublasAtomicsMode_t, N])]"

definition cublas_wrappers_3 :: "invocation list" where
  "cublas_wrappers_3 = [
    (t_cublasStatus_t, ''cublasGetSmCountTarget'', [T t_cublasHandle_t, N, T (Ptr t_int), N]),
    (t_cublasStatus_t, ''cublasSetSmCountTarget'', [T t_cublasHandle_t, N, T t_int, N]),
    (Ptr (Const t_char), ''cublasGetStatusName'', [T t_cublasStatus_t, N]),
    (Ptr (Const t_char), ''cublasGetStatusString'', [T t_cublasStatus_t, N]),
    (t_cublasStatus_t, ''cublasLoggerConfigure'', [T t_int, N, T t_int, N, T t_int, N, T (Ptr (Const t_char)), N]),
    (t_cublasStatus_t, ''cublasSetLoggerCallback'', [T t_cublasLogCallback, N]),
    (t_cublasStatus_t, ''cublasGetLoggerCallback'', [T (Ptr t_cublasLogCallback), N]),
    (t_cublasStatus_t, ''cublasSetVector'', [T t_int, N, T t_int, N, T (Ptr (Const t_void)), N, T t_int, N,
      T (Ptr t_void), N, T t_int, N]),
    (t_cublasStatus_t, ''cublasSetVector_64'', [T t_int64_t, N, T t_int64_t, N, T (Ptr (Const t_void)), N,
      T t_int64_t, N, T (Ptr t_void), N, T t_int64_t, N]),
    (t_cublasStatus_t, ''cublasGetVector'', [T t_int, N, T t_int, N, T (Ptr (Const t_void)), N, T t_int, N,
      T (Ptr t_void), N, T t_int, N]),
    (t_cublasStatus_t, ''cublasGetVector_64'', [T t_int64_t, N, T t_int64_t, N, T (Ptr (Const t_void)), N,
      T t_int64_t, N, T (Ptr t_void), N, T t_int64_t, N]),
    (t_cublasStatus_t, ''cublasSetMatrix'', [T t_int, N, T t_int, N, T t_int, N, T (Ptr (Const t_void)), N, T t_int,
      N, T (Ptr t_void), N, T t_int, N]),
    (t_cublasStatus_t, ''cublasSetMatrix_64'', [T t_int64_t, N, T t_int64_t, N, T t_int64_t, N,
      T (Ptr (Const t_void)), N, T t_int64_t, N, T (Ptr t_void), N, T t_int64_t, N]),
    (t_cublasStatus_t, ''cublasGetMatrix'', [T t_int, N, T t_int, N, T t_int, N, T (Ptr (Const t_void)), N, T t_int,
      N, T (Ptr t_void), N, T t_int, N]),
    (t_cublasStatus_t, ''cublasGetMatrix_64'', [T t_int64_t, N, T t_int64_t, N, T t_int64_t, N,
      T (Ptr (Const t_void)), N, T t_int64_t, N, T (Ptr t_void), N, T t_int64_t, N]),
    (t_cublasStatus_t, ''cublasSetVectorAsync'', [Other '''', T t_int, N, T t_int, N, T (Ptr (Const t_void)), N,
      T t_int, N, T (Ptr t_void), N, T t_int, N, T t_cudaStream_t, N]),
    (t_cublasStatus_t, ''cublasSetVectorAsync_64'', [Other '''', T t_int64_t, N, T t_int64_t, N,
      T (Ptr (Const t_void)), N, T t_int64_t, N, T (Ptr t_void), N, T t_int64_t, N, T t_cudaStream_t, N]),
    (t_cublasStatus_t, ''cublasGetVectorAsync'', [Other '''', T t_int, N, T t_int, N, T (Ptr (Const t_void)), N,
      T t_int, N, T (Ptr t_void), N, T t_int, N, T t_cudaStream_t, N]),
    (t_cublasStatus_t, ''cublasGetVectorAsync_64'', [Other '''', T t_int64_t, N, T t_int64_t, N,
      T (Ptr (Const t_void)), N, T t_int64_t, N, T (Ptr t_void), N, T t_int64_t, N, T t_cudaStream_t, N]),
    (t_cublasStatus_t, ''cublasSetMatrixAsync'', [T t_int, N, T t_int, N, T t_int, N, T (Ptr (Const t_void)), N,
      T t_int, N, T (Ptr t_void), N, T t_int, N, T t_cudaStream_t, N]),
    (t_cublasStatus_t, ''cublasSetMatrixAsync_64'', [T t_int64_t, N, T t_int64_t, N, T t_int64_t, N,
      T (Ptr (Const t_void)), N, T t_int64_t, N, T (Ptr t_void), N, T t_int64_t, N, T t_cudaStream_t, N]),
    (t_cublasStatus_t, ''cublasGetMatrixAsync'', [T t_int, N, T t_int, N, T t_int, N, T (Ptr (Const t_void)), N,
      T t_int, N, T (Ptr t_void), N, T t_int, N, T t_cudaStream_t, N]),
    (t_cublasStatus_t, ''cublasGetMatrixAsync_64'', [T t_int64_t, N, T t_int64_t, N, T t_int64_t, N,
      T (Ptr (Const t_void)), N, T t_int64_t, N, T (Ptr t_void), N, T t_int64_t, N, T t_cudaStream_t, N])]"

definition cublas_wrappers_4 :: "invocation list" where
  "cublas_wrappers_4 = [
    (t_cublasStatus_t, ''cublasNrm2Ex'', [T t_cublasHandle_t, N, T t_int, N, T (Ptr (Const t_void)), N,
      T t_cudaDataType, N, T t_int, N, T (Ptr t_void), N, T t_cudaDataType, N, T t_cudaDataType, N]),
    (t_cublasStatus_t, ''cublasNrm2Ex_64'', [T t_cublasHandle_t, N, T t_int64_t, N, T (Ptr (Const t_void)), N,
      T t_cudaDataType, N, T t_int64_t, N, T (Ptr t_void), N, T t_cudaDataType, N, T t_cudaDataType, N]),
    (t_cublasStatus_t, ''cublasSnrm2_v2'', [T t_cublasHandle_t, N, T t_int, N, T (Ptr (Const t_float)), N, T t_int,
      N, T (Ptr t_float), N]),
    (t_cublasStatus_t, ''cublasSnrm2_v2_64'', [T t_cublasHandle_t, N, T t_int64_t, N, T (Ptr (Const t_float)), N,
      T t_int64_t, N, T (Ptr t_float), N]),
    (t_cublasStatus_t, ''cublasDnrm2_v2'', [T t_cublasHandle_t, N, T t_int, N, T (Ptr (Const t_double)), N, T t_int,
      N, T (Ptr t_double), N]),
    (t_cublasStatus_t, ''cublasDnrm2_v2_64'', [T t_cublasHandle_t, N, T t_int64_t, N, T (Ptr (Const t_double)), N,
      T t_int64_t, N, T (Ptr t_double), N]),
    (t_cublasStatus_t, ''cublasScnrm2_v2'', [T t_cublasHandle_t, N, T t_int, N, T (Ptr (Const t_cuComplex)), N,
      T t_int, N, T (Ptr t_float), N]),
    (t_cublasStatus_t, ''cublasScnrm2_v2_64'', [T t_cublasHandle_t, N, T t_int64_t, N, T (Ptr (Const t_cuComplex)),
      N, T t_int64_t, N, T (Ptr t_float), N]),
    (t_cublasStatus_t, ''cublasDznrm2_v2'', [T t_cublasHandle_t, N, T t_int, N, T (Ptr (Const t_cuDoubleComplex)),
      N, T t_int, N, T (Ptr t_double), N]),
    (t_cublasStatus_t, ''cublasDznrm2_v2_64'', [T t_cublasHandle_t, N, T t_int64_t, N,
      T (Ptr (Const t_cuDoubleComplex)), N, T t_int64_t, N, T (Ptr t_double), N]),
    (t_cublasStatus_t, ''cublasDotEx'', [T t_cublasHandle_t, N, T t_int, N, T (Ptr (Const t_void)), N,
      T t_cudaDataType, N, T t_int, N, T (Ptr (Const t_void)), N, T t_cudaDataType, N, T t_int, N, T (Ptr t_void),
      N, T t_cudaDataType, N, T t_cudaDataType, N]),
    (t_cublasStatus_t, ''cublasDotEx_64'', [T t_cublasHandle_t, N, T t_int64_t, N, T (Ptr (Const t_void)), N,
      T t_cudaDataType, N, T t_int64_t, N, T (Ptr (Const t_void)), N, T t_cudaDataType, N, T t_int64_t, N,
      T (Ptr t_void), N, T t_cudaDataType, N, T t_cudaDataType, N]),
    (t_cublasStatus_t, ''cublasDotcEx'', [T t_cublasHandle_t, N, T t_int, N, T (Ptr (Const t_void)), N,
      T t_cudaDataType, N, T t_int, N, T (Ptr (Const t_void)), N, T t_cudaDataType, N, T t_int, N, T (Ptr t_void),
      N, T t_cudaDataType, N, T t_cudaDataType, N]),
    (t_cublasStatus_t, ''cublasDotcEx_64'', [T t_cublasHandle_t, N, T t_int64_t, N, T (Ptr (Const t_void)), N,
      T t_cudaDataType, N, T t_int64_t, N, T (Ptr (Const t_void)), N, T t_cudaDataType, N, T t_int64_t, N,
      T (Ptr t_void), N, T t_cudaDataType, N, T t_cudaDataType, N]),
    (t_cublasStatus_t, ''cublasSdot_v2'', [T t_cublasHandle_t, N, T t_int, N, T (Ptr (Const t_float)), N, T t_int,
      N, T (Ptr (Const t_float)), N, T t_int, N, T (Ptr t_float), N]),
    (t_cublasStatus_t, ''cublasSdot_v2_64'', [Other '''', T t_cublasHandle_t, N, T t_int64_t, N,
      T (Ptr (Const t_float)), N, T t_int64_t, N, T (Ptr (Const t_float)), N, T t_int64_t, N, T (Ptr t_float), N]),
    (t_cublasStatus_t, ''cublasDdot_v2'', [T t_cublasHandle_t, N, T t_int, N, T (Ptr (Const t_double)), N, T t_int,
      N, T (Ptr (Const t_double)), N, T t_int, N, T (Ptr t_double), N]),
    (t_cublasStatus_t, ''cublasDdot_v2_64'', [Other '''', T t_cublasHandle_t, N, T t_int64_t, N,
      T (Ptr (Const t_double)), N, T t_int64_t, N, T (Ptr (Const t_double)), N, T t_int64_t, N, T (Ptr t_double),
      N]),
    (t_cublasStatus_t, ''cublasCdotu_v2'', [Other '''', T t_cublasHandle_t, N, T t_int, N,
      T (Ptr (Const t_cuComplex)), N, T t_int, N, T (Ptr (Const t_cuComplex)), N, T t_int, N, T (Ptr t_cuComplex),
      N]),
    (t_cublasStatus_t, ''cublasCdotu_v2_64'', [T t_cublasHandle_t, N, T t_int64_t, N, T (Ptr (Const t_cuComplex)),
      N, T t_int64_t, N, T (Ptr (Const t_cuComplex)), N, T t_int64_t, N, T (Ptr t_cuComplex), N]),
    (t_cublasStatus_t, ''cublasCdotc_v2'', [Other '''', T t_cublasHandle_t, N, T t_int, N,
      T (Ptr (Const t_cuComplex)), N, T t_int, N, T (Ptr (Const t_cuComplex)), N, T t_int, N, T (Ptr t_cuComplex),
      N]),
    (t_cublasStatus_t, ''cublasCdotc_v2_64'', [T t_cublasHandle_t, N, T t_int64_t, N, T (Ptr (Const t_cuComplex)),
      N, T t_int64_t, N, T (Ptr (Const t_cuComplex)), N, T t_int64_t, N, T (Ptr t_cuComplex), N]),
    (t_cublasStatus_t, ''cublasZdotu_v2'', [T t_cublasHandle_t, N, T t_int, N, T (Ptr (Const t_cuDoubleComplex)), N,
      T t_int, N, T (Ptr (Const t_cuDoubleComplex)), N, T t_int, N, T (Ptr t_cuDoubleComplex), N]),
    (t_cublasStatus_t, ''cublasZdotu_v2_64'', [T t_cublasHandle_t, N, T t_int64_t, N,
      T (Ptr (Const t_cuDoubleComplex)), N, T t_int64_t, N, T (Ptr (Const t_cuDoubleComplex)), N, T t_int64_t, N,
      T (Ptr t_cuDoubleComplex), N]),
    (t_cublasStatus_t, ''cublasZdotc_v2'', [T t_cublasHandle_t, N, T t_int, N, T (Ptr (Const t_cuDoubleComplex)), N,
      T t_int, N, T (Ptr (Const t_cuDoubleComplex)), N, T t_int, N, T (Ptr t_cuDoubleComplex), N]),
    (t_cublasStatus_t, ''cublasZdotc_v2_64'', [T t_cublasHandle_t, N, T t_int64_t, N,
      T (Ptr (Const t_cuDoubleComplex)), N, T t_int64_t, N, T (Ptr (Const t_cuDoubleComplex)), N, T t_int64_t, N,
      T (Ptr t_cuDoubleComplex), N]),
    (t_cublasStatus_t, ''cublasScalEx'', [T t_cublasHandle_t, N, T t_int, N, T (Ptr (Const t_void)), N,
      T t_cudaDataType, N, T (Ptr t_void), N, T t_cudaDataType, N, T t_int, N, T t_cudaDataType, N]),
    (t_cublasStatus_t, ''cublasScalEx_64'', [T t_cublasHandle_t, N, T t_int64_t, N, T (Ptr (Const t_void)), N,
      T t_cudaDataType, N, T (Ptr t_void), N, T t_cudaDataType, N, T t_int64_t, N, T t_cudaDataType, N]),
    (t_cublasStatus_t, ''cublasSscal_v2'', [T t_cublasHandle_t, N, T t_int, N, T (Ptr (Const t_float)), N,
      T (Ptr t_float), N, T t_int, N]),
    (t_cublasStatus_t, ''cublasSscal_v2_64'', [T t_cublasHandle_t, N, T t_int64_t, N, T (Ptr (Const t_float)), N,
      T (Ptr t_float), N, T t_int64_t, N]),
    (t_cublasStatus_t, ''cublasDscal_v2'', [T t_cublasHandle_t, N, T t_int, N, T (Ptr (Const t_double)), N,
      T (Ptr t_double), N, T t_int, N]),
    (t_cublasStatus_t, ''cublasDscal_v2_64'', [T t_cublasHandle_t, N, T t_int64_t, N, T (Ptr (Const t_double)), N,
      T (Ptr t_double), N, T t_int64_t, N]),
    (t_cublasStatus_t, ''cublasCscal_v2'', [T t_cublasHandle_t, N, T t_int, N, T (Ptr (Const t_cuComplex)), N,
      T (Ptr t_cuComplex), N, T t_int, N]),
    (t_cublasStatus_t, ''cublasCscal_v2_64'', [T t_cublasHandle_t, N, T t_int64_t, N, T (Ptr (Const t_cuComplex)),
      N, T (Ptr t_cuComplex), N, T t_int64_t, N]),
    (t_cublasStatus_t, ''cublasCsscal_v2'', [T t_cublasHandle_t, N, T t_int, N, T (Ptr (Const t_float)), N,
      T (Ptr t_cuComplex), N, T t_int, N]),
    (t_cublasStatus_t, ''cublasCsscal_v2_64'', [T t_cublasHandle_t, N, T t_int64_t, N, T (Ptr (Const t_float)), N,
      T (Ptr t_cuComplex), N, T t_int64_t, N]),
    (t_cublasStatus_t, ''cublasZscal_v2'', [T t_cublasHandle_t, N, T t_int, N, T (Ptr (Const t_cuDoubleComplex)), N,
      T (Ptr t_cuDoubleComplex), N, T t_int, N]),
    (t_cublasStatus_t, ''cublasZscal_v2_64'', [T t_cublasHandle_t, N, T t_int64_t, N,
      T (Ptr (Const t_cuDoubleComplex)), N, T (Ptr t_cuDoubleComplex), N, T t_int64_t, N]),
    (t_cublasStatus_t, ''cublasZdscal_v2'', [T t_cublasHandle_t, N, T t_int, N, T (Ptr (Const t_double)), N,
      T (Ptr t_cuDoubleComplex), N, T t_int, N]),
    (t_cublasStatus_t, ''cublasZdscal_v2_64'', [T t_cublasHandle_t, N, T t_int64_t, N, T (Ptr (Const t_double)), N,
      T (Ptr t_cuDoubleComplex), N, T t_int64_t, N]),
    (t_cublasStatus_t, ''cublasAxpyEx'', [T t_cublasHandle_t, N, T t_int, N, T (Ptr (Const t_void)), N,
      T t_cudaDataType, N, T (Ptr (Const t_void)), N, T t_cudaDataType, N, T t_int, N, T (Ptr t_void), N,
      T t_cudaDataType, N, T t_int, N, T t_cudaDataType, N]),
    (t_cublasStatus_t, ''cublasAxpyEx_64'', [T t_cublasHandle_t, N, T t_int64_t, N, T (Ptr (Const t_void)), N,
      T t_cudaDataType, N, T (Ptr (Const t_void)), N, T t_cudaDataType, N, T t_int64_t, N, T (Ptr t_void), N,
      T t_cudaDataType, N, T t_int64_t, N, T t_cudaDataType, N]),
    (t_cublasStatus_t, ''cublasSaxpy_v2'', [T t_cublasHandle_t, N, T t_int, N, T (Ptr (Const t_float)), N,
      T (Ptr (Const t_float)), N, T t_int, N, T (Ptr t_float), N, T t_int, N]),
    (t_cublasStatus_t, ''cublasSaxpy_v2_64'', [Other '''', T t_cublasHandle_t, N, T t_int64_t, N,
      T (Ptr (Const t_float)), N, T (Ptr (Const t_float)), N, T t_int64_t, N, T (Ptr t_float), N, T t_int64_t, N]),
    (t_cublasStatus_t, ''cublasDaxpy_v2'', [T t_cublasHandle_t, N, T t_int, N, T (Ptr (Const t_double)), N,
      T (Ptr (Const t_double)), N, T t_int, N, T (Ptr t_double), N, T t_int, N]),
    (t_cublasStatus_t, ''cublasDaxpy_v2_64'', [Other '''', T t_cublasHandle_t, N, T t_int64_t, N,
      T (Ptr (Const t_double)), N, T (Ptr (Const t_double)), N, T t_int64_t, N, T (Ptr t_double), N, T t_int64_t,
      N]),
    (t_cublasStatus_t, ''cublasCaxpy_v2'', [Other '''', T t_cublasHandle_t, N, T t_int, N,
      T (Ptr (Const t_cuComplex)), N, T (Ptr (Const t_cuComplex)), N, T t_int, N, T (Ptr t_cuComplex), N, T t_int,
      N]),
    (t_cublasStatus_t, ''cublasCaxpy_v2_64'', [T t_cublasHandle_t, N, T t_int64_t, N, T (Ptr (Const t_cuComplex)),
      N, T (Ptr (Const t_cuComplex)), N, T t_int64_t, N, T (Ptr t_cuComplex), N, T t_int64_t, N]),
    (t_cublasStatus_t, ''cublasZaxpy_v2'', [T t_cublasHandle_t, N, T t_int, N, T (Ptr (Const t_cuDoubleComplex)), N,
      T (Ptr (Const t_cuDoubleComplex)), N, T t_int, N, T (Ptr t_cuDoubleComplex), N, T t_int, N]),
    (t_cublasStatus_t, ''cublasZaxpy_v2_64'', [T t_cublasHandle_t, N, T t_int64_t, N,
      T (Ptr (Const t_cuDoubleComplex)), N, T (Ptr (Const t_cuDoubleComplex)), N, T t_int64_t, N,
      T (Ptr t_cuDoubleComplex), N, T t_int64_t, N]),
    (t_cublasStatus_t, ''cublasCopyEx'', [Other '''', T t_cublasHandle_t, N, T t_int, N, T (Ptr (Const t_void)), N,
      T t_cudaDataType, N, T t_int, N, T (Ptr t_void), N, T t_cudaDataType, N, T t_int, N]),
    (t_cublasStatus_t, ''cublasCopyEx_64'', [T t_cublasHandle_t, N, T t_int64_t, N, T (Ptr (Const t_void)), N,
      T t_cudaDataType, N, T t_int64_t, N, T (Ptr t_void), N, T t_cudaDataType, N, T t_int64_t, N]),
    (t_cublasStatus_t, ''cublasScopy_v2'', [T t_cublasHandle_t, N, T t_int, N, T (Ptr (Const t_float)), N, T t_int,
      N, T (Ptr t_float), N, T t_int, N]),
    (t_cublasStatus_t, ''cublasScopy_v2_64'', [T t_cublasHandle_t, N, T t_int64_t, N, T (Ptr (Const t_float)), N,
      T t_int64_t, N, T (Ptr t_float), N, T t_int64_t, N]),
    (t_cublasStatus_t, ''cublasDcopy_v2'', [T t_cublasHandle_t, N, T t_int, N, T (Ptr (Const t_double)), N, T t_int,
      N, T (Ptr t_double), N, T t_int, N]),
    (t_cublasStatus_t, ''cublasDcopy_v2_64'', [T t_cublasHandle_t, N, T t_int64_t, N, T (Ptr (Const t_double)), N,
      T t_int64_t, N, T (Ptr t_double), N, T t_int64_t, N]),
    (t_cublasStatus_t, ''cublasCcopy_v2'', [T t_cublasHandle_t, N, T t_int, N, T (Ptr (Const t_cuComplex)), N,
      T t_int, N, T (Ptr t_cuComplex), N, T t_int, N]),
    (t_cublasStatus_t, ''cublasCcopy_v2_64'', [T t_cublasHandle_t, N, T t_int64_t, N, T (Ptr (Const t_cuComplex)),
      N, T t_int64_t, N, T (Ptr t_cuComplex), N, T t_int64_t, N]),
    (t_cublasStatus_t, ''cublasZcopy_v2'', [T t_cublasHandle_t, N, T t_int, N, T (Ptr (Const t_cuDoubleComplex)), N,
      T t_int, N, T (Ptr t_cuDoubleComplex), N, T t_int, N]),
    (t_cublasStatus_t, ''cublasZcopy_v2_64'', [Other '''', T t_cublasHandle_t, N, T t_int64_t, N,
      T (Ptr (Const t_cuDoubleComplex)), N, T t_int64_t, N, T (Ptr t_cuDoubleComplex), N, T t_int64_t, N]),
    (t_cublasStatus_t, ''cublasSswap_v2'', [T t_cublasHandle_t, N, T t_int, N, T (Ptr t_float), N, T t_int, N,
      T (Ptr t_float), N, T t_int, N]),
    (t_cublasStatus_t, ''cublasSswap_v2_64'', [T t_cublasHandle_t, N, T t_int64_t, N, T (Ptr t_float), N,
      T t_int64_t, N, T (Ptr t_float), N, T t_int64_t, N]),
    (t_cublasStatus_t, ''cublasDswap_v2'', [T t_cublasHandle_t, N, T t_int, N, T (Ptr t_double), N, T t_int, N,
      T (Ptr t_double), N, T t_int, N]),
    (t_cublasStatus_t, ''cublasDswap_v2_64'', [T t_cublasHandle_t, N, T t_int64_t, N, T (Ptr t_double), N,
      T t_int64_t, N, T (Ptr t_double), N, T t_int64_t, N]),
    (t_cublasStatus_t, ''cublasCswap_v2'', [T t_cublasHandle_t, N, T t_int, N, T (Ptr t_cuComplex), N, T t_int, N,
      T (Ptr t_cuComplex), N, T t_int, N]),
    (t_cublasStatus_t, ''cublasCswap_v2_64'', [T t_cublasHandle_t, N, T t_int64_t, N, T (Ptr t_cuComplex), N,
      T t_int64_t, N, T (Ptr t_cuComplex), N, T t_int64_t, N]),
    (t_cublasStatus_t, ''cublasZswap_v2'', [T t_cublasHandle_t, N, T t_int, N, T (Ptr t_cuDoubleComplex), N,
      T t_int, N, T (Ptr t_cuDoubleComplex), N, T t_int, N]),
    (t_cublasStatus_t, ''cublasZswap_v2_64'', [T t_cublasHandle_t, N, T t_int64_t, N, T (Ptr t_cuDoubleComplex), N,
      T t_int64_t, N, T (Ptr t_cuDoubleComplex), N, T t_int64_t, N]),
    (t_cublasStatus_t, ''cublasSwapEx'', [Other '''', T t_cublasHandle_t, N, T t_int, N, T (Ptr t_void), N,
      T t_cudaDataType, N, T t_int, N, T (Ptr t_void), N, T t_cudaDataType, N, T t_int, N]),
    (t_cublasStatus_t, ''cublasSwapEx_64'', [T t_cublasHandle_t, N, T t_int64_t, N, T (Ptr t_void), N,
      T t_cudaDataType, N, T t_int64_t, N, T (Ptr t_void), N, T t_cudaDataType, N, T t_int64_t, N]),
    (t_cublasStatus_t, ''cublasIsamax_v2'', [T t_cublasHandle_t, N, T t_int, N, T (Ptr (Const t_float)), N, T t_int,
      N, T (Ptr t_int), N]),
    (t_cublasStatus_t, ''cublasIsamax_v2_64'', [T t_cublasHandle_t, N, T t_int64_t, N, T (Ptr (Const t_float)), N,
      T t_int64_t, N, T (Ptr t_int64_t), N]),
    (t_cublasStatus_t, ''cublasIdamax_v2'', [T t_cublasHandle_t, N, T t_int, N, T (Ptr (Const t_double)), N,
      T t_int, N, T (Ptr t_int), N]),
    (t_cublasStatus_t, ''cublasIdamax_v2_64'', [T t_cublasHandle_t, N, T t_int64_t, N, T (Ptr (Const t_double)), N,
      T t_int64_t, N, T (Ptr t_int64_t), N]),
    (t_cublasStatus_t, ''cublasIcamax_v2'', [T t_cublasHandle_t, N, T t_int, N, T (Ptr (Const t_cuComplex)), N,
      T t_int, N, T (Ptr t_int), N]),
    (t_cublasStatus_t, ''cublasIcamax_v2_64'', [T t_cublasHandle_t, N, T t_int64_t, N, T (Ptr (Const t_cuComplex)),
      N, T t_int64_t, N, T (Ptr t_int64_t), N]),
    (t_cublasStatus_t, ''cublasIzamax_v2'', [T t_cublasHandle_t, N, T t_int, N, T (Ptr (Const t_cuDoubleComplex)),
      N, T t_int, N, T (Ptr t_int), N]),
    (t_cublasStatus_t, ''cublasIzamax_v2_64'', [T t_cublasHandle_t, N, T t_int64_t, N,
      T (Ptr (Const t_cuDoubleComplex)), N, T t_int64_t, N, T (Ptr t_int64_t), N]),
    (t_cublasStatus_t, ''cublasIamaxEx'', [T t_cublasHandle_t, N, T t_int, N, T (Ptr (Const t_void)), N,
      T t_cudaDataType, N, T t_int, N, T (Ptr t_int), N]),
    (t_cublasStatus_t, ''cublasIamaxEx_64'', [T t_cublasHandle_t, N, T t_int64_t, N, T (Ptr (Const t_void)), N,
      T t_cudaDataType, N, T t_int64_t, N, T (Ptr t_int64_t), N]),
    (t_cublasStatus_t, ''cublasIsamin_v2'', [T t_cublasHandle_t, N, T t_int, N, T (Ptr (Const t_float)), N, T t_int,
      N, T (Ptr t_int), N]),
    (t_cublasStatus_t, ''cublasIsamin_v2_64'', [T t_cublasHandle_t, N, T t_int64_t, N, T (Ptr (Const t_float)), N,
      T t_int64_t, N, T (Ptr t_int64_t), N]),
    (t_cublasStatus_t, ''cublasIdamin_v2'', [T t_cublasHandle_t, N, T t_int, N, T (Ptr (Const t_double)), N,
      T t_int, N, T (Ptr t_int), N]),
    (t_cublasStatus_t, ''cublasIdamin_v2_64'', [T t_cublasHandle_t, N, T t_int64_t, N, T (Ptr (Const t_double)), N,
      T t_int64_t, N, T (Ptr t_int64_t), N]),
    (t_cublasStatus_t, ''cublasIcamin_v2'', [T t_cublasHandle_t, N, T t_int, N, T (Ptr (Const t_cuComplex)), N,
      T t_int, N, T (Ptr t_int), N]),
    (t_cublasStatus_t, ''cublasIcamin_v2_64'', [T t_cublasHandle_t, N, T t_int64_t, N, T (Ptr (Const t_cuComplex)),
      N, T t_int64_t, N, T (Ptr t_int64_t), N]),
    (t_cublasStatus_t, ''cublasIzamin_v2'', [T t_cublasHandle_t, N, T t_int, N, T (Ptr (Const t_cuDoubleComplex)),
      N, T t_int, N, T (Ptr t_int), N]),
    (t_cublasStatus_t, ''cublasIzamin_v2_64'', [T t_cublasHandle_t, N, T t_int64_t, N,
      T (Ptr (Const t_cuDoubleComplex)), N, T t_int64_t, N, T (Ptr t_int64_t), N]),
    (t_cublasStatus_t, ''cublasIaminEx'', [T t_cublasHandle_t, N, T t_int, N, T (Ptr (Const t_void)), N,
      T t_cudaDataType, N, T t_int, N, T (Ptr t_int), N]),
    (t_cublasStatus_t, ''cublasIaminEx_64'', [T t_cublasHandle_t, N, T t_int64_t, N, T (Ptr (Const t_void)), N,
      T t_cudaDataType, N, T t_int64_t, N, T (Ptr t_int64_t), N]),
    (t_cublasStatus_t, ''cublasAsumEx'', [T t_cublasHandle_t, N, T t_int, N, T (Ptr (Const t_void)), N,
      T t_cudaDataType, N, T t_int, N, T (Ptr t_void), N, T t_cudaDataType, N, T t_cudaDataType, N]),
    (t_cublasStatus_t, ''cublasAsumEx_64'', [T t_cublasHandle_t, N, T t_int64_t, N, T (Ptr (Const t_void)), N,
      T t_cudaDataType, N, T t_int64_t, N, T (Ptr t_void), N, T t_cudaDataType, N, T t_cudaDataType, N]),
    (t_cublasStatus_t, ''cublasSasum_v2'', [T t_cublasHandle_t, N, T t_int, N, T (Ptr (Const t_float)), N, T t_int,
      N, T (Ptr t_float), N]),
    (t_cublasStatus_t, ''cublasSasum_v2_64'', [T t_cublasHandle_t, N, T t_int64_t, N, T (Ptr (Const t_float)), N,
      T t_int64_t, N, T (Ptr t_float), N]),
    (t_cublasStatus_t, ''cublasDasum_v2'', [T t_cublasHandle_t, N, T t_int, N, T (Ptr (Const t_double)), N, T t_int,
      N, T (Ptr t_double), N]),
    (t_cublasStatus_t, ''cublasDasum_v2_64'', [T t_cublasHandle_t, N, T t_int64_t, N, T (Ptr (Const t_double)), N,
      T t_int64_t, N, T (Ptr t_double), N]),
    (t_cublasStatus_t, ''cublasScasum_v2'', [T t_cublasHandle_t, N, T t_int, N, T (Ptr (Const t_cuComplex)), N,
      T t_int, N, T (Ptr t_float), N]),
    (t_cublasStatus_t, ''cublasScasum_v2_64'', [T t_cublasHandle_t, N, T t_int64_t, N, T (Ptr (Const t_cuComplex)),
      N, T t_int64_t, N, T (Ptr t_float), N]),
    (t_cublasStatus_t, ''cublasDzasum_v2'', [T t_cublasHandle_t, N, T t_int, N, T (Ptr (Const t_cuDoubleComplex)),
      N, T t_int, N, T (Ptr t_double), N]),
    (t_cublasStatus_t, ''cublasDzasum_v2_64'', [T t_cublasHandle_t, N, T t_int64_t, N,
      T (Ptr (Const t_cuDoubleComplex)), N, T t_int64_t, N, T (Ptr t_double), N]),
    (t_cublasStatus_t, ''cublasSrot_v2'', [T t_cublasHandle_t, N, T t_int, N, T (Ptr t_float), N, T t_int, N,
      T (Ptr t_float), N, T t_int, N, T (Ptr (Const t_float)), N, T (Ptr (Const t_float)), N]),
    (t_cublasStatus_t, ''cublasSrot_v2_64'', [Other '''', T t_cublasHandle_t, N, T t_int64_t, N, T (Ptr t_float), N,
      T t_int64_t, N, T (Ptr t_float), N, T t_int64_t, N, T (Ptr (Const t_float)), N, T (Ptr (Const t_float)), N]),
    (t_cublasStatus_t, ''cublasDrot_v2'', [T t_cublasHandle_t, N, T t_int, N, T (Ptr t_double), N, T t_int, N,
      T (Ptr t_double), N, T t_int, N, T (Ptr (Const t_double)), N, T (Ptr (Const t_double)), N]),
    (t_cublasStatus_t, ''cublasDrot_v2_64'', [T t_cublasHandle_t, N, T t_int64_t, N, T (Ptr t_double), N,
      T t_int64_t, N, T (Ptr t_double), N, T t_int64_t, N, T (Ptr (Const t_double)), N, T (Ptr (Const t_double)),
      N]),
    (t_cublasStatus_t, ''cublasCrot_v2'', [Other '''', T t_cublasHandle_t, N, T t_int, N, T (Ptr t_cuComplex), N,
      T t_int, N, T (Ptr t_cuComplex), N, T t_int, N, T (Ptr (Const t_float)), N, T (Ptr (Const t_cuComplex)), N]),
    (t_cublasStatus_t, ''cublasCrot_v2_64'', [T t_cublasHandle_t, N, T t_int64_t, N, T (Ptr t_cuComplex), N,
      T t_int64_t, N, T (Ptr t_cuComplex), N, T t_int64_t, N, T (Ptr (Const t_float)), N,
      T (Ptr (Const t_cuComplex)), N]),
    (t_cublasStatus_t, ''cublasCsrot_v2'', [Other '''', T t_cublasHandle_t, N, T t_int, N, T (Ptr t_cuComplex), N,
      T t_int, N, T (Ptr t_cuComplex), N, T t_int, N, T (Ptr (Const t_float)), N, T (Ptr (Const t_float)), N]),
    (t_cublasStatus_t, ''cublasCsrot_v2_64'', [T t_cublasHandle_t, N, T t_int64_t, N, T (Ptr t_cuComplex), N,
      T t_int64_t, N, T (Ptr t_cuComplex), N, T t_int64_t, N, T (Ptr (Const t_float)), N, T (Ptr (Const t_float)),
      N]),
    (t_cublasStatus_t, ''cublasZrot_v2'', [T t_cublasHandle_t, N, T t_int, N, T (Ptr t_cuDoubleComplex), N, T t_int,
      N, T (Ptr t_cuDoubleComplex), N, T t_int, N, T (Ptr (Const t_double)), N, T (Ptr (Const t_cuDoubleComplex)),
      N]),
    (t_cublasStatus_t, ''cublasZrot_v2_64'', [T t_cublasHandle_t, N, T t_int64_t, N, T (Ptr t_cuDoubleComplex), N,
      T t_int64_t, N, T (Ptr t_cuDoubleComplex), N, T t_int64_t, N, T (Ptr (Const t_double)), N,
      T (Ptr (Const t_cuDoubleComplex)), N]),
    (t_cublasStatus_t, ''cublasZdrot_v2'', [T t_cublasHandle_t, N, T t_int, N, T (Ptr t_cuDoubleComplex), N,
      T t_int, N, T (Ptr t_cuDoubleComplex), N, T t_int, N, T (Ptr (Const t_double)), N, T (Ptr (Const t_double)),
      N]),
    (t_cublasStatus_t, ''cublasZdrot_v2_64'', [T t_cublasHandle_t, N, T t_int64_t, N, T (Ptr t_cuDoubleComplex), N,
      T t_int64_t, N, T (Ptr t_cuDoubleComplex), N, T t_int64_t, N, T (Ptr (Const t_double)), N,
      T (Ptr (Const t_double)), N]),
    (t_cublasStatus_t, ''cublasRotEx'', [T t_cublasHandle_t, N, T t_int, N, T (Ptr t_void), N, T t_cudaDataType, N,
      T t_int, N, T (Ptr t_void), N, T t_cudaDataType, N, T t_int, N, T (Ptr (Const t_void)), N,
      T (Ptr (Const t_void)), N, T t_cudaDataType, N, T t_cudaDataType, N]),
    (t_cublasStatus_t, ''cublasRotEx_64'', [T t_cublasHandle_t, N, T t_int64_t, N, T (Ptr t_void), N,
      T t_cudaDataType, N, T t_int64_t, N, T (Ptr t_void), N, T t_cudaDataType, N, T t_int64_t, N,
      T (Ptr (Const t_void)), N, T (Ptr (Const t_void)), N, T t_cudaDataType, N, T t_cudaDataType, N]),
    (t_cublasStatus_t, ''cublasSrotg_v2'', [T t_cublasHandle_t, N, T (Ptr t_float), N, T (Ptr t_float), N,
      T (Ptr t_float), N, T (Ptr t_float), N]),
    (t_cublasStatus_t, ''cublasDrotg_v2'', [T t_cublasHandle_t, N, T (Ptr t_double), N, T (Ptr t_double), N,
      T (Ptr t_double), N, T (Ptr t_double), N]),
    (t_cublasStatus_t, ''cublasCrotg_v2'', [T t_cublasHandle_t, N, T (Ptr t_cuComplex), N, T (Ptr t_cuComplex), N,
      T (Ptr t_float), N, T (Ptr t_cuComplex), N]),
    (t_cublasStatus_t, ''cublasZrotg_v2'', [T t_cublasHandle_t, N, T (Ptr t_cuDoubleComplex), N,
      T (Ptr t_cuDoubleComplex), N, T (Ptr t_double), N, T (Ptr t_cuDoubleComplex), N]),
    (t_cublasStatus_t, ''cublasRotgEx'', [T t_cublasHandle_t, N, T (Ptr t_void), N, T (Ptr t_void), N,
      T t_cudaDataType, N, T (Ptr t_void), N, T (Ptr t_void), N, T t_cudaDataType, N, T t_cudaDataType, N]),
    (t_cublasStatus_t, ''cublasSrotm_v2'', [T t_cublasHandle_t, N, T t_int, N, T (Ptr t_float), N, T t_int, N,
      T (Ptr t_float), N, T t_int, N, T (Ptr (Const t_float)), N]),
    (t_cublasStatus_t, ''cublasSrotm_v2_64'', [T t_cublasHandle_t, N, T t_int64_t, N, T (Ptr t_float), N,
      T t_int64_t, N, T (Ptr t_float), N, T t_int64_t, N, T (Ptr (Const t_float)), N]),
    (t_cublasStatus_t, ''cublasDrotm_v2'', [T t_cublasHandle_t, N, T t_int, N, T (Ptr t_double), N, T t_int, N,
      T (Ptr t_double), N, T t_int, N, T (Ptr (Const t_double)), N]),
    (t_cublasStatus_t, ''cublasDrotm_v2_64'', [Other '''', T t_cublasHandle_t, N, T t_int64_t, N, T (Ptr t_double),
      N, T t_int64_t, N, T (Ptr t_double), N, T t_int64_t, N, T (Ptr (Const t_double)), N]),
    (t_cublasStatus_t, ''cublasRotmEx'', [T t_cublasHandle_t, N, T t_int, N, T (Ptr t_void), N, T t_cudaDataType, N,
      T t_int, N, T (Ptr t_void), N, T t_cudaDataType, N, T t_int, N, T (Ptr (Const t_void)), N, T t_cudaDataType,
      N, T t_cudaDataType, N]),
    (t_cublasStatus_t, ''cublasRotmEx_64'', [T t_cublasHandle_t, N, T t_int64_t, N, T (Ptr t_void), N,
      T t_cudaDataType, N, T t_int64_t, N, T (Ptr t_void), N, T t_cudaDataType, N, T t_int64_t, N,
      T (Ptr (Const t_void)), N, T t_cudaDataType, N, T t_cudaDataType, N]),
    (t_cublasStatus_t, ''cublasSrotmg_v2'', [T t_cublasHandle_t, N, T (Ptr t_float), N, T (Ptr t_float), N,
      T (Ptr t_float), N, T (Ptr (Const t_float)), N, T (Ptr t_float), N]),
    (t_cublasStatus_t, ''cublasDrotmg_v2'', [T t_cublasHandle_t, N, T (Ptr t_double), N, T (Ptr t_double), N,
      T (Ptr t_double), N, T (Ptr (Const t_double)), N, T (Ptr t_double), N]),
    (t_cublasStatus_t, ''cublasRotmgEx'', [T t_cublasHandle_t, N, T (Ptr t_void), N, T t_cudaDataType, N,
      T (Ptr t_void), N, T t_cudaDataType, N, T (Ptr t_void), N, T t_cudaDataType, N, T (Ptr (Const t_void)), N,
      T t_cudaDataType, N, T (Ptr t_void), N, T t_cudaDataType, N, T t_cudaDataType, N])]"

definition cublas_wrappers_5 :: "invocation list" where
  "cublas_wrappers_5 = [
    (t_cublasStatus_t, ''cublasSgemv_v2_64'', [T t_cublasHandle_t, N, T t_cublasOperation_t, N, T t_int64_t, N,
      T t_int64_t, N, T (Ptr (Const t_float)), N, T (Ptr (Const t_float)), N, T t_int64_t, N,
      T (Ptr (Const t_float)), N, T t_int64_t, N, T (Ptr (Const t_float)), N, T (Ptr t_float), N, T t_int64_t, N])]"

definition cublas_wrappers_6 :: "invocation list" where
  "cublas_wrappers_6 = [
    (t_cublasStatus_t, ''cublasDgemv_v2_64'', [T t_cublasHandle_t, N, T t_cublasOperation_t, N, T t_int64_t, N,
      T t_int64_t, N, T (Ptr (Const t_double)), N, T (Ptr (Const t_double)), N, T t_int64_t, N,
      T (Ptr (Const t_double)), N, T t_int64_t, N, T (Ptr (Const t_double)), N, T (Ptr t_double), N, T t_int64_t,
      N]),
    (t_cublasStatus_t, ''cublasCgemv_v2'', [T t_cublasHandle_t, N, T t_cublasOperation_t, N, T t_int, N, T t_int, N,
      T (Ptr (Const t_cuComplex)), N, T (Ptr (Const t_cuComplex)), N, T t_int, N, T (Ptr (Const t_cuComplex)), N,
      T t_int, N, T (Ptr (Const t_cuComplex)), N, T (Ptr t_cuComplex), N, T t_int, N]),
    (t_cublasStatus_t, ''cublasCgemv_v2_64'', [T t_cublasHandle_t, N, T t_cublasOperation_t, N, T t_int64_t, N,
      T t_int64_t, N, T (Ptr (Const t_cuComplex)), N, T (Ptr (Const t_cuComplex)), N, T t_int64_t, N,
      T (Ptr (Const t_cuComplex)), N, T t_int64_t, N, T (Ptr (Const t_cuComplex)), N, T (Ptr t_cuComplex), N,
      T t_int64_t, N]),
    (t_cublasStatus_t, ''cublasZgemv_v2'', [T t_cublasHandle_t, N, T t_cublasOperation_t, N, T t_int, N, T t_int, N,
      T (Ptr (Const t_cuDoubleComplex)), N, T (Ptr (Const t_cuDoubleComplex)), N, T t_int, N,
      T (Ptr (Const t_cuDoubleComplex)), N, T t_int, N, T (Ptr (Const t_cuDoubleComplex)), N,
      T (Ptr t_cuDoubleComplex), N, T t_int, N]),
    (t_cublasStatus_t, ''cublasZgemv_v2_64'', [T t_cublasHandle_t, N, T t_cublasOperation_t, N, T t_int64_t, N,
      T t_int64_t, N, T (Ptr (Const t_cuDoubleComplex)), N, T (Ptr (Const t_cuDoubleComplex)), N, T t_int64_t, N,
      T (Ptr (Const t_cuDoubleComplex)), N, T t_int64_t, N, T (Ptr (Const t_cuDoubleComplex)), N,
      T (Ptr t_cuDoubleComplex), N, T t_int64_t, N]),
    (t_cublasStatus_t, ''cublasSgbmv_v2'', [T t_cublasHandle_t, N, T t_cublasOperation_t, N, T t_int, N, T t_int, N,
      T t_int, N, T t_int, N, T (Ptr (Const t_float)), N, T (Ptr (Const t_float)), N, T t_int, N,
      T (Ptr (Const t_float)), N, T t_int, N, T (Ptr (Const t_float)), N, T (Ptr t_float), N, T t_int, N]),
    (t_cublasStatus_t, ''cublasSgbmv_v2_64'', [T t_cublasHandle_t, N, T t_cublasOperation_t, N, T t_int64_t, N,
      T t_int64_t, N, T t_int64_t, N, T t_int64_t, N, T (Ptr (Const t_float)), N, T (Ptr (Const t_float)), N,
      T t_int64_t, N, T (Ptr (Const t_float)), N, T t_int64_t, N, T (Ptr (Const t_float)), N, T (Ptr t_float), N,
      T t_int64_t, N]),
    (t_cublasStatus_t, ''cublasDgbmv_v2'', [T t_cublasHandle_t, N, T t_cublasOperation_t, N, T t_int, N, T t_int, N,
      T t_int, N, T t_int, N, T (Ptr (Const t_double)), N, T (Ptr (Const t_double)), N, T t_int, N,
      T (Ptr (Const t_double)), N, T t_int, N, T (Ptr (Const t_double)), N, T (Ptr t_double), N, T t_int, N]),
    (t_cublasStatus_t, ''cublasDgbmv_v2_64'', [T t_cublasHandle_t, N, T t_cublasOperation_t, N, T t_int64_t, N,
      T t_int64_t, N, T t_int64_t, N, T t_int64_t, N, T (Ptr (Const t_double)), N, T (Ptr (Const t_double)), N,
      T t_int64_t, N, T (Ptr (Const t_double)), N, T t_int64_t, N, T (Ptr (Const t_double)), N, T (Ptr t_double), N,
      T t_int64_t, N]),
    (t_cublasStatus_t, ''cublasCgbmv_v2'', [T t_cublasHandle_t, N, T t_cublasOperation_t, N, T t_int, N, T t_int, N,
      T t_int, N, T t_int, N, T (Ptr (Const t_cuComplex)), N, T (Ptr (Const t_cuComplex)), N, T t_int, N,
      T (Ptr (Const t_cuComplex)), N, T t_int, N, T (Ptr (Const t_cuComplex)), N, T (Ptr t_cuComplex), N, T t_int,
      N]),
    (t_cublasStatus_t, ''cublasCgbmv_v2_64'', [T t_cublasHandle_t, N, T t_cublasOperation_t, N, T t_int64_t, N,
      T t_int64_t, N, T t_int64_t, N, T t_int64_t, N, T (Ptr (Const t_cuComplex)), N, T (Ptr (Const t_cuComplex)),
      N, T t_int64_t, N, T (Ptr (Const t_cuComplex)), N, T t_int64_t, N, T (Ptr (Const t_cuComplex)), N,
      T (Ptr t_cuComplex), N, T t_int64_t, N]),
    (t_cublasStatus_t, ''cublasZgbmv_v2'', [T t_cublasHandle_t, N, T t_cublasOperation_t, N, T t_int, N, T t_int, N,
      T t_int, N, T t_int, N, T (Ptr (Const t_cuDoubleComplex)), N, T (Ptr (Const t_cuDoubleComplex)), N, T t_int,
      N, T (Ptr (Const t_cuDoubleComplex)), N, T t_int, N, T (Ptr (Const t_cuDoubleComplex)), N,
      T (Ptr t_cuDoubleComplex), N, T t_int, N]),
    (t_cublasStatus_t, ''cublasZgbmv_v2_64'', [T t_cublasHandle_t, N, T t_cublasOperation_t, N, T t_int64_t, N,
      T t_int64_t, N, T t_int64_t, N, T t_int64_t, N, T (Ptr (Const t_cuDoubleComplex)), N,
      T (Ptr (Const t_cuDoubleComplex)), N, T t_int64_t, N, T (Ptr (Const t_cuDoubleComplex)), N, T t_int64_t, N,
      T (Ptr (Const t_cuDoubleComplex)), N, T (Ptr t_cuDoubleComplex), N, T t_int64_t, N]),
    (t_cublasStatus_t, ''cublasStrmv_v2'', [T t_cublasHandle_t, N, T t_cublasFillMode_t, N, T t_cublasOperation_t,
      N, T t_cublasDiagType_t, N, T t_int, N, T (Ptr (Const t_float)), N, T t_int, N, T (Ptr t_float), N, T t_int,
      N]),
    (t_cublasStatus_t, ''cublasStrmv_v2_64'', [T t_cublasHandle_t, N, T t_cublasFillMode_t, N,
      T t_cublasOperation_t, N, T t_cublasDiagType_t, N, T t_int64_t, N, T (Ptr (Const t_float)), N, T t_int64_t, N,
      T (Ptr t_float), N, T t_int64_t, N]),
    (t_cublasStatus_t, ''cublasDtrmv_v2'', [T t_cublasHandle_t, N, T t_cublasFillMode_t, N, T t_cublasOperation_t,
      N, T t_cublasDiagType_t, N, T t_int, N, T (Ptr (Const t_double)), N, T t_int, N, T (Ptr t_double), N, T t_int,
      N]),
    (t_cublasStatus_t, ''cublasDtrmv_v2_64'', [T t_cublasHandle_t, N, T t_cublasFillMode_t, N,
      T t_cublasOperation_t, N, T t_cublasDiagType_t, N, T t_int64_t, N, T (Ptr (Const t_double)), N, T t_int64_t,
      N, T (Ptr t_double), N, T t_int64_t, N]),
    (t_cublasStatus_t, ''cublasCtrmv_v2'', [T t_cublasHandle_t, N, T t_cublasFillMode_t, N, T t_cublasOperation_t,
      N, T t_cublasDiagType_t, N, T t_int, N, T (Ptr (Const t_cuComplex)), N, T t_int, N, T (Ptr t_cuComplex), N,
      T t_int, N]),
    (t_cublasStatus_t, ''cublasCtrmv_v2_64'', [T t_cublasHandle_t, N, T t_cublasFillMode_t, N,
      T t_cublasOperation_t, N, T t_cublasDiagType_t, N, T t_int64_t, N, T (Ptr (Const t_cuComplex)), N,
      T t_int64_t, N, T (Ptr t_cuComplex), N, T t_int64_t, N]),
    (t_cublasStatus_t, ''cublasZtrmv_v2'', [T t_cublasHandle_t, N, T t_cublasFillMode_t, N, T t_cublasOperation_t,
      N, T t_cublasDiagType_t, N, T t_int, N, T (Ptr (Const t_cuDoubleComplex)), N, T t_int, N,
      T (Ptr t_cuDoubleComplex), N, T t_int, N]),
    (t_cublasStatus_t, ''cublasZtrmv_v2_64'', [T t_cublasHandle_t, N, T t_cublasFillMode_t, N,
      T t_cublasOperation_t, N, T t_cublasDiagType_t, N, T t_int64_t, N, T (Ptr (Const t_cuDoubleComplex)), N,
      T t_int64_t, N, T (Ptr t_cuDoubleComplex), N, T t_int64_t, N]),
    (t_cublasStatus_t, ''cublasStbmv_v2'', [T t_cublasHandle_t, N, T t_cublasFillMode_t, N, T t_cublasOperation_t,
      N, T t_cublasDiagType_t, N, T t_int, N, T t_int, N, T (Ptr (Const t_float)), N, T t_int, N, T (Ptr t_float),
      N, T t_int, N]),
    (t_cublasStatus_t, ''cublasStbmv_v2_64'', [T t_cublasHandle_t, N, T t_cublasFillMode_t, N,
      T t_cublasOperation_t, N, T t_cublasDiagType_t, N, T t_int64_t, N, T t_int64_t, N, T (Ptr (Const t_float)), N,
      T t_int64_t, N, T (Ptr t_float), N, T t_int64_t, N]),
    (t_cublasStatus_t, ''cublasDtbmv_v2'', [T t_cublasHandle_t, N, T t_cublasFillMode_t, N, T t_cublasOperation_t,
      N, T t_cublasDiagType_t, N, T t_int, N, T t_int, N, T (Ptr (Const t_double)), N, T t_int, N, T (Ptr t_double),
      N, T t_int, N]),
    (t_cublasStatus_t, ''cublasDtbmv_v2_64'', [T t_cublasHandle_t, N, T t_cublasFillMode_t, N,
      T t_cublasOperation_t, N, T t_cublasDiagType_t, N, T t_int64_t, N, T t_int64_t, N, T (Ptr (Const t_double)),
      N, T t_int64_t, N, T (Ptr t_double), N, T t_int64_t, N]),
    (t_cublasStatus_t, ''cublasCtbmv_v2'', [T t_cublasHandle_t, N, T t_cublasFillMode_t, N, T t_cublasOperation_t,
      N, T t_cublasDiagType_t, N, T t_int, N, T t_int, N, T (Ptr (Const t_cuComplex)), N, T t_int, N,
      T (Ptr t_cuComplex), N, T t_int, N]),
    (t_cublasStatus_t, ''cublasCtbmv_v2_64'', [T t_cublasHandle_t, N, T t_cublasFillMode_t, N,
      T t_cublasOperation_t, N, T t_cublasDiagType_t, N, T t_int64_t, N, T t_int64_t, N,
      T (Ptr (Const t_cuComplex)), N, T t_int64_t, N, T (Ptr t_cuComplex), N, T t_int64_t, N]),
    (t_cublasStatus_t, ''cublasZtbmv_v2'', [T t_cublasHandle_t, N, T t_cublasFillMode_t, N, T t_cublasOperation_t,
      N, T t_cublasDiagType_t, N, T t_int, N, T t_int, N, T (Ptr (Const t_cuDoubleComplex)), N, T t_int, N,
      T (Ptr t_cuDoubleComplex), N, T t_int, N]),
    (t_cublasStatus_t, ''cublasZtbmv_v2_64'', [T t_cublasHandle_t, N, T t_cublasFillMode_t, N,
      T t_cublasOperation_t, N, T t_cublasDiagType_t, N, T t_int64_t, N, T t_int64_t, N,
      T (Ptr (Const t_cuDoubleComplex)), N, T t_int64_t, N, T (Ptr t_cuDoubleComplex), N, T t_int64_t, N]),
    (t_cublasStatus_t, ''cublasStpmv_v2'', [T t_cublasHandle_t, N, T t_cublasFillMode_t, N, T t_cublasOperation_t,
      N, T t_cublasDiagType_t, N, T t_int, N, T (Ptr (Const t_float)), N, T (Ptr t_float), N, T t_int, N]),
    (t_cublasStatus_t, ''cublasStpmv_v2_64'', [T t_cublasHandle_t, N, T t_cublasFillMode_t, N,
      T t_cublasOperation_t, N, T t_cublasDiagType_t, N, T t_int64_t, N, T (Ptr (Const t_float)), N,
      T (Ptr t_float), N, T t_int64_t, N]),
    (t_cublasStatus_t, ''cublasDtpmv_v2'', [T t_cublasHandle_t, N, T t_cublasFillMode_t, N, T t_cublasOperation_t,
      N, T t_cublasDiagType_t, N, T t_int, N, T (Ptr (Const t_double)), N, T (Ptr t_double), N, T t_int, N]),
    (t_cublasStatus_t, ''cublasDtpmv_v2_64'', [T t_cublasHandle_t, N, T t_cublasFillMode_t, N,
      T t_cublasOperation_t, N, T t_cublasDiagType_t, N, T t_int64_t, N, T (Ptr (Const t_double)), N,
      T (Ptr t_double), N, T t_int64_t, N]),
    (t_cublasStatus_t, ''cublasCtpmv_v2'', [T t_cublasHandle_t, N, T t_cublasFillMode_t, N, T t_cublasOperation_t,
      N, T t_cublasDiagType_t, N, T t_int, N, T (Ptr (Const t_cuComplex)), N, T (Ptr t_cuComplex), N, T t_int, N]),
    (t_cublasStatus_t, ''cublasCtpmv_v2_64'', [T t_cublasHandle_t, N, T t_cublasFillMode_t, N,
      T t_cublasOperation_t, N, T t_cublasDiagType_t, N, T t_int64_t, N, T (Ptr (Const t_cuComplex)), N,
      T (Ptr t_cuComplex), N, T t_int64_t, N]),
    (t_cublasStatus_t, ''cublasZtpmv_v2'', [T t_cublasHandle_t, N, T t_cublasFillMode_t, N, T t_cublasOperation_t,
      N, T t_cublasDiagType_t, N, T t_int, N, T (Ptr (Const t_cuDoubleComplex)), N, T (Ptr t_cuDoubleComplex), N,
      T t_int, N]),
    (t_cublasStatus_t, ''cublasZtpmv_v2_64'', [T t_cublasHandle_t, N, T t_cublasFillMode_t, N,
      T t_cublasOperation_t, N, T t_cublasDiagType_t, N, T t_int64_t, N, T (Ptr (Const t_cuDoubleComplex)), N,
      T (Ptr t_cuDoubleComplex), N, T t_int64_t, N]),
    (t_cublasStatus_t, ''cublasStrsv_v2'', [T t_cublasHandle_t, N, T t_cublasFillMode_t, N, T t_cublasOperation_t,
      N, T t_cublasDiagType_t, N, T t_int, N, T (Ptr (Const t_float)), N, T t_int, N, T (Ptr t_float), N, T t_int,
      N]),
    (t_cublasStatus_t, ''cublasStrsv_v2_64'', [T t_cublasHandle_t, N, T t_cublasFillMode_t, N,
      T t_cublasOperation_t, N, T t_cublasDiagType_t, N, T t_int64_t, N, T (Ptr (Const t_float)), N, T t_int64_t, N,
      T (Ptr t_float), N, T t_int64_t, N]),
    (t_cublasStatus_t, ''cublasDtrsv_v2'', [T t_cublasHandle_t, N, T t_cublasFillMode_t, N, T t_cublasOperation_t,
      N, T t_cublasDiagType_t, N, T t_int, N, T (Ptr (Const t_double)), N, T t_int, N, T (Ptr t_double), N, T t_int,
      N]),
    (t_cublasStatus_t, ''cublasDtrsv_v2_64'', [T t_cublasHandle_t, N, T t_cublasFillMode_t, N,
      T t_cublasOperation_t, N, T t_cublasDiagType_t, N, T t_int64_t, N, T (Ptr (Const t_double)), N, T t_int64_t,
      N, T (Ptr t_double), N, T t_int64_t, N]),
    (t_cublasStatus_t, ''cublasCtrsv_v2'', [T t_cublasHandle_t, N, T t_cublasFillMode_t, N, T t_cublasOperation_t,
      N, T t_cublasDiagType_t, N, T t_int, N, T (Ptr (Const t_cuComplex)), N, T t_int, N, T (Ptr t_cuComplex), N,
      T t_int, N]),
    (t_cublasStatus_t, ''cublasCtrsv_v2_64'', [T t_cublasHandle_t, N, T t_cublasFillMode_t, N,
      T t_cublasOperation_t, N, T t_cublasDiagType_t, N, T t_int64_t, N, T (Ptr (Const t_cuComplex)), N,
      T t_int64_t, N, T (Ptr t_cuComplex), N, T t_int64_t, N]),
    (t_cublasStatus_t, ''cublasZtrsv_v2'', [T t_cublasHandle_t, N, T t_cublasFillMode_t, N, T t_cublasOperation_t,
      N, T t_cublasDiagType_t, N, T t_int, N, T (Ptr (Const t_cuDoubleComplex)), N, T t_int, N,
      T (Ptr t_cuDoubleComplex), N, T t_int, N]),
    (t_cublasStatus_t, ''cublasZtrsv_v2_64'', [T t_cublasHandle_t, N, T t_cublasFillMode_t, N,
      T t_cublasOperation_t, N, T t_cublasDiagType_t, N, T t_int64_t, N, T (Ptr (Const t_cuDoubleComplex)), N,
      T t_int64_t, N, T (Ptr t_cuDoubleComplex), N, T t_int64_t, N]),
    (t_cublasStatus_t, ''cublasStpsv_v2'', [T t_cublasHandle_t, N, T t_cublasFillMode_t, N, T t_cublasOperation_t,
      N, T t_cublasDiagType_t, N, T t_int, N, T (Ptr (Const t_float)), N, T (Ptr t_float), N, T t_int, N]),
    (t_cublasStatus_t, ''cublasStpsv_v2_64'', [T t_cublasHandle_t, N, T t_cublasFillMode_t, N,
      T t_cublasOperation_t, N, T t_cublasDiagType_t, N, T t_int64_t, N, T (Ptr (Const t_float)), N,
      T (Ptr t_float), N, T t_int64_t, N]),
    (t_cublasStatus_t, ''cublasDtpsv_v2'', [T t_cublasHandle_t, N, T t_cublasFillMode_t, N, T t_cublasOperation_t,
      N, T t_cublasDiagType_t, N, T t_int, N, T (Ptr (Const t_double)), N, T (Ptr t_double), N, T t_int, N]),
    (t_cublasStatus_t, ''cublasDtpsv_v2_64'', [T t_cublasHandle_t, N, T t_cublasFillMode_t, N,
      T t_cublasOperation_t, N, T t_cublasDiagType_t, N, T t_int64_t, N, T (Ptr (Const t_double)), N,
      T (Ptr t_double), N, T t_int64_t, N]),
    (t_cublasStatus_t, ''cublasCtpsv_v2'', [T t_cublasHandle_t, N, T t_cublasFillMode_t, N, T t_cublasOperation_t,
      N, T t_cublasDiagType_t, N, T t_int, N, T (Ptr (Const t_cuComplex)), N, T (Ptr t_cuComplex), N, T t_int, N]),
    (t_cublasStatus_t, ''cublasCtpsv_v2_64'', [T t_cublasHandle_t, N, T t_cublasFillMode_t, N,
      T t_cublasOperation_t, N, T t_cublasDiagType_t, N, T t_int64_t, N, T (Ptr (Const t_cuComplex)), N,
      T (Ptr t_cuComplex), N, T t_int64_t, N]),
    (t_cublasStatus_t, ''cublasZtpsv_v2'', [T t_cublasHandle_t, N, T t_cublasFillMode_t, N, T t_cublasOperation_t,
      N, T t_cublasDiagType_t, N, T t_int, N, T (Ptr (Const t_cuDoubleComplex)), N, T (Ptr t_cuDoubleComplex), N,
      T t_int, N]),
    (t_cublasStatus_t, ''cublasZtpsv_v2_64'', [T t_cublasHandle_t, N, T t_cublasFillMode_t, N,
      T t_cublasOperation_t, N, T t_cublasDiagType_t, N, T t_int64_t, N, T (Ptr (Const t_cuDoubleComplex)), N,
      T (Ptr t_cuDoubleComplex), N, T t_int64_t, N]),
    (t_cublasStatus_t, ''cublasStbsv_v2'', [T t_cublasHandle_t, N, T t_cublasFillMode_t, N, T t_cublasOperation_t,
      N, T t_cublasDiagType_t, N, T t_int, N, T t_int, N, T (Ptr (Const t_float)), N, T t_int, N, T (Ptr t_float),
      N, T t_int, N]),
    (t_cublasStatus_t, ''cublasStbsv_v2_64'', [T t_cublasHandle_t, N, T t_cublasFillMode_t, N,
      T t_cublasOperation_t, N, T t_cublasDiagType_t, N, T t_int64_t, N, T t_int64_t, N, T (Ptr (Const t_float)), N,
      T t_int64_t, N, T (Ptr t_float), N, T t_int64_t, N]),
    (t_cublasStatus_t, ''cublasDtbsv_v2'', [T t_cublasHandle_t, N, T t_cublasFillMode_t, N, T t_cublasOperation_t,
      N, T t_cublasDiagType_t, N, T t_int, N, T t_int, N, T (Ptr (Const t_double)), N, T t_int, N, T (Ptr t_double),
      N, T t_int, N]),
    (t_cublasStatus_t, ''cublasDtbsv_v2_64'', [T t_cublasHandle_t, N, T t_cublasFillMode_t, N,
      T t_cublasOperation_t, N, T t_cublasDiagType_t, N, T t_int64_t, N, T t_int64_t, N, T (Ptr (Const t_double)),
      N, T t_int64_t, N, T (Ptr t_double), N, T t_int64_t, N]),
    (t_cublasStatus_t, ''cublasCtbsv_v2'', [T t_cublasHandle_t, N, T t_cublasFillMode_t, N, T t_cublasOperation_t,
      N, T t_cublasDiagType_t, N, T t_int, N, T t_int, N, T (Ptr (Const t_cuComplex)), N, T t_int, N,
      T (Ptr t_cuComplex), N, T t_int, N]),
    (t_cublasStatus_t, ''cublasCtbsv_v2_64'', [T t_cublasHandle_t, N, T t_cublasFillMode_t, N,
      T t_cublasOperation_t, N, T t_cublasDiagType_t, N, T t_int64_t, N, T t_int64_t, N,
      T (Ptr (Const t_cuComplex)), N, T t_int64_t, N, T (Ptr t_cuComplex), N, T t_int64_t, N]),
    (t_cublasStatus_t, ''cublasZtbsv_v2'', [T t_cublasHandle_t, N, T t_cublasFillMode_t, N, T t_cublasOperation_t,
      N, T t_cublasDiagType_t, N, T t_int, N, T t_int, N, T (Ptr (Const t_cuDoubleComplex)), N, T t_int, N,
      T (Ptr t_cuDoubleComplex), N, T t_int, N]),
    (t_cublasStatus_t, ''cublasZtbsv_v2_64'', [T t_cublasHandle_t, N, T t_cublasFillMode_t, N,
      T t_cublasOperation_t, N, T t_cublasDiagType_t, N, T t_int64_t, N, T t_int64_t, N,
      T (Ptr (Const t_cuDoubleComplex)), N, T t_int64_t, N, T (Ptr t_cuDoubleComplex), N, T t_int64_t, N]),
    (t_cublasStatus_t, ''cublasSsymv_v2'', [T t_cublasHandle_t, N, T t_cublasFillMode_t, N, T t_int, N,
      T (Ptr (Const t_float)), N, T (Ptr (Const t_float)), N, T t_int, N, T (Ptr (Const t_float)), N, T t_int, N,
      T (Ptr (Const t_float)), N, T (Ptr t_float), N, T t_int, N]),
    (t_cublasStatus_t, ''cublasSsymv_v2_64'', [T t_cublasHandle_t, N, T t_cublasFillMode_t, N, T t_int64_t, N,
      T (Ptr (Const t_float)), N, T (Ptr (Const t_float)), N, T t_int64_t, N, T (Ptr (Const t_float)), N,
      T t_int64_t, N, T (Ptr (Const t_float)), N, T (Ptr t_float), N, T t_int64_t, N]),
    (t_cublasStatus_t, ''cublasDsymv_v2'', [T t_cublasHandle_t, N, T t_cublasFillMode_t, N, T t_int, N,
      T (Ptr (Const t_double)), N, T (Ptr (Const t_double)), N, T t_int, N, T (Ptr (Const t_double)), N, T t_int, N,
      T (Ptr (Const t_double)), N, T (Ptr t_double), N, T t_int, N]),
    (t_cublasStatus_t, ''cublasDsymv_v2_64'', [T t_cublasHandle_t, N, T t_cublasFillMode_t, N, T t_int64_t, N,
      T (Ptr (Const t_double)), N, T (Ptr (Const t_double)), N, T t_int64_t, N, T (Ptr (Const t_double)), N,
      T t_int64_t, N, T (Ptr (Const t_double)), N, T (Ptr t_double), N, T t_int64_t, N]),
    (t_cublasStatus_t, ''cublasCsymv_v2'', [T t_cublasHandle_t, N, T t_cublasFillMode_t, N, T t_int, N,
      T (Ptr (Const t_cuComplex)), N, T (Ptr (Const t_cuComplex)), N, T t_int, N, T (Ptr (Const t_cuComplex)), N,
      T t_int, N, T (Ptr (Const t_cuComplex)), N, T (Ptr t_cuComplex), N, T t_int, N]),
    (t_cublasStatus_t, ''cublasCsymv_v2_64'', [T t_cublasHandle_t, N, T t_cublasFillMode_t, N, T t_int64_t, N,
      T (Ptr (Const t_cuComplex)), N, T (Ptr (Const t_cuComplex)), N, T t_int64_t, N, T (Ptr (Const t_cuComplex)),
      N, T t_int64_t, N, T (Ptr (Const t_cuComplex)), N, T (Ptr t_cuComplex), N, T t_int64_t, N]),
    (t_cublasStatus_t, ''cublasZsymv_v2'', [T t_cublasHandle_t, N, T t_cublasFillMode_t, N, T t_int, N,
      T (Ptr (Const t_cuDoubleComplex)), N, T (Ptr (Const t_cuDoubleComplex)), N, T t_int, N,
      T (Ptr (Const t_cuDoubleComplex)), N, T t_int, N, T (Ptr (Const t_cuDoubleComplex)), N,
      T (Ptr t_cuDoubleComplex), N, T t_int, N]),
    (t_cublasStatus_t, ''cublasZsymv_v2_64'', [T t_cublasHandle_t, N, T t_cublasFillMode_t, N, T t_int64_t, N,
      T (Ptr (Const t_cuDoubleComplex)), N, T (Ptr (Const t_cuDoubleComplex)), N, T t_int64_t, N,
      T (Ptr (Const t_cuDoubleComplex)), N, T t_int64_t, N, T (Ptr (Const t_cuDoubleComplex)), N,
      T (Ptr t_cuDoubleComplex), N, T t_int64_t, N]),
    (t_cublasStatus_t, ''cublasChemv_v2'', [T t_cublasHandle_t, N, T t_cublasFillMode_t, N, T t_int, N,
      T (Ptr (Const t_cuComplex)), N, T (Ptr (Const t_cuComplex)), N, T t_int, N, T (Ptr (Const t_cuComplex)), N,
      T t_int, N, T (Ptr (Const t_cuComplex)), N, T (Ptr t_cuComplex), N, T t_int, N]),
    (t_cublasStatus_t, ''cublasChemv_v2_64'', [T t_cublasHandle_t, N, T t_cublasFillMode_t, N, T t_int64_t, N,
      T (Ptr (Const t_cuComplex)), N, T (Ptr (Const t_cuComplex)), N, T t_int64_t, N, T (Ptr (Const t_cuComplex)),
      N, T t_int64_t, N, T (Ptr (Const t_cuComplex)), N, T (Ptr t_cuComplex), N, T t_int64_t, N]),
    (t_cublasStatus_t, ''cublasZhemv_v2'', [T t_cublasHandle_t, N, T t_cublasFillMode_t, N, T t_int, N,
      T (Ptr (Const t_cuDoubleComplex)), N, T (Ptr (Const t_cuDoubleComplex)), N, T t_int, N,
      T (Ptr (Const t_cuDoubleComplex)), N, T t_int, N, T (Ptr (Const t_cuDoubleComplex)), N,
      T (Ptr t_cuDoubleComplex), N, T t_int, N]),
    (t_cublasStatus_t, ''cublasZhemv_v2_64'', [T t_cublasHandle_t, N, T t_cublasFillMode_t, N, T t_int64_t, N,
      T (Ptr (Const t_cuDoubleComplex)), N, T (Ptr (Const t_cuDoubleComplex)), N, T t_int64_t, N,
      T (Ptr (Const t_cuDoubleComplex)), N, T t_int64_t, N, T (Ptr (Const t_cuDoubleComplex)), N,
      T (Ptr t_cuDoubleComplex), N, T t_int64_t, N]),
    (t_cublasStatus_t, ''cublasSsbmv_v2'', [T t_cublasHandle_t, N, T t_cublasFillMode_t, N, T t_int, N, T t_int, N,
      T (Ptr (Const t_float)), N, T (Ptr (Const t_float)), N, T t_int, N, T (Ptr (Const t_float)), N, T t_int, N,
      T (Ptr (Const t_float)), N, T (Ptr t_float), N, T t_int, N]),
    (t_cublasStatus_t, ''cublasSsbmv_v2_64'', [T t_cublasHandle_t, N, T t_cublasFillMode_t, N, T t_int64_t, N,
      T t_int64_t, N, T (Ptr (Const t_float)), N, T (Ptr (Const t_float)), N, T t_int64_t, N,
      T (Ptr (Const t_float)), N, T t_int64_t, N, T (Ptr (Const t_float)), N, T (Ptr t_float), N, T t_int64_t, N]),
    (t_cublasStatus_t, ''cublasDsbmv_v2'', [T t_cublasHandle_t, N, T t_cublasFillMode_t, N, T t_int, N, T t_int, N,
      T (Ptr (Const t_double)), N, T (Ptr (Const t_double)), N, T t_int, N, T (Ptr (Const t_double)), N, T t_int, N,
      T (Ptr (Const t_double)), N, T (Ptr t_double), N, T t_int, N]),
    (t_cublasStatus_t, ''cublasDsbmv_v2_64'', [T t_cublasHandle_t, N, T t_cublasFillMode_t, N, T t_int64_t, N,
      T t_int64_t, N, T (Ptr (Const t_double)), N, T (Ptr (Const t_double)), N, T t_int64_t, N,
      T (Ptr (Const t_double)), N, T t_int64_t, N, T (Ptr (Const t_double)), N, T (Ptr t_double), N, T t_int64_t,
      N]),
    (t_cublasStatus_t, ''cublasChbmv_v2'', [T t_cublasHandle_t, N, T t_cublasFillMode_t, N, T t_int, N, T t_int, N,
      T (Ptr (Const t_cuComplex)), N, T (Ptr (Const t_cuComplex)), N, T t_int, N, T (Ptr (Const t_cuComplex)), N,
      T t_int, N, T (Ptr (Const t_cuComplex)), N, T (Ptr t_cuComplex), N, T t_int, N]),
    (t_cublasStatus_t, ''cublasChbmv_v2_64'', [T t_cublasHandle_t, N, T t_cublasFillMode_t, N, T t_int64_t, N,
      T t_int64_t, N, T (Ptr (Const t_cuComplex)), N, T (Ptr (Const t_cuComplex)), N, T t_int64_t, N,
      T (Ptr (Const t_cuComplex)), N, T t_int64_t, N, T (Ptr (Const t_cuComplex)), N, T (Ptr t_cuComplex), N,
      T t_int64_t, N]),
    (t_cublasStatus_t, ''cublasZhbmv_v2'', [T t_cublasHandle_t, N, T t_cublasFillMode_t, N, T t_int, N, T t_int, N,
      T (Ptr (Const t_cuDoubleComplex)), N, T (Ptr (Const t_cuDoubleComplex)), N, T t_int, N,
      T (Ptr (Const t_cuDoubleComplex)), N, T t_int, N, T (Ptr (Const t_cuDoubleComplex)), N,
      T (Ptr t_cuDoubleComplex), N, T t_int, N]),
    (t_cublasStatus_t, ''cublasZhbmv_v2_64'', [T t_cublasHandle_t, N, T t_cublasFillMode_t, N, T t_int64_t, N,
      T t_int64_t, N, T (Ptr (Const t_cuDoubleComplex)), N, T (Ptr (Const t_cuDoubleComplex)), N, T t_int64_t, N,
      T (Ptr (Const t_cuDoubleComplex)), N, T t_int64_t, N, T (Ptr (Const t_cuDoubleComplex)), N,
      T (Ptr t_cuDoubleComplex), N, T t_int64_t, N]),
    (t_cublasStatus_t, ''cublasSspmv_v2'', [T t_cublasHandle_t, N, T t_cublasFillMode_t, N, T t_int, N,
      T (Ptr (Const t_float)), N, T (Ptr (Const t_float)), N, T (Ptr (Const t_float)), N, T t_int, N,
      T (Ptr (Const t_float)), N, T (Ptr t_float), N, T t_int, N]),
    (t_cublasStatus_t, ''cublasSspmv_v2_64'', [T t_cublasHandle_t, N, T t_cublasFillMode_t, N, T t_int64_t, N,
      T (Ptr (Const t_float)), N, T (Ptr (Const t_float)), N, T (Ptr (Const t_float)), N, T t_int64_t, N,
      T (Ptr (Const t_float)), N, T (Ptr t_float), N, T t_int64_t, N]),
    (t_cublasStatus_t, ''cublasDspmv_v2'', [T t_cublasHandle_t, N, T t_cublasFillMode_t, N, T t_int, N,
      T (Ptr (Const t_double)), N, T (Ptr (Const t_double)), N, T (Ptr (Const t_double)), N, T t_int, N,
      T (Ptr (Const t_double)), N, T (Ptr t_double), N, T t_int, N]),
    (t_cublasStatus_t, ''cublasDspmv_v2_64'', [T t_cublasHandle_t, N, T t_cublasFillMode_t, N, T t_int64_t, N,
      T (Ptr (Const t_double)), N, T (Ptr (Const t_double)), N, T (Ptr (Const t_double)), N, T t_int64_t, N,
      T (Ptr (Const t_double)), N, T (Ptr t_double), N, T t_int64_t, N]),
    (t_cublasStatus_t, ''cublasChpmv_v2'', [T t_cublasHandle_t, N, T t_cublasFillMode_t, N, T t_int, N,
      T (Ptr (Const t_cuComplex)), N, T (Ptr (Const t_cuComplex)), N, T (Ptr (Const t_cuComplex)), N, T t_int, N,
      T (Ptr (Const t_cuComplex)), N, T (Ptr t_cuComplex), N, T t_int, N]),
    (t_cublasStatus_t, ''cublasChpmv_v2_64'', [T t_cublasHandle_t, N, T t_cublasFillMode_t, N, T t_int64_t, N,
      T (Ptr (Const t_cuComplex)), N, T (Ptr (Const t_cuComplex)), N, T (Ptr (Const t_cuComplex)), N, T t_int64_t,
      N, T (Ptr (Const t_cuComplex)), N, T (Ptr t_cuComplex), N, T t_int64_t, N]),
    (t_cublasStatus_t, ''cublasZhpmv_v2'', [T t_cublasHandle_t, N, T t_cublasFillMode_t, N, T t_int, N,
      T (Ptr (Const t_cuDoubleComplex)), N, T (Ptr (Const t_cuDoubleComplex)), N, T (Ptr (Const t_cuDoubleComplex)),
      N, T t_int, N, T (Ptr (Const t_cuDoubleComplex)), N, T (Ptr t_cuDoubleComplex), N, T t_int, N]),
    (t_cublasStatus_t, ''cublasZhpmv_v2_64'', [T t_cublasHandle_t, N, T t_cublasFillMode_t, N, T t_int64_t, N,
      T (Ptr (Const t_cuDoubleComplex)), N, T (Ptr (Const t_cuDoubleComplex)), N, T (Ptr (Const t_cuDoubleComplex)),
      N, T t_int64_t, N, T (Ptr (Const t_cuDoubleComplex)), N, T (Ptr t_cuDoubleComplex), N, T t_int64_t, N]),
    (t_cublasStatus_t, ''cublasSger_v2'', [T t_cublasHandle_t, N, T t_int, N, T t_int, N, T (Ptr (Const t_float)),
      N, T (Ptr (Const t_float)), N, T t_int, N, T (Ptr (Const t_float)), N, T t_int, N, T (Ptr t_float), N,
      T t_int, N]),
    (t_cublasStatus_t, ''cublasSger_v2_64'', [T t_cublasHandle_t, N, T t_int64_t, N, T t_int64_t, N,
      T (Ptr (Const t_float)), N, T (Ptr (Const t_float)), N, T t_int64_t, N, T (Ptr (Const t_float)), N,
      T t_int64_t, N, T (Ptr t_float), N, T t_int64_t, N]),
    (t_cublasStatus_t, ''cublasDger_v2'', [T t_cublasHandle_t, N, T t_int, N, T t_int, N, T (Ptr (Const t_double)),
      N, T (Ptr (Const t_double)), N, T t_int, N, T (Ptr (Const t_double)), N, T t_int, N, T (Ptr t_double), N,
      T t_int, N]),
    (t_cublasStatus_t, ''cublasDger_v2_64'', [T t_cublasHandle_t, N, T t_int64_t, N, T t_int64_t, N,
      T (Ptr (Const t_double)), N, T (Ptr (Const t_double)), N, T t_int64_t, N, T (Ptr (Const t_double)), N,
      T t_int64_t, N, T (Ptr t_double), N, T t_int64_t, N]),
    (t_cublasStatus_t, ''cublasCgeru_v2'', [T t_cublasHandle_t, N, T t_int, N, T t_int, N,
      T (Ptr (Const t_cuComplex)), N, T (Ptr (Const t_cuComplex)), N, T t_int, N, T (Ptr (Const t_cuComplex)), N,
      T t_int, N, T (Ptr t_cuComplex), N, T t_int, N]),
    (t_cublasStatus_t, ''cublasCgeru_v2_64'', [T t_cublasHandle_t, N, T t_int64_t, N, T t_int64_t, N,
      T (Ptr (Const t_cuComplex)), N, T (Ptr (Const t_cuComplex)), N, T t_int64_t, N, T (Ptr (Const t_cuComplex)),
      N, T t_int64_t, N, T (Ptr t_cuComplex), N, T t_int64_t, N]),
    (t_cublasStatus_t, ''cublasCgerc_v2'', [T t_cublasHandle_t, N, T t_int, N, T t_int, N,
      T (Ptr (Const t_cuComplex)), N, T (Ptr (Const t_cuComplex)), N, T t_int, N, T (Ptr (Const t_cuComplex)), N,
      T t_int, N, T (Ptr t_cuComplex), N, T t_int, N]),
    (t_cublasStatus_t, ''cublasCgerc_v2_64'', [T t_cublasHandle_t, N, T t_int64_t, N, T t_int64_t, N,
      T (Ptr (Const t_cuComplex)), N, T (Ptr (Const t_cuComplex)), N, T t_int64_t, N, T (Ptr (Const t_cuComplex)),
      N, T t_int64_t, N, T (Ptr t_cuComplex), N, T t_int64_t, N]),
    (t_cublasStatus_t, ''cublasZgeru_v2'', [T t_cublasHandle_t, N, T t_int, N, T t_int, N,
      T (Ptr (Const t_cuDoubleComplex)), N, T (Ptr (Const t_cuDoubleComplex)), N, T t_int, N,
      T (Ptr (Const t_cuDoubleComplex)), N, T t_int, N, T (Ptr t_cuDoubleComplex), N, T t_int, N]),
    (t_cublasStatus_t, ''cublasZgeru_v2_64'', [T t_cublasHandle_t, N, T t_int64_t, N, T t_int64_t, N,
      T (Ptr (Const t_cuDoubleComplex)), N, T (Ptr (Const t_cuDoubleComplex)), N, T t_int64_t, N,
      T (Ptr (Const t_cuDoubleComplex)), N, T t_int64_t, N, T (Ptr t_cuDoubleComplex), N, T t_int64_t, N]),
    (t_cublasStatus_t, ''cublasZgerc_v2'', [T t_cublasHandle_t, N, T t_int, N, T t_int, N,
      T (Ptr (Const t_cuDoubleComplex)), N, T (Ptr (Const t_cuDoubleComplex)), N, T t_int, N,
      T (Ptr (Const t_cuDoubleComplex)), N, T t_int, N, T (Ptr t_cuDoubleComplex), N, T t_int, N]),
    (t_cublasStatus_t, ''cublasZgerc_v2_64'', [T t_cublasHandle_t, N, T t_int64_t, N, T t_int64_t, N,
      T (Ptr (Const t_cuDoubleComplex)), N, T (Ptr (Const t_cuDoubleComplex)), N, T t_int64_t, N,
      T (Ptr (Const t_cuDoubleComplex)), N, T t_int64_t, N, T (Ptr t_cuDoubleComplex), N, T t_int64_t, N]),
    (t_cublasStatus_t, ''cublasSsyr_v2'', [T t_cublasHandle_t, N, T t_cublasFillMode_t, N, T t_int, N,
      T (Ptr (Const t_float)), N, T (Ptr (Const t_float)), N, T t_int, N, T (Ptr t_float), N, T t_int, N]),
    (t_cublasStatus_t, ''cublasSsyr_v2_64'', [T t_cublasHandle_t, N, T t_cublasFillMode_t, N, T t_int64_t, N,
      T (Ptr (Const t_float)), N, T (Ptr (Const t_float)), N, T t_int64_t, N, T (Ptr t_float), N, T t_int64_t, N]),
    (t_cublasStatus_t, ''cublasDsyr_v2'', [T t_cublasHandle_t, N, T t_cublasFillMode_t, N, T t_int, N,
      T (Ptr (Const t_double)), N, T (Ptr (Const t_double)), N, T t_int, N, T (Ptr t_double), N, T t_int, N]),
    (t_cublasStatus_t, ''cublasDsyr_v2_64'', [T t_cublasHandle_t, N, T t_cublasFillMode_t, N, T t_int64_t, N,
      T (Ptr (Const t_double)), N, T (Ptr (Const t_double)), N, T t_int64_t, N, T (Ptr t_double), N, T t_int64_t,
      N]),
    (t_cublasStatus_t, ''cublasCsyr_v2'', [T t_cublasHandle_t, N, T t_cublasFillMode_t, N, T t_int, N,
      T (Ptr (Const t_cuComplex)), N, T (Ptr (Const t_cuComplex)), N, T t_int, N, T (Ptr t_cuComplex), N, T t_int,
      N]),
    (t_cublasStatus_t, ''cublasCsyr_v2_64'', [T t_cublasHandle_t, N, T t_cublasFillMode_t, N, T t_int64_t, N,
      T (Ptr (Const t_cuComplex)), N, T (Ptr (Const t_cuComplex)), N, T t_int64_t, N, T (Ptr t_cuComplex), N,
      T t_int64_t, N]),
    (t_cublasStatus_t, ''cublasZsyr_v2'', [T t_cublasHandle_t, N, T t_cublasFillMode_t, N, T t_int, N,
      T (Ptr (Const t_cuDoubleComplex)), N, T (Ptr (Const t_cuDoubleComplex)), N, T t_int, N,
      T (Ptr t_cuDoubleComplex), N, T t_int, N]),
    (t_cublasStatus_t, ''cublasZsyr_v2_64'', [T t_cublasHandle_t, N, T t_cublasFillMode_t, N, T t_int64_t, N,
      T (Ptr (Const t_cuDoubleComplex)), N, T (Ptr (Const t_cuDoubleComplex)), N, T t_int64_t, N,
      T (Ptr t_cuDoubleComplex), N, T t_int64_t, N]),
    (t_cublasStatus_t, ''cublasCher_v2'', [T t_cublasHandle_t, N, T t_cublasFillMode_t, N, T t_int, N,
      T (Ptr (Const t_float)), N, T (Ptr (Const t_cuComplex)), N, T t_int, N, T (Ptr t_cuComplex), N, T t_int, N]),
    (t_cublasStatus_t, ''cublasCher_v2_64'', [T t_cublasHandle_t, N, T t_cublasFillMode_t, N, T t_int64_t, N,
      T (Ptr (Const t_float)), N, T (Ptr (Const t_cuComplex)), N, T t_int64_t, N, T (Ptr t_cuComplex), N,
      T t_int64_t, N]),
    (t_cublasStatus_t, ''cublasZher_v2'', [T t_cublasHandle_t, N, T t_cublasFillMode_t, N, T t_int, N,
      T (Ptr (Const t_double)), N, T (Ptr (Const t_cuDoubleComplex)), N, T t_int, N, T (Ptr t_cuDoubleComplex), N,
      T t_int, N]),
    (t_cublasStatus_t, ''cublasZher_v2_64'', [T t_cublasHandle_t, N, T t_cublasFillMode_t, N, T t_int64_t, N,
      T (Ptr (Const t_double)), N, T (Ptr (Const t_cuDoubleComplex)), N, T t_int64_t, N, T (Ptr t_cuDoubleComplex),
      N, T t_int64_t, N]),
    (t_cublasStatus_t, ''cublasSspr_v2'', [Other '''', T t_cublasHandle_t, N, T t_cublasFillMode_t, N, T t_int, N,
      T (Ptr (Const t_float)), N, T (Ptr (Const t_float)), N, T t_int, N, T (Ptr t_float), N]),
    (t_cublasStatus_t, ''cublasSspr_v2_64'', [T t_cublasHandle_t, N, T t_cublasFillMode_t, N, T t_int64_t, N,
      T (Ptr (Const t_float)), N, T (Ptr (Const t_float)), N, T t_int64_t, N, T (Ptr t_float), N]),
    (t_cublasStatus_t, ''cublasDspr_v2'', [Other '''', T t_cublasHandle_t, N, T t_cublasFillMode_t, N, T t_int, N,
      T (Ptr (Const t_double)), N, T (Ptr (Const t_double)), N, T t_int, N, T (Ptr t_double), N]),
    (t_cublasStatus_t, ''cublasDspr_v2_64'', [T t_cublasHandle_t, N, T t_cublasFillMode_t, N, T t_int64_t, N,
      T (Ptr (Const t_double)), N, T (Ptr (Const t_double)), N, T t_int64_t, N, T (Ptr t_double), N]),
    (t_cublasStatus_t, ''cublasChpr_v2'', [T t_cublasHandle_t, N, T t_cublasFillMode_t, N, T t_int, N,
      T (Ptr (Const t_float)), N, T (Ptr (Const t_cuComplex)), N, T t_int, N, T (Ptr t_cuComplex), N]),
    (t_cublasStatus_t, ''cublasChpr_v2_64'', [T t_cublasHandle_t, N, T t_cublasFillMode_t, N, T t_int64_t, N,
      T (Ptr (Const t_float)), N, T (Ptr (Const t_cuComplex)), N, T t_int64_t, N, T (Ptr t_cuComplex), N]),
    (t_cublasStatus_t, ''cublasZhpr_v2'', [T t_cublasHandle_t, N, T t_cublasFillMode_t, N, T t_int, N,
      T (Ptr (Const t_double)), N, T (Ptr (Const t_cuDoubleComplex)), N, T t_int, N, T (Ptr t_cuDoubleComplex), N]),
    (t_cublasStatus_t, ''cublasZhpr_v2_64'', [T t_cublasHandle_t, N, T t_cublasFillMode_t, N, T t_int64_t, N,
      T (Ptr (Const t_double)), N, T (Ptr (Const t_cuDoubleComplex)), N, T t_int64_t, N, T (Ptr t_cuDoubleComplex),
      N]),
    (t_cublasStatus_t, ''cublasSsyr2_v2'', [T t_cublasHandle_t, N, T t_cublasFillMode_t, N, T t_int, N,
      T (Ptr (Const t_float)), N, T (Ptr (Const t_float)), N, T t_int, N, T (Ptr (Const t_float)), N, T t_int, N,
      T (Ptr t_float), N, T t_int, N]),
    (t_cublasStatus_t, ''cublasSsyr2_v2_64'', [T t_cublasHandle_t, N, T t_cublasFillMode_t, N, T t_int64_t, N,
      T (Ptr (Const t_float)), N, T (Ptr (Const t_float)), N, T t_int64_t, N, T (Ptr (Const t_float)), N,
      T t_int64_t, N, T (Ptr t_float), N, T t_int64_t, N]),
    (t_cublasStatus_t, ''cublasDsyr2_v2'', [T t_cublasHandle_t, N, T t_cublasFillMode_t, N, T t_int, N,
      T (Ptr (Const t_double)), N, T (Ptr (Const t_double)), N, T t_int, N, T (Ptr (Const t_double)), N, T t_int, N,
      T (Ptr t_double), N, T t_int, N]),
    (t_cublasStatus_t, ''cublasDsyr2_v2_64'', [T t_cublasHandle_t, N, T t_cublasFillMode_t, N, T t_int64_t, N,
      T (Ptr (Const t_double)), N, T (Ptr (Const t_double)), N, T t_int64_t, N, T (Ptr (Const t_double)), N,
      T t_int64_t, N, T (Ptr t_double), N, T t_int64_t, N]),
    (t_cublasStatus_t, ''cublasCsyr2_v2'', [T t_cublasHandle_t, N, T t_cublasFillMode_t, N, T t_int, N,
      T (Ptr (Const t_cuComplex)), N, T (Ptr (Const t_cuComplex)), N, T t_int, N, T (Ptr (Const t_cuComplex)), N,
      T t_int, N, T (Ptr t_cuComplex), N, T t_int, N]),
    (t_cublasStatus_t, ''cublasCsyr2_v2_64'', [T t_cublasHandle_t, N, T t_cublasFillMode_t, N, T t_int64_t, N,
      T (Ptr (Const t_cuComplex)), N, T (Ptr (Const t_cuComplex)), N, T t_int64_t, N, T (Ptr (Const t_cuComplex)),
      N, T t_int64_t, N, T (Ptr t_cuComplex), N, T t_int64_t, N]),
    (t_cublasStatus_t, ''cublasZsyr2_v2'', [T t_cublasHandle_t, N, T t_cublasFillMode_t, N, T t_int, N,
      T (Ptr (Const t_cuDoubleComplex)), N, T (Ptr (Const t_cuDoubleComplex)), N, T t_int, N,
      T (Ptr (Const t_cuDoubleComplex)), N, T t_int, N, T (Ptr t_cuDoubleComplex), N, T t_int, N]),
    (t_cublasStatus_t, ''cublasZsyr2_v2_64'', [T t_cublasHandle_t, N, T t_cublasFillMode_t, N, T t_int64_t, N,
      T (Ptr (Const t_cuDoubleComplex)), N, T (Ptr (Const t_cuDoubleComplex)), N, T t_int64_t, N,
      T (Ptr (Const t_cuDoubleComplex)), N, T t_int64_t, N, T (Ptr t_cuDoubleComplex), N, T t_int64_t, N]),
    (t_cublasStatus_t, ''cublasCher2_v2'', [T t_cublasHandle_t, N, T t_cublasFillMode_t, N, T t_int, N,
      T (Ptr (Const t_cuComplex)), N, T (Ptr (Const t_cuComplex)), N, T t_int, N, T (Ptr (Const t_cuComplex)), N,
      T t_int, N, T (Ptr t_cuComplex), N, T t_int, N]),
    (t_cublasStatus_t, ''cublasCher2_v2_64'', [T t_cublasHandle_t, N, T t_cublasFillMode_t, N, T t_int64_t, N,
      T (Ptr (Const t_cuComplex)), N, T (Ptr (Const t_cuComplex)), N, T t_int64_t, N, T (Ptr (Const t_cuComplex)),
      N, T t_int64_t, N, T (Ptr t_cuComplex), N, T t_int64_t, N]),
    (t_cublasStatus_t, ''cublasZher2_v2'', [T t_cublasHandle_t, N, T t_cublasFillMode_t, N, T t_int, N,
      T (Ptr (Const t_cuDoubleComplex)), N, T (Ptr (Const t_cuDoubleComplex)), N, T t_int, N,
      T (Ptr (Const t_cuDoubleComplex)), N, T t_int, N, T (Ptr t_cuDoubleComplex), N, T t_int, N]),
    (t_cublasStatus_t, ''cublasZher2_v2_64'', [T t_cublasHandle_t, N, T t_cublasFillMode_t, N, T t_int64_t, N,
      T (Ptr (Const t_cuDoubleComplex)), N, T (Ptr (Const t_cuDoubleComplex)), N, T t_int64_t, N,
      T (Ptr (Const t_cuDoubleComplex)), N, T t_int64_t, N, T (Ptr t_cuDoubleComplex), N, T t_int64_t, N]),
    (t_cublasStatus_t, ''cublasSspr2_v2'', [T t_cublasHandle_t, N, T t_cublasFillMode_t, N, T t_int, N,
      T (Ptr (Const t_float)), N, T (Ptr (Const t_float)), N, T t_int, N, T (Ptr (Const t_float)), N, T t_int, N,
      T (Ptr t_float), N]),
    (t_cublasStatus_t, ''cublasSspr2_v2_64'', [T t_cublasHandle_t, N, T t_cublasFillMode_t, N, T t_int64_t, N,
      T (Ptr (Const t_float)), N, T (Ptr (Const t_float)), N, T t_int64_t, N, T (Ptr (Const t_float)), N,
      T t_int64_t, N, T (Ptr t_float), N]),
    (t_cublasStatus_t, ''cublasDspr2_v2'', [T t_cublasHandle_t, N, T t_cublasFillMode_t, N, T t_int, N,
      T (Ptr (Const t_double)), N, T (Ptr (Const t_double)), N, T t_int, N, T (Ptr (Const t_double)), N, T t_int, N,
      T (Ptr t_double), N]),
    (t_cublasStatus_t, ''cublasDspr2_v2_64'', [T t_cublasHandle_t, N, T t_cublasFillMode_t, N, T t_int64_t, N,
      T (Ptr (Const t_double)), N, T (Ptr (Const t_double)), N, T t_int64_t, N, T (Ptr (Const t_double)), N,
      T t_int64_t, N, T (Ptr t_double), N]),
    (t_cublasStatus_t, ''cublasChpr2_v2'', [T t_cublasHandle_t, N, T t_cublasFillMode_t, N, T t_int, N,
      T (Ptr (Const t_cuComplex)), N, T (Ptr (Const t_cuComplex)), N, T t_int, N, T (Ptr (Const t_cuComplex)), N,
      T t_int, N, T (Ptr t_cuComplex), N]),
    (t_cublasStatus_t, ''cublasChpr2_v2_64'', [T t_cublasHandle_t, N, T t_cublasFillMode_t, N, T t_int64_t, N,
      T (Ptr (Const t_cuComplex)), N, T (Ptr (Const t_cuComplex)), N, T t_int64_t, N, T (Ptr (Const t_cuComplex)),
      N, T t_int64_t, N, T (Ptr t_cuComplex), N]),
    (t_cublasStatus_t, ''cublasZhpr2_v2'', [T t_cublasHandle_t, N, T t_cublasFillMode_t, N, T t_int, N,
      T (Ptr (Const t_cuDoubleComplex)), N, T (Ptr (Const t_cuDoubleComplex)), N, T t_int, N,
      T (Ptr (Const t_cuDoubleComplex)), N, T t_int, N, T (Ptr t_cuDoubleComplex), N]),
    (t_cublasStatus_t, ''cublasZhpr2_v2_64'', [T t_cublasHandle_t, N, T t_cublasFillMode_t, N, T t_int64_t, N,
      T (Ptr (Const t_cuDoubleComplex)), N, T (Ptr (Const t_cuDoubleComplex)), N, T t_int64_t, N,
      T (Ptr (Const t_cuDoubleComplex)), N, T t_int64_t, N, T (Ptr t_cuDoubleComplex), N]),
    (t_cublasStatus_t, ''cublasSgemvBatched'', [T t_cublasHandle_t, N, T t_cublasOperation_t, N, T t_int, N,
      T t_int, N, T (Ptr (Const t_float)), N, T (Ptr (Const (Ptr (Const t_float)))), N, T t_int, N,
      T (Ptr (Const (Ptr (Const t_float)))), N, T t_int, N, T (Ptr (Const t_float)), N,
      T (Ptr (Const (Ptr t_float))), N, T t_int, N, T t_int, N]),
    (t_cublasStatus_t, ''cublasSgemvBatched_64'', [T t_cublasHandle_t, N, T t_cublasOperation_t, N, T t_int64_t, N,
      T t_int64_t, N, T (Ptr (Const t_float)), N, T (Ptr (Const (Ptr (Const t_float)))), N, T t_int64_t, N,
      T (Ptr (Const (Ptr (Const t_float)))), N, T t_int64_t, N, T (Ptr (Const t_float)), N,
      T (Ptr (Const (Ptr t_float))), N, T t_int64_t, N, T t_int64_t, N]),
    (t_cublasStatus_t, ''cublasDgemvBatched'', [T t_cublasHandle_t, N, T t_cublasOperation_t, N, T t_int, N,
      T t_int, N, T (Ptr (Const t_double)), N, T (Ptr (Const (Ptr (Const t_double)))), N, T t_int, N,
      T (Ptr (Const (Ptr (Const t_double)))), N, T t_int, N, T (Ptr (Const t_double)), N,
      T (Ptr (Const (Ptr t_double))), N, T t_int, N, T t_int, N]),
    (t_cublasStatus_t, ''cublasDgemvBatched_64'', [T t_cublasHandle_t, N, T t_cublasOperation_t, N, T t_int64_t, N,
      T t_int64_t, N, T (Ptr (Const t_double)), N, T (Ptr (Const (Ptr (Const t_double)))), N, T t_int64_t, N,
      T (Ptr (Const (Ptr (Const t_double)))), N, T t_int64_t, N, T (Ptr (Const t_double)), N,
      T (Ptr (Const (Ptr t_double))), N, T t_int64_t, N, T t_int64_t, N]),
    (t_cublasStatus_t, ''cublasCgemvBatched'', [T t_cublasHandle_t, N, T t_cublasOperation_t, N, T t_int, N,
      T t_int, N, T (Ptr (Const t_cuComplex)), N, T (Ptr (Const (Ptr (Const t_cuComplex)))), N, T t_int, N,
      T (Ptr (Const (Ptr (Const t_cuComplex)))), N, T t_int, N, T (Ptr (Const t_cuComplex)), N,
      T (Ptr (Const (Ptr t_cuComplex))), N, T t_int, N, T t_int, N]),
    (t_cublasStatus_t, ''cublasCgemvBatched_64'', [T t_cublasHandle_t, N, T t_cublasOperation_t, N, T t_int64_t, N,
      T t_int64_t, N, T (Ptr (Const t_cuComplex)), N, T (Ptr (Const (Ptr (Const t_cuComplex)))), N, T t_int64_t, N,
      T (Ptr (Const (Ptr (Const t_cuComplex)))), N, T t_int64_t, N, T (Ptr (Const t_cuComplex)), N,
      T (Ptr (Const (Ptr t_cuComplex))), N, T t_int64_t, N, T t_int64_t, N]),
    (t_cublasStatus_t, ''cublasZgemvBatched'', [T t_cublasHandle_t, N, T t_cublasOperation_t, N, T t_int, N,
      T t_int, N, T (Ptr (Const t_cuDoubleComplex)), N, T (Ptr (Const (Ptr (Const t_cuDoubleComplex)))), N, T t_int,
      N, T (Ptr (Const (Ptr (Const t_cuDoubleComplex)))), N, T t_int, N, T (Ptr (Const t_cuDoubleComplex)), N,
      T (Ptr (Const (Ptr t_cuDoubleComplex))), N, T t_int, N, T t_int, N]),
    (t_cublasStatus_t, ''cublasZgemvBatched_64'', [T t_cublasHandle_t, N, T t_cublasOperation_t, N, T t_int64_t, N,
      T t_int64_t, N, T (Ptr (Const t_cuDoubleComplex)), N, T (Ptr (Const (Ptr (Const t_cuDoubleComplex)))), N,
      T t_int64_t, N, T (Ptr (Const (Ptr (Const t_cuDoubleComplex)))), N, T t_int64_t, N,
      T (Ptr (Const t_cuDoubleComplex)), N, T (Ptr (Const (Ptr t_cuDoubleComplex))), N, T t_int64_t, N, T t_int64_t,
      N]),
    (t_cublasStatus_t, ''cublasSgemvStridedBatched'', [T t_cublasHandle_t, N, T t_cublasOperation_t, N, T t_int, N,
      T t_int, N, T (Ptr (Const t_float)), N, T (Ptr (Const t_float)), N, T t_int, N, T t_long_long_int, N,
      T (Ptr (Const t_float)), N, T t_int, N, T t_long_long_int, N, T (Ptr (Const t_float)), N, T (Ptr t_float), N,
      T t_int, N, T t_long_long_int, N, T t_int, N])]"

definition cublas_wrappers_7 :: "invocation list" where
  "cublas_wrappers_7 = [
    (t_cublasStatus_t, ''cublasSgemvStridedBatched_64'', [T t_cublasHandle_t, N, T t_cublasOperation_t, N,
      T t_int64_t, N, T t_int64_t, N, T (Ptr (Const t_float)), N, T (Ptr (Const t_float)), N, T t_int64_t, N,
      T t_long_long_int, N, T (Ptr (Const t_float)), N, T t_int64_t, N, T t_long_long_int, N,
      T (Ptr (Const t_float)), N, T (Ptr t_float), N, T t_int64_t, N, T t_long_long_int, N, T t_int64_t, N]),
    (t_cublasStatus_t, ''cublasDgemvStridedBatched'', [T t_cublasHandle_t, N, T t_cublasOperation_t, N, T t_int, N,
      T t_int, N, T (Ptr (Const t_double)), N, T (Ptr (Const t_double)), N, T t_int, N, T t_long_long_int, N,
      T (Ptr (Const t_double)), N, T t_int, N, T t_long_long_int, N, T (Ptr (Const t_double)), N, T (Ptr t_double),
      N, T t_int, N, T t_long_long_int, N, T t_int, N]),
    (t_cublasStatus_t, ''cublasDgemvStridedBatched_64'', [T t_cublasHandle_t, N, T t_cublasOperation_t, N,
      T t_int64_t, N, T t_int64_t, N, T (Ptr (Const t_double)), N, T (Ptr (Const t_double)), N, T t_int64_t, N,
      T t_long_long_int, N, T (Ptr (Const t_double)), N, T t_int64_t, N, T t_long_long_int, N,
      T (Ptr (Const t_double)), N, T (Ptr t_double), N, T t_int64_t, N, T t_long_long_int, N, T t_int64_t, N]),
    (t_cublasStatus_t, ''cublasCgemvStridedBatched'', [T t_cublasHandle_t, N, T t_cublasOperation_t, N, T t_int, N,
      T t_int, N, T (Ptr (Const t_cuComplex)), N, T (Ptr (Const t_cuComplex)), N, T t_int, N, T t_long_long_int, N,
      T (Ptr (Const t_cuComplex)), N, T t_int, N, T t_long_long_int, N, T (Ptr (Const t_cuComplex)), N,
      T (Ptr t_cuComplex), N, T t_int, N, T t_long_long_int, N, T t_int, N]),
    (t_cublasStatus_t, ''cublasCgemvStridedBatched_64'', [T t_cublasHandle_t, N, T t_cublasOperation_t, N,
      T t_int64_t, N, T t_int64_t, N, T (Ptr (Const t_cuComplex)), N, T (Ptr (Const t_cuComplex)), N, T t_int64_t,
      N, T t_long_long_int, N, T (Ptr (Const t_cuComplex)), N, T t_int64_t, N, T t_long_long_int, N,
      T (Ptr (Const t_cuComplex)), N, T (Ptr t_cuComplex), N, T t_int64_t, N, T t_long_long_int, N, T t_int64_t,
      N]),
    (t_cublasStatus_t, ''cublasZgemvStridedBatched'', [T t_cublasHandle_t, N, T t_cublasOperation_t, N, T t_int, N,
      T t_int, N, T (Ptr (Const t_cuDoubleComplex)), N, T (Ptr (Const t_cuDoubleComplex)), N, T t_int, N,
      T t_long_long_int, N, T (Ptr (Const t_cuDoubleComplex)), N, T t_int, N, T t_long_long_int, N,
      T (Ptr (Const t_cuDoubleComplex)), N, T (Ptr t_cuDoubleComplex), N, T t_int, N, T t_long_long_int, N, T t_int,
      N]),
    (t_cublasStatus_t, ''cublasZgemvStridedBatched_64'', [T t_cublasHandle_t, N, T t_cublasOperation_t, N,
      T t_int64_t, N, T t_int64_t, N, T (Ptr (Const t_cuDoubleComplex)), N, T (Ptr (Const t_cuDoubleComplex)), N,
      T t_int64_t, N, T t_long_long_int, N, T (Ptr (Const t_cuDoubleComplex)), N, T t_int64_t, N, T t_long_long_int,
      N, T (Ptr (Const t_cuDoubleComplex)), N, T (Ptr t_cuDoubleComplex), N, T t_int64_t, N, T t_long_long_int, N,
      T t_int64_t, N])]"

definition cublas_wrappers_8 :: "invocation list" where
  "cublas_wrappers_8 = [
    (t_cublasStatus_t, ''cublasSgemm_v2_64'', [T t_cublasHandle_t, N, T t_cublasOperation_t, N,
      T t_cublasOperation_t, N, T t_int64_t, N, T t_int64_t, N, T t_int64_t, N, T (Ptr (Const t_float)), N,
      T (Ptr (Const t_float)), N, T t_int64_t, N, T (Ptr (Const t_float)), N, T t_int64_t, N,
      T (Ptr (Const t_float)), N, T (Ptr t_float), N, T t_int64_t, N])]"

definition cublas_wrappers_9 :: "invocation list" where
  "cublas_wrappers_9 = [
    (t_cublasStatus_t, ''cublasDgemm_v2_64'', [T t_cublasHandle_t, N, T t_cublasOperation_t, N,
      T t_cublasOperation_t, N, T t_int64_t, N, T t_int64_t, N, T t_int64_t, N, T (Ptr (Const t_double)), N,
      T (Ptr (Const t_double)), N, T t_int64_t, N, T (Ptr (Const t_double)), N, T t_int64_t, N,
      T (Ptr (Const t_double)), N, T (Ptr t_double), N, T t_int64_t, N]),
    (t_cublasStatus_t, ''cublasCgemm_v2'', [T t_cublasHandle_t, N, T t_cublasOperation_t, N, T t_cublasOperation_t,
      N, T t_int, N, T t_int, N, T t_int, N, T (Ptr (Const t_cuComplex)), N, T (Ptr (Const t_cuComplex)), N,
      T t_int, N, T (Ptr (Const t_cuComplex)), N, T t_int, N, T (Ptr (Const t_cuComplex)), N, T (Ptr t_cuComplex),
      N, T t_int, N]),
    (t_cublasStatus_t, ''cublasCgemm_v2_64'', [T t_cublasHandle_t, N, T t_cublasOperation_t, N,
      T t_cublasOperation_t, N, T t_int64_t, N, T t_int64_t, N, T t_int64_t, N, T (Ptr (Const t_cuComplex)), N,
      T (Ptr (Const t_cuComplex)), N, T t_int64_t, N, T (Ptr (Const t_cuComplex)), N, T t_int64_t, N,
      T (Ptr (Const t_cuComplex)), N, T (Ptr t_cuComplex), N, T t_int64_t, N]),
    (t_cublasStatus_t, ''cublasCgemm3m'', [T t_cublasHandle_t, N, T t_cublasOperation_t, N, T t_cublasOperation_t,
      N, T t_int, N, T t_int, N, T t_int, N, T (Ptr (Const t_cuComplex)), N, T (Ptr (Const t_cuComplex)), N,
      T t_int, N, T (Ptr (Const t_cuComplex)), N, T t_int, N, T (Ptr (Const t_cuComplex)), N, T (Ptr t_cuComplex),
      N, T t_int, N]),
    (t_cublasStatus_t, ''cublasCgemm3m_64'', [T t_cublasHandle_t, N, T t_cublasOperation_t, N,
      T t_cublasOperation_t, N, T t_int64_t, N, T t_int64_t, N, T t_int64_t, N, T (Ptr (Const t_cuComplex)), N,
      T (Ptr (Const t_cuComplex)), N, T t_int64_t, N, T (Ptr (Const t_cuComplex)), N, T t_int64_t, N,
      T (Ptr (Const t_cuComplex)), N, T (Ptr t_cuComplex), N, T t_int64_t, N]),
    (t_cublasStatus_t, ''cublasCgemm3mEx'', [T t_cublasHandle_t, N, T t_cublasOperation_t, N, T t_cublasOperation_t,
      N, T t_int, N, T t_int, N, T t_int, N, T (Ptr (Const t_cuComplex)), N, T (Ptr (Const t_void)), N,
      T t_cudaDataType, N, T t_int, N, T (Ptr (Const t_void)), N, T t_cudaDataType, N, T t_int, N,
      T (Ptr (Const t_cuComplex)), N, T (Ptr t_void), N, T t_cudaDataType, N, T t_int, N]),
    (t_cublasStatus_t, ''cublasCgemm3mEx_64'', [T t_cublasHandle_t, N, T t_cublasOperation_t, N,
      T t_cublasOperation_t, N, T t_int64_t, N, T t_int64_t, N, T t_int64_t, N, T (Ptr (Const t_cuComplex)), N,
      T (Ptr (Const t_void)), N, T t_cudaDataType, N, T t_int64_t, N, T (Ptr (Const t_void)), N, T t_cudaDataType,
      N, T t_int64_t, N, T (Ptr (Const t_cuComplex)), N, T (Ptr t_void), N, T t_cudaDataType, N, T t_int64_t, N]),
    (t_cublasStatus_t, ''cublasZgemm_v2'', [T t_cublasHandle_t, N, T t_cublasOperation_t, N, T t_cublasOperation_t,
      N, T t_int, N, T t_int, N, T t_int, N, T (Ptr (Const t_cuDoubleComplex)), N,
      T (Ptr (Const t_cuDoubleComplex)), N, T t_int, N, T (Ptr (Const t_cuDoubleComplex)), N, T t_int, N,
      T (Ptr (Const t_cuDoubleComplex)), N, T (Ptr t_cuDoubleComplex), N, T t_int, N]),
    (t_cublasStatus_t, ''cublasZgemm_v2_64'', [T t_cublasHandle_t, N, T t_cublasOperation_t, N,
      T t_cublasOperation_t, N, T t_int64_t, N, T t_int64_t, N, T t_int64_t, N, T (Ptr (Const t_cuDoubleComplex)),
      N, T (Ptr (Const t_cuDoubleComplex)), N, T t_int64_t, N, T (Ptr (Const t_cuDoubleComplex)), N, T t_int64_t, N,
      T (Ptr (Const t_cuDoubleComplex)), N, T (Ptr t_cuDoubleComplex), N, T t_int64_t, N]),
    (t_cublasStatus_t, ''cublasZgemm3m'', [T t_cublasHandle_t, N, T t_cublasOperation_t, N, T t_cublasOperation_t,
      N, T t_int, N, T t_int, N, T t_int, N, T (Ptr (Const t_cuDoubleComplex)), N,
      T (Ptr (Const t_cuDoubleComplex)), N, T t_int, N, T (Ptr (Const t_cuDoubleComplex)), N, T t_int, N,
      T (Ptr (Const t_cuDoubleComplex)), N, T (Ptr t_cuDoubleComplex), N, T t_int, N]),
    (t_cublasStatus_t, ''cublasZgemm3m_64'', [T t_cublasHandle_t, N, T t_cublasOperation_t, N,
      T t_cublasOperation_t, N, T t_int64_t, N, T t_int64_t, N, T t_int64_t, N, T (Ptr (Const t_cuDoubleComplex)),
      N, T (Ptr (Const t_cuDoubleComplex)), N, T t_int64_t, N, T (Ptr (Const t_cuDoubleComplex)), N, T t_int64_t, N,
      T (Ptr (Const t_cuDoubleComplex)), N, T (Ptr t_cuDoubleComplex), N, T t_int64_t, N])]"

definition cublas_wrappers_10 :: "invocation list" where
  "cublas_wrappers_10 = [
    (t_cublasStatus_t, ''cublasSgemmEx_64'', [T t_cublasHandle_t, N, T t_cublasOperation_t, N,
      T t_cublasOperation_t, N, T t_int64_t, N, T t_int64_t, N, T t_int64_t, N, T (Ptr (Const t_float)), N,
      T (Ptr (Const t_void)), N, T t_cudaDataType, N, T t_int64_t, N, T (Ptr (Const t_void)), N, T t_cudaDataType,
      N, T t_int64_t, N, T (Ptr (Const t_float)), N, T (Ptr t_void), N, T t_cudaDataType, N, T t_int64_t, N]),
    (t_cublasStatus_t, ''cublasGemmEx_64'', [T t_cublasHandle_t, N, T t_cublasOperation_t, N, T t_cublasOperation_t,
      N, T t_int64_t, N, T t_int64_t, N, T t_int64_t, N, T (Ptr (Const t_void)), N, T (Ptr (Const t_void)), N,
      T t_cudaDataType, N, T t_int64_t, N, T (Ptr (Const t_void)), N, T t_cudaDataType, N, T t_int64_t, N,
      T (Ptr (Const t_void)), N, T (Ptr t_void), N, T t_cudaDataType, N, T t_int64_t, N, T t_cublasComputeType_t, N,
      T t_cublasGemmAlgo_t, N]),
    (t_cublasStatus_t, ''cublasCgemmEx'', [T t_cublasHandle_t, N, T t_cublasOperation_t, N, T t_cublasOperation_t,
      N, T t_int, N, T t_int, N, T t_int, N, T (Ptr (Const t_cuComplex)), N, T (Ptr (Const t_void)), N,
      T t_cudaDataType, N, T t_int, N, T (Ptr (Const t_void)), N, T t_cudaDataType, N, T t_int, N,
      T (Ptr (Const t_cuComplex)), N, T (Ptr t_void), N, T t_cudaDataType, N, T t_int, N]),
    (t_cublasStatus_t, ''cublasCgemmEx_64'', [T t_cublasHandle_t, N, T t_cublasOperation_t, N,
      T t_cublasOperation_t, N, T t_int64_t, N, T t_int64_t, N, T t_int64_t, N, T (Ptr (Const t_cuComplex)), N,
      T (Ptr (Const t_void)), N, T t_cudaDataType, N, T t_int64_t, N, T (Ptr (Const t_void)), N, T t_cudaDataType,
      N, T t_int64_t, N, T (Ptr (Const t_cuComplex)), N, T (Ptr t_void), N, T t_cudaDataType, N, T t_int64_t, N]),
    (t_cublasStatus_t, ''cublasSsyrk_v2'', [T t_cublasHandle_t, N, T t_cublasFillMode_t, N, T t_cublasOperation_t,
      N, T t_int, N, T t_int, N, T (Ptr (Const t_float)), N, T (Ptr (Const t_float)), N, T t_int, N,
      T (Ptr (Const t_float)), N, T (Ptr t_float), N, T t_int, N]),
    (t_cublasStatus_t, ''cublasSsyrk_v2_64'', [T t_cublasHandle_t, N, T t_cublasFillMode_t, N,
      T t_cublasOperation_t, N, T t_int64_t, N, T t_int64_t, N, T (Ptr (Const t_float)), N, T (Ptr (Const t_float)),
      N, T t_int64_t, N, T (Ptr (Const t_float)), N, T (Ptr t_float), N, T t_int64_t, N]),
    (t_cublasStatus_t, ''cublasDsyrk_v2'', [T t_cublasHandle_t, N, T t_cublasFillMode_t, N, T t_cublasOperation_t,
      N, T t_int, N, T t_int, N, T (Ptr (Const t_double)), N, T (Ptr (Const t_double)), N, T t_int, N,
      T (Ptr (Const t_double)), N, T (Ptr t_double), N, T t_int, N]),
    (t_cublasStatus_t, ''cublasDsyrk_v2_64'', [T t_cublasHandle_t, N, T t_cublasFillMode_t, N,
      T t_cublasOperation_t, N, T t_int64_t, N, T t_int64_t, N, T (Ptr (Const t_double)), N,
      T (Ptr (Const t_double)), N, T t_int64_t, N, T (Ptr (Const t_double)), N, T (Ptr t_double), N, T t_int64_t,
      N]),
    (t_cublasStatus_t, ''cublasCsyrk_v2'', [T t_cublasHandle_t, N, T t_cublasFillMode_t, N, T t_cublasOperation_t,
      N, T t_int, N, T t_int, N, T (Ptr (Const t_cuComplex)), N, T (Ptr (Const t_cuComplex)), N, T t_int, N,
      T (Ptr (Const t_cuComplex)), N, T (Ptr t_cuComplex), N, T t_int, N]),
    (t_cublasStatus_t, ''cublasCsyrk_v2_64'', [T t_cublasHandle_t, N, T t_cublasFillMode_t, N,
      T t_cublasOperation_t, N, T t_int64_t, N, T t_int64_t, N, T (Ptr (Const t_cuComplex)), N,
      T (Ptr (Const t_cuComplex)), N, T t_int64_t, N, T (Ptr (Const t_cuComplex)), N, T (Ptr t_cuComplex), N,
      T t_int64_t, N]),
    (t_cublasStatus_t, ''cublasZsyrk_v2'', [T t_cublasHandle_t, N, T t_cublasFillMode_t, N, T t_cublasOperation_t,
      N, T t_int, N, T t_int, N, T (Ptr (Const t_cuDoubleComplex)), N, T (Ptr (Const t_cuDoubleComplex)), N,
      T t_int, N, T (Ptr (Const t_cuDoubleComplex)), N, T (Ptr t_cuDoubleComplex), N, T t_int, N]),
    (t_cublasStatus_t, ''cublasZsyrk_v2_64'', [T t_cublasHandle_t, N, T t_cublasFillMode_t, N,
      T t_cublasOperation_t, N, T t_int64_t, N, T t_int64_t, N, T (Ptr (Const t_cuDoubleComplex)), N,
      T (Ptr (Const t_cuDoubleComplex)), N, T t_int64_t, N, T (Ptr (Const t_cuDoubleComplex)), N,
      T (Ptr t_cuDoubleComplex), N, T t_int64_t, N]),
    (t_cublasStatus_t, ''cublasCsyrkEx'', [T t_cublasHandle_t, N, T t_cublasFillMode_t, N, T t_cublasOperation_t, N,
      T t_int, N, T t_int, N, T (Ptr (Const t_cuComplex)), N, T (Ptr (Const t_void)), N, T t_cudaDataType, N,
      T t_int, N, T (Ptr (Const t_cuComplex)), N, T (Ptr t_void), N, T t_cudaDataType, N, T t_int, N]),
    (t_cublasStatus_t, ''cublasCsyrkEx_64'', [T t_cublasHandle_t, N, T t_cublasFillMode_t, N, T t_cublasOperation_t,
      N, T t_int64_t, N, T t_int64_t, N, T (Ptr (Const t_cuComplex)), N, T (Ptr (Const t_void)), N,
      T t_cudaDataType, N, T t_int64_t, N, T (Ptr (Const t_cuComplex)), N, T (Ptr t_void), N, T t_cudaDataType, N,
      T t_int64_t, N]),
    (t_cublasStatus_t, ''cublasCsyrk3mEx'', [T t_cublasHandle_t, N, T t_cublasFillMode_t, N, T t_cublasOperation_t,
      N, T t_int, N, T t_int, N, T (Ptr (Const t_cuComplex)), N, T (Ptr (Const t_void)), N, T t_cudaDataType, N,
      T t_int, N, T (Ptr (Const t_cuComplex)), N, T (Ptr t_void), N, T t_cudaDataType, N, T t_int, N]),
    (t_cublasStatus_t, ''cublasCsyrk3mEx_64'', [T t_cublasHandle_t, N, T t_cublasFillMode_t, N,
      T t_cublasOperation_t, N, T t_int64_t, N, T t_int64_t, N, T (Ptr (Const t_cuComplex)), N,
      T (Ptr (Const t_void)), N, T t_cudaDataType, N, T t_int64_t, N, T (Ptr (Const t_cuComplex)), N,
      T (Ptr t_void), N, T t_cudaDataType, N, T t_int64_t, N]),
    (t_cublasStatus_t, ''cublasCherk_v2'', [T t_cublasHandle_t, N, T t_cublasFillMode_t, N, T t_cublasOperation_t,
      N, T t_int, N, T t_int, N, T (Ptr (Const t_float)), N, T (Ptr (Const t_cuComplex)), N, T t_int, N,
      T (Ptr (Const t_float)), N, T (Ptr t_cuComplex), N, T t_int, N]),
    (t_cublasStatus_t, ''cublasCherk_v2_64'', [T t_cublasHandle_t, N, T t_cublasFillMode_t, N,
      T t_cublasOperation_t, N, T t_int64_t, N, T t_int64_t, N, T (Ptr (Const t_float)), N,
      T (Ptr (Const t_cuComplex)), N, T t_int64_t, N, T (Ptr (Const t_float)), N, T (Ptr t_cuComplex), N,
      T t_int64_t, N]),
    (t_cublasStatus_t, ''cublasZherk_v2'', [T t_cublasHandle_t, N, T t_cublasFillMode_t, N, T t_cublasOperation_t,
      N, T t_int, N, T t_int, N, T (Ptr (Const t_double)), N, T (Ptr (Const t_cuDoubleComplex)), N, T t_int, N,
      T (Ptr (Const t_double)), N, T (Ptr t_cuDoubleComplex), N, T t_int, N]),
    (t_cublasStatus_t, ''cublasZherk_v2_64'', [T t_cublasHandle_t, N, T t_cublasFillMode_t, N,
      T t_cublasOperation_t, N, T t_int64_t, N, T t_int64_t, N, T (Ptr (Const t_double)), N,
      T (Ptr (Const t_cuDoubleComplex)), N, T t_int64_t, N, T (Ptr (Const t_double)), N, T (Ptr t_cuDoubleComplex),
      N, T t_int64_t, N]),
    (t_cublasStatus_t, ''cublasCherkEx'', [T t_cublasHandle_t, N, T t_cublasFillMode_t, N, T t_cublasOperation_t, N,
      T t_int, N, T t_int, N, T (Ptr (Const t_float)), N, T (Ptr (Const t_void)), N, T t_cudaDataType, N, T t_int,
      N, T (Ptr (Const t_float)), N, T (Ptr t_void), N, T t_cudaDataType, N, T t_int, N]),
    (t_cublasStatus_t, ''cublasCherkEx_64'', [T t_cublasHandle_t, N, T t_cublasFillMode_t, N, T t_cublasOperation_t,
      N, T t_int64_t, N, T t_int64_t, N, T (Ptr (Const t_float)), N, T (Ptr (Const t_void)), N, T t_cudaDataType, N,
      T t_int64_t, N, T (Ptr (Const t_float)), N, T (Ptr t_void), N, T t_cudaDataType, N, T t_int64_t, N]),
    (t_cublasStatus_t, ''cublasCherk3mEx'', [T t_cublasHandle_t, N, T t_cublasFillMode_t, N, T t_cublasOperation_t,
      N, T t_int, N, T t_int, N, T (Ptr (Const t_float)), N, T (Ptr (Const t_void)), N, T t_cudaDataType, N,
      T t_int, N, T (Ptr (Const t_float)), N, T (Ptr t_void), N, T t_cudaDataType, N, T t_int, N]),
    (t_cublasStatus_t, ''cublasCherk3mEx_64'', [T t_cublasHandle_t, N, T t_cublasFillMode_t, N,
      T t_cublasOperation_t, N, T t_int64_t, N, T t_int64_t, N, T (Ptr (Const t_float)), N, T (Ptr (Const t_void)),
      N, T t_cudaDataType, N, T t_int64_t, N, T (Ptr (Const t_float)), N, T (Ptr t_void), N, T t_cudaDataType, N,
      T t_int64_t, N]),
    (t_cublasStatus_t, ''cublasSsyr2k_v2'', [T t_cublasHandle_t, N, T t_cublasFillMode_t, N, T t_cublasOperation_t,
      N, T t_int, N, T t_int, N, T (Ptr (Const t_float)), N, T (Ptr (Const t_float)), N, T t_int, N,
      T (Ptr (Const t_float)), N, T t_int, N, T (Ptr (Const t_float)), N, T (Ptr t_float), N, T t_int, N]),
    (t_cublasStatus_t, ''cublasSsyr2k_v2_64'', [T t_cublasHandle_t, N, T t_cublasFillMode_t, N,
      T t_cublasOperation_t, N, T t_int64_t, N, T t_int64_t, N, T (Ptr (Const t_float)), N, T (Ptr (Const t_float)),
      N, T t_int64_t, N, T (Ptr (Const t_float)), N, T t_int64_t, N, T (Ptr (Const t_float)), N, T (Ptr t_float), N,
      T t_int64_t, N]),
    (t_cublasStatus_t, ''cublasDsyr2k_v2'', [T t_cublasHandle_t, N, T t_cublasFillMode_t, N, T t_cublasOperation_t,
      N, T t_int, N, T t_int, N, T (Ptr (Const t_double)), N, T (Ptr (Const t_double)), N, T t_int, N,
      T (Ptr (Const t_double)), N, T t_int, N, T (Ptr (Const t_double)), N, T (Ptr t_double), N, T t_int, N]),
    (t_cublasStatus_t, ''cublasDsyr2k_v2_64'', [T t_cublasHandle_t, N, T t_cublasFillMode_t, N,
      T t_cublasOperation_t, N, T t_int64_t, N, T t_int64_t, N, T (Ptr (Const t_double)), N,
      T (Ptr (Const t_double)), N, T t_int64_t, N, T (Ptr (Const t_double)), N, T t_int64_t, N,
      T (Ptr (Const t_double)), N, T (Ptr t_double), N, T t_int64_t, N]),
    (t_cublasStatus_t, ''cublasCsyr2k_v2'', [T t_cublasHandle_t, N, T t_cublasFillMode_t, N, T t_cublasOperation_t,
      N, T t_int, N, T t_int, N, T (Ptr (Const t_cuComplex)), N, T (Ptr (Const t_cuComplex)), N, T t_int, N,
      T (Ptr (Const t_cuComplex)), N, T t_int, N, T (Ptr (Const t_cuComplex)), N, T (Ptr t_cuComplex), N, T t_int,
      N]),
    (t_cublasStatus_t, ''cublasCsyr2k_v2_64'', [T t_cublasHandle_t, N, T t_cublasFillMode_t, N,
      T t_cublasOperation_t, N, T t_int64_t, N, T t_int64_t, N, T (Ptr (Const t_cuComplex)), N,
      T (Ptr (Const t_cuComplex)), N, T t_int64_t, N, T (Ptr (Const t_cuComplex)), N, T t_int64_t, N,
      T (Ptr (Const t_cuComplex)), N, T (Ptr t_cuComplex), N, T t_int64_t, N]),
    (t_cublasStatus_t, ''cublasZsyr2k_v2'', [T t_cublasHandle_t, N, T t_cublasFillMode_t, N, T t_cublasOperation_t,
      N, T t_int, N, T t_int, N, T (Ptr (Const t_cuDoubleComplex)), N, T (Ptr (Const t_cuDoubleComplex)), N,
      T t_int, N, T (Ptr (Const t_cuDoubleComplex)), N, T t_int, N, T (Ptr (Const t_cuDoubleComplex)), N,
      T (Ptr t_cuDoubleComplex), N, T t_int, N]),
    (t_cublasStatus_t, ''cublasZsyr2k_v2_64'', [T t_cublasHandle_t, N, T t_cublasFillMode_t, N,
      T t_cublasOperation_t, N, T t_int64_t, N, T t_int64_t, N, T (Ptr (Const t_cuDoubleComplex)), N,
      T (Ptr (Const t_cuDoubleComplex)), N, T t_int64_t, N, T (Ptr (Const t_cuDoubleComplex)), N, T t_int64_t, N,
      T (Ptr (Const t_cuDoubleComplex)), N, T (Ptr t_cuDoubleComplex), N, T t_int64_t, N]),
    (t_cublasStatus_t, ''cublasCher2k_v2'', [T t_cublasHandle_t, N, T t_cublasFillMode_t, N, T t_cublasOperation_t,
      N, T t_int, N, T t_int, N, T (Ptr (Const t_cuComplex)), N, T (Ptr (Const t_cuComplex)), N, T t_int, N,
      T (Ptr (Const t_cuComplex)), N, T t_int, N, T (Ptr (Const t_float)), N, T (Ptr t_cuComplex), N, T t_int, N]),
    (t_cublasStatus_t, ''cublasCher2k_v2_64'', [T t_cublasHandle_t, N, T t_cublasFillMode_t, N,
      T t_cublasOperation_t, N, T t_int64_t, N, T t_int64_t, N, T (Ptr (Const t_cuComplex)), N,
      T (Ptr (Const t_cuComplex)), N, T t_int64_t, N, T (Ptr (Const t_cuComplex)), N, T t_int64_t, N,
      T (Ptr (Const t_float)), N, T (Ptr t_cuComplex), N, T t_int64_t, N]),
    (t_cublasStatus_t, ''cublasZher2k_v2'', [T t_cublasHandle_t, N, T t_cublasFillMode_t, N, T t_cublasOperation_t,
      N, T t_int, N, T t_int, N, T (Ptr (Const t_cuDoubleComplex)), N, T (Ptr (Const t_cuDoubleComplex)), N,
      T t_int, N, T (Ptr (Const t_cuDoubleComplex)), N, T t_int, N, T (Ptr (Const t_double)), N,
      T (Ptr t_cuDoubleComplex), N, T t_int, N]),
    (t_cublasStatus_t, ''cublasZher2k_v2_64'', [T t_cublasHandle_t, N, T t_cublasFillMode_t, N,
      T t_cublasOperation_t, N, T t_int64_t, N, T t_int64_t, N, T (Ptr (Const t_cuDoubleComplex)), N,
      T (Ptr (Const t_cuDoubleComplex)), N, T t_int64_t, N, T (Ptr (Const t_cuDoubleComplex)), N, T t_int64_t, N,
      T (Ptr (Const t_double)), N, T (Ptr t_cuDoubleComplex), N, T t_int64_t, N]),
    (t_cublasStatus_t, ''cublasSsyrkx'', [T t_cublasHandle_t, N, T t_cublasFillMode_t, N, T t_cublasOperation_t, N,
      T t_int, N, T t_int, N, T (Ptr (Const t_float)), N, T (Ptr (Const t_float)), N, T t_int, N,
      T (Ptr (Const t_float)), N, T t_int, N, T (Ptr (Const t_float)), N, T (Ptr t_float), N, T t_int, N]),
    (t_cublasStatus_t, ''cublasSsyrkx_64'', [T t_cublasHandle_t, N, T t_cublasFillMode_t, N, T t_cublasOperation_t,
      N, T t_int64_t, N, T t_int64_t, N, T (Ptr (Const t_float)), N, T (Ptr (Const t_float)), N, T t_int64_t, N,
      T (Ptr (Const t_float)), N, T t_int64_t, N, T (Ptr (Const t_float)), N, T (Ptr t_float), N, T t_int64_t, N]),
    (t_cublasStatus_t, ''cublasDsyrkx'', [T t_cublasHandle_t, N, T t_cublasFillMode_t, N, T t_cublasOperation_t, N,
      T t_int, N, T t_int, N, T (Ptr (Const t_double)), N, T (Ptr (Const t_double)), N, T t_int, N,
      T (Ptr (Const t_double)), N, T t_int, N, T (Ptr (Const t_double)), N, T (Ptr t_double), N, T t_int, N]),
    (t_cublasStatus_t, ''cublasDsyrkx_64'', [T t_cublasHandle_t, N, T t_cublasFillMode_t, N, T t_cublasOperation_t,
      N, T t_int64_t, N, T t_int64_t, N, T (Ptr (Const t_double)), N, T (Ptr (Const t_double)), N, T t_int64_t, N,
      T (Ptr (Const t_double)), N, T t_int64_t, N, T (Ptr (Const t_double)), N, T (Ptr t_double), N, T t_int64_t,
      N]),
    (t_cublasStatus_t, ''cublasCsyrkx'', [T t_cublasHandle_t, N, T t_cublasFillMode_t, N, T t_cublasOperation_t, N,
      T t_int, N, T t_int, N, T (Ptr (Const t_cuComplex)), N, T (Ptr (Const t_cuComplex)), N, T t_int, N,
      T (Ptr (Const t_cuComplex)), N, T t_int, N, T (Ptr (Const t_cuComplex)), N, T (Ptr t_cuComplex), N, T t_int,
      N]),
    (t_cublasStatus_t, ''cublasCsyrkx_64'', [T t_cublasHandle_t, N, T t_cublasFillMode_t, N, T t_cublasOperation_t,
      N, T t_int64_t, N, T t_int64_t, N, T (Ptr (Const t_cuComplex)), N, T (Ptr (Const t_cuComplex)), N,
      T t_int64_t, N, T (Ptr (Const t_cuComplex)), N, T t_int64_t, N, T (Ptr (Const t_cuComplex)), N,
      T (Ptr t_cuComplex), N, T t_int64_t, N]),
    (t_cublasStatus_t, ''cublasZsyrkx'', [T t_cublasHandle_t, N, T t_cublasFillMode_t, N, T t_cublasOperation_t, N,
      T t_int, N, T t_int, N, T (Ptr (Const t_cuDoubleComplex)), N, T (Ptr (Const t_cuDoubleComplex)), N, T t_int,
      N, T (Ptr (Const t_cuDoubleComplex)), N, T t_int, N, T (Ptr (Const t_cuDoubleComplex)), N,
      T (Ptr t_cuDoubleComplex), N, T t_int, N]),
    (t_cublasStatus_t, ''cublasZsyrkx_64'', [T t_cublasHandle_t, N, T t_cublasFillMode_t, N, T t_cublasOperation_t,
      N, T t_int64_t, N, T t_int64_t, N, T (Ptr (Const t_cuDoubleComplex)), N, T (Ptr (Const t_cuDoubleComplex)), N,
      T t_int64_t, N, T (Ptr (Const t_cuDoubleComplex)), N, T t_int64_t, N, T (Ptr (Const t_cuDoubleComplex)), N,
      T (Ptr t_cuDoubleComplex), N, T t_int64_t, N]),
    (t_cublasStatus_t, ''cublasCherkx'', [T t_cublasHandle_t, N, T t_cublasFillMode_t, N, T t_cublasOperation_t, N,
      T t_int, N, T t_int, N, T (Ptr (Const t_cuComplex)), N, T (Ptr (Const t_cuComplex)), N, T t_int, N,
      T (Ptr (Const t_cuComplex)), N, T t_int, N, T (Ptr (Const t_float)), N, T (Ptr t_cuComplex), N, T t_int, N]),
    (t_cublasStatus_t, ''cublasCherkx_64'', [T t_cublasHandle_t, N, T t_cublasFillMode_t, N, T t_cublasOperation_t,
      N, T t_int64_t, N, T t_int64_t, N, T (Ptr (Const t_cuComplex)), N, T (Ptr (Const t_cuComplex)), N,
      T t_int64_t, N, T (Ptr (Const t_cuComplex)), N, T t_int64_t, N, T (Ptr (Const t_float)), N,
      T (Ptr t_cuComplex), N, T t_int64_t, N]),
    (t_cublasStatus_t, ''cublasZherkx'', [T t_cublasHandle_t, N, T t_cublasFillMode_t, N, T t_cublasOperation_t, N,
      T t_int, N, T t_int, N, T (Ptr (Const t_cuDoubleComplex)), N, T (Ptr (Const t_cuDoubleComplex)), N, T t_int,
      N, T (Ptr (Const t_cuDoubleComplex)), N, T t_int, N, T (Ptr (Const t_double)), N, T (Ptr t_cuDoubleComplex),
      N, T t_int, N]),
    (t_cublasStatus_t, ''cublasZherkx_64'', [T t_cublasHandle_t, N, T t_cublasFillMode_t, N, T t_cublasOperation_t,
      N, T t_int64_t, N, T t_int64_t, N, T (Ptr (Const t_cuDoubleComplex)), N, T (Ptr (Const t_cuDoubleComplex)), N,
      T t_int64_t, N, T (Ptr (Const t_cuDoubleComplex)), N, T t_int64_t, N, T (Ptr (Const t_double)), N,
      T (Ptr t_cuDoubleComplex), N, T t_int64_t, N]),
    (t_cublasStatus_t, ''cublasSsymm_v2'', [T t_cublasHandle_t, N, T t_cublasSideMode_t, N, T t_cublasFillMode_t, N,
      T t_int, N, T t_int, N, T (Ptr (Const t_float)), N, T (Ptr (Const t_float)), N, T t_int, N,
      T (Ptr (Const t_float)), N, T t_int, N, T (Ptr (Const t_float)), N, T (Ptr t_float), N, T t_int, N]),
    (t_cublasStatus_t, ''cublasSsymm_v2_64'', [T t_cublasHandle_t, N, T t_cublasSideMode_t, N, T t_cublasFillMode_t,
      N, T t_int64_t, N, T t_int64_t, N, T (Ptr (Const t_float)), N, T (Ptr (Const t_float)), N, T t_int64_t, N,
      T (Ptr (Const t_float)), N, T t_int64_t, N, T (Ptr (Const t_float)), N, T (Ptr t_float), N, T t_int64_t, N]),
    (t_cublasStatus_t, ''cublasDsymm_v2'', [T t_cublasHandle_t, N, T t_cublasSideMode_t, N, T t_cublasFillMode_t, N,
      T t_int, N, T t_int, N, T (Ptr (Const t_double)), N, T (Ptr (Const t_double)), N, T t_int, N,
      T (Ptr (Const t_double)), N, T t_int, N, T (Ptr (Const t_double)), N, T (Ptr t_double), N, T t_int, N]),
    (t_cublasStatus_t, ''cublasDsymm_v2_64'', [T t_cublasHandle_t, N, T t_cublasSideMode_t, N, T t_cublasFillMode_t,
      N, T t_int64_t, N, T t_int64_t, N, T (Ptr (Const t_double)), N, T (Ptr (Const t_double)), N, T t_int64_t, N,
      T (Ptr (Const t_double)), N, T t_int64_t, N, T (Ptr (Const t_double)), N, T (Ptr t_double), N, T t_int64_t,
      N]),
    (t_cublasStatus_t, ''cublasCsymm_v2'', [T t_cublasHandle_t, N, T t_cublasSideMode_t, N, T t_cublasFillMode_t, N,
      T t_int, N, T t_int, N, T (Ptr (Const t_cuComplex)), N, T (Ptr (Const t_cuComplex)), N, T t_int, N,
      T (Ptr (Const t_cuComplex)), N, T t_int, N, T (Ptr (Const t_cuComplex)), N, T (Ptr t_cuComplex), N, T t_int,
      N]),
    (t_cublasStatus_t, ''cublasCsymm_v2_64'', [T t_cublasHandle_t, N, T t_cublasSideMode_t, N, T t_cublasFillMode_t,
      N, T t_int64_t, N, T t_int64_t, N, T (Ptr (Const t_cuComplex)), N, T (Ptr (Const t_cuComplex)), N,
      T t_int64_t, N, T (Ptr (Const t_cuComplex)), N, T t_int64_t, N, T (Ptr (Const t_cuComplex)), N,
      T (Ptr t_cuComplex), N, T t_int64_t, N]),
    (t_cublasStatus_t, ''cublasZsymm_v2'', [T t_cublasHandle_t, N, T t_cublasSideMode_t, N, T t_cublasFillMode_t, N,
      T t_int, N, T t_int, N, T (Ptr (Const t_cuDoubleComplex)), N, T (Ptr (Const t_cuDoubleComplex)), N, T t_int,
      N, T (Ptr (Const t_cuDoubleComplex)), N, T t_int, N, T (Ptr (Const t_cuDoubleComplex)), N,
      T (Ptr t_cuDoubleComplex), N, T t_int, N]),
    (t_cublasStatus_t, ''cublasZsymm_v2_64'', [T t_cublasHandle_t, N, T t_cublasSideMode_t, N, T t_cublasFillMode_t,
      N, T t_int64_t, N, T t_int64_t, N, T (Ptr (Const t_cuDoubleComplex)), N, T (Ptr (Const t_cuDoubleComplex)), N,
      T t_int64_t, N, T (Ptr (Const t_cuDoubleComplex)), N, T t_int64_t, N, T (Ptr (Const t_cuDoubleComplex)), N,
      T (Ptr t_cuDoubleComplex), N, T t_int64_t, N]),
    (t_cublasStatus_t, ''cublasChemm_v2'', [T t_cublasHandle_t, N, T t_cublasSideMode_t, N, T t_cublasFillMode_t, N,
      T t_int, N, T t_int, N, T (Ptr (Const t_cuComplex)), N, T (Ptr (Const t_cuComplex)), N, T t_int, N,
      T (Ptr (Const t_cuComplex)), N, T t_int, N, T (Ptr (Const t_cuComplex)), N, T (Ptr t_cuComplex), N, T t_int,
      N]),
    (t_cublasStatus_t, ''cublasChemm_v2_64'', [T t_cublasHandle_t, N, T t_cublasSideMode_t, N, T t_cublasFillMode_t,
      N, T t_int64_t, N, T t_int64_t, N, T (Ptr (Const t_cuComplex)), N, T (Ptr (Const t_cuComplex)), N,
      T t_int64_t, N, T (Ptr (Const t_cuComplex)), N, T t_int64_t, N, T (Ptr (Const t_cuComplex)), N,
      T (Ptr t_cuComplex), N, T t_int64_t, N]),
    (t_cublasStatus_t, ''cublasZhemm_v2'', [T t_cublasHandle_t, N, T t_cublasSideMode_t, N, T t_cublasFillMode_t, N,
      T t_int, N, T t_int, N, T (Ptr (Const t_cuDoubleComplex)), N, T (Ptr (Const t_cuDoubleComplex)), N, T t_int,
      N, T (Ptr (Const t_cuDoubleComplex)), N, T t_int, N, T (Ptr (Const t_cuDoubleComplex)), N,
      T (Ptr t_cuDoubleComplex), N, T t_int, N]),
    (t_cublasStatus_t, ''cublasZhemm_v2_64'', [T t_cublasHandle_t, N, T t_cublasSideMode_t, N, T t_cublasFillMode_t,
      N, T t_int64_t, N, T t_int64_t, N, T (Ptr (Const t_cuDoubleComplex)), N, T (Ptr (Const t_cuDoubleComplex)), N,
      T t_int64_t, N, T (Ptr (Const t_cuDoubleComplex)), N, T t_int64_t, N, T (Ptr (Const t_cuDoubleComplex)), N,
      T (Ptr t_cuDoubleComplex), N, T t_int64_t, N]),
    (t_cublasStatus_t, ''cublasStrsm_v2'', [T t_cublasHandle_t, N, T t_cublasSideMode_t, N, T t_cublasFillMode_t, N,
      T t_cublasOperation_t, N, T t_cublasDiagType_t, N, T t_int, N, T t_int, N, T (Ptr (Const t_float)), N,
      T (Ptr (Const t_float)), N, T t_int, N, T (Ptr t_float), N, T t_int, N]),
    (t_cublasStatus_t, ''cublasStrsm_v2_64'', [T t_cublasHandle_t, N, T t_cublasSideMode_t, N, T t_cublasFillMode_t,
      N, T t_cublasOperation_t, N, T t_cublasDiagType_t, N, T t_int64_t, N, T t_int64_t, N, T (Ptr (Const t_float)),
      N, T (Ptr (Const t_float)), N, T t_int64_t, N, T (Ptr t_float), N, T t_int64_t, N]),
    (t_cublasStatus_t, ''cublasDtrsm_v2'', [T t_cublasHandle_t, N, T t_cublasSideMode_t, N, T t_cublasFillMode_t, N,
      T t_cublasOperation_t, N, T t_cublasDiagType_t, N, T t_int, N, T t_int, N, T (Ptr (Const t_double)), N,
      T (Ptr (Const t_double)), N, T t_int, N, T (Ptr t_double), N, T t_int, N]),
    (t_cublasStatus_t, ''cublasDtrsm_v2_64'', [T t_cublasHandle_t, N, T t_cublasSideMode_t, N, T t_cublasFillMode_t,
      N, T t_cublasOperation_t, N, T t_cublasDiagType_t, N, T t_int64_t, N, T t_int64_t, N,
      T (Ptr (Const t_double)), N, T (Ptr (Const t_double)), N, T t_int64_t, N, T (Ptr t_double), N, T t_int64_t,
      N]),
    (t_cublasStatus_t, ''cublasCtrsm_v2'', [T t_cublasHandle_t, N, T t_cublasSideMode_t, N, T t_cublasFillMode_t, N,
      T t_cublasOperation_t, N, T t_cublasDiagType_t, N, T t_int, N, T t_int, N, T (Ptr (Const t_cuComplex)), N,
      T (Ptr (Const t_cuComplex)), N, T t_int, N, T (Ptr t_cuComplex), N, T t_int, N]),
    (t_cublasStatus_t, ''cublasCtrsm_v2_64'', [T t_cublasHandle_t, N, T t_cublasSideMode_t, N, T t_cublasFillMode_t,
      N, T t_cublasOperation_t, N, T t_cublasDiagType_t, N, T t_int64_t, N, T t_int64_t, N,
      T (Ptr (Const t_cuComplex)), N, T (Ptr (Const t_cuComplex)), N, T t_int64_t, N, T (Ptr t_cuComplex), N,
      T t_int64_t, N]),
    (t_cublasStatus_t, ''cublasZtrsm_v2'', [T t_cublasHandle_t, N, T t_cublasSideMode_t, N, T t_cublasFillMode_t, N,
      T t_cublasOperation_t, N, T t_cublasDiagType_t, N, T t_int, N, T t_int, N, T (Ptr (Const t_cuDoubleComplex)),
      N, T (Ptr (Const t_cuDoubleComplex)), N, T t_int, N, T (Ptr t_cuDoubleComplex), N, T t_int, N]),
    (t_cublasStatus_t, ''cublasZtrsm_v2_64'', [T t_cublasHandle_t, N, T t_cublasSideMode_t, N, T t_cublasFillMode_t,
      N, T t_cublasOperation_t, N, T t_cublasDiagType_t, N, T t_int64_t, N, T t_int64_t, N,
      T (Ptr (Const t_cuDoubleComplex)), N, T (Ptr (Const t_cuDoubleComplex)), N, T t_int64_t, N,
      T (Ptr t_cuDoubleComplex), N, T t_int64_t, N]),
    (t_cublasStatus_t, ''cublasStrmm_v2'', [T t_cublasHandle_t, N, T t_cublasSideMode_t, N, T t_cublasFillMode_t, N,
      T t_cublasOperation_t, N, T t_cublasDiagType_t, N, T t_int, N, T t_int, N, T (Ptr (Const t_float)), N,
      T (Ptr (Const t_float)), N, T t_int, N, T (Ptr (Const t_float)), N, T t_int, N, T (Ptr t_float), N, T t_int,
      N]),
    (t_cublasStatus_t, ''cublasStrmm_v2_64'', [T t_cublasHandle_t, N, T t_cublasSideMode_t, N, T t_cublasFillMode_t,
      N, T t_cublasOperation_t, N, T t_cublasDiagType_t, N, T t_int64_t, N, T t_int64_t, N, T (Ptr (Const t_float)),
      N, T (Ptr (Const t_float)), N, T t_int64_t, N, T (Ptr (Const t_float)), N, T t_int64_t, N, T (Ptr t_float), N,
      T t_int64_t, N]),
    (t_cublasStatus_t, ''cublasDtrmm_v2'', [T t_cublasHandle_t, N, T t_cublasSideMode_t, N, T t_cublasFillMode_t, N,
      T t_cublasOperation_t, N, T t_cublasDiagType_t, N, T t_int, N, T t_int, N, T (Ptr (Const t_double)), N,
      T (Ptr (Const t_double)), N, T t_int, N, T (Ptr (Const t_double)), N, T t_int, N, T (Ptr t_double), N,
      T t_int, N]),
    (t_cublasStatus_t, ''cublasDtrmm_v2_64'', [T t_cublasHandle_t, N, T t_cublasSideMode_t, N, T t_cublasFillMode_t,
      N, T t_cublasOperation_t, N, T t_cublasDiagType_t, N, T t_int64_t, N, T t_int64_t, N,
      T (Ptr (Const t_double)), N, T (Ptr (Const t_double)), N, T t_int64_t, N, T (Ptr (Const t_double)), N,
      T t_int64_t, N, T (Ptr t_double), N, T t_int64_t, N]),
    (t_cublasStatus_t, ''cublasCtrmm_v2'', [T t_cublasHandle_t, N, T t_cublasSideMode_t, N, T t_cublasFillMode_t, N,
      T t_cublasOperation_t, N, T t_cublasDiagType_t, N, T t_int, N, T t_int, N, T (Ptr (Const t_cuComplex)), N,
      T (Ptr (Const t_cuComplex)), N, T t_int, N, T (Ptr (Const t_cuComplex)), N, T t_int, N, T (Ptr t_cuComplex),
      N, T t_int, N]),
    (t_cublasStatus_t, ''cublasCtrmm_v2_64'', [T t_cublasHandle_t, N, T t_cublasSideMode_t, N, T t_cublasFillMode_t,
      N, T t_cublasOperation_t, N, T t_cublasDiagType_t, N, T t_int64_t, N, T t_int64_t, N,
      T (Ptr (Const t_cuComplex)), N, T (Ptr (Const t_cuComplex)), N, T t_int64_t, N, T (Ptr (Const t_cuComplex)),
      N, T t_int64_t, N, T (Ptr t_cuComplex), N, T t_int64_t, N]),
    (t_cublasStatus_t, ''cublasZtrmm_v2'', [T t_cublasHandle_t, N, T t_cublasSideMode_t, N, T t_cublasFillMode_t, N,
      T t_cublasOperation_t, N, T t_cublasDiagType_t, N, T t_int, N, T t_int, N, T (Ptr (Const t_cuDoubleComplex)),
      N, T (Ptr (Const t_cuDoubleComplex)), N, T t_int, N, T (Ptr (Const t_cuDoubleComplex)), N, T t_int, N,
      T (Ptr t_cuDoubleComplex), N, T t_int, N]),
    (t_cublasStatus_t, ''cublasZtrmm_v2_64'', [T t_cublasHandle_t, N, T t_cublasSideMode_t, N, T t_cublasFillMode_t,
      N, T t_cublasOperation_t, N, T t_cublasDiagType_t, N, T t_int64_t, N, T t_int64_t, N,
      T (Ptr (Const t_cuDoubleComplex)), N, T (Ptr (Const t_cuDoubleComplex)), N, T t_int64_t, N,
      T (Ptr (Const t_cuDoubleComplex)), N, T t_int64_t, N, T (Ptr t_cuDoubleComplex), N, T t_int64_t, N]),
    (t_cublasStatus_t, ''cublasSgemmBatched'', [T t_cublasHandle_t, N, T t_cublasOperation_t, N,
      T t_cublasOperation_t, N, T t_int, N, T t_int, N, T t_int, N, T (Ptr (Const t_float)), N,
      T (Ptr (Const (Ptr (Const t_float)))), N, T t_int, N, T (Ptr (Const (Ptr (Const t_float)))), N, T t_int, N,
      T (Ptr (Const t_float)), N, T (Ptr (Const (Ptr t_float))), N, T t_int, N, T t_int, N]),
    (t_cublasStatus_t, ''cublasSgemmBatched_64'', [T t_cublasHandle_t, N, T t_cublasOperation_t, N,
      T t_cublasOperation_t, N, T t_int64_t, N, T t_int64_t, N, T t_int64_t, N, T (Ptr (Const t_float)), N,
      T (Ptr (Const (Ptr (Const t_float)))), N, T t_int64_t, N, T (Ptr (Const (Ptr (Const t_float)))), N,
      T t_int64_t, N, T (Ptr (Const t_float)), N, T (Ptr (Const (Ptr t_float))), N, T t_int64_t, N, T t_int64_t,
      N]),
    (t_cublasStatus_t, ''cublasDgemmBatched'', [T t_cublasHandle_t, N, T t_cublasOperation_t, N,
      T t_cublasOperation_t, N, T t_int, N, T t_int, N, T t_int, N, T (Ptr (Const t_double)), N,
      T (Ptr (Const (Ptr (Const t_double)))), N, T t_int, N, T (Ptr (Const (Ptr (Const t_double)))), N, T t_int, N,
      T (Ptr (Const t_double)), N, T (Ptr (Const (Ptr t_double))), N, T t_int, N, T t_int, N]),
    (t_cublasStatus_t, ''cublasDgemmBatched_64'', [T t_cublasHandle_t, N, T t_cublasOperation_t, N,
      T t_cublasOperation_t, N, T t_int64_t, N, T t_int64_t, N, T t_int64_t, N, T (Ptr (Const t_double)), N,
      T (Ptr (Const (Ptr (Const t_double)))), N, T t_int64_t, N, T (Ptr (Const (Ptr (Const t_double)))), N,
      T t_int64_t, N, T (Ptr (Const t_double)), N, T (Ptr (Const (Ptr t_double))), N, T t_int64_t, N, T t_int64_t,
      N]),
    (t_cublasStatus_t, ''cublasCgemmBatched'', [T t_cublasHandle_t, N, T t_cublasOperation_t, N,
      T t_cublasOperation_t, N, T t_int, N, T t_int, N, T t_int, N, T (Ptr (Const t_cuComplex)), N,
      T (Ptr (Const (Ptr (Const t_cuComplex)))), N, T t_int, N, T (Ptr (Const (Ptr (Const t_cuComplex)))), N,
      T t_int, N, T (Ptr (Const t_cuComplex)), N, T (Ptr (Const (Ptr t_cuComplex))), N, T t_int, N, T t_int, N]),
    (t_cublasStatus_t, ''cublasCgemmBatched_64'', [T t_cublasHandle_t, N, T t_cublasOperation_t, N,
      T t_cublasOperation_t, N, T t_int64_t, N, T t_int64_t, N, T t_int64_t, N, T (Ptr (Const t_cuComplex)), N,
      T (Ptr (Const (Ptr (Const t_cuComplex)))), N, T t_int64_t, N, T (Ptr (Const (Ptr (Const t_cuComplex)))), N,
      T t_int64_t, N, T (Ptr (Const t_cuComplex)), N, T (Ptr (Const (Ptr t_cuComplex))), N, T t_int64_t, N,
      T t_int64_t, N]),
    (t_cublasStatus_t, ''cublasCgemm3mBatched'', [T t_cublasHandle_t, N, T t_cublasOperation_t, N,
      T t_cublasOperation_t, N, T t_int, N, T t_int, N, T t_int, N, T (Ptr (Const t_cuComplex)), N,
      T (Ptr (Const (Ptr (Const t_cuComplex)))), N, T t_int, N, T (Ptr (Const (Ptr (Const t_cuComplex)))), N,
      T t_int, N, T (Ptr (Const t_cuComplex)), N, T (Ptr (Const (Ptr t_cuComplex))), N, T t_int, N, T t_int, N]),
    (t_cublasStatus_t, ''cublasCgemm3mBatched_64'', [T t_cublasHandle_t, N, T t_cublasOperation_t, N,
      T t_cublasOperation_t, N, T t_int64_t, N, T t_int64_t, N, T t_int64_t, N, T (Ptr (Const t_cuComplex)), N,
      T (Ptr (Const (Ptr (Const t_cuComplex)))), N, T t_int64_t, N, T (Ptr (Const (Ptr (Const t_cuComplex)))), N,
      T t_int64_t, N, T (Ptr (Const t_cuComplex)), N, T (Ptr (Const (Ptr t_cuComplex))), N, T t_int64_t, N,
      T t_int64_t, N]),
    (t_cublasStatus_t, ''cublasZgemmBatched'', [T t_cublasHandle_t, N, T t_cublasOperation_t, N,
      T t_cublasOperation_t, N, T t_int, N, T t_int, N, T t_int, N, T (Ptr (Const t_cuDoubleComplex)), N,
      T (Ptr (Const (Ptr (Const t_cuDoubleComplex)))), N, T t_int, N,
      T (Ptr (Const (Ptr (Const t_cuDoubleComplex)))), N, T t_int, N, T (Ptr (Const t_cuDoubleComplex)), N,
      T (Ptr (Const (Ptr t_cuDoubleComplex))), N, T t_int, N, T t_int, N]),
    (t_cublasStatus_t, ''cublasZgemmBatched_64'', [T t_cublasHandle_t, N, T t_cublasOperation_t, N,
      T t_cublasOperation_t, N, T t_int64_t, N, T t_int64_t, N, T t_int64_t, N, T (Ptr (Const t_cuDoubleComplex)),
      N, T (Ptr (Const (Ptr (Const t_cuDoubleComplex)))), N, T t_int64_t, N,
      T (Ptr (Const (Ptr (Const t_cuDoubleComplex)))), N, T t_int64_t, N, T (Ptr (Const t_cuDoubleComplex)), N,
      T (Ptr (Const (Ptr t_cuDoubleComplex))), N, T t_int64_t, N, T t_int64_t, N]),
    (t_cublasStatus_t, ''cublasSgemmStridedBatched_64'', [T t_cublasHandle_t, N, T t_cublasOperation_t, N,
      T t_cublasOperation_t, N, T t_int64_t, N, T t_int64_t, N, T t_int64_t, N, T (Ptr (Const t_float)), N,
      T (Ptr (Const t_float)), N, T t_int64_t, N, T t_long_long_int, N, T (Ptr (Const t_float)), N, T t_int64_t, N,
      T t_long_long_int, N, T (Ptr (Const t_float)), N, T (Ptr t_float), N, T t_int64_t, N, T t_long_long_int, N,
      T t_int64_t, N]),
    (t_cublasStatus_t, ''cublasDgemmStridedBatched'', [T t_cublasHandle_t, N, T t_cublasOperation_t, N,
      T t_cublasOperation_t, N, T t_int, N, T t_int, N, T t_int, N, T (Ptr (Const t_double)), N,
      T (Ptr (Const t_double)), N, T t_int, N, T t_long_long_int, N, T (Ptr (Const t_double)), N, T t_int, N,
      T t_long_long_int, N, T (Ptr (Const t_double)), N, T (Ptr t_double), N, T t_int, N, T t_long_long_int, N,
      T t_int, N]),
    (t_cublasStatus_t, ''cublasDgemmStridedBatched_64'', [T t_cublasHandle_t, N, T t_cublasOperation_t, N,
      T t_cublasOperation_t, N, T t_int64_t, N, T t_int64_t, N, T t_int64_t, N, T (Ptr (Const t_double)), N,
      T (Ptr (Const t_double)), N, T t_int64_t, N, T t_long_long_int, N, T (Ptr (Const t_double)), N, T t_int64_t,
      N, T t_long_long_int, N, T (Ptr (Const t_double)), N, T (Ptr t_double), N, T t_int64_t, N, T t_long_long_int,
      N, T t_int64_t, N]),
    (t_cublasStatus_t, ''cublasCgemmStridedBatched'', [T t_cublasHandle_t, N, T t_cublasOperation_t, N,
      T t_cublasOperation_t, N, T t_int, N, T t_int, N, T t_int, N, T (Ptr (Const t_cuComplex)), N,
      T (Ptr (Const t_cuComplex)), N, T t_int, N, T t_long_long_int, N, T (Ptr (Const t_cuComplex)), N, T t_int, N,
      T t_long_long_int, N, T (Ptr (Const t_cuComplex)), N, T (Ptr t_cuComplex), N, T t_int, N, T t_long_long_int,
      N, T t_int, N]),
    (t_cublasStatus_t, ''cublasCgemmStridedBatched_64'', [T t_cublasHandle_t, N, T t_cublasOperation_t, N,
      T t_cublasOperation_t, N, T t_int64_t, N, T t_int64_t, N, T t_int64_t, N, T (Ptr (Const t_cuComplex)), N,
      T (Ptr (Const t_cuComplex)), N, T t_int64_t, N, T t_long_long_int, N, T (Ptr (Const t_cuComplex)), N,
      T t_int64_t, N, T t_long_long_int, N, T (Ptr (Const t_cuComplex)), N, T (Ptr t_cuComplex), N, T t_int64_t, N,
      T t_long_long_int, N, T t_int64_t, N]),
    (t_cublasStatus_t, ''cublasCgemm3mStridedBatched'', [T t_cublasHandle_t, N, T t_cublasOperation_t, N,
      T t_cublasOperation_t, N, T t_int, N, T t_int, N, T t_int, N, T (Ptr (Const t_cuComplex)), N,
      T (Ptr (Const t_cuComplex)), N, T t_int, N, T t_long_long_int, N, T (Ptr (Const t_cuComplex)), N, T t_int, N,
      T t_long_long_int, N, T (Ptr (Const t_cuComplex)), N, T (Ptr t_cuComplex), N, T t_int, N, T t_long_long_int,
      N, T t_int, N]),
    (t_cublasStatus_t, ''cublasCgemm3mStridedBatched_64'', [T t_cublasHandle_t, N, T t_cublasOperation_t, N,
      T t_cublasOperation_t, N, T t_int64_t, N, T t_int64_t, N, T t_int64_t, N, T (Ptr (Const t_cuComplex)), N,
      T (Ptr (Const t_cuComplex)), N, T t_int64_t, N, T t_long_long_int, N, T (Ptr (Const t_cuComplex)), N,
      T t_int64_t, N, T t_long_long_int, N, T (Ptr (Const t_cuComplex)), N, T (Ptr t_cuComplex), N, T t_int64_t, N,
      T t_long_long_int, N, T t_int64_t, N]),
    (t_cublasStatus_t, ''cublasZgemmStridedBatched'', [T t_cublasHandle_t, N, T t_cublasOperation_t, N,
      T t_cublasOperation_t, N, T t_int, N, T t_int, N, T t_int, N, T (Ptr (Const t_cuDoubleComplex)), N,
      T (Ptr (Const t_cuDoubleComplex)), N, T t_int, N, T t_long_long_int, N, T (Ptr (Const t_cuDoubleComplex)), N,
      T t_int, N, T t_long_long_int, N, T (Ptr (Const t_cuDoubleComplex)), N, T (Ptr t_cuDoubleComplex), N, T t_int,
      N, T t_long_long_int, N, T t_int, N]),
    (t_cublasStatus_t, ''cublasZgemmStridedBatched_64'', [T t_cublasHandle_t, N, T t_cublasOperation_t, N,
      T t_cublasOperation_t, N, T t_int64_t, N, T t_int64_t, N, T t_int64_t, N, T (Ptr (Const t_cuDoubleComplex)),
      N, T (Ptr (Const t_cuDoubleComplex)), N, T t_int64_t, N, T t_long_long_int, N,
      T (Ptr (Const t_cuDoubleComplex)), N, T t_int64_t, N, T t_long_long_int, N, T (Ptr (Const t_cuDoubleComplex)),
      N, T (Ptr t_cuDoubleComplex), N, T t_int64_t, N, T t_long_long_int, N, T t_int64_t, N]),
    (t_cublasStatus_t, ''cublasGemmBatchedEx'', [T t_cublasHandle_t, N, T t_cublasOperation_t, N,
      T t_cublasOperation_t, N, T t_int, N, T t_int, N, T t_int, N, T (Ptr (Const t_void)), N,
      T (Ptr (Const (Ptr (Const t_void)))), N, T t_cudaDataType, N, T t_int, N,
      T (Ptr (Const (Ptr (Const t_void)))), N, T t_cudaDataType, N, T t_int, N, T (Ptr (Const t_void)), N,
      T (Ptr (Const (Ptr t_void))), N, T t_cudaDataType, N, T t_int, N, T t_int, N, T t_cublasComputeType_t, N,
      T t_cublasGemmAlgo_t, N]),
    (t_cublasStatus_t, ''cublasGemmBatchedEx_64'', [T t_cublasHandle_t, N, T t_cublasOperation_t, N,
      T t_cublasOperation_t, N, T t_int64_t, N, T t_int64_t, N, T t_int64_t, N, T (Ptr (Const t_void)), N,
      T (Ptr (Const (Ptr (Const t_void)))), N, T t_cudaDataType, N, T t_int64_t, N,
      T (Ptr (Const (Ptr (Const t_void)))), N, T t_cudaDataType, N, T t_int64_t, N, T (Ptr (Const t_void)), N,
      T (Ptr (Const (Ptr t_void))), N, T t_cudaDataType, N, T t_int64_t, N, T t_int64_t, N, T t_cublasComputeType_t,
      N, T t_cublasGemmAlgo_t, N]),
    (t_cublasStatus_t, ''cublasGemmStridedBatchedEx_64'', [T t_cublasHandle_t, N, T t_cublasOperation_t, N,
      T t_cublasOperation_t, N, T t_int64_t, N, T t_int64_t, N, T t_int64_t, N, T (Ptr (Const t_void)), N,
      T (Ptr (Const t_void)), N, T t_cudaDataType, N, T t_int64_t, N, T t_long_long_int, N, T (Ptr (Const t_void)),
      N, T t_cudaDataType, N, T t_int64_t, N, T t_long_long_int, N, T (Ptr (Const t_void)), N, T (Ptr t_void), N,
      T t_cudaDataType, N, T t_int64_t, N, T t_long_long_int, N, T t_int64_t, N, T t_cublasComputeType_t, N,
      T t_cublasGemmAlgo_t, N]),
    (t_cublasStatus_t, ''cublasSgeam'', [T t_cublasHandle_t, N, T t_cublasOperation_t, N, T t_cublasOperation_t, N,
      T t_int, N, T t_int, N, T (Ptr (Const t_float)), N, T (Ptr (Const t_float)), N, T t_int, N,
      T (Ptr (Const t_float)), N, T (Ptr (Const t_float)), N, T t_int, N, T (Ptr t_float), N, T t_int, N]),
    (t_cublasStatus_t, ''cublasSgeam_64'', [T t_cublasHandle_t, N, T t_cublasOperation_t, N, T t_cublasOperation_t,
      N, T t_int64_t, N, T t_int64_t, N, T (Ptr (Const t_float)), N, T (Ptr (Const t_float)), N, T t_int64_t, N,
      T (Ptr (Const t_float)), N, T (Ptr (Const t_float)), N, T t_int64_t, N, T (Ptr t_float), N, T t_int64_t, N]),
    (t_cublasStatus_t, ''cublasDgeam'', [T t_cublasHandle_t, N, T t_cublasOperation_t, N, T t_cublasOperation_t, N,
      T t_int, N, T t_int, N, T (Ptr (Const t_double)), N, T (Ptr (Const t_double)), N, T t_int, N,
      T (Ptr (Const t_double)), N, T (Ptr (Const t_double)), N, T t_int, N, T (Ptr t_double), N, T t_int, N]),
    (t_cublasStatus_t, ''cublasDgeam_64'', [T t_cublasHandle_t, N, T t_cublasOperation_t, N, T t_cublasOperation_t,
      N, T t_int64_t, N, T t_int64_t, N, T (Ptr (Const t_double)), N, T (Ptr (Const t_double)), N, T t_int64_t, N,
      T (Ptr (Const t_double)), N, T (Ptr (Const t_double)), N, T t_int64_t, N, T (Ptr t_double), N, T t_int64_t,
      N]),
    (t_cublasStatus_t, ''cublasCgeam'', [T t_cublasHandle_t, N, T t_cublasOperation_t, N, T t_cublasOperation_t, N,
      T t_int, N, T t_int, N, T (Ptr (Const t_cuComplex)), N, T (Ptr (Const t_cuComplex)), N, T t_int, N,
      T (Ptr (Const t_cuComplex)), N, T (Ptr (Const t_cuComplex)), N, T t_int, N, T (Ptr t_cuComplex), N, T t_int,
      N]),
    (t_cublasStatus_t, ''cublasCgeam_64'', [T t_cublasHandle_t, N, T t_cublasOperation_t, N, T t_cublasOperation_t,
      N, T t_int64_t, N, T t_int64_t, N, T (Ptr (Const t_cuComplex)), N, T (Ptr (Const t_cuComplex)), N,
      T t_int64_t, N, T (Ptr (Const t_cuComplex)), N, T (Ptr (Const t_cuComplex)), N, T t_int64_t, N,
      T (Ptr t_cuComplex), N, T t_int64_t, N]),
    (t_cublasStatus_t, ''cublasZgeam'', [T t_cublasHandle_t, N, T t_cublasOperation_t, N, T t_cublasOperation_t, N,
      T t_int, N, T t_int, N, T (Ptr (Const t_cuDoubleComplex)), N, T (Ptr (Const t_cuDoubleComplex)), N, T t_int,
      N, T (Ptr (Const t_cuDoubleComplex)), N, T (Ptr (Const t_cuDoubleComplex)), N, T t_int, N,
      T (Ptr t_cuDoubleComplex), N, T t_int, N]),
    (t_cublasStatus_t, ''cublasZgeam_64'', [T t_cublasHandle_t, N, T t_cublasOperation_t, N, T t_cublasOperation_t,
      N, T t_int64_t, N, T t_int64_t, N, T (Ptr (Const t_cuDoubleComplex)), N, T (Ptr (Const t_cuDoubleComplex)), N,
      T t_int64_t, N, T (Ptr (Const t_cuDoubleComplex)), N, T (Ptr (Const t_cuDoubleComplex)), N, T t_int64_t, N,
      T (Ptr t_cuDoubleComplex), N, T t_int64_t, N]),
    (t_cublasStatus_t, ''cublasStrsmBatched'', [T t_cublasHandle_t, N, T t_cublasSideMode_t, N,
      T t_cublasFillMode_t, N, T t_cublasOperation_t, N, T t_cublasDiagType_t, N, T t_int, N, T t_int, N,
      T (Ptr (Const t_float)), N, T (Ptr (Const (Ptr (Const t_float)))), N, T t_int, N,
      T (Ptr (Const (Ptr t_float))), N, T t_int, N, T t_int, N]),
    (t_cublasStatus_t, ''cublasStrsmBatched_64'', [T t_cublasHandle_t, N, T t_cublasSideMode_t, N,
      T t_cublasFillMode_t, N, T t_cublasOperation_t, N, T t_cublasDiagType_t, N, T t_int64_t, N, T t_int64_t, N,
      T (Ptr (Const t_float)), N, T (Ptr (Const (Ptr (Const t_float)))), N, T t_int64_t, N,
      T (Ptr (Const (Ptr t_float))), N, T t_int64_t, N, T t_int64_t, N]),
    (t_cublasStatus_t, ''cublasDtrsmBatched'', [T t_cublasHandle_t, N, T t_cublasSideMode_t, N,
      T t_cublasFillMode_t, N, T t_cublasOperation_t, N, T t_cublasDiagType_t, N, T t_int, N, T t_int, N,
      T (Ptr (Const t_double)), N, T (Ptr (Const (Ptr (Const t_double)))), N, T t_int, N,
      T (Ptr (Const (Ptr t_double))), N, T t_int, N, T t_int, N]),
    (t_cublasStatus_t, ''cublasDtrsmBatched_64'', [T t_cublasHandle_t, N, T t_cublasSideMode_t, N,
      T t_cublasFillMode_t, N, T t_cublasOperation_t, N, T t_cublasDiagType_t, N, T t_int64_t, N, T t_int64_t, N,
      T (Ptr (Const t_double)), N, T (Ptr (Const (Ptr (Const t_double)))), N, T t_int64_t, N,
      T (Ptr (Const (Ptr t_double))), N, T t_int64_t, N, T t_int64_t, N]),
    (t_cublasStatus_t, ''cublasCtrsmBatched'', [T t_cublasHandle_t, N, T t_cublasSideMode_t, N,
      T t_cublasFillMode_t, N, T t_cublasOperation_t, N, T t_cublasDiagType_t, N, T t_int, N, T t_int, N,
      T (Ptr (Const t_cuComplex)), N, T (Ptr (Const (Ptr (Const t_cuComplex)))), N, T t_int, N,
      T (Ptr (Const (Ptr t_cuComplex))), N, T t_int, N, T t_int, N]),
    (t_cublasStatus_t, ''cublasCtrsmBatched_64'', [T t_cublasHandle_t, N, T t_cublasSideMode_t, N,
      T t_cublasFillMode_t, N, T t_cublasOperation_t, N, T t_cublasDiagType_t, N, T t_int64_t, N, T t_int64_t, N,
      T (Ptr (Const t_cuComplex)), N, T (Ptr (Const (Ptr (Const t_cuComplex)))), N, T t_int64_t, N,
      T (Ptr (Const (Ptr t_cuComplex))), N, T t_int64_t, N, T t_int64_t, N]),
    (t_cublasStatus_t, ''cublasZtrsmBatched'', [T t_cublasHandle_t, N, T t_cublasSideMode_t, N,
      T t_cublasFillMode_t, N, T t_cublasOperation_t, N, T t_cublasDiagType_t, N, T t_int, N, T t_int, N,
      T (Ptr (Const t_cuDoubleComplex)), N, T (Ptr (Const (Ptr (Const t_cuDoubleComplex)))), N, T t_int, N,
      T (Ptr (Const (Ptr t_cuDoubleComplex))), N, T t_int, N, T t_int, N]),
    (t_cublasStatus_t, ''cublasZtrsmBatched_64'', [T t_cublasHandle_t, N, T t_cublasSideMode_t, N,
      T t_cublasFillMode_t, N, T t_cublasOperation_t, N, T t_cublasDiagType_t, N, T t_int64_t, N, T t_int64_t, N,
      T (Ptr (Const t_cuDoubleComplex)), N, T (Ptr (Const (Ptr (Const t_cuDoubleComplex)))), N, T t_int64_t, N,
      T (Ptr (Const (Ptr t_cuDoubleComplex))), N, T t_int64_t, N, T t_int64_t, N]),
    (t_cublasStatus_t, ''cublasSdgmm'', [T t_cublasHandle_t, N, T t_cublasSideMode_t, N, T t_int, N, T t_int, N,
      T (Ptr (Const t_float)), N, T t_int, N, T (Ptr (Const t_float)), N, T t_int, N, T (Ptr t_float), N, T t_int,
      N]),
    (t_cublasStatus_t, ''cublasSdgmm_64'', [T t_cublasHandle_t, N, T t_cublasSideMode_t, N, T t_int64_t, N,
      T t_int64_t, N, T (Ptr (Const t_float)), N, T t_int64_t, N, T (Ptr (Const t_float)), N, T t_int64_t, N,
      T (Ptr t_float), N, T t_int64_t, N]),
    (t_cublasStatus_t, ''cublasDdgmm'', [T t_cublasHandle_t, N, T t_cublasSideMode_t, N, T t_int, N, T t_int, N,
      T (Ptr (Const t_double)), N, T t_int, N, T (Ptr (Const t_double)), N, T t_int, N, T (Ptr t_double), N,
      T t_int, N]),
    (t_cublasStatus_t, ''cublasDdgmm_64'', [T t_cublasHandle_t, N, T t_cublasSideMode_t, N, T t_int64_t, N,
      T t_int64_t, N, T (Ptr (Const t_double)), N, T t_int64_t, N, T (Ptr (Const t_double)), N, T t_int64_t, N,
      T (Ptr t_double), N, T t_int64_t, N]),
    (t_cublasStatus_t, ''cublasCdgmm'', [T t_cublasHandle_t, N, T t_cublasSideMode_t, N, T t_int, N, T t_int, N,
      T (Ptr (Const t_cuComplex)), N, T t_int, N, T (Ptr (Const t_cuComplex)), N, T t_int, N, T (Ptr t_cuComplex),
      N, T t_int, N]),
    (t_cublasStatus_t, ''cublasCdgmm_64'', [T t_cublasHandle_t, N, T t_cublasSideMode_t, N, T t_int64_t, N,
      T t_int64_t, N, T (Ptr (Const t_cuComplex)), N, T t_int64_t, N, T (Ptr (Const t_cuComplex)), N, T t_int64_t,
      N, T (Ptr t_cuComplex), N, T t_int64_t, N]),
    (t_cublasStatus_t, ''cublasZdgmm'', [T t_cublasHandle_t, N, T t_cublasSideMode_t, N, T t_int, N, T t_int, N,
      T (Ptr (Const t_cuDoubleComplex)), N, T t_int, N, T (Ptr (Const t_cuDoubleComplex)), N, T t_int, N,
      T (Ptr t_cuDoubleComplex), N, T t_int, N]),
    (t_cublasStatus_t, ''cublasZdgmm_64'', [T t_cublasHandle_t, N, T t_cublasSideMode_t, N, T t_int64_t, N,
      T t_int64_t, N, T (Ptr (Const t_cuDoubleComplex)), N, T t_int64_t, N, T (Ptr (Const t_cuDoubleComplex)), N,
      T t_int64_t, N, T (Ptr t_cuDoubleComplex), N, T t_int64_t, N]),
    (t_cublasStatus_t, ''cublasSmatinvBatched'', [T t_cublasHandle_t, N, T t_int, N,
      T (Ptr (Const (Ptr (Const t_float)))), N, T t_int, N, T (Ptr (Const (Ptr t_float))), N, T t_int, N,
      T (Ptr t_int), N, T t_int, N]),
    (t_cublasStatus_t, ''cublasDmatinvBatched'', [T t_cublasHandle_t, N, T t_int, N,
      T (Ptr (Const (Ptr (Const t_double)))), N, T t_int, N, T (Ptr (Const (Ptr t_double))), N, T t_int, N,
      T (Ptr t_int), N, T t_int, N]),
    (t_cublasStatus_t, ''cublasCmatinvBatched'', [T t_cublasHandle_t, N, T t_int, N,
      T (Ptr (Const (Ptr (Const t_cuComplex)))), N, T t_int, N, T (Ptr (Const (Ptr t_cuComplex))), N, T t_int, N,
      T (Ptr t_int), N, T t_int, N]),
    (t_cublasStatus_t, ''cublasZmatinvBatched'', [T t_cublasHandle_t, N, T t_int, N,
      T (Ptr (Const (Ptr (Const t_cuDoubleComplex)))), N, T t_int, N, T (Ptr (Const (Ptr t_cuDoubleComplex))), N,
      T t_int, N, T (Ptr t_int), N, T t_int, N]),
    (t_cublasStatus_t, ''cublasSgeqrfBatched'', [T t_cublasHandle_t, N, T t_int, N, T t_int, N,
      T (Ptr (Const (Ptr t_float))), N, T t_int, N, T (Ptr (Const (Ptr t_float))), N, T (Ptr t_int), N, T t_int,
      N]),
    (t_cublasStatus_t, ''cublasDgeqrfBatched'', [T t_cublasHandle_t, N, T t_int, N, T t_int, N,
      T (Ptr (Const (Ptr t_double))), N, T t_int, N, T (Ptr (Const (Ptr t_double))), N, T (Ptr t_int), N, T t_int,
      N]),
    (t_cublasStatus_t, ''cublasCgeqrfBatched'', [T t_cublasHandle_t, N, T t_int, N, T t_int, N,
      T (Ptr (Const (Ptr t_cuComplex))), N, T t_int, N, T (Ptr (Const (Ptr t_cuComplex))), N, T (Ptr t_int), N,
      T t_int, N]),
    (t_cublasStatus_t, ''cublasZgeqrfBatched'', [T t_cublasHandle_t, N, T t_int, N, T t_int, N,
      T (Ptr (Const (Ptr t_cuDoubleComplex))), N, T t_int, N, T (Ptr (Const (Ptr t_cuDoubleComplex))), N,
      T (Ptr t_int), N, T t_int, N]),
    (t_cublasStatus_t, ''cublasSgelsBatched'', [T t_cublasHandle_t, N, T t_cublasOperation_t, N, T t_int, N,
      T t_int, N, T t_int, N, T (Ptr (Const (Ptr t_float))), N, T t_int, N, T (Ptr (Const (Ptr t_float))), N,
      T t_int, N, T (Ptr t_int), N, T (Ptr t_int), N, T t_int, N]),
    (t_cublasStatus_t, ''cublasDgelsBatched'', [T t_cublasHandle_t, N, T t_cublasOperation_t, N, T t_int, N,
      T t_int, N, T t_int, N, T (Ptr (Const (Ptr t_double))), N, T t_int, N, T (Ptr (Const (Ptr t_double))), N,
      T t_int, N, T (Ptr t_int), N, T (Ptr t_int), N, T t_int, N]),
    (t_cublasStatus_t, ''cublasCgelsBatched'', [T t_cublasHandle_t, N, T t_cublasOperation_t, N, T t_int, N,
      T t_int, N, T t_int, N, T (Ptr (Const (Ptr t_cuComplex))), N, T t_int, N, T (Ptr (Const (Ptr t_cuComplex))),
      N, T t_int, N, T (Ptr t_int), N, T (Ptr t_int), N, T t_int, N]),
    (t_cublasStatus_t, ''cublasZgelsBatched'', [T t_cublasHandle_t, N, T t_cublasOperation_t, N, T t_int, N,
      T t_int, N, T t_int, N, T (Ptr (Const (Ptr t_cuDoubleComplex))), N, T t_int, N,
      T (Ptr (Const (Ptr t_cuDoubleComplex))), N, T t_int, N, T (Ptr t_int), N, T (Ptr t_int), N, T t_int, N]),
    (t_cublasStatus_t, ''cublasStpttr'', [T t_cublasHandle_t, N, T t_cublasFillMode_t, N, T t_int, N,
      T (Ptr (Const t_float)), N, T (Ptr t_float), N, T t_int, N]),
    (t_cublasStatus_t, ''cublasDtpttr'', [T t_cublasHandle_t, N, T t_cublasFillMode_t, N, T t_int, N,
      T (Ptr (Const t_double)), N, T (Ptr t_double), N, T t_int, N]),
    (t_cublasStatus_t, ''cublasCtpttr'', [T t_cublasHandle_t, N, T t_cublasFillMode_t, N, T t_int, N,
      T (Ptr (Const t_cuComplex)), N, T (Ptr t_cuComplex), N, T t_int, N]),
    (t_cublasStatus_t, ''cublasZtpttr'', [Other '''', T t_cublasHandle_t, N, T t_cublasFillMode_t, N, T t_int, N,
      T (Ptr (Const t_cuDoubleComplex)), N, T (Ptr t_cuDoubleComplex), N, T t_int, N]),
    (t_cublasStatus_t, ''cublasStrttp'', [T t_cublasHandle_t, N, T t_cublasFillMode_t, N, T t_int, N,
      T (Ptr (Const t_float)), N, T t_int, N, T (Ptr t_float), N]),
    (t_cublasStatus_t, ''cublasDtrttp'', [T t_cublasHandle_t, N, T t_cublasFillMode_t, N, T t_int, N,
      T (Ptr (Const t_double)), N, T t_int, N, T (Ptr t_double), N]),
    (t_cublasStatus_t, ''cublasCtrttp'', [T t_cublasHandle_t, N, T t_cublasFillMode_t, N, T t_int, N,
      T (Ptr (Const t_cuComplex)), N, T t_int, N, T (Ptr t_cuComplex), N]),
    (t_cublasStatus_t, ''cublasZtrttp'', [Other '''', T t_cublasHandle_t, N, T t_cublasFillMode_t, N, T t_int, N,
      T (Ptr (Const t_cuDoubleComplex)), N, T t_int, N, T (Ptr t_cuDoubleComplex), N]),
    (t_cublasStatus_t, ''cublasSgetrfBatched'', [T t_cublasHandle_t, N, T t_int, N, T (Ptr (Const (Ptr t_float))),
      N, T t_int, N, T (Ptr t_int), N, T (Ptr t_int), N, T t_int, N]),
    (t_cublasStatus_t, ''cublasDgetrfBatched'', [T t_cublasHandle_t, N, T t_int, N, T (Ptr (Const (Ptr t_double))),
      N, T t_int, N, T (Ptr t_int), N, T (Ptr t_int), N, T t_int, N]),
    (t_cublasStatus_t, ''cublasCgetrfBatched'', [T t_cublasHandle_t, N, T t_int, N,
      T (Ptr (Const (Ptr t_cuComplex))), N, T t_int, N, T (Ptr t_int), N, T (Ptr t_int), N, T t_int, N]),
    (t_cublasStatus_t, ''cublasZgetrfBatched'', [Other '''', T t_cublasHandle_t, N, T t_int, N,
      T (Ptr (Const (Ptr t_cuDoubleComplex))), N, T t_int, N, T (Ptr t_int), N, T (Ptr t_int), N, T t_int, N]),
    (t_cublasStatus_t, ''cublasSgetriBatched'', [T t_cublasHandle_t, N, T t_int, N,
      T (Ptr (Const (Ptr (Const t_float)))), N, T t_int, N, T (Ptr (Const t_int)), N, T (Ptr (Const (Ptr t_float))),
      N, T t_int, N, T (Ptr t_int), N, T t_int, N]),
    (t_cublasStatus_t, ''cublasDgetriBatched'', [T t_cublasHandle_t, N, T t_int, N,
      T (Ptr (Const (Ptr (Const t_double)))), N, T t_int, N, T (Ptr (Const t_int)), N,
      T (Ptr (Const (Ptr t_double))), N, T t_int, N, T (Ptr t_int), N, T t_int, N]),
    (t_cublasStatus_t, ''cublasCgetriBatched'', [T t_cublasHandle_t, N, T t_int, N,
      T (Ptr (Const (Ptr (Const t_cuComplex)))), N, T t_int, N, T (Ptr (Const t_int)), N,
      T (Ptr (Const (Ptr t_cuComplex))), N, T t_int, N, T (Ptr t_int), N, T t_int, N]),
    (t_cublasStatus_t, ''cublasZgetriBatched'', [T t_cublasHandle_t, N, T t_int, N,
      T (Ptr (Const (Ptr (Const t_cuDoubleComplex)))), N, T t_int, N, T (Ptr (Const t_int)), N,
      T (Ptr (Const (Ptr t_cuDoubleComplex))), N, T t_int, N, T (Ptr t_int), N, T t_int, N])]"

definition cublas_wrappers_11 :: "invocation list" where
  "cublas_wrappers_11 = [
    (t_cublasStatus_t, ''cublasSgetrsBatched'', [T t_cublasHandle_t, N, T t_cublasOperation_t, N, T t_int, N,
      T t_int, N, T (Ptr (Const (Ptr (Const t_float)))), N, T t_int, N, T (Ptr (Const t_int)), N,
      T (Ptr (Const (Ptr t_float))), N, T t_int, N, T (Ptr t_int), N, T t_int, N]),
    (t_cublasStatus_t, ''cublasDgetrsBatched'', [T t_cublasHandle_t, N, T t_cublasOperation_t, N, T t_int, N,
      T t_int, N, T (Ptr (Const (Ptr (Const t_double)))), N, T t_int, N, T (Ptr (Const t_int)), N,
      T (Ptr (Const (Ptr t_double))), N, T t_int, N, T (Ptr t_int), N, T t_int, N]),
    (t_cublasStatus_t, ''cublasCgetrsBatched'', [T t_cublasHandle_t, N, T t_cublasOperation_t, N, T t_int, N,
      T t_int, N, T (Ptr (Const (Ptr (Const t_cuComplex)))), N, T t_int, N, T (Ptr (Const t_int)), N,
      T (Ptr (Const (Ptr t_cuComplex))), N, T t_int, N, T (Ptr t_int), N, T t_int, N]),
    (t_cublasStatus_t, ''cublasZgetrsBatched'', [T t_cublasHandle_t, N, T t_cublasOperation_t, N, T t_int, N,
      T t_int, N, T (Ptr (Const (Ptr (Const t_cuDoubleComplex)))), N, T t_int, N, T (Ptr (Const t_int)), N,
      T (Ptr (Const (Ptr t_cuDoubleComplex))), N, T t_int, N, T (Ptr t_int), N, T t_int, N])]"

definition cublas_wrappers :: "invocation list" where
  "cublas_wrappers = concat [cublas_wrappers_1, cublas_wrappers_2, cublas_wrappers_3, cublas_wrappers_4, cublas_wrappers_5, cublas_wrappers_6, cublas_wrappers_7, cublas_wrappers_8, cublas_wrappers_9, cublas_wrappers_10, cublas_wrappers_11]"

definition cusolver_wrappers_1 :: "invocation list" where
  "cusolver_wrappers_1 = [
    (t_cusolverStatus_t, ''cusolverDnGetStream'', [T t_cusolverDnHandle_t, N, T (Ptr t_cudaStream_t), N]),
    (t_cusolverStatus_t, ''cusolverDnIRSParamsCreate'', [T (Ptr t_cusolverDnIRSParams_t), N]),
    (t_cusolverStatus_t, ''cusolverDnIRSParamsDestroy'', [T t_cusolverDnIRSParams_t, N]),
    (t_cusolverStatus_t, ''cusolverDnIRSParamsSetTol'', [T t_cusolverDnIRSParams_t, N, T t_double, N]),
    (t_cusolverStatus_t, ''cusolverDnIRSParamsSetTolInner'', [T t_cusolverDnIRSParams_t, N, T t_double, N]),
    (t_cusolverStatus_t, ''cusolverDnIRSParamsSetSolverPrecisions'', [T t_cusolverDnIRSParams_t, N,
      T t_cusolverPrecType_t, N, T t_cusolverPrecType_t, N]),
    (t_cusolverStatus_t, ''cusolverDnIRSParamsSetRefinementSolver'', [T t_cusolverDnIRSParams_t, N,
      T t_cusolverIRSRefinement_t, N]),
    (t_cusolverStatus_t, ''cusolverDnIRSParamsSetMaxIters'', [T t_cusolverDnIRSParams_t, N, T t_cusolver_int_t, N]),
    (t_cusolverStatus_t, ''cusolverDnIRSParamsSetMaxItersInner'', [T t_cusolverDnIRSParams_t, N, T t_cusolver_int_t,
      N]),
    (t_cusolverStatus_t, ''cusolverDnIRSParamsGetNiters'', [T t_cusolverDnIRSParams_t, N, T (Ptr t_cusolver_int_t),
      N]),
    (t_cusolverStatus_t, ''cusolverDnIRSParamsGetOuterNiters'', [T t_cusolverDnIRSParams_t, N,
      T (Ptr t_cusolver_int_t), N]),
    (t_cusolverStatus_t, ''cusolverDnIRSParamsGetMaxIters'', [T t_cusolverDnIRSParams_t, N,
      T (Ptr t_cusolver_int_t), N]),
    (t_cusolverStatus_t, ''cusolverDnIRSParamsSetSolverMainPrecision'', [T t_cusolverDnIRSParams_t, N,
      T t_cusolverPrecType_t, N]),
    (t_cusolverStatus_t, ''cusolverDnIRSParamsSetSolverLowestPrecision'', [T t_cusolverDnIRSParams_t, N,
      T t_cusolverPrecType_t, N]),
    (t_cusolverStatus_t, ''cusolverDnIRSInfosDestroy'', [T t_cusolverDnIRSInfos_t, N]),
    (t_cusolverStatus_t, ''cusolverDnIRSInfosCreate'', [T (Ptr t_cusolverDnIRSInfos_t), N]),
    (t_cusolverStatus_t, ''cusolverDnIRSInfosGetNiters'', [T t_cusolverDnIRSInfos_t, N, T (Ptr t_cusolver_int_t),
      N]),
    (t_cusolverStatus_t, ''cusolverDnIRSInfosGetOuterNiters'', [T t_cusolverDnIRSInfos_t, N,
      T (Ptr t_cusolver_int_t), N])]"

definition cusolver_wrappers_2 :: "invocation list" where
  "cusolver_wrappers_2 = [
    (t_cusolverStatus_t, ''cusolverDnIRSInfosGetMaxIters'', [T t_cusolverDnIRSInfos_t, N, T (Ptr t_cusolver_int_t),
      N]),
    (t_cusolverStatus_t, ''cusolverDnIRSInfosRequestResidual'', [T t_cusolverDnIRSInfos_t, N]),
    (t_cusolverStatus_t, ''cusolverDnIRSInfosGetResidualHistory'', [T t_cusolverDnIRSInfos_t, N,
      T (Ptr (Ptr t_void)), N]),
    (t_cusolverStatus_t, ''cusolverDnZZgesv'', [T t_cusolverDnHandle_t, N, T t_cusolver_int_t, N,
      T t_cusolver_int_t, N, T (Ptr t_cuDoubleComplex), N, T t_cusolver_int_t, N, T (Ptr t_cusolver_int_t), N,
      T (Ptr t_cuDoubleComplex), N, T t_cusolver_int_t, N, T (Ptr t_cuDoubleComplex), N, T t_cusolver_int_t, N,
      T (Ptr t_void), N, T t_size_t, N, T (Ptr t_cusolver_int_t), N, T (Ptr t_cusolver_int_t), N]),
    (t_cusolverStatus_t, ''cusolverDnZCgesv'', [T t_cusolverDnHandle_t, N, T t_cusolver_int_t, N,
      T t_cusolver_int_t, N, T (Ptr t_cuDoubleComplex), N, T t_cusolver_int_t, N, T (Ptr t_cusolver_int_t), N,
      T (Ptr t_cuDoubleComplex), N, T t_cusolver_int_t, N, T (Ptr t_cuDoubleComplex), N, T t_cusolver_int_t, N,
      T (Ptr t_void), N, T t_size_t, N, T (Ptr t_cusolver_int_t), N, T (Ptr t_cusolver_int_t), N]),
    (t_cusolverStatus_t, ''cusolverDnZKgesv'', [T t_cusolverDnHandle_t, N, T t_cusolver_int_t, N,
      T t_cusolver_int_t, N, T (Ptr t_cuDoubleComplex), N, T t_cusolver_int_t, N, T (Ptr t_cusolver_int_t), N,
      T (Ptr t_cuDoubleComplex), N, T t_cusolver_int_t, N, T (Ptr t_cuDoubleComplex), N, T t_cusolver_int_t, N,
      T (Ptr t_void), N, T t_size_t, N, T (Ptr t_cusolver_int_t), N, T (Ptr t_cusolver_int_t), N]),
    (t_cusolverStatus_t, ''cusolverDnCCgesv'', [T t_cusolverDnHandle_t, N, T t_cusolver_int_t, N,
      T t_cusolver_int_t, N, T (Ptr t_cuComplex), N, T t_cusolver_int_t, N, T (Ptr t_cusolver_int_t), N,
      T (Ptr t_cuComplex), N, T t_cusolver_int_t, N, T (Ptr t_cuComplex), N, T t_cusolver_int_t, N, T (Ptr t_void),
      N, T t_size_t, N, T (Ptr t_cusolver_int_t), N, T (Ptr t_cusolver_int_t), N]),
    (t_cusolverStatus_t, ''cusolverDnCKgesv'', [T t_cusolverDnHandle_t, N, T t_cusolver_int_t, N,
      T t_cusolver_int_t, N, T (Ptr t_cuComplex), N, T t_cusolver_int_t, N, T (Ptr t_cusolver_int_t), N,
      T (Ptr t_cuComplex), N, T t_cusolver_int_t, N, T (Ptr t_cuComplex), N, T t_cusolver_int_t, N, T (Ptr t_void),
      N, T t_size_t, N, T (Ptr t_cusolver_int_t), N, T (Ptr t_cusolver_int_t), N]),
    (t_cusolverStatus_t, ''cusolverDnDDgesv'', [T t_cusolverDnHandle_t, N, T t_cusolver_int_t, N,
      T t_cusolver_int_t, N, T (Ptr t_double), N, T t_cusolver_int_t, N, T (Ptr t_cusolver_int_t), N,
      T (Ptr t_double), N, T t_cusolver_int_t, N, T (Ptr t_double), N, T t_cusolver_int_t, N, T (Ptr t_void), N,
      T t_size_t, N, T (Ptr t_cusolver_int_t), N, T (Ptr t_cusolver_int_t), N]),
    (t_cusolverStatus_t, ''cusolverDnDSgesv'', [T t_cusolverDnHandle_t, N, T t_cusolver_int_t, N,
      T t_cusolver_int_t, N, T (Ptr t_double), N, T t_cusolver_int_t, N, T (Ptr t_cusolver_int_t), N,
      T (Ptr t_double), N, T t_cusolver_int_t, N, T (Ptr t_double), N, T t_cusolver_int_t, N, T (Ptr t_void), N,
      T t_size_t, N, T (Ptr t_cusolver_int_t), N, T (Ptr t_cusolver_int_t), N]),
    (t_cusolverStatus_t, ''cusolverDnDHgesv'', [T t_cusolverDnHandle_t, N, T t_cusolver_int_t, N,
      T t_cusolver_int_t, N, T (Ptr t_double), N, T t_cusolver_int_t, N, T (Ptr t_cusolver_int_t), N,
      T (Ptr t_double), N, T t_cusolver_int_t, N, T (Ptr t_double), N, T t_cusolver_int_t, N, T (Ptr t_void), N,
      T t_size_t, N, T (Ptr t_cusolver_int_t), N, T (Ptr t_cusolver_int_t), N]),
    (t_cusolverStatus_t, ''cusolverDnSSgesv'', [T t_cusolverDnHandle_t, N, T t_cusolver_int_t, N,
      T t_cusolver_int_t, N, T (Ptr t_float), N, T t_cusolver_int_t, N, T (Ptr t_cusolver_int_t), N,
      T (Ptr t_float), N, T t_cusolver_int_t, N, T (Ptr t_float), N, T t_cusolver_int_t, N, T (Ptr t_void), N,
      T t_size_t, N, T (Ptr t_cusolver_int_t), N, T (Ptr t_cusolver_int_t), N]),
    (t_cusolverStatus_t, ''cusolverDnSHgesv'', [T t_cusolverDnHandle_t, N, T t_cusolver_int_t, N,
      T t_cusolver_int_t, N, T (Ptr t_float), N, T t_cusolver_int_t, N, T (Ptr t_cusolver_int_t), N,
      T (Ptr t_float), N, T t_cusolver_int_t, N, T (Ptr t_float), N, T t_cusolver_int_t, N, T (Ptr t_void), N,
      T t_size_t, N, T (Ptr t_cusolver_int_t), N, T (Ptr t_cusolver_int_t), N]),
    (t_cusolverStatus_t, ''cusolverDnZZgesv_bufferSize'', [T t_cusolverDnHandle_t, N, T t_cusolver_int_t, N,
      T t_cusolver_int_t, N, T (Ptr t_cuDoubleComplex), N, T t_cusolver_int_t, N, T (Ptr t_cusolver_int_t), N,
      T (Ptr t_cuDoubleComplex), N, T t_cusolver_int_t, N, T (Ptr t_cuDoubleComplex), N, T t_cusolver_int_t, N,
      T (Ptr t_void), N, T (Ptr t_size_t), N])]"

definition cusolver_wrappers_3 :: "invocation list" where
  "cusolver_wrappers_3 = [
    (t_cusolverStatus_t, ''cusolverDnZCgesv_bufferSize'', [T t_cusolverDnHandle_t, N, T t_cusolver_int_t, N,
      T t_cusolver_int_t, N, T (Ptr t_cuDoubleComplex), N, T t_cusolver_int_t, N, T (Ptr t_cusolver_int_t), N,
      T (Ptr t_cuDoubleComplex), N, T t_cusolver_int_t, N, T (Ptr t_cuDoubleComplex), N, T t_cusolver_int_t, N,
      T (Ptr t_void), N, T (Ptr t_size_t), N]),
    (t_cusolverStatus_t, ''cusolverDnZKgesv_bufferSize'', [T t_cusolverDnHandle_t, N, T t_cusolver_int_t, N,
      T t_cusolver_int_t, N, T (Ptr t_cuDoubleComplex), N, T t_cusolver_int_t, N, T (Ptr t_cusolver_int_t), N,
      T (Ptr t_cuDoubleComplex), N, T t_cusolver_int_t, N, T (Ptr t_cuDoubleComplex), N, T t_cusolver_int_t, N,
      T (Ptr t_void), N, T (Ptr t_size_t), N]),
    (t_cusolverStatus_t, ''cusolverDnCCgesv_bufferSize'', [T t_cusolverDnHandle_t, N, T t_cusolver_int_t, N,
      T t_cusolver_int_t, N, T (Ptr t_cuComplex), N, T t_cusolver_int_t, N, T (Ptr t_cusolver_int_t), N,
      T (Ptr t_cuComplex), N, T t_cusolver_int_t, N, T (Ptr t_cuComplex), N, T t_cusolver_int_t, N, T (Ptr t_void),
      N, T (Ptr t_size_t), N]),
    (t_cusolverStatus_t, ''cusolverDnCKgesv_bufferSize'', [T t_cusolverDnHandle_t, N, T t_cusolver_int_t, N,
      T t_cusolver_int_t, N, T (Ptr t_cuComplex), N, T t_cusolver_int_t, N, T (Ptr t_cusolver_int_t), N,
      T (Ptr t_cuComplex), N, T t_cusolver_int_t, N, T (Ptr t_cuComplex), N, T t_cusolver_int_t, N, T (Ptr t_void),
      N, T (Ptr t_size_t), N]),
    (t_cusolverStatus_t, ''cusolverDnDDgesv_bufferSize'', [T t_cusolverDnHandle_t, N, T t_cusolver_int_t, N,
      T t_cusolver_int_t, N, T (Ptr t_double), N, T t_cusolver_int_t, N, T (Ptr t_cusolver_int_t), N,
      T (Ptr t_double), N, T t_cusolver_int_t, N, T (Ptr t_double), N, T t_cusolver_int_t, N, T (Ptr t_void), N,
      T (Ptr t_size_t), N]),
    (t_cusolverStatus_t, ''cusolverDnDSgesv_bufferSize'', [T t_cusolverDnHandle_t, N, T t_cusolver_int_t, N,
      T t_cusolver_int_t, N, T (Ptr t_double), N, T t_cusolver_int_t, N, T (Ptr t_cusolver_int_t), N,
      T (Ptr t_double), N, T t_cusolver_int_t, N, T (Ptr t_double), N, T t_cusolver_int_t, N, T (Ptr t_void), N,
      T (Ptr t_size_t), N]),
    (t_cusolverStatus_t, ''cusolverDnDHgesv_bufferSize'', [T t_cusolverDnHandle_t, N, T t_cusolver_int_t, N,
      T t_cusolver_int_t, N, T (Ptr t_double), N, T t_cusolver_int_t, N, T (Ptr t_cusolver_int_t), N,
      T (Ptr t_double), N, T t_cusolver_int_t, N, T (Ptr t_double), N, T t_cusolver_int_t, N, T (Ptr t_void), N,
      T (Ptr t_size_t), N]),
    (t_cusolverStatus_t, ''cusolverDnSSgesv_bufferSize'', [T t_cusolverDnHandle_t, N, T t_cusolver_int_t, N,
      T t_cusolver_int_t, N, T (Ptr t_float), N, T t_cusolver_int_t, N, T (Ptr t_cusolver_int_t), N,
      T (Ptr t_float), N, T t_cusolver_int_t, N, T (Ptr t_float), N, T t_cusolver_int_t, N, T (Ptr t_void), N,
      T (Ptr t_size_t), N]),
    (t_cusolverStatus_t, ''cusolverDnSHgesv_bufferSize'', [T t_cusolverDnHandle_t, N, T t_cusolver_int_t, N,
      T t_cusolver_int_t, N, T (Ptr t_float), N, T t_cusolver_int_t, N, T (Ptr t_cusolver_int_t), N,
      T (Ptr t_float), N, T t_cusolver_int_t, N, T (Ptr t_float), N, T t_cusolver_int_t, N, T (Ptr t_void), N,
      T (Ptr t_size_t), N]),
    (t_cusolverStatus_t, ''cusolverDnIRSXgesv'', [T t_cusolverDnHandle_t, N, T t_cusolverDnIRSParams_t, N,
      T t_cusolverDnIRSInfos_t, N, Other ''int n'', Other ''int nrhs'', Other ''void *dA'', Other ''int ldda'',
      Other ''void *dB'', Other ''int lddb'', Other ''void *dX'', Other ''int lddx'', Other ''void *dWorkspace'',
      Other ''size_t lwork_bytes'', Other ''int *dinfo'']),
    (t_cusolverStatus_t, ''cusolverDnIRSXgesv_bufferSize'', [T t_cusolverDnHandle_t, N, T t_cusolverDnIRSParams_t,
      N, T t_cusolver_int_t, N, T t_cusolver_int_t, N, T (Ptr t_size_t), N]),
    (t_cusolverStatus_t, ''cusolverDnSpotrf_bufferSize'', [T t_cusolverDnHandle_t, N, T t_cublasFillMode_t, N,
      T t_int, N, T (Ptr t_float), N, T t_int, N, T (Ptr t_int), N]),
    (t_cusolverStatus_t, ''cusolverDnDpotrf_bufferSize'', [T t_cusolverDnHandle_t, N, T t_cublasFillMode_t, N,
      T t_int, N, T (Ptr t_double), N, T t_int, N, T (Ptr t_int), N]),
    (t_cusolverStatus_t, ''cusolverDnCpotrf_bufferSize'', [T t_cusolverDnHandle_t, N, T t_cublasFillMode_t, N,
      T t_int, N, T (Ptr t_cuComplex), N, T t_int, N, T (Ptr t_int), N]),
    (t_cusolverStatus_t, ''cusolverDnZpotrf_bufferSize'', [T t_cusolverDnHandle_t, N, T t_cublasFillMode_t, N,
      T t_int, N, T (Ptr t_cuDoubleComplex), N, T t_int, N, T (Ptr t_int), N])]"

definition cusolver_wrappers_4 :: "invocation list" where
  "cusolver_wrappers_4 = [
    (t_cusolverStatus_t, ''cusolverDnSpotrf'', [T t_cusolverDnHandle_t, N, T t_cublasFillMode_t, N, T t_int, N,
      T (Ptr t_float), N, T t_int, N, T (Ptr t_float), N, T t_int, N, T (Ptr t_int), N]),
    (t_cusolverStatus_t, ''cusolverDnDpotrf'', [T t_cusolverDnHandle_t, N, T t_cublasFillMode_t, N, T t_int, N,
      T (Ptr t_double), N, T t_int, N, T (Ptr t_double), N, T t_int, N, T (Ptr t_int), N]),
    (t_cusolverStatus_t, ''cusolverDnCpotrf'', [T t_cusolverDnHandle_t, N, T t_cublasFillMode_t, N, T t_int, N,
      T (Ptr t_cuComplex), N, T t_int, N, T (Ptr t_cuComplex), N, T t_int, N, T (Ptr t_int), N]),
    (t_cusolverStatus_t, ''cusolverDnZpotrf'', [T t_cusolverDnHandle_t, N, T t_cublasFillMode_t, N, T t_int, N,
      T (Ptr t_cuDoubleComplex), N, T t_int, N, T (Ptr t_cuDoubleComplex), N, T t_int, N, T (Ptr t_int), N]),
    (t_cusolverStatus_t, ''cusolverDnSpotrs'', [T t_cusolverDnHandle_t, N, T t_cublasFillMode_t, N, T t_int, N,
      T t_int, N, T (Ptr (Const t_float)), N, T t_int, N, T (Ptr t_float), N, T t_int, N, T (Ptr t_int), N]),
    (t_cusolverStatus_t, ''cusolverDnDpotrs'', [T t_cusolverDnHandle_t, N, T t_cublasFillMode_t, N, T t_int, N,
      T t_int, N, T (Ptr (Const t_double)), N, T t_int, N, T (Ptr t_double), N, T t_int, N, T (Ptr t_int), N]),
    (t_cusolverStatus_t, ''cusolverDnCpotrs'', [T t_cusolverDnHandle_t, N, T t_cublasFillMode_t, N, T t_int, N,
      T t_int, N, T (Ptr (Const t_cuComplex)), N, T t_int, N, T (Ptr t_cuComplex), N, T t_int, N, T (Ptr t_int),
      N]),
    (t_cusolverStatus_t, ''cusolverDnZpotrs'', [T t_cusolverDnHandle_t, N, T t_cublasFillMode_t, N, T t_int, N,
      T t_int, N, T (Ptr (Const t_cuDoubleComplex)), N, T t_int, N, T (Ptr t_cuDoubleComplex), N, T t_int, N,
      T (Ptr t_int), N]),
    (t_cusolverStatus_t, ''cusolverDnSpotrfBatched'', [T t_cusolverDnHandle_t, N, T t_cublasFillMode_t, N, T t_int,
      N, Other ''float* Aarray[]'', T t_int, N, T (Ptr t_int), N, T t_int, N]),
    (t_cusolverStatus_t, ''cusolverDnDpotrfBatched'', [T t_cusolverDnHandle_t, N, T t_cublasFillMode_t, N, T t_int,
      N, Other ''double* Aarray[]'', T t_int, N, T (Ptr t_int), N, T t_int, N]),
    (t_cusolverStatus_t, ''cusolverDnCpotrfBatched'', [T t_cusolverDnHandle_t, N, T t_cublasFillMode_t, N, T t_int,
      N, Other ''cuComplex* Aarray[]'', T t_int, N, T (Ptr t_int), N, T t_int, N]),
    (t_cusolverStatus_t, ''cusolverDnZpotrfBatched'', [T t_cusolverDnHandle_t, N, T t_cublasFillMode_t, N, T t_int,
      N, T (Ptr (Ptr t_cuDoubleComplex)), N, T t_int, N, T (Ptr t_int), N, T t_int, N]),
    (t_cusolverStatus_t, ''cusolverDnSpotrsBatched'', [T t_cusolverDnHandle_t, N, T t_cublasFillMode_t, N, T t_int,
      N, T t_int, N, T (Ptr (Ptr t_float)), N, T t_int, N, T (Ptr (Ptr t_float)), N, T t_int, N, T (Ptr t_int), N,
      T t_int, N]),
    (t_cusolverStatus_t, ''cusolverDnDpotrsBatched'', [T t_cusolverDnHandle_t, N, T t_cublasFillMode_t, N, T t_int,
      N, T t_int, N, T (Ptr (Ptr t_double)), N, T t_int, N, Other ''double* B[]'', T t_int, N, T (Ptr t_int), N,
      T t_int, N])]"

definition cusolver_wrappers_5 :: "invocation list" where
  "cusolver_wrappers_5 = [
    (t_cusolverStatus_t, ''cusolverDnCpotrsBatched'', [T t_cusolverDnHandle_t, N, T t_cublasFillMode_t, N, T t_int,
      N, T t_int, N, T (Ptr (Ptr t_cuComplex)), N, T t_int, N, Other ''cuComplex* B[]'', T t_int, N, T (Ptr t_int),
      N, T t_int, N]),
    (t_cusolverStatus_t, ''cusolverDnZpotrsBatched'', [T t_cusolverDnHandle_t, N, T t_cublasFillMode_t, N, T t_int,
      N, T t_int, N, T (Ptr (Ptr t_cuDoubleComplex)), N, T t_int, N, T (Ptr (Ptr t_cuDoubleComplex)), N, T t_int, N,
      T (Ptr t_int), N, T t_int, N]),
    (t_cusolverStatus_t, ''cusolverDnSpotri_bufferSize'', [T t_cusolverDnHandle_t, N, T t_cublasFillMode_t, N,
      T t_int, N, T (Ptr t_float), N, T t_int, N, T (Ptr t_int), N]),
    (t_cusolverStatus_t, ''cusolverDnDpotri_bufferSize'', [T t_cusolverDnHandle_t, N, T t_cublasFillMode_t, N,
      T t_int, N, T (Ptr t_double), N, T t_int, N, T (Ptr t_int), N]),
    (t_cusolverStatus_t, ''cusolverDnCpotri_bufferSize'', [T t_cusolverDnHandle_t, N, T t_cublasFillMode_t, N,
      T t_int, N, T (Ptr t_cuComplex), N, T t_int, N, T (Ptr t_int), N]),
    (t_cusolverStatus_t, ''cusolverDnZpotri_bufferSize'', [T t_cusolverDnHandle_t, N, T t_cublasFillMode_t, N,
      T t_int, N, T (Ptr t_cuDoubleComplex), N, T t_int, N, T (Ptr t_int), N]),
    (t_cusolverStatus_t, ''cusolverDnSpotri'', [T t_cusolverDnHandle_t, N, T t_cublasFillMode_t, N, T t_int, N,
      T (Ptr t_float), N, T t_int, N, T (Ptr t_float), N, T t_int, N, T (Ptr t_int), N]),
    (t_cusolverStatus_t, ''cusolverDnDpotri'', [T t_cusolverDnHandle_t, N, T t_cublasFillMode_t, N, T t_int, N,
      T (Ptr t_double), N, T t_int, N, T (Ptr t_double), N, T t_int, N, T (Ptr t_int), N]),
    (t_cusolverStatus_t, ''cusolverDnCpotri'', [T t_cusolverDnHandle_t, N, T t_cublasFillMode_t, N, T t_int, N,
      T (Ptr t_cuComplex), N, T t_int, N, T (Ptr t_cuComplex), N, T t_int, N, T (Ptr t_int), N]),
    (t_cusolverStatus_t, ''cusolverDnZpotri'', [T t_cusolverDnHandle_t, N, T t_cublasFillMode_t, N, T t_int, N,
      T (Ptr t_cuDoubleComplex), N, T t_int, N, T (Ptr t_cuDoubleComplex), N, T t_int, N, T (Ptr t_int), N]),
    (t_cusolverStatus_t, ''cusolverDnStrtri_bufferSize'', [T t_cusolverDnHandle_t, N, T t_cublasFillMode_t, N,
      T t_cublasDiagType_t, N, T t_int, N, T (Ptr t_float), N, T t_int, N, T (Ptr t_int), N]),
    (t_cusolverStatus_t, ''cusolverDnDtrtri_bufferSize'', [T t_cusolverDnHandle_t, N, T t_cublasFillMode_t, N,
      T t_cublasDiagType_t, N, T t_int, N, T (Ptr t_double), N, T t_int, N, T (Ptr t_int), N]),
    (t_cusolverStatus_t, ''cusolverDnCtrtri_bufferSize'', [T t_cusolverDnHandle_t, N, T t_cublasFillMode_t, N,
      T t_cublasDiagType_t, N, T t_int, N, T (Ptr t_cuComplex), N, T t_int, N, T (Ptr t_int), N]),
    (t_cusolverStatus_t, ''cusolverDnZtrtri_bufferSize'', [T t_cusolverDnHandle_t, N, T t_cublasFillMode_t, N,
      T t_cublasDiagType_t, N, T t_int, N, T (Ptr t_cuDoubleComplex), N, T t_int, N, T (Ptr t_int), N]),
    (t_cusolverStatus_t, ''cusolverDnStrtri'', [T t_cusolverDnHandle_t, N, T t_cublasFillMode_t, N,
      T t_cublasDiagType_t, N, T t_int, N, T (Ptr t_float), N, T t_int, N, T (Ptr t_float), N, T t_int, N,
      T (Ptr t_int), N])]"

definition cusolver_wrappers_6 :: "invocation list" where
  "cusolver_wrappers_6 = [
    (t_cusolverStatus_t, ''cusolverDnDtrtri'', [T t_cusolverDnHandle_t, N, T t_cublasFillMode_t, N,
      T t_cublasDiagType_t, N, T t_int, N, T (Ptr t_double), N, T t_int, N, T (Ptr t_double), N, T t_int, N,
      T (Ptr t_int), N]),
    (t_cusolverStatus_t, ''cusolverDnCtrtri'', [T t_cusolverDnHandle_t, N, T t_cublasFillMode_t, N,
      T t_cublasDiagType_t, N, T t_int, N, T (Ptr t_cuComplex), N, T t_int, N, T (Ptr t_cuComplex), N, T t_int, N,
      T (Ptr t_int), N]),
    (t_cusolverStatus_t, ''cusolverDnZtrtri'', [T t_cusolverDnHandle_t, N, T t_cublasFillMode_t, N,
      T t_cublasDiagType_t, N, T t_int, N, T (Ptr t_cuDoubleComplex), N, T t_int, N, T (Ptr t_cuDoubleComplex), N,
      T t_int, N, T (Ptr t_int), N]),
    (t_cusolverStatus_t, ''cusolverDnSlauum_bufferSize'', [T t_cusolverDnHandle_t, N, T t_cublasFillMode_t, N,
      T t_int, N, T (Ptr t_float), N, T t_int, N, T (Ptr t_int), N]),
    (t_cusolverStatus_t, ''cusolverDnDlauum_bufferSize'', [T t_cusolverDnHandle_t, N, T t_cublasFillMode_t, N,
      T t_int, N, T (Ptr t_double), N, T t_int, N, T (Ptr t_int), N]),
    (t_cusolverStatus_t, ''cusolverDnClauum_bufferSize'', [T t_cusolverDnHandle_t, N, T t_cublasFillMode_t, N,
      T t_int, N, T (Ptr t_cuComplex), N, T t_int, N, T (Ptr t_int), N]),
    (t_cusolverStatus_t, ''cusolverDnZlauum_bufferSize'', [T t_cusolverDnHandle_t, N, T t_cublasFillMode_t, N,
      T t_int, N, T (Ptr t_cuDoubleComplex), N, T t_int, N, T (Ptr t_int), N]),
    (t_cusolverStatus_t, ''cusolverDnSlauum'', [T t_cusolverDnHandle_t, N, T t_cublasFillMode_t, N, T t_int, N,
      T (Ptr t_float), N, T t_int, N, T (Ptr t_float), N, T t_int, N, T (Ptr t_int), N]),
    (t_cusolverStatus_t, ''cusolverDnDlauum'', [T t_cusolverDnHandle_t, N, T t_cublasFillMode_t, N, T t_int, N,
      T (Ptr t_double), N, T t_int, N, T (Ptr t_double), N, T t_int, N, T (Ptr t_int), N]),
    (t_cusolverStatus_t, ''cusolverDnClauum'', [T t_cusolverDnHandle_t, N, T t_cublasFillMode_t, N, T t_int, N,
      T (Ptr t_cuComplex), N, T t_int, N, T (Ptr t_cuComplex), N, T t_int, N, T (Ptr t_int), N]),
    (t_cusolverStatus_t, ''cusolverDnZlauum'', [T t_cusolverDnHandle_t, N, T t_cublasFillMode_t, N, T t_int, N,
      T (Ptr t_cuDoubleComplex), N, T t_int, N, T (Ptr t_cuDoubleComplex), N, T t_int, N, T (Ptr t_int), N]),
    (t_cusolverStatus_t, ''cusolverDnSgetrf_bufferSize'', [T t_cusolverDnHandle_t, N, T t_int, N, T t_int, N,
      T (Ptr t_float), N, T t_int, N, T (Ptr t_int), N])]"

definition cusolver_wrappers_7 :: "invocation list" where
  "cusolver_wrappers_7 = [
    (t_cusolverStatus_t, ''cusolverDnCgetrf_bufferSize'', [T t_cusolverDnHandle_t, N, T t_int, N, T t_int, N,
      T (Ptr t_cuComplex), N, T t_int, N, T (Ptr t_int), N]),
    (t_cusolverStatus_t, ''cusolverDnZgetrf_bufferSize'', [T t_cusolverDnHandle_t, N, T t_int, N, T t_int, N,
      T (Ptr t_cuDoubleComplex), N, T t_int, N, T (Ptr t_int), N]),
    (t_cusolverStatus_t, ''cusolverDnSgetrf'', [T t_cusolverDnHandle_t, N, T t_int, N, T t_int, N, T (Ptr t_float),
      N, T t_int, N, T (Ptr t_float), N, T (Ptr t_int), N, T (Ptr t_int), N])]"

definition cusolver_wrappers_8 :: "invocation list" where
  "cusolver_wrappers_8 = [
    (t_cusolverStatus_t, ''cusolverDnCgetrf'', [T t_cusolverDnHandle_t, N, T t_int, N, T t_int, N,
      T (Ptr t_cuComplex), N, T t_int, N, T (Ptr t_cuComplex), N, T (Ptr t_int), N, T (Ptr t_int), N]),
    (t_cusolverStatus_t, ''cusolverDnZgetrf'', [T t_cusolverDnHandle_t, N, T t_int, N, T t_int, N,
      T (Ptr t_cuDoubleComplex), N, T t_int, N, T (Ptr t_cuDoubleComplex), N, T (Ptr t_int), N, T (Ptr t_int), N]),
    (t_cusolverStatus_t, ''cusolverDnSlaswp'', [T t_cusolverDnHandle_t, N, T t_int, N, T (Ptr t_float), N, T t_int,
      N, T t_int, N, T t_int, N, T (Ptr (Const t_int)), N, T t_int, N]),
    (t_cusolverStatus_t, ''cusolverDnDlaswp'', [T t_cusolverDnHandle_t, N, T t_int, N, T (Ptr t_double), N, T t_int,
      N, T t_int, N, T t_int, N, T (Ptr (Const t_int)), N, T t_int, N]),
    (t_cusolverStatus_t, ''cusolverDnClaswp'', [T t_cusolverDnHandle_t, N, T t_int, N, T (Ptr t_cuComplex), N,
      T t_int, N, T t_int, N, T t_int, N, T (Ptr (Const t_int)), N, T t_int, N]),
    (t_cusolverStatus_t, ''cusolverDnZlaswp'', [T t_cusolverDnHandle_t, N, T t_int, N, T (Ptr t_cuDoubleComplex), N,
      T t_int, N, T t_int, N, T t_int, N, T (Ptr (Const t_int)), N, T t_int, N]),
    (t_cusolverStatus_t, ''cusolverDnSgetrs'', [T t_cusolverDnHandle_t, N, T t_cublasOperation_t, N, T t_int, N,
      T t_int, N, T (Ptr (Const t_float)), N, T t_int, N, T (Ptr (Const t_int)), N, T (Ptr t_float), N, T t_int, N,
      T (Ptr t_int), N])]"

definition cusolver_wrappers_9 :: "invocation list" where
  "cusolver_wrappers_9 = [
    (t_cusolverStatus_t, ''cusolverDnCgetrs'', [T t_cusolverDnHandle_t, N, T t_cublasOperation_t, N, T t_int, N,
      T t_int, N, T (Ptr (Const t_cuComplex)), N, T t_int, N, T (Ptr (Const t_int)), N, T (Ptr t_cuComplex), N,
      T t_int, N, T (Ptr t_int), N]),
    (t_cusolverStatus_t, ''cusolverDnZgetrs'', [T t_cusolverDnHandle_t, N, T t_cublasOperation_t, N, T t_int, N,
      T t_int, N, T (Ptr (Const t_cuDoubleComplex)), N, T t_int, N, T (Ptr (Const t_int)), N,
      T (Ptr t_cuDoubleComplex), N, T t_int, N, T (Ptr t_int), N]),
    (t_cusolverStatus_t, ''cusolverDnSgeqrf_bufferSize'', [T t_cusolverDnHandle_t, N, T t_int, N, T t_int, N,
      T (Ptr t_float), N, T t_int, N, T (Ptr t_int), N]),
    (t_cusolverStatus_t, ''cusolverDnDgeqrf_bufferSize'', [T t_cusolverDnHandle_t, N, T t_int, N, T t_int, N,
      T (Ptr t_double), N, T t_int, N, T (Ptr t_int), N]),
    (t_cusolverStatus_t, ''cusolverDnCgeqrf_bufferSize'', [T t_cusolverDnHandle_t, N, T t_int, N, T t_int, N,
      T (Ptr t_cuComplex), N, T t_int, N, T (Ptr t_int), N]),
    (t_cusolverStatus_t, ''cusolverDnZgeqrf_bufferSize'', [T t_cusolverDnHandle_t, N, T t_int, N, T t_int, N,
      T (Ptr t_cuDoubleComplex), N, T t_int, N, T (Ptr t_int), N]),
    (t_cusolverStatus_t, ''cusolverDnSgeqrf'', [T t_cusolverDnHandle_t, N, T t_int, N, T t_int, N, T (Ptr t_float),
      N, T t_int, N, T (Ptr t_float), N, T (Ptr t_float), N, T t_int, N, T (Ptr t_int), N]),
    (t_cusolverStatus_t, ''cusolverDnDgeqrf'', [T t_cusolverDnHandle_t, N, T t_int, N, T t_int, N, T (Ptr t_double),
      N, T t_int, N, T (Ptr t_double), N, T (Ptr t_double), N, T t_int, N, T (Ptr t_int), N]),
    (t_cusolverStatus_t, ''cusolverDnCgeqrf'', [T t_cusolverDnHandle_t, N, T t_int, N, T t_int, N,
      T (Ptr t_cuComplex), N, T t_int, N, T (Ptr t_cuComplex), N, T (Ptr t_cuComplex), N, T t_int, N, T (Ptr t_int),
      N]),
    (t_cusolverStatus_t, ''cusolverDnZgeqrf'', [T t_cusolverDnHandle_t, N, T t_int, N, T t_int, N,
      T (Ptr t_cuDoubleComplex), N, T t_int, N, T (Ptr t_cuDoubleComplex), N, T (Ptr t_cuDoubleComplex), N, T t_int,
      N, T (Ptr t_int), N]),
    (t_cusolverStatus_t, ''cusolverDnSorgqr_bufferSize'', [T t_cusolverDnHandle_t, N, T t_int, N, T t_int, N,
      T t_int, N, T (Ptr (Const t_float)), N, T t_int, N, T (Ptr (Const t_float)), N, T (Ptr t_int), N]),
    (t_cusolverStatus_t, ''cusolverDnDorgqr_bufferSize'', [T t_cusolverDnHandle_t, N, T t_int, N, T t_int, N,
      T t_int, N, T (Ptr (Const t_double)), N, T t_int, N, T (Ptr (Const t_double)), N, T (Ptr t_int), N]),
    (t_cusolverStatus_t, ''cusolverDnCungqr_bufferSize'', [T t_cusolverDnHandle_t, N, T t_int, N, T t_int, N,
      T t_int, N, T (Ptr (Const t_cuComplex)), N, T t_int, N, T (Ptr (Const t_cuComplex)), N, T (Ptr t_int), N]),
    (t_cusolverStatus_t, ''cusolverDnZungqr_bufferSize'', [T t_cusolverDnHandle_t, N, T t_int, N, T t_int, N,
      T t_int, N, T (Ptr (Const t_cuDoubleComplex)), N, T t_int, N, T (Ptr (Const t_cuDoubleComplex)), N,
      T (Ptr t_int), N])]"

definition cusolver_wrappers_10 :: "invocation list" where
  "cusolver_wrappers_10 = [
    (t_cusolverStatus_t, ''cusolverDnSorgqr'', [T t_cusolverDnHandle_t, N, T t_int, N, T t_int, N, T t_int, N,
      T (Ptr t_float), N, T t_int, N, T (Ptr (Const t_float)), N, T (Ptr t_float), N, T t_int, N, T (Ptr t_int),
      N]),
    (t_cusolverStatus_t, ''cusolverDnDorgqr'', [T t_cusolverDnHandle_t, N, T t_int, N, T t_int, N, T t_int, N,
      T (Ptr t_double), N, T t_int, N, T (Ptr (Const t_double)), N, T (Ptr t_double), N, T t_int, N, T (Ptr t_int),
      N]),
    (t_cusolverStatus_t, ''cusolverDnCungqr'', [T t_cusolverDnHandle_t, N, T t_int, N, T t_int, N, T t_int, N,
      T (Ptr t_cuComplex), N, T t_int, N, T (Ptr (Const t_cuComplex)), N, T (Ptr t_cuComplex), N, T t_int, N,
      T (Ptr t_int), N]),
    (t_cusolverStatus_t, ''cusolverDnZungqr'', [T t_cusolverDnHandle_t, N, T t_int, N, T t_int, N, T t_int, N,
      T (Ptr t_cuDoubleComplex), N, T t_int, N, T (Ptr (Const t_cuDoubleComplex)), N, T (Ptr t_cuDoubleComplex), N,
      T t_int, N, T (Ptr t_int), N]),
    (t_cusolverStatus_t, ''cusolverDnSormqr_bufferSize'', [T t_cusolverDnHandle_t, N, T t_cublasSideMode_t, N,
      T t_cublasOperation_t, N, T t_int, N, T t_int, N, T t_int, N, T (Ptr (Const t_float)), N, T t_int, N,
      T (Ptr (Const t_float)), N, T (Ptr (Const t_float)), N, T t_int, N, T (Ptr t_int), N]),
    (t_cusolverStatus_t, ''cusolverDnDormqr_bufferSize'', [T t_cusolverDnHandle_t, N, T t_cublasSideMode_t, N,
      T t_cublasOperation_t, N, T t_int, N, T t_int, N, T t_int, N, T (Ptr (Const t_double)), N, T t_int, N,
      T (Ptr (Const t_double)), N, T (Ptr (Const t_double)), N, T t_int, N, T (Ptr t_int), N]),
    (t_cusolverStatus_t, ''cusolverDnCunmqr_bufferSize'', [T t_cusolverDnHandle_t, N, T t_cublasSideMode_t, N,
      T t_cublasOperation_t, N, T t_int, N, T t_int, N, T t_int, N, T (Ptr (Const t_cuComplex)), N, T t_int, N,
      T (Ptr (Const t_cuComplex)), N, T (Ptr (Const t_cuComplex)), N, T t_int, N, T (Ptr t_int), N]),
    (t_cusolverStatus_t, ''cusolverDnZunmqr_bufferSize'', [T t_cusolverDnHandle_t, N, T t_cublasSideMode_t, N,
      T t_cublasOperation_t, N, T t_int, N, T t_int, N, T t_int, N, T (Ptr (Const t_cuDoubleComplex)), N, T t_int,
      N, T (Ptr (Const t_cuDoubleComplex)), N, T (Ptr (Const t_cuDoubleComplex)), N, T t_int, N, T (Ptr t_int), N]),
    (t_cusolverStatus_t, ''cusolverDnSormqr'', [T t_cusolverDnHandle_t, N, T t_cublasSideMode_t, N,
      T t_cublasOperation_t, N, T t_int, N, T t_int, N, T t_int, N, T (Ptr (Const t_float)), N, T t_int, N,
      T (Ptr (Const t_float)), N, T (Ptr t_float), N, T t_int, N, T (Ptr t_float), N, T t_int, N, T (Ptr t_int),
      N]),
    (t_cusolverStatus_t, ''cusolverDnDormqr'', [T t_cusolverDnHandle_t, N, T t_cublasSideMode_t, N,
      T t_cublasOperation_t, N, T t_int, N, T t_int, N, T t_int, N, T (Ptr (Const t_double)), N, T t_int, N,
      T (Ptr (Const t_double)), N, T (Ptr t_double), N, T t_int, N, T (Ptr t_double), N, T t_int, N, T (Ptr t_int),
      N])]"

definition cusolver_wrappers_11 :: "invocation list" where
  "cusolver_wrappers_11 = [
    (t_cusolverStatus_t, ''cusolverDnCunmqr'', [T t_cusolverDnHandle_t, N, T t_cublasSideMode_t, N,
      T t_cublasOperation_t, N, T t_int, N, T t_int, N, T t_int, N, T (Ptr (Const t_cuComplex)), N, T t_int, N,
      T (Ptr (Const t_cuComplex)), N, T (Ptr t_cuComplex), N, T t_int, N, T (Ptr t_cuComplex), N, T t_int, N,
      T (Ptr t_int), N]),
    (t_cusolverStatus_t, ''cusolverDnZunmqr'', [T t_cusolverDnHandle_t, N, T t_cublasSideMode_t, N,
      T t_cublasOperation_t, N, T t_int, N, T t_int, N, T t_int, N, T (Ptr (Const t_cuDoubleComplex)), N, T t_int,
      N, T (Ptr (Const t_cuDoubleComplex)), N, T (Ptr t_cuDoubleComplex), N, T t_int, N, T (Ptr t_cuDoubleComplex),
      N, T t_int, N, T (Ptr t_int), N]),
    (t_cusolverStatus_t, ''cusolverDnSsytrf_bufferSize'', [T t_cusolverDnHandle_t, N, T t_int, N, T (Ptr t_float),
      N, T t_int, N, T (Ptr t_int), N]),
    (t_cusolverStatus_t, ''cusolverDnDsytrf_bufferSize'', [T t_cusolverDnHandle_t, N, T t_int, N, T (Ptr t_double),
      N, T t_int, N, T (Ptr t_int), N]),
    (t_cusolverStatus_t, ''cusolverDnCsytrf_bufferSize'', [T t_cusolverDnHandle_t, N, T t_int, N,
      T (Ptr t_cuComplex), N, T t_int, N, T (Ptr t_int), N]),
    (t_cusolverStatus_t, ''cusolverDnZsytrf_bufferSize'', [T t_cusolverDnHandle_t, N, T t_int, N,
      T (Ptr t_cuDoubleComplex), N, T t_int, N, T (Ptr t_int), N]),
    (t_cusolverStatus_t, ''cusolverDnSsytrf'', [T t_cusolverDnHandle_t, N, T t_cublasFillMode_t, N, T t_int, N,
      T (Ptr t_float), N, T t_int, N, T (Ptr t_int), N, T (Ptr t_float), N, T t_int, N, T (Ptr t_int), N]),
    (t_cusolverStatus_t, ''cusolverDnDsytrf'', [T t_cusolverDnHandle_t, N, T t_cublasFillMode_t, N, T t_int, N,
      T (Ptr t_double), N, T t_int, N, T (Ptr t_int), N, T (Ptr t_double), N, T t_int, N, T (Ptr t_int), N]),
    (t_cusolverStatus_t, ''cusolverDnCsytrf'', [T t_cusolverDnHandle_t, N, T t_cublasFillMode_t, N, T t_int, N,
      T (Ptr t_cuComplex), N, T t_int, N, T (Ptr t_int), N, T (Ptr t_cuComplex), N, T t_int, N, T (Ptr t_int), N]),
    (t_cusolverStatus_t, ''cusolverDnZsytrf'', [T t_cusolverDnHandle_t, N, T t_cublasFillMode_t, N, T t_int, N,
      T (Ptr t_cuDoubleComplex), N, T t_int, N, T (Ptr t_int), N, T (Ptr t_cuDoubleComplex), N, T t_int, N,
      T (Ptr t_int), N]),
    (t_cusolverStatus_t, ''cusolverDnSsytrs_bufferSize'', [T t_cusolverDnHandle_t, N, T t_cublasFillMode_t, N,
      T t_int, N, T t_int, N, T (Ptr (Const t_float)), N, T t_int, N, T (Ptr (Const t_int)), N, T (Ptr t_float), N,
      T t_int, N, T (Ptr t_int), N]),
    (t_cusolverStatus_t, ''cusolverDnDsytrs_bufferSize'', [T t_cusolverDnHandle_t, N, T t_cublasFillMode_t, N,
      T t_int, N, T t_int, N, T (Ptr (Const t_double)), N, T t_int, N, T (Ptr (Const t_int)), N, T (Ptr t_double),
      N, T t_int, N, T (Ptr t_int), N]),
    (t_cusolverStatus_t, ''cusolverDnCsytrs_bufferSize'', [T t_cusolverDnHandle_t, N, T t_cublasFillMode_t, N,
      T t_int, N, T t_int, N, T (Ptr (Const t_cuComplex)), N, T t_int, N, T (Ptr (Const t_int)), N,
      T (Ptr t_cuComplex), N, T t_int, N, T (Ptr t_int), N])]"

definition cusolver_wrappers_12 :: "invocation list" where
  "cusolver_wrappers_12 = [
    (t_cusolverStatus_t, ''cusolverDnZsytrs_bufferSize'', [T t_cusolverDnHandle_t, N, T t_cublasFillMode_t, N,
      T t_int, N, T t_int, N, T (Ptr (Const t_cuDoubleComplex)), N, T t_int, N, T (Ptr (Const t_int)), N,
      T (Ptr t_cuDoubleComplex), N, T t_int, N, T (Ptr t_int), N]),
    (t_cusolverStatus_t, ''cusolverDnSsytrs'', [T t_cusolverDnHandle_t, N, T t_cublasFillMode_t, N, T t_int, N,
      T t_int, N, T (Ptr (Const t_float)), N, T t_int, N, T (Ptr (Const t_int)), N, T (Ptr t_float), N, T t_int, N,
      T (Ptr t_float), N, T t_int, N, T (Ptr t_int), N]),
    (t_cusolverStatus_t, ''cusolverDnDsytrs'', [T t_cusolverDnHandle_t, N, T t_cublasFillMode_t, N, T t_int, N,
      T t_int, N, T (Ptr (Const t_double)), N, T t_int, N, T (Ptr (Const t_int)), N, T (Ptr t_double), N, T t_int,
      N, T (Ptr t_double), N, T t_int, N, T (Ptr t_int), N]),
    (t_cusolverStatus_t, ''cusolverDnCsytrs'', [T t_cusolverDnHandle_t, N, T t_cublasFillMode_t, N, T t_int, N,
      T t_int, N, T (Ptr (Const t_cuComplex)), N, T t_int, N, T (Ptr (Const t_int)), N, T (Ptr t_cuComplex), N,
      T t_int, N, T (Ptr t_cuComplex), N, T t_int, N, T (Ptr t_int), N]),
    (t_cusolverStatus_t, ''cusolverDnZsytrs'', [T t_cusolverDnHandle_t, N, T t_cublasFillMode_t, N, T t_int, N,
      T t_int, N, T (Ptr (Const t_cuDoubleComplex)), N, T t_int, N, T (Ptr (Const t_int)), N,
      T (Ptr t_cuDoubleComplex), N, T t_int, N, T (Ptr t_cuDoubleComplex), N, T t_int, N, T (Ptr t_int), N]),
    (t_cusolverStatus_t, ''cusolverDnSsytri_bufferSize'', [T t_cusolverDnHandle_t, N, T t_cublasFillMode_t, N,
      T t_int, N, T (Ptr t_float), N, T t_int, N, T (Ptr (Const t_int)), N, T (Ptr t_int), N]),
    (t_cusolverStatus_t, ''cusolverDnDsytri_bufferSize'', [T t_cusolverDnHandle_t, N, T t_cublasFillMode_t, N,
      T t_int, N, T (Ptr t_double), N, T t_int, N, T (Ptr (Const t_int)), N, T (Ptr t_int), N]),
    (t_cusolverStatus_t, ''cusolverDnCsytri_bufferSize'', [T t_cusolverDnHandle_t, N, T t_cublasFillMode_t, N,
      T t_int, N, T (Ptr t_cuComplex), N, T t_int, N, T (Ptr (Const t_int)), N, T (Ptr t_int), N]),
    (t_cusolverStatus_t, ''cusolverDnZsytri_bufferSize'', [T t_cusolverDnHandle_t, N, T t_cublasFillMode_t, N,
      T t_int, N, T (Ptr t_cuDoubleComplex), N, T t_int, N, T (Ptr (Const t_int)), N, T (Ptr t_int), N]),
    (t_cusolverStatus_t, ''cusolverDnSsytri'', [T t_cusolverDnHandle_t, N, T t_cublasFillMode_t, N, T t_int, N,
      T (Ptr t_float), N, T t_int, N, T (Ptr (Const t_int)), N, T (Ptr t_float), N, T t_int, N, T (Ptr t_int), N]),
    (t_cusolverStatus_t, ''cusolverDnDsytri'', [T t_cusolverDnHandle_t, N, T t_cublasFillMode_t, N, T t_int, N,
      T (Ptr t_double), N, T t_int, N, T (Ptr (Const t_int)), N, T (Ptr t_double), N, T t_int, N, T (Ptr t_int),
      N]),
    (t_cusolverStatus_t, ''cusolverDnCsytri'', [T t_cusolverDnHandle_t, N, T t_cublasFillMode_t, N, T t_int, N,
      T (Ptr t_cuComplex), N, T t_int, N, T (Ptr (Const t_int)), N, T (Ptr t_cuComplex), N, T t_int, N,
      T (Ptr t_int), N]),
    (t_cusolverStatus_t, ''cusolverDnZsytri'', [T t_cusolverDnHandle_t, N, T t_cublasFillMode_t, N, T t_int, N,
      T (Ptr t_cuDoubleComplex), N, T t_int, N, T (Ptr (Const t_int)), N, T (Ptr t_cuDoubleComplex), N, T t_int, N,
      T (Ptr t_int), N])]"

definition cusolver_wrappers_13 :: "invocation list" where
  "cusolver_wrappers_13 = [
    (t_cusolverStatus_t, ''cusolverDnSgebrd_bufferSize'', [T t_cusolverDnHandle_t, N, T t_int, N, T t_int, N,
      T (Ptr t_int), N]),
    (t_cusolverStatus_t, ''cusolverDnDgebrd_bufferSize'', [T t_cusolverDnHandle_t, N, T t_int, N, T t_int, N,
      T (Ptr t_int), N]),
    (t_cusolverStatus_t, ''cusolverDnCgebrd_bufferSize'', [T t_cusolverDnHandle_t, N, T t_int, N, T t_int, N,
      T (Ptr t_int), N]),
    (t_cusolverStatus_t, ''cusolverDnZgebrd_bufferSize'', [T t_cusolverDnHandle_t, N, T t_int, N, T t_int, N,
      T (Ptr t_int), N]),
    (t_cusolverStatus_t, ''cusolverDnSgebrd'', [T t_cusolverDnHandle_t, N, T t_int, N, T t_int, N, T (Ptr t_float),
      N, T t_int, N, T (Ptr t_float), N, T (Ptr t_float), N, T (Ptr t_float), N, T (Ptr t_float), N,
      T (Ptr t_float), N, T t_int, N, T (Ptr t_int), N]),
    (t_cusolverStatus_t, ''cusolverDnDgebrd'', [T t_cusolverDnHandle_t, N, T t_int, N, T t_int, N, T (Ptr t_double),
      N, T t_int, N, T (Ptr t_double), N, T (Ptr t_double), N, T (Ptr t_double), N, T (Ptr t_double), N,
      T (Ptr t_double), N, T t_int, N, T (Ptr t_int), N]),
    (t_cusolverStatus_t, ''cusolverDnCgebrd'', [T t_cusolverDnHandle_t, N, T t_int, N, T t_int, N,
      T (Ptr t_cuComplex), N, T t_int, N, T (Ptr t_float), N, T (Ptr t_float), N, T (Ptr t_cuComplex), N,
      T (Ptr t_cuComplex), N, T (Ptr t_cuComplex), N, T t_int, N, T (Ptr t_int), N]),
    (t_cusolverStatus_t, ''cusolverDnZgebrd'', [T t_cusolverDnHandle_t, N, T t_int, N, T t_int, N,
      T (Ptr t_cuDoubleComplex), N, T t_int, N, T (Ptr t_double), N, T (Ptr t_double), N, T (Ptr t_cuDoubleComplex),
      N, T (Ptr t_cuDoubleComplex), N, T (Ptr t_cuDoubleComplex), N, T t_int, N, T (Ptr t_int), N]),
    (t_cusolverStatus_t, ''cusolverDnSorgbr_bufferSize'', [T t_cusolverDnHandle_t, N, T t_cublasSideMode_t, N,
      T t_int, N, T t_int, N, T t_int, N, T (Ptr (Const t_float)), N, T t_int, N, T (Ptr (Const t_float)), N,
      T (Ptr t_int), N]),
    (t_cusolverStatus_t, ''cusolverDnDorgbr_bufferSize'', [T t_cusolverDnHandle_t, N, T t_cublasSideMode_t, N,
      T t_int, N, T t_int, N, T t_int, N, T (Ptr (Const t_double)), N, T t_int, N, T (Ptr (Const t_double)), N,
      T (Ptr t_int), N]),
    (t_cusolverStatus_t, ''cusolverDnCungbr_bufferSize'', [T t_cusolverDnHandle_t, N, T t_cublasSideMode_t, N,
      T t_int, N, T t_int, N, T t_int, N, T (Ptr (Const t_cuComplex)), N, T t_int, N, T (Ptr (Const t_cuComplex)),
      N, T (Ptr t_int), N]),
    (t_cusolverStatus_t, ''cusolverDnZungbr_bufferSize'', [T t_cusolverDnHandle_t, N, T t_cublasSideMode_t, N,
      T t_int, N, T t_int, N, T t_int, N, T (Ptr (Const t_cuDoubleComplex)), N, T t_int, N,
      T (Ptr (Const t_cuDoubleComplex)), N, T (Ptr t_int), N]),
    (t_cusolverStatus_t, ''cusolverDnSorgbr'', [T t_cusolverDnHandle_t, N, T t_cublasSideMode_t, N, T t_int, N,
      T t_int, N, T t_int, N, T (Ptr t_float), N, T t_int, N, T (Ptr (Const t_float)), N, T (Ptr t_float), N,
      T t_int, N, T (Ptr t_int), N]),
    (t_cusolverStatus_t, ''cusolverDnDorgbr'', [T t_cusolverDnHandle_t, N, T t_cublasSideMode_t, N, T t_int, N,
      T t_int, N, T t_int, N, T (Ptr t_double), N, T t_int, N, T (Ptr (Const t_double)), N, T (Ptr t_double), N,
      T t_int, N, T (Ptr t_int), N])]"

definition cusolver_wrappers_14 :: "invocation list" where
  "cusolver_wrappers_14 = [
    (t_cusolverStatus_t, ''cusolverDnCungbr'', [T t_cusolverDnHandle_t, N, T t_cublasSideMode_t, N, T t_int, N,
      T t_int, N, T t_int, N, T (Ptr t_cuComplex), N, T t_int, N, T (Ptr (Const t_cuComplex)), N,
      T (Ptr t_cuComplex), N, T t_int, N, T (Ptr t_int), N]),
    (t_cusolverStatus_t, ''cusolverDnZungbr'', [T t_cusolverDnHandle_t, N, T t_cublasSideMode_t, N, T t_int, N,
      T t_int, N, T t_int, N, T (Ptr t_cuDoubleComplex), N, T t_int, N, T (Ptr (Const t_cuDoubleComplex)), N,
      T (Ptr t_cuDoubleComplex), N, T t_int, N, T (Ptr t_int), N]),
    (t_cusolverStatus_t, ''cusolverDnSsytrd_bufferSize'', [T t_cusolverDnHandle_t, N, T t_cublasFillMode_t, N,
      T t_int, N, T (Ptr (Const t_float)), N, T t_int, N, T (Ptr (Const t_float)), N, T (Ptr (Const t_float)), N,
      T (Ptr (Const t_float)), N, T (Ptr t_int), N]),
    (t_cusolverStatus_t, ''cusolverDnDsytrd_bufferSize'', [T t_cusolverDnHandle_t, N, T t_cublasFillMode_t, N,
      T t_int, N, T (Ptr (Const t_double)), N, T t_int, N, T (Ptr (Const t_double)), N, T (Ptr (Const t_double)), N,
      T (Ptr (Const t_double)), N, T (Ptr t_int), N]),
    (t_cusolverStatus_t, ''cusolverDnChetrd_bufferSize'', [T t_cusolverDnHandle_t, N, T t_cublasFillMode_t, N,
      T t_int, N, T (Ptr (Const t_cuComplex)), N, T t_int, N, T (Ptr (Const t_float)), N, T (Ptr (Const t_float)),
      N, T (Ptr (Const t_cuComplex)), N, T (Ptr t_int), N]),
    (t_cusolverStatus_t, ''cusolverDnZhetrd_bufferSize'', [T t_cusolverDnHandle_t, N, T t_cublasFillMode_t, N,
      T t_int, N, T (Ptr (Const t_cuDoubleComplex)), N, T t_int, N, T (Ptr (Const t_double)), N,
      T (Ptr (Const t_double)), N, T (Ptr (Const t_cuDoubleComplex)), N, T (Ptr t_int), N]),
    (t_cusolverStatus_t, ''cusolverDnSsytrd'', [T t_cusolverDnHandle_t, N, T t_cublasFillMode_t, N, T t_int, N,
      T (Ptr t_float), N, T t_int, N, T (Ptr t_float), N, T (Ptr t_float), N, T (Ptr t_float), N, T (Ptr t_float),
      N, T t_int, N, T (Ptr t_int), N]),
    (t_cusolverStatus_t, ''cusolverDnDsytrd'', [T t_cusolverDnHandle_t, N, T t_cublasFillMode_t, N, T t_int, N,
      T (Ptr t_double), N, T t_int, N, T (Ptr t_double), N, T (Ptr t_double), N, T (Ptr t_double), N,
      T (Ptr t_double), N, T t_int, N, T (Ptr t_int), N]),
    (t_cusolverStatus_t, ''cusolverDnChetrd'', [T t_cusolverDnHandle_t, N, T t_cublasFillMode_t, N, T t_int, N,
      T (Ptr t_cuComplex), N, T t_int, N, T (Ptr t_float), N, T (Ptr t_float), N, T (Ptr t_cuComplex), N,
      T (Ptr t_cuComplex), N, T t_int, N, T (Ptr t_int), N]),
    (t_cusolverStatus_t, ''cusolverDnZhetrd'', [T t_cusolverDnHandle_t, N, T t_cublasFillMode_t, N, T t_int, N,
      T (Ptr t_cuDoubleComplex), N, T t_int, N, T (Ptr t_double), N, T (Ptr t_double), N, T (Ptr t_cuDoubleComplex),
      N, T (Ptr t_cuDoubleComplex), N, T t_int, N, T (Ptr t_int), N]),
    (t_cusolverStatus_t, ''cusolverDnSorgtr_bufferSize'', [T t_cusolverDnHandle_t, N, T t_cublasFillMode_t, N,
      T t_int, N, T (Ptr (Const t_float)), N, T t_int, N, T (Ptr (Const t_float)), N, T (Ptr t_int), N]),
    (t_cusolverStatus_t, ''cusolverDnDorgtr_bufferSize'', [T t_cusolverDnHandle_t, N, T t_cublasFillMode_t, N,
      T t_int, N, T (Ptr (Const t_double)), N, T t_int, N, T (Ptr (Const t_double)), N, T (Ptr t_int), N])]"

definition cusolver_wrappers_15 :: "invocation list" where
  "cusolver_wrappers_15 = [
    (t_cusolverStatus_t, ''cusolverDnCungtr_bufferSize'', [T t_cusolverDnHandle_t, N, T t_cublasFillMode_t, N,
      T t_int, N, T (Ptr (Const t_cuComplex)), N, T t_int, N, T (Ptr (Const t_cuComplex)), N, T (Ptr t_int), N]),
    (t_cusolverStatus_t, ''cusolverDnZungtr_bufferSize'', [T t_cusolverDnHandle_t, N, T t_cublasFillMode_t, N,
      T t_int, N, T (Ptr (Const t_cuDoubleComplex)), N, T t_int, N, T (Ptr (Const t_cuDoubleComplex)), N,
      T (Ptr t_int), N]),
    (t_cusolverStatus_t, ''cusolverDnSorgtr'', [T t_cusolverDnHandle_t, N, T t_cublasFillMode_t, N, T t_int, N,
      T (Ptr t_float), N, T t_int, N, T (Ptr (Const t_float)), N, T (Ptr t_float), N, T t_int, N, T (Ptr t_int),
      N]),
    (t_cusolverStatus_t, ''cusolverDnDorgtr'', [T t_cusolverDnHandle_t, N, T t_cublasFillMode_t, N, T t_int, N,
      T (Ptr t_double), N, T t_int, N, T (Ptr (Const t_double)), N, T (Ptr t_double), N, T t_int, N, T (Ptr t_int),
      N]),
    (t_cusolverStatus_t, ''cusolverDnCungtr'', [T t_cusolverDnHandle_t, N, T t_cublasFillMode_t, N, T t_int, N,
      T (Ptr t_cuComplex), N, T t_int, N, T (Ptr (Const t_cuComplex)), N, T (Ptr t_cuComplex), N, T t_int, N,
      T (Ptr t_int), N]),
    (t_cusolverStatus_t, ''cusolverDnZungtr'', [T t_cusolverDnHandle_t, N, T t_cublasFillMode_t, N, T t_int, N,
      T (Ptr t_cuDoubleComplex), N, T t_int, N, T (Ptr (Const t_cuDoubleComplex)), N, T (Ptr t_cuDoubleComplex), N,
      T t_int, N, T (Ptr t_int), N]),
    (t_cusolverStatus_t, ''cusolverDnSormtr_bufferSize'', [T t_cusolverDnHandle_t, N, T t_cublasSideMode_t, N,
      T t_cublasFillMode_t, N, T t_cublasOperation_t, N, T t_int, N, T t_int, N, T (Ptr (Const t_float)), N,
      T t_int, N, T (Ptr (Const t_float)), N, T (Ptr (Const t_float)), N, T t_int, N, T (Ptr t_int), N]),
    (t_cusolverStatus_t, ''cusolverDnDormtr_bufferSize'', [T t_cusolverDnHandle_t, N, T t_cublasSideMode_t, N,
      T t_cublasFillMode_t, N, T t_cublasOperation_t, N, T t_int, N, T t_int, N, T (Ptr (Const t_double)), N,
      T t_int, N, T (Ptr (Const t_double)), N, T (Ptr (Const t_double)), N, T t_int, N, T (Ptr t_int), N]),
    (t_cusolverStatus_t, ''cusolverDnCunmtr_bufferSize'', [T t_cusolverDnHandle_t, N, T t_cublasSideMode_t, N,
      T t_cublasFillMode_t, N, T t_cublasOperation_t, N, T t_int, N, T t_int, N, T (Ptr (Const t_cuComplex)), N,
      T t_int, N, T (Ptr (Const t_cuComplex)), N, T (Ptr (Const t_cuComplex)), N, T t_int, N, T (Ptr t_int), N]),
    (t_cusolverStatus_t, ''cusolverDnZunmtr_bufferSize'', [T t_cusolverDnHandle_t, N, T t_cublasSideMode_t, N,
      T t_cublasFillMode_t, N, T t_cublasOperation_t, N, T t_int, N, T t_int, N, T (Ptr (Const t_cuDoubleComplex)),
      N, T t_int, N, T (Ptr (Const t_cuDoubleComplex)), N, T (Ptr (Const t_cuDoubleComplex)), N, T t_int, N,
      T (Ptr t_int), N]),
    (t_cusolverStatus_t, ''cusolverDnSormtr'', [T t_cusolverDnHandle_t, N, T t_cublasSideMode_t, N,
      T t_cublasFillMode_t, N, T t_cublasOperation_t, N, T t_int, N, T t_int, N, T (Ptr t_float), N, T t_int, N,
      T (Ptr t_float), N, T (Ptr t_float), N, T t_int, N, T (Ptr t_float), N, T t_int, N, T (Ptr t_int), N])]"

definition cusolver_wrappers_16 :: "invocation list" where
  "cusolver_wrappers_16 = [
    (t_cusolverStatus_t, ''cusolverDnDormtr'', [T t_cusolverDnHandle_t, N, T t_cublasSideMode_t, N,
      T t_cublasFillMode_t, N, T t_cublasOperation_t, N, T t_int, N, T t_int, N, T (Ptr t_double), N, T t_int, N,
      T (Ptr t_double), N, T (Ptr t_double), N, T t_int, N, T (Ptr t_double), N, T t_int, N, T (Ptr t_int), N]),
    (t_cusolverStatus_t, ''cusolverDnCunmtr'', [T t_cusolverDnHandle_t, N, T t_cublasSideMode_t, N,
      T t_cublasFillMode_t, N, T t_cublasOperation_t, N, T t_int, N, T t_int, N, T (Ptr t_cuComplex), N, T t_int, N,
      T (Ptr t_cuComplex), N, T (Ptr t_cuComplex), N, T t_int, N, T (Ptr t_cuComplex), N, T t_int, N, T (Ptr t_int),
      N]),
    (t_cusolverStatus_t, ''cusolverDnZunmtr'', [T t_cusolverDnHandle_t, N, T t_cublasSideMode_t, N,
      T t_cublasFillMode_t, N, T t_cublasOperation_t, N, T t_int, N, T t_int, N, T (Ptr t_cuDoubleComplex), N,
      T t_int, N, T (Ptr t_cuDoubleComplex), N, T (Ptr t_cuDoubleComplex), N, T t_int, N, T (Ptr t_cuDoubleComplex),
      N, T t_int, N, T (Ptr t_int), N]),
    (t_cusolverStatus_t, ''cusolverDnSgesvd_bufferSize'', [T t_cusolverDnHandle_t, N, T t_int, N, T t_int, N,
      T (Ptr t_int), N]),
    (t_cusolverStatus_t, ''cusolverDnDgesvd_bufferSize'', [T t_cusolverDnHandle_t, N, T t_int, N, T t_int, N,
      T (Ptr t_int), N]),
    (t_cusolverStatus_t, ''cusolverDnCgesvd_bufferSize'', [T t_cusolverDnHandle_t, N, T t_int, N, T t_int, N,
      T (Ptr t_int), N]),
    (t_cusolverStatus_t, ''cusolverDnZgesvd_bufferSize'', [T t_cusolverDnHandle_t, N, T t_int, N, T t_int, N,
      T (Ptr t_int), N]),
    (t_cusolverStatus_t, ''cusolverDnSgesvd'', [T t_cusolverDnHandle_t, N, T t_signed_char, N, T t_signed_char, N,
      T t_int, N, T t_int, N, T (Ptr t_float), N, T t_int, N, T (Ptr t_float), N, T (Ptr t_float), N, T t_int, N,
      T (Ptr t_float), N, T t_int, N, T (Ptr t_float), N, T t_int, N, T (Ptr t_float), N, T (Ptr t_int), N]),
    (t_cusolverStatus_t, ''cusolverDnDgesvd'', [T t_cusolverDnHandle_t, N, T t_signed_char, N, T t_signed_char, N,
      T t_int, N, T t_int, N, T (Ptr t_double), N, T t_int, N, T (Ptr t_double), N, T (Ptr t_double), N, T t_int, N,
      T (Ptr t_double), N, T t_int, N, T (Ptr t_double), N, T t_int, N, T (Ptr t_double), N, T (Ptr t_int), N]),
    (t_cusolverStatus_t, ''cusolverDnCgesvd'', [T t_cusolverDnHandle_t, N, T t_signed_char, N, T t_signed_char, N,
      T t_int, N, T t_int, N, T (Ptr t_cuComplex), N, T t_int, N, T (Ptr t_float), N, T (Ptr t_cuComplex), N,
      T t_int, N, T (Ptr t_cuComplex), N, T t_int, N, T (Ptr t_cuComplex), N, T t_int, N, T (Ptr t_float), N,
      T (Ptr t_int), N]),
    (t_cusolverStatus_t, ''cusolverDnZgesvd'', [T t_cusolverDnHandle_t, N, T t_signed_char, N, T t_signed_char, N,
      T t_int, N, T t_int, N, T (Ptr t_cuDoubleComplex), N, T t_int, N, T (Ptr t_double), N,
      T (Ptr t_cuDoubleComplex), N, T t_int, N, T (Ptr t_cuDoubleComplex), N, T t_int, N, T (Ptr t_cuDoubleComplex),
      N, T t_int, N, T (Ptr t_double), N, T (Ptr t_int), N])]"

definition cusolver_wrappers_17 :: "invocation list" where
  "cusolver_wrappers_17 = [
    (t_cusolverStatus_t, ''cusolverDnSsyevd_bufferSize'', [T t_cusolverDnHandle_t, N, T t_cusolverEigMode_t, N,
      T t_cublasFillMode_t, N, T t_int, N, T (Ptr (Const t_float)), N, T t_int, N, T (Ptr (Const t_float)), N,
      T (Ptr t_int), N]),
    (t_cusolverStatus_t, ''cusolverDnDsyevd_bufferSize'', [T t_cusolverDnHandle_t, N, T t_cusolverEigMode_t, N,
      T t_cublasFillMode_t, N, T t_int, N, T (Ptr (Const t_double)), N, T t_int, N, T (Ptr (Const t_double)), N,
      T (Ptr t_int), N]),
    (t_cusolverStatus_t, ''cusolverDnCheevd_bufferSize'', [T t_cusolverDnHandle_t, N, T t_cusolverEigMode_t, N,
      T t_cublasFillMode_t, N, T t_int, N, T (Ptr (Const t_cuComplex)), N, T t_int, N, T (Ptr (Const t_float)), N,
      T (Ptr t_int), N]),
    (t_cusolverStatus_t, ''cusolverDnZheevd_bufferSize'', [T t_cusolverDnHandle_t, N, T t_cusolverEigMode_t, N,
      T t_cublasFillMode_t, N, T t_int, N, T (Ptr (Const t_cuDoubleComplex)), N, T t_int, N,
      T (Ptr (Const t_double)), N, T (Ptr t_int), N]),
    (t_cusolverStatus_t, ''cusolverDnSsyevd'', [T t_cusolverDnHandle_t, N, T t_cusolverEigMode_t, N,
      T t_cublasFillMode_t, N, T t_int, N, T (Ptr t_float), N, T t_int, N, T (Ptr t_float), N, T (Ptr t_float), N,
      T t_int, N, T (Ptr t_int), N]),
    (t_cusolverStatus_t, ''cusolverDnDsyevd'', [T t_cusolverDnHandle_t, N, T t_cusolverEigMode_t, N,
      T t_cublasFillMode_t, N, T t_int, N, T (Ptr t_double), N, T t_int, N, T (Ptr t_double), N, T (Ptr t_double),
      N, T t_int, N, T (Ptr t_int), N]),
    (t_cusolverStatus_t, ''cusolverDnCheevd'', [T t_cusolverDnHandle_t, N, T t_cusolverEigMode_t, N,
      T t_cublasFillMode_t, N, T t_int, N, T (Ptr t_cuComplex), N, T t_int, N, T (Ptr t_float), N,
      T (Ptr t_cuComplex), N, T t_int, N, T (Ptr t_int), N]),
    (t_cusolverStatus_t, ''cusolverDnZheevd'', [T t_cusolverDnHandle_t, N, T t_cusolverEigMode_t, N,
      T t_cublasFillMode_t, N, T t_int, N, T (Ptr t_cuDoubleComplex), N, T t_int, N, T (Ptr t_double), N,
      T (Ptr t_cuDoubleComplex), N, T t_int, N, T (Ptr t_int), N]),
    (t_cusolverStatus_t, ''cusolverDnSsyevdx_bufferSize'', [T t_cusolverDnHandle_t, N, T t_cusolverEigMode_t, N,
      T t_cusolverEigRange_t, N, T t_cublasFillMode_t, N, T t_int, N, T (Ptr (Const t_float)), N, T t_int, N,
      T t_float, N, T t_float, N, T t_int, N, T t_int, N, T (Ptr t_int), N, T (Ptr (Const t_float)), N,
      T (Ptr t_int), N]),
    (t_cusolverStatus_t, ''cusolverDnDsyevdx_bufferSize'', [T t_cusolverDnHandle_t, N, T t_cusolverEigMode_t, N,
      T t_cusolverEigRange_t, N, T t_cublasFillMode_t, N, T t_int, N, T (Ptr (Const t_double)), N, T t_int, N,
      T t_double, N, T t_double, N, T t_int, N, T t_int, N, T (Ptr t_int), N, T (Ptr (Const t_double)), N,
      T (Ptr t_int), N]),
    (t_cusolverStatus_t, ''cusolverDnCheevdx_bufferSize'', [T t_cusolverDnHandle_t, N, T t_cusolverEigMode_t, N,
      T t_cusolverEigRange_t, N, T t_cublasFillMode_t, N, T t_int, N, T (Ptr (Const t_cuComplex)), N, T t_int, N,
      T t_float, N, T t_float, N, T t_int, N, T t_int, N, T (Ptr t_int), N, T (Ptr (Const t_float)), N,
      T (Ptr t_int), N])]"

definition cusolver_wrappers_18 :: "invocation list" where
  "cusolver_wrappers_18 = [
    (t_cusolverStatus_t, ''cusolverDnZheevdx_bufferSize'', [T t_cusolverDnHandle_t, N, T t_cusolverEigMode_t, N,
      T t_cusolverEigRange_t, N, T t_cublasFillMode_t, N, T t_int, N, T (Ptr (Const t_cuDoubleComplex)), N, T t_int,
      N, T t_double, N, T t_double, N, T t_int, N, T t_int, N, T (Ptr t_int), N, T (Ptr (Const t_double)), N,
      T (Ptr t_int), N]),
    (t_cusolverStatus_t, ''cusolverDnSsyevdx'', [T t_cusolverDnHandle_t, N, T t_cusolverEigMode_t, N,
      T t_cusolverEigRange_t, N, T t_cublasFillMode_t, N, T t_int, N, T (Ptr t_float), N, T t_int, N, T t_float, N,
      T t_float, N, T t_int, N, T t_int, N, T (Ptr t_int), N, T (Ptr t_float), N, T (Ptr t_float), N, T t_int, N,
      T (Ptr t_int), N]),
    (t_cusolverStatus_t, ''cusolverDnDsyevdx'', [T t_cusolverDnHandle_t, N, T t_cusolverEigMode_t, N,
      T t_cusolverEigRange_t, N, T t_cublasFillMode_t, N, T t_int, N, T (Ptr t_double), N, T t_int, N, T t_double,
      N, T t_double, N, T t_int, N, T t_int, N, T (Ptr t_int), N, T (Ptr t_double), N, T (Ptr t_double), N, T t_int,
      N, T (Ptr t_int), N]),
    (t_cusolverStatus_t, ''cusolverDnCheevdx'', [T t_cusolverDnHandle_t, N, T t_cusolverEigMode_t, N,
      T t_cusolverEigRange_t, N, T t_cublasFillMode_t, N, T t_int, N, T (Ptr t_cuComplex), N, T t_int, N, T t_float,
      N, T t_float, N, T t_int, N, T t_int, N, T (Ptr t_int), N, T (Ptr t_float), N, T (Ptr t_cuComplex), N,
      T t_int, N, T (Ptr t_int), N]),
    (t_cusolverStatus_t, ''cusolverDnZheevdx'', [T t_cusolverDnHandle_t, N, T t_cusolverEigMode_t, N,
      T t_cusolverEigRange_t, N, T t_cublasFillMode_t, N, T t_int, N, T (Ptr t_cuDoubleComplex), N, T t_int, N,
      T t_double, N, T t_double, N, T t_int, N, T t_int, N, T (Ptr t_int), N, T (Ptr t_double), N,
      T (Ptr t_cuDoubleComplex), N, T t_int, N, T (Ptr t_int), N]),
    (t_cusolverStatus_t, ''cusolverDnSsygvdx_bufferSize'', [T t_cusolverDnHandle_t, N, T t_cusolverEigType_t, N,
      T t_cusolverEigMode_t, N, T t_cusolverEigRange_t, N, T t_cublasFillMode_t, N, T t_int, N,
      T (Ptr (Const t_float)), N, T t_int, N, T (Ptr (Const t_float)), N, T t_int, N, T t_float, N, T t_float, N,
      T t_int, N, T t_int, N, T (Ptr t_int), N, T (Ptr (Const t_float)), N, T (Ptr t_int), N]),
    (t_cusolverStatus_t, ''cusolverDnDsygvdx_bufferSize'', [T t_cusolverDnHandle_t, N, T t_cusolverEigType_t, N,
      T t_cusolverEigMode_t, N, T t_cusolverEigRange_t, N, T t_cublasFillMode_t, N, T t_int, N,
      T (Ptr (Const t_double)), N, T t_int, N, T (Ptr (Const t_double)), N, T t_int, N, T t_double, N, T t_double,
      N, T t_int, N, T t_int, N, T (Ptr t_int), N, T (Ptr (Const t_double)), N, T (Ptr t_int), N]),
    (t_cusolverStatus_t, ''cusolverDnChegvdx_bufferSize'', [T t_cusolverDnHandle_t, N, T t_cusolverEigType_t, N,
      T t_cusolverEigMode_t, N, T t_cusolverEigRange_t, N, T t_cublasFillMode_t, N, T t_int, N,
      T (Ptr (Const t_cuComplex)), N, T t_int, N, T (Ptr (Const t_cuComplex)), N, T t_int, N, T t_float, N,
      T t_float, N, T t_int, N, T t_int, N, T (Ptr t_int), N, T (Ptr (Const t_float)), N, T (Ptr t_int), N])]"

definition cusolver_wrappers_19 :: "invocation list" where
  "cusolver_wrappers_19 = [
    (t_cusolverStatus_t, ''cusolverDnZhegvdx_bufferSize'', [T t_cusolverDnHandle_t, N, T t_cusolverEigType_t, N,
      T t_cusolverEigMode_t, N, T t_cusolverEigRange_t, N, T t_cublasFillMode_t, N, T t_int, N,
      T (Ptr (Const t_cuDoubleComplex)), N, T t_int, N, T (Ptr (Const t_cuDoubleComplex)), N, T t_int, N,
      T t_double, N, T t_double, N, T t_int, N, T t_int, N, T (Ptr t_int), N, T (Ptr (Const t_double)), N,
      T (Ptr t_int), N]),
    (t_cusolverStatus_t, ''cusolverDnSsygvdx'', [T t_cusolverDnHandle_t, N, T t_cusolverEigType_t, N,
      T t_cusolverEigMode_t, N, T t_cusolverEigRange_t, N, T t_cublasFillMode_t, N, T t_int, N, T (Ptr t_float), N,
      T t_int, N, T (Ptr t_float), N, T t_int, N, T t_float, N, T t_float, N, T t_int, N, T t_int, N, T (Ptr t_int),
      N, T (Ptr t_float), N, T (Ptr t_float), N, T t_int, N, T (Ptr t_int), N]),
    (t_cusolverStatus_t, ''cusolverDnDsygvdx'', [T t_cusolverDnHandle_t, N, T t_cusolverEigType_t, N,
      T t_cusolverEigMode_t, N, T t_cusolverEigRange_t, N, T t_cublasFillMode_t, N, T t_int, N, T (Ptr t_double), N,
      T t_int, N, T (Ptr t_double), N, T t_int, N, T t_double, N, T t_double, N, T t_int, N, T t_int, N,
      T (Ptr t_int), N, T (Ptr t_double), N, T (Ptr t_double), N, T t_int, N, T (Ptr t_int), N]),
    (t_cusolverStatus_t, ''cusolverDnChegvdx'', [T t_cusolverDnHandle_t, N, T t_cusolverEigType_t, N,
      T t_cusolverEigMode_t, N, T t_cusolverEigRange_t, N, T t_cublasFillMode_t, N, T t_int, N, T (Ptr t_cuComplex),
      N, T t_int, N, T (Ptr t_cuComplex), N, T t_int, N, T t_float, N, T t_float, N, T t_int, N, T t_int, N,
      T (Ptr t_int), N, T (Ptr t_float), N, T (Ptr t_cuComplex), N, T t_int, N, T (Ptr t_int), N]),
    (t_cusolverStatus_t, ''cusolverDnZhegvdx'', [T t_cusolverDnHandle_t, N, T t_cusolverEigType_t, N,
      T t_cusolverEigMode_t, N, T t_cusolverEigRange_t, N, T t_cublasFillMode_t, N, T t_int, N,
      T (Ptr t_cuDoubleComplex), N, T t_int, N, T (Ptr t_cuDoubleComplex), N, T t_int, N, T t_double, N, T t_double,
      N, T t_int, N, T t_int, N, T (Ptr t_int), N, T (Ptr t_double), N, T (Ptr t_cuDoubleComplex), N, T t_int, N,
      T (Ptr t_int), N]),
    (t_cusolverStatus_t, ''cusolverDnSsygvd_bufferSize'', [T t_cusolverDnHandle_t, N, T t_cusolverEigType_t, N,
      T t_cusolverEigMode_t, N, T t_cublasFillMode_t, N, T t_int, N, T (Ptr (Const t_float)), N, T t_int, N,
      T (Ptr (Const t_float)), N, T t_int, N, T (Ptr (Const t_float)), N, T (Ptr t_int), N]),
    (t_cusolverStatus_t, ''cusolverDnDsygvd_bufferSize'', [T t_cusolverDnHandle_t, N, T t_cusolverEigType_t, N,
      T t_cusolverEigMode_t, N, T t_cublasFillMode_t, N, T t_int, N, T (Ptr (Const t_double)), N, T t_int, N,
      T (Ptr (Const t_double)), N, T t_int, N, T (Ptr (Const t_double)), N, T (Ptr t_int), N]),
    (t_cusolverStatus_t, ''cusolverDnChegvd_bufferSize'', [T t_cusolverDnHandle_t, N, T t_cusolverEigType_t, N,
      T t_cusolverEigMode_t, N, T t_cublasFillMode_t, N, T t_int, N, T (Ptr (Const t_cuComplex)), N, T t_int, N,
      T (Ptr (Const t_cuComplex)), N, T t_int, N, T (Ptr (Const t_float)), N, T (Ptr t_int), N])]"

definition cusolver_wrappers_20 :: "invocation list" where
  "cusolver_wrappers_20 = [
    (t_cusolverStatus_t, ''cusolverDnZhegvd_bufferSize'', [T t_cusolverDnHandle_t, N, T t_cusolverEigType_t, N,
      T t_cusolverEigMode_t, N, T t_cublasFillMode_t, N, T t_int, N, T (Ptr (Const t_cuDoubleComplex)), N, T t_int,
      N, T (Ptr (Const t_cuDoubleComplex)), N, T t_int, N, T (Ptr (Const t_double)), N, T (Ptr t_int), N]),
    (t_cusolverStatus_t, ''cusolverDnSsygvd'', [T t_cusolverDnHandle_t, N, T t_cusolverEigType_t, N,
      T t_cusolverEigMode_t, N, T t_cublasFillMode_t, N, T t_int, N, T (Ptr t_float), N, T t_int, N,
      T (Ptr t_float), N, T t_int, N, T (Ptr t_float), N, T (Ptr t_float), N, T t_int, N, T (Ptr t_int), N]),
    (t_cusolverStatus_t, ''cusolverDnDsygvd'', [T t_cusolverDnHandle_t, N, T t_cusolverEigType_t, N,
      T t_cusolverEigMode_t, N, T t_cublasFillMode_t, N, T t_int, N, T (Ptr t_double), N, T t_int, N,
      T (Ptr t_double), N, T t_int, N, T (Ptr t_double), N, T (Ptr t_double), N, T t_int, N, T (Ptr t_int), N]),
    (t_cusolverStatus_t, ''cusolverDnChegvd'', [T t_cusolverDnHandle_t, N, T t_cusolverEigType_t, N,
      T t_cusolverEigMode_t, N, T t_cublasFillMode_t, N, T t_int, N, T (Ptr t_cuComplex), N, T t_int, N,
      T (Ptr t_cuComplex), N, T t_int, N, T (Ptr t_float), N, T (Ptr t_cuComplex), N, T t_int, N, T (Ptr t_int),
      N]),
    (t_cusolverStatus_t, ''cusolverDnZhegvd'', [T t_cusolverDnHandle_t, N, T t_cusolverEigType_t, N,
      T t_cusolverEigMode_t, N, T t_cublasFillMode_t, N, T t_int, N, T (Ptr t_cuDoubleComplex), N, T t_int, N,
      T (Ptr t_cuDoubleComplex), N, T t_int, N, T (Ptr t_double), N, T (Ptr t_cuDoubleComplex), N, T t_int, N,
      T (Ptr t_int), N]),
    (t_cusolverStatus_t, ''cusolverDnCreateSyevjInfo'', [T (Ptr t_syevjInfo_t), N]),
    (t_cusolverStatus_t, ''cusolverDnDestroySyevjInfo'', [T t_syevjInfo_t, N]),
    (t_cusolverStatus_t, ''cusolverDnXsyevjSetTolerance'', [T t_syevjInfo_t, N, T t_double, N]),
    (t_cusolverStatus_t, ''cusolverDnXsyevjSetMaxSweeps'', [T t_syevjInfo_t, N, T t_int, N]),
    (t_cusolverStatus_t, ''cusolverDnXsyevjSetSortEig'', [T t_syevjInfo_t, N, T t_int, N]),
    (t_cusolverStatus_t, ''cusolverDnXsyevjGetResidual'', [T t_cusolverDnHandle_t, N, T t_syevjInfo_t, N,
      T (Ptr t_double), N]),
    (t_cusolverStatus_t, ''cusolverDnXsyevjGetSweeps'', [T t_cusolverDnHandle_t, N, T t_syevjInfo_t, N,
      T (Ptr t_int), N]),
    (t_cusolverStatus_t, ''cusolverDnSsyevjBatched_bufferSize'', [T t_cusolverDnHandle_t, N, T t_cusolverEigMode_t,
      N, T t_cublasFillMode_t, N, T t_int, N, T (Ptr (Const t_float)), N, T t_int, N, T (Ptr (Const t_float)), N,
      T (Ptr t_int), N, T t_syevjInfo_t, N, Other ''int batchSize'']),
    (t_cusolverStatus_t, ''cusolverDnDsyevjBatched_bufferSize'', [T t_cusolverDnHandle_t, N, T t_cusolverEigMode_t,
      N, T t_cublasFillMode_t, N, T t_int, N, T (Ptr (Const t_double)), N, T t_int, N, T (Ptr (Const t_double)), N,
      T (Ptr t_int), N, T t_syevjInfo_t, N, Other ''int batchSize'']),
    (t_cusolverStatus_t, ''cusolverDnCheevjBatched_bufferSize'', [T t_cusolverDnHandle_t, N, T t_cusolverEigMode_t,
      N, T t_cublasFillMode_t, N, T t_int, N, T (Ptr (Const t_cuComplex)), N, T t_int, N, T (Ptr (Const t_float)),
      N, T (Ptr t_int), N, T t_syevjInfo_t, N, Other ''int batchSize''])]"

definition cusolver_wrappers_21 :: "invocation list" where
  "cusolver_wrappers_21 = [
    (t_cusolverStatus_t, ''cusolverDnZheevjBatched_bufferSize'', [T t_cusolverDnHandle_t, N, T t_cusolverEigMode_t,
      N, T t_cublasFillMode_t, N, T t_int, N, T (Ptr (Const t_cuDoubleComplex)), N, T t_int, N,
      T (Ptr (Const t_double)), N, T (Ptr t_int), N, T t_syevjInfo_t, N, Other ''int batchSize'']),
    (t_cusolverStatus_t, ''cusolverDnSsyevjBatched'', [T t_cusolverDnHandle_t, N, T t_cusolverEigMode_t, N,
      T t_cublasFillMode_t, N, T t_int, N, T (Ptr t_float), N, T t_int, N, T (Ptr t_float), N, T (Ptr t_float), N,
      T t_int, N, T (Ptr t_int), N, T t_syevjInfo_t, N, Other ''int batchSize'']),
    (t_cusolverStatus_t, ''cusolverDnDsyevjBatched'', [T t_cusolverDnHandle_t, N, T t_cusolverEigMode_t, N,
      T t_cublasFillMode_t, N, T t_int, N, T (Ptr t_double), N, T t_int, N, T (Ptr t_double), N, T (Ptr t_double),
      N, T t_int, N, T (Ptr t_int), N, T t_syevjInfo_t, N, Other ''int batchSize'']),
    (t_cusolverStatus_t, ''cusolverDnCheevjBatched'', [T t_cusolverDnHandle_t, N, T t_cusolverEigMode_t, N,
      T t_cublasFillMode_t, N, T t_int, N, T (Ptr t_cuComplex), N, T t_int, N, T (Ptr t_float), N,
      T (Ptr t_cuComplex), N, T t_int, N, T (Ptr t_int), N, T t_syevjInfo_t, N, Other ''int batchSize'']),
    (t_cusolverStatus_t, ''cusolverDnZheevjBatched'', [T t_cusolverDnHandle_t, N, T t_cusolverEigMode_t, N,
      T t_cublasFillMode_t, N, T t_int, N, T (Ptr t_cuDoubleComplex), N, T t_int, N, T (Ptr t_double), N,
      T (Ptr t_cuDoubleComplex), N, T t_int, N, T (Ptr t_int), N, T t_syevjInfo_t, N, Other ''int batchSize'']),
    (t_cusolverStatus_t, ''cusolverDnSsyevj_bufferSize'', [T t_cusolverDnHandle_t, N, T t_cusolverEigMode_t, N,
      T t_cublasFillMode_t, N, T t_int, N, T (Ptr (Const t_float)), N, T t_int, N, T (Ptr (Const t_float)), N,
      T (Ptr t_int), N, T t_syevjInfo_t, N]),
    (t_cusolverStatus_t, ''cusolverDnDsyevj_bufferSize'', [T t_cusolverDnHandle_t, N, T t_cusolverEigMode_t, N,
      T t_cublasFillMode_t, N, T t_int, N, T (Ptr (Const t_double)), N, T t_int, N, T (Ptr (Const t_double)), N,
      T (Ptr t_int), N, T t_syevjInfo_t, N]),
    (t_cusolverStatus_t, ''cusolverDnCheevj_bufferSize'', [T t_cusolverDnHandle_t, N, T t_cusolverEigMode_t, N,
      T t_cublasFillMode_t, N, T t_int, N, T (Ptr (Const t_cuComplex)), N, T t_int, N, T (Ptr (Const t_float)), N,
      T (Ptr t_int), N, T t_syevjInfo_t, N]),
    (t_cusolverStatus_t, ''cusolverDnZheevj_bufferSize'', [T t_cusolverDnHandle_t, N, T t_cusolverEigMode_t, N,
      T t_cublasFillMode_t, N, T t_int, N, T (Ptr (Const t_cuDoubleComplex)), N, T t_int, N,
      T (Ptr (Const t_double)), N, T (Ptr t_int), N, T t_syevjInfo_t, N]),
    (t_cusolverStatus_t, ''cusolverDnSsyevj'', [T t_cusolverDnHandle_t, N, T t_cusolverEigMode_t, N,
      T t_cublasFillMode_t, N, T t_int, N, T (Ptr t_float), N, T t_int, N, T (Ptr t_float), N, T (Ptr t_float), N,
      T t_int, N, T (Ptr t_int), N, T t_syevjInfo_t, N]),
    (t_cusolverStatus_t, ''cusolverDnDsyevj'', [T t_cusolverDnHandle_t, N, T t_cusolverEigMode_t, N,
      T t_cublasFillMode_t, N, T t_int, N, T (Ptr t_double), N, T t_int, N, T (Ptr t_double), N, T (Ptr t_double),
      N, T t_int, N, T (Ptr t_int), N, T t_syevjInfo_t, N])]"

definition cusolver_wrappers_22 :: "invocation list" where
  "cusolver_wrappers_22 = [
    (t_cusolverStatus_t, ''cusolverDnCheevj'', [T t_cusolverDnHandle_t, N, T t_cusolverEigMode_t, N,
      T t_cublasFillMode_t, N, T t_int, N, T (Ptr t_cuComplex), N, T t_int, N, T (Ptr t_float), N,
      T (Ptr t_cuComplex), N, T t_int, N, T (Ptr t_int), N, T t_syevjInfo_t, N]),
    (t_cusolverStatus_t, ''cusolverDnZheevj'', [T t_cusolverDnHandle_t, N, T t_cusolverEigMode_t, N,
      T t_cublasFillMode_t, N, T t_int, N, T (Ptr t_cuDoubleComplex), N, T t_int, N, T (Ptr t_double), N,
      T (Ptr t_cuDoubleComplex), N, T t_int, N, T (Ptr t_int), N, T t_syevjInfo_t, N]),
    (t_cusolverStatus_t, ''cusolverDnSsygvj_bufferSize'', [T t_cusolverDnHandle_t, N, T t_cusolverEigType_t, N,
      T t_cusolverEigMode_t, N, T t_cublasFillMode_t, N, T t_int, N, T (Ptr (Const t_float)), N, T t_int, N,
      T (Ptr (Const t_float)), N, T t_int, N, T (Ptr (Const t_float)), N, T (Ptr t_int), N, T t_syevjInfo_t, N]),
    (t_cusolverStatus_t, ''cusolverDnDsygvj_bufferSize'', [T t_cusolverDnHandle_t, N, T t_cusolverEigType_t, N,
      T t_cusolverEigMode_t, N, T t_cublasFillMode_t, N, T t_int, N, T (Ptr (Const t_double)), N, T t_int, N,
      T (Ptr (Const t_double)), N, T t_int, N, T (Ptr (Const t_double)), N, T (Ptr t_int), N, T t_syevjInfo_t, N]),
    (t_cusolverStatus_t, ''cusolverDnChegvj_bufferSize'', [T t_cusolverDnHandle_t, N, T t_cusolverEigType_t, N,
      T t_cusolverEigMode_t, N, T t_cublasFillMode_t, N, T t_int, N, T (Ptr (Const t_cuComplex)), N, T t_int, N,
      T (Ptr (Const t_cuComplex)), N, T t_int, N, T (Ptr (Const t_float)), N, T (Ptr t_int), N, T t_syevjInfo_t,
      N]),
    (t_cusolverStatus_t, ''cusolverDnZhegvj_bufferSize'', [T t_cusolverDnHandle_t, N, T t_cusolverEigType_t, N,
      T t_cusolverEigMode_t, N, T t_cublasFillMode_t, N, T t_int, N, T (Ptr (Const t_cuDoubleComplex)), N, T t_int,
      N, T (Ptr (Const t_cuDoubleComplex)), N, T t_int, N, T (Ptr (Const t_double)), N, T (Ptr t_int), N,
      T t_syevjInfo_t, N]),
    (t_cusolverStatus_t, ''cusolverDnSsygvj'', [T t_cusolverDnHandle_t, N, T t_cusolverEigType_t, N,
      T t_cusolverEigMode_t, N, T t_cublasFillMode_t, N, T t_int, N, T (Ptr t_float), N, T t_int, N,
      T (Ptr t_float), N, T t_int, N, T (Ptr t_float), N, T (Ptr t_float), N, T t_int, N, T (Ptr t_int), N,
      T t_syevjInfo_t, N]),
    (t_cusolverStatus_t, ''cusolverDnDsygvj'', [T t_cusolverDnHandle_t, N, T t_cusolverEigType_t, N,
      T t_cusolverEigMode_t, N, T t_cublasFillMode_t, N, T t_int, N, T (Ptr t_double), N, T t_int, N,
      T (Ptr t_double), N, T t_int, N, T (Ptr t_double), N, T (Ptr t_double), N, T t_int, N, T (Ptr t_int), N,
      T t_syevjInfo_t, N]),
    (t_cusolverStatus_t, ''cusolverDnChegvj'', [T t_cusolverDnHandle_t, N, T t_cusolverEigType_t, N,
      T t_cusolverEigMode_t, N, T t_cublasFillMode_t, N, T t_int, N, T (Ptr t_cuComplex), N, T t_int, N,
      T (Ptr t_cuComplex), N, T t_int, N, T (Ptr t_float), N, T (Ptr t_cuComplex), N, T t_int, N, T (Ptr t_int), N,
      T t_syevjInfo_t, N]),
    (t_cusolverStatus_t, ''cusolverDnZhegvj'', [T t_cusolverDnHandle_t, N, T t_cusolverEigType_t, N,
      T t_cusolverEigMode_t, N, T t_cublasFillMode_t, N, T t_int, N, T (Ptr t_cuDoubleComplex), N, T t_int, N,
      T (Ptr t_cuDoubleComplex), N, T t_int, N, T (Ptr t_double), N, T (Ptr t_cuDoubleComplex), N, T t_int, N,
      T (Ptr t_int), N, T t_syevjInfo_t, N])]"

definition cusolver_wrappers_23 :: "invocation list" where
  "cusolver_wrappers_23 = [
    (t_cusolverStatus_t, ''cusolverDnCreateGesvdjInfo'', [T (Ptr t_gesvdjInfo_t), N]),
    (t_cusolverStatus_t, ''cusolverDnDestroyGesvdjInfo'', [T t_gesvdjInfo_t, N]),
    (t_cusolverStatus_t, ''cusolverDnXgesvdjSetTolerance'', [T t_gesvdjInfo_t, N, T t_double, N]),
    (t_cusolverStatus_t, ''cusolverDnXgesvdjSetMaxSweeps'', [T t_gesvdjInfo_t, N, T t_int, N]),
    (t_cusolverStatus_t, ''cusolverDnXgesvdjSetSortEig'', [T t_gesvdjInfo_t, N, T t_int, N]),
    (t_cusolverStatus_t, ''cusolverDnXgesvdjGetResidual'', [T t_cusolverDnHandle_t, N, T t_gesvdjInfo_t, N,
      T (Ptr t_double), N]),
    (t_cusolverStatus_t, ''cusolverDnXgesvdjGetSweeps'', [T t_cusolverDnHandle_t, N, T t_gesvdjInfo_t, N,
      T (Ptr t_int), N]),
    (t_cusolverStatus_t, ''cusolverDnSgesvdjBatched_bufferSize'', [T t_cusolverDnHandle_t, N, T t_cusolverEigMode_t,
      N, T t_int, N, T t_int, N, T (Ptr (Const t_float)), N, T t_int, N, T (Ptr (Const t_float)), N,
      T (Ptr (Const t_float)), N, T t_int, N, T (Ptr (Const t_float)), N, T t_int, N, T (Ptr t_int), N,
      T t_gesvdjInfo_t, N, T t_int, N]),
    (t_cusolverStatus_t, ''cusolverDnDgesvdjBatched_bufferSize'', [T t_cusolverDnHandle_t, N, T t_cusolverEigMode_t,
      N, T t_int, N, T t_int, N, T (Ptr (Const t_double)), N, T t_int, N, T (Ptr (Const t_double)), N,
      T (Ptr (Const t_double)), N, T t_int, N, T (Ptr (Const t_double)), N, T t_int, N, T (Ptr t_int), N,
      T t_gesvdjInfo_t, N, T t_int, N]),
    (t_cusolverStatus_t, ''cusolverDnCgesvdjBatched_bufferSize'', [T t_cusolverDnHandle_t, N, T t_cusolverEigMode_t,
      N, T t_int, N, T t_int, N, T (Ptr (Const t_cuComplex)), N, T t_int, N, T (Ptr (Const t_float)), N,
      T (Ptr (Const t_cuComplex)), N, T t_int, N, T (Ptr (Const t_cuComplex)), N, T t_int, N, T (Ptr t_int), N,
      T t_gesvdjInfo_t, N, T t_int, N]),
    (t_cusolverStatus_t, ''cusolverDnZgesvdjBatched_bufferSize'', [T t_cusolverDnHandle_t, N, T t_cusolverEigMode_t,
      N, T t_int, N, T t_int, N, T (Ptr (Const t_cuDoubleComplex)), N, T t_int, N, T (Ptr (Const t_double)), N,
      T (Ptr (Const t_cuDoubleComplex)), N, T t_int, N, T (Ptr (Const t_cuDoubleComplex)), N, T t_int, N,
      T (Ptr t_int), N, T t_gesvdjInfo_t, N, T t_int, N]),
    (t_cusolverStatus_t, ''cusolverDnSgesvdjBatched'', [T t_cusolverDnHandle_t, N, T t_cusolverEigMode_t, N,
      T t_int, N, T t_int, N, T (Ptr t_float), N, T t_int, N, T (Ptr t_float), N, T (Ptr t_float), N, T t_int, N,
      T (Ptr t_float), N, T t_int, N, T (Ptr t_float), N, T t_int, N, T (Ptr t_int), N, T t_gesvdjInfo_t, N,
      T t_int, N]),
    (t_cusolverStatus_t, ''cusolverDnDgesvdjBatched'', [T t_cusolverDnHandle_t, N, T t_cusolverEigMode_t, N,
      T t_int, N, T t_int, N, T (Ptr t_double), N, T t_int, N, T (Ptr t_double), N, T (Ptr t_double), N, T t_int, N,
      T (Ptr t_double), N, T t_int, N, T (Ptr t_double), N, T t_int, N, T (Ptr t_int), N, T t_gesvdjInfo_t, N,
      T t_int, N]),
    (t_cusolverStatus_t, ''cusolverDnCgesvdjBatched'', [T t_cusolverDnHandle_t, N, T t_cusolverEigMode_t, N,
      T t_int, N, T t_int, N, T (Ptr t_cuComplex), N, T t_int, N, T (Ptr t_float), N, T (Ptr t_cuComplex), N,
      T t_int, N, T (Ptr t_cuComplex), N, T t_int, N, T (Ptr t_cuComplex), N, T t_int, N, T (Ptr t_int), N,
      T t_gesvdjInfo_t, N, T t_int, N])]"

definition cusolver_wrappers_24 :: "invocation list" where
  "cusolver_wrappers_24 = [
    (t_cusolverStatus_t, ''cusolverDnZgesvdjBatched'', [T t_cusolverDnHandle_t, N, T t_cusolverEigMode_t, N,
      T t_int, N, T t_int, N, T (Ptr t_cuDoubleComplex), N, T t_int, N, T (Ptr t_double), N,
      T (Ptr t_cuDoubleComplex), N, T t_int, N, T (Ptr t_cuDoubleComplex), N, T t_int, N, T (Ptr t_cuDoubleComplex),
      N, T t_int, N, T (Ptr t_int), N, T t_gesvdjInfo_t, N, T t_int, N]),
    (t_cusolverStatus_t, ''cusolverDnSgesvdj_bufferSize'', [T t_cusolverDnHandle_t, N, T t_cusolverEigMode_t, N,
      T t_int, N, T t_int, N, T t_int, N, T (Ptr (Const t_float)), N, T t_int, N, T (Ptr (Const t_float)), N,
      T (Ptr (Const t_float)), N, T t_int, N, T (Ptr (Const t_float)), N, T t_int, N, T (Ptr t_int), N,
      T t_gesvdjInfo_t, N]),
    (t_cusolverStatus_t, ''cusolverDnDgesvdj_bufferSize'', [T t_cusolverDnHandle_t, N, T t_cusolverEigMode_t, N,
      T t_int, N, T t_int, N, T t_int, N, T (Ptr (Const t_double)), N, T t_int, N, T (Ptr (Const t_double)), N,
      T (Ptr (Const t_double)), N, T t_int, N, T (Ptr (Const t_double)), N, T t_int, N, T (Ptr t_int), N,
      T t_gesvdjInfo_t, N]),
    (t_cusolverStatus_t, ''cusolverDnCgesvdj_bufferSize'', [T t_cusolverDnHandle_t, N, T t_cusolverEigMode_t, N,
      T t_int, N, T t_int, N, T t_int, N, T (Ptr (Const t_cuComplex)), N, T t_int, N, T (Ptr (Const t_float)), N,
      T (Ptr (Const t_cuComplex)), N, T t_int, N, T (Ptr (Const t_cuComplex)), N, T t_int, N, T (Ptr t_int), N,
      T t_gesvdjInfo_t, N]),
    (t_cusolverStatus_t, ''cusolverDnZgesvdj_bufferSize'', [T t_cusolverDnHandle_t, N, T t_cusolverEigMode_t, N,
      T t_int, N, T t_int, N, T t_int, N, T (Ptr (Const t_cuDoubleComplex)), N, T t_int, N,
      T (Ptr (Const t_double)), N, T (Ptr (Const t_cuDoubleComplex)), N, T t_int, N,
      T (Ptr (Const t_cuDoubleComplex)), N, T t_int, N, T (Ptr t_int), N, T t_gesvdjInfo_t, N]),
    (t_cusolverStatus_t, ''cusolverDnSgesvdj'', [T t_cusolverDnHandle_t, N, T t_cusolverEigMode_t, N, T t_int, N,
      T t_int, N, T t_int, N, T (Ptr t_float), N, T t_int, N, T (Ptr t_float), N, T (Ptr t_float), N, T t_int, N,
      T (Ptr t_float), N, T t_int, N, T (Ptr t_float), N, T t_int, N, T (Ptr t_int), N, T t_gesvdjInfo_t, N]),
    (t_cusolverStatus_t, ''cusolverDnDgesvdj'', [T t_cusolverDnHandle_t, N, T t_cusolverEigMode_t, N, T t_int, N,
      T t_int, N, T t_int, N, T (Ptr t_double), N, T t_int, N, T (Ptr t_double), N, T (Ptr t_double), N, T t_int, N,
      T (Ptr t_double), N, T t_int, N, T (Ptr t_double), N, T t_int, N, T (Ptr t_int), N, T t_gesvdjInfo_t, N]),
    (t_cusolverStatus_t, ''cusolverDnCgesvdj'', [T t_cusolverDnHandle_t, N, T t_cusolverEigMode_t, N, T t_int, N,
      T t_int, N, T t_int, N, T (Ptr t_cuComplex), N, T t_int, N, T (Ptr t_float), N, T (Ptr t_cuComplex), N,
      T t_int, N, T (Ptr t_cuComplex), N, T t_int, N, T (Ptr t_cuComplex), N, T t_int, N, T (Ptr t_int), N,
      T t_gesvdjInfo_t, N])]"

definition cusolver_wrappers_25 :: "invocation list" where
  "cusolver_wrappers_25 = [
    (t_cusolverStatus_t, ''cusolverDnZgesvdj'', [T t_cusolverDnHandle_t, N, T t_cusolverEigMode_t, N, T t_int, N,
      T t_int, N, T t_int, N, T (Ptr t_cuDoubleComplex), N, T t_int, N, T (Ptr t_double), N,
      T (Ptr t_cuDoubleComplex), N, T t_int, N, T (Ptr t_cuDoubleComplex), N, T t_int, N, T (Ptr t_cuDoubleComplex),
      N, T t_int, N, T (Ptr t_int), N, T t_gesvdjInfo_t, N]),
    (t_cusolverStatus_t, ''cusolverDnSgesvdaStridedBatched_bufferSize'', [T t_cusolverDnHandle_t, N,
      T t_cusolverEigMode_t, N, T t_int, N, T t_int, N, T t_int, N, T (Ptr (Const t_float)), N, T t_int, N,
      T t_long_long_int, N, T (Ptr (Const t_float)), N, T t_long_long_int, N, T (Ptr (Const t_float)), N, T t_int,
      N, T t_long_long_int, N, T (Ptr (Const t_float)), N, T t_int, N, T t_long_long_int, N, T (Ptr t_int), N,
      Other ''int batchSize'']),
    (t_cusolverStatus_t, ''cusolverDnDgesvdaStridedBatched_bufferSize'', [T t_cusolverDnHandle_t, N,
      T t_cusolverEigMode_t, N, T t_int, N, T t_int, N, T t_int, N, T (Ptr (Const t_double)), N, T t_int, N,
      T t_long_long_int, N, T (Ptr (Const t_double)), N, T t_long_long_int, N, T (Ptr (Const t_double)), N, T t_int,
      N, T t_long_long_int, N, T (Ptr (Const t_double)), N, T t_int, N, T t_long_long_int, N, T (Ptr t_int), N,
      Other ''int batchSize'']),
    (t_cusolverStatus_t, ''cusolverDnCgesvdaStridedBatched_bufferSize'', [T t_cusolverDnHandle_t, N,
      T t_cusolverEigMode_t, N, T t_int, N, T t_int, N, T t_int, N, T (Ptr (Const t_cuComplex)), N, T t_int, N,
      T t_long_long_int, N, T (Ptr (Const t_float)), N, T t_long_long_int, N, T (Ptr (Const t_cuComplex)), N,
      T t_int, N, T t_long_long_int, N, T (Ptr (Const t_cuComplex)), N, T t_int, N, T t_long_long_int, N,
      T (Ptr t_int), N, Other ''int batchSize'']),
    (t_cusolverStatus_t, ''cusolverDnZgesvdaStridedBatched_bufferSize'', [T t_cusolverDnHandle_t, N,
      T t_cusolverEigMode_t, N, T t_int, N, T t_int, N, T t_int, N, T (Ptr (Const t_cuDoubleComplex)), N, T t_int,
      N, T t_long_long_int, N, T (Ptr (Const t_double)), N, T t_long_long_int, N, T (Ptr (Const t_cuDoubleComplex)),
      N, T t_int, N, T t_long_long_int, N, T (Ptr (Const t_cuDoubleComplex)), N, T t_int, N, T t_long_long_int, N,
      T (Ptr t_int), N, Other ''int batchSize'']),
    (t_cusolverStatus_t, ''cusolverDnSgesvdaStridedBatched'', [T t_cusolverDnHandle_t, N, T t_cusolverEigMode_t, N,
      T t_int, N, T t_int, N, T t_int, N, T (Ptr (Const t_float)), N, T t_int, N, T t_long_long_int, N,
      T (Ptr t_float), N, T t_long_long_int, N, T (Ptr t_float), N, T t_int, N, T t_long_long_int, N,
      T (Ptr t_float), N, T t_int, N, T t_long_long_int, N, T (Ptr t_float), N, T t_int, N, T (Ptr t_int), N,
      T (Ptr t_double), N, T t_int, N])]"

definition cusolver_wrappers_26 :: "invocation list" where
  "cusolver_wrappers_26 = [
    (t_cusolverStatus_t, ''cusolverDnDgesvdaStridedBatched'', [T t_cusolverDnHandle_t, N, T t_cusolverEigMode_t, N,
      T t_int, N, T t_int, N, T t_int, N, T (Ptr (Const t_double)), N, T t_int, N, T t_long_long_int, N,
      T (Ptr t_double), N, T t_long_long_int, N, T (Ptr t_double), N, T t_int, N, T t_long_long_int, N,
      T (Ptr t_double), N, T t_int, N, T t_long_long_int, N, T (Ptr t_double), N, T t_int, N, T (Ptr t_int), N,
      T (Ptr t_double), N, T t_int, N]),
    (t_cusolverStatus_t, ''cusolverDnCgesvdaStridedBatched'', [T t_cusolverDnHandle_t, N, T t_cusolverEigMode_t, N,
      T t_int, N, T t_int, N, T t_int, N, T (Ptr (Const t_cuComplex)), N, T t_int, N, T t_long_long_int, N,
      T (Ptr t_float), N, T t_long_long_int, N, T (Ptr t_cuComplex), N, T t_int, N, T t_long_long_int, N,
      T (Ptr t_cuComplex), N, T t_int, N, T t_long_long_int, N, T (Ptr t_cuComplex), N, T t_int, N, T (Ptr t_int),
      N, T (Ptr t_double), N, T t_int, N]),
    (t_cusolverStatus_t, ''cusolverDnZgesvdaStridedBatched'', [T t_cusolverDnHandle_t, N, T t_cusolverEigMode_t, N,
      T t_int, N, T t_int, N, T t_int, N, T (Ptr (Const t_cuDoubleComplex)), N, T t_int, N, T t_long_long_int, N,
      T (Ptr t_double), N, T t_long_long_int, N, T (Ptr t_cuDoubleComplex), N, T t_int, N, T t_long_long_int, N,
      T (Ptr t_cuDoubleComplex), N, T t_int, N, T t_long_long_int, N, T (Ptr t_cuDoubleComplex), N, T t_int, N,
      T (Ptr t_int), N, T (Ptr t_double), N, T t_int, N])]"

definition cusolver_wrappers :: "invocation list" where
  "cusolver_wrappers = concat [cusolver_wrappers_1, cusolver_wrappers_2, cusolver_wrappers_3, cusolver_wrappers_4, cusolver_wrappers_5, cusolver_wrappers_6, cusolver_wrappers_7, cusolver_wrappers_8, cusolver_wrappers_9, cusolver_wrappers_10, cusolver_wrappers_11, cusolver_wrappers_12, cusolver_wrappers_13, cusolver_wrappers_14, cusolver_wrappers_15, cusolver_wrappers_16, cusolver_wrappers_17, cusolver_wrappers_18, cusolver_wrappers_19, cusolver_wrappers_20, cusolver_wrappers_21, cusolver_wrappers_22, cusolver_wrappers_23, cusolver_wrappers_24, cusolver_wrappers_25, cusolver_wrappers_26]"

definition cudnn_wrappers_1 :: "invocation list" where
  "cudnn_wrappers_1 = [
    (t_cudnnStatus_t, ''cudnnInitTransformDest'', [T (Const t_cudnnTensorTransformDescriptor_t), N,
      T (Const t_cudnnTensorDescriptor_t), N, T t_cudnnTensorDescriptor_t, N, T (Ptr t_size_t), N]),
    (t_cudnnStatus_t, ''cudnnCreateTensorTransformDescriptor'', [T (Ptr t_cudnnTensorTransformDescriptor_t), N]),
    (t_cudnnStatus_t, ''cudnnSetTensorTransformDescriptor'', [T t_cudnnTensorTransformDescriptor_t, N,
      T (Const t_uint32_t), N, T (Const t_cudnnTensorFormat_t), N, T (Ptr (Const t_int32_t)), N,
      T (Ptr (Const t_int32_t)), N, T (Ptr (Const t_uint32_t)), N, T (Const t_cudnnFoldingDirection_t), N]),
    (t_cudnnStatus_t, ''cudnnGetTensorTransformDescriptor'', [T t_cudnnTensorTransformDescriptor_t, N, T t_uint32_t,
      N, T (Ptr t_cudnnTensorFormat_t), N, T (Ptr t_int32_t), N, T (Ptr t_int32_t), N, T (Ptr t_uint32_t), N,
      T (Ptr t_cudnnFoldingDirection_t), N]),
    (t_cudnnStatus_t, ''cudnnDestroyTensorTransformDescriptor'', [T t_cudnnTensorTransformDescriptor_t, N])]"

definition cudnn_wrappers_2 :: "invocation list" where
  "cudnn_wrappers_2 = [
    (t_cudnnStatus_t, ''cudnnTransformTensorEx'', [T t_cudnnHandle_t, N,
      T (Const t_cudnnTensorTransformDescriptor_t), N, T (Ptr (Const t_void)), N,
      T (Const t_cudnnTensorDescriptor_t), N, T (Ptr (Const t_void)), N, T (Ptr (Const t_void)), N,
      T (Const t_cudnnTensorDescriptor_t), N, T (Ptr t_void), N])]"

definition cudnn_wrappers_3 :: "invocation list" where
  "cudnn_wrappers_3 = [
    (t_cudnnStatus_t, ''cudnnCreateOpTensorDescriptor'', [T (Ptr t_cudnnOpTensorDescriptor_t), N]),
    (t_cudnnStatus_t, ''cudnnSetOpTensorDescriptor'', [T t_cudnnOpTensorDescriptor_t, N, T t_cudnnOpTensorOp_t, N,
      T t_cudnnDataType_t, N, T t_cudnnNanPropagation_t, N]),
    (t_cudnnStatus_t, ''cudnnGetOpTensorDescriptor'', [T (Const t_cudnnOpTensorDescriptor_t), N,
      T (Ptr t_cudnnOpTensorOp_t), N, T (Ptr t_cudnnDataType_t), N, T (Ptr t_cudnnNanPropagation_t), N]),
    (t_cudnnStatus_t, ''cudnnDestroyOpTensorDescriptor'', [T t_cudnnOpTensorDescriptor_t, N]),
    (t_cudnnStatus_t, ''cudnnOpTensor'', [T t_cudnnHandle_t, N, T (Const t_cudnnOpTensorDescriptor_t), N,
      T (Ptr (Const t_void)), N, T (Const t_cudnnTensorDescriptor_t), N, T (Ptr (Const t_void)), N,
      T (Ptr (Const t_void)), N, T (Const t_cudnnTensorDescriptor_t), N, T (Ptr (Const t_void)), N,
      T (Ptr (Const t_void)), N, T (Const t_cudnnTensorDescriptor_t), N, T (Ptr t_void), N]),
    (t_cudnnStatus_t, ''cudnnCreateReduceTensorDescriptor'', [T (Ptr t_cudnnReduceTensorDescriptor_t), N]),
    (t_cudnnStatus_t, ''cudnnSetReduceTensorDescriptor'', [T t_cudnnReduceTensorDescriptor_t, N,
      T t_cudnnReduceTensorOp_t, N, T t_cudnnDataType_t, N, T t_cudnnNanPropagation_t, N,
      T t_cudnnReduceTensorIndices_t, N, T t_cudnnIndicesType_t, N]),
    (t_cudnnStatus_t, ''cudnnGetReduceTensorDescriptor'', [T (Const t_cudnnReduceTensorDescriptor_t), N,
      T (Ptr t_cudnnReduceTensorOp_t), N, T (Ptr t_cudnnDataType_t), N, T (Ptr t_cudnnNanPropagation_t), N,
      T (Ptr t_cudnnReduceTensorIndices_t), N, T (Ptr t_cudnnIndicesType_t), N]),
    (t_cudnnStatus_t, ''cudnnDestroyReduceTensorDescriptor'', [T t_cudnnReduceTensorDescriptor_t, N]),
    (t_cudnnStatus_t, ''cudnnGetReductionIndicesSize'', [T t_cudnnHandle_t, N,
      T (Const t_cudnnReduceTensorDescriptor_t), N, T (Const t_cudnnTensorDescriptor_t), N,
      T (Const t_cudnnTensorDescriptor_t), N, T (Ptr t_size_t), N]),
    (t_cudnnStatus_t, ''cudnnGetReductionWorkspaceSize'', [T t_cudnnHandle_t, N,
      T (Const t_cudnnReduceTensorDescriptor_t), N, T (Const t_cudnnTensorDescriptor_t), N,
      T (Const t_cudnnTensorDescriptor_t), N, T (Ptr t_size_t), N]),
    (t_cudnnStatus_t, ''cudnnReduceTensor'', [T t_cudnnHandle_t, N, T (Const t_cudnnReduceTensorDescriptor_t), N,
      T (Ptr t_void), N, T t_size_t, N, T (Ptr t_void), N, T t_size_t, N, T (Ptr (Const t_void)), N,
      T (Const t_cudnnTensorDescriptor_t), N, T (Ptr (Const t_void)), N, T (Ptr (Const t_void)), N,
      T (Const t_cudnnTensorDescriptor_t), N, T (Ptr t_void), N]),
    (t_cudnnStatus_t, ''cudnnSetTensor'', [T t_cudnnHandle_t, N, T (Const t_cudnnTensorDescriptor_t), N,
      T (Ptr t_void), N, T (Ptr (Const t_void)), N]),
    (t_cudnnStatus_t, ''cudnnScaleTensor'', [T t_cudnnHandle_t, N, T (Const t_cudnnTensorDescriptor_t), N,
      T (Ptr t_void), N, T (Ptr (Const t_void)), N])]"

definition cudnn_wrappers_4 :: "invocation list" where
  "cudnn_wrappers_4 = [
    (t_cudnnStatus_t, ''cudnnDivisiveNormalizationForward'', [T t_cudnnHandle_t, N, T t_cudnnLRNDescriptor_t, N,
      T t_cudnnDivNormMode_t, N, T (Ptr (Const t_void)), N, T (Const t_cudnnTensorDescriptor_t), N,
      T (Ptr (Const t_void)), N, T (Ptr (Const t_void)), N, T (Ptr t_void), N, T (Ptr t_void), N,
      T (Ptr (Const t_void)), N, T (Const t_cudnnTensorDescriptor_t), N, T (Ptr t_void), N]),
    (t_cudnnStatus_t, ''cudnnDeriveBNTensorDescriptor'', [T t_cudnnTensorDescriptor_t, N,
      T (Const t_cudnnTensorDescriptor_t), N, T t_cudnnBatchNormMode_t, N]),
    (t_cudnnStatus_t, ''cudnnBatchNormalizationForwardInference'', [T t_cudnnHandle_t, N, T t_cudnnBatchNormMode_t,
      N, T (Ptr (Const t_void)), N, T (Ptr (Const t_void)), N, T (Const t_cudnnTensorDescriptor_t), N,
      T (Ptr (Const t_void)), N, T (Const t_cudnnTensorDescriptor_t), N, T (Ptr t_void), N,
      T (Const t_cudnnTensorDescriptor_t), N, T (Ptr (Const t_void)), N, T (Ptr (Const t_void)), N,
      T (Ptr (Const t_void)), N, T (Ptr (Const t_void)), N, T t_double, N]),
    (t_cudnnStatus_t, ''cudnnDeriveNormTensorDescriptor'', [T t_cudnnTensorDescriptor_t, N,
      T t_cudnnTensorDescriptor_t, N, T (Const t_cudnnTensorDescriptor_t), N, T t_cudnnNormMode_t, N, T t_int, N]),
    (t_cudnnStatus_t, ''cudnnNormalizationForwardInference'', [T t_cudnnHandle_t, N, T t_cudnnNormMode_t, N, N, N,
      N, N, T (Ptr (Const t_void)), N, T (Ptr (Const t_void)), N, T (Const t_cudnnTensorDescriptor_t), N,
      T (Ptr (Const t_void)), N, Other ''const cudnnTensorDescriptor_t normScaleBiasDesc'', T (Ptr (Const t_void)),
      N, T (Ptr (Const t_void)), N, T (Const t_cudnnTensorDescriptor_t), N, T (Ptr (Const t_void)), N,
      T (Ptr (Const t_void)), N, T (Const t_cudnnTensorDescriptor_t), N, T (Ptr (Const t_void)), N,
      T t_cudnnActivationDescriptor_t, N, T (Const t_cudnnTensorDescriptor_t), N, T (Ptr t_void), N, T t_double, N,
      T t_int, N]),
    (t_cudnnStatus_t, ''cudnnCreateSpatialTransformerDescriptor'', [T (Ptr t_cudnnSpatialTransformerDescriptor_t),
      N]),
    (t_cudnnStatus_t, ''cudnnSetSpatialTransformerNdDescriptor'', [T t_cudnnSpatialTransformerDescriptor_t, N,
      T t_cudnnSamplerType_t, N, T t_cudnnDataType_t, N, T (Const t_int), N, T (Ptr (Const t_int)), N]),
    (t_cudnnStatus_t, ''cudnnDestroySpatialTransformerDescriptor'', [T t_cudnnSpatialTransformerDescriptor_t, N]),
    (t_cudnnStatus_t, ''cudnnSpatialTfGridGeneratorForward'', [T t_cudnnHandle_t, N,
      T (Const t_cudnnSpatialTransformerDescriptor_t), N, T (Ptr (Const t_void)), N, T (Ptr t_void), N]),
    (t_cudnnStatus_t, ''cudnnSpatialTfSamplerForward'', [T t_cudnnHandle_t, N,
      T t_cudnnSpatialTransformerDescriptor_t, N, T (Ptr (Const t_void)), N, T (Const t_cudnnTensorDescriptor_t), N,
      T (Ptr (Const t_void)), N, T (Ptr (Const t_void)), N, T (Ptr (Const t_void)), N, T t_cudnnTensorDescriptor_t,
      N, T (Ptr t_void), N]),
    (t_cudnnStatus_t, ''cudnnCreateDropoutDescriptor'', [T (Ptr t_cudnnDropoutDescriptor_t), N]),
    (t_cudnnStatus_t, ''cudnnDestroyDropoutDescriptor'', [T t_cudnnDropoutDescriptor_t, N]),
    (t_cudnnStatus_t, ''cudnnDropoutGetStatesSize'', [T t_cudnnHandle_t, N, T (Ptr t_size_t), N]),
    (t_cudnnStatus_t, ''cudnnDropoutGetReserveSpaceSize'', [T t_cudnnTensorDescriptor_t, N, T (Ptr t_size_t), N]),
    (t_cudnnStatus_t, ''cudnnSetDropoutDescriptor'', [T t_cudnnDropoutDescriptor_t, N, T t_cudnnHandle_t, N,
      T t_float, N, T (Ptr t_void), N, T t_size_t, N, T t_unsigned_long_long, N]),
    (t_cudnnStatus_t, ''cudnnRestoreDropoutDescriptor'', [T t_cudnnDropoutDescriptor_t, N, T t_cudnnHandle_t, N,
      T t_float, N, T (Ptr t_void), N, T t_size_t, N, T t_unsigned_long_long, N]),
    (t_cudnnStatus_t, ''cudnnGetDropoutDescriptor'', [T t_cudnnDropoutDescriptor_t, N, T t_cudnnHandle_t, N,
      T (Ptr t_float), N, T (Ptr (Ptr t_void)), N, T (Ptr t_unsigned_long_long), N]),
    (t_cudnnStatus_t, ''cudnnDropoutForward'', [T t_cudnnHandle_t, N, T (Const t_cudnnDropoutDescriptor_t), N,
      T (Const t_cudnnTensorDescriptor_t), N, T (Ptr (Const t_void)), N, T (Const t_cudnnTensorDescriptor_t), N,
      T (Ptr t_void), N, T (Ptr t_void), N, T t_size_t, N]),
    (t_cudnnStatus_t, ''cudnnCreateAlgorithmDescriptor'', [T (Ptr t_cudnnAlgorithmDescriptor_t), N]),
    (t_cudnnStatus_t, ''cudnnSetAlgorithmDescriptor'', [T t_cudnnAlgorithmDescriptor_t, N, T t_cudnnAlgorithm_t,
      N]),
    (t_cudnnStatus_t, ''cudnnGetAlgorithmDescriptor'', [T (Const t_cudnnAlgorithmDescriptor_t), N,
      T (Ptr t_cudnnAlgorithm_t), N]),
    (t_cudnnStatus_t, ''cudnnCopyAlgorithmDescriptor'', [T (Const t_cudnnAlgorithmDescriptor_t), N,
      T t_cudnnAlgorithmDescriptor_t, N]),
    (t_cudnnStatus_t, ''cudnnDestroyAlgorithmDescriptor'', [T t_cudnnAlgorithmDescriptor_t, N]),
    (t_cudnnStatus_t, ''cudnnCreateAlgorithmPerformance'', [T (Ptr t_cudnnAlgorithmPerformance_t), N, T t_int, N]),
    (t_cudnnStatus_t, ''cudnnSetAlgorithmPerformance'', [T t_cudnnAlgorithmPerformance_t, N,
      T t_cudnnAlgorithmDescriptor_t, N, T t_cudnnStatus_t, N, T t_float, N, T t_size_t, N]),
    (t_cudnnStatus_t, ''cudnnGetAlgorithmPerformance'', [T (Const t_cudnnAlgorithmPerformance_t), N,
      T (Ptr t_cudnnAlgorithmDescriptor_t), N, T t_cudnnStatus_t, Other ''*'', N, T (Ptr t_float), N,
      T (Ptr t_size_t), N]),
    (t_cudnnStatus_t, ''cudnnDestroyAlgorithmPerformance'', [T (Ptr t_cudnnAlgorithmPerformance_t), N, T t_int, N]),
    (t_cudnnStatus_t, ''cudnnGetAlgorithmSpaceSize'', [T t_cudnnHandle_t, N, T t_cudnnAlgorithmDescriptor_t, N,
      T (Ptr t_size_t), N]),
    (t_cudnnStatus_t, ''cudnnSaveAlgorithm'', [T t_cudnnHandle_t, N, T t_cudnnAlgorithmDescriptor_t, N,
      T (Ptr t_void), N, T t_size_t, N]),
    (t_cudnnStatus_t, ''cudnnRestoreAlgorithm'', [T t_cudnnHandle_t, N, T (Ptr t_void), N, T t_size_t, N,
      T t_cudnnAlgorithmDescriptor_t, N]),
    (t_cudnnStatus_t, ''cudnnSetCallback'', [T t_unsigned, N, T (Ptr t_void), N, T t_cudnnCallback_t, N]),
    (t_cudnnStatus_t, ''cudnnGetCallback'', [T (Ptr t_unsigned), N, T (Ptr (Ptr t_void)), N,
      T (Ptr t_cudnnCallback_t), N]),
    (t_cudnnStatus_t, ''cudnnOpsInferVersionCheck'', [])]"

definition cudnn_wrappers_5 :: "invocation list" where
  "cudnn_wrappers_5 = [
    (t_cudnnStatus_t, ''cudnnGetConvolutionMathType'', [T t_cudnnConvolutionDescriptor_t, N,
      T (Ptr t_cudnnMathType_t), N]),
    (t_cudnnStatus_t, ''cudnnGetConvolutionGroupCount'', [T t_cudnnConvolutionDescriptor_t, N, T (Ptr t_int), N]),
    (t_cudnnStatus_t, ''cudnnSetConvolutionReorderType'', [T t_cudnnConvolutionDescriptor_t, N,
      T t_cudnnReorderType_t, N]),
    (t_cudnnStatus_t, ''cudnnGetConvolutionReorderType'', [T t_cudnnConvolutionDescriptor_t, N,
      T (Ptr t_cudnnReorderType_t), N]),
    (t_cudnnStatus_t, ''cudnnSetConvolution2dDescriptor'', [T t_cudnnConvolutionDescriptor_t, N, T t_int, N,
      T t_int, N, T t_int, N, T t_int, N, T t_int, N, T t_int, N, T t_cudnnConvolutionMode_t, N,
      T t_cudnnDataType_t, N]),
    (t_cudnnStatus_t, ''cudnnGetConvolution2dDescriptor'', [T (Const t_cudnnConvolutionDescriptor_t), N,
      T (Ptr t_int), N, T (Ptr t_int), N, T (Ptr t_int), N, T (Ptr t_int), N, T (Ptr t_int), N, T (Ptr t_int), N,
      T (Ptr t_cudnnConvolutionMode_t), N, T (Ptr t_cudnnDataType_t), N])]"

definition cudnn_wrappers_6 :: "invocation list" where
  "cudnn_wrappers_6 = [
    (t_cudnnStatus_t, ''cudnnGetConvolutionNdDescriptor'', [T (Const t_cudnnConvolutionDescriptor_t), N, T t_int, N,
      T (Ptr t_int), N, T (Ptr t_int), N, T (Ptr t_int), N, T (Ptr t_int), N, T (Ptr t_cudnnConvolutionMode_t), N,
      T (Ptr t_cudnnDataType_t), N]),
    (t_cudnnStatus_t, ''cudnnGetConvolution2dForwardOutputDim'', [T (Const t_cudnnConvolutionDescriptor_t), N,
      T (Const t_cudnnTensorDescriptor_t), N, T (Const t_cudnnFilterDescriptor_t), N, T (Ptr t_int), N,
      T (Ptr t_int), N, T (Ptr t_int), N, T (Ptr t_int), N])]"

definition cudnn_wrappers_7 :: "invocation list" where
  "cudnn_wrappers_7 = [
    (t_cudnnStatus_t, ''cudnnGetConvolutionForwardAlgorithmMaxCount'', [T t_cudnnHandle_t, N, T (Ptr t_int), N])]"

definition cudnn_wrappers_8 :: "invocation list" where
  "cudnn_wrappers_8 = [
    (t_cudnnStatus_t, ''cudnnFindConvolutionForwardAlgorithmEx'', [T t_cudnnHandle_t, N,
      T (Const t_cudnnTensorDescriptor_t), N, T (Ptr (Const t_void)), N, T (Const t_cudnnFilterDescriptor_t), N,
      T (Ptr (Const t_void)), N, T (Const t_cudnnConvolutionDescriptor_t), N, T (Const t_cudnnTensorDescriptor_t),
      N, T (Ptr t_void), N, T (Const t_int), N, T (Ptr t_int), N, T (Ptr t_cudnnConvolutionFwdAlgoPerf_t), N,
      T (Ptr t_void), N, T t_size_t, N]),
    (t_cudnnStatus_t, ''cudnnIm2Col'', [T t_cudnnHandle_t, N, T (Const t_cudnnTensorDescriptor_t), N,
      T (Ptr (Const t_void)), N, T (Const t_cudnnFilterDescriptor_t), N, T (Const t_cudnnConvolutionDescriptor_t),
      N, T (Ptr t_void), N]),
    (t_cudnnStatus_t, ''cudnnReorderFilterAndBias'', [T t_cudnnHandle_t, N, T (Const t_cudnnFilterDescriptor_t), N,
      T t_cudnnReorderType_t, N, T (Ptr (Const t_void)), N, T (Ptr t_void), N, T t_int, N, T (Ptr (Const t_void)),
      N, T (Ptr t_void), N])]"

definition cudnn_wrappers_9 :: "invocation list" where
  "cudnn_wrappers_9 = [
    (t_cudnnStatus_t, ''cudnnConvolutionBiasActivationForward'', [T t_cudnnHandle_t, N, T (Ptr (Const t_void)), N,
      T (Const t_cudnnTensorDescriptor_t), N, T (Ptr (Const t_void)), N, T (Const t_cudnnFilterDescriptor_t), N,
      T (Ptr (Const t_void)), N, T (Const t_cudnnConvolutionDescriptor_t), N, T t_cudnnConvolutionFwdAlgo_t, N,
      T (Ptr t_void), N, T t_size_t, N, T (Ptr (Const t_void)), N, T (Const t_cudnnTensorDescriptor_t), N,
      T (Ptr (Const t_void)), N, T (Const t_cudnnTensorDescriptor_t), N, T (Ptr (Const t_void)), N,
      T (Const t_cudnnActivationDescriptor_t), N, T (Const t_cudnnTensorDescriptor_t), N, T (Ptr t_void), N]),
    (t_cudnnStatus_t, ''cudnnGetConvolutionBackwardDataAlgorithmMaxCount'', [T t_cudnnHandle_t, N, T (Ptr t_int),
      N]),
    (t_cudnnStatus_t, ''cudnnFindConvolutionBackwardDataAlgorithm'', [T t_cudnnHandle_t, N,
      T (Const t_cudnnFilterDescriptor_t), N, T (Const t_cudnnTensorDescriptor_t), N,
      T (Const t_cudnnConvolutionDescriptor_t), N, T (Const t_cudnnTensorDescriptor_t), N, T (Const t_int), N,
      T (Ptr t_int), N, T (Ptr t_cudnnConvolutionBwdDataAlgoPerf_t), N]),
    (t_cudnnStatus_t, ''cudnnFindConvolutionBackwardDataAlgorithmEx'', [T t_cudnnHandle_t, N,
      T (Const t_cudnnFilterDescriptor_t), N, T (Ptr (Const t_void)), N, T (Const t_cudnnTensorDescriptor_t), N,
      T (Ptr (Const t_void)), N, T (Const t_cudnnConvolutionDescriptor_t), N, T (Const t_cudnnTensorDescriptor_t),
      N, T (Ptr t_void), N, T (Const t_int), N, T (Ptr t_int), N, T (Ptr t_cudnnConvolutionBwdDataAlgoPerf_t), N,
      T (Ptr t_void), N, T t_size_t, N]),
    (t_cudnnStatus_t, ''cudnnGetConvolutionBackwardDataAlgorithm_v7'', [T t_cudnnHandle_t, N,
      T (Const t_cudnnFilterDescriptor_t), N, T (Const t_cudnnTensorDescriptor_t), N,
      T (Const t_cudnnConvolutionDescriptor_t), N, T (Const t_cudnnTensorDescriptor_t), N, T (Const t_int), N,
      T (Ptr t_int), N, T (Ptr t_cudnnConvolutionBwdDataAlgoPerf_t), N]),
    (t_cudnnStatus_t, ''cudnnGetConvolutionBackwardDataWorkspaceSize'', [T t_cudnnHandle_t, N,
      T (Const t_cudnnFilterDescriptor_t), N, T (Const t_cudnnTensorDescriptor_t), N,
      T (Const t_cudnnConvolutionDescriptor_t), N, T (Const t_cudnnTensorDescriptor_t), N,
      T t_cudnnConvolutionBwdDataAlgo_t, N, T (Ptr t_size_t), N]),
    (t_cudnnStatus_t, ''cudnnConvolutionBackwardData'', [T t_cudnnHandle_t, N, T (Ptr (Const t_void)), N,
      T (Const t_cudnnFilterDescriptor_t), N, T (Ptr (Const t_void)), N, T (Const t_cudnnTensorDescriptor_t), N,
      T (Ptr (Const t_void)), N, T (Const t_cudnnConvolutionDescriptor_t), N, T t_cudnnConvolutionBwdDataAlgo_t, N,
      T (Ptr t_void), N, T t_size_t, N, T (Ptr (Const t_void)), N, T (Const t_cudnnTensorDescriptor_t), N,
      T (Ptr t_void), N]),
    (t_cudnnStatus_t, ''cudnnGetFoldedConvBackwardDataDescriptors'', [T (Const t_cudnnHandle_t), N,
      T (Const t_cudnnFilterDescriptor_t), N, T (Const t_cudnnTensorDescriptor_t), N,
      T (Const t_cudnnConvolutionDescriptor_t), N, T (Const t_cudnnTensorDescriptor_t), N,
      T (Const t_cudnnTensorFormat_t), N, T t_cudnnFilterDescriptor_t, N, T t_cudnnTensorDescriptor_t, N,
      T t_cudnnConvolutionDescriptor_t, N, T t_cudnnTensorDescriptor_t, N, T t_cudnnTensorTransformDescriptor_t, N,
      T t_cudnnTensorTransformDescriptor_t, N, T t_cudnnTensorTransformDescriptor_t, N,
      T t_cudnnTensorTransformDescriptor_t, N]),
    (t_cudnnStatus_t, ''cudnnCnnInferVersionCheck'', [])]"

definition cudnn_wrappers :: "invocation list" where
  "cudnn_wrappers = concat [cudnn_wrappers_1, cudnn_wrappers_2, cudnn_wrappers_3, cudnn_wrappers_4, cudnn_wrappers_5, cudnn_wrappers_6, cudnn_wrappers_7, cudnn_wrappers_8, cudnn_wrappers_9]"

definition nvml_wrappers_1 :: "invocation list" where
  "nvml_wrappers_1 = [
    (t_nvmlReturn_t, ''nvmlDeviceGetAPIRestriction'', [T t_nvmlDevice_t, N, T t_nvmlRestrictedAPI_t, N,
      T (Ptr t_nvmlEnableState_t), N]),
    (t_nvmlReturn_t, ''nvmlDeviceGetAdaptiveClockInfoStatus'', [T t_nvmlDevice_t, N, T (Ptr t_unsigned_int), N]),
    (t_nvmlReturn_t, ''nvmlDeviceGetApplicationsClock'', [T t_nvmlDevice_t, N, T t_nvmlClockType_t, N,
      T (Ptr t_unsigned_int), N]),
    (t_nvmlReturn_t, ''nvmlDeviceGetAutoBoostedClocksEnabled'', [T t_nvmlDevice_t, N, T (Ptr t_nvmlEnableState_t),
      N, T (Ptr t_nvmlEnableState_t), N]),
    (t_nvmlReturn_t, ''nvmlDeviceGetBAR1MemoryInfo'', [T t_nvmlDevice_t, N, T (Ptr t_nvmlBAR1Memory_t), N]),
    (t_nvmlReturn_t, ''nvmlDeviceGetBoardId'', [T t_nvmlDevice_t, N, T (Ptr t_unsigned_int), N]),
    (t_nvmlReturn_t, ''nvmlDeviceGetBoardPartNumber'', [T t_nvmlDevice_t, N, T (Ptr t_char), N, T t_unsigned_int,
      N]),
    (t_nvmlReturn_t, ''nvmlDeviceGetBrand'', [T t_nvmlDevice_t, N, T (Ptr t_nvmlBrandType_t), N]),
    (t_nvmlReturn_t, ''nvmlDeviceGetBridgeChipInfo'', [T t_nvmlDevice_t, N, T (Ptr t_nvmlBridgeChipHierarchy_t),
      N]),
    (t_nvmlReturn_t, ''nvmlDeviceGetClock'', [T t_nvmlDevice_t, N, T t_nvmlClockType_t, N, T t_nvmlClockId_t, N,
      T (Ptr t_unsigned_int), N]),
    (t_nvmlReturn_t, ''nvmlDeviceGetClockInfo'', [T t_nvmlDevice_t, N, T t_nvmlClockType_t, N,
      T (Ptr t_unsigned_int), N]),
    (t_nvmlReturn_t, ''nvmlDeviceGetComputeMode'', [T t_nvmlDevice_t, N, T (Ptr t_nvmlComputeMode_t), N]),
    (t_nvmlReturn_t, ''nvmlDeviceGetComputeRunningProcesses_v3'', [T t_nvmlDevice_t, N, T (Ptr t_unsigned_int), N,
      T (Ptr t_nvmlProcessInfo_t), N])]"

definition nvml_wrappers_2 :: "invocation list" where
  "nvml_wrappers_2 = [
    (t_nvmlReturn_t, ''nvmlDeviceGetCudaComputeCapability'', [T t_nvmlDevice_t, N, T (Ptr t_int), N, T (Ptr t_int),
      N]),
    (t_nvmlReturn_t, ''nvmlDeviceGetCurrPcieLinkGeneration'', [T t_nvmlDevice_t, N, T (Ptr t_unsigned_int), N]),
    (t_nvmlReturn_t, ''nvmlDeviceGetCurrPcieLinkWidth'', [T t_nvmlDevice_t, N, T (Ptr t_unsigned_int), N]),
    (t_nvmlReturn_t, ''nvmlDeviceGetCurrentClocksThrottleReasons'', [T t_nvmlDevice_t, N,
      T (Ptr t_unsigned_long_long), N]),
    (t_nvmlReturn_t, ''nvmlDeviceGetDecoderUtilization'', [T t_nvmlDevice_t, N, T (Ptr t_unsigned_int), N,
      T (Ptr t_unsigned_int), N]),
    (t_nvmlReturn_t, ''nvmlDeviceGetDefaultApplicationsClock'', [T t_nvmlDevice_t, N, T t_nvmlClockType_t, N,
      T (Ptr t_unsigned_int), N]),
    (t_nvmlReturn_t, ''nvmlDeviceGetDefaultEccMode'', [T t_nvmlDevice_t, N, T (Ptr t_nvmlEnableState_t), N]),
    (t_nvmlReturn_t, ''nvmlDeviceGetDetailedEccErrors'', [T t_nvmlDevice_t, N, T t_nvmlMemoryErrorType_t, N,
      T t_nvmlEccCounterType_t, N, T (Ptr t_nvmlEccErrorCounts_t), N]),
    (t_nvmlReturn_t, ''nvmlDeviceGetDisplayActive'', [T t_nvmlDevice_t, N, T (Ptr t_nvmlEnableState_t), N]),
    (t_nvmlReturn_t, ''nvmlDeviceGetDisplayMode'', [T t_nvmlDevice_t, N, T (Ptr t_nvmlEnableState_t), N]),
    (t_nvmlReturn_t, ''nvmlDeviceGetDriverModel'', [T t_nvmlDevice_t, N, T (Ptr t_nvmlDriverModel_t), N,
      T (Ptr t_nvmlDriverModel_t), N]),
    (t_nvmlReturn_t, ''nvmlDeviceGetEccMode'', [T t_nvmlDevice_t, N, T (Ptr t_nvmlEnableState_t), N,
      T (Ptr t_nvmlEnableState_t), N]),
    (t_nvmlReturn_t, ''nvmlDeviceGetEncoderCapacity'', [T t_nvmlDevice_t, N, T t_nvmlEncoderType_t, N,
      T (Ptr t_unsigned_int), N]),
    (t_nvmlReturn_t, ''nvmlDeviceGetEncoderSessions'', [T t_nvmlDevice_t, N, T (Ptr t_unsigned_int), N,
      T (Ptr t_nvmlEncoderSessionInfo_t), N]),
    (t_nvmlReturn_t, ''nvmlDeviceGetEncoderStats'', [T t_nvmlDevice_t, N, T (Ptr t_unsigned_int), N,
      T (Ptr t_unsigned_int), N, T (Ptr t_unsigned_int), N]),
    (t_nvmlReturn_t, ''nvmlDeviceGetEncoderUtilization'', [T t_nvmlDevice_t, N, T (Ptr t_unsigned_int), N,
      T (Ptr t_unsigned_int), N]),
    (t_nvmlReturn_t, ''nvmlDeviceGetEnforcedPowerLimit'', [T t_nvmlDevice_t, N, T (Ptr t_unsigned_int), N]),
    (t_nvmlReturn_t, ''nvmlDeviceGetFBCSessions'', [T t_nvmlDevice_t, N, T (Ptr t_unsigned_int), N,
      T (Ptr t_nvmlFBCSessionInfo_t), N]),
    (t_nvmlReturn_t, ''nvmlDeviceGetFBCStats'', [T t_nvmlDevice_t, N, T (Ptr t_nvmlFBCStats_t), N]),
    (t_nvmlReturn_t, ''nvmlDeviceGetFanSpeed'', [T t_nvmlDevice_t, N, T (Ptr t_unsigned_int), N]),
    (t_nvmlReturn_t, ''nvmlDeviceGetFanSpeed_v2'', [T t_nvmlDevice_t, N, T t_unsigned_int, N,
      T (Ptr t_unsigned_int), N]),
    (t_nvmlReturn_t, ''nvmlDeviceGetGpuMaxPcieLinkGeneration'', [T t_nvmlDevice_t, N, T (Ptr t_unsigned_int), N]),
    (t_nvmlReturn_t, ''nvmlDeviceGetGpuOperationMode'', [T t_nvmlDevice_t, N, T (Ptr t_nvmlGpuOperationMode_t), N,
      T (Ptr t_nvmlGpuOperationMode_t), N]),
    (t_nvmlReturn_t, ''nvmlDeviceGetGraphicsRunningProcesses_v3'', [T t_nvmlDevice_t, N, T (Ptr t_unsigned_int), N,
      T (Ptr t_nvmlProcessInfo_t), N]),
    (t_nvmlReturn_t, ''nvmlDeviceGetHandleByIndex_v2'', [T t_unsigned_int, N, T (Ptr t_nvmlDevice_t), N]),
    (t_nvmlReturn_t, ''nvmlDeviceGetHandleByPciBusId_v2'', [T (Ptr (Const t_char)), N, T (Ptr t_nvmlDevice_t), N]),
    (t_nvmlReturn_t, ''nvmlDeviceGetHandleBySerial'', [T (Ptr (Const t_char)), N, T (Ptr t_nvmlDevice_t), N]),
    (t_nvmlReturn_t, ''nvmlDeviceGetHandleByUUID'', [T (Ptr (Const t_char)), N, T (Ptr t_nvmlDevice_t), N]),
    (t_nvmlReturn_t, ''nvmlDeviceGetIndex'', [T t_nvmlDevice_t, N, T (Ptr t_unsigned_int), N]),
    (t_nvmlReturn_t, ''nvmlDeviceGetInforomConfigurationChecksum'', [T t_nvmlDevice_t, N, T (Ptr t_unsigned_int),
      N]),
    (t_nvmlReturn_t, ''nvmlDeviceGetInforomImageVersion'', [T t_nvmlDevice_t, N, T (Ptr t_char), N,
      T t_unsigned_int, N]),
    (t_nvmlReturn_t, ''nvmlDeviceGetInforomVersion'', [T t_nvmlDevice_t, N, T t_nvmlInforomObject_t, N,
      T (Ptr t_char), N, T t_unsigned_int, N]),
    (t_nvmlReturn_t, ''nvmlDeviceGetIrqNum'', [T t_nvmlDevice_t, N, T (Ptr t_unsigned_int), N]),
    (t_nvmlReturn_t, ''nvmlDeviceGetMPSComputeRunningProcesses_v3'', [T t_nvmlDevice_t, N, T (Ptr t_unsigned_int),
      N, T (Ptr t_nvmlProcessInfo_t), N]),
    (t_nvmlReturn_t, ''nvmlDeviceGetMaxClockInfo'', [T t_nvmlDevice_t, N, T t_nvmlClockType_t, N,
      T (Ptr t_unsigned_int), N]),
    (t_nvmlReturn_t, ''nvmlDeviceGetMaxCustomerBoostClock'', [T t_nvmlDevice_t, N, T t_nvmlClockType_t, N,
      T (Ptr t_unsigned_int), N]),
    (t_nvmlReturn_t, ''nvmlDeviceGetMaxPcieLinkGeneration'', [T t_nvmlDevice_t, N, T (Ptr t_unsigned_int), N]),
    (t_nvmlReturn_t, ''nvmlDeviceGetMaxPcieLinkWidth'', [T t_nvmlDevice_t, N, T (Ptr t_unsigned_int), N]),
    (t_nvmlReturn_t, ''nvmlDeviceGetMemoryBusWidth'', [T t_nvmlDevice_t, N, T (Ptr t_unsigned_int), N]),
    (t_nvmlReturn_t, ''nvmlDeviceGetMemoryErrorCounter'', [T t_nvmlDevice_t, N, T t_nvmlMemoryErrorType_t, N,
      T t_nvmlEccCounterType_t, N, T t_nvmlMemoryLocation_t, N, T (Ptr t_unsigned_long_long), N]),
    (t_nvmlReturn_t, ''nvmlDeviceGetMemoryInfo'', [T t_nvmlDevice_t, N, T (Ptr t_nvmlMemory_t), N]),
    (t_nvmlReturn_t, ''nvmlDeviceGetMinMaxFanSpeed'', [T t_nvmlDevice_t, N, T (Ptr t_unsigned_int), N,
      T (Ptr t_unsigned_int), N]),
    (t_nvmlReturn_t, ''nvmlDeviceGetMinorNumber'', [T t_nvmlDevice_t, N, T (Ptr t_unsigned_int), N]),
    (t_nvmlReturn_t, ''nvmlDeviceGetMultiGpuBoard'', [T t_nvmlDevice_t, N, T (Ptr t_unsigned_int), N]),
    (t_nvmlReturn_t, ''nvmlDeviceGetName'', [T t_nvmlDevice_t, N, T (Ptr t_char), N, T t_unsigned_int, N]),
    (t_nvmlReturn_t, ''nvmlDeviceGetNumFans'', [T t_nvmlDevice_t, N, T (Ptr t_unsigned_int), N]),
    (t_nvmlReturn_t, ''nvmlDeviceGetNumGpuCores'', [T t_nvmlDevice_t, N, T (Ptr t_unsigned_int), N]),
    (t_nvmlReturn_t, ''nvmlDeviceGetP2PStatus'', [T t_nvmlDevice_t, N, T t_nvmlDevice_t, N,
      T t_nvmlGpuP2PCapsIndex_t, N, T (Ptr t_nvmlGpuP2PStatus_t), N]),
    (t_nvmlReturn_t, ''nvmlDeviceGetPciInfo_v3'', [T t_nvmlDevice_t, N, T (Ptr t_nvmlPciInfo_t), N]),
    (t_nvmlReturn_t, ''nvmlDeviceGetPcieLinkMaxSpeed'', [T t_nvmlDevice_t, N, T (Ptr t_unsigned_int), N]),
    (t_nvmlReturn_t, ''nvmlDeviceGetPcieReplayCounter'', [T t_nvmlDevice_t, N, T (Ptr t_unsigned_int), N]),
    (t_nvmlReturn_t, ''nvmlDeviceGetPcieSpeed'', [T t_nvmlDevice_t, N, T (Ptr t_unsigned_int), N]),
    (t_nvmlReturn_t, ''nvmlDeviceGetPcieThroughput'', [T t_nvmlDevice_t, N, T t_nvmlPcieUtilCounter_t, N,
      T (Ptr t_unsigned_int), N]),
    (t_nvmlReturn_t, ''nvmlDeviceGetPerformanceState'', [T t_nvmlDevice_t, N, T (Ptr t_nvmlPstates_t), N]),
    (t_nvmlReturn_t, ''nvmlDeviceGetPersistenceMode'', [T t_nvmlDevice_t, N, T (Ptr t_nvmlEnableState_t), N]),
    (t_nvmlReturn_t, ''nvmlDeviceGetPowerManagementDefaultLimit'', [T t_nvmlDevice_t, N, T (Ptr t_unsigned_int),
      N]),
    (t_nvmlReturn_t, ''nvmlDeviceGetPowerManagementLimit'', [T t_nvmlDevice_t, N, T (Ptr t_unsigned_int), N]),
    (t_nvmlReturn_t, ''nvmlDeviceGetPowerManagementLimitConstraints'', [T t_nvmlDevice_t, N, T (Ptr t_unsigned_int),
      N, T (Ptr t_unsigned_int), N]),
    (t_nvmlReturn_t, ''nvmlDeviceGetPowerManagementMode'', [T t_nvmlDevice_t, N, T (Ptr t_nvmlEnableState_t), N]),
    (t_nvmlReturn_t, ''nvmlDeviceGetPowerState'', [T t_nvmlDevice_t, N, T (Ptr t_nvmlPstates_t), N]),
    (t_nvmlReturn_t, ''nvmlDeviceGetPowerUsage'', [T t_nvmlDevice_t, N, T (Ptr t_unsigned_int), N]),
    (t_nvmlReturn_t, ''nvmlDeviceGetRemappedRows'', [T t_nvmlDevice_t, N, T (Ptr t_unsigned_int), N,
      T (Ptr t_unsigned_int), N, T (Ptr t_unsigned_int), N, T (Ptr t_unsigned_int), N]),
    (t_nvmlReturn_t, ''nvmlDeviceGetRetiredPages'', [T t_nvmlDevice_t, N, T t_nvmlPageRetirementCause_t, N,
      T (Ptr t_unsigned_int), N, T (Ptr t_unsigned_long_long), N]),
    (t_nvmlReturn_t, ''nvmlDeviceGetRetiredPagesPendingStatus'', [T t_nvmlDevice_t, N, T (Ptr t_nvmlEnableState_t),
      N]),
    (t_nvmlReturn_t, ''nvmlDeviceGetRetiredPages_v2'', [T t_nvmlDevice_t, N, T t_nvmlPageRetirementCause_t, N,
      T (Ptr t_unsigned_int), N, T (Ptr t_unsigned_long_long), N, T (Ptr t_unsigned_long_long), N]),
    (t_nvmlReturn_t, ''nvmlDeviceGetSamples'', [T t_nvmlDevice_t, N, T t_nvmlSamplingType_t, N,
      T t_unsigned_long_long, N, T (Ptr t_nvmlValueType_t), N, T (Ptr t_unsigned_int), N, T (Ptr t_nvmlSample_t),
      N]),
    (t_nvmlReturn_t, ''nvmlDeviceGetSerial'', [T t_nvmlDevice_t, N, T (Ptr t_char), N, T t_unsigned_int, N]),
    (t_nvmlReturn_t, ''nvmlDeviceGetSupportedClocksThrottleReasons'', [T t_nvmlDevice_t, N,
      T (Ptr t_unsigned_long_long), N]),
    (t_nvmlReturn_t, ''nvmlDeviceGetSupportedGraphicsClocks'', [T t_nvmlDevice_t, N, T t_unsigned_int, N,
      T (Ptr t_unsigned_int), N, T (Ptr t_unsigned_int), N]),
    (t_nvmlReturn_t, ''nvmlDeviceGetSupportedMemoryClocks'', [T t_nvmlDevice_t, N, T (Ptr t_unsigned_int), N,
      T (Ptr t_unsigned_int), N]),
    (t_nvmlReturn_t, ''nvmlDeviceGetTargetFanSpeed'', [T t_nvmlDevice_t, N, T t_unsigned_int, N,
      T (Ptr t_unsigned_int), N]),
    (t_nvmlReturn_t, ''nvmlDeviceGetTemperature'', [T t_nvmlDevice_t, N, T t_nvmlTemperatureSensors_t, N,
      T (Ptr t_unsigned_int), N]),
    (t_nvmlReturn_t, ''nvmlDeviceGetTemperatureThreshold'', [T t_nvmlDevice_t, N, T t_nvmlTemperatureThresholds_t,
      N, T (Ptr t_unsigned_int), N]),
    (t_nvmlReturn_t, ''nvmlDeviceGetTopologyCommonAncestor'', [T t_nvmlDevice_t, N, T t_nvmlDevice_t, N,
      T (Ptr t_nvmlGpuTopologyLevel_t), N]),
    (t_nvmlReturn_t, ''nvmlDeviceGetTopologyNearestGpus'', [T t_nvmlDevice_t, N, T t_nvmlGpuTopologyLevel_t, N,
      T (Ptr t_unsigned_int), N, T (Ptr t_nvmlDevice_t), N]),
    (t_nvmlReturn_t, ''nvmlDeviceGetTotalEccErrors'', [T t_nvmlDevice_t, N, T t_nvmlMemoryErrorType_t, N,
      T t_nvmlEccCounterType_t, N, T (Ptr t_unsigned_long_long), N]),
    (t_nvmlReturn_t, ''nvmlDeviceGetTotalEnergyConsumption'', [T t_nvmlDevice_t, N, T (Ptr t_unsigned_long_long),
      N]),
    (t_nvmlReturn_t, ''nvmlDeviceGetUUID'', [T t_nvmlDevice_t, N, T (Ptr t_char), N, T t_unsigned_int, N]),
    (t_nvmlReturn_t, ''nvmlDeviceGetUtilizationRates'', [T t_nvmlDevice_t, N, T (Ptr t_nvmlUtilization_t), N]),
    (t_nvmlReturn_t, ''nvmlDeviceGetVbiosVersion'', [T t_nvmlDevice_t, N, T (Ptr t_char), N, T t_unsigned_int, N]),
    (t_nvmlReturn_t, ''nvmlDeviceGetViolationStatus'', [T t_nvmlDevice_t, N, T t_nvmlPerfPolicyType_t, N,
      T (Ptr t_nvmlViolationTime_t), N]),
    (t_nvmlReturn_t, ''nvmlDeviceOnSameBoard'', [T t_nvmlDevice_t, N, T t_nvmlDevice_t, N, T (Ptr t_int), N]),
    (t_nvmlReturn_t, ''nvmlDeviceResetApplicationsClocks'', [T t_nvmlDevice_t, N]),
    (t_nvmlReturn_t, ''nvmlDeviceSetAutoBoostedClocksEnabled'', [T t_nvmlDevice_t, N, T t_nvmlEnableState_t, N]),
    (t_nvmlReturn_t, ''nvmlDeviceSetDefaultAutoBoostedClocksEnabled'', [T t_nvmlDevice_t, N, T t_nvmlEnableState_t,
      N, T t_unsigned_int, N]),
    (t_nvmlReturn_t, ''nvmlDeviceSetDefaultFanSpeed_v2'', [T t_nvmlDevice_t, N, T t_unsigned_int, N]),
    (t_nvmlReturn_t, ''nvmlDeviceSetTemperatureThreshold'', [T t_nvmlDevice_t, N, T t_nvmlTemperatureThresholds_t,
      N, T (Ptr t_int), N]),
    (t_nvmlReturn_t, ''nvmlDeviceValidateInforom'', [T t_nvmlDevice_t, N]),
    (t_nvmlReturn_t, ''nvmlSystemGetTopologyGpuSet'', [T t_unsigned_int, N, T (Ptr t_unsigned_int), N,
      T (Ptr t_nvmlDevice_t), N]),
    (t_nvmlReturn_t, ''nvmlVgpuInstanceGetMdevUUID'', [T t_nvmlVgpuInstance_t, N, T (Ptr t_char), N,
      T t_unsigned_int, N])]"

definition nvml_wrappers :: "invocation list" where
  "nvml_wrappers = concat [nvml_wrappers_1, nvml_wrappers_2]"

definition driver_wrappers_1 :: "invocation list" where
  "driver_wrappers_1 = [
    (t_CUresult, ''cuVDPAUGetDevice'', [T (Ptr t_CUdevice), N, T t_VdpDevice, N, T (Ptr t_VdpGetProcAddress), N]),
    (t_CUresult, ''cuVDPAUCtxCreate'', [T (Ptr t_CUcontext), N, T t_unsigned_int, N, T t_CUdevice, N, T t_VdpDevice,
      N, T (Ptr t_VdpGetProcAddress), N]),
    (t_CUresult, ''cuGraphicsVDPAURegisterVideoSurface'', [T (Ptr t_CUgraphicsResource), N, T t_VdpVideoSurface, N,
      T t_unsigned_int, N]),
    (t_CUresult, ''cuGraphicsVDPAURegisterOutputSurface'', [T (Ptr t_CUgraphicsResource), N, T t_VdpOutputSurface,
      N, T t_unsigned_int, N])]"

definition driver_wrappers_2 :: "invocation list" where
  "driver_wrappers_2 = [
    (t_CUresult, ''cuCtxSynchronize'', []),
    (t_CUresult, ''cuModuleGetGlobal'', [T (Ptr t_CUdeviceptr), N, T (Ptr t_size_t), N, T t_CUmodule, N,
      T (Ptr (Const t_char)), N]),
    (t_CUresult, ''cuMemGetInfo'', [T (Ptr t_size_t), N, T (Ptr t_size_t), N])]"

definition driver_wrappers_3 :: "invocation list" where
  "driver_wrappers_3 = [
    (t_CUresult, ''cuMemAllocPitch'', [T (Ptr t_CUdeviceptr), N, T (Ptr t_size_t), N, T t_size_t, N, T t_size_t, N,
      T t_unsigned_int, N]),
    (t_CUresult, ''cuMemFree'', [T t_CUdeviceptr, N]),
    (t_CUresult, ''cuMemGetAddressRange'', [T (Ptr t_CUdeviceptr), N, T (Ptr t_size_t), N, T t_CUdeviceptr, N]),
    (t_CUresult, ''cuMemHostGetDevicePointer'', [T (Ptr t_CUdeviceptr), N, T (Ptr t_void), N, T t_unsigned_int, N]),
    (t_CUresult, ''cuMemHostRegister'', [T (Ptr t_void), N, T t_size_t, N, T t_unsigned_int, N]),
    (t_CUresult, ''cuMemsetD8'', [T t_CUdeviceptr, N, T t_unsigned_char, N, T t_size_t, N]),
    (t_CUresult, ''cuMemsetD8_v2_ptds'', [T t_CUdeviceptr, N, T t_unsigned_char, N, T t_size_t, N]),
    (t_CUresult, ''cuMemsetD2D8'', [T t_CUdeviceptr, N, T t_size_t, N, T t_unsigned_char, N, T t_size_t, N,
      T t_size_t, N]),
    (t_CUresult, ''cuMemsetD2D8_v2_ptds'', [T t_CUdeviceptr, N, T t_size_t, N, T t_unsigned_char, N, T t_size_t, N,
      T t_size_t, N]),
    (t_CUresult, ''cuEventDestroy'', [T t_CUevent, N]),
    (t_CUresult, ''cuStreamDestroy'', [T t_CUstream, N]),
    (t_CUresult, ''cuGLCtxCreate'', [T (Ptr t_CUcontext), N, T t_unsigned_int, N, T t_CUdevice, N]),
    (t_CUresult, ''cuArrayCreate'', [T (Ptr t_CUarray), N, T (Ptr (Const t_CUDA_ARRAY_DESCRIPTOR)), N]),
    (t_CUresult, ''cuArrayGetDescriptor'', [T (Ptr t_CUDA_ARRAY_DESCRIPTOR), N, T t_CUarray, N]),
    (t_CUresult, ''cuArray3DCreate'', [T (Ptr t_CUarray), N, T (Ptr (Const t_CUDA_ARRAY3D_DESCRIPTOR)), N]),
    (t_CUresult, ''cuArray3DGetDescriptor'', [T (Ptr t_CUDA_ARRAY3D_DESCRIPTOR), N, T t_CUarray, N]),
    (t_CUresult, ''cuTexRefSetAddress2D'', [T t_CUtexref, N, T (Ptr (Const t_CUDA_ARRAY_DESCRIPTOR)), N,
      T t_CUdeviceptr, N, T t_size_t, N]),
    (t_CUresult, ''cuTexRefSetAddress'', [T (Ptr t_size_t), N, T t_CUtexref, N, T t_CUdeviceptr, N, T t_size_t, N]),
    (t_CUresult, ''cuGLInit'', []),
    (t_CUresult, ''cuGLGetDevices'', [T (Ptr t_unsigned_int), N, T (Ptr t_CUdevice), N, T t_unsigned_int, N,
      T t_CUGLDeviceList, N]),
    (t_CUresult, ''cuGLRegisterBufferObject'', [T t_GLuint, N]),
    (t_CUresult, ''cuGLMapBufferObject_v2'', [T (Ptr t_CUdeviceptr), N, T (Ptr t_size_t), N, T t_GLuint, N]),
    (t_CUresult, ''cuGLMapBufferObject_v2_ptds'', [T (Ptr t_CUdeviceptr), N, T (Ptr t_size_t), N, T t_GLuint, N]),
    (t_CUresult, ''cuGLMapBufferObjectAsync_v2'', [T (Ptr t_CUdeviceptr), N, T (Ptr t_size_t), N, T t_GLuint, N,
      T t_CUstream, N]),
    (t_CUresult, ''cuGLMapBufferObjectAsync_v2_ptsz'', [T (Ptr t_CUdeviceptr), N, T (Ptr t_size_t), N, T t_GLuint,
      N, T t_CUstream, N]),
    (t_CUresult, ''cuGLUnmapBufferObject'', [T t_GLuint, N]),
    (t_CUresult, ''cuGLUnmapBufferObjectAsync'', [T t_GLuint, N, T t_CUstream, N]),
    (t_CUresult, ''cuGLUnregisterBufferObject'', [T t_GLuint, N]),
    (t_CUresult, ''cuGLSetBufferObjectMapFlags'', [T t_GLuint, N, T t_unsigned_int, N]),
    (t_CUresult, ''cuGraphicsGLRegisterImage'', [T (Ptr t_CUgraphicsResource), N, T t_GLuint, N, T t_GLenum, N,
      T t_unsigned_int, N]),
    (t_CUresult, ''cuGraphicsGLRegisterBuffer'', [T (Ptr t_CUgraphicsResource), N, T t_GLuint, N, T t_unsigned_int,
      N]),
    (t_CUresult, ''cuGraphicsEGLRegisterImage'', [T (Ptr t_CUgraphicsResource), N, T t_EGLImageKHR, N,
      T t_unsigned_int, N]),
    (t_CUresult, ''cuEGLStreamConsumerConnect'', [T (Ptr t_CUeglStreamConnection), N, T t_EGLStreamKHR, N]),
    (t_CUresult, ''cuEGLStreamConsumerDisconnect'', [T (Ptr t_CUeglStreamConnection), N]),
    (t_CUresult, ''cuEGLStreamConsumerAcquireFrame'', [T (Ptr t_CUeglStreamConnection), N,
      T (Ptr t_CUgraphicsResource), N, T (Ptr t_CUstream), N, T t_unsigned_int, N]),
    (t_CUresult, ''cuEGLStreamConsumerReleaseFrame'', [T (Ptr t_CUeglStreamConnection), N, T t_CUgraphicsResource,
      N, T (Ptr t_CUstream), N]),
    (t_CUresult, ''cuEGLStreamProducerConnect'', [T (Ptr t_CUeglStreamConnection), N, T t_EGLStreamKHR, N,
      T t_EGLint, N, T t_EGLint, N]),
    (t_CUresult, ''cuEGLStreamProducerDisconnect'', [T (Ptr t_CUeglStreamConnection), N]),
    (t_CUresult, ''cuEGLStreamProducerPresentFrame'', [T (Ptr t_CUeglStreamConnection), N, T t_CUeglFrame, N,
      T (Ptr t_CUstream), N]),
    (t_CUresult, ''cuEGLStreamProducerReturnFrame'', [T (Ptr t_CUeglStreamConnection), N, T (Ptr t_CUeglFrame), N,
      T (Ptr t_CUstream), N]),
    (t_CUresult, ''cuGraphicsResourceGetMappedEglFrame'', [T (Ptr t_CUeglFrame), N, T t_CUgraphicsResource, N,
      T t_unsigned_int, N, T t_unsigned_int, N]),
    (t_CUresult, ''cuEGLStreamConsumerConnectWithFlags'', [T (Ptr t_CUeglStreamConnection), N, T t_EGLStreamKHR,
      T t_unsigned_int, N])]"

definition driver_wrappers_4 :: "invocation list" where
  "driver_wrappers_4 = [
    (t_CUresult, ''cuDeviceGetLuid'', [T (Ptr t_char), N, T (Ptr t_unsigned_int), N, T t_CUdevice, N])]"

definition driver_wrappers_5 :: "invocation list" where
  "driver_wrappers_5 = [
    (t_CUresult, ''cuDeviceGetByPCIBusId'', [T (Ptr t_CUdevice), N, T (Ptr (Const t_char)), N])]"

definition driver_wrappers_6 :: "invocation list" where
  "driver_wrappers_6 = [
    (t_CUresult, ''cuDeviceGetPCIBusId'', [T (Ptr t_char), N, T t_int, N, T t_CUdevice, N])]"

definition driver_wrappers_7 :: "invocation list" where
  "driver_wrappers_7 = [
    (t_CUresult, ''cuDevicePrimaryCtxRelease'', [T t_CUdevice, N]),
    (t_CUresult, ''cuDevicePrimaryCtxSetFlags'', [T t_CUdevice, N, T t_unsigned_int, N])]"

definition driver_wrappers_8 :: "invocation list" where
  "driver_wrappers_8 = [
    (t_CUresult, ''cuDevicePrimaryCtxReset'', [T t_CUdevice, N]),
    (t_CUresult, ''cuCtxGetFlags'', [T (Ptr t_unsigned_int), N])]"

definition driver_wrappers_9 :: "invocation list" where
  "driver_wrappers_9 = [
    (t_CUresult, ''cuCtxDetach'', [T t_CUcontext, N]),
    (t_CUresult, ''cuCtxGetApi2Version'', [T t_CUcontext, N, T (Ptr t_unsigned_int), N])]"

definition driver_wrappers_10 :: "invocation list" where
  "driver_wrappers_10 = [
    (t_CUresult, ''cuCtxGetLimit'', [T (Ptr t_size_t), N, T t_CUlimit, N]),
    (t_CUresult, ''cuCtxSetLimit'', [T t_CUlimit, N, T t_size_t, N]),
    (t_CUresult, ''cuCtxGetCacheConfig'', [T (Ptr t_CUfunc_cache), N]),
    (t_CUresult, ''cuCtxSetCacheConfig'', [T t_CUfunc_cache, N]),
    (t_CUresult, ''cuCtxGetSharedMemConfig'', [T (Ptr t_CUsharedconfig), N]),
    (t_CUresult, ''cuCtxGetStreamPriorityRange'', [T (Ptr t_int), N, T (Ptr t_int), N]),
    (t_CUresult, ''cuCtxSetSharedMemConfig'', [T t_CUsharedconfig, N]),
    (t_CUresult, ''cuCtxSynchronize'', [T t_void])]"

definition driver_wrappers_11 :: "invocation list" where
  "driver_wrappers_11 = [
    (t_CUresult, ''cuModuleLoadDataEx'', [T (Ptr t_CUmodule), N, T (Ptr (Const t_void)), N, T t_unsigned_int, N,
      T (Ptr t_CUjit_option), N, T (Ptr (Ptr t_void)), N]),
    (t_CUresult, ''cuModuleLoadFatBinary'', [T (Ptr t_CUmodule), N, T (Ptr (Const t_void)), N])]"

definition driver_wrappers_12 :: "invocation list" where
  "driver_wrappers_12 = [
    (t_CUresult, ''cuModuleGetTexRef'', [T (Ptr t_CUtexref), N, T t_CUmodule, N, T (Ptr (Const t_char)), N]),
    (t_CUresult, ''cuModuleGetSurfRef'', [T (Ptr t_CUsurfref), N, T t_CUmodule, N, T (Ptr (Const t_char)), N]),
    (t_CUresult, ''cuLinkCreate'', [T t_unsigned_int, N, T (Ptr t_CUjit_option), N, T (Ptr (Ptr t_void)), N,
      T (Ptr t_CUlinkState), N]),
    (t_CUresult, ''cuLinkAddData'', [T t_CUlinkState, N, T t_CUjitInputType, N, T (Ptr t_void), N, T t_size_t, N,
      T (Ptr (Const t_char)), N, T t_unsigned_int, N, T (Ptr t_CUjit_option), N, T (Ptr (Ptr t_void)), N]),
    (t_CUresult, ''cuLinkAddFile'', [T t_CUlinkState, N, T t_CUjitInputType, N, T (Ptr (Const t_char)), N,
      T t_unsigned_int, N, T (Ptr t_CUjit_option), N, T (Ptr (Ptr t_void)), N]),
    (t_CUresult, ''cuLinkComplete'', [T t_CUlinkState, N, T (Ptr (Ptr t_void)), N, T (Ptr t_size_t), N]),
    (t_CUresult, ''cuLinkDestroy'', [T t_CUlinkState, N]),
    (t_CUresult, ''cuMemAllocManaged'', [T (Ptr t_CUdeviceptr), N, T t_size_t, N, T t_unsigned_int, N]),
    (t_CUresult, ''cuMemFreeHost'', [T (Ptr t_void), N]),
    (t_CUresult, ''cuMemHostAlloc'', [T (Ptr (Ptr t_void)), N, T t_size_t, N, T t_unsigned_int, N]),
    (t_CUresult, ''cuMemHostGetFlags'', [T (Ptr t_unsigned_int), N, T (Ptr t_void), N]),
    (t_CUresult, ''cuMemHostUnregister'', [T (Ptr t_void), N]),
    (t_CUresult, ''cuPointerGetAttribute'', [T (Ptr t_void), N, T t_CUpointer_attribute, N, T t_CUdeviceptr, N]),
    (t_CUresult, ''cuPointerGetAttributes'', [T t_unsigned_int, N, T (Ptr t_CUpointer_attribute), N,
      T (Ptr (Ptr t_void)), N, T t_CUdeviceptr, N]),
    (t_CUresult, ''cuMemcpy'', [T t_CUdeviceptr, N, T t_CUdeviceptr, N, T t_size_t, N]),
    (t_CUresult, ''cuMemcpy_ptds'', [T t_CUdeviceptr, N, T t_CUdeviceptr, N, T t_size_t, N])]"

definition driver_wrappers_13 :: "invocation list" where
  "driver_wrappers_13 = [
    (t_CUresult, ''cuMemcpyHtoD_v2_ptds'', [T t_CUdeviceptr, N, T (Ptr (Const t_void)), N, T t_size_t, N]),
    (t_CUresult, ''cuMemcpyDtoH'', [T (Ptr t_void), N, T t_CUdeviceptr, N, T t_size_t, N]),
    (t_CUresult, ''cuMemcpyDtoH_v2_ptds'', [T (Ptr t_void), N, T t_CUdeviceptr, N, T t_size_t, N]),
    (t_CUresult, ''cuMemcpyDtoD'', [T t_CUdeviceptr, N, T t_CUdeviceptr, N, T t_size_t, N]),
    (t_CUresult, ''cuMemcpyDtoD_v2_ptds'', [T t_CUdeviceptr, N, T t_CUdeviceptr, N, T t_size_t, N]),
    (t_CUresult, ''cuMemcpyDtoA'', [T t_CUarray, N, T t_size_t, N, T t_CUdeviceptr, N, T t_size_t, N]),
    (t_CUresult, ''cuMemcpyAtoD'', [T t_CUdeviceptr, N, T t_CUarray, N, T t_size_t, N, T t_size_t, N]),
    (t_CUresult, ''cuMemcpyHtoA'', [T t_CUarray, N, T t_size_t, N, T (Ptr (Const t_void)), N, T t_size_t, N]),
    (t_CUresult, ''cuMemcpyAtoH'', [T (Ptr t_void), N, T t_CUarray, N, T t_size_t, N, T t_size_t, N]),
    (t_CUresult, ''cuMemcpyAtoA'', [T t_CUarray, N, T t_size_t, N, T t_CUarray, N, T t_size_t, N, T t_size_t, N]),
    (t_CUresult, ''cuMemcpy2D'', [T (Ptr (Const t_CUDA_MEMCPY2D)), N]),
    (t_CUresult, ''cuMemcpy2DUnaligned'', [T (Ptr (Const t_CUDA_MEMCPY2D)), N]),
    (t_CUresult, ''cuMemcpy2DUnaligned_v2_ptds'', [T (Ptr (Const t_CUDA_MEMCPY2D)), N]),
    (t_CUresult, ''cuMemcpy3D'', [T (Ptr (Const t_CUDA_MEMCPY3D)), N]),
    (t_CUresult, ''cuMemcpy3D_v2_ptds'', [T (Ptr (Const t_CUDA_MEMCPY3D)), N]),
    (t_CUresult, ''cuMemcpyPeerAsync'', [T t_CUdeviceptr, N, T t_CUcontext, N, T t_CUdeviceptr, N, T t_CUcontext, N,
      T t_size_t, N, T t_CUstream, N]),
    (t_CUresult, ''cuMemcpyPeerAsync_ptsz'', [T t_CUdeviceptr, N, T t_CUcontext, N, T t_CUdeviceptr, N,
      T t_CUcontext, N, T t_size_t, N, T t_CUstream, N]),
    (t_CUresult, ''cuMemcpyHtoAAsync'', [T t_CUarray, N, T t_size_t, N, T (Ptr (Const t_void)), N, T t_size_t, N,
      T t_CUstream, N]),
    (t_CUresult, ''cuMemcpyAtoHAsync'', [T (Ptr t_void), N, T t_CUarray, N, T t_size_t, N, T t_size_t, N,
      T t_CUstream, N]),
    (t_CUresult, ''cuMemcpy3DPeerAsync'', [T (Ptr (Const t_CUDA_MEMCPY3D_PEER)), N, T t_CUstream, N]),
    (t_CUresult, ''cuMemcpy3DPeerAsync_ptsz'', [T (Ptr (Const t_CUDA_MEMCPY3D_PEER)), N, T t_CUstream, N]),
    (t_CUresult, ''cuMemcpyHtoDAsync'', [T t_CUdeviceptr, N, T (Ptr (Const t_void)), N, T t_size_t, N, T t_CUstream,
      N]),
    (t_CUresult, ''cuMemcpyHtoDAsync_v2_ptsz'', [T t_CUdeviceptr, N, T (Ptr (Const t_void)), N, T t_size_t, N,
      T t_CUstream, N]),
    (t_CUresult, ''cuMemcpyDtoHAsync'', [T (Ptr t_void), N, T t_CUdeviceptr, N, T t_size_t, N, T t_CUstream, N]),
    (t_CUresult, ''cuMemcpyDtoHAsync_v2_ptsz'', [T (Ptr t_void), N, T t_CUdeviceptr, N, T t_size_t, N, T t_CUstream,
      N]),
    (t_CUresult, ''cuMemcpyDtoDAsync'', [T t_CUdeviceptr, N, T t_CUdeviceptr, N, T t_size_t, N, T t_CUstream, N]),
    (t_CUresult, ''cuMemcpyDtoDAsync_v2_ptsz'', [T t_CUdeviceptr, N, T t_CUdeviceptr, N, T t_size_t, N,
      T t_CUstream, N]),
    (t_CUresult, ''cuMemcpy2DAsync'', [T (Ptr (Const t_CUDA_MEMCPY2D)), N, T t_CUstream, N]),
    (t_CUresult, ''cuMemcpy2DAsync_v2_ptsz'', [T (Ptr (Const t_CUDA_MEMCPY2D)), N, T t_CUstream, N]),
    (t_CUresult, ''cuMemcpy3DAsync'', [T (Ptr (Const t_CUDA_MEMCPY3D)), N, T t_CUstream, N]),
    (t_CUresult, ''cuMemcpy3DAsync_v2_ptsz'', [T (Ptr (Const t_CUDA_MEMCPY3D)), N, T t_CUstream, N]),
    (t_CUresult, ''cuMemcpyAsync'', [T t_CUdeviceptr, N, T t_CUdeviceptr, N, T t_size_t, N, T t_CUstream, N]),
    (t_CUresult, ''cuMemcpyAsync_ptsz'', [T t_CUdeviceptr, N, T t_CUdeviceptr, N, T t_size_t, N, T t_CUstream, N]),
    (t_CUresult, ''cuMemcpyPeer'', [T t_CUdeviceptr, N, T t_CUcontext, N, T t_CUdeviceptr, N, T t_CUcontext, N,
      T t_size_t, N]),
    (t_CUresult, ''cuMemcpyPeer_ptds'', [T t_CUdeviceptr, N, T t_CUcontext, N, T t_CUdeviceptr, N, T t_CUcontext, N,
      T t_size_t, N]),
    (t_CUresult, ''cuMemcpy3DPeer'', [T (Ptr (Const t_CUDA_MEMCPY3D_PEER)), N]),
    (t_CUresult, ''cuMemcpy3DPeer_ptds'', [T (Ptr (Const t_CUDA_MEMCPY3D_PEER)), N]),
    (t_CUresult, ''cuMemsetD8Async'', [T t_CUdeviceptr, N, T t_unsigned_char, N, T t_size_t, N, T t_CUstream, N]),
    (t_CUresult, ''cuMemsetD8Async_ptsz'', [T t_CUdeviceptr, N, T t_unsigned_char, N, T t_size_t, N, T t_CUstream,
      N]),
    (t_CUresult, ''cuMemsetD2D8Async'', [T t_CUdeviceptr, N, T t_size_t, N, T t_unsigned_char, N, T t_size_t, N,
      T t_size_t, N, T t_CUstream, N]),
    (t_CUresult, ''cuMemsetD2D8Async_ptsz'', [T t_CUdeviceptr, N, T t_size_t, N, T t_unsigned_char, N, T t_size_t,
      N, T t_size_t, N, T t_CUstream, N]),
    (t_CUresult, ''cuFuncSetCacheConfig'', [T t_CUfunction, N, T t_CUfunc_cache, N]),
    (t_CUresult, ''cuFuncSetSharedMemConfig'', [T t_CUfunction, N, T t_CUsharedconfig, N]),
    (t_CUresult, ''cuFuncGetAttribute'', [T (Ptr t_int), N, T t_CUfunction_attribute, N, T t_CUfunction, N]),
    (t_CUresult, ''cuFuncSetAttribute'', [T t_CUfunction, N, T t_CUfunction_attribute, N, T t_int, N]),
    (t_CUresult, ''cuArrayDestroy'', [T t_CUarray, N]),
    (t_CUresult, ''cuMipmappedArrayCreate'', [T (Ptr t_CUmipmappedArray), N,
      T (Ptr (Const t_CUDA_ARRAY3D_DESCRIPTOR)), N, T t_unsigned_int, N]),
    (t_CUresult, ''cuMipmappedArrayGetLevel'', [T (Ptr t_CUarray), N, T t_CUmipmappedArray, N, T t_unsigned_int,
      N]),
    (t_CUresult, ''cuMipmappedArrayDestroy'', [T t_CUmipmappedArray, N]),
    (t_CUresult, ''cuTexRefCreate'', [T (Ptr t_CUtexref), N]),
    (t_CUresult, ''cuTexRefDestroy'', [T t_CUtexref, N]),
    (t_CUresult, ''cuTexRefSetArray'', [T t_CUtexref, N, T t_CUarray, N, T t_unsigned_int, N]),
    (t_CUresult, ''cuTexRefSetMipmappedArray'', [T t_CUtexref, N, T t_CUmipmappedArray, N, T t_unsigned_int, N]),
    (t_CUresult, ''cuTexRefSetFormat'', [T t_CUtexref, N, T t_CUarray_format, N, T t_int, N]),
    (t_CUresult, ''cuTexRefSetAddressMode'', [T t_CUtexref, N, T t_int, N, T t_CUaddress_mode, N]),
    (t_CUresult, ''cuTexRefSetFilterMode'', [T t_CUtexref, N, T t_CUfilter_mode, N]),
    (t_CUresult, ''cuTexRefSetMipmapFilterMode'', [T t_CUtexref, N, T t_CUfilter_mode, N]),
    (t_CUresult, ''cuTexRefSetMipmapLevelBias'', [T t_CUtexref, N, T t_float, N]),
    (t_CUresult, ''cuTexRefSetMipmapLevelClamp'', [T t_CUtexref, N, T t_float, N, T t_float, N]),
    (t_CUresult, ''cuTexRefSetMaxAnisotropy'', [T t_CUtexref, N, T t_unsigned_int, N]),
    (t_CUresult, ''cuTexRefSetFlags'', [T t_CUtexref, N, T t_unsigned_int, N]),
    (t_CUresult, ''cuTexRefSetBorderColor'', [T t_CUtexref, N, T (Ptr t_float), N]),
    (t_CUresult, ''cuTexRefGetBorderColor'', [T (Ptr t_float), N, T t_CUtexref, N]),
    (t_CUresult, ''cuSurfRefSetArray'', [T t_CUsurfref, N, T t_CUarray, N, T t_unsigned_int, N]),
    (t_CUresult, ''cuTexObjectCreate'', [T (Ptr t_CUtexObject), N, T (Ptr (Const t_CUDA_RESOURCE_DESC)), N,
      T (Ptr (Const t_CUDA_TEXTURE_DESC)), N, T (Ptr (Const t_CUDA_RESOURCE_VIEW_DESC)), N]),
    (t_CUresult, ''cuTexObjectDestroy'', [T t_CUtexObject, N]),
    (t_CUresult, ''cuTexObjectGetResourceDesc'', [T (Ptr t_CUDA_RESOURCE_DESC), N, T t_CUtexObject, N]),
    (t_CUresult, ''cuTexObjectGetTextureDesc'', [T (Ptr t_CUDA_TEXTURE_DESC), N, T t_CUtexObject, N]),
    (t_CUresult, ''cuTexObjectGetResourceViewDesc'', [T (Ptr t_CUDA_RESOURCE_VIEW_DESC), N, T t_CUtexObject, N]),
    (t_CUresult, ''cuSurfObjectCreate'', [T (Ptr t_CUsurfObject), N, T (Ptr (Const t_CUDA_RESOURCE_DESC)), N]),
    (t_CUresult, ''cuSurfObjectDestroy'', [T t_CUsurfObject, N]),
    (t_CUresult, ''cuSurfObjectGetResourceDesc'', [T (Ptr t_CUDA_RESOURCE_DESC), N, T t_CUsurfObject, N]),
    (t_CUresult, ''cuImportExternalMemory'', [T (Ptr t_CUexternalMemory), N,
      T (Ptr (Const t_CUDA_EXTERNAL_MEMORY_HANDLE_DESC)), N]),
    (t_CUresult, ''cuExternalMemoryGetMappedBuffer'', [T (Ptr t_CUdeviceptr), N, T t_CUexternalMemory, N,
      T (Ptr (Const t_CUDA_EXTERNAL_MEMORY_BUFFER_DESC)), N]),
    (t_CUresult, ''cuExternalMemoryGetMappedMipmappedArray'', [T (Ptr t_CUmipmappedArray), N, T t_CUexternalMemory,
      N, T (Ptr (Const t_CUDA_EXTERNAL_MEMORY_MIPMAPPED_ARRAY_DESC)), N]),
    (t_CUresult, ''cuDestroyExternalMemory'', [T t_CUexternalMemory, N]),
    (t_CUresult, ''cuImportExternalSemaphore'', [T (Ptr t_CUexternalSemaphore), N,
      T (Ptr (Const t_CUDA_EXTERNAL_SEMAPHORE_HANDLE_DESC)), N]),
    (t_CUresult, ''cuSignalExternalSemaphoresAsync'', [T (Ptr (Const t_CUexternalSemaphore)), N,
      T (Ptr (Const t_CUDA_EXTERNAL_SEMAPHORE_SIGNAL_PARAMS)), N, T t_unsigned_int, N, T t_CUstream, N]),
    (t_CUresult, ''cuSignalExternalSemaphoresAsync_ptsz'', [T (Ptr (Const t_CUexternalSemaphore)), N,
      T (Ptr (Const t_CUDA_EXTERNAL_SEMAPHORE_SIGNAL_PARAMS)), N, T t_unsigned_int, N, T t_CUstream, N]),
    (t_CUresult, ''cuWaitExternalSemaphoresAsync'', [T (Ptr (Const t_CUexternalSemaphore)), N,
      T (Ptr (Const t_CUDA_EXTERNAL_SEMAPHORE_WAIT_PARAMS)), N, T t_unsigned_int, N, T t_CUstream, N]),
    (t_CUresult, ''cuWaitExternalSemaphoresAsync_ptsz'', [T (Ptr (Const t_CUexternalSemaphore)), N,
      T (Ptr (Const t_CUDA_EXTERNAL_SEMAPHORE_WAIT_PARAMS)), N, T t_unsigned_int, N, T t_CUstream, N]),
    (t_CUresult, ''cuDestroyExternalSemaphore'', [T t_CUexternalSemaphore, N])]"

definition driver_wrappers_14 :: "invocation list" where
  "driver_wrappers_14 = [
    (t_CUresult, ''cuLaunchKernel_ptsz'', [T t_CUfunction, N, T t_unsigned_int, N, T t_unsigned_int, N,
      T t_unsigned_int, N, T t_unsigned_int, N, T t_unsigned_int, N, T t_unsigned_int, N, T t_unsigned_int, N,
      T t_CUstream, N, T (Ptr (Ptr t_void)), N, T (Ptr (Ptr t_void)), N]),
    (t_CUresult, ''cuLaunchCooperativeKernel'', [T t_CUfunction, N, T t_unsigned_int, N, T t_unsigned_int, N,
      T t_unsigned_int, N, T t_unsigned_int, N, T t_unsigned_int, N, T t_unsigned_int, N, T t_unsigned_int, N,
      T t_CUstream, N, T (Ptr (Ptr t_void)), N]),
    (t_CUresult, ''cuLaunchCooperativeKernel_ptsz'', [T t_CUfunction, N, T t_unsigned_int, N, T t_unsigned_int, N,
      T t_unsigned_int, N, T t_unsigned_int, N, T t_unsigned_int, N, T t_unsigned_int, N, T t_unsigned_int, N,
      T t_CUstream, N, T (Ptr (Ptr t_void)), N]),
    (t_CUresult, ''cuLaunchCooperativeKernelMultiDevice'', [T (Ptr t_CUDA_LAUNCH_PARAMS), N, T t_unsigned_int, N,
      T t_unsigned_int, N]),
    (t_CUresult, ''cuLaunchHostFunc'', [T t_CUstream, N, T t_CUhostFn, N, T (Ptr t_void), N]),
    (t_CUresult, ''cuLaunchHostFunc_ptsz'', [T t_CUstream, N, T t_CUhostFn, N, T (Ptr t_void), N]),
    (t_CUresult, ''cuEventCreate'', [T (Ptr t_CUevent), N, T t_unsigned_int, N]),
    (t_CUresult, ''cuEventRecord'', [T t_CUevent, N, T t_CUstream, N]),
    (t_CUresult, ''cuEventRecord_ptsz'', [T t_CUevent, N, T t_CUstream, N]),
    (t_CUresult, ''cuEventQuery'', [T t_CUevent, N]),
    (t_CUresult, ''cuEventSynchronize'', [T t_CUevent, N]),
    (t_CUresult, ''cuEventElapsedTime'', [T (Ptr t_float), N, T t_CUevent, N, T t_CUevent, N]),
    (t_CUresult, ''cuStreamWaitValue32'', [T t_CUstream, N, T t_CUdeviceptr, N, T t_cuuint32_t, N, T t_unsigned_int,
      N]),
    (t_CUresult, ''cuStreamWaitValue32_ptsz'', [T t_CUstream, N, T t_CUdeviceptr, N, T t_cuuint32_t, N,
      T t_unsigned_int, N]),
    (t_CUresult, ''cuStreamWriteValue32'', [T t_CUstream, N, T t_CUdeviceptr, N, T t_cuuint32_t, N,
      T t_unsigned_int, N]),
    (t_CUresult, ''cuStreamWriteValue32_ptsz'', [T t_CUstream, N, T t_CUdeviceptr, N, T t_cuuint32_t, N,
      T t_unsigned_int, N]),
    (t_CUresult, ''cuStreamWaitValue64'', [T t_CUstream, N, T t_CUdeviceptr, N, T t_cuuint64_t, N, T t_unsigned_int,
      N]),
    (t_CUresult, ''cuStreamWaitValue64_ptsz'', [T t_CUstream, N, T t_CUdeviceptr, N, T t_cuuint64_t, N,
      T t_unsigned_int, N]),
    (t_CUresult, ''cuStreamWriteValue64'', [T t_CUstream, N, T t_CUdeviceptr, N, T t_cuuint64_t, N,
      T t_unsigned_int, N]),
    (t_CUresult, ''cuStreamWriteValue64_ptsz'', [T t_CUstream, N, T t_CUdeviceptr, N, T t_cuuint64_t, N,
      T t_unsigned_int, N]),
    (t_CUresult, ''cuStreamBatchMemOp'', [T t_CUstream, N, T t_unsigned_int, N, T (Ptr t_CUstreamBatchMemOpParams),
      N, T t_unsigned_int, N]),
    (t_CUresult, ''cuStreamBatchMemOp_ptsz'', [T t_CUstream, N, T t_unsigned_int, N,
      T (Ptr t_CUstreamBatchMemOpParams), N, T t_unsigned_int, N]),
    (t_CUresult, ''cuStreamCreate'', [T (Ptr t_CUstream), N, T t_unsigned_int, N]),
    (t_CUresult, ''cuStreamCreateWithPriority'', [T (Ptr t_CUstream), N, T t_unsigned_int, N, T t_int, N]),
    (t_CUresult, ''cuStreamGetPriority'', [T t_CUstream, N, T (Ptr t_int), N]),
    (t_CUresult, ''cuStreamGetPriority_ptsz'', [T t_CUstream, N, T (Ptr t_int), N]),
    (t_CUresult, ''cuStreamGetFlags'', [T t_CUstream, N, T (Ptr t_unsigned_int), N]),
    (t_CUresult, ''cuStreamGetFlags_ptsz'', [T t_CUstream, N, T (Ptr t_unsigned_int), N]),
    (t_CUresult, ''cuStreamGetCtx'', [T t_CUstream, N, T (Ptr t_CUcontext), N]),
    (t_CUresult, ''cuStreamWaitEvent'', [T t_CUstream, N, T t_CUevent, N, T t_unsigned_int, N]),
    (t_CUresult, ''cuStreamWaitEvent_ptsz'', [T t_CUstream, N, T t_CUevent, N, T t_unsigned_int, N]),
    (t_CUresult, ''cuStreamAddCallback'', [T t_CUstream, N, T t_CUstreamCallback, N, T (Ptr t_void), N,
      T t_unsigned_int, N]),
    (t_CUresult, ''cuStreamAddCallback_ptsz'', [T t_CUstream, N, T t_CUstreamCallback, N, T (Ptr t_void), N,
      T t_unsigned_int, N]),
    (t_CUresult, ''cuStreamSynchronize'', [T t_CUstream, N]),
    (t_CUresult, ''cuStreamSynchronize_ptsz'', [T t_CUstream, N]),
    (t_CUresult, ''cuStreamQuery'', [T t_CUstream, N]),
    (t_CUresult, ''cuStreamQuery_ptsz'', [T t_CUstream, N]),
    (t_CUresult, ''cuStreamAttachMemAsync'', [T t_CUstream, N, T t_CUdeviceptr, N, T t_size_t, N, T t_unsigned_int,
      N]),
    (t_CUresult, ''cuStreamAttachMemAsync_ptsz'', [T t_CUstream, N, T t_CUdeviceptr, N, T t_size_t, N,
      T t_unsigned_int, N]),
    (t_CUresult, ''cuDeviceCanAccessPeer'', [T (Ptr t_int), N, T t_CUdevice, N, T t_CUdevice, N]),
    (t_CUresult, ''cuCtxEnablePeerAccess'', [T t_CUcontext, N, T t_unsigned_int, N]),
    (t_CUresult, ''cuCtxDisablePeerAccess'', [T t_CUcontext, N]),
    (t_CUresult, ''cuIpcGetEventHandle'', [T (Ptr t_CUipcEventHandle), N, T t_CUevent, N]),
    (t_CUresult, ''cuIpcOpenEventHandle'', [T (Ptr t_CUevent), N, T t_CUipcEventHandle, N]),
    (t_CUresult, ''cuIpcGetMemHandle'', [T (Ptr t_CUipcMemHandle), N, T t_CUdeviceptr, N]),
    (t_CUresult, ''cuIpcOpenMemHandle'', [T (Ptr t_CUdeviceptr), N, T t_CUipcMemHandle, N, T t_unsigned_int, N]),
    (t_CUresult, ''cuIpcCloseMemHandle'', [T t_CUdeviceptr, N]),
    (t_CUresult, ''cuGraphicsUnregisterResource'', [T t_CUgraphicsResource, N]),
    (t_CUresult, ''cuGraphicsMapResources'', [T t_unsigned_int, N, T (Ptr t_CUgraphicsResource), N, T t_CUstream,
      N]),
    (t_CUresult, ''cuGraphicsMapResources_ptsz'', [T t_unsigned_int, N, T (Ptr t_CUgraphicsResource), N,
      T t_CUstream, N]),
    (t_CUresult, ''cuGraphicsUnmapResources'', [T t_unsigned_int, N, T (Ptr t_CUgraphicsResource), N, T t_CUstream,
      N]),
    (t_CUresult, ''cuGraphicsUnmapResources_ptsz'', [T t_unsigned_int, N, T (Ptr t_CUgraphicsResource), N,
      T t_CUstream, N]),
    (t_CUresult, ''cuGraphicsSubResourceGetMappedArray'', [T (Ptr t_CUarray), N, T t_CUgraphicsResource, N,
      T t_unsigned_int, N, T t_unsigned_int, N]),
    (t_CUresult, ''cuGraphicsResourceGetMappedMipmappedArray'', [T (Ptr t_CUmipmappedArray), N,
      T t_CUgraphicsResource, N]),
    (t_CUresult, ''cuGraphicsResourceGetMappedPointer'', [T (Ptr t_CUdeviceptr), N, T (Ptr t_size_t), N,
      T t_CUgraphicsResource, N]),
    (t_CUresult, ''cuGraphicsResourceSetMapFlags'', [T t_CUgraphicsResource, N, T t_unsigned_int, N]),
    (t_CUresult, ''cuOccupancyMaxActiveBlocksPerMultiprocessor'', [T (Ptr t_int), N, T t_CUfunction, N, T t_int, N,
      T t_size_t, N]),
    (t_CUresult, ''cuOccupancyMaxActiveBlocksPerMultiprocessorWithFlags'', [T (Ptr t_int), N, T t_CUfunction, N,
      T t_int, N, T t_size_t, N, T t_unsigned_int, N]),
    (t_CUresult, ''cuMemAdvise'', [T t_CUdeviceptr, N, T t_size_t, N, T t_CUmem_advise, N, T t_CUdevice, N]),
    (t_CUresult, ''cuMemPrefetchAsync'', [T t_CUdeviceptr, N, T t_size_t, N, T t_CUdevice, N, T t_CUstream, N]),
    (t_CUresult, ''cuMemPrefetchAsync_ptsz'', [T t_CUdeviceptr, N, T t_size_t, N, T t_CUdevice, N, T t_CUstream,
      N]),
    (t_CUresult, ''cuMemRangeGetAttribute'', [T (Ptr t_void), N, T t_size_t, N, T t_CUmem_range_attribute, N,
      T t_CUdeviceptr, N, T t_size_t, N]),
    (t_CUresult, ''cuMemRangeGetAttributes'', [T (Ptr (Ptr t_void)), N, T (Ptr t_size_t), N,
      T (Ptr t_CUmem_range_attribute), N, T t_size_t, N, T t_CUdeviceptr, N, T t_size_t, N])]"

definition driver_wrappers_15 :: "invocation list" where
  "driver_wrappers_15 = [
    (t_CUresult, ''cuGetErrorName'', [T t_CUresult, N, T (Ptr (Ptr (Const t_char))), N]),
    (t_CUresult, ''cuGraphCreate'', [T (Ptr t_CUgraph), N, T t_unsigned_int, N]),
    (t_CUresult, ''cuGraphAddKernelNode'', [T (Ptr t_CUgraphNode), N, T t_CUgraph, N, T (Ptr (Const t_CUgraphNode)),
      N, T t_size_t, N, T (Ptr (Const t_CUDA_KERNEL_NODE_PARAMS)), N]),
    (t_CUresult, ''cuGraphKernelNodeGetParams'', [T t_CUgraphNode, N, T (Ptr t_CUDA_KERNEL_NODE_PARAMS), N]),
    (t_CUresult, ''cuGraphKernelNodeSetParams'', [T t_CUgraphNode, N, T (Ptr (Const t_CUDA_KERNEL_NODE_PARAMS)),
      N]),
    (t_CUresult, ''cuGraphAddMemcpyNode'', [T (Ptr t_CUgraphNode), N, T t_CUgraph, N, T (Ptr (Const t_CUgraphNode)),
      N, T t_size_t, N, T (Ptr (Const t_CUDA_MEMCPY3D)), N, T t_CUcontext, N]),
    (t_CUresult, ''cuGraphMemcpyNodeGetParams'', [T t_CUgraphNode, N, T (Ptr t_CUDA_MEMCPY3D), N]),
    (t_CUresult, ''cuGraphMemcpyNodeSetParams'', [T t_CUgraphNode, N, T (Ptr (Const t_CUDA_MEMCPY3D)), N]),
    (t_CUresult, ''cuGraphAddMemsetNode'', [T (Ptr t_CUgraphNode), N, T t_CUgraph, N, T (Ptr (Const t_CUgraphNode)),
      N, T t_size_t, N, T (Ptr (Const t_CUDA_MEMSET_NODE_PARAMS)), N, T t_CUcontext, N]),
    (t_CUresult, ''cuGraphMemsetNodeGetParams'', [T t_CUgraphNode, N, T (Ptr t_CUDA_MEMSET_NODE_PARAMS), N]),
    (t_CUresult, ''cuGraphMemsetNodeSetParams'', [T t_CUgraphNode, N, T (Ptr (Const t_CUDA_MEMSET_NODE_PARAMS)),
      N]),
    (t_CUresult, ''cuGraphAddHostNode'', [T (Ptr t_CUgraphNode), N, T t_CUgraph, N, T (Ptr (Const t_CUgraphNode)),
      N, T t_size_t, N, T (Ptr (Const t_CUDA_HOST_NODE_PARAMS)), N]),
    (t_CUresult, ''cuGraphHostNodeGetParams'', [T t_CUgraphNode, N, T (Ptr t_CUDA_HOST_NODE_PARAMS), N]),
    (t_CUresult, ''cuGraphHostNodeSetParams'', [T t_CUgraphNode, N, T (Ptr (Const t_CUDA_HOST_NODE_PARAMS)), N]),
    (t_CUresult, ''cuGraphAddChildGraphNode'', [T (Ptr t_CUgraphNode), N, T t_CUgraph, N,
      T (Ptr (Const t_CUgraphNode)), N, T t_size_t, N, T t_CUgraph, N]),
    (t_CUresult, ''cuGraphChildGraphNodeGetGraph'', [T t_CUgraphNode, N, T (Ptr t_CUgraph), N]),
    (t_CUresult, ''cuGraphAddEmptyNode'', [T (Ptr t_CUgraphNode), N, T t_CUgraph, N, T (Ptr (Const t_CUgraphNode)),
      N, T t_size_t, N]),
    (t_CUresult, ''cuGraphClone'', [T (Ptr t_CUgraph), N, T t_CUgraph, N]),
    (t_CUresult, ''cuGraphNodeFindInClone'', [T (Ptr t_CUgraphNode), N, T t_CUgraphNode, N, T t_CUgraph, N]),
    (t_CUresult, ''cuGraphNodeGetType'', [T t_CUgraphNode, N, T (Ptr t_CUgraphNodeType), N]),
    (t_CUresult, ''cuGraphGetNodes'', [T t_CUgraph, N, T (Ptr t_CUgraphNode), N, T (Ptr t_size_t), N]),
    (t_CUresult, ''cuGraphGetRootNodes'', [T t_CUgraph, N, T (Ptr t_CUgraphNode), N, T (Ptr t_size_t), N]),
    (t_CUresult, ''cuGraphGetEdges'', [T t_CUgraph, N, T (Ptr t_CUgraphNode), N, T (Ptr t_CUgraphNode), N,
      T (Ptr t_size_t), N]),
    (t_CUresult, ''cuGraphNodeGetDependencies'', [T t_CUgraphNode, N, T (Ptr t_CUgraphNode), N, T (Ptr t_size_t),
      N]),
    (t_CUresult, ''cuGraphNodeGetDependentNodes'', [T t_CUgraphNode, N, T (Ptr t_CUgraphNode), N, T (Ptr t_size_t),
      N]),
    (t_CUresult, ''cuGraphAddDependencies'', [T t_CUgraph, N, T (Ptr (Const t_CUgraphNode)), N,
      T (Ptr (Const t_CUgraphNode)), N, T t_size_t, N]),
    (t_CUresult, ''cuGraphRemoveDependencies'', [T t_CUgraph, N, T (Ptr (Const t_CUgraphNode)), N,
      T (Ptr (Const t_CUgraphNode)), N, T t_size_t, N]),
    (t_CUresult, ''cuGraphInstantiate'', [T (Ptr t_CUgraphExec), N, T t_CUgraph, N, T (Ptr t_CUgraphNode), N,
      T (Ptr t_char), N, T t_size_t, N]),
    (t_CUresult, ''cuGraphLaunch'', [T t_CUgraphExec, N, T t_CUstream, N]),
    (t_CUresult, ''cuGraphLaunch_ptsz'', [T t_CUgraphExec, N, T t_CUstream, N]),
    (t_CUresult, ''cuGraphExecDestroy'', [T t_CUgraphExec, N]),
    (t_CUresult, ''cuGraphDestroyNode'', [T t_CUgraphNode, N]),
    (t_CUresult, ''cuGraphDestroy'', [T t_CUgraph, N]),
    (t_CUresult, ''cuGraphDestroy_ptsz'', [T t_CUgraph, N]),
    (t_CUresult, ''cuStreamBeginCapture_ptsz'', [T t_CUstream, N]),
    (t_CUresult, ''cuStreamBeginCapture'', [T t_CUstream, N, T t_CUstreamCaptureMode, N]),
    (t_CUresult, ''cuStreamBeginCapture_v2_ptsz'', [T t_CUstream, N]),
    (t_CUresult, ''cuStreamEndCapture'', [T t_CUstream, N, T (Ptr t_CUgraph), N]),
    (t_CUresult, ''cuStreamEndCapture_ptsz'', [T t_CUstream, N, T (Ptr t_CUgraph), N]),
    (t_CUresult, ''cuStreamIsCapturing'', [T t_CUstream, N, T (Ptr t_CUstreamCaptureStatus), N]),
    (t_CUresult, ''cuStreamIsCapturing_ptsz'', [T t_CUstream, N, T (Ptr t_CUstreamCaptureStatus), N]),
    (t_CUresult, ''cuThreadExchangeStreamCaptureMode'', [T (Ptr t_CUstreamCaptureMode), N]),
    (t_CUresult, ''cuStreamGetCaptureInfo'', [T t_CUstream, N, T (Ptr t_CUstreamCaptureStatus), N,
      T (Ptr t_cuuint64_t), N, Other ''CUgraph*. graph_out'', T (Ptr (Ptr (Const t_CUgraphNode))), N,
      T (Ptr t_size_t), N]),
    (t_CUresult, ''cuStreamGetCaptureInfo_ptsz'', [T t_CUstream, N, T (Ptr t_CUstreamCaptureStatus), N,
      T (Ptr t_cuuint64_t), N]),
    (t_CUresult, ''cuGraphExecKernelNodeSetParams'', [T t_CUgraphExec, N, T t_CUgraphNode, N,
      T (Ptr (Const t_CUDA_KERNEL_NODE_PARAMS)), N])]"

definition driver_wrappers :: "invocation list" where
  "driver_wrappers = concat [driver_wrappers_1, driver_wrappers_2, driver_wrappers_3, driver_wrappers_4, driver_wrappers_5, driver_wrappers_6, driver_wrappers_7, driver_wrappers_8, driver_wrappers_9, driver_wrappers_10, driver_wrappers_11, driver_wrappers_12, driver_wrappers_13, driver_wrappers_14, driver_wrappers_15]"

definition runtime_wrappers_1 :: "invocation list" where
  "runtime_wrappers_1 = [
    (t_cudaError_t, ''cudaIpcCloseMemHandle'', [T (Ptr t_void), N]),
    (t_cudaError_t, ''cudaIpcGetEventHandle'', [T (Ptr t_cudaIpcEventHandle_t), N, T t_cudaEvent_t, N]),
    (t_cudaError_t, ''cudaIpcGetMemHandle'', [T (Ptr t_cudaIpcMemHandle_t), N, T (Ptr t_void), N]),
    (t_cudaError_t, ''cudaIpcOpenEventHandle'', [T (Ptr t_cudaEvent_t), N, T t_cudaIpcEventHandle_t, N]),
    (t_cudaError_t, ''cudaIpcOpenMemHandle'', [T (Ptr (Ptr t_void)), N, T t_cudaIpcMemHandle_t, N, T t_unsigned_int,
      N])]"

definition runtime_wrappers_2 :: "invocation list" where
  "runtime_wrappers_2 = [
    (t_cudaError_t, ''cudaStreamAddCallback'', [T t_cudaStream_t, N, T t_cudaStreamCallback_t, N, T (Ptr t_void), N,
      T t_unsigned_int, N]),
    (t_cudaError_t, ''cudaStreamAttachMemAsync'', [T t_cudaStream_t, N, T (Ptr t_void), N, T t_size_t, N,
      T t_unsigned_int, N]),
    (t_cudaError_t, ''cudaStreamBeginCapture'', [T t_cudaStream_t, N, T t_cudaStreamCaptureMode, N])]"

definition runtime_wrappers_3 :: "invocation list" where
  "runtime_wrappers_3 = [
    (t_cudaError_t, ''cudaStreamEndCapture'', [T t_cudaStream_t, N, T (Ptr t_cudaGraph_t), N]),
    (t_cudaError_t, ''cudaStreamGetAttribute'', [T t_cudaStream_t, N, T t_cudaStreamAttrID, N,
      T (Ptr t_cudaStreamAttrValue), N]),
    (t_cudaError_t, ''cudaStreamGetCaptureInfo'', [T t_cudaStream_t, N, Other ''cudaStreamCaptureStatus**'', N,
      Other ''unsigned long'', Other ''long*'', N])]"

definition runtime_wrappers_4 :: "invocation list" where
  "runtime_wrappers_4 = [
    (t_cudaError_t, ''cudaStreamSetAttribute'', [T t_cudaStream_t, N, T t_cudaStreamAttrID, N,
      T (Ptr (Const t_cudaStreamAttrValue)), N])]"

definition runtime_wrappers_5 :: "invocation list" where
  "runtime_wrappers_5 = [
    (t_cudaError_t, ''cudaDestroyExternalMemory'', [T t_cudaExternalMemory_t, N]),
    (t_cudaError_t, ''cudaDestroyExternalSemaphore'', [T t_cudaExternalSemaphore_t, N]),
    (t_cudaError_t, ''cudaExternalMemoryGetMappedBuffer'', [T (Ptr (Ptr t_void)), N, T t_cudaExternalMemory_t, N,
      T (Ptr (Const t_cudaExternalMemoryBufferDesc)), N]),
    (t_cudaError_t, ''cudaExternalMemoryGetMappedMipmappedArray'', [T (Ptr t_cudaMipmappedArray_t), N,
      T t_cudaExternalMemory_t, N, T (Ptr (Const t_cudaExternalMemoryMipmappedArrayDesc)), N]),
    (t_cudaError_t, ''cudaImportExternalMemory'', [T (Ptr t_cudaExternalMemory_t), N,
      T (Ptr (Const t_cudaExternalMemoryHandleDesc)), N]),
    (t_cudaError_t, ''cudaImportExternalSemaphore'', [T (Ptr t_cudaExternalSemaphore_t), N,
      T (Ptr (Const t_cudaExternalSemaphoreHandleDesc)), N]),
    (t_cudaError_t, ''cudaSignalExternalSemaphoresAsync'', [T (Ptr (Const t_cudaExternalSemaphore_t)), N,
      T (Ptr (Const t_cudaExternalSemaphoreSignalParams)), N, T t_unsigned_int, N, T t_cudaStream_t, N]),
    (t_cudaError_t, ''cudaWaitExternalSemaphoresAsync'', [T (Ptr (Const t_cudaExternalSemaphore_t)), N,
      T (Ptr (Const t_cudaExternalSemaphoreWaitParams)), N, T t_unsigned_int, N, T t_cudaStream_t, N])]"

definition runtime_wrappers_6 :: "invocation list" where
  "runtime_wrappers_6 = [
    (t_cudaError_t, ''cudaLaunchHostFunc'', [T t_cudaStream_t, N, T t_cudaHostFn_t, N, T (Ptr t_void), N])]"

definition runtime_wrappers_7 :: "invocation list" where
  "runtime_wrappers_7 = [
    (t_cudaError_t, ''cudaSetDoubleForDevice'', [T (Ptr t_double), N]),
    (t_cudaError_t, ''cudaSetDoubleForHost'', [T (Ptr t_double), N])]"

definition runtime_wrappers_8 :: "invocation list" where
  "runtime_wrappers_8 = [
    (t_cudaError_t, ''cudaFreeMipmappedArray'', [T t_cudaMipmappedArray_t, N]),
    (t_cudaError_t, ''cudaGetMipmappedArrayLevel'', [T (Ptr t_cudaArray_t), N, T t_cudaMipmappedArray_const_t, N,
      T t_unsigned_int, N])]"

definition runtime_wrappers_9 :: "invocation list" where
  "runtime_wrappers_9 = [
    (t_cudaError_t, ''cudaHostRegister'', [T (Ptr t_void), N, T t_size_t, N, T t_unsigned_int, N]),
    (t_cudaError_t, ''cudaHostUnregister'', [T (Ptr t_void), N])]"

definition runtime_wrappers_10 :: "invocation list" where
  "runtime_wrappers_10 = [
    (t_cudaError_t, ''cudaMallocHost'', [T (Ptr (Ptr t_void)), N, T t_size_t, N]),
    (t_cudaError_t, ''cudaMallocManaged'', [T (Ptr (Ptr t_void)), N, T t_size_t, N, T t_unsigned_int, N]),
    (t_cudaError_t, ''cudaMallocMipmappedArray'', [T (Ptr t_cudaMipmappedArray_t), N,
      T (Ptr (Const t_cudaChannelFormatDesc)), N, T t_cudaExtent, N, T t_unsigned_int, N, T t_unsigned_int, N])]"

definition runtime_wrappers_11 :: "invocation list" where
  "runtime_wrappers_11 = [
    (t_cudaError_t, ''cudaMemRangeGetAttribute'', [T (Ptr t_void), N, T t_size_t, N, T t_cudaMemRangeAttribute, N,
      T (Ptr (Const t_void)), N, T t_size_t, N]),
    (t_cudaError_t, ''cudaMemRangeGetAttributes'', [T (Ptr (Ptr t_void)), N, T (Ptr t_size_t), N,
      T (Ptr t_cudaMemRangeAttribute), N, T t_size_t, N, T (Ptr (Const t_void)), N, T t_size_t, N])]"

definition runtime_wrappers_12 :: "invocation list" where
  "runtime_wrappers_12 = [
    (t_cudaError_t, ''cudaMemcpy2D'', [T (Ptr t_void), N, T t_size_t, N, T (Ptr (Const t_void)), N, T t_size_t, N,
      T t_size_t, N, T t_size_t, N, T t_cudaMemcpyKind, N]),
    (t_cudaError_t, ''cudaMemcpy2DArrayToArray'', [T t_cudaArray_t, N, T t_size_t, N, T t_size_t, N,
      T t_cudaArray_const_t, N, T t_size_t, N, T t_size_t, N, T t_size_t, N, T t_size_t, N, T t_cudaMemcpyKind, N]),
    (t_cudaError_t, ''cudaMemcpy2DAsync'', [T (Ptr t_void), N, T t_size_t, N, T (Ptr (Const t_void)), N, T t_size_t,
      N, T t_size_t, N, T t_size_t, N, T t_cudaMemcpyKind, N, T t_cudaStream_t, N]),
    (t_cudaError_t, ''cudaMemcpy2DFromArray'', [T (Ptr t_void), N, T t_size_t, N, T t_cudaArray_const_t, N,
      T t_size_t, N, T t_size_t, N, T t_size_t, N, T t_size_t, N, T t_cudaMemcpyKind, N]),
    (t_cudaError_t, ''cudaMemcpy2DFromArrayAsync'', [T (Ptr t_void), N, T t_size_t, N, T t_cudaArray_const_t, N,
      T t_size_t, N, T t_size_t, N, T t_size_t, N, T t_size_t, N, T t_cudaMemcpyKind, N, T t_cudaStream_t, N]),
    (t_cudaError_t, ''cudaMemcpy2DToArray'', [T t_cudaArray_t, N, T t_size_t, N, T t_size_t, N,
      T (Ptr (Const t_void)), N, T t_size_t, N, T t_size_t, N, T t_size_t, N, T t_cudaMemcpyKind, N]),
    (t_cudaError_t, ''cudaMemcpy2DToArrayAsync'', [T t_cudaArray_t, N, T t_size_t, N, T t_size_t, N,
      T (Ptr (Const t_void)), N, T t_size_t, N, T t_size_t, N, T t_size_t, N, T t_cudaMemcpyKind, N,
      T t_cudaStream_t, N]),
    (t_cudaError_t, ''cudaMemcpy3D'', [T (Ptr (Const t_cudaMemcpy3DParms)), N]),
    (t_cudaError_t, ''cudaMemcpy3DAsync'', [T (Ptr (Const t_cudaMemcpy3DParms)), N, T t_cudaStream_t, N]),
    (t_cudaError_t, ''cudaMemcpy3DPeer'', [T (Ptr (Const t_cudaMemcpy3DPeerParms)), N]),
    (t_cudaError_t, ''cudaMemcpy3DPeerAsync'', [T (Ptr (Const t_cudaMemcpy3DPeerParms)), N, T t_cudaStream_t, N])]"

definition runtime_wrappers_13 :: "invocation list" where
  "runtime_wrappers_13 = [
    (t_cudaError_t, ''cudaMemcpyFromSymbol'', [T (Ptr t_void), N, T (Ptr (Const t_void)), N, T t_size_t, N,
      T t_size_t, N, T t_cudaMemcpyKind, N]),
    (t_cudaError_t, ''cudaMemcpyFromSymbolAsync'', [T (Ptr t_void), N, T (Ptr (Const t_void)), N, T t_size_t, N,
      T t_size_t, N, T t_cudaMemcpyKind, N, T t_cudaStream_t, N]),
    (t_cudaError_t, ''cudaMemcpyPeer'', [T (Ptr t_void), N, T t_int, N, T (Ptr (Const t_void)), N, T t_int, N,
      T t_size_t, N]),
    (t_cudaError_t, ''cudaMemcpyPeerAsync'', [T (Ptr t_void), N, T t_int, N, T (Ptr (Const t_void)), N, T t_int, N,
      T t_size_t, N, T t_cudaStream_t, N])]"

definition runtime_wrappers_14 :: "invocation list" where
  "runtime_wrappers_14 = [
    (t_cudaError_t, ''cudaMemcpyToSymbolAsync'', [T (Ptr (Const t_void)), N, T (Ptr (Const t_void)), N, T t_size_t,
      N, T t_size_t, N, T t_cudaMemcpyKind, N, T t_cudaStream_t, N])]"

definition runtime_wrappers_15 :: "invocation list" where
  "runtime_wrappers_15 = [
    (t_cudaExtent, ''make_cudaExtent'', [T t_size_t, N, T t_size_t, N, T t_size_t, N]),
    (t_cudaPitchedPtr, ''make_cudaPitchedPtr'', [T (Ptr t_void), N, T t_size_t, N, T t_size_t, N, T t_size_t, N]),
    (t_cudaPos, ''make_cudaPos'', [T t_size_t, N, T t_size_t, N, T t_size_t, N]),
    (t_cudaError_t, ''cudaPointerGetAttributes'', [T (Ptr t_cudaPointerAttributes), N, T (Ptr (Const t_void)), N])]"

definition runtime_wrappers_16 :: "invocation list" where
  "runtime_wrappers_16 = [
    (t_cudaChannelFormatDesc, ''cudaCreateChannelDesc'', [T t_int, N, T t_int, N, T t_int, N, T t_int, N,
      T t_cudaChannelFormatKind, N]),
    (t_cudaError_t, ''cudaCreateTextureObject'', [T (Ptr t_cudaTextureObject_t), N,
      T (Ptr (Const t_cudaResourceDesc)), N, T (Ptr (Const t_cudaTextureDesc)), N,
      T (Ptr (Const t_cudaResourceViewDesc)), N]),
    (t_cudaError_t, ''cudaDestroyTextureObject'', [T t_cudaTextureObject_t, N]),
    (t_cudaError_t, ''cudaGetChannelDesc'', [T (Ptr t_cudaChannelFormatDesc), N, T t_cudaArray_const_t, N]),
    (t_cudaError_t, ''cudaGetTextureObjectResourceDesc'', [T (Ptr t_cudaResourceDesc), N, T t_cudaTextureObject_t,
      N]),
    (t_cudaError_t, ''cudaGetTextureObjectResourceViewDesc'', [T (Ptr t_cudaResourceViewDesc), N,
      T t_cudaTextureObject_t, N]),
    (t_cudaError_t, ''cudaGetTextureObjectTextureDesc'', [T (Ptr t_cudaTextureDesc), N, T t_cudaTextureObject_t,
      N]),
    (t_cudaError_t, ''cudaCreateSurfaceObject'', [T (Ptr t_cudaSurfaceObject_t), N,
      T (Ptr (Const t_cudaResourceDesc)), N]),
    (t_cudaError_t, ''cudaDestroySurfaceObject'', [T t_cudaSurfaceObject_t, N]),
    (t_cudaError_t, ''cudaGetSurfaceObjectResourceDesc'', [T (Ptr t_cudaResourceDesc), N, T t_cudaSurfaceObject_t,
      N])]"

definition runtime_wrappers_17 :: "invocation list" where
  "runtime_wrappers_17 = [
    (t_cudaError_t, ''cudaGraphAddChildGraphNode'', [T (Ptr t_cudaGraphNode_t), N, T t_cudaGraph_t, N,
      T (Ptr (Const t_cudaGraphNode_t)), N, T t_size_t, N, T t_cudaGraph_t, N]),
    (t_cudaError_t, ''cudaGraphAddDependencies'', [T t_cudaGraph_t, N, T (Ptr (Const t_cudaGraphNode_t)), N,
      T (Ptr (Const t_cudaGraphNode_t)), N, T t_size_t, N]),
    (t_cudaError_t, ''cudaGraphAddEmptyNode'', [T (Ptr t_cudaGraphNode_t), N, T t_cudaGraph_t, N,
      T (Ptr (Const t_cudaGraphNode_t)), N, T t_size_t, N]),
    (t_cudaError_t, ''cudaGraphAddHostNode'', [T (Ptr t_cudaGraphNode_t), N, T t_cudaGraph_t, N,
      T (Ptr (Const t_cudaGraphNode_t)), N, T t_size_t, N, T (Ptr (Const t_cudaHostNodeParams)), N]),
    (t_cudaError_t, ''cudaGraphAddKernelNode'', [T (Ptr t_cudaGraphNode_t), N, T t_cudaGraph_t, N,
      T (Ptr (Const t_cudaGraphNode_t)), N, T t_size_t, N, T (Ptr (Const t_cudaKernelNodeParams)), N]),
    (t_cudaError_t, ''cudaGraphAddMemcpyNode'', [T (Ptr t_cudaGraphNode_t), N, T t_cudaGraph_t, N,
      T (Ptr (Const t_cudaGraphNode_t)), N, T t_size_t, N, T (Ptr (Const t_cudaMemcpy3DParms)), N]),
    (t_cudaError_t, ''cudaGraphAddMemsetNode'', [T (Ptr t_cudaGraphNode_t), N, T t_cudaGraph_t, N,
      T (Ptr (Const t_cudaGraphNode_t)), N, T t_size_t, N, T (Ptr (Const t_cudaMemsetParams)), N]),
    (t_cudaError_t, ''cudaGraphChildGraphNodeGetGraph'', [T t_cudaGraphNode_t, N, T (Ptr t_cudaGraph_t), N]),
    (t_cudaError_t, ''cudaGraphClone'', [T (Ptr t_cudaGraph_t), N, T t_cudaGraph_t, N]),
    (t_cudaError_t, ''cudaGraphCreate'', [T (Ptr t_cudaGraph_t), N, T t_unsigned_int, N]),
    (t_cudaError_t, ''cudaGraphDestroy'', [T t_cudaGraph_t, N]),
    (t_cudaError_t, ''cudaGraphDestroyNode'', [T t_cudaGraphNode_t, N]),
    (t_cudaError_t, ''cudaGraphExecDestroy'', [T t_cudaGraphExec_t, N]),
    (t_cudaError_t, ''cudaGraphExecKernelNodeSetParams'', [T t_cudaGraphExec_t, N, T t_cudaGraphNode_t, N,
      T (Ptr (Const t_cudaKernelNodeParams)), N]),
    (t_cudaError_t, ''cudaGraphGetEdges'', [T t_cudaGraph_t, N, T (Ptr t_cudaGraphNode_t), N,
      T (Ptr t_cudaGraphNode_t), N, T (Ptr t_size_t), N]),
    (t_cudaError_t, ''cudaGraphGetNodes'', [T t_cudaGraph_t, N, T (Ptr t_cudaGraphNode_t), N, T (Ptr t_size_t), N]),
    (t_cudaError_t, ''cudaGraphGetRootNodes'', [T t_cudaGraph_t, N, T (Ptr t_cudaGraphNode_t), N, T (Ptr t_size_t),
      N]),
    (t_cudaError_t, ''cudaGraphHostNodeGetParams'', [T t_cudaGraphNode_t, N, T (Ptr t_cudaHostNodeParams), N]),
    (t_cudaError_t, ''cudaGraphHostNodeSetParams'', [T t_cudaGraphNode_t, N, T (Ptr (Const t_cudaHostNodeParams)),
      N]),
    (t_cudaError_t, ''cudaGraphInstantiate'', [T (Ptr t_cudaGraphExec_t), N, T t_cudaGraph_t, N,
      T (Ptr t_cudaGraphNode_t), N, T (Ptr t_char), N, T t_size_t, N]),
    (t_cudaError_t, ''cudaGraphKernelNodeGetParams'', [T t_cudaGraphNode_t, N, T (Ptr t_cudaKernelNodeParams), N]),
    (t_cudaError_t, ''cudaGraphKernelNodeSetParams'', [T t_cudaGraphNode_t, N,
      T (Ptr (Const t_cudaKernelNodeParams)), N]),
    (t_cudaError_t, ''cudaGraphLaunch'', [T t_cudaGraphExec_t, N, T t_cudaStream_t, N]),
    (t_cudaError_t, ''cudaGraphMemcpyNodeGetParams'', [T t_cudaGraphNode_t, N, T (Ptr t_cudaMemcpy3DParms), N]),
    (t_cudaError_t, ''cudaGraphMemcpyNodeSetParams'', [T t_cudaGraphNode_t, N, T (Ptr (Const t_cudaMemcpy3DParms)),
      N]),
    (t_cudaError_t, ''cudaGraphMemsetNodeGetParams'', [T t_cudaGraphNode_t, N, T (Ptr t_cudaMemsetParams), N]),
    (t_cudaError_t, ''cudaGraphMemsetNodeSetParams'', [T t_cudaGraphNode_t, N, T (Ptr (Const t_cudaMemsetParams)),
      N]),
    (t_cudaError_t, ''cudaGraphNodeFindInClone'', [T (Ptr t_cudaGraphNode_t), N, T t_cudaGraphNode_t, N,
      T t_cudaGraph_t, N]),
    (t_cudaError_t, ''cudaGraphNodeGetDependencies'', [T t_cudaGraphNode_t, N, T (Ptr t_cudaGraphNode_t), N,
      T (Ptr t_size_t), N]),
    (t_cudaError_t, ''cudaGraphNodeGetDependentNodes'', [T t_cudaGraphNode_t, N, T (Ptr t_cudaGraphNode_t), N,
      T (Ptr t_size_t), N]),
    (t_cudaError_t, ''cudaGraphNodeGetType'', [T t_cudaGraphNode_t, N, T (Ptr t_cudaGraphNodeType), N]),
    (t_cudaError_t, ''cudaGraphRemoveDependencies'', [T t_cudaGraph_t, N, T (Ptr (Const t_cudaGraphNode_t)), N,
      T (Ptr (Const t_cudaGraphNode_t)), N, T t_size_t, N]),
    (t_cudaError_t, ''cudaProfilerStart'', [T t_void]),
    (t_cudaError_t, ''cudaProfilerStop'', [T t_void])]"

definition runtime_wrappers :: "invocation list" where
  "runtime_wrappers = concat [runtime_wrappers_1, runtime_wrappers_2, runtime_wrappers_3, runtime_wrappers_4, runtime_wrappers_5, runtime_wrappers_6, runtime_wrappers_7, runtime_wrappers_8, runtime_wrappers_9, runtime_wrappers_10, runtime_wrappers_11, runtime_wrappers_12, runtime_wrappers_13, runtime_wrappers_14, runtime_wrappers_15, runtime_wrappers_16, runtime_wrappers_17]"

end
