(* ===== verification/WrapperProps.thy ===== *)
theory WrapperProps
  imports WrapperTables ClientRuns
begin

text \<open>
  Properties of the functions that are not forwarded: which invocations of the macro define nothing,
  and what a call does to the server.
\<close>

section \<open>Invocations that define nothing\<close>

definition undefined_names :: "invocation list \<Rightarrow> string list" where
  "undefined_names is = map (\<lambda>(_, name, _). name) (filter (\<lambda>i. DEF_FN i = None) is)"

fun in_pairs :: "macro_arg list \<Rightarrow> bool" where
  "in_pairs [] = True"
| "in_pairs [a] = False"
| "in_pairs (a # b # as) = in_pairs as"

lemma in_pairs_even: "in_pairs as = even (length as)"
  by (induction as rule: in_pairs.induct) auto

lemma undefined_names_calc:
  "undefined_names [] = []"
  "undefined_names ((r, n, as) # is) = (if in_pairs as then undefined_names is else n # undefined_names is)"
  by (simp_all add: undefined_names_def DEF_FN_def in_pairs_even)

lemma undefined_names_append: "undefined_names (xs @ ys) = undefined_names xs @ undefined_names ys"
  by (simp add: undefined_names_def)

lemma undefined_names_concat: "undefined_names (concat xss) = concat (map undefined_names xss)"
  by (induction xss) (simp_all add: undefined_names_append undefined_names_calc)

lemmas undefined_calc = undefined_names_calc in_pairs.simps if_True if_False

lemma cublas_undefined:
  "undefined_names cublas_wrappers_1 = []"
  "undefined_names cublas_wrappers_2 = []"
  "undefined_names cublas_wrappers_3 = [
     ''cublasSetVectorAsync'', ''cublasSetVectorAsync_64'', ''cublasGetVectorAsync'',
     ''cublasGetVectorAsync_64'']"
  "undefined_names cublas_wrappers_4 = [
     ''cublasSdot_v2_64'', ''cublasDdot_v2_64'', ''cublasCdotu_v2'', ''cublasCdotc_v2'', ''cublasSaxpy_v2_64'',
     ''cublasDaxpy_v2_64'', ''cublasCaxpy_v2'', ''cublasCopyEx'', ''cublasZcopy_v2_64'', ''cublasSwapEx'',
     ''cublasSrot_v2_64'', ''cublasCrot_v2'', ''cublasCsrot_v2'', ''cublasDrotm_v2_64'']"
  "undefined_names cublas_wrappers_5 = []"
  "undefined_names cublas_wrappers_6 = [
     ''cublasSspr_v2'', ''cublasDspr_v2'']"
  "undefined_names cublas_wrappers_7 = []"
  "undefined_names cublas_wrappers_8 = []"
  "undefined_names cublas_wrappers_9 = []"
  "undefined_names cublas_wrappers_10 = [
     ''cublasZtpttr'', ''cublasZtrttp'', ''cublasZgetrfBatched'']"
  "undefined_names cublas_wrappers_11 = []"
  by (simp_all only: cublas_wrappers_1_def cublas_wrappers_2_def cublas_wrappers_3_def cublas_wrappers_4_def cublas_wrappers_5_def cublas_wrappers_6_def cublas_wrappers_7_def cublas_wrappers_8_def cublas_wrappers_9_def cublas_wrappers_10_def cublas_wrappers_11_def undefined_calc cong: if_weak_cong)

lemma cusolver_undefined:
  "undefined_names cusolver_wrappers_1 = []"
  "undefined_names cusolver_wrappers_2 = []"
  "undefined_names cusolver_wrappers_3 = [
     ''cusolverDnIRSXgesv'']"
  "undefined_names cusolver_wrappers_4 = [
     ''cusolverDnSpotrfBatched'', ''cusolverDnDpotrfBatched'', ''cusolverDnCpotrfBatched'',
     ''cusolverDnDpotrsBatched'']"
  "undefined_names cusolver_wrappers_5 = [
     ''cusolverDnCpotrsBatched'']"
  "undefined_names cusolver_wrappers_6 = []"
  "undefined_names cusolver_wrappers_7 = []"
  "undefined_names cusolver_wrappers_8 = []"
  "undefined_names cusolver_wrappers_9 = []"
  "undefined_names cusolver_wrappers_10 = []"
  "undefined_names cusolver_wrappers_11 = []"
  "undefined_names cusolver_wrappers_12 = []"
  "undefined_names cusolver_wrappers_13 = []"
  "undefined_names cusolver_wrappers_14 = []"
  "undefined_names cusolver_wrappers_15 = []"
  "undefined_names cusolver_wrappers_16 = []"
  "undefined_names cusolver_wrappers_17 = []"
  "undefined_names cusolver_wrappers_18 = []"
  "undefined_names cusolver_wrappers_19 = []"
  "undefined_names cusolver_wrappers_20 = [
     ''cusolverDnSsyevjBatched_bufferSize'', ''cusolverDnDsyevjBatched_bufferSize'',
     ''cusolverDnCheevjBatched_bufferSize'']"
  "undefined_names cusolver_wrappers_21 = [
     ''cusolverDnZheevjBatched_bufferSize'', ''cusolverDnSsyevjBatched'', ''cusolverDnDsyevjBatched'',
     ''cusolverDnCheevjBatched'', ''cusolverDnZheevjBatched'']"
  "undefined_names cusolver_wrappers_22 = []"
  "undefined_names cusolver_wrappers_23 = []"
  "undefined_names cusolver_wrappers_24 = []"
  "undefined_names cusolver_wrappers_25 = [
     ''cusolverDnSgesvdaStridedBatched_bufferSize'', ''cusolverDnDgesvdaStridedBatched_bufferSize'',
     ''cusolverDnCgesvdaStridedBatched_bufferSize'', ''cusolverDnZgesvdaStridedBatched_bufferSize'']"
  "undefined_names cusolver_wrappers_26 = []"
  by (simp_all only: cusolver_wrappers_1_def cusolver_wrappers_2_def cusolver_wrappers_3_def cusolver_wrappers_4_def cusolver_wrappers_5_def cusolver_wrappers_6_def cusolver_wrappers_7_def cusolver_wrappers_8_def cusolver_wrappers_9_def cusolver_wrappers_10_def cusolver_wrappers_11_def cusolver_wrappers_12_def cusolver_wrappers_13_def cusolver_wrappers_14_def cusolver_wrappers_15_def cusolver_wrappers_16_def cusolver_wrappers_17_def cusolver_wrappers_18_def cusolver_wrappers_19_def cusolver_wrappers_20_def cusolver_wrappers_21_def cusolver_wrappers_22_def cusolver_wrappers_23_def cusolver_wrappers_24_def cusolver_wrappers_25_def cusolver_wrappers_26_def undefined_calc cong: if_weak_cong)

lemma cudnn_undefined:
  "undefined_names cudnn_wrappers_1 = []"
  "undefined_names cudnn_wrappers_2 = []"
  "undefined_names cudnn_wrappers_3 = []"
  "undefined_names cudnn_wrappers_4 = [
     ''cudnnNormalizationForwardInference'', ''cudnnGetAlgorithmPerformance'']"
  "undefined_names cudnn_wrappers_5 = []"
  "undefined_names cudnn_wrappers_6 = []"
  "undefined_names cudnn_wrappers_7 = []"
  "undefined_names cudnn_wrappers_8 = []"
  "undefined_names cudnn_wrappers_9 = []"
  by (simp_all only: cudnn_wrappers_1_def cudnn_wrappers_2_def cudnn_wrappers_3_def cudnn_wrappers_4_def cudnn_wrappers_5_def cudnn_wrappers_6_def cudnn_wrappers_7_def cudnn_wrappers_8_def cudnn_wrappers_9_def undefined_calc cong: if_weak_cong)

lemma nvml_undefined:
  "undefined_names nvml_wrappers_1 = []"
  "undefined_names nvml_wrappers_2 = []"
  by (simp_all only: nvml_wrappers_1_def nvml_wrappers_2_def undefined_calc cong: if_weak_cong)

lemma driver_undefined:
  "undefined_names driver_wrappers_1 = []"
  "undefined_names driver_wrappers_2 = []"
  "undefined_names driver_wrappers_3 = [
     ''cuEGLStreamConsumerConnectWithFlags'']"
  "undefined_names driver_wrappers_4 = []"
  "undefined_names driver_wrappers_5 = []"
  "undefined_names driver_wrappers_6 = []"
  "undefined_names driver_wrappers_7 = []"
  "undefined_names driver_wrappers_8 = []"
  "undefined_names driver_wrappers_9 = []"
  "undefined_names driver_wrappers_10 = [
     ''cuCtxSynchronize'']"
  "undefined_names driver_wrappers_11 = []"
  "undefined_names driver_wrappers_12 = []"
  "undefined_names driver_wrappers_13 = []"
  "undefined_names driver_wrappers_14 = []"
  "undefined_names driver_wrappers_15 = [
     ''cuStreamGetCaptureInfo'']"
  by (simp_all only: driver_wrappers_1_def driver_wrappers_2_def driver_wrappers_3_def driver_wrappers_4_def driver_wrappers_5_def driver_wrappers_6_def driver_wrappers_7_def driver_wrappers_8_def driver_wrappers_9_def driver_wrappers_10_def driver_wrappers_11_def driver_wrappers_12_def driver_wrappers_13_def driver_wrappers_14_def driver_wrappers_15_def undefined_calc cong: if_weak_cong)

lemma runtime_undefined:
  "undefined_names runtime_wrappers_1 = []"
  "undefined_names runtime_wrappers_2 = []"
  "undefined_names runtime_wrappers_3 = [
     ''cudaStreamGetCaptureInfo'']"
  "undefined_names runtime_wrappers_4 = []"
  "undefined_names runtime_wrappers_5 = []"
  "undefined_names runtime_wrappers_6 = []"
  "undefined_names runtime_wrappers_7 = []"
  "undefined_names runtime_wrappers_8 = []"
  "undefined_names runtime_wrappers_9 = []"
  "undefined_names runtime_wrappers_10 = []"
  "undefined_names runtime_wrappers_11 = []"
  "undefined_names runtime_wrappers_12 = []"
  "undefined_names runtime_wrappers_13 = []"
  "undefined_names runtime_wrappers_14 = []"
  "undefined_names runtime_wrappers_15 = []"
  "undefined_names runtime_wrappers_16 = []"
  "undefined_names runtime_wrappers_17 = [
     ''cudaProfilerStart'', ''cudaProfilerStop'']"
  by (simp_all only: runtime_wrappers_1_def runtime_wrappers_2_def runtime_wrappers_3_def runtime_wrappers_4_def runtime_wrappers_5_def runtime_wrappers_6_def runtime_wrappers_7_def runtime_wrappers_8_def runtime_wrappers_9_def runtime_wrappers_10_def runtime_wrappers_11_def runtime_wrappers_12_def runtime_wrappers_13_def runtime_wrappers_14_def runtime_wrappers_15_def runtime_wrappers_16_def runtime_wrappers_17_def undefined_calc cong: if_weak_cong)

text \<open>The functions the library leaves out: these invocations of \<open>DEF_FN\<close> have a comma too many or
  too few, expand to nothing and are not noticed by the compiler. A call of one of these functions goes
  past the client library, with handles that mean nothing there. All others define a function.
\<close>

lemma left_out_functions:
  "undefined_names cublas_wrappers = [
      ''cublasSetVectorAsync'', ''cublasSetVectorAsync_64'', ''cublasGetVectorAsync'',
      ''cublasGetVectorAsync_64'', ''cublasSdot_v2_64'', ''cublasDdot_v2_64'', ''cublasCdotu_v2'',
      ''cublasCdotc_v2'', ''cublasSaxpy_v2_64'', ''cublasDaxpy_v2_64'', ''cublasCaxpy_v2'', ''cublasCopyEx'',
      ''cublasZcopy_v2_64'', ''cublasSwapEx'', ''cublasSrot_v2_64'', ''cublasCrot_v2'', ''cublasCsrot_v2'',
      ''cublasDrotm_v2_64'', ''cublasSspr_v2'', ''cublasDspr_v2'', ''cublasZtpttr'', ''cublasZtrttp'',
      ''cublasZgetrfBatched'']
    \<and> undefined_names cusolver_wrappers = [
      ''cusolverDnIRSXgesv'', ''cusolverDnSpotrfBatched'', ''cusolverDnDpotrfBatched'',
      ''cusolverDnCpotrfBatched'', ''cusolverDnDpotrsBatched'', ''cusolverDnCpotrsBatched'',
      ''cusolverDnSsyevjBatched_bufferSize'', ''cusolverDnDsyevjBatched_bufferSize'',
      ''cusolverDnCheevjBatched_bufferSize'', ''cusolverDnZheevjBatched_bufferSize'',
      ''cusolverDnSsyevjBatched'', ''cusolverDnDsyevjBatched'', ''cusolverDnCheevjBatched'',
      ''cusolverDnZheevjBatched'', ''cusolverDnSgesvdaStridedBatched_bufferSize'',
      ''cusolverDnDgesvdaStridedBatched_bufferSize'', ''cusolverDnCgesvdaStridedBatched_bufferSize'',
      ''cusolverDnZgesvdaStridedBatched_bufferSize'']
    \<and> undefined_names cudnn_wrappers = [
      ''cudnnNormalizationForwardInference'', ''cudnnGetAlgorithmPerformance'']
    \<and> undefined_names nvml_wrappers = []
    \<and> undefined_names driver_wrappers = [
      ''cuEGLStreamConsumerConnectWithFlags'', ''cuCtxSynchronize'', ''cuStreamGetCaptureInfo'']
    \<and> undefined_names runtime_wrappers = [
      ''cudaStreamGetCaptureInfo'', ''cudaProfilerStart'', ''cudaProfilerStop'']"
  by (simp only: cublas_wrappers_def cusolver_wrappers_def cudnn_wrappers_def nvml_wrappers_def driver_wrappers_def
      runtime_wrappers_def undefined_names_append undefined_names_calc(1) cublas_undefined cusolver_undefined cudnn_undefined
      nvml_undefined driver_undefined runtime_undefined concat.simps append.simps append_Nil2 simp_thms)

section \<open>Calls\<close>

text \<open>A function that sends no request: the client and the server are the same but for the device.\<close>

definition keeps_local :: "('d, 'a) process_fn \<Rightarrow> bool" where
  "keeps_local m \<longleftrightarrow> (\<forall>p x p'. m p = Inr (x, p') \<longrightarrow>
     (\<exists>d. app p' = (app p)\<lparr>remote := (remote (app p))\<lparr>gpu := d\<rparr>\<rparr>))"

lemma keeps_localI:
  "(\<And>p x p'. m p = Inr (x, p') \<Longrightarrow> \<exists>d. app p' = (app p)\<lparr>remote := (remote (app p))\<lparr>gpu := d\<rparr>\<rparr>) \<Longrightarrow> keeps_local m"
  by (simp add: keeps_local_def)

lemma keeps_local_bind:
  assumes "keeps_local m" and "\<And>x. keeps_local (f x)"
  shows "keeps_local (bind_p m f)"
proof (rule keeps_localI)
  fix p y p'
  assume "bind_p m f p = Inr (y, p')"
  then obtain x p1 where "m p = Inr (x, p1)" "f x p1 = Inr (y, p')" by (auto simp: bind_p_def bind_r_Inr_iff)
  then obtain d e where "app p1 = (app p)\<lparr>remote := (remote (app p))\<lparr>gpu := d\<rparr>\<rparr>"
    "app p' = (app p1)\<lparr>remote := (remote (app p1))\<lparr>gpu := e\<rparr>\<rparr>"
    using assms unfolding keeps_local_def by metis
  then show "\<exists>d. app p' = (app p)\<lparr>remote := (remote (app p))\<lparr>gpu := d\<rparr>\<rparr>" by auto
qed

lemma keeps_local_same: "(\<And>p x p'. m p = Inr (x, p') \<Longrightarrow> app p' = app p) \<Longrightarrow> keeps_local m"
proof (rule keeps_localI)
  fix p x p'
  assume same: "\<And>p x p'. m p = Inr (x, p') \<Longrightarrow> app p' = app p" and "m p = Inr (x, p')"
  then have "app p' = (app p)\<lparr>remote := (remote (app p))\<lparr>gpu := gpu (remote (app p))\<rparr>\<rparr>" by simp
  then show "\<exists>d. app p' = (app p)\<lparr>remote := (remote (app p))\<lparr>gpu := d\<rparr>\<rparr>" by blast
qed

lemma keeps_local_os: "keeps_local (on_app (os_call E name args))"
proof (rule keeps_localI)
  fix p x p'
  assume "on_app (os_call E name args) p = Inr (x, p')"
  then show "\<exists>d. app p' = (app p)\<lparr>remote := (remote (app p))\<lparr>gpu := d\<rparr>\<rparr>"
    by (auto simp: on_app_def os_call_def cuda_call_def bind_r_Inr_iff split: prod.split_asm)
qed

lemma keeps_local_basic:
  "keeps_local (ret_p x)" "keeps_local (fail_p e)" "(\<And>p. app (g p) = app p) \<Longrightarrow> keeps_local (set_p g)"
  by (auto intro!: keeps_local_same simp: ret_p_def fail_p_def set_p_def)

lemma keeps_local_cases:
  "(\<And>p. b p \<Longrightarrow> keeps_local m) \<Longrightarrow> (\<And>p. \<not> b p \<Longrightarrow> keeps_local n) \<Longrightarrow> keeps_local (\<lambda>p. if b p then m p else n p)"
  unfolding keeps_local_def by (metis (mono_tags))

lemma keeps_local_fault: "keeps_local (\<lambda>p. Inl e)"
  by (simp add: keeps_local_def)

lemma keeps_local_address: "keeps_local (address_call E name args)"
  unfolding address_call_def by (intro keeps_local_bind) (auto simp: keeps_local_basic keeps_local_os split: prod.split)

lemma keeps_local_dlopen: "keeps_local (dlopen E (Some name) flag)"
  unfolding dlopen_def call_dlopen_def option.case
  by (auto intro!: keeps_local_bind keeps_local_cases keeps_local_fault keeps_local_address keeps_local_basic)

lemma on_proc_local:
  assumes "keeps_local m" and "on_proc m l = Inr (x, l')"
  shows "\<exists>d. app (proc l') = (app (proc l))\<lparr>remote := (remote (app (proc l)))\<lparr>gpu := d\<rparr>\<rparr>"
  using assms by (auto simp: on_proc_def bind_r_Inr_iff keeps_local_def)

lemma sohandle_local:
  assumes "libwrap_get_sohandle E l = Inr (h, l')"
  shows "\<exists>d. app (proc l') = (app (proc l))\<lparr>remote := (remote (app (proc l)))\<lparr>gpu := d\<rparr>\<rparr>"
proof (cases "so_handle l = 0")
  case True
  then obtain l1 where "on_proc (dlopen E (Some LIBCUDA_PATH) RTLD_LAZY) l = Inr (h, l1)" "proc l' = proc l1"
    using assms by (auto simp: libwrap_get_sohandle_def bind_r_Inr_iff)
  then show ?thesis using on_proc_local [OF keeps_local_dlopen] by metis
next
  case False
  then show ?thesis using assms by (auto simp: libwrap_get_sohandle_def intro: exI [where x = "gpu (remote (app (proc l)))"])
qed

text \<open>The client whose library cannot be opened, with the environment in which it finds itself.\<close>

definition closed_env :: "unit env" where
  "closed_env = roomy_env\<lparr>cuda := (\<lambda>name args d. if name = ''dlsym'' then (0, [Word64 4096], d) else (0, [Word64 0], d))\<rparr>"

definition closed_library :: "unit library" where
  "closed_library = \<lparr>proc = \<lparr>app = client_on sample_server, clnt = 1, server_name = [], initialized = True,
     dlopen_orig = 8192, dlclose_orig = 0, dl_handle = 0\<rparr>, so_handle = 0\<rparr>"

text \<open>A function that is not forwarded never reaches the server: whatever it is called with, no request
  is sent, the log and the translation tables of the server are unchanged, and so is all the client
  remembers. Its handles are those of the server, passed on to a library that does not know them.
\<close>

lemma wrappers_stay_local:
  assumes "wrapper_call fuel E own w args l = Inr (r, l')"
  shows "\<exists>d. app (proc l') = (app (proc l))\<lparr>remote := (remote (app (proc l)))\<lparr>gpu := d\<rparr>\<rparr>"
  using assms
proof (induction fuel arbitrary: l)
  case (Suc fuel)
  from Suc.prems obtain h l1 err outs l2 where
    open_lib: "libwrap_get_sohandle E l = Inr (h, l1)"
    and find: "on_proc (on_app (os_call E ''dlsym'' [Word64 h, Text (w_name w)])) l1 = Inr ((err, outs), l2)"
    and rest: "(if err \<noteq> 0 then Inr ((unset32 E, []), l2) else if out64 E outs 0 = 0 then Inl Null_Deref
       else if out64 E outs 0 = own (w_name w) then wrapper_call fuel E own w args l2
       else on_proc (on_app (os_call E (w_name w) args)) l2) = Inr (r, l')"
    by (auto simp: bind_r_Inr_iff)
  note os = on_proc_local [OF keeps_local_os, of E "w_name w" args l2 r l']
  have "\<exists>d. app (proc l') = (app (proc l2))\<lparr>remote := (remote (app (proc l2)))\<lparr>gpu := d\<rparr>\<rparr>"
    using rest Suc.IH os
    by (auto split: if_split_asm intro: exI [where x = "gpu (remote (app (proc l2)))"])
  then show ?case
    using sohandle_local [OF open_lib] on_proc_local [OF keeps_local_os find] by auto
qed simp

lemma failed_open:
  assumes "so_handle l = 0" and "dlopen_orig (proc l) \<noteq> 0"
    and no_library: "\<And>d. out64 E (fst (snd (cuda E ''dlopen'' [Text LIBCUDA_PATH, Int32 RTLD_LAZY] d))) 0 = 0"
  obtains l' where "libwrap_get_sohandle E l = Inr (0, l')" "so_handle l' = 0" "dlopen_orig (proc l') = dlopen_orig (proc l)"
proof -
  have name: "LIBCUDA_PATH \<notin> set replace_libs" by (simp add: LIBCUDA_PATH_def replace_libs_def)
  obtain e outs d where "cuda E ''dlopen'' [Text LIBCUDA_PATH, Int32 RTLD_LAZY] (gpu (remote (app (proc l)))) = (e, outs, d)"
    by (cases "cuda E ''dlopen'' [Text LIBCUDA_PATH, Int32 RTLD_LAZY] (gpu (remote (app (proc l))))")
  then have "libwrap_get_sohandle E l = Inr (0, l\<lparr>proc := (proc l)\<lparr>app := (app (proc l))\<lparr>remote :=
      (remote (app (proc l)))\<lparr>gpu := d\<rparr>\<rparr>\<rparr>, so_handle := 0\<rparr>)"
    using assms(1,2) name no_library [of "gpu (remote (app (proc l)))"]
    by (simp add: libwrap_get_sohandle_def on_proc_def dlopen_def bind_p_def ret_p_def call_dlopen_def address_call_def
        on_app_def os_call_def cuda_call_def)
  then show thesis by (rule that) simp_all
qed

text \<open>Without the library that is searched, a function that is not forwarded may call itself for ever:
  the handle of the failed \<open>dlopen\<close> means a search of everything that is loaded, which finds the
  function itself first.
\<close>

lemma missing_library_recursion:
  assumes "so_handle l = 0" and "dlopen_orig (proc l) \<noteq> 0"
    and no_library: "\<And>d. out64 E (fst (snd (cuda E ''dlopen'' [Text LIBCUDA_PATH, Int32 RTLD_LAZY] d))) 0 = 0"
    and finds_itself: "\<And>d. \<exists>outs d'. cuda E ''dlsym'' [Word64 0, Text (w_name w)] d = (0, outs, d') \<and>
      out64 E outs 0 = own (w_name w)"
    and "own (w_name w) \<noteq> 0"
  shows "wrapper_call fuel E own w args l = Inl No_Fuel"
  using assms(1,2)
proof (induction fuel arbitrary: l)
  case (Suc fuel)
  obtain l1 where l1: "libwrap_get_sohandle E l = Inr (0, l1)" "so_handle l1 = 0" "dlopen_orig (proc l1) = dlopen_orig (proc l)"
    using failed_open [OF Suc.prems no_library] by blast
  obtain outs d' where "cuda E ''dlsym'' [Word64 0, Text (w_name w)] (gpu (remote (app (proc l1)))) = (0, outs, d')"
    and self: "out64 E outs 0 = own (w_name w)" using finds_itself by blast
  then have "on_proc (on_app (os_call E ''dlsym'' [Word64 0, Text (w_name w)])) l1 =
      Inr ((0, outs), l1\<lparr>proc := (proc l1)\<lparr>app := (app (proc l1))\<lparr>remote := (remote (app (proc l1)))\<lparr>gpu := d'\<rparr>\<rparr>\<rparr>\<rparr>)"
    by (simp add: on_proc_def on_app_def os_call_def cuda_call_def)
  then show ?case using Suc l1 self assms(5) by simp
qed simp

end
