(* ===== verification/ClientBlas.thy ===== *)
theory ClientBlas
  imports ClientLib
begin

text \<open>
  The functions of the client library for cuBLAS (\<open>cpu/cpu-client-cublas.c\<close>), cuBLASLt
  (\<open>cpu/cpu-client-cublaslt.c\<close>), cuSOLVER (\<open>cpu/cpu-client-cusolver.c\<close>) and NVML
  (\<open>cpu/cpu-client-nvml.c\<close>) that have code of their own.
\<close>

section \<open>cuBLAS\<close>

definition cublasCreate_v2 :: "'d env \<Rightarrow> int \<Rightarrow> ('d, u32 \<times> cval list) client_fn" where
  "cublasCreate_v2 E fd =
     word64_rpc E (rpc_cublascreate_1_svc E 3001 fd)"

definition cublasDestroy_v2 :: "'d env \<Rightarrow> int \<Rightarrow> u64 \<Rightarrow> ('d, u32) client_fn" where
  "cublasDestroy_v2 E fd hnd =
     int_rpc E (rpc_cublasdestroy_1_svc E 3003 fd hnd)"

definition cublasSetWorkspace_v2 :: "'d env \<Rightarrow> int \<Rightarrow> u64 \<Rightarrow> u64 \<Rightarrow> u64 \<Rightarrow> ('d, u32) client_fn" where
  "cublasSetWorkspace_v2 E fd hnd workspace workspaceSizeInBytes =
     int_rpc E (rpc_cublassetworkspace_1_svc E 3009 fd hnd workspace workspaceSizeInBytes)"

definition cublasSetStream_v2 :: "'d env \<Rightarrow> int \<Rightarrow> u64 \<Rightarrow> u64 \<Rightarrow> ('d, u32) client_fn" where
  "cublasSetStream_v2 E fd hnd streamId =
     int_rpc E (rpc_cublassetstream_1_svc E 3008 fd hnd streamId)"

definition cublasGetMathMode :: "'d env \<Rightarrow> int \<Rightarrow> u64 \<Rightarrow> ('d, u32 \<times> cval list) client_fn" where
  "cublasGetMathMode E fd hnd =
     word_rpc E (rpc_cublasgetmathmode_1_svc E fd hnd)"

definition cublasSetMathMode :: "'d env \<Rightarrow> int \<Rightarrow> u64 \<Rightarrow> u32 \<Rightarrow> ('d, u32) client_fn" where
  "cublasSetMathMode E fd hnd mode =
     int_rpc E (rpc_cublassetmathmode_1_svc E 3010 fd hnd mode)"

definition cublasSgemv_v2 :: "'d env \<Rightarrow> int \<Rightarrow> u64 \<Rightarrow> u32 \<Rightarrow> u32 \<Rightarrow> u32 \<Rightarrow> u8 list \<Rightarrow> u64 \<Rightarrow> u32 \<Rightarrow> u64 \<Rightarrow> u32 \<Rightarrow> u8
  list \<Rightarrow> u64 \<Rightarrow> u32 \<Rightarrow> ('d, u32) client_fn" where
  "cublasSgemv_v2 E fd hnd tr m n alpha A lda x incx beta y incy =
     bind_c (lift_c (load32 alpha)) (\<lambda>m1.
     bind_c (lift_c (load32 beta)) (\<lambda>m2.
     int_rpc E (rpc_cublassgemv_1_svc E 3005 fd hnd tr m n m1 A lda x incx m2 y incy)))"

definition cublasDgemv_v2 :: "'d env \<Rightarrow> int \<Rightarrow> u64 \<Rightarrow> u32 \<Rightarrow> u32 \<Rightarrow> u32 \<Rightarrow> u8 list \<Rightarrow> u64 \<Rightarrow> u32 \<Rightarrow> u64 \<Rightarrow> u32 \<Rightarrow> u8
  list \<Rightarrow> u64 \<Rightarrow> u32 \<Rightarrow> ('d, u32) client_fn" where
  "cublasDgemv_v2 E fd hnd tr m n alpha A lda x incx beta y incy =
     bind_c (lift_c (load64 alpha)) (\<lambda>m1.
     bind_c (lift_c (load64 beta)) (\<lambda>m2.
     int_rpc E (rpc_cublasdgemv_1_svc E 3006 fd hnd tr m n m1 A lda x incx m2 y incy)))"

definition cublasSgemm_v2 :: "'d env \<Rightarrow> int \<Rightarrow> u64 \<Rightarrow> u32 \<Rightarrow> u32 \<Rightarrow> u32 \<Rightarrow> u32 \<Rightarrow> u32 \<Rightarrow> u8 list \<Rightarrow> u64 \<Rightarrow> u32 \<Rightarrow> u64
  \<Rightarrow> u32 \<Rightarrow> u8 list \<Rightarrow> u64 \<Rightarrow> u32 \<Rightarrow> ('d, u32) client_fn" where
  "cublasSgemm_v2 E fd hnd transa transb m n k alpha A lda B ldb beta C ldc =
     bind_c (lift_c (load32 alpha)) (\<lambda>m1.
     bind_c (lift_c (load32 beta)) (\<lambda>m2.
     int_rpc E (rpc_cublassgemm_1_svc E 3004 fd hnd transa transb m n k m1 A lda B ldb m2 C ldc)))"

definition cublasDgemm_v2 :: "'d env \<Rightarrow> int \<Rightarrow> u64 \<Rightarrow> u32 \<Rightarrow> u32 \<Rightarrow> u32 \<Rightarrow> u32 \<Rightarrow> u32 \<Rightarrow> u8 list \<Rightarrow> u64 \<Rightarrow> u32 \<Rightarrow> u64
  \<Rightarrow> u32 \<Rightarrow> u8 list \<Rightarrow> u64 \<Rightarrow> u32 \<Rightarrow> ('d, u32) client_fn" where
  "cublasDgemm_v2 E fd hnd transa transb m n k alpha A lda B ldb beta C ldc =
     bind_c (lift_c (load64 alpha)) (\<lambda>m1.
     bind_c (lift_c (load64 beta)) (\<lambda>m2.
     int_rpc E (rpc_cublasdgemm_1_svc E 3002 fd hnd transa transb m n k m1 A lda B ldb m2 C ldc)))"

definition cublasSgemmEx :: "'d env \<Rightarrow> int \<Rightarrow> u64 \<Rightarrow> u32 \<Rightarrow> u32 \<Rightarrow> u32 \<Rightarrow> u32 \<Rightarrow> u32 \<Rightarrow> u8 list \<Rightarrow> u64 \<Rightarrow> u32 \<Rightarrow> u32
  \<Rightarrow> u64 \<Rightarrow> u32 \<Rightarrow> u32 \<Rightarrow> u8 list \<Rightarrow> u64 \<Rightarrow> u32 \<Rightarrow> u32 \<Rightarrow> ('d, u32) client_fn" where
  "cublasSgemmEx E fd hnd transa transb m n k alpha A Atype lda B Btype ldb beta C Ctype ldc =
     bind_c (lift_c (load32 alpha)) (\<lambda>m1.
     bind_c (lift_c (load32 beta)) (\<lambda>m2.
     int_rpc E (rpc_cublassgemmex_1_svc E 3007 fd hnd transa transb m n k m1 A Atype lda B Btype ldb m2 C
        Ctype ldc)))"

text \<open>The scaling factors are read as \<open>float\<close>, whatever the type of the computation.\<close>

definition cublasGemmStridedBatchedEx :: "'d env \<Rightarrow> int \<Rightarrow> u64 \<Rightarrow> u32 \<Rightarrow> u32 \<Rightarrow> u32 \<Rightarrow> u32 \<Rightarrow> u32 \<Rightarrow> u8 list \<Rightarrow> u64
  \<Rightarrow> u32 \<Rightarrow> u32 \<Rightarrow> u64 \<Rightarrow> u64 \<Rightarrow> u32 \<Rightarrow> u32 \<Rightarrow> u64 \<Rightarrow> u8 list \<Rightarrow> u64 \<Rightarrow> u32 \<Rightarrow> u32 \<Rightarrow> u64 \<Rightarrow> u32 \<Rightarrow> u32 \<Rightarrow> u32 \<Rightarrow> ('d,
  u32) client_fn" where
  "cublasGemmStridedBatchedEx E fd hnd transa transb m n k alpha A Atype lda strideA B Btype ldb strideB
      beta C Ctype ldc strideC batchCount computeType algo =
     bind_c (lift_c (load32 alpha)) (\<lambda>m1.
     bind_c (lift_c (load32 beta)) (\<lambda>m2.
     int_rpc E (rpc_cublasgemmstridedbatchedex_1_svc E fd hnd transa transb m n k m1 A Atype lda strideA B
        Btype ldb strideB m2 C Ctype ldc strideC batchCount computeType algo)))"

definition cublasGemmEx :: "'d env \<Rightarrow> int \<Rightarrow> u64 \<Rightarrow> u32 \<Rightarrow> u32 \<Rightarrow> u32 \<Rightarrow> u32 \<Rightarrow> u32 \<Rightarrow> u8 list \<Rightarrow> u64 \<Rightarrow> u32 \<Rightarrow> u32 \<Rightarrow>
  u64 \<Rightarrow> u32 \<Rightarrow> u32 \<Rightarrow> u8 list \<Rightarrow> u64 \<Rightarrow> u32 \<Rightarrow> u32 \<Rightarrow> u32 \<Rightarrow> u32 \<Rightarrow> ('d, u32) client_fn" where
  "cublasGemmEx E fd hnd transa transb m n k alpha A Atype lda B Btype ldb beta C Ctype ldc computeType
      algo =
     bind_c (lift_c (load32 alpha)) (\<lambda>m1.
     bind_c (lift_c (load32 beta)) (\<lambda>m2.
     int_rpc E (rpc_cublasgemmex_1_svc E fd hnd transa transb m n k m1 A Atype lda B Btype ldb m2 C Ctype
        ldc computeType algo)))"

definition cublasSgemmStridedBatched :: "'d env \<Rightarrow> int \<Rightarrow> u64 \<Rightarrow> u32 \<Rightarrow> u32 \<Rightarrow> u32 \<Rightarrow> u32 \<Rightarrow> u32 \<Rightarrow> u8 list \<Rightarrow> u64
  \<Rightarrow> u32 \<Rightarrow> u64 \<Rightarrow> u64 \<Rightarrow> u32 \<Rightarrow> u64 \<Rightarrow> u8 list \<Rightarrow> u64 \<Rightarrow> u32 \<Rightarrow> u64 \<Rightarrow> u32 \<Rightarrow> ('d, u32) client_fn" where
  "cublasSgemmStridedBatched E fd hnd transa transb m n k alpha A lda strideA B ldb strideB beta C ldc
      strideC batchCount =
     bind_c (lift_c (load32 alpha)) (\<lambda>m1.
     bind_c (lift_c (load32 beta)) (\<lambda>m2.
     int_rpc E (rpc_cublasgemmstridedbatched_1_svc E fd hnd transa transb m n k m1 A lda strideA B ldb
        strideB m2 C ldc strideC batchCount)))"


section \<open>cuBLASLt\<close>

definition cublasLtCreate :: "'d env \<Rightarrow> int \<Rightarrow> ('d, u32 \<times> cval list) client_fn" where
  "cublasLtCreate E fd =
     word64_rpc E (rpc_cublasltcreate_1_svc E fd)"

definition cublasLtMatrixLayoutCreate :: "'d env \<Rightarrow> int \<Rightarrow> u32 \<Rightarrow> u64 \<Rightarrow> u64 \<Rightarrow> u64 \<Rightarrow> ('d, u32 \<times> cval list)
  client_fn" where
  "cublasLtMatrixLayoutCreate E fd ty rows cols ld =
     word64_rpc E (rpc_cublasltmatrixlayoutcreate_1_svc E fd ty rows cols ld)"

definition cublasLtMatmulPreferenceCreate :: "'d env \<Rightarrow> int \<Rightarrow> ('d, u32 \<times> cval list) client_fn" where
  "cublasLtMatmulPreferenceCreate E fd =
     word64_rpc E (rpc_cublasltmatmulpreferencecreate_1_svc E fd)"

definition cublasLtMatmulDescCreate :: "'d env \<Rightarrow> int \<Rightarrow> u32 \<Rightarrow> u32 \<Rightarrow> ('d, u32 \<times> cval list) client_fn" where
  "cublasLtMatmulDescCreate E fd computeType scaleType =
     word64_rpc E (rpc_cublasltmatmuldesccreate_1_svc E fd computeType scaleType)"

definition cublasLtMatmulDescDestroy :: "'d env \<Rightarrow> int \<Rightarrow> u64 \<Rightarrow> ('d, u32) client_fn" where
  "cublasLtMatmulDescDestroy E fd matmulDesc =
     int_rpc E (rpc_cublasltmatmuldescdestroy_1_svc E fd matmulDesc)"

text \<open>The one result of the reply is copied, whatever their number.\<close>

definition cublasLtMatmulAlgoGetHeuristic ::
  "'d env \<Rightarrow> int \<Rightarrow> u64 \<Rightarrow> u64 \<Rightarrow> u64 \<Rightarrow> u64 \<Rightarrow> u64 \<Rightarrow> u64 \<Rightarrow> u64 \<Rightarrow> u32 \<Rightarrow> u8 list \<Rightarrow>
   ('d, u32 \<times> (u32 \<times> u8 list) option) client_fn" where
  "cublasLtMatmulAlgoGetHeuristic E fd lightHandle operationDesc Adesc Bdesc Cdesc Ddesc preference
      requestedAlgoCount heuristicResultsArray =
     bind_c (value_rpc E [Bytes (replicate 96 (fresh_byte E)), Int32 (unset32 E)]
         (rpc_cublasltmatmulalgogetheuristic_1_svc E fd lightHandle operationDesc Adesc Bdesc Cdesc Ddesc
            preference requestedAlgoCount)) (\<lambda>(err, vs).
       case vs of
         [Bytes p, Int32 s] \<Rightarrow>
           bind_c (lift_c (copy_out (Some p) 0 96 heuristicResultsArray)) (\<lambda>a. ret_c (err, Some (s, a)))
       | _ \<Rightarrow> ret_c (err, None))"

text \<open>An attribute of the preferences is dropped.\<close>

definition cublasLtMatmulPreferenceSetAttribute :: "u64 \<Rightarrow> u32 \<Rightarrow> u8 list \<Rightarrow> u64 \<Rightarrow> ('d, u32) client_fn" where
  "cublasLtMatmulPreferenceSetAttribute pref attr buf sizeInBytes = ret_c 0"

definition cublasLtMatmulPreferenceDestroy :: "'d env \<Rightarrow> int \<Rightarrow> u64 \<Rightarrow> ('d, u32) client_fn" where
  "cublasLtMatmulPreferenceDestroy E fd pref =
     int_rpc E (rpc_cublasltmatmulpreferencedestroy_1_svc E fd pref)"

definition cublasLtMatrixLayoutDestroy :: "'d env \<Rightarrow> int \<Rightarrow> u64 \<Rightarrow> ('d, u32) client_fn" where
  "cublasLtMatrixLayoutDestroy E fd matLayout =
     int_rpc E (rpc_cublasltmatrixlayoutdestroy_1_svc E fd matLayout)"

definition cublasLtMatmulDescSetAttribute :: "'d env \<Rightarrow> int \<Rightarrow> u64 \<Rightarrow> u32 \<Rightarrow> u8 list \<Rightarrow> u64 \<Rightarrow> ('d, u32)
  client_fn" where
  "cublasLtMatmulDescSetAttribute E fd matmulDesc attr buf sizeInBytes =
     send_block E buf (ucast sizeInBytes) (\<lambda>m1.
     int_rpc E (rpc_cublasltmatmuldescsetattribute_1_svc E fd matmulDesc attr m1))"

definition cublasLtMatmul :: "'d env \<Rightarrow> int \<Rightarrow> u64 \<Rightarrow> u64 \<Rightarrow> u8 list \<Rightarrow> u64 \<Rightarrow> u64 \<Rightarrow> u64 \<Rightarrow> u64 \<Rightarrow> u8 list \<Rightarrow> u64 \<Rightarrow>
  u64 \<Rightarrow> u64 \<Rightarrow> u64 \<Rightarrow> u64 \<Rightarrow> u64 \<Rightarrow> u64 \<Rightarrow> u64 \<Rightarrow> ('d, u32) client_fn" where
  "cublasLtMatmul E fd lightHandle computeDesc alpha A Adesc B Bdesc beta C Cdesc D Ddesc algo workspace
      workspaceSizeInBytes stream =
     bind_c (lift_c (load32 alpha)) (\<lambda>m1.
     bind_c (lift_c (load32 beta)) (\<lambda>m2.
     int_rpc E (rpc_cublasltmatmul_1_svc E fd lightHandle computeDesc m1 A Adesc B Bdesc m2 C Cdesc D
        Ddesc algo workspace workspaceSizeInBytes stream)))"


section \<open>cuSOLVER\<close>

definition cusolverDnCreate :: "'d env \<Rightarrow> ('d, u32 \<times> cval list) client_fn" where
  "cusolverDnCreate E =
     word64_rpc E (rpc_cusolverdncreate_1_svc E 2001)"

definition cusolverDnDestroy :: "'d env \<Rightarrow> u64 \<Rightarrow> ('d, u32) client_fn" where
  "cusolverDnDestroy E hnd =
     int_rpc E (rpc_cusolverdndestroy_1_svc E 2006 hnd)"

definition cusolverDnSetStream :: "'d env \<Rightarrow> u64 \<Rightarrow> u64 \<Rightarrow> ('d, u32) client_fn" where
  "cusolverDnSetStream E hnd streamId =
     int_rpc E (rpc_cusolverdnsetstream_1_svc E 2002 hnd streamId)"

definition cusolverDnDgetrf_bufferSize :: "'d env \<Rightarrow> u64 \<Rightarrow> u32 \<Rightarrow> u32 \<Rightarrow> u64 \<Rightarrow> u32 \<Rightarrow> ('d, u32 \<times> cval list)
  client_fn" where
  "cusolverDnDgetrf_bufferSize E hnd m n A lda =
     word_rpc E (rpc_cusolverdndgetrf_buffersize_1_svc E hnd m n A lda)"

definition cusolverDnDgetrf :: "'d env \<Rightarrow> u64 \<Rightarrow> u32 \<Rightarrow> u32 \<Rightarrow> u64 \<Rightarrow> u32 \<Rightarrow> u64 \<Rightarrow> u64 \<Rightarrow> u64 \<Rightarrow> ('d, u32)
  client_fn" where
  "cusolverDnDgetrf E hnd m n A lda Workspace devIpiv devInfo =
     int_rpc E (rpc_cusolverdndgetrf_1_svc E hnd m n A lda Workspace devIpiv devInfo)"

definition cusolverDnDgetrs :: "'d env \<Rightarrow> u64 \<Rightarrow> u32 \<Rightarrow> u32 \<Rightarrow> u32 \<Rightarrow> u64 \<Rightarrow> u32 \<Rightarrow> u64 \<Rightarrow> u64 \<Rightarrow> u32 \<Rightarrow> u64 \<Rightarrow> ('d,
  u32) client_fn" where
  "cusolverDnDgetrs E hnd tr n nrhs A lda devIpiv B ldb devInfo =
     int_rpc E (rpc_cusolverdndgetrs_1_svc E hnd tr n nrhs A lda devIpiv B ldb devInfo)"


section \<open>NVML\<close>

definition NVML_ERROR_INVALID_ARGUMENT :: u32 where "NVML_ERROR_INVALID_ARGUMENT = 2"

definition nvmlInitWithFlags :: "'d env \<Rightarrow> int \<Rightarrow> u32 \<Rightarrow> ('d, u32) client_fn" where
  "nvmlInitWithFlags E fd flags =
     int_rpc E (rpc_nvmlinitwithflags_1_svc E fd flags)"

definition nvmlInit_v2 :: "'d env \<Rightarrow> int \<Rightarrow> ('d, u32) client_fn" where
  "nvmlInit_v2 E fd =
     int_rpc E (rpc_nvmlinit_v2_1_svc E fd)"

definition nvmlShutdown :: "'d env \<Rightarrow> int \<Rightarrow> ('d, u32) client_fn" where
  "nvmlShutdown E fd =
     int_rpc E (rpc_nvmlshutdown_1_svc E fd)"

definition nvmlDeviceGetCount_v2 :: "'d env \<Rightarrow> int \<Rightarrow> bool \<Rightarrow> ('d, u32 \<times> cval list) client_fn" where
  "nvmlDeviceGetCount_v2 E fd deviceCount_null =
     (if deviceCount_null then ret_c (NVML_ERROR_INVALID_ARGUMENT, [])
      else word_rpc E (rpc_nvmldevicegetcount_v2_1_svc E fd))"


end
