(* ===== verification/Hidden.thy ===== *)
theory Hidden
  imports ClientLib
begin

text \<open>
  The tables of the hidden functions of the driver: \<open>cpu/cpu-server-driver-hidden.c\<close>, where the server
  keeps the tables the driver exports, and \<open>cpu/cpu-client-driver-hidden.c\<close>, the functions the client
  puts in their place with its translation of contexts and modules. The client's part is not in the
  present build, and the handlers of the server for it are commented out: the handler is an argument
  of the functions that call it.
\<close>

section \<open>Server\<close>

text \<open>The numbers of entries of the four tables, and where each is kept.\<close>

definition svc_expect_elem_cnt :: "nat list" where "svc_expect_elem_cnt = [9, 6, 2, 3]"
definition svc_hidden_offset :: "nat list" where "svc_hidden_offset = [0, 9, 15, 17]"

record hidden_server =
  svc_table :: "u64 list"
  svc_calls :: nat

definition hidden_server_start :: hidden_server where
  "hidden_server_start = \<lparr>svc_table = replicate 20 0, svc_calls = 0\<rparr>"

text \<open>
  The next table is copied; all but the fourth have their length as the first element. The result is
  the place of the copy, or NULL.
\<close>

definition cd_svc_hidden_add_table ::
  "u64 list \<Rightarrow> nat \<Rightarrow> hidden_server \<Rightarrow> (nat option \<times> hidden_server) res" where
  "cd_svc_hidden_add_table export n s =
     (let c = svc_calls s in
      if 4 \<le> c then Inr (None, s)
      else
        let first = (if c = 3 then 0 else 1);
            off = svc_hidden_offset ! c in
        if wrap64 (n + 2 ^ 64 - first) \<noteq> svc_expect_elem_cnt ! c then Inr (None, s)
        else if length export < n then Inl Out_Of_Bounds
        else Inr (Some off, s\<lparr>svc_table := blit (svc_table s) off (take (n - first) (drop first export)), svc_calls := c + 1\<rparr>))"

definition cd_svc_hidden_get :: "nat \<Rightarrow> nat \<Rightarrow> hidden_server \<Rightarrow> u64" where
  "cd_svc_hidden_get call index s =
     (if 4 \<le> call then 0
      else if svc_expect_elem_cnt ! call \<le> index then 0
      else svc_table s ! (svc_hidden_offset ! call + index))"

section \<open>The table of the client\<close>

text \<open>Here the entries of a table include its size and the NULL at its end; the fourth has no size.\<close>

datatype hidden_entry = Size nat | Function string | Null

definition EXPECT_0 :: nat where "EXPECT_0 = 9"
definition EXPECT_1 :: nat where "EXPECT_1 = 7"
definition EXPECT_2 :: nat where "EXPECT_2 = 3"
definition EXPECT_3 :: nat where "EXPECT_3 = 3"

definition hidden_offset :: "nat list" where
  "hidden_offset = [0, EXPECT_0 + 1, EXPECT_0 + EXPECT_1 + 2, EXPECT_0 + EXPECT_1 + EXPECT_2 + 3]"

definition hidden_table :: "hidden_entry list" where
  "hidden_table =
     [Size (EXPECT_0 * 8), Function ''hidden_0_0'', Function ''hidden_get_device_ctx'', Function ''hidden_0_2'',
      Function ''hidden_0_3'', Function ''hidden_0_4'', Function ''hidden_get_module'', Function ''hidden_0_6'',
      Function ''hidden_0_7'', Null,
      Size (EXPECT_1 * 8), Function ''hidden_1_0'', Function ''hidden_1_1'', Function ''hidden_1_2'',
      Function ''hidden_1_3'', Function ''hidden_1_4'', Function ''hidden_1_5'', Null,
      Size (EXPECT_2 * 8), Function ''hidden_2_0'', Function ''hidden_2_1'', Null,
      Function ''hidden_3_0'', Function ''hidden_3_1'', Function ''hidden_3_2'', Null]"

text \<open>\<open>tab\<close> is the address of the table. \<open>words\<close> has the blocks of the contexts.\<close>

record hidden_client =
  orig_ptrs :: "u64 list"
  call_cnt :: nat
  ctx_map_orig :: "u64 list"
  ctx_map_fake :: "u64 list"
  ctx_map_cnt :: nat
  module_map :: "u64 list"
  module_map_cnt :: nat
  words :: "u64 \<rightharpoonup> u64 list"

definition hidden_client_start :: hidden_client where
  "hidden_client_start =
     \<lparr>orig_ptrs = replicate 4 0, call_cnt = 0, ctx_map_orig = replicate 16 0, ctx_map_fake = replicate 16 0,
      ctx_map_cnt = 0, module_map = replicate 16 0, module_map_cnt = 0, words = Map.empty\<rparr>"

definition cd_client_hidden_reset :: "hidden_client \<Rightarrow> hidden_client" where
  "cd_client_hidden_reset s = s\<lparr>call_cnt := 0\<rparr>"

definition cd_client_hidden_incr :: "hidden_client \<Rightarrow> nat \<times> hidden_client" where
  "cd_client_hidden_incr s = (call_cnt s + 1, s\<lparr>call_cnt := call_cnt s + 1\<rparr>)"

definition cd_client_hidden_get :: "u64 \<Rightarrow> u64 \<Rightarrow> hidden_client \<Rightarrow> (u64 \<times> hidden_client) res" where
  "cd_client_hidden_get tab orig_ptr s =
     (if length (orig_ptrs s) \<le> call_cnt s then Inl Out_Of_Bounds
      else Inr (tab + 8 * of_nat (hidden_offset ! call_cnt s), s\<lparr>orig_ptrs := (orig_ptrs s)[call_cnt s := orig_ptr]\<rparr>))"

fun find_orig :: "u64 \<Rightarrow> (nat \<times> u64) list \<Rightarrow> u64 \<Rightarrow> u64" where
  "find_orig tab [] p = 0"
| "find_orig tab ((off, orig) # xs) p = (if tab + 8 * of_nat off = p then orig else find_orig tab xs p)"

definition cd_client_hidden_orig_ptr :: "u64 \<Rightarrow> u64 \<Rightarrow> hidden_client \<Rightarrow> u64" where
  "cd_client_hidden_orig_ptr tab p s = find_orig tab (zip hidden_offset (orig_ptrs s)) p"

section \<open>Contexts and modules\<close>

text \<open>
  The loops look at the entries 0 to \<open>cnt\<close>, one more than there are; \<open>find_entry\<close> is such a loop over two
  arrays, the second result is the position behind it.
\<close>

fun find_entry :: "u64 list \<Rightarrow> u64 list \<Rightarrow> u64 \<Rightarrow> nat \<Rightarrow> nat \<Rightarrow> (u64 option \<times> nat) res" where
  "find_entry ks vs k i 0 = Inr (None, i)"
| "find_entry ks vs k i (Suc n) =
     (if length ks \<le> i then Inl Out_Of_Bounds
      else if ks ! i = k then Inr (Some (vs ! i), i)
      else find_entry ks vs k (Suc i) n)"

text \<open>
  A new context is a block of 11 words with a pointer to a word of its own, which has the address of
  the word behind the pointer. \<open>p\<close> and \<open>q\<close> are the addresses of the two blocks that are allocated.
\<close>

definition fake_ctx_block :: "u64 \<Rightarrow> u64 list" where
  "fake_ctx_block q = [0, 0, 0, 0, 0, 0, 6, 0, q, 0, 0x403ca9]"

definition cd_client_get_fake_ctx ::
  "'d env \<Rightarrow> u64 \<Rightarrow> u64 \<Rightarrow> u64 \<Rightarrow> hidden_client \<Rightarrow> (u64 \<times> hidden_client) res" where
  "cd_client_get_fake_ctx E p q real_ctx s =
     bind_r (find_entry (ctx_map_orig s) (ctx_map_fake s) real_ctx 0 (ctx_map_cnt s + 1)) (\<lambda>(found, i).
       case found of Some f \<Rightarrow> Inr (f, s)
       | None \<Rightarrow>
           if i = 16 then Inr (0, s)
           else if \<not> heap_ok E 0x58 \<or> \<not> heap_ok E 8 then Inl Null_Deref
           else Inr (p, s\<lparr>ctx_map_fake := (ctx_map_fake s)[i := p], ctx_map_orig := (ctx_map_orig s)[i := real_ctx],
                  ctx_map_cnt := ctx_map_cnt s + 1, words := (words s)(p \<mapsto> fake_ctx_block q, q \<mapsto> [p + 72])\<rparr>))"

definition cd_client_get_real_ctx :: "u64 \<Rightarrow> hidden_client \<Rightarrow> u64 res" where
  "cd_client_get_real_ctx fake_ctx s =
     bind_r (find_entry (ctx_map_fake s) (ctx_map_orig s) fake_ctx 0 (ctx_map_cnt s + 1)) (\<lambda>(found, _).
       Inr (case found of Some r \<Rightarrow> r | None \<Rightarrow> 0))"

text \<open>Each block is read before it is freed.\<close>

fun free_ctxs :: "u64 list \<Rightarrow> (u64 \<rightharpoonup> u64 list) \<Rightarrow> (u64 \<rightharpoonup> u64 list) res" where
  "free_ctxs [] w = Inr w"
| "free_ctxs (f # fs) w =
     (if f = 0 then Inl Null_Deref
      else case w f of None \<Rightarrow> Inl Use_After_Free
      | Some b \<Rightarrow> if length b \<le> 8 then Inl Out_Of_Bounds else free_ctxs fs (w(b ! 8 := None, f := None)))"

definition cd_client_free_ctx_map :: "hidden_client \<Rightarrow> hidden_client res" where
  "cd_client_free_ctx_map s =
     (if length (ctx_map_fake s) \<le> ctx_map_cnt s then Inl Out_Of_Bounds
      else bind_r (free_ctxs (take (ctx_map_cnt s + 1) (ctx_map_fake s)) (words s)) (\<lambda>w. Inr (s\<lparr>words := w\<rparr>)))"

text \<open>A module is its number; nothing is ever entered in the map.\<close>

definition cd_client_get_fake_module :: "u64 \<Rightarrow> hidden_client \<Rightarrow> u64 res" where
  "cd_client_get_fake_module real_module s =
     bind_r (find_entry (module_map s) (module_map s) real_module 0 (module_map_cnt s + 1)) (\<lambda>(found, i).
       Inr (case found of Some _ \<Rightarrow> of_nat (i + 1) | None \<Rightarrow> 0))"

definition cd_client_get_real_module :: "u64 \<Rightarrow> hidden_client \<Rightarrow> u64 res" where
  "cd_client_get_real_module fake_module s =
     (if module_map_cnt s < unat fake_module then Inr 0
      else if fake_module = 0 \<or> length (module_map s) < unat fake_module then Inl Out_Of_Bounds
      else Inr (module_map s ! (unat fake_module - 1)))"

section \<open>The functions in the table\<close>

text \<open>
  A function without an implementation ends without a value. \<open>ptr_rpc\<close> is the part of the others that
  request a code and a pointer; the pointer is uninitialised unless one has come.
\<close>

definition hidden_unimplemented :: "'d env \<Rightarrow> ('d, u32) client_fn" where
  "hidden_unimplemented E = ret_c (unset32 E)"

definition hidden_0_6 :: "('d, u32) client_fn" where "hidden_0_6 = ret_c 1"
definition hidden_3_1 :: "('d, u32) client_fn" where "hidden_3_1 = ret_c 1"

text \<open>These two read what a pointer points to, to print it.\<close>

definition hidden_1_3 :: "'d env \<Rightarrow> u64 option \<Rightarrow> ('d, u32) client_fn" where
  "hidden_1_3 E arg2 = (case arg2 of None \<Rightarrow> lift_c (Inl Null_Deref) | Some _ \<Rightarrow> hidden_unimplemented E)"

definition hidden_2_1 :: "'d env \<Rightarrow> u64 option \<Rightarrow> ('d, u32) client_fn" where
  "hidden_2_1 E arg1 = (case arg1 of None \<Rightarrow> lift_c (Inl Null_Deref) | Some _ \<Rightarrow> hidden_unimplemented E)"

definition ptr_rpc :: "'d env \<Rightarrow> ('d, reply) handler \<Rightarrow> ('d, u32 \<times> u32 \<times> u64) client_fn" where
  "ptr_rpc E h =
     bind_c (rpc h) (\<lambda>(st, r).
       let e = err_of (unset32 E) r in
       ret_c (st, e, case r of Some (_ # Word64 p # _) \<Rightarrow> if e = 0 then p else fresh_word E | _ \<Rightarrow> fresh_word E))"

definition hidden_get_device_ctx :: "'d env \<Rightarrow> (u32 \<Rightarrow> ('d, reply) handler) \<Rightarrow> u32 \<Rightarrow> ('d, u32 \<times> u64 option) client_fn" where
  "hidden_get_device_ctx E h cu_device =
     bind_c (ptr_rpc E (h cu_device)) (\<lambda>(st, e, p).
       ret_c (if st \<noteq> RPC_SUCCESS then (1, None) else (e, Some p)))"

text \<open>The pointer is stored even when there is no reply.\<close>

definition hidden_get_module ::
  "'d env \<Rightarrow> (u64 \<Rightarrow> u64 \<Rightarrow> u64 \<Rightarrow> u32 \<Rightarrow> ('d, reply) handler) \<Rightarrow> u64 \<Rightarrow> u64 \<Rightarrow> u64 \<Rightarrow> u32 \<Rightarrow> ('d, u32 \<times> u64) client_fn" where
  "hidden_get_module E h arg2 arg3 arg4 arg5 =
     bind_c (ptr_rpc E (h arg2 arg3 arg4 arg5)) (\<lambda>(_, e, p). ret_c (e, p))"

text \<open>The third result is the block that is stored behind the first argument.\<close>

definition hidden_1_1 :: "'d env \<Rightarrow> ('d, reply) handler \<Rightarrow> ('d, u32 \<times> u64 option \<times> u8 list option) client_fn" where
  "hidden_1_1 E h =
     bind_c (ptr_rpc E h) (\<lambda>(st, e, p).
       if st \<noteq> RPC_SUCCESS then ret_c (1, None, None)
       else case malloc_bytes E 0x54 of None \<Rightarrow> lift_c (Inl Null_Deref)
         | Some b \<Rightarrow> ret_c (e, Some p, Some (blit b 0x50 [0, 0, 0, 0])))"

definition hidden_1_5 :: "'d env \<Rightarrow> ('d, reply) handler \<Rightarrow> ('d, u32 \<times> (u64 \<times> u64) option) client_fn" where
  "hidden_1_5 E h =
     bind_c (ptr_rpc E h) (\<lambda>(st, e, p). ret_c (if st \<noteq> RPC_SUCCESS then (1, None) else (e, Some (1, p))))"

definition hidden_3_0 ::
  "'d env \<Rightarrow> u64 \<Rightarrow> (u32 \<Rightarrow> u64 \<Rightarrow> u64 \<Rightarrow> ('d, reply) handler) \<Rightarrow> u32 \<Rightarrow> u64 \<Rightarrow> u64 \<Rightarrow> hidden_client \<Rightarrow> ('d, u32) client_fn" where
  "hidden_3_0 E tab h arg1 arg2 arg3 hc =
     (let orig = cd_client_hidden_orig_ptr tab arg2 hc in
      if orig = 0 then ret_c 1
      else bind_c (int_rpc_from (unset32 E) (h arg1 orig arg3)) (\<lambda>(st, e). ret_c (if st \<noteq> RPC_SUCCESS then 1 else e)))"

text \<open>Two words of the block are printed.\<close>

definition with_context :: "u32 \<Rightarrow> u8 list option \<Rightarrow> ('d, u32 \<times> u8 list option) client_fn" where
  "with_context e b =
     (case b of None \<Rightarrow> ret_c (e, None)
      | Some m \<Rightarrow> if length m < 72 then lift_c (Inl Out_Of_Bounds) else ret_c (e, Some m))"

definition hidden_3_2 ::
  "'d env \<Rightarrow> u64 \<Rightarrow> (u32 \<Rightarrow> u64 \<Rightarrow> ('d, reply) handler) \<Rightarrow> u32 \<Rightarrow> u64 \<Rightarrow> hidden_client \<Rightarrow> ('d, u32 \<times> u8 list option) client_fn" where
  "hidden_3_2 E tab h arg2 arg3 hc =
     (let orig = cd_client_hidden_orig_ptr tab arg3 hc; buf = malloc_bytes E 0x58 in
      if orig = 0 then ret_c (1, None)
      else bind_c (rpc (h arg2 orig)) (\<lambda>(st, r).
        if st \<noteq> RPC_SUCCESS then ret_c (1, None)
        else case r of
          Some (Int32 e # Bytes bs # _) \<Rightarrow>
            if e \<noteq> 0 then with_context e buf
            else (case buf of None \<Rightarrow> with_context e (Some bs)
              | Some b \<Rightarrow> if length b < length bs then lift_c (Inl Out_Of_Bounds)
                          else with_context e (Some (bs @ drop (length bs) b)))
        | _ \<Rightarrow> with_context (err_of (unset32 E) r) buf))"

section \<open>Properties\<close>

declare find_entry.simps [simp del]

fun add_tables :: "u64 list list \<Rightarrow> hidden_server \<Rightarrow> hidden_server res" where
  "add_tables [] s = Inr s"
| "add_tables (t # ts) s = bind_r (cd_svc_hidden_add_table t (length t) s) (\<lambda>(_, s). add_tables ts s)"

lemma svc_add_runs:
  assumes "svc_calls s < 4" and "length t = svc_expect_elem_cnt ! svc_calls s + (if svc_calls s = 3 then 0 else 1)"
  shows "cd_svc_hidden_add_table t (length t) s =
    Inr (Some (svc_hidden_offset ! svc_calls s),
      s\<lparr>svc_table := blit (svc_table s) (svc_hidden_offset ! svc_calls s) (drop (if svc_calls s = 3 then 0 else 1) t),
        svc_calls := svc_calls s + 1\<rparr>)"
proof -
  have c: "svc_calls s \<in> {0, 1, 2, 3}" using assms(1) by auto
  then show ?thesis using assms(2)
    by (auto simp: cd_svc_hidden_add_table_def Let_def svc_expect_elem_cnt_def wrap64_def)
qed

text \<open>The server finds the hidden functions: when the four tables of the driver have been added in
  their order, the index of a function in a table, without the element for its length, gives that
  function.
\<close>

lemma hidden_functions_found:
  assumes "length t0 = 10" and "length t1 = 7" and "length t2 = 3" and "length t3 = 3"
  shows "\<exists>s. add_tables [t0, t1, t2, t3] hidden_server_start = Inr s
    \<and> map (\<lambda>i. cd_svc_hidden_get 0 i s) [0..<9] = tl t0
    \<and> map (\<lambda>i. cd_svc_hidden_get 1 i s) [0..<6] = tl t1
    \<and> map (\<lambda>i. cd_svc_hidden_get 2 i s) [0..<2] = tl t2
    \<and> map (\<lambda>i. cd_svc_hidden_get 3 i s) [0..<3] = t3"
proof -
  let ?t = "tl t0 @ tl t1 @ tl t2 @ t3"
  let ?n = "replicate :: nat \<Rightarrow> u64 \<Rightarrow> u64 list"
  have "cd_svc_hidden_add_table t0 (length t0) hidden_server_start = Inr (Some 0, \<lparr>svc_table = tl t0 @ ?n 11 0, svc_calls = 1\<rparr>)"
    "cd_svc_hidden_add_table t1 (length t1) \<lparr>svc_table = tl t0 @ ?n 11 0, svc_calls = 1\<rparr> =
      Inr (Some 9, \<lparr>svc_table = tl t0 @ tl t1 @ ?n 5 0, svc_calls = 2\<rparr>)"
    "cd_svc_hidden_add_table t2 (length t2) \<lparr>svc_table = tl t0 @ tl t1 @ ?n 5 0, svc_calls = 2\<rparr> =
      Inr (Some 15, \<lparr>svc_table = tl t0 @ tl t1 @ tl t2 @ ?n 3 0, svc_calls = 3\<rparr>)"
    "cd_svc_hidden_add_table t3 (length t3) \<lparr>svc_table = tl t0 @ tl t1 @ tl t2 @ ?n 3 0, svc_calls = 3\<rparr> =
      Inr (Some 17, \<lparr>svc_table = ?t, svc_calls = 4\<rparr>)"
    using assms by (subst svc_add_runs; simp add: hidden_server_start_def svc_expect_elem_cnt_def svc_hidden_offset_def
      blit_def drop_Suc)+
  then have "add_tables [t0, t1, t2, t3] hidden_server_start = Inr \<lparr>svc_table = ?t, svc_calls = 4\<rparr>"
    by simp
  moreover have "cd_svc_hidden_get c i \<lparr>svc_table = ?t, svc_calls = 4\<rparr> = ?t ! (svc_hidden_offset ! c + i)"
    if "c < 4" "i < svc_expect_elem_cnt ! c" for c i
    using that by (simp add: cd_svc_hidden_get_def)
  ultimately show ?thesis using assms
    by (intro exI [of _ "\<lparr>svc_table = ?t, svc_calls = 4\<rparr>"])
       (auto intro!: nth_equalityI simp: svc_expect_elem_cnt_def svc_hidden_offset_def nth_append nth_tl)
qed

text \<open>The contexts: entry 0 stays empty, and the blocks of the others are different.\<close>

inductive ctx_run :: "'d env \<Rightarrow> hidden_client \<Rightarrow> bool" for E where
  ctx_start: "ctx_run E hidden_client_start"
| ctx_step: "ctx_run E s \<Longrightarrow> p \<noteq> 0 \<Longrightarrow> p \<notin> set (ctx_map_fake s) \<Longrightarrow>
    cd_client_get_fake_ctx E p q r s = Inr (f, s') \<Longrightarrow> ctx_run E s'"

definition ctx_wf :: "hidden_client \<Rightarrow> bool" where
  "ctx_wf s \<longleftrightarrow> length (ctx_map_orig s) = 16 \<and> length (ctx_map_fake s) = 16 \<and> ctx_map_cnt s < 16
     \<and> ctx_map_fake s ! 0 = 0 \<and> (\<forall>i \<le> ctx_map_cnt s. \<forall>j \<le> ctx_map_cnt s. ctx_map_fake s ! i = ctx_map_fake s ! j \<longrightarrow> i = j)"

lemma find_entry_total: "i + n \<le> length ks \<Longrightarrow> \<exists>r. find_entry ks vs k i n = Inr r"
  by (induction ks vs k i n rule: find_entry.induct) (auto simp: find_entry.simps)

lemma find_entry_result:
  "find_entry ks vs k i n = Inr (r, m) \<Longrightarrow>
   (r = None \<and> m = i + n \<and> (\<forall>l. i \<le> l \<and> l < i + n \<longrightarrow> ks ! l \<noteq> k)) \<or>
   (r = Some (vs ! m) \<and> i \<le> m \<and> m < i + n \<and> ks ! m = k)"
proof (induction ks vs k i n rule: find_entry.induct)
  case (2 ks vs k i n)
  show ?case
  proof (cases "ks ! i = k")
    case True
    then show ?thesis using 2(2) by (auto simp: find_entry.simps split: if_split_asm)
  next
    case False
    then have "find_entry ks vs k (Suc i) n = Inr (r, m)" and len: "\<not> length ks \<le> i"
      using 2(2) by (auto simp: find_entry.simps split: if_split_asm)
    have "ks ! l \<noteq> k" if "\<forall>l. Suc i \<le> l \<and> l < Suc i + n \<longrightarrow> ks ! l \<noteq> k" "i \<le> l" "l < i + Suc n" for l
      using that False by (cases "l = i") auto
    with 2(1) [OF len False \<open>find_entry ks vs k (Suc i) n = Inr (r, m)\<close>] show ?thesis by auto
  qed
qed (auto simp: find_entry.simps)

lemma find_entry_unique:
  assumes "j < n" and "n \<le> length ks" and "ks ! j = k" and "\<forall>i < n. \<forall>j < n. ks ! i = ks ! j \<longrightarrow> i = j"
  shows "find_entry ks vs k 0 n = Inr (Some (vs ! j), j)"
proof -
  obtain r m where run: "find_entry ks vs k 0 n = Inr (r, m)"
    using find_entry_total [of 0 n ks vs k] assms(2) by auto
  have "r = Some (vs ! m)" "m < n" "ks ! m = k"
    using find_entry_result [OF run] assms(1,3) by auto
  then show ?thesis using run assms by blast
qed

lemma fake_ctx_step:
  assumes wf: "ctx_wf s" and "p \<noteq> 0" and "p \<notin> set (ctx_map_fake s)"
    and "cd_client_get_fake_ctx E p q r s = Inr (f, s')"
  shows "ctx_wf s' \<and> (f \<noteq> 0 \<longrightarrow> cd_client_get_real_ctx f s' = Inr r)"
proof -
  let ?c = "ctx_map_cnt s"
  note wf' = wf [unfolded ctx_wf_def]
  obtain r' m where run: "find_entry (ctx_map_orig s) (ctx_map_fake s) r 0 (?c + 1) = Inr (r', m)"
    using find_entry_total [of 0 "?c + 1" "ctx_map_orig s" "ctx_map_fake s" r] wf' by auto
  consider (found) "m \<le> ?c" "ctx_map_orig s ! m = r" "r' = Some (ctx_map_fake s ! m)"
    | (new) "r' = None" "m = ?c + 1"
    using find_entry_result [OF run] by auto
  then show ?thesis
  proof cases
    case found
    then have s': "s' = s" "f = ctx_map_fake s ! m" using assms(4) run by (auto simp: cd_client_get_fake_ctx_def)
    have "cd_client_get_real_ctx f s' = Inr r"
      using find_entry_unique [of m "?c + 1" "ctx_map_fake s" f "ctx_map_orig s"] found wf' s'
      by (simp add: cd_client_get_real_ctx_def less_Suc_eq_le)
    then show ?thesis using wf s' by simp
  next
    case new
    have wfs: "ctx_wf s'"
    proof (cases "?c = 15")
      case True
      then show ?thesis using new assms(4) wf run by (simp add: cd_client_get_fake_ctx_def)
    next
      case False
      then have "s' = s\<lparr>ctx_map_fake := (ctx_map_fake s)[?c + 1 := p], ctx_map_orig := (ctx_map_orig s)[?c + 1 := r],
          ctx_map_cnt := ?c + 1, words := (words s)(p \<mapsto> fake_ctx_block q, q \<mapsto> [p + 72])\<rparr>"
        using new assms(4) run by (auto simp: cd_client_get_fake_ctx_def split: if_split_asm)
      moreover have "ctx_map_fake s ! j \<noteq> p" if "j \<le> ?c" for j
        using assms(3) wf' that nth_mem [of j "ctx_map_fake s"] by force
      ultimately show ?thesis using wf' False
        by (auto simp: ctx_wf_def nth_list_update le_Suc_eq)
    qed
    moreover have "cd_client_get_real_ctx f s' = Inr r" if "f \<noteq> 0"
    proof -
      have "?c \<noteq> 15" using that new assms(4) run by (auto simp: cd_client_get_fake_ctx_def)
      moreover from this have "Inr (f, s') = (Inr (p, s\<lparr>ctx_map_fake := (ctx_map_fake s)[?c + 1 := p],
          ctx_map_orig := (ctx_map_orig s)[?c + 1 := r], ctx_map_cnt := ?c + 1,
          words := (words s)(p \<mapsto> fake_ctx_block q, q \<mapsto> [p + 72])\<rparr>) :: fault + u64 \<times> hidden_client)"
        using new assms(4) run by (simp add: cd_client_get_fake_ctx_def split: if_split_asm) metis
      ultimately show ?thesis
        using find_entry_unique [of "?c + 1" "?c + 2" "ctx_map_fake s'" f "ctx_map_orig s'"] wfs wf'
        by (simp add: cd_client_get_real_ctx_def ctx_wf_def less_Suc_eq_le)
    qed
    ultimately show ?thesis by simp
  qed
qed

lemma ctx_run_wf: "ctx_run E s \<Longrightarrow> ctx_wf s"
  by (induction rule: ctx_run.induct) (simp add: ctx_wf_def hidden_client_start_def, simp add: fake_ctx_step)

text \<open>Freeing the contexts always fails at the empty entry.\<close>

lemma free_ctx_map_crashes: "ctx_run E s \<Longrightarrow> cd_client_free_ctx_map s = Inl Null_Deref"
proof -
  assume "ctx_run E s"
  then have "ctx_wf s" by (rule ctx_run_wf)
  then obtain fs where "ctx_map_fake s = 0 # fs" "ctx_map_cnt s < length (ctx_map_fake s)"
    by (cases "ctx_map_fake s") (auto simp: ctx_wf_def)
  then show ?thesis by (simp add: cd_client_free_ctx_map_def)
qed

text \<open>The contexts the application sees are translated back: the context the client has made up for
  one of the server, however many there are, stands for that one.
\<close>

lemma fake_ctx_round_trip:
  assumes "ctx_run E s" and "p \<noteq> 0" and "p \<notin> set (ctx_map_fake s)"
    and "cd_client_get_fake_ctx E p q real_ctx s = Inr (fake_ctx, s')" and "fake_ctx \<noteq> 0"
  shows "cd_client_get_real_ctx fake_ctx s' = Inr real_ctx"
  using fake_ctx_step [OF ctx_run_wf [OF assms(1)] assms(2-4)] assms(5) by blast

end
