(* ===== verification/GpuFile.thy ===== *)
theory GpuFile
  imports CrFile Handlers Fatbin
begin

text \<open>
  The checkpoint tool of the GPU side (\<open>gpu/src\<close>) runs beside a debugger and keeps the state of a kernel
  in files. This theory has the state of the tool, calls of the debugger, and the files
  (\<open>cricket-file.c\<close>). A call of the debugger is one of the environment, as the CUDA libraries are for the
  server, with a code and the values behind its pointer arguments.
\<close>

section \<open>The tool\<close>

text \<open>\<open>makeable\<close> says which directories \<open>mkdir\<close> can create.\<close>

record 'd tool =
  gdev :: 'd
  disk :: fsys
  dirs :: "string \<Rightarrow> bool"
  makeable :: "string \<Rightarrow> bool"

type_synonym ('d, 'a) tool_fn = "'d tool \<Rightarrow> ('a \<times> 'd tool) res"

definition bind_t :: "('d, 'a) tool_fn \<Rightarrow> ('a \<Rightarrow> ('d, 'b) tool_fn) \<Rightarrow> ('d, 'b) tool_fn" where
  "bind_t m k t = bind_r (m t) (\<lambda>(x, t). k x t)"

definition ret_t :: "'a \<Rightarrow> ('d, 'a) tool_fn" where
  "ret_t x t = Inr (x, t)"

definition lift_t :: "'a res \<Rightarrow> ('d, 'a) tool_fn" where
  "lift_t r t = bind_r r (\<lambda>x. Inr (x, t))"

lemma bind_t_ret [simp]: "bind_t (ret_t x) k = k x"
  by (rule ext) (simp add: bind_t_def ret_t_def)

lemma bind_t_lift [simp]: "bind_t (lift_t (Inr x)) k = k x" "bind_t (lift_t (Inl f)) k t = Inl f"
  by (auto simp: bind_t_def lift_t_def)

lemma bind_t_assoc: "bind_t (bind_t m k) h = bind_t m (\<lambda>x. bind_t (k x) h)"
  by (rule ext) (simp add: bind_t_def bind_r_assoc case_prod_unfold)

lemma bind_t_Inr: "m t = Inr (x, t') \<Longrightarrow> bind_t m k t = k x t'"
  by (simp add: bind_t_def)

lemma bind_t_cong [fundef_cong]:
  "m = m' \<Longrightarrow> (\<And>x. k x = k' x) \<Longrightarrow> bind_t m k = bind_t m' k'"
  by (rule arg_cong2 [where f = bind_t]) auto

definition CUDBG_SUCCESS :: u32 where "CUDBG_SUCCESS = 0"

definition dbg :: "'d env \<Rightarrow> string \<Rightarrow> cval list \<Rightarrow> ('d, u32 \<times> cval list) tool_fn" where
  "dbg E name args t = (let (res, outs, d) = cuda E name args (gdev t) in Inr ((res, outs), t\<lparr>gdev := d\<rparr>))"

text \<open>A call after which the function goes on only if it has succeeded; otherwise it returns \<open>z\<close>.\<close>

definition dbg_or :: "'a \<Rightarrow> 'd env \<Rightarrow> string \<Rightarrow> cval list \<Rightarrow> (cval list \<Rightarrow> ('d, 'a) tool_fn) \<Rightarrow> ('d, 'a) tool_fn" where
  "dbg_or z E name args k =
     bind_t (dbg E name args) (\<lambda>(res, outs). if res \<noteq> CUDBG_SUCCESS then ret_t z else k outs)"

lemma dbg_or_success:
  assumes "cuda E name args (gdev t) = (0, outs, d)"
  shows "dbg_or z E name args k t = k outs (t\<lparr>gdev := d\<rparr>)"
  using assms by (simp add: dbg_or_def bind_t_def dbg_def CUDBG_SUCCESS_def)

section \<open>Files\<close>

definition RRTO_DT_REGISTERS :: u32 where "RRTO_DT_REGISTERS = 1"
definition RRTO_DT_PC :: u32 where "RRTO_DT_PC = 2"
definition RRTO_DT_GLOBALS :: u32 where "RRTO_DT_GLOBALS = 3"
definition RRTO_DT_STACK :: u32 where "RRTO_DT_STACK = 4"
definition RRTO_DT_PARAM :: u32 where "RRTO_DT_PARAM = 5"
definition RRTO_DT_HEAP :: u32 where "RRTO_DT_HEAP = 6"
definition RRTO_DT_SHARED :: u32 where "RRTO_DT_SHARED = 7"
definition RRTO_DT_CALLSTACK :: u32 where "RRTO_DT_CALLSTACK = 8"
definition RRTO_DT_LAST :: u32 where "RRTO_DT_LAST = 9"

definition dt2str :: "string option list" where
  "dt2str = [None, Some ''registers'', Some ''pc'', Some ''globals'', Some ''stack'', Some ''param'', Some ''heap'',
     Some ''shared'', Some ''callstack'', None]"

definition RRTO_file_dt2str :: "u32 \<Rightarrow> string option" where
  "RRTO_file_dt2str data_type = (if data_type < RRTO_DT_LAST then dt2str ! unat data_type else None)"

definition stat_ok :: "string \<Rightarrow> 'd tool \<Rightarrow> bool" where
  "stat_ok name t \<longleftrightarrow> dirs t name \<or> files (disk t) name \<noteq> None"

definition full_name :: "'d env \<Rightarrow> string \<Rightarrow> string \<Rightarrow> string option \<Rightarrow> string option" where
  "full_name E path kind suffix =
     (case suffix of None \<Rightarrow> asprintf E (path @ ''/'' @ kind) | Some s \<Rightarrow> asprintf E (path @ ''/'' @ kind @ s))"

text \<open>The checks of the functions that read, up to the name of the file.\<close>

definition file_to_read :: "'d env \<Rightarrow> string option \<Rightarrow> u32 \<Rightarrow> string option \<Rightarrow> 'd tool \<Rightarrow> string option" where
  "file_to_read E path data_type suffix t =
     (case path of None \<Rightarrow> None
      | Some path \<Rightarrow>
          (case RRTO_file_dt2str data_type of None \<Rightarrow> None
           | Some kind \<Rightarrow>
               if \<not> stat_ok path t then None
               else if \<not> dirs t path then None
               else full_name E path kind suffix))"

definition RRTO_file_exists :: "'d env \<Rightarrow> string option \<Rightarrow> u32 \<Rightarrow> string option \<Rightarrow> 'd tool \<Rightarrow> bool" where
  "RRTO_file_exists E path data_type suffix t =
     (case file_to_read E path data_type suffix t of None \<Rightarrow> False | Some name \<Rightarrow> stat_ok name t)"

text \<open>
  The data go to the block that is passed, or to a new one if there is none; its allocation is not
  checked. The result has the block and the size the file gives, if it has been read.
\<close>

definition read_data ::
  "'d env \<Rightarrow> rfile \<Rightarrow> u8 list option \<Rightarrow> nat \<Rightarrow> nat \<Rightarrow> (bool \<times> u8 list option \<times> nat option) res" where
  "read_data E f mem0 alloc_size sz =
     (let into = (\<lambda>m. let bs = fst (fread sz f) in
                     if length m < length bs then Inl Out_Of_Bounds
                     else Inr (length bs = sz, Some (blit m 0 bs), Some sz)) in
      case mem0 of
        None \<Rightarrow> if heap_ok E sz then into (replicate sz (fresh_byte E))
                else if fst (fread sz f) \<noteq> [] then Inl Null_Deref else Inr (sz = 0, None, Some sz)
      | Some m \<Rightarrow> if alloc_size < sz then Inr (False, mem0, Some sz) else into m)"

definition RRTO_file_read_mem_size ::
  "'d env \<Rightarrow> string option \<Rightarrow> u32 \<Rightarrow> string option \<Rightarrow> u8 list option \<Rightarrow> nat \<Rightarrow>
   ('d, bool \<times> u8 list option \<times> nat option) tool_fn" where
  "RRTO_file_read_mem_size E path data_type suffix mem0 alloc_size t =
     (case file_to_read E path data_type suffix t of
        None \<Rightarrow> Inr ((False, mem0, None), t)
      | Some name \<Rightarrow>
          (case fopen_r name (disk t) of
             None \<Rightarrow> Inr ((False, mem0, None), t)
           | Some f \<Rightarrow>
               let (bs, f) = fread 4 f in
               if length bs \<noteq> 4 then Inr ((False, mem0, None), t)
               else if of_nat (le_val bs) \<noteq> data_type then Inr ((False, mem0, None), t)
               else let (bs, f) = fread 8 f in
               if length bs \<noteq> 8 then Inr ((False, mem0, None), t)
               else bind_r (read_data E f mem0 alloc_size (le_val bs)) (\<lambda>r. Inr (r, t))))"

definition RRTO_file_read_mem ::
  "'d env \<Rightarrow> string option \<Rightarrow> u32 \<Rightarrow> string option \<Rightarrow> u8 list \<Rightarrow> nat \<Rightarrow> ('d, bool \<times> u8 list) tool_fn" where
  "RRTO_file_read_mem E path data_type suffix mem0 sz =
     bind_t (RRTO_file_read_mem_size E path data_type suffix (Some mem0) sz) (\<lambda>(ret, m, n).
       let m = (case m of None \<Rightarrow> mem0 | Some m \<Rightarrow> m) in
       ret_t (if \<not> ret then False else n = Some sz, m))"

text \<open>A directory that does not exist is made. A file that cannot be written completely stays.\<close>

definition RRTO_file_store_mem ::
  "'d env \<Rightarrow> string option \<Rightarrow> u32 \<Rightarrow> string option \<Rightarrow> u8 list \<Rightarrow> nat \<Rightarrow> ('d, bool) tool_fn" where
  "RRTO_file_store_mem E path data_type suffix mem0 sz t =
     (case path of None \<Rightarrow> Inr (False, t)
      | Some path \<Rightarrow>
     (case RRTO_file_dt2str data_type of None \<Rightarrow> Inr (False, t)
      | Some kind \<Rightarrow>
          if \<not> stat_ok path t \<and> \<not> makeable t path then Inr (False, t)
          else let t = (if stat_ok path t then t else t\<lparr>dirs := (dirs t)(path := True)\<rparr>) in
          if \<not> dirs t path then Inr (False, t)
          else (case full_name E path kind suffix of
             None \<Rightarrow> Inr (False, t)
           | Some name \<Rightarrow>
          (case fopen_w name (disk t) of
             None \<Rightarrow> Inr (False, t)
           | Some fs \<Rightarrow>
               let (ok, fs) = fwrite name (le_bytes 4 (unat data_type)) fs in
               if \<not> ok then Inr (False, t\<lparr>disk := fs\<rparr>)
               else let (ok, fs) = fwrite name (le_bytes 8 sz) fs in
               if \<not> ok then Inr (False, t\<lparr>disk := fs\<rparr>)
               else bind_r (CrFile.read_block (Some mem0) sz) (\<lambda>bs.
                 let (ok, fs) = fwrite name bs fs in
                 Inr (ok, t\<lparr>disk := fs\<rparr>))))))"

section \<open>What a stored file holds\<close>

definition stored_bytes :: "u32 \<Rightarrow> u8 list \<Rightarrow> u8 list" where
  "stored_bytes dt bs = le_bytes 4 (unat dt) @ le_bytes 8 (length bs) @ bs"

text \<open>The file of a kind and suffix in a checkpoint directory holds a block.\<close>

definition file_holds :: "'d env \<Rightarrow> string \<Rightarrow> u32 \<Rightarrow> string option \<Rightarrow> u8 list \<Rightarrow> 'd tool \<Rightarrow> bool" where
  "file_holds E path dt suffix bs t \<longleftrightarrow> (\<exists>name. file_to_read E (Some path) dt suffix t = Some name \<and>
     files (disk t) name = Some (stored_bytes dt bs))"

lemma full_name_Some:
  "full_name E path kind suffix = Some name \<Longrightarrow>
   name = path @ ''/'' @ kind @ (case suffix of None \<Rightarrow> [] | Some s \<Rightarrow> s)"
  by (auto simp: full_name_def asprintf_def split: option.splits if_splits)

lemma fwrite_True:
  "fwrite name bs fs = (True, fs') \<Longrightarrow>
   files fs' = (files fs)(name \<mapsto> (case files fs name of None \<Rightarrow> [] | Some c \<Rightarrow> c) @ bs) \<and> creatable fs' = creatable fs"
  by (auto simp: fwrite_def Let_def min_def split: if_splits)

text \<open>A store that succeeds has written one file and nothing else.\<close>

lemma store_True:
  assumes "RRTO_file_store_mem E path dt suffix bs sz t = Inr (True, t')"
  obtains p kind name where "path = Some p" and "RRTO_file_dt2str dt = Some kind"
    and "full_name E p kind suffix = Some name" and "sz \<le> length bs" and "dirs t' p"
    and "files (disk t') = (files (disk t))(name \<mapsto> le_bytes 4 (unat dt) @ le_bytes 8 sz @ take sz bs)"
    and "gdev t' = gdev t" and "\<And>q. dirs t q \<Longrightarrow> dirs t' q"
proof -
  obtain p where p: "path = Some p"
    using assms by (auto simp: RRTO_file_store_mem_def split: option.splits)
  obtain kind where k: "RRTO_file_dt2str dt = Some kind"
    using assms p by (auto simp: RRTO_file_store_mem_def split: option.splits)
  define t1 where "t1 = (if stat_ok p t then t else t\<lparr>dirs := (dirs t)(p := True)\<rparr>)"
  have t1: "disk t1 = disk t" "gdev t1 = gdev t" "\<And>q. dirs t q \<Longrightarrow> dirs t1 q"
    by (auto simp: t1_def)
  obtain name where n: "full_name E p kind suffix = Some name" and d: "dirs t1 p"
    using assms p k
    by (auto simp: RRTO_file_store_mem_def t1_def [symmetric] split: option.splits if_splits)
  obtain fs where o: "fopen_w name (disk t) = Some fs"
    using assms p k n d t1
    by (auto simp: RRTO_file_store_mem_def t1_def [symmetric] split: option.splits if_splits)
  obtain fs1 where w1: "fwrite name (le_bytes 4 (unat dt)) fs = (True, fs1)"
    using assms p k n d t1 o
    by (cases "fwrite name (le_bytes 4 (unat dt)) fs")
       (auto simp: RRTO_file_store_mem_def t1_def [symmetric] split: option.splits if_splits)
  obtain fs2 where w2: "fwrite name (le_bytes 8 sz) fs1 = (True, fs2)"
    using assms p k n d t1 o w1
    by (cases "fwrite name (le_bytes 8 sz) fs1")
       (auto simp: RRTO_file_store_mem_def t1_def [symmetric] split: option.splits if_splits)
  obtain b where b: "CrFile.read_block (Some bs) sz = Inr b"
    using assms p k n d t1 o w1 w2
    by (auto simp: RRTO_file_store_mem_def t1_def [symmetric] bind_r_Inr_iff split: option.splits if_splits)
  obtain fs3 where w3: "fwrite name b fs2 = (True, fs3)" and t': "t' = t1\<lparr>disk := fs3\<rparr>"
    using assms p k n d t1 o w1 w2 b
    by (cases "fwrite name b fs2")
       (auto simp: RRTO_file_store_mem_def t1_def [symmetric] split: option.splits if_splits)
  have bs: "sz \<le> length bs" "b = take sz bs"
    using b by (auto simp: CrFile.read_block_def split: if_splits)
  have "files fs = (files (disk t))(name \<mapsto> [])"
    using o by (auto simp: fopen_w_def split: if_splits)
  then have "files fs3 = (files (disk t))(name \<mapsto> le_bytes 4 (unat dt) @ le_bytes 8 sz @ take sz bs)"
    using fwrite_True [OF w1] fwrite_True [OF w2] fwrite_True [OF w3] bs by simp
  then show thesis
    using that [OF p k n bs(1)] d t1 t' by simp
qed

text \<open>It succeeds in a directory that exists if there is room.\<close>

lemma store_ok:
  assumes "dirs t p" and "RRTO_file_dt2str dt = Some kind" and "full_name E p kind suffix = Some name"
    and "creatable (disk t) name" and "12 + sz \<le> disk_free (disk t)" and "sz \<le> length bs"
  shows "\<exists>t'. RRTO_file_store_mem E (Some p) dt suffix bs sz t = Inr (True, t') \<and> dirs t' = dirs t \<and> gdev t' = gdev t \<and>
    creatable (disk t') = creatable (disk t) \<and> disk_free (disk t') = disk_free (disk t) - (12 + sz)"
proof -
  obtain k where "disk_free (disk t) = 12 + sz + k"
    using assms(5) le_Suc_ex by blast
  then show ?thesis
    using assms
    by (simp add: RRTO_file_store_mem_def stat_ok_def fopen_w_def fwrite_def Let_def min_def CrFile.read_block_def)
qed

text \<open>Kinds are told apart by their first two letters, so the files of two kinds never meet.\<close>

lemma dt_cases:
  "RRTO_file_dt2str dt = Some kind \<Longrightarrow>
   (dt, kind) \<in> {(1, ''registers''), (2, ''pc''), (3, ''globals''), (4, ''stack''), (5, ''param''), (6, ''heap''),
     (7, ''shared''), (8, ''callstack'')}"
proof -
  assume *: "RRTO_file_dt2str dt = Some kind"
  then have "unat dt < 9"
    by (auto simp: RRTO_file_dt2str_def RRTO_DT_LAST_def word_less_nat_alt split: if_splits)
  then have "unat dt \<in> {0, 1, 2, 3, 4, 5, 6, 7, 8}"
    by auto
  then have "of_nat (unat dt) \<in> (of_nat ` {0, 1, 2, 3, 4, 5, 6, 7, 8} :: u32 set)"
    by (rule imageI)
  then have "dt \<in> {0, 1, 2, 3, 4, 5, 6, 7, 8}"
    by simp
  then show ?thesis
    using * by (elim insertE emptyE) (simp_all add: RRTO_file_dt2str_def RRTO_DT_LAST_def dt2str_def)
qed

lemma kinds_differ:
  assumes "RRTO_file_dt2str dt = Some kind" and "RRTO_file_dt2str dt' = Some kind'" and "dt \<noteq> dt'"
  shows "kind @ s \<noteq> kind' @ s'"
  using dt_cases [OF assms(1)] dt_cases [OF assms(2)] assms(3)
  by (elim insertE emptyE) simp_all

lemma store_holds:
  assumes "RRTO_file_store_mem E (Some p) dt suffix bs sz t = Inr (True, t')"
  shows "file_holds E p dt suffix (take sz bs) t'" and "gdev t' = gdev t"
proof -
  obtain kind name where "RRTO_file_dt2str dt = Some kind" "full_name E p kind suffix = Some name" "sz \<le> length bs"
      "dirs t' p" "files (disk t') = (files (disk t))(name \<mapsto> le_bytes 4 (unat dt) @ le_bytes 8 sz @ take sz bs)"
      and g: "gdev t' = gdev t"
    using assms by (elim store_True) auto
  then show "file_holds E p dt suffix (take sz bs) t'"
    by (auto simp: file_holds_def file_to_read_def stat_ok_def stored_bytes_def min_def)
  show "gdev t' = gdev t" by (rule g)
qed

lemma holds_after_store:
  assumes "file_holds E p dt suffix bs t" and "RRTO_file_store_mem E (Some p) dt' suffix' bs' sz t = Inr (True, t')"
    and "dt \<noteq> dt'"
  shows "file_holds E p dt suffix bs t'"
proof -
  obtain kind name where k: "RRTO_file_dt2str dt = Some kind" "full_name E p kind suffix = Some name"
      and f: "files (disk t) name = Some (stored_bytes dt bs)"
    using assms(1) by (auto simp: file_holds_def file_to_read_def split: option.splits if_splits)
  obtain kind' name' where k': "RRTO_file_dt2str dt' = Some kind'" "full_name E p kind' suffix' = Some name'"
      and t': "dirs t' p" "files (disk t') = (files (disk t))(name' \<mapsto> le_bytes 4 (unat dt') @ le_bytes 8 sz @ take sz bs')"
    using assms(2) by (elim store_True) auto
  have "name \<noteq> name'"
    using full_name_Some [OF k(2)] full_name_Some [OF k'(2)] kinds_differ [OF k(1) k'(1) assms(3)] by simp
  with k f t' show ?thesis
    by (auto simp: file_holds_def file_to_read_def stat_ok_def)
qed

lemma read_size_holds:
  assumes "file_holds E p dt suffix bs t" and "length bs < 2 ^ 64" and "heap_ok E (length bs)"
  shows "RRTO_file_read_mem_size E (Some p) dt suffix None a t = Inr ((True, Some bs, Some (length bs)), t)"
  using assms
  by (auto simp: file_holds_def RRTO_file_read_mem_size_def fopen_r_def stored_bytes_def fread_def of_nat_le_u32 le_size
      read_data_def blit_def)

lemma read_holds:
  assumes "file_holds E p dt suffix bs t" and "length bs < 2 ^ 64" and "length m = length bs"
  shows "RRTO_file_read_mem E (Some p) dt suffix m (length bs) t = Inr ((True, bs), t)"
  using assms
  by (auto simp: file_holds_def RRTO_file_read_mem_def RRTO_file_read_mem_size_def fopen_r_def stored_bytes_def fread_def
      of_nat_le_u32 le_size read_data_def blit_def bind_t_def ret_t_def)

lemma holds_cong: "disk t' = disk t \<Longrightarrow> dirs t' = dirs t \<Longrightarrow> file_holds E p dt suffix bs t' = file_holds E p dt suffix bs t"
  by (simp add: file_holds_def file_to_read_def stat_ok_def split: option.splits)

end
