(* ===== verification/GpuDevice.thy ===== *)
theory GpuDevice
  imports GpuFile KernelInfo
begin

text \<open>
  The device as the debugger shows it (\<open>gpu/src/cricket-device.c\<close>, \<open>cricket-register.c\<close>,
  \<open>cricket-stack.c\<close>, \<open>cricket-heap.c\<close>): its properties, the registers and the local memory of a lane,
  and the size of an allocation of the application.
\<close>

section \<open>Properties\<close>

record RRTODeviceProp =
  dp_index :: u32
  dp_name :: string
  dp_type :: string
  dp_smType :: string
  numLanes :: u32
  numPredicates :: u32
  numRegisters :: u32
  numSMs :: u32
  numWarps :: u32

definition RRTO_device_get_num :: "'d env \<Rightarrow> ('d, u32 option) tool_fn" where
  "RRTO_device_get_num E = dbg_or None E ''getNumDevices'' [] (\<lambda>outs. ret_t (Some (out32 E outs 0)))"

text \<open>
  Every error ends in \<open>free(prop)\<close>, which is a mistake if the caller has not allocated the structure:
  \<open>on_heap\<close> says whether it has. The three names are blocks of 64 bytes.
\<close>

definition prop_error :: "bool \<Rightarrow> ('d, RRTODeviceProp option) tool_fn" where
  "prop_error on_heap = (if on_heap then ret_t None else lift_t (Inl Bad_Free))"

definition prop_call ::
  "'d env \<Rightarrow> bool \<Rightarrow> string \<Rightarrow> cval list \<Rightarrow> (cval list \<Rightarrow> ('d, RRTODeviceProp option) tool_fn) \<Rightarrow>
   ('d, RRTODeviceProp option) tool_fn" where
  "prop_call E on_heap name args k =
     bind_t (dbg E name args) (\<lambda>(res, outs). if res \<noteq> CUDBG_SUCCESS then prop_error on_heap else k outs)"

definition RRTO_device_get_prop :: "'d env \<Rightarrow> bool \<Rightarrow> u32 \<Rightarrow> bool \<Rightarrow> ('d, RRTODeviceProp option) tool_fn" where
  "RRTO_device_get_prop E prop_null device_index on_heap =
     (let i = Int32 device_index; STRLEN = Word64 64 in
      if prop_null then ret_t None
      else if \<not> heap_ok E 64 then prop_error on_heap
      else
        prop_call E on_heap ''getDeviceName'' [i, STRLEN] (\<lambda>name.
        prop_call E on_heap ''getDeviceType'' [i, STRLEN] (\<lambda>type.
        prop_call E on_heap ''getSmType'' [i, STRLEN] (\<lambda>sm.
        prop_call E on_heap ''getNumLanes'' [i] (\<lambda>lanes.
        prop_call E on_heap ''getNumPredicates'' [i] (\<lambda>preds.
        prop_call E on_heap ''getNumRegisters'' [i] (\<lambda>regs.
        prop_call E on_heap ''getNumSMs'' [i] (\<lambda>sms.
        prop_call E on_heap ''getNumWarps'' [i] (\<lambda>warps.
          ret_t (Some \<lparr>dp_index = device_index, dp_name = out_text name, dp_type = out_text type, dp_smType = out_text sm,
            numLanes = out32 E lanes 0, numPredicates = out32 E preds 0, numRegisters = out32 E regs 0,
            numSMs = out32 E sms 0, numWarps = out32 E warps 0\<rparr>))))))))))"

section \<open>Registers\<close>

text \<open>A lane of a warp of a streaming multiprocessor of a device; the arguments every call begins with.\<close>

record lane_id =
  l_dev :: u32
  l_sm :: u32
  l_warp :: u32
  l_lane :: u32

definition warp_args :: "lane_id \<Rightarrow> cval list" where
  "warp_args l = [Int32 (l_dev l), Int32 (l_sm l), Int32 (l_warp l)]"

definition lane_args :: "lane_id \<Rightarrow> cval list" where
  "lane_args l = warp_args l @ [Int32 (l_lane l)]"

definition word_at :: "u8 list \<Rightarrow> nat \<Rightarrow> u32 res" where
  "word_at m p = bind_r (rd m p 4) (\<lambda>n. Inr (of_nat n))"

fun rst_system_loop :: "'d env \<Rightarrow> lane_id \<Rightarrow> u8 list \<Rightarrow> nat \<Rightarrow> nat \<Rightarrow> ('d, bool) tool_fn" where
  "rst_system_loop E l m i 0 = ret_t True"
| "rst_system_loop E l m i (Suc n) =
     bind_t (lift_t (word_at m (4 * i))) (\<lambda>v.
     dbg_or False E ''writeRegister'' (lane_args l @ [Int32 (of_nat i), Int32 v]) (\<lambda>_. rst_system_loop E l m (i + 1) n))"

definition RRTO_register_rst_system_data :: "'d env \<Rightarrow> lane_id \<Rightarrow> u8 list \<Rightarrow> u32 \<Rightarrow> ('d, bool) tool_fn" where
  "RRTO_register_rst_system_data E l m register_num = rst_system_loop E l m 0 (unat register_num)"

definition RRTO_register_rst_cc_data :: "'d env \<Rightarrow> lane_id \<Rightarrow> u8 list \<Rightarrow> nat \<Rightarrow> ('d, bool) tool_fn" where
  "RRTO_register_rst_cc_data E l m dpos =
     bind_t (lift_t (word_at m dpos)) (\<lambda>v. dbg_or False E ''writeCCRegister'' (lane_args l @ [Int32 v]) (\<lambda>_. ret_t True))"

text \<open>What the debugger reads from a block must be inside it.\<close>

definition RRTO_register_rst_predicate_data :: "'d env \<Rightarrow> lane_id \<Rightarrow> u8 list \<Rightarrow> nat \<Rightarrow> u32 \<Rightarrow> ('d, bool) tool_fn" where
  "RRTO_register_rst_predicate_data E l m dpos register_num =
     bind_t (lift_t (Fatbin.read_block m dpos (4 * unat register_num))) (\<lambda>bs.
     dbg_or False E ''writePredicates'' (lane_args l @ [Int32 register_num, Bytes bs]) (\<lambda>_. ret_t True))"

text \<open>Reading a register file puts it into the block at a position; the result is the block.\<close>

definition RRTO_register_ckp_system_data :: "'d env \<Rightarrow> lane_id \<Rightarrow> u8 list \<Rightarrow> u32 \<Rightarrow> ('d, bool \<times> u8 list) tool_fn" where
  "RRTO_register_ckp_system_data E l m register_num =
     dbg_or (False, m) E ''readRegisterRange'' (lane_args l @ [Int32 0, Int32 register_num]) (\<lambda>outs.
     bind_t (lift_t (Fatbin.put m 0 (out_bytes E outs 0 (4 * unat register_num)))) (\<lambda>m. ret_t (True, m)))"

definition RRTO_register_ckp_cc_data :: "'d env \<Rightarrow> lane_id \<Rightarrow> u8 list \<Rightarrow> nat \<Rightarrow> ('d, bool \<times> u8 list) tool_fn" where
  "RRTO_register_ckp_cc_data E l m dpos =
     dbg_or (False, m) E ''readCCRegister'' (lane_args l) (\<lambda>outs.
     bind_t (lift_t (Fatbin.put m dpos (i32 (out32 E outs 0)))) (\<lambda>m. ret_t (True, m)))"

definition RRTO_register_ckp_predicate_data ::
  "'d env \<Rightarrow> lane_id \<Rightarrow> u8 list \<Rightarrow> nat \<Rightarrow> u32 \<Rightarrow> ('d, bool \<times> u8 list) tool_fn" where
  "RRTO_register_ckp_predicate_data E l m dpos register_num =
     dbg_or (False, m) E ''readPredicates'' (lane_args l @ [Int32 register_num]) (\<lambda>outs.
     bind_t (lift_t (Fatbin.put m dpos (out_bytes E outs 0 (4 * unat register_num)))) (\<lambda>m. ret_t (True, m)))"

text \<open>The sum is taken in 32 bits.\<close>

definition RRTO_register_size :: "RRTODeviceProp \<Rightarrow> nat" where
  "RRTO_register_size prop = unat (numRegisters prop + numPredicates prop + 1) * 4"

definition RRTO_register_rst :: "'d env \<Rightarrow> lane_id \<Rightarrow> u8 list \<Rightarrow> RRTODeviceProp \<Rightarrow> ('d, bool) tool_fn" where
  "RRTO_register_rst E l register_data prop =
     (let dpos = 4 * unat (numRegisters prop) in
      bind_t (RRTO_register_rst_system_data E l register_data (numRegisters prop)) (\<lambda>ret.
        if \<not> ret then ret_t ret
        else bind_t (RRTO_register_rst_cc_data E l register_data dpos) (\<lambda>ret.
        if \<not> ret then ret_t ret
        else RRTO_register_rst_predicate_data E l register_data (dpos + 4) (numPredicates prop))))"

definition RRTO_register_ckp :: "'d env \<Rightarrow> lane_id \<Rightarrow> u8 list \<Rightarrow> RRTODeviceProp \<Rightarrow> ('d, bool \<times> u8 list) tool_fn" where
  "RRTO_register_ckp E l register_data prop =
     (let dpos = 4 * unat (numRegisters prop) in
      bind_t (RRTO_register_ckp_system_data E l register_data (numRegisters prop)) (\<lambda>(ret, m).
        if \<not> ret then ret_t (ret, m)
        else bind_t (RRTO_register_ckp_cc_data E l m dpos) (\<lambda>(ret, m).
        if \<not> ret then ret_t (ret, m)
        else RRTO_register_ckp_predicate_data E l m (dpos + 4) (numPredicates prop))))"

section \<open>Local memory and parameters\<close>

text \<open>\<open>sp\<close> is the number of the register with the stack pointer, a constant of the debugger.\<close>

definition RRTO_stack_get_sp :: "'d env \<Rightarrow> u32 \<Rightarrow> lane_id \<Rightarrow> ('d, u32 option) tool_fn" where
  "RRTO_stack_get_sp E sp l =
     dbg_or None E ''readRegister'' (lane_args l @ [Int32 sp]) (\<lambda>outs. ret_t (Some (out32 E outs 0)))"

definition RRTO_stack_set_mem :: "'d env \<Rightarrow> lane_id \<Rightarrow> u8 list \<Rightarrow> u32 \<Rightarrow> u32 \<Rightarrow> ('d, bool) tool_fn" where
  "RRTO_stack_set_mem E l stack_mem stack_loc stack_size =
     bind_t (lift_t (Fatbin.read_block stack_mem 0 (unat stack_size))) (\<lambda>bs.
     dbg_or False E ''writeLocalMemory'' (lane_args l @ [Word64 (ucast stack_loc), Bytes bs, Int32 stack_size]) (\<lambda>_. ret_t True))"

definition RRTO_stack_get_mem :: "'d env \<Rightarrow> u32 \<Rightarrow> lane_id \<Rightarrow> u8 list \<Rightarrow> u32 \<Rightarrow> ('d, bool \<times> u8 list) tool_fn" where
  "RRTO_stack_get_mem E sp l stack_mem stack_size =
     bind_t (RRTO_stack_get_sp E sp l) (\<lambda>loc.
       case loc of None \<Rightarrow> ret_t (False, stack_mem)
       | Some loc \<Rightarrow>
           dbg_or (False, stack_mem) E ''readLocalMemory'' (lane_args l @ [Word64 (ucast loc), Int32 stack_size]) (\<lambda>outs.
           bind_t (lift_t (Fatbin.put stack_mem 0 (out_bytes E outs 0 (unat stack_size)))) (\<lambda>m. ret_t (True, m))))"

definition RRTO_param_get_mem :: "'d env \<Rightarrow> lane_id \<Rightarrow> u16 \<Rightarrow> u8 list \<Rightarrow> u16 \<Rightarrow> ('d, bool \<times> u8 list) tool_fn" where
  "RRTO_param_get_mem E l param_addr param_mem psize =
     dbg_or (False, param_mem) E ''readParamMemory'' (warp_args l @ [Word64 (ucast param_addr), Int32 (ucast psize)]) (\<lambda>outs.
     bind_t (lift_t (Fatbin.put param_mem 0 (out_bytes E outs 0 (unat psize)))) (\<lambda>m. ret_t (True, m)))"

section \<open>The application\<close>

text \<open>A command of the debugger, if there is such a command and it can be called.\<close>

definition RRTO_focus :: "'d env \<Rightarrow> string \<Rightarrow> ('d, bool) tool_fn" where
  "RRTO_focus E threadcmd =
     bind_t (dbg E ''lookup_cmd'' [Text threadcmd]) (\<lambda>(res, outs).
       if res \<noteq> 0 then ret_t False
       else bind_t (dbg E ''cmd_func'' [Text threadcmd]) (\<lambda>_. ret_t True))"

definition RRTO_focus_host :: "'d env \<Rightarrow> ('d, bool) tool_fn" where
  "RRTO_focus_host E = RRTO_focus E ''thread 1''"

definition RRTO_focus_kernel :: "'d env \<Rightarrow> ('d, bool) tool_fn" where
  "RRTO_focus_kernel E = RRTO_focus E ''cuda kernel 0''"

text \<open>The expression is evaluated in the application, by a call of its recorder.\<close>

definition RRTO_heap_memreg_size :: "'d env \<Rightarrow> u64 \<Rightarrow> bool \<Rightarrow> ('d, bool \<times> nat) tool_fn" where
  "RRTO_heap_memreg_size E addr size_null =
     (if size_null then ret_t (False, 0)
      else case asprintf E (''(size_t)api_records_malloc_get_size(0x'' @ hex (unat addr) @ '')'') of
        None \<Rightarrow> ret_t (False, 0)
      | Some callstr \<Rightarrow>
          bind_t (dbg E ''parse_and_eval_long'' [Text callstr]) (\<lambda>(_, outs).
            let sz = unat (out64 E outs 0) in ret_t (sz \<noteq> 0, sz)))"

section \<open>What the debugger promises of a lane\<close>

record lane_state =
  r_regs :: "nat \<Rightarrow> u32"
  r_cc :: u32
  r_preds :: "nat \<Rightarrow> u32"
  r_local :: "nat \<Rightarrow> u8"

definition words_block :: "(nat \<Rightarrow> u32) \<Rightarrow> nat \<Rightarrow> u8 list" where
  "words_block f n = concat (map (\<lambda>i. i32 (f i)) [0..<n])"

definition set_words :: "(nat \<Rightarrow> u32) \<Rightarrow> nat \<Rightarrow> u8 list \<Rightarrow> nat \<Rightarrow> u32" where
  "set_words f n bs = (\<lambda>i. if i < n then of_nat (le_val (blk (4 * i) 4 bs)) else f i)"

definition set_mem :: "(nat \<Rightarrow> u8) \<Rightarrow> nat \<Rightarrow> u8 list \<Rightarrow> nat \<Rightarrow> u8" where
  "set_mem f a bs = (\<lambda>i. if a \<le> i \<and> i < a + length bs then bs ! (i - a) else f i)"

definition read_mem :: "(nat \<Rightarrow> u8) \<Rightarrow> nat \<Rightarrow> nat \<Rightarrow> u8 list" where
  "read_mem f a n = map (\<lambda>i. f (a + i)) [0..<n]"

text \<open>A call that succeeds and changes one lane.\<close>

definition sets :: "'d env \<Rightarrow> ('d \<Rightarrow> lane_id \<Rightarrow> lane_state) \<Rightarrow> string \<Rightarrow> cval list \<Rightarrow> 'd \<Rightarrow> lane_id \<Rightarrow> lane_state \<Rightarrow> bool" where
  "sets E view name args d l st \<longleftrightarrow> (\<exists>d'. cuda E name args d = (0, [], d') \<and> view d' = (view d)(l := st))"

text \<open>The documented behaviour of the calls for registers and local memory, over what a lane holds.\<close>

definition lane_debugger :: "'d env \<Rightarrow> ('d \<Rightarrow> lane_id \<Rightarrow> lane_state) \<Rightarrow> bool" where
  "lane_debugger E view \<longleftrightarrow> (\<forall>d l.
     (\<forall>n. cuda E ''readRegisterRange'' (lane_args l @ [Int32 0, Int32 n]) d =
            (0, [Bytes (words_block (r_regs (view d l)) (unat n))], d)) \<and>
     (\<forall>k. cuda E ''readRegister'' (lane_args l @ [Int32 k]) d = (0, [Int32 (r_regs (view d l) (unat k))], d)) \<and>
     cuda E ''readCCRegister'' (lane_args l) d = (0, [Int32 (r_cc (view d l))], d) \<and>
     (\<forall>n. cuda E ''readPredicates'' (lane_args l @ [Int32 n]) d =
            (0, [Bytes (words_block (r_preds (view d l)) (unat n))], d)) \<and>
     (\<forall>a n. cuda E ''readLocalMemory'' (lane_args l @ [Word64 a, Int32 n]) d =
            (0, [Bytes (read_mem (r_local (view d l)) (unat a) (unat n))], d)) \<and>
     (\<forall>k v. sets E view ''writeRegister'' (lane_args l @ [Int32 k, Int32 v]) d l
            ((view d l)\<lparr>r_regs := (r_regs (view d l))(unat k := v)\<rparr>)) \<and>
     (\<forall>v. sets E view ''writeCCRegister'' (lane_args l @ [Int32 v]) d l ((view d l)\<lparr>r_cc := v\<rparr>)) \<and>
     (\<forall>n bs. sets E view ''writePredicates'' (lane_args l @ [Int32 n, Bytes bs]) d l
            ((view d l)\<lparr>r_preds := set_words (r_preds (view d l)) (unat n) bs\<rparr>)) \<and>
     (\<forall>a n bs. sets E view ''writeLocalMemory'' (lane_args l @ [Word64 a, Bytes bs, Int32 n]) d l
            ((view d l)\<lparr>r_local := set_mem (r_local (view d l)) (unat a) bs\<rparr>)))"

lemma lane_debuggerD:
  assumes "lane_debugger E view"
  shows "cuda E ''readRegisterRange'' (lane_args l @ [Int32 0, Int32 n]) d =
            (0, [Bytes (words_block (r_regs (view d l)) (unat n))], d)"
    and "cuda E ''readRegister'' (lane_args l @ [Int32 n]) d = (0, [Int32 (r_regs (view d l) (unat n))], d)"
    and "cuda E ''readCCRegister'' (lane_args l) d = (0, [Int32 (r_cc (view d l))], d)"
    and "cuda E ''readPredicates'' (lane_args l @ [Int32 n]) d =
            (0, [Bytes (words_block (r_preds (view d l)) (unat n))], d)"
    and "cuda E ''readLocalMemory'' (lane_args l @ [Word64 a, Int32 n]) d =
            (0, [Bytes (read_mem (r_local (view d l)) (unat a) (unat n))], d)"
  using assms by (auto simp: lane_debugger_def)

lemma lane_debugger_sets:
  assumes "lane_debugger E view"
  shows "sets E view ''writeRegister'' (lane_args l @ [Int32 n, Int32 v]) d l
            ((view d l)\<lparr>r_regs := (r_regs (view d l))(unat n := v)\<rparr>)"
    and "sets E view ''writeCCRegister'' (lane_args l @ [Int32 v]) d l ((view d l)\<lparr>r_cc := v\<rparr>)"
    and "sets E view ''writePredicates'' (lane_args l @ [Int32 n, Bytes bs]) d l
            ((view d l)\<lparr>r_preds := set_words (r_preds (view d l)) (unat n) bs\<rparr>)"
    and "sets E view ''writeLocalMemory'' (lane_args l @ [Word64 a, Bytes bs, Int32 n]) d l
            ((view d l)\<lparr>r_local := set_mem (r_local (view d l)) (unat a) bs\<rparr>)"
  using assms by (simp_all add: lane_debugger_def)

lemma dbg_or_sets:
  assumes "sets E view name args (gdev t) l st"
  obtains d where "\<And>k. dbg_or z E name args k t = k [] (t\<lparr>gdev := d\<rparr>)" and "view d = (view (gdev t))(l := st)"
  using assms by (auto simp: sets_def dbg_or_success)

section \<open>Blocks of registers\<close>

lemma words_block_0 [simp]: "words_block f 0 = []"
  by (simp add: words_block_def)

lemma words_block_Suc: "words_block f (Suc n) = words_block f n @ i32 (f n)"
  by (simp add: words_block_def)

lemma length_words_block [simp]: "length (words_block f n) = 4 * n"
  by (induction n) (auto simp: words_block_Suc)

lemma blk_words_block: "i < n \<Longrightarrow> blk (4 * i) 4 (words_block f n) = i32 (f i)"
proof (induction n)
  case (Suc n)
  show ?case
  proof (cases "i = n")
    case True
    then show ?thesis
      using blk_append_at [of "words_block f n" "i32 (f n)" "[]"] by (simp add: words_block_Suc)
  next
    case False
    with Suc have i: "i < n" by simp
    then have "blk (4 * i) 4 (words_block f n @ i32 (f n)) = blk (4 * i) 4 (words_block f n)"
      by (simp add: blk_def take_drop)
    with Suc.IH [OF i] show ?thesis by (simp add: words_block_Suc)
  qed
qed simp

lemma blk_words_block_append: "i < n \<Longrightarrow> blk (4 * i) 4 (words_block f n @ rest) = i32 (f i)"
  using blk_words_block [of i n f] by (simp add: blk_def take_drop)

lemma word_at_block: "i < n \<Longrightarrow> word_at (words_block f n @ rest) (4 * i) = Inr (f i)"
  by (simp add: word_at_def rd_def blk_words_block_append i32_def of_nat_le_u32)

lemma set_words_block: "set_words g n (words_block f n) = (\<lambda>i. if i < n then f i else g i)"
  by (rule ext) (simp add: set_words_def blk_words_block i32_def of_nat_le_u32)

lemma length_read_mem [simp]: "length (read_mem f a n) = n"
  by (simp add: read_mem_def)

lemma set_mem_read: "set_mem g a (read_mem f a n) = (\<lambda>i. if a \<le> i \<and> i < a + n then f i else g i)"
  by (rule ext) (auto simp: set_mem_def read_mem_def)

section \<open>The registers of a lane go to a block and back\<close>

definition lane_block :: "lane_state \<Rightarrow> RRTODeviceProp \<Rightarrow> u8 list" where
  "lane_block st prop = words_block (r_regs st) (unat (numRegisters prop)) @ i32 (r_cc st) @
     words_block (r_preds st) (unat (numPredicates prop))"

definition sane_prop :: "RRTODeviceProp \<Rightarrow> bool" where
  "sane_prop prop \<longleftrightarrow> unat (numRegisters prop) + unat (numPredicates prop) + 1 < 2 ^ 32"

lemma register_size_eq:
  assumes "sane_prop prop"
  shows "RRTO_register_size prop = 4 * (unat (numRegisters prop) + unat (numPredicates prop) + 1)"
proof -
  have "unat (numRegisters prop + numPredicates prop + 1) = unat (numRegisters prop) + unat (numPredicates prop) + 1"
    using assms by (simp add: sane_prop_def unat_word_ariths)
  then show ?thesis by (simp add: RRTO_register_size_def)
qed

lemma length_lane_block: "sane_prop prop \<Longrightarrow> length (lane_block st prop) = RRTO_register_size prop"
  by (simp add: lane_block_def register_size_eq)

lemma register_ckp_block:
  assumes "lane_debugger E view" and "sane_prop prop" and "length m = RRTO_register_size prop"
  shows "RRTO_register_ckp E l m prop t = Inr ((True, lane_block (view (gdev t) l) prop), t)"
proof -
  let ?r = "words_block (r_regs (view (gdev t) l)) (unat (numRegisters prop))"
    and ?c = "i32 (r_cc (view (gdev t) l))" and ?p = "words_block (r_preds (view (gdev t) l)) (unat (numPredicates prop))"
  note D = lane_debuggerD [OF assms(1)]
  have len: "length m = 4 * unat (numRegisters prop) + 4 + 4 * unat (numPredicates prop)"
    using assms(2,3) by (simp add: register_size_eq)
  have ob: "out_bytes E [Bytes bs] 0 (length bs) = bs" for bs
    by (simp add: out_bytes_def)
  obtain m1 m' where m1: "m = m1 @ m'" "length m1 = 4 * unat (numRegisters prop)"
    by (rule that [of "take (4 * unat (numRegisters prop)) m" "drop (4 * unat (numRegisters prop)) m"]) (simp_all add: len)
  then have "length m' = 4 + 4 * unat (numPredicates prop)" using len by simp
  then obtain m2 m3 where m: "m = m1 @ m2 @ m3" "length m1 = length ?r" "length m2 = 4" "length m3 = length ?p"
    using m1 that [of "take 4 m'" "drop 4 m'"] by simp
  have 1: "RRTO_register_ckp_system_data E l m (numRegisters prop) t = Inr ((True, ?r @ m2 @ m3), t)"
    using ob [of ?r] m
    by (simp add: RRTO_register_ckp_system_data_def dbg_or_success [OF D(1)] bind_t_def lift_t_def ret_t_def
        Fatbin.put_def blit_def)
  have 2: "RRTO_register_ckp_cc_data E l (?r @ m2 @ m3) (4 * unat (numRegisters prop)) t = Inr ((True, ?r @ ?c @ m3), t)"
    using m
    by (simp add: RRTO_register_ckp_cc_data_def dbg_or_success [OF D(3)] bind_t_def lift_t_def ret_t_def
        Fatbin.put_def blit_def out32_def)
  have 3: "RRTO_register_ckp_predicate_data E l (?r @ ?c @ m3) (4 * unat (numRegisters prop) + 4) (numPredicates prop) t =
      Inr ((True, ?r @ ?c @ ?p), t)"
    using ob [of ?p] m
    by (simp add: RRTO_register_ckp_predicate_data_def dbg_or_success [OF D(4)] bind_t_def lift_t_def ret_t_def
        Fatbin.put_def blit_def)
  show ?thesis
    by (simp add: RRTO_register_ckp_def Let_def bind_t_def 1 2 3 lane_block_def)
qed

lemma rst_system_loop_ok:
  assumes "lane_debugger E view" and "i + n \<le> k" and "k < 2 ^ 32"
  shows "\<exists>d. rst_system_loop E l (words_block f k @ rest) i n t = Inr (True, t\<lparr>gdev := d\<rparr>) \<and>
    view d = (view (gdev t))(l := (view (gdev t) l)\<lparr>r_regs := (\<lambda>j. if i \<le> j \<and> j < i + n then f j else r_regs (view (gdev t) l) j)\<rparr>)"
  using assms(2)
proof (induction n arbitrary: i t)
  case 0
  have "(\<lambda>j. if i \<le> j \<and> j < i + 0 then f j else r_regs (view (gdev t) l) j) = r_regs (view (gdev t) l)"
    by (rule ext) auto
  then show ?case by (intro exI [of _ "gdev t"]) (simp add: ret_t_def)
next
  case (Suc n)
  have u: "unat (of_nat i :: u32) = i"
    using Suc.prems assms(3) by (simp add: unat_of_nat take_bit_eq_mod)
  obtain d where d: "cuda E ''writeRegister'' (lane_args l @ [Int32 (of_nat i), Int32 (f i)]) (gdev t) = (0, [], d)"
      and v: "view d = (view (gdev t))(l := (view (gdev t) l)\<lparr>r_regs := (r_regs (view (gdev t) l))(i := f i)\<rparr>)"
    using lane_debugger_sets(1) [OF assms(1), of l "of_nat i" "f i" "gdev t"] by (auto simp: sets_def u)
  have w: "word_at (words_block f k @ rest) (4 * i) = Inr (f i)"
    using Suc.prems by (intro word_at_block) simp
  have "i + 1 + n \<le> k" using Suc.prems by simp
  define t1 where "t1 = t\<lparr>gdev := d\<rparr>"
  have g: "gdev t1 = d" "\<And>d'. t1\<lparr>gdev := d'\<rparr> = t\<lparr>gdev := d'\<rparr>" by (simp_all add: t1_def)
  from Suc.IH [OF \<open>i + 1 + n \<le> k\<close>, of t1, unfolded g]
  obtain d' where "rst_system_loop E l (words_block f k @ rest) (i + 1) n t1 = Inr (True, t\<lparr>gdev := d'\<rparr>)"
      and v': "view d' = (view d)(l := (view d l)\<lparr>r_regs := (\<lambda>j. if i + 1 \<le> j \<and> j < i + 1 + n then f j else r_regs (view d l) j)\<rparr>)"
    by blast
  then have "rst_system_loop E l (words_block f k @ rest) i (Suc n) t = Inr (True, t\<lparr>gdev := d'\<rparr>)"
    by (simp add: w dbg_or_success [OF d] t1_def)
  moreover have "view d' = (view (gdev t))(l := (view (gdev t) l)\<lparr>r_regs :=
      (\<lambda>j. if i \<le> j \<and> j < i + Suc n then f j else r_regs (view (gdev t) l) j)\<rparr>)"
    unfolding v' v by (auto simp: fun_eq_iff)
  ultimately show ?case by blast
qed

text \<open>What is put back into a lane from the block of another state of it.\<close>

definition restored_regs :: "RRTODeviceProp \<Rightarrow> lane_state \<Rightarrow> lane_state \<Rightarrow> lane_state" where
  "restored_regs prop saved st = st\<lparr>
     r_regs := (\<lambda>i. if i < unat (numRegisters prop) then r_regs saved i else r_regs st i),
     r_cc := r_cc saved,
     r_preds := (\<lambda>i. if i < unat (numPredicates prop) then r_preds saved i else r_preds st i)\<rparr>"

lemma register_rst_block:
  assumes "lane_debugger E view"
  shows "\<exists>d. RRTO_register_rst E l (lane_block st prop) prop t = Inr (True, t\<lparr>gdev := d\<rparr>) \<and>
    view d = (view (gdev t))(l := restored_regs prop st (view (gdev t) l))"
proof -
  let ?nr = "unat (numRegisters prop)" and ?np = "unat (numPredicates prop)"
  let ?r = "words_block (r_regs st) ?nr" and ?p = "words_block (r_preds st) ?np"
  let ?m = "?r @ i32 (r_cc st) @ ?p"
  obtain d1 where 1: "RRTO_register_rst_system_data E l ?m (numRegisters prop) t = Inr (True, t\<lparr>gdev := d1\<rparr>)"
      and v1: "view d1 = (view (gdev t))(l := (view (gdev t) l)\<lparr>r_regs := (\<lambda>j. if j < ?nr then r_regs st j else r_regs (view (gdev t) l) j)\<rparr>)"
    using rst_system_loop_ok [OF assms, of 0 ?nr ?nr l "r_regs st" "i32 (r_cc st) @ ?p" t] unat_u32_less [of "numRegisters prop"]
    by (auto simp: RRTO_register_rst_system_data_def)
  have w: "word_at ?m (4 * ?nr) = Inr (r_cc st)"
    using blk_append_at [of ?r "i32 (r_cc st)" ?p] by (simp add: word_at_def rd_def i32_def of_nat_le_u32)
  obtain d2 where s2: "cuda E ''writeCCRegister'' (lane_args l @ [Int32 (r_cc st)]) (gdev (t\<lparr>gdev := d1\<rparr>)) = (0, [], d2)"
      and v2: "view d2 = (view d1)(l := (view d1 l)\<lparr>r_cc := r_cc st\<rparr>)"
    using lane_debugger_sets(2) [OF assms, of l "r_cc st" d1] by (auto simp: sets_def)
  have 2: "RRTO_register_rst_cc_data E l ?m (4 * ?nr) (t\<lparr>gdev := d1\<rparr>) = Inr (True, t\<lparr>gdev := d2\<rparr>)"
    by (simp add: RRTO_register_rst_cc_data_def w dbg_or_success [OF s2] ret_t_def)
  have b: "Fatbin.read_block ?m (4 * ?nr + 4) (4 * ?np) = Inr ?p"
    using blk_append_at [of "?r @ i32 (r_cc st)" ?p "[]"] by (simp add: Fatbin.read_block_def)
  obtain d3 where s3: "cuda E ''writePredicates'' (lane_args l @ [Int32 (numPredicates prop), Bytes ?p]) (gdev (t\<lparr>gdev := d2\<rparr>)) = (0, [], d3)"
      and v3: "view d3 = (view d2)(l := (view d2 l)\<lparr>r_preds := set_words (r_preds (view d2 l)) ?np ?p\<rparr>)"
    using lane_debugger_sets(3) [OF assms, of l "numPredicates prop" ?p d2] by (auto simp: sets_def)
  have 3: "RRTO_register_rst_predicate_data E l ?m (4 * ?nr + 4) (numPredicates prop) (t\<lparr>gdev := d2\<rparr>) = Inr (True, t\<lparr>gdev := d3\<rparr>)"
    by (simp add: RRTO_register_rst_predicate_data_def b dbg_or_success [OF s3] ret_t_def)
  have "view d3 = (view (gdev t))(l := restored_regs prop st (view (gdev t) l))"
    unfolding v3 v2 v1 set_words_block restored_regs_def by (auto simp: fun_eq_iff)
  moreover have "RRTO_register_rst E l (lane_block st prop) prop t = Inr (True, t\<lparr>gdev := d3\<rparr>)"
    by (simp add: RRTO_register_rst_def Let_def lane_block_def bind_t_def 1 2 3)
  ultimately show ?thesis by blast
qed

section \<open>Local memory\<close>

lemma unat_ucast_u64: "unat (ucast (w :: u32) :: u64) = unat w"
  using unat_u32_less [of w] by (simp add: unsigned_ucast_eq take_bit_nat_eq_self)

lemma stack_get_mem_read:
  assumes "lane_debugger E view" and "length m = unat n"
  shows "RRTO_stack_get_mem E sp l m n t =
    Inr ((True, read_mem (r_local (view (gdev t) l)) (unat (r_regs (view (gdev t) l) (unat sp))) (unat n)), t)"
proof -
  note D = lane_debuggerD [OF assms(1)]
  have ob: "out_bytes E [Bytes bs] 0 (length bs) = bs" for bs
    by (simp add: out_bytes_def)
  let ?loc = "r_regs (view (gdev t) l) (unat sp)"
  let ?bs = "read_mem (r_local (view (gdev t) l)) (unat ?loc) (unat n)"
  have u: "unat (ucast ?loc :: u64) = unat ?loc"
    by (rule unat_ucast_u64)
  have 1: "RRTO_stack_get_sp E sp l t = Inr (Some ?loc, t)"
    by (simp add: RRTO_stack_get_sp_def dbg_or_success [OF D(2)] out32_def ret_t_def)
  show ?thesis
    using ob [of ?bs] assms(2)
    by (simp add: RRTO_stack_get_mem_def bind_t_def 1 dbg_or_success [OF D(5)] u lift_t_def ret_t_def Fatbin.put_def blit_def)
qed

lemma stack_set_mem_write:
  assumes "lane_debugger E view" and "length bs = unat n"
  shows "\<exists>d. RRTO_stack_set_mem E l bs loc n t = Inr (True, t\<lparr>gdev := d\<rparr>) \<and>
    view d = (view (gdev t))(l := (view (gdev t) l)\<lparr>r_local := set_mem (r_local (view (gdev t) l)) (unat loc) bs\<rparr>)"
proof -
  have u: "unat (ucast loc :: u64) = unat loc"
    by (rule unat_ucast_u64)
  have r: "Fatbin.read_block bs 0 (unat n) = Inr bs"
    using assms(2) by (simp add: Fatbin.read_block_def blk_def)
  obtain d where d: "cuda E ''writeLocalMemory'' (lane_args l @ [Word64 (ucast loc), Bytes bs, Int32 n]) (gdev t) = (0, [], d)"
      and v: "view d = (view (gdev t))(l := (view (gdev t) l)\<lparr>r_local := set_mem (r_local (view (gdev t) l)) (unat loc) bs\<rparr>)"
    using lane_debugger_sets(4) [OF assms(1), of l "ucast loc" bs n "gdev t"] by (auto simp: sets_def u)
  have "RRTO_stack_set_mem E l bs loc n t = Inr (True, t\<lparr>gdev := d\<rparr>)"
    by (simp add: RRTO_stack_set_mem_def r dbg_or_success [OF d] ret_t_def)
  with v show ?thesis by blast
qed

end
