(* ===== verification/GpuElf.thy ===== *)
theory GpuElf
  imports GpuDevice KernelInfo
begin

unbundle bit_operations_syntax

text \<open>
  The binaries of kernels (\<open>gpu/src/cricket-elf.c\<close>, \<open>gpu/include/cricket-elf.h\<close>): the attributes of a
  kernel, the instructions a checkpoint depends on, and the patch that puts a jump table into the
  room of breakpoints each kernel has been compiled with. What the debugger knows of the program, and
  the library for object files, are the record \<open>gdb\<close>.
\<close>

section \<open>What the debugger knows\<close>

record gpu_section =
  gs_name :: string
  gs_size :: nat
  gs_filepos :: nat
  gs_contents :: "u8 list option"

datatype msymbol_type = mst_data | mst_bss | mst_abs | mst_other

record msymbol =
  ms_name :: string
  ms_type :: msymbol_type
  ms_address :: u64
  ms_size :: u64

record objfile =
  of_bfd :: bool
  of_elf_data :: bool
  of_cuda :: bool
  of_symtab :: "string list"
  of_sections :: "gpu_section list"
  of_msymbols :: "msymbol list"

text \<open>Opening the object file in a block of memory: whether its format is right, and its sections.\<close>

datatype bfd_result = No_Bfd | Bfd bool "gpu_section list"

record gdb =
  objfiles :: "objfile list"
  function_of_pc :: "u64 \<Rightarrow> string option"
  sp_regnum :: u32
  bfd_open :: "u8 list \<Rightarrow> bfd_result"

definition elf_objfiles :: "gdb \<Rightarrow> objfile list" where
  "elf_objfiles G = filter (\<lambda>f. of_bfd f \<and> of_elf_data f \<and> of_cuda f) (objfiles G)"

section \<open>Files\<close>

text \<open>A second attempt is made after the existing file has been deleted; deleting never fails here.\<close>

definition RRTO_file_cpy :: "string \<Rightarrow> string \<Rightarrow> fsys \<Rightarrow> bool \<times> fsys" where
  "RRTO_file_cpy source destination fs =
     (case files fs source of None \<Rightarrow> (False, fs)
      | Some c \<Rightarrow>
          let fs = (if creatable fs destination then fs else fs\<lparr>files := (files fs)(destination := None)\<rparr>) in
          case fopen_w destination fs of None \<Rightarrow> (False, fs)
          | Some fs \<Rightarrow> (True, snd (fwrite destination c fs)))"

section \<open>Global variables\<close>

record global_var =
  gv_symbol :: string
  gv_address :: u64
  gv_size :: u64

definition is_variable :: "msymbol \<Rightarrow> bool" where
  "is_variable m \<longleftrightarrow> ms_type m \<in> {mst_data, mst_bss, mst_abs}"

text \<open>The last six characters are compared, without asking whether there are as many.\<close>

fun global_vars :: "msymbol list \<Rightarrow> global_var list res" where
  "global_vars [] = Inr []"
| "global_vars (m # ms) =
     (if \<not> is_variable m then global_vars ms
      else if length (ms_name m) < 6 then Inl Out_Of_Bounds
      else if drop (length (ms_name m) - 6) (ms_name m) = ''_const'' then global_vars ms
      else bind_r (global_vars ms) (\<lambda>gs.
        Inr (\<lparr>gv_symbol = ms_name m, gv_address = ms_address m, gv_size = ms_size m\<rparr> # gs)))"

definition RRTO_elf_get_global_vars_info :: "'d env \<Rightarrow> gdb \<Rightarrow> global_var list option res" where
  "RRTO_elf_get_global_vars_info E G =
     (let ms = concat (map of_msymbols (elf_objfiles G)) in
      if \<not> heap_ok E (24 * length (filter is_variable ms)) then Inr None
      else bind_r (global_vars ms) (\<lambda>gs. Inr (Some gs)))"

section \<open>Attributes\<close>

text \<open>The index of a name in the symbol table; the block for the table is not checked.\<close>

definition RRTO_elf_get_symindex :: "'d env \<Rightarrow> objfile \<Rightarrow> string \<Rightarrow> nat option res" where
  "RRTO_elf_get_symindex E f name =
     (if \<not> heap_ok E (8 * (length (of_symtab f) + 1)) then Inl Null_Deref
      else let i = length (takeWhile (\<lambda>n. n \<noteq> name) (of_symtab f)) in
           Inr (if i < length (of_symtab f) then Some i else None))"

definition stack_size_filter :: "nat \<Rightarrow> u8 list \<Rightarrow> bool" where
  "stack_size_filter kernel_i bs \<longleftrightarrow> of_nat (le_val (take 4 bs)) = (of_nat kernel_i + 1 :: u32)"

text \<open>
  An entry is a format, an attribute and a size; only the values of one format follow it and are
  skipped, and none are skipped behind an entry of the wrong size. (The loops also read two words
  ahead that they do not use.)
\<close>

function extract_multiple_loop :: "u8 list \<Rightarrow> nat \<Rightarrow> nat \<Rightarrow> nat \<Rightarrow> bool \<Rightarrow> u8 list list \<Rightarrow> (bool \<times> u8 list list) res" where
  "extract_multiple_loop m attribute size_wanted p found acc =
     (if p < length m
      then bind_r (rd m p 1) (\<lambda>format. bind_r (rd m (p + 1) 1) (\<lambda>attr. bind_r (rd m (p + 2) 2) (\<lambda>sz.
        if attr = attribute
        then (if format = EIFMT_SVAL \<and> sz = size_wanted
              then bind_r (Fatbin.read_block m (p + 4) sz) (\<lambda>bs.
                extract_multiple_loop m attribute size_wanted (p + 4 + sz) True (acc @ [bs]))
              else extract_multiple_loop m attribute size_wanted (p + 4) False acc)
        else extract_multiple_loop m attribute size_wanted (p + 4 + (if format = EIFMT_SVAL then sz else 0)) found acc)))
      else Inr (found, acc))"
  by pat_completeness auto
termination by (relation "measure (\<lambda>(m, a, s, p, f, acc). length m - p)") auto

declare extract_multiple_loop.simps [simp del]

definition RRTO_elf_extract_multiple_attributes ::
  "'d env \<Rightarrow> gpu_section \<Rightarrow> nat \<Rightarrow> nat \<Rightarrow> (bool \<times> u8 list list) res" where
  "RRTO_elf_extract_multiple_attributes E sec attribute size_wanted =
     (if \<not> heap_ok E (gs_size sec) then Inr (False, [])
      else case gs_contents sec of None \<Rightarrow> Inr (False, [])
      | Some m \<Rightarrow> extract_multiple_loop m attribute size_wanted 0 False [])"

function extract_loop :: "u8 list \<Rightarrow> nat \<Rightarrow> nat \<Rightarrow> (u8 list \<Rightarrow> bool) \<Rightarrow> nat \<Rightarrow> u8 list option res" where
  "extract_loop m attribute size_wanted P p =
     (if p < length m
      then bind_r (rd m p 1) (\<lambda>format. bind_r (rd m (p + 1) 1) (\<lambda>attr. bind_r (rd m (p + 2) 2) (\<lambda>sz.
        if attr = attribute \<and> \<not> (format = EIFMT_SVAL \<and> sz = size_wanted)
        then extract_loop m attribute size_wanted P (p + 4)
        else if attr = attribute
        then bind_r (Fatbin.read_block m (p + 4) sz) (\<lambda>bs.
               if P bs then Inr (Some bs) else extract_loop m attribute size_wanted P (p + 4 + sz))
        else extract_loop m attribute size_wanted P (p + 4 + (if format = EIFMT_SVAL then sz else 0)))))
      else Inr None)"
  by pat_completeness auto
termination by (relation "measure (\<lambda>(m, a, s, P, p). length m - p)") auto

declare extract_loop.simps [simp del]

text \<open>The filter is optional; without one every entry passes.\<close>

definition RRTO_elf_extract_attribute ::
  "'d env \<Rightarrow> gpu_section \<Rightarrow> nat \<Rightarrow> nat \<Rightarrow> (u8 list \<Rightarrow> bool) option \<Rightarrow> u8 list option res" where
  "RRTO_elf_extract_attribute E sec attribute size_wanted filter_func =
     (if \<not> heap_ok E (gs_size sec) then Inr None
      else case gs_contents sec of None \<Rightarrow> Inr None
      | Some m \<Rightarrow> extract_loop m attribute size_wanted (case filter_func of None \<Rightarrow> (\<lambda>_. True) | Some P \<Rightarrow> P) 0)"

record gpu_param =
  gp_index :: u16
  gp_offset :: u16
  gp_size :: u16

text \<open>The parameters are \<open>None\<close> as long as they are not set.\<close>

record elf_info =
  ei_stack_size :: u32
  ei_param_addr :: u16
  ei_param_size :: u16
  ei_params :: "gpu_param list option"
  ei_shared_size :: nat

definition EIATTR_MIN_STACK_SIZE :: nat where "EIATTR_MIN_STACK_SIZE = 18"
definition EIATTR_PARAM_CBANK :: nat where "EIATTR_PARAM_CBANK = 10"
definition RRTO_ELF_NV_INFO_PREFIX :: string where "RRTO_ELF_NV_INFO_PREFIX = ''.nv.info''"
definition RRTO_ELF_NV_SHARED_PREFIX :: string where "RRTO_ELF_NV_SHARED_PREFIX = ''.nv.shared.''"

definition half :: "u8 list \<Rightarrow> nat \<Rightarrow> u16" where
  "half bs p = of_nat (le_val (blk p 2 bs))"

definition param_of :: "u8 list \<Rightarrow> gpu_param" where
  "param_of bs = \<lparr>gp_index = half bs 4, gp_offset = half bs 6, gp_size = drop_bit 2 (half bs 10)\<rparr>"

text \<open>
  One section. The eight bytes an attribute is copied to are not set if there is none. The name of
  the function need only be a prefix of what follows the prefix of the section.
\<close>

definition starts :: "string \<Rightarrow> string \<Rightarrow> bool" where
  "starts p s \<longleftrightarrow> take (length p) s = p"

definition RRTO_elf_extract_shared_size :: "gpu_section \<Rightarrow> bool \<times> nat" where
  "RRTO_elf_extract_shared_size sec = (0 < gs_size sec, gs_size sec)"

definition section_info ::
  "'d env \<Rightarrow> string \<Rightarrow> nat \<Rightarrow> gpu_section \<Rightarrow> u8 list \<times> elf_info \<Rightarrow> (u8 list \<times> elf_info) res" where
  "section_info E function_name kernel_index sec st =
     (case st of (buf, info) \<Rightarrow>
        if gs_name sec = RRTO_ELF_NV_INFO_PREFIX
        then bind_r (RRTO_elf_extract_attribute E sec EIATTR_MIN_STACK_SIZE 8 (Some (stack_size_filter kernel_index))) (\<lambda>r.
          let buf = (case r of None \<Rightarrow> buf | Some bs \<Rightarrow> bs) in
          Inr (buf, info\<lparr>ei_stack_size := of_nat (le_val (blk 4 4 buf))\<rparr>))
        else if starts RRTO_ELF_NV_INFO_PREFIX (gs_name sec) \<and>
             starts function_name (drop (length RRTO_ELF_NV_INFO_PREFIX + 1) (gs_name sec))
        then bind_r (RRTO_elf_extract_multiple_attributes E sec EIATTR_KPARAM_INFO 12) (\<lambda>(_, attrs).
          if \<not> heap_ok E (8 * length attrs) \<and> attrs \<noteq> [] then Inl Null_Deref
          else bind_r (RRTO_elf_extract_attribute E sec EIATTR_PARAM_CBANK 8 None) (\<lambda>r.
            let buf = (case r of None \<Rightarrow> buf | Some bs \<Rightarrow> bs) in
            Inr (buf, info\<lparr>ei_params := Some (map param_of attrs), ei_param_size := half buf 6, ei_param_addr := half buf 4\<rparr>)))
        else if starts (butlast RRTO_ELF_NV_SHARED_PREFIX) (gs_name sec)
        then Inr (buf, info\<lparr>ei_shared_size := snd (RRTO_elf_extract_shared_size sec)\<rparr>)
        else Inr (buf, info))"

fun fold_res :: "('a \<Rightarrow> 's \<Rightarrow> 's res) \<Rightarrow> 'a list \<Rightarrow> 's \<Rightarrow> 's res" where
  "fold_res f [] s = Inr s"
| "fold_res f (x # xs) s = bind_r (f x s) (fold_res f xs)"

text \<open>The function always returns false; its callers do not look.\<close>

definition RRTO_elf_get_info :: "'d env \<Rightarrow> gdb \<Rightarrow> string \<Rightarrow> elf_info \<Rightarrow> (bool \<times> elf_info) res" where
  "RRTO_elf_get_info E G function_name info =
     bind_r (fold_res (\<lambda>f st.
         if \<not> of_bfd f \<or> \<not> of_cuda f then Inr st
         else bind_r (RRTO_elf_get_symindex E f function_name) (\<lambda>i.
           case i of None \<Rightarrow> Inr st
           | Some kernel_index \<Rightarrow> fold_res (section_info E function_name kernel_index) (of_sections f) st))
       (objfiles G) (replicate 8 (fresh_byte E), info\<lparr>ei_shared_size := 0\<rparr>))
     (\<lambda>(_, info). Inr (False, info))"

end
