(* ===== verification/GpuSass.thy ===== *)
theory GpuSass
  imports GpuElf
begin

unbundle bit_operations_syntax

text \<open>
  The instructions a checkpoint depends on, and the jump table (\<open>gpu/src/cricket-elf.c\<close>). A kernel is
  compiled with a run of breakpoint instructions; a patched copy of the program has in their place
  jumps to every synchronisation point and every return point, so that a restored lane can set up its
  stack of them. Every fourth word of the code is a control word. A function is a position and a
  size in a block with the code; the counts stay far below \<open>2 ^ 32\<close>, so they are natural numbers.
\<close>

section \<open>Instructions\<close>

definition RRTO_SASS_NOP :: u64 where "RRTO_SASS_NOP = 0x50b0000000070f00"
definition RRTO_SASS_JMX :: "u64 \<Rightarrow> u64" where "RRTO_SASS_JMX r = 0xe20000000007000f OR push_bit 8 (r AND 0xff)"
definition RRTO_SASS_BRX :: "u64 \<Rightarrow> u64" where "RRTO_SASS_BRX r = 0xe25000000007000f OR push_bit 8 (r AND 0xff)"
definition RRTO_SASS_SSY :: "u64 \<Rightarrow> u64" where "RRTO_SASS_SSY a = 0xe290000000000000 OR push_bit 20 (a AND 0xffffffff)"
definition RRTO_SASS_PRET :: "u64 \<Rightarrow> u64" where "RRTO_SASS_PRET a = 0xe270000000000040 OR push_bit 20 (a AND 0xffffffff)"
definition RRTO_SASS_SYNC :: "u64 \<Rightarrow> u64" where "RRTO_SASS_SYNC p = 0xf0f800000000000f OR push_bit 20 (p AND 0xf)"
definition RRTO_SASS_EXIT :: u64 where "RRTO_SASS_EXIT = 0xe30000000007000f"
definition RRTO_SASS_FCONTROL :: u64 where "RRTO_SASS_FCONTROL = 0x001ffc00fd4007ef"
definition RRTO_SASS_BPT :: u64 where "RRTO_SASS_BPT = 0xe3a00000001000c0"
definition RRTO_SASS_PBK_PREFIX :: u64 where "RRTO_SASS_PBK_PREFIX = 0xe2a00000"
definition RRTO_SASS_SSY_PREFIX :: u64 where "RRTO_SASS_SSY_PREFIX = 0xe2900000"
definition RRTO_SASS_JCAL_PREFIX :: u64 where "RRTO_SASS_JCAL_PREFIX = 0xe2200000"
definition RRTO_SASS_PRET_PREFIX :: u64 where "RRTO_SASS_PRET_PREFIX = 0xe2700000"

definition opcode :: "u64 \<Rightarrow> u64" where
  "opcode i = drop_bit 32 i AND 0xfff00000"

definition operand :: "u64 \<Rightarrow> u64" where
  "operand i = drop_bit 20 i AND 0xffffffff"

definition instr :: "u8 list \<Rightarrow> nat \<Rightarrow> u64 res" where
  "instr m p = bind_r (rd m p 8) (\<lambda>n. Inr (of_nat n))"

lemma instr_inside: "instr m p = Inr i \<Longrightarrow> p + 8 \<le> length m"
  by (auto simp: instr_def rd_def bind_r_Inr_iff split: if_splits)

section \<open>Breakpoints\<close>

text \<open>The number of breakpoints that follow one another, not counting control words.\<close>

function bpt_run :: "u8 list \<Rightarrow> nat \<Rightarrow> nat \<Rightarrow> nat \<Rightarrow> nat res" where
  "bpt_run m base offset num =
     bind_r (instr m (base + offset)) (\<lambda>cur_instr.
       if cur_instr = RRTO_SASS_BPT
       then bpt_run m base (if (offset + 8) mod 32 = 0 then offset + 16 else offset + 8) (num + 1)
       else Inr num)"
  by pat_completeness auto
termination
  by (relation "measure (\<lambda>(m, base, offset, num). length m - (base + offset))") (auto dest: instr_inside)

function find_bpt_loop :: "u8 list \<Rightarrow> nat \<Rightarrow> nat \<Rightarrow> nat \<Rightarrow> (nat \<times> nat) res" where
  "find_bpt_loop m base relative_pc offset =
     (if offset < relative_pc
      then bind_r (instr m (base + offset)) (\<lambda>cur_instr.
        if cur_instr = RRTO_SASS_BPT then bind_r (bpt_run m base offset 0) (\<lambda>num. Inr (offset, num))
        else find_bpt_loop m base relative_pc (offset + 8))
      else Inr (0, 0))"
  by pat_completeness auto
termination by (relation "measure (\<lambda>(m, base, relative_pc, offset). relative_pc - offset)") auto

declare bpt_run.simps [simp del] find_bpt_loop.simps [simp del]

text \<open>The first breakpoint below a position and the length of its run; zeros if there is none.\<close>

definition RRTO_elf_find_bpt :: "u8 list \<Rightarrow> nat \<Rightarrow> nat \<Rightarrow> (nat \<times> nat) res" where
  "RRTO_elf_find_bpt m base relative_pc = find_bpt_loop m base relative_pc 0"

section \<open>Targets\<close>

text \<open>
  The last instruction with a prefix at or before a position. Its target is taken in 32 bits.
\<close>

function find_back :: "u8 list \<Rightarrow> nat \<Rightarrow> u64 \<Rightarrow> nat \<Rightarrow> nat \<Rightarrow> u64 res" where
  "find_back m base prefix relative_pc offset =
     (if offset \<le> relative_pc
      then bind_r (instr m (base + relative_pc - offset)) (\<lambda>cur_instr.
        if opcode cur_instr = prefix
        then Inr (ucast (ucast (of_nat (relative_pc - offset) + operand cur_instr + 8 :: u64) :: u32))
        else find_back m base prefix relative_pc (offset + 8))
      else Inr 0)"
  by pat_completeness auto
termination by (relation "measure (\<lambda>(m, base, prefix, relative_pc, offset). Suc relative_pc - offset)") auto

declare find_back.simps [simp del]

definition RRTO_elf_find_pbk :: "u8 list \<Rightarrow> nat \<Rightarrow> nat \<Rightarrow> u64 res" where
  "RRTO_elf_find_pbk m base relative_pc = find_back m base RRTO_SASS_PBK_PREFIX relative_pc 0"

definition RRTO_elf_find_ssy :: "u8 list \<Rightarrow> nat \<Rightarrow> nat \<Rightarrow> u64 res" where
  "RRTO_elf_find_ssy m base relative_pc = find_back m base RRTO_SASS_SSY_PREFIX relative_pc 0"

text \<open>The targets of all instructions with one of some prefixes, in order, taken in 64 bits.\<close>

function targets :: "u8 list \<Rightarrow> nat \<Rightarrow> u64 set \<Rightarrow> nat \<Rightarrow> nat \<Rightarrow> u64 list res" where
  "targets m base prefixes function_size offset =
     (if offset < function_size
      then bind_r (instr m (base + offset)) (\<lambda>cur_instr.
           bind_r (targets m base prefixes function_size (offset + 8)) (\<lambda>ds.
           Inr (if opcode cur_instr \<in> prefixes then (of_nat offset + operand cur_instr + 8) # ds else ds)))
      else Inr [])"
  by pat_completeness auto
termination by (relation "measure (\<lambda>(m, base, prefixes, function_size, offset). function_size - offset)") auto

declare targets.simps [simp del]

definition RRTO_elf_count_ssy :: "u8 list \<Rightarrow> nat \<Rightarrow> nat \<Rightarrow> u64 list res" where
  "RRTO_elf_count_ssy m base function_size = targets m base {RRTO_SASS_SSY_PREFIX} function_size 0"

definition RRTO_elf_count_cal :: "u8 list \<Rightarrow> nat \<Rightarrow> nat \<Rightarrow> u64 list res" where
  "RRTO_elf_count_cal m base function_size =
     targets m base {RRTO_SASS_JCAL_PREFIX, RRTO_SASS_PRET_PREFIX} function_size 0"

section \<open>Functions\<close>

text \<open>
  A name is what follows the prefix of the section and a character; it lies behind the end of a name
  that is the bare prefix (\<open>None\<close>).
\<close>

definition RRTO_ELF_TEXT_PREFIX :: string where "RRTO_ELF_TEXT_PREFIX = ''.text.''"
definition RRTO_ELF_FATBIN :: string where "RRTO_ELF_FATBIN = ''.nv_fatbin''"

definition is_text :: "gpu_section \<Rightarrow> bool" where
  "is_text sec \<longleftrightarrow> starts (butlast RRTO_ELF_TEXT_PREFIX) (gs_name sec)"

definition text_name :: "gpu_section \<Rightarrow> string option" where
  "text_name sec = (if length (gs_name sec) < 6 then None else Some (drop 6 (gs_name sec)))"

record function_info =
  fi_name :: "string option"
  fi_has_room :: bool
  fi_room :: nat

definition enough_room :: "nat \<Rightarrow> nat \<Rightarrow> nat \<Rightarrow> bool" where
  "enough_room bpt_num ssy_num cal_num \<longleftrightarrow> \<not> bpt_num < ssy_num * 2 + cal_num * 2 + 3"

definition fun_room :: "u8 list \<Rightarrow> nat \<Rightarrow> (bool \<times> nat) res" where
  "fun_room m sz =
     bind_r (RRTO_elf_find_bpt m 0 sz) (\<lambda>(_, bpt_num).
       if bpt_num = 0 then Inr (False, 0)
       else bind_r (RRTO_elf_count_ssy m 0 sz) (\<lambda>ssy. bind_r (RRTO_elf_count_cal m 0 sz) (\<lambda>cal.
         Inr (enough_room bpt_num (length ssy) (length cal), bpt_num))))"

fun fun_infos :: "'d env \<Rightarrow> gpu_section list \<Rightarrow> function_info list option res" where
  "fun_infos E [] = Inr (Some [])"
| "fun_infos E (sec # secs) =
     (if \<not> is_text sec then fun_infos E secs
      else if \<not> heap_ok E (gs_size sec) then Inr None
      else case gs_contents sec of None \<Rightarrow> Inr None
      | Some m \<Rightarrow>
          bind_r (fun_room m (gs_size sec)) (\<lambda>(has_room, room).
          bind_r (fun_infos E secs) (\<lambda>fs.
          Inr (map_option (\<lambda>fs. \<lparr>fi_name = text_name sec, fi_has_room = has_room, fi_room = room\<rparr> # fs) fs))))"

definition RRTO_elf_build_fun_info :: "'d env \<Rightarrow> gdb \<Rightarrow> function_info list option res" where
  "RRTO_elf_build_fun_info E G =
     (let secs = concat (map of_sections (elf_objfiles G)) in
      if \<not> heap_ok E (24 * length (filter is_text secs)) then Inr None else fun_infos E secs)"

text \<open>The function with a name, if there is one.\<close>

fun RRTO_elf_get_fun_info :: "function_info list \<Rightarrow> string \<Rightarrow> function_info option res" where
  "RRTO_elf_get_fun_info [] fun_name = Inr None"
| "RRTO_elf_get_fun_info (f # fs) fun_name =
     (case fi_name f of None \<Rightarrow> Inl Out_Of_Bounds
      | Some n \<Rightarrow> if n = fun_name then Inr (Some f) else RRTO_elf_get_fun_info fs fun_name)"

text \<open>
  The synchronisation point and the break point of a position in a function, each if it is wanted.
  The first object file with the section counts; if there is none, neither is set.
\<close>

definition section_by_name :: "string \<Rightarrow> gpu_section list \<Rightarrow> gpu_section option" where
  "section_by_name name secs = List.find (\<lambda>s. gs_name s = name) secs"

definition when_wanted :: "bool \<Rightarrow> 'a res \<Rightarrow> 'a option res" where
  "when_wanted want r = (if want then bind_r r (\<lambda>x. Inr (Some x)) else Inr None)"

definition RRTO_elf_pc_info ::
  "'d env \<Rightarrow> gdb \<Rightarrow> string \<Rightarrow> nat \<Rightarrow> bool \<Rightarrow> bool \<Rightarrow> (bool \<times> u64 option \<times> u64 option) res" where
  "RRTO_elf_pc_info E G function_name relative_pc want_ssy want_pbk =
     (case asprintf E (''.text.'' @ function_name) of None \<Rightarrow> Inr (False, None, None)
      | Some section_name \<Rightarrow>
      (case List.map_filter (\<lambda>f. section_by_name section_name (of_sections f)) (elf_objfiles G) of
         [] \<Rightarrow> Inr (True, None, None)
       | sec # _ \<Rightarrow>
           if \<not> heap_ok E (gs_size sec) then Inr (False, None, None)
           else case gs_contents sec of None \<Rightarrow> Inr (False, None, None)
           | Some m \<Rightarrow>
               if gs_size sec < relative_pc then Inr (False, None, None)
               else bind_r (when_wanted want_ssy (RRTO_elf_find_ssy m 0 relative_pc)) (\<lambda>ssy.
                    bind_r (when_wanted want_pbk (RRTO_elf_find_pbk m 0 relative_pc)) (\<lambda>pbk.
                    Inr (True, ssy, pbk)))))"

section \<open>Patching a file\<close>

text \<open>
  Bytes behind the end leave a hole of zeros, which needs no room on the disk; the file grows by what
  is written behind its end.
\<close>

definition fopen_rw :: "string \<Rightarrow> fsys \<Rightarrow> u8 list option" where
  "fopen_rw name fs = (if creatable fs name then files fs name else None)"

definition overwrite :: "u8 list \<Rightarrow> nat \<Rightarrow> u8 list \<Rightarrow> u8 list" where
  "overwrite c pos bs = (if bs = [] then c else blit (c @ replicate (pos + length bs - length c) 0) pos bs)"

definition RRTO_elf_patch :: "string \<Rightarrow> nat \<Rightarrow> u8 list \<Rightarrow> fsys \<Rightarrow> bool \<times> fsys" where
  "RRTO_elf_patch filename filepos patch_data fs =
     (case fopen_rw filename fs of None \<Rightarrow> (False, fs)
      | Some c \<Rightarrow>
          if 2 ^ 63 \<le> filepos then (False, fs)
          else let inside = length c - filepos;
                   n = min (length patch_data) (inside + disk_free fs) in
          (n = length patch_data \<and> patch_data \<noteq> [],
           fs\<lparr>files := (files fs)(filename \<mapsto> overwrite c filepos (take n patch_data)),
              disk_free := disk_free fs - (n - inside)\<rparr>))"

section \<open>The jump table\<close>

record jmptable_entry =
  je_address :: u64
  je_destination :: u64

record jmptable_index =
  ji_function_name :: "string option"
  ji_start_address :: u64
  ji_ssy :: "jmptable_entry list"
  ji_cal :: "jmptable_entry list"
  ji_sync_address :: u64
  ji_exit_address :: u64

text \<open>Words are put one behind the other into a block of \<open>cap\<close> words, a control word where one is due.\<close>

definition emit :: "nat \<Rightarrow> u64 \<Rightarrow> u64 list \<Rightarrow> u64 list res" where
  "emit cap w ws = (if length ws < cap then Inr (ws @ [w]) else Inl Out_Of_Bounds)"

definition emit_control :: "nat \<Rightarrow> nat \<Rightarrow> u64 list \<Rightarrow> u64 list res" where
  "emit_control cap ctrl_offset ws =
     (if length ws mod 4 = ctrl_offset then emit cap RRTO_SASS_FCONTROL ws else Inr ws)"

definition here :: "u64 \<Rightarrow> u64 list \<Rightarrow> u64" where
  "here relative_bpt ws = relative_bpt + of_nat (length ws) * 8"

text \<open>
  An entry is a pair of instructions: the first, made of the destination and its own address, sets
  the point; the second jumps on.
\<close>

fun emit_entries ::
  "nat \<Rightarrow> nat \<Rightarrow> u64 \<Rightarrow> (u64 \<Rightarrow> u64 \<Rightarrow> u64) \<Rightarrow> u64 \<Rightarrow> u64 list \<Rightarrow> u64 list \<Rightarrow> (jmptable_entry list \<times> u64 list) res" where
  "emit_entries cap co rb enc jump [] ws = Inr ([], ws)"
| "emit_entries cap co rb enc jump (dest # ds) ws =
     bind_r (emit_control cap co ws) (\<lambda>ws.
     let addr = here rb ws in
     bind_r (emit cap (enc dest addr) ws) (\<lambda>ws.
     bind_r (emit_control cap co ws) (\<lambda>ws.
     bind_r (emit cap jump ws) (\<lambda>ws.
     bind_r (emit_entries cap co rb enc jump ds ws) (\<lambda>(es, ws).
     Inr (\<lparr>je_address = addr, je_destination = dest\<rparr> # es, ws))))))"

definition enc_ssy :: "u64 \<Rightarrow> u64 \<Rightarrow> u64" where
  "enc_ssy dest addr = RRTO_SASS_SSY (dest - addr - 8)"

definition enc_pret :: "u64 \<Rightarrow> u64 \<Rightarrow> u64" where
  "enc_pret dest addr = RRTO_SASS_PRET (dest - addr)"

definition ctrl_offset_of :: "nat \<Rightarrow> nat" where
  "ctrl_offset_of relative_bpt = 4 - relative_bpt mod 32 div 8"

definition data_words :: "nat \<Rightarrow> nat \<Rightarrow> nat" where
  "data_words ssy_num cal_num =
     (ssy_num * 2 + cal_num * 2 + 3) + (ssy_num * 2 + cal_num * 2 + 3) div 3 + 2"

definition jump_table ::
  "nat \<Rightarrow> u64 list \<Rightarrow> u64 list \<Rightarrow> (jmptable_entry list \<times> jmptable_entry list \<times> u64 \<times> u64 \<times> u64 list) res" where
  "jump_table relative_bpt ssy cal =
     (let co = ctrl_offset_of relative_bpt;
          cap = data_words (length ssy) (length cal);
          rb = of_nat relative_bpt in
      bind_r (emit cap (RRTO_SASS_BRX 0) []) (\<lambda>ws.
      bind_r (emit_entries cap co rb enc_ssy (RRTO_SASS_BRX 0) ssy ws) (\<lambda>(ssy_es, ws).
      bind_r (emit_entries cap co rb enc_pret (RRTO_SASS_JMX 0) cal ws) (\<lambda>(cal_es, ws).
      bind_r (emit_control cap co ws) (\<lambda>ws.
      let exit_address = here rb ws in
      bind_r (emit cap RRTO_SASS_EXIT ws) (\<lambda>ws.
      bind_r (emit_control cap co ws) (\<lambda>ws.
      let sync_address = here rb ws in
      bind_r (emit cap (RRTO_SASS_SYNC 0) ws) (\<lambda>ws.
      bind_r (emit_control cap co ws) (\<lambda>ws.
      bind_r (emit cap (RRTO_SASS_BRX 0) ws) (\<lambda>ws.
      Inr (ssy_es, cal_es, exit_address, sync_address, ws)))))))))))"

text \<open>Where the table is entered: the instruction before the breakpoints.\<close>

definition start_address_of :: "nat \<Rightarrow> u64" where
  "start_address_of relative_bpt =
     (let a = of_nat relative_bpt - 8 :: u64 in if a mod 32 = 0 then a - 8 else a)"

definition words_bytes :: "u64 list \<Rightarrow> u8 list" where
  "words_bytes ws = concat (map (\<lambda>w. le_bytes 8 (unat w)) ws)"

text \<open>
  The functions of a binary, one after the other: its block, its position in the file. A function
  without breakpoints or without room is left out, the name copied for it is lost; any other error ends
  the patching and leaves the file as it is then.
\<close>

fun patch_sections ::
  "'d env \<Rightarrow> string \<Rightarrow> u8 list \<Rightarrow> nat \<Rightarrow> gpu_section list \<Rightarrow> fsys \<Rightarrow> (jmptable_index list option \<times> fsys) res" where
  "patch_sections E new_filename fatbin fatbin_pos [] fs = Inr (Some [], fs)"
| "patch_sections E new_filename fatbin fatbin_pos (sec # secs) fs =
     (let rest = patch_sections E new_filename fatbin fatbin_pos secs in
      if \<not> is_text sec then rest fs
      else bind_r (RRTO_elf_find_bpt fatbin (gs_filepos sec) (gs_size sec)) (\<lambda>(relative_bpt, bpt_num).
        if bpt_num = 0 then rest fs
        else bind_r (RRTO_elf_count_ssy fatbin (gs_filepos sec) (gs_size sec)) (\<lambda>ssy.
             bind_r (RRTO_elf_count_cal fatbin (gs_filepos sec) (gs_size sec)) (\<lambda>cal.
             case text_name sec of None \<Rightarrow> Inl Out_Of_Bounds
             | Some name \<Rightarrow>
                 if \<not> enough_room bpt_num (length ssy) (length cal) then rest fs
                 else if \<not> heap_ok E (16 * length ssy) \<or> \<not> heap_ok E (16 * length cal) \<or>
                         \<not> heap_ok E (8 * data_words (length ssy) (length cal)) then Inr (None, fs)
                 else bind_r (jump_table relative_bpt ssy cal) (\<lambda>(ssy_es, cal_es, exit_address, sync_address, ws).
                   if data_words (length ssy) (length cal) < length ws then Inr (None, fs)
                   else let (ok, fs) = RRTO_elf_patch new_filename (fatbin_pos + gs_filepos sec + relative_bpt)
                                         (words_bytes ws) fs in
                   if \<not> ok then Inr (None, fs)
                   else bind_r (rest fs) (\<lambda>(t, fs).
                     Inr (map_option (\<lambda>t. \<lparr>ji_function_name = (if heap_ok E (length name + 1) then Some name else None),
                         ji_start_address = start_address_of relative_bpt, ji_ssy = ssy_es, ji_cal = cal_es,
                         ji_sync_address = sync_address, ji_exit_address = exit_address\<rparr> # t) t, fs)))))))"

text \<open>
  The binary of the device code lies in a section of the program, behind a header of \<open>0x50\<close> bytes; its
  size wraps around if the section is smaller. The block with it and its position in the file.
\<close>

definition fatbin_of :: "'d env \<Rightarrow> gdb \<Rightarrow> u8 list \<Rightarrow> (u8 list \<times> nat) option" where
  "fatbin_of E G c =
     (case bfd_open G c of
        Bfd True secs \<Rightarrow>
          (case section_by_name RRTO_ELF_FATBIN secs of None \<Rightarrow> None
           | Some sec \<Rightarrow>
               let fatbin_pos = gs_filepos sec + 0x50; fatbin_size = wrap64 (gs_size sec + 2 ^ 64 - 0x50) in
               if \<not> heap_ok E fatbin_size then None
               else if fatbin_size = 0 \<or> length c < fatbin_pos + fatbin_size then None
               else Some (blk fatbin_pos fatbin_size c, fatbin_pos))
      | _ \<Rightarrow> None)"

text \<open>A device binary of the wrong format is not refused; what sections it then has is up to the library.\<close>

definition RRTO_elf_patch_all ::
  "'d env \<Rightarrow> gdb \<Rightarrow> string \<Rightarrow> string \<Rightarrow> fsys \<Rightarrow> (jmptable_index list option \<times> fsys) res" where
  "RRTO_elf_patch_all E G filename new_filename fs =
     (let (ok, fs) = RRTO_file_cpy filename new_filename fs in
      if \<not> ok then Inr (None, fs)
      else case fopen_rw filename fs of None \<Rightarrow> Inr (None, fs)
      | Some c \<Rightarrow>
      (case fatbin_of E G c of None \<Rightarrow> Inr (None, fs)
       | Some (fatbin, fatbin_pos) \<Rightarrow>
           (case bfd_open G fatbin of No_Bfd \<Rightarrow> Inr (None, fs)
            | Bfd _ secs \<Rightarrow>
                if \<not> heap_ok E (64 * length (filter is_text secs)) then Inr (None, fs)
                else patch_sections E new_filename fatbin fatbin_pos secs fs)))"

text \<open>The number of instructions every function needs, as it is written out.\<close>

fun analyze_sections :: "'d env \<Rightarrow> u8 list \<Rightarrow> gpu_section list \<Rightarrow> (string \<times> nat) list option res" where
  "analyze_sections E fatbin [] = Inr (Some [])"
| "analyze_sections E fatbin (sec # secs) =
     (if \<not> is_text sec then analyze_sections E fatbin secs
      else bind_r (RRTO_elf_count_ssy fatbin (gs_filepos sec) (gs_size sec)) (\<lambda>ssy.
           bind_r (RRTO_elf_count_cal fatbin (gs_filepos sec) (gs_size sec)) (\<lambda>cal.
           if \<not> heap_ok E (16 * length ssy) \<or> \<not> heap_ok E (16 * length cal) then Inr None
           else bind_r (analyze_sections E fatbin secs) (\<lambda>r.
             Inr (map_option (\<lambda>l. (gs_name sec, if ssy = [] \<and> cal = [] then 2 else 4 + length ssy * 2 + length cal * 2) # l) r)))))"

definition RRTO_elf_analyze :: "'d env \<Rightarrow> gdb \<Rightarrow> string \<Rightarrow> fsys \<Rightarrow> (string \<times> nat) list option res" where
  "RRTO_elf_analyze E G filename fs =
     (case files fs filename of None \<Rightarrow> Inr None
      | Some c \<Rightarrow>
      (case fatbin_of E G c of None \<Rightarrow> Inr None
       | Some (fatbin, _) \<Rightarrow>
           (case bfd_open G fatbin of Bfd True secs \<Rightarrow> analyze_sections E fatbin secs | _ \<Rightarrow> Inr None)))"

record sass_info =
  si_fun_offset :: nat
  si_fun_size :: nat
  si_ssy :: u64
  si_bpt :: nat
  si_bpt_num :: nat

definition RRTO_elf_get_sass_info ::
  "'d env \<Rightarrow> gdb \<Rightarrow> string \<Rightarrow> string \<Rightarrow> nat \<Rightarrow> fsys \<Rightarrow> sass_info option res" where
  "RRTO_elf_get_sass_info E G filename section_name relative_pc fs =
     (case fopen_rw filename fs of None \<Rightarrow> Inr None
      | Some c \<Rightarrow>
      (case fatbin_of E G c of None \<Rightarrow> Inr None
       | Some (fatbin, fatbin_pos) \<Rightarrow>
      (case bfd_open G fatbin of
         Bfd True secs \<Rightarrow>
           (case section_by_name section_name secs of None \<Rightarrow> Inr None
            | Some sec \<Rightarrow>
                bind_r (RRTO_elf_find_ssy fatbin (gs_filepos sec) relative_pc) (\<lambda>ssy.
                bind_r (RRTO_elf_find_bpt fatbin (gs_filepos sec) relative_pc) (\<lambda>(bpt, bpt_num).
                Inr (Some \<lparr>si_fun_offset = fatbin_pos + gs_filepos sec, si_fun_size = gs_size sec, si_ssy = ssy,
                  si_bpt = bpt, si_bpt_num = bpt_num\<rparr>))))
       | _ \<Rightarrow> Inr None)))"

section \<open>Looking up the table\<close>

text \<open>The address of the entry for a destination, zero if there is none.\<close>

definition RRTO_elf_get_jmptable_addr :: "jmptable_entry list \<Rightarrow> u64 \<Rightarrow> u64" where
  "RRTO_elf_get_jmptable_addr entries destination =
     (case List.find (\<lambda>e. je_destination e = destination) entries of None \<Rightarrow> 0 | Some e \<Rightarrow> je_address e)"

fun RRTO_elf_get_jmptable_index :: "jmptable_index list \<Rightarrow> string \<Rightarrow> jmptable_index option res" where
  "RRTO_elf_get_jmptable_index [] fn = Inr None"
| "RRTO_elf_get_jmptable_index (j # js) fn =
     (case ji_function_name j of None \<Rightarrow> Inl Null_Deref
      | Some n \<Rightarrow> if n = fn then Inr (Some j) else RRTO_elf_get_jmptable_index js fn)"

section \<open>The call stack, and the patch for a restore\<close>

record pc_data =
  pc_relative :: u64
  pc_absolute :: u64
  pc_virt :: u64
  pc_str_offset :: u64

text \<open>The size of a call stack is the number of its entries; the first one is the innermost.\<close>

record callstack =
  cs_active_lanes :: u32
  cs_valid_lanes :: u32
  cs_pc :: "pc_data list"
  cs_names :: "string list"

text \<open>
  The first instructions of the kernel are replaced by ones that set up the stack of one lane and
  jump to where it has stopped. Only a kernel, or a kernel and one function it has called, can be
  restored that way.
\<close>

definition RRTO_elf_restore_patch :: "'d env \<Rightarrow> gdb \<Rightarrow> string \<Rightarrow> string \<Rightarrow> callstack \<Rightarrow> fsys \<Rightarrow> (bool \<times> fsys) res" where
  "RRTO_elf_restore_patch E G filename new_filename cs fs =
     (let (ok, fs) = RRTO_file_cpy filename new_filename fs;
          size = length (cs_pc cs);
          write = (\<lambda>k a b c. Inr (RRTO_elf_patch new_filename (si_fun_offset k)
                     (words_bytes [RRTO_SASS_FCONTROL, a, b, c, RRTO_SASS_FCONTROL, RRTO_SASS_JMX 18]) fs)) in
      if \<not> ok then Inr (False, fs)
      else if size = 0 then Inl Out_Of_Bounds
      else case asprintf E (''.text.'' @ last (cs_names cs)) of None \<Rightarrow> Inr (False, fs)
      | Some section_name \<Rightarrow>
      bind_r (RRTO_elf_get_sass_info E G new_filename section_name (unat (pc_relative (last (cs_pc cs)))) fs) (\<lambda>sinfo_kernel.
      case sinfo_kernel of None \<Rightarrow> Inr (False, fs)
      | Some k \<Rightarrow>
          if 2 < size then Inr (False, fs)
          else let rel = pc_relative (cs_pc cs ! 0) in
          if size = 2
          then (case asprintf E (''.text.'' @ cs_names cs ! 0) of None \<Rightarrow> Inr (False, fs)
                | Some section_name \<Rightarrow>
                bind_r (RRTO_elf_get_sass_info E G new_filename section_name (unat rel) fs) (\<lambda>sinfo.
                case sinfo of None \<Rightarrow> Inr (False, fs)
                | Some s \<Rightarrow>
                    if rel < si_ssy s then Inr (False, fs)
                    else write k RRTO_SASS_NOP (RRTO_SASS_PRET (pc_relative (cs_pc cs ! 1) - 0x18)) (RRTO_SASS_JMX 18)))
          else let ssy = (rel \<le> si_ssy k) in
               write k (if ssy then RRTO_SASS_SSY (si_ssy k - 0x10) else RRTO_SASS_NOP)
                 (if ssy \<and> cs_active_lanes cs \<noteq> cs_valid_lanes cs then RRTO_SASS_SYNC 0 else RRTO_SASS_NOP)
                 (RRTO_SASS_BRX 18)))"

end
