(* ===== verification/GpuTable.thy ===== *)
theory GpuTable
  imports GpuSass
begin

unbundle bit_operations_syntax

text \<open>
  The jump table that is written over the breakpoints of a function (\<open>RRTO_elf_patch_all\<close> of
  \<open>gpu/src/cricket-elf.c\<close>): it fits the block it is made in, its control words are where the device
  expects them, each entry for a synchronisation point is decoded to its destination, and it needs one
  instruction tl0 than the check of the room asks for.
\<close>

section \<open>Words and control words\<close>

lemma emit_Inr: "emit cap w ws = Inr ws' \<longleftrightarrow> length ws < cap \<and> ws' = ws @ [w]"
  by (auto simp: emit_def)

text \<open>
  A list of words is laid out if its control words are exactly those at a position with the offset.
\<close>

definition laid_out :: "nat \<Rightarrow> u64 list \<Rightarrow> bool" where
  "laid_out co ws \<longleftrightarrow> (\<forall>i < length ws. ws ! i = RRTO_SASS_FCONTROL \<longleftrightarrow> i mod 4 = co \<and> 0 < i)"

definition plain :: "u64 list \<Rightarrow> u64 list" where
  "plain ws = filter (\<lambda>w. w \<noteq> RRTO_SASS_FCONTROL) ws"

definition put_word :: "nat \<Rightarrow> u64 \<Rightarrow> u64 list \<Rightarrow> u64 list" where
  "put_word co w ws = (if length ws mod 4 = co then ws @ [RRTO_SASS_FCONTROL, w] else ws @ [w])"

lemma laid_out_snoc:
  "laid_out co (ws @ [w]) \<longleftrightarrow> laid_out co ws \<and> (w = RRTO_SASS_FCONTROL \<longleftrightarrow> length ws mod 4 = co \<and> 0 < length ws)"
proof -
  have "(\<forall>i < length ws. (ws @ [w]) ! i = RRTO_SASS_FCONTROL \<longleftrightarrow> i mod 4 = co \<and> 0 < i) \<longleftrightarrow> laid_out co ws"
    unfolding laid_out_def by (rule all_cong) (simp add: nth_append)
  then show ?thesis by (simp add: laid_out_def All_less_Suc) blast
qed

lemma laid_out_put:
  assumes "laid_out co ws" and "ws \<noteq> []" and "w \<noteq> RRTO_SASS_FCONTROL"
  shows "laid_out co (put_word co w ws)"
proof (cases "length ws mod 4 = co")
  case True
  then have "laid_out co ((ws @ [RRTO_SASS_FCONTROL]) @ [w])"
    using assms by (subst laid_out_snoc) (auto simp: laid_out_snoc mod_Suc)
  with True show ?thesis by (simp add: put_word_def)
next
  case False
  with assms show ?thesis by (simp add: put_word_def laid_out_snoc)
qed

lemma plain_put: "w \<noteq> RRTO_SASS_FCONTROL \<Longrightarrow> plain (put_word co w ws) = plain ws @ [w]"
  by (simp add: plain_def put_word_def)

lemma controls_Suc:
  fixes n co :: nat
  assumes "1 \<le> co" and "co \<le> 3"
  shows "(Suc n + 3 - co) div 4 = (n + 3 - co) div 4 + (if n mod 4 = co \<and> 0 < n then 1 else 0)"
proof -
  consider "co = 1" | "co = 2" | "co = 3" using assms by linarith
  then show ?thesis
  proof cases
    case 1
    have "(n + 3) div 4 = (n + 2) div 4 + (if n mod 4 = 1 then 1 else 0)" by presburger
    with 1 show ?thesis by auto
  next
    case 2
    have "(n + 2) div 4 = (n + 1) div 4 + (if n mod 4 = 2 then 1 else 0)" by presburger
    with 2 show ?thesis by auto
  next
    case 3
    have "(n + 1) div 4 = n div 4 + (if n mod 4 = 3 then 1 else 0)" by presburger
    with 3 show ?thesis by auto
  qed
qed

lemma length_laid_out:
  assumes "laid_out co ws" and "1 \<le> co" and "co \<le> 4"
  shows "3 * length ws \<le> 4 * length (plain ws) + 2"
proof -
  have "length ws = length (plain ws) + (if co = 4 then 0 else (length ws + 3 - co) div 4)"
    using assms(1)
  proof (induction ws rule: rev_induct)
    case Nil
    then show ?case using assms(2,3) by (auto simp: plain_def)
  next
    case (snoc w ws)
    have l: "laid_out co ws" and w: "w = RRTO_SASS_FCONTROL \<longleftrightarrow> length ws mod 4 = co \<and> 0 < length ws"
      using snoc.prems by (simp_all add: laid_out_snoc)
    show ?case
    proof (cases "co = 4")
      case True
      with w have "w \<noteq> RRTO_SASS_FCONTROL" by auto
      with snoc.IH [OF l] True show ?thesis by (simp add: plain_def)
    next
      case False
      with assms(2,3) controls_Suc [of co "length ws"] snoc.IH [OF l] w show ?thesis
        by (cases "w = RRTO_SASS_FCONTROL") (auto simp: plain_def)
    qed
  qed
  then show ?thesis using assms(2,3) by (auto split: if_splits)
qed

lemma length_put:
  assumes "laid_out co ws" and "ws \<noteq> []" and "w \<noteq> RRTO_SASS_FCONTROL" and "1 \<le> co" and "co \<le> 4"
    and "length (plain ws) \<le> n"
  shows "length (put_word co w ws) \<le> n + n div 3 + 2"
  using length_laid_out [OF laid_out_put [OF assms(1-3)] assms(4,5)] assms(6) plain_put [OF assms(3), of co ws]
  by simp

text \<open>One word of the table, with its control word if one is due, never leaves the block.\<close>

lemma emit_word:
  assumes "laid_out co ws" and "ws \<noteq> []" and "1 \<le> co" and "co \<le> 4" and "length (plain ws) \<le> n"
    and cap: "cap = n + n div 3 + 2"
  obtains ws' where "emit_control cap co ws = Inr ws'"
    and "\<And>w. w \<noteq> RRTO_SASS_FCONTROL \<Longrightarrow> emit cap w ws' = Inr (put_word co w ws)"
    and "\<And>w. put_word co w ws = ws' @ [w]"
proof -
  have "length (put_word co RRTO_SASS_NOP ws) \<le> cap"
    unfolding cap by (rule length_put [OF assms(1,2) _ assms(3-5)]) (simp add: RRTO_SASS_NOP_def RRTO_SASS_FCONTROL_def)
  then show thesis
    by (intro that [of "if length ws mod 4 = co then ws @ [RRTO_SASS_FCONTROL] else ws"])
       (auto simp: emit_control_def emit_def put_word_def split: if_splits)
qed

section \<open>The instructions\<close>

lemma and_mask_32: "(a :: u64) AND 0xffffffff = take_bit 32 a"
  by (simp add: take_bit_eq_mask mask_eq_exp_minus_1)

lemma prefix_mask: "(0xfff00000 :: u64) = push_bit 20 (mask 12)"
  by (simp add: mask_eq_exp_minus_1 push_bit_eq_mult)

lemma opcode_low: "opcode (push_bit 20 (take_bit 32 a)) = 0"
  unfolding opcode_def prefix_mask
  by (rule bit_eqI) (auto simp: bit_simps)

lemma opcode_or: "opcode (a OR b) = opcode a OR opcode b"
  by (simp add: opcode_def bit.conj_disj_distrib2)

lemma operand_or: "operand (a OR b) = operand a OR operand b"
  by (simp add: operand_def bit.conj_disj_distrib2)

lemma operand_low: "operand (push_bit 20 (take_bit 32 a)) = take_bit 32 a"
  unfolding operand_def and_mask_32
  by (rule bit_eqI) (auto simp: bit_simps)

lemma opcode_SSY: "opcode (RRTO_SASS_SSY a) = RRTO_SASS_SSY_PREFIX"
  by (simp add: RRTO_SASS_SSY_def and_mask_32 opcode_or opcode_low) (simp add: opcode_def RRTO_SASS_SSY_PREFIX_def)

lemma operand_SSY: "operand (RRTO_SASS_SSY a) = take_bit 32 a"
  by (simp add: RRTO_SASS_SSY_def and_mask_32 operand_or operand_low) (simp add: operand_def)

lemma opcode_PRET: "opcode (RRTO_SASS_PRET a) = RRTO_SASS_PRET_PREFIX"
  by (simp add: RRTO_SASS_PRET_def and_mask_32 opcode_or opcode_low) (simp add: opcode_def RRTO_SASS_PRET_PREFIX_def)

lemma opcode_FCONTROL: "opcode RRTO_SASS_FCONTROL = 0x00100000"
  by (simp add: opcode_def RRTO_SASS_FCONTROL_def)

lemma not_control:
  "enc_ssy d a \<noteq> RRTO_SASS_FCONTROL" "enc_pret d a \<noteq> RRTO_SASS_FCONTROL" "RRTO_SASS_BRX 0 \<noteq> RRTO_SASS_FCONTROL"
  "RRTO_SASS_JMX 0 \<noteq> RRTO_SASS_FCONTROL" "RRTO_SASS_EXIT \<noteq> RRTO_SASS_FCONTROL" "RRTO_SASS_SYNC 0 \<noteq> RRTO_SASS_FCONTROL"
proof -
  have "opcode (enc_ssy d a) \<noteq> opcode RRTO_SASS_FCONTROL"
    by (simp add: enc_ssy_def opcode_SSY opcode_FCONTROL RRTO_SASS_SSY_PREFIX_def)
  then show "enc_ssy d a \<noteq> RRTO_SASS_FCONTROL" by auto
  have "opcode (enc_pret d a) \<noteq> opcode RRTO_SASS_FCONTROL"
    by (simp add: enc_pret_def opcode_PRET opcode_FCONTROL RRTO_SASS_PRET_PREFIX_def)
  then show "enc_pret d a \<noteq> RRTO_SASS_FCONTROL" by auto
qed (simp_all add: RRTO_SASS_BRX_def RRTO_SASS_JMX_def RRTO_SASS_EXIT_def RRTO_SASS_SYNC_def RRTO_SASS_FCONTROL_def)

section \<open>The entries and the whole table\<close>

text \<open>An entry of the table: the word at its address is made of its destination.\<close>

definition entry_at :: "(u64 \<Rightarrow> u64 \<Rightarrow> u64) \<Rightarrow> u64 \<Rightarrow> u64 list \<Rightarrow> jmptable_entry \<Rightarrow> bool" where
  "entry_at enc rb ws e \<longleftrightarrow> (\<exists>i < length ws. je_address e = rb + of_nat i * 8 \<and> ws ! i = enc (je_destination e) (je_address e))"

lemma entry_at_append: "entry_at enc rb ws e \<Longrightarrow> entry_at enc rb (ws @ tl0) e"
  unfolding entry_at_def by (auto simp: nth_append intro: exI [of _ "_ :: nat"])

lemma put_word_append: "\<exists>tl0. put_word co w ws = ws @ tl0"
  by (auto simp: put_word_def)

lemma put_word_ne: "put_word co w ws \<noteq> []"
  by (simp add: put_word_def)

lemma emit_entries_ok:
  assumes "laid_out co ws" and "ws \<noteq> []" and "1 \<le> co" and "co \<le> 4"
    and "length (plain ws) + 2 * length ds \<le> n + 1"
    and "\<And>d a. enc d a \<noteq> RRTO_SASS_FCONTROL" and "jump \<noteq> RRTO_SASS_FCONTROL"
    and cap: "cap = n + n div 3 + 2"
  shows "\<exists>es ws'. emit_entries cap co rb enc jump ds ws = Inr (es, ws') \<and> laid_out co ws' \<and> ws' \<noteq> [] \<and>
    (\<exists>tl0. ws' = ws @ tl0) \<and> length (plain ws') = length (plain ws) + 2 * length ds \<and>
    map je_destination es = ds \<and> (\<forall>e \<in> set es. entry_at enc rb ws' e)"
  using assms(1,2,5)
proof (induction ds arbitrary: ws)
  case Nil
  then show ?case by simp
next
  case (Cons d ds)
  have p0: "length (plain ws) \<le> n" using Cons.prems(3) by simp
  obtain ws1 where 1: "emit_control cap co ws = Inr ws1"
      "\<And>w. w \<noteq> RRTO_SASS_FCONTROL \<Longrightarrow> emit cap w ws1 = Inr (put_word co w ws)"
      "\<And>w. put_word co w ws = ws1 @ [w]"
    by (rule emit_word [OF Cons.prems(1,2) assms(3,4) p0 cap]) blast
  let ?a = "here rb ws1"
  let ?w2 = "put_word co (enc d ?a) ws"
  have l2: "laid_out co ?w2" "?w2 \<noteq> []"
    using laid_out_put [OF Cons.prems(1,2) assms(6)] put_word_ne by auto
  have n2: "length (plain ?w2) = length (plain ws) + 1"
    by (simp add: plain_put [OF assms(6)])
  have p2: "length (plain ?w2) \<le> n" using Cons.prems(3) n2 by simp
  obtain ws3 where 3: "emit_control cap co ?w2 = Inr ws3"
      "\<And>w. w \<noteq> RRTO_SASS_FCONTROL \<Longrightarrow> emit cap w ws3 = Inr (put_word co w ?w2)"
    by (rule emit_word [OF l2 assms(3,4) p2 cap]) blast
  let ?w4 = "put_word co jump ?w2"
  have l4: "laid_out co ?w4" "?w4 \<noteq> []"
    using laid_out_put [OF l2 assms(7)] put_word_ne by auto
  have n4: "length (plain ?w4) = length (plain ws) + 2"
    by (simp add: plain_put [OF assms(7)] n2)
  have "length (plain ?w4) + 2 * length ds \<le> n + 1" using Cons.prems(3) n4 by simp
  from Cons.IH [OF l4 this] obtain es ws' where
      5: "emit_entries cap co rb enc jump ds ?w4 = Inr (es, ws')"
      "laid_out co ws'" "ws' \<noteq> []" "\<exists>tl0. ws' = ?w4 @ tl0" "length (plain ws') = length (plain ?w4) + 2 * length ds"
      "map je_destination es = ds" "\<forall>e \<in> set es. entry_at enc rb ws' e"
    by blast
  let ?e = "\<lparr>je_address = ?a, je_destination = d\<rparr>"
  have run: "emit_entries cap co rb enc jump (d # ds) ws = Inr (?e # es, ws')"
    by (simp add: 1(1) 1(2) [OF assms(6)] 3(1) 3(2) [OF assms(7)] 5(1) Let_def del: One_nat_def)
  have "entry_at enc rb ?w2 ?e"
    unfolding entry_at_def 1(3) by (intro exI [of _ "length ws1"]) (simp add: here_def)
  moreover obtain m1 m2 m3 where "?w2 = ws @ m1" "?w4 = ?w2 @ m2" "ws' = ?w4 @ m3"
    using put_word_append 5(4) by metis
  ultimately have "entry_at enc rb ws' ?e" "\<exists>tl0. ws' = ws @ tl0"
    using entry_at_append [of enc rb ?w2 ?e "m2 @ m3"] by auto
  with run 5 n4 show ?case by auto
qed

lemma ctrl_offset_bounds: "1 \<le> ctrl_offset_of rb" "ctrl_offset_of rb \<le> 4"
  by (simp_all add: ctrl_offset_of_def)

lemma laid_out_single: "w \<noteq> RRTO_SASS_FCONTROL \<Longrightarrow> 1 \<le> co \<Longrightarrow> laid_out co [w]"
  by (simp add: laid_out_def)

text \<open>The whole table: no word falls outside the block, and everything is where it should be.\<close>

lemma jump_table_ok:
  "\<exists>ssy_es cal_es exit_address sync_address ws. jump_table rb ssy cal = Inr (ssy_es, cal_es, exit_address, sync_address, ws) \<and>
     laid_out (ctrl_offset_of rb) ws \<and> length ws \<le> data_words (length ssy) (length cal) \<and>
     length (plain ws) = 2 * length ssy + 2 * length cal + 4 \<and>
     map je_destination ssy_es = ssy \<and> (\<forall>e \<in> set ssy_es. entry_at enc_ssy (of_nat rb) ws e) \<and>
     map je_destination cal_es = cal \<and> (\<forall>e \<in> set cal_es. entry_at enc_pret (of_nat rb) ws e) \<and>
     last ws = RRTO_SASS_BRX 0 \<and> ws \<noteq> []"
proof -
  let ?co = "ctrl_offset_of rb" and ?n = "length ssy * 2 + length cal * 2 + 3" and ?rb = "of_nat rb :: u64"
  define cap where "cap = ?n + ?n div 3 + 2"
  note co = ctrl_offset_bounds [of rb]
  let ?w0 = "[RRTO_SASS_BRX 0]"
  have l0: "laid_out ?co ?w0" "?w0 \<noteq> []" "length (plain ?w0) = 1"
    using laid_out_single [OF not_control(3) co(1)] not_control(3) by (simp_all add: plain_def)
  have "length (plain ?w0) + 2 * length ssy \<le> ?n + 1" using l0 by simp
  from emit_entries_ok [where enc = enc_ssy, OF l0(1,2) co this not_control(1,3) cap_def, of ?rb]
  obtain es1 w1 m1 where 1: "emit_entries cap ?co ?rb enc_ssy (RRTO_SASS_BRX 0) ssy ?w0 = Inr (es1, w1)"
      "laid_out ?co w1" "w1 \<noteq> []" "length (plain w1) = 1 + 2 * length ssy" "map je_destination es1 = ssy"
      "\<forall>e \<in> set es1. entry_at enc_ssy ?rb w1 e"
    unfolding l0(3) by blast
  have "length (plain w1) + 2 * length cal \<le> ?n + 1" using 1 by simp
  from emit_entries_ok [where enc = enc_pret, OF 1(2,3) co this not_control(2,4) cap_def, of ?rb]
  obtain es2 w2 m2 where 2: "emit_entries cap ?co ?rb enc_pret (RRTO_SASS_JMX 0) cal w1 = Inr (es2, w2)"
      "laid_out ?co w2" "w2 \<noteq> []" "w2 = w1 @ m2" "length (plain w2) = 1 + 2 * length ssy + 2 * length cal"
      "map je_destination es2 = cal" "\<forall>e \<in> set es2. entry_at enc_pret ?rb w2 e"
    unfolding 1(4) by blast
  have "length (plain w2) \<le> ?n" using 2 by simp
  from emit_word [OF 2(2,3) co this cap_def] obtain c2 where
      3: "emit_control cap ?co w2 = Inr c2" "\<And>w. w \<noteq> RRTO_SASS_FCONTROL \<Longrightarrow> emit cap w c2 = Inr (put_word ?co w w2)"
    by metis
  let ?w3 = "put_word ?co RRTO_SASS_EXIT w2"
  have l3: "laid_out ?co ?w3" "?w3 \<noteq> []" "length (plain ?w3) = length (plain w2) + 1"
    using laid_out_put [OF 2(2,3) not_control(5)] put_word_ne plain_put [OF not_control(5)] by auto
  have "length (plain ?w3) \<le> ?n" using 2 l3 by simp
  from emit_word [OF l3(1,2) co this cap_def] obtain c3 where
      4: "emit_control cap ?co ?w3 = Inr c3" "\<And>w. w \<noteq> RRTO_SASS_FCONTROL \<Longrightarrow> emit cap w c3 = Inr (put_word ?co w ?w3)"
    by metis
  let ?w4 = "put_word ?co (RRTO_SASS_SYNC 0) ?w3"
  have l4: "laid_out ?co ?w4" "?w4 \<noteq> []" "length (plain ?w4) = length (plain ?w3) + 1"
    using laid_out_put [OF l3(1,2) not_control(6)] put_word_ne plain_put [OF not_control(6)] by auto
  have p4: "length (plain ?w4) \<le> ?n" using 2 l3 l4 by simp
  from emit_word [OF l4(1,2) co this cap_def] obtain c4 where
      5: "emit_control cap ?co ?w4 = Inr c4" "\<And>w. w \<noteq> RRTO_SASS_FCONTROL \<Longrightarrow> emit cap w c4 = Inr (put_word ?co w ?w4)"
    by metis
  let ?w5 = "put_word ?co (RRTO_SASS_BRX 0) ?w4"
  have l5: "laid_out ?co ?w5" "length (plain ?w5) = length (plain ?w4) + 1" "last ?w5 = RRTO_SASS_BRX 0" "?w5 \<noteq> []"
    using laid_out_put [OF l4(1,2) not_control(3)] plain_put [OF not_control(3)] put_word_ne by (auto simp: put_word_def)
  obtain r where w5: "?w5 = w2 @ r"
    using put_word_append append_assoc by metis
  have e2: "\<forall>e \<in> set es2. entry_at enc_pret ?rb ?w5 e"
    unfolding w5 using 2(7) by (auto intro: entry_at_append)
  have "\<forall>e \<in> set es1. entry_at enc_ssy ?rb w2 e"
    unfolding 2(4) using 1(6) by (auto intro: entry_at_append)
  then have e1: "\<forall>e \<in> set es1. entry_at enc_ssy ?rb ?w5 e"
    unfolding w5 by (auto intro: entry_at_append)
  have cap: "data_words (length ssy) (length cal) = cap" by (simp add: data_words_def cap_def)
  have "emit cap (RRTO_SASS_BRX 0) [] = Inr ?w0" by (simp add: emit_def cap_def)
  then have "\<exists>ex sy. jump_table rb ssy cal = Inr (es1, es2, ex, sy, ?w5)"
    unfolding jump_table_def Let_def cap
    by (simp add: 1(1) 2(1) 3(1) 3(2) [OF not_control(5)] 4(1) 4(2) [OF not_control(6)] 5(1) 5(2) [OF not_control(3)])
  moreover have "length ?w5 \<le> data_words (length ssy) (length cal)"
    unfolding cap cap_def by (rule length_put [OF l4(1,2) not_control(3) co p4])
  ultimately show ?thesis
    using l5 1(5) 2(5,6) l3(3) l4(3) e1 e2 by auto
qed

section \<open>Breakpoints and the words over them\<close>

text \<open>The place of the \<open>k\<close>-th breakpoint of a run: the run goes on behind control words.\<close>

fun slot_offset :: "nat \<Rightarrow> nat \<Rightarrow> nat" where
  "slot_offset rb 0 = rb"
| "slot_offset rb (Suc k) = (let a = slot_offset rb k in if (a + 8) mod 32 = 0 then a + 16 else a + 8)"

lemma slot_next: "slot_offset (if (rb + 8) mod 32 = 0 then rb + 16 else rb + 8) k = slot_offset rb (Suc k)"
  by (induction k) (auto simp: Let_def)

lemma bpt_run_slots:
  assumes "bpt_run m base rb num = Inr n"
  shows "num \<le> n \<and> (\<forall>k < n - num. instr m (base + slot_offset rb k) = Inr RRTO_SASS_BPT) \<and>
    (\<exists>i. instr m (base + slot_offset rb (n - num)) = Inr i \<and> i \<noteq> RRTO_SASS_BPT)"
  using assms
proof (induction "length m - (base + rb)" arbitrary: rb num rule: less_induct)
  case less
  let ?next = "if (rb + 8) mod 32 = 0 then rb + 16 else rb + 8"
  obtain i where i: "instr m (base + rb) = Inr i"
    using less.prems by (subst (asm) bpt_run.simps) (auto simp: bind_r_Inr_iff)
  show ?case
  proof (cases "i = RRTO_SASS_BPT")
    case False
    with less.prems i have "n = num"
      by (subst (asm) bpt_run.simps) simp
    with i False show ?thesis by simp
  next
    case True
    have r: "bpt_run m base ?next (num + 1) = Inr n"
      using less.prems i True by (subst (asm) bpt_run.simps) simp
    have "length m - (base + ?next) < length m - (base + rb)"
      using instr_inside [OF i] by auto
    from less.hyps [OF this r]
    have n: "num + 1 \<le> n" and k: "\<And>k. k < n - (num + 1) \<Longrightarrow> instr m (base + slot_offset rb (Suc k)) = Inr RRTO_SASS_BPT"
      and last: "\<exists>i. instr m (base + slot_offset rb (Suc (n - (num + 1)))) = Inr i \<and> i \<noteq> RRTO_SASS_BPT"
      unfolding slot_next by auto
    have "instr m (base + slot_offset rb k) = Inr RRTO_SASS_BPT" if "k < n - num" for k
      using that i True k [of "k - 1"] n by (cases k) auto
    moreover have "Suc (n - (num + 1)) = n - num" using n by simp
    ultimately show ?thesis using last n by auto
  qed
qed

lemma find_bpt_loop_run:
  assumes "find_bpt_loop m base sz offset = Inr (rb, n)" and "0 < n"
  shows "bpt_run m base rb 0 = Inr n \<and> rb mod 8 = offset mod 8 \<and> rb < sz"
  using assms(1)
proof (induction "sz - offset" arbitrary: offset rule: less_induct)
  case less
  have lt: "offset < sz" using less.prems assms(2) by (subst (asm) find_bpt_loop.simps) (auto split: if_splits)
  obtain i where i: "instr m (base + offset) = Inr i"
    using less.prems lt by (subst (asm) find_bpt_loop.simps) (auto simp: bind_r_Inr_iff)
  show ?case
  proof (cases "i = RRTO_SASS_BPT")
    case True
    then show ?thesis using less.prems lt i by (subst (asm) find_bpt_loop.simps) (auto simp: bind_r_Inr_iff)
  next
    case False
    then have "find_bpt_loop m base sz (offset + 8) = Inr (rb, n)"
      using less.prems lt i by (subst (asm) find_bpt_loop.simps) simp
    with less.hyps [of "offset + 8"] lt show ?thesis by simp
  qed
qed

lemma find_bpt_run:
  "RRTO_elf_find_bpt m base sz = Inr (rb, n) \<Longrightarrow> 0 < n \<Longrightarrow> bpt_run m base rb 0 = Inr n \<and> rb mod 8 = 0 \<and> rb < sz"
  using find_bpt_loop_run [of m base sz 0 rb n] by (simp add: RRTO_elf_find_bpt_def)

text \<open>The words of a laid out list that are not control words lie on one place after the other.\<close>

lemma control_address:
  fixes rb i :: nat
  assumes "rb mod 8 = 0" and "rb mod 32 \<noteq> 0"
  shows "(rb + 8 * i) mod 32 = 0 \<longleftrightarrow> i mod 4 = ctrl_offset_of rb"
proof -
  obtain q where rb: "rb = 8 * q" using assms(1) by (auto simp: mod_eq_0_iff_dvd)
  have m: "8 * x mod 32 = 8 * (x mod 4)" for x :: nat
    using mult_mod_right [of 8 x 4] by simp
  have q: "q mod 4 \<noteq> 0" using assms(2) by (simp add: rb m)
  have "ctrl_offset_of rb = 4 - q mod 4"
    by (simp add: ctrl_offset_of_def rb m)
  moreover have "rb + 8 * i = 8 * (q + i)" by (simp add: rb)
  then have "(rb + 8 * i) mod 32 = 0 \<longleftrightarrow> (q + i) mod 4 = 0"
    by (simp only: m) simp
  moreover have "a < 4 \<Longrightarrow> b < 4 \<Longrightarrow> 0 < a \<Longrightarrow> (a + b) mod 4 = 0 \<longleftrightarrow> b = 4 - a" for a b :: nat
    by presburger
  from this [of "q mod 4" "i mod 4"] q have "(q + i) mod 4 = 0 \<longleftrightarrow> i mod 4 = 4 - q mod 4"
    by (simp add: mod_add_eq)
  ultimately show ?thesis by simp
qed

lemma plain_take_Suc:
  "i < length ws \<Longrightarrow> length (plain (take (Suc i) ws)) =
     length (plain (take i ws)) + (if ws ! i = RRTO_SASS_FCONTROL then 0 else 1)"
  by (simp add: plain_def take_Suc_conv_app_nth)

lemma laid_out_slots:
  assumes "laid_out (ctrl_offset_of rb) ws" and "rb mod 8 = 0" and "rb mod 32 \<noteq> 0" and "i < length ws"
  shows "slot_offset rb (length (plain (take i ws))) = rb + 8 * i + (if ws ! i = RRTO_SASS_FCONTROL then 8 else 0)"
  using assms(4)
proof (induction i)
  case 0
  have "ws ! 0 \<noteq> RRTO_SASS_FCONTROL" using assms(1) 0 by (auto simp: laid_out_def)
  then show ?case by (simp add: plain_def)
next
  case (Suc i)
  have c: "\<And>j. j < length ws \<Longrightarrow> ws ! j = RRTO_SASS_FCONTROL \<longleftrightarrow> (rb + 8 * j) mod 32 = 0 \<and> 0 < j"
    using assms(1) control_address [OF assms(2,3)] by (auto simp: laid_out_def)
  have p: "length (plain (take (Suc i) ws)) = length (plain (take i ws)) + (if ws ! i = RRTO_SASS_FCONTROL then 0 else 1)"
    using Suc.prems by (intro plain_take_Suc) simp
  have IH: "slot_offset rb (length (plain (take i ws))) = rb + 8 * i + (if ws ! i = RRTO_SASS_FCONTROL then 8 else 0)"
    using Suc by simp
  have a: "rb + 8 * Suc i = rb + 8 * i + 8" by simp
  show ?case
  proof (cases "ws ! i = RRTO_SASS_FCONTROL")
    case True
    then have "(rb + 8 * i) mod 32 = 0" using c [of i] Suc.prems by simp
    then have "(rb + 8 * Suc i) mod 32 \<noteq> 0" by presburger
    with True c [OF Suc.prems] IH p show ?thesis by simp
  next
    case False
    with IH p c [OF Suc.prems] show ?thesis unfolding a by (simp add: Let_def)
  qed
qed

section \<open>Words in memory\<close>

lemma length_words_bytes [simp]: "length (words_bytes ws) = 8 * length ws"
  by (induction ws) (simp_all add: words_bytes_def)

lemma words_bytes_append: "words_bytes (xs @ ys) = words_bytes xs @ words_bytes ys"
  by (simp add: words_bytes_def)

lemma blk_words_bytes:
  assumes "i < length ws"
  shows "blk (8 * i) 8 (words_bytes ws) = le_bytes 8 (unat (ws ! i))"
proof -
  have "ws = take i ws @ [ws ! i] @ drop (Suc i) ws"
    using id_take_nth_drop [OF assms] by simp
  then have "words_bytes ws = words_bytes (take i ws) @ le_bytes 8 (unat (ws ! i)) @ words_bytes (drop (Suc i) ws)"
    by (metis (no_types, lifting) words_bytes_append words_bytes_def concat.simps list.simps(8,9) append_Nil2)
  then show ?thesis
    using blk_append_at [of "words_bytes (take i ws)" "le_bytes 8 (unat (ws ! i))" "words_bytes (drop (Suc i) ws)"] assms
    by (simp add: min_def)
qed

text \<open>A block that holds words at a position.\<close>

definition words_lie_at :: "u8 list \<Rightarrow> nat \<Rightarrow> u64 list \<Rightarrow> bool" where
  "words_lie_at m p ws \<longleftrightarrow> blk p (8 * length ws) m = words_bytes ws"

lemma instr_words_at:
  assumes "words_lie_at m p ws" and "i < length ws"
  shows "instr m (p + 8 * i) = Inr (ws ! i)"
proof -
  have b: "blk p (8 * length ws) m = words_bytes ws" using assms(1) by (simp add: words_lie_at_def)
  then have "length (blk p (8 * length ws) m) = 8 * length ws" by simp
  then have l: "p + 8 * length ws \<le> length m" using assms(2) by (simp add: min_def split: if_splits)
  have "blk (p + 8 * i) 8 m = blk (8 * i) 8 (blk p (8 * length ws) m)"
    using assms(2) by (simp add: blk_def take_drop min_def add.commute)
  also have "\<dots> = le_bytes 8 (unat (ws ! i))"
    unfolding b by (rule blk_words_bytes [OF assms(2)])
  finally show ?thesis
    using l assms(2) by (simp add: instr_def rd_def of_nat_le_u64)
qed

lemma ucast_add_u32: "(ucast (a + b :: u64) :: u32) = ucast a + ucast b"
  by (rule word_unat_eq_iff [THEN iffD2]) (simp add: unsigned_ucast_eq take_bit_eq_mod unat_word_ariths mod_simps mod_mod_cancel)

lemma ucast_diff_u32: "(ucast (a - b :: u64) :: u32) = ucast a - ucast b"
  using ucast_add_u32 [of "a - b" b] by (simp add: algebra_simps)

lemma ucast_take_bit_u32: "(ucast (take_bit 32 a :: u64) :: u32) = ucast a"
  by transfer simp

end
