(* ===== verification/GpuCr.thy ===== *)
theory GpuCr
  imports GpuSass
begin

text \<open>
  Checkpoint and restore of a kernel (\<open>gpu/src/cricket-cr.c\<close>): the call stack of a warp, the registers
  and the local memory of a lane, shared memory, parameters and global variables. The state is the
  device behind the debugger and the disk; a checkpoint is a directory of files.
\<close>

unbundle bit_operations_syntax

section \<open>Warps and lanes\<close>

definition RRTO_CR_NOLANE :: u32 where "RRTO_CR_NOLANE = 0xFFFFFFFF"
definition RRTO_JMX_ADDR_REG :: u32 where "RRTO_JMX_ADDR_REG = 0"

record warp_info =
  wi_dev :: u32
  wi_sm :: u32
  wi_warp :: u32
  wi_kernel_name :: string
  wi_stack_size :: u32
  wi_dev_prop :: RRTODeviceProp

definition the_lane :: "warp_info \<Rightarrow> u32 \<Rightarrow> lane_id" where
  "the_lane wi lane = \<lparr>l_dev = wi_dev wi, l_sm = wi_sm wi, l_warp = wi_warp wi, l_lane = lane\<rparr>"

definition wi_args :: "warp_info \<Rightarrow> cval list" where
  "wi_args wi = [Int32 (wi_dev wi), Int32 (wi_sm wi), Int32 (wi_warp wi)]"

text \<open>A bit of a mask; the mask shifted by its width or more is not defined.\<close>

definition has_bit :: "'w::len word \<Rightarrow> nat \<Rightarrow> bool res" where
  "has_bit warps i = (if i < 64 then Inr (bit warps i) else Inl Bad_Shift)"

text \<open>A loop over the lanes, or the warps, of a mask, that ends with the first failure.\<close>

fun for_set :: "'w::len word \<Rightarrow> nat \<Rightarrow> nat \<Rightarrow> (nat \<Rightarrow> ('d, bool) tool_fn) \<Rightarrow> ('d, bool) tool_fn" where
  "for_set warps i 0 body = ret_t True"
| "for_set warps i (Suc n) body =
     bind_t (lift_t (has_bit warps i)) (\<lambda>b.
       if b then bind_t (body i) (\<lambda>ok. if ok then for_set warps (i + 1) n body else ret_t False)
       else for_set warps (i + 1) n body)"

definition set_jump :: "'d env \<Rightarrow> warp_info \<Rightarrow> u32 \<Rightarrow> u64 \<Rightarrow> ('d, bool) tool_fn" where
  "set_jump E wi lanemask addr =
     for_set lanemask 0 (unat (numLanes (wi_dev_prop wi))) (\<lambda>lane.
       dbg_or False E ''writeRegister'' (lane_args (the_lane wi (of_nat lane)) @ [Int32 RRTO_JMX_ADDR_REG, Int32 (ucast addr)])
         (\<lambda>_. ret_t True))"

definition single_step :: "'d env \<Rightarrow> warp_info \<Rightarrow> ('d, bool) tool_fn" where
  "single_step E wi = dbg_or False E ''singleStepWarp'' (wi_args wi @ [Int32 1]) (\<lambda>_. ret_t True)"

section \<open>Names\<close>

definition RRTO_cr_function_name :: "gdb \<Rightarrow> u64 \<Rightarrow> string option" where
  "RRTO_cr_function_name G pc = function_of_pc G pc"

definition RRTO_cr_sm_broken :: "'d env \<Rightarrow> u32 \<Rightarrow> u32 \<Rightarrow> ('d, bool) tool_fn" where
  "RRTO_cr_sm_broken E dev sm =
     dbg_or False E ''readValidWarps'' [Int32 dev, Int32 sm] (\<lambda>valid.
     dbg_or False E ''readBrokenWarps'' [Int32 dev, Int32 sm] (\<lambda>broken.
     ret_t (if out64 E valid 0 \<noteq> out64 E broken 0 then False else True)))"

definition RRTO_cr_kernel_name :: "'d env \<Rightarrow> gdb \<Rightarrow> u32 \<Rightarrow> u32 \<Rightarrow> u32 \<Rightarrow> ('d, string option) tool_fn" where
  "RRTO_cr_kernel_name E G dev sm wp =
     dbg_or None E ''readGridId'' [Int32 dev, Int32 sm, Int32 wp] (\<lambda>grid.
     dbg_or None E ''getGridInfo'' [Int32 dev, Word64 (out64 E grid 0)] (\<lambda>info.
     ret_t (function_of_pc G (out64 E info 0))))"

text \<open>A failed allocation is not noticed, and every caller reads or frees the pointer that is not set.\<close>

definition warp_suffix :: "warp_info \<Rightarrow> string" where
  "warp_suffix wi = ''-D'' @ dec (unat (wi_dev wi)) @ ''S'' @ dec (unat (wi_sm wi)) @ ''W'' @ dec (unat (wi_warp wi))"

definition suffix_of :: "warp_info \<Rightarrow> u32 \<Rightarrow> string" where
  "suffix_of wi lane = (if lane = RRTO_CR_NOLANE then warp_suffix wi else warp_suffix wi @ ''L'' @ dec (unat lane))"

definition RRTO_cr_gen_suffix :: "'d env \<Rightarrow> warp_info \<Rightarrow> u32 \<Rightarrow> string res" where
  "RRTO_cr_gen_suffix E wi lane =
     (case asprintf E (suffix_of wi lane) of None \<Rightarrow> Inl Uninit_Read | Some s \<Rightarrow> Inr s)"

section \<open>A lane\<close>

definition RRTO_cr_rst_lane :: "'d env \<Rightarrow> gdb \<Rightarrow> warp_info \<Rightarrow> u32 \<Rightarrow> string option \<Rightarrow> ('d, bool) tool_fn" where
  "RRTO_cr_rst_lane E G wi lane ckp_dir =
     bind_t (lift_t (RRTO_cr_gen_suffix E wi lane)) (\<lambda>suffix.
     let register_size = RRTO_register_size (wi_dev_prop wi); stack_size = unat (wi_stack_size wi) in
     if \<not> heap_ok E register_size then ret_t False
     else bind_t (RRTO_file_read_mem E ckp_dir RRTO_DT_REGISTERS (Some suffix)
                   (replicate register_size (fresh_byte E)) register_size) (\<lambda>(ok, reg_mem).
     if \<not> ok then ret_t False
     else bind_t (lift_t (word_at reg_mem (4 * unat (sp_regnum G)))) (\<lambda>stack_loc.
     bind_t (RRTO_register_rst E (the_lane wi lane) reg_mem (wi_dev_prop wi)) (\<lambda>ok.
     if \<not> ok then ret_t False
     else if \<not> heap_ok E stack_size then ret_t False
     else bind_t (RRTO_file_read_mem E ckp_dir RRTO_DT_STACK (Some suffix)
                   (replicate stack_size (fresh_byte E)) stack_size) (\<lambda>(ok, stack_mem).
     if \<not> ok then ret_t False
     else RRTO_stack_set_mem E (the_lane wi lane) stack_mem stack_loc (wi_stack_size wi))))))"

definition resized :: "'d env \<Rightarrow> u8 list \<Rightarrow> nat \<Rightarrow> u8 list" where
  "resized E m n = take n m @ replicate (n - length m) (fresh_byte E)"

definition RRTO_cr_ckp_lane :: "'d env \<Rightarrow> gdb \<Rightarrow> warp_info \<Rightarrow> u32 \<Rightarrow> string option \<Rightarrow> ('d, bool) tool_fn" where
  "RRTO_cr_ckp_lane E G wi lane ckp_dir =
     bind_t (lift_t (RRTO_cr_gen_suffix E wi lane)) (\<lambda>suffix.
     let register_size = RRTO_register_size (wi_dev_prop wi); stack_size = unat (wi_stack_size wi) in
     if \<not> heap_ok E stack_size then ret_t False
     else bind_t (RRTO_stack_get_mem E (sp_regnum G) (the_lane wi lane)
                   (replicate stack_size (fresh_byte E)) (wi_stack_size wi)) (\<lambda>(ok, mem).
     if \<not> ok then ret_t False
     else bind_t (RRTO_file_store_mem E ckp_dir RRTO_DT_STACK (Some suffix) mem stack_size) (\<lambda>ok.
     if \<not> ok then ret_t False
     else if \<not> heap_ok E register_size then ret_t False
     else bind_t (RRTO_register_ckp E (the_lane wi lane) (resized E mem register_size) (wi_dev_prop wi)) (\<lambda>(ok, mem).
     if \<not> ok then ret_t False
     else bind_t (RRTO_file_store_mem E ckp_dir RRTO_DT_REGISTERS (Some suffix) mem register_size) (\<lambda>ok.
     ret_t (if \<not> ok then False else heap_ok E 8))))))"

text \<open>
  Stepping a warp to its synchronisation point. The last instruction that sets one is looked for
  backwards from the position of a lane; then the warp is stepped until the lane is there, whatever
  the debugger answers. Both loops are bounded by fuel.
\<close>

fun ssy_scan :: "nat \<Rightarrow> 'd env \<Rightarrow> u32 \<Rightarrow> u64 \<Rightarrow> u64 \<Rightarrow> u64 \<Rightarrow> ('d, u32 option) tool_fn" where
  "ssy_scan 0 E dev pc virt_pc offset = lift_t (Inl No_Fuel)"
| "ssy_scan (Suc fuel) E dev pc virt_pc offset =
     (if \<not> offset \<le> pc then ret_t (Some 0)
      else dbg_or None E ''readCodeMemory'' [Int32 dev, Word64 (virt_pc - offset), Int32 8] (\<lambda>outs.
        let cur_instr = of_nat (le_val (out_bytes E outs 0 8)) in
        if opcode cur_instr = RRTO_SASS_SSY_PREFIX
        then ret_t (Some (ucast ((pc - offset) + operand cur_instr + 8)))
        else ssy_scan fuel E dev pc virt_pc (offset + 8)))"

fun step_to :: "nat \<Rightarrow> 'd env \<Rightarrow> warp_info \<Rightarrow> u32 \<Rightarrow> u64 \<Rightarrow> u64 \<Rightarrow> ('d, unit) tool_fn" where
  "step_to 0 E wi lane syn_pc pc = lift_t (Inl No_Fuel)"
| "step_to (Suc fuel) E wi lane syn_pc pc =
     (if \<not> pc < syn_pc then ret_t ()
      else bind_t (dbg E ''singleStepWarp'' (wi_args wi @ [Int32 1])) (\<lambda>_.
           bind_t (dbg E ''readPC'' (lane_args (the_lane wi lane))) (\<lambda>(res, outs).
           step_to fuel E wi lane syn_pc (if res \<noteq> CUDBG_SUCCESS then pc else out64 E outs 0))))"

definition RRTO_cr_ckp_ssy :: "nat \<Rightarrow> 'd env \<Rightarrow> warp_info \<Rightarrow> u32 \<Rightarrow> ('d, bool) tool_fn" where
  "RRTO_cr_ckp_ssy fuel E wi lane =
     dbg_or False E ''readPC'' (lane_args (the_lane wi lane)) (\<lambda>p.
     dbg_or False E ''readVirtualPC'' (lane_args (the_lane wi lane)) (\<lambda>v.
     let pc = out64 E p 0 in
     bind_t (ssy_scan fuel E (wi_dev wi) pc (out64 E v 0) 0) (\<lambda>r.
       case r of None \<Rightarrow> ret_t False
       | Some syn_pc \<Rightarrow> bind_t (step_to fuel E wi lane (ucast syn_pc) pc) (\<lambda>_. ret_t True))))"

section \<open>The call stack\<close>

text \<open>The return addresses, from the innermost call on; each gives the absolute address of the one before.\<close>

fun frames_loop ::
  "'d env \<Rightarrow> gdb \<Rightarrow> lane_id \<Rightarrow> nat \<Rightarrow> nat \<Rightarrow> nat \<Rightarrow> pc_data list \<Rightarrow> string list \<Rightarrow> ('d, (pc_data list \<times> string list) option) tool_fn" where
  "frames_loop E G l i 0 str_offset pcs names = ret_t (Some (pcs, names))"
| "frames_loop E G l i (Suc n) str_offset pcs names =
     dbg_or None E ''readReturnAddress'' (lane_args l @ [Int32 (of_nat (i - 1))]) (\<lambda>r.
     dbg_or None E ''readVirtualReturnAddress'' (lane_args l @ [Int32 (of_nat (i - 1))]) (\<lambda>v.
     case RRTO_cr_function_name G (out64 E v 0) of None \<Rightarrow> ret_t None
     | Some name \<Rightarrow>
         dbg_or None E ''readCodeMemory'' [Int32 (l_dev l), Word64 (out64 E v 0 - 8), Int32 8] (\<lambda>c.
         let call_instr = of_nat (le_val (out_bytes E c 0 8)) :: u64;
             base_addr = ucast (drop_bit 20 call_instr) :: u32;
             prev = pcs ! (i - 1) in
         frames_loop E G l (i + 1) n (str_offset + length name + 1)
           (pcs[i - 1 := prev\<lparr>pc_absolute := ucast base_addr + pc_relative prev\<rparr>] @
            [\<lparr>pc_relative = out64 E r 0, pc_absolute = 0, pc_virt = out64 E v 0, pc_str_offset = of_nat str_offset\<rparr>])
           (names @ [name]))))"

text \<open>
  Without a lane, lane 0 is taken: the search for an active one assigns a variable of the loop. The
  depth wraps around to no room for the first entry.
\<close>

definition RRTO_cr_callstack :: "'d env \<Rightarrow> gdb \<Rightarrow> warp_info \<Rightarrow> u32 \<Rightarrow> ('d, callstack option) tool_fn" where
  "RRTO_cr_callstack E G wi lane_param =
     dbg_or None E ''readValidLanes'' (wi_args wi) (\<lambda>valid.
     dbg_or None E ''readActiveLanes'' (wi_args wi) (\<lambda>active.
     let lane = (if lane_param = RRTO_CR_NOLANE then 0 else lane_param); l = the_lane wi lane in
     dbg_or None E ''readCallDepth'' (lane_args l) (\<lambda>d.
     let size = unat (out32 E d 0 + 1) in
     if \<not> heap_ok E (size * 8) then ret_t None
     else if \<not> heap_ok E (size * 32) then ret_t None
     else if size = 0 then lift_t (Inl Out_Of_Bounds)
     else
     dbg_or None E ''readPC'' (lane_args l) (\<lambda>p.
     dbg_or None E ''readVirtualPC'' (lane_args l) (\<lambda>v.
     case RRTO_cr_function_name G (out64 E v 0) of None \<Rightarrow> ret_t None
     | Some name \<Rightarrow>
         bind_t (frames_loop E G l 1 (size - 1) (length name + 1)
           [\<lparr>pc_relative = out64 E p 0, pc_absolute = 0, pc_virt = out64 E v 0, pc_str_offset = 0\<rparr>] [name]) (\<lambda>r.
         ret_t (map_option (\<lambda>(pcs, names). \<lparr>cs_active_lanes = out32 E active 0, cs_valid_lanes = out32 E valid 0,
           cs_pc = pcs, cs_names = names\<rparr>) r)))))))"

text \<open>
  The file of a call stack: three words, the entries, the names one behind the other, each where its
  entry says.
\<close>

definition str_bytes :: "string \<Rightarrow> u8 list" where
  "str_bytes s = map of_char s @ [0]"

definition pc_bytes :: "pc_data \<Rightarrow> u8 list" where
  "pc_bytes p = i64 (pc_relative p) @ i64 (pc_absolute p) @ i64 (pc_virt p) @ i64 (pc_str_offset p)"

fun put_names :: "nat \<Rightarrow> (pc_data \<times> string) list \<Rightarrow> u8 list \<Rightarrow> u8 list res" where
  "put_names base [] m = Inr m"
| "put_names base ((p, name) # ps) m =
     bind_r (Fatbin.put m (base + unat (pc_str_offset p)) (str_bytes name)) (put_names base ps)"

definition pack_callstack :: "'d env \<Rightarrow> callstack \<Rightarrow> nat \<Rightarrow> u8 list res" where
  "pack_callstack E cs packed_size =
     (let size = length (cs_pc cs) in
      bind_r (Fatbin.put (replicate packed_size (fresh_byte E)) 0
        (i32 (cs_valid_lanes cs) @ i32 (cs_active_lanes cs) @ i32 (of_nat size))) (\<lambda>m.
      bind_r (Fatbin.put m 12 (concat (map pc_bytes (cs_pc cs)))) (\<lambda>m.
      put_names (12 + 32 * size) (zip (cs_pc cs) (cs_names cs)) m)))"

definition packed_size_of :: "callstack \<Rightarrow> nat" where
  "packed_size_of cs =
     wrap64 (12 + length (cs_pc cs) * 32 + wrap64 (unat (pc_str_offset (last (cs_pc cs))) + length (last (cs_names cs)) + 1))"

definition RRTO_cr_ckp_pc :: "'d env \<Rightarrow> warp_info \<Rightarrow> u32 \<Rightarrow> string option \<Rightarrow> callstack \<Rightarrow> ('d, bool) tool_fn" where
  "RRTO_cr_ckp_pc E wi lane_param ckp_dir cs =
     (if ckp_dir = None then ret_t False
      else if cs_pc cs = [] then lift_t (Inl Out_Of_Bounds)
      else let packed_size = packed_size_of cs in
      if \<not> heap_ok E packed_size then lift_t (Inl Uninit_Read)
      else bind_t (lift_t (pack_callstack E cs packed_size)) (\<lambda>packed.
        bind_t (lift_t (RRTO_cr_gen_suffix E wi lane_param)) (\<lambda>suffix.
        RRTO_file_store_mem E ckp_dir RRTO_DT_PC (Some suffix) packed packed_size)))"

text \<open>
  Reading it back. A name is the bytes up to a zero; it is read when the file is. A file without an
  entry looks for the last one far behind its end.
\<close>

definition c_string :: "u8 list \<Rightarrow> nat \<Rightarrow> string res" where
  "c_string m p =
     (let bs = takeWhile (\<lambda>b. b \<noteq> 0) (drop p m) in
      if p + length bs < length m then Inr (map (\<lambda>b. char_of (unat b)) bs) else Inl Out_Of_Bounds)"

definition word64_at :: "u8 list \<Rightarrow> nat \<Rightarrow> u64 res" where
  "word64_at m p = bind_r (rd m p 8) (\<lambda>n. Inr (of_nat n))"

definition read_entry :: "u8 list \<Rightarrow> nat \<Rightarrow> pc_data res" where
  "read_entry m p =
     bind_r (word64_at m p) (\<lambda>rel. bind_r (word64_at m (p + 8)) (\<lambda>abs. bind_r (word64_at m (p + 16)) (\<lambda>virt.
     bind_r (word64_at m (p + 24)) (\<lambda>str.
     Inr \<lparr>pc_relative = rel, pc_absolute = abs, pc_virt = virt, pc_str_offset = str\<rparr>))))"

fun read_entries :: "u8 list \<Rightarrow> nat \<Rightarrow> nat \<Rightarrow> pc_data list res" where
  "read_entries m p 0 = Inr []"
| "read_entries m p (Suc n) =
     bind_r (read_entry m p) (\<lambda>e. bind_r (read_entries m (p + 32) n) (\<lambda>es. Inr (e # es)))"

fun read_names :: "u8 list \<Rightarrow> nat \<Rightarrow> pc_data list \<Rightarrow> string list option res" where
  "read_names m base [] = Inr (Some [])"
| "read_names m base (p # ps) =
     (let at = wrap64 (base + unat (pc_str_offset p)) in
      if length m < at then Inr None
      else bind_r (c_string m at) (\<lambda>name. bind_r (read_names m base ps) (\<lambda>r. Inr (map_option (\<lambda>ns. name # ns) r))))"

definition unpack_callstack :: "'d env \<Rightarrow> u8 list \<Rightarrow> callstack option res" where
  "unpack_callstack E m =
     (if length m < 12 then Inr None
      else bind_r (word_at m 0) (\<lambda>valid. bind_r (word_at m 4) (\<lambda>active. bind_r (word_at m 8) (\<lambda>size.
        let n = unat size; offset = 12 + n * 32 in
        if length m < offset then Inr None
        else bind_r (word64_at m (12 + unat (size - 1) * 32 + 24)) (\<lambda>last_str.
        if length m < wrap64 (offset + unat last_str + 1) then Inr None
        else if \<not> heap_ok E (n * 8) then Inr None
        else bind_r (read_entries m 12 n) (\<lambda>pcs.
        bind_r (read_names m offset pcs) (\<lambda>r.
        Inr (map_option (\<lambda>names. \<lparr>cs_active_lanes = active, cs_valid_lanes = valid, cs_pc = pcs, cs_names = names\<rparr>) r))))))))"

definition RRTO_cr_read_pc :: "'d env \<Rightarrow> warp_info \<Rightarrow> u32 \<Rightarrow> string option \<Rightarrow> ('d, callstack option) tool_fn" where
  "RRTO_cr_read_pc E wi lane ckp_dir =
     bind_t (lift_t (RRTO_cr_gen_suffix E wi lane)) (\<lambda>suffix.
     bind_t (RRTO_file_read_mem_size E ckp_dir RRTO_DT_PC (Some suffix) None 0) (\<lambda>(ok, packed, _).
     if \<not> ok then ret_t None
     else lift_t (unpack_callstack E (case packed of None \<Rightarrow> [] | Some m \<Rightarrow> m))))"

section \<open>Navigating the jump table\<close>

text \<open>Both steps leave the position they have reached.\<close>

definition RRTO_cr_rst_subcall :: "'d env \<Rightarrow> warp_info \<Rightarrow> callstack \<Rightarrow> nat \<Rightarrow> jmptable_entry list \<Rightarrow> u64 \<Rightarrow> ('d, u64 option) tool_fn" where
  "RRTO_cr_rst_subcall E wi cs c_level cal cur_address =
     (if length (cs_pc cs) \<le> c_level then lift_t (Inl Out_Of_Bounds)
      else let jmptbl_address = RRTO_elf_get_jmptable_addr cal (pc_relative (cs_pc cs ! c_level)) in
      dbg_or None E ''readValidLanes'' (wi_args wi) (\<lambda>outs.
      bind_t (set_jump E wi (out32 E outs 0) (jmptbl_address - cur_address - 8)) (\<lambda>ok.
      if \<not> ok then ret_t None
      else bind_t (single_step E wi) (\<lambda>ok. if \<not> ok then ret_t None
      else bind_t (single_step E wi) (\<lambda>ok. ret_t (if ok then Some (jmptbl_address + 8) else None))))))"

definition RRTO_cr_rst_ssy :: "'d env \<Rightarrow> gdb \<Rightarrow> warp_info \<Rightarrow> callstack \<Rightarrow> nat \<Rightarrow> jmptable_entry list \<Rightarrow> u64 \<Rightarrow> ('d, u64 option) tool_fn" where
  "RRTO_cr_rst_ssy E G wi cs c_level ssy cur_address =
     (if length (cs_pc cs) \<le> c_level then lift_t (Inl Out_Of_Bounds)
      else let rel = pc_relative (cs_pc cs ! c_level) in
      bind_t (lift_t (RRTO_elf_pc_info E G (cs_names cs ! c_level) (unat rel) True False)) (\<lambda>(ok, relative_ssy, _).
      if \<not> ok then ret_t None
      else case relative_ssy of None \<Rightarrow> lift_t (Inl Uninit_Read)
      | Some relative_ssy \<Rightarrow>
          let cmp_address = (if relative_ssy mod 32 = 0 then rel - 8 else rel) in
          if \<not> cmp_address \<le> relative_ssy then ret_t (Some cur_address)
          else let jmptbl_address = RRTO_elf_get_jmptable_addr ssy relative_ssy in
          dbg_or None E ''readValidLanes'' (wi_args wi) (\<lambda>outs.
          bind_t (set_jump E wi (out32 E outs 0) (jmptbl_address - cur_address - 8)) (\<lambda>ok.
          if \<not> ok then ret_t None
          else bind_t (single_step E wi) (\<lambda>ok. if \<not> ok then ret_t None
          else bind_t (single_step E wi) (\<lambda>ok. if \<not> ok then ret_t None
          else let addr = jmptbl_address + 8 in
               ret_t (Some (if addr mod 32 = 0 then addr + 8 else addr))))))))"

text \<open>A lane is sent to its position, with as many attempts as it takes.\<close>

fun write_until :: "nat \<Rightarrow> 'd env \<Rightarrow> cval list \<Rightarrow> ('d, unit) tool_fn" where
  "write_until 0 E args = lift_t (Inl No_Fuel)"
| "write_until (Suc fuel) E args =
     bind_t (dbg E ''writeRegister'' args) (\<lambda>(res, _). if res \<noteq> CUDBG_SUCCESS then write_until fuel E args else ret_t ())"

definition RRTO_cr_rst_pc :: "nat \<Rightarrow> 'd env \<Rightarrow> warp_info \<Rightarrow> u32 \<Rightarrow> callstack \<Rightarrow> ('d, bool) tool_fn" where
  "RRTO_cr_rst_pc fuel E wi lane_param cs =
     (let lane = (if lane_param = RRTO_CR_NOLANE then 0 else lane_param); l = the_lane wi lane;
          size = length (cs_pc cs) in
      if 32 \<le> unat lane then lift_t (Inl Bad_Shift)
      else if size \<noteq> 1 \<and> size \<noteq> 2 then ret_t False
      else if size = 2 \<and> cs_active_lanes cs \<noteq> cs_valid_lanes cs then ret_t False
      else let address = (if size = 1 then pc_relative (cs_pc cs ! 0) - 0x20 else pc_absolute (cs_pc cs ! 0)) in
      if 2 ^ 32 < address then ret_t False
      else let predicate = (if bit (cs_active_lanes cs) (unat lane) then 0 else 1) in
      dbg_or False E ''writePredicates'' (lane_args l @ [Int32 1, Bytes (i32 predicate)]) (\<lambda>_.
      bind_t (write_until fuel E (lane_args l @ [Int32 RRTO_JMX_ADDR_REG, Int32 (ucast address)])) (\<lambda>_. ret_t True)))"

section \<open>Making a warp checkpointable\<close>

text \<open>The bit of the warp is one of an \<open>int\<close>, so that a warp above 31 has none.\<close>

definition warp_bit :: "warp_info \<Rightarrow> u64 res" where
  "warp_bit wi = (if unat (wi_warp wi) < 32 then Inr (scast (push_bit (unat (wi_warp wi)) 1 :: u32)) else Inl Bad_Shift)"

fun wait_broken :: "nat \<Rightarrow> 'd env \<Rightarrow> u32 \<Rightarrow> u32 \<Rightarrow> ('d, bool) tool_fn" where
  "wait_broken 0 E dev sm = lift_t (Inl No_Fuel)"
| "wait_broken (Suc fuel) E dev sm =
     bind_t (RRTO_cr_sm_broken E dev sm) (\<lambda>b. if b then ret_t True else wait_broken fuel E dev sm)"

definition resume_until :: "nat \<Rightarrow> 'd env \<Rightarrow> warp_info \<Rightarrow> u64 \<Rightarrow> ('d, bool) tool_fn" where
  "resume_until fuel E wi pc =
     bind_t (lift_t (warp_bit wi)) (\<lambda>warps.
     dbg_or False E ''resumeWarpsUntilPC'' [Int32 (wi_dev wi), Int32 (wi_sm wi), Word64 warps, Word64 pc] (\<lambda>_.
     wait_broken fuel E (wi_dev wi) (wi_sm wi)))"

definition resume_if :: "bool \<Rightarrow> nat \<Rightarrow> 'd env \<Rightarrow> warp_info \<Rightarrow> u64 \<Rightarrow> ('d, bool) tool_fn" where
  "resume_if c fuel E wi pc = (if c then resume_until fuel E wi pc else ret_t True)"

text \<open>
  The outermost function without room decides: the warp runs on to the call of it, unless it is one of
  the two innermost, then to its synchronisation and its break point, and the call stack is read again.
\<close>

definition step_up :: "nat \<Rightarrow> 'd env \<Rightarrow> gdb \<Rightarrow> warp_info \<Rightarrow> callstack \<Rightarrow> nat \<Rightarrow> ('d, callstack option) tool_fn" where
  "step_up fuel E G wi cs i =
     (let pc = cs_pc cs ! i; rel = pc_relative pc; base = pc_virt pc - rel; stepup = (1 < i) in
      bind_t (resume_if stepup fuel E wi (pc_virt pc + 8)) (\<lambda>ok.
      if \<not> ok then ret_t None
      else bind_t (lift_t (RRTO_elf_pc_info E G (cs_names cs ! i) (unat rel) True True)) (\<lambda>(ok, ssy, pbk).
      if \<not> ok then ret_t None
      else case (ssy, pbk) of
        (Some rel_ssy, Some rel_pbk) \<Rightarrow>
          bind_t (resume_if (rel < rel_ssy) fuel E wi (base + rel_ssy)) (\<lambda>ok.
          if \<not> ok then ret_t None
          else bind_t (resume_if (rel < rel_pbk) fuel E wi (base + rel_pbk)) (\<lambda>ok.
          if \<not> ok then ret_t None
          else let joined = (rel < rel_ssy \<or> rel < rel_pbk) in
          if \<not> joined \<and> \<not> stepup then ret_t (Some cs)
          else bind_t (RRTO_cr_callstack E G wi RRTO_CR_NOLANE) (\<lambda>r.
            case r of None \<Rightarrow> ret_t None
            | Some cs' \<Rightarrow>
                if length (cs_pc cs') \<noteq> length (cs_pc cs) - i then ret_t None
                else if joined \<and> cs_valid_lanes cs' \<noteq> cs_active_lanes cs' then ret_t None
                else ret_t (Some cs'))))
      | _ \<Rightarrow> lift_t (Inl Uninit_Read))))"

fun checkpointable_loop ::
  "nat \<Rightarrow> 'd env \<Rightarrow> gdb \<Rightarrow> warp_info \<Rightarrow> function_info list \<Rightarrow> callstack \<Rightarrow> nat \<Rightarrow> ('d, callstack option) tool_fn" where
  "checkpointable_loop fuel E G wi fi cs 0 = ret_t (Some cs)"
| "checkpointable_loop fuel E G wi fi cs (Suc i) =
     bind_t (lift_t (RRTO_elf_get_fun_info fi (cs_names cs ! i))) (\<lambda>the_fi.
       case the_fi of None \<Rightarrow> ret_t None
       | Some f \<Rightarrow>
           if Suc i = length (cs_pc cs) \<and> fi_room f = 0 then ret_t None
           else if \<not> fi_has_room f then step_up fuel E G wi cs i
           else checkpointable_loop fuel E G wi fi cs i)"

definition RRTO_cr_make_checkpointable ::
  "nat \<Rightarrow> 'd env \<Rightarrow> gdb \<Rightarrow> warp_info \<Rightarrow> function_info list \<Rightarrow> callstack \<Rightarrow> ('d, callstack option) tool_fn" where
  "RRTO_cr_make_checkpointable fuel E G wi fi cs =
     (if cs_pc cs = [] then lift_t (Inl Out_Of_Bounds)
      else checkpointable_loop fuel E G wi fi cs (length (cs_pc cs)))"

section \<open>Parameters\<close>

text \<open>The name of the file for the memory a parameter points to is put into eight bytes.\<close>

definition sprintf_buf :: "nat \<Rightarrow> string \<Rightarrow> string res" where
  "sprintf_buf n s = (if length s < n then Inr s else Inl Out_Of_Bounds)"

definition param_suffix :: "gpu_param \<Rightarrow> string" where
  "param_suffix p = ''-P'' @ dec (unat (gp_index p))"

text \<open>A block of the size an allocation has is given to the debugger with 32 bits of the size.\<close>

definition write_global :: "'d env \<Rightarrow> u64 \<Rightarrow> u8 list option \<Rightarrow> nat \<Rightarrow> ('d, bool) tool_fn" where
  "write_global E addr m sz =
     (let n = unat (of_nat sz :: u32) in
      bind_t (lift_t (CrFile.read_block m n)) (\<lambda>bs.
      dbg_or False E ''writeGlobalMemory'' [Word64 addr, Bytes bs, Int32 (of_nat sz)] (\<lambda>_. ret_t True)))"

fun rst_params_loop :: "'d env \<Rightarrow> string option \<Rightarrow> u8 list \<Rightarrow> gpu_param list \<Rightarrow> ('d, bool) tool_fn" where
  "rst_params_loop E ckp_dir param_mem [] = ret_t True"
| "rst_params_loop E ckp_dir param_mem (p # ps) =
     (if gp_size p \<noteq> 8 then rst_params_loop E ckp_dir param_mem ps
      else bind_t (lift_t (sprintf_buf 8 (param_suffix p))) (\<lambda>heap_suffix.
      bind_t (\<lambda>t. Inr (RRTO_file_exists E ckp_dir RRTO_DT_HEAP (Some heap_suffix) t, t)) (\<lambda>ex.
      if \<not> ex then rst_params_loop E ckp_dir param_mem ps
      else bind_t (RRTO_file_read_mem_size E ckp_dir RRTO_DT_HEAP (Some heap_suffix) None 0) (\<lambda>(ok, param_data, heapsize).
      if \<not> ok then ret_t False
      else bind_t (lift_t (word64_at param_mem (unat (gp_offset p)))) (\<lambda>addr.
      bind_t (write_global E addr param_data (the heapsize)) (\<lambda>ok.
      if \<not> ok then ret_t False else rst_params_loop E ckp_dir param_mem ps))))))"

definition RRTO_cr_rst_params :: "'d env \<Rightarrow> string option \<Rightarrow> elf_info \<Rightarrow> u32 \<Rightarrow> u32 \<Rightarrow> u32 \<Rightarrow> ('d, bool) tool_fn" where
  "RRTO_cr_rst_params E ckp_dir info dev sm warp =
     (let n = unat (ei_param_size info) in
      if \<not> heap_ok E n then ret_t False
      else bind_t (RRTO_file_read_mem E ckp_dir RRTO_DT_PARAM None (replicate n (fresh_byte E)) n) (\<lambda>(ok, param_mem).
      if \<not> ok then ret_t False
      else dbg_or False E ''writeParamMemory''
             [Int32 dev, Int32 sm, Int32 warp, Word64 (ucast (ei_param_addr info)), Bytes param_mem, Int32 (ucast (ei_param_size info))] (\<lambda>_.
           case ei_params info of None \<Rightarrow> lift_t (Inl Uninit_Read) | Some ps \<Rightarrow> rst_params_loop E ckp_dir param_mem ps)))"

text \<open>The memory behind a pointer goes to a block that is kept for the next one; a failed write is not an error.\<close>

definition read_global :: "'d env \<Rightarrow> u64 \<Rightarrow> u8 list \<Rightarrow> nat \<Rightarrow> ('d, u8 list option) tool_fn" where
  "read_global E addr m sz =
     dbg_or None E ''readGlobalMemory'' [Word64 addr, Int32 (of_nat sz)] (\<lambda>outs.
     bind_t (lift_t (Fatbin.put (resized E m sz) 0 (out_bytes E outs 0 (unat (of_nat sz :: u32))))) (\<lambda>m. ret_t (Some m)))"

fun ckp_params_loop :: "'d env \<Rightarrow> string option \<Rightarrow> u8 list \<Rightarrow> u8 list \<Rightarrow> gpu_param list \<Rightarrow> ('d, bool) tool_fn" where
  "ckp_params_loop E ckp_dir param_mem param_data [] = ret_t True"
| "ckp_params_loop E ckp_dir param_mem param_data (p # ps) =
     (if gp_size p \<noteq> 8 then ckp_params_loop E ckp_dir param_mem param_data ps
      else bind_t (lift_t (word64_at param_mem (unat (gp_offset p)))) (\<lambda>addr.
      bind_t (RRTO_heap_memreg_size E addr False) (\<lambda>(found, heapsize).
      if \<not> found then ckp_params_loop E ckp_dir param_mem param_data ps
      else if \<not> heap_ok E heapsize then ret_t False
      else bind_t (read_global E addr param_data heapsize) (\<lambda>r.
        case r of None \<Rightarrow> ret_t False
        | Some m \<Rightarrow>
            bind_t (lift_t (sprintf_buf 8 (param_suffix p))) (\<lambda>heap_suffix.
            bind_t (RRTO_file_store_mem E ckp_dir RRTO_DT_HEAP (Some heap_suffix) m heapsize) (\<lambda>_.
            ckp_params_loop E ckp_dir param_mem m ps))))))"

definition RRTO_cr_ckp_params :: "'d env \<Rightarrow> string option \<Rightarrow> elf_info \<Rightarrow> u32 \<Rightarrow> u32 \<Rightarrow> u32 \<Rightarrow> ('d, bool) tool_fn" where
  "RRTO_cr_ckp_params E ckp_dir info dev sm warp =
     (let n = unat (ei_param_size info) in
      if \<not> heap_ok E n then ret_t False
      else dbg_or False E ''readParamMemory''
             [Int32 dev, Int32 sm, Int32 warp, Word64 (ucast (ei_param_addr info)), Int32 (ucast (ei_param_size info))] (\<lambda>outs.
      let param_mem = out_bytes E outs 0 n in
      bind_t (RRTO_file_store_mem E ckp_dir RRTO_DT_PARAM None param_mem n) (\<lambda>ok.
      if \<not> ok then ret_t False
      else bind_t (RRTO_focus_host E) (\<lambda>_.
        case ei_params info of None \<Rightarrow> lift_t (Inl Uninit_Read) | Some ps \<Rightarrow> ckp_params_loop E ckp_dir param_mem [] ps))))"

section \<open>Shared memory\<close>

definition shared_suffix :: "u32 \<Rightarrow> u32 \<Rightarrow> u32 \<Rightarrow> string" where
  "shared_suffix dev sm warp = ''-D'' @ dec (unat dev) @ ''S'' @ dec (unat sm) @ ''W'' @ dec (unat warp)"

definition RRTO_cr_ckp_shared :: "'d env \<Rightarrow> string option \<Rightarrow> elf_info \<Rightarrow> u32 \<Rightarrow> u32 \<Rightarrow> u32 \<Rightarrow> ('d, bool) tool_fn" where
  "RRTO_cr_ckp_shared E ckp_dir info dev sm warp =
     (let n = ei_shared_size info in
      if n = 0 then ret_t True
      else if \<not> heap_ok E n then ret_t False
      else bind_t (lift_t (sprintf_buf 16 (shared_suffix dev sm warp))) (\<lambda>suffix.
      dbg_or False E ''readSharedMemory'' [Int32 dev, Int32 sm, Int32 warp, Word64 0, Int32 (of_nat n)] (\<lambda>outs.
      bind_t (lift_t (Fatbin.put (replicate n (fresh_byte E)) 0 (out_bytes E outs 0 (unat (of_nat n :: u32))))) (\<lambda>shared_mem.
      RRTO_file_store_mem E ckp_dir RRTO_DT_SHARED (Some suffix) shared_mem n))))"

definition RRTO_cr_rst_shared :: "'d env \<Rightarrow> string option \<Rightarrow> elf_info \<Rightarrow> u32 \<Rightarrow> u32 \<Rightarrow> u32 \<Rightarrow> ('d, bool) tool_fn" where
  "RRTO_cr_rst_shared E ckp_dir info dev sm warp =
     (let n = ei_shared_size info in
      if n = 0 then ret_t True
      else if \<not> heap_ok E n then ret_t False
      else bind_t (lift_t (sprintf_buf 16 (shared_suffix dev sm warp))) (\<lambda>suffix.
      bind_t (RRTO_file_read_mem E ckp_dir RRTO_DT_SHARED (Some suffix) (replicate n (fresh_byte E)) n) (\<lambda>(ok, shared_mem).
      if \<not> ok then ret_t False
      else bind_t (lift_t (CrFile.read_block (Some shared_mem) (unat (of_nat n :: u32)))) (\<lambda>bs.
      dbg_or False E ''writeSharedMemory'' [Int32 dev, Int32 sm, Int32 warp, Word64 0, Bytes bs, Int32 (of_nat n)] (\<lambda>_.
      ret_t True)))))"

section \<open>Global variables\<close>

definition globals_size :: "global_var list \<Rightarrow> nat" where
  "globals_size gs = wrap64 (sum_list (map (\<lambda>g. unat (gv_size g)) gs))"

definition global_suffix :: "global_var \<Rightarrow> string" where
  "global_suffix g = ''-G'' @ gv_symbol g"

text \<open>The variables themselves, one behind the other in a block.\<close>

fun write_globals :: "'d env \<Rightarrow> u8 list \<Rightarrow> nat \<Rightarrow> global_var list \<Rightarrow> ('d, bool) tool_fn" where
  "write_globals E m offset [] = ret_t True"
| "write_globals E m offset (g # gs) =
     bind_t (lift_t (Fatbin.read_block m offset (unat (ucast (gv_size g) :: u32)))) (\<lambda>bs.
     dbg_or False E ''writeGlobalMemory'' [Word64 (gv_address g), Bytes bs, Int32 (ucast (gv_size g))] (\<lambda>_.
     write_globals E m (offset + unat (gv_size g)) gs))"

fun read_globals :: "'d env \<Rightarrow> u8 list \<Rightarrow> nat \<Rightarrow> global_var list \<Rightarrow> ('d, u8 list option) tool_fn" where
  "read_globals E m offset [] = ret_t (Some m)"
| "read_globals E m offset (g # gs) =
     dbg_or None E ''readGlobalMemory'' [Word64 (gv_address g), Int32 (ucast (gv_size g))] (\<lambda>outs.
     bind_t (lift_t (Fatbin.put m offset (out_bytes E outs 0 (unat (ucast (gv_size g) :: u32))))) (\<lambda>m.
     read_globals E m (offset + unat (gv_size g)) gs))"

text \<open>
  The memory they point to. A restore moves on in the block only behind a variable it has restored; the
  name of the file is \<open>None\<close>, not set, if there is no memory for it.
\<close>

fun rst_globals_loop :: "'d env \<Rightarrow> string option \<Rightarrow> u8 list \<Rightarrow> nat \<Rightarrow> global_var list \<Rightarrow> ('d, bool) tool_fn" where
  "rst_globals_loop E ckp_dir m offset [] = ret_t True"
| "rst_globals_loop E ckp_dir m offset (g # gs) =
     (if gv_size g \<noteq> 8 then rst_globals_loop E ckp_dir m offset gs
      else let heap_suffix = asprintf E (global_suffix g) in
      bind_t (\<lambda>t. Inr (RRTO_file_exists E ckp_dir RRTO_DT_HEAP heap_suffix t, t)) (\<lambda>ex.
      if \<not> ex then rst_globals_loop E ckp_dir m offset gs
      else bind_t (RRTO_file_read_mem_size E ckp_dir RRTO_DT_HEAP heap_suffix None 0) (\<lambda>(ok, globals_data, heapsize).
      if \<not> ok then ret_t False
      else bind_t (lift_t (word64_at m offset)) (\<lambda>addr.
      bind_t (write_global E addr globals_data (the heapsize)) (\<lambda>ok.
      if \<not> ok then ret_t False else rst_globals_loop E ckp_dir m (offset + unat (gv_size g)) gs)))))"

definition RRTO_cr_rst_globals :: "'d env \<Rightarrow> gdb \<Rightarrow> string option \<Rightarrow> ('d, bool) tool_fn" where
  "RRTO_cr_rst_globals E G ckp_dir =
     bind_t (lift_t (RRTO_elf_get_global_vars_info E G)) (\<lambda>r.
       case r of None \<Rightarrow> ret_t False
       | Some globals \<Rightarrow>
           let n = globals_size globals in
           if \<not> heap_ok E n then ret_t False
           else bind_t (RRTO_file_read_mem E ckp_dir RRTO_DT_GLOBALS None (replicate n (fresh_byte E)) n) (\<lambda>(ok, m).
           if \<not> ok then ret_t False
           else bind_t (write_globals E m 0 globals) (\<lambda>ok.
           if \<not> ok then ret_t False else rst_globals_loop E ckp_dir m 0 globals)))"

text \<open>
  A checkpoint moves on by the size of the variable it comes to, not of the one it leaves. (Behind the
  last one it reads a size outside the array, which it does not use.)
\<close>

fun ckp_globals_loop :: "'d env \<Rightarrow> string option \<Rightarrow> u8 list \<Rightarrow> u8 list \<Rightarrow> nat \<Rightarrow> global_var list \<Rightarrow> ('d, bool) tool_fn" where
  "ckp_globals_loop E ckp_dir m globals_data offset [] = ret_t True"
| "ckp_globals_loop E ckp_dir m globals_data offset (g # gs) =
     (let next = (case gs of [] \<Rightarrow> offset | g' # _ \<Rightarrow> offset + unat (gv_size g')) in
      if gv_size g \<noteq> 8 then ckp_globals_loop E ckp_dir m globals_data next gs
      else bind_t (lift_t (word64_at m offset)) (\<lambda>addr.
      bind_t (RRTO_heap_memreg_size E addr False) (\<lambda>(found, heapsize).
      if \<not> found then ckp_globals_loop E ckp_dir m globals_data next gs
      else if \<not> heap_ok E heapsize then ret_t False
      else bind_t (read_global E addr globals_data heapsize) (\<lambda>r.
        case r of None \<Rightarrow> ret_t False
        | Some data' \<Rightarrow>
            bind_t (RRTO_file_store_mem E ckp_dir RRTO_DT_HEAP (asprintf E (global_suffix g)) data' heapsize) (\<lambda>_.
            ckp_globals_loop E ckp_dir m data' next gs)))))"

definition RRTO_cr_ckp_globals :: "'d env \<Rightarrow> gdb \<Rightarrow> string option \<Rightarrow> ('d, bool) tool_fn" where
  "RRTO_cr_ckp_globals E G ckp_dir =
     bind_t (lift_t (RRTO_elf_get_global_vars_info E G)) (\<lambda>r.
       case r of None \<Rightarrow> ret_t False
       | Some globals \<Rightarrow>
           let n = globals_size globals in
           if \<not> heap_ok E n then ret_t False
           else bind_t (read_globals E (replicate n (fresh_byte E)) 0 globals) (\<lambda>r.
             case r of None \<Rightarrow> ret_t False
             | Some m \<Rightarrow>
                 bind_t (RRTO_file_store_mem E ckp_dir RRTO_DT_GLOBALS None m n) (\<lambda>ok.
                 if \<not> ok then ret_t False
                 else bind_t (RRTO_focus_host E) (\<lambda>_. ckp_globals_loop E ckp_dir m [] 0 globals))))"

section \<open>A lane goes to its files and back\<close>

lemma bind_t_Inr_iff: "bind_t m k t = Inr y \<longleftrightarrow> (\<exists>x t'. m t = Inr (x, t') \<and> k x t' = Inr y)"
  by (auto simp: bind_t_def bind_r_Inr_iff)

lemma lift_t_Inr_iff: "lift_t r t = Inr (x, t') \<longleftrightarrow> r = Inr x \<and> t' = t"
  by (auto simp: lift_t_def bind_r_Inr_iff)

lemma ret_t_Inr_iff: "ret_t x t = Inr (y, t') \<longleftrightarrow> y = x \<and> t' = t"
  by (auto simp: ret_t_def)

lemma gen_suffix_Inr: "RRTO_cr_gen_suffix E wi lane = Inr s \<Longrightarrow> s = suffix_of wi lane"
  by (auto simp: RRTO_cr_gen_suffix_def asprintf_def split: if_splits)

definition stack_of :: "lane_state \<Rightarrow> u32 \<Rightarrow> u32 \<Rightarrow> u8 list" where
  "stack_of st sp n = read_mem (r_local st) (unat (r_regs st (unat sp))) (unat n)"

text \<open>What a checkpoint of a lane that succeeds leaves on the disk.\<close>

lemma ckp_lane_files:
  assumes "lane_debugger E view" and "sane_prop (wi_dev_prop wi)"
    and "RRTO_cr_ckp_lane E G wi lane (Some p) t = Inr (True, t')"
  defines "st \<equiv> view (gdev t) (the_lane wi lane)"
  shows "RRTO_cr_gen_suffix E wi lane = Inr (suffix_of wi lane)"
    and "heap_ok E (unat (wi_stack_size wi))" and "heap_ok E (RRTO_register_size (wi_dev_prop wi))"
    and "file_holds E p RRTO_DT_STACK (Some (suffix_of wi lane)) (stack_of st (sp_regnum G) (wi_stack_size wi)) t'"
    and "file_holds E p RRTO_DT_REGISTERS (Some (suffix_of wi lane)) (lane_block st (wi_dev_prop wi)) t'"
    and "gdev t' = gdev t"
proof -
  let ?n = "unat (wi_stack_size wi)" and ?rs = "RRTO_register_size (wi_dev_prop wi)" and ?s = "suffix_of wi lane"
  let ?stack = "stack_of st (sp_regnum G) (wi_stack_size wi)"
  have s: "RRTO_cr_gen_suffix E wi lane = Inr ?s"
    using assms(3) gen_suffix_Inr [of E wi lane]
    by (auto simp: RRTO_cr_ckp_lane_def bind_t_Inr_iff lift_t_Inr_iff)
  have hs: "heap_ok E ?n"
    using assms(3) by (auto simp: RRTO_cr_ckp_lane_def s ret_t_Inr_iff Let_def split: if_splits)
  have get: "RRTO_stack_get_mem E (sp_regnum G) (the_lane wi lane) (replicate ?n (fresh_byte E)) (wi_stack_size wi) t =
      Inr ((True, ?stack), t)"
    by (simp add: stack_get_mem_read [OF assms(1)] stack_of_def st_def)
  obtain t1 where st1: "RRTO_file_store_mem E (Some p) RRTO_DT_STACK (Some ?s) ?stack ?n t = Inr (True, t1)"
      and hr: "heap_ok E ?rs"
      and rest: "bind_t (RRTO_register_ckp E (the_lane wi lane) (resized E ?stack ?rs) (wi_dev_prop wi)) (\<lambda>(ok, mem).
        if \<not> ok then ret_t False
        else bind_t (RRTO_file_store_mem E (Some p) RRTO_DT_REGISTERS (Some ?s) mem ?rs) (\<lambda>ok.
        ret_t (if \<not> ok then False else heap_ok E 8))) t1 = Inr (True, t')"
    using assms(3)
    by (auto simp: RRTO_cr_ckp_lane_def s hs Let_def bind_t_Inr_iff [where m = "RRTO_file_store_mem E (Some p) RRTO_DT_STACK x y z" for x y z]
        bind_t_Inr_iff [where m = "RRTO_stack_get_mem E x y z w" for x y z w] get ret_t_Inr_iff split: if_splits)
  have g1: "gdev t1 = gdev t"
    using store_holds(2) [OF st1] .
  have ck: "RRTO_register_ckp E (the_lane wi lane) (resized E ?stack ?rs) (wi_dev_prop wi) t1 =
      Inr ((True, lane_block st (wi_dev_prop wi)), t1)"
    using register_ckp_block [OF assms(1,2), of "resized E ?stack ?rs" "the_lane wi lane" t1]
    by (simp add: resized_def g1 st_def)
  have st2: "RRTO_file_store_mem E (Some p) RRTO_DT_REGISTERS (Some ?s) (lane_block st (wi_dev_prop wi)) ?rs t1 = Inr (True, t')"
    using rest by (auto simp: bind_t_Inr_iff ck ret_t_Inr_iff split: if_splits)
  show "RRTO_cr_gen_suffix E wi lane = Inr (suffix_of wi lane)" by (rule s)
  show "heap_ok E (unat (wi_stack_size wi))" by (rule hs)
  show "heap_ok E ?rs" by (rule hr)
  show "gdev t' = gdev t" using store_holds(2) [OF st2] g1 by simp
  show "file_holds E p RRTO_DT_REGISTERS (Some ?s) (lane_block st (wi_dev_prop wi)) t'"
    using store_holds(1) [OF st2] by (simp add: length_lane_block [OF assms(2)])
  have "file_holds E p RRTO_DT_STACK (Some ?s) ?stack t1"
    using store_holds(1) [OF st1] by (simp add: stack_of_def)
  then show "file_holds E p RRTO_DT_STACK (Some ?s) ?stack t'"
    by (rule holds_after_store [OF _ st2]) (simp add: RRTO_DT_STACK_def RRTO_DT_REGISTERS_def)
qed

text \<open>What a restore of a lane makes of a state of it, from the state that was saved.\<close>

definition restored_lane :: "RRTODeviceProp \<Rightarrow> u32 \<Rightarrow> u32 \<Rightarrow> lane_state \<Rightarrow> lane_state \<Rightarrow> lane_state" where
  "restored_lane prop sp n saved st =
     (let a = unat (r_regs saved (unat sp)) in
      (restored_regs prop saved st)\<lparr>r_local := (\<lambda>i. if a \<le> i \<and> i < a + unat n then r_local saved i else r_local st i)\<rparr>)"

lemma rst_lane_files:
  assumes "lane_debugger E view" and "sane_prop (wi_dev_prop wi)"
    and "unat (sp_regnum G) < unat (numRegisters (wi_dev_prop wi))"
    and "RRTO_cr_gen_suffix E wi lane = Inr (suffix_of wi lane)"
    and "heap_ok E (unat (wi_stack_size wi))" and "heap_ok E (RRTO_register_size (wi_dev_prop wi))"
    and "file_holds E p RRTO_DT_STACK (Some (suffix_of wi lane)) (stack_of st (sp_regnum G) (wi_stack_size wi)) t"
    and "file_holds E p RRTO_DT_REGISTERS (Some (suffix_of wi lane)) (lane_block st (wi_dev_prop wi)) t"
  shows "\<exists>d. RRTO_cr_rst_lane E G wi lane (Some p) t = Inr (True, t\<lparr>gdev := d\<rparr>) \<and>
    view d = (view (gdev t))(the_lane wi lane :=
      restored_lane (wi_dev_prop wi) (sp_regnum G) (wi_stack_size wi) st (view (gdev t) (the_lane wi lane)))"
proof -
  let ?n = "unat (wi_stack_size wi)" and ?rs = "RRTO_register_size (wi_dev_prop wi)" and ?s = "suffix_of wi lane"
  let ?l = "the_lane wi lane" and ?dp = "wi_dev_prop wi" and ?fb = "fresh_byte E"
  let ?stack = "stack_of st (sp_regnum G) (wi_stack_size wi)" and ?loc = "r_regs st (unat (sp_regnum G))"
  have lb: "length (lane_block st ?dp) = ?rs" by (rule length_lane_block [OF assms(2)])
  have ls: "length ?stack = ?n" by (simp add: stack_of_def)
  have rs: "?rs < 2 ^ 64" using assms(2) by (simp add: register_size_eq sane_prop_def)
  have n: "?n < 2 ^ 64" using unat_u32_less [of "wi_stack_size wi"] by simp
  have 1: "RRTO_file_read_mem E (Some p) RRTO_DT_REGISTERS (Some ?s) (replicate ?rs ?fb) ?rs t = Inr ((True, lane_block st ?dp), t)"
    using read_holds [OF assms(8), of "replicate ?rs ?fb"] rs by (simp add: lb)
  have 2: "word_at (lane_block st ?dp) (4 * unat (sp_regnum G)) = Inr ?loc"
    unfolding lane_block_def by (rule word_at_block [OF assms(3)])
  obtain d1 where 3: "RRTO_register_rst E ?l (lane_block st ?dp) ?dp t = Inr (True, t\<lparr>gdev := d1\<rparr>)"
      and v1: "view d1 = (view (gdev t))(?l := restored_regs ?dp st (view (gdev t) ?l))"
    using register_rst_block [OF assms(1), of ?l st ?dp t] by blast
  have "file_holds E p RRTO_DT_STACK (Some ?s) ?stack (t\<lparr>gdev := d1\<rparr>)"
    using assms(7) holds_cong [of "t\<lparr>gdev := d1\<rparr>" t] by simp
  then have 4: "RRTO_file_read_mem E (Some p) RRTO_DT_STACK (Some ?s) (replicate ?n ?fb) ?n (t\<lparr>gdev := d1\<rparr>) =
      Inr ((True, ?stack), t\<lparr>gdev := d1\<rparr>)"
    using read_holds [of E p RRTO_DT_STACK "Some ?s" ?stack "t\<lparr>gdev := d1\<rparr>" "replicate ?n ?fb"] n by (simp add: ls)
  define t1 where "t1 = t\<lparr>gdev := d1\<rparr>"
  have g: "gdev t1 = d1" "\<And>d. t1\<lparr>gdev := d\<rparr> = t\<lparr>gdev := d\<rparr>" by (simp_all add: t1_def)
  obtain d2 where 5: "RRTO_stack_set_mem E ?l ?stack ?loc (wi_stack_size wi) t1 = Inr (True, t\<lparr>gdev := d2\<rparr>)"
      and v2: "view d2 = (view d1)(?l := (view d1 ?l)\<lparr>r_local := set_mem (r_local (view d1 ?l)) (unat ?loc) ?stack\<rparr>)"
    using stack_set_mem_write [OF assms(1) ls, of ?l ?loc t1, unfolded g] by blast
  have "RRTO_cr_rst_lane E G wi lane (Some p) t = Inr (True, t\<lparr>gdev := d2\<rparr>)"
    using assms(5,6)
    by (simp add: RRTO_cr_rst_lane_def assms(4) Let_def bind_t_def lift_t_def 1 2 3 4 5 [unfolded t1_def])
  moreover have "view d2 = (view (gdev t))(?l := restored_lane ?dp (sp_regnum G) (wi_stack_size wi) st (view (gdev t) ?l))"
    unfolding v2 v1 stack_of_def set_mem_read restored_lane_def Let_def fun_upd_same by (simp add: restored_regs_def cong del: if_weak_cong)
  ultimately show ?thesis by blast
qed

end
