(* ===== verification/GpuMain.thy ===== *)
theory GpuMain
  imports GpuCr
begin

text \<open>
  The commands of the checkpoint tool (\<open>gpu/src/main.c\<close>): what a binary needs, starting a program,
  the checkpoint of the kernel that runs, and its restore. The commands of the debugger itself are calls
  of the environment, like those of the device; the last one ends the process, so what follows it only
  says what would be returned.
\<close>

section \<open>Running the debugger\<close>

definition quoted :: "string \<Rightarrow> string" where
  "quoted s = CHR 0x27 # s @ [CHR 0x27]"

text \<open>The environment a program is started in.\<close>

definition start_wrapper :: string where
  "start_wrapper = ''set exec-wrapper env '' @
     quoted ''LD_PRELOAD=/opt/RRTO/bin/libtirpc.so.3:/opt/RRTO/bin/RRTO-server.so'' @ '' '' @ quoted ''LOG=DEBUG''"

definition restore_wrapper :: string where
  "restore_wrapper = ''set exec-wrapper env '' @ quoted ''LOG=DEBUG'' @ '' '' @
     quoted ''LD_PRELOAD=/opt/RRTO/bin/RRTO-server.so'' @ '' '' @ quoted ''RRTO_RESTORE=1''"

definition run_dbg :: "'d env \<Rightarrow> string \<Rightarrow> cval list \<Rightarrow> ('d, 'a) tool_fn \<Rightarrow> ('d, 'a) tool_fn" where
  "run_dbg E name args k = bind_t (dbg E name args) (\<lambda>_. k)"

definition CUDA_API_STATE_INITIALIZED :: u32 where "CUDA_API_STATE_INITIALIZED = 1"
definition CUDA_ATTACH_STATE_COMPLETE :: u32 where "CUDA_ATTACH_STATE_COMPLETE = 3"

text \<open>A query of the state of the debugger is the code it returns.\<close>

definition state_of :: "'d env \<Rightarrow> string \<Rightarrow> ('d, u32) tool_fn" where
  "state_of E name = bind_t (dbg E name []) (\<lambda>(res, _). ret_t res)"

text \<open>How a part of a command ends: it goes on, or it leaves for one of the two labels at its end.\<close>

datatype outcome = Go | Detach | Cuda_Error

definition go_if :: "bool \<Rightarrow> outcome \<Rightarrow> ('d, outcome) tool_fn \<Rightarrow> ('d, outcome) tool_fn" where
  "go_if ok otherwise k = (if ok then k else ret_t otherwise)"

definition dbg_go :: "'d env \<Rightarrow> string \<Rightarrow> cval list \<Rightarrow> (cval list \<Rightarrow> ('d, outcome) tool_fn) \<Rightarrow> ('d, outcome) tool_fn" where
  "dbg_go E name args k = dbg_or Cuda_Error E name args k"

definition and_then :: "('d, outcome) tool_fn \<Rightarrow> ('d, outcome) tool_fn \<Rightarrow> ('d, outcome) tool_fn" where
  "and_then m k = bind_t m (\<lambda>r. if r = Go then k else ret_t r)"

fun upto_go :: "nat \<Rightarrow> nat \<Rightarrow> (nat \<Rightarrow> ('d, outcome) tool_fn) \<Rightarrow> ('d, outcome) tool_fn" where
  "upto_go i 0 body = ret_t Go"
| "upto_go i (Suc n) body = and_then (body i) (upto_go (i + 1) n body)"

fun set_go :: "'w::len word \<Rightarrow> nat \<Rightarrow> nat \<Rightarrow> (nat \<Rightarrow> ('d, outcome) tool_fn) \<Rightarrow> ('d, outcome) tool_fn" where
  "set_go w i 0 body = ret_t Go"
| "set_go w i (Suc n) body =
     bind_t (lift_t (has_bit w i)) (\<lambda>b. if b then and_then (body i) (set_go w (i + 1) n body) else set_go w (i + 1) n body)"

definition ckp_dir :: string where "ckp_dir = ''/tmp/RRTO-ckp''"
definition patched_binary :: string where "patched_binary = ''/tmp/RRTO-ckp/patched_binary''"

section \<open>All warps\<close>

fun all_broken_loop :: "'d env \<Rightarrow> nat \<Rightarrow> nat \<Rightarrow> ('d, bool) tool_fn" where
  "all_broken_loop E sm 0 = ret_t True"
| "all_broken_loop E sm (Suc n) =
     dbg_or False E ''readValidWarps'' [Int32 0, Int32 (of_nat sm)] (\<lambda>valid.
     dbg_or False E ''readBrokenWarps'' [Int32 0, Int32 (of_nat sm)] (\<lambda>broken.
     if out64 E valid 0 \<noteq> out64 E broken 0 then ret_t False else all_broken_loop E (sm + 1) n))"

definition RRTO_all_warps_broken :: "'d env \<Rightarrow> RRTODeviceProp \<Rightarrow> ('d, bool) tool_fn" where
  "RRTO_all_warps_broken E prop = all_broken_loop E 0 (unat (numSMs prop))"

text \<open>What is printed is left out.\<close>

definition print_warp :: "'d env \<Rightarrow> u32 \<Rightarrow> u32 \<Rightarrow> ('d, bool) tool_fn" where
  "print_warp E sm warp =
     dbg_or False E ''readValidLanes'' [Int32 0, Int32 sm, Int32 warp] (\<lambda>_.
     dbg_or False E ''readActiveLanes'' [Int32 0, Int32 sm, Int32 warp] (\<lambda>_. ret_t True))"

fun print_states_loop :: "'d env \<Rightarrow> nat \<Rightarrow> nat \<Rightarrow> nat \<Rightarrow> ('d, bool) tool_fn" where
  "print_states_loop E num_warps sm 0 = ret_t True"
| "print_states_loop E num_warps sm (Suc n) =
     dbg_or False E ''readValidWarps'' [Int32 0, Int32 (of_nat sm)] (\<lambda>valid.
     dbg_or False E ''readBrokenWarps'' [Int32 0, Int32 (of_nat sm)] (\<lambda>_.
     bind_t (for_set (out64 E valid 0) 0 num_warps (\<lambda>warp. print_warp E (of_nat sm) (of_nat warp))) (\<lambda>ok.
     if \<not> ok then ret_t False else print_states_loop E num_warps (sm + 1) n)))"

definition RRTO_print_lane_states :: "'d env \<Rightarrow> RRTODeviceProp \<Rightarrow> ('d, bool) tool_fn" where
  "RRTO_print_lane_states E prop = print_states_loop E (unat (numWarps prop)) 0 (unat (numSMs prop))"

fun wait_all_broken :: "nat \<Rightarrow> 'd env \<Rightarrow> RRTODeviceProp \<Rightarrow> ('d, unit) tool_fn" where
  "wait_all_broken 0 E prop = lift_t (Inl No_Fuel)"
| "wait_all_broken (Suc fuel) E prop =
     bind_t (RRTO_all_warps_broken E prop) (\<lambda>b. if b then ret_t () else wait_all_broken fuel E prop)"

section \<open>Analyze and start\<close>

definition RRTO_analyze :: "'d env \<Rightarrow> gdb \<Rightarrow> string list \<Rightarrow> ('d, int) tool_fn" where
  "RRTO_analyze E G args t =
     (if length args \<noteq> 3 then Inr (-1, t)
      else bind_r (RRTO_elf_analyze E G (args ! 2) (disk t)) (\<lambda>r. Inr (if r = None then -1 else 0, t)))"

definition RRTO_start :: "'d env \<Rightarrow> string list \<Rightarrow> ('d, int) tool_fn" where
  "RRTO_start E args =
     (if length args \<noteq> 3 then ret_t (-1)
      else run_dbg E ''gdb_init'' [Text (args ! 2)]
          (run_dbg E ''execute_command'' [Text start_wrapper] (run_dbg E ''execute_command'' [Text ''starti'']
          (run_dbg E ''detach_command'' [] (run_dbg E ''quit_force'' [] (ret_t 0))))))"

section \<open>Checkpoint\<close>

text \<open>The device, if there is exactly one. Its properties lie on the stack.\<close>

definition with_device :: "'d env \<Rightarrow> (RRTODeviceProp \<Rightarrow> ('d, outcome) tool_fn) \<Rightarrow> ('d, outcome) tool_fn" where
  "with_device E k =
     bind_t (RRTO_device_get_num E) (\<lambda>n.
       if n \<noteq> Some 1 then ret_t Detach
       else bind_t (RRTO_device_get_prop E False 0 False) (\<lambda>p. case p of None \<Rightarrow> ret_t Detach | Some prop \<Rightarrow> k prop))"

text \<open>What is not set before the attributes of the kernel are read.\<close>

definition fresh_info :: "'d env \<Rightarrow> elf_info" where
  "fresh_info E = \<lparr>ei_stack_size = ucast (fresh_word E), ei_param_addr = ucast (fresh_word E),
     ei_param_size = ucast (fresh_word E), ei_params = None, ei_shared_size = 0\<rparr>"

text \<open>The first warp of the first multiprocessor with a kernel that has a name.\<close>

fun running_kernel :: "'d env \<Rightarrow> gdb \<Rightarrow> u64 \<Rightarrow> nat \<Rightarrow> nat \<Rightarrow> ('d, (nat \<times> string) option) tool_fn" where
  "running_kernel E G valid w 0 = ret_t None"
| "running_kernel E G valid w (Suc n) =
     bind_t (lift_t (has_bit valid w)) (\<lambda>b.
       if \<not> b then running_kernel E G valid (w + 1) n
       else bind_t (RRTO_cr_kernel_name E G 0 0 (of_nat w)) (\<lambda>r.
         case r of None \<Rightarrow> running_kernel E G valid (w + 1) n | Some name \<Rightarrow> ret_t (Some (w, name))))"

text \<open>The lanes of a warp: what becomes of one is not looked at.\<close>

fun lanes_loop :: "u32 \<Rightarrow> nat \<Rightarrow> nat \<Rightarrow> (u32 \<Rightarrow> ('d, bool) tool_fn) \<Rightarrow> ('d, unit) tool_fn" where
  "lanes_loop lanes i 0 f = ret_t ()"
| "lanes_loop lanes i (Suc n) f =
     bind_t (lift_t (has_bit lanes i)) (\<lambda>b.
       if b then bind_t (f (of_nat i)) (\<lambda>_. lanes_loop lanes (i + 1) n f) else lanes_loop lanes (i + 1) n f)"

definition checkpoint_warp ::
  "nat \<Rightarrow> 'd env \<Rightarrow> gdb \<Rightarrow> RRTODeviceProp \<Rightarrow> string \<Rightarrow> elf_info \<Rightarrow> function_info list \<Rightarrow> u32 \<Rightarrow> u32 \<Rightarrow> ('d, outcome) tool_fn" where
  "checkpoint_warp fuel E G prop kernel_name info fi sm warp =
     (let wi = \<lparr>wi_dev = 0, wi_sm = sm, wi_warp = warp, wi_kernel_name = kernel_name, wi_stack_size = ei_stack_size info,
                wi_dev_prop = prop\<rparr> in
      bind_t (RRTO_cr_kernel_name E G 0 sm warp) (\<lambda>warp_kn.
      if warp_kn \<noteq> Some kernel_name then ret_t Detach
      else bind_t (RRTO_cr_callstack E G wi RRTO_CR_NOLANE) (\<lambda>r.
      case r of None \<Rightarrow> ret_t Detach
      | Some cs \<Rightarrow>
          bind_t (RRTO_cr_make_checkpointable fuel E G wi fi cs) (\<lambda>r.
          case r of None \<Rightarrow> ret_t Detach
          | Some cs \<Rightarrow>
              bind_t (RRTO_cr_ckp_pc E wi RRTO_CR_NOLANE (Some ckp_dir) cs) (\<lambda>ok.
              if \<not> ok then ret_t Detach
              else bind_t (lanes_loop (cs_valid_lanes cs) 0 (unat (numLanes prop))
                            (\<lambda>lane. RRTO_cr_ckp_lane E G wi lane (Some ckp_dir))) (\<lambda>_.
                   bind_t (RRTO_cr_ckp_shared E (Some ckp_dir) info 0 sm warp) (\<lambda>_. ret_t Go)))))))"

definition checkpoint_kernel :: "nat \<Rightarrow> 'd env \<Rightarrow> gdb \<Rightarrow> RRTODeviceProp \<Rightarrow> ('d, outcome) tool_fn" where
  "checkpoint_kernel fuel E G prop =
     dbg_go E ''readValidWarps'' [Int32 0, Int32 0] (\<lambda>outs.
     if \<not> heap_ok E (8 * unat (numSMs prop)) then lift_t (Inl Null_Deref)
     else if numSMs prop = 0 then lift_t (Inl Out_Of_Bounds)
     else bind_t (running_kernel E G (out64 E outs 0) 0 (unat (numWarps prop))) (\<lambda>r.
     case r of None \<Rightarrow> ret_t Detach
     | Some (first_warp, kernel_name) \<Rightarrow>
         bind_t (lift_t (RRTO_elf_build_fun_info E G)) (\<lambda>fi.
         case fi of None \<Rightarrow> ret_t Detach
         | Some fi \<Rightarrow>
             bind_t (lift_t (RRTO_elf_get_info E G kernel_name (fresh_info E))) (\<lambda>(_, info).
             and_then
               (upto_go 0 (unat (numSMs prop)) (\<lambda>sm.
                  dbg_go E ''readValidWarps'' [Int32 0, Int32 (of_nat sm)] (\<lambda>outs.
                  set_go (out64 E outs 0) 0 (unat (numWarps prop)) (\<lambda>warp.
                    checkpoint_warp fuel E G prop kernel_name info fi (of_nat sm) (of_nat warp)))))
               (bind_t (RRTO_focus_host E) (\<lambda>_.
                run_dbg E ''execute_command'' [Text ''call (int)RRTO_server_checkpoint(0)'']
                (bind_t (RRTO_cr_ckp_params E (Some ckp_dir) info 0 0 (of_nat first_warp)) (\<lambda>_.
                 bind_t (RRTO_cr_ckp_globals E G (Some ckp_dir)) (\<lambda>_. ret_t Go)))))))))"

definition leave :: "'d env \<Rightarrow> int \<Rightarrow> ('d, int) tool_fn" where
  "leave E r = run_dbg E ''detach_command'' [] (run_dbg E ''cuda_api_finalize'' [] (run_dbg E ''quit_force'' [] (ret_t r)))"

definition RRTO_checkpoint :: "nat \<Rightarrow> 'd env \<Rightarrow> gdb \<Rightarrow> string list \<Rightarrow> ('d, int) tool_fn" where
  "RRTO_checkpoint fuel E G args =
     (if length args \<noteq> 3 then ret_t (-1)
      else run_dbg E ''gdb_init'' [Text (args ! 2)]
       (bind_t (state_of E ''cuda_api_get_state'') (\<lambda>st.
        if st \<noteq> CUDA_API_STATE_INITIALIZED then ret_t (-1)
        else bind_t (state_of E ''cuda_api_get_attach_state'') (\<lambda>st.
        if st \<noteq> CUDA_ATTACH_STATE_COMPLETE then ret_t (-1)
        else bind_t (dbg_go E ''cudbgGetAPI'' [] (\<lambda>_. with_device E (checkpoint_kernel fuel E G))) (\<lambda>r.
             leave E (if r = Go then 0 else -1))))))"

section \<open>Restore\<close>

text \<open>The first of 32 warps with a call stack in the checkpoint; without one the call stack is not set.\<close>

definition zero_prop :: RRTODeviceProp where
  "zero_prop = \<lparr>dp_index = 0, dp_name = [], dp_type = [], dp_smType = [], numLanes = 0, numPredicates = 0,
     numRegisters = 0, numSMs = 0, numWarps = 0\<rparr>"

definition warp_of :: "RRTODeviceProp \<Rightarrow> string \<Rightarrow> u32 \<Rightarrow> u32 \<Rightarrow> u32 \<Rightarrow> warp_info" where
  "warp_of prop name stack sm warp = \<lparr>wi_dev = 0, wi_sm = sm, wi_warp = warp, wi_kernel_name = name,
     wi_stack_size = stack, wi_dev_prop = prop\<rparr>"

fun first_callstack :: "'d env \<Rightarrow> nat \<Rightarrow> nat \<Rightarrow> ('d, nat \<times> callstack) tool_fn" where
  "first_callstack E w 0 = lift_t (Inl Uninit_Read)"
| "first_callstack E w (Suc n) =
     bind_t (RRTO_cr_read_pc E (warp_of zero_prop [] 0 0 (of_nat w)) RRTO_CR_NOLANE (Some ckp_dir)) (\<lambda>r.
       case r of None \<Rightarrow> first_callstack E (w + 1) n | Some cs \<Rightarrow> ret_t (w, cs))"

definition step_go :: "'d env \<Rightarrow> warp_info \<Rightarrow> ('d, outcome) tool_fn \<Rightarrow> ('d, outcome) tool_fn" where
  "step_go E wi k = dbg_go E ''singleStepWarp'' (wi_args wi @ [Int32 1]) (\<lambda>_. k)"

text \<open>Reading a position back, only to print it.\<close>

definition read_back :: "'d env \<Rightarrow> warp_info \<Rightarrow> u32 \<Rightarrow> ('d, outcome) tool_fn \<Rightarrow> ('d, outcome) tool_fn" where
  "read_back E wi lane k = run_dbg E ''readPC'' (lane_args (the_lane wi lane)) k"

definition jump_go :: "'d env \<Rightarrow> warp_info \<Rightarrow> u32 \<Rightarrow> u64 \<Rightarrow> ('d, outcome) tool_fn \<Rightarrow> ('d, outcome) tool_fn" where
  "jump_go E wi lanes addr k =
     bind_t (set_jump E wi lanes addr) (\<lambda>ok. go_if ok Detach (step_go E wi (read_back E wi 0 k)))"

text \<open>
  The levels of the call stack, from the kernel inwards: the synchronisation point of each, then the
  call of the next. The state is the table of the function and the position; a function without a
  table (\<open>None\<close>) can only be the innermost one.
\<close>

fun restore_levels ::
  "'d env \<Rightarrow> gdb \<Rightarrow> jmptable_index list \<Rightarrow> warp_info \<Rightarrow> u32 \<Rightarrow> callstack \<Rightarrow> nat \<Rightarrow> jmptable_index option \<Rightarrow> u64 \<Rightarrow>
   (jmptable_index option \<Rightarrow> u64 \<Rightarrow> ('d, outcome) tool_fn) \<Rightarrow> ('d, outcome) tool_fn" where
  "restore_levels E G jmptbl wi lanes cs 0 idx cur k = k idx cur"
| "restore_levels E G jmptbl wi lanes cs (Suc c) idx cur k =
     (case idx of None \<Rightarrow> lift_t (Inl Null_Deref)
      | Some i \<Rightarrow>
          bind_t (if ji_ssy i = [] then ret_t (Some cur) else RRTO_cr_rst_ssy E G wi cs c (ji_ssy i) cur) (\<lambda>r.
          case r of None \<Rightarrow> ret_t Detach
          | Some cur \<Rightarrow>
              bind_t (if ji_ssy i = [] then ret_t Go else read_back E wi 0 (ret_t Go)) (\<lambda>_.
              if c = 0 then k (Some i) cur
              else bind_t (RRTO_cr_rst_subcall E wi cs c (ji_cal i) cur) (\<lambda>r.
                case r of None \<Rightarrow> ret_t Detach
                | Some _ \<Rightarrow>
                    bind_t (lift_t (RRTO_elf_get_jmptable_index jmptbl (cs_names cs ! (c - 1)))) (\<lambda>idx.
                    let p = cs_pc cs ! (c - 1);
                        addr = (case idx of None \<Rightarrow> pc_absolute p
                                | Some i \<Rightarrow> pc_absolute p - pc_relative p + ji_start_address i + 8);
                        cur = (case idx of None \<Rightarrow> pc_relative p | Some i \<Rightarrow> ji_start_address i + 8) in
                    jump_go E wi lanes addr
                      (if c - 1 = 0 \<and> cur = pc_relative p then k idx cur
                       else restore_levels E G jmptbl wi lanes cs c idx cur k))))))"

text \<open>Diverging the lanes again: the inactive ones leave at the synchronisation.\<close>

definition diverge :: "'d env \<Rightarrow> warp_info \<Rightarrow> u32 \<Rightarrow> callstack \<Rightarrow> jmptable_index option \<Rightarrow> u64 \<Rightarrow> (u64 \<Rightarrow> ('d, outcome) tool_fn) \<Rightarrow> ('d, outcome) tool_fn" where
  "diverge E wi lanes cs idx cur k =
     (if cs_active_lanes cs = cs_valid_lanes cs then k cur
      else case idx of None \<Rightarrow> lift_t (Inl Null_Deref)
      | Some i \<Rightarrow>
          bind_t (for_set lanes 0 (unat (numLanes (wi_dev_prop wi))) (\<lambda>lane.
            dbg_or False E ''writeRegister''
              (lane_args (the_lane wi (of_nat lane)) @ [Int32 RRTO_JMX_ADDR_REG, Int32 (ucast (ji_sync_address i - cur - 8))]) (\<lambda>_.
            dbg_or False E ''writePredicates''
              (lane_args (the_lane wi (of_nat lane)) @ [Int32 1, Bytes (i32 (if bit (cs_active_lanes cs) lane then 0 else 1))]) (\<lambda>_.
            ret_t True)))) (\<lambda>ok.
          go_if ok Detach
            (step_go E wi (step_go E wi (read_back E wi 0 (read_back E wi 1
              (run_dbg E ''readActiveLanes'' (wi_args wi) (run_dbg E ''readValidLanes'' (wi_args wi)
                (k (ji_sync_address i + 8))))))))))"

definition restore_position :: "'d env \<Rightarrow> warp_info \<Rightarrow> u32 \<Rightarrow> callstack \<Rightarrow> u64 \<Rightarrow> ('d, outcome) tool_fn" where
  "restore_position E wi lanes cs cur =
     (case cs_pc cs of [] \<Rightarrow> lift_t (Inl Out_Of_Bounds)
      | p # _ \<Rightarrow> if cur \<noteq> pc_relative p then jump_go E wi lanes (pc_relative p - cur - 8) (ret_t Go) else ret_t Go)"

text \<open>A warp that is not in the checkpoint has ended; it is sent to the exit.\<close>

definition restore_warp ::
  "'d env \<Rightarrow> gdb \<Rightarrow> jmptable_index list \<Rightarrow> jmptable_index \<Rightarrow> u64 \<Rightarrow> warp_info \<Rightarrow> ('d, outcome) tool_fn" where
  "restore_warp E G jmptbl kernelindex start_address wi =
     dbg_go E ''readValidLanes'' (wi_args wi) (\<lambda>outs.
     let lanes = out32 E outs 0 in
     bind_t (for_set lanes 0 (unat (numLanes (wi_dev_prop wi))) (\<lambda>lane.
       dbg_or False E ''writePredicates'' (lane_args (the_lane wi (of_nat lane)) @ [Int32 1, Bytes (i32 1)]) (\<lambda>_. ret_t True))) (\<lambda>ok.
     go_if ok Detach
       (step_go E wi (read_back E wi 0
         (bind_t (RRTO_cr_read_pc E wi RRTO_CR_NOLANE (Some ckp_dir)) (\<lambda>r.
          case r of
            None \<Rightarrow> jump_go E wi lanes (ji_exit_address kernelindex - start_address - 8) (ret_t Go)
          | Some cs \<Rightarrow>
              restore_levels E G jmptbl wi lanes cs (length (cs_pc cs)) (Some kernelindex) start_address (\<lambda>idx cur.
                diverge E wi lanes cs idx cur (restore_position E wi lanes cs))))))))"

text \<open>First every multiprocessor runs to the jump table.\<close>

definition to_table :: "nat \<Rightarrow> 'd env \<Rightarrow> nat \<Rightarrow> u64 \<Rightarrow> nat \<Rightarrow> ('d, outcome) tool_fn" where
  "to_table fuel E first_warp addr sm =
     (let w = warp_of zero_prop [] 0 (of_nat sm) (of_nat first_warp);
          look = run_dbg E ''readVirtualPC'' (lane_args (the_lane w 0)) in
      dbg_go E ''readValidWarps'' [Int32 0, Int32 (of_nat sm)] (\<lambda>outs.
      if out64 E outs 0 = 0 then ret_t Go
      else look (dbg_go E ''resumeWarpsUntilPC'' [Int32 0, Int32 (of_nat sm), Word64 (out64 E outs 0), Word64 addr] (\<lambda>_.
           look (bind_t (wait_broken fuel E 0 (of_nat sm)) (\<lambda>_. ret_t Go))))))"

definition on_warps :: "'d env \<Rightarrow> RRTODeviceProp \<Rightarrow> (nat \<Rightarrow> nat \<Rightarrow> ('d, outcome) tool_fn) \<Rightarrow> nat \<Rightarrow> ('d, outcome) tool_fn" where
  "on_warps E prop f sm =
     dbg_go E ''readValidWarps'' [Int32 0, Int32 (of_nat sm)] (\<lambda>outs.
     set_go (out64 E outs 0) 0 (unat (numWarps prop)) (f sm))"

text \<open>The last part puts back shared memory, registers and local memory; a warp whose shared memory fails is left as it is.\<close>

definition fill_warp :: "'d env \<Rightarrow> gdb \<Rightarrow> RRTODeviceProp \<Rightarrow> string \<Rightarrow> elf_info \<Rightarrow> nat \<Rightarrow> nat \<Rightarrow> ('d, outcome) tool_fn" where
  "fill_warp E G prop kernel_name info sm warp =
     (let wi = warp_of prop kernel_name (ei_stack_size info) (of_nat sm) (of_nat warp) in
      run_dbg E ''readActiveLanes'' (wi_args wi)
        (dbg_go E ''readValidLanes'' (wi_args wi) (\<lambda>outs.
         bind_t (RRTO_cr_rst_shared E (Some ckp_dir) info 0 (of_nat sm) (of_nat warp)) (\<lambda>ok.
         if \<not> ok then ret_t Go
         else bind_t (lanes_loop (out32 E outs 0) 0 (unat (numLanes prop))
                       (\<lambda>lane. RRTO_cr_rst_lane E G wi lane (Some ckp_dir))) (\<lambda>_. ret_t Go)))))"

text \<open>
  Where the kernel's table begins, as the debugger counts it: it skips control words.
\<close>

definition table_start :: "jmptable_index \<Rightarrow> u64" where
  "table_start i = (let a = ji_start_address i + 8 in if a mod 32 = 0 then a + 8 else a)"

definition restore_kernel ::
  "nat \<Rightarrow> 'd env \<Rightarrow> gdb \<Rightarrow> jmptable_index list \<Rightarrow> nat \<Rightarrow> string \<Rightarrow> RRTODeviceProp \<Rightarrow> ('d, outcome) tool_fn" where
  "restore_kernel fuel E G jmptbl first_warp kernel_name prop =
     (let sms = unat (numSMs prop) in
      bind_t (wait_all_broken fuel E prop) (\<lambda>_.
      bind_t (lift_t (RRTO_elf_get_jmptable_index jmptbl kernel_name)) (\<lambda>r.
      case r of None \<Rightarrow> ret_t Detach
      | Some i \<Rightarrow>
          bind_t (dbg E ''readVirtualPC'' (lane_args (the_lane (warp_of prop kernel_name 0 0 (of_nat first_warp)) 0))) (\<lambda>(res, outs).
          let rb_address = (if res \<noteq> CUDBG_SUCCESS then fresh_word E else out64 E outs 0) in
          and_then (upto_go 0 sms (to_table fuel E first_warp (rb_address + ji_start_address i - 8)))
         (and_then (upto_go 0 sms (on_warps E prop (\<lambda>sm warp.
             restore_warp E G jmptbl i (table_start i) (warp_of prop kernel_name 0 (of_nat sm) (of_nat warp)))))
         (bind_t (lift_t (RRTO_elf_get_info E G kernel_name (fresh_info E))) (\<lambda>(_, info).
          bind_t (RRTO_cr_rst_globals E G (Some ckp_dir)) (\<lambda>_.
          bind_t (RRTO_cr_rst_params E (Some ckp_dir) info 0 0 0) (\<lambda>_.
          upto_go 0 sms (on_warps E prop (fill_warp E G prop kernel_name info)))))))))))"

text \<open>A restore that is given up returns zero too; after an error of the debugger it does not detach.\<close>

definition RRTO_restore :: "nat \<Rightarrow> 'd env \<Rightarrow> gdb \<Rightarrow> string list \<Rightarrow> ('d, int) tool_fn" where
  "RRTO_restore fuel E G args t =
     (if length args \<noteq> 3 then Inr (-1, t)
      else bind_r (RRTO_elf_patch_all E G (args ! 2) patched_binary (disk t)) (\<lambda>(r, fs).
      let t = t\<lparr>disk := fs\<rparr> in
      case r of None \<Rightarrow> Inr (-1, t)
      | Some jmptbl \<Rightarrow>
          bind_t (first_callstack E 0 32) (\<lambda>(first_warp, cs).
          if cs_names cs = [] then lift_t (Inl Out_Of_Bounds)
          else run_dbg E ''gdb_init'' [Text patched_binary]
             (run_dbg E ''execute_command'' [Text restore_wrapper]
             (run_dbg E ''tbreak_command'' [Text (last (cs_names cs))]
             (run_dbg E ''execute_command'' [Text ''run'']
             (bind_t (state_of E ''cuda_api_get_state'') (\<lambda>st.
              if st \<noteq> CUDA_API_STATE_INITIALIZED then ret_t (-1)
              else bind_t (dbg_go E ''cudbgGetAPI'' [] (\<lambda>_.
                     with_device E (restore_kernel fuel E G jmptbl first_warp (last (cs_names cs))))) (\<lambda>r.
                   if r = Cuda_Error then ret_t (-1) else leave E 0))))))) t))"

definition main_tool :: "nat \<Rightarrow> 'd env \<Rightarrow> gdb \<Rightarrow> string list \<Rightarrow> ('d, int) tool_fn" where
  "main_tool fuel E G args =
     (if length args < 2 then ret_t (-1)
      else if args ! 1 = ''start'' then RRTO_start E args
      else if args ! 1 = ''checkpoint'' then RRTO_checkpoint fuel E G args
      else if args ! 1 = ''restore'' \<or> args ! 1 = ''restart'' then RRTO_restore fuel E G args
      else if args ! 1 = ''analyze'' then RRTO_analyze E G args
      else ret_t (-1))"

end
