(* ===== verification/GpuProps.thy ===== *)
theory GpuProps
  imports GpuTable GpuMain
begin

text \<open>
  Properties of the checkpoint tool of the GPU side: the jump table it patches into a kernel, and what a
  checkpoint keeps of a lane and of a call stack.
\<close>

section \<open>The jump table\<close>

text \<open>C17: The jump table of a function never leaves the block that is allocated for it, whatever the
  breakpoints, synchronisation points and calls of the function are; it has one entry for each of them.\<close>

theorem jump_table_fits:
  "\<exists>ssy_es cal_es exit_address sync_address ws. jump_table rb ssy cal = Inr (ssy_es, cal_es, exit_address, sync_address, ws) \<and>
     length ws \<le> data_words (length ssy) (length cal) \<and> map je_destination ssy_es = ssy \<and> map je_destination cal_es = cal"
  using jump_table_ok [of rb ssy cal] by blast

lemma jump_table_laid_out:
  assumes "jump_table rb ssy cal = Inr (ssy_es, cal_es, exit_address, sync_address, ws)"
  shows "laid_out (ctrl_offset_of rb) ws" and "length (plain ws) = 2 * length ssy + 2 * length cal + 4"
    and "last ws = RRTO_SASS_BRX 0" and "ws \<noteq> []"
    and "map je_destination ssy_es = ssy" and "\<forall>e \<in> set ssy_es. entry_at enc_ssy (of_nat rb) ws e"
  using jump_table_ok [of rb ssy cal] assms by auto

text \<open>C24: In the jump table a control word stands exactly where the device expects one, at every address
  that is a multiple of 32 bytes, so that the device never takes an instruction for a control word or a
  control word for an instruction.\<close>

theorem control_words_stay:
  assumes "jump_table rb ssy cal = Inr (ssy_es, cal_es, exit_address, sync_address, ws)"
    and "rb mod 8 = 0" and "rb mod 32 \<noteq> 0" and "i < length ws"
  shows "ws ! i = RRTO_SASS_FCONTROL \<longleftrightarrow> (rb + 8 * i) mod 32 = 0"
proof -
  have "ws ! i = RRTO_SASS_FCONTROL \<longleftrightarrow> i mod 4 = ctrl_offset_of rb \<and> 0 < i"
    using jump_table_laid_out(1) [OF assms(1)] assms(4) by (simp add: laid_out_def)
  moreover have "(rb + 8 * i) mod 32 = 0 \<longleftrightarrow> i mod 4 = ctrl_offset_of rb"
    by (rule control_address [OF assms(2,3)])
  ultimately show ?thesis using assms(3) by (cases i) auto
qed

theorem control_words_stay_witness:
  "\<exists>ssy_es cal_es exit_address sync_address ws. jump_table 40 [0x100, 0x180] [0x40] = Inr (ssy_es, cal_es, exit_address, sync_address, ws) \<and>
     (ws ! 3 = RRTO_SASS_FCONTROL \<longleftrightarrow> (40 + 8 * 3) mod 32 = (0 :: nat))"
proof -
  obtain ssy_es cal_es exit_address sync_address ws where
    j: "jump_table 40 [0x100, 0x180] [0x40] = Inr (ssy_es, cal_es, exit_address, sync_address, ws)"
    and p: "length (plain ws) = 10"
    using jump_table_ok [of 40 "[0x100, 0x180]" "[0x40]"] by auto
  have "length (plain ws) \<le> length ws" by (simp add: plain_def)
  then have "3 < length ws" using p by simp
  from control_words_stay [OF j _ _ this] j show ?thesis by auto
qed

text \<open>C23: Every synchronisation point of a function can be found through its jump table: where the patched
  function has the entry, the decoder of the tool reads back the destination the entry was made for (in
  the 32 bits it has for it).\<close>

theorem table_entry_decodes:
  assumes "jump_table rb ssy cal = Inr (ssy_es, cal_es, exit_address, sync_address, ws)"
    and "e \<in> set ssy_es" and "words_lie_at m (base + rb) ws" and "rb + 8 * length ws < 2 ^ 64"
  shows "RRTO_elf_find_ssy m base (unat (je_address e)) = Inr (ucast (ucast (je_destination e) :: u32)) \<and>
    je_destination e \<in> set ssy"
proof
  obtain i where i: "i < length ws" "je_address e = of_nat rb + of_nat i * 8"
      "ws ! i = enc_ssy (je_destination e) (je_address e)"
    using jump_table_laid_out(6) [OF assms(1)] assms(2) by (auto simp: entry_at_def)
  have a: "unat (je_address e) = rb + 8 * i"
  proof -
    have "je_address e = of_nat (rb + 8 * i)" by (simp add: i(2))
    moreover have "rb + 8 * i < 2 ^ 64" using assms(4) i(1) by simp
    ultimately show ?thesis by (simp only: unsigned_of_nat take_bit_nat_eq_self_iff) (simp add: take_bit_nat_eq_self)
  qed
  have ins: "instr m (base + unat (je_address e)) = Inr (ws ! i)"
    using instr_words_at [OF assms(3) i(1)] by (simp add: a add.assoc)
  have "(ucast (of_nat (unat (je_address e)) + operand (ws ! i) + 8 :: u64) :: u32) = ucast (je_destination e)"
    by (simp add: i(3) enc_ssy_def operand_SSY ucast_add_u32 ucast_diff_u32 ucast_take_bit_u32)
  then show "RRTO_elf_find_ssy m base (unat (je_address e)) = Inr (ucast (ucast (je_destination e) :: u32))"
    by (simp add: RRTO_elf_find_ssy_def find_back.simps [of m base RRTO_SASS_SSY_PREFIX _ 0] ins i(3) enc_ssy_def opcode_SSY)
  show "je_destination e \<in> set ssy"
    using assms(2) jump_table_laid_out(5) [OF assms(1)] by auto
qed

theorem table_entry_decodes_witness:
  "\<exists>ssy_es cal_es exit_address sync_address ws e. jump_table 40 [0x100] [] = Inr (ssy_es, cal_es, exit_address, sync_address, ws) \<and>
     e \<in> set ssy_es \<and>
     RRTO_elf_find_ssy (replicate 40 0 @ words_bytes ws) 0 (unat (je_address e)) = Inr 0x100"
proof -
  obtain ssy_es cal_es exit_address sync_address ws where
    j: "jump_table 40 [0x100] [] = Inr (ssy_es, cal_es, exit_address, sync_address, ws)"
    and e: "map je_destination ssy_es = [0x100]" and l: "length ws \<le> data_words (length [0x100 :: u64]) (length ([] :: u64 list))"
    using jump_table_ok [of 40 "[0x100]" "[]"] by auto
  obtain e where e: "e \<in> set ssy_es" "je_destination e = 0x100" using e by auto
  have w: "words_lie_at (replicate 40 0 @ words_bytes ws) (0 + 40) ws"
    using blk_append_at [of "replicate 40 0" "words_bytes ws" "[]"] by (simp add: words_lie_at_def)
  have "40 + 8 * length ws < 2 ^ 64" using l by (simp add: data_words_def)
  from table_entry_decodes [OF j e(1) w this] e j show ?thesis by auto
qed

text \<open>C16: A function with room for one instruction more than the tool asks for is patched safely: every
  instruction of the jump table replaces a breakpoint.\<close>

theorem table_replaces_breakpoints:
  assumes "RRTO_elf_find_bpt m base sz = Inr (rb, n)" and "2 * length ssy + 2 * length cal + 4 \<le> n" and "rb mod 32 \<noteq> 0"
    and "jump_table rb ssy cal = Inr (ssy_es, cal_es, exit_address, sync_address, ws)"
    and "i < length ws" and "ws ! i \<noteq> RRTO_SASS_FCONTROL"
  shows "instr m (base + rb + 8 * i) = Inr RRTO_SASS_BPT"
proof -
  have run: "bpt_run m base rb 0 = Inr n" and rb: "rb mod 8 = 0"
    using find_bpt_run [OF assms(1)] assms(2) by auto
  let ?k = "length (plain (take i ws))"
  have s: "slot_offset rb ?k = rb + 8 * i"
    using laid_out_slots [OF jump_table_laid_out(1) [OF assms(4)] rb assms(3,5)] assms(6) by simp
  have "length (plain (take (Suc i) ws)) = ?k + 1"
    using plain_take_Suc [OF assms(5)] assms(6) by simp
  moreover have "length (plain (take (Suc i) ws)) \<le> length (plain ws)"
    by (metis append_take_drop_id filter_append le_add1 length_append plain_def)
  ultimately have "?k < n" using jump_table_laid_out(2) [OF assms(4)] assms(2) by simp
  then have "instr m (base + slot_offset rb ?k) = Inr RRTO_SASS_BPT" using bpt_run_slots [OF run] by simp
  then show ?thesis unfolding s by (simp add: add.assoc)
qed

text \<open>C15: The check of the room is off by one: a function with exactly the room the check asks for is
  patched although the last jump of the table then overwrites an instruction behind its breakpoints.\<close>

theorem room_check_off_by_one:
  assumes "RRTO_elf_find_bpt m base sz = Inr (rb, n)" and "n = 2 * length ssy + 2 * length cal + 3" and "rb mod 32 \<noteq> 0"
    and "jump_table rb ssy cal = Inr (ssy_es, cal_es, exit_address, sync_address, ws)"
  shows "enough_room n (length ssy) (length cal) \<and> last ws = RRTO_SASS_BRX 0 \<and>
    (\<exists>i. instr m (base + rb + 8 * (length ws - 1)) = Inr i \<and> i \<noteq> RRTO_SASS_BPT)"
proof -
  have run: "bpt_run m base rb 0 = Inr n" and rb: "rb mod 8 = 0"
    using find_bpt_run [OF assms(1)] assms(2) by auto
  note l = jump_table_laid_out [OF assms(4)]
  let ?i = "length ws - 1"
  have i: "?i < length ws" using l(4) by simp
  have last: "ws ! ?i \<noteq> RRTO_SASS_FCONTROL"
    using l(3,4) not_control(3) by (simp add: last_conv_nth)
  have "length (plain ws) = length (plain (take ?i ws)) + 1"
    using plain_take_Suc [OF i] last i by simp
  then have "length (plain (take ?i ws)) = n" using l(2) assms(2) by simp
  then have "slot_offset rb n = rb + 8 * ?i"
    using laid_out_slots [OF l(1) rb assms(3) i] last by simp
  with bpt_run_slots [OF run] have "\<exists>i. instr m (base + rb + 8 * ?i) = Inr i \<and> i \<noteq> RRTO_SASS_BPT"
    by (simp add: add.assoc)
  with l(3) assms(2) show ?thesis by (simp add: enough_room_def)
qed

definition small_kernel :: "u64 \<Rightarrow> u8 list" where
  "small_kernel w = words_bytes [RRTO_SASS_FCONTROL, RRTO_SASS_BPT, RRTO_SASS_BPT, RRTO_SASS_BPT, RRTO_SASS_FCONTROL, w, RRTO_SASS_EXIT]"

lemma small_kernel_instr: "i < 7 \<Longrightarrow> instr (small_kernel w) (8 * i) =
    Inr ([RRTO_SASS_FCONTROL, RRTO_SASS_BPT, RRTO_SASS_BPT, RRTO_SASS_BPT, RRTO_SASS_FCONTROL, w, RRTO_SASS_EXIT] ! i)"
  using instr_words_at [of "small_kernel w" 0 "[RRTO_SASS_FCONTROL, RRTO_SASS_BPT, RRTO_SASS_BPT, RRTO_SASS_BPT, RRTO_SASS_FCONTROL, w, RRTO_SASS_EXIT]" i]
  by (simp add: words_lie_at_def small_kernel_def blk_def)

lemma small_kernel_words:
  "instr (small_kernel w) 0 = Inr RRTO_SASS_FCONTROL" "instr (small_kernel w) 8 = Inr RRTO_SASS_BPT"
  "instr (small_kernel w) 16 = Inr RRTO_SASS_BPT" "instr (small_kernel w) 24 = Inr RRTO_SASS_BPT"
  "instr (small_kernel w) 40 = Inr w" "instr (small_kernel w) 48 = Inr RRTO_SASS_EXIT"
  using small_kernel_instr [of 0 w] small_kernel_instr [of 1 w] small_kernel_instr [of 2 w] small_kernel_instr [of 3 w]
    small_kernel_instr [of 5 w] small_kernel_instr [of 6 w] by simp_all

lemma control_no_bpt: "RRTO_SASS_FCONTROL \<noteq> RRTO_SASS_BPT" "RRTO_SASS_EXIT \<noteq> RRTO_SASS_BPT"
  by (simp_all add: RRTO_SASS_FCONTROL_def RRTO_SASS_BPT_def RRTO_SASS_EXIT_def)

lemma small_kernel_bpt:
  "RRTO_elf_find_bpt (small_kernel RRTO_SASS_EXIT) 0 56 = Inr (8, 3)"
  "RRTO_elf_find_bpt (small_kernel RRTO_SASS_BPT) 0 56 = Inr (8, 4)"
  unfolding RRTO_elf_find_bpt_def
  by (simp_all add: find_bpt_loop.simps [of _ _ _ 0] find_bpt_loop.simps [of _ _ _ 8] small_kernel_words control_no_bpt
      bpt_run.simps [of _ _ 8] bpt_run.simps [of _ _ 16] bpt_run.simps [of _ _ 24] bpt_run.simps [of _ _ 40] bpt_run.simps [of _ _ 48])

theorem room_check_off_by_one_witness:
  "enough_room 3 0 0 \<and> (\<exists>ssy_es cal_es exit_address sync_address ws i.
     jump_table 8 [] [] = Inr (ssy_es, cal_es, exit_address, sync_address, ws) \<and>
     instr (small_kernel RRTO_SASS_EXIT) (0 + 8 + 8 * (length ws - 1)) = Inr i \<and> i \<noteq> RRTO_SASS_BPT)"
proof -
  obtain ssy_es cal_es exit_address sync_address ws where
    j: "jump_table 8 [] [] = Inr (ssy_es, cal_es, exit_address, sync_address, ws)"
    using jump_table_ok [of 8 "[]" "[]"] by auto
  have "RRTO_elf_find_bpt (small_kernel RRTO_SASS_EXIT) 0 56 = Inr (8, 3)" by (rule small_kernel_bpt)
  from room_check_off_by_one [OF this _ _ j] j show ?thesis by auto
qed

theorem table_replaces_breakpoints_witness:
  "\<exists>ssy_es cal_es exit_address sync_address ws.
     jump_table 8 [] [] = Inr (ssy_es, cal_es, exit_address, sync_address, ws) \<and> ws ! 0 \<noteq> RRTO_SASS_FCONTROL \<and>
     instr (small_kernel RRTO_SASS_BPT) (0 + 8 + 8 * 0) = Inr RRTO_SASS_BPT"
proof -
  obtain ssy_es cal_es exit_address sync_address ws where
    j: "jump_table 8 [] [] = Inr (ssy_es, cal_es, exit_address, sync_address, ws)"
    using jump_table_ok [of 8 "[]" "[]"] by auto
  have i: "0 < length ws" using jump_table_laid_out(4) [OF j] by simp
  then have f: "ws ! 0 \<noteq> RRTO_SASS_FCONTROL"
    using jump_table_laid_out(1) [OF j] by (auto simp: laid_out_def)
  have "RRTO_elf_find_bpt (small_kernel RRTO_SASS_BPT) 0 56 = Inr (8, 4)" by (rule small_kernel_bpt)
  from table_replaces_breakpoints [OF this _ _ j i f] j f show ?thesis by auto
qed

section \<open>A lane\<close>

text \<open>C7: A lane survives checkpoint and restore: if its checkpoint succeeds, a restore from the files it has
  left succeeds on any device, gives the lane the registers, the condition code, the predicates and the
  stack it had, and changes no other lane. (The debugger is assumed to behave as documented.)\<close>

theorem lane_restored:
  assumes "lane_debugger E view" and "sane_prop (wi_dev_prop wi)"
    and "unat (sp_regnum G) < unat (numRegisters (wi_dev_prop wi))"
    and "RRTO_cr_ckp_lane E G wi lane (Some p) t = Inr (True, t')"
    and "disk t2 = disk t'" and "dirs t2 = dirs t'"
  shows "\<exists>d. RRTO_cr_rst_lane E G wi lane (Some p) t2 = Inr (True, t2\<lparr>gdev := d\<rparr>) \<and>
    (let l = the_lane wi lane; saved = view (gdev t) l; now = view d l; sp = unat (r_regs saved (unat (sp_regnum G))) in
      (\<forall>i < unat (numRegisters (wi_dev_prop wi)). r_regs now i = r_regs saved i) \<and> r_cc now = r_cc saved \<and>
      (\<forall>i < unat (numPredicates (wi_dev_prop wi)). r_preds now i = r_preds saved i) \<and>
      (\<forall>a. sp \<le> a \<and> a < sp + unat (wi_stack_size wi) \<longrightarrow> r_local now a = r_local saved a) \<and>
      (\<forall>l'. l' \<noteq> l \<longrightarrow> view d l' = view (gdev t2) l'))"
proof -
  note f = ckp_lane_files [OF assms(1,2,4)]
  let ?st = "view (gdev t) (the_lane wi lane)"
  have "file_holds E p RRTO_DT_STACK (Some (suffix_of wi lane)) (stack_of ?st (sp_regnum G) (wi_stack_size wi)) t2"
    and "file_holds E p RRTO_DT_REGISTERS (Some (suffix_of wi lane)) (lane_block ?st (wi_dev_prop wi)) t2"
    using f(4,5) holds_cong [OF assms(5,6)] by simp_all
  from rst_lane_files [OF assms(1-3) f(1-3) this] obtain d where
    "RRTO_cr_rst_lane E G wi lane (Some p) t2 = Inr (True, t2\<lparr>gdev := d\<rparr>)"
    and v: "view d = (view (gdev t2))(the_lane wi lane :=
      restored_lane (wi_dev_prop wi) (sp_regnum G) (wi_stack_size wi) ?st (view (gdev t2) (the_lane wi lane)))"
    by blast
  then show ?thesis
    by (intro exI [of _ d]) (simp add: v Let_def restored_lane_def restored_regs_def)
qed

text \<open>A device that is nothing but its lanes.\<close>

definition sim_read :: "string \<Rightarrow> cval list \<Rightarrow> lane_state \<Rightarrow> cval list" where
  "sim_read name rest st =
     (if name = ''readRegisterRange'' then (case rest of [_, Int32 n] \<Rightarrow> [Bytes (words_block (r_regs st) (unat n))] | _ \<Rightarrow> [])
      else if name = ''readRegister'' then (case rest of [Int32 k] \<Rightarrow> [Int32 (r_regs st (unat k))] | _ \<Rightarrow> [])
      else if name = ''readCCRegister'' then [Int32 (r_cc st)]
      else if name = ''readPredicates'' then (case rest of [Int32 n] \<Rightarrow> [Bytes (words_block (r_preds st) (unat n))] | _ \<Rightarrow> [])
      else if name = ''readLocalMemory'' then (case rest of [Word64 a, Int32 n] \<Rightarrow> [Bytes (read_mem (r_local st) (unat a) (unat n))] | _ \<Rightarrow> [])
      else [])"

definition sim_write :: "string \<Rightarrow> cval list \<Rightarrow> lane_state \<Rightarrow> lane_state" where
  "sim_write name rest st =
     (if name = ''writeRegister'' then (case rest of [Int32 k, Int32 v] \<Rightarrow> st\<lparr>r_regs := (r_regs st)(unat k := v)\<rparr> | _ \<Rightarrow> st)
      else if name = ''writeCCRegister'' then (case rest of [Int32 v] \<Rightarrow> st\<lparr>r_cc := v\<rparr> | _ \<Rightarrow> st)
      else if name = ''writePredicates'' then (case rest of [Int32 n, Bytes bs] \<Rightarrow> st\<lparr>r_preds := set_words (r_preds st) (unat n) bs\<rparr> | _ \<Rightarrow> st)
      else if name = ''writeLocalMemory'' then (case rest of [Word64 a, Bytes bs, Int32 _] \<Rightarrow> st\<lparr>r_local := set_mem (r_local st) (unat a) bs\<rparr> | _ \<Rightarrow> st)
      else st)"

definition sim_cuda :: "(lane_id \<Rightarrow> lane_state) cuda_api" where
  "sim_cuda name args d =
     (case args of
        Int32 a # Int32 b # Int32 c # Int32 e # rest \<Rightarrow>
          let l = \<lparr>l_dev = a, l_sm = b, l_warp = c, l_lane = e\<rparr> in
          (0, sim_read name rest (d l), d(l := sim_write name rest (d l)))
      | _ \<Rightarrow> (0, [], d))"

definition sim_env :: "(lane_id \<Rightarrow> lane_state) env" where
  "sim_env = \<lparr>heap_ok = (\<lambda>_. True), fresh_record = fresh_record sample_env, fresh_byte = 165, fresh_word = 7, fresh_int = 99,
     cuda = sim_cuda\<rparr>"

lemma lane_id_eta: "\<lparr>l_dev = l_dev l, l_sm = l_sm l, l_warp = l_warp l, l_lane = l_lane l\<rparr> = l"
  by (cases l) simp

lemma sim_lane_debugger: "lane_debugger sim_env (\<lambda>d. d)"
  unfolding lane_debugger_def sets_def
  by (simp add: sim_env_def sim_cuda_def lane_args_def warp_args_def sim_read_def sim_write_def Let_def lane_id_eta)

definition sim_prop :: RRTODeviceProp where
  "sim_prop = zero_prop\<lparr>numLanes := 32, numPredicates := 8, numRegisters := 4, numSMs := 1, numWarps := 2\<rparr>"

definition sim_warp :: warp_info where
  "sim_warp = warp_of sim_prop ''k'' 16 0 1"

definition sim_gdb :: gdb where
  "sim_gdb = \<lparr>objfiles = [], function_of_pc = (\<lambda>_. Some ''k''), sp_regnum = 1, bfd_open = (\<lambda>_. No_Bfd)\<rparr>"

definition sim_tool :: "(lane_id \<Rightarrow> lane_state) \<Rightarrow> (lane_id \<Rightarrow> lane_state) tool" where
  "sim_tool d = \<lparr>gdev = d, disk = \<lparr>files = Map.empty, creatable = (\<lambda>_. True), disk_free = 10000\<rparr>, dirs = (\<lambda>q. q = ckp_dir),
     makeable = (\<lambda>_. False)\<rparr>"

lemma sim_ckp_lane: "\<exists>t'. RRTO_cr_ckp_lane sim_env sim_gdb sim_warp 3 (Some ckp_dir) (sim_tool d) = Inr (True, t')"
proof -
  have heap: "\<And>n. heap_ok sim_env n" by (simp add: sim_env_def)
  have g: "RRTO_cr_gen_suffix sim_env sim_warp 3 = Inr (suffix_of sim_warp 3)"
    by (simp add: RRTO_cr_gen_suffix_def asprintf_def heap)
  have n: "unat (wi_stack_size sim_warp) = 16" by (simp add: sim_warp_def warp_of_def)
  have p: "wi_dev_prop sim_warp = sim_prop" by (simp add: sim_warp_def warp_of_def)
  have sp: "sane_prop sim_prop" by (simp add: sane_prop_def sim_prop_def)
  have r: "RRTO_register_size sim_prop = 52" by (simp add: RRTO_register_size_def sim_prop_def)
  have k1: "RRTO_file_dt2str RRTO_DT_STACK = Some ''stack''" and k2: "RRTO_file_dt2str RRTO_DT_REGISTERS = Some ''registers''"
    by (simp_all add: RRTO_file_dt2str_def RRTO_DT_STACK_def RRTO_DT_REGISTERS_def RRTO_DT_LAST_def dt2str_def)
  have fn: "\<exists>nm. full_name sim_env q k sf = Some nm" for q k sf
    by (auto simp: full_name_def asprintf_def heap split: option.splits)
  let ?stack = "stack_of (d (the_lane sim_warp 3)) (sp_regnum sim_gdb) (wi_stack_size sim_warp)"
  have s: "RRTO_stack_get_mem sim_env (sp_regnum sim_gdb) (the_lane sim_warp 3) (replicate 16 (fresh_byte sim_env)) (wi_stack_size sim_warp) (sim_tool d) =
      Inr ((True, ?stack), sim_tool d)"
    using stack_get_mem_read [OF sim_lane_debugger, of "replicate 16 (fresh_byte sim_env)" "wi_stack_size sim_warp"]
    by (simp add: n stack_of_def sim_tool_def)
  have ls: "length ?stack = 16" by (simp add: stack_of_def n)
  obtain n1 n2 where fn1: "full_name sim_env ckp_dir ''stack'' (Some (suffix_of sim_warp 3)) = Some n1"
    and fn2: "full_name sim_env ckp_dir ''registers'' (Some (suffix_of sim_warp 3)) = Some n2"
    using fn by meson
  obtain t1 where st1: "RRTO_file_store_mem sim_env (Some ckp_dir) RRTO_DT_STACK (Some (suffix_of sim_warp 3)) ?stack 16 (sim_tool d) = Inr (True, t1)"
      and t1: "dirs t1 ckp_dir" "creatable (disk t1) = (\<lambda>_. True)" "disk_free (disk t1) = 10000 - 28"
    using store_ok [OF _ k1 fn1, of "sim_tool d" 16 ?stack] ls by (auto simp: sim_tool_def)
  define m where "m = resized sim_env ?stack 52"
  have "length m = RRTO_register_size sim_prop" by (simp add: m_def resized_def r)
  then obtain b where ck: "RRTO_register_ckp sim_env (the_lane sim_warp 3) m sim_prop t1 = Inr ((True, b), t1)" and lb: "length b = 52"
    using register_ckp_block [OF sim_lane_debugger sp] length_lane_block [OF sp] r by metis
  obtain t2 where st2: "RRTO_file_store_mem sim_env (Some ckp_dir) RRTO_DT_REGISTERS (Some (suffix_of sim_warp 3)) b 52 t1 = Inr (True, t2)"
    using store_ok [OF t1(1) k2 fn2, of 52 b] lb t1 by auto
  have "RRTO_cr_ckp_lane sim_env sim_gdb sim_warp 3 (Some ckp_dir) (sim_tool d) = Inr (True, t2)"
    by (simp add: RRTO_cr_ckp_lane_def g n p r heap bind_t_def lift_t_def s st1 ck [unfolded m_def] st2 ret_t_def)
  then show ?thesis by blast
qed

text \<open>Two different states of the device; the lane is put into the second as it was in the first.\<close>

definition sim_lane :: "u32 \<Rightarrow> lane_state" where
  "sim_lane v = \<lparr>r_regs = (\<lambda>i. v + of_nat i), r_cc = v, r_preds = (\<lambda>_. v), r_local = (\<lambda>a. of_nat a)\<rparr>"

theorem lane_restored_witness:
  "\<exists>t' t3. RRTO_cr_ckp_lane sim_env sim_gdb sim_warp 3 (Some ckp_dir) (sim_tool (\<lambda>_. sim_lane 5)) = Inr (True, t') \<and>
     RRTO_cr_rst_lane sim_env sim_gdb sim_warp 3 (Some ckp_dir) (t'\<lparr>gdev := (\<lambda>_. sim_lane 9)\<rparr>) = Inr (True, t3) \<and>
     r_regs (gdev t3 (the_lane sim_warp 3)) 2 = 7 \<and> r_cc (gdev t3 (the_lane sim_warp 3)) = 5"
proof -
  obtain t' where c: "RRTO_cr_ckp_lane sim_env sim_gdb sim_warp 3 (Some ckp_dir) (sim_tool (\<lambda>_. sim_lane 5)) = Inr (True, t')"
    using sim_ckp_lane by blast
  have p: "wi_dev_prop sim_warp = sim_prop" by (simp add: sim_warp_def warp_of_def)
  have 1: "sane_prop (wi_dev_prop sim_warp)" by (simp add: p sane_prop_def sim_prop_def)
  have 2: "unat (sp_regnum sim_gdb) < unat (numRegisters (wi_dev_prop sim_warp))"
    by (simp add: p sim_prop_def sim_gdb_def)
  have 3: "disk (t'\<lparr>gdev := (\<lambda>_. sim_lane 9)\<rparr>) = disk t'" "dirs (t'\<lparr>gdev := (\<lambda>_. sim_lane 9)\<rparr>) = dirs t'" by simp_all
  from lane_restored [OF sim_lane_debugger 1 2 c 3]
  obtain d where r: "RRTO_cr_rst_lane sim_env sim_gdb sim_warp 3 (Some ckp_dir) (t'\<lparr>gdev := (\<lambda>_. sim_lane 9)\<rparr>) =
        Inr (True, t'\<lparr>gdev := (\<lambda>_. sim_lane 9)\<rparr>\<lparr>gdev := d\<rparr>)"
      and v: "\<forall>i < unat (numRegisters (wi_dev_prop sim_warp)). r_regs (d (the_lane sim_warp 3)) i = r_regs (sim_lane 5) i"
        "r_cc (d (the_lane sim_warp 3)) = r_cc (sim_lane 5)"
    by (auto simp: Let_def sim_tool_def)
  have "r_regs (d (the_lane sim_warp 3)) 2 = 7"
    using v(1) by (simp add: p sim_prop_def sim_lane_def)
  with c r v(2) show ?thesis by (auto simp: sim_lane_def)
qed

end
