(* ===== verification/GpuStack.thy ===== *)
theory GpuStack
  imports GpuCr
begin

text \<open>
  The call stack of a warp goes to a file and back (\<open>RRTO_cr_callstack\<close>, \<open>RRTO_cr_ckp_pc\<close>,
  \<open>RRTO_cr_read_pc\<close> of \<open>gpu/src/cricket-cr.c\<close>): the offsets of the names are those the names have in the
  file, the packed block has the size that is computed for it, and it is unpacked to the same call stack.
\<close>

section \<open>Call stacks as they are read from the device\<close>

definition names_size :: "string list \<Rightarrow> nat" where
  "names_size ns = (\<Sum>n \<leftarrow> ns. length n + 1)"

lemma names_size_simps [simp]:
  "names_size [] = 0" "names_size (n # ns) = length n + 1 + names_size ns"
  "names_size (ns @ ms) = names_size ns + names_size ms"
  by (simp_all add: names_size_def)

text \<open>Each entry has the offset its name has when all names are put one behind the other.\<close>

fun offsets_from :: "nat \<Rightarrow> pc_data list \<Rightarrow> string list \<Rightarrow> bool" where
  "offsets_from k [] [] \<longleftrightarrow> True"
| "offsets_from k (p # ps) (n # ns) \<longleftrightarrow> pc_str_offset p = of_nat k \<and> offsets_from (k + length n + 1) ps ns"
| "offsets_from k _ _ \<longleftrightarrow> False"

lemma offsets_from_length: "offsets_from k ps ns \<Longrightarrow> length ps = length ns"
  by (induction k ps ns rule: offsets_from.induct) auto

lemma offsets_from_append:
  "length ps = length ns \<Longrightarrow> offsets_from k (ps @ qs) (ns @ ms) \<longleftrightarrow>
     offsets_from k ps ns \<and> offsets_from (k + names_size ns) qs ms"
proof (induction ps ns arbitrary: k rule: list_induct2)
  case (Cons p ps n ns)
  have "k + length n + 1 + names_size ns = k + names_size (n # ns)" by simp
  with Cons show ?case by (simp add: ac_simps)
qed simp

lemma offsets_from_update:
  "offsets_from k ps ns \<Longrightarrow> offsets_from k (ps[i := (ps ! i)\<lparr>pc_absolute := a\<rparr>]) ns"
proof (induction k ps ns arbitrary: i rule: offsets_from.induct)
  case (2 k p ps n ns)
  then show ?case by (cases i) auto
qed auto

definition callstack_ok :: "callstack \<Rightarrow> bool" where
  "callstack_ok cs \<longleftrightarrow> cs_pc cs \<noteq> [] \<and> length (cs_pc cs) < 2 ^ 32 \<and> offsets_from 0 (cs_pc cs) (cs_names cs)"

lemma frames_loop_ok:
  assumes "frames_loop E G l i n k pcs names t = Inr (Some (pcs', names'), t')"
    and "offsets_from 0 pcs names" and "k = names_size names" and "i = length pcs"
  shows "offsets_from 0 pcs' names' \<and> length pcs' = i + n \<and>
    (\<exists>tl0. names' = names @ tl0 \<and> (\<forall>x \<in> set tl0. \<exists>pc. function_of_pc G pc = Some x))"
  using assms
proof (induction n arbitrary: i k pcs names t)
  case 0
  then show ?case by (simp add: ret_t_def)
next
  case (Suc n)
  from Suc.prems(1) obtain r v name c t1 where
    name: "RRTO_cr_function_name G (out64 E v 0) = Some name" and
    rest: "frames_loop E G l (i + 1) n (k + length name + 1)
       (pcs[i - 1 := (pcs ! (i - 1))\<lparr>pc_absolute := ucast (ucast (drop_bit 20 (of_nat (le_val (out_bytes E c 0 8)) :: u64)) :: u32) +
           pc_relative (pcs ! (i - 1))\<rparr>] @
        [\<lparr>pc_relative = out64 E r 0, pc_absolute = 0, pc_virt = out64 E v 0, pc_str_offset = of_nat k\<rparr>])
       (names @ [name]) t1 = Inr (Some (pcs', names'), t')"
    by (auto simp: dbg_or_def bind_t_Inr_iff ret_t_Inr_iff Let_def split: if_splits option.splits)
  have len: "length pcs = length names" by (rule offsets_from_length [OF Suc.prems(2)])
  have "offsets_from 0 (pcs[i - 1 := (pcs ! (i - 1))\<lparr>pc_absolute := a\<rparr>] @
        [\<lparr>pc_relative = b, pc_absolute = 0, pc_virt = d, pc_str_offset = of_nat k\<rparr>]) (names @ [name])" for a b d
    using offsets_from_update [OF Suc.prems(2)] len Suc.prems(3) by (subst offsets_from_append) simp_all
  from Suc.IH [OF rest this] Suc.prems(3,4) name show ?case
    by (auto simp: RRTO_cr_function_name_def)
qed

lemma callstack_ok_read:
  assumes "RRTO_cr_callstack E G wi lane t = Inr (Some cs, t')"
  shows "callstack_ok cs" and "heap_ok E (length (cs_pc cs) * 8)" and "\<forall>x \<in> set (cs_names cs). \<exists>pc. function_of_pc G pc = Some x"
proof -
  have mo: "Some c = map_option f x \<longleftrightarrow> (\<exists>y. x = Some y \<and> c = f y)" for c :: callstack and f and x :: "(pc_data list \<times> string list) option"
    by (cases x) auto
  obtain d v p name act val pcs names t1 t2 where
    size: "0 < unat (out32 E d 0 + 1)" and heap: "heap_ok E (unat (out32 E d 0 + 1) * 8)" and
    name: "RRTO_cr_function_name G (out64 E v 0) = Some name" and
    fr: "frames_loop E G (the_lane wi (if lane = RRTO_CR_NOLANE then 0 else lane)) 1 (unat (out32 E d 0 + 1) - 1) (length name + 1)
           [\<lparr>pc_relative = out64 E p 0, pc_absolute = 0, pc_virt = out64 E v 0, pc_str_offset = 0\<rparr>] [name] t1 = Inr (Some (pcs, names), t2)" and
    cs: "cs = \<lparr>cs_active_lanes = act, cs_valid_lanes = val, cs_pc = pcs, cs_names = names\<rparr>"
    using assms
    by (auto simp: RRTO_cr_callstack_def dbg_or_def bind_t_Inr_iff ret_t_Inr_iff lift_t_Inr_iff Let_def mo split: if_splits option.splits)
  have "offsets_from 0 pcs names \<and> length pcs = 1 + (unat (out32 E d 0 + 1) - 1) \<and>
    (\<exists>tl0. names = [name] @ tl0 \<and> (\<forall>x \<in> set tl0. \<exists>pc. function_of_pc G pc = Some x))"
    by (rule frames_loop_ok [OF fr]) simp_all
  then have o: "offsets_from 0 pcs names" and l: "length pcs = unat (out32 E d 0 + 1)"
    and n: "\<forall>x \<in> set names. \<exists>pc. function_of_pc G pc = Some x"
    using size name by (auto simp: RRTO_cr_function_name_def)
  show "callstack_ok cs"
    using o l size unat_u32_less [of "out32 E d 0 + 1"] by (auto simp: callstack_ok_def cs)
  show "heap_ok E (length (cs_pc cs) * 8)" using heap l by (simp add: cs)
  show "\<forall>x \<in> set (cs_names cs). \<exists>pc. function_of_pc G pc = Some x" using n by (simp add: cs)
qed

section \<open>The packed block\<close>

definition packed :: "callstack \<Rightarrow> u8 list" where
  "packed cs = (i32 (cs_valid_lanes cs) @ i32 (cs_active_lanes cs) @ i32 (of_nat (length (cs_pc cs)))) @
     concat (map pc_bytes (cs_pc cs)) @ concat (map str_bytes (cs_names cs))"

lemma length_pc_bytes [simp]: "length (pc_bytes p) = 32"
  by (simp add: pc_bytes_def)

lemma length_str_bytes [simp]: "length (str_bytes s) = length s + 1"
  by (simp add: str_bytes_def)

lemma length_pcs_bytes [simp]: "length (concat (map pc_bytes ps)) = 32 * length ps"
  by (induction ps) auto

lemma length_names_bytes [simp]: "length (concat (map str_bytes ns)) = names_size ns"
  by (induction ns) auto

lemma length_packed: "length (packed cs) = 12 + 32 * length (cs_pc cs) + names_size (cs_names cs)"
  by (simp add: packed_def)

lemma put_inside: "length x = length bs \<Longrightarrow> Fatbin.put (pre @ x @ post) (length pre) bs = Inr (pre @ bs @ post)"
  by (simp add: Fatbin.put_def blit_def)

lemma put_names_ok:
  assumes "offsets_from k ps ns" and "length x = names_size ns" and "k + names_size ns < 2 ^ 64" and "length pre = base + k"
  shows "put_names base (zip ps ns) (pre @ x) = Inr (pre @ concat (map str_bytes ns))"
  using assms
proof (induction k ps ns arbitrary: x pre rule: offsets_from.induct)
  case (2 k p ps n ns)
  have u: "unat (pc_str_offset p) = k"
  proof -
    have "pc_str_offset p = of_nat k" using 2(2) by simp
    moreover have "k < 2 ^ 64" using 2(4) by simp
    ultimately show ?thesis by (simp only: unsigned_of_nat) (simp add: take_bit_nat_eq_self)
  qed
  define x1 x2 where "x1 = take (length n + 1) x" and "x2 = drop (length n + 1) x"
  have x: "x = x1 @ x2" "length x1 = length (str_bytes n)" "length x2 = names_size ns"
    using 2(3) by (simp_all add: x1_def x2_def)
  have put: "Fatbin.put (pre @ x1 @ x2) (base + k) (str_bytes n) = Inr (pre @ str_bytes n @ x2)"
    using put_inside [OF x(2), of pre x2] 2(5) by simp
  have "put_names base (zip ps ns) ((pre @ str_bytes n) @ x2) = Inr ((pre @ str_bytes n) @ concat (map str_bytes ns))"
    by (rule 2(1)) (use 2 x in auto)
  with put show ?case by (simp add: u x(1))
qed auto

lemma last_offset:
  assumes "offsets_from k ps ns" and "ps \<noteq> []" and "k + names_size ns < 2 ^ 64"
  shows "unat (pc_str_offset (last ps)) + length (last ns) + 1 = k + names_size ns"
  using assms
proof (induction k ps ns rule: offsets_from.induct)
  case (2 k p ps n ns)
  show ?case
  proof (cases "ps = []")
    case True
    then have "ns = []" using 2(2) by (cases ns) auto
    moreover have "unat (of_nat k :: u64) = k"
      using 2(4) by (simp only: unsigned_of_nat) (simp add: take_bit_nat_eq_self)
    ultimately show ?thesis using True 2(2) by simp
  next
    case False
    then have "ns \<noteq> []" using 2(2) by (cases ps; cases ns) auto
    with False 2 show ?thesis by simp
  qed
qed auto

lemma packed_size:
  assumes "callstack_ok cs" and "length (packed cs) < 2 ^ 64"
  shows "packed_size_of cs = length (packed cs)"
proof -
  have b: "12 + 32 * length (cs_pc cs) + names_size (cs_names cs) < 2 ^ 64"
    using assms(2) by (simp add: length_packed)
  have "unat (pc_str_offset (last (cs_pc cs))) + length (last (cs_names cs)) + 1 = 0 + names_size (cs_names cs)"
    by (rule last_offset) (use assms(1) b in \<open>auto simp: callstack_ok_def\<close>)
  then show ?thesis using b by (simp add: packed_size_of_def wrap64_def length_packed mult.commute)
qed

lemma pack_ok:
  assumes "callstack_ok cs" and "length (packed cs) < 2 ^ 64"
  shows "pack_callstack E cs (packed_size_of cs) = Inr (packed cs)"
proof -
  let ?h = "i32 (cs_valid_lanes cs) @ i32 (cs_active_lanes cs) @ i32 (of_nat (length (cs_pc cs)))"
    and ?p = "concat (map pc_bytes (cs_pc cs))" and ?n = "length (cs_pc cs)" and ?b = "fresh_byte E"
  let ?z = "names_size (cs_names cs)"
  have r: "replicate (packed_size_of cs) ?b = [] @ replicate 12 ?b @ replicate (32 * ?n) ?b @ replicate ?z ?b"
    by (simp add: packed_size [OF assms] length_packed flip: replicate_add)
  have 1: "Fatbin.put (replicate (packed_size_of cs) ?b) 0 ?h = Inr (?h @ replicate (32 * ?n) ?b @ replicate ?z ?b)"
    unfolding r using put_inside [of "replicate 12 ?b" ?h "[]" "replicate (32 * ?n) ?b @ replicate ?z ?b"] by simp
  have 2: "Fatbin.put (?h @ replicate (32 * ?n) ?b @ replicate ?z ?b) 12 ?p = Inr (?h @ ?p @ replicate ?z ?b)"
    using put_inside [of "replicate (32 * ?n) ?b" ?p ?h "replicate ?z ?b"] by simp
  have 3: "put_names (12 + 32 * ?n) (zip (cs_pc cs) (cs_names cs)) ((?h @ ?p) @ replicate ?z ?b) =
      Inr ((?h @ ?p) @ concat (map str_bytes (cs_names cs)))"
    by (rule put_names_ok [where k = 0]) (use assms in \<open>auto simp: callstack_ok_def length_packed\<close>)
  show ?thesis
    using 1 2 3 by (simp add: pack_callstack_def Let_def packed_def)
qed

section \<open>Unpacking\<close>

lemma word64_at_block: "word64_at (pre @ i64 w @ post) (length pre) = Inr w"
  using blk_append_at [of pre "i64 w" post] by (simp add: word64_at_def rd_def i64_def of_nat_le_u64)

lemma word_at_i32: "word_at (pre @ i32 w @ post) (length pre) = Inr w"
  using blk_append_at [of pre "i32 w" post] by (simp add: word_at_def rd_def i32_def of_nat_le_u32)

lemma read_entry_block: "read_entry (pre @ pc_bytes p @ post) (length pre) = Inr p"
proof -
  have "word64_at (pre @ pc_bytes p @ post) (length pre) = Inr (pc_relative p)"
    "word64_at (pre @ pc_bytes p @ post) (length pre + 8) = Inr (pc_absolute p)"
    "word64_at (pre @ pc_bytes p @ post) (length pre + 16) = Inr (pc_virt p)"
    "word64_at (pre @ pc_bytes p @ post) (length pre + 24) = Inr (pc_str_offset p)"
    using word64_at_block [of pre "pc_relative p" "i64 (pc_absolute p) @ i64 (pc_virt p) @ i64 (pc_str_offset p) @ post"]
      word64_at_block [of "pre @ i64 (pc_relative p)" "pc_absolute p" "i64 (pc_virt p) @ i64 (pc_str_offset p) @ post"]
      word64_at_block [of "pre @ i64 (pc_relative p) @ i64 (pc_absolute p)" "pc_virt p" "i64 (pc_str_offset p) @ post"]
      word64_at_block [of "pre @ i64 (pc_relative p) @ i64 (pc_absolute p) @ i64 (pc_virt p)" "pc_str_offset p" post]
    by (simp_all add: pc_bytes_def)
  then show ?thesis by (simp add: read_entry_def)
qed

lemma read_entries_block: "read_entries (pre @ concat (map pc_bytes ps) @ post) (length pre) (length ps) = Inr ps"
proof (induction ps arbitrary: pre)
  case (Cons p ps)
  have 1: "read_entry (pre @ pc_bytes p @ concat (map pc_bytes ps) @ post) (length pre) = Inr p"
    by (rule read_entry_block)
  have 2: "read_entries (pre @ pc_bytes p @ concat (map pc_bytes ps) @ post) (length pre + 32) (length ps) = Inr ps"
    using Cons.IH [of "pre @ pc_bytes p"] by simp
  show ?case by (simp add: 1 2)
qed simp

definition c_name :: "string \<Rightarrow> bool" where
  "c_name s \<longleftrightarrow> CHR 0x00 \<notin> set s"

lemma char_of_u8: "char_of (unat (of_char c :: u8)) = c"
proof -
  have "unat (of_char c :: u8) = (of_char c :: nat)"
  proof -
    have "(of_char c :: u8) = of_nat (of_char c)" by (rule of_nat_of_char [symmetric])
    moreover have "(of_char c :: nat) < 256" by simp
    ultimately show ?thesis by (simp only: unsigned_of_nat) (simp add: take_bit_nat_eq_self)
  qed
  then show ?thesis by simp
qed

lemma of_char_zero: "(of_char c :: u8) = 0 \<longleftrightarrow> c = CHR 0x00"
proof
  assume "(of_char c :: u8) = 0"
  then show "c = CHR 0x00" using char_of_u8 [of c] by (simp add: char_of_def)
qed simp

lemma c_string_block: "c_name s \<Longrightarrow> c_string (pre @ str_bytes s @ post) (length pre) = Inr s"
proof -
  assume "c_name s"
  then have "\<And>b. b \<in> set (map of_char s :: u8 list) \<Longrightarrow> b \<noteq> 0"
    by (auto simp: c_name_def of_char_zero)
  then have "takeWhile (\<lambda>b. b \<noteq> 0) (map of_char s @ (0 :: u8) # post) = map of_char s"
    by (subst takeWhile_append2) auto
  then show ?thesis by (simp add: c_string_def str_bytes_def comp_def char_of_u8)
qed

lemma read_names_block:
  assumes "offsets_from k ps ns" and "\<forall>n \<in> set ns. c_name n" and "length pre = base + k"
    and "length (pre @ concat (map str_bytes ns) @ post) < 2 ^ 64"
  shows "read_names (pre @ concat (map str_bytes ns) @ post) base ps = Inr (Some ns)"
  using assms
proof (induction k ps ns arbitrary: pre rule: offsets_from.induct)
  case (2 k p ps n ns)
  have k: "base + k < 2 ^ 64" using 2(4,5) by simp
  then have "unat (of_nat k :: u64) = k"
    by (simp only: unsigned_of_nat) (simp add: take_bit_nat_eq_self)
  then have u: "wrap64 (base + unat (pc_str_offset p)) = base + k"
    using 2(2) k by (simp add: wrap64_def)
  have 1: "c_string (pre @ str_bytes n @ concat (map str_bytes ns) @ post) (base + k) = Inr n"
    using c_string_block [of n pre] 2(3,4) by simp
  have 3: "read_names ((pre @ str_bytes n) @ concat (map str_bytes ns) @ post) base ps = Inr (Some ns)"
    by (rule 2(1)) (use 2 in auto)
  have l: "base + k \<le> length (pre @ str_bytes n @ concat (map str_bytes ns) @ post)"
    using 2(4) by simp
  show ?case using 1 3 l by (simp add: u)
qed auto

lemma unpack_ok:
  assumes "callstack_ok cs" and "length (packed cs) < 2 ^ 64" and "\<forall>n \<in> set (cs_names cs). c_name n"
    and "heap_ok E (length (cs_pc cs) * 8)"
  shows "unpack_callstack E (packed cs) = Inr (Some cs)"
proof -
  let ?v = "i32 (cs_valid_lanes cs)" and ?a = "i32 (cs_active_lanes cs)" and ?s = "i32 (of_nat (length (cs_pc cs)))"
    and ?p = "concat (map pc_bytes (cs_pc cs))" and ?q = "concat (map str_bytes (cs_names cs))" and ?n = "length (cs_pc cs)"
  have m: "packed cs = ?v @ ?a @ ?s @ ?p @ ?q" by (simp add: packed_def)
  have w: "word_at (packed cs) 0 = Inr (cs_valid_lanes cs)" "word_at (packed cs) 4 = Inr (cs_active_lanes cs)"
    "word_at (packed cs) 8 = Inr (of_nat ?n)"
    using word_at_i32 [of "[]" "cs_valid_lanes cs" "?a @ ?s @ ?p @ ?q"] word_at_i32 [of ?v "cs_active_lanes cs" "?s @ ?p @ ?q"]
      word_at_i32 [of "?v @ ?a" "of_nat ?n" "?p @ ?q"]
    by (simp_all add: m)
  have u: "unat (of_nat ?n :: u32) = ?n"
    using assms(1) by (simp add: callstack_ok_def unsigned_of_nat take_bit_nat_eq_self)
  have ne: "cs_pc cs \<noteq> []" using assms(1) by (simp add: callstack_ok_def)
  have l: "word64_at (packed cs) (12 + ?n * 32 - 8) = Inr (pc_str_offset (last (cs_pc cs)))"
  proof -
    let ?i = "butlast (cs_pc cs)" and ?l = "last (cs_pc cs)"
    have "?p = concat (map pc_bytes ?i) @ pc_bytes ?l"
      by (subst append_butlast_last_id [OF ne, symmetric]) simp
    then have "packed cs = (?v @ ?a @ ?s @ concat (map pc_bytes ?i) @ i64 (pc_relative ?l) @ i64 (pc_absolute ?l) @ i64 (pc_virt ?l)) @
        i64 (pc_str_offset ?l) @ ?q"
      by (simp add: m pc_bytes_def)
    moreover have "length (?v @ ?a @ ?s @ concat (map pc_bytes ?i) @ i64 (pc_relative ?l) @ i64 (pc_absolute ?l) @ i64 (pc_virt ?l)) =
        12 + ?n * 32 - 8"
      using ne by (cases "cs_pc cs") auto
    ultimately show ?thesis using word64_at_block by metis
  qed
  have o: "offsets_from 0 (cs_pc cs) (cs_names cs)" using assms(1) by (simp add: callstack_ok_def)
  have b: "12 + 32 * ?n + names_size (cs_names cs) < 2 ^ 64" using assms(2) by (simp add: length_packed)
  have lo: "unat (pc_str_offset (last (cs_pc cs))) + length (last (cs_names cs)) + 1 = 0 + names_size (cs_names cs)"
    by (rule last_offset [OF o ne]) (use b in simp)
  have es: "read_entries (packed cs) 12 ?n = Inr (cs_pc cs)"
    using read_entries_block [of "?v @ ?a @ ?s" "cs_pc cs" ?q] by (simp add: m)
  have last_at: "36 + unat (of_nat ?n - 1 :: u32) * 32 = 4 + ?n * 32"
  proof -
    have "1 \<le> (of_nat ?n :: u32)" using ne u by (simp add: word_le_nat_alt Suc_le_eq)
    then have "unat (of_nat ?n - 1 :: u32) = ?n - 1" by (simp add: unat_sub u)
    then show ?thesis using ne by (cases "cs_pc cs") simp_all
  qed
  have ns: "read_names (packed cs) (12 + ?n * 32) (cs_pc cs) = Inr (Some (cs_names cs))"
    using read_names_block [OF o assms(3), of "?v @ ?a @ ?s @ ?p" "12 + ?n * 32" "[]"] assms(2)
    by (simp add: m)
  have "12 + ?n * 32 + unat (pc_str_offset (last (cs_pc cs))) + 1 \<le> length (packed cs)"
    using lo by (simp add: length_packed)
  then have fits: "\<not> length (packed cs) < wrap64 (12 + ?n * 32 + unat (pc_str_offset (last (cs_pc cs))) + 1)"
    using assms(2) by (simp add: wrap64_def)
  show ?thesis
    using fits length_packed [of cs] assms(4) l
    by (simp add: unpack_callstack_def w u es ns last_at Let_def cong del: if_weak_cong)
qed

section \<open>The file\<close>

text \<open>C11: The call stack of a warp is read back as it was: if it has been read from the device and written
  to its file, then reading the file gives the same entries, names and masks, as long as the file stays
  as it is. (A name the debugger gives has no zero byte.)\<close>

theorem callstack_read_back:
  assumes "RRTO_cr_callstack E G wi lane t = Inr (Some cs, t1)"
    and "RRTO_cr_ckp_pc E wi lane (Some p) cs t1 = Inr (True, t2)"
    and "\<forall>pc name. function_of_pc G pc = Some name \<longrightarrow> c_name name" and "length (packed cs) < 2 ^ 64"
    and "disk t3 = disk t2" and "dirs t3 = dirs t2"
  shows "RRTO_cr_read_pc E wi lane (Some p) t3 = Inr (Some cs, t3)"
proof -
  note c = callstack_ok_read [OF assms(1)]
  have names: "\<forall>n \<in> set (cs_names cs). c_name n" using c(3) assms(3) by auto
  have ne: "cs_pc cs \<noteq> []" using c(1) by (simp add: callstack_ok_def)
  note pk = pack_ok [OF c(1) assms(4), of E]
  have size: "packed_size_of cs = length (packed cs)" by (rule packed_size [OF c(1) assms(4)])
  have heap: "heap_ok E (length (packed cs))"
    using assms(2) ne size by (auto simp: RRTO_cr_ckp_pc_def Let_def lift_t_def split: if_splits)
  have s: "RRTO_cr_gen_suffix E wi lane = Inr (suffix_of wi lane)"
    using assms(2) ne heap size pk gen_suffix_Inr [of E wi lane]
    by (auto simp: RRTO_cr_ckp_pc_def Let_def bind_t_Inr_iff lift_t_Inr_iff)
  have st: "RRTO_file_store_mem E (Some p) RRTO_DT_PC (Some (suffix_of wi lane)) (packed cs) (length (packed cs)) t1 = Inr (True, t2)"
    using assms(2) ne heap size pk s by (simp add: RRTO_cr_ckp_pc_def Let_def)
  have "file_holds E p RRTO_DT_PC (Some (suffix_of wi lane)) (packed cs) t3"
    using store_holds(1) [OF st] holds_cong [OF assms(5,6)] by simp
  from read_size_holds [OF this assms(4) heap]
  have "RRTO_file_read_mem_size E (Some p) RRTO_DT_PC (Some (suffix_of wi lane)) None 0 t3 =
      Inr ((True, Some (packed cs), Some (length (packed cs))), t3)" by simp
  then show ?thesis
    by (simp add: RRTO_cr_read_pc_def s bind_t_def lift_t_def unpack_ok [OF c(1) assms(4) names c(2)])
qed

text \<open>A warp that has stopped two calls deep.\<close>

definition call_cuda :: "unit cuda_api" where
  "call_cuda name args d =
     (if name = ''readCallDepth'' then (0, [Int32 1], d)
      else if name = ''readPC'' then (0, [Word64 0x48], d)
      else if name = ''readReturnAddress'' then (0, [Word64 0x108], d)
      else if name = ''readVirtualReturnAddress'' then (0, [Word64 0x9108], d)
      else if name = ''readCodeMemory'' then (0, [Bytes (le_bytes 8 0xe260000100000040)], d)
      else if name \<in> {''readValidLanes'', ''readActiveLanes''} then (0, [Int32 255], d)
      else (0, [Word64 0x8048], d))"

definition call_env :: "unit env" where
  "call_env = sample_env\<lparr>heap_ok := (\<lambda>_. True), cuda := call_cuda\<rparr>"

definition call_gdb :: gdb where
  "call_gdb = \<lparr>objfiles = [], function_of_pc = (\<lambda>pc. Some (if pc < 0x9000 then ''inner'' else ''outer'')), sp_regnum = 1,
     bfd_open = (\<lambda>_. No_Bfd)\<rparr>"

definition call_warp :: warp_info where
  "call_warp = \<lparr>wi_dev = 0, wi_sm = 0, wi_warp = 3, wi_kernel_name = ''outer'', wi_stack_size = 16,
     wi_dev_prop = \<lparr>dp_index = 0, dp_name = [], dp_type = [], dp_smType = [], numLanes = 32, numPredicates = 8, numRegisters = 4,
       numSMs = 1, numWarps = 4\<rparr>\<rparr>"

definition call_tool :: "unit tool" where
  "call_tool = \<lparr>gdev = (), disk = \<lparr>files = Map.empty, creatable = (\<lambda>_. True), disk_free = 10000\<rparr>, dirs = (\<lambda>q. q = ''d''),
     makeable = (\<lambda>_. False)\<rparr>"

definition call_stack :: callstack where
  "call_stack = \<lparr>cs_active_lanes = 255, cs_valid_lanes = 255,
     cs_pc = [\<lparr>pc_relative = 0x48, pc_absolute = 0x1048, pc_virt = 0x8048, pc_str_offset = 0\<rparr>,
       \<lparr>pc_relative = 0x108, pc_absolute = 0, pc_virt = 0x9108, pc_str_offset = 6\<rparr>],
     cs_names = [''inner'', ''outer'']\<rparr>"

lemma call_stack_read: "RRTO_cr_callstack call_env call_gdb call_warp RRTO_CR_NOLANE call_tool = Inr (Some call_stack, call_tool)"
  by (simp add: RRTO_cr_callstack_def dbg_or_def bind_t_def dbg_def call_env_def call_cuda_def sample_env_def call_tool_def
      CUDBG_SUCCESS_def ret_t_def Let_def out32_def out64_def out_bytes_def RRTO_cr_function_name_def call_gdb_def call_stack_def
      numeral_2_eq_2 [symmetric] le_val_le_bytes)

theorem callstack_read_back_witness:
  "\<exists>t2. RRTO_cr_ckp_pc call_env call_warp RRTO_CR_NOLANE (Some ''d'') call_stack call_tool = Inr (True, t2) \<and>
     RRTO_cr_read_pc call_env call_warp RRTO_CR_NOLANE (Some ''d'') t2 = Inr (Some call_stack, t2)"
proof -
  have l: "length (packed call_stack) = 88" by (simp add: length_packed call_stack_def)
  have heap: "\<And>n. heap_ok call_env n" by (simp add: call_env_def)
  have ok: "callstack_ok call_stack" by (rule callstack_ok_read(1) [OF call_stack_read])
  have small: "length (packed call_stack) < 2 ^ 64" by (simp add: l)
  have s: "RRTO_cr_gen_suffix call_env call_warp RRTO_CR_NOLANE = Inr (suffix_of call_warp RRTO_CR_NOLANE)"
    by (simp add: RRTO_cr_gen_suffix_def asprintf_def heap)
  have k: "RRTO_file_dt2str RRTO_DT_PC = Some ''pc''"
    by (simp add: RRTO_file_dt2str_def RRTO_DT_PC_def RRTO_DT_LAST_def dt2str_def)
  obtain nm where fn: "full_name call_env ''d'' ''pc'' (Some (suffix_of call_warp RRTO_CR_NOLANE)) = Some nm"
    by (simp add: full_name_def asprintf_def heap)
  obtain t2 where st: "RRTO_file_store_mem call_env (Some ''d'') RRTO_DT_PC (Some (suffix_of call_warp RRTO_CR_NOLANE))
      (packed call_stack) 88 call_tool = Inr (True, t2)"
    using store_ok [OF _ k fn, of call_tool 88 "packed call_stack"] l by (auto simp: call_tool_def)
  have "cs_pc call_stack \<noteq> []" by (simp add: call_stack_def)
  then have c: "RRTO_cr_ckp_pc call_env call_warp RRTO_CR_NOLANE (Some ''d'') call_stack call_tool = Inr (True, t2)"
    by (simp add: RRTO_cr_ckp_pc_def Let_def heap pack_ok [OF ok small, unfolded packed_size [OF ok small] l] s
        packed_size [OF ok small] l st)
  have names: "\<forall>pc name. function_of_pc call_gdb pc = Some name \<longrightarrow> c_name name"
    by (simp add: call_gdb_def c_name_def)
  from callstack_read_back [OF call_stack_read c names small refl refl] c show ?thesis by blast
qed

end
