(* ===== verification/GpuAttr.thy ===== *)
theory GpuAttr
  imports GpuSass GpuStack
begin

text \<open>
  The attributes of a kernel, read by two programs: the server (\<open>get_parm_for_kernel\<close> of
  \<open>cpu/cpu-elf2.c\<close>) and the checkpoint tool (\<open>RRTO_elf_extract_multiple_attributes\<close> of
  \<open>gpu/src/cricket-elf.c\<close>) agree on every parameter; and a global variable behind one of another size
  whose memory a checkpoint cannot find.
\<close>

section \<open>One section, two parsers\<close>

fun kparam_blocks :: "nv_entry list \<Rightarrow> u8 list list" where
  "kparam_blocks [] = []"
| "kparam_blocks (KParam ix ord off low sz # es) =
     (le_bytes 4 ix @ le_bytes 2 ord @ le_bytes 2 off @ le_bytes 4 (low + sz * 2 ^ 18)) # kparam_blocks es"
| "kparam_blocks (_ # es) = kparam_blocks es"

lemma extract_step:
  assumes "drop p m = le_bytes 1 f @ le_bytes 1 a @ le_bytes 2 v @ rest" and "f < 256" and "a < 256" and "v < 65536"
  shows "extract_multiple_loop m at n p found acc =
    (if a = at
     then (if f = EIFMT_SVAL \<and> v = n
           then bind_r (Fatbin.read_block m (p + 4) v) (\<lambda>bs. extract_multiple_loop m at n (p + 4 + v) True (acc @ [bs]))
           else extract_multiple_loop m at n (p + 4) False acc)
     else extract_multiple_loop m at n (p + 4 + (if f = EIFMT_SVAL then v else 0)) found acc)"
  using parm_loop_head [OF assms] by (subst extract_multiple_loop.simps) simp

lemma extract_entries:
  "drop p m = section_bytes es \<Longrightarrow> \<forall>e \<in> set es. entry_ok e \<Longrightarrow>
   \<exists>f. extract_multiple_loop m EIATTR_KPARAM_INFO 12 p found acc = Inr (f, acc @ kparam_blocks es)"
proof (induction es arbitrary: p found acc)
  case Nil
  then show ?case by (subst extract_multiple_loop.simps) (simp add: section_bytes_def)
next
  case (Cons e es)
  have d: "drop p m = entry_bytes e @ section_bytes es" using Cons.prems(1) by (simp add: section_bytes_def)
  have next_drop: "drop (p + length (entry_bytes e)) m = section_bytes es"
  proof -
    have "drop (p + length (entry_bytes e)) m = drop (length (entry_bytes e)) (drop p m)"
      by (simp add: add.commute)
    then show ?thesis by (simp only: d) simp
  qed
  have ok: "entry_ok e" "\<forall>e \<in> set es. entry_ok e" using Cons.prems(2) by simp_all
  note IH = Cons.IH [OF next_drop ok(2)]
  show ?case
  proof (cases e)
    case (KParam ix ord off low sz)
    let ?b = "le_bytes 4 ix @ le_bytes 2 ord @ le_bytes 2 off @ le_bytes 4 (low + sz * 2 ^ 18)"
    let ?h = "le_bytes 1 EIFMT_SVAL @ le_bytes 1 EIATTR_KPARAM_INFO @ le_bytes 2 12"
    have d': "drop p m = ?h @ ?b @ section_bytes es" using d KParam by simp
    have len: "length m = p + 16 + length (section_bytes es)"
      using arg_cong [OF d', of length] by simp
    have "blk (p + 4) 12 m = blk 4 12 (drop p m)" by (simp add: blk_def add.commute)
    also have "\<dots> = ?b" using blk_append_at [of ?h ?b "section_bytes es"] by (simp add: d')
    finally have "Fatbin.read_block m (p + 4) 12 = Inr ?b" using len by (simp add: Fatbin.read_block_def)
    moreover have "p + length (entry_bytes e) = p + 4 + 12" using KParam by simp
    ultimately show ?thesis
      using IH [of True "acc @ [?b]"] KParam
      by (subst extract_step [of p m EIFMT_SVAL EIATTR_KPARAM_INFO 12 "?b @ section_bytes es"]) (use d' in \<open>auto simp: fmt_defs add.commute\<close>)
  next
    case (Cbank_Size v)
    then show ?thesis using IH ok
      by (subst extract_step [of p m EIFMT_HVAL EIATTR_CBANK_PARAM_SIZE v "section_bytes es"]) (use d in \<open>auto simp: fmt_defs\<close>)
  next
    case (Hval a v)
    then show ?thesis using IH ok
      by (subst extract_step [of p m EIFMT_HVAL a v "section_bytes es"]) (use d in \<open>auto simp: fmt_defs\<close>)
  next
    case (Sval a bs)
    have e: "p + length (entry_bytes e) = p + 4 + length bs" using Sval by simp
    have IH': "\<exists>f. extract_multiple_loop m EIATTR_KPARAM_INFO 12 (p + 4 + length bs) found acc =
        Inr (f, acc @ kparam_blocks es)" for found acc
      using IH [of found acc] by (simp only: e)
    have "a \<noteq> EIATTR_KPARAM_INFO" "a < 256" "length bs < 65536"
      and "drop p m = le_bytes 1 EIFMT_SVAL @ le_bytes 1 a @ le_bytes 2 (length bs) @ bs @ section_bytes es"
      using Sval ok d by (simp_all add: fmt_defs)
    then show ?thesis using IH' Sval
      by (subst extract_step [of p m EIFMT_SVAL a "length bs" "bs @ section_bytes es"]) (simp_all add: fmt_defs)
  next
    case (Nval a v)
    then show ?thesis using IH ok
      by (subst extract_step [of p m EIFMT_NVAL a v "section_bytes es"]) (use d in \<open>auto simp: fmt_defs\<close>)
  qed
qed

lemma half_at: "n < 65536 \<Longrightarrow> half (pre @ le_bytes 2 n @ post) (length pre) = of_nat n"
  using blk_append_at [of pre "le_bytes 2 n" post] by (simp add: half_def le_val_le_bytes)

lemma le_bytes_split: "le_bytes (a + b) w = le_bytes a w @ le_bytes b (w div 256 ^ a)"
  by (induction a arbitrary: w) (simp_all add: div_mult2_eq)

lemma le_bytes_high: "le_bytes 4 w = le_bytes 2 w @ le_bytes 2 (w div 65536)"
  using le_bytes_split [of 2 2 w] by simp

lemma drop_bit_u16: "n < 65536 \<Longrightarrow> drop_bit 2 (of_nat n :: u16) = of_nat (n div 4)"
  by (rule word_unat_eq_iff [THEN iffD2])
    (simp add: unsigned_drop_bit_eq unsigned_of_nat take_bit_nat_eq_self drop_bit_eq_div unat_div_distrib)

lemma param_of_block:
  assumes "entry_ok (KParam ix ord off low sz)"
  shows "param_of (le_bytes 4 ix @ le_bytes 2 ord @ le_bytes 2 off @ le_bytes 4 (low + sz * 2 ^ 18)) =
    \<lparr>gp_index = of_nat ord, gp_offset = of_nat off, gp_size = of_nat sz\<rparr>"
proof -
  let ?w = "low + sz * 2 ^ 18"
  have lt: "ord < 65536" "off < 65536" "low < 2 ^ 18" "sz < 2 ^ 14" using assms by simp_all
  then have w: "?w div 65536 < 65536" "?w div 65536 div 4 = sz" by simp_all
  have "half (le_bytes 4 ix @ le_bytes 2 ord @ le_bytes 2 off @ le_bytes 4 ?w) 4 = of_nat ord"
    using half_at [OF lt(1), of "le_bytes 4 ix" "le_bytes 2 off @ le_bytes 4 ?w"] by (simp del: le_bytes.simps)
  moreover have "half (le_bytes 4 ix @ le_bytes 2 ord @ le_bytes 2 off @ le_bytes 4 ?w) 6 = of_nat off"
    using half_at [OF lt(2), of "le_bytes 4 ix @ le_bytes 2 ord" "le_bytes 4 ?w"] by (simp del: le_bytes.simps)
  moreover have "half (le_bytes 4 ix @ le_bytes 2 ord @ le_bytes 2 off @ le_bytes 4 ?w) 10 = of_nat (?w div 65536)"
    unfolding le_bytes_high [of ?w]
    using half_at [OF w(1), of "le_bytes 4 ix @ le_bytes 2 ord @ le_bytes 2 off @ le_bytes 2 ?w" "[]"]
    by (simp del: le_bytes.simps)
  ultimately show ?thesis using w by (simp add: param_of_def drop_bit_u16)
qed

text \<open>The last parameter with an ordinal, as the tool has it.\<close>

definition see_param :: "nat \<Rightarrow> gpu_param \<Rightarrow> (nat \<times> nat) option \<Rightarrow> (nat \<times> nat) option" where
  "see_param ord p acc = (if unat (gp_index p) = ord then Some (unat (gp_offset p), unat (gp_size p)) else acc)"

definition last_param :: "nat \<Rightarrow> gpu_param list \<Rightarrow> (nat \<times> nat) option" where
  "last_param ord ps = fold (see_param ord) ps None"

lemma last_param_blocks:
  "\<forall>e \<in> set es. entry_ok e \<Longrightarrow> fold (see_param ord) (map param_of (kparam_blocks es)) acc = fold (see_kparam ord) es acc"
proof (induction es arbitrary: acc)
  case (Cons e es)
  show ?case
  proof (cases e)
    case (KParam ix o' off low sz)
    then have ok: "entry_ok (KParam ix o' off low sz)" using Cons.prems by simp
    then have u: "unat (of_nat o' :: u16) = o'" "unat (of_nat off :: u16) = off" "unat (of_nat sz :: u16) = sz"
      by (simp_all add: unsigned_of_nat take_bit_nat_eq_self)
    have "see_param ord (param_of (le_bytes 4 ix @ le_bytes 2 o' @ le_bytes 2 off @ le_bytes 4 (low + sz * 2 ^ 18))) acc =
        see_kparam ord (KParam ix o' off low sz) acc"
      unfolding param_of_block [OF ok] by (simp add: see_param_def u)
    with Cons KParam show ?thesis by simp
  qed (use Cons in auto)
qed simp

text \<open>C34: The server and the checkpoint tool of the GPU side read the parameters of a kernel alike: from the
  same attributes, every ordinal has the same offset and the same size for both, or for neither.\<close>

theorem gpu_parameters_agree:
  assumes "heap_params E" and "get_kernel_section_from_kernel_name E (k_name k) = Some sname"
    and "get_section_by_name (elf_sections elf) sname = Some sec" and "sec_data sec = Some (section_bytes es)"
    and "\<forall>e \<in> set es. entry_ok e" and "gs_contents gsec = Some (section_bytes es)" and "heap_ok E (gs_size gsec)"
  shows "\<exists>k' found attrs. get_parm_for_kernel E elf k = Inr (0, k') \<and>
    RRTO_elf_extract_multiple_attributes E gsec EIATTR_KPARAM_INFO 12 = Inr (found, attrs) \<and>
    (\<forall>ord < param_num k'. param_offsets k' ! ord = map_option fst (last_param ord (map param_of attrs)) \<and>
       param_sizes k' ! ord = map_option snd (last_param ord (map param_of attrs))) \<and>
    (\<forall>ord \<ge> param_num k'. last_param ord (map param_of attrs) = None)"
proof -
  let ?k = "\<lparr>k_name = k_name k, param_size = 0, param_num = 0, param_offsets = [], param_sizes = [], host_fun = host_fun k\<rparr>"
  have "k\<lparr>param_num := 0, param_size := 0, param_offsets := [], param_sizes := []\<rparr> = ?k"
    by (rule kernel_info.equality) simp_all
  moreover have "parm_loop E (section_bytes es) 0 ?k = Inr (0, fold apply_entry es ?k)"
    using assms by (intro parm_loop_entries) (simp_all add: arrays_ok_def)
  ultimately have cpu: "get_parm_for_kernel E elf k = Inr (0, fold apply_entry es ?k)"
    using assms by (simp only: get_parm_for_kernel_def Let_def option.case kernel_info.select_convs)
  obtain f where gpu: "RRTO_elf_extract_multiple_attributes E gsec EIATTR_KPARAM_INFO 12 = Inr (f, kparam_blocks es)"
    using extract_entries [of 0 "section_bytes es" es False "[]"] assms(5-7)
    by (auto simp: RRTO_elf_extract_multiple_attributes_def)
  have "last_param ord (map param_of (kparam_blocks es)) = last_kparam ord es" for ord
    using last_param_blocks [OF assms(5)] by (simp add: last_param_def last_kparam_def)
  with cpu gpu describes_fold [of es "k_name k" "host_fun k"] show ?thesis
    unfolding describes_def by (intro exI [of _ "fold apply_entry es ?k"] exI [of _ f] exI [of _ "kparam_blocks es"]) auto
qed

theorem gpu_parameters_agree_witness:
  "\<exists>k' found attrs. get_parm_for_kernel kernel_env
      \<lparr>elf_opens = True, elf_sections = [\<lparr>sec_name = Some ''.nv.info.k'', sec_data = Some (section_bytes sample_entries)\<rparr>],
       elf_symtab = None\<rparr>
      \<lparr>k_name = ''k'', param_size = 9, param_num = 3, param_offsets = [], param_sizes = [], host_fun = None\<rparr> = Inr (0, k') \<and>
    RRTO_elf_extract_multiple_attributes kernel_env
      \<lparr>gs_name = ''.nv.info.k'', gs_size = 72, gs_filepos = 0, gs_contents = Some (section_bytes sample_entries)\<rparr>
      EIATTR_KPARAM_INFO 12 = Inr (found, attrs) \<and>
    (\<forall>ord < param_num k'. param_offsets k' ! ord = map_option fst (last_param ord (map param_of attrs)))"
proof -
  let ?sec = "\<lparr>sec_name = Some ''.nv.info.k'', sec_data = Some (section_bytes sample_entries)\<rparr>"
  let ?elf = "\<lparr>elf_opens = True, elf_sections = [?sec], elf_symtab = None\<rparr>"
  let ?k = "\<lparr>k_name = ''k'', param_size = 9, param_num = 3, param_offsets = [], param_sizes = [], host_fun = None\<rparr>"
  let ?g = "\<lparr>gs_name = ''.nv.info.k'', gs_size = 72, gs_filepos = 0, gs_contents = Some (section_bytes sample_entries)\<rparr>"
  have "heap_params kernel_env" "get_kernel_section_from_kernel_name kernel_env (k_name ?k) = Some ''.nv.info.k''"
    "get_section_by_name (elf_sections ?elf) ''.nv.info.k'' = Some ?sec" "sec_data ?sec = Some (section_bytes sample_entries)"
    "\<forall>e \<in> set sample_entries. entry_ok e" "gs_contents ?g = Some (section_bytes sample_entries)" "heap_ok kernel_env (gs_size ?g)"
    by (simp_all add: heap_params_def kernel_env_def glibc_def get_kernel_section_from_kernel_name_def
        asprintf_def sample_entries_def EIATTR_KPARAM_INFO_def)
  from gpu_parameters_agree [OF this] show ?thesis by blast
qed

section \<open>Global variables of different sizes\<close>

lemma read_globals_length:
  "read_globals E m offset gs t = Inr (Some m', t') \<Longrightarrow> length m' = length m"
proof (induction gs arbitrary: m offset t)
  case (Cons g gs)
  then show ?case
    by (auto simp: dbg_or_def bind_t_Inr_iff lift_t_Inr_iff ret_t_Inr_iff Fatbin.put_def split: if_splits)
qed (simp add: ret_t_def)

text \<open>A program with a small global variable before a pointer cannot be checkpointed: the checkpoint looks
  for the value of the pointer behind the end of the block it has read the variables into, because it moves on
  by the size of the next variable instead of the one it leaves.\<close>

lemma pointer_behind_small_variable:
  assumes "RRTO_elf_get_global_vars_info E G = Inr (Some [g1, g2])" and "gv_size g1 < 8" and "gv_size g2 = 8"
  shows "RRTO_cr_ckp_globals E G dir t \<noteq> Inr (True, t')"
proof
  assume run: "RRTO_cr_ckp_globals E G dir t = Inr (True, t')"
  have lt: "unat (gv_size g1) < 8" using assms(2) by (simp add: word_less_nat_alt)
  have u2: "unat (gv_size g2) = 8" using assms(3) by simp
  have n: "globals_size [g1, g2] = unat (gv_size g1) + 8"
    using lt by (simp add: globals_size_def u2 wrap64_def)
  obtain m t1 t2 where rd: "read_globals E (replicate (unat (gv_size g1) + 8) (fresh_byte E)) 0 [g1, g2] t = Inr (Some m, t1)"
      and loop: "ckp_globals_loop E dir m [] 0 [g1, g2] t2 = Inr (True, t')"
    using run
    by (auto simp: RRTO_cr_ckp_globals_def assms(1) n Let_def bind_t_Inr_iff lift_t_Inr_iff ret_t_Inr_iff
        simp del: read_globals.simps ckp_globals_loop.simps split: if_splits option.splits)
  have len: "length m = unat (gv_size g1) + 8"
    using read_globals_length [OF rd] by simp
  have "word64_at m 8 = Inl Out_Of_Bounds" using len lt by (simp add: word64_at_def rd_def)
  moreover have "gv_size g1 \<noteq> 8" using assms(2) by auto
  ultimately show False using loop by (simp add: assms(3) Let_def)
qed

definition two_globals :: gdb where
  "two_globals = \<lparr>objfiles = [\<lparr>of_bfd = True, of_elf_data = True, of_cuda = True, of_symtab = [], of_sections = [],
       of_msymbols = [\<lparr>ms_name = ''counter'', ms_type = mst_data, ms_address = 0x1000, ms_size = 4\<rparr>,
         \<lparr>ms_name = ''pointer'', ms_type = mst_bss, ms_address = 0x1008, ms_size = 8\<rparr>]\<rparr>],
     function_of_pc = (\<lambda>_. None), sp_regnum = 1, bfd_open = (\<lambda>_. No_Bfd)\<rparr>"

end
