(* ===== verification/Ib.thy ===== *)
theory Ib
  imports Oob Handlers
begin

unbundle bit_operations_syntax

text \<open>
  Transfers over InfiniBand (\<open>cpu/cpu-ib.c\<close>): the queue pair of a process, the exchange of its data with the peer
  over a socket, memory regions, and the work requests. The calls of the verbs library, of sockets and of CUDA
  are calls of the environment. An error that ends the process is the fault \<open>Exited\<close>; messages are left out.
  Loops that wait for the network take fuel.
\<close>

section \<open>State\<close>

record ib_qp_info =
  qi_qpn :: u32
  qi_lid :: u16
  qi_psn :: u16
  qi_key :: u32
  qi_addr :: u64

text \<open>What of a work request is not the same for all of them.\<close>

record send_wr =
  sw_addr :: u64
  sw_length :: u32
  sw_lkey :: u32
  sw_rkey :: u32
  sw_remote_addr :: u64

text \<open>
  The communication handle and the other global variables, with the memory of the process as far as it is
  registered or allocated here: the blocks with their addresses, and the number of blocks of work requests
  that have not been freed. A pointer the library gives is an address, zero for none; a memory region is its
  key.
\<close>

record 'd ib =
  world :: 'd
  blocks :: "(u64 \<times> u8 list) list"
  wr_blocks :: nat
  ib_ctx :: u64
  ib_pd :: u64
  ib_cq :: u64
  ib_qp :: u64
  ib_comp_chan :: u64
  phys_port_cnt :: u8
  port_state :: u32
  ib_lid :: u16
  used_port :: u8
  ib_wr :: "send_wr option"
  loc_recv_buf :: u64
  loc_qp :: ib_qp_info
  rem_recv_buf :: u64
  rem_qp :: ib_qp_info
  mrs :: "u32 option list"
  com_sock :: u32
  listen_sock :: u32
  ib_device_id :: u32
  ib_peer :: string
  ib_responder :: "u32 \<times> u16"

type_synonym ('d, 'a) ib_fn = "'d ib \<Rightarrow> ('a \<times> 'd ib) res"

definition bind_i :: "('d, 'a) ib_fn \<Rightarrow> ('a \<Rightarrow> ('d, 'b) ib_fn) \<Rightarrow> ('d, 'b) ib_fn" where
  "bind_i m k s = bind_r (m s) (\<lambda>(x, s). k x s)"

definition ret_i :: "'a \<Rightarrow> ('d, 'a) ib_fn" where
  "ret_i x s = Inr (x, s)"

definition fault_i :: "fault \<Rightarrow> ('d, 'a) ib_fn" where
  "fault_i f s = Inl f"

definition get_i :: "('d ib \<Rightarrow> 'a) \<Rightarrow> ('d, 'a) ib_fn" where
  "get_i f s = Inr (f s, s)"

definition modify_i :: "('d ib \<Rightarrow> 'd ib) \<Rightarrow> ('d, unit) ib_fn" where
  "modify_i f s = Inr ((), f s)"

definition verb :: "'d env \<Rightarrow> string \<Rightarrow> cval list \<Rightarrow> ('d, u32 \<times> cval list) ib_fn" where
  "verb E name args s = (case cuda E name args (world s) of (res, outs, w) \<Rightarrow> Inr ((res, outs), s\<lparr>world := w\<rparr>))"

text \<open>
  How results are checked: calls that return a pointer must not return NULL; for the others a negative result
  ends the process, or any but zero.
\<close>

definition created :: "'d env \<Rightarrow> string \<Rightarrow> cval list \<Rightarrow> ('d, cval list) ib_fn" where
  "created E name args = bind_i (verb E name args) (\<lambda>(_, outs). if out64 E outs 0 = 0 then fault_i Exited else ret_i outs)"

definition nonneg :: "'d env \<Rightarrow> string \<Rightarrow> cval list \<Rightarrow> ('d, u32 \<times> cval list) ib_fn" where
  "nonneg E name args =
     bind_i (verb E name args) (\<lambda>(res, outs). if sint res < 0 then fault_i Exited else ret_i (res, outs))"

definition zero_or_exit :: "'d env \<Rightarrow> string \<Rightarrow> cval list \<Rightarrow> ('d, cval list) ib_fn" where
  "zero_or_exit E name args = bind_i (verb E name args) (\<lambda>(res, outs). if res \<noteq> 0 then fault_i Exited else ret_i outs)"

section \<open>Memory\<close>

definition block_at :: "u64 \<Rightarrow> nat \<Rightarrow> (u64 \<times> u8 list) list \<Rightarrow> (u64 \<times> u8 list) option" where
  "block_at a n bs = List.find (\<lambda>(start, b). unat start \<le> unat a \<and> unat a + n \<le> unat start + length b) bs"

definition store_at :: "u64 \<Rightarrow> u8 list \<Rightarrow> ('d, unit) ib_fn" where
  "store_at a bs s =
     (case block_at a (length bs) (blocks s) of
        None \<Rightarrow> Inl Out_Of_Bounds
      | Some (start, b) \<Rightarrow>
          Inr ((), s\<lparr>blocks := map (\<lambda>(p, c). (p, if p = start then blit c (unat a - unat start) bs else c)) (blocks s)\<rparr>))"

definition free_at :: "u64 \<Rightarrow> ('d, unit) ib_fn" where
  "free_at a s =
     (if a = 0 then Inr ((), s)
      else if a \<in> fst ` set (blocks s) then Inr ((), s\<lparr>blocks := filter (\<lambda>(p, _). p \<noteq> a) (blocks s)\<rparr>)
      else Inl Bad_Free)"

definition PAGE_ROUND_UP :: "nat \<Rightarrow> nat" where
  "PAGE_ROUND_UP x = wrap64 (x + 0xfff) div 0x1000 * 0x1000"

section \<open>Memory regions\<close>

definition mr_lkey :: "int \<Rightarrow> ('d, u32) ib_fn" where
  "mr_lkey mr_id s =
     (if mr_id < 0 \<or> int (length (mrs s)) \<le> mr_id then Inl Out_Of_Bounds
      else case mrs s ! nat mr_id of None \<Rightarrow> Inl Null_Deref | Some k \<Rightarrow> Inr (k, s))"

definition reg_mr :: "'d env \<Rightarrow> u64 \<Rightarrow> nat \<Rightarrow> int \<Rightarrow> ('d, unit) ib_fn" where
  "reg_mr E p sz mr_id =
     bind_i (get_i ib_pd) (\<lambda>pd. bind_i (get_i (\<lambda>s. length (mrs s))) (\<lambda>n.
     if mr_id < 0 \<or> int n \<le> mr_id then fault_i Out_Of_Bounds
     else bind_i (created E ''ibv_reg_mr'' [Word64 pd, Word64 p, Word64 (of_nat sz)]) (\<lambda>outs.
          modify_i (\<lambda>s. s\<lparr>mrs := (mrs s)[nat mr_id := Some (out32 E outs 1)]\<rparr>))))"

definition ib_register_memreg :: "'d env \<Rightarrow> u64 option \<Rightarrow> nat \<Rightarrow> int \<Rightarrow> ('d, nat) ib_fn" where
  "ib_register_memreg E mem_address memsize mr_id =
     (case mem_address of None \<Rightarrow> ret_i 0 | Some p \<Rightarrow> bind_i (reg_mr E p memsize mr_id) (\<lambda>_. ret_i 0))"

text \<open>
  The value of the pointer is an argument and part of the result. An error of \<open>posix_memalign\<close> is positive and
  not noticed; the pointer is then what it was before.
\<close>

definition host_memreg :: "'d env \<Rightarrow> u64 \<Rightarrow> nat \<Rightarrow> ('d, u64) ib_fn" where
  "host_memreg E old real_size =
     bind_i (nonneg E ''posix_memalign'' [Word64 0x1000, Word64 (of_nat real_size)]) (\<lambda>(res, outs).
     let p = (if res = 0 then out64 E outs 0 else old) in
     bind_i (if res = 0 then modify_i (\<lambda>s. s\<lparr>blocks := (p, replicate real_size (fresh_byte E)) # blocks s\<rparr>) else ret_i ()) (\<lambda>_.
     bind_i (store_at p (replicate real_size 0)) (\<lambda>_. ret_i p)))"

definition gpu_memreg :: "'d env \<Rightarrow> nat \<Rightarrow> ('d, u64) ib_fn" where
  "gpu_memreg E real_size =
     bind_i (zero_or_exit E ''cudaMalloc'' [Word64 (of_nat real_size)]) (\<lambda>outs.
     bind_i (zero_or_exit E ''cudaMemset'' [Word64 (out64 E outs 0), Int32 0, Word64 (of_nat real_size)]) (\<lambda>_.
     ret_i (out64 E outs 0)))"

definition ib_allocate_memreg :: "'d env \<Rightarrow> u64 option \<Rightarrow> nat \<Rightarrow> int \<Rightarrow> bool \<Rightarrow> ('d, nat \<times> u64 option) ib_fn" where
  "ib_allocate_memreg E mem_address memsize mr_id gpumemreg =
     (let real_size = PAGE_ROUND_UP (wrap64 (memsize + 2)) in
      case mem_address of None \<Rightarrow> ret_i (0, None)
      | Some old \<Rightarrow>
          bind_i (if gpumemreg then gpu_memreg E real_size else host_memreg E old real_size) (\<lambda>p.
          bind_i (reg_mr E p real_size mr_id) (\<lambda>_. ret_i (0, Some p))))"

definition ib_free_memreg :: "'d env \<Rightarrow> u64 \<Rightarrow> int \<Rightarrow> bool \<Rightarrow> ('d, unit) ib_fn" where
  "ib_free_memreg E memreg mr_id gpumemreg =
     bind_i (get_i (\<lambda>s. length (mrs s))) (\<lambda>n.
     if mr_id < 0 \<or> int n \<le> mr_id then fault_i Out_Of_Bounds
     else bind_i (get_i (\<lambda>s. mrs s ! nat mr_id)) (\<lambda>mr.
          bind_i (nonneg E ''ibv_dereg_mr'' [Int32 (case mr of None \<Rightarrow> 0 | Some k \<Rightarrow> k)]) (\<lambda>_.
          if gpumemreg then bind_i (verb E ''cudaFree'' [Word64 memreg]) (\<lambda>_. ret_i ()) else free_at memreg)))"

section \<open>Sockets\<close>

text \<open>
  An address that is not understood leaves the bytes the structure has been filled with, which are not zero
  but the digit.
\<close>

definition set_responder_info :: "'d env \<Rightarrow> string \<Rightarrow> u16 \<Rightarrow> ('d, unit) ib_fn" where
  "set_responder_info E hostname port =
     bind_i (created E ''gethostbyname'' [Text hostname]) (\<lambda>outs.
     bind_i (verb E ''inet_pton'' [Text (out_text (drop 1 outs))]) (\<lambda>(res, outs).
     modify_i (\<lambda>s. s\<lparr>ib_responder := (if res = 1 then out32 E outs 0 else 0x30303030, port)\<rparr>)))"

fun connect_loop :: "nat \<Rightarrow> 'd env \<Rightarrow> cval list \<Rightarrow> ('d, unit) ib_fn" where
  "connect_loop 0 E args = fault_i No_Fuel"
| "connect_loop (Suc fuel) E args =
     bind_i (verb E ''connect'' args) (\<lambda>(res, _). if sint res < 0 then connect_loop fuel E args else ret_i ())"

definition connect_to_responder :: "nat \<Rightarrow> 'd env \<Rightarrow> ('d, int) ib_fn" where
  "connect_to_responder fuel E =
     bind_i (get_i ib_responder) (\<lambda>(addr, port).
     bind_i (verb E ''inet_ntop'' [Int32 addr]) (\<lambda>(_, outs).
     if out64 E outs 0 = 0 then ret_i (-1)
     else bind_i (verb E ''socket'' []) (\<lambda>(sock, _).
          bind_i (modify_i (\<lambda>s. s\<lparr>com_sock := sock\<rparr>)) (\<lambda>_.
          if sint sock < 0 then ret_i (-1)
          else bind_i (connect_loop fuel E [Int32 sock, Int32 addr, Int32 (ucast port)]) (\<lambda>_. ret_i 0)))))"

definition wait_for_requester :: "'d env \<Rightarrow> u16 \<Rightarrow> ('d, unit) ib_fn" where
  "wait_for_requester E listen_portno =
     bind_i (verb E ''socket'' []) (\<lambda>(sock, _).
     bind_i (modify_i (\<lambda>s. s\<lparr>listen_sock := sock\<rparr>)) (\<lambda>_.
     bind_i (verb E ''setsockopt'' [Int32 sock, Int32 1]) (\<lambda>_.
     bind_i (verb E ''bind'' [Int32 sock, Int32 (ucast listen_portno)]) (\<lambda>_.
     bind_i (verb E ''listen'' [Int32 sock, Int32 10]) (\<lambda>_.
     bind_i (verb E ''accept'' [Int32 sock]) (\<lambda>(com, outs).
     bind_i (modify_i (\<lambda>s. s\<lparr>com_sock := com\<rparr>)) (\<lambda>_.
     if sint com < 0 then fault_i Exited
     else bind_i (created E ''inet_ntop'' [Int32 (out32 E outs 0)]) (\<lambda>_. ret_i ()))))))))"

text \<open>The loops are those of \<open>cpu/oob.c\<close>: an error is added to the counter.\<close>

fun recv_all :: "nat \<Rightarrow> 'd env \<Rightarrow> u8 list \<Rightarrow> nat \<Rightarrow> nat \<Rightarrow> ('d, nat \<times> u8 list) ib_fn" where
  "recv_all 0 E buf n got = fault_i No_Fuel"
| "recv_all (Suc fuel) E buf n got =
     (if got < n
      then bind_i (get_i com_sock) (\<lambda>sock. bind_i (verb E ''recv'' [Int32 sock, Word64 (of_nat (n - got))]) (\<lambda>(res, outs).
           if sint res < 0 then recv_all fuel E buf n (wrap64 (got + size_max))
           else let bs = out_bytes E outs 0 (unat res) in
                if length buf < got + length bs then fault_i Out_Of_Bounds
                else recv_all fuel E (blit buf got bs) n (wrap64 (got + length bs))))
      else ret_i (got, buf))"

definition recv_data :: "nat \<Rightarrow> 'd env \<Rightarrow> u8 list \<Rightarrow> ('d, int \<times> u8 list) ib_fn" where
  "recv_data fuel E buf = bind_i (recv_all fuel E buf (length buf) 0) (\<lambda>(got, buf). ret_i (as_int got, buf))"

fun send_all :: "nat \<Rightarrow> 'd env \<Rightarrow> u8 list \<Rightarrow> nat \<Rightarrow> ('d, nat) ib_fn" where
  "send_all 0 E buf sent = fault_i No_Fuel"
| "send_all (Suc fuel) E buf sent =
     (if sent < length buf
      then bind_i (get_i com_sock) (\<lambda>sock. bind_i (verb E ''send'' [Int32 sock, Bytes (drop sent buf)]) (\<lambda>(res, _).
           send_all fuel E buf (if sint res < 0 then wrap64 (sent + size_max) else wrap64 (sent + unat res))))
      else ret_i sent)"

definition send_data :: "nat \<Rightarrow> 'd env \<Rightarrow> u8 list \<Rightarrow> ('d, int) ib_fn" where
  "send_data fuel E buf = bind_i (send_all fuel E buf 0) (\<lambda>sent. ret_i (as_int sent))"

definition close_sock :: "'d env \<Rightarrow> u32 \<Rightarrow> ('d, unit) ib_fn" where
  "close_sock E sock = bind_i (nonneg E ''close'' [Int32 sock]) (\<lambda>_. ret_i ())"

definition close_comm_channel :: "'d env \<Rightarrow> ('d, unit) ib_fn" where
  "close_comm_channel E =
     bind_i (get_i listen_sock) (\<lambda>listener.
     bind_i (if listener \<noteq> 0 then close_sock E listener else ret_i ()) (\<lambda>_.
     bind_i (get_i com_sock) (close_sock E)))"

section \<open>The queue pair\<close>

definition IB_MTU :: u32 where "IB_MTU = 4"
definition IB_SEND_WR_ID :: u64 where "IB_SEND_WR_ID = 0"
definition IB_RECV_WR_ID :: u64 where "IB_RECV_WR_ID = 1"
definition IB_WRITE_WR_ID :: u64 where "IB_WRITE_WR_ID = 2"
definition CQ_ENTRIES :: u32 where "CQ_ENTRIES = 1"
definition MAX_SEND_WR :: u32 where "MAX_SEND_WR = 8192"
definition TCP_PORT :: u16 where "TCP_PORT = 4211"

text \<open>The key that is sent to the peer is the local one.\<close>

definition ib_init_com_hndl :: "'d env \<Rightarrow> int \<Rightarrow> ('d, unit) ib_fn" where
  "ib_init_com_hndl E mr_id =
     bind_i (get_i ib_ctx) (\<lambda>ctx.
     bind_i (created E ''ibv_create_comp_channel'' [Word64 ctx]) (\<lambda>chan.
     bind_i (modify_i (\<lambda>s. s\<lparr>ib_comp_chan := out64 E chan 0\<rparr>)) (\<lambda>_.
     bind_i (created E ''ibv_create_cq'' [Word64 ctx, Int32 CQ_ENTRIES, Word64 (out64 E chan 0)]) (\<lambda>cq.
     bind_i (modify_i (\<lambda>s. s\<lparr>ib_cq := out64 E cq 0\<rparr>)) (\<lambda>_.
     bind_i (get_i ib_pd) (\<lambda>pd.
     bind_i (created E ''ibv_create_qp'' [Word64 pd, Word64 (out64 E cq 0), Int32 MAX_SEND_WR]) (\<lambda>qp.
     bind_i (modify_i (\<lambda>s. s\<lparr>ib_qp := out64 E qp 0\<rparr>)) (\<lambda>_.
     bind_i (get_i used_port) (\<lambda>port.
     bind_i (nonneg E ''ibv_modify_qp'' [Word64 (out64 E qp 0), Text ''INIT'', Int32 (ucast port)]) (\<lambda>_.
     bind_i (verb E ''lrand48'' []) (\<lambda>(_, rand).
     bind_i (mr_lkey mr_id) (\<lambda>key.
     modify_i (\<lambda>s. s\<lparr>loc_qp := \<lparr>qi_qpn = out32 E qp 1, qi_lid = ib_lid s, qi_psn = ucast (out64 E rand 0 AND 0xffffff),
       qi_key = key, qi_addr = loc_recv_buf s\<rparr>\<rparr>)))))))))))))"

definition ib_con_com_buf :: "'d env \<Rightarrow> ('d, unit) ib_fn" where
  "ib_con_com_buf E =
     bind_i (get_i (\<lambda>s. s)) (\<lambda>s.
     bind_i (zero_or_exit E ''ibv_modify_qp'' [Word64 (ib_qp s), Text ''RTR'', Int32 IB_MTU, Int32 (qi_qpn (rem_qp s)),
       Int32 (ucast (qi_psn (rem_qp s))), Int32 (ucast (qi_lid (rem_qp s))), Int32 (ucast (used_port s))]) (\<lambda>_.
     bind_i (zero_or_exit E ''ibv_modify_qp'' [Word64 (ib_qp s), Text ''RTS'', Int32 (ucast (qi_psn (loc_qp s)))]) (\<lambda>_. ret_i ())))"

text \<open>The structure as it is sent, with the bytes of its padding.\<close>

definition qp_bytes :: "ib_qp_info \<Rightarrow> u8 list" where
  "qp_bytes q = i32 (qi_qpn q) @ le_bytes 2 (unat (qi_lid q)) @ le_bytes 2 (unat (qi_psn q)) @ i32 (qi_key q) @
     replicate 4 0 @ i64 (qi_addr q)"

definition qp_of :: "u8 list \<Rightarrow> ib_qp_info" where
  "qp_of m = \<lparr>qi_qpn = of_nat (le_val (blk 0 4 m)), qi_lid = of_nat (le_val (blk 4 2 m)), qi_psn = of_nat (le_val (blk 6 2 m)),
     qi_key = of_nat (le_val (blk 8 4 m)), qi_addr = of_nat (le_val (blk 16 8 m))\<rparr>"

definition recv_qp :: "nat \<Rightarrow> 'd env \<Rightarrow> ('d, unit) ib_fn" where
  "recv_qp fuel E =
     bind_i (get_i rem_qp) (\<lambda>q. bind_i (recv_data fuel E (qp_bytes q)) (\<lambda>(_, m). modify_i (\<lambda>s. s\<lparr>rem_qp := qp_of m\<rparr>)))"

definition send_qp :: "nat \<Rightarrow> 'd env \<Rightarrow> ('d, unit) ib_fn" where
  "send_qp fuel E = bind_i (get_i loc_qp) (\<lambda>q. bind_i (send_data fuel E (qp_bytes q)) (\<lambda>_. ret_i ()))"

definition finish_connect :: "'d env \<Rightarrow> ('d, int) ib_fn" where
  "finish_connect E =
     bind_i (close_comm_channel E) (\<lambda>_.
     bind_i (modify_i (\<lambda>s. s\<lparr>rem_recv_buf := qi_addr (rem_qp s)\<rparr>)) (\<lambda>_.
     bind_i (ib_con_com_buf E) (\<lambda>_. ret_i 0)))"

definition ib_connect_responder :: "nat \<Rightarrow> 'd env \<Rightarrow> u64 \<Rightarrow> int \<Rightarrow> ('d, int) ib_fn" where
  "ib_connect_responder fuel E memreg mr_id =
     bind_i (modify_i (\<lambda>s. s\<lparr>loc_recv_buf := memreg\<rparr>)) (\<lambda>_.
     bind_i (ib_init_com_hndl E mr_id) (\<lambda>_.
     bind_i (wait_for_requester E TCP_PORT) (\<lambda>_.
     bind_i (recv_qp fuel E) (\<lambda>_.
     bind_i (send_qp fuel E) (\<lambda>_.
     finish_connect E)))))"

definition ib_connect_requester :: "nat \<Rightarrow> 'd env \<Rightarrow> u64 \<Rightarrow> int \<Rightarrow> string \<Rightarrow> ('d, int) ib_fn" where
  "ib_connect_requester fuel E memreg mr_id responder_address =
     bind_i (modify_i (\<lambda>s. s\<lparr>loc_recv_buf := memreg\<rparr>)) (\<lambda>_.
     bind_i (ib_init_com_hndl E mr_id) (\<lambda>_.
     bind_i (set_responder_info E responder_address TCP_PORT) (\<lambda>_.
     bind_i (connect_to_responder fuel E) (\<lambda>r.
     if r < 0 then fault_i Exited
     else bind_i (send_qp fuel E) (\<lambda>_.
          bind_i (recv_qp fuel E) (\<lambda>_.
          finish_connect E))))))"

section \<open>Work requests\<close>

text \<open>The loop that asks the completion queue until it has an entry; what its status is, is only written out.\<close>

fun poll_cq :: "nat \<Rightarrow> 'd env \<Rightarrow> ('d, unit) ib_fn" where
  "poll_cq 0 E = fault_i No_Fuel"
| "poll_cq (Suc fuel) E =
     bind_i (get_i ib_cq) (\<lambda>cq. bind_i (nonneg E ''ibv_poll_cq'' [Word64 cq, Int32 1]) (\<lambda>(ne, _).
       if sint ne < 1 then poll_cq fuel E else ret_i ()))"

definition ib_barrier :: "nat \<Rightarrow> 'd env \<Rightarrow> int \<Rightarrow> bool \<Rightarrow> ('d, unit) ib_fn" where
  "ib_barrier fuel E mr_id responder =
     bind_i (mr_lkey mr_id) (\<lambda>lkey. bind_i (get_i ib_qp) (\<lambda>qp.
     bind_i (if responder then nonneg E ''ibv_post_recv'' [Word64 qp, Word64 IB_RECV_WR_ID, Word64 0, Int32 0, Int32 lkey]
             else nonneg E ''ibv_post_send'' [Word64 qp, Word64 IB_SEND_WR_ID, Word64 0, Int32 0, Int32 lkey]) (\<lambda>_.
     poll_cq fuel E)))"

definition prepare_send_list_elem :: "'d env \<Rightarrow> ('d, unit) ib_fn" where
  "prepare_send_list_elem E =
     (if \<not> heap_ok E 128 \<or> \<not> heap_ok E 16 then fault_i Null_Deref else modify_i (\<lambda>s. s\<lparr>wr_blocks := wr_blocks s + 2\<rparr>))"

text \<open>The list has one element at most.\<close>

definition cleanup_send_list :: "('d, unit) ib_fn" where
  "cleanup_send_list = modify_i (\<lambda>s. case ib_wr s of None \<Rightarrow> s | Some _ \<Rightarrow> s\<lparr>wr_blocks := wr_blocks s - 2\<rparr>)"

text \<open>A mark is put behind the data, and sent with them.\<close>

definition ib_prepare_run :: "'d env \<Rightarrow> u64 \<Rightarrow> u32 \<Rightarrow> int \<Rightarrow> bool \<Rightarrow> ('d, unit) ib_fn" where
  "ib_prepare_run E memreg nbytes mr_id gpumemreg =
     bind_i (prepare_send_list_elem E) (\<lambda>_.
     bind_i (if gpumemreg then bind_i (verb E ''cudaMemcpy'' [Word64 (memreg + ucast nbytes), Bytes [1]]) (\<lambda>_. ret_i ())
             else store_at (memreg + ucast nbytes) [1]) (\<lambda>_.
     bind_i (mr_lkey mr_id) (\<lambda>lkey.
     modify_i (\<lambda>s. s\<lparr>ib_wr := Some \<lparr>sw_addr = memreg, sw_length = nbytes + 1, sw_lkey = lkey, sw_rkey = qi_key (rem_qp s),
       sw_remote_addr = rem_recv_buf s\<rparr>\<rparr>))))"

definition wr_args :: "send_wr option \<Rightarrow> cval list" where
  "wr_args w = (case w of None \<Rightarrow> [Word64 0]
     | Some w \<Rightarrow> [Word64 IB_WRITE_WR_ID, Word64 (sw_addr w), Int32 (sw_length w), Int32 (sw_lkey w), Int32 (sw_rkey w),
         Word64 (sw_remote_addr w)])"

text \<open>
  The results of posting are the value of \<open>errno\<close> and whether the request remains. What remains takes the place
  of the list, so that nothing is left to be freed in the end.
\<close>

definition ENOMEM :: u32 where "ENOMEM = 12"

fun msg_send_loop :: "nat \<Rightarrow> 'd env \<Rightarrow> ('d, unit) ib_fn" where
  "msg_send_loop 0 E = fault_i No_Fuel"
| "msg_send_loop (Suc fuel) E =
     bind_i (get_i (\<lambda>s. s)) (\<lambda>s.
     bind_i (verb E ''ibv_post_send'' (Word64 (ib_qp s) # wr_args (ib_wr s))) (\<lambda>(res, outs).
     if res \<noteq> 0 \<and> out32 E outs 0 \<noteq> ENOMEM then fault_i Exited
     else bind_i (poll_cq fuel E) (\<lambda>_.
          let remains = (res \<noteq> 0 \<and> out32 E outs 1 \<noteq> 0) in
          bind_i (modify_i (\<lambda>s. s\<lparr>ib_wr := (if remains then ib_wr s else None)\<rparr>)) (\<lambda>_.
          if remains \<and> ib_wr s \<noteq> None then msg_send_loop fuel E else ret_i ()))))"

definition ib_msg_send :: "nat \<Rightarrow> 'd env \<Rightarrow> ('d, unit) ib_fn" where
  "ib_msg_send fuel E = bind_i (msg_send_loop fuel E) (\<lambda>_. cleanup_send_list)"

text \<open>The four bytes that are received into are not in the region whose key is given.\<close>

definition ib_msg_recv :: "'d env \<Rightarrow> int \<Rightarrow> ('d, unit) ib_fn" where
  "ib_msg_recv E mr_id =
     bind_i (get_i (\<lambda>s. s)) (\<lambda>s.
     bind_i (nonneg E ''ibv_req_notify_cq'' [Word64 (ib_cq s), Int32 1]) (\<lambda>_.
     bind_i (mr_lkey mr_id) (\<lambda>lkey.
     bind_i (nonneg E ''ibv_post_recv'' [Word64 (ib_qp s), Word64 0, Int32 4, Int32 lkey]) (\<lambda>_.
     bind_i (nonneg E ''ibv_get_cq_event'' [Word64 (ib_comp_chan s)]) (\<lambda>_.
     bind_i (verb E ''ibv_ack_cq_events'' [Word64 (ib_cq s), Int32 1]) (\<lambda>_. ret_i ()))))))"

text \<open>The length is cut to 32 bits. The second function has no return statement.\<close>

definition ib_responder_recv :: "nat \<Rightarrow> 'd env \<Rightarrow> u64 \<Rightarrow> int \<Rightarrow> u64 \<Rightarrow> bool \<Rightarrow> ('d, int) ib_fn" where
  "ib_responder_recv fuel E memptr mr_id nbytes togpumem =
     bind_i (ib_connect_responder fuel E memptr mr_id) (\<lambda>_.
     bind_i (ib_prepare_run E memptr (ucast nbytes) mr_id togpumem) (\<lambda>_.
     bind_i (ib_msg_recv E mr_id) (\<lambda>_. ret_i 0)))"

definition ib_requester_send :: "nat \<Rightarrow> 'd env \<Rightarrow> u64 \<Rightarrow> int \<Rightarrow> u64 \<Rightarrow> bool \<Rightarrow> ('d, unit) ib_fn" where
  "ib_requester_send fuel E memptr mr_id nbytes fromgpumem =
     bind_i (get_i ib_peer) (\<lambda>p. bind_i (ib_connect_requester fuel E memptr mr_id p) (\<lambda>_.
     bind_i (ib_prepare_run E memptr (ucast nbytes) mr_id fromgpumem) (\<lambda>_.
     ib_msg_send fuel E)))"

section \<open>Start and end\<close>

text \<open>
  The ports of a device are asked from 0 on, although they are numbered from 1. A query that fails leaves what
  the one before has found, and its positive result is taken for success.
\<close>

definition IBV_PORT_ACTIVE :: u32 where "IBV_PORT_ACTIVE = 4"

fun find_port :: "'d env \<Rightarrow> nat \<Rightarrow> nat \<Rightarrow> ('d, bool) ib_fn" where
  "find_port E port 0 = ret_i False"
| "find_port E port (Suc n) =
     bind_i (get_i ib_ctx) (\<lambda>ctx. bind_i (nonneg E ''ibv_query_port'' [Word64 ctx, Int32 (of_nat port)]) (\<lambda>(res, outs).
     bind_i (if res = 0 then modify_i (\<lambda>s. s\<lparr>port_state := out32 E outs 0, ib_lid := ucast (out32 E outs 1)\<rparr>)
             else ret_i ()) (\<lambda>_.
     bind_i (get_i port_state) (\<lambda>st.
     if st = IBV_PORT_ACTIVE
     then bind_i (modify_i (\<lambda>s. s\<lparr>used_port := of_nat port\<rparr>)) (\<lambda>_. ret_i True)
     else find_port E (port + 1) n))))"

fun find_device :: "'d env \<Rightarrow> nat \<Rightarrow> nat \<Rightarrow> ('d, bool) ib_fn" where
  "find_device E dev 0 = ret_i False"
| "find_device E dev (Suc n) =
     bind_i (created E ''ibv_open_device'' [Word64 (of_nat dev)]) (\<lambda>ctx.
     bind_i (modify_i (\<lambda>s. s\<lparr>ib_ctx := out64 E ctx 0\<rparr>)) (\<lambda>_.
     bind_i (nonneg E ''ibv_query_device'' [Word64 (out64 E ctx 0)]) (\<lambda>(res, attr).
     bind_i (if res = 0 then modify_i (\<lambda>s. s\<lparr>phys_port_cnt := ucast (out32 E attr 0)\<rparr>) else ret_i ()) (\<lambda>_.
     bind_i (get_i phys_port_cnt) (\<lambda>ports.
     bind_i (find_port E 0 (unat ports + 1)) (\<lambda>found.
     if found then ret_i True
     else bind_i (nonneg E ''ibv_close_device'' [Word64 (out64 E ctx 0)]) (\<lambda>_. find_device E (dev + 1) n)))))))"

definition no_qp :: ib_qp_info where
  "no_qp = \<lparr>qi_qpn = 0, qi_lid = 0, qi_psn = 0, qi_key = 0, qi_addr = 0\<rparr>"

definition ib_init :: "'d env \<Rightarrow> u32 \<Rightarrow> string \<Rightarrow> ('d, int) ib_fn" where
  "ib_init E device_id peer_name =
     (if 256 \<le> length peer_name then fault_i Out_Of_Bounds
      else bind_i (modify_i (\<lambda>s. s\<lparr>ib_device_id := device_id, ib_peer := peer_name, ib_ctx := 0, ib_pd := 0, ib_cq := 0, ib_qp := 0,
             ib_comp_chan := 0, phys_port_cnt := 0, port_state := 0, ib_lid := 0, used_port := 0, ib_wr := None, loc_recv_buf := 0, loc_qp := no_qp,
             rem_recv_buf := 0, rem_qp := no_qp\<rparr>)) (\<lambda>_.
      bind_i (created E ''ibv_get_device_list'' []) (\<lambda>outs.
      let num_devices = out32 E outs 1; cur_dev = unat (scast device_id :: u64) in
      if num_devices = 0 then fault_i Exited
      else bind_i (find_device E cur_dev (unat (scast num_devices :: u64) - cur_dev)) (\<lambda>found.
      if \<not> found then fault_i Exited
      else bind_i (get_i ib_ctx) (\<lambda>ctx.
      bind_i (created E ''ibv_alloc_pd'' [Word64 ctx]) (\<lambda>pd.
      bind_i (modify_i (\<lambda>s. s\<lparr>ib_pd := out64 E pd 0\<rparr>)) (\<lambda>_. ret_i 0)))))))"

definition ib_cleanup :: "'d env \<Rightarrow> ('d, unit) ib_fn" where
  "ib_cleanup E =
     bind_i (get_i (\<lambda>s. s)) (\<lambda>s.
     bind_i (nonneg E ''ibv_destroy_qp'' [Word64 (ib_qp s)]) (\<lambda>_.
     bind_i (nonneg E ''ibv_destroy_cq'' [Word64 (ib_cq s)]) (\<lambda>_.
     bind_i (nonneg E ''ibv_destroy_comp_channel'' [Word64 (ib_comp_chan s)]) (\<lambda>_. ret_i ()))))"

definition ib_final_cleanup :: "'d env \<Rightarrow> ('d, unit) ib_fn" where
  "ib_final_cleanup E =
     bind_i (get_i (\<lambda>s. s)) (\<lambda>s.
     bind_i (nonneg E ''ibv_dealloc_pd'' [Word64 (ib_pd s)]) (\<lambda>_.
     bind_i (nonneg E ''ibv_close_device'' [Word64 (ib_ctx s)]) (\<lambda>_. ret_i ())))"

end
