(* ===== verification/IbProps.thy ===== *)
theory IbProps
  imports Ib
begin

text \<open>
  Properties of the transfers over InfiniBand: the data of a queue pair survive the exchange, a failed exchange is
  not noticed, and a buffer made by \<open>ib_allocate_memreg\<close> has room for the mark behind the data.
\<close>

section \<open>Rules for calls that succeed\<close>

definition runs :: "('d, 'a) ib_fn \<Rightarrow> 'd ib \<Rightarrow> ('a \<Rightarrow> 'd ib \<Rightarrow> bool) \<Rightarrow> bool" where
  "runs m s P \<longleftrightarrow> (\<exists>x s'. m s = Inr (x, s') \<and> P x s')"

lemma runs_bind: "runs m s (\<lambda>x s'. runs (k x) s' P) \<Longrightarrow> runs (bind_i m k) s P"
  by (auto simp: runs_def bind_i_def)

lemma runs_ret: "P x s \<Longrightarrow> runs (ret_i x) s P"
  by (simp add: runs_def ret_i_def)

lemma runs_get: "P (f s) s \<Longrightarrow> runs (get_i f) s P"
  by (simp add: runs_def get_i_def)

lemma runs_modify: "P () (f s) \<Longrightarrow> runs (modify_i f) s P"
  by (simp add: runs_def modify_i_def)

lemma runs_verb:
  "(\<And>res outs w. cuda E name args (world s) = (res, outs, w) \<Longrightarrow> P (res, outs) (s\<lparr>world := w\<rparr>)) \<Longrightarrow>
   runs (verb E name args) s P"
  by (cases "cuda E name args (world s)") (simp add: runs_def verb_def)

lemma runs_lkey: "0 \<le> i \<Longrightarrow> i < int (length (mrs s)) \<Longrightarrow> mrs s ! nat i = Some k \<Longrightarrow> P k s \<Longrightarrow> runs (mr_lkey i) s P"
  by (simp add: runs_def mr_lkey_def)

text \<open>
  What connecting relies on. \<open>pending w\<close> are the bytes the peer has sent or will send on the connection and that have
  not been received: receiving takes some of them, at least one and at most as many as asked for; every other call
  leaves them. Sending accepts some of the bytes, at least one. A call that makes an object gives a pointer that is not
  NULL, one that makes a socket a descriptor that is not negative, and changing the queue pair or closing a socket
  succeeds. Of other calls nothing is asked.
\<close>

definition ib_calls :: "'d env \<Rightarrow> ('d \<Rightarrow> u8 list) \<Rightarrow> bool" where
  "ib_calls E pending \<longleftrightarrow> (\<forall>name args w. case cuda E name args w of (res, outs, w') \<Rightarrow>
     (name \<noteq> ''recv'' \<longrightarrow> pending w' = pending w) \<and>
     (name \<in> {''ibv_create_comp_channel'', ''ibv_create_cq'', ''ibv_create_qp'', ''gethostbyname'', ''inet_ntop''} \<longrightarrow>
        out64 E outs 0 \<noteq> 0) \<and>
     (name \<in> {''socket'', ''accept'', ''connect''} \<longrightarrow> 0 \<le> sint res) \<and>
     (name \<in> {''ibv_modify_qp'', ''close''} \<longrightarrow> res = 0) \<and>
     (\<forall>sock bs. name = ''send'' \<and> args = [Int32 sock, Bytes bs] \<and> bs \<noteq> [] \<longrightarrow>
        (\<exists>k. 0 < k \<and> k \<le> length bs \<and> res = of_nat k)))"

definition ib_delivers :: "'d env \<Rightarrow> ('d \<Rightarrow> u8 list) \<Rightarrow> bool" where
  "ib_delivers E pending \<longleftrightarrow> (\<forall>sock n w. 0 < n \<and> pending w \<noteq> [] \<longrightarrow>
     (\<exists>k w'. 0 < k \<and> k \<le> unat n \<and> k \<le> length (pending w) \<and>
        cuda E ''recv'' [Int32 sock, Word64 n] w = (of_nat k, [Bytes (take k (pending w))], w') \<and>
        pending w' = drop k (pending w)))"

lemma ib_calls_call:
  assumes "ib_calls E pending" "cuda E name args w = (res, outs, w')"
  shows "name \<noteq> ''recv'' \<Longrightarrow> pending w' = pending w"
    and "name \<in> {''ibv_create_comp_channel'', ''ibv_create_cq'', ''ibv_create_qp'', ''gethostbyname'', ''inet_ntop''} \<Longrightarrow>
        out64 E outs 0 \<noteq> 0"
    and "name \<in> {''socket'', ''accept'', ''connect''} \<Longrightarrow> 0 \<le> sint res"
    and "name \<in> {''ibv_modify_qp'', ''close''} \<Longrightarrow> res = 0"
    and "name = ''send'' \<Longrightarrow> args = [Int32 sock, Bytes bs] \<Longrightarrow> bs \<noteq> [] \<Longrightarrow> \<exists>k. 0 < k \<and> k \<le> length bs \<and> res = of_nat k"
  using spec [OF spec [OF spec [OF assms(1) [unfolded ib_calls_def], of name], of args], of w] assms(2) by auto

lemma runs_verb_any:
  assumes "ib_calls E pd" "name \<noteq> ''recv''"
    and "\<And>res outs w. pd w = pd (world s) \<Longrightarrow> P (res, outs) (s\<lparr>world := w\<rparr>)"
  shows "runs (verb E name args) s P"
  using ib_calls_call(1) [OF assms(1) _ assms(2)] assms(3) by (intro runs_verb) blast

lemma runs_verb_made:
  assumes "ib_calls E pd" "name \<in> {''ibv_create_comp_channel'', ''ibv_create_cq'', ''ibv_create_qp'', ''gethostbyname'', ''inet_ntop''}"
    and "\<And>res outs w. out64 E outs 0 \<noteq> 0 \<Longrightarrow> pd w = pd (world s) \<Longrightarrow> P (res, outs) (s\<lparr>world := w\<rparr>)"
  shows "runs (verb E name args) s P"
proof (rule runs_verb)
  fix res outs w assume c: "cuda E name args (world s) = (res, outs, w)"
  have "name \<noteq> ''recv''" using assms(2) by auto
  then show "P (res, outs) (s\<lparr>world := w\<rparr>)"
    using assms(3) ib_calls_call(1,2) [OF assms(1) c] assms(2) by blast
qed

lemma runs_verb_descriptor:
  assumes "ib_calls E pd" "name \<in> {''socket'', ''accept'', ''connect''}"
    and "\<And>res outs w. 0 \<le> sint res \<Longrightarrow> pd w = pd (world s) \<Longrightarrow> P (res, outs) (s\<lparr>world := w\<rparr>)"
  shows "runs (verb E name args) s P"
proof (rule runs_verb)
  fix res outs w assume c: "cuda E name args (world s) = (res, outs, w)"
  have "name \<noteq> ''recv''" using assms(2) by auto
  then show "P (res, outs) (s\<lparr>world := w\<rparr>)"
    using assms(3) ib_calls_call(1,3) [OF assms(1) c] assms(2) by blast
qed

lemma runs_verb_zero:
  assumes "ib_calls E pd" "name \<in> {''ibv_modify_qp'', ''close''}"
    and "\<And>outs w. pd w = pd (world s) \<Longrightarrow> P (0, outs) (s\<lparr>world := w\<rparr>)"
  shows "runs (verb E name args) s P"
proof (rule runs_verb)
  fix res outs w assume c: "cuda E name args (world s) = (res, outs, w)"
  have "name \<noteq> ''recv''" using assms(2) by auto
  then show "P (res, outs) (s\<lparr>world := w\<rparr>)"
    using assms(3) ib_calls_call(1,4) [OF assms(1) c] assms(2) by blast
qed

lemma runs_created:
  assumes "ib_calls E pd" "name \<in> {''ibv_create_comp_channel'', ''ibv_create_cq'', ''ibv_create_qp'', ''gethostbyname'', ''inet_ntop''}"
    and "\<And>outs w. out64 E outs 0 \<noteq> 0 \<Longrightarrow> pd w = pd (world s) \<Longrightarrow> P outs (s\<lparr>world := w\<rparr>)"
  shows "runs (created E name args) s P"
  unfolding created_def
  by (rule runs_bind, rule runs_verb_made [OF assms(1,2)]) (simp add: runs_ret assms(3))

lemma runs_nonneg:
  assumes "ib_calls E pd" "name \<in> {''ibv_modify_qp'', ''close''}"
    and "\<And>outs w. pd w = pd (world s) \<Longrightarrow> P (0, outs) (s\<lparr>world := w\<rparr>)"
  shows "runs (nonneg E name args) s P"
  unfolding nonneg_def
  by (rule runs_bind, rule runs_verb_zero [OF assms(1,2)]) (simp add: runs_ret assms(3))

lemma runs_zero_or_exit:
  assumes "ib_calls E pd" "name \<in> {''ibv_modify_qp'', ''close''}"
    and "\<And>outs w. pd w = pd (world s) \<Longrightarrow> P outs (s\<lparr>world := w\<rparr>)"
  shows "runs (zero_or_exit E name args) s P"
  unfolding zero_or_exit_def
  by (rule runs_bind, rule runs_verb_zero [OF assms(1,2)]) (simp add: runs_ret assms(3))

lemma sint_of_nat_small: "k < 2 ^ 31 \<Longrightarrow> sint (of_nat k :: u32) = int k"
  by (simp add: signed_of_nat signed_take_bit_int_eq_self)

text \<open>Sending and receiving need one step for each piece, and there are at most as many pieces as bytes.\<close>

lemma send_all_runs:
  assumes E: "ib_calls E pd" and b: "length buf < 2 ^ 31"
  shows "sent \<le> length buf \<Longrightarrow> length buf - sent < fuel \<Longrightarrow>
    \<exists>w. send_all fuel E buf sent s = Inr (length buf, s\<lparr>world := w\<rparr>) \<and> pd w = pd (world s)"
proof (induction fuel arbitrary: sent s)
  case (Suc fuel)
  show ?case
  proof (cases "sent < length buf")
    case True
    obtain res outs w where c: "cuda E ''send'' [Int32 (com_sock s), Bytes (drop sent buf)] (world s) = (res, outs, w)"
      by (cases "cuda E ''send'' [Int32 (com_sock s), Bytes (drop sent buf)] (world s)")
    obtain k where k: "0 < k" "k \<le> length buf - sent" "res = of_nat k"
      using ib_calls_call(5) [OF E c refl refl] True by auto
    have "k < 2 ^ 31" using k(2) b by linarith
    then have r: "unat res = k" "\<not> sint res < 0"
      using k(3) by (simp_all add: unat_of_nat take_bit_nat_eq_self sint_of_nat_small)
    have "wrap64 (sent + k) = sent + k" using k(2) b True by (intro wrap64_id) simp
    moreover have "\<exists>w'. send_all fuel E buf (sent + k) (s\<lparr>world := w\<rparr>) = Inr (length buf, s\<lparr>world := w'\<rparr>) \<and> pd w' = pd w"
      using Suc.IH [of "sent + k" "s\<lparr>world := w\<rparr>"] k True Suc.prems(2) by auto
    ultimately show ?thesis
      using True c r ib_calls_call(1) [OF E c] by (auto simp: bind_i_def get_i_def verb_def)
  qed (use Suc.prems in \<open>auto simp: ret_i_def intro: exI [of _ "world s"]\<close>)
qed simp

lemma runs_send_data:
  assumes "ib_calls E pd" "length buf = 24" "24 < fuel" "\<And>w. pd w = pd (world s) \<Longrightarrow> P 24 (s\<lparr>world := w\<rparr>)"
  shows "runs (send_data fuel E buf) s P"
  using send_all_runs [OF assms(1), of buf 0 fuel s] assms(2-4)
  by (auto simp: runs_def send_data_def bind_i_def ret_i_def as_int_def)

lemma recv_all_runs:
  assumes E: "ib_delivers E pd" and b: "length buf = n" "n < 2 ^ 31"
  shows "length buf = n \<Longrightarrow> got \<le> n \<Longrightarrow> n - got < fuel \<Longrightarrow> n - got \<le> length (pd (world s)) \<Longrightarrow>
    \<exists>w. recv_all fuel E buf n got s =
        Inr ((n, take got buf @ take (n - got) (pd (world s))), s\<lparr>world := w\<rparr>) \<and>
      pd w = drop (n - got) (pd (world s))"
proof (induction fuel arbitrary: got s buf)
  case (Suc fuel)
  show ?case
  proof (cases "got < n")
    case True
    let ?n = "of_nat (n - got) :: u64" and ?p = "pd (world s)"
    have u: "unat ?n = n - got" using b(2) by (simp add: unat_of_nat take_bit_nat_eq_self)
    then have "0 < ?n" using True by (metis unat_gt_0 word_gt_0 zero_less_diff)
    moreover have "?p \<noteq> []" using True Suc.prems(4) by auto
    ultimately obtain k w where k: "0 < k" "k \<le> n - got" "k \<le> length ?p"
      and c: "cuda E ''recv'' [Int32 (com_sock s), Word64 ?n] (world s) = (of_nat k, [Bytes (take k ?p)], w)"
      and w: "pd w = drop k ?p"
      using E [unfolded ib_delivers_def] u by metis
    have "k < 2 ^ 31" using k(2) b by linarith
    then have r: "unat (of_nat k :: u32) = k" "\<not> sint (of_nat k :: u32) < 0"
      by (simp_all add: unat_of_nat take_bit_nat_eq_self sint_of_nat_small)
    have o: "out_bytes E [Bytes (take k ?p)] 0 k = take k ?p"
      using k(3) by (simp add: out_bytes_def)
    have wr: "wrap64 (got + k) = got + k" using k(2) b True by (intro wrap64_id) simp
    let ?b = "blit buf got (take k ?p)"
    have lb: "length ?b = n" using k Suc.prems(1) by simp
    have "take (got + k) ?b = take got buf @ take k ?p"
      using k Suc.prems(1,2) by (simp add: blit_def)
    then have res: "take (got + k) ?b @ take (n - (got + k)) (drop k ?p) = take got buf @ take (n - got) ?p"
      using k(2) by (simp add: take_add [symmetric] flip: append_assoc) (metis append_assoc diff_diff_left le_add_diff_inverse take_add)
    obtain w' where "recv_all fuel E ?b n (got + k) (s\<lparr>world := w\<rparr>) =
        Inr ((n, take got buf @ take (n - got) ?p), s\<lparr>world := w'\<rparr>)" "pd w' = drop (n - got) ?p"
    proof -
      have "got + k \<le> n" "n - (got + k) < fuel" "n - (got + k) \<le> length (pd (world (s\<lparr>world := w\<rparr>)))"
        using k Suc.prems(3,4) True w by auto
      from Suc.IH [OF lb this] obtain w' where
        "recv_all fuel E ?b n (got + k) (s\<lparr>world := w\<rparr>) =
          Inr ((n, take (got + k) ?b @ take (n - (got + k)) (drop k ?p)), s\<lparr>world := w'\<rparr>)"
        "pd w' = drop (n - (got + k)) (drop k ?p)"
        using w by auto
      moreover have "drop (n - (got + k)) (drop k ?p) = drop (n - got) ?p" using k(2) True by simp
      ultimately show thesis using that res by simp
    qed
    moreover have "recv_all (Suc fuel) E buf n got s = recv_all fuel E ?b n (got + k) (s\<lparr>world := w\<rparr>)"
    proof -
      have "length (take k ?p) = k" "\<not> n < got + k" using k True by simp_all
      then show ?thesis
        using True c r o wr Suc.prems(1) by (simp add: bind_i_def get_i_def verb_def Let_def)
    qed
    ultimately show ?thesis by (intro exI [of _ w']) simp
  qed (use Suc.prems in \<open>auto simp: ret_i_def intro: exI [of _ "world s"]\<close>)
qed simp

lemma runs_recv_data:
  assumes "ib_delivers E pd" "length buf = 24" "24 < fuel" "pd (world s) = rb @ rest" "length rb = 24"
    and "\<And>w. pd w = rest \<Longrightarrow> P (24, rb) (s\<lparr>world := w\<rparr>)"
  shows "runs (recv_data fuel E buf) s P"
proof -
  have "24 - 0 < fuel" "24 - 0 \<le> length (pd (world s))" using assms(3-5) by simp_all
  with recv_all_runs [OF assms(1,2) _ assms(2), of 0 fuel s]
  have "\<exists>w. recv_all fuel E buf 24 0 s = Inr ((24, take 0 buf @ take (24 - 0) (pd (world s))), s\<lparr>world := w\<rparr>) \<and>
      pd w = drop (24 - 0) (pd (world s))"
    by (simp only: zero_le) simp
  then obtain w where
    w: "recv_all fuel E buf 24 0 s = Inr ((24, take 24 (pd (world s))), s\<lparr>world := w\<rparr>)" "pd w = drop 24 (pd (world s))"
    by (elim exE conjE) simp
  have "take 24 (pd (world s)) = rb" "drop 24 (pd (world s)) = rest" using assms(4,5) by simp_all
  with w assms(2,6) show ?thesis by (simp add: runs_def recv_data_def bind_i_def ret_i_def as_int_def)
qed

text \<open>An error is added to the counter of received bytes, which ends the loop.\<close>

lemma runs_recv_error:
  assumes "\<forall>args w. sint (fst (cuda E ''recv'' args w)) < 0" "length buf = 24" "1 < fuel"
    and "\<And>x w. P (x, buf) (s\<lparr>world := w\<rparr>)"
  shows "runs (recv_data fuel E buf) s P"
proof -
  obtain f where f: "fuel = Suc (Suc f)" by (rule that [of "fuel - 2"]) (use assms(3) in simp)
  obtain res outs w where c: "cuda E ''recv'' [Int32 (com_sock s), Word64 24] (world s) = (res, outs, w)"
    by (cases "cuda E ''recv'' [Int32 (com_sock s), Word64 24] (world s)")
  have "sint res < 0" using assms(1) [rule_format, of "[Int32 (com_sock s), Word64 24]" "world s"] c by simp
  then have "recv_all fuel E buf 24 0 s = Inr ((size_max, buf), s\<lparr>world := w\<rparr>)"
    using c assms(2) f by (simp add: bind_i_def get_i_def verb_def ret_i_def wrap64_def size_max_def)
  then show ?thesis using assms(2,4) by (simp add: runs_def recv_data_def bind_i_def ret_i_def)
qed

section \<open>Connecting\<close>

lemma length_qp_bytes [simp]: "length (qp_bytes q) = 24"
  by (simp add: qp_bytes_def i64_def)

lemma qp_round_trip: "qp_of (qp_bytes q) = q"
proof -
  have u16: "(word_of_nat (le_val (le_bytes 2 (unat w))) :: u16) = w" for w :: u16
    using unsigned_less [of w, where 'a=nat] by (simp add: le_val_le_bytes)
  show ?thesis by (cases q) (simp add: qp_of_def qp_bytes_def blk_def i32_def i64_def u16 of_nat_le_u32 of_nat_le_u64)
qed

lemma runs_init_com_hndl:
  assumes "ib_calls E pd" "0 \<le> i" "i < int (length (mrs s))" "mrs s ! nat i = Some k"
    and "\<And>s'. rem_qp s' = rem_qp s \<Longrightarrow> qi_key (loc_qp s') = k \<Longrightarrow> qi_addr (loc_qp s') = loc_recv_buf s \<Longrightarrow>
      pd (world s') = pd (world s) \<Longrightarrow> P () s'"
  shows "runs (ib_init_com_hndl E i) s P"
  unfolding ib_init_com_hndl_def
  apply (rule runs_bind runs_get runs_modify runs_created [OF assms(1)] runs_nonneg [OF assms(1)]
      runs_verb_any [OF assms(1)] runs_lkey | simp add: split_beta assms(2-4))+
  apply (rule assms(5); simp)
  done

lemma runs_con_com_buf:
  assumes "ib_calls E pd" "\<And>w. pd w = pd (world s) \<Longrightarrow> P () (s\<lparr>world := w\<rparr>)"
  shows "runs (ib_con_com_buf E) s P"
  unfolding ib_con_com_buf_def
  by (intro runs_bind runs_get runs_zero_or_exit [OF assms(1)] runs_ret; simp add: assms(2))

lemma runs_close_comm_channel:
  assumes "ib_calls E pd" "\<And>w. pd w = pd (world s) \<Longrightarrow> P () (s\<lparr>world := w\<rparr>)"
  shows "runs (close_comm_channel E) s P"
proof -
  have c: "runs (close_sock E k) t Q" if "\<And>w. pd w = pd (world t) \<Longrightarrow> Q () (t\<lparr>world := w\<rparr>)" for k t Q
    unfolding close_sock_def by (intro runs_bind runs_nonneg [OF assms(1)] runs_ret; simp add: that)
  show ?thesis unfolding close_comm_channel_def
    apply (intro runs_bind runs_get)
    apply (cases "listen_sock s = 0")
     apply simp_all
     apply (intro runs_ret runs_bind runs_get c)
     apply (simp add: assms(2))
    apply (intro c runs_bind runs_get)
    apply (simp add: assms(2))
    done
qed

lemma runs_finish_connect:
  assumes "ib_calls E pd"
    and "\<And>w. pd w = pd (world s) \<Longrightarrow> P 0 (s\<lparr>rem_recv_buf := qi_addr (rem_qp s), world := w\<rparr>)"
  shows "runs (finish_connect E) s P"
  unfolding finish_connect_def
  by (intro runs_bind runs_close_comm_channel [OF assms(1)] runs_modify runs_con_com_buf [OF assms(1)] runs_ret; simp add: assms(2))

lemma runs_wait_for_requester:
  assumes "ib_calls E pd"
    and "\<And>s'. rem_qp s' = rem_qp s \<Longrightarrow> loc_qp s' = loc_qp s \<Longrightarrow> pd (world s') = pd (world s) \<Longrightarrow> P () s'"
  shows "runs (wait_for_requester E p) s P"
  unfolding wait_for_requester_def
  apply (rule runs_bind runs_modify runs_ret | rule runs_verb_descriptor [OF assms(1)], (simp; fail) |
      rule runs_created [OF assms(1)], (simp; fail) | rule runs_verb_any [OF assms(1)], (simp; fail) |
      simp only: prod.case not_less [symmetric] if_False)+
  apply (rule assms(2); simp)
  done

lemma runs_set_responder_info:
  assumes "ib_calls E pd"
    and "\<And>s'. rem_qp s' = rem_qp s \<Longrightarrow> loc_qp s' = loc_qp s \<Longrightarrow> pd (world s') = pd (world s) \<Longrightarrow> P () s'"
  shows "runs (set_responder_info E h p) s P"
  unfolding set_responder_info_def
  apply (rule runs_bind, rule runs_created [OF assms(1)], simp)
  apply (rule runs_bind, rule runs_verb_any [OF assms(1)], simp)
  apply (simp only: prod.case)
  apply (rule runs_modify, rule assms(2); simp)
  done

lemma runs_connect_to_responder:
  assumes "ib_calls E pd"
    and "\<And>s'. rem_qp s' = rem_qp s \<Longrightarrow> loc_qp s' = loc_qp s \<Longrightarrow> pd (world s') = pd (world s) \<Longrightarrow> P 0 s'"
  shows "runs (connect_to_responder (Suc fuel) E) s P"
  unfolding connect_to_responder_def connect_loop.simps
  apply (rule runs_bind, rule runs_get)
  apply (simp only: split_beta)
  apply (rule runs_bind, rule runs_verb_made [OF assms(1)], simp)
  apply (simp add: split_beta del: connect_loop.simps)
  apply (rule runs_bind, rule runs_verb_descriptor [OF assms(1)], simp)
  apply (simp add: split_beta del: connect_loop.simps)
  apply (rule runs_bind, rule runs_modify)
  apply (simp add: split_beta del: connect_loop.simps)?
  apply (rule runs_bind, rule runs_bind, rule runs_verb_descriptor [OF assms(1)], simp)
  apply (simp add: split_beta del: connect_loop.simps)
  apply (intro runs_ret, rule assms(2); simp)
  done

lemma responder_runs:
  assumes E: "ib_calls E pd" and mr: "0 \<le> i" "i < int (length (mrs s))" "mrs s ! nat i = Some k" and "24 < fuel"
    and recv: "\<And>t Q. pd (world t) = pd (world s) \<Longrightarrow> rem_qp t = rem_qp s \<Longrightarrow>
      (\<And>x m w. pd w = rest \<Longrightarrow> qp_of m = q \<Longrightarrow> Q (x, m) (t\<lparr>world := w\<rparr>)) \<Longrightarrow>
      runs (recv_data fuel E (qp_bytes (rem_qp t))) t Q"
  shows "\<exists>s'. ib_connect_responder fuel E p i s = Inr (0, s') \<and> rem_qp s' = q \<and> rem_recv_buf s' = qi_addr q \<and>
    qi_key (loc_qp s') = k \<and> qi_addr (loc_qp s') = p \<and> pd (world s') = rest"
proof -
  have "runs (ib_connect_responder fuel E p i) s
    (\<lambda>x s'. x = 0 \<and> rem_qp s' = q \<and> rem_recv_buf s' = qi_addr q \<and> qi_key (loc_qp s') = k \<and> qi_addr (loc_qp s') = p \<and>
      pd (world s') = rest)"
    unfolding ib_connect_responder_def recv_qp_def send_qp_def
    apply (rule runs_bind, rule runs_modify)
    apply (rule runs_bind, rule runs_init_com_hndl [OF E mr(1)])
      apply (simp_all add: mr)
    apply (rule runs_bind, rule runs_wait_for_requester [OF E])
    apply (rule runs_bind, rule runs_bind, rule runs_get)
    apply (rule runs_bind, rule recv)
      apply simp_all
    apply (rule runs_modify)
    apply (rule runs_bind, rule runs_bind, rule runs_get)
    apply (rule runs_bind, rule runs_send_data [OF E _ assms(5)], simp)
    apply (rule runs_ret, rule runs_finish_connect [OF E], simp)
    done
  then show ?thesis by (auto simp: runs_def)
qed

lemma requester_runs:
  assumes E: "ib_calls E pd" and mr: "0 \<le> i" "i < int (length (mrs s))" "mrs s ! nat i = Some k" and "24 < fuel"
    and recv: "\<And>t Q. pd (world t) = pd (world s) \<Longrightarrow> rem_qp t = rem_qp s \<Longrightarrow>
      (\<And>x m w. pd w = rest \<Longrightarrow> qp_of m = q \<Longrightarrow> Q (x, m) (t\<lparr>world := w\<rparr>)) \<Longrightarrow>
      runs (recv_data fuel E (qp_bytes (rem_qp t))) t Q"
  shows "\<exists>s'. ib_connect_requester fuel E p i h s = Inr (0, s') \<and> rem_qp s' = q \<and> rem_recv_buf s' = qi_addr q \<and>
    qi_key (loc_qp s') = k \<and> qi_addr (loc_qp s') = p \<and> pd (world s') = rest"
proof -
  obtain f where f: "fuel = Suc f" using assms(5) by (cases fuel) simp_all
  have "runs (ib_connect_requester fuel E p i h) s
    (\<lambda>x s'. x = 0 \<and> rem_qp s' = q \<and> rem_recv_buf s' = qi_addr q \<and> qi_key (loc_qp s') = k \<and> qi_addr (loc_qp s') = p \<and>
      pd (world s') = rest)"
    unfolding ib_connect_requester_def recv_qp_def send_qp_def
    apply (rule runs_bind, rule runs_modify)
    apply (rule runs_bind, rule runs_init_com_hndl [OF E mr(1)])
      apply (simp_all add: mr)
    apply (rule runs_bind, rule runs_set_responder_info [OF E])
    apply (rule runs_bind, subst f, rule runs_connect_to_responder [OF E])
    apply simp
    apply (rule runs_bind, rule runs_bind, rule runs_get)
    apply (rule runs_bind, rule runs_send_data [OF E _ assms(5)], simp)
    apply (rule runs_ret, rule runs_bind, rule runs_bind, rule runs_get)
    apply (rule runs_bind, rule recv)
      apply simp_all
    apply (rule runs_modify, rule runs_finish_connect [OF E], simp)
    done
  then show ?thesis by (auto simp: runs_def)
qed

text \<open>C20: Both ways of connecting return 0 when the calls of the library succeed, sockets have any descriptors, and sending
  and receiving cut the data in any way, with 24 steps and one for the loops; the queue pair, the key and the buffer of
  the peer are then those it has sent, the own ones those of the buffer that was given, and exactly the bytes of the
  message have been taken from the connection.
\<close>

theorem ib_peers_connected:
  assumes "ib_calls E pending" "ib_delivers E pending" "pending (world s) = qp_bytes q @ rest" "24 < fuel"
    and "0 \<le> i" "i < int (length (mrs s))" "mrs s ! nat i = Some k"
  shows "(\<exists>s'. ib_connect_responder fuel E p i s = Inr (0, s') \<and> rem_qp s' = q \<and> rem_recv_buf s' = qi_addr q \<and>
           qi_key (loc_qp s') = k \<and> qi_addr (loc_qp s') = p \<and> pending (world s') = rest) \<and>
         (\<exists>s'. ib_connect_requester fuel E p i h s = Inr (0, s') \<and> rem_qp s' = q \<and> rem_recv_buf s' = qi_addr q \<and>
           qi_key (loc_qp s') = k \<and> qi_addr (loc_qp s') = p \<and> pending (world s') = rest)"
proof -
  have recv: "runs (recv_data fuel E (qp_bytes (rem_qp t))) t Q"
    if "pending (world t) = pending (world s)" "\<And>x m w. pending w = rest \<Longrightarrow> qp_of m = q \<Longrightarrow> Q (x, m) (t\<lparr>world := w\<rparr>)" for t Q
  proof (rule runs_recv_data [OF assms(2) _ assms(4)])
    show "pending (world t) = qp_bytes q @ rest" using that(1) assms(3) by simp
    show "Q (24, qp_bytes q) (t\<lparr>world := w\<rparr>)" if "pending w = rest" for w
      by (rule \<open>\<And>x m w. pending w = rest \<Longrightarrow> qp_of m = q \<Longrightarrow> Q (x, m) (t\<lparr>world := w\<rparr>)\<close> [OF that qp_round_trip])
  qed simp_all
  show ?thesis
    by (intro conjI responder_runs [OF assms(1,5-7,4)] requester_runs [OF assms(1,5-7,4)]; (rule recv; blast))
qed

definition fresh_env :: "(string \<Rightarrow> cval list \<Rightarrow> 'd \<Rightarrow> u32 \<times> cval list \<times> 'd) \<Rightarrow> 'd env" where
  "fresh_env c = \<lparr>heap_ok = (\<lambda>_. True),
     fresh_record = \<lparr>rq_function = 0, arg_size = 0, arguments = None, result_lo = 0, result_hi = 0, data = None, data_size = 0\<rparr>,
     fresh_byte = 0, fresh_word = 0, fresh_int = 0, cuda = c\<rparr>"

text \<open>Sockets 3 and 4, and a peer whose message comes byte by byte; sending takes up to ten bytes at once.\<close>

definition sample_ib_env :: "u8 list env" where
  "sample_ib_env = fresh_env (\<lambda>name args w.
     if name = ''recv'' then (if w = [] then (0, [Bytes []], []) else (1, [Bytes [hd w]], tl w))
     else if name = ''send'' then (case args of [Int32 _, Bytes bs] \<Rightarrow> (of_nat (min 10 (length bs)), [], w) | _ \<Rightarrow> (0, [], w))
     else if name = ''socket'' then (3, [], w) else if name = ''accept'' then (4, [Int32 0x7f000001], w)
     else if name = ''inet_pton'' then (1, [Int32 0x7f000001], w) else (0, [Word64 1], w))"

definition sample_ib :: "'d \<Rightarrow> 'd ib" where
  "sample_ib w = \<lparr>world = w, blocks = [], wr_blocks = 0, ib_ctx = 1, ib_pd = 1, ib_cq = 0, ib_qp = 0, ib_comp_chan = 0,
     phys_port_cnt = 1, port_state = 4, ib_lid = 1, used_port = 1, ib_wr = None, loc_recv_buf = 0, loc_qp = no_qp,
     rem_recv_buf = 0, rem_qp = no_qp, mrs = [Some 5], com_sock = 0, listen_sock = 0, ib_device_id = 0, ib_peer = ''peer'',
     ib_responder = (0, 0)\<rparr>"

lemma sample_ib_calls: "ib_calls sample_ib_env (\<lambda>w. w)"
proof -
  have "\<exists>k. 0 < k \<and> k \<le> length bs \<and> of_nat (min 10 (length bs)) = (of_nat k :: u32)" if "bs \<noteq> []" for bs :: "u8 list"
    using that by (intro exI [of _ "min 10 (length bs)"]) (simp add: min_def)
  then show ?thesis by (auto simp: ib_calls_def sample_ib_env_def fresh_env_def out64_def split: list.split cval.split)
qed

lemma sample_ib_delivers: "ib_delivers sample_ib_env (\<lambda>w. w)"
  unfolding ib_delivers_def
proof (intro allI impI)
  fix sock n and w :: "u8 list"
  assume "0 < (n :: u64) \<and> w \<noteq> []"
  then show "\<exists>k w'. 0 < k \<and> k \<le> unat n \<and> k \<le> length w \<and>
      cuda sample_ib_env ''recv'' [Int32 sock, Word64 n] w = (of_nat k, [Bytes (take k w)], w') \<and> w' = drop k w"
    by (intro exI [of _ 1] exI [of _ "tl w"])
      (cases w; simp add: sample_ib_env_def fresh_env_def Suc_le_eq unat_gt_0)
qed

definition sample_qp :: ib_qp_info where
  "sample_qp = \<lparr>qi_qpn = 17, qi_lid = 2, qi_psn = 300, qi_key = 9, qi_addr = 0x7000\<rparr>"

theorem ib_peers_connected_witness:
  "(\<exists>s'. ib_connect_responder 25 sample_ib_env 0x5000 0 (sample_ib (qp_bytes sample_qp)) = Inr (0, s') \<and>
     rem_qp s' = sample_qp \<and> rem_recv_buf s' = 0x7000 \<and> world s' = []) \<and>
   (\<exists>s'. ib_connect_requester 25 sample_ib_env 0x5000 0 ''peer'' (sample_ib (qp_bytes sample_qp)) = Inr (0, s') \<and>
     rem_qp s' = sample_qp \<and> rem_recv_buf s' = 0x7000 \<and> world s' = [])"
  using ib_peers_connected [OF sample_ib_calls sample_ib_delivers, of "sample_ib (qp_bytes sample_qp)" sample_qp "[]" 25 0 5
      "0x5000" "''peer''"]
  by (auto simp: sample_ib_def sample_qp_def)

text \<open>When nothing can be received, connecting succeeds as well, with the data of the connection before.\<close>

lemma ib_failed_exchange:
  assumes "ib_calls E (\<lambda>_. [])" "\<forall>args w. sint (fst (cuda E ''recv'' args w)) < 0" "24 < fuel"
    and "0 \<le> i" "i < int (length (mrs s))" "mrs s ! nat i = Some k"
  shows "\<exists>s'. ib_connect_responder fuel E p i s = Inr (0, s') \<and> rem_qp s' = rem_qp s"
proof -
  have recv: "runs (recv_data fuel E (qp_bytes (rem_qp t))) t Q"
    if "rem_qp t = rem_qp s" "\<And>x m w. ([] :: u8 list) = [] \<Longrightarrow> qp_of m = rem_qp s \<Longrightarrow> Q (x, m) (t\<lparr>world := w\<rparr>)" for t Q
    using that assms(3) by (intro runs_recv_error [OF assms(2)]) (simp_all add: qp_round_trip)
  show ?thesis
    using responder_runs [OF assms(1,4-6,3), of "[]" "rem_qp s" p] recv by blast
qed

section \<open>The mark behind the data\<close>

lemma PAGE_ROUND_UP_room:
  assumes "x + 0xfff < 2 ^ 64"
  shows "x \<le> PAGE_ROUND_UP x"
proof -
  have "PAGE_ROUND_UP x = (x + 4095) div 4096 * 4096" using assms by (simp add: PAGE_ROUND_UP_def wrap64_id)
  moreover have "x + 4095 < (x + 4095) div 4096 * 4096 + 4096" by (metis add.commute dividend_less_times_div mult.commute zero_less_numeral)
  ultimately show ?thesis by linarith
qed

lemma blocks_elsewhere: "p \<notin> fst ` set bs \<Longrightarrow> map (\<lambda>(q, c). (q, if q = p then f c else c)) bs = bs"
  by (rule map_idI) force

lemma host_buffer_allocated:
  fixes n :: nat and p :: u64
  defines "sz \<equiv> PAGE_ROUND_UP (wrap64 (n + 2))"
  assumes "cuda E ''posix_memalign'' [Word64 0x1000, Word64 (of_nat sz)] (world s) = (0, Word64 p # outs, w)"
    and "cuda E ''ibv_reg_mr'' [Word64 (ib_pd s), Word64 p, Word64 (of_nat sz)] w = (res, Word64 m # Int32 k # outs', w')"
    and "m \<noteq> 0" "0 \<le> i" "i < int (length (mrs s))" "p \<notin> fst ` set (blocks s)"
  shows "ib_allocate_memreg E (Some old) n i False s =
    Inr ((0, Some p), s\<lparr>world := w', blocks := (p, replicate sz 0) # blocks s, mrs := (mrs s)[nat i := Some k]\<rparr>)"
proof -
  have b: "block_at p sz ((p, x) # bs) = Some (p, x)" if "length x = sz" for x bs
    using that by (simp add: block_at_def)
  have bl: "blit (replicate sz y) 0 (replicate sz z) = replicate sz z" for y z :: u8 by (simp add: blit_def)
  have h: "host_memreg E old sz s = Inr (p, s\<lparr>world := w, blocks := (p, replicate sz 0) # blocks s\<rparr>)"
    using assms(2) by (simp add: host_memreg_def nonneg_def bind_i_def verb_def ret_i_def modify_i_def out64_def store_at_def b bl
        blocks_elsewhere [OF assms(7)] cong del: if_weak_cong)
  have "PAGE_ROUND_UP (wrap64 (Suc (Suc n))) = sz" by (simp add: sz_def)
  then show ?thesis
    using assms(3-6) by (simp add: ib_allocate_memreg_def bind_i_def h reg_mr_def get_i_def created_def verb_def
        ret_i_def modify_i_def out64_def out32_def fault_i_def)
qed

lemma unat_behind:
  fixes p :: u64 and n :: u32
  assumes "unat p + unat n < 2 ^ 64"
  shows "unat (p + ucast n) = unat p + unat n"
proof -
  have "unat n < 2 ^ 64" using unat_u32_less [of n] by simp
  then have "unat (ucast n :: u64) = unat n" by (simp add: unsigned_ucast_eq take_bit_nat_eq_self)
  then show ?thesis using assms by (simp add: unat_word_ariths)
qed

lemma mark_stored:
  fixes p :: u64 and n :: u32
  assumes "blocks t = (p, b) # bs" "p \<notin> fst ` set bs" "unat n < length b" "unat p + unat n < 2 ^ 64"
  shows "store_at (p + ucast n) [1] t = Inr ((), t\<lparr>blocks := (p, b[unat n := 1]) # bs\<rparr>)"
proof -
  have u: "unat (p + ucast n) = unat p + unat n" by (rule unat_behind [OF assms(4)])
  have "block_at (p + ucast n) 1 ((p, b) # bs) = Some (p, b)" using assms(3) by (simp add: block_at_def u)
  moreover have "blit b (unat n) [1] = b[unat n := 1]" using assms(3) by (simp add: blit_def upd_conv_take_nth_drop)
  ultimately show ?thesis using assms(1)
    by (simp add: store_at_def u blocks_elsewhere [OF assms(2)] cong del: if_weak_cong)
qed

text \<open>C21: A host buffer that \<open>ib_allocate_memreg\<close> has made for \<open>n\<close> bytes can be used for every transfer of up to \<open>n\<close> bytes:
  preparing it succeeds, changes nothing but the byte behind the data, which becomes 1, and asks for one byte more
  than the data, from the buffer and with the key it has been registered with.
\<close>

theorem buffer_has_room_for_mark:
  fixes n :: nat and p :: u64 and len :: u32
  defines "sz \<equiv> PAGE_ROUND_UP (wrap64 (n + 2))"
  assumes "cuda E ''posix_memalign'' [Word64 0x1000, Word64 (of_nat sz)] (world s) = (0, Word64 p # outs, w)"
    and "cuda E ''ibv_reg_mr'' [Word64 (ib_pd s), Word64 p, Word64 (of_nat sz)] w = (res, Word64 m # Int32 k # outs', w')"
    and "m \<noteq> 0" "0 \<le> i" "i < int (length (mrs s))" "p \<notin> fst ` set (blocks s)"
    and "unat len \<le> n" "n + 0x1001 < 2 ^ 64" "unat p + sz \<le> 2 ^ 64" "heap_ok E 128" "heap_ok E 16"
  shows "\<exists>t t'. ib_allocate_memreg E (Some old) n i False s = Inr ((0, Some p), t) \<and>
     ib_prepare_run E p len i False t = Inr ((), t') \<and>
     blocks t = (p, replicate sz 0) # blocks s \<and>
     blocks t' = (p, (replicate sz 0)[unat len := 1]) # blocks s \<and>
     ib_wr t' = Some \<lparr>sw_addr = p, sw_length = len + 1, sw_lkey = k, sw_rkey = qi_key (rem_qp s), sw_remote_addr = rem_recv_buf s\<rparr>"
proof -
  let ?t = "s\<lparr>world := w', blocks := (p, replicate sz 0) # blocks s, mrs := (mrs s)[nat i := Some k]\<rparr>"
  have a: "ib_allocate_memreg E (Some old) n i False s = Inr ((0, Some p), ?t)"
    using host_buffer_allocated [of E n s p outs w res m k outs' w' i old] assms(2-7) by (simp add: sz_def)
  have "n + 2 \<le> sz"
    using PAGE_ROUND_UP_room [of "n + 2"] assms(9) wrap64_id [of "n + 2"] by (simp add: sz_def)
  then have "store_at (p + ucast len) [1] (?t\<lparr>wr_blocks := wr_blocks s + 2\<rparr>) =
      Inr ((), ?t\<lparr>wr_blocks := wr_blocks s + 2, blocks := (p, (replicate sz 0)[unat len := 1]) # blocks s\<rparr>)"
    using assms(7,8,10) by (subst mark_stored) simp_all
  then have "\<exists>t'. ib_prepare_run E p len i False ?t = Inr ((), t') \<and>
     blocks t' = (p, (replicate sz 0)[unat len := 1]) # blocks s \<and>
     ib_wr t' = Some \<lparr>sw_addr = p, sw_length = len + 1, sw_lkey = k, sw_rkey = qi_key (rem_qp s), sw_remote_addr = rem_recv_buf s\<rparr>"
    using assms(5,6,11,12)
    by (simp add: ib_prepare_run_def prepare_send_list_elem_def bind_i_def modify_i_def mr_lkey_def)
  then show ?thesis using a by auto
qed

definition sample_buffer_env :: "unit env" where
  "sample_buffer_env = fresh_env (\<lambda>name _ w.
     if name = ''posix_memalign'' then (0, [Word64 0x7000], w) else (0, [Word64 1, Int32 8], w))"

theorem buffer_has_room_for_mark_witness:
  "\<exists>t t'. ib_allocate_memreg sample_buffer_env (Some 0) 100 0 False (sample_ib ()) = Inr ((0, Some 0x7000), t) \<and>
     ib_prepare_run sample_buffer_env 0x7000 100 0 False t = Inr ((), t') \<and>
     blocks t' = [(0x7000, (replicate 4096 0)[100 := 1])]"
proof -
  have sz: "PAGE_ROUND_UP (wrap64 (100 + 2)) = 4096" by (simp add: PAGE_ROUND_UP_def wrap64_def)
  show ?thesis
    using buffer_has_room_for_mark [of sample_buffer_env 100 "sample_ib ()" "0x7000" "[]" "()" 0 1 8 "[]" "()" 0 100 0]
    unfolding sz by (auto simp: sample_buffer_env_def fresh_env_def sample_ib_def)
qed

text \<open>A block of just the size of the data has no room for the mark.\<close>

lemma exact_block_overrun:
  fixes p :: u64 and n :: u32
  assumes "blocks t = [(p, b)]" "length b = unat n" "unat p + unat n < 2 ^ 64" "heap_ok E 128" "heap_ok E 16"
  shows "ib_prepare_run E p n i False t = Inl Out_Of_Bounds"
  using assms unat_behind [OF assms(3)]
  by (simp add: ib_prepare_run_def prepare_send_list_elem_def bind_i_def modify_i_def store_at_def block_at_def)

end
