(* ===== verification/IbServer.thy ===== *)
theory IbServer
  imports IbProps Replay Runs
begin

text \<open>
  The handlers of \<open>cpu/cpu-server-runtime.c\<close> that are other ones in a server with InfiniBand: device memory is
  registered when it is allocated, and a copy is a transfer of \<open>cpu-ib.c\<close>, to the device in a thread of its own. The
  server and the state of \<open>cpu-ib.c\<close> share the device.
\<close>

record 'd ib_server =
  isrv :: "'d server"
  iib :: "'d ib"
  ithreads :: "(int \<times> u64 \<times> u64) list"

type_synonym ('d, 'a) ib_handler = "'d ib_server \<Rightarrow> ('a \<times> 'd ib_server) res"

definition bind_s :: "('d, 'a) ib_handler \<Rightarrow> ('a \<Rightarrow> ('d, 'b) ib_handler) \<Rightarrow> ('d, 'b) ib_handler" where
  "bind_s m k s = bind_r (m s) (\<lambda>(x, s). k x s)"

definition ret_s :: "'a \<Rightarrow> ('d, 'a) ib_handler" where
  "ret_s x s = Inr (x, s)"

definition on_server :: "('d, 'a) handler \<Rightarrow> ('d, 'a) ib_handler" where
  "on_server h s = bind_r (h (isrv s)) (\<lambda>(x, t). Inr (x, s\<lparr>isrv := t\<rparr>))"

definition on_ib :: "('d, 'a) ib_fn \<Rightarrow> ('d, 'a) ib_handler" where
  "on_ib f s = bind_r (f ((iib s)\<lparr>world := gpu (isrv s)\<rparr>))
     (\<lambda>(x, b). Inr (x, s\<lparr>iib := b, isrv := (isrv s)\<lparr>gpu := world b\<rparr>\<rparr>))"

text \<open>
  The reply is not set before, so that the pointer is what it happens to be. The memory is not entered into the
  table of device pointers.
\<close>

definition cuda_malloc_ib :: "'d env \<Rightarrow> u32 \<Rightarrow> u64 \<Rightarrow> ('d, reply) ib_handler" where
  "cuda_malloc_ib E rq argp =
     bind_s (on_server (recorded E rq 8 [(0, i64 argp)] ret_h)) (\<lambda>i.
     bind_s (on_server (get_s hainfo_cnt)) (\<lambda>cnt.
     bind_s (on_ib (ib_allocate_memreg E (Some (fresh_word E)) (unat argp) (int cnt) True)) (\<lambda>(err, p).
     let p = the p; err = of_nat err in
     bind_s (if err = 0
             then bind_s (on_server (hainfo_at (int cnt))) (\<lambda>h.
                  bind_s (on_server (hainfo_set (int cnt) (h\<lparr>hai_idx := cnt, hai_size := unat argp, hai_server_ptr := p\<rparr>))) (\<lambda>_.
                  on_server (modify_s (\<lambda>s. s\<lparr>hainfo_cnt := hainfo_cnt s + 1\<rparr>))))
             else ret_s ()) (\<lambda>_.
     bind_s (on_server (set_result_ptr i err p)) (\<lambda>_. ret_s (Reply [Int32 err, Word64 p]))))))"

definition cuda_free_ib :: "'d env \<Rightarrow> u32 \<Rightarrow> u64 \<Rightarrow> ('d, reply) ib_handler" where
  "cuda_free_ib E rq devPtr =
     bind_s (on_server (recorded E rq 8 [(0, i64 devPtr)] ret_h)) (\<lambda>i.
     bind_s (on_server (hainfo_getserverindex devPtr)) (\<lambda>index.
     bind_s (on_ib (ib_free_memreg E devPtr index True)) (\<lambda>_.
     bind_s (on_server (hainfo_at index)) (\<lambda>h.
     bind_s (on_server (hainfo_set index (h\<lparr>hai_server_ptr := 0\<rparr>))) (\<lambda>_.
     bind_s (on_server (set_result i 0)) (\<lambda>_. ret_s (Reply [Int32 0])))))))"

text \<open>
  The first argument of the code is overwritten with the index of the pointer, which is recorded. Entry 0 is taken
  for one that is not in use.
\<close>

definition cuda_memcpy_ib :: "nat \<Rightarrow> 'd env \<Rightarrow> u32 \<Rightarrow> u64 \<Rightarrow> u64 \<Rightarrow> u32 \<Rightarrow> ('d, reply) ib_handler" where
  "cuda_memcpy_ib fuel E rq device_ptr sz kind =
     bind_s (on_server (hainfo_getserverindex device_ptr)) (\<lambda>index.
     bind_s (on_server (recorded E rq 32 [(0, i32 (of_int index)), (8, i64 device_ptr), (16, i64 sz), (24, i32 kind)] ret_h)) (\<lambda>i.
     bind_s (on_server (hainfo_at index)) (\<lambda>h.
     bind_s
       (if hai_idx h = 0 \<or> int (hai_idx h) \<noteq> index then ret_s cudaErrorInitializationError
        else if hai_size h < unat sz then ret_s cudaErrorInitializationError
        else if kind = 1
        then if \<not> heap_ok E 40 then (\<lambda>_. Inl Null_Deref)
             else bind_s (on_server (cuda_call E ''pthread_create'' [])) (\<lambda>(err, _).
                  if err \<noteq> 0 then ret_s cudaErrorInitializationError
                  else bind_s (\<lambda>s. Inr ((), s\<lparr>ithreads := ithreads s @ [(index, hai_server_ptr h, sz)]\<rparr>)) (\<lambda>_. ret_s 0))
        else if kind = 2
        then bind_s (on_ib (ib_requester_send fuel E (hai_server_ptr h) index sz True)) (\<lambda>_. ret_s 0)
        else ret_s cudaErrorInitializationError) (\<lambda>err.
     bind_s (on_server (set_result i err)) (\<lambda>_. ret_s (Reply [Int32 err]))))))"

text \<open>The thread that has been started first; in the end it frees its arguments.\<close>

definition ib_thread :: "nat \<Rightarrow> 'd env \<Rightarrow> ('d, unit) ib_handler" where
  "ib_thread fuel E s =
     (case ithreads s of [] \<Rightarrow> Inr ((), s)
      | (index, p, sz) # ts \<Rightarrow>
          bind_s (on_ib (ib_responder_recv fuel E p index sz True)) (\<lambda>_. ret_s ()) (s\<lparr>ithreads := ts\<rparr>))"

section \<open>The first allocation\<close>

lemma allocate_succeeds: "ib_allocate_memreg E m n i g s = Inr ((e, q), t) \<Longrightarrow> e = 0"
  by (auto simp: ib_allocate_memreg_def Let_def bind_i_def ret_i_def bind_r_Inr_iff split: option.splits)

lemma bind_sE:
  assumes "bind_s m k s = Inr (y, t)"
  obtains x u where "m s = Inr (x, u)" "k x u = Inr (y, t)"
  using assms by (auto simp: bind_s_def bind_r_Inr_iff)

lemma recorded_keeps: "recorded E rq sz fs ret_h s = Inr (i, t) \<Longrightarrow> hainfo t = hainfo s \<and> hainfo_cnt t = hainfo_cnt s"
  by (auto simp: recorded_def ret_h_def bind_r_Inr_iff)

lemma on_serverD: "on_server h s = Inr (x, t) \<Longrightarrow> \<exists>u. h (isrv s) = Inr (x, u) \<and> t = s\<lparr>isrv := u\<rparr>"
  by (auto simp: on_server_def bind_r_Inr_iff)

lemma on_ibD: "on_ib f s = Inr (x, t) \<Longrightarrow>
    \<exists>b. f ((iib s)\<lparr>world := gpu (isrv s)\<rparr>) = Inr (x, b) \<and> t = s\<lparr>iib := b, isrv := (isrv s)\<lparr>gpu := world b\<rparr>\<rparr>"
  by (auto simp: on_ib_def bind_r_Inr_iff)

lemma malloc_ib_registers:
  assumes "cuda_malloc_ib E rq argp s = Inr (Reply [Int32 err, Word64 p], t)" "hainfo_cnt (isrv s) = 0"
  shows "hainfo_cnt (isrv t) = 1 \<and> hainfo (isrv t) \<noteq> [] \<and> hai_idx (hainfo (isrv t) ! 0) = 0 \<and>
    hai_server_ptr (hainfo (isrv t) ! 0) = p"
proof -
  obtain i s1 where 1: "on_server (recorded E rq 8 [(0, i64 argp)] ret_h) s = Inr (i, s1)"
    and k1: "bind_s (on_server (get_s hainfo_cnt)) (\<lambda>cnt.
     bind_s (on_ib (ib_allocate_memreg E (Some (fresh_word E)) (unat argp) (int cnt) True)) (\<lambda>(err, p).
     let p = the p; err = of_nat err in
     bind_s (if err = 0
             then bind_s (on_server (hainfo_at (int cnt))) (\<lambda>h.
                  bind_s (on_server (hainfo_set (int cnt) (h\<lparr>hai_idx := cnt, hai_size := unat argp, hai_server_ptr := p\<rparr>))) (\<lambda>_.
                  on_server (modify_s (\<lambda>s. s\<lparr>hainfo_cnt := hainfo_cnt s + 1\<rparr>))))
             else ret_s ()) (\<lambda>_.
     bind_s (on_server (set_result_ptr i err p)) (\<lambda>_. ret_s (Reply [Int32 err, Word64 p]))))) s1 =
     Inr (Reply [Int32 err, Word64 p], t)"
    by (rule bind_sE [OF assms(1) [unfolded cuda_malloc_ib_def]])
  have c1: "hainfo_cnt (isrv s1) = 0" using on_serverD [OF 1] recorded_keeps assms(2) by fastforce
  then have g: "on_server (get_s hainfo_cnt) s1 = Inr (0, s1)" by (simp add: on_server_def get_s_def)
  obtain e q s2 where 2: "on_ib (ib_allocate_memreg E (Some (fresh_word E)) (unat argp) (int 0) True) s1 = Inr ((e, q), s2)"
    and k2: "bind_s (if of_nat e = (0 :: u32)
             then bind_s (on_server (hainfo_at (int 0))) (\<lambda>h.
                  bind_s (on_server (hainfo_set (int 0) (h\<lparr>hai_idx := 0, hai_size := unat argp, hai_server_ptr := the q\<rparr>))) (\<lambda>_.
                  on_server (modify_s (\<lambda>s. s\<lparr>hainfo_cnt := hainfo_cnt s + 1\<rparr>))))
             else ret_s ()) (\<lambda>_.
     bind_s (on_server (set_result_ptr i (of_nat e) (the q))) (\<lambda>_. ret_s (Reply [Int32 (of_nat e), Word64 (the q)]))) s2 =
     Inr (Reply [Int32 err, Word64 p], t)"
    apply (rule bind_sE [OF k1 [unfolded bind_s_def [of "on_server (get_s hainfo_cnt)"] g bind_r.simps prod.case]])
    subgoal for x u by (cases x, rule that [of "fst x" "snd x" u]) (simp_all only: Let_def prod.case fst_conv snd_conv)
    done
  have "e = 0" using on_ibD [OF 2] allocate_succeeds by fastforce
  moreover have c2: "hainfo_cnt (isrv s2) = 0" using on_ibD [OF 2] c1 by auto
  ultimately show ?thesis
    using k2 by (auto simp: on_server_def hainfo_at_def hainfo_set_def modify_s_def ret_s_def set_result_ptr_def on_log_def
        bind_r_Inr_iff elim!: bind_sE split: if_splits)
qed

lemma set_result_last:
  assumes "list_rep (api_records s) (xs @ [r])"
  obtains l where "set_result (length xs) err s = Inr ((), s\<lparr>api_records := l\<rparr>)"
proof -
  obtain l where "RECORD_RESULT_integer (length xs) err (api_records s) = Inr l"
    unfolding RECORD_RESULT_integer_def
    using update_record_rep [OF assms, of "length xs" "\<lambda>r. Inr (r\<lparr>result_lo := set_low32 (result_lo r) err\<rparr>)"]
    by auto
  then show thesis by (intro that [of l]) (simp add: set_result_def on_log_def)
qed

subsection \<open>What keeps the first entry\<close>

text \<open>\<open>first_entry p s\<close>: entry 0 of the table of allocations is that of \<open>p\<close>, with the number 0.\<close>

definition first_entry :: "u64 \<Rightarrow> 'd server \<Rightarrow> bool" where
  "first_entry p s \<longleftrightarrow> 1 \<le> hainfo_cnt s \<and> hainfo s \<noteq> [] \<and> hai_idx (hainfo s ! 0) = 0 \<and> hai_server_ptr (hainfo s ! 0) = p"

definition first_kept :: "u64 \<Rightarrow> 'd server \<Rightarrow> 'd server \<Rightarrow> bool" where
  "first_kept p s t \<longleftrightarrow> (first_entry p s \<longrightarrow> first_entry p t)"

interpretation first: kept_base "first_kept p" for p
  by unfold_locales (auto simp: first_kept_def first_entry_def set_sched_def)

lemma first_entry_set:
  "first_entry p s \<Longrightarrow> hainfo_set j h s = Inr (x, t) \<Longrightarrow> j \<noteq> 0 \<or> hai_idx h = 0 \<and> hai_server_ptr h = p \<Longrightarrow> first_entry p t"
  by (auto simp: first_entry_def hainfo_set_def nth_list_update split: if_split_asm)

lemma first_entry_count: "first_entry p s \<Longrightarrow> first_entry p (s\<lparr>hainfo_cnt := Suc n\<rparr>)"
  by (simp add: first_entry_def)

text \<open>An allocation of host memory takes an entry behind the others; entry 0 is never released, since its number is 0.\<close>

lemma first_alloc:
  "cnt \<noteq> 0 \<Longrightarrow> keeps (first_kept p) (hainfo_set (int cnt) h)"
  "keeps (first_kept p) (modify_s (\<lambda>s. s\<lparr>hainfo_cnt := cnt + 1\<rparr>))"
  by (auto simp: keeps_def first_kept_def modify_s_def dest: first_entry_set intro: first_entry_count)

lemma first_bind_cnt:
  assumes "\<And>cnt. cnt \<noteq> 0 \<Longrightarrow> keeps (first_kept p) (k cnt)"
  shows "keeps (first_kept p) (bind_h (get_s hainfo_cnt) k)"
proof (rule keepsI)
  fix s r s'
  assume h: "bind_h (get_s hainfo_cnt) k s = Inr (r, s')"
  show "first_kept p s s'"
  proof (cases "hainfo_cnt s = 0")
    case False
    from keepsD [OF assms [OF False]] h show ?thesis by (simp add: bind_h_def get_s_def)
  qed (simp add: first_kept_def first_entry_def)
qed

lemma first_host_alloc: "keeps (first_kept p) (host_alloc E st local sz flags)"
  unfolding host_alloc_def Let_def
  apply (rule keeps_intros)
   apply (rule first_bind_cnt)
   apply (intro keeps_intros first_alloc; assumption)
  apply (intro keeps_intros)
  done

lemma first_regshm: "keeps (first_kept p) (cuda_host_alloc_regshm_1_svc E rq st local idx client_ptr)"
proof -
  have tail: "keeps (first_kept p) (bind_h (hainfo_at (uint idx)) (\<lambda>h.
      bind_h (hainfo_set (uint idx) (h\<lparr>hai_client_ptr := client_ptr\<rparr>)) (\<lambda>_. k)))"
    if "keeps (first_kept p) k" for k :: "('d, 'b) handler"
  proof (rule keepsI)
    fix s r s'
    assume h: "bind_h (hainfo_at (uint idx)) (\<lambda>h. bind_h (hainfo_set (uint idx) (h\<lparr>hai_client_ptr := client_ptr\<rparr>)) (\<lambda>_. k)) s =
      Inr (r, s')"
    then obtain t where t: "hainfo_set (uint idx) ((hainfo s ! nat (uint idx))\<lparr>hai_client_ptr := client_ptr\<rparr>) s = Inr ((), t)"
      "k t = Inr (r, s')"
      by (auto simp: bind_h_Inr_iff hainfo_at_def split: if_split_asm)
    have "first_entry p s \<Longrightarrow> first_entry p t"
      by (rule first_entry_set [OF _ t(1)], assumption, cases "uint idx = 0")
        (simp_all add: first_entry_def del: nat_uint_eq)
    with keepsD [OF that t(2)] show "first_kept p s s'" by (simp add: first_kept_def)
  qed
  show ?thesis unfolding cuda_host_alloc_regshm_1_svc_def
    by (rule first.keeps_recorded first.keeps_cases(3,5) first.keeps_ret tail)+ (intro keeps_intros)
qed

lemma first_free_host: "keeps (first_kept p) (free_host E st index i)"
proof (cases "index = 0")
  case True
  then have c: "(hai_idx h \<noteq> 0 \<and> int (hai_idx h) = sint index) = False" for h by auto
  show ?thesis unfolding free_host_def c if_False by (intro keeps_intros)
next
  case False
  then have "sint index \<noteq> 0" by (metis sint_0 signed_word_eqI)
  then have "keeps (first_kept p) (hainfo_set (sint index) h)" for h
    by (auto simp: keeps_def first_kept_def dest: first_entry_set)
  then show ?thesis unfolding free_host_def by (intro keeps_intros)
qed

interpretation firsts: kept "first_kept p" for p
proof unfold_locales
  show "keeps (first_kept p) (input_slot q)" for q
    by (auto simp: keeps_def first_kept_def first_entry_def input_slot_def Let_def split: if_split_asm)
  show "first_kept p s (s\<lparr>recorded_calls := (recorded_calls s)[nat (operator_count s) := l]\<rparr>)" for s :: "'a server" and l
    by (simp add: first_kept_def first_entry_def)
qed (rule first_host_alloc first_regshm first_free_host)+

lemma request_first: "request E proc h \<Longrightarrow> keeps (first_kept p) h"
  by (rule firsts.request_kept)
    (auto simp: keeps_def first_kept_def first_entry_def count_output_def modify_s_def)

subsection \<open>The requests of the server with InfiniBand\<close>

lemma on_serverE:
  assumes "on_server h s = Inr (x, t)"
  obtains u where "h (isrv s) = Inr (x, u)" and "t = s\<lparr>isrv := u\<rparr>"
  using on_serverD [OF assms] by blast

lemma on_ib_first: "on_ib f s = Inr (x, t) \<Longrightarrow> first_entry p (isrv s) \<Longrightarrow> first_entry p (isrv t)"
  by (auto dest!: on_ibD simp: first_entry_def)

lemma on_server_first:
  "on_server h s = Inr (x, t) \<Longrightarrow> keeps (first_kept p) h \<Longrightarrow> first_entry p (isrv s) \<Longrightarrow> first_entry p (isrv t)"
  by (auto dest!: on_serverD keepsD simp: first_kept_def)

definition ib_keeps :: "u64 \<Rightarrow> ('d, 'a) ib_handler \<Rightarrow> bool" where
  "ib_keeps p m \<longleftrightarrow> (\<forall>s x t. m s = Inr (x, t) \<longrightarrow> first_entry p (isrv s) \<longrightarrow> first_entry p (isrv t))"

lemma ib_keeps_intros:
  "ib_keeps p m \<Longrightarrow> (\<And>x. ib_keeps p (k x)) \<Longrightarrow> ib_keeps p (bind_s m k)"
  "keeps (first_kept p) h \<Longrightarrow> ib_keeps p (on_server h)"
  "ib_keeps p (on_ib f)" "ib_keeps p (ret_s x)" "ib_keeps p (\<lambda>s. Inl e)"
  "ib_keeps p (\<lambda>s. Inr (x, s\<lparr>ithreads := g s\<rparr>))"
  "ib_keeps p m \<Longrightarrow> ib_keeps p n \<Longrightarrow> ib_keeps p (if c then m else n)"
  "(\<And>a b. ib_keeps p (c2 a b)) \<Longrightarrow> ib_keeps p (case y of (a, b) \<Rightarrow> c2 a b)"
        apply (simp add: ib_keeps_def bind_s_def bind_r_Inr_iff split_beta, blast)
       apply (unfold ib_keeps_def, blast intro: on_server_first)
      apply (blast intro: on_ib_first)
     apply (simp_all add: ret_s_def split: prod.split)
  done

text \<open>A request asks for memory, for a copy, or for the release of other memory than that at \<open>p\<close>, or is one of the
  requests that do not differ; or the thread of a copy runs.\<close>

inductive ib_step :: "nat \<Rightarrow> 'd env \<Rightarrow> u64 \<Rightarrow> 'd ib_server \<Rightarrow> 'd ib_server \<Rightarrow> bool" for fuel E p where
  ib_malloc: "cuda_malloc_ib E rq argp s = Inr (r, t) \<Longrightarrow> ib_step fuel E p s t"
| ib_copy: "cuda_memcpy_ib fuel E rq q sz kind s = Inr (r, t) \<Longrightarrow> ib_step fuel E p s t"
| ib_release: "q \<noteq> p \<Longrightarrow> cuda_free_ib E rq q s = Inr (r, t) \<Longrightarrow> ib_step fuel E p s t"
| ib_run: "ib_thread fuel E s = Inr ((), t) \<Longrightarrow> ib_step fuel E p s t"
| ib_other: "request E proc h \<Longrightarrow> proc \<notin> {402, 414, 447} \<Longrightarrow> on_server h s = Inr (r, t) \<Longrightarrow> ib_step fuel E p s t"

inductive ib_served :: "nat \<Rightarrow> 'd env \<Rightarrow> u64 \<Rightarrow> 'd ib_server \<Rightarrow> 'd ib_server \<Rightarrow> bool" for fuel E p s where
  ib_served_start: "ib_served fuel E p s s"
| ib_served_step: "ib_served fuel E p s t \<Longrightarrow> ib_step fuel E p t u \<Longrightarrow> ib_served fuel E p s u"

lemma memcpy_ib_first: "ib_keeps p (cuda_memcpy_ib fuel E rq q sz kind)"
  unfolding cuda_memcpy_ib_def by (intro ib_keeps_intros keeps_intros)

lemma thread_ib_first: "ib_keeps p (ib_thread fuel E)"
proof -
  have k: "ib_keeps p (bind_s (on_ib (ib_responder_recv fuel E q index sz True)) (\<lambda>_. ret_s ()))" for q index sz
    by (intro ib_keeps_intros)
  show ?thesis
    using k unfolding ib_keeps_def ib_thread_def by (fastforce split: list.split_asm)
qed

lemma malloc_ib_first: "ib_keeps p (cuda_malloc_ib E rq argp)"
proof -
  have cnt: "ib_keeps p (bind_s (on_server (get_s hainfo_cnt)) k)" if "\<And>cnt. cnt \<noteq> 0 \<Longrightarrow> ib_keeps p (k cnt)" for k :: "nat \<Rightarrow> ('d, 'b) ib_handler"
    unfolding ib_keeps_def
  proof (intro allI impI)
    fix s x t
    assume "bind_s (on_server (get_s hainfo_cnt)) k s = Inr (x, t)" and f: "first_entry p (isrv s)"
    then have "k (hainfo_cnt (isrv s)) s = Inr (x, t)" by (simp add: bind_s_def on_server_def get_s_def)
    moreover have "hainfo_cnt (isrv s) \<noteq> 0" using f by (simp add: first_entry_def)
    ultimately show "first_entry p (isrv t)" using that f unfolding ib_keeps_def by blast
  qed
  have inc: "keeps (first_kept p) (modify_s (\<lambda>s. s\<lparr>hainfo_cnt := hainfo_cnt s + 1\<rparr>))"
    by (auto simp: keeps_def first_kept_def first_entry_def modify_s_def)
  show ?thesis
    unfolding cuda_malloc_ib_def Let_def
    apply (rule ib_keeps_intros(1))
     apply (intro ib_keeps_intros keeps_intros)
    apply (rule cnt)
    apply (intro ib_keeps_intros keeps_intros first_alloc(1) inc; assumption)
    done
qed

lemma search_from: "hainfo_search hs q i n = Inr j \<Longrightarrow> j = - 1 \<or> int i \<le> j"
proof (induction n arbitrary: i)
  case (Suc n)
  show ?case
  proof (cases "length hs \<le> i \<or> hai_server_ptr (hs ! i) \<noteq> 0 \<and> hai_server_ptr (hs ! i) = q")
    case False
    then have "hainfo_search hs q (Suc i) n = Inr j" using Suc.prems by auto
    from Suc.IH [OF this] show ?thesis by auto
  qed (use Suc.prems in \<open>auto split: if_split_asm\<close>)
qed simp

lemma index_not_first:
  assumes "first_entry p s" and "q \<noteq> p" and "hainfo_getserverindex q s = Inr (j, t)"
  shows "j \<noteq> 0" and "t = s"
proof -
  obtain n where n: "hainfo_cnt s = Suc n" using assms(1) by (cases "hainfo_cnt s") (auto simp: first_entry_def)
  have "hainfo_search (hainfo s) q 1 n = Inr j"
    using assms n by (auto simp: first_entry_def hainfo_getserverindex_def bind_r_Inr_iff split: if_split_asm)
  from search_from [OF this] show "j \<noteq> 0" by auto
  show "t = s" using assms(3) by (auto simp: hainfo_getserverindex_def bind_r_Inr_iff)
qed

lemma free_ib_first:
  assumes "q \<noteq> p"
  shows "ib_keeps p (cuda_free_ib E rq q)"
proof -
  have index: "ib_keeps p (bind_s (on_server (hainfo_getserverindex q)) k)" if "\<And>j. j \<noteq> 0 \<Longrightarrow> ib_keeps p (k j)"
    for k :: "int \<Rightarrow> ('d, 'b) ib_handler"
    unfolding ib_keeps_def
  proof (intro allI impI)
    fix s x t
    assume h: "bind_s (on_server (hainfo_getserverindex q)) k s = Inr (x, t)" and f: "first_entry p (isrv s)"
    obtain j u where j: "on_server (hainfo_getserverindex q) s = Inr (j, u)" "k j u = Inr (x, t)"
      by (rule bind_sE [OF h])
    obtain v where v: "hainfo_getserverindex q (isrv s) = Inr (j, v)" "u = s\<lparr>isrv := v\<rparr>"
      by (rule on_serverE [OF j(1)])
    have "j \<noteq> 0" "v = isrv s" using index_not_first [OF f assms v(1)] by auto
    then show "first_entry p (isrv t)" using that [of j] j(2) f v(2) unfolding ib_keeps_def by fastforce
  qed
  have set: "j \<noteq> 0 \<Longrightarrow> keeps (first_kept p) (hainfo_set j h)" for j h
    by (auto simp: keeps_def first_kept_def dest: first_entry_set)
  show ?thesis
    unfolding cuda_free_ib_def
    apply (rule ib_keeps_intros(1))
     apply (intro ib_keeps_intros keeps_intros)
    apply (rule index)
    apply (intro ib_keeps_intros keeps_intros set; assumption)
    done
qed

lemma ib_keepsD: "ib_keeps p m \<Longrightarrow> m s = Inr (x, t) \<Longrightarrow> first_entry p (isrv s) \<Longrightarrow> first_entry p (isrv t)"
  unfolding ib_keeps_def by blast

lemma ib_step_first: "ib_step fuel E p s t \<Longrightarrow> first_entry p (isrv s) \<Longrightarrow> first_entry p (isrv t)"
proof (induction rule: ib_step.induct)
  case ib_malloc
  then show ?case by (rule ib_keepsD [OF malloc_ib_first])
next
  case ib_copy
  then show ?case by (rule ib_keepsD [OF memcpy_ib_first])
next
  case ib_release
  then show ?case by (metis ib_keepsD free_ib_first)
next
  case ib_run
  then show ?case by (rule ib_keepsD [OF thread_ib_first])
next
  case (ib_other proc h s r t)
  from on_server_first [OF ib_other(3) request_first [OF ib_other(1)] ib_other(4)] show ?case .
qed

lemma ib_served_first: "ib_served fuel E p s t \<Longrightarrow> first_entry p (isrv s) \<Longrightarrow> first_entry p (isrv t)"
  by (induction rule: ib_served.induct) (auto dest: ib_step_first)

text \<open>C39: The first allocation of a server with InfiniBand can not be the source or target of a copy as long as it is
  not released: whatever requests are served and threads run after it, of this client or others, a request for a copy
  of it is refused, and starts neither a thread nor a transfer. The client, which does not look at the reply, waits for
  a connection all the same.
\<close>

theorem ib_first_allocation_refused:
  assumes "cuda_malloc_ib E rq argp s = Inr (Reply [Int32 0, Word64 p], t)" "hainfo_cnt (isrv s) = 0" "p \<noteq> 0"
    and "ib_served fuel E p t u"
    and "steady E" "list_rep (api_records (isrv u)) xs" "room (heap_ok E) (api_records (isrv u))"
  shows "\<exists>v. cuda_memcpy_ib fuel E rq' p sz kind u = Inr (Reply [Int32 cudaErrorInitializationError], v) \<and>
    ithreads v = ithreads u \<and> iib v = iib u \<and> gpu (isrv v) = gpu (isrv u)"
proof -
  have "first_entry p (isrv t)" using malloc_ib_registers [OF assms(1,2)] by (simp add: first_entry_def)
  from ib_served_first [OF assms(4) this] have m: "hainfo_cnt (isrv u) \<noteq> 0" "hainfo (isrv u) \<noteq> []"
    "hai_idx (hainfo (isrv u) ! 0) = 0" "hai_server_ptr (hainfo (isrv u) ! 0) = p"
    by (auto simp: first_entry_def)
  have index: "hainfo_getserverindex p (isrv u) = Inr (0, isrv u)"
    using m assms(3) by (cases "hainfo (isrv u)"; cases "hainfo_cnt (isrv u)") (simp_all add: hainfo_getserverindex_def)
  let ?fs = "[(0, i32 0), (8, i64 p), (16, i64 sz), (24, i32 kind)]"
  have "fields_fit ?fs 32" by (simp add: fields_fit_def i64_def)
  then obtain l where l: "recorded E rq' 32 ?fs ret_h (isrv u) = ret_h (length xs) ((isrv u)\<lparr>api_records := l\<rparr>)"
    "list_rep l (xs @ [call_record E rq' 32 (Some (put_fields ?fs (replicate 32 (fresh_byte E))))])"
    using recorded_opens [OF assms(5) _ _ assms(6,7), of 32 ?fs rq' ret_h] by auto
  obtain l' where l': "set_result (length xs) cudaErrorInitializationError ((isrv u)\<lparr>api_records := l\<rparr>) =
      Inr ((), (isrv u)\<lparr>api_records := l'\<rparr>)"
    using set_result_last [of "(isrv u)\<lparr>api_records := l\<rparr>" xs _ cudaErrorInitializationError] l(2) by auto
  show ?thesis
    using index l(1) l' m
    by (simp add: cuda_memcpy_ib_def bind_s_def on_server_def ret_h_def ret_s_def hainfo_at_def)
qed

definition sample_ib_server :: "unit ib_server" where
  "sample_ib_server = \<lparr>isrv = sample_server, iib = sample_ib (), ithreads = []\<rparr>"

definition ib_cuda_env :: "unit env" where
  "ib_cuda_env = roomy_env\<lparr>cuda := (\<lambda>name _ w. (0, [Word64 0x7000, Int32 8], w))\<rparr>"

lemma four_cells: "replicate 4 x = [x, x, x, x]"
  by (simp add: eval_nat_numeral)

lemma sample_recorded:
  "\<exists>r. recorded ib_cuda_env 414 8 [(0, i64 100)] ret_h sample_server =
    Inr (0, sample_server\<lparr>api_records := \<lparr>elements = Buf [Some r, None, None, None], len = 1, capacity = 4, element_size = 64\<rparr>\<rparr>)"
  by (simp add: recorded_def RECORD_API_def list_append_def list_get_def RECORD_ARG_def update_record_def elem_at_def set_elem_def
      server_on_def ib_cuda_env_def roomy_env_def sample_env_def glibc_def wrap64_def ret_h_def i64_def four_cells)

lemma sample_malloc:
  "\<exists>t r. cuda_malloc_ib ib_cuda_env 414 100 sample_ib_server = Inr (Reply [Int32 0, Word64 0x7000], t) \<and>
    api_records (isrv t) = \<lparr>elements = Buf [Some r, None, None, None], len = 1, capacity = 4, element_size = 64\<rparr> \<and>
    ithreads t = []"
proof -
  obtain r where r: "recorded ib_cuda_env 414 8 [(0, i64 100)] ret_h sample_server =
    Inr (0, sample_server\<lparr>api_records := \<lparr>elements = Buf [Some r, None, None, None], len = 1, capacity = 4, element_size = 64\<rparr>\<rparr>)"
    using sample_recorded by blast
  have a: "ib_allocate_memreg ib_cuda_env (Some m) 100 0 True (sample_ib ()) =
      Inr ((0, Some 0x7000), (sample_ib ())\<lparr>mrs := [Some 8]\<rparr>)" for m
    by (simp add: ib_allocate_memreg_def gpu_memreg_def zero_or_exit_def bind_i_def verb_def ret_i_def reg_mr_def get_i_def
        created_def modify_i_def sample_ib_def ib_cuda_env_def out64_def out32_def Let_def)
  have h: "hainfo_cnt sample_server = 0" "hainfo sample_server \<noteq> []" by (simp_all add: server_on_def)
  have w: "(sample_ib ())\<lparr>world := u\<rparr> = sample_ib ()" for u by (simp add: sample_ib_def)
  show ?thesis
    by (simp add: cuda_malloc_ib_def bind_s_def on_server_def on_ib_def sample_ib_server_def r get_s_def a w h ret_s_def
        hainfo_at_def hainfo_set_def modify_s_def set_result_ptr_def on_log_def RECORD_RESULT_ptr_def update_record_def elem_at_def
        set_elem_def list_get_def Let_def)
qed

lemma sample_step: "ib_step fuel ib_cuda_env p t t" for t :: "unit ib_server"
proof -
  have "on_server (cuda_get_device_count_1_svc ib_cuda_env) t = Inr (Reply [Int32 0, Int32 (out32 ib_cuda_env [Word64 0x7000, Int32 8] 0)], t)"
    by (simp add: on_server_def cuda_get_device_count_1_svc_def query_call_def lib_call_def cuda_call_def bind_h_def ret_h_def
        ib_cuda_env_def)
  then show ?thesis
    by (intro ib_other [of _ 118 "cuda_get_device_count_1_svc ib_cuda_env"]) (simp_all add: request_def runtime_request.intros)
qed

text \<open>The request after the allocation asks for the number of devices, which the sample device answers without a change.\<close>

theorem ib_first_allocation_refused_witness:
  "\<exists>t u. cuda_malloc_ib ib_cuda_env 414 100 sample_ib_server = Inr (Reply [Int32 0, Word64 0x7000], t) \<and>
    ib_step 5 ib_cuda_env 0x7000 t t \<and>
    cuda_memcpy_ib 5 ib_cuda_env 447 0x7000 8 1 t = Inr (Reply [Int32 cudaErrorInitializationError], u) \<and> ithreads u = []"
proof -
  obtain t r where t: "cuda_malloc_ib ib_cuda_env 414 100 sample_ib_server = Inr (Reply [Int32 0, Word64 0x7000], t)"
    "api_records (isrv t) = \<lparr>elements = Buf [Some r, None, None, None], len = 1, capacity = 4, element_size = 64\<rparr>"
    "ithreads t = []"
    using sample_malloc by auto
  have "list_rep (api_records (isrv t)) [r]" "room (heap_ok ib_cuda_env) (api_records (isrv t))"
    using t(2) by (simp_all add: list_rep_def list_wf_def list_abs_def room_def)
  moreover have "steady ib_cuda_env" using roomy_steady by (simp add: ib_cuda_env_def steady_def)
  moreover have "hainfo_cnt (isrv sample_ib_server) = 0" by (simp add: sample_ib_server_def server_on_def)
  moreover have "ib_served 5 ib_cuda_env 0x7000 t t" by (rule ib_served_step [OF ib_served_start sample_step])
  ultimately show ?thesis
    using ib_first_allocation_refused [OF t(1), of 5 t "[r]" 447 8 1] t(1,3) sample_step by auto
qed

end
