(* ===== verification/MtBack.thy ===== *)
theory MtBack
  imports MtCopy
begin

text \<open>
  The other direction of a transfer with several threads (\<open>cpu/mt-memcpy.c\<close>): every thread of the server copies its
  piece from the device into the server's buffer and sends the number of the piece and the piece; every thread of
  the client receives the number, and the piece into the application's buffer. The threads of both sides run
  interleaved, and a thread of the client can be connected to any thread of the server. The order of the bytes of a
  connection is kept, how they are cut is not; a thread that waits for bytes does not make a step.
\<close>

section \<open>The threads of the server\<close>

text \<open>A thread has its connection, has copied its piece, has sent its number, has sent the piece, or has given up.\<close>

datatype fetch_stage = Opened | Fetched | Announced | Answered | Broken

text \<open>The results of \<open>send\<close> are an argument. The result has the bytes sent. The address in the server's buffer is not
  an argument of the call; what is copied is its first output.\<close>

fun dtoh_step ::
  "'d env \<Rightarrow> mt_memcpy_server \<Rightarrow> nat \<Rightarrow> int list \<Rightarrow> fetch_stage \<Rightarrow> u8 list \<Rightarrow> 'd server \<Rightarrow>
   (fetch_stage \<times> u8 list \<times> u8 list \<times> 'd server) res" where
  "dtoh_step E srv tid rets Opened mem s =
     bind_r (mem_part (mt_mem_size srv) (mt_thread_num srv) tid) (\<lambda>(off, l).
       if length mem < off + l then Inl Out_Of_Bounds
       else bind_r (resource_mg_get (rm_memory s) (mt_dev_ptr srv)) (\<lambda>p.
         bind_r (cuda_call E ''cudaMemcpy'' [Word64 (p + of_nat off), Word64 (of_nat l), Int32 2] s)
           (\<lambda>((err, outs), s).
             Inr (if err \<noteq> 0 then (Broken, [], mem, s) else (Fetched, [], blit mem off (out_bytes E outs 0 l), s)))))"
| "dtoh_step E srv tid rets Fetched mem s =
     bind_r (oob_send_s rets (Some (le_bytes 4 tid)) 4) (\<lambda>(r, wire).
       Inr (if as_size r \<noteq> 4 then Broken else Announced, wire, mem, s))"
| "dtoh_step E srv tid rets Announced mem s =
     bind_r (mem_part (mt_mem_size srv) (mt_thread_num srv) tid) (\<lambda>(off, l).
     bind_r (oob_send_s rets (Some (drop off mem)) l) (\<lambda>(r, wire).
       Inr (if as_size r \<noteq> l then Broken else Answered, wire, mem, s)))"
| "dtoh_step E srv tid rets Answered mem s = Inr (Answered, [], mem, s)"
| "dtoh_step E srv tid rets Broken mem s = Inr (Broken, [], mem, s)"

text \<open>How much a thread asks \<open>send\<close> to take.\<close>

definition fetch_sends :: "mt_memcpy_server \<Rightarrow> nat \<Rightarrow> fetch_stage \<Rightarrow> nat" where
  "fetch_sends srv tid st = (case st of
     Fetched \<Rightarrow> 4
   | Announced \<Rightarrow> (case mem_part (mt_mem_size srv) (mt_thread_num srv) tid of Inr (_, l) \<Rightarrow> l | Inl _ \<Rightarrow> 0)
   | _ \<Rightarrow> 0)"

section \<open>The threads of the client\<close>

datatype take_stage = Waiting nat | Told nat | Stored | Lost

text \<open>The number a thread has been started with is overwritten.\<close>

fun mt_client_dtoh ::
  "recv_result list \<Rightarrow> int \<Rightarrow> take_stage \<Rightarrow> u8 list \<Rightarrow> (take_stage \<times> u8 list \<times> recv_result list) res" where
  "mt_client_dtoh rs threads (Waiting tid) host =
     bind_r (oob_receive_s rs (Some (le_bytes 4 tid)) 4) (\<lambda>(r, b, rs).
       Inr (if as_size r \<noteq> 4 then Lost else Told (le_val (the b)), host, rs))"
| "mt_client_dtoh rs threads (Told tid) host =
     bind_r (mem_part (length host) threads tid) (\<lambda>(off, l).
     bind_r (oob_receive_s rs (Some (drop off host)) l) (\<lambda>(r, b, rs).
       Inr (if as_size r \<noteq> l then Lost else Stored, take off host @ the b, rs)))"
| "mt_client_dtoh rs threads Stored host = Inr (Stored, host, rs)"
| "mt_client_dtoh rs threads Lost host = Inr (Lost, host, rs)"

definition take_asks :: "nat \<Rightarrow> int \<Rightarrow> take_stage \<Rightarrow> nat" where
  "take_asks sz threads st = (case st of
     Waiting _ \<Rightarrow> 4
   | Told tid \<Rightarrow> (case mem_part sz threads tid of Inr (_, l) \<Rightarrow> l | Inl _ \<Rightarrow> 0)
   | _ \<Rightarrow> 0)"

section \<open>Runs\<close>

text \<open>The bytes of a connection that have been sent and not yet received; connections have the number of the server's thread.\<close>

record 'd back_run =
  bk_server :: "fetch_stage list"
  bk_client :: "take_stage list"
  bk_wires :: "u8 list list"
  bk_mem :: "u8 list"
  bk_host :: "u8 list"
  bk_state :: "'d server"

inductive back_step :: "'d env \<Rightarrow> mt_memcpy_server \<Rightarrow> int \<Rightarrow> nat list \<Rightarrow> 'd back_run \<Rightarrow> 'd back_run \<Rightarrow> bool"
  for E srv threads order where
  back_serve: "i < length (bk_server r) \<Longrightarrow> bk_server r ! i \<notin> {Answered, Broken} \<Longrightarrow>
    \<forall>k \<in> set ks. 0 < k \<Longrightarrow> sum_list ks = fetch_sends srv i (bk_server r ! i) \<Longrightarrow>
    dtoh_step E srv i (map int ks) (bk_server r ! i) (bk_mem r) (bk_state r) = Inr (st, out, mem, s) \<Longrightarrow>
    back_step E srv threads order r (r\<lparr>bk_server := (bk_server r)[i := st], bk_wires := (bk_wires r)[i := bk_wires r ! i @ out],
      bk_mem := mem, bk_state := s\<rparr>)"
| back_take: "j < length (bk_client r) \<Longrightarrow> bk_client r ! j \<notin> {Stored, Lost} \<Longrightarrow>
    \<forall>bs \<in> set bss. bs \<noteq> [] \<Longrightarrow> bk_wires r ! (order ! j) = concat bss @ rest \<Longrightarrow>
    length (concat bss) = take_asks (length (bk_host r)) threads (bk_client r ! j) \<Longrightarrow>
    mt_client_dtoh (map Got bss) threads (bk_client r ! j) (bk_host r) = Inr (st, host, rs) \<Longrightarrow>
    back_step E srv threads order r (r\<lparr>bk_client := (bk_client r)[j := st], bk_wires := (bk_wires r)[order ! j := rest],
      bk_host := host\<rparr>)"

inductive_cases back_stepE: "back_step E srv threads order r r'"

section \<open>One step\<close>

text \<open>What the code relies on in \<open>cudaMemcpy\<close> in this direction.\<close>

definition readable_device :: "'d env \<Rightarrow> ('d \<Rightarrow> u64 \<Rightarrow> u8) \<Rightarrow> bool" where
  "readable_device E bytes \<longleftrightarrow> (\<forall>d p l. l < 2 ^ 63 \<longrightarrow> (\<exists>d'.
     cuda E ''cudaMemcpy'' [Word64 p, Word64 (of_nat l), Int32 2] d =
       (0, [Bytes (map (\<lambda>j. bytes d (p + of_nat j)) [0..<l])], d') \<and> bytes d' = bytes d))"

definition back_setting ::
  "'d env \<Rightarrow> ('d \<Rightarrow> u64 \<Rightarrow> u8) \<Rightarrow> mt_memcpy_server \<Rightarrow> u8 list \<Rightarrow> nat list \<Rightarrow> bool" where
  "back_setting E bytes srv img order \<longleftrightarrow> readable_device E bytes \<and> mt_fits (length img) (length order) \<and>
     mt_mem_size srv = length img \<and> mt_thread_num srv = int (length order) \<and>
     distinct order \<and> set order = {..<length order}"

definition image_at :: "('d \<Rightarrow> u64 \<Rightarrow> u8) \<Rightarrow> u64 \<Rightarrow> u8 list \<Rightarrow> 'd server \<Rightarrow> mt_memcpy_server \<Rightarrow> bool" where
  "image_at bytes p img s srv \<longleftrightarrow> resource_mg_get (rm_memory s) (mt_dev_ptr srv) = Inr p \<and>
     (\<forall>x < length img. bytes (gpu s) (p + of_nat x) = img ! x)"

text \<open>What a thread of the server has sent, and a thread of the client received, at each stage.\<close>

fun sent_at :: "u8 list \<Rightarrow> nat \<Rightarrow> nat \<Rightarrow> fetch_stage \<Rightarrow> u8 list" where
  "sent_at img n i Announced = le_bytes 4 i"
| "sent_at img n i Answered = le_bytes 4 i @ piece img n i"
| "sent_at img n i _ = []"

fun taken_at :: "u8 list \<Rightarrow> nat \<Rightarrow> nat \<Rightarrow> take_stage \<Rightarrow> u8 list" where
  "taken_at img n i (Told t) = le_bytes 4 i"
| "taken_at img n i Stored = le_bytes 4 i @ piece img n i"
| "taken_at img n i _ = []"

definition server_ok :: "u8 list \<Rightarrow> nat \<Rightarrow> nat \<Rightarrow> u8 list \<Rightarrow> fetch_stage \<Rightarrow> bool" where
  "server_ok img n i mem st \<longleftrightarrow> st \<noteq> Broken \<and> (st \<noteq> Opened \<longrightarrow>
     blk (piece_off (length img) n i) (piece_len (length img) n i) mem = piece img n i)"

definition client_ok :: "u8 list \<Rightarrow> nat \<Rightarrow> nat \<Rightarrow> u8 list \<Rightarrow> take_stage \<Rightarrow> bool" where
  "client_ok img n i host st \<longleftrightarrow> st \<noteq> Lost \<and> (\<forall>t. st = Told t \<longrightarrow> t = i) \<and> (st = Stored \<longrightarrow>
     blk (piece_off (length img) n i) (piece_len (length img) n i) host = piece img n i)"

lemma dtoh_opened:
  assumes "readable_device E bytes" "mt_fits (length img) n" "mt_mem_size srv = length img" "mt_thread_num srv = int n"
    and "i < n" "length mem = length img" "image_at bytes p img s srv"
  obtains d' where "dtoh_step E srv i rets Opened mem s =
      Inr (Fetched, [], blit mem (piece_off (length img) n i) (piece img n i), s\<lparr>gpu := d'\<rparr>)"
    and "image_at bytes p img (s\<lparr>gpu := d'\<rparr>) srv"
proof -
  let ?off = "piece_off (length img) n i" and ?l = "piece_len (length img) n i"
  have fit: "?off + ?l \<le> length img" by (rule piece_inside [OF assms(5)])
  then have small: "?l < 2 ^ 63" using assms(2) by (simp add: mt_fits_def)
  obtain d' where d': "cuda E ''cudaMemcpy'' [Word64 (p + of_nat ?off), Word64 (of_nat ?l), Int32 2] (gpu s) =
       (0, [Bytes (map (\<lambda>j. bytes (gpu s) (p + of_nat ?off + of_nat j)) [0..<?l])], d')" "bytes d' = bytes (gpu s)"
    using assms(1) small unfolding readable_device_def by blast
  have "map (\<lambda>j. bytes (gpu s) (p + of_nat ?off + of_nat j)) [0..<?l] = piece img n i"
  proof (rule nth_equalityI)
    fix j assume "j < length (map (\<lambda>j. bytes (gpu s) (p + of_nat ?off + of_nat j)) [0..<?l])"
    then have j: "j < ?l" by simp
    have "?off + j < length img" using j fit by linarith
    then have "bytes (gpu s) (p + of_nat (?off + j)) = img ! (?off + j)"
      using assms(7) unfolding image_at_def by blast
    then show "map (\<lambda>j. bytes (gpu s) (p + of_nat ?off + of_nat j)) [0..<?l] ! j = piece img n i ! j"
      using j fit by (simp add: piece_def blk_def add.assoc)
  qed (simp add: length_piece [OF assms(5)])
  then have "out_bytes E [Bytes (map (\<lambda>j. bytes (gpu s) (p + of_nat ?off + of_nat j)) [0..<?l])] 0 ?l = piece img n i"
    using length_piece [OF assms(5), of img] by (simp add: out_bytes_def)
  then have "dtoh_step E srv i rets Opened mem s = Inr (Fetched, [], blit mem ?off (piece img n i), s\<lparr>gpu := d'\<rparr>)"
    using mem_part_piece [OF assms(2,5)] assms(3,4,6,7) fit d'(1) by (simp add: image_at_def cuda_call_def)
  moreover have "image_at bytes p img (s\<lparr>gpu := d'\<rparr>) srv" using assms(7) d'(2) by (simp add: image_at_def)
  ultimately show thesis by (rule that)
qed

lemma dtoh_fetched:
  assumes "\<forall>k \<in> set ks. 0 < k" "sum_list ks = 4"
  shows "dtoh_step E srv i (map int ks) Fetched mem s = Inr (Announced, le_bytes 4 i, mem, s)"
  using send_all [of ks "le_bytes 4 i"] assms as_size_int [of 4] by simp

lemma dtoh_announced:
  assumes "mt_fits (length img) n" "mt_mem_size srv = length img" "mt_thread_num srv = int n" "i < n"
    and "length mem = length img" "server_ok img n i mem Announced"
    and "\<forall>k \<in> set ks. 0 < k" "sum_list ks = piece_len (length img) n i"
  shows "dtoh_step E srv i (map int ks) Announced mem s = Inr (Answered, piece img n i, mem, s)"
proof -
  let ?off = "piece_off (length img) n i" and ?l = "piece_len (length img) n i"
  have l: "?l < 2 ^ 31" "?off + ?l \<le> length img" using piece_small [OF assms(1,4)] piece_inside [OF assms(4)] by simp_all
  have "oob_send_s (map int ks) (Some (drop ?off mem)) ?l = Inr (int ?l, piece img n i)"
    using send_all [of ks "drop ?off mem"] assms(5-8) l by (simp add: server_ok_def blk_def)
  then show ?thesis using mem_part_piece [OF assms(1,4)] as_size_int [of ?l] l(1) assms(2,3) by simp
qed

lemma got_all: "\<forall>bs \<in> set bss. bs \<noteq> [] \<Longrightarrow> carries (map Got bss) (concat bss) []"
  by (auto simp: carries_def)

lemma client_waiting:
  assumes "\<forall>bs \<in> set bss. bs \<noteq> []" "concat bss = le_bytes 4 i" "i < 2 ^ 32"
  shows "mt_client_dtoh (map Got bss) threads (Waiting t) host = Inr (Told i, host, [])"
  using receive_carried [OF got_all [OF assms(1)], of "le_bytes 4 t"] assms(2,3) as_size_int [of 4]
  by (simp add: le_val_le_bytes)

lemma client_told:
  assumes "mt_fits (length img) n" "i < n" "length host = length img"
    and "\<forall>bs \<in> set bss. bs \<noteq> []" "concat bss = piece img n i"
  shows "mt_client_dtoh (map Got bss) (int n) (Told i) host =
    Inr (Stored, blit host (piece_off (length img) n i) (piece img n i), [])"
proof -
  let ?off = "piece_off (length img) n i" and ?l = "piece_len (length img) n i"
  have l: "?l < 2 ^ 31" "?off + ?l \<le> length img" "length (piece img n i) = ?l"
    using piece_small [OF assms(1,2)] piece_inside [OF assms(2)] length_piece [OF assms(2)] by simp_all
  have "oob_receive_s (map Got bss) (Some (drop ?off host)) ?l =
      Inr (int ?l, Some (piece img n i @ drop ?l (drop ?off host)), [])"
    using receive_carried [OF got_all [OF assms(4)], of "drop ?off host"] assms(3,5) l by simp
  then show ?thesis
    using mem_part_piece [OF assms(1,2)] as_size_int [of ?l] l assms(3) by (simp add: blit_def add.commute)
qed

section \<open>The invariant\<close>

definition back_inv ::
  "('d \<Rightarrow> u64 \<Rightarrow> u8) \<Rightarrow> mt_memcpy_server \<Rightarrow> u64 \<Rightarrow> u8 list \<Rightarrow> nat list \<Rightarrow> 'd back_run \<Rightarrow> bool" where
  "back_inv bytes srv p img order r \<longleftrightarrow>
     length (bk_server r) = length order \<and> length (bk_client r) = length order \<and> length (bk_wires r) = length order \<and>
     length (bk_mem r) = length img \<and> length (bk_host r) = length img \<and> image_at bytes p img (bk_state r) srv \<and>
     (\<forall>i < length order. server_ok img (length order) i (bk_mem r) (bk_server r ! i)) \<and>
     (\<forall>j < length order. client_ok img (length order) (order ! j) (bk_host r) (bk_client r ! j) \<and>
        taken_at img (length order) (order ! j) (bk_client r ! j) @ bk_wires r ! (order ! j) =
        sent_at img (length order) (order ! j) (bk_server r ! (order ! j)))"

fun fetch_rank :: "fetch_stage \<Rightarrow> nat" where
  "fetch_rank Opened = 3"
| "fetch_rank Fetched = 2"
| "fetch_rank Announced = 1"
| "fetch_rank Answered = 0"
| "fetch_rank Broken = 0"

fun take_rank :: "take_stage \<Rightarrow> nat" where
  "take_rank (Waiting t) = 2"
| "take_rank (Told t) = 1"
| "take_rank Stored = 0"
| "take_rank Lost = 0"

definition back_left :: "'d back_run \<Rightarrow> nat" where
  "back_left r = sum_list (map fetch_rank (bk_server r)) + sum_list (map take_rank (bk_client r))"

lemma back_settingD:
  assumes "back_setting E bytes srv img order"
  shows "readable_device E bytes" and "mt_fits (length img) (length order)"
    and "mt_mem_size srv = length img" and "mt_thread_num srv = int (length order)"
    and "j < length order \<Longrightarrow> order ! j < length order"
    and "j < length order \<Longrightarrow> k < length order \<Longrightarrow> j \<noteq> k \<Longrightarrow> order ! j \<noteq> order ! k"
    and "i < length order \<Longrightarrow> \<exists>j < length order. order ! j = i"
proof -
  show "i < length order \<Longrightarrow> \<exists>j < length order. order ! j = i"
    using assms unfolding back_setting_def by (metis in_set_conv_nth lessThan_iff)
qed (use assms nth_mem [of j order] in \<open>auto simp: back_setting_def nth_eq_iff_index_eq\<close>)

lemma rank_update:
  fixes f :: "'a \<Rightarrow> nat"
  assumes "i < length xs" "f (xs ! i) = Suc (f x)"
  shows "Suc (sum_list (map f (xs[i := x]))) = sum_list (map f xs)"
  using assms sum_list_update [of i "map f xs" "f x"] elem_le_sum_list [of i "map f xs"] by (simp add: map_update)

lemma piece_kept:
  assumes "length xs = length img" "i < n" "k < n" "k \<noteq> i"
  shows "blk (piece_off (length img) n k) (piece_len (length img) n k) (blit xs (piece_off (length img) n i) (piece img n i)) =
    blk (piece_off (length img) n k) (piece_len (length img) n k) xs"
  using piece_disjoint [OF assms(3,2,4), of "length img"] piece_inside [OF assms(2), of "length img"]
    length_piece [OF assms(2), of img] assms(1)
  by (intro blk_blit_disjoint) auto

lemma piece_placed:
  assumes "length xs = length img" "i < n"
  shows "blk (piece_off (length img) n i) (piece_len (length img) n i) (blit xs (piece_off (length img) n i) (piece img n i)) =
      piece img n i"
    and "length (blit xs (piece_off (length img) n i) (piece img n i)) = length img"
  using blk_blit [of "piece_off (length img) n i" "piece img n i" xs] piece_inside [OF assms(2), of "length img"]
    length_piece [OF assms(2), of img] assms(1) by simp_all

lemma serve_one:
  assumes set: "back_setting E bytes srv img order" and i: "i < length order" and len: "length mem = length img"
    and ok: "server_ok img (length order) i mem st" and at: "image_at bytes p img s srv" and run: "st \<notin> {Answered, Broken}"
    and ks: "\<forall>k \<in> set ks. 0 < k" "sum_list ks = fetch_sends srv i st"
  obtains st' out mem' s' where "dtoh_step E srv i (map int ks) st mem s = Inr (st', out, mem', s')"
    and "server_ok img (length order) i mem' st'" "length mem' = length img" "image_at bytes p img s' srv"
    and "sent_at img (length order) i st' = sent_at img (length order) i st @ out" "fetch_rank st = Suc (fetch_rank st')"
    and "\<And>k sv. k < length order \<Longrightarrow> k \<noteq> i \<Longrightarrow> server_ok img (length order) k mem sv \<Longrightarrow> server_ok img (length order) k mem' sv"
proof (cases st)
  case Opened
  let ?m = "blit mem (piece_off (length img) (length order) i) (piece img (length order) i)"
  note D = back_settingD [OF set]
  obtain d' where d: "dtoh_step E srv i (map int ks) Opened mem s = Inr (Fetched, [], ?m, s\<lparr>gpu := d'\<rparr>)"
    "image_at bytes p img (s\<lparr>gpu := d'\<rparr>) srv"
    using dtoh_opened [OF D(1-4) i len at] by blast
  show thesis
    by (rule that [of Fetched "[]" ?m "s\<lparr>gpu := d'\<rparr>"])
      (use Opened d piece_placed [OF len i] piece_kept [OF len i] in \<open>simp_all add: server_ok_def\<close>)
next
  case Fetched
  then have "dtoh_step E srv i (map int ks) st mem s = Inr (Announced, le_bytes 4 i, mem, s)"
    using dtoh_fetched [OF ks(1)] ks(2) by (simp add: fetch_sends_def)
  then show thesis using Fetched ok len at by (intro that [of Announced "le_bytes 4 i" mem s]) (simp_all add: server_ok_def)
next
  case Announced
  note D = back_settingD [OF set]
  have "sum_list ks = piece_len (length img) (length order) i"
    using ks(2) Announced mem_part_piece [OF D(2) i] D(3,4) by (simp add: fetch_sends_def)
  then have "dtoh_step E srv i (map int ks) st mem s = Inr (Answered, piece img (length order) i, mem, s)"
    using dtoh_announced [OF D(2-4) i len _ ks(1)] ok Announced by simp
  then show thesis using Announced ok len at
    by (intro that [of Answered "piece img (length order) i" mem s]) (simp_all add: server_ok_def)
qed (use run in simp_all)

lemma sent_prefix: "sv \<noteq> Broken \<Longrightarrow> \<exists>z. sent_at img n i sv @ z = le_bytes 4 i @ piece img n i"
  by (cases sv) auto

lemma whole_prefix: "xs @ ys = zs \<Longrightarrow> length xs = length zs \<Longrightarrow> xs = zs"
  by (cases ys) auto

lemma take_one:
  assumes set: "back_setting E bytes srv img order" and i: "i < length order" and len: "length host = length img"
    and ok: "client_ok img (length order) i host st" and run: "st \<notin> {Stored, Lost}"
    and bss: "\<forall>bs \<in> set bss. bs \<noteq> []" "length (concat bss) = take_asks (length host) (int (length order)) st"
    and sent: "taken_at img (length order) i st @ concat bss @ rest = sent_at img (length order) i sv" "sv \<noteq> Broken"
  obtains st' host' where "mt_client_dtoh (map Got bss) (int (length order)) st host = Inr (st', host', [])"
    and "client_ok img (length order) i host' st'" "length host' = length img"
    and "taken_at img (length order) i st' = taken_at img (length order) i st @ concat bss" "take_rank st = Suc (take_rank st')"
    and "\<And>k c. k < length order \<Longrightarrow> k \<noteq> i \<Longrightarrow> client_ok img (length order) k host c \<Longrightarrow> client_ok img (length order) k host' c"
proof -
  note D = back_settingD [OF set]
  have small: "i < 2 ^ 32" using i D(2) by (simp add: mt_fits_def)
  obtain z where z: "taken_at img (length order) i st @ concat bss @ rest @ z = le_bytes 4 i @ piece img (length order) i"
    using sent_prefix [OF sent(2)] sent(1) by (metis append.assoc)
  show thesis
  proof (cases st)
    case (Waiting t)
    then have "concat bss = le_bytes 4 i"
      using z bss(2) append_eq_append_conv [of "concat bss" "le_bytes 4 i"] by (simp add: take_asks_def)
    then show thesis using Waiting client_waiting [OF bss(1) _ small] ok len
      by (intro that [of "Told i" host]) (simp_all add: client_ok_def)
  next
    case (Told t)
    then have t: "t = i" using ok by (simp add: client_ok_def)
    have "length (concat bss) = length (piece img (length order) i)"
      using bss(2) Told t mem_part_piece [OF D(2) i] length_piece [OF i] len by (simp add: take_asks_def)
    then have "concat bss = piece img (length order) i"
      using z Told whole_prefix [of "concat bss" "rest @ z"] by simp
    then show thesis using Told t client_told [OF D(2) i len bss(1)] piece_placed [OF len i] piece_kept [OF len i]
      by (intro that [of Stored "blit host (piece_off (length img) (length order) i) (piece img (length order) i)"])
        (simp_all add: client_ok_def)
  qed (use run in simp_all)
qed

lemma back_step_keeps:
  assumes set: "back_setting E bytes srv img order" and inv: "back_inv bytes srv p img order r"
    and "back_step E srv (int (length order)) order r r'"
  shows "back_inv bytes srv p img order r' \<and> Suc (back_left r') = back_left r"
  using assms(3)
proof cases
  case (back_serve i ks st out mem s)
  let ?n = "length order"
  note D = back_settingD [OF set]
  note r' = back_serve(1) and a = back_serve(2-6)
  have i: "i < ?n" using a(1) inv by (simp add: back_inv_def)
  have old: "length (bk_mem r) = length img" "server_ok img ?n i (bk_mem r) (bk_server r ! i)" "image_at bytes p img (bk_state r) srv"
    using inv i by (simp_all add: back_inv_def)
  have new: "server_ok img ?n i mem st" "length mem = length img" "image_at bytes p img s srv"
    "sent_at img ?n i st = sent_at img ?n i (bk_server r ! i) @ out" "fetch_rank (bk_server r ! i) = Suc (fetch_rank st)"
    "\<And>k sv. k < ?n \<Longrightarrow> k \<noteq> i \<Longrightarrow> server_ok img ?n k (bk_mem r) sv \<Longrightarrow> server_ok img ?n k mem sv"
    using serve_one [OF set i old a(2-4)] a(5) by (metis (no_types, lifting) Inr_inject prod.inject)+
  have "back_inv bytes srv p img order r'"
    using inv new i a(1) unfolding back_inv_def r'
    by (auto simp: nth_list_update)
  moreover have "Suc (back_left r') = back_left r"
    using rank_update [of i "bk_server r" fetch_rank st, OF a(1) new(5)] by (simp add: back_left_def r')
  ultimately show ?thesis ..
next
  case (back_take j bss rest st host rs)
  let ?n = "length order"
  note D = back_settingD [OF set]
  note r' = back_take(1) and a = back_take(2-7)
  have j: "j < ?n" using a(1) inv by (simp add: back_inv_def)
  note i = D(5) [OF j]
  have old: "length (bk_host r) = length img" "client_ok img ?n (order ! j) (bk_host r) (bk_client r ! j)"
    "taken_at img ?n (order ! j) (bk_client r ! j) @ concat bss @ rest = sent_at img ?n (order ! j) (bk_server r ! (order ! j))"
    "bk_server r ! (order ! j) \<noteq> Broken"
    using inv j i unfolding back_inv_def server_ok_def a(4) [symmetric] by blast+
  have new: "client_ok img ?n (order ! j) host st" "length host = length img"
    "taken_at img ?n (order ! j) st = taken_at img ?n (order ! j) (bk_client r ! j) @ concat bss"
    "take_rank (bk_client r ! j) = Suc (take_rank st)"
    "\<And>k c. k < ?n \<Longrightarrow> k \<noteq> order ! j \<Longrightarrow> client_ok img ?n k (bk_host r) c \<Longrightarrow> client_ok img ?n k host c"
    using take_one [OF set i old(1,2) a(2,3,5) old(3,4)] a(6) by (metis (no_types, lifting) Inr_inject prod.inject)+
  have "back_inv bytes srv p img order r'"
    using inv new j i old(3) D(5) D(6) [OF _ j] D(6) [OF j] unfolding back_inv_def r'
    by (auto simp: nth_list_update)
  moreover have "Suc (back_left r') = back_left r"
    using rank_update [of j "bk_client r" take_rank st, OF a(1) new(4)] by (simp add: back_left_def r')
  ultimately show ?thesis ..
qed

lemma back_steps_keep:
  assumes "back_setting E bytes srv img order" and "back_inv bytes srv p img order r0"
  shows "(back_step E srv (int (length order)) order ^^ k) r0 r \<Longrightarrow>
    back_inv bytes srv p img order r \<and> k + back_left r = back_left r0"
proof (induction k arbitrary: r)
  case 0
  then show ?case using assms by simp
next
  case (Suc k)
  then obtain r1 where "(back_step E srv (int (length order)) order ^^ k) r0 r1" "back_step E srv (int (length order)) order r1 r"
    by auto
  with Suc.IH [of r1] back_step_keeps [OF assms(1), of p r1 r] show ?case by auto
qed

text \<open>As long as a thread has not ended, one can go on: those of the server never wait, and then the others do not either.\<close>

lemma cut_ones: "\<exists>ks. (\<forall>k \<in> set ks. 0 < (k :: nat)) \<and> sum_list ks = n"
  by (intro exI [of _ "replicate n 1"]) (simp add: sum_list_replicate)

lemma one_cut: "\<exists>bss. (\<forall>bs \<in> set bss. bs \<noteq> []) \<and> concat bss = b"
  by (intro exI [of _ "if b = [] then [] else [b]"]) simp

lemma back_progress:
  assumes set: "back_setting E bytes srv img order" and inv: "back_inv bytes srv p img order r" and left: "back_left r \<noteq> 0"
  shows "\<exists>r'. back_step E srv (int (length order)) order r r'"
proof (cases "\<exists>i < length order. bk_server r ! i \<notin> {Answered, Broken}")
  case True
  then obtain i where i: "i < length order" "bk_server r ! i \<notin> {Answered, Broken}" by blast
  obtain ks where ks: "\<forall>k \<in> set ks. 0 < (k :: nat)" "sum_list ks = fetch_sends srv i (bk_server r ! i)"
    using cut_ones by blast
  have "length (bk_mem r) = length img" "server_ok img (length order) i (bk_mem r) (bk_server r ! i)"
    "image_at bytes p img (bk_state r) srv" "i < length (bk_server r)"
    using inv i(1) by (simp_all add: back_inv_def)
  with serve_one [OF set i(1) this(1-3) i(2) ks] show ?thesis using back_serve [OF _ i(2) ks] by metis
next
  case False
  let ?n = "length order"
  have srv: "bk_server r ! i = Answered" if "i < ?n" for i
    using False inv that by (auto simp: back_inv_def server_ok_def)
  moreover have "length (bk_server r) = ?n" using inv by (simp add: back_inv_def)
  ultimately have "\<forall>st \<in> set (bk_server r). st = Answered" by (metis in_set_conv_nth)
  then have "sum_list (map fetch_rank (bk_server r)) = 0" by (auto simp: sum_list_eq_0_iff)
  then obtain c where "c \<in> set (bk_client r)" "take_rank c \<noteq> 0" using left by (auto simp: back_left_def)
  then obtain j where j: "j < length (bk_client r)" "bk_client r ! j \<notin> {Stored, Lost}"
    by (metis in_set_conv_nth insert_iff singletonD take_rank.simps(3,4))
  then have jn: "j < ?n" using inv by (simp add: back_inv_def)
  note D = back_settingD [OF set]
  have host: "length (bk_host r) = length img" and ok: "client_ok img ?n (order ! j) (bk_host r) (bk_client r ! j)"
    and w: "taken_at img ?n (order ! j) (bk_client r ! j) @ bk_wires r ! (order ! j) = le_bytes 4 (order ! j) @ piece img ?n (order ! j)"
    using inv jn srv [OF D(5) [OF jn]] by (simp_all add: back_inv_def)
  have len: "take_asks (length (bk_host r)) (int ?n) (bk_client r ! j) \<le> length (bk_wires r ! (order ! j))"
  proof (cases "bk_client r ! j")
    case (Waiting t)
    then show ?thesis using w by (simp add: take_asks_def)
  next
    case (Told t)
    then have "t = order ! j" using ok by (simp add: client_ok_def)
    then show ?thesis
      using Told w mem_part_piece [OF D(2) D(5) [OF jn]] length_piece [OF D(5) [OF jn], of img] host by (simp add: take_asks_def)
  qed (use j in simp_all)
  define l where "l = take_asks (length (bk_host r)) (int ?n) (bk_client r ! j)"
  obtain bss where bss: "\<forall>bs \<in> set bss. bs \<noteq> []" "concat bss = take l (bk_wires r ! (order ! j))"
    using one_cut by blast
  have asks: "length (concat bss) = take_asks (length (bk_host r)) (int ?n) (bk_client r ! j)"
    using len unfolding bss(2) l_def by simp
  have cut: "bk_wires r ! (order ! j) = concat bss @ drop l (bk_wires r ! (order ! j))"
    unfolding bss(2) by simp
  have "taken_at img ?n (order ! j) (bk_client r ! j) @ concat bss @ drop l (bk_wires r ! (order ! j)) = sent_at img ?n (order ! j) Answered"
    using w unfolding bss(2) by simp
  then obtain st host' where c: "mt_client_dtoh (map Got bss) (int ?n) (bk_client r ! j) (bk_host r) = Inr (st, host', [])"
    by (rule take_one [OF set D(5) [OF jn] host ok j(2) bss(1) asks]) simp_all
  show ?thesis by (rule exI, rule back_take [OF j bss(1) cut asks c])
qed

lemma back_done:
  assumes set: "back_setting E bytes srv img order" and inv: "back_inv bytes srv p img order r" and left: "back_left r = 0"
  shows "bk_host r = img"
proof (rule nth_equalityI)
  show len: "length (bk_host r) = length img" using inv by (simp add: back_inv_def)
  let ?n = "length order"
  note D = back_settingD [OF set]
  have n: "0 < ?n" using D(2) by (simp add: mt_fits_def)
  fix x assume "x < length (bk_host r)"
  then have x: "x < length img" using len by simp
  obtain i where t: "i < ?n" "piece_off (length img) ?n i \<le> x" "x < piece_off (length img) ?n i + piece_len (length img) ?n i"
    using piece_cover [OF x n] by blast
  obtain j where j: "j < ?n" "order ! j = i" using D(7) [OF t(1)] by blast
  have "client_ok img ?n i (bk_host r) (bk_client r ! j)" "take_rank (bk_client r ! j) = 0"
    using inv j left by (auto simp: back_inv_def back_left_def)
  then have "blk (piece_off (length img) ?n i) (piece_len (length img) ?n i) (bk_host r) = piece img ?n i"
    by (cases "bk_client r ! j") (simp_all add: client_ok_def)
  moreover have "blk (piece_off (length img) ?n i) (piece_len (length img) ?n i) ys ! (x - piece_off (length img) ?n i) = ys ! x"
    if "length ys = length img" for ys :: "u8 list"
    using t(2,3) x that by (simp add: blk_def)
  ultimately show "bk_host r ! x = img ! x" using len by (metis piece_def)
qed

lemma back_run_exists:
  assumes "back_setting E bytes srv img order" and "back_inv bytes srv p img order r0"
  shows "k \<le> back_left r0 \<Longrightarrow> \<exists>r. (back_step E srv (int (length order)) order ^^ k) r0 r"
proof (induction k)
  case (Suc k)
  then obtain r where r: "(back_step E srv (int (length order)) order ^^ k) r0 r" by auto
  then have "back_inv bytes srv p img order r" "back_left r \<noteq> 0"
    using back_steps_keep [OF assms r] Suc.prems by auto
  with back_progress [OF assms(1)] r show ?case by (blast intro: relpowp_Suc_I)
qed auto

section \<open>Properties\<close>

text \<open>The start: all connections are open, nothing is copied or sent.\<close>

definition back_start :: "nat \<Rightarrow> u8 list \<Rightarrow> u8 list \<Rightarrow> 'd server \<Rightarrow> 'd back_run" where
  "back_start n mem host s = \<lparr>bk_server = replicate n Opened, bk_client = map Waiting [0..<n], bk_wires = replicate n [],
     bk_mem = mem, bk_host = host, bk_state = s\<rparr>"

lemma back_start_inv:
  assumes "back_setting E bytes srv img order" and "length mem = length img" and "length host = length img"
    and "image_at bytes p img s srv"
  shows "back_inv bytes srv p img order (back_start (length order) mem host s)"
    and "back_left (back_start (length order) mem host s) = 5 * length order"
  using assms back_settingD(5) [OF assms(1)]
  by (simp_all add: back_inv_def back_start_def back_left_def server_ok_def client_ok_def comp_def sum_list_triv sum_list_replicate)

text \<open>C13: A transfer from the device with several threads fills the buffer of the application with the memory of the
  device, whichever thread of the client is connected to which thread of the server, and however the threads of both
  sides are interleaved and the bytes cut: no thread gives up, some thread can go on until all have ended after five
  steps for each pair, and then the buffer holds the bytes of the device.
\<close>

theorem mt_back_delivers:
  assumes "back_setting E bytes srv img order" and "length mem = length img" and "length host = length img"
    and "image_at bytes p img s srv"
    and "(back_step E srv (int (length order)) order ^^ k) (back_start (length order) mem host s) r"
  shows "k \<le> 5 * length order \<and>
    (k < 5 * length order \<longrightarrow> (\<exists>r'. back_step E srv (int (length order)) order r r')) \<and>
    (k = 5 * length order \<longrightarrow> bk_host r = img)"
proof -
  have r: "back_inv bytes srv p img order r" "k + back_left r = 5 * length order"
    using back_steps_keep [OF assms(1) _ assms(5), of p] back_start_inv [OF assms(1-4)] by simp_all
  then show ?thesis using back_progress [OF assms(1) r(1)] back_done [OF assms(1) r(1)] by auto
qed

definition back_env :: "(u64 \<Rightarrow> u8) env" where
  "back_env = plain_env\<lparr>cuda := (\<lambda>f args d. (0, case args of
     [Word64 p, Word64 l, _] \<Rightarrow> [Bytes (map (\<lambda>j. d (p + of_nat j)) [0..<unat l])] | _ \<Rightarrow> [], d))\<rparr>"

theorem mt_back_delivers_witness:
  "\<exists>r. (back_step back_env two_threads 2 [1, 0] ^^ 10)
      (back_start 2 [0, 0, 0, 0, 0] [9, 9, 9, 9, 9] (server_on (\<lambda>a. ucast a))) r \<and> bk_host r = [0, 1, 2, 3, 4]"
proof -
  let ?img = "[0, 1, 2, 3, 4 :: u8]" and ?s = "server_on (\<lambda>a. ucast a) :: (u64 \<Rightarrow> u8) server"
  have len: "length ?img = 5" "length [1, 0 :: nat] = 2" by simp_all
  have "readable_device back_env (\<lambda>d. d)"
  proof (unfold readable_device_def, intro allI impI)
    fix d :: "u64 \<Rightarrow> u8" and p :: u64 and l :: nat assume "l < 2 ^ 63"
    then have "unat (of_nat l :: u64) = l" by (intro unat_small) simp
    then show "\<exists>d'. cuda back_env ''cudaMemcpy'' [Word64 p, Word64 (of_nat l), Int32 2] d =
        (0, [Bytes (map (\<lambda>j. d (p + of_nat j)) [0..<l])], d') \<and> d' = d"
      by (simp add: back_env_def)
  qed
  then have set: "back_setting back_env (\<lambda>d. d) two_threads ?img [1, 0]"
    unfolding back_setting_def len by (auto simp: mt_fits_def two_threads_def)
  have at: "image_at (\<lambda>d. d) 4096 ?img ?s two_threads"
    unfolding image_at_def len
  proof (intro conjI allI impI)
    fix x :: nat assume "x < 5"
    then consider "x = 0" | "x = 1" | "x = 2" | "x = 3" | "x = 4" by linarith
    then show "gpu ?s (4096 + of_nat x) = ?img ! x" by cases (simp_all add: server_on_def)
  qed (simp add: server_on_def fresh_mg_def resource_mg_get_def resource_mg_search_map_def two_threads_def)
  have l: "length [0, 0, 0, 0, 0 :: u8] = length ?img" "length [9, 9, 9, 9, 9 :: u8] = length ?img" by simp_all
  let ?r0 = "back_start 2 [0, 0, 0, 0, 0] [9, 9, 9, 9, 9] ?s"
  have r0: "back_inv (\<lambda>d. d) two_threads 4096 ?img [1, 0] ?r0" "10 \<le> back_left ?r0"
    using back_start_inv [OF set l at, unfolded len(2)] by simp_all
  obtain r where r: "(back_step back_env two_threads (int 2) [1, 0] ^^ 10) ?r0 r"
    using back_run_exists [OF set r0, unfolded len(2)] by blast
  then have "bk_host r = ?img" using mt_back_delivers [OF set l at, of 10 r, unfolded len(2)] by simp
  then show ?thesis using r by auto
qed

end
