(* ===== verification/Spec2Isabelle.thy ===== *)
theory Spec2Isabelle
  imports Decompress Gsched Restart Replay LaunchParams HandlerProps MtCopy ClientProps
    ProtocolTypes CudnnProps ServerMain StartProps ClientLibProps WrapperProps ClientBlas Hidden
    GpuProps GpuStack GpuAttr IbProps IbServer MtBack
begin

text \<open>
  A verification development for RRTO, a server that executes the CUDA calls of a remote
  application (\<open>src/RRTO/cpu\<close>), and a tool on top of gdb that checkpoints and restores a running kernel
  (\<open>src/RRTO/gpu\<close>). The client library replaces the CUDA libraries and forwards every
  call by RPC; the server translates the handles in the call, issues it, and appends a record of
  it to a log, from which a checkpoint can be written and a new server be brought to the same
  state. Inputs and kernel launches of an iterating application are remembered and replayed.

  \<^bold>\<open>How the code is modelled.\<close> The global variables of the server are the record \<open>server\<close>
  (theory \<open>Server\<close>); a function of the code is a function from this state to its result and the
  new state, or to a fault. \<open>fault\<close> (\<open>Prelude\<close>) names what C leaves undefined: a read or write
  outside a block, a NULL dereference, a read of uninitialised memory, a use after free, the release of memory
  that is not on the heap, a division by zero, a shift by too much; \<open>No_Fuel\<close> is a loop that has not ended. A heap block is a list of bytes or cells, a pointer into it an index.
  \<open>size_t\<close> values are naturals with the wrap-around written out (\<open>wrap64\<close>), other integers are
  words. The environment \<open>env\<close> (\<open>ApiRecorder\<close>) is what the code cannot decide: which
  allocations succeed, the contents of fresh memory and uninitialised variables, and the CUDA
  libraries as a function on the state of the device. The RPC dispatcher that a restore calls
  is generated code and a parameter. Logging is left out. The application's process is the record
  \<open>client\<close> (theory \<open>Client\<close>), with the server it talks to and what the network does with each request;
  a stub of the generated code runs the handler of the server. The state of the tool is the record \<open>tool\<close>
  (theory \<open>GpuFile\<close>), the device behind the debugger and the disk; what gdb and the library for object files know
  of the program is the record \<open>gdb\<close> (theory \<open>GpuElf\<close>), and the calls of the debugger interface are calls of the
  environment.

  \<^bold>\<open>Theories, in the order of the calls.\<close>
  \<^item> \<open>Prelude\<close>: results with faults, little-endian bytes, blocks, decimal and hexadecimal text.
  \<^item> \<open>CList\<close> (\<open>list.c\<close>): the growing array. Contract as the locale \<open>seq_store\<close>, interpreted on the
    C list; any sequence of operations behaves as on a mathematical list.
  \<^item> \<open>ResourceMg\<close> (\<open>resource-mg.c\<close>): the translation of client handles. Contract as the locale
    \<open>handle_map\<close>, interpreted on the sorted map with its two binary searches.
  \<^item> \<open>ApiRecorder\<close> (\<open>api-recorder.c\<close>, \<open>api-recorder.h\<close>): the log and the macros that write it.
  \<^item> \<open>CrFile\<close>, \<open>CrRestore\<close>, \<open>CrMemory\<close> (\<open>cr.c\<close>): the checkpoint file, the restore of each kind
    of resource, the repetition of the last launch, and the dump of the device memory.
  \<^item> \<open>Decompress\<close>, \<open>KernelInfo\<close> (\<open>cpu-elf2.c\<close>, \<open>cpu-utils.c\<close>): the decompressor of fat binaries
    and the parser of the kernels' attribute sections.
  \<^item> \<open>Handlers\<close>: the vocabulary of the request handlers (recording, translated arguments, calls,
    replies), with the proof rules for what a handler does to the log (\<open>log_intros\<close>).
  \<^item> \<open>RuntimeDevice\<close>, \<open>RuntimeMemory\<close>, \<open>RuntimeCopy\<close>, \<open>RuntimeLaunch\<close>, \<open>ServerRuntime\<close>
    (\<open>cpu-server-runtime.c\<close>, \<open>mt-memcpy.c\<close>): the handlers of the runtime API, start, end and
    checkpoint of the server.
  \<^item> \<open>Gsched\<close> (\<open>gsched_none.c\<close>), \<open>ServerBlas\<close> (\<open>cpu-server-cublas.c\<close>, \<open>cpu-server-cusolver.c\<close>),
    \<open>ServerDriver\<close> (\<open>cpu-server-driver.c\<close>), \<open>ServerCudnn\<close> (\<open>cpu-server-cudnn.c\<close>), \<open>ServerLt\<close>
    (\<open>cpu-server-cublaslt.c\<close>, \<open>cpu-server-nvml.c\<close>): the scheduler and the other handlers.
  \<^item> \<open>ServerMain\<close> (\<open>cpu-server.c\<close>): the process, that is start and restart of the services, the requests that
    concern the server as such, and the clean up in the order of the labels of \<open>RRTO_main\<close>.
  \<^item> \<open>ProtocolTypes\<close> (\<open>cpu_rpc_prot.x\<close>): the result type the protocol declares for each procedure, and that the
    replies of the handlers are of it.
  \<^item> \<open>Oob\<close> (\<open>oob.c\<close>), \<open>MtCopy\<close>, \<open>MtBack\<close> (\<open>mt-memcpy.c\<close>): the loops over a socket, and the threads of
    both sides of a transfer to and from the device, as step relations.
  \<^item> \<open>Ib\<close> (\<open>cpu-ib.c\<close>), \<open>IbServer\<close> (\<open>cpu-server-runtime.c\<close>): transfers over InfiniBand, and the handlers that
    differ in a server with InfiniBand. \<open>IbProps\<close> has the rules for calls that succeed and the properties.
  \<^item> \<open>Client\<close>, \<open>ClientCopy\<close>, \<open>ClientRuntime\<close> (\<open>cpu-client-runtime.c\<close>, \<open>cpu-client.c\<close>): the client library.
    \<open>ClientRuns\<close> has the relation \<open>client_ran\<close> of all its calls, \<open>ClientForwards\<close> and \<open>ClientProps\<close> the
    properties of client and server together.
  \<^item> \<open>ClientLib\<close>, \<open>ClientDriver\<close>, \<open>ClientDnn\<close>, \<open>ClientBlas\<close>: the functions of the client library for the driver
    API (\<open>cpu-client-driver.c\<close>), cuDNN (\<open>cpu-client-cudnn.c\<close>), and cuBLAS, cuBLASLt, cuSOLVER and NVML
    (\<open>cpu-client-cublas.c\<close>, \<open>cpu-client-cublaslt.c\<close>, \<open>cpu-client-cusolver.c\<close>, \<open>cpu-client-nvml.c\<close>), each the call
    of a handler and what the code makes of the reply. \<open>Hidden\<close> (\<open>cpu-client-driver-hidden.c\<close>,
    \<open>cpu-server-driver-hidden.c\<close>): the driver functions without a name, and the contexts the client makes up.
  \<^item> \<open>CuObjdump\<close> (\<open>cpu-utils.c\<close>), \<open>Fatbin\<close> (\<open>cpu-elf2.c\<close>): the two ways the client learns about kernels, the text
    output of a tool, read by a state machine, and the headers and sections of a fat binary.
    \<open>TextParser\<close> relates the first to the parser of attribute sections in \<open>KernelInfo\<close>.
  \<^item> \<open>ClientStart\<close> (\<open>cpu-client.c\<close>): the process of the application, with the connection, the start and end of
    the library, the hooks on \<open>dlopen\<close> and \<open>dlclose\<close>, and the registration of binaries. \<open>Libwrap\<close>
    (\<open>cpu-libwrap.h\<close>, \<open>cpu-libwrap.c\<close>) is the macro for functions that are not forwarded and what such a
    function does; \<open>WrapperTables\<close> lists every invocation of it in the client library, in the order of the
    files.
  \<^item> \<open>StartProps\<close>, \<open>ClientLibProps\<close>, \<open>WrapperProps\<close>: properties of these parts.
  \<^item> \<open>Requests\<close>: the requests a client can send and the step relation \<open>served\<close>; \<open>Runs\<close>, \<open>Restart\<close>,
    \<open>Replay\<close>: properties of whole runs; \<open>LaunchParams\<close>, \<open>HandlerProps\<close>, \<open>CudnnProps\<close>: of single handlers.
  \<^item> \<open>GpuFile\<close> (\<open>cricket-file.c\<close>): the files of a kernel's checkpoint. \<open>GpuDevice\<close> (\<open>cricket-device.c\<close>,
    \<open>cricket-register.c\<close>, \<open>cricket-stack.c\<close>, \<open>cricket-heap.c\<close>): the device, registers and local memory, with the
    documented behaviour of the debugger interface for one lane (\<open>lane_debugger\<close>).
  \<^item> \<open>GpuElf\<close>, \<open>GpuSass\<close> (\<open>cricket-elf.c\<close>): the attributes and global variables of a program; its instructions,
    and the patch that puts a jump table into the room of the breakpoints a kernel has been compiled with.
  \<^item> \<open>GpuCr\<close> (\<open>cricket-cr.c\<close>): the checkpoint and restore of lanes, call stacks, parameters, shared memory and
    global variables. \<open>GpuMain\<close> (\<open>gpu/src/main.c\<close>): the commands of the tool.
  \<^item> \<open>GpuTable\<close>, \<open>GpuProps\<close>, \<open>GpuStack\<close>, \<open>GpuAttr\<close>: the layout of the jump table; properties of these parts.

  \<^bold>\<open>What is shown.\<close>
  \<^item> Checkpoint and restart: the log of a run of resource creating calls is restored by a new
    process that translates the client's pointers; with a memory dump the contents of the device
    memory are the same behind every pointer. The files are read back as written. A record of
    any kind that cannot be restored, at any position of the log, ends the restore with success; which logs
    it cannot restore.
  \<^item> The log: in every run it only grows, by complete records that can be written and read.
  \<^item> A failed call of a descriptor handler is logged all the same; replies of cuDNN that are written past their
    buffer; what a restart loses.
  \<^item> The list and the manager refine a mathematical list and a finite map, in which an address that is entered
    again is overwritten.
  \<^item> Launches: client and server agree on the layout of the parameters, and pointers among them are
    translated by the table of device memory; a parameter with less than eight bytes behind its start runs over the buffer.
  \<^item> Replay (the locales \<open>kept_base\<close> and \<open>kept\<close>, interpreted for the invariant of the counters, for the number of
    iterations and, in \<open>IbServer\<close>, for the entry of an allocation): an invariant of the counters, with a bound by the number
    of requests; what a launch request does in which iteration, and that the inputs of later iterations go to the
    addresses of the first. The hundred and first input of an iteration is written behind the array.
  \<^item> Client and server together: each of 23 functions behaves as the library call of its name on the server's device
    (which others do not is stated by lemmas of \<open>ClientForwards\<close>),
    a buffer comes back as it was sent, a launch is issued in the first iteration only, remembered
    results never change, and which copies the two sides count differently.
  \<^item> The rest of the client library: a kernel that has been registered is found by a launch, and
    translated; the two parsers of kernel attributes agree, for every text the formats of the source accept; the walk
    over a fat binary reads the kernels of its sections in order, and may not end when the lengths in a header are 0;
    functions that always lose their result or fail because they succeed; made up contexts are translated back. Which
    invocations of the macro for functions that are not forwarded define nothing.
  \<^item> Transfers with several threads deliver the buffer under every interleaving, and never get
    stuck, in both directions; what errors of the socket and wrong piece numbers do.
  \<^item> InfiniBand: two processes agree on their queue pairs and buffers, whatever descriptors their sockets have and
    however the data are cut, and a failed exchange is not noticed; a buffer has room for the mark behind the data; the
    first allocation of a server is refused for every copy until it is released, whatever is served in between.
  \<^item> The decompressor ends on every input, inverts an encoding, and can be made to write outside its
    output; the kernel table a scan leaves is complete and without duplicates.
  \<^item> The checkpoint of a kernel: registers, predicates and stack of a lane, and the call stack of a warp, come
    back as they were. The jump table fits its block, leaves the control words where the device expects them, its
    entries are decoded to their targets, and it stays within the breakpoints if there is room for one instruction more than
    the code asks for. The server and the tool read the parameters of a kernel alike. Which global variables cannot be
    checkpointed.

  \<^bold>\<open>Bounds and fuel.\<close> Fuel is the length of the searched list plus one (\<open>search_loop\<close>), the rest of
  the input (\<open>decompress_loop\<close>) and the length of the checkpoint file plus two
  (\<open>cr_restore_loop\<close>), and the number of sections of a fat binary (\<open>fatbin_loop\<close>, when every section has a
  header): every pass consumes one of these. The theorems state termination as a result
  other than \<open>No_Fuel\<close>. The loops of the tool that wait for the device (\<open>ssy_scan\<close>, \<open>step_to\<close>, \<open>write_until\<close>,
  \<open>wait_broken\<close>, \<open>wait_all_broken\<close>) end only if the device answers; they take fuel as an argument, and so do the loops over the
  network of \<open>Ib\<close> (\<open>connect_loop\<close>, \<open>recv_all\<close>, \<open>send_all\<close>, \<open>poll_cq\<close>, \<open>msg_send_loop\<close>). \<open>glibc\<close> bounds allocations by half of the address space, as the C library
  does.

  \<^bold>\<open>Not modelled.\<close> Code generated by rpcgen, libtirpc and the gdb and bfd headers are third-party
  code, and so is \<open>gpu/src/gdb.c\<close>, the start of gdb with small changes. The results of sockets, of \<open>dlopen\<close> and of
  other processes are calls of the environment. The handlers of the driver functions without a name are
  not in the repository and are parameters. The delivery of signals, the branches of the client
  library with InfiniBand, the set up of sockets (\<open>oob.c\<close>), the search for symbols in the running program, messages
  and the measurement of time are left out.
\<close>

end
